(* ===== verification/Prelude.thy ===== *)
theory Prelude
  imports Main "HOL-Library.Word"
begin

text \<open>
  Shared ground of the development: the machine types of the C sources, the C shift operators,
  error numbers, the bit string of a byte sequence and the generic lemmas on words and lists
  that the component theories use.

  The box is a 32-bit SH-4: \<open>int\<close>, \<open>unsigned int\<close> and pointers have 32 bits,
  \<open>unsigned long long\<close> 64. A C \<open>unsigned\<close> value is a word; a C \<open>int\<close> that only
  carries a count, an index or a return code is an \<open>int\<close> or \<open>nat\<close>.
\<close>

unbundle bit_operations_syntax

type_synonym byte = "8 word"
type_synonym u32 = "32 word"
type_synonym u64 = "64 word"
type_synonym bytes = "byte list"

named_theorems writer_simps \<open>what the stream writers emit, branch by branch\<close>
named_theorems avs_simps \<open>register level effect of the audio/video switch operations\<close>
named_theorems mgr_simps \<open>effect of the track manager operations\<close>

subsection \<open>C operators and constants\<close>

text \<open>
  A shift by 32 or more is undefined in C. The SH-4's \<open>shld\<close> takes the count modulo 32, and
  that is what these two operators do; the lemmas below only ever need counts below 32 or a
  zero operand, where every implementation agrees.
\<close>

definition c_shl :: "u32 \<Rightarrow> nat \<Rightarrow> u32" where
  "c_shl x n = push_bit (n mod 32) x"

definition c_shr :: "u32 \<Rightarrow> nat \<Rightarrow> u32" where
  "c_shr x n = drop_bit (n mod 32) x"

definition EIO :: int where "EIO = 5"
definition ENOMEM :: int where "ENOMEM = 12"
definition EFAULT :: int where "EFAULT = 14"
definition ENODEV :: int where "ENODEV = 19"
definition EINVAL :: int where "EINVAL = 22"
definition EUSERS :: int where "EUSERS = 87"
definition EOPNOTSUPP :: int where "EOPNOTSUPP = 95"
definition ETIMEDOUT :: int where "ETIMEDOUT = 110"
definition ERESTARTSYS :: int where "ERESTARTSYS = 512"

lemmas errno_defs = EIO_def ENOMEM_def EFAULT_def ENODEV_def EINVAL_def

subsection \<open>Bit strings\<close>

text \<open>Most significant bit first, the order in which MPEG syntax tables list their fields.\<close>

definition bits_of :: "nat \<Rightarrow> 'a::len word \<Rightarrow> bool list" where
  "bits_of n w = map (bit w) (rev [0..<n])"

definition bytes_bits :: "bytes \<Rightarrow> bool list" where
  "bytes_bits bs = concat (map (bits_of 8) bs)"

definition bits_val :: "bool list \<Rightarrow> nat" where
  "bits_val bs = horner_sum of_bool 2 (rev bs)"

text \<open>Reading a sequence of unsigned fields of the given widths.\<close>

fun read_fields :: "nat list \<Rightarrow> bool list \<Rightarrow> nat list option" where
  "read_fields [] bs = Some []"
| "read_fields (n # ns) bs =
     (if n \<le> length bs
      then map_option ((#) (bits_val (take n bs))) (read_fields ns (drop n bs)) else None)"

text \<open>Cutting a byte sequence into pieces of at most \<open>n\<close> bytes.\<close>

function chunks :: "nat \<Rightarrow> 'a list \<Rightarrow> 'a list list" where
  "chunks n xs = (if n = 0 \<or> xs = [] then [] else take n xs # chunks n (drop n xs))"
  by pat_completeness auto
termination
  by (relation "measure (\<lambda>(n, xs). length xs)") auto

declare chunks.simps [simp del]

text \<open>The full pieces of length \<open>n\<close> and what is left over.\<close>

function full_chunks :: "nat \<Rightarrow> 'a list \<Rightarrow> 'a list list \<times> 'a list" where
  "full_chunks n xs =
     (if n = 0 \<or> length xs < n then ([], xs)
      else (take n xs # fst (full_chunks n (drop n xs)), snd (full_chunks n (drop n xs))))"
  by pat_completeness auto
termination
  by (relation "measure (\<lambda>(n, xs). length xs)") auto

declare full_chunks.simps [simp del]

subsection \<open>Lemmas on shifts and words\<close>

lemma c_shl_small [simp]: "n < 32 \<Longrightarrow> c_shl x n = push_bit n x"
  by (simp add: c_shl_def)

lemma c_shr_small [simp]: "n < 32 \<Longrightarrow> c_shr x n = drop_bit n x"
  by (simp add: c_shr_def)

lemma c_shl_zero [simp]: "c_shl 0 n = 0"
  by (simp add: c_shl_def)

lemma unat_eq_iff: "(v::'a::len word) = w \<longleftrightarrow> unat v = unat w"
  by (rule word_eq_iff_unsigned)

lemma unat_byte_less: "unat (b::byte) < 256"
  using unsigned_less [of b, where 'a = nat] by simp

lemma unat_u32_less: "unat (w::u32) < 4294967296"
  using unsigned_less [of w, where 'a = nat] by simp

lemma bit_byte_high [simp]: "8 \<le> n \<Longrightarrow> \<not> bit (b::byte) n"
  by (auto dest: bit_imp_le_length)

lemma word_high_bits: "unat (w :: u32) < 2 ^ n \<Longrightarrow> n \<le> i \<Longrightarrow> \<not> bit w i"
  by (metis bit_take_bit_iff linorder_not_less take_bit_nat_eq_self_iff unsigned_take_bit_eq
      word_eq_iff_unsigned)

lemma and_masks:
  "(w::'a::len word) AND 0x7 = take_bit 3 w"
  "w AND 0xff = take_bit 8 w"
  "w AND 0x7fff = take_bit 15 w"
  by (simp_all add: take_bit_eq_mask mask_numeral)

lemma unat_take_bit_less: "unat (take_bit n (w::'a::len word)) < 2 ^ n"
  by (metis take_bit_nat_less_exp unsigned_take_bit_eq)

lemma unat_ucast_take_bit_less: "unat (ucast (take_bit n (w::'a::len word)) :: 'b::len word) < 2 ^ n"
  by (metis le_less_trans take_bit_nat_less_eq_self unat_take_bit_less unsigned_ucast_eq)

lemma unat_ucast_take_bit:
  "n \<le> LENGTH('b::len) \<Longrightarrow>
   unat (ucast (take_bit n (w::'a::len word)) :: 'b word) = take_bit n (unat w)"
  by (simp add: unsigned_ucast_eq unsigned_take_bit_eq)

lemma unat_ucast_byte: "unat (ucast (b::byte) :: u32) = unat b"
  using unat_byte_less [of b] by (simp add: unsigned_ucast_eq take_bit_eq_mod)

lemma unat_byte_pair:
  "unat (push_bit 8 (ucast (a::byte)) OR ucast (b::byte) :: u32) = unat a * 256 + unat b"
proof -
  have "push_bit 8 (ucast a) OR ucast b = (push_bit 8 (ucast a) + ucast b :: u32)"
    by (rule disjunctive_add [symmetric]) (auto simp: bit_simps)
  moreover have "unat (push_bit 8 (ucast a) :: u32) = unat a * 256"
    using unat_byte_less [of a] by (simp add: push_bit_eq_mult unat_word_ariths unat_ucast_byte)
  ultimately show ?thesis
    using unat_byte_less [of a] unat_byte_less [of b]
    by (simp add: unat_word_ariths unat_ucast_byte)
qed

lemma unat_of_nat_small: "n < 4294967296 \<Longrightarrow> unat (of_nat n :: u32) = n"
  by (simp add: unsigned_of_nat take_bit_nat_eq_self)

lemma unat_add_small: "unat (a::u32) + unat b < 4294967296 \<Longrightarrow> unat (a + b) = unat a + unat b"
  by (simp add: unat_word_ariths)

lemma sint_small: "unat (w::u32) < 2147483648 \<Longrightarrow> sint w = int (unat w)"
proof -
  assume "unat w < 2147483648"
  then have "- 2147483648 \<le> uint w \<and> uint w < 2147483648"
    unfolding uint_nat by linarith
  then show ?thesis by (simp add: sint_uint signed_take_bit_int_eq_self_iff)
qed

lemma unat_pos: "(w::'a::len word) \<noteq> 0 \<longleftrightarrow> 0 < unat w"
  by (simp add: unat_eq_iff)

subsection \<open>Lemmas on bit strings\<close>

lemma length_bits_of [simp]: "length (bits_of n w) = n"
  by (simp add: bits_of_def)

lemma bits_of_0 [simp]: "bits_of 0 w = []"
  by (simp add: bits_of_def)

lemma bits_of_Suc: "bits_of (Suc n) w = bit w n # bits_of n w"
  by (simp add: bits_of_def)

lemma bits_of_numeral:
  "bits_of (numeral k) w = bit w (pred_numeral k) # bits_of (pred_numeral k) w"
  by (simp add: numeral_eq_Suc bits_of_Suc)

lemma nth_bits_of: "i < n \<Longrightarrow> bits_of n w ! i = bit w (n - 1 - i)"
  by (simp add: bits_of_def rev_nth)

lemma bits_of_eqI:
  assumes "\<And>i. i < n \<Longrightarrow> bit v i = bit w i"
  shows "bits_of n v = bits_of n w"
  using assms by (simp add: bits_of_def)

lemma bits_of_append:
  "bits_of (m + n) w = bits_of m (drop_bit n w) @ bits_of n w"
  by (induction m) (simp_all add: bits_of_Suc bit_simps add.commute)

lemma bits_of_byte: "bits_of 8 (ucast (w::u32) :: byte) = bits_of 8 w"
  by (simp add: bits_of_def bit_simps)

lemma word_bytes_bits:
  "bits_of 8 (ucast (drop_bit 24 (w::u32)) :: byte) @ bits_of 8 (ucast (drop_bit 16 w) :: byte)
   @ bits_of 8 (ucast (drop_bit 8 w) :: byte) @ bits_of 8 (ucast w :: byte) = bits_of 32 w"
  using bits_of_append [of 24 8 w] bits_of_append [of 16 8 "drop_bit 8 w"]
    bits_of_append [of 8 8 "drop_bit 16 w"]
  by (simp add: bits_of_byte)

lemma bits_of_inj:
  assumes "bits_of 8 (a::byte) = bits_of 8 b"
  shows "a = b"
proof (rule bit_word_eqI)
  fix n assume "n < LENGTH(8)"
  with assms show "bit a n = bit b n" by (auto simp: bits_of_def)
qed

lemma bytes_bits_simps [simp]:
  "bytes_bits [] = []"
  "bytes_bits (b # bs) = bits_of 8 b @ bytes_bits bs"
  "bytes_bits (xs @ ys) = bytes_bits xs @ bytes_bits ys"
  by (simp_all add: bytes_bits_def)

lemma length_bytes_bits [simp]: "length (bytes_bits bs) = 8 * length bs"
  by (induction bs) simp_all

lemma bytes_bits_take: "bytes_bits (take n xs) = take (8 * n) (bytes_bits xs)"
  by (induction xs arbitrary: n) (auto simp: take_Cons split: nat.split)

lemma bytes_bits_drop: "bytes_bits (drop n xs) = drop (8 * n) (bytes_bits xs)"
  by (induction xs arbitrary: n) (auto simp: drop_Cons split: nat.split)

lemma bytes_bits_inj: "bytes_bits xs = bytes_bits ys \<Longrightarrow> xs = ys"
proof (induction xs arbitrary: ys)
  case Nil
  then show ?case by (cases ys) (auto simp: bits_of_def)
next
  case (Cons x xs)
  then obtain y ys' where ys: "ys = y # ys'" by (cases ys) (auto simp: bits_of_def)
  with Cons.prems have "bits_of 8 x = bits_of 8 y \<and> bytes_bits xs = bytes_bits ys'"
    by simp
  with Cons.IH ys show ?case by (auto dest: bits_of_inj)
qed

lemma bits_val_bits_of: "bits_val (bits_of n w) = unat (take_bit n w)"
proof -
  have r: "rev (bits_of n w) = map (bit w) [0..<n]"
    by (simp add: bits_of_def rev_map)
  have m: "map (bit w) [0..<n] = map (bit (take_bit n (unat w))) [0..<n]"
    by (rule map_cong) (auto simp: bit_simps unsigned_take_bit_eq)
  have "bits_val (bits_of n w) = horner_sum of_bool 2 (map (bit (take_bit n (unat w))) [0..<n])"
    unfolding bits_val_def r m ..
  also have "\<dots> = take_bit n (unat w)"
    by (simp add: horner_sum_bit_eq_take_bit)
  finally show ?thesis by (simp add: unsigned_take_bit_eq)
qed

lemma read_fields_step:
  "read_fields (n # ns) (bits_of n w @ bs) =
     map_option ((#) (unat (take_bit n w))) (read_fields ns bs)"
  by (simp add: bits_val_bits_of)

lemma bits_val_append: "bits_val (xs @ ys) = bits_val xs * 2 ^ length ys + bits_val ys"
  by (induction xs) (simp_all add: bits_val_def horner_sum_append algebra_simps)

lemma read_fields_Some:
  "sum_list ns \<le> length bs \<Longrightarrow> \<exists>fs. read_fields ns bs = Some fs \<and> length fs = length ns"
proof (induction ns arbitrary: bs)
  case (Cons n ns)
  then have "n \<le> length bs" "sum_list ns \<le> length (drop n bs)" by auto
  with Cons.IH [of "drop n bs"] show ?case by auto
qed simp

lemma read_fields_append:
  "sum_list ms = length xs \<Longrightarrow> read_fields ms xs = Some fs \<Longrightarrow>
   read_fields (ms @ ns) (xs @ ys) = map_option ((@) fs) (read_fields ns ys)"
proof (induction ms arbitrary: xs fs)
  case Nil
  then show ?case by (simp add: option.map_ident)
next
  case (Cons m ms)
  then obtain gs where gs: "read_fields ms (drop m xs) = Some gs" "fs = bits_val (take m xs) # gs" "m \<le> length xs"
    by (auto split: if_splits)
  with Cons.IH [of "drop m xs" gs] Cons.prems(1) show ?case
    by (simp add: option.map_comp o_def)
qed

subsection \<open>Lemmas on chunks\<close>

lemma chunks_Nil [simp]: "chunks n [] = []"
  by (simp add: chunks.simps)

lemma chunks_step: "0 < n \<Longrightarrow> xs \<noteq> [] \<Longrightarrow> chunks n xs = take n xs # chunks n (drop n xs)"
  by (subst chunks.simps) simp

lemma concat_chunks: "0 < n \<Longrightarrow> concat (chunks n xs) = xs"
  by (induction n xs rule: chunks.induct) (subst chunks.simps, auto)

lemma length_chunks: "c \<in> set (chunks n xs) \<Longrightarrow> 0 < length c \<and> length c \<le> n"
proof (induction n xs rule: chunks.induct)
  case (1 n xs)
  then show ?case
    by (cases "n = 0 \<or> xs = []") (auto simp: chunks.simps [of n xs])
qed

lemma full_chunks_short [simp]: "length xs < n \<Longrightarrow> full_chunks n xs = ([], xs)"
  by (simp add: full_chunks.simps)

lemma full_chunks_step:
  "0 < n \<Longrightarrow> n \<le> length xs \<Longrightarrow>
   full_chunks n xs = (take n xs # fst (full_chunks n (drop n xs)), snd (full_chunks n (drop n xs)))"
  by (subst full_chunks.simps) simp

lemma concat_full_chunks: "concat (fst (full_chunks n xs)) @ snd (full_chunks n xs) = xs"
  by (induction n xs rule: full_chunks.induct) (subst (1 2) full_chunks.simps, auto)

lemma length_full_chunks: "c \<in> set (fst (full_chunks n xs)) \<Longrightarrow> length c = n"
  by (induction n xs rule: full_chunks.induct)
     (subst (asm) full_chunks.simps, auto split: if_splits)

lemma length_full_rest: "0 < n \<Longrightarrow> length (snd (full_chunks n xs)) < n"
  by (induction n xs rule: full_chunks.induct) (subst full_chunks.simps, auto)

text \<open>Bytes are equal when their bits are.\<close>

lemma byte_eq_iff: "(a::byte) = b \<longleftrightarrow> bit a 0 = bit b 0 \<and> bit a 1 = bit b 1 \<and> bit a 2 = bit b 2 \<and> bit a 3 = bit b 3 \<and>
   bit a 4 = bit b 4 \<and> bit a 5 = bit b 5 \<and> bit a 6 = bit b 6 \<and> bit a 7 = bit b 7"
proof
  assume *: "bit a 0 = bit b 0 \<and> bit a 1 = bit b 1 \<and> bit a 2 = bit b 2 \<and> bit a 3 = bit b 3 \<and>
   bit a 4 = bit b 4 \<and> bit a 5 = bit b 5 \<and> bit a 6 = bit b 6 \<and> bit a 7 = bit b 7"
  show "a = b"
  proof (rule bit_word_eqI)
    fix n assume "n < LENGTH(8)"
    then have "n = 0 \<or> n = 1 \<or> n = 2 \<or> n = 3 \<or> n = 4 \<or> n = 5 \<or> n = 6 \<or> n = 7" by auto
    then show "bit a n = bit b n" using * by auto
  qed
qed simp

end
