(* ===== verification/Bit_Packer.thy ===== *)
theory Bit_Packer
  imports Prelude
begin

text \<open>
  The bit packer of libeplayer3, \<open>output/writer/misc.c\<close>: \<open>PutBits\<close> appends a field of up
  to 32 bits to a 32-bit shift register and stores the register to memory whenever it is full,
  \<open>FlushBits\<close> stores what is left, padded to a byte. The abstract view of a packer is the bit
  string it has been given so far (\<open>packed\<close>); the locale \<open>bit_writer\<close> states what a
  client such as the PES header code may rely on, and the packer is shown to provide it.
\<close>

subsection \<open>The code\<close>

text \<open>
  \<open>Ptr\<close> is the memory written so far: the C pointer is its base address plus its length.
  \<open>Remaining\<close> is a C \<open>int\<close> that stays between 1 and 32 (\<open>packer_ok\<close>), and no caller
  passes a length above 32, so natural numbers carry both.
\<close>

record BitPacker_t =
  Ptr :: bytes
  BitBuffer :: u32
  Remaining :: nat

definition PutBits :: "BitPacker_t \<Rightarrow> u32 \<Rightarrow> nat \<Rightarrow> BitPacker_t" where
  "PutBits ld code len =
     (let bit_buf = BitBuffer ld;
          bit_left = Remaining ld
      in if len < bit_left then
           ld\<lparr>BitBuffer := c_shl bit_buf len OR code, Remaining := bit_left - len\<rparr>
         else
           (let bit_buf = c_shl bit_buf bit_left;
                bit_buf = bit_buf OR c_shr code (len - bit_left);
                out = [ucast (drop_bit 24 bit_buf), ucast (drop_bit 16 bit_buf),
                       ucast (drop_bit 8 bit_buf), ucast bit_buf];
                len = len - bit_left;
                bit_buf = code AND (c_shl 1 len - 1);
                bit_left = 32 - len;
                bit_buf = code
            in ld\<lparr>Ptr := Ptr ld @ out, BitBuffer := bit_buf, Remaining := bit_left\<rparr>))"

function FlushBits_loop :: "BitPacker_t \<Rightarrow> BitPacker_t" where
  "FlushBits_loop ld =
     (if Remaining ld < 32
      then FlushBits_loop
             (ld\<lparr>Ptr := Ptr ld @ [ucast (drop_bit 24 (BitBuffer ld))],
                 BitBuffer := push_bit 8 (BitBuffer ld),
                 Remaining := Remaining ld + 8\<rparr>)
      else ld)"
  by pat_completeness auto
termination
  by (relation "measure (\<lambda>ld. 32 - Remaining ld)") auto

declare FlushBits_loop.simps [simp del]

definition FlushBits :: "BitPacker_t \<Rightarrow> BitPacker_t" where
  "FlushBits ld =
     (let ld = ld\<lparr>BitBuffer := c_shl (BitBuffer ld) (Remaining ld)\<rparr>;
          ld = FlushBits_loop ld
      in ld\<lparr>Remaining := 32, BitBuffer := 0\<rparr>)"

text \<open>The initialiser every caller writes: \<open>BitPacker_t ld = {data, 0, 32}\<close>.\<close>

definition new_packer :: BitPacker_t where
  "new_packer = \<lparr>Ptr = [], BitBuffer = 0, Remaining = 32\<rparr>"

subsection \<open>Abstract view\<close>

definition packer_ok :: "BitPacker_t \<Rightarrow> bool" where
  "packer_ok ld \<longleftrightarrow> 1 \<le> Remaining ld \<and> Remaining ld \<le> 32"

definition packed :: "BitPacker_t \<Rightarrow> bool list" where
  "packed ld = bytes_bits (Ptr ld) @ bits_of (32 - Remaining ld) (BitBuffer ld)"

text \<open>
  When \<open>PutBits\<close> appends exactly the low \<open>len\<close> bits of the code: the code must fit its field
  unless the field opens a fresh register (then the excess bits are shifted out before the
  register is stored), and a full 32-bit field at a register boundary needs a clean register.
\<close>

definition field_ok :: "BitPacker_t \<Rightarrow> u32 \<Rightarrow> nat \<Rightarrow> bool" where
  "field_ok ld code len \<longleftrightarrow>
     len \<le> 32 \<and> (Remaining ld = 32 \<or> unat code < 2 ^ len) \<and>
     (Remaining ld = 32 \<and> len = 32 \<longrightarrow> BitBuffer ld = 0)"

definition small_field :: "u32 \<times> nat \<Rightarrow> bool" where
  "small_field f \<longleftrightarrow> snd f < 32 \<and> unat (fst f) < 2 ^ snd f"

definition fields_bits :: "(u32 \<times> nat) list \<Rightarrow> bool list" where
  "fields_bits fs = concat (map (\<lambda>(code, len). bits_of len code) fs)"

definition put_all :: "('s \<Rightarrow> u32 \<Rightarrow> nat \<Rightarrow> 's) \<Rightarrow> 's \<Rightarrow> (u32 \<times> nat) list \<Rightarrow> 's" where
  "put_all put s fs = foldl (\<lambda>s (code, len). put s code len) s fs"

definition flush_count :: "nat \<Rightarrow> nat" where
  "flush_count r = (39 - r) div 8"

subsection \<open>Fields\<close>

lemma put_all_simps [simp]:
  "put_all put s [] = s"
  "put_all put s ((c, n) # fs) = put_all put (put s c n) fs"
  "put_all put s (fs @ gs) = put_all put (put_all put s fs) gs"
  by (simp_all add: put_all_def)

lemma fields_bits_simps [simp]:
  "fields_bits [] = []"
  "fields_bits ((c, n) # fs) = bits_of n c @ fields_bits fs"
  "fields_bits (fs @ gs) = fields_bits fs @ fields_bits gs"
  by (simp_all add: fields_bits_def)

lemma length_fields_bits: "length (fields_bits fs) = sum_list (map snd fs)"
  by (induction fs) auto

lemma small_fieldI: "n < 32 \<Longrightarrow> unat c < 2 ^ n \<Longrightarrow> small_field (c, n)"
  by (simp add: small_field_def)

lemma small_take_bit: "n < 32 \<Longrightarrow> small_field (take_bit n w, n)"
  by (simp add: small_field_def unat_take_bit_less)

lemma small_byte: "small_field (ucast (b::byte), 8)"
  using unat_byte_less [of b] by (simp add: small_field_def unat_ucast_byte)

lemma read_fields_fields_bits:
  "list_all small_field fs \<Longrightarrow>
   read_fields (map snd fs @ ns) (fields_bits fs @ bs) =
     map_option ((@) (map (unat \<circ> fst) fs)) (read_fields ns bs)"
proof (induction fs)
  case Nil
  then show ?case by (simp add: option.map_ident)
next
  case (Cons f fs)
  obtain c n where f: "f = (c, n)" by (cases f)
  from Cons.prems have c: "unat c < 2 ^ n" and fs: "list_all small_field fs"
    by (simp_all add: f small_field_def [of "(c, n)"])
  then have "take_bit n c = c"
    by (metis take_bit_nat_eq_self_iff unsigned_take_bit_eq word_eq_iff_unsigned)
  then show ?case
    using Cons.IH [OF fs]
    by (simp add: f read_fields_step option.map_comp o_def del: read_fields.simps)
qed

subsection \<open>The interface: what a client of a bit writer relies on\<close>

locale bit_writer =
  fixes put :: "'s \<Rightarrow> u32 \<Rightarrow> nat \<Rightarrow> 's"
    and flush :: "'s \<Rightarrow> bytes"
    and contents :: "'s \<Rightarrow> bool list"
    and ok :: "'s \<Rightarrow> bool"
  assumes put_ok: "ok s \<Longrightarrow> n \<le> 32 \<Longrightarrow> ok (put s c n)"
    and put_contents: "ok s \<Longrightarrow> small_field (c, n) \<Longrightarrow> contents (put s c n) = contents s @ bits_of n c"
    and flush_contents: "ok s \<Longrightarrow>
      bytes_bits (flush s) = contents s @ replicate ((8 - length (contents s) mod 8) mod 8) False"
begin

lemma put_all_contents:
  "ok s \<Longrightarrow> list_all small_field fs \<Longrightarrow>
   ok (put_all put s fs) \<and> contents (put_all put s fs) = contents s @ fields_bits fs"
proof (induction fs arbitrary: s)
  case Nil
  then show ?case by simp
next
  case (Cons f fs)
  obtain c n where f: "f = (c, n)" by (cases f)
  with Cons.prems have n: "n \<le> 32" and small: "small_field (c, n)"
    by (simp_all add: small_field_def [of "(c, n)"])
  with Cons show ?case
    by (simp add: f put_ok put_contents)
qed

lemma flush_aligned:
  "ok s \<Longrightarrow> length (contents s) mod 8 = 0 \<Longrightarrow> bytes_bits (flush s) = contents s"
  by (simp add: flush_contents)

lemma read_back:
  assumes "ok s" and "contents s = []" and small: "list_all small_field fs"
  shows "read_fields (map snd fs) (bytes_bits (flush (put_all put s fs))) = Some (map (unat \<circ> fst) fs)"
proof -
  have "ok (put_all put s fs)" "contents (put_all put s fs) = fields_bits fs"
    using put_all_contents [OF assms(1) small] assms(2) by simp_all
  then show ?thesis
    using read_fields_fields_bits [OF small, where ns = "[]"] by (simp add: flush_contents)
qed

end

subsection \<open>The packer provides it\<close>

lemma packer_ok_new [simp]: "packer_ok new_packer"
  by (simp add: packer_ok_def new_packer_def)

lemma packed_new [simp]: "packed new_packer = []"
  by (simp add: packed_def new_packer_def)

lemma length_packed: "length (packed ld) = 8 * length (Ptr ld) + (32 - Remaining ld)"
  by (simp add: packed_def)

lemma PutBits_ok: "packer_ok ld \<Longrightarrow> len \<le> 32 \<Longrightarrow> packer_ok (PutBits ld code len)"
  by (auto simp: packer_ok_def PutBits_def Let_def)

lemma Remaining_PutBits:
  "len \<le> 32 \<Longrightarrow> 1 \<le> Remaining ld \<Longrightarrow> Remaining ld \<le> 32 \<Longrightarrow>
   Remaining (PutBits ld code len) =
     (if len < Remaining ld then Remaining ld - len else 32 + Remaining ld - len)"
  by (auto simp: PutBits_def Let_def)

lemma PutBits_fits:
  assumes f: "field_ok ld code len" and lt: "len < Remaining ld" and r: "Remaining ld \<le> 32"
  shows "packed (PutBits ld code len) = packed ld @ bits_of len code"
proof -
  let ?w = "push_bit len (BitBuffer ld) OR code"
  have lo: "bits_of len ?w = bits_of len code"
    by (rule bits_of_eqI) (simp add: bit_simps)
  have hi: "bits_of (32 - Remaining ld) (drop_bit len ?w) = bits_of (32 - Remaining ld) (BitBuffer ld)"
  proof (rule bits_of_eqI)
    fix i assume i: "i < 32 - Remaining ld"
    then have "unat code < 2 ^ len" using f by (auto simp: field_ok_def)
    then have "\<not> bit code (len + i)" by (rule word_high_bits) simp
    then show "bit (drop_bit len ?w) i = bit (BitBuffer ld) i"
      using i lt r by (auto simp: bit_simps)
  qed
  have e: "32 - (Remaining ld - len) = (32 - Remaining ld) + len"
    using lt r by simp
  have "bits_of (32 - (Remaining ld - len)) ?w = bits_of (32 - Remaining ld) (BitBuffer ld) @ bits_of len code"
    by (simp only: e bits_of_append lo hi)
  then show ?thesis
    using lt r by (simp add: packed_def PutBits_def)
qed

lemma PutBits_spills:
  assumes f: "field_ok ld code len" and ge: "Remaining ld \<le> len" and r: "1 \<le> Remaining ld"
  shows "packed (PutBits ld code len) = packed ld @ bits_of len code"
proof -
  define m where "m = len - Remaining ld"
  define w where "w = c_shl (BitBuffer ld) (Remaining ld) OR c_shr code m"
  have R: "Remaining ld \<le> 32" "len = Remaining ld + m" "m < 32"
    using ge r f by (auto simp: field_ok_def m_def)
  have out: "packed (PutBits ld code len) = bytes_bits (Ptr ld) @ bits_of 32 w @ bits_of m code"
    using ge R by (simp add: packed_def PutBits_def Let_def w_def m_def [symmetric] word_bytes_bits [symmetric])
  have split32: "bits_of 32 w = bits_of (32 - Remaining ld) (drop_bit (Remaining ld) w) @ bits_of (Remaining ld) w"
    using R bits_of_append [of "32 - Remaining ld" "Remaining ld" w] by simp
  have hi: "bits_of (32 - Remaining ld) (drop_bit (Remaining ld) w) = bits_of (32 - Remaining ld) (BitBuffer ld)"
  proof (rule bits_of_eqI)
    fix i assume i: "i < 32 - Remaining ld"
    then have "unat code < 2 ^ len" using f by (auto simp: field_ok_def)
    then have "\<not> bit code (m + (Remaining ld + i))" by (rule word_high_bits) (simp add: R)
    then show "bit (drop_bit (Remaining ld) w) i = bit (BitBuffer ld) i"
      using i R r by (auto simp: w_def bit_simps ac_simps)
  qed
  have lo: "bits_of (Remaining ld) w = bits_of (Remaining ld) (drop_bit m code)"
  proof (rule bits_of_eqI)
    fix i assume i: "i < Remaining ld"
    show "bit w i = bit (drop_bit m code) i"
    proof (cases "Remaining ld = 32")
      case True
      then have "m = 0" "BitBuffer ld = 0" using f R by (auto simp: field_ok_def)
      then show ?thesis by (simp add: w_def)
    next
      case False
      then show ?thesis using i R by (auto simp: w_def bit_simps)
    qed
  qed
  show ?thesis
    unfolding out split32 hi lo using R bits_of_append [of "Remaining ld" m code]
    by (simp add: packed_def)
qed

lemma packed_PutBits:
  assumes "packer_ok ld" and "field_ok ld code len"
  shows "packed (PutBits ld code len) = packed ld @ bits_of len code"
  using assms PutBits_fits [of ld code len] PutBits_spills [of ld code len]
  by (cases "len < Remaining ld") (auto simp: packer_ok_def)

lemma flush_count_step: "r < 32 \<Longrightarrow> flush_count r = Suc (flush_count (r + 8))"
proof -
  assume "r < 32"
  then have "39 - r = (31 - r) + 8" and "39 - (r + 8) = 31 - r" by simp_all
  then show ?thesis unfolding flush_count_def by (simp only: div_add_self2)
qed

lemma flush_count_bits:
  assumes "r \<le> 32"
  shows "8 * flush_count r = (32 - r) + r mod 8" and "8 * flush_count r \<le> 32"
proof -
  have "\<forall>r \<in> set [0..<33]. 8 * flush_count r = (32 - r) + r mod 8 \<and> 8 * flush_count r \<le> 32"
    by code_simp
  then show "8 * flush_count r = (32 - r) + r mod 8" and "8 * flush_count r \<le> 32"
    using assms by auto
qed

lemma FlushBits_loop_Ptr:
  "Remaining ld < 40 \<Longrightarrow>
   bytes_bits (Ptr (FlushBits_loop ld)) =
     bytes_bits (Ptr ld)
     @ bits_of (8 * flush_count (Remaining ld))
         (drop_bit (32 - 8 * flush_count (Remaining ld)) (BitBuffer ld))"
proof (induction ld rule: FlushBits_loop.induct)
  case (1 ld)
  show ?case
  proof (cases "Remaining ld < 32")
    case True
    define k where "k = flush_count (Remaining ld + 8)"
    let ?B = "BitBuffer ld"
    from True have k: "flush_count (Remaining ld) = Suc k"
      by (simp add: flush_count_step k_def)
    have k3: "k < 4" using True by (simp add: k_def flush_count_def)
    have "bits_of (8 + 8 * k) (drop_bit (24 - 8 * k) ?B)
          = bits_of 8 (drop_bit (8 * k) (drop_bit (24 - 8 * k) ?B)) @ bits_of (8 * k) (drop_bit (24 - 8 * k) ?B)"
      by (rule bits_of_append)
    also have "drop_bit (8 * k) (drop_bit (24 - 8 * k) ?B) = drop_bit 24 ?B"
      using k3 by simp
    also have "bits_of (8 * k) (drop_bit (24 - 8 * k) ?B) = bits_of (8 * k) (drop_bit (32 - 8 * k) (push_bit 8 ?B))"
      using k3 by (intro bits_of_eqI) (auto simp: bit_simps)
    finally show ?thesis
      using True 1 k by (simp add: FlushBits_loop.simps [of ld] bits_of_byte k_def [symmetric])
  next
    case False
    with 1 show ?thesis by (simp add: FlushBits_loop.simps [of ld] flush_count_def)
  qed
qed

lemma packed_FlushBits:
  assumes "packer_ok ld"
  shows "bytes_bits (Ptr (FlushBits ld)) = packed ld @ replicate (Remaining ld mod 8) False"
proof -
  let ?R = "Remaining ld" and ?k = "flush_count (Remaining ld)"
  have R: "1 \<le> ?R" "?R \<le> 32" using assms by (auto simp: packer_ok_def)
  note e = flush_count_bits [OF R(2)]
  have "bits_of (8 * ?k) (drop_bit (32 - 8 * ?k) (c_shl (BitBuffer ld) ?R))
        = bits_of (32 - ?R) (BitBuffer ld) @ replicate (?R mod 8) False"
  proof (cases "?R = 32")
    case True
    then show ?thesis by (simp add: flush_count_def)
  next
    case False
    with R have s: "c_shl (BitBuffer ld) ?R = push_bit ?R (BitBuffer ld)" by simp
    have a: "bits_of (32 - ?R) (drop_bit (?R mod 8) (drop_bit (32 - 8 * ?k) (push_bit ?R (BitBuffer ld))))
          = bits_of (32 - ?R) (BitBuffer ld)"
      using R e by (intro bits_of_eqI) (auto simp: bit_simps)
    have b: "bits_of (?R mod 8) (drop_bit (32 - 8 * ?k) (push_bit ?R (BitBuffer ld))) = replicate (?R mod 8) False"
      using R e by (intro nth_equalityI) (auto simp: nth_bits_of bit_simps)
    show ?thesis unfolding s e(1) bits_of_append a [unfolded e(1)] b [unfolded e(1)] ..
  qed
  then show ?thesis
    using R by (simp add: FlushBits_def Let_def FlushBits_loop_Ptr packed_def)
qed

lemma flush_pad:
  assumes "packer_ok ld"
  shows "Remaining ld mod 8 = (8 - length (packed ld) mod 8) mod 8"
proof -
  have "\<forall>r \<in> set [1..<33]. r mod 8 = (8 - (32 - r) mod 8) mod (8::nat)"
    by code_simp
  moreover have "length (packed ld) mod 8 = (32 - Remaining ld) mod 8"
    by (simp add: length_packed)
  ultimately show ?thesis
    using assms by (auto simp: packer_ok_def)
qed

interpretation packer: bit_writer PutBits "\<lambda>ld. Ptr (FlushBits ld)" packed packer_ok
proof unfold_locales
  show "packer_ok (PutBits s c n)" if "packer_ok s" "n \<le> 32" for s c n
    using that by (rule PutBits_ok)
  show "packed (PutBits s c n) = packed s @ bits_of n c"
    if "packer_ok s" "small_field (c, n)" for s c n
    using that by (intro packed_PutBits) (auto simp: field_ok_def small_field_def)
  show "bytes_bits (Ptr (FlushBits s)) = packed s @ replicate ((8 - length (packed s) mod 8) mod 8) False"
    if "packer_ok s" for s
    using packed_FlushBits [OF that] flush_pad [OF that] by simp
qed

subsection \<open>Properties\<close>

text \<open>
  Claim C5. \<open>PutBits\<close> refines appending to a bit string: from a valid packer it appends exactly
  the low \<open>len\<close> bits of the code, most significant first, to the bits packed so far, also when
  the field straddles two registers, and leaves a valid packer.
\<close>

theorem PutBits_appends:
  assumes "packer_ok ld" and "field_ok ld code len"
  shows "packed (PutBits ld code len) = packed ld @ bits_of len code \<and> packer_ok (PutBits ld code len)"
  using packed_PutBits [OF assms] PutBits_ok [OF assms(1)] assms(2) by (simp_all add: field_ok_def)

theorem PutBits_appends_witness:
  "packed (PutBits (PutBits new_packer 0x1b0 32) 5 3) = bits_of 32 (0x1b0::u32) @ [True, False, True]"
proof -
  let ?p = "PutBits new_packer 0x1b0 32"
  have "packer_ok ?p" "field_ok ?p 5 3"
    by (simp_all add: packer_ok_def field_ok_def new_packer_def PutBits_def)
  moreover have "packed ?p = bits_of 32 (0x1b0::u32)"
    using PutBits_appends [of new_packer "0x1b0" 32] by (simp add: field_ok_def new_packer_def packer_ok_def packed_def)
  moreover have "bits_of 3 (5::u32) = [True, False, True]" by code_simp
  ultimately show ?thesis
    using PutBits_appends [of ?p 5 3] by simp
qed

text \<open>
  Claim C6. Round trip: pack any fields whose codes fit their widths (below 32 bits) into a
  fresh packer and flush it; reading fields of the same widths back from the stored bytes
  returns the codes. The padding of the last byte never disturbs a field.
\<close>

theorem packed_fields_read_back:
  assumes "list_all small_field fs"
  shows "read_fields (map snd fs) (bytes_bits (Ptr (FlushBits (put_all PutBits new_packer fs))))
         = Some (map (unat \<circ> fst) fs)"
  using assms by (rule packer.read_back [OF packer_ok_new packed_new])

theorem packed_fields_read_back_witness:
  "read_fields [4, 3, 31, 5] (bytes_bits (Ptr (FlushBits (put_all PutBits new_packer
     [(2, 4), (5, 3), (0x12345678, 31), (17, 5)])))) = Some [2, 5, 0x12345678, 17]"
  using packed_fields_read_back [of "[(2, 4), (5, 3), (0x12345678, 31), (17, 5)]"]
  by (simp add: small_field_def del: put_all_simps)

end
