(* ===== verification/Pes.thy ===== *)
theory Pes
  imports Bit_Packer
begin

text \<open>
  PES packet headers, \<open>output/writer/pes.c\<close> and \<open>include/pes.h\<close> of libeplayer3. The header
  writer is a fixed sequence of \<open>PutBits\<close> calls; its client contract is that a demultiplexer
  that follows the PES syntax table of ISO/IEC 13818-1 recovers stream id, packet length, PTS
  and payload. \<open>parse_pes\<close> is that reader, written from the table.
\<close>

subsection \<open>The code\<close>

definition INVALID_PTS_VALUE :: u64 where
  "INVALID_PTS_VALUE = 0x200000000"

definition MAX_PES_PACKET_SIZE :: nat where
  "MAX_PES_PACKET_SIZE = 65400"

definition PES_MAX_HEADER_SIZE :: nat where
  "PES_MAX_HEADER_SIZE = 64"

definition PES_MIN_HEADER_SIZE :: nat where
  "PES_MIN_HEADER_SIZE = 9"

definition PES_PRIVATE_DATA_FLAG :: u32 where
  "PES_PRIVATE_DATA_FLAG = 0x80"

definition PES_PRIVATE_DATA_LENGTH :: nat where
  "PES_PRIVATE_DATA_LENGTH = 8"

definition PES_VERSION_FAKE_START_CODE :: u32 where
  "PES_VERSION_FAKE_START_CODE = 0x31"

definition PRIVATE_STREAM_1_PES_START_CODE :: byte where
  "PRIVATE_STREAM_1_PES_START_CODE = 0xbd"

definition H263_VIDEO_PES_START_CODE :: byte where
  "H263_VIDEO_PES_START_CODE = 0xfe"

definition MPEG_VIDEO_PES_START_CODE :: byte where
  "MPEG_VIDEO_PES_START_CODE = 0xe0"

definition MPEG_AUDIO_PES_START_CODE :: byte where
  "MPEG_AUDIO_PES_START_CODE = 0xc0"

definition VC1_VIDEO_PES_START_CODE :: byte where
  "VC1_VIDEO_PES_START_CODE = 0xfd"

definition AAC_AUDIO_PES_START_CODE :: byte where
  "AAC_AUDIO_PES_START_CODE = 0xcf"

text \<open>
  Both functions write through the packer to the caller's buffer and return the number of bytes
  written; here they return the bytes, and the C return value is their length.
\<close>

primrec put_zero_bytes :: "nat \<Rightarrow> BitPacker_t \<Rightarrow> BitPacker_t" where
  "put_zero_bytes 0 ld = ld"
| "put_zero_bytes (Suc n) ld = put_zero_bytes n (PutBits ld 0 8)"

definition InsertVideoPrivateDataHeader :: "u32 \<Rightarrow> bytes" where
  "InsertVideoPrivateDataHeader payload_size =
     (let ld2 = new_packer;
          ld2 = PutBits ld2 PES_PRIVATE_DATA_FLAG 8;
          ld2 = PutBits ld2 (payload_size AND 0xff) 8;
          ld2 = PutBits ld2 (signed_drop_bit 8 payload_size AND 0xff) 8;
          ld2 = PutBits ld2 (signed_drop_bit 16 payload_size AND 0xff) 8;
          ld2 = put_zero_bytes (PES_PRIVATE_DATA_LENGTH + 1 - 4) ld2;
          ld2 = FlushBits ld2
      in Ptr ld2)"

definition InsertPesHeader :: "u32 \<Rightarrow> byte \<Rightarrow> u64 \<Rightarrow> u32 \<Rightarrow> bytes" where
  "InsertPesHeader psize stream_id pts pic_start_code =
     (let ld2 = new_packer;
          ld2 = PutBits ld2 0x0 8;
          ld2 = PutBits ld2 0x0 8;
          ld2 = PutBits ld2 0x1 8;
          ld2 = PutBits ld2 (ucast stream_id) 8;
          ld2 = PutBits ld2 (psize + 3 + (if pts \<noteq> INVALID_PTS_VALUE then 5 else 0)
                                   + (if pic_start_code \<noteq> 0 then 5 else 0)) 16;
          ld2 = PutBits ld2 0x2 2;
          ld2 = PutBits ld2 0x0 2;
          ld2 = PutBits ld2 0x0 1;
          ld2 = PutBits ld2 0x0 1;
          ld2 = PutBits ld2 0x0 1;
          ld2 = PutBits ld2 0x0 1;
          ld2 = (if pts \<noteq> INVALID_PTS_VALUE then PutBits ld2 0x2 2 else PutBits ld2 0x0 2);
          ld2 = PutBits ld2 0x0 1;
          ld2 = PutBits ld2 0x0 1;
          ld2 = PutBits ld2 0x0 1;
          ld2 = PutBits ld2 0x0 1;
          ld2 = PutBits ld2 0x0 1;
          ld2 = PutBits ld2 0x0 1;
          ld2 = (if pts \<noteq> INVALID_PTS_VALUE then PutBits ld2 0x5 8 else PutBits ld2 0x0 8);
          ld2 = (if pts \<noteq> INVALID_PTS_VALUE then
                   (let ld2 = PutBits ld2 0x2 4;
                        ld2 = PutBits ld2 (ucast (drop_bit 30 pts AND 0x7)) 3;
                        ld2 = PutBits ld2 0x1 1;
                        ld2 = PutBits ld2 (ucast (drop_bit 15 pts AND 0x7fff)) 15;
                        ld2 = PutBits ld2 0x1 1;
                        ld2 = PutBits ld2 (ucast (pts AND 0x7fff)) 15;
                        ld2 = PutBits ld2 0x1 1
                    in ld2)
                 else ld2);
          ld2 = (if pic_start_code \<noteq> 0 then
                   (let ld2 = PutBits ld2 0x0 8;
                        ld2 = PutBits ld2 0x0 8;
                        ld2 = PutBits ld2 0x1 8;
                        ld2 = PutBits ld2 (pic_start_code AND 0xff) 8;
                        ld2 = PutBits ld2 (signed_drop_bit 8 pic_start_code AND 0xff) 8
                    in ld2)
                 else ld2);
          ld2 = FlushBits ld2
      in Ptr ld2)"

subsection \<open>Specification: the reader of the PES syntax table\<close>

record pes_info =
  pes_sid :: nat
  pes_len :: nat
  pes_pts :: "nat option"
  pes_payload :: bytes

definition pes_fixed_widths :: "nat list" where
  "pes_fixed_widths = [8, 8, 8, 8, 16, 2, 2, 1, 1, 1, 1, 2, 1, 1, 1, 1, 1, 1, 8]"

definition pes_pts_widths :: "nat list" where
  "pes_pts_widths = [4, 3, 1, 15, 1, 15, 1]"

definition parse_pts :: "bytes \<Rightarrow> nat option" where
  "parse_pts bs =
     (case read_fields pes_pts_widths (bytes_bits bs) of
        Some fs \<Rightarrow>
          (if fs ! 0 = 2 \<and> fs ! 2 = 1 \<and> fs ! 4 = 1 \<and> fs ! 6 = 1
           then Some (fs ! 1 * 2 ^ 30 + fs ! 3 * 2 ^ 15 + fs ! 5) else None)
      | None \<Rightarrow> None)"

text \<open>
  Fields by position: 0 to 2 the start code prefix, 3 stream id, 4 packet length, 5 the marker
  '10', 11 the PTS/DTS flags, 18 the length of the optional header, after which the payload
  starts.
\<close>

definition parse_pes :: "bytes \<Rightarrow> pes_info option" where
  "parse_pes bs =
     (case read_fields pes_fixed_widths (bytes_bits bs) of
        Some fs \<Rightarrow>
          (if fs ! 0 = 0 \<and> fs ! 1 = 0 \<and> fs ! 2 = 1 \<and> fs ! 5 = 2 then
             (let pts = (if fs ! 11 = 2 then parse_pts (take 5 (drop 9 bs)) else None)
              in if fs ! 11 = 2 \<and> pts = None then None
                 else Some \<lparr>pes_sid = fs ! 3, pes_len = fs ! 4, pes_pts = pts,
                            pes_payload = drop (9 + fs ! 18) bs\<rparr>)
           else None)
      | None \<Rightarrow> None)"

text \<open>The length field the code computes, and the header bytes field group by field group.\<close>

definition pes_length_field :: "u32 \<Rightarrow> u64 \<Rightarrow> u32 \<Rightarrow> u32" where
  "pes_length_field psize pts pic =
     psize + 3 + (if pts \<noteq> INVALID_PTS_VALUE then 5 else 0) + (if pic \<noteq> 0 then 5 else 0)"

definition pes_prefix_fields :: "byte \<Rightarrow> (u32 \<times> nat) list" where
  "pes_prefix_fields sid = [(0, 8), (0, 8), (1, 8), (ucast sid, 8)]"

definition pes_flag_fields :: "u64 \<Rightarrow> (u32 \<times> nat) list" where
  "pes_flag_fields pts =
     [(2, 2), (0, 2), (0, 1), (0, 1), (0, 1), (0, 1),
      (if pts \<noteq> INVALID_PTS_VALUE then 2 else 0, 2),
      (0, 1), (0, 1), (0, 1), (0, 1), (0, 1), (0, 1),
      (if pts \<noteq> INVALID_PTS_VALUE then 5 else 0, 8)]"

definition pes_pts_fields :: "u64 \<Rightarrow> (u32 \<times> nat) list" where
  "pes_pts_fields pts =
     (if pts \<noteq> INVALID_PTS_VALUE then
        [(2, 4), (ucast (drop_bit 30 pts AND 7), 3), (1, 1),
         (ucast (drop_bit 15 pts AND 0x7fff), 15), (1, 1), (ucast (pts AND 0x7fff), 15), (1, 1)]
      else [])"

definition pes_pic_fields :: "u32 \<Rightarrow> (u32 \<times> nat) list" where
  "pes_pic_fields pic =
     (if pic \<noteq> 0 then [(0, 8), (0, 8), (1, 8), (pic AND 0xff, 8), (signed_drop_bit 8 pic AND 0xff, 8)]
      else [])"

definition pes_header_bits :: "u32 \<Rightarrow> byte \<Rightarrow> u64 \<Rightarrow> u32 \<Rightarrow> bool list" where
  "pes_header_bits psize sid pts pic =
     fields_bits (pes_prefix_fields sid) @ bits_of 16 (pes_length_field psize pts pic)
     @ fields_bits (pes_flag_fields pts @ pes_pts_fields pts @ pes_pic_fields pic)"

definition pes_pts_bytes :: "u64 \<Rightarrow> bytes" where
  "pes_pts_bytes pts =
     (if pts = INVALID_PTS_VALUE then [] else
       [0x21 OR push_bit 1 (ucast (drop_bit 30 pts AND 7)),
        ucast (drop_bit 22 pts),
        1 OR push_bit 1 (ucast (drop_bit 15 pts)),
        ucast (drop_bit 7 pts),
        1 OR push_bit 1 (ucast pts)])"

definition pes_pic_bytes :: "u32 \<Rightarrow> bytes" where
  "pes_pic_bytes pic = (if pic = 0 then [] else [0, 0, 1, ucast pic, ucast (drop_bit 8 pic)])"

definition private_data_fields :: "u32 \<Rightarrow> (u32 \<times> nat) list" where
  "private_data_fields n =
     [(0x80, 8), (n AND 0xff, 8), (signed_drop_bit 8 n AND 0xff, 8),
      (signed_drop_bit 16 n AND 0xff, 8), (0, 8), (0, 8), (0, 8), (0, 8), (0, 8)]"

definition pes_fixed_fields :: "bytes \<Rightarrow> (u32 \<times> nat) list" where
  "pes_fixed_fields h =
     (let w = (\<lambda>i. ucast (h ! i) :: u32) in
     [(w 0, 8), (w 1, 8), (w 2, 8), (w 3, 8), (push_bit 8 (w 4) OR w 5, 16),
      (drop_bit 6 (w 6), 2), (take_bit 2 (drop_bit 4 (w 6)), 2), (take_bit 1 (drop_bit 3 (w 6)), 1),
      (take_bit 1 (drop_bit 2 (w 6)), 1), (take_bit 1 (drop_bit 1 (w 6)), 1), (take_bit 1 (w 6), 1),
      (drop_bit 6 (w 7), 2), (take_bit 1 (drop_bit 5 (w 7)), 1), (take_bit 1 (drop_bit 4 (w 7)), 1),
      (take_bit 1 (drop_bit 3 (w 7)), 1), (take_bit 1 (drop_bit 2 (w 7)), 1),
      (take_bit 1 (drop_bit 1 (w 7)), 1), (take_bit 1 (w 7), 1), (w 8, 8)])"

subsection \<open>The bits of the header\<close>

lemma pes_prefix_small: "list_all small_field (pes_prefix_fields sid)"
  using small_byte [of sid] by (simp add: pes_prefix_fields_def small_field_def)

lemma pes_flag_small: "list_all small_field (pes_flag_fields pts)"
  by (simp add: pes_flag_fields_def small_field_def)

lemma pes_pts_small: "list_all small_field (pes_pts_fields pts)"
  using unat_ucast_take_bit_less [of 3 "drop_bit 30 pts", where 'b = 32]
    unat_ucast_take_bit_less [of 15 "drop_bit 15 pts", where 'b = 32]
    unat_ucast_take_bit_less [of 15 pts, where 'b = 32]
  by (simp add: pes_pts_fields_def small_field_def and_masks)

lemma pes_pic_small: "list_all small_field (pes_pic_fields pic)"
  using unat_take_bit_less [of 8 pic] unat_take_bit_less [of 8 "signed_drop_bit 8 pic"]
  by (simp add: pes_pic_fields_def small_field_def and_masks)

lemma InsertPesHeader_fields:
  "InsertPesHeader psize sid pts pic =
     Ptr (FlushBits
       (put_all PutBits
         (PutBits (put_all PutBits new_packer (pes_prefix_fields sid)) (pes_length_field psize pts pic) 16)
         (pes_flag_fields pts @ pes_pts_fields pts @ pes_pic_fields pic)))"
  by (simp add: InsertPesHeader_def pes_prefix_fields_def pes_flag_fields_def pes_pts_fields_def
      pes_pic_fields_def pes_length_field_def Let_def)

lemma Remaining_prefix: "Remaining (put_all PutBits new_packer (pes_prefix_fields sid)) = 32"
  by (simp add: pes_prefix_fields_def Remaining_PutBits new_packer_def)

lemma length_pes_header_bits:
  "length (pes_header_bits psize sid pts pic) =
     8 * (9 + (if pts \<noteq> INVALID_PTS_VALUE then 5 else 0) + (if pic \<noteq> 0 then 5 else 0))"
  by (simp add: pes_header_bits_def length_fields_bits pes_prefix_fields_def pes_flag_fields_def
      pes_pts_fields_def pes_pic_fields_def)

text \<open>
  The length is the only field whose code is not masked. It opens a register, so that its excess
  bits are shifted out: the header holds the length modulo 65536.
\<close>

lemma bits_InsertPesHeader:
  "bytes_bits (InsertPesHeader psize sid pts pic) = pes_header_bits psize sid pts pic"
proof -
  let ?p = "put_all PutBits new_packer (pes_prefix_fields sid)"
  let ?q = "PutBits ?p (pes_length_field psize pts pic) 16"
  let ?fs = "pes_flag_fields pts @ pes_pts_fields pts @ pes_pic_fields pic"
  let ?r = "put_all PutBits ?q ?fs"
  have p: "packed ?p = fields_bits (pes_prefix_fields sid)" "packer_ok ?p"
    using packer.put_all_contents [OF packer_ok_new pes_prefix_small] by simp_all
  have q: "packed ?q = packed ?p @ bits_of 16 (pes_length_field psize pts pic)" "packer_ok ?q"
    using p(2) by (simp_all add: packed_PutBits PutBits_ok field_ok_def Remaining_prefix)
  have r: "packed ?r = packed ?q @ fields_bits ?fs" "packer_ok ?r"
    using packer.put_all_contents [OF q(2), of ?fs] pes_flag_small pes_pts_small pes_pic_small
    by simp_all
  have all: "packed ?r = pes_header_bits psize sid pts pic"
    unfolding r q p pes_header_bits_def by simp
  have "length (packed ?r) mod 8 = 0"
    unfolding all length_pes_header_bits by (rule mod_mult_self1_is_0)
  with r(2) show ?thesis
    unfolding InsertPesHeader_fields all [symmetric] by (rule packer.flush_aligned)
qed

lemma length_InsertPesHeader:
  "length (InsertPesHeader psize sid pts pic) =
     9 + (if pts \<noteq> INVALID_PTS_VALUE then 5 else 0) + (if pic \<noteq> 0 then 5 else 0)"
  using length_bytes_bits [of "InsertPesHeader psize sid pts pic"]
  unfolding bits_InsertPesHeader length_pes_header_bits by simp

lemma bits_pts: "bytes_bits (pes_pts_bytes pts) = fields_bits (pes_pts_fields pts)"
  by (simp add: pes_pts_bytes_def pes_pts_fields_def bits_of_numeral bits_of_Suc bit_simps
      del: push_bit_Suc)

lemma bits_pic: "bytes_bits (pes_pic_bytes pic) = fields_bits (pes_pic_fields pic)"
  by (simp add: pes_pic_bytes_def pes_pic_fields_def bits_of_numeral bits_of_Suc bit_simps)

lemma InsertPesHeader_bytes:
  "InsertPesHeader psize sid pts pic =
     [0, 0, 1, sid,
      ucast (drop_bit 8 (pes_length_field psize pts pic)), ucast (pes_length_field psize pts pic),
      0x80, if pts = INVALID_PTS_VALUE then 0 else 0x80, if pts = INVALID_PTS_VALUE then 0 else 5]
     @ pes_pts_bytes pts @ pes_pic_bytes pic" (is "_ = ?r")
proof (rule bytes_bits_inj)
  have "bytes_bits ?r = pes_header_bits psize sid pts pic"
    by (simp add: pes_header_bits_def bits_pts bits_pic pes_prefix_fields_def pes_flag_fields_def
        bits_of_numeral bits_of_Suc bit_simps)
  then show "bytes_bits (InsertPesHeader psize sid pts pic) = bytes_bits ?r"
    by (simp add: bits_InsertPesHeader)
qed

lemma private_data_small: "list_all small_field (private_data_fields n)"
  using unat_take_bit_less [of 8 n] unat_take_bit_less [of 8 "signed_drop_bit 8 n"]
    unat_take_bit_less [of 8 "signed_drop_bit 16 n"]
  by (simp add: private_data_fields_def small_field_def and_masks)

lemma InsertVideoPrivateDataHeader_fields:
  "InsertVideoPrivateDataHeader n = Ptr (FlushBits (put_all PutBits new_packer (private_data_fields n)))"
  by (simp add: InsertVideoPrivateDataHeader_def private_data_fields_def Let_def numeral_eq_Suc
      PES_PRIVATE_DATA_FLAG_def PES_PRIVATE_DATA_LENGTH_def)

lemma bits_InsertVideoPrivateDataHeader:
  "bytes_bits (InsertVideoPrivateDataHeader n) = fields_bits (private_data_fields n)"
proof -
  let ?r = "put_all PutBits new_packer (private_data_fields n)"
  have r: "packer_ok ?r" "packed ?r = fields_bits (private_data_fields n)"
    using packer.put_all_contents [OF packer_ok_new private_data_small] by simp_all
  have "length (packed ?r) mod 8 = 0"
    unfolding r(2) length_fields_bits by (simp add: private_data_fields_def)
  with r show ?thesis
    unfolding InsertVideoPrivateDataHeader_fields using packer.flush_aligned [of ?r] by simp
qed

lemma InsertVideoPrivateDataHeader_bytes:
  "InsertVideoPrivateDataHeader n =
     [0x80, ucast n, ucast (drop_bit 8 n), ucast (drop_bit 16 n), 0, 0, 0, 0, 0]" (is "_ = ?r")
proof (rule bytes_bits_inj)
  have "bytes_bits ?r = fields_bits (private_data_fields n)"
    by (simp add: private_data_fields_def bits_of_numeral bits_of_Suc bit_simps)
  then show "bytes_bits (InsertVideoPrivateDataHeader n) = bytes_bits ?r"
    by (simp add: bits_InsertVideoPrivateDataHeader)
qed

subsection \<open>Reading the header back\<close>

lemma pts_split:
  "unat (ucast (take_bit 3 (drop_bit 30 (pts::u64))) :: u32) * 2 ^ 30
     + unat (ucast (take_bit 15 (drop_bit 15 pts)) :: u32) * 2 ^ 15
     + unat (ucast (take_bit 15 pts) :: u32) = unat pts mod 2 ^ 33"
proof -
  define p where "p = unat pts"
  have a: "p mod (2 ^ 30 * 8) = 2 ^ 30 * (p div 2 ^ 30 mod 8) + p mod 2 ^ 30"
    by (rule mod_mult2_eq)
  have b: "p mod (2 ^ 15 * 2 ^ 15) = 2 ^ 15 * (p div 2 ^ 15 mod 2 ^ 15) + p mod 2 ^ 15"
    by (rule mod_mult2_eq)
  show ?thesis
    using a b by (simp add: unat_ucast_take_bit unat_drop_bit_eq take_bit_eq_mod [where 'a = nat]
        drop_bit_eq_div [where 'a = nat] p_def [symmetric])
qed

lemma parse_pts_bytes:
  assumes "pts \<noteq> INVALID_PTS_VALUE"
  shows "parse_pts (pes_pts_bytes pts) = Some (unat pts mod 2 ^ 33)"
proof -
  have "read_fields pes_pts_widths (fields_bits (pes_pts_fields pts)) = Some (map (unat \<circ> fst) (pes_pts_fields pts))"
    using read_fields_fields_bits [OF pes_pts_small, where ns = "[]" and bs = "[]", of pts] assms
    by (simp add: pes_pts_widths_def pes_pts_fields_def)
  with assms show ?thesis
    using pts_split [of pts] by (simp add: parse_pts_def bits_pts pes_pts_fields_def and_masks)
qed

lemma pes_fixed_small: "list_all small_field (pes_fixed_fields h)"
proof -
  have "small_field (push_bit 8 (ucast (a::byte)) OR ucast (b::byte), 16)" for a b
    using unat_byte_less [of a] unat_byte_less [of b] by (simp add: small_field_def unat_byte_pair)
  moreover have "small_field (drop_bit 6 (ucast (b::byte)), 2)" for b
    using unat_byte_less [of b]
    by (simp add: small_field_def unat_drop_bit_eq unat_ucast_byte drop_bit_eq_div [where 'a = nat])
  ultimately show ?thesis
    by (simp add: pes_fixed_fields_def Let_def small_byte small_take_bit del: One_nat_def take_bit_Suc)
qed

lemma pes_fixed_bits:
  "fields_bits (pes_fixed_fields (b0 # b1 # b2 # b3 # b4 # b5 # b6 # b7 # b8 # rest)) =
     bytes_bits [b0, b1, b2, b3, b4, b5, b6, b7, b8]"
  by (simp add: pes_fixed_fields_def Let_def nth_Cons_numeral bits_of_numeral bits_of_Suc bit_simps)
     (simp add: even_drop_bit_iff_not_bit bit_simps flip: bit_0)

lemma parse_pes_Cons:
  "parse_pes (b0 # b1 # b2 # b3 # b4 # b5 # b6 # b7 # b8 # rest) =
     (if b0 = 0 \<and> b1 = 0 \<and> b2 = 1 \<and> drop_bit 6 b6 = 2 then
       (let pts = (if drop_bit 6 b7 = 2 then parse_pts (take 5 rest) else None)
        in if drop_bit 6 b7 = 2 \<and> pts = None then None
           else Some \<lparr>pes_sid = unat b3, pes_len = unat b4 * 256 + unat b5, pes_pts = pts,
                      pes_payload = drop (unat b8) rest\<rparr>)
      else None)"
proof -
  let ?bs = "b0 # b1 # b2 # b3 # b4 # b5 # b6 # b7 # b8 # rest"
  have w: "pes_fixed_widths = map snd (pes_fixed_fields ?bs) @ []"
    by (simp add: pes_fixed_widths_def pes_fixed_fields_def Let_def)
  have b: "bytes_bits ?bs = fields_bits (pes_fixed_fields ?bs) @ bytes_bits rest"
    unfolding pes_fixed_bits by simp
  have r: "read_fields pes_fixed_widths (bytes_bits ?bs) = Some (map (unat \<circ> fst) (pes_fixed_fields ?bs))"
    unfolding b by (subst w, subst read_fields_fields_bits [OF pes_fixed_small]) simp
  have d: "unat (drop_bit 6 (ucast b :: u32)) = 2 \<longleftrightarrow> drop_bit 6 b = 2" for b :: byte
    by (simp add: unat_drop_bit_eq unat_ucast_byte unat_eq_iff)
  have e: "unat b = 0 \<longleftrightarrow> b = 0" "unat b = Suc 0 \<longleftrightarrow> b = 1" for b :: byte
    by (simp_all add: unat_eq_iff)
  have dr: "drop (9 + n) ?bs = drop n rest" for n
    using drop_drop [of n 9 ?bs] by (simp add: add.commute)
  show ?thesis
    unfolding parse_pes_def r dr
    by (simp add: pes_fixed_fields_def Let_def unat_ucast_byte unat_byte_pair d e)
qed

lemma unat_byte_halves:
  "unat (ucast (drop_bit 8 (w::u32)) :: byte) * 256 + unat (ucast w :: byte) = unat w mod 65536"
proof -
  have "unat w mod (256 * 256) = 256 * (unat w div 256 mod 256) + unat w mod 256"
    by (rule mod_mult2_eq)
  then show ?thesis
    by (simp add: unsigned_ucast_eq unat_drop_bit_eq take_bit_eq_mod [where 'a = nat]
        drop_bit_eq_div [where 'a = nat])
qed

lemma length_pes_pts_bytes: "length (pes_pts_bytes pts) = (if pts = INVALID_PTS_VALUE then 0 else 5)"
  by (simp add: pes_pts_bytes_def)

lemma drop_bit_0x80 [simp]: "drop_bit 6 (0x80::byte) = 2"
  by code_simp

lemma parse_pes_header:
  "parse_pes (InsertPesHeader psize sid pts pic @ bs) =
     Some \<lparr>pes_sid = unat sid,
           pes_len = unat (pes_length_field psize pts pic) mod 65536,
           pes_pts = (if pts = INVALID_PTS_VALUE then None else Some (unat pts mod 2 ^ 33)),
           pes_payload = pes_pic_bytes pic @ bs\<rparr>"
  by (simp add: InsertPesHeader_bytes parse_pes_Cons parse_pts_bytes length_pes_pts_bytes
      unat_byte_halves)

subsection \<open>Properties\<close>

text \<open>
  Claim C1. The packet header decodes: for every size, stream id, PTS and picture start code a
  reader of the PES syntax table finds, in a header from \<open>InsertPesHeader\<close> followed by any
  bytes, the stream id, the packet length computed by the code modulo 65536, the low 33 bits of
  the PTS exactly when one was given, and as payload the pseudo start code (when one was given)
  and the bytes that follow.
\<close>

theorem parse_pes_InsertPesHeader:
  "parse_pes (InsertPesHeader psize sid pts pic @ bs) =
     Some \<lparr>pes_sid = unat sid,
           pes_len = unat (pes_length_field psize pts pic) mod 65536,
           pes_pts = (if pts = INVALID_PTS_VALUE then None else Some (unat pts mod 2 ^ 33)),
           pes_payload = pes_pic_bytes pic @ bs\<rparr>"
  by (rule parse_pes_header)

text \<open>
  Memory bound: the header is 9 bytes, 5 more with a PTS and 5 more with a picture start
  code, so that a PES header followed by a private data header always fits the
  \<open>PES_MAX_HEADER_SIZE\<close> bytes every caller reserves.
\<close>

theorem pes_headers_fit_buffer:
  "length (InsertPesHeader psize sid pts pic) =
     PES_MIN_HEADER_SIZE + (if pts \<noteq> INVALID_PTS_VALUE then 5 else 0) + (if pic \<noteq> 0 then 5 else 0)
   \<and> length (InsertVideoPrivateDataHeader n) = PES_PRIVATE_DATA_LENGTH + 1
   \<and> length (InsertPesHeader psize sid pts pic) + length (InsertVideoPrivateDataHeader n)
       \<le> PES_MAX_HEADER_SIZE"
  by (simp add: length_InsertPesHeader InsertVideoPrivateDataHeader_bytes PES_MIN_HEADER_SIZE_def
      PES_PRIVATE_DATA_LENGTH_def PES_MAX_HEADER_SIZE_def)

end
