(* ===== verification/Writer_Base.thy ===== *)
theory Writer_Base
  imports Pes "HOL-Library.Monad_Syntax"
begin

text \<open>
  What all stream writers of libeplayer3 share: the call record of \<open>include/writer.h\<close>, the
  device they write to, and the contract of a writer that wraps one access unit in one PES
  packet (locale \<open>pes_writer\<close>).

  A writer is a function that returns an option: \<open>None\<close> is behaviour C leaves undefined (a read
  or write outside a buffer, a division by zero) or a loop that does not return, so a theorem
  that a writer is equal to \<open>Some\<close> of something excludes all of these. C return codes are the
  \<open>int\<close> in the result.
\<close>

subsection \<open>Call record and device\<close>

text \<open>
  Pointers are byte buffers with the length that was allocated, NULL is \<open>None\<close>. A \<open>void*\<close> call
  argument is itself an option.
\<close>

record WriterAVCallData_t =
  av_fd :: int
  av_data :: "bytes option"
  av_len :: u32
  av_Pts :: u64
  av_private_data :: "bytes option"
  av_private_size :: u32
  av_FrameRate :: u32
  av_FrameScale :: u32
  av_Width :: u32
  av_Height :: u32
  av_Version :: byte

text \<open>
  The device is a parameter: it maps the writes made so far, the file descriptor and the buffer
  to the result of the system call (a byte count or a negative error). \<open>writev\<close> hands the device
  the concatenation of its segments in one piece.
\<close>

type_synonym wlog = "(int \<times> bytes) list"
type_synonym device = "wlog \<Rightarrow> int \<Rightarrow> bytes \<Rightarrow> int"

definition os_write :: "device \<Rightarrow> int \<Rightarrow> bytes \<Rightarrow> wlog \<Rightarrow> int \<times> wlog" where
  "os_write dev fd bs log = (dev log fd bs, log @ [(fd, bs)])"

definition os_writev :: "device \<Rightarrow> int \<Rightarrow> bytes list \<Rightarrow> wlog \<Rightarrow> int \<times> wlog" where
  "os_writev dev fd iov log = os_write dev fd (concat iov) log"

text \<open>
  Reading \<open>n\<close> bytes at an offset of a buffer (copying no bytes never touches the pointer), and
  accesses at an index.
\<close>

definition mem_read :: "bytes option \<Rightarrow> nat \<Rightarrow> nat \<Rightarrow> bytes option" where
  "mem_read p off n =
     (if n = 0 then Some []
      else case p of None \<Rightarrow> None
      | Some bs \<Rightarrow> if off + n \<le> length bs then Some (take n (drop off bs)) else None)"

definition mem_get :: "bytes \<Rightarrow> nat \<Rightarrow> byte option" where
  "mem_get bs i = (if i < length bs then Some (bs ! i) else None)"

definition mem_put :: "bytes \<Rightarrow> nat \<Rightarrow> byte \<Rightarrow> bytes option" where
  "mem_put bs i b = (if i < length bs then Some (bs[i := b]) else None)"

text \<open>
  The in-place 16-bit byte swap loop that \<open>dts.c\<close> and \<open>pcm.c\<close> share in form:
  \<open>for (i = 0; i < len; i += 2)\<close>.
\<close>

function swap16 :: "nat \<Rightarrow> nat \<Rightarrow> bytes \<Rightarrow> bytes option" where
  "swap16 i len Data =
     (if i < len then do {
        Tmp \<leftarrow> mem_get Data i;
        x \<leftarrow> mem_get Data (i + 1);
        Data \<leftarrow> mem_put Data i x;
        Data \<leftarrow> mem_put Data (i + 1) Tmp;
        swap16 (i + 2) len Data
      } else Some Data)"
  by pat_completeness auto
termination
  by (relation "measure (\<lambda>(i, len, Data). len - i)") auto

declare swap16.simps [simp del]

subsection \<open>Specification vocabulary\<close>

definition av_ready :: "WriterAVCallData_t \<Rightarrow> bool" where
  "av_ready c \<longleftrightarrow> av_data c \<noteq> None \<and> av_len c \<noteq> 0 \<and> 0 \<le> av_fd c"

text \<open>The caller's side: the data buffer holds the \<open>len\<close> bytes it announces.\<close>

definition av_wf :: "WriterAVCallData_t \<Rightarrow> bool" where
  "av_wf c \<longleftrightarrow> (case av_data c of None \<Rightarrow> True | Some d \<Rightarrow> unat (av_len c) \<le> length d)"

definition av_payload :: "WriterAVCallData_t \<Rightarrow> bytes" where
  "av_payload c = (case av_data c of None \<Rightarrow> [] | Some d \<Rightarrow> take (unat (av_len c)) d)"

definition pes_packet :: "byte \<Rightarrow> u64 \<Rightarrow> bytes \<Rightarrow> bytes" where
  "pes_packet sid pts body = InsertPesHeader (of_nat (length body)) sid pts 0 @ body"

definition pts_of :: "u64 \<Rightarrow> nat option" where
  "pts_of pts = (if pts = INVALID_PTS_VALUE then None else Some (unat pts mod 2 ^ 33))"

text \<open>
  Feeding a writer a sequence of calls. The state is the device log, together with the static
  variables of the writer where it has any.
\<close>

fun write_all :: "('c \<Rightarrow> 's \<Rightarrow> (int \<times> 's) option) \<Rightarrow> 'c list \<Rightarrow> 's \<Rightarrow> 's option" where
  "write_all w [] s = Some s"
| "write_all w (c # cs) s = do { (r, s) \<leftarrow> w c s; write_all w cs s }"

text \<open>The packets a one-packet writer leaves on the device for a sequence of calls.\<close>

definition pes_log :: "byte \<Rightarrow> (WriterAVCallData_t \<Rightarrow> bytes) \<Rightarrow> WriterAVCallData_t list \<Rightarrow> wlog" where
  "pes_log sid body cs =
     map (\<lambda>c. (av_fd c, pes_packet sid (av_Pts c) (body c))) (filter av_ready cs)"

definition pes_decoded :: "byte \<Rightarrow> u64 \<Rightarrow> bytes \<Rightarrow> pes_info" where
  "pes_decoded sid pts body =
     \<lparr>pes_sid = unat sid, pes_len = length (pes_packet sid pts body) - 6,
      pes_pts = pts_of pts, pes_payload = body\<rparr>"

text \<open>The packets of a frame: the PTS on the first packet only.\<close>

fun pes_packets :: "byte \<Rightarrow> u64 \<Rightarrow> bytes list \<Rightarrow> bytes list" where
  "pes_packets sid pts [] = []"
| "pes_packets sid pts (c # cs) = pes_packet sid pts c # pes_packets sid INVALID_PTS_VALUE cs"

text \<open>A concrete call, for the witnesses: file descriptor 5, PTS 90000, no private data.\<close>

definition example_call :: "bytes \<Rightarrow> WriterAVCallData_t" where
  "example_call bs =
     \<lparr>av_fd = 5, av_data = Some bs, av_len = of_nat (length bs), av_Pts = 90000,
      av_private_data = None, av_private_size = 0, av_FrameRate = 25000, av_FrameScale = 1000,
      av_Width = 720, av_Height = 576, av_Version = 0\<rparr>"

subsection \<open>Lemmas\<close>

lemma os_writev_eq [simp]: "os_writev dev fd iov log = os_write dev fd (concat iov) log"
  by (simp add: os_writev_def)

lemma mem_read_all [simp]: "n \<le> length bs \<Longrightarrow> mem_read (Some bs) 0 n = Some (take n bs)"
  by (simp add: mem_read_def)

lemma mem_read_NULL: "0 < n \<Longrightarrow> mem_read None off n = None"
  by (simp add: mem_read_def)

lemma mem_read_in [simp]:
  "off + n \<le> length bs \<Longrightarrow> mem_read (Some bs) off n = Some (take n (drop off bs))"
  by (simp add: mem_read_def)

lemma mem_get_in [simp]: "i < length bs \<Longrightarrow> mem_get bs i = Some (bs ! i)"
  by (simp add: mem_get_def)

lemma mem_put_in [simp]: "i < length bs \<Longrightarrow> mem_put bs i b = Some (bs[i := b])"
  by (simp add: mem_put_def)

lemma length_av_payload: "av_wf c \<Longrightarrow> av_data c \<noteq> None \<Longrightarrow> length (av_payload c) = unat (av_len c)"
  by (auto simp: av_wf_def av_payload_def)

lemma av_readyE:
  assumes "av_ready c" and "av_wf c"
  obtains d where "av_data c = Some d" and "unat (av_len c) \<le> length d" and "av_len c \<noteq> 0"
    and "0 \<le> av_fd c" and "av_payload c = take (unat (av_len c)) d"
  using assms by (auto simp: av_ready_def av_wf_def av_payload_def)

lemma word_of_nat_unat [simp]: "(of_nat (unat (w::'a::len word)) :: 'a word) = w"
  by simp

lemma example_call_simps [simp]:
  "av_fd (example_call bs) = 5" "av_data (example_call bs) = Some bs"
  "av_len (example_call bs) = of_nat (length bs)" "av_Pts (example_call bs) = 90000"
  "av_private_data (example_call bs) = None" "av_private_size (example_call bs) = 0"
  "av_FrameRate (example_call bs) = 25000"
  by (simp_all add: example_call_def)

lemma example_call_ok:
  assumes "0 < length bs" and "length bs < 4294967296"
  shows "av_ready (example_call bs)" and "av_wf (example_call bs)" and "av_payload (example_call bs) = bs"
  using assms by (simp_all add: av_ready_def av_wf_def av_payload_def unat_of_nat_small unat_pos)

lemma length_pes_packet:
  "length (pes_packet sid pts body) = 9 + (if pts \<noteq> INVALID_PTS_VALUE then 5 else 0) + length body"
  by (simp add: pes_packet_def length_InsertPesHeader)

text \<open>
  A packet of up to 65527 payload bytes has an exact length field: the number of bytes after the
  field itself, which is what a demultiplexer skips by.
\<close>

lemma parse_pes_packet:
  assumes "length body + 8 < 65536"
  shows "parse_pes (pes_packet sid pts body) =
    Some (pes_decoded sid pts body)"
proof -
  have "unat (pes_length_field (of_nat (length body)) pts 0)
      = length body + 3 + (if pts \<noteq> INVALID_PTS_VALUE then 5 else 0)"
    using assms
    by (simp add: pes_length_field_def unat_word_ariths unsigned_of_nat take_bit_nat_eq_self)
  then show ?thesis
    unfolding pes_packet_def [of sid pts body] parse_pes_header
    using assms length_pes_packet [of sid pts body]
    by (simp add: pes_decoded_def pes_packet_def [symmetric] pts_of_def pes_pic_bytes_def)
qed

lemma swap16_defined:
  "even (len - i) \<Longrightarrow> len \<le> length Data \<Longrightarrow> \<exists>Data'. swap16 i len Data = Some Data'"
proof (induction i len Data rule: swap16.induct)
  case (1 i len Data)
  show ?case
  proof (cases "i < len")
    case True
    with 1(2) have "even (len - (i + 2))" "i + 1 < len"
      by presburger+
    with True 1 show ?thesis by (simp add: swap16.simps [of i])
  qed (simp add: swap16.simps [of i])
qed

lemma swap16_odd:
  "odd (len - i) \<Longrightarrow> length Data = len \<Longrightarrow> swap16 i len Data = None"
proof (induction i len Data rule: swap16.induct)
  case (1 i len Data)
  from 1(2) have "i < len" by (cases "i < len") simp_all
  with 1 show ?case
    by (cases "i + 1 < len") (simp_all add: swap16.simps [of i] mem_get_def)
qed

lemma pes_packets_map: "pes_packets sid INVALID_PTS_VALUE cs = map (pes_packet sid INVALID_PTS_VALUE) cs"
  by (induction cs) simp_all

lemma pes_packets_append:
  "pes_packets sid pts (xs @ ys) =
     pes_packets sid pts xs @ pes_packets sid (if xs = [] then pts else INVALID_PTS_VALUE) ys"
  by (induction xs arbitrary: pts) simp_all

lemma parse_pes_packets:
  assumes "list_all (\<lambda>x. length x + 8 < 65536) (x # xs)"
  shows "map parse_pes (pes_packets sid pts (x # xs)) =
    Some (pes_decoded sid pts x) # map (\<lambda>x. Some (pes_decoded sid INVALID_PTS_VALUE x)) xs"
  using assms by (auto simp: pes_packets_map list_all_iff intro!: parse_pes_packet)

subsection \<open>The contract of a one-packet writer\<close>

text \<open>
  \<open>body\<close> is what the writer puts into the packet and \<open>safe\<close> the calls on which it stays inside
  its buffers. NULL and unusable calls are ignored with return code 0.
\<close>

locale pes_writer =
  fixes writeData :: "device \<Rightarrow> WriterAVCallData_t option \<Rightarrow> wlog \<Rightarrow> (int \<times> wlog) option"
    and sid :: byte
    and body :: "WriterAVCallData_t \<Rightarrow> bytes"
    and safe :: "WriterAVCallData_t \<Rightarrow> bool"
  assumes null: "writeData dev None log = Some (0, log)"
    and reject: "\<not> av_ready c \<Longrightarrow> writeData dev (Some c) log = Some (0, log)"
    and emit: "av_ready c \<Longrightarrow> safe c \<Longrightarrow>
      writeData dev (Some c) log = Some (os_write dev (av_fd c) (pes_packet sid (av_Pts c) (body c)) log)"
begin

lemma stream_log:
  "list_all safe cs \<Longrightarrow>
   write_all (writeData dev) (map Some cs) log = Some (log @ pes_log sid body cs)"
proof (induction cs arbitrary: log)
  case Nil
  then show ?case by (simp add: pes_log_def)
next
  case (Cons c cs)
  then show ?case
    by (cases "av_ready c") (simp_all add: reject emit os_write_def pes_log_def)
qed

lemma demux:
  assumes safe: "list_all safe cs" and small: "list_all (\<lambda>c. length (body c) + 8 < 65536) cs"
  shows "\<exists>log. write_all (writeData dev) (map Some cs) [] = Some log \<and>
    map (\<lambda>(fd, p). (fd, parse_pes p)) log =
      map (\<lambda>c. (av_fd c, Some (pes_decoded sid (av_Pts c) (body c)))) (filter av_ready cs)"
proof -
  have "map (\<lambda>(fd, p). (fd, parse_pes p)) (pes_log sid body cs) =
      map (\<lambda>c. (av_fd c, Some (pes_decoded sid (av_Pts c) (body c)))) (filter av_ready cs)"
    using small by (auto simp: pes_log_def list_all_iff parse_pes_packet)
  with stream_log [OF safe, where log = "[]"] show ?thesis by simp
qed

end

end
