(* ===== verification/Writer_Audio.thy ===== *)
theory Writer_Audio
  imports Writer_Base
begin

text \<open>
  The audio writers of libeplayer3 that emit one packet per call: \<open>output/writer/mp3.c\<close>,
  \<open>ac3.c\<close>, \<open>dts.c\<close>, \<open>flac.c\<close>, \<open>vorbis.c\<close>, \<open>aac.c\<close> and \<open>wma.c\<close>. All but the last
  are instances of \<open>pes_writer\<close>; \<open>aac.c\<close> patches an ADTS header in front of the access unit and
  \<open>wma.c\<close> sends the codec's private data once before the first packet.
\<close>

subsection \<open>mp3.c, ac3.c, flac.c, vorbis.c\<close>

definition mp3_reset :: int where
  "mp3_reset = 0"

definition mp3_writeData :: "device \<Rightarrow> WriterAVCallData_t option \<Rightarrow> wlog \<Rightarrow> (int \<times> wlog) option" where
  "mp3_writeData dev call_p log =
     (case call_p of
        None \<Rightarrow> Some (0, log)
      | Some call \<Rightarrow>
          if av_data call = None \<or> av_len call \<le> 0 then Some (0, log)
          else if av_fd call < 0 then Some (0, log)
          else do {
            let PesHeader = InsertPesHeader (av_len call) MPEG_AUDIO_PES_START_CODE (av_Pts call) 0;
            payload \<leftarrow> mem_read (av_data call) 0 (unat (av_len call));
            Some (os_writev dev (av_fd call) [PesHeader, payload] log)
          })"

definition ac3_reset :: int where
  "ac3_reset = 0"

definition ac3_writeData :: "device \<Rightarrow> WriterAVCallData_t option \<Rightarrow> wlog \<Rightarrow> (int \<times> wlog) option" where
  "ac3_writeData dev call_p log =
     (case call_p of
        None \<Rightarrow> Some (0, log)
      | Some call \<Rightarrow>
          if av_data call = None \<or> av_len call \<le> 0 then Some (0, log)
          else if av_fd call < 0 then Some (0, log)
          else do {
            let PesHeader = InsertPesHeader (av_len call) PRIVATE_STREAM_1_PES_START_CODE (av_Pts call) 0;
            payload \<leftarrow> mem_read (av_data call) 0 (unat (av_len call));
            Some (os_writev dev (av_fd call) [PesHeader, payload] log)
          })"

definition flac_reset :: int where
  "flac_reset = 0"

definition flac_writeData :: "device \<Rightarrow> WriterAVCallData_t option \<Rightarrow> wlog \<Rightarrow> (int \<times> wlog) option" where
  "flac_writeData dev call_p log =
     (case call_p of
        None \<Rightarrow> Some (0, log)
      | Some call \<Rightarrow>
          if av_data call = None \<or> av_len call \<le> 0 then Some (0, log)
          else if av_fd call < 0 then Some (0, log)
          else do {
            let PesHeader = InsertPesHeader (av_len call) MPEG_AUDIO_PES_START_CODE (av_Pts call) 0;
            payload \<leftarrow> mem_read (av_data call) 0 (unat (av_len call));
            Some (os_writev dev (av_fd call) [PesHeader, payload] log)
          })"

definition vorbis_reset :: int where
  "vorbis_reset = 0"

definition vorbis_writeData :: "device \<Rightarrow> WriterAVCallData_t option \<Rightarrow> wlog \<Rightarrow> (int \<times> wlog) option" where
  "vorbis_writeData dev call_p log =
     (case call_p of
        None \<Rightarrow> Some (0, log)
      | Some call \<Rightarrow>
          if av_data call = None \<or> av_len call \<le> 0 then Some (0, log)
          else if av_fd call < 0 then Some (0, log)
          else do {
            let PesHeader = InsertPesHeader (av_len call) MPEG_AUDIO_PES_START_CODE (av_Pts call) 0;
            payload \<leftarrow> mem_read (av_data call) 0 (unat (av_len call));
            let PacketStart = PesHeader @ payload;
            Some (os_write dev (av_fd call) PacketStart log)
          })"

subsection \<open>dts.c\<close>

text \<open>The 16-bit swap works on a copy of the data; an odd length makes it leave the copy.\<close>

definition dts_reset :: int where
  "dts_reset = 0"

definition dts_writeData :: "device \<Rightarrow> WriterAVCallData_t option \<Rightarrow> wlog \<Rightarrow> (int \<times> wlog) option" where
  "dts_writeData dev call_p log =
     (case call_p of
        None \<Rightarrow> Some (0, log)
      | Some call \<Rightarrow>
          if av_data call = None \<or> av_len call \<le> 0 then Some (0, log)
          else if av_fd call < 0 then Some (0, log)
          else do {
            Data \<leftarrow> mem_read (av_data call) 0 (unat (av_len call));
            Data \<leftarrow> swap16 0 (unat (av_len call)) Data;
            let PesHeader = InsertPesHeader (av_len call) MPEG_AUDIO_PES_START_CODE (av_Pts call) 0;
            payload \<leftarrow> mem_read (av_data call) 0 (unat (av_len call));
            let PacketStart = PesHeader @ payload;
            Some (os_write dev (av_fd call) PacketStart log)
          })"

subsection \<open>aac.c\<close>

definition AAC_HEADER_LENGTH :: nat where
  "AAC_HEADER_LENGTH = 7"

definition DefaultAACHeader :: bytes where
  "DefaultAACHeader = [0xff, 0xf1, 0x50, 0x80, 0x00, 0x1f, 0xfc]"

definition aac_get_sample_rate_index :: "u32 \<Rightarrow> nat" where
  "aac_get_sample_rate_index sample_rate =
     (if 96000 \<le> sample_rate then 0
      else if 88200 \<le> sample_rate then 1
      else if 64000 \<le> sample_rate then 2
      else if 48000 \<le> sample_rate then 3
      else if 44100 \<le> sample_rate then 4
      else if 32000 \<le> sample_rate then 5
      else if 24000 \<le> sample_rate then 6
      else if 22050 \<le> sample_rate then 7
      else if 16000 \<le> sample_rate then 8
      else if 12000 \<le> sample_rate then 9
      else if 11025 \<le> sample_rate then 10
      else if 8000 \<le> sample_rate then 11
      else if 7350 \<le> sample_rate then 12
      else 13)"

definition aac_reset :: int where
  "aac_reset = 0"

text \<open>The three stores that patch the frame length into the seven byte ADTS header.\<close>

definition aac_patch :: "bytes \<Rightarrow> u32 \<Rightarrow> bytes" where
  "aac_patch ExtraData PacketLength =
     (let ExtraData = ExtraData[3 := ExtraData ! 3 OR ucast (drop_bit 12 PacketLength AND 0x3)];
          ExtraData = ExtraData[4 := ucast (drop_bit 3 PacketLength AND 0xff)];
          ExtraData = ExtraData[5 := ExtraData ! 5 OR ucast (push_bit 5 PacketLength AND 0xe0)]
      in ExtraData)"

definition aac_writeData ::
  "device \<Rightarrow> WriterAVCallData_t option \<Rightarrow> wlog \<Rightarrow> (int \<times> WriterAVCallData_t option \<times> wlog) option" where
  "aac_writeData dev call_p log =
     (case call_p of
        None \<Rightarrow> Some (0, None, log)
      | Some call \<Rightarrow>
          (let PacketLength = av_len call + of_nat AAC_HEADER_LENGTH
           in if av_data call = None \<or> av_len call \<le> 0 then Some (0, Some call, log)
          else if av_fd call < 0 then Some (0, Some call, log)
          else do {
            let call = (if av_private_data call = None
                        then call\<lparr>av_private_data := Some DefaultAACHeader,
                                  av_private_size := of_nat AAC_HEADER_LENGTH\<rparr>
                        else call);
            ExtraData \<leftarrow> mem_read (av_private_data call) 0 AAC_HEADER_LENGTH;
            let ExtraData = aac_patch ExtraData PacketLength;
            let PesHeader = InsertPesHeader PacketLength AAC_AUDIO_PES_START_CODE (av_Pts call) 0;
            payload \<leftarrow> mem_read (av_data call) 0 (unat (av_len call));
            let (r, log) = os_writev dev (av_fd call) [PesHeader, ExtraData, payload] log;
            Some (r, Some call, log)
          }))"

subsection \<open>wma.c\<close>

text \<open>The state is the static \<open>initialHeader\<close> and the device log.\<close>

definition wma_reset :: "bool \<times> wlog \<Rightarrow> int \<times> bool \<times> wlog" where
  "wma_reset s = (0, True, snd s)"

definition wma_writeData ::
  "device \<Rightarrow> WriterAVCallData_t option \<Rightarrow> bool \<times> wlog \<Rightarrow> (int \<times> bool \<times> wlog) option" where
  "wma_writeData dev call_p s =
     (let (initialHeader, log) = s in
      case call_p of
        None \<Rightarrow> Some (0, initialHeader, log)
      | Some call \<Rightarrow>
          if av_data call = None \<or> av_len call \<le> 0 then Some (0, initialHeader, log)
          else if av_fd call < 0 then Some (0, initialHeader, log)
          else if initialHeader \<and> (av_private_size call \<le> 0 \<or> av_private_data call = None)
          then Some (-1, initialHeader, log)
          else do {
            (len, initialHeader, log) \<leftarrow>
              (if initialHeader then do {
                 let PesHeader = InsertPesHeader (av_private_size call) MPEG_AUDIO_PES_START_CODE 0 0;
                 priv \<leftarrow> mem_read (av_private_data call) 0 (unat (av_private_size call));
                 let (len, log) = os_write dev (av_fd call) (PesHeader @ priv) log;
                 Some (len, False, log)
               } else Some (0, initialHeader, log));
            (if av_len call > 0 \<and> av_data call \<noteq> None then do {
               let PesHeader = InsertPesHeader (av_len call) MPEG_AUDIO_PES_START_CODE (av_Pts call) 0;
               payload \<leftarrow> mem_read (av_data call) 0 (unat (av_len call));
               let (len, log) = os_write dev (av_fd call) (PesHeader @ payload) log;
               Some (len, initialHeader, log)
             } else Some (len, initialHeader, log))
          })"

subsection \<open>Specification vocabulary\<close>

text \<open>The ADTS frame header, field widths from the table in \<open>aac.c\<close> (A to O).\<close>

definition adts_widths :: "nat list" where
  "adts_widths = [12, 1, 2, 1, 2, 4, 1, 3, 1, 1, 1, 1, 13, 11, 2]"

definition adts_fields :: "bytes \<Rightarrow> nat list option" where
  "adts_fields h = read_fields adts_widths (bytes_bits h)"

text \<open>
  What the three stores of \<open>aac_patch\<close> leave in the 13-bit frame length field: bits 12 and 13 of
  the length above its low eleven bits.
\<close>

definition adts_stored_length :: "u32 \<Rightarrow> nat" where
  "adts_stored_length n = unat n div 4096 mod 4 * 2048 + unat n mod 2048"

definition aac_template :: "WriterAVCallData_t \<Rightarrow> bytes" where
  "aac_template c = (case av_private_data c of None \<Rightarrow> DefaultAACHeader | Some h \<Rightarrow> take 7 h)"

definition aac_body :: "WriterAVCallData_t \<Rightarrow> bytes" where
  "aac_body c = aac_patch (aac_template c) (av_len c + 7) @ av_payload c"

text \<open>A header whose frame length bits are still zero, as the demuxer hands it over.\<close>

definition adts_template_ok :: "bytes \<Rightarrow> bool" where
  "adts_template_ok h \<longleftrightarrow> length h = 7 \<and> h ! 3 AND 0x3 = 0 \<and> h ! 5 AND 0xe0 = 0"

definition aac_safe :: "WriterAVCallData_t \<Rightarrow> bool" where
  "aac_safe c \<longleftrightarrow>
     av_wf c \<and> (case av_private_data c of None \<Rightarrow> True | Some h \<Rightarrow> 7 \<le> length h)"

definition aac_write :: "device \<Rightarrow> WriterAVCallData_t option \<Rightarrow> wlog \<Rightarrow> (int \<times> wlog) option" where
  "aac_write dev c log = map_option (\<lambda>(r, c', log'). (r, log')) (aac_writeData dev c log)"

definition dts_safe :: "WriterAVCallData_t \<Rightarrow> bool" where
  "dts_safe c \<longleftrightarrow> av_wf c \<and> even (unat (av_len c))"

text \<open>The writers that send an access unit unchanged, with their stream ids.\<close>

definition plain_writers ::
  "((device \<Rightarrow> WriterAVCallData_t option \<Rightarrow> wlog \<Rightarrow> (int \<times> wlog) option) \<times> byte) list" where
  "plain_writers =
     [(mp3_writeData, MPEG_AUDIO_PES_START_CODE), (ac3_writeData, PRIVATE_STREAM_1_PES_START_CODE),
      (flac_writeData, MPEG_AUDIO_PES_START_CODE), (vorbis_writeData, MPEG_AUDIO_PES_START_CODE)]"

definition wma_header_packet :: "WriterAVCallData_t \<Rightarrow> int \<times> bytes" where
  "wma_header_packet c =
     (av_fd c, pes_packet MPEG_AUDIO_PES_START_CODE 0
        (take (unat (av_private_size c)) (the (av_private_data c))))"

definition wma_safe :: "WriterAVCallData_t \<Rightarrow> bool" where
  "wma_safe c \<longleftrightarrow> av_wf c \<and> av_private_size c \<noteq> 0 \<and>
     (case av_private_data c of None \<Rightarrow> False | Some p \<Rightarrow> unat (av_private_size c) \<le> length p)"

subsection \<open>The one-packet writers keep the contract\<close>

lemma not_ready_guards:
  "\<not> av_ready c \<longleftrightarrow> (av_data c = None \<or> av_len c \<le> 0) \<or> av_fd c < 0"
  by (auto simp: av_ready_def)

interpretation mp3: pes_writer mp3_writeData MPEG_AUDIO_PES_START_CODE av_payload av_wf
  by unfold_locales
     (auto simp: mp3_writeData_def not_ready_guards pes_packet_def elim!: av_readyE)

interpretation ac3: pes_writer ac3_writeData PRIVATE_STREAM_1_PES_START_CODE av_payload av_wf
  by unfold_locales
     (auto simp: ac3_writeData_def not_ready_guards pes_packet_def elim!: av_readyE)

interpretation flac: pes_writer flac_writeData MPEG_AUDIO_PES_START_CODE av_payload av_wf
  by unfold_locales
     (auto simp: flac_writeData_def not_ready_guards pes_packet_def elim!: av_readyE)

interpretation vorbis: pes_writer vorbis_writeData MPEG_AUDIO_PES_START_CODE av_payload av_wf
  by unfold_locales
     (auto simp: vorbis_writeData_def not_ready_guards pes_packet_def elim!: av_readyE)

interpretation dts: pes_writer dts_writeData MPEG_AUDIO_PES_START_CODE av_payload dts_safe
proof unfold_locales
  fix dev c log
  assume r: "av_ready c" and "dts_safe c"
  then have wf: "av_wf c" and ev: "even (unat (av_len c))" by (simp_all add: dts_safe_def)
  obtain d where d: "av_data c = Some d" "unat (av_len c) \<le> length d" "av_len c \<noteq> 0"
    "0 \<le> av_fd c" "av_payload c = take (unat (av_len c)) d"
    using r wf by (rule av_readyE)
  then obtain x where "swap16 0 (unat (av_len c)) (take (unat (av_len c)) d) = Some x"
    using swap16_defined [of "unat (av_len c)" 0 "take (unat (av_len c)) d"] ev by auto
  with d show "dts_writeData dev (Some c) log =
      Some (os_write dev (av_fd c) (pes_packet MPEG_AUDIO_PES_START_CODE (av_Pts c) (av_payload c)) log)"
    by (auto simp: dts_writeData_def pes_packet_def)
qed (auto simp: dts_writeData_def not_ready_guards)

lemma length_aac_patch [simp]: "length (aac_patch h n) = length h"
  by (simp add: aac_patch_def Let_def)

lemma length_aac_body:
  "aac_safe c \<Longrightarrow> av_data c \<noteq> None \<Longrightarrow> length (aac_body c) = unat (av_len c) + 7"
  by (auto simp: aac_safe_def aac_body_def aac_template_def length_av_payload DefaultAACHeader_def
      split: option.splits)

interpretation aac: pes_writer aac_write AAC_AUDIO_PES_START_CODE aac_body aac_safe
proof unfold_locales
  fix dev c log
  assume r: "av_ready c" and s: "aac_safe c"
  then have wf: "av_wf c" by (simp add: aac_safe_def)
  obtain d where d: "av_data c = Some d" "unat (av_len c) \<le> length d" "av_len c \<noteq> 0"
    "0 \<le> av_fd c" "av_payload c = take (unat (av_len c)) d"
    using r wf by (rule av_readyE)
  have "of_nat (length (aac_body c)) = av_len c + 7"
    using length_aac_body [OF s] d(1) by simp
  with d s show "aac_write dev (Some c) log =
      Some (os_write dev (av_fd c) (pes_packet AAC_AUDIO_PES_START_CODE (av_Pts c) (aac_body c)) log)"
    by (auto simp: aac_write_def aac_writeData_def pes_packet_def AAC_HEADER_LENGTH_def aac_body_def
        aac_template_def aac_safe_def DefaultAACHeader_def os_write_def Let_def
        add.commute [of "7::u32"] split: option.splits)
qed (auto simp: aac_write_def aac_writeData_def not_ready_guards Let_def)

subsection \<open>The ADTS header\<close>

lemma list7: "length h = 7 \<Longrightarrow> h = [h ! 0, h ! 1, h ! 2, h ! 3, h ! 4, h ! 5, h ! 6]"
  by (simp add: list_eq_iff_nth_eq numeral_eq_Suc less_Suc_eq)

lemma template_bits:
  assumes "adts_template_ok h"
  shows "\<not> bit (h ! 3) 0" "\<not> bit (h ! 3) (Suc 0)" "\<not> bit (h ! 5) 5" "\<not> bit (h ! 5) 6" "\<not> bit (h ! 5) 7"
proof -
  have "bit (h ! 3 AND 3) i = False" "bit (h ! 5 AND 0xe0) i = False" for i
    using assms by (simp_all add: adts_template_ok_def)
  from this(1) [of 0] this(1) [of 1] this(2) [of 5] this(2) [of 6] this(2) [of 7]
  show "\<not> bit (h ! 3) 0" "\<not> bit (h ! 3) (Suc 0)" "\<not> bit (h ! 5) 5" "\<not> bit (h ! 5) 6" "\<not> bit (h ! 5) 7"
    by (simp_all add: bit_simps bit_numeral_rec)
qed

lemma aac_patch_list:
  assumes "length h = 7"
  shows "aac_patch h n =
    [h ! 0, h ! 1, h ! 2, h ! 3 OR ucast (drop_bit 12 n AND 0x3), ucast (drop_bit 3 n AND 0xff),
     h ! 5 OR ucast (push_bit 5 n AND 0xe0), h ! 6]"
  using assms by (subst list7 [OF assms]) (simp add: aac_patch_def Let_def nth_Cons_numeral)

lemma aac_patch_length_bits:
  assumes "adts_template_ok h"
  shows "take 13 (drop 30 (bytes_bits (aac_patch h n))) = bits_of 2 (drop_bit 12 n) @ bits_of 11 n"
proof -
  have "length h = 7" using assms by (simp add: adts_template_ok_def)
  then show ?thesis
    using template_bits [OF assms]
    by (simp add: aac_patch_list bits_of_numeral bits_of_Suc bit_simps bit_numeral_rec)
qed

lemma aac_patch_other_bits:
  assumes "length h = 7"
  shows "take 30 (bytes_bits (aac_patch h n)) = take 30 (bytes_bits h)"
    "drop 43 (bytes_bits (aac_patch h n)) = drop 43 (bytes_bits h)"
   apply (subst (2) list7 [OF assms])
   apply (simp add: aac_patch_list assms bits_of_numeral bits_of_Suc bit_simps bit_numeral_rec)
   apply (subst (2) list7 [OF assms])
   apply (simp add: aac_patch_list assms bits_of_numeral bits_of_Suc bit_simps bit_numeral_rec)
  done

lemma bits_val_stored: "bits_val (bits_of 2 (drop_bit 12 n) @ bits_of 11 (n::u32)) = adts_stored_length n"
  by (simp add: bits_val_append bits_val_bits_of adts_stored_length_def unsigned_take_bit_eq unat_drop_bit_eq
      take_bit_eq_mod [where 'a = nat] drop_bit_eq_div [where 'a = nat])

lemma stored_length_exact:
  assumes "unat n < 8192"
  shows "adts_stored_length n = unat n \<longleftrightarrow> unat n < 2048"
proof -
  define q where "q = unat n div 2048"
  have n: "unat n = q * 2048 + unat n mod 2048" by (simp add: q_def)
  have d: "unat n div 4096 = q div 2" by (simp add: q_def div_mult2_eq [symmetric])
  have "q < 4" using assms by (simp add: q_def)
  then have "q div 2 < 4" and "q div 2 = q \<longleftrightarrow> q = 0" by presburger+
  moreover have "unat n < 2048 \<longleftrightarrow> q = 0" by (simp add: q_def div_eq_0_iff)
  moreover have "q div 2 * 2048 + unat n mod 2048 = unat n \<longleftrightarrow> q div 2 = q"
    using n by linarith
  ultimately show ?thesis by (simp add: adts_stored_length_def d)
qed

lemma adts_fields_patch:
  assumes ok: "adts_template_ok h"
  shows "\<exists>fs. adts_fields h = Some fs \<and> adts_fields (aac_patch h n) = Some (fs[12 := adts_stored_length n])"
proof -
  have l: "length h = 7" using ok by (simp add: adts_template_ok_def)
  let ?B = "bytes_bits h" and ?C = "bytes_bits (aac_patch h n)"
  let ?P = "take 30 ?B" and ?S = "drop 43 ?B" and ?L = "bits_of 2 (drop_bit 12 n) @ bits_of 11 n"
  let ?ms = "[12, 1, 2, 1, 2, 4, 1, 3, 1, 1, 1, 1]" and ?ns = "[11, 2]"
  obtain f1 where f1: "read_fields ?ms ?P = Some f1" "length f1 = 12"
    using read_fields_Some [of ?ms ?P] l by auto
  obtain f2 where f2: "read_fields ?ns ?S = Some f2"
    using read_fields_Some [of ?ns ?S] l by auto
  have cut: "x = take 30 x @ take 13 (drop 30 x) @ drop 43 x" for x :: "bool list"
    using append_take_drop_id [of 30 x] append_take_drop_id [of 13 "drop 30 x"] by simp
  have read: "read_fields adts_widths (?P @ v @ ?S) = Some (f1 @ bits_val v # f2)" if "length v = 13" for v
  proof -
    have "read_fields (?ms @ (13 # ?ns)) (?P @ v @ ?S) = map_option ((@) f1) (read_fields (13 # ?ns) (v @ ?S))"
      by (rule read_fields_append) (use l f1 in simp_all)
    with f2 that show ?thesis by (simp add: adts_widths_def)
  qed
  have B: "?B = ?P @ take 13 (drop 30 ?B) @ ?S" by (rule cut)
  have C: "?C = ?P @ ?L @ ?S"
    using cut [of ?C] aac_patch_other_bits [OF l, of n] aac_patch_length_bits [OF ok, of n] by simp
  have "read_fields adts_widths ?B = Some (f1 @ bits_val (take 13 (drop 30 ?B)) # f2)"
    by (subst B, rule read) (simp add: l)
  moreover have "read_fields adts_widths ?C = Some (f1 @ adts_stored_length n # f2)"
    by (subst C, subst read) (simp_all add: bits_val_stored)
  ultimately show ?thesis
    using f1(2) by (simp add: adts_fields_def list_update_append)
qed

lemma adts_template_default: "adts_template_ok DefaultAACHeader"
  by (simp add: adts_template_ok_def DefaultAACHeader_def)

subsection \<open>wma.c: codec header once, then one packet per call\<close>

definition wma_running :: "device \<Rightarrow> WriterAVCallData_t option \<Rightarrow> wlog \<Rightarrow> (int \<times> wlog) option" where
  "wma_running dev c log = map_option (\<lambda>(r, i, log'). (r, log')) (wma_writeData dev c (False, log))"

interpretation wma: pes_writer wma_running MPEG_AUDIO_PES_START_CODE av_payload av_wf
  by unfold_locales
     (auto simp: wma_running_def wma_writeData_def not_ready_guards pes_packet_def os_write_def
      Let_def word_greater_zero_iff
      elim!: av_readyE)

lemma wma_stays_running:
  "wma_writeData dev c (False, log) = Some (r, i, log') \<Longrightarrow> \<not> i"
  by (auto simp: wma_writeData_def os_write_def Let_def split: option.splits if_splits bind_splits)

lemma wma_running_all:
  "list_all wma_safe cs \<Longrightarrow>
   write_all (wma_writeData dev) (map Some cs) (False, log)
     = Some (False, log @ pes_log MPEG_AUDIO_PES_START_CODE av_payload cs)"
proof (induction cs arbitrary: log)
  case Nil
  then show ?case by (simp add: pes_log_def)
next
  case (Cons c cs)
  then have wf: "av_wf c" by (simp add: wma_safe_def)
  let ?log = "log @ pes_log MPEG_AUDIO_PES_START_CODE av_payload [c]"
  have "write_all (wma_running dev) (map Some [c]) log = Some ?log"
    using wf by (intro wma.stream_log) simp
  then obtain r i where "wma_writeData dev (Some c) (False, log) = Some (r, i, ?log)"
    by (auto simp: wma_running_def split: bind_splits)
  moreover from this have "\<not> i" by (rule wma_stays_running)
  moreover have "pes_log sid b (c # cs) = pes_log sid b [c] @ pes_log sid b cs" for sid b
    by (simp add: pes_log_def)
  ultimately show ?case using Cons by simp
qed

lemma wma_first:
  assumes "av_ready c" and "wma_safe c"
  shows "\<exists>r. wma_writeData dev (Some c) (True, log) =
    Some (r, False, log @ wma_header_packet c # pes_log MPEG_AUDIO_PES_START_CODE av_payload [c])"
proof -
  have "av_wf c" using assms by (simp add: wma_safe_def)
  with assms show ?thesis
    by (auto simp: wma_writeData_def wma_safe_def wma_header_packet_def pes_log_def pes_packet_def
        os_write_def Let_def word_greater_zero_iff split: option.splits elim!: av_readyE)
qed

lemma wma_rejects: "\<not> av_ready c \<Longrightarrow> wma_writeData dev (Some c) s = Some (0, s)"
  by (cases s) (auto simp: wma_writeData_def not_ready_guards)

lemma wma_all:
  "list_all wma_safe cs \<Longrightarrow>
   write_all (wma_writeData dev) (map Some cs) (True, log) =
     Some (filter av_ready cs = [],
           log @ map wma_header_packet (take 1 (filter av_ready cs))
               @ pes_log MPEG_AUDIO_PES_START_CODE av_payload cs)"
proof (induction cs)
  case Nil
  then show ?case by (simp add: pes_log_def)
next
  case (Cons c cs)
  show ?case
  proof (cases "av_ready c")
    case True
    with Cons.prems obtain r where "wma_writeData dev (Some c) (True, log) =
      Some (r, False, log @ wma_header_packet c # pes_log MPEG_AUDIO_PES_START_CODE av_payload [c])"
      using wma_first [of c dev log] by auto
    with True Cons.prems show ?thesis by (simp add: wma_running_all pes_log_def)
  next
    case False
    with Cons show ?thesis by (simp add: wma_rejects pes_log_def)
  qed
qed

subsection \<open>Properties\<close>

text \<open>
  Claim C2. What the mp3, ac3, flac and vorbis writers put on the device decodes to what they were
  given: for any sequence of calls whose buffers are as long as announced and whose access units
  fit one packet, the writer never fails, and a PES reader finds exactly one packet per usable
  call, in order and on the call's file descriptor, with the writer's stream id, an exact length
  field, the call's PTS and the access unit itself; unusable calls leave no trace.
\<close>

theorem plain_writers_demux:
  assumes "(w, sid) \<in> set plain_writers" and "list_all av_wf cs"
    and "list_all (\<lambda>c. length (av_payload c) + 8 < 65536) cs"
  shows "\<exists>log. write_all (w dev) (map Some cs) [] = Some log \<and>
    map (\<lambda>(fd, p). (fd, parse_pes p)) log =
      map (\<lambda>c. (av_fd c, Some (pes_decoded sid (av_Pts c) (av_payload c)))) (filter av_ready cs)"
  using assms mp3.demux [of cs dev] ac3.demux [of cs dev] flac.demux [of cs dev] vorbis.demux [of cs dev]
  by (auto simp: plain_writers_def)

theorem plain_writers_demux_witness:
  "\<exists>log. write_all (ac3_writeData (\<lambda>l fd b. int (length b))) [Some (example_call [0x0b, 0x77, 1])] [] = Some log \<and>
    map (\<lambda>(fd, p). (fd, parse_pes p)) log =
      [(5, Some (pes_decoded PRIVATE_STREAM_1_PES_START_CODE 90000 [0x0b, 0x77, 1]))]"
  using plain_writers_demux [of ac3_writeData PRIVATE_STREAM_1_PES_START_CODE "[example_call [0x0b, 0x77, 1]]"
      "\<lambda>l fd b. int (length b)"]
  by (simp add: plain_writers_def example_call_def av_wf_def av_payload_def av_ready_def)

text \<open>
  \<open>dts.c\<close> swaps the bytes of a copy but sends the data as it came: on an even length the
  packet carries the access unit unswapped. On an odd length the swap loop accesses the byte
  behind its copy, so the call has no defined result.
\<close>

theorem dts_sends_unswapped:
  assumes "av_ready c" and "av_wf c"
  shows "dts_writeData dev (Some c) log =
    (if even (unat (av_len c))
     then Some (os_write dev (av_fd c)
                  (pes_packet MPEG_AUDIO_PES_START_CODE (av_Pts c) (av_payload c)) log)
     else None)"
proof (cases "even (unat (av_len c))")
  case True
  with assms dts.emit [of c dev log] show ?thesis by (simp add: dts_safe_def)
next
  case False
  obtain d where d: "av_data c = Some d" "unat (av_len c) \<le> length d" "av_len c \<noteq> 0" "0 \<le> av_fd c"
    using assms by (rule av_readyE)
  with False show ?thesis
    using swap16_odd [of "unat (av_len c)" 0 "take (unat (av_len c)) d"] by (simp add: dts_writeData_def)
qed

theorem dts_sends_unswapped_witness:
  "dts_writeData (\<lambda>l fd b. 0) (Some (example_call [0x7f, 0xfe])) [] =
     Some (0, [(5, pes_packet MPEG_AUDIO_PES_START_CODE 90000 [0x7f, 0xfe])])
   \<and> dts_writeData (\<lambda>l fd b. 0) (Some (example_call [0x7f])) [] = None"
  using dts_sends_unswapped [of "example_call [0x7f, 0xfe]" "\<lambda>l fd b. 0" "[]"]
    dts_sends_unswapped [of "example_call [0x7f]" "\<lambda>l fd b. 0" "[]"]
  by (simp add: example_call_def av_ready_def av_wf_def av_payload_def os_write_def)

text \<open>
  \<open>aac.c\<close> sends one packet per usable call that holds the patched ADTS header and the
  access unit. The header differs from the template (private data or the built-in default) in the
  frame length field only; the field holds the frame length, header included, exactly for frames
  below 2048 bytes. Up to 8191 bytes, which the 13-bit field could express, it is wrong, because
  the code shifts the length by 12 instead of 11.
\<close>

theorem aac_adts_header:
  assumes "av_ready c" and "aac_safe c" and "adts_template_ok (aac_template c)"
  shows "\<exists>h fs. aac_write dev (Some c) log =
      Some (os_write dev (av_fd c) (pes_packet AAC_AUDIO_PES_START_CODE (av_Pts c) (h @ av_payload c)) log)
    \<and> adts_fields (aac_template c) = Some fs
    \<and> adts_fields h = Some (fs[12 := adts_stored_length (av_len c + 7)])
    \<and> (unat (av_len c + 7) < 8192 \<longrightarrow>
        (adts_stored_length (av_len c + 7) = unat (av_len c + 7) \<longleftrightarrow> unat (av_len c + 7) < 2048))"
  using aac.emit [OF assms(1,2), of dev log] adts_fields_patch [OF assms(3), of "av_len c + 7"]
    stored_length_exact [of "av_len c + 7"]
  by (auto simp: aac_body_def)

theorem aac_adts_header_witness:
  "\<exists>h fs. aac_write (\<lambda>l fd b. 0) (Some (example_call [0x21, 0x10])) [] =
      Some (os_write (\<lambda>l fd b. 0) 5 (pes_packet AAC_AUDIO_PES_START_CODE 90000 (h @ [0x21, 0x10])) [])
    \<and> adts_fields DefaultAACHeader = Some fs \<and> adts_fields h = Some (fs[12 := 9])"
  using aac_adts_header [of "example_call [0x21, 0x10]" "\<lambda>l fd b. 0" "[]"]
  by (simp add: example_call_def av_ready_def aac_safe_def av_wf_def aac_template_def av_payload_def
      adts_template_default adts_stored_length_def)

text \<open>
  After \<open>reset\<close> the wma writer sends the codec's private data exactly once, with PTS 0,
  in front of the first usable call, and then one packet per usable call.
\<close>

theorem wma_stream:
  assumes "list_all wma_safe cs"
  shows "write_all (wma_writeData dev) (map Some cs) (snd (wma_reset (i, log))) =
     Some (filter av_ready cs = [],
           log @ map wma_header_packet (take 1 (filter av_ready cs))
               @ pes_log MPEG_AUDIO_PES_START_CODE av_payload cs)"
  using wma_all [OF assms] by (simp add: wma_reset_def)

theorem wma_stream_witness:
  "write_all (wma_writeData (\<lambda>l fd b. 0))
      (map Some [example_call [1, 2]\<lparr>av_private_data := Some [9], av_private_size := 1\<rparr>,
                 example_call [1, 2]\<lparr>av_private_data := Some [9], av_private_size := 1\<rparr>])
      (snd (wma_reset (False, []))) =
     Some (False, [(5, pes_packet MPEG_AUDIO_PES_START_CODE 0 [9]),
                   (5, pes_packet MPEG_AUDIO_PES_START_CODE 90000 [1, 2]),
                   (5, pes_packet MPEG_AUDIO_PES_START_CODE 90000 [1, 2])])"
  using wma_stream [of "[example_call [1, 2]\<lparr>av_private_data := Some [9], av_private_size := 1\<rparr>, example_call [1, 2]\<lparr>av_private_data := Some [9], av_private_size := 1\<rparr>]"
      "\<lambda>l fd b. 0" False "[]"]
  by (simp add: example_call_def av_ready_def wma_safe_def av_wf_def av_payload_def wma_header_packet_def
      pes_log_def)

end
