(* ===== verification/Writer_Pcm.thy ===== *)
theory Writer_Pcm
  imports Writer_Base
begin

text \<open>
  The PCM writer of libeplayer3, \<open>output/writer/pcm.c\<close> and \<open>include/pcm.h\<close>: it cuts a PCM
  stream into packets of a fixed number of bytes, keeps what is left of a call in a break buffer
  for the next one, converts the samples to big endian DVD order and sends each piece behind an
  18 byte PES header and a 14 byte private header kept in static arrays.
\<close>

subsection \<open>State and constants\<close>

record pcmPrivateData_t =
  uNoOfChannels :: int
  uSampleRate :: int
  uBitsPerSample :: int
  bLittleEndian :: int

text \<open>The static variables of \<open>pcm.c\<close>.\<close>

record pcm_state =
  initialHeader :: bool
  SubFrameLen :: u32
  SubFramesPerPES :: u32
  lpcm_pes :: bytes
  lpcm_prv :: bytes
  breakBuffer :: bytes
  breakBufferFillSize :: u32

definition clpcm_pes :: bytes where
  "clpcm_pes = [0x00, 0x00, 0x01, 0xBD, 0x07, 0xF1, 0x81, 0x81, 0x09,
                0x21, 0x00, 0x01, 0x00, 0x01, 0x1E, 0x60, 0x0A, 0xFF]"

definition clpcm_prv :: bytes where
  "clpcm_prv = [0xA0, 0, 0, 0x0A, 0, 9, 0x00, 0x0F, 0x0F, 0, 0, 0x80, 0, 0]"

definition pcm_init :: pcm_state where
  "pcm_init = \<lparr>initialHeader = True, SubFrameLen = 0, SubFramesPerPES = 0,
     lpcm_pes = replicate 18 0, lpcm_prv = replicate 14 0,
     breakBuffer = replicate 8192 0, breakBufferFillSize = 0\<rparr>"

text \<open>
  \<open>call->private_data\<close> is cast to \<open>pcmPrivateData_t*\<close>: four 32-bit integers in the little
  endian order of the box.
\<close>

definition le_int :: "bytes \<Rightarrow> int" where
  "le_int bs = sint (ucast (bs ! 0) OR push_bit 8 (ucast (bs ! 1)) OR push_bit 16 (ucast (bs ! 2))
                     OR push_bit 24 (ucast (bs ! 3)) :: u32)"

definition pcm_private :: "bytes option \<Rightarrow> pcmPrivateData_t option" where
  "pcm_private p = do {
     bs \<leftarrow> mem_read p 0 16;
     Some \<lparr>uNoOfChannels = le_int (take 4 bs), uSampleRate = le_int (take 4 (drop 4 bs)),
           uBitsPerSample = le_int (take 4 (drop 8 bs)), bLittleEndian = le_int (take 4 (drop 12 bs))\<rparr>
   }"

subsection \<open>prepareClipPlay\<close>

text \<open>C division of an \<open>int\<close> by 8, which rounds towards zero.\<close>

definition c_div8 :: "int \<Rightarrow> int" where
  "c_div8 b = (if 0 \<le> b then b div 8 else - ((- b) div 8))"

definition prepareClipPlay :: "pcmPrivateData_t \<Rightarrow> pcm_state \<Rightarrow> (int \<times> pcm_state) option" where
  "prepareClipPlay p st =
     (let st = st\<lparr>SubFrameLen := 0, SubFramesPerPES := 0, breakBufferFillSize := 0,
                  lpcm_pes := clpcm_pes, lpcm_prv := clpcm_prv\<rparr>;
          rate = uSampleRate p;
          prv8 = (\<lambda>v st. st\<lparr>lpcm_prv := (lpcm_prv st)[8 := lpcm_prv st ! 8 OR v]\<rparr>);
          st = (if rate = 48000 then st\<lparr>SubFrameLen := 40\<rparr>
                else if rate = 96000 then (prv8 0x10 st)\<lparr>SubFrameLen := 80\<rparr>
                else if rate = 192000 then (prv8 0x20 st)\<lparr>SubFrameLen := 160\<rparr>
                else if rate = 44100 then (prv8 0x80 st)\<lparr>SubFrameLen := 40\<rparr>
                else if rate = 88200 then (prv8 0x90 st)\<lparr>SubFrameLen := 80\<rparr>
                else if rate = 176400 then (prv8 0xA0 st)\<lparr>SubFrameLen := 160\<rparr>
                else st);
          st = st\<lparr>SubFrameLen := SubFrameLen st * word_of_int (uNoOfChannels p)\<rparr>;
          st = st\<lparr>SubFrameLen := SubFrameLen st * word_of_int (c_div8 (uBitsPerSample p))\<rparr>
      in if SubFrameLen st = 0 then None
         else
           (let st = st\<lparr>SubFramesPerPES := (2048 - 18 - 14) div SubFrameLen st\<rparr>;
                st = st\<lparr>SubFrameLen := SubFrameLen st * SubFramesPerPES st\<rparr>;
                n = SubFrameLen st + (18 - 6) + 14;
                st = st\<lparr>lpcm_pes := (lpcm_pes st)[4 := ucast (drop_bit 8 n AND 0xFF)]\<rparr>;
                st = st\<lparr>lpcm_pes := (lpcm_pes st)[5 := ucast (n AND 0xFF)]\<rparr>;
                st = st\<lparr>lpcm_prv := (lpcm_prv st)[10 := word_of_int (uNoOfChannels p - 1)]\<rparr>
            in if uBitsPerSample p = 16 then Some (0, st)
               else if uBitsPerSample p = 24
               then Some (0, st\<lparr>lpcm_prv := (lpcm_prv st)[7 := lpcm_prv st ! 7 OR 0x20]\<rparr>)
               else Some (1, st)))"

subsection \<open>Sample conversion\<close>

text \<open>
  The 24-bit branch assembles each group of twelve bytes in a local array. It stores \<open>tmp[8]\<close>
  twice and \<open>tmp[6]\<close> never; the value of the uninitialised byte is the parameter \<open>junk\<close>.
\<close>

function pcm_groups24 :: "byte \<Rightarrow> nat \<Rightarrow> nat \<Rightarrow> bytes \<Rightarrow> bytes option" where
  "pcm_groups24 junk n len buf =
     (if n < len then
        (if n + 12 \<le> length buf then
           (let tmp = [buf ! (n + 2), buf ! (n + 1), buf ! (n + 5), buf ! (n + 4),
                       buf ! (n + 8), buf ! (n + 7), junk, buf ! (n + 11),
                       buf ! (n + 10), buf ! (n + 3), buf ! (n + 6), buf ! (n + 9)]
            in pcm_groups24 junk (n + 12) len (take n buf @ tmp @ drop (n + 12) buf))
         else None)
      else Some buf)"
  by pat_completeness auto
termination
  by (relation "measure (\<lambda>(junk, n, len, buf). len - n)") auto

declare pcm_groups24.simps [simp del]

definition pcm_convert :: "byte \<Rightarrow> int \<Rightarrow> u32 \<Rightarrow> bytes \<Rightarrow> bytes option" where
  "pcm_convert junk bits len buf =
     (if bits = 16 then swap16 0 (unat len) buf else pcm_groups24 junk 0 (unat len) buf)"

subsection \<open>writeData\<close>

text \<open>
  One round of the loop after the rest check: fill the data area (\<open>Some\<close> the data and the new
  position), build the packet, update the headers for the next packet, send.
\<close>

definition pcm_take :: "bytes option \<Rightarrow> int \<Rightarrow> pcm_state \<Rightarrow> (bytes \<times> int \<times> pcm_state) option" where
  "pcm_take buffer pos st =
     (if breakBufferFillSize st > 0 then do {
        let n = SubFrameLen st - breakBufferFillSize st;
        xs \<leftarrow> mem_read (Some (breakBuffer st)) 0 (unat (breakBufferFillSize st));
        ys \<leftarrow> mem_read buffer (nat pos) (unat n);
        Some (xs @ ys, pos + uint n, st\<lparr>breakBufferFillSize := 0\<rparr>)
      } else do {
        ys \<leftarrow> mem_read buffer (nat pos) (unat (SubFrameLen st));
        Some (ys, pos + uint (SubFrameLen st), st)
      })"

definition pcm_next_headers :: "pcm_state \<Rightarrow> pcm_state" where
  "pcm_next_headers st =
     (let st = st\<lparr>lpcm_prv := (lpcm_prv st)
                   [1 := ucast ((ucast (lpcm_prv st ! 1) + SubFramesPerPES st) AND 0x1F)]\<rparr>;
          st = st\<lparr>lpcm_pes := (lpcm_pes st)[7 := 0x01]\<rparr>;
          st = st\<lparr>lpcm_pes := (lpcm_pes st)[14 := 0xFF]\<rparr>;
          st = st\<lparr>lpcm_pes := (lpcm_pes st)[15 := 0xFF]\<rparr>;
          st = st\<lparr>lpcm_pes := (lpcm_pes st)[16 := 0xFF]\<rparr>
      in st)"

partial_function (option) pcm_loop ::
  "device \<Rightarrow> byte \<Rightarrow> WriterAVCallData_t \<Rightarrow> int \<Rightarrow> int \<Rightarrow> pcm_state \<times> wlog \<Rightarrow> (pcm_state \<times> wlog) option" where
  "pcm_loop dev junk call sz pos s =
     (if pos < sz then
        (if sz - pos < uint (SubFrameLen (fst s)) then do {
           let st = (fst s)\<lparr>breakBufferFillSize := word_of_int (sz - pos)\<rparr>;
           rest \<leftarrow> mem_read (av_data call) (nat pos) (unat (breakBufferFillSize st));
           (if length rest \<le> 8192
            then Some (st\<lparr>breakBuffer := rest @ drop (length rest) (breakBuffer st)\<rparr>, snd s)
            else None)
         } else do {
           (buf, pos, st) \<leftarrow> pcm_take (av_data call) pos (fst s);
           p \<leftarrow> pcm_private (av_private_data call);
           out \<leftarrow> pcm_convert junk (uBitsPerSample p) (SubFrameLen st) buf;
           let injectBuffer = lpcm_pes st @ lpcm_prv st @ out;
           let st = pcm_next_headers st;
           let (r, log) = os_write dev (av_fd call) injectBuffer (snd s);
           pcm_loop dev junk call sz pos (st, log)
         })
      else Some s)"

definition pcm_reset :: "pcm_state \<Rightarrow> int \<times> pcm_state" where
  "pcm_reset st = (0, st\<lparr>initialHeader := True\<rparr>)"

definition pcm_writeData ::
  "device \<Rightarrow> byte \<Rightarrow> WriterAVCallData_t option \<Rightarrow> pcm_state \<times> wlog \<Rightarrow> (int \<times> pcm_state \<times> wlog) option" where
  "pcm_writeData dev junk call_p s =
     (case call_p of
        None \<Rightarrow> Some (0, s)
      | Some call \<Rightarrow>
          if av_data call = None \<or> av_len call \<le> 0 then Some (0, s)
          else if av_fd call < 0 then Some (0, s)
          else do {
            st \<leftarrow> (if initialHeader (fst s) then do {
                     p \<leftarrow> pcm_private (av_private_data call);
                     (r, st) \<leftarrow> prepareClipPlay p ((fst s)\<lparr>initialHeader := False\<rparr>);
                     Some st
                   } else Some (fst s));
            let sz = sint (av_len call);
            s \<leftarrow> pcm_loop dev junk call sz 0 (st, snd s);
            Some (sz, s)
          })"

subsection \<open>Specification vocabulary\<close>

definition pcm_ok :: "pcm_state \<Rightarrow> bool" where
  "pcm_ok st \<longleftrightarrow> 0 < SubFrameLen st \<and> SubFrameLen st \<le> 2016 \<and>
     breakBufferFillSize st < SubFrameLen st \<and> length (breakBuffer st) = 8192 \<and>
     length (lpcm_pes st) = 18 \<and> length (lpcm_prv st) = 14"

definition pcm_pending :: "pcm_state \<Rightarrow> bytes" where
  "pcm_pending st = take (unat (breakBufferFillSize st)) (breakBuffer st)"

text \<open>What the loop must deliver, for data \<open>s\<close> still to be sent.\<close>

definition pcm_done ::
  "(bytes \<Rightarrow> bytes) \<Rightarrow> int \<Rightarrow> bytes \<Rightarrow> pcm_state \<Rightarrow> wlog \<Rightarrow> pcm_state \<Rightarrow> wlog \<Rightarrow> bool" where
  "pcm_done conv fd s st log st' log' \<longleftrightarrow>
     pcm_ok st' \<and> SubFrameLen st' = SubFrameLen st \<and> initialHeader st' = initialHeader st
     \<and> pcm_pending st' = snd (full_chunks (unat (SubFrameLen st)) s)
     \<and> (\<exists>pk. log' = log @ map (Pair fd) pk
          \<and> map (drop 32) pk = map conv (fst (full_chunks (unat (SubFrameLen st)) s))
          \<and> list_all (\<lambda>p. take 6 p = take 6 (lpcm_pes st)) pk)"

fun swap_pairs :: "bytes \<Rightarrow> bytes" where
  "swap_pairs (a # b # xs) = b # a # swap_pairs xs"
| "swap_pairs xs = xs"

function conv24 :: "byte \<Rightarrow> bytes \<Rightarrow> bytes" where
  "conv24 junk xs =
     (if length xs < 12 then xs
      else [xs ! 2, xs ! 1, xs ! 5, xs ! 4, xs ! 8, xs ! 7, junk, xs ! 11, xs ! 10, xs ! 3, xs ! 6, xs ! 9]
           @ conv24 junk (drop 12 xs))"
  by pat_completeness auto
termination
  by (relation "measure (\<lambda>(junk, xs). length xs)") auto

declare conv24.simps [simp del]

definition pcm_conv :: "byte \<Rightarrow> int \<Rightarrow> bytes \<Rightarrow> bytes" where
  "pcm_conv junk bits buf = (if bits = 16 then swap_pairs buf else conv24 junk buf)"

text \<open>Where the byte at place \<open>i\<close> of the samples is in the packets; the first of twelve (which is lost) has no place.\<close>

definition lpcm_place :: "int \<Rightarrow> nat \<Rightarrow> nat" where
  "lpcm_place bits i =
     (if bits = 16 then if even i then i + 1 else i - 1
      else 12 * (i div 12) + [6, 1, 0, 9, 3, 2, 10, 5, 4, 11, 8, 7] ! (i mod 12))"

definition pcm_divides :: "int \<Rightarrow> nat \<Rightarrow> bool" where
  "pcm_divides bits n \<longleftrightarrow> (if bits = 16 then 2 else 12) dvd n"

text \<open>The number of bytes of one subframe: samples per channel, channels, bytes per sample.\<close>

definition pcm_subframe :: "pcmPrivateData_t \<Rightarrow> nat" where
  "pcm_subframe p =
     (if uSampleRate p \<in> {48000, 44100} then 40
      else if uSampleRate p \<in> {96000, 88200} then 80
      else if uSampleRate p \<in> {192000, 176400} then 160 else 0)
     * nat (uNoOfChannels p) * nat (uBitsPerSample p div 8)"

definition pcm_supported :: "pcmPrivateData_t \<Rightarrow> bool" where
  "pcm_supported p \<longleftrightarrow>
     uSampleRate p \<in> {48000, 96000, 192000, 44100, 88200, 176400} \<and>
     1 \<le> uNoOfChannels p \<and> uNoOfChannels p \<le> 8 \<and> uBitsPerSample p \<in> {16, 24}"

subsection \<open>Lemmas\<close>

lemma pcm_ok_nat:
  assumes "pcm_ok st"
  shows "0 < unat (SubFrameLen st)" "unat (SubFrameLen st) \<le> 2016"
    "unat (breakBufferFillSize st) < unat (SubFrameLen st)"
    "length (pcm_pending st) = unat (breakBufferFillSize st)"
  using assms by (auto simp: pcm_ok_def pcm_pending_def word_less_nat_alt word_le_nat_alt)

lemma pcm_next_headers_simps [simp]:
  "SubFrameLen (pcm_next_headers st) = SubFrameLen st"
  "breakBufferFillSize (pcm_next_headers st) = breakBufferFillSize st"
  "breakBuffer (pcm_next_headers st) = breakBuffer st"
  "initialHeader (pcm_next_headers st) = initialHeader st"
  "length (lpcm_pes (pcm_next_headers st)) = length (lpcm_pes st)"
  "length (lpcm_prv (pcm_next_headers st)) = length (lpcm_prv st)"
  "take 6 (lpcm_pes (pcm_next_headers st)) = take 6 (lpcm_pes st)"
  by (simp_all add: pcm_next_headers_def Let_def)

lemma pcm_take_spec:
  assumes ok: "pcm_ok st" and pos: "0 \<le> pos" "nat pos + unat (SubFrameLen st) \<le> length d"
  shows "\<exists>k. pcm_take (Some d) pos st =
      Some (take (unat (SubFrameLen st)) (pcm_pending st @ drop (nat pos) d), pos + int k,
            st\<lparr>breakBufferFillSize := 0\<rparr>)
    \<and> k = unat (SubFrameLen st) - length (pcm_pending st) \<and> 0 < k
    \<and> drop (unat (SubFrameLen st)) (pcm_pending st @ drop (nat pos) d) = drop (nat pos + k) d"
proof -
  note n = pcm_ok_nat [OF ok]
  have bb: "length (breakBuffer st) = 8192" using ok by (simp add: pcm_ok_def)
  have sub: "unat (SubFrameLen st - breakBufferFillSize st) = unat (SubFrameLen st) - unat (breakBufferFillSize st)"
    using n(3) by (simp add: unat_sub_if_size)
  let ?k = "unat (SubFrameLen st) - length (pcm_pending st)"
  have u: "uint (SubFrameLen st - breakBufferFillSize st) = int ?k"
    using n(4) by (simp add: uint_nat sub)
  have "pcm_take (Some d) pos st =
      Some (take (unat (SubFrameLen st)) (pcm_pending st @ drop (nat pos) d), pos + int ?k,
            st\<lparr>breakBufferFillSize := 0\<rparr>)"
  proof (cases "breakBufferFillSize st > 0")
    case True
    with n pos bb u show ?thesis
      by (simp add: pcm_take_def Let_def sub) (simp add: pcm_pending_def)
  next
    case False
    then have z: "breakBufferFillSize st = 0" by (simp add: word_greater_zero_iff)
    have "st\<lparr>breakBufferFillSize := 0\<rparr> = st" using z by (cases st) simp
    moreover have "pcm_pending st = []" by (simp add: pcm_pending_def z)
    ultimately show ?thesis
      using False pos by (simp add: pcm_take_def)
  qed
  with n show ?thesis by (simp add: add.commute)
qed


lemma pcm_done_step:
  assumes st: "pcm_ok st" and n: "n = unat (SubFrameLen st)" and le: "n \<le> length s"
    and st1: "SubFrameLen st1 = SubFrameLen st" "initialHeader st1 = initialHeader st"
      "take 6 (lpcm_pes st1) = take 6 (lpcm_pes st)"
    and rest: "pcm_done conv fd (drop n s) st1 (log @ [(fd, lpcm_pes st @ lpcm_prv st @ conv (take n s))]) st' log'"
  shows "pcm_done conv fd s st log st' log'"
proof -
  have n0: "0 < n" using pcm_ok_nat(1) [OF st] n by simp
  have len: "length (lpcm_pes st) = 18" "length (lpcm_prv st) = 14" using st by (auto simp: pcm_ok_def)
  obtain pk where pk: "log' = (log @ [(fd, lpcm_pes st @ lpcm_prv st @ conv (take n s))]) @ map (Pair fd) pk"
      "map (drop 32) pk = map conv (fst (full_chunks n (drop n s)))"
      "list_all (\<lambda>p. take 6 p = take 6 (lpcm_pes st)) pk"
    using rest st1 n by (auto simp: pcm_done_def)
  let ?pk = "(lpcm_pes st @ lpcm_prv st @ conv (take n s)) # pk"
  have "log' = log @ map (Pair fd) ?pk \<and> map (drop 32) ?pk = map conv (fst (full_chunks n s))
      \<and> list_all (\<lambda>p. take 6 p = take 6 (lpcm_pes st)) ?pk"
    using pk len full_chunks_step [OF n0 le] by simp
  moreover have "pcm_ok st'" "SubFrameLen st' = SubFrameLen st" "initialHeader st' = initialHeader st"
    "pcm_pending st' = snd (full_chunks n s)"
    using rest st1 full_chunks_step [OF n0 le] n by (auto simp: pcm_done_def)
  ultimately show ?thesis unfolding pcm_done_def n [symmetric] by blast
qed

lemma pcm_loop_spec:
  assumes d: "av_data call = Some d" "sz = int (length d)"
    and p: "pcm_private (av_private_data call) = Some p"
    and conv: "\<And>buf. length buf = n \<Longrightarrow> pcm_convert junk (uBitsPerSample p) (of_nat n) buf = Some (conv buf)"
  shows "pcm_ok st \<Longrightarrow> n = unat (SubFrameLen st) \<Longrightarrow> 0 \<le> pos \<Longrightarrow> pos \<le> sz \<Longrightarrow>
     pos < sz \<or> pcm_pending st = [] \<Longrightarrow>
     s = (if sz - pos < int n then drop (nat pos) d else pcm_pending st @ drop (nat pos) d) \<Longrightarrow>
     \<exists>st' log'. pcm_loop dev junk call sz pos (st, log) = Some (st', log')
       \<and> pcm_done conv (av_fd call) s st log st' log'"
proof (induction "nat (sz - pos)" arbitrary: pos st log s rule: less_induct)
  case less
  note n = pcm_ok_nat [OF less.prems(1)]
  have lens: "length (lpcm_pes st) = 18" "length (lpcm_prv st) = 14" "length (breakBuffer st) = 8192"
    using less.prems(1) by (auto simp: pcm_ok_def)
  consider (fin) "pos = sz" | (rest) "pos < sz" "sz - pos < int n" | (more) "pos < sz" "int n \<le> sz - pos"
    using less.prems(4) by linarith
  then show ?case
  proof cases
    case fin
    with less.prems n d show ?thesis
      by (subst pcm_loop.simps) (auto simp: pcm_done_def)
  next
    case rest
    obtain q m where q: "pos = int q" "sz = int (q + m)" "length d = q + m"
      using less.prems(3) rest(1) d(2) by (metis less_imp_le nonneg_int_cases of_nat_add of_nat_eq_iff zle_iff_zadd)
    have "0 < m" "m < n" using rest by (simp_all add: q)
    then have m: "0 < m" "m < n" "m < 2016" using less.prems(2) n(2) by linarith+
    have f: "unat (of_nat m :: u32) = m"
      using m(3) by (simp add: unsigned_of_nat take_bit_nat_eq_self)
    have "pcm_loop dev junk call sz pos (st, log) =
        Some (st\<lparr>breakBufferFillSize := of_nat m, breakBuffer := drop q d @ drop m (breakBuffer st)\<rparr>, log)"
      using rest less.prems(2) m f d(1) q by (subst pcm_loop.simps) simp
    moreover have "s = drop q d" using rest less.prems(6) by (simp add: q)
    ultimately show ?thesis
      using less.prems(1,2) m f lens q
      by (simp add: pcm_done_def pcm_ok_def pcm_pending_def word_less_nat_alt)
  next
    case more
    have le: "nat pos + unat (SubFrameLen st) \<le> length d"
      using more less.prems(2,3) d by linarith
    obtain k where k: "pcm_take (Some d) pos st =
        Some (take n (pcm_pending st @ drop (nat pos) d), pos + int k, st\<lparr>breakBufferFillSize := 0\<rparr>)"
      "0 < k" "k = n - length (pcm_pending st)"
      "drop n (pcm_pending st @ drop (nat pos) d) = drop (nat pos + k) d"
      using pcm_take_spec [OF less.prems(1,3) le] less.prems(2) by auto
    define st1 where "st1 = pcm_next_headers (st\<lparr>breakBufferFillSize := 0\<rparr>)"
    have ok1: "pcm_ok st1" "SubFrameLen st1 = SubFrameLen st" "pcm_pending st1 = []"
      "initialHeader st1 = initialHeader st" "take 6 (lpcm_pes st1) = take 6 (lpcm_pes st)"
      using less.prems(1) by (auto simp: st1_def pcm_ok_def pcm_pending_def)
    have s: "s = pcm_pending st @ drop (nat pos) d" "n \<le> length s"
      using less.prems(2,3,6) more le by auto
    have cv: "pcm_convert junk (uBitsPerSample p) (SubFrameLen st) (take n s) = Some (conv (take n s))"
      using conv [of "take n s"] s(2) less.prems(2) by simp
    have c: "\<not> sz - pos < uint (SubFrameLen st)" using more(2) less.prems(2) by simp
    let ?log = "log @ [(av_fd call, lpcm_pes st @ lpcm_prv st @ conv (take n s))]"
    have loop: "pcm_loop dev junk call sz pos (st, log) = pcm_loop dev junk call sz (pos + int k) (st1, ?log)"
      using more(1) d(1) p k(1) cv s(1) c by (subst pcm_loop.simps) (simp add: os_write_def st1_def)
    have "\<exists>st' log'. pcm_loop dev junk call sz (pos + int k) (st1, ?log) = Some (st', log')
        \<and> pcm_done conv (av_fd call) (drop n s) st1 ?log st' log'"
    proof (rule less.hyps)
      show "nat (sz - (pos + int k)) < nat (sz - pos)" using more k(2) by simp
      show "n = unat (SubFrameLen st1)" "pos + int k < sz \<or> pcm_pending st1 = []"
        using ok1 less.prems(2) by simp_all
      show "drop n s = (if sz - (pos + int k) < int n then drop (nat (pos + int k)) d
              else pcm_pending st1 @ drop (nat (pos + int k)) d)"
        using ok1(3) s(1) k(4) less.prems(3) by (simp add: nat_add_distrib)
    qed (use ok1 less.prems(3) more k in auto)
    then show ?thesis
      using pcm_done_step [OF less.prems(1,2) s(2) ok1(2,4,5)] unfolding loop by blast
  qed
qed

lemma swap16_pairs:
  "even (length xs) \<Longrightarrow>
   swap16 (length pre) (length pre + length xs) (pre @ xs) = Some (pre @ swap_pairs xs)"
proof (induction xs arbitrary: pre rule: swap_pairs.induct)
  case (1 a b xs)
  have "swap16 (length pre) (length pre + length (a # b # xs)) (pre @ a # b # xs) =
      swap16 (length (pre @ [b, a])) (length (pre @ [b, a]) + length xs) ((pre @ [b, a]) @ xs)"
    by (subst swap16.simps) (simp add: nth_append list_update_append)
  also have "\<dots> = Some ((pre @ [b, a]) @ swap_pairs xs)"
    using 1 by (intro "1.IH") simp
  finally show ?case by simp
qed (simp_all add: swap16.simps)

lemma groups24_conv:
  "12 dvd length xs \<Longrightarrow>
   pcm_groups24 junk (length pre) (length pre + length xs) (pre @ xs) = Some (pre @ conv24 junk xs)"
proof (induction junk xs arbitrary: pre rule: conv24.induct)
  case (1 junk xs)
  show ?case
  proof (cases "xs = []")
    case True
    then show ?thesis by (simp add: pcm_groups24.simps conv24.simps)
  next
    case False
    with "1.prems" have l: "12 \<le> length xs" by (simp add: dvd_imp_le)
    let ?g = "[xs ! 2, xs ! 1, xs ! 5, xs ! 4, xs ! 8, xs ! 7, junk, xs ! 11, xs ! 10, xs ! 3, xs ! 6, xs ! 9]"
    have "pcm_groups24 junk (length pre) (length pre + length xs) (pre @ xs) =
        pcm_groups24 junk (length (pre @ ?g)) (length (pre @ ?g) + length (drop 12 xs)) ((pre @ ?g) @ drop 12 xs)"
    proof -
      have e: "length (pre @ ?g) = length pre + 12"
        "length pre + 12 + length (drop 12 xs) = length pre + length xs" using l by simp_all
      show ?thesis unfolding e using l by (subst pcm_groups24.simps) (auto simp: nth_append)
    qed
    also have "\<dots> = Some ((pre @ ?g) @ conv24 junk (drop 12 xs))"
      using l "1.prems" by (intro "1.IH") (simp_all add: dvd_diff_nat)
    finally show ?thesis using l by (simp add: conv24.simps [of junk xs])
  qed
qed

lemma pcm_convert_spec:
  "pcm_divides bits n \<Longrightarrow> length buf = n \<Longrightarrow> n < 2 ^ 32 \<Longrightarrow>
   pcm_convert junk bits (of_nat n) buf = Some (pcm_conv junk bits buf)"
  using swap16_pairs [of buf "[]"] groups24_conv [of buf junk "[]"]
  by (auto simp: pcm_convert_def pcm_conv_def pcm_divides_def unsigned_of_nat take_bit_nat_eq_self)

lemma pcm_loop_stuck:
  assumes "pcm_loop dev junk call sz pos s = Some y"
  shows "SubFrameLen (fst s) = 0 \<longrightarrow> breakBufferFillSize (fst s) = 0 \<longrightarrow> \<not> pos < sz"
  using assms
proof (rule pcm_loop.raw_induct [where P = "\<lambda>dev junk call sz pos s y.
    SubFrameLen (fst s) = 0 \<longrightarrow> breakBufferFillSize (fst s) = 0 \<longrightarrow> \<not> pos < sz", rotated], goal_cases)
  case (1 loop dev junk call sz pos s y)
  show ?case
  proof (intro impI notI)
    assume z: "SubFrameLen (fst s) = 0" "breakBufferFillSize (fst s) = 0" "pos < sz"
    from 1(2) z obtain ys p out where
      "loop dev junk call sz pos (pcm_next_headers (fst s), snd (os_write dev (av_fd call)
          (lpcm_pes (fst s) @ lpcm_prv (fst s) @ out) (snd s))) = Some y"
      by (auto simp: pcm_take_def Let_def case_prod_unfold split: bind_splits)
    from 1(1) [OF this] z show False by simp
  qed
qed

lemma prepareClipPlay_eq:
  assumes "pcm_supported p"
  shows "\<exists>st' :: pcm_state. prepareClipPlay p st = Some (0, st')
    \<and> SubFrameLen st' = of_nat (pcm_subframe p * (2016 div pcm_subframe p))
    \<and> SubFramesPerPES st' = of_nat (2016 div pcm_subframe p)
    \<and> breakBufferFillSize st' = 0 \<and> breakBuffer st' = breakBuffer st \<and> initialHeader st' = initialHeader st
    \<and> length (lpcm_pes st') = 18 \<and> length (lpcm_prv st') = 14
    \<and> take 6 (lpcm_pes st') = [0, 0, 1, 0xBD, ucast (drop_bit 8 (SubFrameLen st' + 26)), ucast (SubFrameLen st' + 26)]"
proof -
  have "uNoOfChannels p \<in> {1,2,3,4,5,6,7,8}" using assms by (auto simp: pcm_supported_def)
  with assms show ?thesis
    unfolding pcm_supported_def
    by (elim conjE insertE emptyE) (simp_all add: prepareClipPlay_def pcm_subframe_def c_div8_def clpcm_pes_def clpcm_prv_def)
qed

lemma pcm_ok_prepared:
  assumes p: "pcm_supported p" "pcm_subframe p \<le> 2016" and st: "length (breakBuffer st) = 8192"
  shows "\<exists>st'. prepareClipPlay p st = Some (0, st') \<and> pcm_ok st' \<and> pcm_pending st' = []
    \<and> unat (SubFrameLen st') = pcm_subframe p * (2016 div pcm_subframe p)
    \<and> initialHeader st' = initialHeader st
    \<and> take 6 (lpcm_pes st') = [0, 0, 1, 0xBD, ucast (drop_bit 8 (SubFrameLen st' + 26)), ucast (SubFrameLen st' + 26)]"
proof -
  let ?n = "pcm_subframe p"
  have n: "0 < ?n" using p(1) by (auto simp: pcm_supported_def pcm_subframe_def)
  have le: "?n * (2016 div ?n) \<le> 2016" by simp
  have pos: "0 < ?n * (2016 div ?n)" using n p(2) by (simp add: div_greater_zero_iff)
  have u: "unat (of_nat (?n * (2016 div ?n)) :: u32) = ?n * (2016 div ?n)"
    by (rule unat_of_nat_small, rule le_less_trans [OF le]) simp
  then show ?thesis
    using prepareClipPlay_eq [OF p(1), of st] le pos st
    by (auto simp: pcm_ok_def pcm_pending_def word_less_nat_alt word_le_nat_alt simp del: of_nat_mult)
qed

lemma pcm_subframe_divides:
  assumes "pcm_supported p"
  shows "pcm_divides (uBitsPerSample p) (pcm_subframe p * k)"
proof -
  have "(12::nat) dvd 40 * n * 3 * k \<longleftrightarrow> 3 * 4 dvd 3 * (4 * (10 * n * k))" for n
    by (simp add: ac_simps)
  have "(12::nat) dvd m * n * 3 * k" if "4 dvd m" for m n
    using that mult_dvd_mono [of 4 m 3 "n * 3 * k"] by (simp add: ac_simps)
  then show ?thesis
    using assms by (auto simp: pcm_supported_def pcm_divides_def pcm_subframe_def)
qed

lemma pcm_write_running:
  assumes ok: "pcm_ok st" "\<not> initialHeader st" and c: "av_ready c" "av_data c = Some d"
    "length d = unat (av_len c)" "length d < 2 ^ 31"
    and p: "pcm_private (av_private_data c) = Some p"
    and dv: "pcm_divides (uBitsPerSample p) (unat (SubFrameLen st))"
  shows "\<exists>st' log'. pcm_writeData dev junk (Some c) (st, log) = Some (int (length d), st', log')
    \<and> pcm_done (pcm_conv junk (uBitsPerSample p)) (av_fd c)
        (if length d < unat (SubFrameLen st) then d else pcm_pending st @ d) st log st' log'"
proof -
  let ?n = "unat (SubFrameLen st)"
  have si: "sint (av_len c) = int (length d)"
    using c(3,4) sint_small [of "av_len c"] by simp
  have "d \<noteq> []" using c by (auto simp: av_ready_def unat_pos)
  have "\<exists>st' log'. pcm_loop dev junk c (int (length d)) 0 (st, log) = Some (st', log')
    \<and> pcm_done (pcm_conv junk (uBitsPerSample p)) (av_fd c)
        (if length d < ?n then d else pcm_pending st @ d) st log st' log'"
    using \<open>d \<noteq> []\<close> pcm_convert_spec [OF dv]
    by (intro pcm_loop_spec [OF c(2) refl p _ ok(1) refl]) (auto simp: unat_u32_less [simplified] simp del: of_nat_unat)
  with c ok si show ?thesis by (auto simp: pcm_writeData_def av_ready_def)
qed

subsection \<open>Properties\<close>

text \<open>
  \<open>prepareClipPlay\<close> for every supported sample rate, 1 to 8 channels and 16 or 24 bits
  whose subframe fits a packet: the packet holds as many whole subframes as fit into 2048 bytes
  with the 32 bytes of headers, the conversion loops divide it evenly, the break buffer is empty,
  and the PES length field counts exactly the bytes behind it.
\<close>

theorem pcm_layout:
  assumes "pcm_supported p" and "pcm_subframe p \<le> 2016" and "length (breakBuffer st) = 8192"
  shows "\<exists>st' k. prepareClipPlay p st = Some (0, st') \<and> pcm_ok st' \<and> pcm_pending st' = []
    \<and> unat (SubFrameLen st') = pcm_subframe p * k
    \<and> 32 + pcm_subframe p * k \<le> 2048 \<and> 2048 < 32 + pcm_subframe p * (k + 1)
    \<and> pcm_divides (uBitsPerSample p) (unat (SubFrameLen st'))
    \<and> unat (lpcm_pes st' ! 4) * 256 + unat (lpcm_pes st' ! 5) = (32 + unat (SubFrameLen st')) - 6"
proof -
  let ?n = "pcm_subframe p" and ?k = "2016 div pcm_subframe p"
  obtain st' where st': "prepareClipPlay p st = Some (0, st')" "pcm_ok st'" "pcm_pending st' = []"
      "unat (SubFrameLen st') = ?n * ?k"
      "take 6 (lpcm_pes st') = [0, 0, 1, 0xBD, ucast (drop_bit 8 (SubFrameLen st' + 26)), ucast (SubFrameLen st' + 26)]"
    using pcm_ok_prepared [OF assms] by auto
  have n: "0 < ?n" using assms(1) by (auto simp: pcm_supported_def pcm_subframe_def)
  have le: "?n * ?k \<le> 2016" "2016 < ?n * (?k + 1)" using dividend_less_div_times [OF n, of 2016] by (auto simp: algebra_simps)
  have "lpcm_pes st' ! 4 = take 6 (lpcm_pes st') ! 4" "lpcm_pes st' ! 5 = take 6 (lpcm_pes st') ! 5" by simp_all
  then have b: "lpcm_pes st' ! 4 = ucast (drop_bit 8 (SubFrameLen st' + 26))" "lpcm_pes st' ! 5 = ucast (SubFrameLen st' + 26)"
    by (simp_all add: st'(5))
  have "unat (SubFrameLen st' + 26) = ?n * ?k + 26" 
  proof -
    have "unat (SubFrameLen st' + 26) = unat (SubFrameLen st') + unat (26::u32)"
    proof (rule unat_add_small)
      have "unat (26::u32) = 26" by simp
      then show "unat (SubFrameLen st') + unat (26::u32) < 4294967296" using st'(4) le(1) by linarith
    qed
    then show ?thesis using st'(4) by simp
  qed
  moreover have "(?n * ?k + 26) mod 65536 = ?n * ?k + 26"
    by (rule mod_less) (use le(1) in linarith)
  ultimately have "unat (lpcm_pes st' ! 4) * 256 + unat (lpcm_pes st' ! 5) = ?n * ?k + 26"
    unfolding b unat_byte_halves by (simp only:)
  with st' le show ?thesis
    using pcm_subframe_divides [OF assms(1), of ?k]
    by (intro exI [of _ st'] exI [of _ ?k]) (auto simp: algebra_simps)
qed

theorem pcm_layout_witness:
  "\<exists>st' k. prepareClipPlay \<lparr>uNoOfChannels = 2, uSampleRate = 48000, uBitsPerSample = 16, bLittleEndian = 1\<rparr>
       pcm_init = Some (0, st') \<and> pcm_ok st' \<and> unat (SubFrameLen st') = 160 * k \<and> k = 12"
proof -
  let ?p = "\<lparr>uNoOfChannels = 2, uSampleRate = 48000, uBitsPerSample = 16, bLittleEndian = 1\<rparr>"
  have "pcm_supported ?p" "pcm_subframe ?p = 160" "length (breakBuffer pcm_init) = 8192"
    by (simp_all add: pcm_supported_def pcm_subframe_def pcm_init_def)
  with pcm_layout [of ?p pcm_init] obtain st' k where
    "prepareClipPlay ?p pcm_init = Some (0, st')" "pcm_ok st'" "unat (SubFrameLen st') = 160 * k"
    "32 + 160 * k \<le> 2048" "2048 < 32 + 160 * (k + 1)" by auto
  then show ?thesis by (intro exI [of _ st'] exI [of _ k]) auto
qed

text \<open>Converting the packets one by one is converting what they hold together, and where a byte goes.\<close>

lemma swap_pairs_append: "even (length xs) \<Longrightarrow> swap_pairs (xs @ ys) = swap_pairs xs @ swap_pairs ys"
  by (induction xs rule: swap_pairs.induct) auto

lemma conv24_append: "12 dvd length xs \<Longrightarrow> conv24 junk (xs @ ys) = conv24 junk xs @ conv24 junk ys"
proof (induction junk xs rule: conv24.induct)
  case (1 junk xs)
  show ?case
  proof (cases "xs = []")
    case True
    then show ?thesis by (simp add: conv24.simps)
  next
    case False
    with "1.prems" have l: "12 \<le> length xs" by (simp add: dvd_imp_le)
    then have "conv24 junk (drop 12 xs @ ys) = conv24 junk (drop 12 xs) @ conv24 junk ys"
      using "1.IH" "1.prems" by (simp add: dvd_diff_nat)
    with l show ?thesis by (simp add: conv24.simps [of junk "xs @ ys"] conv24.simps [of junk xs] nth_append)
  qed
qed

lemma pcm_conv_append: "pcm_divides bits (length xs) \<Longrightarrow> pcm_conv junk bits (xs @ ys) = pcm_conv junk bits xs @ pcm_conv junk bits ys"
  by (simp add: pcm_conv_def pcm_divides_def swap_pairs_append conv24_append split: if_splits)

lemma pcm_conv_concat:
  "pcm_divides bits n \<Longrightarrow> list_all (\<lambda>x. length x = n) cs \<Longrightarrow>
   concat (map (pcm_conv junk bits) cs) = pcm_conv junk bits (concat cs)"
  by (induction cs) (simp_all add: pcm_conv_append, simp add: pcm_conv_def conv24.simps)

lemma length_swap_pairs [simp]: "length (swap_pairs xs) = length xs"
  by (induction xs rule: swap_pairs.induct) auto

lemma length_conv24 [simp]: "length (conv24 junk xs) = length xs"
  by (induction junk xs rule: conv24.induct) (subst conv24.simps, auto)

lemma length_pcm_conv [simp]: "length (pcm_conv junk bits xs) = length xs"
  by (simp add: pcm_conv_def)

lemma swap_pairs_place:
  "even (length xs) \<Longrightarrow> i < length xs \<Longrightarrow> swap_pairs xs ! lpcm_place 16 i = xs ! i"
proof (induction xs arbitrary: i rule: swap_pairs.induct)
  case (1 a b xs)
  consider "i = 0" | "i = 1" | j where "i = Suc (Suc j)" by (metis One_nat_def not0_implies_Suc)
  then show ?case
  proof cases
    case 3
    have "lpcm_place 16 i = Suc (Suc (lpcm_place 16 j))" using 3 by (simp add: lpcm_place_def)
    with 1 3 show ?thesis by simp
  qed (simp_all add: lpcm_place_def)
qed simp_all

lemma conv24_place:
  "bits \<noteq> 16 \<Longrightarrow> 12 dvd length xs \<Longrightarrow> i < length xs \<Longrightarrow> i mod 12 \<noteq> 0 \<Longrightarrow> conv24 junk xs ! lpcm_place bits i = xs ! i"
proof (induction junk xs arbitrary: i rule: conv24.induct)
  case (1 junk xs)
  then have l: "12 \<le> length xs" by (metis dvd_imp_le gr_implies_not_zero neq0_conv)
  show ?case
  proof (cases "i < 12")
    case True
    then have "i = 1 \<or> i = 2 \<or> i = 3 \<or> i = 4 \<or> i = 5 \<or> i = 6 \<or> i = 7 \<or> i = 8 \<or> i = 9 \<or> i = 10 \<or> i = 11"
      using "1.prems"(4) by (simp, arith)
    then show ?thesis using l "1.prems"(1) by (elim disjE) (simp_all add: conv24.simps [of junk xs] lpcm_place_def nth_append)
  next
    case False
    then obtain j where j: "i = 12 + j" by (metis le_add_diff_inverse not_less)
    have "lpcm_place bits i = 12 + lpcm_place bits j" using j "1.prems"(1) div_add_self1 [of 12 j] by (simp add: lpcm_place_def del: div_add_self1)
    moreover have "conv24 junk (drop 12 xs) ! lpcm_place bits j = drop 12 xs ! j"
      using "1.prems" j l by (intro "1.IH") (simp_all add: dvd_diff_nat)
    ultimately show ?thesis using l j by (simp add: conv24.simps [of junk xs] nth_append)
  qed
qed

lemma full_chunks_take:
  "0 < n \<Longrightarrow> concat (fst (full_chunks n s)) = take (length s div n * n) s \<and> snd (full_chunks n s) = drop (length s div n * n) s"
proof (induction n s rule: full_chunks.induct)
  case (1 n xs)
  show ?case
  proof (cases "n \<le> length xs")
    case True
    have "length xs div n = Suc ((length xs - n) div n)" using True "1.prems" by (intro le_div_geq)
    with 1 True show ?thesis by (auto simp: full_chunks_step [OF "1.prems" True] take_add add.commute)
  next
    case False
    then show ?thesis by simp
  qed
qed

subsection \<open>The stream\<close>

text \<open>
  Claim C4. What becomes of the bytes of a call. Together with what was left over before (nothing, if the call is shorter than a
  packet, which loses what was pending), the bytes fill as many packets as they can and the break buffer keeps the rest. With
  samples of 16 bits every byte is in the packets, at the other place of its pair: none is lost, repeated or out of order. With
  other samples the code loses the first byte of every twelve, and the others are at the places of \<open>lpcm_place\<close>. The call returns the
  number of bytes given, and every packet has the prepared start code and length.
\<close>

theorem pcm_conserves_stream:
  assumes "pcm_ok st" and "\<not> initialHeader st" and "av_ready c" and "av_data c = Some d"
    and "length d = unat (av_len c)" and "length d < 2 ^ 31"
    and "pcm_private (av_private_data c) = Some p"
    and "pcm_divides (uBitsPerSample p) (unat (SubFrameLen st))"
    and s: "s = (if length d < unat (SubFrameLen st) then d else pcm_pending st @ d)"
    and N: "N = length s div unat (SubFrameLen st) * unat (SubFrameLen st)"
  shows "\<exists>st' pk. pcm_writeData dev junk (Some c) (st, log) =
      Some (int (length d), st', log @ map (Pair (av_fd c)) pk)
    \<and> length (concat (map (drop 32) pk)) = N
    \<and> (\<forall>i < N. uBitsPerSample p = 16 \<or> i mod 12 \<noteq> 0 \<longrightarrow>
         concat (map (drop 32) pk) ! lpcm_place (uBitsPerSample p) i = s ! i)
    \<and> pcm_pending st' = drop N s
    \<and> list_all (\<lambda>x. length x = 32 + unat (SubFrameLen st) \<and> take 6 x = take 6 (lpcm_pes st)) pk
    \<and> pcm_ok st' \<and> SubFrameLen st' = SubFrameLen st"
proof -
  let ?n = "unat (SubFrameLen st)" and ?b = "uBitsPerSample p"
  let ?cs = "fst (full_chunks ?n s)"
  have n: "0 < ?n" using pcm_ok_nat(1) [OF assms(1)] .
  obtain st' log' where w: "pcm_writeData dev junk (Some c) (st, log) = Some (int (length d), st', log')"
      and dn: "pcm_done (pcm_conv junk ?b) (av_fd c) s st log st' log'"
    using pcm_write_running [OF assms(1-8), of dev junk log] s by blast
  obtain pk where pk: "log' = log @ map (Pair (av_fd c)) pk" "map (drop 32) pk = map (pcm_conv junk ?b) ?cs"
      "list_all (\<lambda>x. take 6 x = take 6 (lpcm_pes st)) pk"
    and st': "pcm_ok st'" "SubFrameLen st' = SubFrameLen st" "pcm_pending st' = snd (full_chunks ?n s)"
    using dn unfolding pcm_done_def by blast
  have cs: "list_all (\<lambda>x. length x = ?n) ?cs" by (auto simp: list_all_iff dest: length_full_chunks)
  have out: "concat (map (drop 32) pk) = pcm_conv junk ?b (take N s)"
    using pcm_conv_concat [OF assms(8) cs] full_chunks_take [OF n, of s] pk(2) N by simp
  have Nle: "N \<le> length s" using N by simp
  have dv: "pcm_divides ?b N" using assms(8) N unfolding pcm_divides_def by (simp add: dvd_mult)
  have place: "pcm_conv junk ?b (take N s) ! lpcm_place ?b i = s ! i" if "i < N" "?b = 16 \<or> i mod 12 \<noteq> 0" for i
    using that dv Nle swap_pairs_place [of "take N s" i] conv24_place [of ?b "take N s" i junk]
    by (cases "?b = 16") (simp_all add: pcm_conv_def pcm_divides_def)
  have "length x = 32 + ?n" if "x \<in> set pk" for x
  proof -
    have "drop 32 x \<in> set (map (pcm_conv junk ?b) ?cs)" using that pk(2) by (metis image_eqI list.set_map)
    then obtain y where y: "drop 32 x = pcm_conv junk ?b y" "length y = ?n" using cs by (auto simp: list_all_iff)
    have "length (drop 32 x) = ?n" unfolding y(1) using y(2) by simp
    with n show ?thesis by simp
  qed
  with pk(3) have "list_all (\<lambda>x. length x = 32 + ?n \<and> take 6 x = take 6 (lpcm_pes st)) pk" by (simp add: list_all_iff)
  moreover have "pcm_pending st' = drop N s" using st'(3) full_chunks_take [OF n, of s] N by simp
  ultimately show ?thesis using w pk(1) st'(1,2) out place Nle
    by (intro exI [of _ st'] exI [of _ pk]) simp
qed

theorem pcm_conserves_stream_witness:
  "\<exists>st' pk. pcm_writeData (\<lambda>l fd b. 0) 0
      (Some (example_call [1, 2, 3, 4, 5]\<lparr>av_private_data :=
         Some [2, 0, 0, 0, 0x80, 0xBB, 0, 0, 16, 0, 0, 0, 1, 0, 0, 0]\<rparr>))
      (pcm_init\<lparr>initialHeader := False, SubFrameLen := 4\<rparr>, []) =
      Some (5, st', map (Pair 5) pk)
    \<and> concat (map (drop 32) pk) = [2, 1, 4, 3] \<and> pcm_pending st' = [5]"
proof -
  let ?c = "example_call [1, 2, 3, 4, 5]\<lparr>av_private_data :=
         Some [2, 0, 0, 0, 0x80, 0xBB, 0, 0, 16, 0, 0, 0, 1, 0, 0, 0]\<rparr>"
  let ?st = "pcm_init\<lparr>initialHeader := False, SubFrameLen := 4\<rparr>"
  have p: "pcm_private (av_private_data ?c) =
      Some \<lparr>uNoOfChannels = 2, uSampleRate = 48000, uBitsPerSample = 16, bLittleEndian = 1\<rparr>"
    by (simp add: pcm_private_def) code_simp
  have st: "pcm_ok ?st" "\<not> initialHeader ?st" "pcm_pending ?st = []" "SubFrameLen ?st = 4"
    by (simp_all add: pcm_ok_def pcm_init_def pcm_pending_def)
  have c: "av_ready ?c" "av_data ?c = Some [1, 2, 3, 4, 5]" "av_len ?c = 5" "av_fd ?c = 5"
    by (simp_all add: example_call_def av_ready_def)
  let ?d = "[1, 2, 3, 4, 5] :: bytes"
  have e: "length ?d = unat (av_len ?c)" "length ?d < 2 ^ 31" "pcm_divides 16 (unat (SubFrameLen ?st))"
    "?d = (if length ?d < unat (SubFrameLen ?st) then ?d else pcm_pending ?st @ ?d)"
    "4 = length ?d div unat (SubFrameLen ?st) * unat (SubFrameLen ?st)"
    using c(3) st(3,4) by (simp_all add: pcm_divides_def)
  have e3: "pcm_divides (uBitsPerSample \<lparr>uNoOfChannels = 2, uSampleRate = 48000, uBitsPerSample = 16, bLittleEndian = 1\<rparr>)
    (unat (SubFrameLen ?st))" using e(3) by simp
  from pcm_conserves_stream [OF st(1,2) c(1,2) e(1,2) p e3 e(4,5), of "\<lambda>l fd b. 0" 0 "[]"] obtain st' pk where
    r: "pcm_writeData (\<lambda>l fd b. 0) 0 (Some ?c) (?st, []) = Some (int (length ?d), st', [] @ map (Pair (av_fd ?c)) pk)"
      "length (concat (map (drop 32) pk)) = 4" "pcm_pending st' = drop 4 ?d"
      "\<forall>i < 4. concat (map (drop 32) pk) ! lpcm_place 16 i = ?d ! i"
    by (elim exE conjE) (rule that, assumption+, simp)
  define y where "y = concat (map (drop 32) pk)"
  have y: "y ! 1 = 1" "y ! 0 = 2" "y ! 3 = 3" "y ! 2 = 4"
    using r(4) [rule_format, of 0] r(4) [rule_format, of 1] r(4) [rule_format, of 2] r(4) [rule_format, of 3]
    by (simp_all add: lpcm_place_def y_def)
  have "length y = 4" using r(2) by (simp only: y_def)
  then have "y = [y ! 0, y ! 1, y ! 2, y ! 3]" by (auto simp: length_Suc_conv numeral_eq_Suc)
  with y have "y = [2, 1, 4, 3]" by simp
  moreover have "pcm_writeData (\<lambda>l fd b. 0) 0 (Some ?c) (?st, []) = Some (5, st', map (Pair 5) pk)" "pcm_pending st' = [5]"
    using r(1,3) c(4) by simp_all
  ultimately show ?thesis unfolding y_def by blast
qed

text \<open>
  Layouts the writer cannot play, as the first call after \<open>reset\<close>: with a subframe larger
  than a packet (8 channels of 16 bit at 192 kHz, say) the packet size becomes 0 and the loop
  never returns; with a sample rate outside the table \<open>prepareClipPlay\<close> divides by zero. In both
  cases the call has no result.
\<close>

theorem pcm_unplayable:
  assumes "av_ready c" and "av_data c = Some d" and "unat (av_len c) < 2 ^ 31"
    and "pcm_private (av_private_data c) = Some p" and "initialHeader st"
    and "pcm_supported p \<and> 2016 < pcm_subframe p
         \<or> uSampleRate p \<notin> {48000, 96000, 192000, 44100, 88200, 176400}"
  shows "pcm_writeData dev junk (Some c) (st, log) = None"
  using assms(6)
proof
  assume "uSampleRate p \<notin> {48000, 96000, 192000, 44100, 88200, 176400}"
  then have "prepareClipPlay p s = None" for s by (simp add: prepareClipPlay_def)
  with assms(1-5) show ?thesis by (auto simp: pcm_writeData_def av_ready_def)
next
  assume a: "pcm_supported p \<and> 2016 < pcm_subframe p"
  obtain st' where st': "prepareClipPlay p (st\<lparr>initialHeader := False\<rparr>) = Some (0, st')"
      "SubFrameLen st' = 0" "breakBufferFillSize st' = 0"
    using prepareClipPlay_eq [of p "st\<lparr>initialHeader := False\<rparr>"] a by auto
  have "0 < sint (av_len c)"
    using assms(1,3) sint_small [of "av_len c"] by (simp add: av_ready_def unat_pos del: of_nat_unat)
  then have "pcm_loop dev junk c (sint (av_len c)) 0 (st', log) = None"
    using pcm_loop_stuck [of dev junk c "sint (av_len c)" 0 "(st', log)"] st'
    by (cases "pcm_loop dev junk c (sint (av_len c)) 0 (st', log)") auto
  with assms(1-5) st' show ?thesis by (auto simp: pcm_writeData_def av_ready_def)
qed

theorem pcm_unplayable_witness:
  "pcm_writeData (\<lambda>l fd b. 0) 0
      (Some (example_call [1, 2]\<lparr>av_private_data :=
         Some [8, 0, 0, 0, 0, 0xEE, 2, 0, 16, 0, 0, 0, 1, 0, 0, 0]\<rparr>)) (pcm_init, []) = None"
proof -
  let ?c = "example_call [1, 2]\<lparr>av_private_data :=
         Some [8, 0, 0, 0, 0, 0xEE, 2, 0, 16, 0, 0, 0, 1, 0, 0, 0]\<rparr>"
  have p: "pcm_private (av_private_data ?c) =
      Some \<lparr>uNoOfChannels = 8, uSampleRate = 192000, uBitsPerSample = 16, bLittleEndian = 1\<rparr>"
    by (simp add: pcm_private_def) code_simp
  show ?thesis
    by (rule pcm_unplayable [OF _ _ _ p])
       (simp_all add: example_call_def av_ready_def pcm_init_def pcm_supported_def pcm_subframe_def)
qed

text \<open>
  The 24-bit conversion drops a byte of every pair of stereo samples: the twelve byte
  group \<open>A1c A1b A1a B1c B1b B1a A2c A2b A2a B2c B2b B2a\<close> is not sent as the comment in the
  code has it, the low byte of the first sample never reaches the packet and an uninitialised
  byte takes the place of the high byte of \<open>B2\<close>.
\<close>

theorem pcm24_group:
  "bits \<noteq> 16 \<Longrightarrow>
   pcm_convert junk bits 12 [A1c, A1b, A1a, B1c, B1b, B1a, A2c, A2b, A2a, B2c, B2b, B2a] =
     Some [A1a, A1b, B1a, B1b, A2a, A2b, junk, B2a, B2b, B1c, A2c, B2c]"
  by (simp add: pcm_convert_def pcm_groups24.simps)

theorem pcm24_group_witness:
  "pcm_convert 0xEE 24 12 [1, 2, 3, 4, 5, 6, 7, 8, 9, 10, 11, 12] =
     Some [3, 2, 6, 5, 9, 8, 0xEE, 12, 11, 4, 7, 10]"
  using pcm24_group [of 24 "0xEE"] by simp

end
