(* ===== verification/Writer_Video.thy ===== *)
theory Writer_Video
  imports Writer_Base
begin

text \<open>
  The video writers of libeplayer3 except H.264: \<open>output/writer/mpeg2.c\<close>, \<open>h263.c\<close>,
  \<open>divx.c\<close>, \<open>wmv.c\<close> and \<open>vc1.c\<close>. Frames longer than a PES packet are sent in a loop of
  packets of at most \<open>MAX_PES_PACKET_SIZE\<close> bytes, of which only the first carries the PTS; the
  locale \<open>packet_loop\<close> proves once what such a loop sends.
\<close>

subsection \<open>Parts the sources share\<close>

text \<open>
  \<open>(call->len - Position) <= MAX_PES_PACKET_SIZE ? (call->len - Position) : MAX_PES_PACKET_SIZE\<close>,
  in unsigned arithmetic as \<open>call->len\<close> is unsigned.
\<close>

definition packet_length :: "u32 \<Rightarrow> u32 \<Rightarrow> u32" where
  "packet_length len Position =
     (if len - Position \<le> of_nat MAX_PES_PACKET_SIZE then len - Position
      else of_nat MAX_PES_PACKET_SIZE)"

definition PES_LENGTH_BYTE_0 :: nat where "PES_LENGTH_BYTE_0 = 5"
definition PES_LENGTH_BYTE_1 :: nat where "PES_LENGTH_BYTE_1 = 4"
definition PES_FLAGS_BYTE :: nat where "PES_FLAGS_BYTE = 7"
definition PES_EXTENSION_DATA_PRESENT :: byte where "PES_EXTENSION_DATA_PRESENT = 0x01"
definition PES_HEADER_DATA_LENGTH_BYTE :: nat where "PES_HEADER_DATA_LENGTH_BYTE = 8"

text \<open>
  The statements of \<open>h263.c\<close> and \<open>wmv.c\<close> that put a private data header behind the PES header
  and account for it in the length, flags and header length bytes.
\<close>

definition insert_private_header :: "bytes \<Rightarrow> u32 \<Rightarrow> bytes" where
  "insert_private_header PesHeader payload_size =
     (let PrivateHeader = InsertVideoPrivateDataHeader payload_size;
          PrivateHeaderLength = length PrivateHeader;
          PesLength = ucast (PesHeader ! PES_LENGTH_BYTE_0)
                      + push_bit 8 (ucast (PesHeader ! PES_LENGTH_BYTE_1)) + of_nat PrivateHeaderLength :: u32;
          PesHeader = PesHeader[PES_LENGTH_BYTE_0 := ucast (PesLength AND 0xff)];
          PesHeader = PesHeader[PES_LENGTH_BYTE_1 := ucast (drop_bit 8 PesLength AND 0xff)];
          PesHeader = PesHeader[PES_HEADER_DATA_LENGTH_BYTE :=
                        PesHeader ! PES_HEADER_DATA_LENGTH_BYTE + of_nat PrivateHeaderLength];
          PesHeader = PesHeader[PES_FLAGS_BYTE := PesHeader ! PES_FLAGS_BYTE OR PES_EXTENSION_DATA_PRESENT]
      in PesHeader @ PrivateHeader)"

definition le_bytes :: "u32 \<Rightarrow> bytes" where
  "le_bytes w = [ucast (w AND 0xff), ucast (drop_bit 8 w AND 0xff), ucast (drop_bit 16 w AND 0xff),
                 ucast (drop_bit 24 w)]"

subsection \<open>mpeg2.c\<close>

definition mpeg2_reset :: int where
  "mpeg2_reset = 0"

text \<open>
  The loop of \<open>writeData\<close>. Its state is \<open>call->Pts\<close>, the sum of the write results and the
  device log.
\<close>

partial_function (option) mpeg2_loop ::
  "device \<Rightarrow> WriterAVCallData_t \<Rightarrow> u32 \<Rightarrow> u64 \<times> int \<times> wlog \<Rightarrow> (u64 \<times> int \<times> wlog) option" where
  "mpeg2_loop dev call Position s = do {
     let (Pts, len, log) = s;
     let PacketLength = packet_length (av_len call) Position;
     let PesHeader = InsertPesHeader PacketLength MPEG_VIDEO_PES_START_CODE Pts 0;
     payload \<leftarrow> mem_read (av_data call) (unat Position) (unat PacketLength);
     let (r, log) = os_writev dev (av_fd call) [PesHeader, payload] log;
     let s = (INVALID_PTS_VALUE, len + r, log);
     let Position = Position + PacketLength;
     (if Position = av_len call then Some s else mpeg2_loop dev call Position s)
   }"

definition mpeg2_writeData ::
  "device \<Rightarrow> WriterAVCallData_t option \<Rightarrow> wlog \<Rightarrow> (int \<times> WriterAVCallData_t option \<times> wlog) option" where
  "mpeg2_writeData dev call_p log =
     (case call_p of
        None \<Rightarrow> Some (0, None, log)
      | Some call \<Rightarrow>
          if av_data call = None \<or> av_len call \<le> 0 then Some (0, Some call, log)
          else if av_fd call < 0 then Some (0, Some call, log)
          else do {
            (Pts, len, log) \<leftarrow> mpeg2_loop dev call 0 (av_Pts call, 0, log);
            Some (len, Some (call\<lparr>av_Pts := Pts\<rparr>), log)
          })"

subsection \<open>h263.c\<close>

definition h263_reset :: int where
  "h263_reset = 0"

definition h263_writeData :: "device \<Rightarrow> WriterAVCallData_t option \<Rightarrow> wlog \<Rightarrow> (int \<times> wlog) option" where
  "h263_writeData dev call_p log =
     (case call_p of
        None \<Rightarrow> Some (0, log)
      | Some call \<Rightarrow>
          if av_data call = None \<or> av_len call \<le> 0 then Some (0, log)
          else if av_fd call < 0 then Some (0, log)
          else do {
            let PesHeader = InsertPesHeader (av_len call) H263_VIDEO_PES_START_CODE (av_Pts call) 0;
            let PesHeader = insert_private_header PesHeader (av_len call);
            payload \<leftarrow> mem_read (av_data call) 0 (unat (av_len call));
            Some (os_writev dev (av_fd call) [PesHeader, payload] log)
          })"

subsection \<open>divx.c\<close>

definition divx_reset :: "bool \<times> wlog \<Rightarrow> int \<times> bool \<times> wlog" where
  "divx_reset s = (0, True, snd s)"

definition divx_fake_headers :: "u32 \<Rightarrow> bytes" where
  "divx_fake_headers usecPerFrame =
     (let ld = new_packer;
          ld = PutBits ld 0x1b0 32;
          ld = PutBits ld 0 8;
          ld = PutBits ld 0x1b2 32;
          ld = PutBits ld 0x53545443 32;
          ld = PutBits ld usecPerFrame 32;
          ld = FlushBits ld
      in Ptr ld)"

definition divx_FakeStartCode :: u32 where
  "divx_FakeStartCode = push_bit 8 5 OR PES_VERSION_FAKE_START_CODE"

definition divx_writeData ::
  "device \<Rightarrow> WriterAVCallData_t option \<Rightarrow> bool \<times> wlog \<Rightarrow> (int \<times> bool \<times> wlog) option" where
  "divx_writeData dev call_p s =
     (let (initialHeader, log) = s in
      case call_p of
        None \<Rightarrow> Some (0, initialHeader, log)
      | Some call \<Rightarrow>
          if av_data call = None \<or> av_len call \<le> 0 then Some (0, initialHeader, log)
          else if av_fd call < 0 then Some (0, initialHeader, log)
          else if av_FrameRate call = 0 then None
          else do {
            let usecPerFrame = 1000000000 div av_FrameRate call;
            let FakeHeaders = divx_fake_headers usecPerFrame;
            let PesHeader = InsertPesHeader (av_len call) MPEG_VIDEO_PES_START_CODE (av_Pts call) divx_FakeStartCode;
            priv \<leftarrow> (if initialHeader then mem_read (av_private_data call) 0 (unat (av_private_size call))
                    else Some []);
            payload \<leftarrow> mem_read (av_data call) 0 (unat (av_len call));
            let (len, log) = os_writev dev (av_fd call) [PesHeader, FakeHeaders, priv, payload] log;
            Some (len, False, log)
          })"

subsection \<open>wmv.c\<close>

definition WMV3_PRIVATE_DATA_LENGTH :: nat where "WMV3_PRIVATE_DATA_LENGTH = 4"
definition METADATA_STRUCT_C_START :: nat where "METADATA_STRUCT_C_START = 8"

definition wmv_Metadata :: bytes where
  "wmv_Metadata =
     [0x00, 0x00, 0x00, 0xc5, 0x04, 0x00, 0x00, 0x00, 0xc0, 0x00, 0x00, 0x00,
      0x00, 0x00, 0x00, 0x00, 0x00, 0x00, 0x00, 0x00, 0x0c, 0x00, 0x00, 0x00,
      0x60, 0x00, 0x00, 0x00, 0x00, 0x00, 0x00, 0x00, 0x00, 0x00, 0x00, 0x00]"

record awmv_t =
  wmv_privateData :: bytes
  wmv_width :: u32
  wmv_height :: u32
  wmv_framerate :: u32

text \<open>Storing a run of bytes through \<open>*PesPtr++\<close> at an offset of a larger buffer.\<close>

definition overwrite :: "nat \<Rightarrow> bytes \<Rightarrow> bytes \<Rightarrow> bytes" where
  "overwrite off bs buf = take off buf @ bs @ drop (off + length bs) buf"

text \<open>
  The metadata record: struct C from the private data, struct A height and width, then 12 bytes
  on the frame duration.
\<close>

definition wmv_metadata :: "awmv_t \<Rightarrow> u32 \<Rightarrow> bytes" where
  "wmv_metadata p crazyFramerate =
     (let m = wmv_Metadata;
          ptr = METADATA_STRUCT_C_START;
          m = overwrite ptr (wmv_privateData p) m;
          ptr = ptr + WMV3_PRIVATE_DATA_LENGTH;
          m = overwrite ptr (le_bytes (wmv_height p)) m;
          m = overwrite (ptr + 4) (le_bytes (wmv_width p)) m;
          ptr = ptr + 8 + 12;
          m = overwrite ptr (le_bytes crazyFramerate) m
      in take (ptr + 4) m)"

partial_function (option) wmv_loop ::
  "device \<Rightarrow> WriterAVCallData_t \<Rightarrow> u32 \<Rightarrow> bool \<times> u64 \<times> int \<times> wlog \<Rightarrow> (bool \<times> u64 \<times> int \<times> wlog) option" where
  "wmv_loop dev call Position s = do {
     let (insertSampleHeader, Pts, len, log) = s;
     let PacketLength = packet_length (av_len call) Position;
     let PesHeader = InsertPesHeader PacketLength VC1_VIDEO_PES_START_CODE Pts 0;
     let PesHeader = (if insertSampleHeader then insert_private_header PesHeader (av_len call) else PesHeader);
     payload \<leftarrow> mem_read (av_data call) (unat Position) (unat PacketLength);
     let (len, log) = os_write dev (av_fd call) (PesHeader @ payload) log;
     let s = (False, INVALID_PTS_VALUE, len, log);
     let Position = Position + PacketLength;
     (if Position = av_len call then Some s else wmv_loop dev call Position s)
   }"

definition wmv_reset :: "bool \<times> wlog \<Rightarrow> int \<times> bool \<times> wlog" where
  "wmv_reset s = (0, True, snd s)"

text \<open>
  \<open>fps\<close> is the double expression \<open>(10000000.0 / framerate) * 1000.0\<close> converted to unsigned, and
  \<open>junk\<close> the contents of the freshly allocated private record.
\<close>

definition wmv_writeData ::
  "(u32 \<Rightarrow> u32) \<Rightarrow> bytes \<Rightarrow> device \<Rightarrow> WriterAVCallData_t option \<Rightarrow> bool \<times> wlog
   \<Rightarrow> (int \<times> WriterAVCallData_t option \<times> bool \<times> wlog) option" where
  "wmv_writeData fps junk dev call_p s =
     (let (initialHeader, log) = s in
      case call_p of
        None \<Rightarrow> Some (0, None, initialHeader, log)
      | Some call \<Rightarrow> do {
          let n = (if av_private_size call > of_nat WMV3_PRIVATE_DATA_LENGTH
                   then WMV3_PRIVATE_DATA_LENGTH else unat (av_private_size call));
          priv \<leftarrow> mem_read (av_private_data call) 0 n;
          let private_data = \<lparr>wmv_privateData = priv @ drop n junk, wmv_width = av_Width call,
                              wmv_height = av_Height call, wmv_framerate = av_FrameRate call\<rparr>;
          (if av_data call = None \<or> av_len call \<le> 0 then Some (0, Some call, initialHeader, log)
           else if av_fd call < 0 then Some (0, Some call, initialHeader, log)
           else do {
             let (len, log) =
               (if initialHeader then
                  (let crazyFramerate = fps (wmv_framerate private_data);
                       metadata = wmv_metadata private_data crazyFramerate;
                       header = InsertPesHeader (of_nat (length metadata)) VC1_VIDEO_PES_START_CODE INVALID_PTS_VALUE 0
                   in os_write dev (av_fd call) (header @ metadata) log)
                else (0, log));
             (if av_len call > 0 \<and> av_data call \<noteq> None then do {
                (x, Pts, len, log) \<leftarrow> wmv_loop dev call 0 (True, av_Pts call, len, log);
                Some (len, Some (call\<lparr>av_Pts := Pts\<rparr>), False, log)
              } else Some (len, Some call, False, log))
           })
        })"

subsection \<open>vc1.c\<close>

definition SequenceLayerStartCode :: bytes where
  "SequenceLayerStartCode = [0x00, 0x00, 0x01, 0x80]"

definition Vc1FrameStartCode :: bytes where
  "Vc1FrameStartCode = [0, 0, 1, 0x0d]"

definition vc1_Metadata :: bytes where
  "vc1_Metadata =
     [0x00, 0x00, 0x00, 0xc5, 0x04, 0x00, 0x00, 0x00, 0xc0, 0x00, 0x00, 0x00,
      0x00, 0x00, 0x00, 0x00, 0x00, 0x00, 0x00, 0x00, 0x0c, 0x00, 0x00, 0x00,
      0x60, 0x00, 0x00, 0x00, 0x00, 0x00, 0x00, 0x00, 0x00, 0x00, 0x00, 0x00]"

definition vc1_metadata :: "WriterAVCallData_t \<Rightarrow> u32 \<Rightarrow> bytes" where
  "vc1_metadata call crazyFramerate =
     (let m = SequenceLayerStartCode @ vc1_Metadata;
          ptr = length SequenceLayerStartCode + METADATA_STRUCT_C_START + WMV3_PRIVATE_DATA_LENGTH;
          m = overwrite ptr (le_bytes (av_Height call)) m;
          m = overwrite (ptr + 4) (le_bytes (av_Width call)) m;
          ptr = ptr + 8 + 12;
          m = overwrite ptr (le_bytes crazyFramerate) m
      in take (ptr + 4) m)"

text \<open>State of the loop: \<open>FrameHeaderSeen\<close>, \<open>insertSampleHeader\<close>, PTS, last result, log.\<close>

partial_function (option) vc1_loop ::
  "device \<Rightarrow> WriterAVCallData_t \<Rightarrow> u32 \<Rightarrow> bool \<times> bool \<times> u64 \<times> int \<times> wlog
   \<Rightarrow> (bool \<times> bool \<times> u64 \<times> int \<times> wlog) option" where
  "vc1_loop dev call Position s = do {
     let (FrameHeaderSeen, insertSampleHeader, Pts, len, log) = s;
     let PacketLength = packet_length (av_len call) Position;
     let PesHeader = InsertPesHeader PacketLength VC1_VIDEO_PES_START_CODE Pts 0;
     start \<leftarrow> (if insertSampleHeader \<and> \<not> FrameHeaderSeen \<and> av_len call > 3
              then mem_read (av_data call) 0 4 else Some []);
     let FrameHeaderSeen = (FrameHeaderSeen \<or> insertSampleHeader \<and> start = Vc1FrameStartCode);
     let PesHeader = (if insertSampleHeader \<and> \<not> FrameHeaderSeen then PesHeader @ Vc1FrameStartCode
                      else PesHeader);
     payload \<leftarrow> mem_read (av_data call) (unat Position) (unat PacketLength);
     let (len, log) = os_write dev (av_fd call) (PesHeader @ payload) log;
     let s = (FrameHeaderSeen, False, INVALID_PTS_VALUE, len, log);
     let Position = Position + PacketLength;
     (if Position = av_len call then Some s else vc1_loop dev call Position s)
   }"

definition vc1_reset :: "bool \<times> bool \<times> wlog \<Rightarrow> int \<times> bool \<times> bool \<times> wlog" where
  "vc1_reset s = (0, True, False, snd (snd s))"

text \<open>The packet buffer holds 9 + 128 bytes: longer private data overflows it.\<close>

definition vc1_writeData ::
  "(u32 \<Rightarrow> u32) \<Rightarrow> device \<Rightarrow> WriterAVCallData_t option \<Rightarrow> bool \<times> bool \<times> wlog
   \<Rightarrow> (int \<times> WriterAVCallData_t option \<times> bool \<times> bool \<times> wlog) option" where
  "vc1_writeData fps dev call_p s =
     (let (initialHeader, FrameHeaderSeen, log) = s in
      case call_p of
        None \<Rightarrow> Some (0, None, s)
      | Some call \<Rightarrow>
          if av_data call = None \<or> av_len call \<le> 0 then Some (0, Some call, s)
          else if av_fd call < 0 then Some (0, Some call, s)
          else do {
            (len, log) \<leftarrow>
              (if initialHeader then do {
                 let crazyFramerate = fps (av_FrameRate call);
                 let metadata = vc1_metadata call crazyFramerate;
                 let header = InsertPesHeader (of_nat (length metadata)) VC1_VIDEO_PES_START_CODE INVALID_PTS_VALUE 0;
                 let (len, log) = os_write dev (av_fd call) (header @ metadata) log;
                 priv \<leftarrow> mem_read (av_private_data call) 0 (unat (av_private_size call));
                 (if length priv \<le> 128 then do {
                    let header = InsertPesHeader (av_private_size call) VC1_VIDEO_PES_START_CODE INVALID_PTS_VALUE 0;
                    Some (os_write dev (av_fd call) (header @ priv) log)
                  } else None)
               } else Some (0, log));
            (if av_len call > 0 \<and> av_data call \<noteq> None then do {
               (seen, x, Pts, len, log) \<leftarrow> vc1_loop dev call 0 (FrameHeaderSeen, True, av_Pts call, len, log);
               Some (len, Some (call\<lparr>av_Pts := Pts\<rparr>), False, seen, log)
             } else Some (len, Some call, False, FrameHeaderSeen, log))
          })"

subsection \<open>Specification vocabulary\<close>

definition frame_chunks :: "WriterAVCallData_t \<Rightarrow> bytes list" where
  "frame_chunks c = chunks MAX_PES_PACKET_SIZE (av_payload c)"

definition mpeg2_step :: "device \<Rightarrow> WriterAVCallData_t \<Rightarrow> bytes \<Rightarrow> u64 \<times> int \<times> wlog \<Rightarrow> u64 \<times> int \<times> wlog" where
  "mpeg2_step dev call payload s =
     (let (Pts, len, log) = s;
          (r, log) = os_write dev (av_fd call) (pes_packet MPEG_VIDEO_PES_START_CODE Pts payload) log
      in (INVALID_PTS_VALUE, len + r, log))"

definition wmv_step ::
  "device \<Rightarrow> WriterAVCallData_t \<Rightarrow> bytes \<Rightarrow> bool \<times> u64 \<times> int \<times> wlog \<Rightarrow> bool \<times> u64 \<times> int \<times> wlog" where
  "wmv_step dev call payload s =
     (let (first, Pts, len, log) = s;
          header = InsertPesHeader (of_nat (length payload)) VC1_VIDEO_PES_START_CODE Pts 0;
          header = (if first then insert_private_header header (av_len call) else header);
          (len, log) = os_write dev (av_fd call) (header @ payload) log
      in (False, INVALID_PTS_VALUE, len, log))"

definition vc1_marked :: "WriterAVCallData_t \<Rightarrow> bool" where
  "vc1_marked c \<longleftrightarrow> take 4 (av_payload c) = Vc1FrameStartCode"

definition vc1_step ::
  "device \<Rightarrow> WriterAVCallData_t \<Rightarrow> bytes \<Rightarrow> bool \<times> bool \<times> u64 \<times> int \<times> wlog
   \<Rightarrow> bool \<times> bool \<times> u64 \<times> int \<times> wlog" where
  "vc1_step dev call payload s =
     (let (seen, first, Pts, len, log) = s;
          seen = (seen \<or> first \<and> vc1_marked call);
          header = InsertPesHeader (of_nat (length payload)) VC1_VIDEO_PES_START_CODE Pts 0;
          header = (if first \<and> \<not> seen then header @ Vc1FrameStartCode else header);
          (len, log) = os_write dev (av_fd call) (header @ payload) log
      in (seen, False, INVALID_PTS_VALUE, len, log))"

definition priv_packet :: "byte \<Rightarrow> u64 \<Rightarrow> u32 \<Rightarrow> bytes \<Rightarrow> bytes" where
  "priv_packet sid pts frame_len body =
     insert_private_header (InsertPesHeader (of_nat (length body)) sid pts 0) frame_len @ body"

definition wmv_private_ok :: "WriterAVCallData_t \<Rightarrow> bool" where
  "wmv_private_ok c \<longleftrightarrow>
     (case av_private_data c of None \<Rightarrow> av_private_size c = 0
      | Some p \<Rightarrow> 4 \<le> unat (av_private_size c) \<and> 4 \<le> length p)"

definition wmv_info :: "(u32 \<Rightarrow> u32) \<Rightarrow> bytes \<Rightarrow> WriterAVCallData_t \<Rightarrow> bytes" where
  "wmv_info fps junk c =
     [0, 0, 0, 0xc5, 4, 0, 0, 0] @ (case av_private_data c of None \<Rightarrow> junk | Some p \<Rightarrow> take 4 p)
     @ le_bytes (av_Height c) @ le_bytes (av_Width c) @ [0x0c, 0, 0, 0, 0x60, 0, 0, 0, 0, 0, 0, 0]
     @ le_bytes (fps (av_FrameRate c))"

definition vc1_info :: "(u32 \<Rightarrow> u32) \<Rightarrow> WriterAVCallData_t \<Rightarrow> bytes" where
  "vc1_info fps c =
     [0, 0, 1, 0x80, 0, 0, 0, 0xc5, 4, 0, 0, 0, 0xc0, 0, 0, 0]
     @ le_bytes (av_Height c) @ le_bytes (av_Width c) @ [0x0c, 0, 0, 0, 0x60, 0, 0, 0, 0, 0, 0, 0]
     @ le_bytes (fps (av_FrameRate c))"

subsection \<open>Lemmas\<close>

lemma packet_length_nat:
  assumes "unat pos \<le> unat len"
  shows "unat (packet_length len pos) = min 65400 (unat len - unat pos)"
proof -
  have "unat (len - pos) = unat len - unat pos"
    using assms by (simp add: unat_sub_if_size)
  then show ?thesis
    by (simp add: packet_length_def MAX_PES_PACKET_SIZE_def word_le_nat_alt)
qed

lemma packet_end:
  assumes "unat pos \<le> unat len"
  shows "unat (pos + packet_length len pos) = unat pos + min 65400 (unat len - unat pos)"
  using assms unat_add_small [of pos "packet_length len pos"] packet_length_nat [OF assms] unat_u32_less [of len]
  by linarith

locale packet_loop =
  fixes loop :: "WriterAVCallData_t \<Rightarrow> u32 \<Rightarrow> 's \<Rightarrow> 's option"
    and step :: "WriterAVCallData_t \<Rightarrow> bytes \<Rightarrow> 's \<Rightarrow> 's"
  assumes unfold: "av_data c = Some d \<Longrightarrow> unat (av_len c) \<le> length d \<Longrightarrow>
    n = packet_length (av_len c) pos \<Longrightarrow> unat pos + unat n \<le> unat (av_len c) \<Longrightarrow>
    loop c pos s =
      (let s' = step c (take (unat n) (drop (unat pos) d)) s
       in if pos + n = av_len c then Some s' else loop c (pos + n) s')"
begin

lemma loop_from:
  assumes d: "av_data c = Some d" "unat (av_len c) \<le> length d"
  shows "unat pos < unat (av_len c) \<Longrightarrow>
    loop c pos s = Some (fold (step c) (chunks MAX_PES_PACKET_SIZE (drop (unat pos) (av_payload c))) s)"
proof (induction "unat (av_len c) - unat pos" arbitrary: pos s rule: less_induct)
  case less
  let ?n = "packet_length (av_len c) pos" and ?xs = "drop (unat pos) (av_payload c)"
  have pay: "av_payload c = take (unat (av_len c)) d" using d by (simp add: av_payload_def)
  have n: "unat ?n = min 65400 (unat (av_len c) - unat pos)" using less.prems by (simp add: packet_length_nat)
  have e: "unat (pos + ?n) = unat pos + min 65400 (unat (av_len c) - unat pos)"
    using less.prems by (simp add: packet_end)
  have seg: "take (unat ?n) (drop (unat pos) d) = take MAX_PES_PACKET_SIZE ?xs"
    using less.prems n by (simp add: pay drop_take MAX_PES_PACKET_SIZE_def min_def)
  have ch: "chunks MAX_PES_PACKET_SIZE ?xs =
      take MAX_PES_PACKET_SIZE ?xs # chunks MAX_PES_PACKET_SIZE (drop MAX_PES_PACKET_SIZE ?xs)"
    using less.prems d by (intro chunks_step) (auto simp: pay MAX_PES_PACKET_SIZE_def)
  have l: "loop c pos s = (if pos + ?n = av_len c then Some (step c (take MAX_PES_PACKET_SIZE ?xs) s)
      else loop c (pos + ?n) (step c (take MAX_PES_PACKET_SIZE ?xs) s))"
    using unfold [OF d refl, of pos s] n less.prems seg by simp
  show ?case
  proof (cases "pos + ?n = av_len c")
    case True
    then have "drop MAX_PES_PACKET_SIZE ?xs = []"
      using e d by (simp add: pay MAX_PES_PACKET_SIZE_def)
    with True show ?thesis unfolding l ch by simp
  next
    case False
    then have lt: "unat (pos + ?n) < unat (av_len c)" using e less.prems by (auto simp: unat_eq_iff)
    then have "unat (pos + ?n) = unat pos + MAX_PES_PACKET_SIZE"
      using e by (auto simp: MAX_PES_PACKET_SIZE_def min_def split: if_splits)
    then have "drop MAX_PES_PACKET_SIZE ?xs = drop (unat (pos + ?n)) (av_payload c)"
      by (simp add: add.commute)
    with less.hyps [of "pos + ?n"] lt e False less.prems show ?thesis
      unfolding l ch by (simp add: MAX_PES_PACKET_SIZE_def)
  qed
qed

lemma loop_sends:
  assumes "av_ready c" and "av_wf c"
  shows "loop c 0 s = Some (fold (step c) (frame_chunks c) s)"
proof -
  obtain d where d: "av_data c = Some d" "unat (av_len c) \<le> length d" "av_len c \<noteq> 0"
    using assms by (rule av_readyE)
  then show ?thesis using loop_from [OF d(1,2), of 0 s] by (simp add: unat_pos frame_chunks_def)
qed

end

lemma unat_packet_length_bound: "unat (packet_length a b) \<le> 65400"
  by (simp add: packet_length_def MAX_PES_PACKET_SIZE_def word_le_nat_alt)

interpretation mpeg2: packet_loop "mpeg2_loop dev" "mpeg2_step dev" for dev
proof
  fix c :: WriterAVCallData_t and d n pos s
  assume d: "av_data c = Some d" "unat (av_len c) \<le> length d"
    and n: "n = packet_length (av_len c) pos" "unat pos + unat n \<le> unat (av_len c)"
  then show "mpeg2_loop dev c pos s = (let s' = mpeg2_step dev c (take (unat n) (drop (unat pos) d)) s
       in if pos + n = av_len c then Some s' else mpeg2_loop dev c (pos + n) s')"
    by (subst mpeg2_loop.simps) (simp add: mpeg2_step_def pes_packet_def Let_def case_prod_unfold)
qed

interpretation wmv: packet_loop "wmv_loop dev" "wmv_step dev" for dev
proof
  fix c :: WriterAVCallData_t and d n pos s
  assume d: "av_data c = Some d" "unat (av_len c) \<le> length d"
    and n: "n = packet_length (av_len c) pos" "unat pos + unat n \<le> unat (av_len c)"
  then show "wmv_loop dev c pos s = (let s' = wmv_step dev c (take (unat n) (drop (unat pos) d)) s
       in if pos + n = av_len c then Some s' else wmv_loop dev c (pos + n) s')"
    by (subst wmv_loop.simps) (simp add: wmv_step_def Let_def case_prod_unfold)
qed

interpretation vc1: packet_loop "vc1_loop dev" "vc1_step dev" for dev
proof
  fix c :: WriterAVCallData_t and d n pos s
  assume d: "av_data c = Some d" "unat (av_len c) \<le> length d"
    and n: "n = packet_length (av_len c) pos" "unat pos + unat n \<le> unat (av_len c)"
  have "4 \<le> unat (av_len c)" if "vc1_marked c"
    using arg_cong [OF that [unfolded vc1_marked_def Vc1FrameStartCode_def], of length] d
    by (simp add: av_payload_def)
  then have m: "vc1_marked c \<longleftrightarrow> av_len c > 3 \<and> take 4 d = Vc1FrameStartCode"
    using d by (auto simp: vc1_marked_def av_payload_def word_less_nat_alt min_def)
  show "vc1_loop dev c pos s = (let s' = vc1_step dev c (take (unat n) (drop (unat pos) d)) s
       in if pos + n = av_len c then Some s' else vc1_loop dev c (pos + n) s')"
    using d n m
    by (subst vc1_loop.simps)
       (auto simp: vc1_step_def Let_def case_prod_unfold word_less_nat_alt Vc1FrameStartCode_def)
qed

lemma fold_packets:
  assumes "\<And>x len log. \<exists>r. step x (mk len log) = mk r (log @ [(fd, p x)])"
  shows "\<exists>r. fold step xs (mk len log) = mk (r::int) ((log::wlog) @ map (Pair fd) (map p xs))"
proof (induction xs arbitrary: len log)
  case Nil
  then show ?case by auto
next
  case (Cons x xs)
  obtain r where "step x (mk len log) = mk r (log @ [(fd, p x)])" using assms by blast
  moreover obtain r' where "fold step xs (mk r (log @ [(fd, p x)])) =
      mk r' ((log @ [(fd, p x)]) @ map (Pair fd) (map p xs))"
    using Cons.IH by blast
  ultimately show ?case by auto
qed

lemma mpeg2_fold:
  "\<exists>r. fold (mpeg2_step dev c) (x # xs) (pts, len, log) =
     (INVALID_PTS_VALUE, r, log @ map (Pair (av_fd c)) (pes_packets MPEG_VIDEO_PES_START_CODE pts (x # xs)))"
proof -
  let ?p = "pes_packet MPEG_VIDEO_PES_START_CODE"
  have "\<exists>r. fold (mpeg2_step dev c) xs (INVALID_PTS_VALUE, len + dev log (av_fd c) (?p pts x), log @ [(av_fd c, ?p pts x)])
      = (INVALID_PTS_VALUE, r, (log @ [(av_fd c, ?p pts x)]) @ map (Pair (av_fd c)) (map (?p INVALID_PTS_VALUE) xs))"
    by (rule fold_packets [where mk = "\<lambda>len log. (INVALID_PTS_VALUE, len, log)"])
       (simp add: mpeg2_step_def os_write_def)
  moreover have "mpeg2_step dev c x (pts, len, log) =
      (INVALID_PTS_VALUE, len + dev log (av_fd c) (?p pts x), log @ [(av_fd c, ?p pts x)])"
    by (simp add: mpeg2_step_def os_write_def)
  ultimately show ?thesis by (simp add: pes_packets_map)
qed

lemma frame_chunks_props:
  assumes "av_ready c" and "av_wf c"
  obtains x xs where "frame_chunks c = x # xs" and "concat (x # xs) = av_payload c"
    and "list_all (\<lambda>x. 0 < length x \<and> length x \<le> MAX_PES_PACKET_SIZE) (x # xs)"
proof -
  obtain d where d: "av_data c = Some d" "unat (av_len c) \<le> length d" "av_len c \<noteq> 0"
    "av_payload c = take (unat (av_len c)) d"
    using assms by (rule av_readyE)
  then have "av_payload c \<noteq> []" by (auto simp: unat_pos)
  then have "frame_chunks c \<noteq> []"
    by (simp add: frame_chunks_def chunks_step MAX_PES_PACKET_SIZE_def)
  moreover have "concat (frame_chunks c) = av_payload c"
    by (simp add: frame_chunks_def concat_chunks MAX_PES_PACKET_SIZE_def)
  moreover have "list_all (\<lambda>x. 0 < length x \<and> length x \<le> MAX_PES_PACKET_SIZE) (frame_chunks c)"
    using length_chunks by (auto simp: frame_chunks_def list_all_iff)
  ultimately show ?thesis using that by (cases "frame_chunks c") auto
qed

lemma ucast_take_bit_8: "(ucast (take_bit 8 (w::u32)) :: byte) = ucast w"
  by (rule bit_word_eqI) (auto simp: bit_simps)

lemma insert_private_header_bytes:
  "insert_private_header (InsertPesHeader n sid pts 0) m =
     (let l = of_nat (unat (pes_length_field n pts 0) mod 65536) + 9 :: u32 in
     [0, 0, 1, sid, ucast (drop_bit 8 l), ucast l, 0x80,
      if pts = INVALID_PTS_VALUE then 1 else 0x81, if pts = INVALID_PTS_VALUE then 9 else 14]
     @ pes_pts_bytes pts @ InsertVideoPrivateDataHeader m)"
proof -
  let ?f = "pes_length_field n pts 0"
  have "ucast (ucast ?f :: byte) + push_bit 8 (ucast (ucast (drop_bit 8 ?f) :: byte))
      = (of_nat (unat ?f mod 65536) :: u32)"
  proof -
    have e: "ucast (ucast ?f :: byte) + push_bit 8 (ucast (ucast (drop_bit 8 ?f) :: byte))
        = (push_bit 8 (ucast (ucast (drop_bit 8 ?f) :: byte)) OR ucast (ucast ?f :: byte) :: u32)"
      by (subst add.commute, rule disjunctive_add) (auto simp: bit_simps)
    have "unat (push_bit 8 (ucast (ucast (drop_bit 8 ?f) :: byte)) OR ucast (ucast ?f :: byte) :: u32)
      = unat ?f mod 65536"
      unfolding unat_byte_pair by (rule unat_byte_halves)
    then show ?thesis
      unfolding e by (simp add: unat_eq_iff unat_of_nat_small)
  qed
  then show ?thesis
    by (simp add: insert_private_header_def InsertPesHeader_bytes Let_def InsertVideoPrivateDataHeader_bytes
        PES_LENGTH_BYTE_0_def PES_LENGTH_BYTE_1_def PES_FLAGS_BYTE_def PES_HEADER_DATA_LENGTH_BYTE_def
        PES_EXTENSION_DATA_PRESENT_def pes_pic_bytes_def and_masks ucast_take_bit_8 unsigned_ucast_eq)
qed


lemma parse_priv_packet:
  assumes "length body + 17 < 65536"
  shows "parse_pes (priv_packet sid pts m body) =
    Some \<lparr>pes_sid = unat sid, pes_len = length (priv_packet sid pts m body) - 6,
          pes_pts = pts_of pts, pes_payload = body\<rparr>"
proof -
  let ?f = "pes_length_field (of_nat (length body)) pts 0"
  have f: "unat ?f = length body + 3 + (if pts \<noteq> INVALID_PTS_VALUE then 5 else 0)"
    using assms
    by (simp add: pes_length_field_def unat_word_ariths unsigned_of_nat take_bit_nat_eq_self)
  have d: "drop_bit 6 (0x81::byte) = 2" "drop_bit 6 (1::byte) = 0" by code_simp+
  show ?thesis
    using assms
    by (simp add: priv_packet_def insert_private_header_bytes parse_pes_Cons parse_pts_bytes
        length_pes_pts_bytes unat_byte_halves f d InsertVideoPrivateDataHeader_bytes pts_of_def Let_def
        unat_word_ariths unsigned_of_nat take_bit_nat_eq_self)
qed


lemma packed_word:
  "packer_ok ld \<Longrightarrow> Remaining ld < 32 \<or> BitBuffer ld = 0 \<Longrightarrow>
   packed (PutBits ld w 32) = packed ld @ bits_of 32 w \<and> packer_ok (PutBits ld w 32)
   \<and> Remaining (PutBits ld w 32) = Remaining ld"
  using unat_u32_less [of w]
  by (auto simp: packed_PutBits PutBits_ok field_ok_def Remaining_PutBits packer_ok_def)

lemma divx_fake_headers_bytes:
  "divx_fake_headers w =
     [0, 0, 1, 0xb0, 0, 0, 0, 1, 0xb2, 0x53, 0x54, 0x54, 0x43,
      ucast (drop_bit 24 w), ucast (drop_bit 16 w), ucast (drop_bit 8 w), ucast w]" (is "_ = ?r")
proof (rule bytes_bits_inj)
  define a where "a = PutBits new_packer 0x1b0 32"
  define b where "b = PutBits a 0 8"
  define c where "c = PutBits b 0x1b2 32"
  define d where "d = PutBits c 0x53545443 32"
  define e where "e = PutBits d w 32"
  have new: "BitBuffer new_packer = 0" "Remaining new_packer = 32" by (simp_all add: new_packer_def)
  have a: "packed a = bits_of 32 (0x1b0::u32)" "packer_ok a" "Remaining a = 32"
    using packed_word [OF packer_ok_new, of "0x1b0"] new by (simp_all add: a_def)
  have b: "packed b = packed a @ bits_of 8 (0::u32)" "packer_ok b" "Remaining b = 24"
    using a by (simp_all add: b_def packed_PutBits PutBits_ok field_ok_def Remaining_PutBits)
  have c: "packed c = packed b @ bits_of 32 (0x1b2::u32)" "packer_ok c" "Remaining c = 24"
    using packed_word [of b "0x1b2"] b by (simp_all add: c_def)
  have d: "packed d = packed c @ bits_of 32 (0x53545443::u32)" "packer_ok d" "Remaining d = 24"
    using packed_word [of c "0x53545443"] c by (simp_all add: d_def)
  have e: "packed e = packed d @ bits_of 32 w" "packer_ok e"
    using packed_word [of d w] d by (simp_all add: e_def)
  have "bytes_bits (Ptr (FlushBits e)) = packed e"
    using e(2) by (rule packer.flush_aligned) (simp add: a b c d e)
  then have "bytes_bits (divx_fake_headers w) = packed e"
    by (simp add: divx_fake_headers_def Let_def a_def b_def c_def d_def e_def)
  also have "\<dots> = bytes_bits ?r"
    by (simp add: a b c d e bits_of_numeral bits_of_Suc bit_simps word_bytes_bits [of w, symmetric])
  finally show "bytes_bits (divx_fake_headers w) = bytes_bits ?r" .
qed

lemma parse_pes_short_length:
  assumes "n + 13 < 65536"
  shows "parse_pes (InsertPesHeader (of_nat n) sid pts pic @ bs) =
    Some \<lparr>pes_sid = unat sid,
          pes_len = n + 3 + (if pts \<noteq> INVALID_PTS_VALUE then 5 else 0) + (if pic \<noteq> 0 then 5 else 0),
          pes_pts = pts_of pts, pes_payload = pes_pic_bytes pic @ bs\<rparr>"
  unfolding parse_pes_header using assms
  by (simp add: pes_length_field_def pts_of_def unat_word_ariths unsigned_of_nat take_bit_nat_eq_self)

lemma wmv_fold_rest:
  "\<exists>r. fold (wmv_step dev c) xs (False, INVALID_PTS_VALUE, len, log) =
     (False, INVALID_PTS_VALUE, r,
      log @ map (Pair (av_fd c)) (map (pes_packet VC1_VIDEO_PES_START_CODE INVALID_PTS_VALUE) xs))"
  by (rule fold_packets [where mk = "\<lambda>len log. (False, INVALID_PTS_VALUE, len, log)"])
     (simp add: wmv_step_def os_write_def pes_packet_def Let_def)

lemma vc1_fold_rest:
  "\<exists>r. fold (vc1_step dev c) xs (seen, False, INVALID_PTS_VALUE, len, log) =
     (seen, False, INVALID_PTS_VALUE, r,
      log @ map (Pair (av_fd c)) (map (pes_packet VC1_VIDEO_PES_START_CODE INVALID_PTS_VALUE) xs))"
  by (rule fold_packets [where mk = "\<lambda>len log. (seen, False, INVALID_PTS_VALUE, len, log)"])
     (simp add: vc1_step_def os_write_def pes_packet_def Let_def)

lemma length_le_bytes [simp]: "length (le_bytes w) = 4"
  by (simp add: le_bytes_def)

lemma overwrite_at:
  "length xs = off \<Longrightarrow> length ys = length bs \<Longrightarrow> overwrite off bs (xs @ ys @ zs) = xs @ bs @ zs"
  by (simp add: overwrite_def)

text \<open>The four stores of the metadata record, in a buffer cut at the places they hit.\<close>

lemma overwrite_metadata:
  assumes "length a = n" and "length h' = 4" and "length w' = 4" and "length b = 12" and "length z' = 4"
  shows "overwrite (n + 8 + 12) (le_bytes z) (overwrite (n + 4) (le_bytes w) (overwrite n (le_bytes h)
           (a @ h' @ w' @ b @ z'))) = a @ le_bytes h @ le_bytes w @ b @ le_bytes z"
proof -
  have "overwrite n (le_bytes h) (a @ h' @ w' @ b @ z') = a @ le_bytes h @ w' @ b @ z'"
    using assms by (intro overwrite_at) simp_all
  moreover have "overwrite (n + 4) (le_bytes w) ((a @ le_bytes h) @ w' @ b @ z') = (a @ le_bytes h) @ le_bytes w @ b @ z'"
    using assms by (intro overwrite_at) simp_all
  moreover have "overwrite (n + 8 + 12) (le_bytes z) ((a @ le_bytes h @ le_bytes w @ b) @ z' @ []) =
      (a @ le_bytes h @ le_bytes w @ b) @ le_bytes z @ []"
    using assms by (intro overwrite_at) simp_all
  ultimately show ?thesis by simp
qed

lemma wmv_metadata_info:
  assumes "length p = 4"
  shows "wmv_metadata \<lparr>wmv_privateData = p, wmv_width = w, wmv_height = h, wmv_framerate = f\<rparr> z =
     [0, 0, 0, 0xc5, 4, 0, 0, 0] @ p @ le_bytes h @ le_bytes w
     @ [0x0c, 0, 0, 0, 0x60, 0, 0, 0, 0, 0, 0, 0] @ le_bytes z" (is "_ = ?r")
proof -
  let ?a = "[0, 0, 0, 0xc5, 4, 0, 0, 0] @ p" and ?z = "replicate 4 (0::byte)"
    and ?b = "[0x0c, 0, 0, 0, 0x60, 0, 0, 0, 0, 0, 0, 0]"
  have "overwrite 8 p wmv_Metadata = ?a @ ?z @ ?z @ ?b @ ?z"
    using assms overwrite_at [of "[0, 0, 0, 0xc5, 4, 0, 0, 0]" 8 "[0xc0, 0, 0, 0]" p "?z @ ?z @ ?b @ ?z"]
    by (simp add: wmv_Metadata_def numeral_eq_Suc)
  then have "wmv_metadata \<lparr>wmv_privateData = p, wmv_width = w, wmv_height = h, wmv_framerate = f\<rparr> z = take 36 ?r"
    using assms overwrite_metadata [of ?a 12 ?z ?z ?b ?z z w h]
    by (simp add: wmv_metadata_def METADATA_STRUCT_C_START_def WMV3_PRIVATE_DATA_LENGTH_def Let_def)
  also have "\<dots> = ?r" using assms by simp
  finally show ?thesis .
qed

lemma vc1_metadata_info: "vc1_metadata c (fps (av_FrameRate c)) = vc1_info fps c"
proof -
  let ?a = "[0, 0, 1, 0x80, 0, 0, 0, 0xc5, 4, 0, 0, 0, 0xc0, 0, 0, 0] :: bytes"
    and ?z = "replicate 4 (0::byte)" and ?b = "[0x0c, 0, 0, 0, 0x60, 0, 0, 0, 0, 0, 0, 0] :: bytes"
  have "SequenceLayerStartCode @ vc1_Metadata = ?a @ ?z @ ?z @ ?b @ ?z"
    by (simp add: SequenceLayerStartCode_def vc1_Metadata_def numeral_eq_Suc)
  then have "vc1_metadata c (fps (av_FrameRate c)) = take 40 (vc1_info fps c)"
    using overwrite_metadata [of ?a 16 ?z ?z ?b ?z "fps (av_FrameRate c)" "av_Width c" "av_Height c"]
    by (simp add: vc1_metadata_def METADATA_STRUCT_C_START_def WMV3_PRIVATE_DATA_LENGTH_def Let_def
        SequenceLayerStartCode_def vc1_info_def)
  also have "\<dots> = vc1_info fps c" by (simp add: vc1_info_def)
  finally show ?thesis .
qed

lemma wmv_private_read:
  assumes "wmv_private_ok c" and "length junk = 4"
  shows "\<exists>priv. mem_read (av_private_data c) 0
      (if av_private_size c > of_nat WMV3_PRIVATE_DATA_LENGTH then WMV3_PRIVATE_DATA_LENGTH
       else unat (av_private_size c)) = Some priv
    \<and> priv @ drop (if av_private_size c > of_nat WMV3_PRIVATE_DATA_LENGTH then WMV3_PRIVATE_DATA_LENGTH
                   else unat (av_private_size c)) junk
      = (case av_private_data c of None \<Rightarrow> junk | Some p \<Rightarrow> take 4 p)"
  using assms
  by (auto simp: wmv_private_ok_def WMV3_PRIVATE_DATA_LENGTH_def mem_read_def word_less_nat_alt
      split: option.splits)

subsection \<open>Properties\<close>

text \<open>
  Claim C3. \<open>mpeg2.c\<close> sends a frame of any length: the loop returns, the packets hold the frame in
  order in pieces of at most 65400 bytes, every packet decodes with an exact length field, the
  first carries the call's PTS and the others none, and \<open>call->Pts\<close> is left invalid.
\<close>

theorem mpeg2_frame:
  assumes "av_ready c" and "av_wf c"
  shows "\<exists>r pk x xs. mpeg2_writeData dev (Some c) log =
      Some (r, Some (c\<lparr>av_Pts := INVALID_PTS_VALUE\<rparr>), log @ map (Pair (av_fd c)) pk)
    \<and> concat (x # xs) = av_payload c
    \<and> list_all (\<lambda>x. 0 < length x \<and> length x \<le> MAX_PES_PACKET_SIZE) (x # xs)
    \<and> map parse_pes pk = Some (pes_decoded MPEG_VIDEO_PES_START_CODE (av_Pts c) x)
        # map (\<lambda>x. Some (pes_decoded MPEG_VIDEO_PES_START_CODE INVALID_PTS_VALUE x)) xs"
proof -
  obtain x xs where x: "frame_chunks c = x # xs" "concat (x # xs) = av_payload c"
    "list_all (\<lambda>x. 0 < length x \<and> length x \<le> MAX_PES_PACKET_SIZE) (x # xs)"
    using assms by (rule frame_chunks_props)
  let ?pk = "pes_packets MPEG_VIDEO_PES_START_CODE (av_Pts c) (x # xs)"
  obtain r where "fold (mpeg2_step dev c) (x # xs) (av_Pts c, 0, log) =
      (INVALID_PTS_VALUE, r, log @ map (Pair (av_fd c)) ?pk)"
    using mpeg2_fold [of dev c x xs "av_Pts c" 0 log] by blast
  then have "mpeg2_writeData dev (Some c) log =
      Some (r, Some (c\<lparr>av_Pts := INVALID_PTS_VALUE\<rparr>), log @ map (Pair (av_fd c)) ?pk)"
    using assms mpeg2.loop_sends [OF assms, of dev "(av_Pts c, 0, log)"]
    by (auto simp: mpeg2_writeData_def av_ready_def x(1) simp del: fold_simps)
  moreover have "map parse_pes ?pk = Some (pes_decoded MPEG_VIDEO_PES_START_CODE (av_Pts c) x)
        # map (\<lambda>x. Some (pes_decoded MPEG_VIDEO_PES_START_CODE INVALID_PTS_VALUE x)) xs"
    using x(3) by (auto simp: pes_packets_map list_all_iff MAX_PES_PACKET_SIZE_def intro!: parse_pes_packet)
  ultimately show ?thesis using x(2,3) by (intro exI conjI)
qed

theorem mpeg2_frame_witness:
  "\<exists>r pk x xs. mpeg2_writeData (\<lambda>l fd b. 0) (Some (example_call [0, 0, 1, 0xb3])) [] =
      Some (r, Some (example_call [0, 0, 1, 0xb3]\<lparr>av_Pts := INVALID_PTS_VALUE\<rparr>), map (Pair 5) pk)
    \<and> x @ concat xs = [0, 0, 1, 0xb3]
    \<and> map parse_pes pk = Some (pes_decoded MPEG_VIDEO_PES_START_CODE 90000 x)
        # map (\<lambda>x. Some (pes_decoded MPEG_VIDEO_PES_START_CODE INVALID_PTS_VALUE x)) xs"
  using mpeg2_frame [of "example_call [0, 0, 1, 0xb3]" "\<lambda>l fd b. 0" "[]"]
  by (simp add: example_call_ok) (elim exE conjE, intro exI conjI, assumption+)

text \<open>
  Claim C7. \<open>wmv.c\<close>: before the first frame after \<open>reset\<close> one packet with the 36 byte metadata
  record (private data, height, width and frame duration in little endian order at their places)
  is sent, and then the frame as with \<open>mpeg2.c\<close>, the first packet with a private data header that
  its length field and header length account for.
\<close>

theorem wmv_stream:
  assumes "av_ready c" and "av_wf c" and "wmv_private_ok c" and "length junk = 4"
  shows "\<exists>r pk x xs. wmv_writeData fps junk dev (Some c) (initial, log) =
      Some (r, Some (c\<lparr>av_Pts := INVALID_PTS_VALUE\<rparr>), False,
            log @ (if initial then [(av_fd c, pes_packet VC1_VIDEO_PES_START_CODE INVALID_PTS_VALUE (wmv_info fps junk c))]
                   else []) @ map (Pair (av_fd c)) pk)
    \<and> concat (x # xs) = av_payload c
    \<and> list_all (\<lambda>x. 0 < length x \<and> length x \<le> MAX_PES_PACKET_SIZE) (x # xs)
    \<and> map parse_pes pk =
        Some \<lparr>pes_sid = unat VC1_VIDEO_PES_START_CODE, pes_len = length (hd pk) - 6,
              pes_pts = pts_of (av_Pts c), pes_payload = x\<rparr>
        # map (\<lambda>x. Some (pes_decoded VC1_VIDEO_PES_START_CODE INVALID_PTS_VALUE x)) xs"
proof -
  obtain x xs where x: "frame_chunks c = x # xs" "concat (x # xs) = av_payload c"
    "list_all (\<lambda>x. 0 < length x \<and> length x \<le> MAX_PES_PACKET_SIZE) (x # xs)"
    using assms(1,2) by (rule frame_chunks_props)
  let ?pk = "priv_packet VC1_VIDEO_PES_START_CODE (av_Pts c) (av_len c) x
    # map (pes_packet VC1_VIDEO_PES_START_CODE INVALID_PTS_VALUE) xs"
  have loop: "\<exists>r. wmv_loop dev c 0 (True, av_Pts c, len, lg) =
      Some (False, INVALID_PTS_VALUE, r, lg @ map (Pair (av_fd c)) ?pk)" for len lg
  proof -
    have "wmv_step dev c x (True, av_Pts c, len, lg) =
      (False, INVALID_PTS_VALUE, dev lg (av_fd c) (hd ?pk), lg @ [(av_fd c, hd ?pk)])"
      by (simp add: wmv_step_def os_write_def priv_packet_def Let_def)
    then show ?thesis
      using wmv.loop_sends [OF assms(1,2), of dev "(True, av_Pts c, len, lg)"]
        wmv_fold_rest [of dev c xs "dev lg (av_fd c) (hd ?pk)" "lg @ [(av_fd c, hd ?pk)]"]
      by (auto simp: x(1))
  qed
  have meta: "pes_packet VC1_VIDEO_PES_START_CODE INVALID_PTS_VALUE (wmv_info fps junk c) =
      InsertPesHeader 36 VC1_VIDEO_PES_START_CODE INVALID_PTS_VALUE 0 @ wmv_info fps junk c"
    using assms(3,4) by (auto simp: pes_packet_def wmv_info_def wmv_private_ok_def split: option.splits)
  have "\<exists>r. wmv_writeData fps junk dev (Some c) (initial, log) =
      Some (r, Some (c\<lparr>av_Pts := INVALID_PTS_VALUE\<rparr>), False,
            log @ (if initial then [(av_fd c, pes_packet VC1_VIDEO_PES_START_CODE INVALID_PTS_VALUE (wmv_info fps junk c))]
                   else []) @ map (Pair (av_fd c)) ?pk)"
  proof -
    obtain priv where priv: "mem_read (av_private_data c) 0
        (if av_private_size c > of_nat WMV3_PRIVATE_DATA_LENGTH then WMV3_PRIVATE_DATA_LENGTH
         else unat (av_private_size c)) = Some priv"
      "priv @ drop (if av_private_size c > of_nat WMV3_PRIVATE_DATA_LENGTH then WMV3_PRIVATE_DATA_LENGTH
                   else unat (av_private_size c)) junk
        = (case av_private_data c of None \<Rightarrow> junk | Some p \<Rightarrow> take 4 p)" (is "?pd = ?p4")
      using wmv_private_read [OF assms(3,4)] by blast
    have p4: "length ?p4 = 4" using assms(3,4) by (auto simp: wmv_private_ok_def split: option.splits)
    have info: "wmv_metadata \<lparr>wmv_privateData = ?pd, wmv_width = av_Width c, wmv_height = av_Height c,
        wmv_framerate = av_FrameRate c\<rparr> (fps (av_FrameRate c)) = wmv_info fps junk c"
      unfolding priv(2) wmv_metadata_info [OF p4] wmv_info_def ..
    have len: "length (wmv_info fps junk c) = 36" using p4 by (simp add: wmv_info_def)
    obtain R where "\<And>len lg. wmv_loop dev c 0 (True, av_Pts c, len, lg) =
        Some (False, INVALID_PTS_VALUE, R len lg, lg @ map (Pair (av_fd c)) ?pk)"
      using loop by metis
    then show ?thesis
      using assms(1) priv(1) unfolding wmv_writeData_def meta
      by (simp add: av_ready_def info len Let_def os_write_def word_greater_zero_iff)
  qed
  moreover have "map parse_pes ?pk =
        Some \<lparr>pes_sid = unat VC1_VIDEO_PES_START_CODE, pes_len = length (hd ?pk) - 6,
              pes_pts = pts_of (av_Pts c), pes_payload = x\<rparr>
        # map (\<lambda>x. Some (pes_decoded VC1_VIDEO_PES_START_CODE INVALID_PTS_VALUE x)) xs"
    using x(3) by (auto simp: list_all_iff MAX_PES_PACKET_SIZE_def parse_priv_packet intro!: parse_pes_packet)
  ultimately show ?thesis using x(2,3) by (elim exE, intro exI conjI)
qed


theorem wmv_stream_witness:
  "\<exists>r pk x xs. wmv_writeData (\<lambda>f. 400000) [0, 0, 0, 0] (\<lambda>l fd b. 0) (Some (example_call [1, 2])) (True, []) =
      Some (r, Some (example_call [1, 2]\<lparr>av_Pts := INVALID_PTS_VALUE\<rparr>), False,
        (5, pes_packet VC1_VIDEO_PES_START_CODE INVALID_PTS_VALUE
              (wmv_info (\<lambda>f. 400000) [0, 0, 0, 0] (example_call [1, 2]))) # map (Pair 5) pk)
    \<and> x @ concat xs = ([1, 2] :: bytes)"
  using wmv_stream [of "example_call [1, 2]" "[0, 0, 0, 0]" "\<lambda>f. 400000" "\<lambda>l fd b. 0" True "[]"]
  by (simp add: example_call_ok wmv_private_ok_def) blast

text \<open>
  Claim C8. \<open>vc1.c\<close>: after \<open>reset\<close> the sequence layer metadata and the codec's sequence header are
  sent once. A frame start code is put in front of each frame until a frame that brings its own
  has been seen; the loop returns and the frame arrives complete and in order, but the length
  field of a packet with an added start code is four bytes short.
\<close>

theorem vc1_stream:
  assumes "av_ready c" and "av_wf c"
    and "mem_read (av_private_data c) 0 (unat (av_private_size c)) = Some priv" and "length priv \<le> 128"
  shows "\<exists>r pk x xs. vc1_writeData fps dev (Some c) (initial, seen, log) =
      Some (r, Some (c\<lparr>av_Pts := INVALID_PTS_VALUE\<rparr>), False, seen \<or> vc1_marked c,
            log @ (if initial
                   then [(av_fd c, pes_packet VC1_VIDEO_PES_START_CODE INVALID_PTS_VALUE (vc1_info fps c)),
                         (av_fd c, pes_packet VC1_VIDEO_PES_START_CODE INVALID_PTS_VALUE priv)]
                   else []) @ map (Pair (av_fd c)) pk)
    \<and> concat (x # xs) = av_payload c
    \<and> list_all (\<lambda>x. 0 < length x \<and> length x \<le> MAX_PES_PACKET_SIZE) (x # xs)
    \<and> map parse_pes pk =
        Some \<lparr>pes_sid = unat VC1_VIDEO_PES_START_CODE,
              pes_len = length (hd pk) - 6 - (if seen \<or> vc1_marked c then 0 else 4),
              pes_pts = pts_of (av_Pts c),
              pes_payload = (if seen \<or> vc1_marked c then [] else Vc1FrameStartCode) @ x\<rparr>
        # map (\<lambda>x. Some (pes_decoded VC1_VIDEO_PES_START_CODE INVALID_PTS_VALUE x)) xs"
proof -
  obtain x xs where x: "frame_chunks c = x # xs" "concat (x # xs) = av_payload c"
    "list_all (\<lambda>x. 0 < length x \<and> length x \<le> MAX_PES_PACKET_SIZE) (x # xs)"
    using assms(1,2) by (rule frame_chunks_props)
  define sc where "sc = (if seen \<or> vc1_marked c then [] else Vc1FrameStartCode)"
  let ?p = "InsertPesHeader (of_nat (length x)) VC1_VIDEO_PES_START_CODE (av_Pts c) 0 @ sc @ x"
  let ?pk = "?p # map (pes_packet VC1_VIDEO_PES_START_CODE INVALID_PTS_VALUE) xs"
  have "\<exists>r. vc1_loop dev c 0 (seen, True, av_Pts c, len, lg) =
      Some (seen \<or> vc1_marked c, False, INVALID_PTS_VALUE, r, lg @ map (Pair (av_fd c)) ?pk)" for len lg
  proof -
    have "vc1_step dev c x (seen, True, av_Pts c, len, lg) =
      (seen \<or> vc1_marked c, False, INVALID_PTS_VALUE, dev lg (av_fd c) ?p, lg @ [(av_fd c, ?p)])"
      by (simp add: vc1_step_def os_write_def sc_def Let_def)
    then show ?thesis
      using vc1.loop_sends [OF assms(1,2), of dev "(seen, True, av_Pts c, len, lg)"]
        vc1_fold_rest [of dev c xs "seen \<or> vc1_marked c" "dev lg (av_fd c) ?p" "lg @ [(av_fd c, ?p)]"]
      by (auto simp: x(1))
  qed
  then obtain R where loop: "\<And>len lg. vc1_loop dev c 0 (seen, True, av_Pts c, len, lg) =
      Some (seen \<or> vc1_marked c, False, INVALID_PTS_VALUE, R len lg, lg @ map (Pair (av_fd c)) ?pk)"
    by metis
  have "of_nat (length priv) = av_private_size c"
    using assms(3) by (auto simp: mem_read_def unat_eq_iff split: if_splits option.splits)
  then have "\<exists>r. vc1_writeData fps dev (Some c) (initial, seen, log) =
      Some (r, Some (c\<lparr>av_Pts := INVALID_PTS_VALUE\<rparr>), False, seen \<or> vc1_marked c,
            log @ (if initial
                   then [(av_fd c, pes_packet VC1_VIDEO_PES_START_CODE INVALID_PTS_VALUE (vc1_info fps c)),
                         (av_fd c, pes_packet VC1_VIDEO_PES_START_CODE INVALID_PTS_VALUE priv)]
                   else []) @ map (Pair (av_fd c)) ?pk)"
    using assms(1,3,4)
    by (simp add: vc1_writeData_def av_ready_def loop vc1_metadata_info pes_packet_def os_write_def
        word_greater_zero_iff Let_def)
  moreover have "parse_pes ?p = Some \<lparr>pes_sid = unat VC1_VIDEO_PES_START_CODE,
              pes_len = length ?p - 6 - (if seen \<or> vc1_marked c then 0 else 4),
              pes_pts = pts_of (av_Pts c), pes_payload = sc @ x\<rparr>"
    using x(3) by (simp add: parse_pes_short_length length_InsertPesHeader MAX_PES_PACKET_SIZE_def
        pes_pic_bytes_def sc_def Vc1FrameStartCode_def)
  then have "map parse_pes ?pk = Some \<lparr>pes_sid = unat VC1_VIDEO_PES_START_CODE,
              pes_len = length (hd ?pk) - 6 - (if seen \<or> vc1_marked c then 0 else 4),
              pes_pts = pts_of (av_Pts c),
              pes_payload = (if seen \<or> vc1_marked c then [] else Vc1FrameStartCode) @ x\<rparr>
        # map (\<lambda>x. Some (pes_decoded VC1_VIDEO_PES_START_CODE INVALID_PTS_VALUE x)) xs"
    using x(3) by (auto simp: sc_def list_all_iff MAX_PES_PACKET_SIZE_def intro!: parse_pes_packet)
  ultimately show ?thesis using x(2,3) by (elim exE, intro exI conjI)
qed

theorem vc1_stream_witness:
  "\<exists>r pk x xs. vc1_writeData (\<lambda>f. 400000) (\<lambda>l fd b. 0) (Some (example_call [1, 2])) (False, False, []) =
      Some (r, Some (example_call [1, 2]\<lparr>av_Pts := INVALID_PTS_VALUE\<rparr>), False, False, map (Pair 5) pk)
    \<and> x @ concat xs = ([1, 2] :: bytes)"
proof -
  have "\<not> vc1_marked (example_call [1, 2])"
    by (simp add: vc1_marked_def Vc1FrameStartCode_def example_call_ok)
  then show ?thesis
    using vc1_stream [of "example_call [1, 2]" "[]" "\<lambda>f. 400000" "\<lambda>l fd b. 0" False False "[]"]
    by (simp add: example_call_ok mem_read_def) blast
qed

text \<open>
  \<open>h263.c\<close> sends a frame that fits one packet with the private data header in front of
  it; a PES reader finds the frame as payload and an exact length, because the length, flags and
  header length bytes are patched for the private header.
\<close>

theorem h263_frame:
  assumes "av_ready c" and "av_wf c" and "unat (av_len c) + 17 < 65536"
  shows "\<exists>p. h263_writeData dev (Some c) log = Some (os_write dev (av_fd c) p log)
    \<and> parse_pes p = Some \<lparr>pes_sid = unat H263_VIDEO_PES_START_CODE, pes_len = length p - 6,
         pes_pts = pts_of (av_Pts c), pes_payload = av_payload c\<rparr>
    \<and> (\<exists>h. p = h @ InsertVideoPrivateDataHeader (av_len c) @ av_payload c)"
proof -
  obtain d where d: "av_data c = Some d" "unat (av_len c) \<le> length d" "av_len c \<noteq> 0"
    "0 \<le> av_fd c" "av_payload c = take (unat (av_len c)) d"
    using assms(1,2) by (rule av_readyE)
  have len: "length (av_payload c) = unat (av_len c)" using d by simp
  let ?p = "priv_packet H263_VIDEO_PES_START_CODE (av_Pts c) (av_len c) (av_payload c)"
  have "h263_writeData dev (Some c) log = Some (os_write dev (av_fd c) ?p log)"
    using d by (simp add: h263_writeData_def priv_packet_def Let_def)
  moreover have "\<exists>h. ?p = h @ InsertVideoPrivateDataHeader (av_len c) @ av_payload c"
    by (simp add: priv_packet_def insert_private_header_def Let_def)
  ultimately show ?thesis
    using parse_priv_packet [of "av_payload c" H263_VIDEO_PES_START_CODE "av_Pts c" "av_len c"] assms(3) len
    by auto
qed

theorem h263_frame_witness:
  "\<exists>p. h263_writeData (\<lambda>l fd b. 7) (Some (example_call [1, 2])) [] = Some (7, [(5, p)])
    \<and> parse_pes p = Some \<lparr>pes_sid = 0xfe, pes_len = length p - 6, pes_pts = Some 90000, pes_payload = [1, 2]\<rparr>"
  using h263_frame [of "example_call [1, 2]" "\<lambda>l fd b. 7" "[]"]
  by (simp add: example_call_ok os_write_def H263_VIDEO_PES_START_CODE_def pts_of_def INVALID_PTS_VALUE_def)
     blast

text \<open>
  \<open>divx.c\<close> puts the pseudo picture start code, a VOS start code, a user data record with
  the frame duration in microseconds (for a rate in frames per 1000 s) and, once after \<open>reset\<close>,
  the private data in front of the frame. The payload decodes to exactly these; the length field
  leaves out the 17 bytes of the records and the private data.
\<close>

theorem divx_frame:
  assumes "av_ready c" and "av_wf c" and "unat (av_len c) + 13 < 65536" and "av_FrameRate c \<noteq> 0"
    and "mem_read (av_private_data c) 0 (unat (av_private_size c)) = Some priv"
  shows "\<exists>r p. divx_writeData dev (Some c) (initial, log) = Some (r, False, log @ [(av_fd c, p)])
    \<and> parse_pes p = Some \<lparr>pes_sid = unat MPEG_VIDEO_PES_START_CODE,
         pes_len = length p - 6 - 17 - (if initial then length priv else 0),
         pes_pts = pts_of (av_Pts c),
         pes_payload = [0, 0, 1, 0x31, 5] @ [0, 0, 1, 0xb0, 0, 0, 0, 1, 0xb2] @ [0x53, 0x54, 0x54, 0x43]
           @ (let u = 1000000000 div av_FrameRate c in
              [ucast (drop_bit 24 u), ucast (drop_bit 16 u), ucast (drop_bit 8 u), ucast u])
           @ (if initial then priv else []) @ av_payload c\<rparr>"
proof -
  obtain d where d: "av_data c = Some d" "unat (av_len c) \<le> length d" "av_len c \<noteq> 0"
    "0 \<le> av_fd c" "av_payload c = take (unat (av_len c)) d"
    using assms(1,2) by (rule av_readyE)
  let ?h = "InsertPesHeader (av_len c) MPEG_VIDEO_PES_START_CODE (av_Pts c) divx_FakeStartCode"
  let ?b = "divx_fake_headers (1000000000 div av_FrameRate c) @ (if initial then priv else []) @ av_payload c"
  have code: "divx_FakeStartCode = 0x531" by (simp add: divx_FakeStartCode_def PES_VERSION_FAKE_START_CODE_def)
  have "\<exists>r. divx_writeData dev (Some c) (initial, log) = Some (r, False, log @ [(av_fd c, ?h @ ?b)])"
    using d assms(4,5) by (auto simp: divx_writeData_def os_write_def Let_def)
  moreover have "parse_pes (?h @ ?b) = Some \<lparr>pes_sid = unat MPEG_VIDEO_PES_START_CODE,
         pes_len = length (?h @ ?b) - 6 - 17 - (if initial then length priv else 0),
         pes_pts = pts_of (av_Pts c), pes_payload = [0, 0, 1, 0x31, 5] @ ?b\<rparr>"
    using parse_pes_short_length [of "unat (av_len c)" MPEG_VIDEO_PES_START_CODE "av_Pts c" divx_FakeStartCode ?b]
      assms(3) d
    by (simp add: length_InsertPesHeader divx_fake_headers_bytes code pes_pic_bytes_def)
  ultimately show ?thesis by (auto simp: divx_fake_headers_bytes Let_def)
qed

theorem divx_frame_witness:
  "\<exists>r p. divx_writeData (\<lambda>l fd b. 0) (Some (example_call [1, 2]\<lparr>av_FrameRate := 4000000\<rparr>)) (True, []) =
      Some (r, False, [(5, p)])
    \<and> parse_pes p = Some \<lparr>pes_sid = 0xe0, pes_len = length p - 23, pes_pts = Some 90000,
        pes_payload = [0, 0, 1, 0x31, 5, 0, 0, 1, 0xb0, 0, 0, 0, 1, 0xb2, 0x53, 0x54, 0x54, 0x43,
          0, 0, 0, 250, 1, 2]\<rparr>"
proof -
  let ?c = "example_call [1, 2]\<lparr>av_FrameRate := 4000000\<rparr>"
  have "av_ready ?c" "av_wf ?c" "av_payload ?c = [1, 2]"
    by (simp_all add: av_ready_def av_wf_def av_payload_def)
  moreover have "(ucast (drop_bit 24 (250::u32)) :: byte) = 0" "(ucast (drop_bit 16 (250::u32)) :: byte) = 0"
    "(ucast (drop_bit 8 (250::u32)) :: byte) = 0" by code_simp+
  ultimately show ?thesis
    using divx_frame [of ?c "[]" "\<lambda>l fd b. 0" True "[]"]
    by (simp add: mem_read_def MPEG_VIDEO_PES_START_CODE_def pts_of_def INVALID_PTS_VALUE_def)
qed

end
