(* ===== verification/Writer_H264.thy ===== *)
theory Writer_H264
  imports Writer_Base
begin

text \<open>
  The H.264 writer of libeplayer3, \<open>output/writer/h264.c\<close>. Input with start codes is passed on
  as it is; input from an MP4 or Matroska container (length prefixed NAL units, parameter sets in
  an \<open>avcC\<close> record) is rewritten to a byte stream: every NAL unit gets the start code
  \<open>00 00 00 01\<close> and is sent in packets of at most \<open>BUFFER_SIZE\<close> bytes.
\<close>

subsection \<open>State and constants\<close>

definition BUFFER_SIZE :: nat where "BUFFER_SIZE = 188 * 199"

definition h264_Head :: bytes where "h264_Head = [0, 0, 0, 1]"

text \<open>The static variables, \<open>NoOtherBeginningFound\<close> of \<open>writeData\<close> included.\<close>

record h264_state =
  h264_initialHeader :: bool
  NalLengthBytes :: nat
  NoOtherBeginningFound :: bool

definition h264_init :: h264_state where
  "h264_init = \<lparr>h264_initialHeader = True, NalLengthBytes = 1, NoOtherBeginningFound = True\<rparr>"

text \<open>The \<open>avcC\<close> record as it lies in the private data: six bytes, then the parameter sets.\<close>

record avcC_t =
  avcC_Version :: byte
  avcC_Profile :: byte
  avcC_Compatibility :: byte
  avcC_Level :: byte
  avcC_NalLengthMinusOne :: byte
  avcC_NumParamSets :: byte
  avcC_Params :: bytes

definition read_avcC :: "bytes \<Rightarrow> avcC_t option" where
  "read_avcC bs =
     (if 6 \<le> length bs then
        Some \<lparr>avcC_Version = bs ! 0, avcC_Profile = bs ! 1, avcC_Compatibility = bs ! 2,
              avcC_Level = bs ! 3, avcC_NalLengthMinusOne = bs ! 4, avcC_NumParamSets = bs ! 5,
              avcC_Params = drop 6 bs\<rparr>
      else None)"

subsection \<open>Start code detection\<close>

text \<open>The \<open>data[0] == a && data[1] == b ...\<close> chains: bytes are read only while they match.\<close>

fun mem_prefix :: "bytes \<Rightarrow> nat \<Rightarrow> bytes \<Rightarrow> bool option" where
  "mem_prefix bs i [] = Some True"
| "mem_prefix bs i (p # ps) = do {
     b \<leftarrow> mem_get bs i;
     (if b = p then mem_prefix bs (i + 1) ps else Some False)
   }"

definition h264_has_start :: "bytes \<Rightarrow> bool \<Rightarrow> bool option" where
  "h264_has_start bs noOther = do {
     a \<leftarrow> mem_prefix bs 0 [0x00, 0x00, 0x00, 0x01];
     (if a then Some True else do {
        b \<leftarrow> mem_prefix bs 0 [0x00, 0x00, 0x01];
        (if b \<and> noOther then Some True
         else mem_prefix bs 0 [0xff, 0xff, 0xff, 0xff])
      })
   }"

subsection \<open>Parameter sets\<close>

definition h264_container_params :: "u32 \<Rightarrow> u32 \<Rightarrow> bytes" where
  "h264_container_params TimeScale TimeDelta =
     (let TimeDelta = (if TimeDelta = 0xffffffff then (if TimeScale > 1000 then 1001 else 1) else TimeDelta);
          b = (\<lambda>w n. ucast (drop_bit n w AND 0xff) :: byte)
      in [0x00, 0x00, 0x01, 24, 0x00, 0xff,
          b TimeScale 24, b TimeScale 16, 0xff, b TimeScale 8, b TimeScale 0, 0xff,
          b TimeDelta 24, b TimeDelta 16, 0xff, b TimeDelta 8, b TimeDelta 0, 0xff, 0x80])"

text \<open>
  The loop over \<open>n\<close> parameter sets: a big endian 16-bit length, then the set. The result is the
  new offset and what was appended to the packet.
\<close>

primrec h264_param_sets :: "nat \<Rightarrow> bytes \<Rightarrow> nat \<Rightarrow> (nat \<times> bytes) option" where
  "h264_param_sets 0 Params ParamOffset = Some (ParamOffset, [])"
| "h264_param_sets (Suc n) Params ParamOffset = do {
     hi \<leftarrow> mem_get Params ParamOffset;
     lo \<leftarrow> mem_get Params (ParamOffset + 1);
     let PsLength = unat hi * 256 + unat lo;
     ps \<leftarrow> mem_read (Some Params) (ParamOffset + 2) PsLength;
     (off, rest) \<leftarrow> h264_param_sets n Params (ParamOffset + PsLength + 2);
     Some (off, h264_Head @ ps @ rest)
   }"

text \<open>Both packets of the initial header; the result carries the sum of the write results.\<close>

definition h264_write_initial ::
  "device \<Rightarrow> WriterAVCallData_t \<Rightarrow> bytes \<Rightarrow> h264_state \<times> wlog \<Rightarrow> (int \<times> h264_state \<times> wlog) option" where
  "h264_write_initial dev call priv s = do {
     avcCHeader \<leftarrow> read_avcC priv;
     let HeaderData = h264_container_params (av_FrameScale call) (av_FrameRate call);
     let PesHeader = InsertPesHeader (of_nat (length HeaderData)) MPEG_VIDEO_PES_START_CODE INVALID_PTS_VALUE 0;
     let (len1, log) = os_write dev (av_fd call) (PesHeader @ HeaderData) (snd s);
     let st = (fst s)\<lparr>NalLengthBytes := unat (avcC_NalLengthMinusOne avcCHeader AND 0x03) + 1\<rparr>;
     let ParamSets = unat (avcC_NumParamSets avcCHeader AND 0x1f);
     (ParamOffset, sps) \<leftarrow> h264_param_sets ParamSets (avcC_Params avcCHeader) 0;
     n \<leftarrow> mem_get (avcC_Params avcCHeader) ParamOffset;
     (ParamOffset, pps) \<leftarrow> h264_param_sets (unat n) (avcC_Params avcCHeader) (ParamOffset + 1);
     let InitialHeader = sps @ pps;
     let PesHeader = InsertPesHeader (of_nat (length InitialHeader)) MPEG_VIDEO_PES_START_CODE INVALID_PTS_VALUE 0;
     let (len2, log) = os_write dev (av_fd call) (PesHeader @ InitialHeader) log;
     Some (len1 + len2, st\<lparr>h264_initialHeader := False\<rparr>, log)
   }"

subsection \<open>NAL units\<close>

text \<open>The big endian number in the first \<open>n\<close> bytes of \<open>NalData\<close>.\<close>

definition nal_length :: "nat \<Rightarrow> bytes \<Rightarrow> u32" where
  "nal_length n NalData =
     (let b = (\<lambda>i. ucast (NalData ! i) :: u32) in
      if n = 1 then b 0
      else if n = 2 then push_bit 8 (b 0) OR b 1
      else if n = 3 then push_bit 16 (b 0) OR push_bit 8 (b 1) OR b 2
      else push_bit 24 (b 0) OR push_bit 16 (b 1) OR push_bit 8 (b 2) OR b 3)"

text \<open>
  The inner loop: the packets of one NAL unit. State: \<open>VideoPosition\<close>, \<open>VideoPts\<close>, sum of the
  write results, log. \<open>left\<close> is \<open>NalLength\<close>.
\<close>

function h264_nal_packets ::
  "device \<Rightarrow> WriterAVCallData_t \<Rightarrow> nat \<Rightarrow> bool \<Rightarrow> nat \<times> u64 \<times> int \<times> wlog \<Rightarrow> (nat \<times> u64 \<times> int \<times> wlog) option" where
  "h264_nal_packets dev call left NalPresent s =
     (if left > 0 then do {
        let (VideoPosition, VideoPts, len, log) = s;
        let PacketLength = (if left < BUFFER_SIZE then left else BUFFER_SIZE);
        payload \<leftarrow> mem_read (av_data call) VideoPosition PacketLength;
        let Packet = (if NalPresent then h264_Head @ payload else payload);
        let PesHeader = InsertPesHeader (of_nat (length Packet)) MPEG_VIDEO_PES_START_CODE VideoPts 0;
        let (r, log) = os_write dev (av_fd call) (PesHeader @ Packet) log;
        h264_nal_packets dev call (left - PacketLength) False
          (VideoPosition + PacketLength, INVALID_PTS_VALUE, len + r, log)
      } else Some s)"
  by pat_completeness auto
termination
  by (relation "measure (\<lambda>(dev, call, left, p, s). left)") (auto simp: BUFFER_SIZE_def)

declare h264_nal_packets.simps [simp del]

text \<open>The \<open>do ... while (NalStart < SampleSize)\<close> loop.\<close>

partial_function (option) h264_nals ::
  "device \<Rightarrow> WriterAVCallData_t \<Rightarrow> nat \<Rightarrow> u32 \<Rightarrow> nat \<times> u64 \<times> int \<times> wlog \<Rightarrow> (nat \<times> u64 \<times> int \<times> wlog) option" where
  "h264_nals dev call nlb NalStart s = do {
     let (VideoPosition, VideoPts, len, log) = s;
     let SampleSize = av_len call;
     NalData \<leftarrow> mem_read (av_data call) VideoPosition nlb;
     let VideoPosition = VideoPosition + nlb;
     let NalLength = nal_length nlb NalData;
     (NalStart, s) \<leftarrow>
       (if NalStart + NalLength > SampleSize then Some (SampleSize, VideoPosition, VideoPts, len, log)
        else do {
          s \<leftarrow> h264_nal_packets dev call (unat NalLength) True (VideoPosition, VideoPts, len, log);
          Some (NalStart + NalLength + of_nat nlb, s)
        });
     (if NalStart < SampleSize then h264_nals dev call nlb NalStart s else Some s)
   }"

subsection \<open>writeData\<close>

definition h264_reset :: "h264_state \<times> wlog \<Rightarrow> int \<times> h264_state \<times> wlog" where
  "h264_reset s = (0, (fst s)\<lparr>h264_initialHeader := True\<rparr>, snd s)"

text \<open>
  \<open>junk\<close> is the byte behind the data in the packet buffer of the start code branch, which the
  player ignores.
\<close>

definition h264_write_started ::
  "device \<Rightarrow> byte \<Rightarrow> WriterAVCallData_t \<Rightarrow> h264_state \<times> wlog \<Rightarrow> (int \<times> h264_state \<times> wlog) option" where
  "h264_write_started dev junk call s = do {
     let FakeStartCode = push_bit 8 (ucast (av_Version call)) OR PES_VERSION_FAKE_START_CODE;
     let PesHeader = InsertPesHeader (av_len call) MPEG_VIDEO_PES_START_CODE (av_Pts call) FakeStartCode;
     priv \<leftarrow> (if h264_initialHeader (fst s)
             then mem_read (av_private_data call) 0 (unat (av_private_size call)) else Some []);
     payload \<leftarrow> mem_read (av_data call) 0 (unat (av_len call));
     let (len, log) = os_write dev (av_fd call) (PesHeader @ priv @ payload @ [junk]) (snd s);
     Some (len, (fst s)\<lparr>h264_initialHeader := False\<rparr>, log)
   }"

definition h264_writeData ::
  "device \<Rightarrow> byte \<Rightarrow> WriterAVCallData_t option \<Rightarrow> h264_state \<times> wlog \<Rightarrow> (int \<times> h264_state \<times> wlog) option" where
  "h264_writeData dev junk call_p s =
     (case call_p of
        None \<Rightarrow> Some (0, s)
      | Some call \<Rightarrow>
          (case av_data call of
             None \<Rightarrow> Some (0, s)
           | Some bs \<Rightarrow>
               if av_len call \<le> 0 then Some (0, s)
               else if av_fd call < 0 then Some (0, s)
               else do {
                 started \<leftarrow> h264_has_start bs (NoOtherBeginningFound (fst s));
                 (if started then h264_write_started dev junk call s
                  else do {
                    let s = ((fst s)\<lparr>NoOtherBeginningFound := False\<rparr>, snd s);
                    (if h264_initialHeader (fst s) \<and> av_private_data call = None then Some (-1, s)
                     else do {
                       (len, s) \<leftarrow>
                         (case av_private_data call of
                            Some priv \<Rightarrow> if h264_initialHeader (fst s)
                                         then h264_write_initial dev call priv s else Some (0, s)
                          | None \<Rightarrow> Some (0, s));
                       (pos, pts, len, log) \<leftarrow>
                         h264_nals dev call (NalLengthBytes (fst s)) 0 (0, av_Pts call, len, snd s);
                       Some (len, fst s, log)
                     })
                  })
               }))"

definition h264_writeReverseData :: "WriterAVCallData_t option \<Rightarrow> int" where
  "h264_writeReverseData call_p =
     (case call_p of
        None \<Rightarrow> 0
      | Some call \<Rightarrow>
          if av_data call = None \<or> av_len call \<le> 0 then 0
          else if av_fd call < 0 then 0
          else 0)"

subsection \<open>Specification vocabulary\<close>

text \<open>The pieces a NAL unit is cut into, the start code in front of the first.\<close>

definition nal_pieces :: "bool \<Rightarrow> bytes \<Rightarrow> bytes list" where
  "nal_pieces present n =
     (case chunks BUFFER_SIZE n of [] \<Rightarrow> [] | c # cs \<Rightarrow> (if present then h264_Head @ c else c) # cs)"

text \<open>A length prefix that announces the NAL unit behind it.\<close>

definition unit_ok :: "nat \<Rightarrow> bytes \<times> bytes \<Rightarrow> bool" where
  "unit_ok nlb u \<longleftrightarrow> length (fst u) = nlb \<and> unat (nal_length nlb (fst u)) = length (snd u)"

definition units_bytes :: "(bytes \<times> bytes) list \<Rightarrow> bytes" where
  "units_bytes us = concat (map (\<lambda>(h, n). h @ n) us)"

text \<open>The byte stream format: every NAL unit behind a start code.\<close>

definition annexb :: "(bytes \<times> bytes) list \<Rightarrow> bytes" where
  "annexb us = concat (map (\<lambda>(h, n). if n = [] then [] else h264_Head @ n) us)"

text \<open>A parameter set as the \<open>avcC\<close> record holds it, and a whole record.\<close>

definition avcC_set :: "bytes \<Rightarrow> bytes" where
  "avcC_set ps = [of_nat (length ps div 256), of_nat (length ps)] @ ps"

definition avcC_record :: "bytes \<Rightarrow> byte \<Rightarrow> bytes list \<Rightarrow> bytes list \<Rightarrow> bytes" where
  "avcC_record profile nlm1 sps pps =
     [1] @ profile @ [0xfc OR nlm1, 0xe0 OR of_nat (length sps)]
     @ concat (map avcC_set sps) @ [of_nat (length pps)] @ concat (map avcC_set pps)"

subsection \<open>Lemmas\<close>

lemma nal_pieces_Nil [simp]: "nal_pieces p [] = []"
  by (simp add: nal_pieces_def)

lemma nal_pieces_step:
  "n \<noteq> [] \<Longrightarrow> nal_pieces p n =
     (if p then h264_Head @ take BUFFER_SIZE n else take BUFFER_SIZE n) # nal_pieces False (drop BUFFER_SIZE n)"
proof -
  assume "n \<noteq> []"
  moreover have "nal_pieces False m = chunks BUFFER_SIZE m" for m
    by (simp add: nal_pieces_def split: list.splits)
  ultimately show ?thesis by (simp add: nal_pieces_def chunks_step BUFFER_SIZE_def)
qed

lemma concat_nal_pieces: "concat (nal_pieces True n) = (if n = [] then [] else h264_Head @ n)"
proof -
  have "concat (nal_pieces False m) = m" for m
    by (simp add: nal_pieces_def concat_chunks BUFFER_SIZE_def split: list.splits)
       (metis BUFFER_SIZE_def concat.simps(1) concat_chunks concat.simps(2) zero_less_numeral zero_less_mult_iff)
  then show ?thesis by (simp add: nal_pieces_step)
qed

lemma length_nal_pieces: "x \<in> set (nal_pieces p n) \<Longrightarrow> length x \<le> BUFFER_SIZE + 4"
proof (cases "chunks BUFFER_SIZE n")
  case (Cons a as)
  then have "\<forall>c \<in> set (a # as). length c \<le> BUFFER_SIZE" using length_chunks [of _ BUFFER_SIZE n] by auto
  moreover assume "x \<in> set (nal_pieces p n)"
  ultimately show ?thesis using Cons by (auto simp: nal_pieces_def h264_Head_def split: if_splits)
qed (simp add: nal_pieces_def)

lemma h264_nal_packets_spec:
  assumes d: "av_data call = Some d"
  shows "pos + length n \<le> length d \<Longrightarrow> take (length n) (drop pos d) = n \<Longrightarrow>
   \<exists>r. h264_nal_packets dev call (length n) present (pos, pts, len, log) =
     Some (pos + length n, if n = [] then pts else INVALID_PTS_VALUE, r,
           log @ map (Pair (av_fd call)) (pes_packets MPEG_VIDEO_PES_START_CODE pts (nal_pieces present n)))"
proof (induction "length n" arbitrary: n present pos pts len log rule: less_induct)
  case less
  show ?case
  proof (cases "n = []")
    case True
    then show ?thesis by (subst h264_nal_packets.simps) simp
  next
    case False
    define k where "k = min (length n) BUFFER_SIZE"
    have k: "0 < k" "k \<le> length n" using False by (auto simp: k_def BUFFER_SIZE_def)
    have pl: "(if length n < BUFFER_SIZE then length n else BUFFER_SIZE) = k" by (simp add: k_def)
    have tk: "take k n = take BUFFER_SIZE n" "drop k n = drop BUFFER_SIZE n" by (auto simp: k_def min_def)
    have seg: "take k (drop pos d) = take k n"
      using less.prems k(2) by (metis min.absorb1 take_take)
    let ?p = "if present then h264_Head @ take k n else take k n"
    let ?pk = "pes_packet MPEG_VIDEO_PES_START_CODE pts ?p"
    have step: "h264_nal_packets dev call (length n) present (pos, pts, len, log) =
        h264_nal_packets dev call (length (drop k n)) False
          (pos + k, INVALID_PTS_VALUE, len + dev log (av_fd call) ?pk, log @ [(av_fd call, ?pk)])"
      using False less.prems(1) k
      by (subst h264_nal_packets.simps) (simp add: d pl seg os_write_def pes_packet_def Let_def)
    have rest: "take (length (drop k n)) (drop (pos + k) d) = drop k n"
      using less.prems k by (metis add.commute drop_drop drop_take length_drop)
    have pre: "length (drop k n) < length n" "pos + k + length (drop k n) \<le> length d"
      using k less.prems(1) by auto
    obtain r where "h264_nal_packets dev call (length (drop k n)) False
          (pos + k, INVALID_PTS_VALUE, len + dev log (av_fd call) ?pk, log @ [(av_fd call, ?pk)]) =
        Some (pos + k + length (drop k n), INVALID_PTS_VALUE, r, (log @ [(av_fd call, ?pk)]) @
          map (Pair (av_fd call)) (pes_packets MPEG_VIDEO_PES_START_CODE INVALID_PTS_VALUE (nal_pieces False (drop k n))))"
      using less.hyps [OF pre rest, of False INVALID_PTS_VALUE] unfolding if_cancel by blast
    then show ?thesis
      unfolding step using False k by (simp add: nal_pieces_step [OF False, folded tk])
  qed
qed


lemma h264_nals_spec:
  assumes d: "av_data call = Some d" and len: "length d = unat (av_len call)" and nlb: "0 < nlb" "nlb \<le> 4"
  shows "list_all (unit_ok nlb) us \<Longrightarrow> us \<noteq> [] \<Longrightarrow> drop pos d = units_bytes us \<Longrightarrow> pos \<le> length d \<Longrightarrow>
   \<exists>r. h264_nals dev call nlb (of_nat pos) (pos, pts, l, log) =
     Some (length d, if annexb us = [] then pts else INVALID_PTS_VALUE, r,
           log @ map (Pair (av_fd call)) (pes_packets MPEG_VIDEO_PES_START_CODE pts
             (concat (map (\<lambda>(h, n). nal_pieces True n) us))))"
proof (induction us arbitrary: pos pts l log)
  case Nil
  then show ?case by simp
next
  case (Cons u us)
  obtain h n where u: "u = (h, n)" by (cases u)
  let ?pk = "\<lambda>pts. map (Pair (av_fd call)) (pes_packets MPEG_VIDEO_PES_START_CODE pts (nal_pieces True n))"
  from Cons.prems(1) have h: "length h = nlb" "unat (nal_length nlb h) = length n" and us: "list_all (unit_ok nlb) us"
    by (simp_all add: u unit_ok_def [of nlb "(h, n)"])
  have dr: "drop pos d = h @ n @ units_bytes us" using Cons.prems(3) by (simp add: u units_bytes_def)
  then have tot: "length d = pos + nlb + length n + length (units_bytes us)"
    using Cons.prems(4) h(1) by (metis add.assoc le_add_diff_inverse length_append length_drop)
  have lim: "length d < 4294967296" using len unat_u32_less [of "av_len call"] by simp
  have rd: "take nlb (drop pos d) = h" "drop (pos + nlb) d = n @ units_bytes us"
    using dr h(1) by (simp_all add: add.commute flip: drop_drop)
  have up: "unat (of_nat pos :: u32) = pos" using lim tot by (simp add: unat_of_nat_small)
  have sum: "unat (of_nat pos + nal_length nlb h) = pos + length n"
    using unat_add_small [of "of_nat pos" "nal_length nlb h"] up h(2) lim tot by simp
  have fin: "unat (of_nat pos + nal_length nlb h + of_nat nlb) = pos + length n + nlb"
    using unat_add_small [of "of_nat pos + nal_length nlb h" "of_nat nlb"] sum nlb lim tot
    by (simp add: unat_of_nat_small)
  have nomore: "\<not> of_nat pos + nal_length nlb h > av_len call"
    using sum len tot by (simp add: word_less_nat_alt)
  obtain r where r: "h264_nal_packets dev call (length n) True (pos + nlb, pts, l, log) =
      Some (pos + nlb + length n, if n = [] then pts else INVALID_PTS_VALUE, r, log @ ?pk pts)"
    using h264_nal_packets_spec [OF d, of "pos + nlb" n dev True pts l log] rd(2) tot by auto
  let ?s = "(pos + nlb + length n, if n = [] then pts else INVALID_PTS_VALUE, r, log @ ?pk pts)"
  have step: "h264_nals dev call nlb (of_nat pos) (pos, pts, l, log) =
      (if pos + length n + nlb < length d
       then h264_nals dev call nlb (of_nat pos + nal_length nlb h + of_nat nlb) ?s else Some ?s)"
    using nomore r h rd(1) tot nlb
    by (subst h264_nals.simps) (simp add: d word_less_nat_alt fin len)
  have pos': "of_nat pos + nal_length nlb h + of_nat nlb = (of_nat (pos + nlb + length n) :: u32)"
    using fin lim tot by (simp add: unat_eq_iff unat_of_nat_small del: of_nat_add)
  show ?case
  proof (cases "us = []")
    case True
    with step tot show ?thesis by (auto simp: u units_bytes_def annexb_def h264_Head_def)
  next
    case False
    then have "0 < length (units_bytes us)"
      using us nlb(1) by (cases us) (auto simp: units_bytes_def unit_ok_def)
    moreover have "drop (pos + nlb + length n) d = units_bytes us"
      using rd(2) by (metis append_eq_conv_conj drop_drop add.commute)
    ultimately obtain r' where "h264_nals dev call nlb (of_nat (pos + nlb + length n)) ?s =
        Some (length d, if annexb us = [] then if n = [] then pts else INVALID_PTS_VALUE else INVALID_PTS_VALUE, r',
          (log @ ?pk pts) @ map (Pair (av_fd call)) (pes_packets MPEG_VIDEO_PES_START_CODE
             (if n = [] then pts else INVALID_PTS_VALUE) (concat (map (\<lambda>(h, n). nal_pieces True n) us))))"
      using Cons.IH [OF us False, of "pos + nlb + length n"] tot by fastforce
    moreover have "nal_pieces True n = [] \<longleftrightarrow> n = []" by (cases "n = []") (simp_all add: nal_pieces_step)
    ultimately show ?thesis
      using \<open>0 < length (units_bytes us)\<close> tot unfolding step pos'
      by (auto simp: u annexb_def h264_Head_def pes_packets_append)
  qed
qed

lemma unat_of_nat_byte: "n < 256 \<Longrightarrow> unat (of_nat n :: byte) = n"
  by (simp add: unsigned_of_nat take_bit_nat_eq_self)

lemma avcC_set_length:
  assumes "length ps < 65536"
  shows "unat (of_nat (length ps div 256) :: byte) * 256 + unat (of_nat (length ps) :: byte) = length ps"
proof -
  have "unat (of_nat (length ps) :: byte) = length ps mod 256"
    by (simp add: unsigned_of_nat take_bit_eq_mod)
  moreover have "unat (of_nat (length ps div 256) :: byte) = length ps div 256"
    using assms by (simp add: unat_of_nat_byte)
  ultimately show ?thesis by simp
qed

lemma h264_param_sets_spec:
  "list_all (\<lambda>p. length p < 65536) ps \<Longrightarrow>
   h264_param_sets (length ps) (pre @ concat (map avcC_set ps) @ post) (length pre) =
     Some (length (pre @ concat (map avcC_set ps)), concat (map ((@) h264_Head) ps))"
proof (induction ps arbitrary: pre)
  case Nil
  then show ?case by simp
next
  case (Cons p ps)
  let ?P = "pre @ avcC_set p @ concat (map avcC_set ps) @ post"
  have p: "length p < 65536" using Cons.prems by simp
  have g: "mem_get ?P (length pre) = Some (of_nat (length p div 256))"
    "mem_get ?P (length pre + 1) = Some (of_nat (length p))"
    by (simp_all add: mem_get_def avcC_set_def nth_append)
  have r: "mem_read (Some ?P) (length pre + 2) (length p) = Some p"
    by (simp add: mem_read_def avcC_set_def)
  have e: "length pre + length p + 2 = length (pre @ avcC_set p)" by (simp add: avcC_set_def)
  have ih: "h264_param_sets (length ps) ?P (length pre + length p + 2) =
      Some (length ((pre @ avcC_set p) @ concat (map avcC_set ps)), concat (map ((@) h264_Head) ps))"
    unfolding e using Cons.IH [of "pre @ avcC_set p"] Cons.prems by simp
  show ?case
    using g r ih avcC_set_length [OF p] by (simp add: Let_def)
qed

lemma h264_writeData_nals:
  assumes c: "av_ready c" "av_data c = Some d" and st: "\<not> h264_initialHeader st"
    and start: "h264_has_start d (NoOtherBeginningFound st) = Some False"
  shows "h264_writeData dev junk (Some c) (st, log) =
    (case h264_nals dev c (NalLengthBytes st) 0 (0, av_Pts c, 0, log) of
       None \<Rightarrow> None
     | Some (pos, pts, len, log') \<Rightarrow> Some (len, st\<lparr>NoOtherBeginningFound := False\<rparr>, log'))"
  using assms
  by (cases "av_private_data c")
     (auto simp: h264_writeData_def av_ready_def Let_def split: option.split bind_split)

lemma parse_pes_packets_case:
  assumes "list_all (\<lambda>x. length x + 8 < 65536) ps"
  shows "map parse_pes (pes_packets sid pts ps) =
    (case ps of [] \<Rightarrow> []
     | x # xs \<Rightarrow> Some (pes_decoded sid pts x) # map (\<lambda>x. Some (pes_decoded sid INVALID_PTS_VALUE x)) xs)"
  using assms parse_pes_packets [of "hd ps" "tl ps" sid pts] by (cases ps) auto

lemma h264_nal_overrun:
  assumes d: "av_data c = Some d"
  shows "length d < pos + k \<Longrightarrow> pos \<le> length d \<Longrightarrow> h264_nal_packets dev c k p (pos, pts, len, log) = None"
proof (induction k arbitrary: p pos pts len log rule: less_induct)
  case (less k)
  define m where "m = (if k < BUFFER_SIZE then k else BUFFER_SIZE)"
  have m: "0 < m" "m \<le> k" using less.prems by (auto simp: m_def BUFFER_SIZE_def)
  show ?case
  proof (cases "pos + m \<le> length d")
    case True
    have "h264_nal_packets dev c (k - m) False (pos + m, INVALID_PTS_VALUE, l, lg) = None" for l lg
      using m True less.prems by (intro less.IH) auto
    then show ?thesis
      using less.prems by (subst h264_nal_packets.simps) (simp add: m_def [symmetric] d Let_def case_prod_unfold split: bind_split)
  next
    case False
    then have "mem_read (Some d) pos m = None" using m(1) by (simp add: mem_read_def)
    then show ?thesis
      using less.prems by (subst h264_nal_packets.simps) (simp add: m_def [symmetric] d)
  qed
qed

subsection \<open>Properties\<close>

text \<open>
  Claim C9. Container samples become a byte stream: for a sample that is a sequence of length
  prefixed NAL units (1 to 4 byte lengths) the writer returns, and the packets it sends decode,
  with exact lengths and the PTS on the first only, to the units in order, each non-empty unit
  behind a start code and nothing else.
\<close>

theorem h264_annexb:
  assumes "av_ready c" and "av_data c = Some d" and "length d = unat (av_len c)"
    and "\<not> h264_initialHeader st" and "NalLengthBytes st \<in> {1, 2, 3, 4}"
    and "h264_has_start d (NoOtherBeginningFound st) = Some False"
    and "d = units_bytes us" and "list_all (unit_ok (NalLengthBytes st)) us"
  shows "\<exists>r ps. h264_writeData dev junk (Some c) (st, log) =
      Some (r, st\<lparr>NoOtherBeginningFound := False\<rparr>,
            log @ map (Pair (av_fd c)) (pes_packets MPEG_VIDEO_PES_START_CODE (av_Pts c) ps))
    \<and> concat ps = annexb us
    \<and> map parse_pes (pes_packets MPEG_VIDEO_PES_START_CODE (av_Pts c) ps) =
        (case ps of [] \<Rightarrow> []
         | x # xs \<Rightarrow> Some (pes_decoded MPEG_VIDEO_PES_START_CODE (av_Pts c) x)
             # map (\<lambda>x. Some (pes_decoded MPEG_VIDEO_PES_START_CODE INVALID_PTS_VALUE x)) xs)"
proof -
  have ne: "us \<noteq> []" using assms(1,2,3,7) by (auto simp: units_bytes_def av_ready_def unat_pos)
  let ?ps = "concat (map (\<lambda>(h, n). nal_pieces True n) us)"
  obtain r where "h264_nals dev c (NalLengthBytes st) 0 (0, av_Pts c, 0, log) =
     Some (length d, if annexb us = [] then av_Pts c else INVALID_PTS_VALUE, r,
           log @ map (Pair (av_fd c)) (pes_packets MPEG_VIDEO_PES_START_CODE (av_Pts c) ?ps))"
    using h264_nals_spec [OF assms(2,3) _ _ assms(8) ne, of 0 dev "av_Pts c" 0 log] assms(5,7) by auto
  then have "h264_writeData dev junk (Some c) (st, log) =
      Some (r, st\<lparr>NoOtherBeginningFound := False\<rparr>,
            log @ map (Pair (av_fd c)) (pes_packets MPEG_VIDEO_PES_START_CODE (av_Pts c) ?ps))"
    using h264_writeData_nals [OF assms(1,2,4,6)] by simp
  moreover have "concat ?ps = annexb us"
    by (induction us) (auto simp: annexb_def concat_nal_pieces)
  moreover have "list_all (\<lambda>x. length x + 8 < 65536) ?ps"
    using length_nal_pieces by (fastforce simp: list_all_iff BUFFER_SIZE_def)
  ultimately show ?thesis
    using parse_pes_packets_case [of ?ps MPEG_VIDEO_PES_START_CODE "av_Pts c"]
    by (intro exI [of _ r] exI [of _ ?ps] conjI)
qed

theorem h264_annexb_witness:
  "\<exists>r ps. h264_writeData (\<lambda>l fd b. 0) 0 (Some (example_call [0, 2, 0x65, 0x88, 0, 1, 0x41]))
        (h264_init\<lparr>h264_initialHeader := False, NalLengthBytes := 2\<rparr>, []) =
      Some (r, h264_init\<lparr>h264_initialHeader := False, NalLengthBytes := 2, NoOtherBeginningFound := False\<rparr>,
            map (Pair 5) (pes_packets MPEG_VIDEO_PES_START_CODE 90000 ps))
    \<and> concat ps = [0, 0, 0, 1, 0x65, 0x88, 0, 0, 0, 1, 0x41]"
proof -
  let ?us = "[([0, 2], [0x65, 0x88]), ([0, 1], [0x41])] :: (bytes \<times> bytes) list"
  let ?st = "h264_init\<lparr>h264_initialHeader := False, NalLengthBytes := 2\<rparr>"
  have u: "units_bytes ?us = [0, 2, 0x65, 0x88, 0, 1, 0x41]"
    "annexb ?us = [0, 0, 0, 1, 0x65, 0x88, 0, 0, 0, 1, 0x41]"
    by (simp_all add: units_bytes_def annexb_def h264_Head_def)
  have ok: "list_all (unit_ok (NalLengthBytes ?st)) ?us"
    by (simp add: unit_ok_def nal_length_def)
  have s: "h264_has_start [0, 2, 0x65, 0x88, 0, 1, 0x41] (NoOtherBeginningFound ?st) = Some False"
    by (simp add: h264_has_start_def)
  show ?thesis
    using h264_annexb [of "example_call [0, 2, 0x65, 0x88, 0, 1, 0x41]" _ ?st ?us "\<lambda>l fd b. 0" 0 "[]"] ok s
    by (simp add: example_call_ok u h264_init_def) blast
qed

text \<open>
  The parameter sets of an \<open>avcC\<close> record (up to 31 sequence and 255 picture parameter
  sets of up to 65535 bytes) are sent, behind a packet with the container parameters, as one
  packet in which each set follows a start code, and the NAL length size is taken from the record.
\<close>

theorem h264_parameter_sets:
  assumes "length profile = 3" and "nlm1 \<le> 3" and "length sps < 32" and "length pps < 256"
    and "list_all (\<lambda>p. length p < 65536) (sps @ pps)"
  shows "\<exists>r. h264_write_initial dev c (avcC_record profile nlm1 sps pps) (st, log) =
    Some (r, st\<lparr>NalLengthBytes := unat nlm1 + 1, h264_initialHeader := False\<rparr>,
      log @ [(av_fd c, pes_packet MPEG_VIDEO_PES_START_CODE INVALID_PTS_VALUE
                (h264_container_params (av_FrameScale c) (av_FrameRate c))),
             (av_fd c, pes_packet MPEG_VIDEO_PES_START_CODE INVALID_PTS_VALUE
                (concat (map ((@) h264_Head) (sps @ pps))))])"
proof -
  let ?P = "concat (map avcC_set sps) @ [of_nat (length pps)] @ concat (map avcC_set pps)"
  obtain a b e where pr: "profile = [a, b, e]" using assms(1) by (auto simp: numeral_eq_Suc length_Suc_conv)
  have "unat nlm1 < 4" using assms(2) by (simp add: word_le_nat_alt)
  moreover have "\<forall>k \<in> set [0..<4]. unat ((0xfc OR of_nat k :: byte) AND 0x03) = k" by code_simp
  ultimately have nl: "unat ((0xfc OR nlm1) AND 0x03) = unat nlm1"
    by (metis atLeastLessThan_iff set_upt word_of_nat_unat zero_le)
  have "\<forall>k \<in> set [0..<32]. unat ((0xe0 OR of_nat k :: byte) AND 0x1f) = k" by code_simp
  then have ns: "unat ((0xe0 OR of_nat (length sps) :: byte) AND 0x1f) = length sps"
    using assms(3) by auto
  have rd: "read_avcC (avcC_record profile nlm1 sps pps) = Some \<lparr>avcC_Version = 1, avcC_Profile = a,
      avcC_Compatibility = b, avcC_Level = e, avcC_NalLengthMinusOne = 0xfc OR nlm1,
      avcC_NumParamSets = 0xe0 OR of_nat (length sps), avcC_Params = ?P\<rparr>"
    by (simp add: read_avcC_def avcC_record_def pr)
  have s: "h264_param_sets (length sps) ?P 0 =
      Some (length (concat (map avcC_set sps)), concat (map ((@) h264_Head) sps))"
    using h264_param_sets_spec [of sps "[]"] assms(5) by simp
  have n: "mem_get ?P (length (concat (map avcC_set sps))) = Some (of_nat (length pps))"
    by (simp add: mem_get_def nth_append)
  have p: "\<exists>off. h264_param_sets (length pps) ?P (length (concat (map avcC_set sps)) + 1) =
      Some (off, concat (map ((@) h264_Head) pps))"
    using h264_param_sets_spec [of pps "concat (map avcC_set sps) @ [of_nat (length pps)]" "[]"] assms(5) by simp
  show ?thesis
    using s n p assms(4)
    by (auto simp: h264_write_initial_def rd nl ns unat_of_nat_byte os_write_def pes_packet_def Let_def)
qed

theorem h264_parameter_sets_witness:
  "\<exists>r. h264_write_initial (\<lambda>l fd b. 0) (example_call [1]) (avcC_record [0x64, 0, 0x28] 3 [[0x67, 0x64]] [[0x68]])
       (h264_init, []) =
    Some (r, h264_init\<lparr>NalLengthBytes := 4, h264_initialHeader := False\<rparr>,
      [(5, pes_packet MPEG_VIDEO_PES_START_CODE INVALID_PTS_VALUE
             (h264_container_params (av_FrameScale (example_call [1])) 25000)),
       (5, pes_packet MPEG_VIDEO_PES_START_CODE INVALID_PTS_VALUE
             [0, 0, 0, 1, 0x67, 0x64, 0, 0, 0, 1, 0x68])])"
  using h264_parameter_sets [of "[0x64, 0, 0x28]" 3 "[[0x67, 0x64]]" "[[0x68]]" "\<lambda>l fd b. 0" "example_call [1]"
      h264_init "[]"]
  by (simp add: h264_Head_def)

text \<open>
  The overrun check of the NAL loop forgets the length field: a unit whose announced
  length exceeds the data by no more than the size of the length field passes the check and
  makes the writer read behind the sample, so the call has no defined result; only a unit that is
  longer still is skipped without a packet.
\<close>

theorem h264_overlong_unit:
  assumes "av_ready c" and "av_data c = Some (h @ n)" and "length (h @ n) = unat (av_len c)"
    and "\<not> h264_initialHeader st" and "NalLengthBytes st \<in> {1, 2, 3, 4}" and "length h = NalLengthBytes st"
    and "h264_has_start (h @ n) (NoOtherBeginningFound st) = Some False"
    and "length n < unat (nal_length (NalLengthBytes st) h)"
  shows "h264_writeData dev junk (Some c) (st, log) =
    (if unat (nal_length (NalLengthBytes st) h) \<le> length h + length n then None
     else Some (0, st\<lparr>NoOtherBeginningFound := False\<rparr>, log))"
proof -
  let ?n = "NalLengthBytes st"
  let ?L = "nal_length ?n h"
  have rd: "mem_read (Some (h @ n)) 0 ?n = Some h" using assms(6) by (auto simp: mem_read_def)
  have "unat ?L > 0" using assms(8) by simp
  have fail: "h264_nal_packets dev c (unat ?L) True (?n, av_Pts c, 0, log) = None"
    using h264_nal_overrun [OF assms(2), of ?n "unat ?L"] assms(6,8) by simp
  have "h264_nals dev c ?n 0 (0, av_Pts c, 0, log) =
      (if unat ?L \<le> length h + length n then None else Some (?n, av_Pts c, 0, log))"
    using assms(2,3) fail rd by (subst h264_nals.simps) (simp add: word_less_nat_alt)
  then show ?thesis
    using h264_writeData_nals [OF assms(1,2,4,7), of dev junk log] by simp
qed

theorem h264_overlong_unit_witness:
  "h264_writeData (\<lambda>l fd b. 0) 0 (Some (example_call [0, 0, 0, 5, 1]))
      (h264_init\<lparr>h264_initialHeader := False, NalLengthBytes := 4\<rparr>, []) = None
   \<and> h264_writeData (\<lambda>l fd b. 0) 0 (Some (example_call [0, 0, 0, 9, 1]))
      (h264_init\<lparr>h264_initialHeader := False, NalLengthBytes := 4\<rparr>, []) =
     Some (0, h264_init\<lparr>h264_initialHeader := False, NalLengthBytes := 4, NoOtherBeginningFound := False\<rparr>, [])"
proof -
  let ?st = "h264_init\<lparr>h264_initialHeader := False, NalLengthBytes := 4\<rparr>"
  have s: "h264_has_start [0, 0, 0, k, 1] (NoOtherBeginningFound ?st) = Some False" if "k \<noteq> 1" for k
    using that by (simp add: h264_has_start_def)
  have l: "nal_length 4 [0, 0, 0, k] = ucast k" for k by (simp add: nal_length_def)
  show ?thesis
    using h264_overlong_unit [of "example_call [0, 0, 0, 5, 1]" "[0, 0, 0, 5]" "[1]" ?st "\<lambda>l fd b. 0" 0 "[]"]
      h264_overlong_unit [of "example_call [0, 0, 0, 9, 1]" "[0, 0, 0, 9]" "[1]" ?st "\<lambda>l fd b. 0" 0 "[]"]
      s [of 5] s [of 9]
    by (simp add: example_call_ok l h264_init_def)
qed

end
