(* ===== verification/Track_Managers.thy ===== *)
theory Track_Managers
  imports Prelude "HOL-Library.Monad_Syntax"
begin

text \<open>
  The track managers of libeplayer3: \<open>manager/audio.c\<close>, \<open>manager/video.c\<close> and
  \<open>manager/subtitle.c\<close>, with \<open>copyTrack\<close> and \<open>freeTrack\<close> of \<open>manager/manager.c\<close> and the
  types of \<open>include/manager.h\<close>. Each keeps a fixed array of tracks, a count and the index of the
  current track. The abstract view is a list of tracks and a current index (\<open>spec_command\<close>);
  the locale \<open>track_manager\<close> states that a manager implements it and draws the consequences.

  \<open>None\<close> is a fault: an access outside the array, to a cell never written, or through NULL.
\<close>

subsection \<open>Tracks\<close>

datatype eTrackTypeEplayer = eTypeES | eTypePES

text \<open>Pointers to ffmpeg data and to the AAC buffer are addresses, 0 for NULL.\<close>

record Track_t =
  tr_Name :: "string option"
  tr_Encoding :: "string option"
  tr_Id :: int
  tr_language :: "string option"
  tr_duration :: int
  tr_frame_rate :: u32
  tr_TimeScale :: u32
  tr_version :: int
  tr_pts :: int
  tr_type :: eTrackTypeEplayer
  tr_width :: int
  tr_height :: int
  tr_stream :: nat
  tr_extraData :: nat
  tr_extraSize :: int
  tr_aacbuf :: nat
  tr_aacbuflen :: u32
  tr_have_aacheader :: int
  tr_inject_as_pcm :: int
  tr_inject_raw_pcm :: int

definition copyTrack :: "Track_t \<Rightarrow> Track_t" where
  "copyTrack from =
     from\<lparr>tr_Name := (case tr_Name from of Some s \<Rightarrow> Some s | None \<Rightarrow> Some ''Unknown''),
          tr_Encoding := (case tr_Encoding from of Some s \<Rightarrow> Some s | None \<Rightarrow> Some ''Unknown''),
          tr_language := (case tr_language from of Some s \<Rightarrow> Some s | None \<Rightarrow> Some ''Unknown'')\<rparr>"

text \<open>The number of blocks \<open>freeTrack\<close> gives back: the three strings and the AAC buffer.\<close>

definition freeTrack :: "Track_t \<Rightarrow> nat" where
  "freeTrack track =
     (if tr_Name track \<noteq> None then 1 else 0) + (if tr_Encoding track \<noteq> None then 1 else 0)
     + (if tr_language track \<noteq> None then 1 else 0) + (if tr_aacbuf track \<noteq> 0 then 1 else 0)"

subsection \<open>Commands and state\<close>

text \<open>
  \<open>ManagerCmd_t\<close> with the argument each command reads; \<open>MANAGER_OTHER\<close> is a number outside the
  enumeration. What a command writes through its argument is the \<open>mgr_out\<close>.
\<close>

datatype ManagerCmd_t =
    MANAGER_ADD Track_t
  | MANAGER_LIST
  | MANAGER_GET
  | MANAGER_GETNAME
  | MANAGER_SET int
  | MANAGER_GETENCODING
  | MANAGER_DEL
  | MANAGER_GET_TRACK
  | MANAGER_OTHER

datatype mgr_out =
    Out_none
  | Out_list "string list option"
  | Out_int int
  | Out_track "Track_t option"
  | Out_string string

text \<open>
  The static variables of a manager file and the flag it keeps in \<open>context->playback\<close>
  (\<open>isAudio\<close>, \<open>isVideo\<close>, \<open>isSubtitle\<close>). Cells of the array that were never written are
  \<open>None\<close>.
\<close>

record mgr_state =
  Tracks :: "Track_t option list option"
  TrackCount :: int
  CurrentTrack :: int
  is_playing :: bool

definition array_get :: "'a option list option \<Rightarrow> int \<Rightarrow> 'a option" where
  "array_get arr i =
     (case arr of None \<Rightarrow> None
      | Some xs \<Rightarrow> if 0 \<le> i \<and> nat i < length xs then xs ! nat i else None)"

definition array_put :: "'a option list option \<Rightarrow> int \<Rightarrow> 'a \<Rightarrow> 'a option list option option" where
  "array_put arr i x =
     (case arr of None \<Rightarrow> None
      | Some xs \<Rightarrow> if 0 \<le> i \<and> nat i < length xs then Some (Some (xs[nat i := Some x])) else None)"

text \<open>The loop of \<open>ManagerList\<close>: name and encoding of the tracks from index \<open>i\<close> on.\<close>

function list_tracks :: "mgr_state \<Rightarrow> int \<Rightarrow> string list option" where
  "list_tracks s i =
     (if i < TrackCount s then do {
        t \<leftarrow> array_get (Tracks s) i;
        n \<leftarrow> tr_Name t;
        e \<leftarrow> tr_Encoding t;
        rest \<leftarrow> list_tracks s (i + 1);
        Some (n # e # rest)
      } else Some [])"
  by pat_completeness auto
termination
  by (relation "measure (\<lambda>(s, i). nat (TrackCount s - i))") auto

declare list_tracks.simps [simp del]

text \<open>The loop of \<open>ManagerDel\<close>: the blocks freed for the tracks from index \<open>i\<close> on.\<close>

function free_tracks :: "mgr_state \<Rightarrow> int \<Rightarrow> nat option" where
  "free_tracks s i =
     (if i < TrackCount s then do {
        t \<leftarrow> array_get (Tracks s) i;
        rest \<leftarrow> free_tracks s (i + 1);
        Some (freeTrack t + rest)
      } else Some 0)"
  by pat_completeness auto
termination
  by (relation "measure (\<lambda>(s, i). nat (TrackCount s - i))") auto

declare free_tracks.simps [simp del]

subsection \<open>manager/audio.c\<close>

definition audio_TRACKWRAP :: nat where "audio_TRACKWRAP = 20"

definition audio_init :: mgr_state where
  "audio_init = \<lparr>Tracks = None, TrackCount = 0, CurrentTrack = 0, is_playing = False\<rparr>"

definition audio_ManagerAdd :: "bool \<Rightarrow> mgr_state \<Rightarrow> Track_t \<Rightarrow> (int \<times> mgr_state) option" where
  "audio_ManagerAdd malloc_ok s track =
     (let s = (if Tracks s = None \<and> malloc_ok
               then s\<lparr>Tracks := Some (replicate audio_TRACKWRAP None)\<rparr> else s)
      in if Tracks s = None then Some (-1, s)
         else if TrackCount s < int audio_TRACKWRAP then do {
           arr \<leftarrow> array_put (Tracks s) (TrackCount s) (copyTrack track);
           let s = s\<lparr>Tracks := arr, TrackCount := TrackCount s + 1\<rparr>;
           let s = (if TrackCount s > 0 then s\<lparr>is_playing := True\<rparr> else s);
           Some (0, s)
         } else Some (-1, s))"

definition audio_ManagerList :: "bool \<Rightarrow> mgr_state \<Rightarrow> string list option option" where
  "audio_ManagerList malloc_ok s =
     (if Tracks s = None then Some None
      else if \<not> malloc_ok then Some None
      else map_option Some (list_tracks s 0))"

definition audio_ManagerDel :: "mgr_state \<Rightarrow> (int \<times> mgr_state) option" where
  "audio_ManagerDel s =
     (if Tracks s = None then Some (-1, s)
      else do {
        freed \<leftarrow> free_tracks s 0;
        Some (0, s\<lparr>Tracks := None, TrackCount := 0, CurrentTrack := 0, is_playing := False\<rparr>)
      })"

definition audio_Command :: "bool \<Rightarrow> mgr_state \<Rightarrow> ManagerCmd_t \<Rightarrow> (int \<times> mgr_out \<times> mgr_state) option" where
  "audio_Command malloc_ok s command =
     (case command of
        MANAGER_ADD track \<Rightarrow> do { (ret, s) \<leftarrow> audio_ManagerAdd malloc_ok s track; Some (ret, Out_none, s) }
      | MANAGER_LIST \<Rightarrow> do { l \<leftarrow> audio_ManagerList malloc_ok s; Some (0, Out_list l, s) }
      | MANAGER_GET \<Rightarrow>
          (if TrackCount s > 0 \<and> CurrentTrack s \<ge> 0
           then do { t \<leftarrow> array_get (Tracks s) (CurrentTrack s); Some (0, Out_int (tr_Id t), s) }
           else Some (0, Out_int (-1), s))
      | MANAGER_GET_TRACK \<Rightarrow>
          (if TrackCount s > 0 \<and> CurrentTrack s \<ge> 0
           then do { t \<leftarrow> array_get (Tracks s) (CurrentTrack s); Some (0, Out_track (Some t), s) }
           else Some (0, Out_track None, s))
      | MANAGER_GETENCODING \<Rightarrow>
          (if TrackCount s > 0 \<and> CurrentTrack s \<ge> 0
           then do { t \<leftarrow> array_get (Tracks s) (CurrentTrack s); e \<leftarrow> tr_Encoding t; Some (0, Out_string e, s) }
           else Some (0, Out_string [], s))
      | MANAGER_GETNAME \<Rightarrow>
          (if TrackCount s > 0 \<and> CurrentTrack s \<ge> 0
           then do { t \<leftarrow> array_get (Tracks s) (CurrentTrack s); n \<leftarrow> tr_Name t; Some (0, Out_string n, s) }
           else Some (0, Out_string [], s))
      | MANAGER_SET track_id \<Rightarrow>
          (if track_id < TrackCount s then Some (0, Out_none, s\<lparr>CurrentTrack := track_id\<rparr>)
           else Some (-1, Out_none, s))
      | MANAGER_DEL \<Rightarrow> do { (ret, s) \<leftarrow> audio_ManagerDel s; Some (ret, Out_none, s) }
      | MANAGER_OTHER \<Rightarrow> Some (-1, Out_none, s))"

subsection \<open>manager/video.c\<close>

definition video_TRACKWRAP :: nat where "video_TRACKWRAP = 4"

definition video_init :: mgr_state where
  "video_init = \<lparr>Tracks = None, TrackCount = 0, CurrentTrack = 0, is_playing = False\<rparr>"

definition video_ManagerAdd :: "bool \<Rightarrow> mgr_state \<Rightarrow> Track_t \<Rightarrow> (int \<times> mgr_state) option" where
  "video_ManagerAdd malloc_ok s track =
     (let s = (if Tracks s = None \<and> malloc_ok
               then s\<lparr>Tracks := Some (replicate video_TRACKWRAP None)\<rparr> else s)
      in if Tracks s = None then Some (-1, s)
         else if TrackCount s < int video_TRACKWRAP then do {
           arr \<leftarrow> array_put (Tracks s) (TrackCount s) (copyTrack track);
           let s = s\<lparr>Tracks := arr, TrackCount := TrackCount s + 1\<rparr>;
           let s = (if TrackCount s > 0 then s\<lparr>is_playing := True\<rparr> else s);
           Some (0, s)
         } else Some (-1, s))"

definition video_ManagerList :: "bool \<Rightarrow> mgr_state \<Rightarrow> string list option option" where
  "video_ManagerList malloc_ok s =
     (if Tracks s = None then Some None
      else if \<not> malloc_ok then Some None
      else map_option Some (list_tracks s 0))"

definition video_ManagerDel :: "mgr_state \<Rightarrow> (int \<times> mgr_state) option" where
  "video_ManagerDel s =
     (if Tracks s = None then Some (-1, s)
      else do {
        freed \<leftarrow> free_tracks s 0;
        Some (0, s\<lparr>Tracks := None, TrackCount := 0, CurrentTrack := 0, is_playing := False\<rparr>)
      })"

definition video_Command :: "bool \<Rightarrow> mgr_state \<Rightarrow> ManagerCmd_t \<Rightarrow> (int \<times> mgr_out \<times> mgr_state) option" where
  "video_Command malloc_ok s command =
     (case command of
        MANAGER_ADD track \<Rightarrow> do { (ret, s) \<leftarrow> video_ManagerAdd malloc_ok s track; Some (ret, Out_none, s) }
      | MANAGER_LIST \<Rightarrow> do { l \<leftarrow> video_ManagerList malloc_ok s; Some (0, Out_list l, s) }
      | MANAGER_GET \<Rightarrow>
          (if TrackCount s > 0 \<and> CurrentTrack s \<ge> 0
           then do { t \<leftarrow> array_get (Tracks s) (CurrentTrack s); Some (0, Out_int (tr_Id t), s) }
           else Some (0, Out_int (-1), s))
      | MANAGER_GET_TRACK \<Rightarrow>
          (if TrackCount s > 0 \<and> CurrentTrack s \<ge> 0
           then do { t \<leftarrow> array_get (Tracks s) (CurrentTrack s); Some (0, Out_track (Some t), s) }
           else Some (0, Out_track None, s))
      | MANAGER_GETENCODING \<Rightarrow>
          (if TrackCount s > 0 \<and> CurrentTrack s \<ge> 0
           then do { t \<leftarrow> array_get (Tracks s) (CurrentTrack s); e \<leftarrow> tr_Encoding t; Some (0, Out_string e, s) }
           else Some (0, Out_string [], s))
      | MANAGER_GETNAME \<Rightarrow>
          (if TrackCount s > 0 \<and> CurrentTrack s \<ge> 0
           then do { t \<leftarrow> array_get (Tracks s) (CurrentTrack s); n \<leftarrow> tr_Name t; Some (0, Out_string n, s) }
           else Some (0, Out_string [], s))
      | MANAGER_SET track_id \<Rightarrow>
          (if track_id < TrackCount s then Some (0, Out_none, s\<lparr>CurrentTrack := track_id\<rparr>)
           else Some (-1, Out_none, s))
      | MANAGER_DEL \<Rightarrow> do { (ret, s) \<leftarrow> video_ManagerDel s; Some (ret, Out_none, s) }
      | MANAGER_OTHER \<Rightarrow> Some (-1, Out_none, s))"

subsection \<open>manager/subtitle.c\<close>

definition subtitle_TRACKWRAP :: nat where "subtitle_TRACKWRAP = 20"

definition subtitle_init :: mgr_state where
  "subtitle_init = \<lparr>Tracks = None, TrackCount = 0, CurrentTrack = -1, is_playing = False\<rparr>"

definition subtitle_ManagerAdd :: "bool \<Rightarrow> mgr_state \<Rightarrow> Track_t \<Rightarrow> (int \<times> mgr_state) option" where
  "subtitle_ManagerAdd malloc_ok s track =
     (let s = (if Tracks s = None \<and> malloc_ok
               then s\<lparr>Tracks := Some (replicate subtitle_TRACKWRAP None)\<rparr> else s)
      in if Tracks s = None then Some (-1, s)
         else if TrackCount s < int subtitle_TRACKWRAP then do {
           arr \<leftarrow> array_put (Tracks s) (TrackCount s) (copyTrack track);
           let s = s\<lparr>Tracks := arr, TrackCount := TrackCount s + 1\<rparr>;
           let s = (if TrackCount s > 0 then s\<lparr>is_playing := True\<rparr> else s);
           Some (0, s)
         } else Some (-1, s))"

definition subtitle_ManagerList :: "bool \<Rightarrow> mgr_state \<Rightarrow> string list option option" where
  "subtitle_ManagerList malloc_ok s =
     (if Tracks s = None then Some None
      else if \<not> malloc_ok then Some None
      else map_option Some (list_tracks s 0))"

definition subtitle_ManagerDel :: "mgr_state \<Rightarrow> (int \<times> mgr_state) option" where
  "subtitle_ManagerDel s =
     (if Tracks s = None then Some (-1, s)
      else do {
        freed \<leftarrow> free_tracks s 0;
        Some (0, s\<lparr>Tracks := None, TrackCount := 0, CurrentTrack := -1, is_playing := False\<rparr>)
      })"

definition subtitle_Command :: "bool \<Rightarrow> mgr_state \<Rightarrow> ManagerCmd_t \<Rightarrow> (int \<times> mgr_out \<times> mgr_state) option" where
  "subtitle_Command malloc_ok s command =
     (case command of
        MANAGER_ADD track \<Rightarrow> do { (ret, s) \<leftarrow> subtitle_ManagerAdd malloc_ok s track; Some (ret, Out_none, s) }
      | MANAGER_LIST \<Rightarrow> do { l \<leftarrow> subtitle_ManagerList malloc_ok s; Some (0, Out_list l, s) }
      | MANAGER_GET \<Rightarrow>
          (if TrackCount s > 0 \<and> CurrentTrack s \<ge> 0
           then do { t \<leftarrow> array_get (Tracks s) (CurrentTrack s); Some (0, Out_int (tr_Id t), s) }
           else Some (0, Out_int (-1), s))
      | MANAGER_GET_TRACK \<Rightarrow>
          (if TrackCount s > 0 \<and> CurrentTrack s \<ge> 0
           then do { t \<leftarrow> array_get (Tracks s) (CurrentTrack s); Some (0, Out_track (Some t), s) }
           else Some (0, Out_track None, s))
      | MANAGER_GETENCODING \<Rightarrow>
          (if TrackCount s > 0 \<and> CurrentTrack s \<ge> 0
           then do { t \<leftarrow> array_get (Tracks s) (CurrentTrack s); e \<leftarrow> tr_Encoding t; Some (0, Out_string e, s) }
           else Some (0, Out_string [], s))
      | MANAGER_GETNAME \<Rightarrow>
          (if TrackCount s > 0 \<and> CurrentTrack s \<ge> 0
           then do { t \<leftarrow> array_get (Tracks s) (CurrentTrack s); n \<leftarrow> tr_Name t; Some (0, Out_string n, s) }
           else Some (0, Out_string [], s))
      | MANAGER_SET track_id \<Rightarrow>
          (if track_id < TrackCount s then Some (0, Out_none, s\<lparr>CurrentTrack := track_id\<rparr>)
           else Some (-1, Out_none, s))
      | MANAGER_DEL \<Rightarrow> do { (ret, s) \<leftarrow> subtitle_ManagerDel s; Some (ret, Out_none, s) }
      | MANAGER_OTHER \<Rightarrow> Some (-1, Out_none, s))"

subsection \<open>Specification vocabulary\<close>

text \<open>
  What a manager promises: a list of at most \<open>wrap\<close> tracks in the order they were added, with
  missing strings replaced, and a current index that starts at \<open>init\<close>.
\<close>

record amgr =
  a_tracks :: "Track_t list"
  a_current :: int

definition a_selected :: "amgr \<Rightarrow> Track_t option" where
  "a_selected a = (if a_tracks a \<noteq> [] \<and> 0 \<le> a_current a then Some (a_tracks a ! nat (a_current a)) else None)"

definition a_names :: "Track_t list \<Rightarrow> string list" where
  "a_names ts = concat (map (\<lambda>t. [the (tr_Name t), the (tr_Encoding t)]) ts)"

definition spec_command :: "nat \<Rightarrow> int \<Rightarrow> bool \<Rightarrow> amgr \<Rightarrow> ManagerCmd_t \<Rightarrow> int \<times> mgr_out \<times> amgr" where
  "spec_command wrap init malloc_ok a command =
     (case command of
        MANAGER_ADD t \<Rightarrow>
          if (a_tracks a = [] \<longrightarrow> malloc_ok) \<and> length (a_tracks a) < wrap
          then (0, Out_none, a\<lparr>a_tracks := a_tracks a @ [copyTrack t]\<rparr>) else (-1, Out_none, a)
      | MANAGER_LIST \<Rightarrow> (0, Out_list (if a_tracks a = [] \<or> \<not> malloc_ok then None else Some (a_names (a_tracks a))), a)
      | MANAGER_GET \<Rightarrow> (0, Out_int (case a_selected a of Some t \<Rightarrow> tr_Id t | None \<Rightarrow> -1), a)
      | MANAGER_GET_TRACK \<Rightarrow> (0, Out_track (a_selected a), a)
      | MANAGER_GETENCODING \<Rightarrow> (0, Out_string (case a_selected a of Some t \<Rightarrow> the (tr_Encoding t) | None \<Rightarrow> []), a)
      | MANAGER_GETNAME \<Rightarrow> (0, Out_string (case a_selected a of Some t \<Rightarrow> the (tr_Name t) | None \<Rightarrow> []), a)
      | MANAGER_SET i \<Rightarrow> if i < int (length (a_tracks a)) then (0, Out_none, a\<lparr>a_current := i\<rparr>) else (-1, Out_none, a)
      | MANAGER_DEL \<Rightarrow> if a_tracks a = [] then (-1, Out_none, a) else (0, Out_none, \<lparr>a_tracks = [], a_current = init\<rparr>)
      | MANAGER_OTHER \<Rightarrow> (-1, Out_none, a))"

definition named :: "Track_t \<Rightarrow> bool" where
  "named t \<longleftrightarrow> tr_Name t \<noteq> None \<and> tr_Encoding t \<noteq> None \<and> tr_language t \<noteq> None"

text \<open>
  The representation: the array, once allocated, has \<open>wrap\<close> cells of which the first
  \<open>TrackCount\<close> hold the tracks, and it is allocated exactly while there are tracks.
\<close>

definition mgr_rep :: "nat \<Rightarrow> int \<Rightarrow> mgr_state \<Rightarrow> amgr \<Rightarrow> bool" where
  "mgr_rep wrap init s a \<longleftrightarrow>
     (if a_tracks a = [] then Tracks s = None \<and> a_current a \<le> 0
      else Tracks s = Some (map Some (a_tracks a) @ replicate (wrap - length (a_tracks a)) None))
     \<and> TrackCount s = int (length (a_tracks a)) \<and> length (a_tracks a) \<le> wrap
     \<and> CurrentTrack s = a_current a \<and> is_playing s = (a_tracks a \<noteq> [])
     \<and> a_current a < max 1 (int (length (a_tracks a)))
     \<and> list_all named (a_tracks a)"

fun run_commands ::
  "('s \<Rightarrow> ManagerCmd_t \<Rightarrow> (int \<times> mgr_out \<times> 's) option) \<Rightarrow> ManagerCmd_t list \<Rightarrow> 's \<Rightarrow> ((int \<times> mgr_out) list \<times> 's) option" where
  "run_commands step [] s = Some ([], s)"
| "run_commands step (c # cs) s = do {
     (r, out, s) \<leftarrow> step s c;
     (outs, s) \<leftarrow> run_commands step cs s;
     Some ((r, out) # outs, s)
   }"

text \<open>The code the three files share, with the size of the array and the default track as parameters.\<close>

definition gen_ManagerAdd :: "nat \<Rightarrow> bool \<Rightarrow> mgr_state \<Rightarrow> Track_t \<Rightarrow> (int \<times> mgr_state) option" where
  "gen_ManagerAdd wrap malloc_ok s track =
     (let s = (if Tracks s = None \<and> malloc_ok
               then s\<lparr>Tracks := Some (replicate wrap None)\<rparr> else s)
      in if Tracks s = None then Some (-1, s)
         else if TrackCount s < int wrap then do {
           arr \<leftarrow> array_put (Tracks s) (TrackCount s) (copyTrack track);
           let s = s\<lparr>Tracks := arr, TrackCount := TrackCount s + 1\<rparr>;
           let s = (if TrackCount s > 0 then s\<lparr>is_playing := True\<rparr> else s);
           Some (0, s)
         } else Some (-1, s))"

definition gen_ManagerList :: "bool \<Rightarrow> mgr_state \<Rightarrow> string list option option" where
  "gen_ManagerList malloc_ok s =
     (if Tracks s = None then Some None
      else if \<not> malloc_ok then Some None
      else map_option Some (list_tracks s 0))"

definition gen_ManagerDel :: "int \<Rightarrow> mgr_state \<Rightarrow> (int \<times> mgr_state) option" where
  "gen_ManagerDel init s =
     (if Tracks s = None then Some (-1, s)
      else do {
        freed \<leftarrow> free_tracks s 0;
        Some (0, s\<lparr>Tracks := None, TrackCount := 0, CurrentTrack := init, is_playing := False\<rparr>)
      })"

definition gen_Command :: "nat \<Rightarrow> int \<Rightarrow> bool \<Rightarrow> mgr_state \<Rightarrow> ManagerCmd_t \<Rightarrow> (int \<times> mgr_out \<times> mgr_state) option" where
  "gen_Command wrap init malloc_ok s command =
     (case command of
        MANAGER_ADD track \<Rightarrow> do { (ret, s) \<leftarrow> gen_ManagerAdd wrap malloc_ok s track; Some (ret, Out_none, s) }
      | MANAGER_LIST \<Rightarrow> do { l \<leftarrow> gen_ManagerList malloc_ok s; Some (0, Out_list l, s) }
      | MANAGER_GET \<Rightarrow>
          (if TrackCount s > 0 \<and> CurrentTrack s \<ge> 0
           then do { t \<leftarrow> array_get (Tracks s) (CurrentTrack s); Some (0, Out_int (tr_Id t), s) }
           else Some (0, Out_int (-1), s))
      | MANAGER_GET_TRACK \<Rightarrow>
          (if TrackCount s > 0 \<and> CurrentTrack s \<ge> 0
           then do { t \<leftarrow> array_get (Tracks s) (CurrentTrack s); Some (0, Out_track (Some t), s) }
           else Some (0, Out_track None, s))
      | MANAGER_GETENCODING \<Rightarrow>
          (if TrackCount s > 0 \<and> CurrentTrack s \<ge> 0
           then do { t \<leftarrow> array_get (Tracks s) (CurrentTrack s); e \<leftarrow> tr_Encoding t; Some (0, Out_string e, s) }
           else Some (0, Out_string [], s))
      | MANAGER_GETNAME \<Rightarrow>
          (if TrackCount s > 0 \<and> CurrentTrack s \<ge> 0
           then do { t \<leftarrow> array_get (Tracks s) (CurrentTrack s); n \<leftarrow> tr_Name t; Some (0, Out_string n, s) }
           else Some (0, Out_string [], s))
      | MANAGER_SET track_id \<Rightarrow>
          (if track_id < TrackCount s then Some (0, Out_none, s\<lparr>CurrentTrack := track_id\<rparr>)
           else Some (-1, Out_none, s))
      | MANAGER_DEL \<Rightarrow> do { (ret, s) \<leftarrow> gen_ManagerDel init s; Some (ret, Out_none, s) }
      | MANAGER_OTHER \<Rightarrow> Some (-1, Out_none, s))"

definition track_managers ::
  "((bool \<Rightarrow> mgr_state \<Rightarrow> ManagerCmd_t \<Rightarrow> (int \<times> mgr_out \<times> mgr_state) option) \<times> nat \<times> int \<times> mgr_state) list" where
  "track_managers =
     [(audio_Command, audio_TRACKWRAP, 0, audio_init), (video_Command, video_TRACKWRAP, 0, video_init),
      (subtitle_Command, subtitle_TRACKWRAP, -1, subtitle_init)]"

text \<open>A concrete track, for the witnesses.\<close>

definition example_track :: Track_t where
  "example_track = \<lparr>tr_Name = Some ''eng'', tr_Encoding = Some ''A_AC3'', tr_Id = 7, tr_language = Some ''eng'',
     tr_duration = 0, tr_frame_rate = 0, tr_TimeScale = 0, tr_version = 0, tr_pts = 0, tr_type = eTypeES,
     tr_width = 0, tr_height = 0, tr_stream = 0, tr_extraData = 0, tr_extraSize = 0, tr_aacbuf = 0,
     tr_aacbuflen = 0, tr_have_aacheader = 0, tr_inject_as_pcm = 0, tr_inject_raw_pcm = 0\<rparr>"

subsection \<open>Lemmas\<close>

lemma named_copyTrack [simp]: "named (copyTrack t)"
  by (auto simp: named_def copyTrack_def split: option.split)

lemma array_get_rep:
  assumes "mgr_rep wrap init s a" and "0 \<le> i" and "i < int (length (a_tracks a))"
  shows "array_get (Tracks s) i = Some (a_tracks a ! nat i)"
  using assms by (auto simp: mgr_rep_def array_get_def nth_append split: if_splits)

lemma list_tracks_rep:
  assumes rep: "mgr_rep wrap init s a"
  shows "0 \<le> i \<Longrightarrow> list_tracks s i = Some (a_names (drop (nat i) (a_tracks a)))"
proof (induction "length (a_tracks a) - nat i" arbitrary: i)
  case 0
  then show ?case using rep by (subst list_tracks.simps) (auto simp: mgr_rep_def a_names_def)
next
  case (Suc k)
  let ?t = "a_tracks a ! nat i"
  from Suc have i: "nat i < length (a_tracks a)" "i < int (length (a_tracks a))" by auto
  then have "array_get (Tracks s) i = Some ?t" "named ?t"
    using array_get_rep [OF rep Suc.prems] rep by (auto simp: mgr_rep_def list_all_length)
  moreover have "list_tracks s (i + 1) = Some (a_names (drop (nat (i + 1)) (a_tracks a)))"
    using Suc by (intro Suc.hyps(1)) auto
  moreover have "drop (nat i) (a_tracks a) = ?t # drop (nat (i + 1)) (a_tracks a)"
    using i Cons_nth_drop_Suc [of "nat i" "a_tracks a"] Suc.prems by (simp add: nat_add_distrib)
  ultimately show ?case
    using i rep by (subst list_tracks.simps) (auto simp: mgr_rep_def named_def a_names_def)
qed

lemma free_tracks_rep:
  assumes rep: "mgr_rep wrap init s a"
  shows "0 \<le> i \<Longrightarrow> \<exists>n. free_tracks s i = Some n"
proof (induction "length (a_tracks a) - nat i" arbitrary: i)
  case 0
  then show ?case using rep by (subst free_tracks.simps) (auto simp: mgr_rep_def)
next
  case (Suc k)
  then have "\<exists>n. free_tracks s (i + 1) = Some n" by (intro Suc.hyps(1)) auto
  moreover have "array_get (Tracks s) i = Some (a_tracks a ! nat i)"
    using array_get_rep [OF rep Suc.prems] Suc by auto
  ultimately show ?case by (subst free_tracks.simps) auto
qed

text \<open>The cell a track is added to, in a fresh and in a used array.\<close>

lemma mgr_rep_add:
  assumes rep: "mgr_rep wrap init s a" and room: "length (a_tracks a) < wrap"
    and arr: "arr = (if Tracks s = None then Some (replicate wrap None) else Tracks s)"
  shows "\<exists>arr'. array_put arr (TrackCount s) (copyTrack t) = Some arr'
    \<and> mgr_rep wrap init (s\<lparr>Tracks := arr', TrackCount := TrackCount s + 1, is_playing := True\<rparr>)
        (a\<lparr>a_tracks := a_tracks a @ [copyTrack t]\<rparr>)"
proof -
  have "replicate (wrap - length (a_tracks a)) (None::Track_t option) =
      None # replicate (wrap - Suc (length (a_tracks a))) None"
    using room by (metis Suc_diff_Suc replicate_Suc)
  then show ?thesis
    using assms
    by (cases "a_tracks a = []") (auto simp: mgr_rep_def array_put_def list_update_append)
qed

lemma mgr_rep_current:
  "mgr_rep wrap init s a \<Longrightarrow> a_tracks a \<noteq> [] \<Longrightarrow> a_current a < int (length (a_tracks a))"
  by (cases "a_tracks a") (auto simp: mgr_rep_def max_def split: if_splits)

lemma mgr_rep_selected:
  assumes "mgr_rep wrap init s a"
  shows "a_selected a = (if TrackCount s > 0 \<and> CurrentTrack s \<ge> 0 then array_get (Tracks s) (CurrentTrack s) else None)"
    and "TrackCount s > 0 \<and> CurrentTrack s \<ge> 0 \<Longrightarrow> \<exists>t. array_get (Tracks s) (CurrentTrack s) = Some t \<and> named t"
proof -
  show "a_selected a = (if TrackCount s > 0 \<and> CurrentTrack s \<ge> 0 then array_get (Tracks s) (CurrentTrack s) else None)"
    using assms array_get_rep [OF assms, of "CurrentTrack s"] mgr_rep_current [OF assms]
    by (auto simp: a_selected_def mgr_rep_def)
  show "\<exists>t. array_get (Tracks s) (CurrentTrack s) = Some t \<and> named t" if "TrackCount s > 0 \<and> CurrentTrack s \<ge> 0"
    using that assms array_get_rep [OF assms, of "CurrentTrack s"] mgr_rep_current [OF assms]
    by (auto simp: mgr_rep_def list_all_length nat_less_iff)
qed

locale track_manager =
  fixes Command :: "bool \<Rightarrow> mgr_state \<Rightarrow> ManagerCmd_t \<Rightarrow> (int \<times> mgr_out \<times> mgr_state) option"
    and wrap :: nat and init :: int and start :: mgr_state
  assumes refines: "mgr_rep wrap init s a \<Longrightarrow>
      \<exists>s'. Command m s c = Some (fst (spec_command wrap init m a c), fst (snd (spec_command wrap init m a c)), s')
         \<and> mgr_rep wrap init s' (snd (snd (spec_command wrap init m a c)))"
    and start: "mgr_rep wrap init start \<lparr>a_tracks = [], a_current = init\<rparr>"
begin

lemma run_refines:
  "mgr_rep wrap init s a \<Longrightarrow>
   \<exists>s' a' outs. run_commands (Command m) cs s = Some (outs, s')
     \<and> run_commands (\<lambda>a c. Some (spec_command wrap init m a c)) cs a = Some (outs, a')
     \<and> mgr_rep wrap init s' a'"
proof (induction cs arbitrary: s a)
  case Nil
  then show ?case by simp
next
  case (Cons c cs)
  obtain r out a1 where sp: "spec_command wrap init m a c = (r, out, a1)" by (cases "spec_command wrap init m a c") auto
  with refines [OF Cons.prems, of m c] obtain s1 where "Command m s c = Some (r, out, s1)" "mgr_rep wrap init s1 a1"
    by auto
  with Cons.IH [of s1 a1] sp show ?case by fastforce
qed

lemma run_spec:
  "run_commands (\<lambda>a c. Some (spec_command wrap init m a c)) cs \<lparr>a_tracks = [], a_current = init\<rparr> = Some (outs, a')
   \<Longrightarrow> \<exists>s'. run_commands (Command m) cs start = Some (outs, s')"
  using run_refines [OF start, of m cs] by auto

lemma run_append:
  "run_commands step (cs @ ds) s =
     (case run_commands step cs s of None \<Rightarrow> None
      | Some (o1, s1) \<Rightarrow> (case run_commands step ds s1 of None \<Rightarrow> None | Some (o2, s2) \<Rightarrow> Some (o1 @ o2, s2)))"
  by (induction cs arbitrary: s) (auto split: option.split bind_split)

lemma spec_adds:
  "length (a_tracks a) + length ts \<le> wrap \<Longrightarrow>
   run_commands (\<lambda>a c. Some (spec_command wrap init True a c)) (map MANAGER_ADD ts) a =
     Some (replicate (length ts) (0, Out_none), a\<lparr>a_tracks := a_tracks a @ map copyTrack ts\<rparr>)"
  by (induction ts arbitrary: a) (auto simp: spec_command_def)

lemma add_list_select:
  assumes ts: "ts \<noteq> []" "length ts \<le> wrap" "i < length ts"
  shows "\<exists>s'. run_commands (Command True) (map MANAGER_ADD ts @ [MANAGER_LIST, MANAGER_SET (int i), MANAGER_GET_TRACK]) start =
    Some (replicate (length ts) (0, Out_none)
      @ [(0, Out_list (Some (a_names (map copyTrack ts)))), (0, Out_none), (0, Out_track (Some (copyTrack (ts ! i))))], s')"
proof -
  let ?a = "\<lparr>a_tracks = [], a_current = init\<rparr>"
  have "run_commands (\<lambda>a c. Some (spec_command wrap init True a c))
      (map MANAGER_ADD ts @ [MANAGER_LIST, MANAGER_SET (int i), MANAGER_GET_TRACK]) ?a =
    Some (replicate (length ts) (0, Out_none)
      @ [(0, Out_list (Some (a_names (map copyTrack ts)))), (0, Out_none), (0, Out_track (Some (copyTrack (ts ! i))))],
      \<lparr>a_tracks = map copyTrack ts, a_current = int i\<rparr>)"
    using spec_adds [of ?a ts] ts by (simp add: run_append spec_command_def a_selected_def)
  then show ?thesis by (rule run_spec)
qed

lemma add_full:
  assumes ts: "length ts = wrap" "wrap > 0"
  shows "\<exists>s'. run_commands (Command True) (map MANAGER_ADD ts @ [MANAGER_ADD t, MANAGER_LIST]) start =
    Some (replicate wrap (0, Out_none) @ [(-1, Out_none), (0, Out_list (Some (a_names (map copyTrack ts))))], s')"
proof -
  let ?a = "\<lparr>a_tracks = [], a_current = init\<rparr>"
  have "run_commands (\<lambda>a c. Some (spec_command wrap init True a c))
      (map MANAGER_ADD ts @ [MANAGER_ADD t, MANAGER_LIST]) ?a =
    Some (replicate wrap (0, Out_none) @ [(-1, Out_none), (0, Out_list (Some (a_names (map copyTrack ts))))],
      \<lparr>a_tracks = map copyTrack ts, a_current = init\<rparr>)"
    using spec_adds [of ?a ts] ts by (auto simp: run_append spec_command_def)
  then show ?thesis by (rule run_spec)
qed

end

lemma gen_Command_refines:
  assumes wrap: "0 < wrap" and init: "init \<le> 0"
    and start: "start = \<lparr>Tracks = None, TrackCount = 0, CurrentTrack = init, is_playing = False\<rparr>"
  shows "track_manager (gen_Command wrap init) wrap init start"
proof
  fix s a m c
  assume rep: "mgr_rep wrap init s a"
  note sel = mgr_rep_selected [OF rep]
  have e: "a_tracks a = [] \<longleftrightarrow> Tracks s = None" "TrackCount s = int (length (a_tracks a))"
    using rep by (auto simp: mgr_rep_def split: if_splits)
  show "\<exists>s'. gen_Command wrap init m s c = Some (fst (spec_command wrap init m a c),
      fst (snd (spec_command wrap init m a c)), s')
    \<and> mgr_rep wrap init s' (snd (snd (spec_command wrap init m a c)))"
  proof (cases c)
    case (MANAGER_ADD t)
    show ?thesis
    proof (cases "(a_tracks a = [] \<longrightarrow> m) \<and> length (a_tracks a) < wrap")
      case True
      then show ?thesis
        using mgr_rep_add [OF rep _ refl, of t] e MANAGER_ADD
        by (auto simp: gen_Command_def gen_ManagerAdd_def spec_command_def Let_def)
    next
      case False
      then show ?thesis
        using rep e wrap MANAGER_ADD
        by (auto simp: gen_Command_def gen_ManagerAdd_def spec_command_def Let_def)
    qed
  next
    case MANAGER_LIST
    then show ?thesis
      using rep e list_tracks_rep [OF rep, of 0]
      by (auto simp: gen_Command_def gen_ManagerList_def spec_command_def)
  next
    case MANAGER_DEL
    then show ?thesis
      using rep e init free_tracks_rep [OF rep, of 0]
      by (auto simp: gen_Command_def gen_ManagerDel_def spec_command_def mgr_rep_def)
  next
    case (MANAGER_SET i)
    then show ?thesis
      using rep e by (auto simp: gen_Command_def spec_command_def mgr_rep_def)
  qed (use rep sel in \<open>auto simp: gen_Command_def spec_command_def named_def\<close>)
qed (use init in \<open>simp add: mgr_rep_def start\<close>)

lemma audio_Command_gen: "audio_Command = gen_Command audio_TRACKWRAP 0"
  by (intro ext)
     (simp add: audio_Command_def gen_Command_def audio_ManagerAdd_def gen_ManagerAdd_def audio_ManagerList_def
      gen_ManagerList_def audio_ManagerDel_def gen_ManagerDel_def split: ManagerCmd_t.split)

interpretation audio: track_manager audio_Command audio_TRACKWRAP "0" audio_init
  unfolding audio_Command_gen
  by (rule gen_Command_refines) (simp_all add: audio_TRACKWRAP_def audio_init_def)

lemma video_Command_gen: "video_Command = gen_Command video_TRACKWRAP 0"
  by (intro ext)
     (simp add: video_Command_def gen_Command_def video_ManagerAdd_def gen_ManagerAdd_def video_ManagerList_def
      gen_ManagerList_def video_ManagerDel_def gen_ManagerDel_def split: ManagerCmd_t.split)

interpretation video: track_manager video_Command video_TRACKWRAP "0" video_init
  unfolding video_Command_gen
  by (rule gen_Command_refines) (simp_all add: video_TRACKWRAP_def video_init_def)

lemma subtitle_Command_gen: "subtitle_Command = gen_Command subtitle_TRACKWRAP (-1)"
  by (intro ext)
     (simp add: subtitle_Command_def gen_Command_def subtitle_ManagerAdd_def gen_ManagerAdd_def subtitle_ManagerList_def
      gen_ManagerList_def subtitle_ManagerDel_def gen_ManagerDel_def split: ManagerCmd_t.split)

interpretation subtitle: track_manager subtitle_Command subtitle_TRACKWRAP "(-1)" subtitle_init
  unfolding subtitle_Command_gen
  by (rule gen_Command_refines) (simp_all add: subtitle_TRACKWRAP_def subtitle_init_def)


subsection \<open>Properties\<close>

text \<open>
  Claim C10. The audio, video and subtitle managers implement the abstract track list: for every
  sequence of commands from the initial state, with or without memory, no command accesses the
  array outside the tracks stored in it or a missing string, return codes and results are those
  of the specification, the array is never overfilled, and the playback flag says whether there
  are tracks.
\<close>

theorem track_managers_refine:
  assumes "(Command, wrap, init, start) \<in> set track_managers"
  shows "\<exists>outs s' a'. run_commands (Command malloc_ok) cs start = Some (outs, s')
    \<and> run_commands (\<lambda>a c. Some (spec_command wrap init malloc_ok a c)) cs \<lparr>a_tracks = [], a_current = init\<rparr> = Some (outs, a')
    \<and> length (a_tracks a') \<le> wrap \<and> is_playing s' = (a_tracks a' \<noteq> []) \<and> TrackCount s' = int (length (a_tracks a'))"
  using assms audio.run_refines [OF audio.start, of malloc_ok cs] video.run_refines [OF video.start, of malloc_ok cs]
    subtitle.run_refines [OF subtitle.start, of malloc_ok cs]
  by (auto simp: track_managers_def mgr_rep_def)

theorem track_managers_refine_witness:
  "\<exists>outs s'. run_commands (video_Command False) [MANAGER_ADD example_track, MANAGER_GET] video_init = Some (outs, s')
    \<and> outs = [(-1, Out_none), (0, Out_int (-1))] \<and> \<not> is_playing s'"
  using track_managers_refine [of video_Command video_TRACKWRAP 0 video_init False "[MANAGER_ADD example_track, MANAGER_GET]"]
  by (auto simp: track_managers_def spec_command_def a_selected_def)

text \<open>
  Adding tracks, listing and selecting: in each manager, after adding up to \<open>TRACKWRAP\<close>
  tracks, LIST returns their names and encodings in the order added, and SET followed by
  GET_TRACK returns the track with that index, with missing strings replaced by "Unknown".
\<close>

theorem track_managers_select:
  assumes "(Command, wrap, init, start) \<in> set track_managers"
    and "ts \<noteq> []" and "length ts \<le> wrap" and "i < length ts"
  shows "\<exists>s'. run_commands (Command True) (map MANAGER_ADD ts @ [MANAGER_LIST, MANAGER_SET (int i), MANAGER_GET_TRACK]) start =
    Some (replicate (length ts) (0, Out_none)
      @ [(0, Out_list (Some (a_names (map copyTrack ts)))), (0, Out_none), (0, Out_track (Some (copyTrack (ts ! i))))], s')"
  using assms audio.add_list_select [of ts i] video.add_list_select [of ts i] subtitle.add_list_select [of ts i]
  by (auto simp: track_managers_def)

theorem track_managers_select_witness:
  "\<exists>s'. run_commands (subtitle_Command True)
      (map MANAGER_ADD [example_track, example_track\<lparr>tr_Name := None\<rparr>]
        @ [MANAGER_LIST, MANAGER_SET (int 1), MANAGER_GET_TRACK]) subtitle_init =
    Some ([(0, Out_none), (0, Out_none), (0, Out_list (Some [''eng'', ''A_AC3'', ''Unknown'', ''A_AC3''])), (0, Out_none),
      (0, Out_track (Some (example_track\<lparr>tr_Name := Some ''Unknown''\<rparr>)))], s')"
  using track_managers_select [of subtitle_Command subtitle_TRACKWRAP "-1" subtitle_init
      "[example_track, example_track\<lparr>tr_Name := None\<rparr>]" 1]
  by (simp add: track_managers_def subtitle_TRACKWRAP_def copyTrack_def example_track_def a_names_def del: run_commands.simps)

text \<open>
  A full manager refuses a further track with the error code and keeps its tracks.
\<close>

theorem track_managers_full:
  assumes "(Command, wrap, init, start) \<in> set track_managers" and "length ts = wrap"
  shows "\<exists>s'. run_commands (Command True) (map MANAGER_ADD ts @ [MANAGER_ADD t, MANAGER_LIST]) start =
    Some (replicate wrap (0, Out_none) @ [(-1, Out_none), (0, Out_list (Some (a_names (map copyTrack ts))))], s')"
  using assms audio.add_full [of ts t] video.add_full [of ts t] subtitle.add_full [of ts t]
  by (auto simp: track_managers_def audio_TRACKWRAP_def video_TRACKWRAP_def subtitle_TRACKWRAP_def)

theorem track_managers_full_witness:
  "\<exists>s'. run_commands (video_Command True)
      (map MANAGER_ADD (replicate 4 example_track) @ [MANAGER_ADD example_track, MANAGER_LIST]) video_init =
    Some (replicate 4 (0, Out_none)
      @ [(-1, Out_none), (0, Out_list (Some (a_names (map copyTrack (replicate 4 example_track)))))], s')"
  using track_managers_full [of video_Command video_TRACKWRAP 0 video_init "replicate 4 example_track" example_track]
  by (simp add: track_managers_def video_TRACKWRAP_def del: run_commands.simps)

end
