(* ===== verification/Avs_Base.thy ===== *)
theory Avs_Base
  imports Prelude
begin

text \<open>
  Common ground of the audio/video (scart) switch drivers under \<open>src/local_src/driver/avs\<close>: the
  command numbers of \<open>avs_core.h\<close>, the bit helpers of \<open>tools.c\<close>, the I2C bus, access to user
  memory, bit-field structures, and the contracts the chip drivers share.

  \<^item> The I2C core of the kernel is a parameter: an \<open>i2c_client\<close> answers a message, given what was
    sent before, with the number of bytes taken or a negative error number. The log holds every
    message handed to the bus.
  \<^item> The argument of an ioctl is \<open>None\<close> when the user address faults and \<open>Some v\<close> when it holds
    the int \<open>v\<close>.
  \<^item> A C structure of bit-fields is a record of words of the fields' widths; \<open>pack\<close> lays the fields
    of a byte out from the low end, as the little endian SH-4 ABI does.
  \<^item> \<open>None\<close> as the result of an operation means that the C code has no defined behaviour.

  The locales \<open>register_chip\<close>, \<open>standby_chip\<close> and \<open>volume_chip\<close> state what a chip driver promises;
  the chip theories interpret them.
\<close>

subsection \<open>Commands\<close>

definition AVS_MUTE :: int where "AVS_MUTE = 1"
definition AVS_UNMUTE :: int where "AVS_UNMUTE = 0"
definition AVSIOSET :: u32 where "AVSIOSET = 0x1000"
definition AVSIOGET :: u32 where "AVSIOGET = 0x2000"
definition AVSIOSVSW1 :: u32 where "AVSIOSVSW1 = 1 OR AVSIOSET"
definition AVSIOSVSW2 :: u32 where "AVSIOSVSW2 = 2 OR AVSIOSET"
definition AVSIOSVSW3 :: u32 where "AVSIOSVSW3 = 3 OR AVSIOSET"
definition AVSIOSASW1 :: u32 where "AVSIOSASW1 = 4 OR AVSIOSET"
definition AVSIOSASW2 :: u32 where "AVSIOSASW2 = 5 OR AVSIOSET"
definition AVSIOSASW3 :: u32 where "AVSIOSASW3 = 6 OR AVSIOSET"
definition AVSIOSVOL :: u32 where "AVSIOSVOL = 7 OR AVSIOSET"
definition AVSIOSMUTE :: u32 where "AVSIOSMUTE = 8 OR AVSIOSET"
definition AVSIOSFBLK :: u32 where "AVSIOSFBLK = 9 OR AVSIOSET"
definition AVSIOSFNC :: u32 where "AVSIOSFNC = 10 OR AVSIOSET"
definition AVSIOSYCM :: u32 where "AVSIOSYCM = 11 OR AVSIOSET"
definition AVSIOSZCD :: u32 where "AVSIOSZCD = 12 OR AVSIOSET"
definition AVSIOSLOG1 :: u32 where "AVSIOSLOG1 = 13 OR AVSIOSET"
definition AVSIOSLOG2 :: u32 where "AVSIOSLOG2 = 14 OR AVSIOSET"
definition AVSIOSLOG3 :: u32 where "AVSIOSLOG3 = 15 OR AVSIOSET"
definition AVSIOSLOG4 :: u32 where "AVSIOSLOG4 = 16 OR AVSIOSET"
definition AVSIOGVSW1 :: u32 where "AVSIOGVSW1 = 17 OR AVSIOGET"
definition AVSIOGVSW2 :: u32 where "AVSIOGVSW2 = 18 OR AVSIOGET"
definition AVSIOGVSW3 :: u32 where "AVSIOGVSW3 = 19 OR AVSIOGET"
definition AVSIOGASW1 :: u32 where "AVSIOGASW1 = 20 OR AVSIOGET"
definition AVSIOGASW2 :: u32 where "AVSIOGASW2 = 21 OR AVSIOGET"
definition AVSIOGASW3 :: u32 where "AVSIOGASW3 = 22 OR AVSIOGET"
definition AVSIOGVOL :: u32 where "AVSIOGVOL = 23 OR AVSIOGET"
definition AVSIOGMUTE :: u32 where "AVSIOGMUTE = 24 OR AVSIOGET"
definition AVSIOGFBLK :: u32 where "AVSIOGFBLK = 25 OR AVSIOGET"
definition AVSIOGFNC :: u32 where "AVSIOGFNC = 26 OR AVSIOGET"
definition AVSIOGYCM :: u32 where "AVSIOGYCM = 27 OR AVSIOGET"
definition AVSIOGZCD :: u32 where "AVSIOGZCD = 28 OR AVSIOGET"
definition AVSIOGLOG1 :: u32 where "AVSIOGLOG1 = 29 OR AVSIOGET"
definition AVSIOGLOG2 :: u32 where "AVSIOGLOG2 = 30 OR AVSIOGET"
definition AVSIOGLOG3 :: u32 where "AVSIOGLOG3 = 31 OR AVSIOGET"
definition AVSIOGLOG4 :: u32 where "AVSIOGLOG4 = 32 OR AVSIOGET"
definition AVSIOGSTATUS :: u32 where "AVSIOGSTATUS = 33 OR AVSIOGET"
definition AVSIOGTYPE :: u32 where "AVSIOGTYPE = 34 OR AVSIOGET"
definition AVSIOSSCARTPIN8 :: u32 where "AVSIOSSCARTPIN8 = 35 OR AVSIOSET"
definition AVSIOGSCARTPIN8 :: u32 where "AVSIOGSCARTPIN8 = 36 OR AVSIOGET"
definition AVSIOSTANDBY :: u32 where "AVSIOSTANDBY = 99 OR AVSIOSET"
definition SAAIOSENC :: u32 where "SAAIOSENC = 4"
definition SAAIOSMODE :: u32 where "SAAIOSMODE = 5"
definition SAAIOSWSS :: u32 where "SAAIOSWSS = 10"
definition SAAIOSSRCSEL :: u32 where "SAAIOSSRCSEL = 11"
definition SAA_MODE_RGB :: int where "SAA_MODE_RGB = 0"
definition SAA_MODE_FBAS :: int where "SAA_MODE_FBAS = 1"
definition SAA_MODE_SVIDEO :: int where "SAA_MODE_SVIDEO = 2"
definition SAA_MODE_COMPONENT :: int where "SAA_MODE_COMPONENT = 3"
definition SAA_WSS_43F :: int where "SAA_WSS_43F = 0"
definition SAA_WSS_169F :: int where "SAA_WSS_169F = 7"
definition SAA_WSS_OFF :: int where "SAA_WSS_OFF = 8"
definition SAA_SRC_ENC :: int where "SAA_SRC_ENC = 0"
definition SAA_SRC_SCART :: int where "SAA_SRC_SCART = 1"

subsection \<open>Bus and user memory\<close>

type_synonym i2c_log = "bytes list"

record i2c_client =
  i2c_send :: "i2c_log \<Rightarrow> bytes \<Rightarrow> int"
  i2c_recv :: "i2c_log \<Rightarrow> (int \<times> byte)"

definition i2c_master_send :: "i2c_client \<Rightarrow> bytes \<Rightarrow> i2c_log \<Rightarrow> int \<times> i2c_log" where
  "i2c_master_send client buf l = (i2c_send client l buf, l @ [buf])"

definition i2c_master_recv1 :: "i2c_client \<Rightarrow> i2c_log \<Rightarrow> int \<times> byte" where
  "i2c_master_recv1 client l = i2c_recv client l"

definition put_user :: "int \<Rightarrow> int option \<Rightarrow> int \<times> int option" where
  "put_user val arg = (case arg of None \<Rightarrow> (- EFAULT, None) | Some _ \<Rightarrow> (0, Some val))"

text \<open>The result of a setter: a return code and nothing written through the argument.\<close>

definition no_out :: "int \<times> 's \<Rightarrow> int \<times> int option \<times> 's" where
  "no_out r = (fst r, None, snd r)"

text \<open>The platform macros a build defines, as far as the chip drivers depend on them.\<close>

record avs_build =
  FORTIS_HDBOX :: bool
  HL101 :: bool
  IPBOX9900 :: bool
  IPBOX99 :: bool
  ADB_BOX :: bool
  ATEVIO7500 :: bool

subsection \<open>Bit-fields\<close>

fun pack :: "(nat \<times> nat) list \<Rightarrow> nat" where
  "pack [] = 0"
| "pack ((w, v) # fs) = v mod 2 ^ w + 2 ^ w * pack fs"

definition pack_byte :: "(nat \<times> nat) list \<Rightarrow> byte" where
  "pack_byte fs = word_of_nat (pack fs)"

text \<open>\<open>tools.c\<close>: the shifts are done in int and the result is stored as an unsigned char.\<close>

definition set_bits :: "bytes \<Rightarrow> nat \<Rightarrow> byte \<Rightarrow> nat \<Rightarrow> nat \<Rightarrow> bytes option" where
  "set_bits regs regIndex value start_bit nr_bits =
     (if regIndex < length regs
      then Some (regs[regIndex := ucast
             ((ucast (regs ! regIndex) AND NOT (c_shl (c_shl 1 nr_bits - 1) start_bit))
              OR c_shl (ucast value) start_bit)])
      else None)"

definition get_bits :: "bytes \<Rightarrow> nat \<Rightarrow> nat \<Rightarrow> nat \<Rightarrow> byte option" where
  "get_bits regs regIndex start_bit nr_bits =
     (if regIndex < length regs
      then Some (ucast (c_shr (ucast (regs ! regIndex)) start_bit AND (c_shl 1 nr_bits - 1)))
      else None)"

subsection \<open>Specification vocabulary\<close>

text \<open>A request reaches a driver as an ioctl or as a call from another kernel module.\<close>

datatype avs_request = User u32 "int option" | Kernel u32 int

text \<open>Bus hypothesis: \<open>i2c_master_send\<close> takes every message completely.\<close>

definition i2c_ok :: "i2c_client \<Rightarrow> bool" where
  "i2c_ok client \<longleftrightarrow> (\<forall>l buf. i2c_send client l buf = int (length buf))"

text \<open>A build with none of the macros, for the witnesses.\<close>

definition plain_build :: avs_build where
  "plain_build = \<lparr>FORTIS_HDBOX = False, HL101 = False, IPBOX9900 = False, IPBOX99 = False,
     ADB_BOX = False, ATEVIO7500 = False\<rparr>"

definition good_client :: i2c_client where
  "good_client = \<lparr>i2c_send = \<lambda>l buf. int (length buf), i2c_recv = \<lambda>l. (1, 0)\<rparr>"

text \<open>
  An operation of a chip with a register image either leaves registers and bus alone or sends the
  image of the registers it leaves behind, and reports whether the bus took it.
\<close>

definition sends ::
    "('s \<Rightarrow> bytes) \<Rightarrow> i2c_client \<Rightarrow> 's \<times> i2c_log \<Rightarrow> int \<times> 's \<times> i2c_log \<Rightarrow> bool" where
  "sends img client st r \<longleftrightarrow>
     (case r of (rc, st') \<Rightarrow>
        st' = st \<or>
        snd st' = snd st @ [img (fst st')] \<and>
        rc = (if i2c_send client (snd st) (img (fst st')) = int (length (img (fst st')))
              then 0 else - EFAULT))"

definition sends_opt ::
    "('s \<Rightarrow> bytes) \<Rightarrow> i2c_client \<Rightarrow> 's \<times> i2c_log \<Rightarrow> (int \<times> 's \<times> i2c_log) option \<Rightarrow> bool" where
  "sends_opt img client st r \<longleftrightarrow> (case r of None \<Rightarrow> True | Some x \<Rightarrow> sends img client st x)"

text \<open>An operation does not change a view of the driver's state.\<close>

definition keeps :: "('s \<Rightarrow> 'a) \<Rightarrow> 's \<times> i2c_log \<Rightarrow> (int \<times> 's \<times> i2c_log) option \<Rightarrow> bool" where
  "keeps f st r \<longleftrightarrow> (case r of None \<Rightarrow> True | Some (rc, st') \<Rightarrow> f (fst st') = f (fst st))"

fun run_requests ::
    "('s \<times> i2c_log \<Rightarrow> 'r \<Rightarrow> (int \<times> int option \<times> 's \<times> i2c_log) option) \<Rightarrow>
     's \<times> i2c_log \<Rightarrow> 'r list \<Rightarrow> ((int \<times> int option) list \<times> 's \<times> i2c_log) option" where
  "run_requests request st [] = Some ([], st)"
| "run_requests request st (r # rs) =
     (case request st r of None \<Rightarrow> None
      | Some (rc, out, st') \<Rightarrow>
          (case run_requests request st' rs of None \<Rightarrow> None
           | Some (res, st'') \<Rightarrow> Some ((rc, out) # res, st'')))"

definition is_standby :: "avs_request \<Rightarrow> bool" where
  "is_standby r = (case r of User cmd _ \<Rightarrow> cmd = AVSIOSTANDBY | Kernel cmd _ \<Rightarrow> cmd = AVSIOSTANDBY)"

text \<open>Contracts of a chip driver as predicates, for properties of several chips.\<close>

definition volume_readback ::
    "(i2c_client \<Rightarrow> 's \<times> i2c_log \<Rightarrow> avs_request \<Rightarrow> (int \<times> int option \<times> 's \<times> i2c_log) option) \<Rightarrow> int \<Rightarrow> bool" where
  "volume_readback request grain \<longleftrightarrow> (\<forall>client st v a.
     if 0 \<le> v \<and> v \<le> 63
     then \<exists>rc st' w. request client st (Kernel AVSIOSVOL v) = Some (rc, None, st') \<and>
            request client st' (Kernel AVSIOGVOL a) = Some (0, Some w, st') \<and>
            w \<le> v \<and> v < w + grain \<and> grain dvd w
     else request client st (Kernel AVSIOSVOL v) = Some (- EINVAL, None, st))"

definition standby_restores ::
    "(i2c_client \<Rightarrow> 's \<times> i2c_log \<Rightarrow> avs_request \<Rightarrow> (int \<times> int option \<times> 's \<times> i2c_log) option) \<Rightarrow>
     (avs_request \<Rightarrow> bool) \<Rightarrow> ('s \<Rightarrow> bool) \<Rightarrow> ('s \<Rightarrow> 'r) \<Rightarrow> bool" where
  "standby_restores request ok awake regs \<longleftrightarrow> (\<forall>client st rs.
     awake (fst st) \<longrightarrow> list_all ok rs \<longrightarrow> list_all (\<lambda>r. \<not> is_standby r) rs \<longrightarrow>
     (\<exists>rc1 out1 st1 res st2 rc3 out3 st3.
        request client st (Kernel AVSIOSTANDBY 1) = Some (rc1, out1, st1) \<and>
        run_requests (request client) st1 rs = Some (res, st2) \<and>
        request client st2 (Kernel AVSIOSTANDBY 0) = Some (rc3, out3, st3) \<and>
        regs (fst st3) = regs (fst st)))"

fun unpack :: "nat list \<Rightarrow> nat \<Rightarrow> nat list" where
  "unpack [] n = []"
| "unpack (w # ws) n = n mod 2 ^ w # unpack ws (n div 2 ^ w)"

subsection \<open>Lemmas\<close>

lemmas avs_cmd_defs =
  AVSIOSET_def AVSIOGET_def AVSIOSVSW1_def AVSIOSVSW2_def AVSIOSVSW3_def AVSIOSASW1_def
  AVSIOSASW2_def AVSIOSASW3_def AVSIOSVOL_def AVSIOSMUTE_def AVSIOSFBLK_def AVSIOSFNC_def
  AVSIOSYCM_def AVSIOSZCD_def AVSIOSLOG1_def AVSIOSLOG2_def AVSIOSLOG3_def AVSIOSLOG4_def
  AVSIOGVSW1_def AVSIOGVSW2_def AVSIOGVSW3_def AVSIOGASW1_def AVSIOGASW2_def AVSIOGASW3_def
  AVSIOGVOL_def AVSIOGMUTE_def AVSIOGFBLK_def AVSIOGFNC_def AVSIOGYCM_def AVSIOGZCD_def
  AVSIOGLOG1_def AVSIOGLOG2_def AVSIOGLOG3_def AVSIOGLOG4_def AVSIOGSTATUS_def AVSIOGTYPE_def
  AVSIOSSCARTPIN8_def AVSIOGSCARTPIN8_def AVSIOSTANDBY_def SAAIOSENC_def SAAIOSMODE_def
  SAAIOSWSS_def SAAIOSSRCSEL_def

lemmas avs_arg_defs =
  AVS_MUTE_def AVS_UNMUTE_def SAA_MODE_RGB_def SAA_MODE_FBAS_def SAA_MODE_SVIDEO_def
  SAA_MODE_COMPONENT_def SAA_WSS_43F_def SAA_WSS_169F_def SAA_WSS_OFF_def SAA_SRC_ENC_def
  SAA_SRC_SCART_def

lemma set_get_bits: \<comment> \<open>a field written is read back, the other bits of the register stay\<close>
  assumes i: "i < length regs" and n: "s + n \<le> 8" and v: "unat v < 2 ^ n"
  shows "\<exists>regs'. set_bits regs i v s n = Some regs' \<and> length regs' = length regs \<and>
           get_bits regs' i s n = Some v \<and>
           (\<forall>j. j \<noteq> i \<longrightarrow> regs' ! j = regs ! j) \<and>
           (\<forall>k. k < s \<or> s + n \<le> k \<longrightarrow> bit (regs' ! i) k = bit (regs ! i) k)"
proof -
  have "take_bit n v = v" using v by (simp add: word_unat_eq_iff unsigned_take_bit_eq take_bit_nat_eq_self)
  then have v': "bit v k \<Longrightarrow> k < n" for k by (metis bit_take_bit_iff)
  let ?b = "ucast ((ucast (regs ! i) AND NOT (c_shl (mask n) s)) OR c_shl (ucast v) s) :: byte"
  have b: "bit ?b k \<longleftrightarrow> k < 8 \<and> (if s \<le> k \<and> k < s + n then bit v (k - s) else bit (regs ! i) k)" for k
    using n v' [of "k - s"] by (auto simp: bit_simps)
  have f: "ucast (drop_bit s (ucast B :: u32) AND mask n) = v"
    if B: "\<And>k. bit B k \<longleftrightarrow> k < 8 \<and> (if s \<le> k \<and> k < s + n then bit v (k - s) else bit (regs ! i) k)"
    for B :: byte
  proof (rule bit_word_eqI)
    fix k assume "k < LENGTH(8)"
    then show "bit (ucast (drop_bit s (ucast B :: u32) AND mask n) :: byte) k = bit v k"
      using B [of "s + k"] n v' [of k] by (auto simp: bit_simps)
  qed
  have "get_bits (regs[i := ?b]) i s n = Some (ucast (drop_bit s (ucast ?b :: u32) AND mask n))"
    using i n by (simp add: get_bits_def mask_eq_exp_minus_1 [symmetric])
  also have "\<dots> = Some v" using f [OF b] by simp
  finally have g: "get_bits (regs[i := ?b]) i s n = Some v" .
  have "set_bits regs i v s n = Some (regs[i := ?b])"
    using i n by (simp add: set_bits_def mask_eq_exp_minus_1 [symmetric])
  moreover have "bit (regs[i := ?b] ! i) k = bit (regs ! i) k" if k: "k < s \<or> s + n \<le> k" for k
    unfolding nth_list_update_eq [OF i] b using k bit_byte_high [of k "regs ! i"] by (cases "k < 8") auto
  ultimately show ?thesis using g by (intro exI [of _ "regs[i := ?b]"]) simp
qed

lemma pack_bound: "pack fs < 2 ^ sum_list (map fst fs)"
proof (induction fs)
  case (Cons f fs)
  obtain w v where f: "f = (w, v)" by force
  have "v mod 2 ^ w + 2 ^ w * pack fs < 2 ^ w + 2 ^ w * pack fs" by simp
  also have "\<dots> = 2 ^ w * (pack fs + 1)" by simp
  also have "\<dots> \<le> 2 ^ w * 2 ^ sum_list (map fst fs)" using Cons by (intro mult_le_mono2) simp
  finally show ?case by (simp add: f power_add)
qed simp

lemma unpack_pack:
  "list_all (\<lambda>(w, v). v < 2 ^ w) fs \<Longrightarrow> unpack (map fst fs) (pack fs) = map snd fs"
  by (induction fs rule: pack.induct) auto

lemma unat_pack_byte: "sum_list (map fst fs) \<le> 8 \<Longrightarrow> unat (pack_byte fs) = pack fs"
  using pack_bound [of fs] power_increasing [of "sum_list (map fst fs)" 8 "2 :: nat"]
  by (simp add: pack_byte_def unat_of_nat take_bit_nat_eq_self)

lemma pack_inj:
  "map fst fs = map fst gs \<Longrightarrow> list_all (\<lambda>(w, v). v < 2 ^ w) fs \<Longrightarrow> list_all (\<lambda>(w, v). v < 2 ^ w) gs \<Longrightarrow>
   pack fs = pack gs \<Longrightarrow> fs = gs"
  by (metis unpack_pack zip_map_fst_snd)

lemma pack_byte_inj:
  "map fst fs = map fst gs \<Longrightarrow> sum_list (map fst fs) \<le> 8 \<Longrightarrow>
   list_all (\<lambda>(w, v). v < 2 ^ w) fs \<Longrightarrow> list_all (\<lambda>(w, v). v < 2 ^ w) gs \<Longrightarrow>
   pack_byte fs = pack_byte gs \<longleftrightarrow> fs = gs"
  by (metis pack_inj unat_pack_byte)

lemma unat_field_less: "unat (w::1 word) < 2" "unat (w2::2 word) < 4" "unat (w3::3 word) < 8"
   "unat (w5::5 word) < 32" "unat (w6::6 word) < 64"
  using unsigned_less [of w, where 'a=nat] unsigned_less [of w2, where 'a=nat] unsigned_less [of w3, where 'a=nat]
    unsigned_less [of w5, where 'a=nat] unsigned_less [of w6, where 'a=nat] by simp_all

lemma one_bit: "(w::1 word) = 0 \<or> w = 1"
  using unat_field_less(1) [of w] by (auto simp: word_unat_eq_iff)

lemma run_requests_inv:
  assumes "run_requests request st rs = Some (res, st')" "J (fst st)"
    and "\<And>st r rc out st'. request st r = Some (rc, out, st') \<Longrightarrow> J (fst st) \<Longrightarrow> J (fst st')"
  shows "J (fst st')"
  using assms(1,2)
proof (induction rs arbitrary: st res)
  case (Cons r rs)
  obtain rc out st1 res1 where r: "request st r = Some (rc, out, st1)"
      "run_requests request st1 rs = Some (res1, st')"
    using Cons.prems(1) by (auto split: option.splits)
  show ?case by (rule Cons.IH [OF r(2) assms(3) [OF r(1) Cons.prems(2)]])
qed simp

lemma sends_refl [simp]: "sends img client st (rc, st)"
  by (simp add: sends_def)

lemma sends_opt_simps [simp]:
  "sends_opt img client st None" "sends_opt img client st (Some x) \<longleftrightarrow> sends img client st x"
  by (simp_all add: sends_opt_def)

lemma keeps_simps [simp]: "keeps f st None" "keeps f st (Some (rc, st))"
  by (simp_all add: keeps_def)

lemma keepsD: "r = Some (rc, st') \<Longrightarrow> keeps f st r \<Longrightarrow> f (fst st') = f (fst st)"
  by (simp add: keeps_def)

lemma i2c_ok_good_client [simp]: "i2c_ok good_client"
  by (simp add: i2c_ok_def good_client_def)

lemma sends_ok: "sends img client st (rc, st') \<Longrightarrow> i2c_ok client \<Longrightarrow> st' = st \<or> rc = 0"
  by (auto simp: sends_def i2c_ok_def)

subsection \<open>Contracts\<close>

text \<open>A driver that keeps a copy of the chip's registers and sends it after each change.\<close>

locale register_chip =
  fixes request :: "i2c_client \<Rightarrow> 's \<times> i2c_log \<Rightarrow> avs_request \<Rightarrow> (int \<times> int option \<times> 's \<times> i2c_log) option"
    and img :: "'s \<Rightarrow> bytes"
    and defined :: "avs_request \<Rightarrow> bool"
  assumes request_defined: "defined r \<Longrightarrow> request client st r \<noteq> None"
    and request_sends: "request client st r = Some (rc, out, st') \<Longrightarrow> sends img client st (rc, st')"
begin

lemma run_defined: "list_all defined rs \<Longrightarrow> run_requests (request client) st rs \<noteq> None"
proof (induction rs arbitrary: st)
  case (Cons r rs)
  then obtain rc out st' where "request client st r = Some (rc, out, st')"
    using request_defined [of r client st] by auto
  with Cons show ?case by (auto split: option.split)
qed simp

text \<open>What the bus saw last is always the image of the registers.\<close>

lemma run_coherent:
  assumes "run_requests (request client) st rs = Some (res, st')"
    and "snd st \<noteq> []" "last (snd st) = img (fst st)"
  shows "snd st' \<noteq> [] \<and> last (snd st') = img (fst st') \<and> (\<exists>msgs. snd st' = snd st @ msgs \<and> length msgs \<le> length rs)"
  using assms
proof (induction rs arbitrary: st res)
  case (Cons r rs)
  obtain rc out st1 where r: "request client st r = Some (rc, out, st1)"
    using Cons.prems(1) by (auto split: option.splits)
  obtain res1 where run: "run_requests (request client) st1 rs = Some (res1, st')"
    using Cons.prems(1) r by (auto split: option.splits)
  obtain m where m: "snd st1 = snd st @ m" "length m \<le> 1" "snd st1 \<noteq> []" "last (snd st1) = img (fst st1)"
    using request_sends [OF r] Cons.prems(2,3) by (auto simp: sends_def)
  obtain msgs where ms: "snd st' \<noteq> []" "last (snd st') = img (fst st')"
      "snd st' = snd st1 @ msgs" "length msgs \<le> length rs"
    using Cons.IH [OF run m(3,4)] by blast
  have "snd st' = snd st @ (m @ msgs)" "length (m @ msgs) \<le> length (r # rs)"
    using m(1,2) ms(3,4) by simp_all
  then show ?case using ms(1,2) by blast
qed simp

lemma run_codes:
  assumes "run_requests (request client) st rs = Some (res, st')" "i2c_ok client"
    and "\<forall>x \<in> set res. fst x \<noteq> 0"
  shows "st' = st"
  using assms
proof (induction rs arbitrary: st res)
  case (Cons r rs)
  obtain rc out st1 where r: "request client st r = Some (rc, out, st1)"
    using Cons.prems(1) by (auto split: option.splits)
  obtain res1 where run: "run_requests (request client) st1 rs = Some (res1, st')"
      and res: "res = (rc, out) # res1"
    using Cons.prems(1) r by (auto split: option.splits)
  have "st1 = st" using sends_ok [OF request_sends [OF r] Cons.prems(2)] Cons.prems(3) res by auto
  then show ?case using Cons.IH [OF run Cons.prems(2)] Cons.prems(3) res by auto
qed simp

end

text \<open>A driver that saves its registers on the way into standby and restores them on the way out.\<close>

locale standby_chip = register_chip +
  fixes regs :: "'s \<Rightarrow> 'r" and saved :: "'s \<Rightarrow> 'r" and asleep :: "'s \<Rightarrow> bool" and wf :: "'s \<Rightarrow> bool"
  assumes standby_on: "request client st (Kernel AVSIOSTANDBY 1) = Some (rc, out, st') \<Longrightarrow> wf (fst st) \<Longrightarrow>
      (if asleep (fst st) then rc = - EINVAL \<and> st' = st
       else asleep (fst st') \<and> saved (fst st') = regs (fst st))"
    and standby_off: "request client st (Kernel AVSIOSTANDBY 0) = Some (rc, out, st') \<Longrightarrow> wf (fst st) \<Longrightarrow>
      (if asleep (fst st) then regs (fst st') = saved (fst st) else rc = - EINVAL \<and> st' = st)"
    and standby_other: "request client st r = Some (rc, out, st') \<Longrightarrow> \<not> is_standby r \<Longrightarrow>
      asleep (fst st') = asleep (fst st) \<and> saved (fst st') = saved (fst st)"
    and standby_wf: "request client st r = Some (rc, out, st') \<Longrightarrow> wf (fst st) \<Longrightarrow> wf (fst st')"
begin

lemma run_other:
  "run_requests (request client) st rs = Some (res, st') \<Longrightarrow> list_all (\<lambda>r. \<not> is_standby r) rs \<Longrightarrow>
   asleep (fst st') = asleep (fst st) \<and> saved (fst st') = saved (fst st)"
proof (induction rs arbitrary: st res)
  case (Cons r rs)
  obtain rc out st1 where r: "request client st r = Some (rc, out, st1)"
    using Cons.prems(1) by (auto split: option.splits)
  obtain res1 where run: "run_requests (request client) st1 rs = Some (res1, st')"
    using Cons.prems(1) r by (auto split: option.splits)
  show ?case using Cons.IH [OF run] standby_other [OF r] Cons.prems(2) by simp
qed simp

text \<open>Whatever is requested in between, waking up brings back the registers of before.\<close>

lemma standby_cycle:
  assumes d: "defined (Kernel AVSIOSTANDBY 1)" "defined (Kernel AVSIOSTANDBY 0)" "list_all defined rs"
    and rs: "list_all (\<lambda>r. \<not> is_standby r) rs" and s: "\<not> asleep (fst st)" "wf (fst st)"
  shows "\<exists>rc1 out1 st1 res st2 rc3 out3 st3.
      request client st (Kernel AVSIOSTANDBY 1) = Some (rc1, out1, st1) \<and>
      run_requests (request client) st1 rs = Some (res, st2) \<and>
      request client st2 (Kernel AVSIOSTANDBY 0) = Some (rc3, out3, st3) \<and>
      regs (fst st3) = regs (fst st)"
proof -
  obtain rc1 out1 st1 where 1: "request client st (Kernel AVSIOSTANDBY 1) = Some (rc1, out1, st1)"
    using request_defined [OF d(1), of client st] by auto
  obtain res st2 where 2: "run_requests (request client) st1 rs = Some (res, st2)"
    using run_defined [OF d(3), of client st1] by auto
  obtain rc3 out3 st3 where 3: "request client st2 (Kernel AVSIOSTANDBY 0) = Some (rc3, out3, st3)"
    using request_defined [OF d(2), of client st2] by auto
  have "wf (fst st2)" using run_requests_inv [OF 2, of wf] standby_wf standby_wf [OF 1] s(2) by blast
  then have "regs (fst st3) = regs (fst st)"
    using standby_on [OF 1] run_other [OF 2 rs] standby_off [OF 3] s by simp
  then show ?thesis using 1 2 3 by blast
qed

lemma restores:
  assumes "defined (Kernel AVSIOSTANDBY 1)" "defined (Kernel AVSIOSTANDBY 0)"
  shows "standby_restores request defined (\<lambda>s. \<not> asleep s \<and> wf s) regs"
  unfolding standby_restores_def by (intro allI impI standby_cycle) (use assms in auto)

end

text \<open>A driver with a volume register of the given grain, read back through the kernel interface.\<close>

locale volume_chip = register_chip +
  fixes grain :: int and usable :: bool
  assumes grain: "0 < grain"
    and volume_set: "usable \<Longrightarrow> 0 \<le> v \<Longrightarrow> v \<le> 63 \<Longrightarrow>
      request client st (Kernel AVSIOSVOL v) = Some (rc, out, st') \<Longrightarrow>
      out = None \<and> request client st' (Kernel AVSIOGVOL a) = Some (0, Some (v div grain * grain), st')"
    and volume_range: "usable \<Longrightarrow> v < 0 \<or> 63 < v \<Longrightarrow>
      request client st (Kernel AVSIOSVOL v) = Some (- EINVAL, None, st)"
    and volume_defined: "usable \<Longrightarrow> defined (Kernel AVSIOSVOL v)"
begin

lemma volume_cycle:
  assumes u: "usable"
  shows "if 0 \<le> v \<and> v \<le> 63
         then \<exists>rc st' w. request client st (Kernel AVSIOSVOL v) = Some (rc, None, st') \<and>
                request client st' (Kernel AVSIOGVOL a) = Some (0, Some w, st') \<and>
                w \<le> v \<and> v < w + grain \<and> grain dvd w
         else request client st (Kernel AVSIOSVOL v) = Some (- EINVAL, None, st)"
proof (cases "0 \<le> v \<and> v \<le> 63")
  case True
  obtain rc out st' where r: "request client st (Kernel AVSIOSVOL v) = Some (rc, out, st')"
    using request_defined [OF volume_defined [OF u]] by (metis not_None_eq prod_cases3)
  have "v div grain * grain \<le> v" "v < v div grain * grain + grain"
    using grain pos_mod_bound [of grain v] div_mult_mod_eq [of v grain] pos_mod_sign [of grain v]
    by linarith+
  then show ?thesis using True r volume_set [OF u _ _ r, of a] by auto
next
  case False
  then show ?thesis using volume_range [OF u, of v client st] by auto
qed

lemma readback: "usable \<Longrightarrow> volume_readback request grain"
  unfolding volume_readback_def by (intro allI) (rule volume_cycle)

end

end
