(* ===== verification/Avs_Ak4705.thy ===== *)
theory Avs_Ak4705
  imports Avs_Base
begin

text \<open>
  \<open>ak4705.c\<close>, the AK4705 switch of the Kathrein UFS-910: register copy, setters and getters, the
  ioctl and the kernel command interface and initialisation. The static variables \<open>ak4705_data\<close>,
  \<open>tmpak4705_data\<close> and \<open>s_old_src\<close> are the record \<open>ak4705_state\<close>; an operation takes and returns
  it with the log of the bus. Debug output is left out.
\<close>

subsection \<open>Registers\<close>

record s_ak4705_data =
  R00STBY :: "1 word"
  R00MUTE :: "1 word"
  R00DAPD :: "1 word"
  R00AUTO :: "1 word"
  R00DIF10 :: "2 word"
  R00DEM10 :: "2 word"
  R01TV10 :: "2 word"
  R01VOL :: "1 word"
  R01MONO :: "1 word"
  R01VCR10 :: "2 word"
  R01FIXED1 :: "1 word"
  R01VMUTE :: "1 word"
  R02L50 :: "6 word"
  R02FIXED1 :: "2 word"
  R03MDT10 :: "2 word"
  R03MOD :: "1 word"
  R03DVOL10 :: "2 word"
  R03FIXED1 :: "1 word"
  R03VMONO :: "1 word"
  R03FIXED2 :: "1 word"
  R04VTV20 :: "3 word"
  R04VVCR20 :: "3 word"
  R04VRF10 :: "2 word"
  R05TVV :: "1 word"
  R05TVR :: "1 word"
  R05TVG :: "1 word"
  R05TVB :: "1 word"
  R05VCRV :: "1 word"
  R05VCRC :: "1 word"
  R05VCRB :: "1 word"
  R05CIO :: "1 word"
  R06VVOL10 :: "2 word"
  R06CLAMP20 :: "3 word"
  R06VCLP10 :: "2 word"
  R06CLAMPB :: "1 word"
  R07FB10 :: "2 word"
  R07SBT10 :: "2 word"
  R07SBV10 :: "2 word"
  R07SBIO10 :: "2 word"
  R08SVCR10 :: "2 word"
  R08FVCR :: "1 word"
  R08VCMON :: "1 word"
  R08TVMON :: "1 word"
  R08FIXED1 :: "3 word"
  R09FIXED1 :: "1 word"
  R09MSVCR :: "1 word"
  R09MFVCR :: "1 word"
  R09MVC :: "1 word"
  R09MTV :: "1 word"
  R09FIXED2 :: "2 word"
  R09MCOMN :: "1 word"

text \<open>The structure in memory, and zeroed memory.\<close>

definition ak4705_bytes :: "s_ak4705_data \<Rightarrow> bytes" where
  "ak4705_bytes d = map pack_byte
    [[(1, unat (R00STBY d)), (1, unat (R00MUTE d)), (1, unat (R00DAPD d)),
       (1, unat (R00AUTO d)), (2, unat (R00DIF10 d)), (2, unat (R00DEM10 d))],
     [(2, unat (R01TV10 d)), (1, unat (R01VOL d)), (1, unat (R01MONO d)),
       (2, unat (R01VCR10 d)), (1, unat (R01FIXED1 d)), (1, unat (R01VMUTE d))],
     [(6, unat (R02L50 d)), (2, unat (R02FIXED1 d))],
     [(2, unat (R03MDT10 d)), (1, unat (R03MOD d)), (2, unat (R03DVOL10 d)),
       (1, unat (R03FIXED1 d)), (1, unat (R03VMONO d)), (1, unat (R03FIXED2 d))],
     [(3, unat (R04VTV20 d)), (3, unat (R04VVCR20 d)), (2, unat (R04VRF10 d))],
     [(1, unat (R05TVV d)), (1, unat (R05TVR d)), (1, unat (R05TVG d)),
       (1, unat (R05TVB d)), (1, unat (R05VCRV d)), (1, unat (R05VCRC d)),
       (1, unat (R05VCRB d)), (1, unat (R05CIO d))],
     [(2, unat (R06VVOL10 d)), (3, unat (R06CLAMP20 d)), (2, unat (R06VCLP10 d)),
       (1, unat (R06CLAMPB d))],
     [(2, unat (R07FB10 d)), (2, unat (R07SBT10 d)), (2, unat (R07SBV10 d)),
       (2, unat (R07SBIO10 d))],
     [(2, unat (R08SVCR10 d)), (1, unat (R08FVCR d)), (1, unat (R08VCMON d)),
       (1, unat (R08TVMON d)), (3, unat (R08FIXED1 d))],
     [(1, unat (R09FIXED1 d)), (1, unat (R09MSVCR d)), (1, unat (R09MFVCR d)),
       (1, unat (R09MVC d)), (1, unat (R09MTV d)), (2, unat (R09FIXED2 d)),
       (1, unat (R09MCOMN d))]]"

definition ak4705_zero :: s_ak4705_data where
  "ak4705_zero = \<lparr>
    R00STBY = 0, R00MUTE = 0, R00DAPD = 0, R00AUTO = 0, R00DIF10 = 0, R00DEM10 = 0,
    R01TV10 = 0, R01VOL = 0, R01MONO = 0, R01VCR10 = 0, R01FIXED1 = 0, R01VMUTE = 0,
    R02L50 = 0, R02FIXED1 = 0, R03MDT10 = 0, R03MOD = 0, R03DVOL10 = 0, R03FIXED1 = 0,
    R03VMONO = 0, R03FIXED2 = 0, R04VTV20 = 0, R04VVCR20 = 0, R04VRF10 = 0, R05TVV = 0,
    R05TVR = 0, R05TVG = 0, R05TVB = 0, R05VCRV = 0, R05VCRC = 0, R05VCRB = 0, R05CIO = 0,
    R06VVOL10 = 0, R06CLAMP20 = 0, R06VCLP10 = 0, R06CLAMPB = 0, R07FB10 = 0, R07SBT10 = 0,
    R07SBV10 = 0, R07SBIO10 = 0, R08SVCR10 = 0, R08FVCR = 0, R08VCMON = 0, R08TVMON = 0,
    R08FIXED1 = 0, R09FIXED1 = 0, R09MSVCR = 0, R09MFVCR = 0, R09MVC = 0, R09MTV = 0,
    R09FIXED2 = 0, R09MCOMN = 0\<rparr>"

definition ak4705_DATA_SIZE :: nat where "ak4705_DATA_SIZE = 10"

record ak4705_state =
  ak4705_data :: s_ak4705_data
  tmpak4705_data :: s_ak4705_data
  ak_s_old_src :: int

type_synonym ak4705_env = "ak4705_state \<times> i2c_log"

text \<open>The driver before \<open>ak4705_init\<close>: static storage is zero.\<close>

definition ak4705_static :: ak4705_state where
  "ak4705_static = \<lparr>ak4705_data = ak4705_zero, tmpak4705_data = ak4705_zero, ak_s_old_src = 0\<rparr>"

subsection \<open>Operations\<close>

definition ak4705_set :: "i2c_client \<Rightarrow> ak4705_env \<Rightarrow> int \<times> ak4705_env" where
  "ak4705_set client st =
     (let buffer = 0 # ak4705_bytes (ak4705_data (fst st));
          (n, l) = i2c_master_send client (take ak4705_DATA_SIZE buffer) (snd st)
      in (if int ak4705_DATA_SIZE \<noteq> n then - EFAULT else 0, fst st, l))"

definition ak4705_standby :: "i2c_client \<Rightarrow> int \<Rightarrow> ak4705_env \<Rightarrow> int \<times> ak4705_env" where
  "ak4705_standby client type st =
     (let s = fst st; d = ak4705_data s
      in if type < 0 \<or> type > 1 then (- EINVAL, st)
         else if type = 1 then
           (if R00STBY d = 0
            then ak4705_set client
                   (s\<lparr>tmpak4705_data := d, ak4705_data := d\<lparr>R00STBY := 1\<rparr>\<rparr>, snd st)
            else (- EINVAL, st))
         else
           (if R00STBY d = 1
            then ak4705_set client (s\<lparr>ak4705_data := tmpak4705_data s\<rparr>, snd st)
            else (- EINVAL, st)))"

definition ak4705_set_volume :: "i2c_client \<Rightarrow> int \<Rightarrow> ak4705_env \<Rightarrow> int \<times> ak4705_env" where
  "ak4705_set_volume client vol st =
     (let s = fst st; c = vol
      in if c > 63 \<or> c < 0 then (- EINVAL, st)
         else ak4705_set client (s\<lparr>ak4705_data := ak4705_data s\<lparr>R02L50 := of_int c\<rparr>\<rparr>, snd st))"

definition ak4705_set_mute :: "i2c_client \<Rightarrow> int \<Rightarrow> ak4705_env \<Rightarrow> int \<times> ak4705_env" where
  "ak4705_set_mute client type st =
     (let s = fst st
      in if type < 0 \<or> type > 1 then (- EINVAL, st)
         else ak4705_set client
           (s\<lparr>ak4705_data := ak4705_data s\<lparr>R01VMUTE := (if type = AVS_MUTE then 1 else 0)\<rparr>\<rparr>, snd st))"

definition ak4705_get_volume :: "ak4705_state \<Rightarrow> int" where
  "ak4705_get_volume s = uint (R02L50 (ak4705_data s))"

definition ak4705_get_mute :: "ak4705_state \<Rightarrow> int" where
  "ak4705_get_mute s = uint (R00MUTE (ak4705_data s))"

text \<open>The common part of the three modes: the source goes to the register, or to \<open>s_old_src\<close>
  while the scart input is selected; the fast blanking level is set in any case.\<close>

definition ak4705_mode_regs :: "int \<Rightarrow> 2 word \<Rightarrow> ak4705_state \<Rightarrow> ak4705_state" where
  "ak4705_mode_regs src fb s =
     (let s1 = (if R04VTV20 (ak4705_data s) = 4 then s\<lparr>ak_s_old_src := src\<rparr>
                else s\<lparr>ak4705_data := ak4705_data s\<lparr>R04VTV20 := of_int src\<rparr>\<rparr>)
      in s1\<lparr>ak4705_data := ak4705_data s1\<lparr>R07FB10 := fb\<rparr>\<rparr>)"

definition ak4705_set_mode :: "i2c_client \<Rightarrow> int \<Rightarrow> ak4705_env \<Rightarrow> int \<times> ak4705_env" where
  "ak4705_set_mode client vol st =
     (if vol = SAA_MODE_RGB then ak4705_set client (ak4705_mode_regs 1 1 (fst st), snd st)
      else if vol = SAA_MODE_FBAS then ak4705_set client (ak4705_mode_regs 1 0 (fst st), snd st)
      else if vol = SAA_MODE_SVIDEO then ak4705_set client (ak4705_mode_regs 3 0 (fst st), snd st)
      else (- EINVAL, st))"

definition ak4705_set_encoder :: "i2c_client \<Rightarrow> int \<Rightarrow> ak4705_env \<Rightarrow> int \<times> ak4705_env" where
  "ak4705_set_encoder client vol st = (0, st)"

definition ak4705_set_wss :: "i2c_client \<Rightarrow> int \<Rightarrow> ak4705_env \<Rightarrow> int \<times> ak4705_env" where
  "ak4705_set_wss client vol st =
     (let s = fst st; put = (\<lambda>v. s\<lparr>ak4705_data := ak4705_data s\<lparr>R07SBT10 := v\<rparr>\<rparr>)
      in if vol = SAA_WSS_43F then ak4705_set client (put 3, snd st)
         else if vol = SAA_WSS_169F then ak4705_set client (put 1, snd st)
         else if vol = SAA_WSS_OFF then ak4705_set client (put 0, snd st)
         else (- EINVAL, st))"

definition ak4705_route :: "3 word \<Rightarrow> 3 word \<Rightarrow> 2 word \<Rightarrow> 2 word \<Rightarrow> s_ak4705_data \<Rightarrow> s_ak4705_data" where
  "ak4705_route vtv vvcr tv vcr d =
     d\<lparr>R04VTV20 := vtv, R04VVCR20 := vvcr, R01TV10 := tv, R01VCR10 := vcr\<rparr>"

definition ak4705_src_sel :: "i2c_client \<Rightarrow> int \<Rightarrow> ak4705_env \<Rightarrow> int \<times> ak4705_env" where
  "ak4705_src_sel client src st =
     (let s = fst st; d = ak4705_data s
      in if src = SAA_SRC_ENC then
           ak4705_set client
             (s\<lparr>ak4705_data := ak4705_route (of_int (ak_s_old_src s)) (of_int (ak_s_old_src s)) 0 0 d\<rparr>,
              snd st)
         else if src = SAA_SRC_SCART then
           ak4705_set client
             (s\<lparr>ak_s_old_src := uint (R04VTV20 d), ak4705_data := ak4705_route 4 0 1 2 d\<rparr>, snd st)
         else (- EINVAL, st))"

text \<open>The SAA commands, which both interfaces treat alike.\<close>

definition ak4705_saa :: "i2c_client \<Rightarrow> u32 \<Rightarrow> int \<Rightarrow> ak4705_env \<Rightarrow> int \<times> ak4705_env" where
  "ak4705_saa client cmd val st =
     (if cmd = SAAIOSMODE then ak4705_set_mode client val st
      else if cmd = SAAIOSENC then ak4705_set_encoder client val st
      else if cmd = SAAIOSWSS then ak4705_set_wss client val st
      else if cmd = SAAIOSSRCSEL then ak4705_src_sel client val st
      else (- EINVAL, st))"

text \<open>The AVSIOSET commands, which both interfaces treat alike.\<close>

definition ak4705_avsioset :: "i2c_client \<Rightarrow> u32 \<Rightarrow> int \<Rightarrow> ak4705_env \<Rightarrow> int \<times> ak4705_env" where
  "ak4705_avsioset client cmd val st =
     (if cmd = AVSIOSVOL then ak4705_set_volume client val st
      else if cmd = AVSIOSMUTE then ak4705_set_mute client val st
      else if cmd = AVSIOSTANDBY then ak4705_standby client val st
      else (- EINVAL, st))"

text \<open>In the ioctl, \<open>AVSIOGVOL\<close> has no \<open>break\<close> and runs on into \<open>AVSIOGMUTE\<close>.\<close>

definition ak4705_command ::
    "i2c_client \<Rightarrow> u32 \<Rightarrow> int option \<Rightarrow> ak4705_env \<Rightarrow> int \<times> int option \<times> ak4705_env" where
  "ak4705_command client cmd arg st =
     (if cmd AND AVSIOSET \<noteq> 0 then
        (case arg of None \<Rightarrow> (- EFAULT, None, st)
         | Some val \<Rightarrow> no_out (ak4705_avsioset client cmd val st))
      else if cmd AND AVSIOGET \<noteq> 0 then
        (if cmd = AVSIOGVOL \<or> cmd = AVSIOGMUTE then
           (let val = (if cmd = AVSIOGVOL then ak4705_get_volume (fst st) else 0);
                val = ak4705_get_mute (fst st);
                (rc, out) = put_user val arg
            in (rc, out, st))
         else (- EINVAL, None, st))
      else
        (case arg of None \<Rightarrow> (- EFAULT, None, st)
         | Some val \<Rightarrow> no_out (ak4705_saa client cmd val st)))"

definition ak4705_command_kernel ::
    "i2c_client \<Rightarrow> u32 \<Rightarrow> int \<Rightarrow> ak4705_env \<Rightarrow> int \<times> int option \<times> ak4705_env" where
  "ak4705_command_kernel client cmd arg st =
     (if cmd AND AVSIOSET \<noteq> 0 then no_out (ak4705_avsioset client cmd arg st)
      else if cmd AND AVSIOGET \<noteq> 0 then
        (if cmd = AVSIOGVOL then (0, Some (ak4705_get_volume (fst st)), st)
         else if cmd = AVSIOGMUTE then (0, Some (ak4705_get_mute (fst st)), st)
         else (- EINVAL, None, st))
      else no_out (ak4705_saa client cmd arg st))"

definition ak4705_init :: "i2c_client \<Rightarrow> ak4705_env \<Rightarrow> int \<times> ak4705_env" where
  "ak4705_init client st =
     ak4705_set client ((fst st)\<lparr>ak_s_old_src := 1, ak4705_data := ak4705_zero\<lparr>
      R00DEM10 := 1, R00DIF10 := 3, R00AUTO := 0, R00DAPD := 0, R00MUTE := 0, R00STBY := 0,
      R01VMUTE := 0, R01FIXED1 := 1, R01VCR10 := 0, R01MONO := 0, R01VOL := 0, R01TV10 := 0,
      R02FIXED1 := 0, R02L50 := 31, R03FIXED2 := 0, R03VMONO := 0, R03FIXED1 := 0,
      R03DVOL10 := 0, R03MOD := 1, R03MDT10 := 0, R04VRF10 := 0, R04VVCR20 := 1, R04VTV20 := 1,
      R05CIO := 1, R05VCRB := 1, R05VCRC := 1, R05VCRV := 1, R05TVB := 1, R05TVG := 1,
      R05TVR := 1, R05TVV := 1, R06CLAMPB := 0, R06VCLP10 := 0, R06CLAMP20 := 0,
      R06VVOL10 := 0, R07SBIO10 := 2, R07SBV10 := 0, R07SBT10 := 3, R07FB10 := 0\<rparr>\<rparr>, snd st)"

subsection \<open>Specification vocabulary\<close>

definition ak4705_image :: "ak4705_state \<Rightarrow> bytes" where
  "ak4705_image s = take ak4705_DATA_SIZE (0 # ak4705_bytes (ak4705_data s))"

definition ak4705_request ::
    "i2c_client \<Rightarrow> ak4705_env \<Rightarrow> avs_request \<Rightarrow> (int \<times> int option \<times> ak4705_env) option" where
  "ak4705_request client st r = Some (case r of
       User cmd arg \<Rightarrow> ak4705_command client cmd arg st
     | Kernel cmd arg \<Rightarrow> ak4705_command_kernel client cmd arg st)"

definition ak4705_keeps :: "ak4705_env \<Rightarrow> int \<times> ak4705_env \<Rightarrow> bool" where
  "ak4705_keeps st r \<longleftrightarrow>
     R00STBY (ak4705_data (fst (snd r))) = R00STBY (ak4705_data (fst st)) \<and>
     tmpak4705_data (fst (snd r)) = tmpak4705_data (fst st)"

definition ak4705_inv :: "ak4705_state \<Rightarrow> bool" where
  "ak4705_inv s \<longleftrightarrow>
     ak4705_bytes (ak4705_data s) ! 9 = 0 \<and> R00MUTE (ak4705_data s) = 0 \<and>
     (R00STBY (ak4705_data s) = 1 \<longrightarrow>
        ak4705_bytes (tmpak4705_data s) ! 9 = 0 \<and> R00MUTE (tmpak4705_data s) = 0)"

subsection \<open>Lemmas\<close>

lemma ak4705_bytes_inj: "ak4705_bytes d = ak4705_bytes d' \<longleftrightarrow> d = d'"
  by (simp add: ak4705_bytes_def pack_byte_inj unat_field_less word_unat_eq_iff [symmetric]
      s_ak4705_data.equality) (auto intro: s_ak4705_data.equality)
  
lemma length_ak4705_image [simp]: "length (ak4705_image s) = 10"
  by (simp add: ak4705_image_def ak4705_bytes_def ak4705_DATA_SIZE_def)

lemma ak4705_set_eq:
  "ak4705_set client (s, l) =
     (if i2c_send client l (ak4705_image s) = 10 then 0 else - EFAULT, s, l @ [ak4705_image s])"
  by (simp add: ak4705_set_def ak4705_image_def i2c_master_send_def ak4705_DATA_SIZE_def)

lemmas ak4705_op_defs = ak4705_standby_def ak4705_set_volume_def ak4705_set_mute_def
  ak4705_set_mode_def ak4705_set_encoder_def ak4705_set_wss_def ak4705_src_sel_def

lemmas ak4705_dispatch_defs = ak4705_request_def ak4705_command_def ak4705_command_kernel_def
  ak4705_avsioset_def ak4705_saa_def no_out_def

lemma ak4705_set_sends [simp]:
  "sends ak4705_image client st (ak4705_set client (s', snd st))"
  by (simp add: sends_def ak4705_set_eq)

lemma ak4705_ops_send [avs_simps]:
  "sends ak4705_image client st (ak4705_standby client val st)"
  "sends ak4705_image client st (ak4705_set_volume client val st)"
  "sends ak4705_image client st (ak4705_set_mute client val st)"
  "sends ak4705_image client st (ak4705_set_mode client val st)"
  "sends ak4705_image client st (ak4705_set_encoder client val st)"
  "sends ak4705_image client st (ak4705_set_wss client val st)"
  "sends ak4705_image client st (ak4705_src_sel client val st)"
  by (simp_all add: ak4705_op_defs Let_def)

lemma ak4705_dispatch_sends [avs_simps]:
  "sends ak4705_image client st (ak4705_avsioset client cmd val st)"
  "sends ak4705_image client st (ak4705_saa client cmd val st)"
  by (simp_all add: ak4705_avsioset_def ak4705_saa_def avs_simps)

lemma ak4705_request_sends:
  "ak4705_request client st r = Some (rc, out, st') \<Longrightarrow> sends ak4705_image client st (rc, st')"
  using ak4705_dispatch_sends [of client st]
  by (auto simp: ak4705_request_def Let_def ak4705_command_def ak4705_command_kernel_def no_out_def put_user_def
      split: avs_request.splits if_splits option.splits)

interpretation ak4705: register_chip ak4705_request ak4705_image "\<lambda>r. True"
  by unfold_locales (simp add: ak4705_request_def, rule ak4705_request_sends)


lemma ak4705_keeps_simps [simp]:
  "ak4705_keeps st (rc, st)"
  "ak4705_keeps st (ak4705_set client (s', snd st)) \<longleftrightarrow>
     R00STBY (ak4705_data s') = R00STBY (ak4705_data (fst st)) \<and> tmpak4705_data s' = tmpak4705_data (fst st)"
  by (simp_all add: ak4705_keeps_def ak4705_set_eq)

lemma ak4705_ops_keep [avs_simps]:
  "ak4705_keeps st (ak4705_set_volume client val st)"
  "ak4705_keeps st (ak4705_set_mute client val st)"
  "ak4705_keeps st (ak4705_set_mode client val st)"
  "ak4705_keeps st (ak4705_set_encoder client val st)"
  "ak4705_keeps st (ak4705_set_wss client val st)"
  "ak4705_keeps st (ak4705_src_sel client val st)"
  by (simp_all add: ak4705_op_defs ak4705_mode_regs_def ak4705_route_def Let_def)

lemma ak4705_dispatch_keeps:
  "cmd \<noteq> AVSIOSTANDBY \<Longrightarrow> ak4705_keeps st (ak4705_avsioset client cmd val st)"
  "ak4705_keeps st (ak4705_saa client cmd val st)"
  by (simp_all add: ak4705_avsioset_def ak4705_saa_def avs_simps)

lemma ak4705_request_keeps:
  "ak4705_request client st r = Some (rc, out, st') \<Longrightarrow> \<not> is_standby r \<Longrightarrow> ak4705_keeps st (rc, st')"
  using ak4705_dispatch_keeps(1) [of _ st client] ak4705_dispatch_keeps(2) [of st client]
  by (auto simp: ak4705_request_def ak4705_command_def ak4705_command_kernel_def no_out_def put_user_def
      is_standby_def Let_def split: avs_request.splits if_splits option.splits)

interpretation ak4705: standby_chip ak4705_request ak4705_image "\<lambda>r. True"
  ak4705_data tmpak4705_data "\<lambda>s. R00STBY (ak4705_data s) = 1" "\<lambda>s. True"
proof
  fix client st rc out st'
  assume "ak4705_request client st (Kernel AVSIOSTANDBY 1) = Some (rc, out, st')"
  then show "if R00STBY (ak4705_data (fst st)) = 1 then rc = - EINVAL \<and> st' = st
             else R00STBY (ak4705_data (fst st')) = 1 \<and> tmpak4705_data (fst st') = ak4705_data (fst st)"
    using one_bit [of "R00STBY (ak4705_data (fst st))"]
    by (auto simp: ak4705_dispatch_defs ak4705_standby_def ak4705_set_eq Let_def avs_cmd_defs)
next
  fix client st rc out st'
  assume "ak4705_request client st (Kernel AVSIOSTANDBY 0) = Some (rc, out, st')"
  then show "if R00STBY (ak4705_data (fst st)) = 1 then ak4705_data (fst st') = tmpak4705_data (fst st)
             else rc = - EINVAL \<and> st' = st"
    by (auto simp: ak4705_dispatch_defs ak4705_standby_def ak4705_set_eq Let_def avs_cmd_defs)
next
  fix client st r rc out st'
  assume "ak4705_request client st r = Some (rc, out, st')" "\<not> is_standby r"
  then show "(R00STBY (ak4705_data (fst st')) = 1) = (R00STBY (ak4705_data (fst st)) = 1) \<and>
             tmpak4705_data (fst st') = tmpak4705_data (fst st)"
    using ak4705_request_keeps by (fastforce simp: ak4705_keeps_def)
qed simp

interpretation ak4705: volume_chip ak4705_request ak4705_image "\<lambda>r. True" "1" True
proof
  fix v client st rc out st' a
  assume "0 \<le> v" "v \<le> 63" "ak4705_request client st (Kernel AVSIOSVOL v) = Some (rc, out, st')"
  then show "out = None \<and> ak4705_request client st' (Kernel AVSIOGVOL a) = Some (0, Some (v div 1 * 1), st')"
    by (auto simp: ak4705_dispatch_defs ak4705_set_volume_def ak4705_get_volume_def ak4705_set_eq
       avs_cmd_defs Let_def unsigned_of_int take_bit_int_eq_self)
qed (auto simp: ak4705_dispatch_defs ak4705_set_volume_def avs_cmd_defs Let_def)

lemma ak4705_ops_inv [avs_simps]:
  assumes "ak4705_inv (fst st)"
  shows
    "ak4705_inv (fst (snd (ak4705_standby client val st)))"
    "ak4705_inv (fst (snd (ak4705_set_volume client val st)))"
    "ak4705_inv (fst (snd (ak4705_set_mute client val st)))"
    "ak4705_inv (fst (snd (ak4705_set_mode client val st)))"
    "ak4705_inv (fst (snd (ak4705_set_encoder client val st)))"
    "ak4705_inv (fst (snd (ak4705_set_wss client val st)))"
    "ak4705_inv (fst (snd (ak4705_src_sel client val st)))"
  using assms by (simp_all add: ak4705_op_defs ak4705_inv_def ak4705_bytes_def ak4705_set_eq
      ak4705_mode_regs_def ak4705_route_def Let_def)

lemma ak4705_dispatch_inv:
  assumes "ak4705_inv (fst st)"
  shows "ak4705_inv (fst (snd (ak4705_avsioset client cmd val st)))"
    "ak4705_inv (fst (snd (ak4705_saa client cmd val st)))"
  using assms by (simp_all add: ak4705_avsioset_def ak4705_saa_def avs_simps)

lemma ak4705_request_inv:
  "ak4705_request client st r = Some (rc, out, st') \<Longrightarrow> ak4705_inv (fst st) \<Longrightarrow> ak4705_inv (fst st')"
  using ak4705_dispatch_inv [of st client]
  by (auto simp: ak4705_request_def ak4705_command_def ak4705_command_kernel_def no_out_def put_user_def
      Let_def split: avs_request.splits if_splits option.splits)

lemma ak4705_init_eq:
  "\<exists>rc s'. ak4705_init client (s, l) = (rc, s', l @ [ak4705_image s']) \<and> ak4705_inv s' \<and>
     ak4705_image s' = [0, 0x70, 0x40, 0x1F, 0x04, 0x09, 0xFF, 0x00, 0x8C, 0x00]"
  by (simp add: ak4705_init_def ak4705_set_eq ak4705_inv_def ak4705_image_def ak4705_bytes_def ak4705_DATA_SIZE_def
      ak4705_zero_def pack_byte_def)

lemma ak4705_image_full:
  "ak4705_inv s \<Longrightarrow> 0 # ak4705_bytes (ak4705_data s) = ak4705_image s @ [0]"
  by (simp add: ak4705_inv_def ak4705_image_def ak4705_bytes_def ak4705_DATA_SIZE_def)

lemma ak4705_run:
  "\<exists>res st. run_requests (ak4705_request client) (snd (ak4705_init client (s, l))) rs = Some (res, st) \<and>
     ak4705_inv (fst st) \<and> snd st \<noteq> [] \<and> last (snd st) = ak4705_image (fst st)"
proof -
  obtain rc s0 where s0: "ak4705_init client (s, l) = (rc, s0, l @ [ak4705_image s0])" "ak4705_inv s0"
    using ak4705_init_eq by blast
  obtain res st where run: "run_requests (ak4705_request client) (s0, l @ [ak4705_image s0]) rs = Some (res, st)"
    using ak4705.run_defined [of rs client "(s0, l @ [ak4705_image s0])"] by (auto simp: list.pred_True)
  have "ak4705_inv (fst st)" using run_requests_inv [OF run, of ak4705_inv] s0(2) ak4705_request_inv by simp
  then show ?thesis using run s0(1) ak4705.run_coherent [OF run] by simp
qed

subsection \<open>Properties\<close>

text \<open>
  The bus carries the registers. After \<open>ak4705_init\<close>, which sends the register values its
  comments give, every sequence of ioctls and kernel calls returns, and then the last message on
  the bus is the register copy, address byte first, up to its last byte; that byte, which
  \<open>ak4705_set\<close> never sends, is always zero. Different register contents have different images.
\<close>

theorem ak4705_bus_image:
  "last (snd (snd (ak4705_init client (s, l)))) = [0, 0x70, 0x40, 0x1F, 0x04, 0x09, 0xFF, 0x00, 0x8C, 0x00] \<and>
   (\<exists>res st. run_requests (ak4705_request client) (snd (ak4705_init client (s, l))) rs = Some (res, st) \<and>
      0 # ak4705_bytes (ak4705_data (fst st)) = last (snd st) @ [0]) \<and>
   (ak4705_bytes d = ak4705_bytes d' \<longleftrightarrow> d = d')"
proof -
  have "last (snd (snd (ak4705_init client (s, l)))) = [0, 0x70, 0x40, 0x1F, 0x04, 0x09, 0xFF, 0x00, 0x8C, 0x00]"
    using ak4705_init_eq [of client s l] by auto
  moreover obtain res st where
      "run_requests (ak4705_request client) (snd (ak4705_init client (s, l))) rs = Some (res, st)"
      "ak4705_inv (fst st)" "last (snd st) = ak4705_image (fst st)"
    using ak4705_run by blast
  ultimately show ?thesis by (simp add: ak4705_image_full ak4705_bytes_inj)
qed

text \<open>
  What the AK4705 getters report. Whatever was requested since \<open>ak4705_init\<close>, the ioctl
  \<open>AVSIOGVOL\<close> (which falls through into \<open>AVSIOGMUTE\<close>) and both \<open>AVSIOGMUTE\<close> calls answer 0, even
  while the switch is muted or loud; only the kernel's \<open>AVSIOGVOL\<close> reports the volume register.
\<close>

theorem ak4705_getters:
  "\<exists>res st. run_requests (ak4705_request client) (snd (ak4705_init client (s, l))) rs = Some (res, st) \<and>
     ak4705_command client AVSIOGVOL (Some a) st = (0, Some 0, st) \<and>
     ak4705_command client AVSIOGMUTE (Some a) st = (0, Some 0, st) \<and>
     ak4705_command_kernel client AVSIOGMUTE b st = (0, Some 0, st) \<and>
     ak4705_command_kernel client AVSIOGVOL b st = (0, Some (uint (R02L50 (ak4705_data (fst st)))), st)"
proof -
  obtain res st where run: "run_requests (ak4705_request client) (snd (ak4705_init client (s, l))) rs = Some (res, st)"
      and inv: "ak4705_inv (fst st)"
    using ak4705_run by blast
  have "ak4705_get_mute (fst st) = 0" using inv by (simp add: ak4705_inv_def ak4705_get_mute_def)
  then show ?thesis using run
    by (simp add: ak4705_command_def ak4705_command_kernel_def ak4705_get_volume_def put_user_def avs_cmd_defs)
qed

end
