(* ===== verification/Avs_Stv6412.thy ===== *)
theory Avs_Stv6412
  imports Avs_Base
begin

text \<open>
  \<open>stv6412.c\<close>, the STV6412 switch: register copy, the saved audio sources of the mute function,
  standby, setters and getters, the ioctl and the kernel command interface and initialisation.
  The static and global variables are the record \<open>stv6412_state\<close> (\<open>g_tc_asc\<close> and \<open>g_v_asc\<close> are the
  globals \<open>tc_asc\<close> and \<open>v_asc\<close>). The platform macros of the build are a parameter. Debug output is
  left out. \<open>None\<close> stands for undefined behaviour: a table index out of range, the write behind the
  buffer in the FORTIS variant of \<open>stv6412_set\<close>, and \<open>return;\<close> from an int function.
\<close>

subsection \<open>Registers\<close>

record s_stv6412_data =
  svm :: "1 word"
  t_vol_c :: "5 word"
  t_vol_x :: "1 word"
  t_stereo :: "1 word"
  tc_asc :: "3 word"
  c_ag :: "1 word"
  v_asc :: "2 word"
  res1 :: "1 word"
  v_stereo :: "1 word"
  t_vsc :: "3 word"
  t_cm :: "1 word"
  v_vsc :: "3 word"
  v_cm :: "1 word"
  fblk :: "2 word"
  rgb_vsc :: "2 word"
  rgb_gain :: "3 word"
  rgb_tri :: "1 word"
  t_rcos :: "1 word"
  r_ac :: "1 word"
  r_tfc :: "1 word"
  v_cgc :: "1 word"
  v_coc :: "1 word"
  res2 :: "1 word"
  slb :: "1 word"
  it_enable :: "1 word"
  e_rcsc :: "1 word"
  v_rcsc :: "1 word"
  e_aig :: "2 word"
  t_sb :: "2 word"
  v_sb :: "2 word"
  e_in :: "1 word"
  v_in :: "1 word"
  t_in :: "1 word"
  a_in :: "1 word"
  v_out :: "1 word"
  c_out :: "1 word"
  t_out :: "1 word"
  r_out :: "1 word"

text \<open>The structure in memory, and zeroed memory.\<close>

definition stv6412_bytes :: "s_stv6412_data \<Rightarrow> bytes" where
  "stv6412_bytes d = map pack_byte
    [[(1, unat (svm d)), (5, unat (t_vol_c d)), (1, unat (t_vol_x d)), (1, unat (t_stereo d))],
     [(3, unat (tc_asc d)), (1, unat (c_ag d)), (2, unat (v_asc d)), (1, unat (res1 d)),
       (1, unat (v_stereo d))],
     [(3, unat (t_vsc d)), (1, unat (t_cm d)), (3, unat (v_vsc d)), (1, unat (v_cm d))],
     [(2, unat (fblk d)), (2, unat (rgb_vsc d)), (3, unat (rgb_gain d)),
       (1, unat (rgb_tri d))],
     [(1, unat (t_rcos d)), (1, unat (r_ac d)), (1, unat (r_tfc d)), (1, unat (v_cgc d)),
       (1, unat (v_coc d)), (1, unat (res2 d)), (1, unat (slb d)), (1, unat (it_enable d))],
     [(1, unat (e_rcsc d)), (1, unat (v_rcsc d)), (2, unat (e_aig d)), (2, unat (t_sb d)),
       (2, unat (v_sb d))],
     [(1, unat (e_in d)), (1, unat (v_in d)), (1, unat (t_in d)), (1, unat (a_in d)),
       (1, unat (v_out d)), (1, unat (c_out d)), (1, unat (t_out d)), (1, unat (r_out d))]]"

definition stv6412_zero :: s_stv6412_data where
  "stv6412_zero = \<lparr>
    svm = 0, t_vol_c = 0, t_vol_x = 0, t_stereo = 0, tc_asc = 0, c_ag = 0, v_asc = 0, res1 = 0,
    v_stereo = 0, t_vsc = 0, t_cm = 0, v_vsc = 0, v_cm = 0, fblk = 0, rgb_vsc = 0,
    rgb_gain = 0, rgb_tri = 0, t_rcos = 0, r_ac = 0, r_tfc = 0, v_cgc = 0, v_coc = 0, res2 = 0,
    slb = 0, it_enable = 0, e_rcsc = 0, v_rcsc = 0, e_aig = 0, t_sb = 0, v_sb = 0, e_in = 0,
    v_in = 0, t_in = 0, a_in = 0, v_out = 0, c_out = 0, t_out = 0, r_out = 0\<rparr>"

definition STV6412_DATA_SIZE :: nat where "STV6412_DATA_SIZE = 7"

record stv6412_state =
  g_tc_asc :: byte
  g_v_asc :: byte
  t_stnby :: byte
  stv6412_data :: s_stv6412_data
  tmpstv6412_data :: s_stv6412_data
  stv6412_s_old_src :: int

type_synonym stv6412_env = "stv6412_state \<times> i2c_log"
type_synonym stv6412_op = "(int \<times> stv6412_env) option"

text \<open>The driver before \<open>stv6412_init\<close>: static storage is zero.\<close>

definition stv6412_static :: stv6412_state where
  "stv6412_static = \<lparr>g_tc_asc = 0, g_v_asc = 0, t_stnby = 0, stv6412_data = stv6412_zero,
     tmpstv6412_data = stv6412_zero, stv6412_s_old_src = 0\<rparr>"

text \<open>The platforms whose \<open>stv6412_set\<close> sends a constant image, built in \<open>char buffer[10]\<close> with a
  last store to \<open>buffer[10]\<close>.\<close>

definition stv6412_constant_image :: "avs_build \<Rightarrow> bool" where
  "stv6412_constant_image cfg \<longleftrightarrow> FORTIS_HDBOX cfg \<or> HL101 cfg \<or> IPBOX9900 cfg"

subsection \<open>Operations\<close>

definition stv6412_set :: "avs_build \<Rightarrow> i2c_client \<Rightarrow> stv6412_env \<Rightarrow> stv6412_op" where
  "stv6412_set cfg client st =
     (if stv6412_constant_image cfg then None
      else
        (let buffer = 0 # stv6412_bytes (stv6412_data (fst st));
             (n, l) = i2c_master_send client buffer (snd st)
         in Some (if int (STV6412_DATA_SIZE + 1) \<noteq> n then - EFAULT else 0, fst st, l)))"

text \<open>Change the register copy and send it.\<close>

definition stv6412_put ::
    "avs_build \<Rightarrow> i2c_client \<Rightarrow> (s_stv6412_data \<Rightarrow> s_stv6412_data) \<Rightarrow> stv6412_env \<Rightarrow> stv6412_op" where
  "stv6412_put cfg client f st =
     stv6412_set cfg client ((fst st)\<lparr>stv6412_data := f (stv6412_data (fst st))\<rparr>, snd st)"

definition stv6412_set_volume :: "avs_build \<Rightarrow> i2c_client \<Rightarrow> int \<Rightarrow> stv6412_env \<Rightarrow> stv6412_op" where
  "stv6412_set_volume cfg client vol st =
     (if ADB_BOX cfg then stv6412_set cfg client st
      else
        (let c = vol; c = (if c = 63 then 62 else c); c = (if c = 0 then 1 else c)
         in if c > 63 \<or> c < 0 then Some (- EINVAL, st)
            else stv6412_put cfg client (\<lambda>d. d\<lparr>t_vol_c := of_int (c div 2)\<rparr>) st))"

definition stv6412_set_mute :: "avs_build \<Rightarrow> i2c_client \<Rightarrow> int \<Rightarrow> stv6412_env \<Rightarrow> stv6412_op" where
  "stv6412_set_mute cfg client type st =
     (let s = fst st; d = stv6412_data s
      in if type < 0 \<or> type > 1 then Some (- EINVAL, st)
         else if type = AVS_MUTE then
           stv6412_set cfg client
             (if g_tc_asc s = 0xff
              then s\<lparr>g_tc_asc := ucast (tc_asc d), g_v_asc := ucast (v_asc d),
                     stv6412_data := d\<lparr>tc_asc := 0, v_asc := 0\<rparr>\<rparr>
              else s, snd st)
         else
           stv6412_set cfg client
             (if g_tc_asc s \<noteq> 0xff
              then s\<lparr>stv6412_data := d\<lparr>tc_asc := ucast (g_tc_asc s), v_asc := ucast (g_v_asc s)\<rparr>,
                     g_tc_asc := 0xff, g_v_asc := 0xff\<rparr>
              else s, snd st))"

definition stv6412_set_vsw :: "avs_build \<Rightarrow> i2c_client \<Rightarrow> int \<Rightarrow> int \<Rightarrow> stv6412_env \<Rightarrow> stv6412_op" where
  "stv6412_set_vsw cfg client sw type st =
     (if type < 0 \<or> type > 4 then Some (- EINVAL, st)
      else if sw = 0 then stv6412_put cfg client (\<lambda>d. d\<lparr>v_vsc := of_int type\<rparr>) st
      else if sw = 1 then
        (if type < 0 \<or> type > 2 then Some (- EINVAL, st)
         else stv6412_put cfg client (\<lambda>d. d\<lparr>rgb_vsc := of_int type\<rparr>) st)
      else if sw = 2 then stv6412_put cfg client (\<lambda>d. d\<lparr>t_vsc := of_int type\<rparr>) st
      else Some (- EINVAL, st))"

definition stv6412_set_asw :: "avs_build \<Rightarrow> i2c_client \<Rightarrow> int \<Rightarrow> int \<Rightarrow> stv6412_env \<Rightarrow> stv6412_op" where
  "stv6412_set_asw cfg client sw type st =
     (let s = fst st
      in if sw = 0 then
           (if type \<le> 0 \<or> type > 3 then Some (- EINVAL, st)
            else if g_v_asc s = 0xff then stv6412_put cfg client (\<lambda>d. d\<lparr>v_asc := of_int type\<rparr>) st
            else stv6412_set cfg client (s\<lparr>g_v_asc := of_int type\<rparr>, snd st))
         else if sw = 1 \<or> sw = 2 then
           (if type \<le> 0 \<or> type > 4 then Some (- EINVAL, st)
            else if g_tc_asc s = 0xff then stv6412_put cfg client (\<lambda>d. d\<lparr>tc_asc := of_int type\<rparr>) st
            else stv6412_set cfg client (s\<lparr>g_tc_asc := of_int type\<rparr>, snd st))
         else Some (- EINVAL, st))"

definition stv6412_set_t_sb :: "avs_build \<Rightarrow> i2c_client \<Rightarrow> int \<Rightarrow> stv6412_env \<Rightarrow> stv6412_op" where
  "stv6412_set_t_sb cfg client type st =
     (if type < 0 \<or> type > 3 then Some (- EINVAL, st)
      else stv6412_put cfg client (\<lambda>d. d\<lparr>t_sb := of_int type\<rparr>) st)"

definition stv6412_set_wss :: "avs_build \<Rightarrow> i2c_client \<Rightarrow> int \<Rightarrow> stv6412_env \<Rightarrow> stv6412_op" where
  "stv6412_set_wss cfg client vol st =
     (if vol = SAA_WSS_43F then stv6412_put cfg client (\<lambda>d. d\<lparr>t_sb := 3\<rparr>) st
      else if vol = SAA_WSS_169F then stv6412_put cfg client (\<lambda>d. d\<lparr>t_sb := 2\<rparr>) st
      else if vol = SAA_WSS_OFF then stv6412_put cfg client (\<lambda>d. d\<lparr>t_sb := 0\<rparr>) st
      else Some (- EINVAL, st))"

definition stv6412_set_fblk :: "avs_build \<Rightarrow> i2c_client \<Rightarrow> int \<Rightarrow> stv6412_env \<Rightarrow> stv6412_op" where
  "stv6412_set_fblk cfg client type st =
     (if type < 0 \<or> type > 3 then Some (- EINVAL, st)
      else stv6412_put cfg client (\<lambda>d. d\<lparr>fblk := of_int type\<rparr>) st)"

definition stv6412_get_status :: "i2c_client \<Rightarrow> stv6412_env \<Rightarrow> int" where
  "stv6412_get_status client st =
     (let (n, byte) = i2c_master_recv1 client (snd st) in if 1 \<noteq> n then -1 else uint byte)"

definition stv6412_get_volume :: "stv6412_state \<Rightarrow> int" where
  "stv6412_get_volume s =
     (let c = uint (t_vol_c (stv6412_data s)) in if c \<noteq> 0 then c * 2 else c)"

definition stv6412_get_mute :: "stv6412_state \<Rightarrow> int" where
  "stv6412_get_mute s = (if g_tc_asc s = 0xff \<and> g_v_asc s = 0xff then 0 else 1)"

definition stv6412_get_fblk :: "stv6412_state \<Rightarrow> int" where
  "stv6412_get_fblk s = uint (fblk (stv6412_data s))"

definition stv6412_get_t_sb :: "stv6412_state \<Rightarrow> int" where
  "stv6412_get_t_sb s = uint (t_sb (stv6412_data s))"

definition stv6412_get_vsw :: "int \<Rightarrow> stv6412_state \<Rightarrow> int" where
  "stv6412_get_vsw sw s =
     (let d = stv6412_data s
      in if sw = 0 then uint (v_vsc d) else if sw = 1 then uint (rgb_vsc d)
         else if sw = 2 then uint (t_vsc d) else - EINVAL)"

definition stv6412_get_asw :: "int \<Rightarrow> stv6412_state \<Rightarrow> int" where
  "stv6412_get_asw sw s =
     (let d = stv6412_data s
      in if sw = 0 then (if g_v_asc s = 0xff then uint (v_asc d) else uint (g_v_asc s))
         else if sw = 1 \<or> sw = 2 then (if g_tc_asc s = 0xff then uint (tc_asc d) else uint (g_tc_asc s))
         else - EINVAL)"

definition stv6412_set_encoder :: "avs_build \<Rightarrow> i2c_client \<Rightarrow> int \<Rightarrow> stv6412_env \<Rightarrow> stv6412_op" where
  "stv6412_set_encoder cfg client vol st = Some (0, st)"

definition stv6412_mode_regs :: "int \<Rightarrow> 2 word \<Rightarrow> stv6412_state \<Rightarrow> stv6412_state" where
  "stv6412_mode_regs src fb s =
     (let s1 = (if t_vsc (stv6412_data s) = 4 then s\<lparr>stv6412_s_old_src := src\<rparr>
                else s\<lparr>stv6412_data := stv6412_data s\<lparr>t_vsc := of_int src\<rparr>\<rparr>)
      in s1\<lparr>stv6412_data := stv6412_data s1\<lparr>fblk := fb\<rparr>\<rparr>)"

definition stv6412_set_mode :: "avs_build \<Rightarrow> i2c_client \<Rightarrow> int \<Rightarrow> stv6412_env \<Rightarrow> stv6412_op" where
  "stv6412_set_mode cfg client vol st =
     (if vol = SAA_MODE_RGB then stv6412_set cfg client (stv6412_mode_regs 1 1 (fst st), snd st)
      else if vol = SAA_MODE_FBAS then stv6412_set cfg client (stv6412_mode_regs 1 0 (fst st), snd st)
      else if vol = SAA_MODE_SVIDEO then stv6412_set cfg client (stv6412_mode_regs 2 0 (fst st), snd st)
      else Some (- EINVAL, st))"

definition stv6412_route :: "3 word \<Rightarrow> 3 word \<Rightarrow> 3 word \<Rightarrow> 2 word \<Rightarrow> s_stv6412_data \<Rightarrow> s_stv6412_data" where
  "stv6412_route t v ta va d = d\<lparr>t_vsc := t, v_vsc := v, tc_asc := ta, v_asc := va\<rparr>"

definition stv6412_src_sel :: "avs_build \<Rightarrow> i2c_client \<Rightarrow> int \<Rightarrow> stv6412_env \<Rightarrow> stv6412_op" where
  "stv6412_src_sel cfg client src st =
     (let s = fst st
      in if src = SAA_SRC_ENC then
           stv6412_put cfg client
             (stv6412_route (of_int (stv6412_s_old_src s)) (of_int (stv6412_s_old_src s)) 1 1) st
         else if src = SAA_SRC_SCART then
           (let s1 = s\<lparr>stv6412_s_old_src := uint (t_vsc (stv6412_data s))\<rparr>
            in if ADB_BOX cfg then stv6412_set cfg client (s1, snd st)
               else stv6412_put cfg client (stv6412_route 4 0 2 0) (s1, snd st))
         else Some (- EINVAL, st))"

text \<open>Data 6 with every input and output stopped.\<close>

definition stv6412_full_stop :: "s_stv6412_data \<Rightarrow> s_stv6412_data" where
  "stv6412_full_stop d = d\<lparr>e_in := 1, v_in := 1, t_in := 1, a_in := 1,
     v_out := 1, c_out := 1, t_out := 1, r_out := 1\<rparr>"

definition stv6412_standby :: "avs_build \<Rightarrow> i2c_client \<Rightarrow> int \<Rightarrow> stv6412_env \<Rightarrow> stv6412_op" where
  "stv6412_standby cfg client type st =
     (let s = fst st
      in if type < 0 \<or> type > 1 then Some (- EINVAL, st)
         else if type = 1 then
           (if t_stnby s = 0
            then stv6412_set cfg client
                   (s\<lparr>tmpstv6412_data := stv6412_data s,
                      stv6412_data := stv6412_full_stop (stv6412_data s), t_stnby := 1\<rparr>, snd st)
            else Some (- EINVAL, st))
         else
           (if t_stnby s = 1
            then stv6412_set cfg client (s\<lparr>stv6412_data := tmpstv6412_data s, t_stnby := 0\<rparr>, snd st)
            else Some (- EINVAL, st)))"

definition scartPin8Table :: "int list" where "scartPin8Table = [0, 2, 3]"
definition scartPin8Table_reverse :: "int list" where "scartPin8Table_reverse = [0, 0, 1, 2]"

text \<open>The AVSIOSET switch as the kernel interface has it.\<close>

definition stv6412_avsioset :: "avs_build \<Rightarrow> i2c_client \<Rightarrow> u32 \<Rightarrow> int \<Rightarrow> stv6412_env \<Rightarrow> stv6412_op" where
  "stv6412_avsioset cfg client cmd val st =
     (if cmd = AVSIOSVSW1 then stv6412_set_vsw cfg client 0 val st
      else if cmd = AVSIOSVSW2 then stv6412_set_vsw cfg client 1 val st
      else if cmd = AVSIOSVSW3 then stv6412_set_vsw cfg client 2 val st
      else if cmd = AVSIOSASW1 then stv6412_set_asw cfg client 0 val st
      else if cmd = AVSIOSASW2 then stv6412_set_asw cfg client 1 val st
      else if cmd = AVSIOSASW3 then stv6412_set_asw cfg client 2 val st
      else if cmd = AVSIOSVOL then stv6412_set_volume cfg client val st
      else if cmd = AVSIOSMUTE then stv6412_set_mute cfg client val st
      else if cmd = AVSIOSFBLK then stv6412_set_fblk cfg client val st
      else if cmd = AVSIOSSCARTPIN8 then
        (if 0 \<le> val \<and> nat val < length scartPin8Table
         then stv6412_set_t_sb cfg client (scartPin8Table ! nat val) st else None)
      else if cmd = AVSIOSFNC then stv6412_set_t_sb cfg client val st
      else if cmd = AVSIOSTANDBY then stv6412_standby cfg client val st
      else Some (- EINVAL, st))"

text \<open>The AVSIOGET switch as the kernel interface has it; \<open>None\<close> is an unknown command.\<close>

definition stv6412_avsioget :: "i2c_client \<Rightarrow> u32 \<Rightarrow> stv6412_env \<Rightarrow> int option" where
  "stv6412_avsioget client cmd st =
     (let s = fst st
      in if cmd = AVSIOGVSW1 then Some (stv6412_get_vsw 0 s)
         else if cmd = AVSIOGVSW2 then Some (stv6412_get_vsw 1 s)
         else if cmd = AVSIOGVSW3 then Some (stv6412_get_vsw 2 s)
         else if cmd = AVSIOGASW1 then Some (stv6412_get_asw 0 s)
         else if cmd = AVSIOGASW2 then Some (stv6412_get_asw 1 s)
         else if cmd = AVSIOGASW3 then Some (stv6412_get_asw 2 s)
         else if cmd = AVSIOGVOL then Some (stv6412_get_volume s)
         else if cmd = AVSIOGMUTE then Some (stv6412_get_mute s)
         else if cmd = AVSIOGFBLK then Some (stv6412_get_fblk s)
         else if cmd = AVSIOGSCARTPIN8 then Some (scartPin8Table_reverse ! nat (stv6412_get_t_sb s))
         else if cmd = AVSIOGFNC then Some (stv6412_get_t_sb s)
         else if cmd = AVSIOGSTATUS then Some (stv6412_get_status client st)
         else None)"

definition stv6412_saa :: "avs_build \<Rightarrow> i2c_client \<Rightarrow> u32 \<Rightarrow> int \<Rightarrow> stv6412_env \<Rightarrow> stv6412_op" where
  "stv6412_saa cfg client cmd val st =
     (if cmd = SAAIOSMODE then stv6412_set_mode cfg client val st
      else if cmd = SAAIOSENC then stv6412_set_encoder cfg client val st
      else if cmd = SAAIOSWSS then stv6412_set_wss cfg client val st
      else if cmd = SAAIOSSRCSEL then stv6412_src_sel cfg client val st
      else Some (- EINVAL, st))"

text \<open>The platforms on which the ioctl does not support fast blanking: setting it is \<open>return;\<close>,
  getting it answers the initial 0 of \<open>val\<close>.\<close>

definition stv6412_no_fblk :: "avs_build \<Rightarrow> bool" where
  "stv6412_no_fblk cfg \<longleftrightarrow> FORTIS_HDBOX cfg \<or> HL101 cfg \<or> IPBOX9900 cfg \<or> IPBOX99 cfg"

definition stv6412_command ::
    "avs_build \<Rightarrow> i2c_client \<Rightarrow> u32 \<Rightarrow> int option \<Rightarrow> stv6412_env \<Rightarrow> (int \<times> int option \<times> stv6412_env) option" where
  "stv6412_command cfg client cmd arg st =
     (if cmd AND AVSIOSET \<noteq> 0 then
        (case arg of None \<Rightarrow> Some (- EFAULT, None, st)
         | Some val \<Rightarrow>
             if cmd = AVSIOSFBLK \<and> stv6412_no_fblk cfg then None
             else map_option no_out (stv6412_avsioset cfg client cmd val st))
      else if cmd AND AVSIOGET \<noteq> 0 then
        (case (if cmd = AVSIOGFBLK \<and> stv6412_no_fblk cfg then Some 0
               else stv6412_avsioget client cmd st) of
           None \<Rightarrow> Some (- EINVAL, None, st)
         | Some val \<Rightarrow> (let (rc, out) = put_user val arg in Some (rc, out, st)))
      else
        (case arg of None \<Rightarrow> Some (- EFAULT, None, st)
         | Some val \<Rightarrow> map_option no_out (stv6412_saa cfg client cmd val st)))"

definition stv6412_command_kernel ::
    "avs_build \<Rightarrow> i2c_client \<Rightarrow> u32 \<Rightarrow> int \<Rightarrow> stv6412_env \<Rightarrow> (int \<times> int option \<times> stv6412_env) option" where
  "stv6412_command_kernel cfg client cmd arg st =
     (if cmd AND AVSIOSET \<noteq> 0 then map_option no_out (stv6412_avsioset cfg client cmd arg st)
      else if cmd AND AVSIOGET \<noteq> 0 then
        (case stv6412_avsioget client cmd st of
           None \<Rightarrow> Some (- EINVAL, None, st)
         | Some val \<Rightarrow> Some (0, Some val, st))
      else map_option no_out (stv6412_saa cfg client cmd arg st))"

definition stv6412_init :: "avs_build \<Rightarrow> i2c_client \<Rightarrow> stv6412_env \<Rightarrow> stv6412_op" where
  "stv6412_init cfg client st =
     stv6412_set cfg client
       ((fst st)\<lparr>stv6412_data := stv6412_zero\<lparr>t_vol_c := 0, v_asc := 1, tc_asc := 1, v_vsc := 1, t_vsc := 1,
            rgb_tri := 1, rgb_vsc := 1, fblk := 2, t_rcos := 1, res2 := 1, t_sb := 3, v_sb := 0, a_in := 0\<rparr>,
          stv6412_s_old_src := 1, g_tc_asc := 0xff, g_v_asc := 0xff\<rparr>, snd st)"

subsection \<open>Specification vocabulary\<close>

definition stv6412_image :: "stv6412_state \<Rightarrow> bytes" where
  "stv6412_image s = 0 # stv6412_bytes (stv6412_data s)"

definition stv6412_request ::
    "avs_build \<Rightarrow> i2c_client \<Rightarrow> stv6412_env \<Rightarrow> avs_request \<Rightarrow> (int \<times> int option \<times> stv6412_env) option" where
  "stv6412_request cfg client st r = (case r of
       User cmd arg \<Rightarrow> stv6412_command cfg client cmd arg st
     | Kernel cmd arg \<Rightarrow> stv6412_command_kernel cfg client cmd arg st)"

text \<open>The requests with defined behaviour: not on a platform with the constant image, fast blanking
  only where it is supported, and a table index in range.\<close>

definition stv6412_defined :: "avs_build \<Rightarrow> avs_request \<Rightarrow> bool" where
  "stv6412_defined cfg r \<longleftrightarrow> \<not> stv6412_constant_image cfg \<and>
     (case r of
        User cmd arg \<Rightarrow> (cmd = AVSIOSFBLK \<longrightarrow> \<not> stv6412_no_fblk cfg) \<and>
          (cmd = AVSIOSSCARTPIN8 \<longrightarrow> (case arg of None \<Rightarrow> True | Some v \<Rightarrow> 0 \<le> v \<and> v \<le> 2))
      | Kernel cmd v \<Rightarrow> cmd = AVSIOSSCARTPIN8 \<longrightarrow> 0 \<le> v \<and> v \<le> 2)"

definition stv6412_asleep_view :: "stv6412_state \<Rightarrow> byte \<times> s_stv6412_data" where
  "stv6412_asleep_view s = (t_stnby s, tmpstv6412_data s)"

definition stv6412_audio_view :: "stv6412_state \<Rightarrow> byte \<times> byte \<times> 3 word \<times> 2 word" where
  "stv6412_audio_view s = (g_tc_asc s, g_v_asc s, tc_asc (stv6412_data s), v_asc (stv6412_data s))"

definition stv6412_standby_wf :: "stv6412_state \<Rightarrow> bool" where
  "stv6412_standby_wf s \<longleftrightarrow> t_stnby s = 0 \<or> t_stnby s = 1"

text \<open>The audio routing the driver promises: a source for the TV and cinch outputs, one for the VCR
  output, and whether the outputs are muted.\<close>

record audio_routing =
  tv_source :: int
  vcr_source :: int
  muted :: bool

definition spec_audio_cmd :: "u32 \<Rightarrow> int \<Rightarrow> audio_routing \<Rightarrow> audio_routing" where
  "spec_audio_cmd cmd val a =
     (if cmd = AVSIOSASW1 \<and> val \<in> {1..3} then a\<lparr>vcr_source := val\<rparr>
      else if (cmd = AVSIOSASW2 \<or> cmd = AVSIOSASW3) \<and> val \<in> {1..4} then a\<lparr>tv_source := val\<rparr>
      else if cmd = AVSIOSMUTE \<and> val \<in> {0, 1} then a\<lparr>muted := (val = 1)\<rparr>
      else a)"

fun spec_audio :: "avs_request \<Rightarrow> audio_routing \<Rightarrow> audio_routing" where
  "spec_audio (User cmd None) a = a"
| "spec_audio (User cmd (Some val)) a = spec_audio_cmd cmd val a"
| "spec_audio (Kernel cmd val) a = spec_audio_cmd cmd val a"

definition audio_rep :: "audio_routing \<Rightarrow> stv6412_state \<Rightarrow> bool" where
  "audio_rep a s \<longleftrightarrow>
     tv_source a \<in> {1..4} \<and> vcr_source a \<in> {1..3} \<and>
     stv6412_audio_view s =
       (if muted a then (of_int (tv_source a), of_int (vcr_source a), 0, 0)
        else (0xff, 0xff, of_int (tv_source a), of_int (vcr_source a)))"

definition reroutes :: "avs_request \<Rightarrow> bool" where
  "reroutes r = (case r of User cmd _ \<Rightarrow> cmd = SAAIOSSRCSEL | Kernel cmd _ \<Rightarrow> cmd = SAAIOSSRCSEL)"

definition initial_routing :: audio_routing where
  "initial_routing = \<lparr>tv_source = 1, vcr_source = 1, muted = False\<rparr>"

subsection \<open>Lemmas\<close>

lemma stv6412_bytes_inj: "stv6412_bytes d = stv6412_bytes d' \<longleftrightarrow> d = d'"
  by (simp add: stv6412_bytes_def pack_byte_inj unat_field_less word_unat_eq_iff [symmetric])
    (auto intro: s_stv6412_data.equality)
  
lemma length_stv6412_image [simp]: "length (stv6412_image s) = 8"
  by (simp add: stv6412_image_def stv6412_bytes_def)

lemma stv6412_set_eq:
  "\<not> stv6412_constant_image cfg \<Longrightarrow> stv6412_set cfg client (s, l) =
     Some (if i2c_send client l (stv6412_image s) = 8 then 0 else - EFAULT, s, l @ [stv6412_image s])"
  by (simp add: stv6412_set_def stv6412_image_def i2c_master_send_def STV6412_DATA_SIZE_def)

lemma stv6412_set_None: "stv6412_constant_image cfg \<Longrightarrow> stv6412_set cfg client st = None"
  by (simp add: stv6412_set_def)

lemma stv6412_set_sends [simp]:
  "sends_opt stv6412_image client st (stv6412_set cfg client (s', snd st))"
  by (cases "stv6412_constant_image cfg") (simp_all add: stv6412_set_None stv6412_set_eq sends_def)

lemma stv6412_put_sends [simp]:
  "sends_opt stv6412_image client st (stv6412_put cfg client f st)"
  "sends_opt stv6412_image client st (stv6412_put cfg client f (s', snd st))"
  by (simp_all add: stv6412_put_def)

lemma stv6412_set_same [simp]: "sends_opt stv6412_image client st (stv6412_set cfg client st)"
  using stv6412_set_sends [of client st cfg "fst st"] by simp

lemmas stv6412_op_defs = stv6412_standby_def stv6412_set_volume_def stv6412_set_mute_def
  stv6412_set_vsw_def stv6412_set_asw_def stv6412_set_t_sb_def stv6412_set_fblk_def
  stv6412_set_mode_def stv6412_set_encoder_def stv6412_set_wss_def stv6412_src_sel_def

lemma stv6412_ops_send [avs_simps]:
  "sends_opt stv6412_image client st (stv6412_standby cfg client val st)"
  "sends_opt stv6412_image client st (stv6412_set_volume cfg client val st)"
  "sends_opt stv6412_image client st (stv6412_set_mute cfg client val st)"
  "sends_opt stv6412_image client st (stv6412_set_vsw cfg client sw val st)"
  "sends_opt stv6412_image client st (stv6412_set_asw cfg client sw val st)"
  "sends_opt stv6412_image client st (stv6412_set_t_sb cfg client val st)"
  "sends_opt stv6412_image client st (stv6412_set_fblk cfg client val st)"
  "sends_opt stv6412_image client st (stv6412_set_mode cfg client val st)"
  "sends_opt stv6412_image client st (stv6412_set_encoder cfg client val st)"
  "sends_opt stv6412_image client st (stv6412_set_wss cfg client val st)"
  "sends_opt stv6412_image client st (stv6412_src_sel cfg client val st)"
  by (simp_all add: stv6412_op_defs Let_def)

lemma stv6412_dispatch_sends [avs_simps]:
  "sends_opt stv6412_image client st (stv6412_avsioset cfg client cmd val st)"
  "sends_opt stv6412_image client st (stv6412_saa cfg client cmd val st)"
  by (simp_all add: stv6412_avsioset_def stv6412_saa_def avs_simps)

text \<open>Every request leaves the driver alone or is one of the two setter groups.\<close>

lemma stv6412_request_cases:
  assumes "stv6412_request cfg client st r = Some (rc, out, st')"
  obtains (same) "st' = st" "\<forall>cmd val. r = User cmd (Some val) \<or> r = Kernel cmd val \<longrightarrow> cmd AND AVSIOSET = 0"
    | (avs) cmd val where "r = User cmd (Some val) \<or> r = Kernel cmd val"
        "stv6412_avsioset cfg client cmd val st = Some (rc, st')"
    | (saa) cmd val where "r = User cmd (Some val) \<or> r = Kernel cmd val" "cmd AND AVSIOSET = 0"
        "stv6412_saa cfg client cmd val st = Some (rc, st')"
  using assms
  by (auto simp: stv6412_request_def stv6412_command_def stv6412_command_kernel_def no_out_def put_user_def
      split: avs_request.splits if_splits option.splits)

lemma stv6412_request_sends:
  "stv6412_request cfg client st r = Some (rc, out, st') \<Longrightarrow> sends stv6412_image client st (rc, st')"
proof (erule stv6412_request_cases)
  fix cmd val assume "stv6412_avsioset cfg client cmd val st = Some (rc, st')"
  then show ?thesis using stv6412_dispatch_sends(1) [of client st cfg cmd val] by simp
next
  fix cmd val assume "stv6412_saa cfg client cmd val st = Some (rc, st')"
  then show ?thesis using stv6412_dispatch_sends(2) [of client st cfg cmd val] by simp
qed simp

lemma stv6412_ops_defined [avs_simps]:
  assumes "\<not> stv6412_constant_image cfg"
  shows "stv6412_set cfg client st \<noteq> None" "stv6412_put cfg client f st \<noteq> None"
    "stv6412_standby cfg client val st \<noteq> None" "stv6412_set_volume cfg client val st \<noteq> None"
    "stv6412_set_mute cfg client val st \<noteq> None" "stv6412_set_vsw cfg client sw val st \<noteq> None"
    "stv6412_set_asw cfg client sw val st \<noteq> None" "stv6412_set_t_sb cfg client val st \<noteq> None"
    "stv6412_set_fblk cfg client val st \<noteq> None" "stv6412_set_mode cfg client val st \<noteq> None"
    "stv6412_set_encoder cfg client val st \<noteq> None" "stv6412_set_wss cfg client val st \<noteq> None"
    "stv6412_src_sel cfg client val st \<noteq> None"
proof -
  have *: "stv6412_set cfg client st \<noteq> None" for st using assms by (cases st) (simp add: stv6412_set_eq)
  then have **: "stv6412_put cfg client f st \<noteq> None" for f st by (simp add: stv6412_put_def)
  show "stv6412_set cfg client st \<noteq> None" "stv6412_put cfg client f st \<noteq> None"
    "stv6412_standby cfg client val st \<noteq> None" "stv6412_set_volume cfg client val st \<noteq> None"
    "stv6412_set_mute cfg client val st \<noteq> None" "stv6412_set_vsw cfg client sw val st \<noteq> None"
    "stv6412_set_asw cfg client sw val st \<noteq> None" "stv6412_set_t_sb cfg client val st \<noteq> None"
    "stv6412_set_fblk cfg client val st \<noteq> None" "stv6412_set_mode cfg client val st \<noteq> None"
    "stv6412_set_encoder cfg client val st \<noteq> None" "stv6412_set_wss cfg client val st \<noteq> None"
    "stv6412_src_sel cfg client val st \<noteq> None"
    using * ** by (simp_all add: stv6412_op_defs Let_def)
qed

lemma stv6412_dispatch_defined:
  assumes "\<not> stv6412_constant_image cfg"
  shows "cmd = AVSIOSSCARTPIN8 \<longrightarrow> 0 \<le> val \<and> val \<le> 2 \<Longrightarrow> stv6412_avsioset cfg client cmd val st \<noteq> None"
    "stv6412_saa cfg client cmd val st \<noteq> None"
  by (simp_all only: stv6412_avsioset_def stv6412_saa_def split: if_split)
    (use assms in \<open>auto simp: stv6412_ops_defined scartPin8Table_def simp del: not_None_eq\<close>)

lemma stv6412_request_defined: "stv6412_defined cfg r \<Longrightarrow> stv6412_request cfg client st r \<noteq> None"
proof (cases r)
  case (User cmd arg)
  assume "stv6412_defined cfg r"
  then have d: "\<not> stv6412_constant_image cfg" "cmd = AVSIOSFBLK \<longrightarrow> \<not> stv6412_no_fblk cfg"
      "cmd = AVSIOSSCARTPIN8 \<longrightarrow> arg \<noteq> None \<longrightarrow> 0 \<le> the arg \<and> the arg \<le> 2"
    using User by (auto simp: stv6412_defined_def split: option.splits)
  show ?thesis
  proof (cases arg)
    case None
    then show ?thesis by (simp add: User stv6412_request_def stv6412_command_def put_user_def split: option.split)
  next
    case (Some val)
    obtain x y where "stv6412_avsioset cfg client cmd val st = Some x" "stv6412_saa cfg client cmd val st = Some y"
      using stv6412_dispatch_defined(1) [OF d(1), of cmd val client st]
        stv6412_dispatch_defined(2) [OF d(1), of client cmd val st] d(3) Some by auto
    moreover have "(cmd = AVSIOSFBLK \<and> stv6412_no_fblk cfg) = False" using d(2) by blast
    ultimately show ?thesis
      by (simp only: User Some stv6412_request_def stv6412_command_def put_user_def avs_request.case
          option.case option.map if_False) (simp del: not_None_eq split: option.split)
  qed
next
  case (Kernel cmd val)
  assume "stv6412_defined cfg r"
  then show ?thesis
    using Kernel stv6412_dispatch_defined(1) [of cfg cmd val client st]
      stv6412_dispatch_defined(2) [of cfg client cmd val st]
    by (auto simp: stv6412_defined_def stv6412_request_def stv6412_command_kernel_def no_out_def split: option.splits)
qed

interpretation stv6412: register_chip "stv6412_request cfg" stv6412_image "stv6412_defined cfg" for cfg
  by unfold_locales (rule stv6412_request_defined, assumption, rule stv6412_request_sends, assumption)


lemma stv6412_set_keeps:
  "keeps f st (stv6412_set cfg client (s', snd st)) \<longleftrightarrow> stv6412_constant_image cfg \<or> f s' = f (fst st)"
  by (cases "stv6412_constant_image cfg") (simp_all add: stv6412_set_None stv6412_set_eq keeps_def)

lemma stv6412_set_keeps' [simp]: "keeps f st (stv6412_set cfg client st)"
  using stv6412_set_keeps [of f st cfg client "fst st"] by simp

lemma stv6412_ops_keep [avs_simps]:
  "keeps stv6412_asleep_view st (stv6412_set_volume cfg client val st)"
  "keeps stv6412_asleep_view st (stv6412_set_mute cfg client val st)"
  "keeps stv6412_asleep_view st (stv6412_set_vsw cfg client sw val st)"
  "keeps stv6412_asleep_view st (stv6412_set_asw cfg client sw val st)"
  "keeps stv6412_asleep_view st (stv6412_set_t_sb cfg client val st)"
  "keeps stv6412_asleep_view st (stv6412_set_fblk cfg client val st)"
  "keeps stv6412_asleep_view st (stv6412_set_mode cfg client val st)"
  "keeps stv6412_asleep_view st (stv6412_set_encoder cfg client val st)"
  "keeps stv6412_asleep_view st (stv6412_set_wss cfg client val st)"
  "keeps stv6412_asleep_view st (stv6412_src_sel cfg client val st)"
  by (simp_all add: stv6412_op_defs stv6412_put_def stv6412_set_keeps stv6412_asleep_view_def
      stv6412_mode_regs_def Let_def)

lemma stv6412_ops_keep_audio [avs_simps]:
  "keeps stv6412_audio_view st (stv6412_set_volume cfg client val st)"
  "keeps stv6412_audio_view st (stv6412_set_vsw cfg client sw val st)"
  "keeps stv6412_audio_view st (stv6412_set_t_sb cfg client val st)"
  "keeps stv6412_audio_view st (stv6412_set_fblk cfg client val st)"
  "keeps stv6412_audio_view st (stv6412_set_mode cfg client val st)"
  "keeps stv6412_audio_view st (stv6412_set_encoder cfg client val st)"
  "keeps stv6412_audio_view st (stv6412_set_wss cfg client val st)"
  by (simp_all add: stv6412_op_defs stv6412_put_def stv6412_set_keeps stv6412_audio_view_def
      stv6412_mode_regs_def Let_def)

lemma stv6412_dispatch_keep:
  "cmd \<noteq> AVSIOSTANDBY \<Longrightarrow> keeps stv6412_asleep_view st (stv6412_avsioset cfg client cmd val st)"
  "keeps stv6412_asleep_view st (stv6412_saa cfg client cmd val st)"
  by (simp_all add: stv6412_avsioset_def stv6412_saa_def avs_simps)

lemma stv6412_dispatch_keep_audio:
  "cmd \<notin> {AVSIOSTANDBY, AVSIOSMUTE, AVSIOSASW1, AVSIOSASW2, AVSIOSASW3} \<Longrightarrow>
   keeps stv6412_audio_view st (stv6412_avsioset cfg client cmd val st)"
  "cmd \<noteq> SAAIOSSRCSEL \<Longrightarrow> keeps stv6412_audio_view st (stv6412_saa cfg client cmd val st)"
  by (simp_all add: stv6412_avsioset_def stv6412_saa_def avs_simps)


lemma stv6412_kernel_standby: "stv6412_request cfg client st (Kernel AVSIOSTANDBY v) = map_option no_out (stv6412_standby cfg client v st)"
  by (simp add: stv6412_request_def stv6412_command_kernel_def stv6412_avsioset_def avs_cmd_defs)

lemma stv6412_kernel_setvol: "stv6412_request cfg client st (Kernel AVSIOSVOL v) = map_option no_out (stv6412_set_volume cfg client v st)"
  by (simp add: stv6412_request_def stv6412_command_kernel_def stv6412_avsioset_def avs_cmd_defs)

lemma stv6412_kernel_getvol: "stv6412_request cfg client st (Kernel AVSIOGVOL v) = Some (0, Some (stv6412_get_volume (fst st)), st)"
  by (simp add: stv6412_request_def stv6412_command_kernel_def stv6412_avsioget_def avs_cmd_defs)

lemma stv6412_set_SomeD:
  "stv6412_set cfg client st = Some (rc, st') \<Longrightarrow> fst st' = fst st \<and> snd st' = snd st @ [stv6412_image (fst st)]"
  by (cases st, cases "stv6412_constant_image cfg") (auto simp: stv6412_set_None stv6412_set_eq)

lemma stv6412_request_other:
  assumes "stv6412_request cfg client st r = Some (rc, out, st')" "\<not> is_standby r"
  shows "stv6412_asleep_view (fst st') = stv6412_asleep_view (fst st)"
  using assms(1)
proof (cases rule: stv6412_request_cases)
  case (avs cmd val)
  then have "cmd \<noteq> AVSIOSTANDBY" using assms(2) by (auto simp: is_standby_def)
  then show ?thesis using keepsD [OF avs(2)] stv6412_dispatch_keep(1) by blast
next
  case (saa cmd val)
  then show ?thesis using keepsD [OF saa(3)] stv6412_dispatch_keep(2) by blast
qed simp

lemma stv6412_request_wf:
  assumes "stv6412_request cfg client st r = Some (rc, out, st')" "stv6412_standby_wf (fst st)"
  shows "stv6412_standby_wf (fst st')"
proof (cases "is_standby r")
  case True
  from assms(1) show ?thesis
  proof (cases rule: stv6412_request_cases)
    case (avs cmd val)
    then have "stv6412_standby cfg client val st = Some (rc, st')"
      using True by (auto simp: is_standby_def stv6412_avsioset_def avs_cmd_defs)
    then show ?thesis using assms(2)
      by (auto simp: stv6412_standby_def stv6412_standby_wf_def Let_def dest: stv6412_set_SomeD split: if_splits)
  next
    case (saa cmd val)
    then show ?thesis using True by (auto simp: is_standby_def avs_cmd_defs)
  qed (use assms(2) in simp)
next
  case False
  then show ?thesis using stv6412_request_other [OF assms(1)] assms(2)
    by (simp add: stv6412_asleep_view_def stv6412_standby_wf_def)
qed

interpretation stv6412: standby_chip "stv6412_request cfg" stv6412_image "stv6412_defined cfg"
  stv6412_data tmpstv6412_data "\<lambda>s. t_stnby s = 1" stv6412_standby_wf for cfg
proof
  fix client st rc out st'
  assume "stv6412_request cfg client st (Kernel AVSIOSTANDBY 0) = Some (rc, out, st')"
  then show "if t_stnby (fst st) = 1 then stv6412_data (fst st') = tmpstv6412_data (fst st)
             else rc = - EINVAL \<and> st' = st"
    by (auto simp: stv6412_kernel_standby stv6412_standby_def Let_def no_out_def dest: stv6412_set_SomeD split: if_splits)
next
  fix client st rc out st'
  assume "stv6412_request cfg client st (Kernel AVSIOSTANDBY 1) = Some (rc, out, st')" "stv6412_standby_wf (fst st)"
  then show "if t_stnby (fst st) = 1 then rc = - EINVAL \<and> st' = st
             else t_stnby (fst st') = 1 \<and> tmpstv6412_data (fst st') = stv6412_data (fst st)"
    by (auto simp: stv6412_kernel_standby stv6412_standby_def stv6412_standby_wf_def Let_def no_out_def
        dest: stv6412_set_SomeD split: if_splits)
next
  fix client st r rc out st'
  assume "stv6412_request cfg client st r = Some (rc, out, st')" "\<not> is_standby r"
  from stv6412_request_other [OF this]
  show "(t_stnby (fst st') = 1) = (t_stnby (fst st) = 1) \<and> tmpstv6412_data (fst st') = tmpstv6412_data (fst st)"
    by (simp add: stv6412_asleep_view_def)
qed (rule stv6412_request_wf)

lemma stv6412_volume_regs:
  "0 \<le> v \<Longrightarrow> v \<le> 63 \<Longrightarrow> \<not> ADB_BOX cfg \<Longrightarrow> stv6412_set_volume cfg client v st = Some (rc, st') \<Longrightarrow>
   stv6412_get_volume (fst st') = v div 2 * 2"
  by (auto simp: stv6412_set_volume_def stv6412_put_def stv6412_get_volume_def Let_def unsigned_of_int
      take_bit_int_eq_self dest!: stv6412_set_SomeD split: if_splits)

interpretation stv6412: volume_chip "stv6412_request cfg" stv6412_image "stv6412_defined cfg"
  "2" "\<not> stv6412_constant_image cfg \<and> \<not> ADB_BOX cfg" for cfg
proof
  fix v client st rc out st' a
  assume "\<not> stv6412_constant_image cfg \<and> \<not> ADB_BOX cfg" "0 \<le> v" "v \<le> 63"
     "stv6412_request cfg client st (Kernel AVSIOSVOL v) = Some (rc, out, st')"
  then show "out = None \<and> stv6412_request cfg client st' (Kernel AVSIOGVOL a) = Some (0, Some (v div 2 * 2), st')"
    by (auto simp: stv6412_kernel_setvol stv6412_kernel_getvol no_out_def dest: stv6412_volume_regs)
next
  fix v :: int and client st assume "\<not> stv6412_constant_image cfg \<and> \<not> ADB_BOX cfg" "v < 0 \<or> 63 < v"
  then show "stv6412_request cfg client st (Kernel AVSIOSVOL v) = Some (- EINVAL, None, st)"
    by (cases st) (auto simp: stv6412_kernel_setvol stv6412_set_volume_def no_out_def)
qed (auto simp: stv6412_defined_def avs_cmd_defs)

lemma source_words:
  "v \<in> {1..4} \<Longrightarrow> (of_int v :: byte) \<noteq> 0xff \<and> uint (of_int v :: byte) = v \<and> uint (of_int v :: 3 word) = v \<and>
     ucast (of_int v :: 3 word) = (of_int v :: byte) \<and> ucast (of_int v :: byte) = (of_int v :: 3 word)"
  "v \<in> {1..3} \<Longrightarrow> (of_int v :: byte) \<noteq> 0xff \<and> uint (of_int v :: byte) = v \<and> uint (of_int v :: 2 word) = v \<and>
     ucast (of_int v :: 2 word) = (of_int v :: byte) \<and> ucast (of_int v :: byte) = (of_int v :: 2 word)"
proof -
  assume "v \<in> {1..4}"
  then have "v = 1 \<or> v = 2 \<or> v = 3 \<or> v = 4" by auto
  then show "(of_int v :: byte) \<noteq> 0xff \<and> uint (of_int v :: byte) = v \<and> uint (of_int v :: 3 word) = v \<and>
     ucast (of_int v :: 3 word) = (of_int v :: byte) \<and> ucast (of_int v :: byte) = (of_int v :: 3 word)"
    by (elim disjE) simp_all
next
  assume "v \<in> {1..3}"
  then have "v = 1 \<or> v = 2 \<or> v = 3" by auto
  then show "(of_int v :: byte) \<noteq> 0xff \<and> uint (of_int v :: byte) = v \<and> uint (of_int v :: 2 word) = v \<and>
     ucast (of_int v :: 2 word) = (of_int v :: byte) \<and> ucast (of_int v :: byte) = (of_int v :: 2 word)"
    by (elim disjE) simp_all
qed

lemma stv6412_asw_rep:
  assumes "audio_rep a (fst st)"
  shows "stv6412_set_asw cfg client 0 val st = Some (rc, st') \<Longrightarrow>
      audio_rep (if val \<in> {1..3} then a\<lparr>vcr_source := val\<rparr> else a) (fst st')"
    "stv6412_set_asw cfg client 1 val st = Some (rc, st') \<Longrightarrow>
      audio_rep (if val \<in> {1..4} then a\<lparr>tv_source := val\<rparr> else a) (fst st')"
    "stv6412_set_asw cfg client 2 val st = Some (rc, st') \<Longrightarrow>
      audio_rep (if val \<in> {1..4} then a\<lparr>tv_source := val\<rparr> else a) (fst st')"
  using assms source_words(1) [of "tv_source a"] source_words(2) [of "vcr_source a"]
  by (auto simp: stv6412_set_asw_def stv6412_put_def audio_rep_def stv6412_audio_view_def Let_def
      dest!: stv6412_set_SomeD split: if_splits)

lemma stv6412_mute_rep:
  assumes "audio_rep a (fst st)" "stv6412_set_mute cfg client val st = Some (rc, st')"
  shows "audio_rep (if val \<in> {0, 1} then a\<lparr>muted := (val = 1)\<rparr> else a) (fst st')"
  using assms source_words(1) [of "tv_source a"] source_words(2) [of "vcr_source a"]
  by (auto simp: stv6412_set_mute_def audio_rep_def stv6412_audio_view_def Let_def AVS_MUTE_def
      dest!: stv6412_set_SomeD split: if_splits)

lemma spec_audio_cmd_other: "cmd AND AVSIOSET = 0 \<Longrightarrow> spec_audio_cmd cmd val a = a"
  by (auto simp: spec_audio_cmd_def avs_cmd_defs)

lemma stv6412_avsioset_rep:
  assumes "audio_rep a (fst st)" "stv6412_avsioset cfg client cmd val st = Some (rc, st')" "cmd \<noteq> AVSIOSTANDBY"
  shows "audio_rep (spec_audio_cmd cmd val a) (fst st')"
proof (cases "cmd \<in> {AVSIOSMUTE, AVSIOSASW1, AVSIOSASW2, AVSIOSASW3}")
  case True
  then show ?thesis
    using assms stv6412_asw_rep [OF assms(1), of cfg client val rc st'] stv6412_mute_rep [OF assms(1), of cfg client val rc st']
    by (auto simp: stv6412_avsioset_def spec_audio_cmd_def avs_cmd_defs)
next
  case False
  then have "keeps stv6412_audio_view st (stv6412_avsioset cfg client cmd val st)"
    using assms(3) by (intro stv6412_dispatch_keep_audio(1)) simp
  then show ?thesis using False assms(1) keepsD [OF assms(2), of stv6412_audio_view st]
    by (simp add: audio_rep_def spec_audio_cmd_def)
qed

lemma stv6412_request_rep:
  assumes "stv6412_request cfg client st r = Some (rc, out, st')" "audio_rep a (fst st)"
    and "\<not> is_standby r" "\<not> reroutes r"
  shows "audio_rep (spec_audio r a) (fst st')"
  using assms(1)
proof (cases rule: stv6412_request_cases)
  case same
  have "spec_audio r a = a"
  proof (cases r)
    case (User cmd arg)
    then show ?thesis using same(2) spec_audio_cmd_other by (cases arg) auto
  qed (use same(2) spec_audio_cmd_other in auto)
  then show ?thesis using same(1) assms(2) by simp
next
  case (avs cmd val)
  then have "cmd \<noteq> AVSIOSTANDBY" "spec_audio r a = spec_audio_cmd cmd val a" using assms(3) by (auto simp: is_standby_def)
  then show ?thesis using stv6412_avsioset_rep [OF assms(2) avs(2)] by simp
next
  case (saa cmd val)
  then have "cmd \<noteq> SAAIOSSRCSEL" "spec_audio r a = spec_audio_cmd cmd val a" using assms(4) by (auto simp: reroutes_def)
  moreover have "spec_audio_cmd cmd val a = a" using saa(2) by (rule spec_audio_cmd_other)
  ultimately show ?thesis using assms(2) keepsD [OF saa(3) stv6412_dispatch_keep_audio(2)] by (simp add: audio_rep_def)
qed

lemma stv6412_run_rep:
  "run_requests (stv6412_request cfg client) st rs = Some (res, st') \<Longrightarrow> audio_rep a (fst st) \<Longrightarrow>
   list_all (\<lambda>r. \<not> is_standby r \<and> \<not> reroutes r) rs \<Longrightarrow> audio_rep (fold spec_audio rs a) (fst st')"
proof (induction rs arbitrary: st res a)
  case (Cons r rs)
  obtain rc out st1 where r: "stv6412_request cfg client st r = Some (rc, out, st1)"
    using Cons.prems(1) by (auto split: option.splits)
  obtain res1 where run: "run_requests (stv6412_request cfg client) st1 rs = Some (res1, st')"
    using Cons.prems(1) r by (auto split: option.splits)
  show ?case using Cons.IH [OF run] stv6412_request_rep [OF r Cons.prems(2)] Cons.prems(3) by simp
qed simp

lemma stv6412_init_rep:
  assumes "\<not> stv6412_constant_image cfg"
  shows "\<exists>rc st0. stv6412_init cfg client st = Some (rc, st0) \<and> audio_rep initial_routing (fst st0)"
  using assms
  by (simp add: stv6412_init_def stv6412_set_eq audio_rep_def initial_routing_def stv6412_audio_view_def)

lemma stv6412_kernel_getters:
  "stv6412_request cfg client st (Kernel AVSIOGASW1 v) = Some (0, Some (stv6412_get_asw 0 (fst st)), st)"
  "stv6412_request cfg client st (Kernel AVSIOGASW2 v) = Some (0, Some (stv6412_get_asw 1 (fst st)), st)"
  "stv6412_request cfg client st (Kernel AVSIOGASW3 v) = Some (0, Some (stv6412_get_asw 2 (fst st)), st)"
  "stv6412_request cfg client st (Kernel AVSIOGMUTE v) = Some (0, Some (stv6412_get_mute (fst st)), st)"
  by (simp_all add: stv6412_request_def stv6412_command_kernel_def stv6412_avsioget_def avs_cmd_defs)

lemma audio_rep_getters:
  assumes "audio_rep a s"
  shows "stv6412_get_asw 0 s = vcr_source a" "stv6412_get_asw 1 s = tv_source a" "stv6412_get_asw 2 s = tv_source a"
    "stv6412_get_mute s = (if muted a then 1 else 0)"
    "uint (tc_asc (stv6412_data s)) = (if muted a then 0 else tv_source a)"
    "uint (v_asc (stv6412_data s)) = (if muted a then 0 else vcr_source a)"
  using assms source_words(1) [of "tv_source a"] source_words(2) [of "vcr_source a"]
  by (auto simp: audio_rep_def stv6412_audio_view_def stv6412_get_asw_def stv6412_get_mute_def Let_def split: if_splits)

text \<open>The audio fields of the message that carries the registers.\<close>

lemma stv6412_image_address: "stv6412_image s ! 0 = 0"
  by (simp add: stv6412_image_def)

lemma stv6412_image_audio:
  "uint (stv6412_image s ! 2) mod 8 = uint (tc_asc (stv6412_data s))"
  "uint (stv6412_image s ! 2) div 16 mod 4 = uint (v_asc (stv6412_data s))"
proof -
  let ?d = "stv6412_data s"
  let ?fs = "[(3, unat (tc_asc ?d)), (1, unat (c_ag ?d)), (2, unat (v_asc ?d)), (1, unat (res1 ?d)), (1, unat (v_stereo ?d))] :: (nat \<times> nat) list"
  have "stv6412_image s ! 2 = pack_byte ?fs" by (simp add: stv6412_image_def stv6412_bytes_def)
  then have b: "unat (stv6412_image s ! 2) = pack ?fs" by (simp only:) (rule unat_pack_byte, simp)
  have "unpack (map fst ?fs) (pack ?fs) = map snd ?fs" by (rule unpack_pack) (simp add: unat_field_less)
  then have "pack ?fs mod 8 = unat (tc_asc ?d)" "pack ?fs div 16 mod 4 = unat (v_asc ?d)" by (simp_all add: div_mult2_eq [symmetric] del: pack.simps)
  then have "unat (stv6412_image s ! 2) mod 8 = unat (tc_asc ?d)" "unat (stv6412_image s ! 2) div 16 mod 4 = unat (v_asc ?d)"
    unfolding b by this
  then have "int (unat (stv6412_image s ! 2) mod 8) = int (unat (tc_asc ?d))"
    "int (unat (stv6412_image s ! 2) div 16 mod 4) = int (unat (v_asc ?d))" by simp_all
  then show "uint (stv6412_image s ! 2) mod 8 = uint (tc_asc ?d)" "uint (stv6412_image s ! 2) div 16 mod 4 = uint (v_asc ?d)"
    by (simp_all only: zmod_int zdiv_int of_nat_numeral uint_nat)
qed

lemma stv6412_init_sends:
  "stv6412_init cfg client (s, l) = Some (rc, st0) \<Longrightarrow> snd st0 = l @ [stv6412_image (fst st0)]"
  by (auto simp: stv6412_init_def dest!: stv6412_set_SomeD)

subsection \<open>Properties\<close>

text \<open>
  Claim C39. Mute and source selection, on builds whose \<open>stv6412_set\<close> sends the registers (all but FORTIS_HDBOX, HL101 and
  IPBOX9900, which send a constant): for every sequence of requests other than standby and source rerouting, the driver
  implements the audio routing specification. The selected sources are kept while muted, also when they are selected
  during the mute, the getters report them and the mute state, and the last message on the bus writes the chip's audio
  registers, the two fields of the second data byte, with the sources when not muted and with zero when muted.
\<close>

theorem stv6412_audio_refines:
  assumes "\<not> stv6412_constant_image cfg" "list_all (stv6412_defined cfg) rs"
    and "list_all (\<lambda>r. \<not> is_standby r \<and> \<not> reroutes r) rs"
    and a: "a = fold spec_audio rs initial_routing"
  shows "\<exists>rc st0 res st. stv6412_init cfg client (s, l) = Some (rc, st0) \<and>
      run_requests (stv6412_request cfg client) st0 rs = Some (res, st) \<and>
      stv6412_request cfg client st (Kernel AVSIOGASW1 v) = Some (0, Some (vcr_source a), st) \<and>
      stv6412_request cfg client st (Kernel AVSIOGASW2 v) = Some (0, Some (tv_source a), st) \<and>
      stv6412_request cfg client st (Kernel AVSIOGMUTE v) = Some (0, Some (if muted a then 1 else 0), st) \<and>
      length (snd st) > length l \<and> length (last (snd st)) = 8 \<and> last (snd st) ! 0 = 0 \<and>
      uint (last (snd st) ! 2) mod 8 = (if muted a then 0 else tv_source a) \<and>
      uint (last (snd st) ! 2) div 16 mod 4 = (if muted a then 0 else vcr_source a)"
proof -
  obtain rc st0 where st0: "stv6412_init cfg client (s, l) = Some (rc, st0)" "audio_rep initial_routing (fst st0)"
    using stv6412_init_rep [OF assms(1)] by blast
  note sent0 = stv6412_init_sends [OF st0(1)]
  obtain res st where run: "run_requests (stv6412_request cfg client) st0 rs = Some (res, st)"
    using stv6412.run_defined [OF assms(2), of client st0] by auto
  have "audio_rep a (fst st)" using stv6412_run_rep [OF run st0(2) assms(3)] a by simp
  moreover have "last (snd st) = stv6412_image (fst st)" "length (snd st) > length l"
    using stv6412.run_coherent [OF run] sent0 by auto
  ultimately show ?thesis using st0(1) run
    by (intro exI [of _ rc] exI [of _ st0] exI [of _ res] exI [of _ st] conjI)
      (simp_all add: audio_rep_getters stv6412_kernel_getters stv6412_image_audio stv6412_image_address)
qed

theorem stv6412_audio_refines_witness:
  "\<exists>rc st0 res st. stv6412_init plain_build good_client (stv6412_static, []) = Some (rc, st0) \<and>
     run_requests (stv6412_request plain_build good_client) st0 [User AVSIOSASW1 (Some 2), Kernel AVSIOSMUTE 1, User AVSIOSASW2 (Some 3),
       Kernel AVSIOSMUTE 0] = Some (res, st) \<and>
     stv6412_request plain_build good_client st (Kernel AVSIOGASW2 0) = Some (0, Some 3, st) \<and>
     uint (last (snd st) ! 2) mod 8 = 3 \<and> uint (last (snd st) ! 2) div 16 mod 4 = 2"
proof -
  let ?rs = "[User AVSIOSASW1 (Some 2), Kernel AVSIOSMUTE 1, User AVSIOSASW2 (Some 3), Kernel AVSIOSMUTE 0]"
  have d: "\<not> stv6412_constant_image plain_build" "list_all (stv6412_defined plain_build) ?rs"
    "list_all (\<lambda>r. \<not> is_standby r \<and> \<not> reroutes r) ?rs"
    by (simp_all add: plain_build_def stv6412_constant_image_def stv6412_defined_def stv6412_no_fblk_def
        is_standby_def reroutes_def avs_cmd_defs)
  have a: "\<lparr>tv_source = 3, vcr_source = 2, muted = False\<rparr> = fold spec_audio ?rs initial_routing"
    by (simp add: initial_routing_def spec_audio_cmd_def avs_cmd_defs)
  show ?thesis using stv6412_audio_refines [OF d a, of good_client stv6412_static "[]" 0] by (simp del: run_requests.simps) blast
qed

text \<open>
  Rerouting defeats the mute: while the driver is muted, selecting the encoder as source
  writes non-zero audio sources to the chip, although \<open>stv6412_get_mute\<close> goes on reporting a mute.
\<close>

theorem stv6412_reroute_while_muted:
  assumes "\<not> stv6412_constant_image cfg" "audio_rep a s" "muted a"
  shows "\<exists>rc st'. stv6412_request cfg client (s, l) (Kernel SAAIOSSRCSEL SAA_SRC_ENC) = Some (rc, None, st') \<and>
     tc_asc (stv6412_data (fst st')) = 1 \<and> v_asc (stv6412_data (fst st')) = 1 \<and> stv6412_get_mute (fst st') = 1"
  using assms source_words(1) [of "tv_source a"] source_words(2) [of "vcr_source a"]
  by (simp add: stv6412_request_def stv6412_command_kernel_def stv6412_saa_def stv6412_src_sel_def stv6412_put_def
      stv6412_set_eq stv6412_route_def stv6412_get_mute_def no_out_def audio_rep_def stv6412_audio_view_def avs_cmd_defs)

theorem stv6412_reroute_while_muted_witness:
  "\<exists>rc st'. stv6412_request plain_build good_client (stv6412_static\<lparr>g_tc_asc := 1, g_v_asc := 1\<rparr>, [])
       (Kernel SAAIOSSRCSEL SAA_SRC_ENC) = Some (rc, None, st') \<and>
     tc_asc (stv6412_data (fst st')) = 1 \<and> stv6412_get_mute (fst st') = 1"
proof -
  have "\<not> stv6412_constant_image plain_build" by (simp add: plain_build_def stv6412_constant_image_def)
  moreover have "audio_rep \<lparr>tv_source = 1, vcr_source = 1, muted = True\<rparr> (stv6412_static\<lparr>g_tc_asc := 1, g_v_asc := 1\<rparr>)"
    by (simp add: audio_rep_def stv6412_audio_view_def stv6412_static_def stv6412_zero_def)
  moreover have "muted \<lparr>tv_source = 1, vcr_source = 1, muted = True\<rparr>" by simp
  ultimately show ?thesis using stv6412_reroute_while_muted [of plain_build _ _ good_client "[]"] by meson
qed

text \<open>
  Scart pin 8: the values 0, 1 and 2 set through \<open>AVSIOSSCARTPIN8\<close> are read back by
  \<open>AVSIOGSCARTPIN8\<close>; any other value indexes the table out of range, so the call has no defined result.
\<close>

theorem stv6412_scart_pin8:
  assumes "\<not> stv6412_constant_image cfg"
  shows "if v \<in> {0, 1, 2}
    then \<exists>rc st'. stv6412_request cfg client st (Kernel AVSIOSSCARTPIN8 v) = Some (rc, None, st') \<and>
           stv6412_request cfg client st' (Kernel AVSIOGSCARTPIN8 w) = Some (0, Some v, st')
    else stv6412_request cfg client st (Kernel AVSIOSSCARTPIN8 v) = None"
  using assms
  by (auto simp: stv6412_request_def stv6412_command_kernel_def stv6412_avsioset_def stv6412_avsioget_def
      stv6412_set_t_sb_def stv6412_get_t_sb_def stv6412_put_def stv6412_set_eq no_out_def avs_cmd_defs
      scartPin8Table_def scartPin8Table_reverse_def)

theorem stv6412_scart_pin8_witness:
  "\<exists>rc st'. stv6412_request plain_build good_client (stv6412_static, []) (Kernel AVSIOSSCARTPIN8 2) = Some (rc, None, st') \<and>
     stv6412_request plain_build good_client st' (Kernel AVSIOGSCARTPIN8 0) = Some (0, Some 2, st')"
proof -
  have "\<not> stv6412_constant_image plain_build" by (simp add: plain_build_def stv6412_constant_image_def)
  from stv6412_scart_pin8 [OF this, of 2 good_client "(stv6412_static, [])" 0]
  show ?thesis by (simp only: insert_iff if_True simp_thms)
qed

end
