(* ===== verification/Avs_Cxa2161.thy ===== *)
theory Avs_Cxa2161
  imports Avs_Base
begin

text \<open>
  \<open>cxa2161.c\<close> and \<open>cxa2161.h\<close>, the CXA2161 switch of the Homecast 5101: register copy, standby,
  setters and getters, the ioctl and the kernel command interface and initialisation. The static
  variables are the record \<open>cxa2161_state\<close>. Debug output and the status structure, which no
  function uses, are left out.
\<close>

subsection \<open>Registers\<close>

definition CXA2161_TV_VIDEOSWITCH_DIGITALENCODER_RGB_CVBS :: "3 word" where "CXA2161_TV_VIDEOSWITCH_DIGITALENCODER_RGB_CVBS = 0"
definition CXA2161_TV_VIDEOSWITCH_DIGITALENCODER_SVIDEO :: "3 word" where "CXA2161_TV_VIDEOSWITCH_DIGITALENCODER_SVIDEO = 1"
definition CXA2161_TV_VIDEOSWITCH_VCR_RGB_SVIDEO :: "3 word" where "CXA2161_TV_VIDEOSWITCH_VCR_RGB_SVIDEO = 2"
definition CXA2161_VCR_VIDEOSWITCH_DIGITALENCODER_SVIDEO_CVBS :: "3 word" where "CXA2161_VCR_VIDEOSWITCH_DIGITALENCODER_SVIDEO_CVBS = 1"
definition CXA2161_VCR_VIDEOSWITCH_MUTE :: "3 word" where "CXA2161_VCR_VIDEOSWITCH_MUTE = 7"
definition CXA2161_RGBGAIN_0 :: "2 word" where "CXA2161_RGBGAIN_0 = 0"
definition CXA2161_MIXERCONTROL_DEFAULT :: "2 word" where "CXA2161_MIXERCONTROL_DEFAULT = 3"
definition CXA2161_CLAMP_DEFAULT :: "1 word" where "CXA2161_CLAMP_DEFAULT = 0"
definition CXA2161_SYNCSELECT_VIN8 :: "2 word" where "CXA2161_SYNCSELECT_VIN8 = 0"
definition CXA2161_OUTPUT_DISABLED :: "1 word" where "CXA2161_OUTPUT_DISABLED = 0"
definition CXA2161_OUTPUT_ENABLED :: "1 word" where "CXA2161_OUTPUT_ENABLED = 1"
definition CXA2161_BIDIRLINE_OFF :: "1 word" where "CXA2161_BIDIRLINE_OFF = 1"
definition CXA2161_AUDIOSELECT_LRIN4 :: "2 word" where "CXA2161_AUDIOSELECT_LRIN4 = 3"
definition CXA2161_MONOSWITCH_NORMAL :: "3 word" where "CXA2161_MONOSWITCH_NORMAL = 0"
definition CXA2161_MONOSWITCH_DEFAULT :: "3 word" where "CXA2161_MONOSWITCH_DEFAULT = 7"
definition CXA2161_VOLUMEBYPASS_OFF :: "1 word" where "CXA2161_VOLUMEBYPASS_OFF = 0"
definition CXA2161_MONOOUTPUT_TV :: "1 word" where "CXA2161_MONOOUTPUT_TV = 0"
definition CXA2161_VOLUMECONTROL_DEFAULT :: "5 word" where "CXA2161_VOLUMECONTROL_DEFAULT = 3"
definition CXA2161_AUDIOGAIN_N6DB :: "2 word" where "CXA2161_AUDIOGAIN_N6DB = 0"
definition CXA2161_AUDIOGAIN_DEFAULT :: "2 word" where "CXA2161_AUDIOGAIN_DEFAULT = CXA2161_AUDIOGAIN_N6DB"
definition CXA2161_OVERLAY_OFF :: "1 word" where "CXA2161_OVERLAY_OFF = 0"
definition CXA2161_AUDIO_MUTED :: "1 word" where "CXA2161_AUDIO_MUTED = 0"
definition CXA2161_AUDIO_ACTIVE :: "1 word" where "CXA2161_AUDIO_ACTIVE = 1"
definition CXA2161_ZEROCROSS_ON :: "1 word" where "CXA2161_ZEROCROSS_ON = 1"
definition CXA2161_INPUT_ACTIVE :: "1 word" where "CXA2161_INPUT_ACTIVE = 1"
definition CXA2161_OUTPUTLIMIT_OFF :: "1 word" where "CXA2161_OUTPUTLIMIT_OFF = 0"
definition CXA2161_FASTBLANK_OFF :: "2 word" where "CXA2161_FASTBLANK_OFF = 0"
definition CXA2161_FASTBLANK_ON :: "2 word" where "CXA2161_FASTBLANK_ON = 3"
definition CXA2161_FNCFOLLOW_ON :: "1 word" where "CXA2161_FNCFOLLOW_ON = 1"
definition CXA2161_FNCDIR_OUT :: "1 word" where "CXA2161_FNCDIR_OUT = 1"
definition CXA2161_FNCLEVEL_INTERNAL :: "2 word" where "CXA2161_FNCLEVEL_INTERNAL = 0"
definition CXA2161_FNCLEVEL_WSS_16_9 :: "2 word" where "CXA2161_FNCLEVEL_WSS_16_9 = 1"
definition CXA2161_FNCLEVEL_WSS_4_3 :: "2 word" where "CXA2161_FNCLEVEL_WSS_4_3 = 3"
definition CXA2161_LOGICLEVEL_CURRENTSINK :: "1 word" where "CXA2161_LOGICLEVEL_CURRENTSINK = 0"

record s_cxa2161_data =
  audio_gain :: "2 word"
  volume_control :: "5 word"
  tv_audio_mute :: "1 word"
  mono_output :: "1 word"
  tv_volume_bypass :: "1 word"
  tv_mono_switch :: "3 word"
  tv_audio_select :: "2 word"
  phono_bypass :: "1 word"
  tv_audio_mute2 :: "1 word"
  output_limit :: "1 word"
  vcr_mono_switch :: "3 word"
  vcr_audio_select :: "2 word"
  overlay :: "1 word"
  tv_input_mute :: "1 word"
  logic_level :: "1 word"
  fnc_level :: "2 word"
  fnc_follow :: "1 word"
  fnc_dir :: "1 word"
  fast_blank :: "2 word"
  vcr_video_switch :: "3 word"
  rgb_gain :: "2 word"
  tv_video_switch :: "3 word"
  vcr_input_mute :: "1 word"
  sync_select :: "2 word"
  vin5_clamp :: "1 word"
  vin7_clamp :: "1 word"
  vin3_clamp :: "1 word"
  mixer_control :: "2 word"
  zcd :: "1 word"
  bidir_line_control :: "1 word"
  enable_vout6 :: "1 word"
  enable_vout5 :: "1 word"
  enable_vout4 :: "1 word"
  enable_vout3 :: "1 word"
  enable_vout2 :: "1 word"
  enable_vout1 :: "1 word"

text \<open>The structure in memory, and zeroed memory.\<close>

definition cxa2161_bytes :: "s_cxa2161_data \<Rightarrow> bytes" where
  "cxa2161_bytes d = map pack_byte
    [[(2, unat (audio_gain d)), (5, unat (volume_control d)), (1, unat (tv_audio_mute d))],
     [(1, unat (mono_output d)), (1, unat (tv_volume_bypass d)),
       (3, unat (tv_mono_switch d)), (2, unat (tv_audio_select d)), (1, unat (phono_bypass d))],
     [(1, unat (tv_audio_mute2 d)), (1, unat (output_limit d)),
       (3, unat (vcr_mono_switch d)), (2, unat (vcr_audio_select d)), (1, unat (overlay d))],
     [(1, unat (tv_input_mute d)), (1, unat (logic_level d)), (2, unat (fnc_level d)),
       (1, unat (fnc_follow d)), (1, unat (fnc_dir d)), (2, unat (fast_blank d))],
     [(3, unat (vcr_video_switch d)), (2, unat (rgb_gain d)), (3, unat (tv_video_switch d))],
     [(1, unat (vcr_input_mute d)), (2, unat (sync_select d)), (1, unat (vin5_clamp d)),
       (1, unat (vin7_clamp d)), (1, unat (vin3_clamp d)), (2, unat (mixer_control d))],
     [(1, unat (zcd d)), (1, unat (bidir_line_control d)), (1, unat (enable_vout6 d)),
       (1, unat (enable_vout5 d)), (1, unat (enable_vout4 d)), (1, unat (enable_vout3 d)),
       (1, unat (enable_vout2 d)), (1, unat (enable_vout1 d))]]"

definition cxa2161_zero :: s_cxa2161_data where
  "cxa2161_zero = \<lparr>
    audio_gain = 0, volume_control = 0, tv_audio_mute = 0, mono_output = 0,
    tv_volume_bypass = 0, tv_mono_switch = 0, tv_audio_select = 0, phono_bypass = 0,
    tv_audio_mute2 = 0, output_limit = 0, vcr_mono_switch = 0, vcr_audio_select = 0,
    overlay = 0, tv_input_mute = 0, logic_level = 0, fnc_level = 0, fnc_follow = 0,
    fnc_dir = 0, fast_blank = 0, vcr_video_switch = 0, rgb_gain = 0, tv_video_switch = 0,
    vcr_input_mute = 0, sync_select = 0, vin5_clamp = 0, vin7_clamp = 0, vin3_clamp = 0,
    mixer_control = 0, zcd = 0, bidir_line_control = 0, enable_vout6 = 0, enable_vout5 = 0,
    enable_vout4 = 0, enable_vout3 = 0, enable_vout2 = 0, enable_vout1 = 0\<rparr>"

definition CXA2161_DATA_SIZE :: nat where "CXA2161_DATA_SIZE = 7"

record cxa2161_state =
  cxa2161_data :: s_cxa2161_data
  tmp_cxa2161_data :: s_cxa2161_data
  cxa_s_old_src :: int

type_synonym cxa2161_env = "cxa2161_state \<times> i2c_log"

subsection \<open>Operations\<close>

definition cxa2161_set :: "i2c_client \<Rightarrow> cxa2161_env \<Rightarrow> int \<times> cxa2161_env" where
  "cxa2161_set client st =
     (let buffer = 0 # cxa2161_bytes (cxa2161_data (fst st));
          (n, l) = i2c_master_send client (take CXA2161_DATA_SIZE buffer) (snd st)
      in (if int CXA2161_DATA_SIZE \<noteq> n then - EFAULT else 0, fst st, l))"

text \<open>Change the register copy and send it.\<close>

definition cxa2161_put :: "i2c_client \<Rightarrow> (s_cxa2161_data \<Rightarrow> s_cxa2161_data) \<Rightarrow> cxa2161_env \<Rightarrow> int \<times> cxa2161_env" where
  "cxa2161_put client f st =
     cxa2161_set client ((fst st)\<lparr>cxa2161_data := f (cxa2161_data (fst st))\<rparr>, snd st)"

text \<open>Mono switches and output enables, as both branches of standby set them.\<close>

definition cxa2161_outputs :: "3 word \<Rightarrow> 1 word \<Rightarrow> s_cxa2161_data \<Rightarrow> s_cxa2161_data" where
  "cxa2161_outputs ms en d = d\<lparr>tv_mono_switch := ms, vcr_mono_switch := ms,
     enable_vout1 := en, enable_vout2 := en, enable_vout3 := en,
     enable_vout4 := en, enable_vout5 := en, enable_vout6 := en\<rparr>"

definition cxa2161_standby :: "i2c_client \<Rightarrow> int \<Rightarrow> cxa2161_env \<Rightarrow> int \<times> cxa2161_env" where
  "cxa2161_standby client type st =
     (let s = fst st; d = cxa2161_data s
      in if type < 0 \<or> type > 1 then (- EINVAL, st)
         else if type = 1 then
           (if enable_vout1 d = CXA2161_OUTPUT_DISABLED
            then cxa2161_set client
                   (s\<lparr>tmp_cxa2161_data := d,
                      cxa2161_data := cxa2161_outputs CXA2161_MONOSWITCH_NORMAL CXA2161_OUTPUT_ENABLED d\<rparr>, snd st)
            else (- EINVAL, st))
         else
           (if enable_vout1 d = CXA2161_OUTPUT_ENABLED
            then cxa2161_set client
                   (s\<lparr>tmp_cxa2161_data := d,
                      cxa2161_data := cxa2161_outputs CXA2161_MONOSWITCH_DEFAULT CXA2161_OUTPUT_DISABLED d\<rparr>, snd st)
            else (- EINVAL, st)))"

definition cxa2161_set_volume :: "i2c_client \<Rightarrow> int \<Rightarrow> cxa2161_env \<Rightarrow> int \<times> cxa2161_env" where
  "cxa2161_set_volume client vol st =
     (let c = vol
      in if c > 63 \<or> c < 0 then (- EINVAL, st)
         else cxa2161_put client (\<lambda>d. d\<lparr>volume_control := of_int (drop_bit 1 c)\<rparr>) st)"

definition cxa2161_get_volume :: "cxa2161_state \<Rightarrow> int" where
  "cxa2161_get_volume s = push_bit 1 (uint (volume_control (cxa2161_data s)))"

definition cxa2161_set_mute :: "i2c_client \<Rightarrow> int \<Rightarrow> cxa2161_env \<Rightarrow> int \<times> cxa2161_env" where
  "cxa2161_set_mute client type st =
     (if type < 0 \<or> type > 1 then (- EINVAL, st)
      else if type = AVS_MUTE then
        cxa2161_put client (\<lambda>d. d\<lparr>tv_audio_mute := CXA2161_AUDIO_MUTED, tv_audio_mute2 := CXA2161_AUDIO_MUTED\<rparr>) st
      else
        cxa2161_put client (\<lambda>d. d\<lparr>tv_audio_mute := CXA2161_AUDIO_ACTIVE, tv_audio_mute2 := CXA2161_AUDIO_ACTIVE\<rparr>) st)"

definition cxa2161_get_mute :: "cxa2161_state \<Rightarrow> int" where
  "cxa2161_get_mute s =
     (if tv_audio_mute (cxa2161_data s) = CXA2161_AUDIO_MUTED then AVS_MUTE else AVS_UNMUTE)"

definition cxa2161_mode_regs :: "3 word \<Rightarrow> 2 word \<Rightarrow> cxa2161_state \<Rightarrow> cxa2161_state" where
  "cxa2161_mode_regs src fb s =
     (let s1 = (if tv_video_switch (cxa2161_data s) = CXA2161_TV_VIDEOSWITCH_VCR_RGB_SVIDEO
                then s\<lparr>cxa_s_old_src := uint src\<rparr>
                else s\<lparr>cxa2161_data := cxa2161_data s\<lparr>tv_video_switch := src\<rparr>\<rparr>)
      in s1\<lparr>cxa2161_data := cxa2161_data s1\<lparr>fast_blank := fb\<rparr>\<rparr>)"

definition cxa2161_set_mode :: "i2c_client \<Rightarrow> int \<Rightarrow> cxa2161_env \<Rightarrow> int \<times> cxa2161_env" where
  "cxa2161_set_mode client vol st =
     (let s = fst st
      in if vol = SAA_MODE_RGB then
           cxa2161_set client
             (cxa2161_mode_regs CXA2161_TV_VIDEOSWITCH_DIGITALENCODER_RGB_CVBS CXA2161_FASTBLANK_ON s, snd st)
         else if vol = SAA_MODE_FBAS then
           cxa2161_set client
             (cxa2161_mode_regs CXA2161_TV_VIDEOSWITCH_DIGITALENCODER_RGB_CVBS CXA2161_FASTBLANK_OFF s, snd st)
         else if vol = SAA_MODE_SVIDEO then
           cxa2161_set client
             (cxa2161_mode_regs CXA2161_TV_VIDEOSWITCH_DIGITALENCODER_SVIDEO CXA2161_FASTBLANK_OFF s, snd st)
         else (- EINVAL, st))"

definition cxa2161_set_encoder :: "i2c_client \<Rightarrow> int \<Rightarrow> cxa2161_env \<Rightarrow> int \<times> cxa2161_env" where
  "cxa2161_set_encoder client vol st = (0, st)"

definition cxa2161_set_wss :: "i2c_client \<Rightarrow> int \<Rightarrow> cxa2161_env \<Rightarrow> int \<times> cxa2161_env" where
  "cxa2161_set_wss client vol st =
     (if vol = SAA_WSS_43F then cxa2161_put client (\<lambda>d. d\<lparr>fnc_level := CXA2161_FNCLEVEL_WSS_4_3\<rparr>) st
      else if vol = SAA_WSS_169F then cxa2161_put client (\<lambda>d. d\<lparr>fnc_level := CXA2161_FNCLEVEL_WSS_16_9\<rparr>) st
      else if vol = SAA_WSS_OFF then cxa2161_put client (\<lambda>d. d\<lparr>fnc_level := CXA2161_FNCLEVEL_INTERNAL\<rparr>) st
      else (- EINVAL, st))"

definition cxa2161_src_sel :: "i2c_client \<Rightarrow> int \<Rightarrow> cxa2161_env \<Rightarrow> int \<times> cxa2161_env" where
  "cxa2161_src_sel client src st =
     (let s = fst st
      in if src = SAA_SRC_ENC then
           cxa2161_put client
             (\<lambda>d. d\<lparr>tv_video_switch := of_int (cxa_s_old_src s),
                    vcr_video_switch := CXA2161_VCR_VIDEOSWITCH_DIGITALENCODER_SVIDEO_CVBS\<rparr>) st
         else if src = SAA_SRC_SCART then
           cxa2161_put client
             (\<lambda>d. d\<lparr>tv_video_switch := CXA2161_TV_VIDEOSWITCH_VCR_RGB_SVIDEO,
                    vcr_video_switch := CXA2161_VCR_VIDEOSWITCH_MUTE\<rparr>)
             (s\<lparr>cxa_s_old_src := uint (tv_video_switch (cxa2161_data s))\<rparr>, snd st)
         else (- EINVAL, st))"

text \<open>The AVSIOSET and the SAA commands, which both interfaces treat alike.\<close>

definition cxa2161_avsioset :: "i2c_client \<Rightarrow> u32 \<Rightarrow> int \<Rightarrow> cxa2161_env \<Rightarrow> int \<times> cxa2161_env" where
  "cxa2161_avsioset client cmd val st =
     (if cmd = AVSIOSVOL then cxa2161_set_volume client val st
      else if cmd = AVSIOSMUTE then cxa2161_set_mute client val st
      else if cmd = AVSIOSTANDBY then cxa2161_standby client val st
      else (- EINVAL, st))"

definition cxa2161_saa :: "i2c_client \<Rightarrow> u32 \<Rightarrow> int \<Rightarrow> cxa2161_env \<Rightarrow> int \<times> cxa2161_env" where
  "cxa2161_saa client cmd val st =
     (if cmd = SAAIOSMODE then cxa2161_set_mode client val st
      else if cmd = SAAIOSENC then cxa2161_set_encoder client val st
      else if cmd = SAAIOSWSS then cxa2161_set_wss client val st
      else if cmd = SAAIOSSRCSEL then cxa2161_src_sel client val st
      else (- EINVAL, st))"

text \<open>In the ioctl, \<open>AVSIOGVOL\<close> has no \<open>break\<close> and runs on into \<open>AVSIOGMUTE\<close>.\<close>

definition cxa2161_command ::
    "i2c_client \<Rightarrow> u32 \<Rightarrow> int option \<Rightarrow> cxa2161_env \<Rightarrow> int \<times> int option \<times> cxa2161_env" where
  "cxa2161_command client cmd arg st =
     (if cmd AND AVSIOSET \<noteq> 0 then
        (case arg of None \<Rightarrow> (- EFAULT, None, st)
         | Some val \<Rightarrow> no_out (cxa2161_avsioset client cmd val st))
      else if cmd AND AVSIOGET \<noteq> 0 then
        (if cmd = AVSIOGVOL \<or> cmd = AVSIOGMUTE then
           (let val = (if cmd = AVSIOGVOL then cxa2161_get_volume (fst st) else 0);
                val = cxa2161_get_mute (fst st);
                (rc, out) = put_user val arg
            in (rc, out, st))
         else (- EINVAL, None, st))
      else
        (case arg of None \<Rightarrow> (- EFAULT, None, st)
         | Some val \<Rightarrow> no_out (cxa2161_saa client cmd val st)))"

definition cxa2161_command_kernel ::
    "i2c_client \<Rightarrow> u32 \<Rightarrow> int \<Rightarrow> cxa2161_env \<Rightarrow> int \<times> int option \<times> cxa2161_env" where
  "cxa2161_command_kernel client cmd arg st =
     (if cmd AND AVSIOSET \<noteq> 0 then no_out (cxa2161_avsioset client cmd arg st)
      else if cmd AND AVSIOGET \<noteq> 0 then
        (if cmd = AVSIOGVOL then (0, Some (cxa2161_get_volume (fst st)), st)
         else if cmd = AVSIOGMUTE then (0, Some (cxa2161_get_mute (fst st)), st)
         else (- EINVAL, None, st))
      else no_out (cxa2161_saa client cmd arg st))"

definition cxa2161_init :: "i2c_client \<Rightarrow> cxa2161_env \<Rightarrow> int \<times> cxa2161_env" where
  "cxa2161_init client st =
     cxa2161_set client ((fst st)\<lparr>
       cxa_s_old_src := uint CXA2161_TV_VIDEOSWITCH_DIGITALENCODER_RGB_CVBS,
       cxa2161_data := cxa2161_zero\<lparr>
      tv_video_switch := CXA2161_TV_VIDEOSWITCH_DIGITALENCODER_RGB_CVBS,
      vcr_video_switch := CXA2161_VCR_VIDEOSWITCH_DIGITALENCODER_SVIDEO_CVBS,
      fast_blank := CXA2161_FASTBLANK_OFF, rgb_gain := CXA2161_RGBGAIN_0,
      mixer_control := CXA2161_MIXERCONTROL_DEFAULT, vin5_clamp := CXA2161_CLAMP_DEFAULT,
      vin7_clamp := CXA2161_CLAMP_DEFAULT, vin3_clamp := CXA2161_CLAMP_DEFAULT,
      sync_select := CXA2161_SYNCSELECT_VIN8, enable_vout1 := CXA2161_OUTPUT_ENABLED,
      enable_vout2 := CXA2161_OUTPUT_ENABLED, enable_vout3 := CXA2161_OUTPUT_ENABLED,
      enable_vout4 := CXA2161_OUTPUT_ENABLED, enable_vout5 := CXA2161_OUTPUT_ENABLED,
      enable_vout6 := CXA2161_OUTPUT_ENABLED, bidir_line_control := CXA2161_BIDIRLINE_OFF,
      tv_audio_select := CXA2161_AUDIOSELECT_LRIN4,
      vcr_audio_select := CXA2161_AUDIOSELECT_LRIN4,
      tv_mono_switch := CXA2161_MONOSWITCH_NORMAL,
      vcr_mono_switch := CXA2161_MONOSWITCH_NORMAL, phono_bypass := CXA2161_VOLUMEBYPASS_OFF,
      tv_volume_bypass := CXA2161_VOLUMEBYPASS_OFF, mono_output := CXA2161_MONOOUTPUT_TV,
      volume_control := CXA2161_VOLUMECONTROL_DEFAULT, audio_gain := CXA2161_AUDIOGAIN_DEFAULT,
      overlay := CXA2161_OVERLAY_OFF, zcd := CXA2161_ZEROCROSS_ON,
      tv_input_mute := CXA2161_INPUT_ACTIVE, vcr_input_mute := CXA2161_INPUT_ACTIVE,
      output_limit := CXA2161_OUTPUTLIMIT_OFF, fnc_follow := CXA2161_FNCFOLLOW_ON,
      fnc_dir := CXA2161_FNCDIR_OUT, fnc_level := CXA2161_FNCLEVEL_INTERNAL,
      logic_level := CXA2161_LOGICLEVEL_CURRENTSINK\<rparr>\<rparr>, snd st)"

subsection \<open>Specification vocabulary\<close>

definition cxa2161_image :: "cxa2161_state \<Rightarrow> bytes" where
  "cxa2161_image s = take CXA2161_DATA_SIZE (0 # cxa2161_bytes (cxa2161_data s))"

definition cxa2161_request ::
    "i2c_client \<Rightarrow> cxa2161_env \<Rightarrow> avs_request \<Rightarrow> (int \<times> int option \<times> cxa2161_env) option" where
  "cxa2161_request client st r = Some (case r of
       User cmd arg \<Rightarrow> cxa2161_command client cmd arg st
     | Kernel cmd arg \<Rightarrow> cxa2161_command_kernel client cmd arg st)"

subsection \<open>Lemmas\<close>

lemmas cxa2161_const_defs =
    CXA2161_TV_VIDEOSWITCH_DIGITALENCODER_RGB_CVBS_def
    CXA2161_TV_VIDEOSWITCH_DIGITALENCODER_SVIDEO_def
    CXA2161_TV_VIDEOSWITCH_VCR_RGB_SVIDEO_def
    CXA2161_VCR_VIDEOSWITCH_DIGITALENCODER_SVIDEO_CVBS_def CXA2161_VCR_VIDEOSWITCH_MUTE_def
    CXA2161_RGBGAIN_0_def CXA2161_MIXERCONTROL_DEFAULT_def CXA2161_CLAMP_DEFAULT_def
    CXA2161_SYNCSELECT_VIN8_def CXA2161_OUTPUT_DISABLED_def CXA2161_OUTPUT_ENABLED_def
    CXA2161_BIDIRLINE_OFF_def CXA2161_AUDIOSELECT_LRIN4_def CXA2161_MONOSWITCH_NORMAL_def
    CXA2161_MONOSWITCH_DEFAULT_def CXA2161_VOLUMEBYPASS_OFF_def CXA2161_MONOOUTPUT_TV_def
    CXA2161_VOLUMECONTROL_DEFAULT_def CXA2161_AUDIOGAIN_N6DB_def
    CXA2161_AUDIOGAIN_DEFAULT_def CXA2161_OVERLAY_OFF_def CXA2161_AUDIO_MUTED_def
    CXA2161_AUDIO_ACTIVE_def CXA2161_ZEROCROSS_ON_def CXA2161_INPUT_ACTIVE_def
    CXA2161_OUTPUTLIMIT_OFF_def CXA2161_FASTBLANK_OFF_def CXA2161_FASTBLANK_ON_def
    CXA2161_FNCFOLLOW_ON_def CXA2161_FNCDIR_OUT_def CXA2161_FNCLEVEL_INTERNAL_def
    CXA2161_FNCLEVEL_WSS_16_9_def CXA2161_FNCLEVEL_WSS_4_3_def
    CXA2161_LOGICLEVEL_CURRENTSINK_def

lemma length_cxa2161_image [simp]: "length (cxa2161_image s) = 7"
  by (simp add: cxa2161_image_def cxa2161_bytes_def CXA2161_DATA_SIZE_def)

lemma cxa2161_set_eq:
  "cxa2161_set client (s, l) =
     (if i2c_send client l (cxa2161_image s) = 7 then 0 else - EFAULT, s, l @ [cxa2161_image s])"
  by (simp add: cxa2161_set_def cxa2161_image_def i2c_master_send_def CXA2161_DATA_SIZE_def)

lemma cxa2161_set_sends [simp]:
  "sends cxa2161_image client st (cxa2161_set client (s', snd st))"
  "sends cxa2161_image client st (cxa2161_put client f st)"
  "sends cxa2161_image client st (cxa2161_put client f (s', snd st))"
  by (simp_all add: sends_def cxa2161_put_def cxa2161_set_eq)

lemmas cxa2161_op_defs = cxa2161_standby_def cxa2161_set_volume_def cxa2161_set_mute_def
  cxa2161_set_mode_def cxa2161_set_encoder_def cxa2161_set_wss_def cxa2161_src_sel_def

lemma cxa2161_ops_send [avs_simps]:
  "sends cxa2161_image client st (cxa2161_standby client val st)"
  "sends cxa2161_image client st (cxa2161_set_volume client val st)"
  "sends cxa2161_image client st (cxa2161_set_mute client val st)"
  "sends cxa2161_image client st (cxa2161_set_mode client val st)"
  "sends cxa2161_image client st (cxa2161_set_encoder client val st)"
  "sends cxa2161_image client st (cxa2161_set_wss client val st)"
  "sends cxa2161_image client st (cxa2161_src_sel client val st)"
  by (simp_all add: cxa2161_op_defs Let_def)

lemma cxa2161_dispatch_sends [avs_simps]:
  "sends cxa2161_image client st (cxa2161_avsioset client cmd val st)"
  "sends cxa2161_image client st (cxa2161_saa client cmd val st)"
  by (simp_all add: cxa2161_avsioset_def cxa2161_saa_def avs_simps)

lemma cxa2161_request_sends:
  "cxa2161_request client st r = Some (rc, out, st') \<Longrightarrow> sends cxa2161_image client st (rc, st')"
  using cxa2161_dispatch_sends [of client st]
  by (auto simp: cxa2161_request_def cxa2161_command_def cxa2161_command_kernel_def no_out_def put_user_def
      Let_def split: avs_request.splits if_splits option.splits)

interpretation cxa2161: register_chip cxa2161_request cxa2161_image "\<lambda>r. True"
  by unfold_locales (simp add: cxa2161_request_def, rule cxa2161_request_sends)

lemma cxa2161_kernel_calls:
  "cxa2161_request client st (Kernel AVSIOSVOL v) = Some (no_out (cxa2161_set_volume client v st))"
  "cxa2161_request client st (Kernel AVSIOGVOL v) = Some (0, Some (cxa2161_get_volume (fst st)), st)"
  "cxa2161_request client st (Kernel AVSIOSMUTE v) = Some (no_out (cxa2161_set_mute client v st))"
  "cxa2161_request client st (Kernel AVSIOGMUTE v) = Some (0, Some (cxa2161_get_mute (fst st)), st)"
  "cxa2161_request client st (Kernel AVSIOSTANDBY v) = Some (no_out (cxa2161_standby client v st))"
  by (simp_all add: cxa2161_request_def cxa2161_command_kernel_def cxa2161_avsioset_def avs_cmd_defs)

lemma cxa2161_volume_word: "0 \<le> v \<Longrightarrow> v \<le> 63 \<Longrightarrow> push_bit 1 (uint (of_int (drop_bit 1 v) :: 5 word)) = v div 2 * 2"
  by (simp add: unsigned_of_int take_bit_int_eq_self drop_bit_eq_div push_bit_eq_mult)

interpretation cxa2161: volume_chip cxa2161_request cxa2161_image "\<lambda>r. True" "2" True
proof
  fix v client st rc out st' a
  assume "0 \<le> v" "v \<le> 63" "cxa2161_request client st (Kernel AVSIOSVOL v) = Some (rc, out, st')"
  then show "out = None \<and> cxa2161_request client st' (Kernel AVSIOGVOL a) = Some (0, Some (v div 2 * 2), st')"
    using cxa2161_volume_word
    by (auto simp: cxa2161_kernel_calls cxa2161_set_volume_def cxa2161_get_volume_def cxa2161_put_def
        cxa2161_set_eq no_out_def)
qed (auto simp: cxa2161_kernel_calls cxa2161_set_volume_def no_out_def)

lemma cxa2161_image_eq: "cxa2161_image s = 0 # take 6 (cxa2161_bytes (cxa2161_data s))"
  by (simp add: cxa2161_image_def CXA2161_DATA_SIZE_def)

lemma cxa2161_init_eq:
  "\<exists>rc s0. cxa2161_init client (s, l) = (rc, s0, l @ [cxa2161_image s0]) \<and>
     cxa2161_image s0 = [0, 0x0C, 0x60, 0x60, 0x31, 0x01, 0xC1] \<and>
     cxa2161_bytes (cxa2161_data s0) ! 6 = 0xFF \<and> enable_vout1 (cxa2161_data s0) = 1 \<and>
     cxa2161_get_mute s0 = AVS_MUTE"
  by (simp add: cxa2161_init_def cxa2161_set_eq cxa2161_image_def cxa2161_bytes_def CXA2161_DATA_SIZE_def
      cxa2161_zero_def cxa2161_const_defs cxa2161_get_mute_def pack_byte_def)

subsection \<open>Properties\<close>

text \<open>
  The bus carries the CXA2161 registers up to the sixth: after \<open>cxa2161_init\<close> every sequence
  of requests returns, and then the last message on the bus is the address byte and the first six
  of the seven registers of the copy.
\<close>

theorem cxa2161_bus_image:
  "last (snd (snd (cxa2161_init client (s, l)))) = [0, 0x0C, 0x60, 0x60, 0x31, 0x01, 0xC1] \<and>
   (\<exists>res st. run_requests (cxa2161_request client) (snd (cxa2161_init client (s, l))) rs = Some (res, st) \<and>
      last (snd st) = 0 # take 6 (cxa2161_bytes (cxa2161_data (fst st))))"
proof -
  obtain rc s0 where s0: "cxa2161_init client (s, l) = (rc, s0, l @ [cxa2161_image s0])"
      "cxa2161_image s0 = [0, 0x0C, 0x60, 0x60, 0x31, 0x01, 0xC1]"
    using cxa2161_init_eq by blast
  obtain res st where run: "run_requests (cxa2161_request client) (s0, l @ [cxa2161_image s0]) rs = Some (res, st)"
    using cxa2161.run_defined [of rs client "(s0, l @ [cxa2161_image s0])"] by (auto simp: list.pred_True)
  then show ?thesis using s0 cxa2161.run_coherent [OF run] by (simp add: cxa2161_image_eq)
qed

text \<open>
  Standby of the CXA2161 is reversed and has no effect on the outputs: after
  \<open>cxa2161_init\<close>, entering standby is refused; leaving it disables all six video outputs in the
  register copy, but the message sent does not contain the output register.
\<close>

theorem cxa2161_standby_reversed:
  "\<exists>rc s0 l0 rc1 s1. cxa2161_init client (s, l) = (rc, s0, l0) \<and>
     cxa2161_command_kernel client AVSIOSTANDBY 1 (s0, l0) = (- EINVAL, None, s0, l0) \<and>
     cxa2161_command_kernel client AVSIOSTANDBY 0 (s0, l0) =
       (rc1, None, s1, l0 @ [0 # take 6 (cxa2161_bytes (cxa2161_data s1))]) \<and>
     cxa2161_bytes (cxa2161_data s0) ! 6 = 0xFF \<and> cxa2161_bytes (cxa2161_data s1) ! 6 = 0x03 \<and>
     length (cxa2161_bytes (cxa2161_data s1)) = 7"
proof -
  have "\<exists>rc s0 l0 rc1 s1. cxa2161_init client (s, l) = (rc, s0, l0) \<and>
     cxa2161_command_kernel client AVSIOSTANDBY 1 (s0, l0) = (- EINVAL, None, s0, l0) \<and>
     cxa2161_command_kernel client AVSIOSTANDBY 0 (s0, l0) = (rc1, None, s1, l0 @ [cxa2161_image s1]) \<and>
     cxa2161_bytes (cxa2161_data s0) ! 6 = 0xFF \<and> cxa2161_bytes (cxa2161_data s1) ! 6 = 0x03 \<and>
     length (cxa2161_bytes (cxa2161_data s1)) = 7"
    by (simp add: cxa2161_init_def cxa2161_set_eq cxa2161_command_kernel_def cxa2161_avsioset_def
        cxa2161_standby_def cxa2161_outputs_def cxa2161_zero_def cxa2161_const_defs cxa2161_bytes_def
        pack_byte_def no_out_def Let_def avs_cmd_defs)
  then show ?thesis by (simp only: cxa2161_image_eq)
qed

end
