(* ===== verification/Smartcard_Atr.thy ===== *)
theory Smartcard_Atr
  imports Prelude "HOL-Library.Monad_Syntax"
begin

text \<open>
  \<open>src/local_src/driver/smartcard/atr.c\<close>: the answer to reset of an ISO 7816 card. \<open>ATR_InitFromArray\<close>
  parses the bytes of the card into the structure \<open>ATR\<close>, the getters read it, \<open>ATR_GetRaw\<close> writes
  it back. An operation returns its C return code with the structure; \<open>None\<close> means that the code
  accesses an array outside its bounds. The caller's structure is a parameter, since the parser
  leaves the entries it does not reach as they are. A getter with an output parameter returns it as
  an option that is \<open>None\<close> when nothing is stored.
\<close>

subsection \<open>Data\<close>

definition ATR_OK :: int where "ATR_OK = 0"
definition ATR_NOT_FOUND :: int where "ATR_NOT_FOUND = 1"
definition ATR_MALFORMED :: int where "ATR_MALFORMED = 2"

definition ATR_MAX_SIZE :: nat where "ATR_MAX_SIZE = 33"
definition ATR_MAX_HISTORICAL :: nat where "ATR_MAX_HISTORICAL = 15"
definition ATR_MAX_PROTOCOLS :: nat where "ATR_MAX_PROTOCOLS = 7"
definition ATR_MAX_IB :: nat where "ATR_MAX_IB = 4"
definition ATR_CONVENTION_DIRECT :: int where "ATR_CONVENTION_DIRECT = 0"
definition ATR_CONVENTION_INVERSE :: int where "ATR_CONVENTION_INVERSE = 1"
definition ATR_PROTOCOL_TYPE_T0 :: byte where "ATR_PROTOCOL_TYPE_T0 = 0"
definition ATR_INTERFACE_BYTE_TA :: nat where "ATR_INTERFACE_BYTE_TA = 0"
definition ATR_INTERFACE_BYTE_TB :: nat where "ATR_INTERFACE_BYTE_TB = 1"
definition ATR_INTERFACE_BYTE_TC :: nat where "ATR_INTERFACE_BYTE_TC = 2"
definition ATR_INTERFACE_BYTE_TD :: nat where "ATR_INTERFACE_BYTE_TD = 3"
definition ATR_PARAMETER_F :: int where "ATR_PARAMETER_F = 0"
definition ATR_PARAMETER_D :: int where "ATR_PARAMETER_D = 1"
definition ATR_PARAMETER_I :: int where "ATR_PARAMETER_I = 2"
definition ATR_PARAMETER_P :: int where "ATR_PARAMETER_P = 3"
definition ATR_PARAMETER_N :: int where "ATR_PARAMETER_N = 4"
definition ATR_INTEGER_VALUE_FI :: int where "ATR_INTEGER_VALUE_FI = 0"
definition ATR_INTEGER_VALUE_DI :: int where "ATR_INTEGER_VALUE_DI = 1"
definition ATR_INTEGER_VALUE_II :: int where "ATR_INTEGER_VALUE_II = 2"
definition ATR_INTEGER_VALUE_PI1 :: int where "ATR_INTEGER_VALUE_PI1 = 3"
definition ATR_INTEGER_VALUE_N :: int where "ATR_INTEGER_VALUE_N = 4"
definition ATR_INTEGER_VALUE_PI2 :: int where "ATR_INTEGER_VALUE_PI2 = 5"
definition ATR_DEFAULT_F :: u32 where "ATR_DEFAULT_F = 372"
definition ATR_DEFAULT_D :: u32 where "ATR_DEFAULT_D = 1000000"
definition ATR_DEFAULT_I :: u32 where "ATR_DEFAULT_I = 50"
definition ATR_DEFAULT_N :: u32 where "ATR_DEFAULT_N = 0"
definition ATR_DEFAULT_P :: u32 where "ATR_DEFAULT_P = 5"

definition atr_fs_table :: "u32 list" where
  "atr_fs_table = [3570000, 5000000, 6000000, 8000000, 12000000, 16000000, 20000000, 0, 0,
     5000000, 7500000, 10000000, 15000000, 20000000, 0, 0]"

definition atr_num_ib_table :: "nat list" where
  "atr_num_ib_table = [0, 1, 1, 2, 1, 2, 2, 3, 1, 2, 2, 3, 2, 3, 3, 4]"

definition atr_f_table :: "u32 list" where
  "atr_f_table = [372, 372, 558, 744, 1116, 1488, 1860, 0, 0, 512, 768, 1024, 1536, 2048, 0, 0]"

definition atr_d_table :: "u32 list" where
  "atr_d_table = [0, 1000000, 2000000, 4000000, 8000000, 16000000, 32000000, 64000000, 12000000,
     20000000, 500000, 250000, 125000, 62500, 31250, 15625]"

definition atr_i_table :: "u32 list" where "atr_i_table = [25, 50, 100, 0]"

definition INVERT_BYTE :: "byte \<Rightarrow> byte" where
  "INVERT_BYTE a =
     (push_bit 7 a AND 0x80) OR (push_bit 5 a AND 0x40) OR (push_bit 3 a AND 0x20) OR
     (push_bit 1 a AND 0x10) OR (drop_bit 1 a AND 0x08) OR (drop_bit 3 a AND 0x04) OR
     (drop_bit 5 a AND 0x02) OR (drop_bit 7 a AND 0x01)"

record atr_ib =
  ib_value :: byte
  ib_present :: bool

record ATR =
  atr_length :: nat
  TS :: byte
  T0 :: byte
  ib :: "atr_ib list list"
  TCK :: atr_ib
  pn :: nat
  hb :: bytes
  hbn :: nat

subsection \<open>Parsing\<close>

definition GetClockRate :: "u32 \<Rightarrow> u32" where
  "GetClockRate mhz =
     (if mhz = 357 \<or> mhz = 358 then 372 * 9600 else if mhz = 368 then 384 * 9600 else mhz * 10000)"

definition put_ib :: "nat \<Rightarrow> nat \<Rightarrow> (atr_ib \<Rightarrow> atr_ib) \<Rightarrow> ATR \<Rightarrow> ATR option" where
  "put_ib p c f atr =
     (if p < length (ib atr) \<and> c < length (ib atr ! p)
      then Some (atr\<lparr>ib := (ib atr)[p := (ib atr ! p)[c := f (ib atr ! p ! c)]]\<rparr>) else None)"

definition get_ib :: "nat \<Rightarrow> nat \<Rightarrow> ATR \<Rightarrow> atr_ib option" where
  "get_ib p c atr = (if p < length (ib atr) \<and> c < length (ib atr ! p) then Some (ib atr ! p ! c) else None)"

definition buf_get :: "bytes \<Rightarrow> nat \<Rightarrow> byte option" where
  "buf_get buffer i = (if i < length buffer then Some (buffer ! i) else None)"

text \<open>One interface byte: present when the mask says so, taken from the next byte of the buffer.\<close>

definition take_ib :: "bytes \<Rightarrow> nat \<Rightarrow> nat \<Rightarrow> bool \<Rightarrow> nat \<times> ATR \<Rightarrow> (nat \<times> ATR) option" where
  "take_ib buffer p c here s =
     (let (pointer, atr) = s in
      if here then do {
        let pointer = pointer + 1;
        v \<leftarrow> buf_get buffer pointer;
        atr \<leftarrow> put_ib p c (\<lambda>_. \<lparr>ib_value = v, ib_present = True\<rparr>) atr;
        Some (pointer, atr)
      } else do {
        atr \<leftarrow> put_ib p c (\<lambda>x. x\<lparr>ib_present := False\<rparr>) atr;
        Some (pointer, atr)
      })"

text \<open>
  The loop over the interface bytes. \<open>Inl\<close> is a return with \<open>ATR_MALFORMED\<close>, \<open>Inr\<close> leaves the loop.
\<close>

function atr_loop :: "bytes \<Rightarrow> nat \<Rightarrow> byte \<Rightarrow> nat \<Rightarrow> nat \<times> ATR \<Rightarrow> (ATR + nat \<times> nat \<times> ATR) option" where
  "atr_loop buffer len TDi p s =
     (let (pointer, atr) = s in
      if pointer < len then
        (if pointer + atr_num_ib_table ! unat (drop_bit 4 (0xF0 AND TDi)) \<ge> len then Some (Inl atr)
         else
           (case take_ib buffer p ATR_INTERFACE_BYTE_TA (TDi OR 0xEF = 0xFF) s of None \<Rightarrow> None
            | Some s \<Rightarrow>
           (case take_ib buffer p ATR_INTERFACE_BYTE_TB (TDi OR 0xDF = 0xFF) s of None \<Rightarrow> None
            | Some s \<Rightarrow>
           (case take_ib buffer p ATR_INTERFACE_BYTE_TC (TDi OR 0xBF = 0xFF) s of None \<Rightarrow> None
            | Some s \<Rightarrow>
           (case take_ib buffer p ATR_INTERFACE_BYTE_TD (TDi OR 0x7F = 0xFF) s of None \<Rightarrow> None
            | Some (pointer, atr) \<Rightarrow>
                if TDi OR 0x7F = 0xFF then
                  (case buf_get buffer pointer of None \<Rightarrow> None
                   | Some TDi \<Rightarrow>
                       let atr = atr\<lparr>TCK := (TCK atr)\<lparr>ib_present := (TDi AND 0x0F \<noteq> ATR_PROTOCOL_TYPE_T0)\<rparr>\<rparr>
                       in if p \<ge> ATR_MAX_PROTOCOLS then Some (Inl atr)
                          else atr_loop buffer len TDi (p + 1) (pointer, atr))
                else Some (Inr (pointer, p, atr)))))))
      else Some (Inr (pointer, p, atr)))"
  by pat_completeness auto
termination
proof (relation "measure (\<lambda>(buffer, len, TDi, p, pointer, atr). len - pointer)", goal_cases)
  case (2 buffer len TDi p s pointer atr s1 s2 s3 s4 pointer' atr' TDi' atr'')
  have step: "take_ib buffer p c here x = Some y \<Longrightarrow> fst y = fst x + (if here then 1 else 0)" for c here x y
    by (cases x) (auto simp: take_ib_def bind_eq_Some_conv split: if_splits)
  show ?case using 2 by (auto dest!: step split: if_splits)
qed simp

declare atr_loop.simps [simp del]

text \<open>What follows the loop: protocol count, historical bytes, check byte and the checks of TA1 and TB1.\<close>

definition atr_finish :: "bytes \<Rightarrow> nat \<Rightarrow> nat \<Rightarrow> nat \<Rightarrow> ATR \<Rightarrow> (int \<times> ATR) option" where
  "atr_finish buffer len pointer p atr =
     (let atr = atr\<lparr>pn := p + 1\<rparr>
      in if pointer + hbn atr \<ge> len then Some (ATR_MALFORMED, atr)
         else if hbn atr > length (hb atr) then None
         else
           (let atr = atr\<lparr>hb := take (hbn atr) (drop (pointer + 1) buffer) @ drop (hbn atr) (hb atr)\<rparr>;
                pointer = pointer + hbn atr
            in if ib_present (TCK atr) \<and> pointer + 1 \<ge> len then Some (ATR_MALFORMED, atr)
               else
                 (let pointer = (if ib_present (TCK atr) then pointer + 1 else pointer);
                      atr = (if ib_present (TCK atr)
                             then atr\<lparr>TCK := (TCK atr)\<lparr>ib_value := buffer ! pointer\<rparr>\<rparr> else atr);
                      atr = atr\<lparr>atr_length := pointer + 1\<rparr>
                  in if pn atr = 1
                     then do {
                       ta \<leftarrow> get_ib p ATR_INTERFACE_BYTE_TA atr;
                       tb \<leftarrow> get_ib p ATR_INTERFACE_BYTE_TB atr;
                       (if ib_present ta \<and> atr_fs_table ! unat (drop_bit 4 (ib_value ta AND 0xF0)) = 0
                        then Some (ATR_MALFORMED, atr)
                        else if ib_present tb \<and> ib_value tb > 0x80 then Some (ATR_MALFORMED, atr)
                        else Some (ATR_OK, atr))
                     }
                     else Some (ATR_OK, atr))))"

definition ATR_InitFromArray :: "ATR \<Rightarrow> bytes \<Rightarrow> nat \<Rightarrow> (int \<times> ATR) option" where
  "ATR_InitFromArray atr atr_buffer len =
     (if len < 2 then Some (ATR_MALFORMED, atr)
      else if len > ATR_MAX_SIZE \<or> len > length atr_buffer then None
      else
        (let buffer = (if atr_buffer ! 0 = 0x03 then map (\<lambda>b. NOT (INVERT_BYTE b)) (take len atr_buffer)
                       else take len atr_buffer);
             TDi = buffer ! 1;
             atr = atr\<lparr>TS := buffer ! 0, T0 := TDi, hbn := unat (TDi AND 0x0F),
                        TCK := (TCK atr)\<lparr>ib_present := False\<rparr>\<rparr>
         in case atr_loop buffer len TDi 0 (1, atr) of
              None \<Rightarrow> None
            | Some (Inl atr) \<Rightarrow> Some (ATR_MALFORMED, atr)
            | Some (Inr (pointer, p, atr)) \<Rightarrow> atr_finish buffer len pointer p atr))"

subsection \<open>Getters\<close>

definition ATR_GetConvention :: "ATR \<Rightarrow> int \<times> int option" where
  "ATR_GetConvention atr =
     (if TS atr = 0x3B then (ATR_OK, Some ATR_CONVENTION_DIRECT)
      else if TS atr = 0x3F then (ATR_OK, Some ATR_CONVENTION_INVERSE)
      else (ATR_MALFORMED, None))"

definition ATR_GetSize :: "ATR \<Rightarrow> int \<times> nat" where
  "ATR_GetSize atr = (ATR_OK, atr_length atr)"

definition ATR_GetNumberOfProtocols :: "ATR \<Rightarrow> int \<times> nat" where
  "ATR_GetNumberOfProtocols atr = (ATR_OK, pn atr)"

definition ATR_GetProtocolType :: "ATR \<Rightarrow> nat \<Rightarrow> (int \<times> byte option) option" where
  "ATR_GetProtocolType atr number_protocol =
     (if number_protocol > pn atr \<or> number_protocol < 2 then Some (ATR_NOT_FOUND, None)
      else do {
        td \<leftarrow> get_ib (number_protocol - 2) ATR_INTERFACE_BYTE_TD atr;
        Some (ATR_OK, Some (if ib_present td then ib_value td AND 0x0F else ATR_PROTOCOL_TYPE_T0))
      })"

definition ATR_GetInterfaceByte :: "ATR \<Rightarrow> nat \<Rightarrow> nat \<Rightarrow> (int \<times> byte option) option" where
  "ATR_GetInterfaceByte atr number character =
     (if number > pn atr \<or> number < 1 then Some (ATR_NOT_FOUND, None)
      else do {
        x \<leftarrow> get_ib (number - 1) character atr;
        Some (if ib_present x \<and> (character = ATR_INTERFACE_BYTE_TA \<or> character = ATR_INTERFACE_BYTE_TB
                 \<or> character = ATR_INTERFACE_BYTE_TC \<or> character = ATR_INTERFACE_BYTE_TD)
              then (ATR_OK, Some (ib_value x)) else (ATR_NOT_FOUND, None))
      })"

text \<open>The value of an interface byte under a mask and shift, or \<open>ATR_NOT_FOUND\<close>.\<close>

definition ib_field :: "nat \<Rightarrow> nat \<Rightarrow> byte \<Rightarrow> nat \<Rightarrow> ATR \<Rightarrow> (int \<times> byte option) option" where
  "ib_field p c m shift atr = do {
     x \<leftarrow> get_ib p c atr;
     Some (if ib_present x then (ATR_OK, Some (drop_bit shift (ib_value x AND m))) else (ATR_NOT_FOUND, None))
   }"

definition ATR_GetIntegerValue :: "ATR \<Rightarrow> int \<Rightarrow> (int \<times> byte option) option" where
  "ATR_GetIntegerValue atr name =
     (if name = ATR_INTEGER_VALUE_FI then ib_field 0 ATR_INTERFACE_BYTE_TA 0xF0 4 atr
      else if name = ATR_INTEGER_VALUE_DI then ib_field 0 ATR_INTERFACE_BYTE_TA 0x0F 0 atr
      else if name = ATR_INTEGER_VALUE_II then ib_field 0 ATR_INTERFACE_BYTE_TB 0x60 5 atr
      else if name = ATR_INTEGER_VALUE_PI1 then ib_field 0 ATR_INTERFACE_BYTE_TB 0x1F 0 atr
      else if name = ATR_INTEGER_VALUE_PI2 then ib_field 1 ATR_INTERFACE_BYTE_TB 0xFF 0 atr
      else if name = ATR_INTEGER_VALUE_N then ib_field 0 ATR_INTERFACE_BYTE_TC 0xFF 0 atr
      else Some (ATR_NOT_FOUND, None))"

definition table_get :: "u32 list \<Rightarrow> byte \<Rightarrow> u32 option" where
  "table_get tab i = (if unat i < length tab then Some (tab ! unat i) else None)"

definition ATR_GetParameter :: "ATR \<Rightarrow> int \<Rightarrow> (int \<times> u32 option) option" where
  "ATR_GetParameter atr name =
     (if name = ATR_PARAMETER_F then do {
        (rc, v) \<leftarrow> ATR_GetIntegerValue atr ATR_INTEGER_VALUE_FI;
        (if rc = ATR_OK then map_option (\<lambda>x. (ATR_OK, Some x)) (table_get atr_f_table (the v))
         else Some (ATR_OK, Some ATR_DEFAULT_F))
      } else if name = ATR_PARAMETER_D then do {
        (rc, v) \<leftarrow> ATR_GetIntegerValue atr ATR_INTEGER_VALUE_DI;
        (if rc = ATR_OK then map_option (\<lambda>x. (ATR_OK, Some x)) (table_get atr_d_table (the v))
         else Some (ATR_OK, Some ATR_DEFAULT_D))
      } else if name = ATR_PARAMETER_I then do {
        (rc, v) \<leftarrow> ATR_GetIntegerValue atr ATR_INTEGER_VALUE_II;
        (if rc = ATR_OK then map_option (\<lambda>x. (ATR_OK, Some x)) (table_get atr_i_table (the v))
         else Some (ATR_OK, Some ATR_DEFAULT_I))
      } else if name = ATR_PARAMETER_P then do {
        (rc, v) \<leftarrow> ATR_GetIntegerValue atr ATR_INTEGER_VALUE_PI2;
        (if rc = ATR_OK then Some (ATR_OK, Some (ucast (the v)))
         else do {
           (rc, v) \<leftarrow> ATR_GetIntegerValue atr ATR_INTEGER_VALUE_PI1;
           Some (ATR_OK, Some (if rc = ATR_OK then ucast (the v) else ATR_DEFAULT_P))
         })
      } else if name = ATR_PARAMETER_N then do {
        (rc, v) \<leftarrow> ATR_GetIntegerValue atr ATR_INTEGER_VALUE_N;
        Some (ATR_OK, Some (if rc = ATR_OK then ucast (the v) else ATR_DEFAULT_N))
      } else Some (ATR_NOT_FOUND, None))"

text \<open>
  The two shortcuts keep their result in a static variable, which \<open>ATR_GetParameter\<close> always
  overwrites for these names.
\<close>

definition GetParameterD :: "ATR \<Rightarrow> u32 \<Rightarrow> (u32 \<times> u32) option" where
  "GetParameterD atr parameter = do {
     (rc, v) \<leftarrow> ATR_GetParameter atr ATR_INTEGER_VALUE_DI;
     let parameter = (case v of None \<Rightarrow> parameter | Some x \<Rightarrow> x);
     Some (parameter, parameter)
   }"

definition GetParameterF :: "ATR \<Rightarrow> u32 \<Rightarrow> (u32 \<times> u32) option" where
  "GetParameterF atr parameter = do {
     (rc, v) \<leftarrow> ATR_GetParameter atr ATR_INTEGER_VALUE_FI;
     let parameter = (case v of None \<Rightarrow> parameter | Some x \<Rightarrow> x);
     Some (parameter, parameter)
   }"

definition ATR_GetHistoricalBytes :: "ATR \<Rightarrow> (int \<times> bytes option) option" where
  "ATR_GetHistoricalBytes atr =
     (if hbn atr = 0 then Some (ATR_NOT_FOUND, None)
      else if hbn atr > length (hb atr) then None
      else Some (ATR_OK, Some (take (hbn atr) (hb atr))))"

definition ib_raw :: "atr_ib \<Rightarrow> bytes" where
  "ib_raw x = (if ib_present x then [ib_value x] else [])"

text \<open>The interface bytes of one protocol, and the loop over the protocols.\<close>

definition raw_group :: "ATR \<Rightarrow> nat \<Rightarrow> bytes option" where
  "raw_group atr i = do {
     ta \<leftarrow> get_ib i ATR_INTERFACE_BYTE_TA atr;
     tb \<leftarrow> get_ib i ATR_INTERFACE_BYTE_TB atr;
     tc \<leftarrow> get_ib i ATR_INTERFACE_BYTE_TC atr;
     td \<leftarrow> get_ib i ATR_INTERFACE_BYTE_TD atr;
     Some (ib_raw ta @ ib_raw tb @ ib_raw tc @ ib_raw td)
   }"

fun raw_groups :: "ATR \<Rightarrow> nat list \<Rightarrow> bytes option" where
  "raw_groups atr [] = Some []"
| "raw_groups atr (i # is) = do {
     g \<leftarrow> raw_group atr i;
     gs \<leftarrow> raw_groups atr is;
     Some (g @ gs)
   }"

definition ATR_GetRaw :: "ATR \<Rightarrow> (int \<times> bytes) option" where
  "ATR_GetRaw atr = do {
     gs \<leftarrow> raw_groups atr [0..<pn atr];
     (if hbn atr > length (hb atr) then None
      else
        (let buffer = [TS atr, T0 atr] @ gs @ take (hbn atr) (hb atr) @
               (if ib_present (TCK atr) then [ib_value (TCK atr)] else [])
         in if length buffer > ATR_MAX_SIZE then None else Some (ATR_OK, buffer)))
   }"

definition ATR_GetCheckByte :: "ATR \<Rightarrow> int \<times> byte option" where
  "ATR_GetCheckByte atr =
     (if \<not> ib_present (TCK atr) then (ATR_NOT_FOUND, None) else (ATR_OK, Some (ib_value (TCK atr))))"

definition ATR_GetFsMax :: "ATR \<Rightarrow> (int \<times> u32) option" where
  "ATR_GetFsMax atr = do {
     (rc, v) \<leftarrow> ATR_GetIntegerValue atr ATR_INTEGER_VALUE_FI;
     (if rc = ATR_OK then map_option (\<lambda>x. (ATR_OK, x)) (table_get atr_fs_table (the v))
      else Some (ATR_OK, atr_fs_table ! 1))
   }"

subsection \<open>The timing the driver derives from the ATR\<close>

text \<open>
  \<open>parse_atr\<close> of \<open>sci_drv.c\<close> on the fields of the control block it sets; \<open>None\<close> also stands for a
  division by zero.
\<close>

record sci_timing =
  FI :: u32
  DI :: u32
  CLOCK :: u32
  WWT :: u32
  ETU :: u32

definition parse_atr :: "u32 \<Rightarrow> u32 \<Rightarrow> ATR \<Rightarrow> u32 \<Rightarrow> sci_timing option" where
  "parse_atr parameterF parameterD atr clk = do {
     (FI, _) \<leftarrow> GetParameterF atr parameterF;
     (DI, _) \<leftarrow> GetParameterD atr parameterD;
     let CLOCK = GetClockRate clk;
     (if FI = 0 then None
      else
        (let WWT = CLOCK * (DI div 1000000) div FI
         in if WWT = 0 then None
            else Some \<lparr>FI = FI, DI = DI, CLOCK = CLOCK, WWT = WWT, ETU = CLOCK div WWT\<rparr>))
   }"

subsection \<open>Specification vocabulary\<close>

definition atr_dims :: "ATR \<Rightarrow> bool" where
  "atr_dims atr \<longleftrightarrow> length (ib atr) = ATR_MAX_PROTOCOLS \<and> (\<forall>r \<in> set (ib atr). length r = ATR_MAX_IB) \<and>
     length (hb atr) = ATR_MAX_HISTORICAL"

text \<open>The bytes the parser works on.\<close>

definition atr_decoded :: "bytes \<Rightarrow> nat \<Rightarrow> bytes" where
  "atr_decoded buf len =
     (if buf ! 0 = 0x03 then map (\<lambda>b. NOT (INVERT_BYTE b)) (take len buf) else take len buf)"

text \<open>What everything but the interface bytes of the parser's structure looks like.\<close>

definition atr_frame :: "ATR \<Rightarrow> ATR \<Rightarrow> bool" where
  "atr_frame a b \<longleftrightarrow> TS b = TS a \<and> T0 b = T0 a \<and> hbn b = hbn a \<and> hb b = hb a"

definition atr_raw :: "ATR \<Rightarrow> nat \<Rightarrow> bytes" where
  "atr_raw atr n = concat (map (\<lambda>i. concat (map ib_raw (ib atr ! i))) [0..<n])"

definition atr_zero :: ATR where
  "atr_zero = \<lparr>atr_length = 0, TS = 0, T0 = 0,
     ib = replicate ATR_MAX_PROTOCOLS (replicate ATR_MAX_IB \<lparr>ib_value = 0, ib_present = False\<rparr>),
     TCK = \<lparr>ib_value = 0, ib_present = False\<rparr>, pn = 0, hb = replicate ATR_MAX_HISTORICAL 0, hbn = 0\<rparr>"

subsection \<open>Lemmas\<close>

lemmas atr_consts = ATR_MAX_SIZE_def ATR_MAX_HISTORICAL_def ATR_MAX_PROTOCOLS_def ATR_MAX_IB_def
  ATR_INTERFACE_BYTE_TA_def ATR_INTERFACE_BYTE_TB_def ATR_INTERFACE_BYTE_TC_def ATR_INTERFACE_BYTE_TD_def

lemmas atr_params = ATR_INTEGER_VALUE_FI_def ATR_INTEGER_VALUE_DI_def ATR_INTEGER_VALUE_II_def
  ATR_INTEGER_VALUE_PI1_def ATR_INTEGER_VALUE_PI2_def ATR_INTEGER_VALUE_N_def ATR_PARAMETER_F_def
  ATR_PARAMETER_D_def ATR_PARAMETER_I_def ATR_PARAMETER_P_def ATR_PARAMETER_N_def
  ATR_DEFAULT_F_def ATR_DEFAULT_D_def ATR_DEFAULT_I_def ATR_DEFAULT_N_def ATR_DEFAULT_P_def

lemmas atr_codes = ATR_OK_def ATR_NOT_FOUND_def ATR_MALFORMED_def

lemma take_ib_Some:
  assumes "take_ib buffer p c here (ptr, atr) = Some (ptr', atr')" "atr_dims atr"
  obtains x where "p < 7" "c < 4" "atr' = atr\<lparr>ib := (ib atr)[p := (ib atr ! p)[c := x]]\<rparr>"
    "ptr' = ptr + (if here then 1 else 0)"
    "here \<longrightarrow> ptr' < length buffer" "ib_present x = here" "here \<longrightarrow> ib_value x = buffer ! ptr'"
    "take (Suc ptr') buffer = take (Suc ptr) buffer @ ib_raw x"
  using assms
  by (auto simp: take_ib_def put_ib_def buf_get_def atr_dims_def atr_consts bind_eq_Some_conv ib_raw_def
      take_Suc_conv_app_nth split: if_splits)

lemma atr_dims_upd: "atr_dims atr \<Longrightarrow> p < 7 \<Longrightarrow> length r = 4 \<Longrightarrow> atr_dims (atr\<lparr>ib := (ib atr)[p := r]\<rparr>)"
  by (auto simp: atr_dims_def atr_consts dest!: subsetD [OF set_update_subset_insert])

lemma atr_row: "atr_dims atr \<Longrightarrow> p < 7 \<Longrightarrow> length (ib atr ! p) = 4"
  by (auto simp: atr_dims_def atr_consts)

lemma raw_group_eq:
  "atr_dims atr \<Longrightarrow> i < 7 \<Longrightarrow> raw_group atr i = Some (concat (map ib_raw (ib atr ! i)))"
  using atr_row [of atr i]
  by (cases "ib atr ! i"; cases "tl (ib atr ! i)"; cases "tl (tl (ib atr ! i))"; cases "tl (tl (tl (ib atr ! i)))")
    (auto simp: raw_group_def get_ib_def atr_dims_def atr_consts)

text \<open>The four interface bytes of a protocol.\<close>

lemma group_Some:
  assumes "take_ib buffer p ATR_INTERFACE_BYTE_TA a (ptr, atr) = Some s1"
    "take_ib buffer p ATR_INTERFACE_BYTE_TB b s1 = Some s2"
    "take_ib buffer p ATR_INTERFACE_BYTE_TC c s2 = Some s3"
    "take_ib buffer p ATR_INTERFACE_BYTE_TD d s3 = Some (ptr', atr')" and dims: "atr_dims atr"
  obtains row where "p < 7" "length row = 4" "atr' = atr\<lparr>ib := (ib atr)[p := row]\<rparr>"
    "ptr' = ptr + (of_bool a + of_bool b + of_bool c + of_bool d)" "d \<longrightarrow> ptr' < length buffer"
    "take (Suc ptr') buffer = take (Suc ptr) buffer @ concat (map ib_raw row)"
    "ib_present (row ! 3) = d" "ib_present (row ! 0) = a" "d \<longrightarrow> ib_value (row ! 3) = buffer ! ptr'"
proof -
  obtain p1 a1 p2 a2 p3 a3 where s: "s1 = (p1, a1)" "s2 = (p2, a2)" "s3 = (p3, a3)" by (metis surj_pair)
  have pc: "ATR_INTERFACE_BYTE_TA = 0" "ATR_INTERFACE_BYTE_TB = 1" "ATR_INTERFACE_BYTE_TC = 2" "ATR_INTERFACE_BYTE_TD = 3"
    by (simp_all add: atr_consts)
  obtain x0 where x0: "p < 7" "a1 = atr\<lparr>ib := (ib atr)[p := (ib atr ! p)[0 := x0]]\<rparr>" "p1 = ptr + (if a then 1 else 0)"
      "ib_present x0 = a" "take (Suc p1) buffer = take (Suc ptr) buffer @ ib_raw x0"
    using take_ib_Some [OF assms(1) [unfolded s pc] dims] by metis
  have r0: "length (ib atr ! p) = 4" by (rule atr_row [OF dims x0(1)])
  have d1: "atr_dims a1" unfolding x0(2) by (rule atr_dims_upd [OF dims x0(1)]) (simp add: r0)
  obtain x1 where x1: "a2 = a1\<lparr>ib := (ib a1)[p := (ib a1 ! p)[1 := x1]]\<rparr>" "p2 = p1 + (if b then 1 else 0)"
      "take (Suc p2) buffer = take (Suc p1) buffer @ ib_raw x1"
    using take_ib_Some [OF assms(2) [unfolded s pc] d1] by metis
  have d2: "atr_dims a2" unfolding x1(1) by (rule atr_dims_upd [OF d1 x0(1)]) (simp add: atr_row [OF d1 x0(1)])
  obtain x2 where x2: "a3 = a2\<lparr>ib := (ib a2)[p := (ib a2 ! p)[2 := x2]]\<rparr>" "p3 = p2 + (if c then 1 else 0)"
      "take (Suc p3) buffer = take (Suc p2) buffer @ ib_raw x2"
    using take_ib_Some [OF assms(3) [unfolded s pc] d2] by metis
  have d3: "atr_dims a3" unfolding x2(1) by (rule atr_dims_upd [OF d2 x0(1)]) (simp add: atr_row [OF d2 x0(1)])
  obtain x3 where x3: "atr' = a3\<lparr>ib := (ib a3)[p := (ib a3 ! p)[3 := x3]]\<rparr>" "ptr' = p3 + (if d then 1 else 0)"
      "take (Suc ptr') buffer = take (Suc p3) buffer @ ib_raw x3" "ib_present x3 = d" "d \<longrightarrow> ptr' < length buffer"
      "d \<longrightarrow> ib_value x3 = buffer ! ptr'"
    using take_ib_Some [OF assms(4) [unfolded s pc] d3] by metis
  have len: "p < length (ib atr)" using dims x0(1) by (simp add: atr_dims_def atr_consts)
  have row: "(ib atr ! p)[0 := x0, 1 := x1, 2 := x2, 3 := x3] = [x0, x1, x2, x3]"
    using r0 by (auto simp: list_eq_iff_nth_eq less_Suc_eq numeral_eq_Suc nth_Cons')
  have "atr' = atr\<lparr>ib := (ib atr)[p := [x0, x1, x2, x3]]\<rparr>"
    unfolding x3(1) x2(1) x1(1) x0(2) using len row by simp
  then show thesis
    using x0 x1 x2 x3 by (intro that [of "[x0, x1, x2, x3]"]) (simp_all add: numeral_eq_Suc)
qed

lemma atr_mask_bits:
  "((b::byte) OR 0xEF = 0xFF) = bit b 4" "(b OR 0xDF = 0xFF) = bit b 5"
  "(b OR 0xBF = 0xFF) = bit b 6" "(b OR 0x7F = 0xFF) = bit b 7"
  by (simp_all add: byte_eq_iff bit_simps)

lemma atr_nibble: "drop_bit 4 (0xF0 AND b) = (of_bool (bit b 4) + 2 * of_bool (bit b 5) + 4 * of_bool (bit b 6) + 8 * of_bool (bit b 7) :: byte)"
  by (cases "bit b 4"; cases "bit b 5"; cases "bit b 6"; cases "bit b 7") (simp_all add: byte_eq_iff bit_simps)

lemma atr_num_ib: "atr_num_ib_table ! unat (drop_bit 4 (0xF0 AND (b::byte))) =
    of_bool (bit b 4) + of_bool (bit b 5) + of_bool (bit b 6) + of_bool (bit b 7)"
  unfolding atr_nibble by (cases "bit b 4"; cases "bit b 5"; cases "bit b 6"; cases "bit b 7") (simp_all add: atr_num_ib_table_def)

lemma raw_groups_eq:
  "atr_dims atr \<Longrightarrow> list_all (\<lambda>i. i < 7) is \<Longrightarrow>
   raw_groups atr is = Some (concat (map (\<lambda>i. concat (map ib_raw (ib atr ! i))) is))"
  by (induction "is") (auto simp: raw_group_eq)

lemma atr_raw_upd:
  assumes "atr_dims atr" "p < 7"
  shows "atr_raw (atr\<lparr>ib := (ib atr)[p := row]\<rparr>) (Suc p) = atr_raw atr p @ concat (map ib_raw row)"
proof -
  have "map (\<lambda>i. concat (map ib_raw ((ib atr)[p := row] ! i))) [0..<p] = map (\<lambda>i. concat (map ib_raw (ib atr ! i))) [0..<p]"
    by (rule map_cong) auto
  then have "concat (map (\<lambda>i. concat (map ib_raw ((ib atr)[p := row] ! i))) [0..<p]) =
      concat (map (\<lambda>i. concat (map ib_raw (ib atr ! i))) [0..<p])"
    by (rule arg_cong)
  moreover have "(ib atr)[p := row] ! p = row" using assms by (simp add: atr_dims_def atr_consts)
  ultimately show ?thesis by (simp add: atr_raw_def)
qed

lemma atr_loop_Some:
  assumes "atr_loop buffer len TDi p (ptr, atr) = Some (Inr (ptr', p', atr'))" "atr_dims atr" "ptr < len"
    "len \<le> length buffer" "atr_raw atr p = drop 2 (take (Suc ptr) buffer)" "1 \<le> ptr"
  shows "atr_dims atr' \<and> ptr' < len \<and> p' < 7 \<and> 1 \<le> ptr' \<and> atr_frame atr atr' \<and>
     atr_raw atr' (Suc p') = drop 2 (take (Suc ptr') buffer)"
  using assms
proof (induction "len - ptr" arbitrary: ptr atr TDi p rule: less_induct)
  case less
  note prems = less.prems
  let ?n = "atr_num_ib_table ! unat (drop_bit 4 (0xF0 AND TDi))"
  have n: "ptr + ?n < len" using prems(1,3) by (subst (asm) atr_loop.simps) (simp split: if_splits)
  obtain s1 s2 s3 ptr1 atr1 where
      s: "take_ib buffer p ATR_INTERFACE_BYTE_TA (TDi OR 0xEF = 0xFF) (ptr, atr) = Some s1"
        "take_ib buffer p ATR_INTERFACE_BYTE_TB (TDi OR 0xDF = 0xFF) s1 = Some s2"
        "take_ib buffer p ATR_INTERFACE_BYTE_TC (TDi OR 0xBF = 0xFF) s2 = Some s3"
        "take_ib buffer p ATR_INTERFACE_BYTE_TD (TDi OR 0x7F = 0xFF) s3 = Some (ptr1, atr1)"
    using prems(1,3) n by (subst (asm) atr_loop.simps) (auto split: option.splits)
  obtain row where row: "p < 7" "length row = 4" "atr1 = atr\<lparr>ib := (ib atr)[p := row]\<rparr>" "ptr1 = ptr + ?n"
      "take (Suc ptr1) buffer = take (Suc ptr) buffer @ concat (map ib_raw row)"
    using group_Some [OF s prems(2)] unfolding atr_num_ib atr_mask_bits by metis
  have d1: "atr_dims atr1" unfolding row(3) by (rule atr_dims_upd [OF prems(2) row(1,2)])
  have raw: "atr_raw atr1 (Suc p) = drop 2 (take (Suc ptr1) buffer)"
    unfolding row(3) atr_raw_upd [OF prems(2) row(1)] row(5) using prems(3-6) by simp
  have l1: "ptr1 < len" using n row(4) by simp
  show ?case
  proof (cases "TDi OR 0x7F = 0xFF")
    case False
    then have "ptr' = ptr1" "p' = p" "atr' = atr1"
      using prems(1) n s by (subst (asm) atr_loop.simps, simp)+
    then show ?thesis using d1 raw l1 row prems(6) by (simp add: atr_frame_def)
  next
    case True
    let ?atr2 = "atr1\<lparr>TCK := (TCK atr1)\<lparr>ib_present := (buffer ! ptr1 AND 0x0F \<noteq> ATR_PROTOCOL_TYPE_T0)\<rparr>\<rparr>"
    have g: "buf_get buffer ptr1 = Some (buffer ! ptr1)" using l1 prems(4) by (simp add: buf_get_def)
    have rec: "atr_loop buffer len (buffer ! ptr1) (p + 1) (ptr1, ?atr2) = Some (Inr (ptr', p', atr'))"
      using prems(1) n s True g row(1) by (subst (asm) atr_loop.simps) (simp add: ATR_MAX_PROTOCOLS_def Let_def)
    have d2: "atr_dims ?atr2" using d1 by (simp add: atr_dims_def)
    have r2: "atr_raw ?atr2 (p + 1) = drop 2 (take (Suc ptr1) buffer)" using raw by (simp add: atr_raw_def)
    have "ptr < ptr1" unfolding row(4) atr_num_ib using True by (simp add: atr_mask_bits)
    then have "len - ptr1 < len - ptr" using l1 by simp
    from less.hyps [OF this rec d2 l1 prems(4) r2] prems(6) \<open>ptr < ptr1\<close>
    show ?thesis by (simp add: atr_frame_def row(3))
  qed
qed


lemma atr_decoded_length [simp]: "len \<le> length buf \<Longrightarrow> length (atr_decoded buf len) = len"
  by (simp add: atr_decoded_def)

lemma atr_finish_OK:
  assumes "atr_finish b len ptr p a = Some (ATR_OK, a')" and len: "len \<le> length b"
  shows "ib a' = ib a" "TS a' = TS a" "T0 a' = T0 a" "hbn a' = hbn a" "pn a' = Suc p" "hbn a \<le> length (hb a)"
    "length (hb a') = length (hb a)"
    "take (hbn a') (hb a') @ ib_raw (TCK a') = take (hbn a + length (ib_raw (TCK a'))) (drop (Suc ptr) b)"
    "atr_length a' = Suc ptr + (hbn a + length (ib_raw (TCK a')))" "atr_length a' \<le> len"
proof -
  define a1 where "a1 = a\<lparr>pn := p + 1, hb := take (hbn a) (drop (ptr + 1) b) @ drop (hbn a) (hb a)\<rparr>"
  define q where "q = ptr + hbn a + (if ib_present (TCK a) then 1 else 0)"
  define a2 where "a2 = (if ib_present (TCK a) then a1\<lparr>TCK := (TCK a1)\<lparr>ib_value := b ! q\<rparr>\<rparr> else a1)\<lparr>atr_length := q + 1\<rparr>"
  have l: "ptr + hbn a < len" "hbn a \<le> length (hb a)" "q < len" and a': "a' = a2"
    using assms(1) unfolding a2_def a1_def q_def
    by (auto simp: atr_finish_def Let_def atr_codes bind_eq_Some_conv split: if_splits)
  show "ib a' = ib a" "TS a' = TS a" "T0 a' = T0 a" "hbn a' = hbn a" "pn a' = Suc p" "hbn a \<le> length (hb a)"
    using l unfolding a' a2_def a1_def by simp_all
  have hb: "hb a' = take (hbn a) (drop (ptr + 1) b) @ drop (hbn a) (hb a)" unfolding a' a2_def a1_def by simp
  then show "length (hb a') = length (hb a)" using l len by simp
  have th: "take (hbn a') (hb a') = take (hbn a) (drop (Suc ptr) b)" unfolding hb \<open>hbn a' = hbn a\<close> using l len by simp
  have tck: "ib_raw (TCK a') = (if ib_present (TCK a) then [b ! q] else [])"
    unfolding a' a2_def a1_def ib_raw_def by simp
  show "take (hbn a') (hb a') @ ib_raw (TCK a') = take (hbn a + length (ib_raw (TCK a'))) (drop (Suc ptr) b)"
    unfolding th tck using l len by (auto simp: q_def take_Suc_conv_app_nth)
  show "atr_length a' = Suc ptr + (hbn a + length (ib_raw (TCK a')))" "atr_length a' \<le> len"
    unfolding tck using l unfolding a' a2_def by (auto simp: q_def)
qed

lemma ATR_Init_OK:
  assumes "ATR_InitFromArray atr buf len = Some (ATR_OK, atr')" "atr_dims atr"
  obtains ptr p atr1 where "2 \<le> len" "len \<le> 33" "len \<le> length buf" "atr_dims atr1" "ptr < len" "p < 7" "1 \<le> ptr"
    "TS atr1 = atr_decoded buf len ! 0" "T0 atr1 = atr_decoded buf len ! 1" "hbn atr1 = unat (T0 atr1 AND 0x0F)"
    "atr_raw atr1 (Suc p) = drop 2 (take (Suc ptr) (atr_decoded buf len))"
    "atr_finish (atr_decoded buf len) len ptr p atr1 = Some (ATR_OK, atr')"
proof -
  let ?b = "atr_decoded buf len"
  define atr0 where "atr0 = atr\<lparr>TS := ?b ! 0, T0 := ?b ! 1, hbn := unat (?b ! 1 AND 0x0F), TCK := (TCK atr)\<lparr>ib_present := False\<rparr>\<rparr>"
  have len: "2 \<le> len" "len \<le> 33" "len \<le> length buf"
    using assms(1) by (auto simp: ATR_InitFromArray_def atr_codes ATR_MAX_SIZE_def split: if_splits)
  have init: "ATR_InitFromArray atr buf len = (case atr_loop ?b len (?b ! 1) 0 (1, atr0) of
              None \<Rightarrow> None
            | Some (Inl atr) \<Rightarrow> Some (ATR_MALFORMED, atr)
            | Some (Inr (pointer, p, atr)) \<Rightarrow> atr_finish ?b len pointer p atr)"
    using len unfolding ATR_InitFromArray_def atr_decoded_def [symmetric] Let_def atr0_def
    by (simp add: ATR_MAX_SIZE_def)
  obtain ptr p atr1 where loop: "atr_loop ?b len (?b ! 1) 0 (1, atr0) = Some (Inr (ptr, p, atr1))"
    using assms(1) unfolding init by (auto simp: atr_codes split: option.splits sum.splits)
  have "atr_dims atr0" "atr_raw atr0 0 = drop 2 (take (Suc 1) ?b)"
    using assms(2) by (simp_all add: atr0_def atr_dims_def atr_raw_def)
  then have "atr_dims atr1" "ptr < len" "p < 7" "1 \<le> ptr" "atr_frame atr0 atr1" "atr_raw atr1 (Suc p) = drop 2 (take (Suc ptr) ?b)"
    using atr_loop_Some [OF loop] len by simp_all
  moreover have "atr_finish ?b len ptr p atr1 = Some (ATR_OK, atr')" using assms(1) unfolding init loop by simp
  ultimately show thesis using len by (intro that [of atr1 ptr p]) (simp_all add: atr_frame_def atr0_def)
qed

lemma take_ib_defined:
  assumes "p < 7" "c < 4" "atr_dims atr" "here \<longrightarrow> Suc ptr < length buffer"
  shows "\<exists>atr'. take_ib buffer p c here (ptr, atr) = Some (ptr + of_bool here, atr') \<and> atr_dims atr'"
proof -
  have "p < length (ib atr)" using assms by (simp add: atr_dims_def atr_consts)
  then show ?thesis
    using assms(2,4) atr_row [OF assms(3,1)] atr_dims_upd [OF assms(3,1)]
    by (cases here) (simp_all add: take_ib_def put_ib_def buf_get_def)
qed

lemma atr_loop_defined:
  assumes "atr_dims atr" "ptr < len" "len \<le> length buffer" "p < ptr" "len \<le> 8"
  shows "atr_loop buffer len TDi p (ptr, atr) \<noteq> None"
  using assms
proof (induction "len - ptr" arbitrary: ptr atr TDi p rule: less_induct)
  case less
  note prems = less.prems
  let ?n = "atr_num_ib_table ! unat (drop_bit 4 (0xF0 AND TDi))"
  show ?case
  proof (cases "ptr + ?n < len")
    case False
    then show ?thesis using prems(2) by (subst atr_loop.simps) simp
  next
    case True
    define a b c d where abcd: "a = bit TDi 4" "b = bit TDi 5" "c = bit TDi 6" "d = bit TDi 7"
    have n: "ptr + of_bool a + of_bool b + of_bool c + of_bool d < len"
      using True unfolding atr_num_ib abcd by (simp only: add.assoc)
    have p7: "p < 7" using prems by simp
    have ix: "ATR_INTERFACE_BYTE_TA < 4" "ATR_INTERFACE_BYTE_TB < 4" "ATR_INTERFACE_BYTE_TC < 4" "ATR_INTERFACE_BYTE_TD < 4"
      by (simp_all add: atr_consts)
    have bd: "a \<longrightarrow> Suc ptr < length buffer" "b \<longrightarrow> Suc (ptr + of_bool a) < length buffer"
      "c \<longrightarrow> Suc (ptr + of_bool a + of_bool b) < length buffer"
      "d \<longrightarrow> Suc (ptr + of_bool a + of_bool b + of_bool c) < length buffer"
      using n prems(3) by (cases a; cases b; cases c; cases d; simp)+
    obtain a1 where a1: "take_ib buffer p ATR_INTERFACE_BYTE_TA a (ptr, atr) = Some (ptr + of_bool a, a1)" "atr_dims a1"
      using take_ib_defined [OF p7 ix(1) prems(1) bd(1)] by blast
    obtain a2 where a2: "take_ib buffer p ATR_INTERFACE_BYTE_TB b (ptr + of_bool a, a1) =
        Some (ptr + of_bool a + of_bool b, a2)" "atr_dims a2"
      using take_ib_defined [OF p7 ix(2) a1(2) bd(2)] by blast
    obtain a3 where a3: "take_ib buffer p ATR_INTERFACE_BYTE_TC c (ptr + of_bool a + of_bool b, a2) =
        Some (ptr + of_bool a + of_bool b + of_bool c, a3)" "atr_dims a3"
      using take_ib_defined [OF p7 ix(3) a2(2) bd(3)] by blast
    obtain a4 where a4: "take_ib buffer p ATR_INTERFACE_BYTE_TD d (ptr + of_bool a + of_bool b + of_bool c, a3) =
        Some (ptr + of_bool a + of_bool b + of_bool c + of_bool d, a4)" "atr_dims a4"
      using take_ib_defined [OF p7 ix(4) a3(2) bd(4)] by blast
    note group = a1(1) a2(1) a3(1) a4(1)
    show ?thesis
    proof (cases d)
      case False
      then show ?thesis using prems(2) True group abcd by (subst atr_loop.simps) (simp add: atr_mask_bits)
    next
      case d: True
      let ?q = "ptr + of_bool a + of_bool b + of_bool c + of_bool d"
      let ?atr = "a4\<lparr>TCK := (TCK a4)\<lparr>ib_present := (buffer ! ?q AND 0x0F \<noteq> ATR_PROTOCOL_TYPE_T0)\<rparr>\<rparr>"
      have "atr_loop buffer len (buffer ! ?q) (p + 1) (?q, ?atr) \<noteq> None"
        using less.hyps [of ?q ?atr "p + 1" "buffer ! ?q"] n d prems a4(2) by (simp add: atr_dims_def)
      moreover have "atr_loop buffer len TDi p (ptr, atr) = atr_loop buffer len (buffer ! ?q) (p + 1) (?q, ?atr)"
        using prems(2,3) True group abcd d n p7
        by (subst atr_loop.simps) (simp add: atr_mask_bits buf_get_def ATR_MAX_PROTOCOLS_def Let_def)
      ultimately show ?thesis by simp
    qed
  qed
qed

lemma hbn_le: "unat ((x::byte) AND 0x0F) \<le> 15"
  using word_and_le1 [of x "0x0F"] by (simp add: word_le_nat_alt word_and_le2)

lemma atr_finish_defined:
  "atr_dims a \<Longrightarrow> hbn a \<le> 15 \<Longrightarrow> p < 7 \<Longrightarrow> atr_finish b len ptr p a \<noteq> None"
  by (auto simp: atr_finish_def Let_def get_ib_def atr_dims_def atr_consts)

lemma ATR_Init_defined:
  assumes "atr_dims atr" "len \<le> 8" "len \<le> length buf"
  shows "ATR_InitFromArray atr buf len \<noteq> None"
proof (cases "len < 2")
  case True
  then show ?thesis by (simp add: ATR_InitFromArray_def)
next
  case False
  let ?b = "atr_decoded buf len"
  define atr0 where "atr0 = atr\<lparr>TS := ?b ! 0, T0 := ?b ! 1, hbn := unat (?b ! 1 AND 0x0F), TCK := (TCK atr)\<lparr>ib_present := False\<rparr>\<rparr>"
  have d0: "atr_dims atr0" using assms(1) by (simp add: atr0_def atr_dims_def)
  have init: "ATR_InitFromArray atr buf len = (case atr_loop ?b len (?b ! 1) 0 (1, atr0) of
              None \<Rightarrow> None
            | Some (Inl atr) \<Rightarrow> Some (ATR_MALFORMED, atr)
            | Some (Inr (pointer, p, atr)) \<Rightarrow> atr_finish ?b len pointer p atr)"
    using assms(2,3) False unfolding ATR_InitFromArray_def atr_decoded_def [symmetric] Let_def atr0_def
    by (simp add: ATR_MAX_SIZE_def)
  have "atr_loop ?b len (?b ! 1) 0 (1, atr0) \<noteq> None"
    using assms False d0 by (intro atr_loop_defined) simp_all
  then obtain r where loop: "atr_loop ?b len (?b ! 1) 0 (1, atr0) = Some r" by blast
  show ?thesis
  proof (cases r)
    case (Inl a)
    then show ?thesis unfolding init loop by simp
  next
    case (Inr s)
    obtain ptr p a where s: "s = (ptr, p, a)" by (metis surj_pair)
    have "atr_dims a" "p < 7" "atr_frame atr0 a"
      using atr_loop_Some [OF loop [unfolded Inr s] d0] assms False by (simp_all add: atr_raw_def)
    then have "atr_finish ?b len ptr p a \<noteq> None"
      using hbn_le [of "?b ! 1"] by (intro atr_finish_defined) (simp_all add: atr_frame_def atr0_def)
    then show ?thesis unfolding init loop Inr s by simp
  qed
qed

lemma atr_dims_zero [simp]: "atr_dims atr_zero" by (simp add: atr_dims_def atr_zero_def)

lemma nibble16: "unat (drop_bit 4 ((x::byte) AND 0xF0)) < 16" "unat ((x::byte) AND 0x0F) < 16"
proof -
  have "drop_bit 4 (x AND 0xF0) = drop_bit 4 x AND (0x0F::byte)" by (simp add: byte_eq_iff bit_simps)
  then show "unat (drop_bit 4 (x AND 0xF0)) < 16" using hbn_le [of "drop_bit 4 x"] by simp
qed (use hbn_le [of x] in simp)

lemma less16: "(n::nat) < 16 \<longleftrightarrow> n \<in> set [0,1,2,3,4,5,6,7,8,9,10,11,12,13,14,15]"
  by (simp, presburger)

lemma f_table: "n < 16 \<Longrightarrow> atr_fs_table ! n \<noteq> 0 \<Longrightarrow> atr_f_table ! n \<in> {372, 558, 744, 1116, 1488, 1860, 512, 768, 1024, 1536, 2048}"
  unfolding less16 by (auto simp: atr_fs_table_def atr_f_table_def)

lemma d_table: "n < 16 \<Longrightarrow> (atr_d_table ! n) div 1000000 \<in> (if n = 0 \<or> 10 \<le> n then {0} else {1, 2, 4, 8, 16, 32, 64, 12, 20})"
  unfolding less16 by (auto simp: atr_d_table_def)

lemma wwt_nonzero:
  "(f::u32) \<in> {372, 558, 744, 1116, 1488, 1860, 512, 768, 1024, 1536, 2048} \<Longrightarrow>
   d \<in> {1, 2, 4, 8, 16, 32, 64, 12, 20} \<Longrightarrow> 3571200 * d div f \<noteq> 0"
  by auto

lemma atr_finish_TA:
  assumes "atr_finish b len ptr p a = Some (ATR_OK, a')" "atr_dims a" "pn a' = 1" "ib_present (ib a' ! 0 ! 0)"
  shows "atr_fs_table ! unat (drop_bit 4 (ib_value (ib a' ! 0 ! 0) AND 0xF0)) \<noteq> 0"
  using assms
  by (auto simp: atr_finish_def Let_def atr_codes bind_eq_Some_conv get_ib_def atr_consts split: if_splits)

subsection \<open>Properties\<close>

text \<open>
  Claim C27. An accepted answer to reset is written back as it came: when \<open>ATR_InitFromArray\<close> answers
  \<open>ATR_OK\<close> (whatever the structure held before), \<open>ATR_GetRaw\<close> returns the first
  \<open>atr_length\<close> bytes of the input, decoded from the inverse convention where the first byte says so;
  and the protocol and historical byte counts are within their arrays.
\<close>

theorem ATR_roundtrip:
  assumes "atr_dims atr" "ATR_InitFromArray atr buf len = Some (ATR_OK, atr')"
  shows "ATR_GetRaw atr' = Some (ATR_OK, take (atr_length atr') (atr_decoded buf len)) \<and>
    atr_length atr' \<le> len \<and> 1 \<le> pn atr' \<and> pn atr' \<le> ATR_MAX_PROTOCOLS \<and> hbn atr' \<le> ATR_MAX_HISTORICAL"
proof -
  let ?b = "atr_decoded buf len"
  obtain ptr p a where l: "2 \<le> len" "len \<le> 33" "len \<le> length buf" "atr_dims a" "ptr < len" "p < 7" "1 \<le> ptr"
    "TS a = ?b ! 0" "T0 a = ?b ! 1" "hbn a = unat (T0 a AND 0x0F)" "atr_raw a (Suc p) = drop 2 (take (Suc ptr) ?b)"
    "atr_finish ?b len ptr p a = Some (ATR_OK, atr')"
    by (rule ATR_Init_OK [OF assms(2,1)])
  note f = atr_finish_OK [OF l(12)]
  have len: "len \<le> length ?b" using l(3) by simp
  have dims: "atr_dims atr'" using l(4) f [OF len] by (simp add: atr_dims_def)
  have gs: "raw_groups atr' [0..<pn atr'] = Some (atr_raw a (Suc p))"
    using raw_groups_eq [OF dims, of "[0..<Suc p]"] l(6) f [OF len] by (simp add: atr_raw_def list_all_iff)
  have raw: "[TS atr', T0 atr'] @ atr_raw a (Suc p) @ take (hbn atr') (hb atr') @ ib_raw (TCK atr') =
      take (atr_length atr') ?b"
  proof -
    obtain x y ys where b: "?b = x # y # ys" using l(1) len by (cases ?b; cases "tl ?b") auto
    obtain n where n: "ptr = Suc n" using l(7) by (cases ptr) auto
    have "[?b ! 0, ?b ! 1] @ drop 2 (take (Suc ptr) ?b) = take (Suc ptr) ?b"
      unfolding b n by (simp add: numeral_2_eq_2)
    then have "[?b ! 0, ?b ! 1] @ drop 2 (take (Suc ptr) ?b) @ take (hbn atr') (hb atr') @ ib_raw (TCK atr') =
        take (atr_length atr') ?b"
      unfolding f(9) [OF len] f(8) [OF len] take_add [of "Suc ptr"]
      by (simp del: append_Cons add: append_Cons [symmetric])
    then show ?thesis unfolding l(11) f(2,3) [OF len] l(8,9) .
  qed
  have size: "length (take (atr_length atr') ?b) \<le> 33" using f(10) [OF len] l(2) by simp
  have hb: "hbn atr' \<le> length (hb atr')" using f [OF len] by simp
  have "ATR_GetRaw atr' = Some (ATR_OK, take (atr_length atr') ?b)"
    unfolding ATR_GetRaw_def ib_raw_def [symmetric] gs Option.bind_lunit raw Let_def
    using hb size by (auto simp: ATR_MAX_SIZE_def)
  then show ?thesis using f [OF len] l(4,6) dims hb by (simp add: atr_dims_def atr_consts)
qed


theorem ATR_roundtrip_witness:
  "\<exists>atr'. ATR_InitFromArray atr_zero [0x3F, 0x81, 0x01, 0x14, 0x50] 5 = Some (ATR_OK, atr') \<and>
     ATR_GetRaw atr' = Some (ATR_OK, [0x3F, 0x81, 0x01, 0x14, 0x50])"
proof -
  have ok: "map_option fst (ATR_InitFromArray atr_zero [0x3F, 0x81, 0x01, 0x14, 0x50] 5) = Some ATR_OK"
    and len: "map_option (atr_length o snd) (ATR_InitFromArray atr_zero [0x3F, 0x81, 0x01, 0x14, 0x50] 5) = Some 5"
    by code_simp+
  then obtain atr' where i: "ATR_InitFromArray atr_zero [0x3F, 0x81, 0x01, 0x14, 0x50] 5 = Some (ATR_OK, atr')"
      "atr_length atr' = 5" by auto
  then show ?thesis using ATR_roundtrip [OF atr_dims_zero i(1)] by (simp add: atr_decoded_def)
qed

text \<open>
  Where the parser is safe: an answer of at most eight bytes never makes it access memory
  outside its arrays. One of nine bytes, seven of which announce another protocol, does: the protocol
  count is compared with \<open>ATR_MAX_PROTOCOLS\<close> only after the interface bytes of the eighth
  protocol have been stored.
\<close>

theorem ATR_protocol_overflow:
  "(\<forall>atr buf len. atr_dims atr \<longrightarrow> len \<le> 8 \<longrightarrow> len \<le> length buf \<longrightarrow> ATR_InitFromArray atr buf len \<noteq> None) \<and>
   ATR_InitFromArray atr_zero [0x3B, 0x80, 0x80, 0x80, 0x80, 0x80, 0x80, 0x80, 0x00] 9 = None"
proof (intro conjI allI impI)
  show "ATR_InitFromArray atr_zero [0x3B, 0x80, 0x80, 0x80, 0x80, 0x80, 0x80, 0x80, 0x00] 9 = None"
    by code_simp
qed (rule ATR_Init_defined)

theorem ATR_protocol_overflow_witness:
  "ATR_InitFromArray atr_zero [0x3B, 0x02, 0x14, 0x50] 4 \<noteq> None"
  using ATR_protocol_overflow by simp

text \<open>
  When the driver divides by zero: after an accepted answer with one protocol, at the
  default clock, \<open>parse_atr\<close> fails exactly when TA1 is present and its low nibble is 0 or at least 10, the
  codes of a rate adjustment factor below one.
\<close>

theorem parse_atr_division:
  assumes "atr_dims atr" "ATR_InitFromArray atr buf len = Some (ATR_OK, atr')" "pn atr' = 1"
  shows "(parse_atr sF sD atr' 357 = None) \<longleftrightarrow>
     ib_present (ib atr' ! 0 ! 0) \<and>
     (unat (ib_value (ib atr' ! 0 ! 0) AND 0x0F) = 0 \<or> 10 \<le> unat (ib_value (ib atr' ! 0 ! 0) AND 0x0F))"
proof -
  let ?b = "atr_decoded buf len" and ?ta = "ib atr' ! 0 ! 0"
  let ?fi = "unat (drop_bit 4 (ib_value ?ta AND 0xF0))" and ?di = "unat (ib_value ?ta AND 0x0F)"
  obtain ptr p a where l: "len \<le> length buf" "atr_dims a" "atr_finish ?b len ptr p a = Some (ATR_OK, atr')"
    using ATR_Init_OK [OF assms(2,1)] by metis
  have ib: "ib atr' = ib a" using atr_finish_OK(1) [OF l(3)] l(1) by simp
  have get: "get_ib 0 0 atr' = Some ?ta" using l(2) atr_row [OF l(2), of 0] by (simp add: ib get_ib_def atr_dims_def atr_consts)
  show ?thesis
  proof (cases "ib_present ?ta")
    case False
    then show ?thesis using get
      by (simp add: parse_atr_def GetParameterF_def GetParameterD_def ATR_GetParameter_def ATR_GetIntegerValue_def ib_field_def
          atr_params atr_consts atr_codes GetClockRate_def)
  next
    case True
    have fi: "atr_f_table ! ?fi \<in> {372, 558, 744, 1116, 1488, 1860, 512, 768, 1024, 1536, 2048}"
      by (rule f_table [OF nibble16(1) atr_finish_TA [OF l(3,2) assms(3) True]])
    have F: "GetParameterF atr' sF = Some (atr_f_table ! ?fi, atr_f_table ! ?fi)"
      using get True nibble16(1) [of "ib_value ?ta"]
      by (simp add: GetParameterF_def ATR_GetParameter_def ATR_GetIntegerValue_def ib_field_def table_get_def
          atr_params atr_consts atr_codes) (simp add: atr_f_table_def Let_def)
    have D: "GetParameterD atr' sD = Some (atr_d_table ! ?di, atr_d_table ! ?di)"
      using get True nibble16(2) [of "ib_value ?ta"]
      by (simp add: GetParameterD_def ATR_GetParameter_def ATR_GetIntegerValue_def ib_field_def table_get_def
          atr_params atr_consts atr_codes) (simp add: atr_d_table_def Let_def)
    have "parse_atr sF sD atr' 357 = None \<longleftrightarrow> 3571200 * (atr_d_table ! ?di div 1000000) div (atr_f_table ! ?fi) = 0"
      using fi by (auto simp: parse_atr_def F D GetClockRate_def Let_def)
    also have "\<dots> \<longleftrightarrow> ?di = 0 \<or> 10 \<le> ?di"
      using d_table [OF nibble16(2), of "ib_value ?ta"] wwt_nonzero [OF fi, of "atr_d_table ! ?di div 1000000"]
      by (auto split: if_splits)
    finally show ?thesis using True by simp
  qed
qed

theorem parse_atr_division_witness:
  "\<exists>atr'. ATR_InitFromArray atr_zero [0x3B, 0x10, 0x1A] 3 = Some (ATR_OK, atr') \<and> parse_atr 0 0 atr' 357 = None"
proof -
  have "map_option (\<lambda>(rc, a). (rc, pn a, ib_present (ib a ! 0 ! 0), ib_value (ib a ! 0 ! 0)))
      (ATR_InitFromArray atr_zero [0x3B, 0x10, 0x1A] 3) = Some (ATR_OK, 1, True, 0x1A)"
    by code_simp
  then obtain atr' where i: "ATR_InitFromArray atr_zero [0x3B, 0x10, 0x1A] 3 = Some (ATR_OK, atr')"
      "pn atr' = 1" "ib_present (ib atr' ! 0 ! 0)" "ib_value (ib atr' ! 0 ! 0) = 0x1A" by auto
  then show ?thesis using parse_atr_division [OF atr_dims_zero i(1,2), of 0 0] by simp
qed

end
