(* ===== verification/Bpamem.thy ===== *)
theory Bpamem
  imports Prelude
begin

text \<open>
  \<open>src/local_src/driver/bpamem/bpamem.c\<close>: the character devices through which programs allocate
  physical memory from the BPA2 allocator of the kernel, or map physical memory they already own.
  Each of the 32 minor devices is a slot of the table \<open>bpamem_dev\<close>. The allocator is not part of the
  repository: it is a parameter, a function of the calls made to it so far, and the calls are logged.
  The outcome of the copies from and to user memory is an argument of the request. A request to a minor
  device outside the table is the value \<open>None\<close>.
\<close>

subsection \<open>Data\<close>

definition MAX_BPA_ALLOCS :: nat where "MAX_BPA_ALLOCS = 32"
definition PAGE_SIZE :: u32 where "PAGE_SIZE = 4096"
definition PAGE_SHIFT :: nat where "PAGE_SHIFT = 12"

text \<open>A partition is the address of its structure, 0 for the null pointer.\<close>

type_synonym bpa2_part = nat

datatype bpa_call = Alloc_Pages bpa2_part u32 u32 | Free_Pages bpa2_part u32

record bpa_env =
  bpa2_find_part :: "string \<Rightarrow> bpa2_part"
  bpa2_alloc_pages :: "bpa_call list \<Rightarrow> bpa2_part \<Rightarrow> u32 \<Rightarrow> u32"

record bpamem_dev_private =
  used :: bool
  part :: bpa2_part
  phys_addr :: u32
  size_of :: u32

record bpamem_state =
  bpamem_dev :: "bpamem_dev_private list"
  bpa_log :: "bpa_call list"
  region :: bool
  cdev :: bool
  nodes :: nat

record BPAMemAllocMemData =
  bpa_part :: string
  mem_size :: u32
  device_num :: nat

record BPAMemMapMemData = BPAMemAllocMemData +
  map_phys_addr :: u32

subsection \<open>Slots\<close>

definition set_slot :: "nat \<Rightarrow> (bpamem_dev_private \<Rightarrow> bpamem_dev_private) \<Rightarrow> bpamem_state \<Rightarrow> bpamem_state" where
  "set_slot dev f st = st\<lparr>bpamem_dev := (bpamem_dev st)[dev := f (bpamem_dev st ! dev)]\<rparr>"

definition log_call :: "bpa_call \<Rightarrow> bpamem_state \<Rightarrow> bpamem_state" where
  "log_call c st = st\<lparr>bpa_log := bpa_log st @ [c]\<rparr>"

fun first_unused :: "nat \<Rightarrow> bpamem_dev_private list \<Rightarrow> nat option" where
  "first_unused i [] = None"
| "first_unused i (d # ds) = (if \<not> used d then Some i else first_unused (i + 1) ds)"

text \<open>The result -1 is \<open>None\<close>.\<close>

definition find_next_device :: "bpamem_state \<Rightarrow> nat option \<times> bpamem_state" where
  "find_next_device st =
     (case first_unused 0 (bpamem_dev st) of
        None \<Rightarrow> (None, st)
      | Some dev \<Rightarrow> (Some dev, set_slot dev (\<lambda>d. d\<lparr>used := True\<rparr>) st))"

definition release_slot :: "nat \<Rightarrow> bpamem_state \<Rightarrow> bpamem_state" where
  "release_slot dev = set_slot dev (\<lambda>d. d\<lparr>used := False\<rparr>)"

definition free_slot :: "nat \<Rightarrow> bpamem_state \<Rightarrow> bpamem_state" where
  "free_slot dev st =
     (let d = bpamem_dev st ! dev
      in set_slot dev (\<lambda>d. d\<lparr>phys_addr := 0, used := False\<rparr>) (log_call (Free_Pages (part d) (phys_addr d)) st))"

definition page_round :: "u32 \<Rightarrow> u32" where
  "page_round n = (if n mod PAGE_SIZE \<noteq> 0 then (n div PAGE_SIZE + 1) * PAGE_SIZE else n)"

subsection \<open>Requests\<close>

definition bpamemio_allocmem ::
  "bpa_env \<Rightarrow> BPAMemAllocMemData option \<Rightarrow> bool \<Rightarrow> bpamem_state \<Rightarrow>
   int \<times> BPAMemAllocMemData option \<times> bpamem_state" where
  "bpamemio_allocmem env in_data to_user_fails st =
     (case find_next_device st of
        (None, st) \<Rightarrow> (-1, None, st)
      | (Some dev, st) \<Rightarrow>
          (case in_data of
             None \<Rightarrow> (-1, None, release_slot dev st)
           | Some data \<Rightarrow>
               let data = data\<lparr>device_num := dev, mem_size := page_round (mem_size data)\<rparr>;
                   p = bpa2_find_part env (bpa_part data);
                   st = set_slot dev (\<lambda>d. d\<lparr>part := p\<rparr>) st
               in if p = 0 then (-1, None, release_slot dev st)
                  else
                    let a = bpa2_alloc_pages env (bpa_log st) p (mem_size data div PAGE_SIZE);
                        st = log_call (Alloc_Pages p (mem_size data div PAGE_SIZE) a) st;
                        st = set_slot dev (\<lambda>d. d\<lparr>phys_addr := a\<rparr>) st
                    in if a = 0 then (- ENOMEM, None, release_slot dev st)
                       else
                         let st = set_slot dev (\<lambda>d. d\<lparr>size_of := mem_size data\<rparr>) st
                         in if to_user_fails then (-1, None, free_slot dev st)
                            else (0, Some data, st)))"

definition bpamemio_mapmem ::
  "bpa_env \<Rightarrow> BPAMemMapMemData option \<Rightarrow> bool \<Rightarrow> bpamem_state \<Rightarrow>
   int \<times> BPAMemMapMemData option \<times> bpamem_state" where
  "bpamemio_mapmem env in_data to_user_fails st =
     (case find_next_device st of
        (None, st) \<Rightarrow> (-1, None, st)
      | (Some dev, st) \<Rightarrow>
          (case in_data of
             None \<Rightarrow> (-1, None, release_slot dev st)
           | Some data \<Rightarrow>
               let data = data\<lparr>device_num := dev\<rparr>;
                   p = bpa2_find_part env (bpa_part data);
                   st = set_slot dev (\<lambda>d. d\<lparr>part := p\<rparr>) st
               in if p = 0 then (-1, None, release_slot dev st)
                  else
                    let st = set_slot dev (\<lambda>d. d\<lparr>size_of := mem_size data, phys_addr := map_phys_addr data\<rparr>) st
                    in if to_user_fails then (-1, None, free_slot dev st)
                       else (0, Some data, st)))"

definition bpamemio_deallocmem :: "nat \<Rightarrow> bpamem_state \<Rightarrow> (int \<times> bpamem_state) option" where
  "bpamemio_deallocmem dev st =
     (if dev < length (bpamem_dev st)
      then Some (0, if used (bpamem_dev st ! dev) then free_slot dev st else st) else None)"

definition bpamemio_unmapmem :: "nat \<Rightarrow> bpamem_state \<Rightarrow> (int \<times> bpamem_state) option" where
  "bpamemio_unmapmem dev st =
     (if dev < length (bpamem_dev st)
      then Some (0, if used (bpamem_dev st ! dev)
                    then set_slot dev (\<lambda>d. d\<lparr>phys_addr := 0, used := False\<rparr>) st else st) else None)"

text \<open>An ioctl with its argument as the kernel finds it in user memory.\<close>

datatype bpamem_request =
    ALLOCMEM "BPAMemAllocMemData option" bool
  | MAPMEM "BPAMemMapMemData option" bool
  | FREEMEM
  | UNMAPMEM
  | OTHER_IOCTL

definition bpamem_ioctl :: "bpa_env \<Rightarrow> nat \<Rightarrow> bpamem_request \<Rightarrow> bpamem_state \<Rightarrow> (int \<times> bpamem_state) option" where
  "bpamem_ioctl env dev req st =
     (case req of
        ALLOCMEM in_data fails \<Rightarrow> (case bpamemio_allocmem env in_data fails st of (rc, _, st) \<Rightarrow> Some (rc, st))
      | MAPMEM in_data fails \<Rightarrow> (case bpamemio_mapmem env in_data fails st of (rc, _, st) \<Rightarrow> Some (rc, st))
      | FREEMEM \<Rightarrow> bpamemio_deallocmem dev st
      | UNMAPMEM \<Rightarrow> bpamemio_unmapmem dev st
      | OTHER_IOCTL \<Rightarrow> Some (-1, st))"

text \<open>
  The area of physical memory a successful \<open>mmap\<close> maps: its first page and its length in bytes.
\<close>

definition bpamem_mmap ::
  "nat \<Rightarrow> u32 \<Rightarrow> u32 \<Rightarrow> u32 \<Rightarrow> bool \<Rightarrow> bpamem_state \<Rightarrow> (int \<times> (u32 \<times> u32) option) option" where
  "bpamem_mmap dev vm_start vm_end vm_pgoff remap_fails st =
     (if dev < length (bpamem_dev st) then
        (let d = bpamem_dev st ! dev
         in if used d \<and> phys_addr d = 0 then Some (-1, None)
            else
              let start = phys_addr d + push_bit PAGE_SHIFT vm_pgoff
              in if remap_fails then Some (- EIO, None)
                 else Some (0, Some (drop_bit PAGE_SHIFT start, vm_end - vm_start)))
      else None)"

subsection \<open>Loading and unloading the module\<close>

fun clear_slots :: "nat list \<Rightarrow> bpamem_state \<Rightarrow> bpamem_state" where
  "clear_slots [] st = st"
| "clear_slots (i # is) st = clear_slots is (set_slot i (\<lambda>d. d\<lparr>used := False, phys_addr := 0\<rparr>) st)"

definition bpamem_static :: bpamem_state where
  "bpamem_static = \<lparr>bpamem_dev = replicate MAX_BPA_ALLOCS \<lparr>used = False, part = 0, phys_addr = 0, size_of = 0\<rparr>,
     bpa_log = [], region = False, cdev = False, nodes = 0\<rparr>"

definition bpamem_init :: "int \<Rightarrow> int \<Rightarrow> bpamem_state \<Rightarrow> int \<times> bpamem_state" where
  "bpamem_init region_result cdev_result st =
     (let st = clear_slots [0..<MAX_BPA_ALLOCS] st
      in if region_result < 0 then (region_result, st)
         else
           let st = st\<lparr>region := True\<rparr>
           in if cdev_result < 0 then (-1, st)
              else (region_result, st\<lparr>cdev := True, nodes := MAX_BPA_ALLOCS\<rparr>))"

fun dealloc_slots :: "nat list \<Rightarrow> bpamem_state \<Rightarrow> bpamem_state option" where
  "dealloc_slots [] st = Some st"
| "dealloc_slots (i # is) st =
     (case bpamemio_deallocmem i st of None \<Rightarrow> None | Some (_, st) \<Rightarrow> dealloc_slots is st)"

definition bpamem_exit :: "bpamem_state \<Rightarrow> bpamem_state option" where
  "bpamem_exit st =
     map_option (\<lambda>st. st\<lparr>cdev := False, region := False, nodes := 0\<rparr>) (dealloc_slots [0..<MAX_BPA_ALLOCS] st)"

subsection \<open>Specification vocabulary\<close>

text \<open>The blocks a log leaves allocated, and that it frees only allocated blocks.\<close>

fun outstanding :: "(bpa2_part \<times> u32) set \<Rightarrow> bpa_call list \<Rightarrow> (bpa2_part \<times> u32) set" where
  "outstanding S [] = S"
| "outstanding S (Alloc_Pages p n a # cs) = outstanding (if a = 0 then S else insert (p, a) S) cs"
| "outstanding S (Free_Pages p a # cs) = outstanding (S - {(p, a)}) cs"

fun frees_ok :: "(bpa2_part \<times> u32) set \<Rightarrow> bpa_call list \<Rightarrow> bool" where
  "frees_ok S [] = True"
| "frees_ok S (Alloc_Pages p n a # cs) = frees_ok (if a = 0 then S else insert (p, a) S) cs"
| "frees_ok S (Free_Pages p a # cs) = ((p, a) \<in> S \<and> frees_ok (S - {(p, a)}) cs)"

text \<open>The allocator hands out no block that is still allocated.\<close>

definition bpa_fresh :: "bpa_env \<Rightarrow> bool" where
  "bpa_fresh env \<longleftrightarrow> (\<forall>log p n. (p, bpa2_alloc_pages env log p n) \<notin> outstanding {} log)"

text \<open>The slots that hold an allocation, and the block a slot holds.\<close>

definition holders :: "bpamem_dev_private list \<Rightarrow> nat set \<Rightarrow> nat set" where
  "holders ds M = {i. i < length ds \<and> used (ds ! i) \<and> i \<notin> M}"

definition block :: "bpamem_dev_private list \<Rightarrow> nat \<Rightarrow> bpa2_part \<times> u32" where
  "block ds i = (part (ds ! i), phys_addr (ds ! i))"

definition blocks_inv :: "bpamem_dev_private list \<Rightarrow> bpa_call list \<Rightarrow> nat set \<Rightarrow> bool" where
  "blocks_inv ds log M \<longleftrightarrow> length ds = MAX_BPA_ALLOCS \<and> (\<forall>i \<in> M. i < length ds \<and> used (ds ! i)) \<and> frees_ok {} log \<and>
     inj_on (block ds) (holders ds M) \<and> outstanding {} log = block ds ` holders ds M"

definition bump_env :: bpa_env where
  "bump_env = \<lparr>bpa2_find_part = (\<lambda>name. if name = ''LMI_VID'' then 1 else 0),
     bpa2_alloc_pages = (\<lambda>log p n. if (p, 0x40000000) \<in> outstanding {} log then 0 else 0x40000000)\<rparr>"

subsection \<open>Lemmas\<close>

text \<open>
  Three requests do harm: freeing a slot that only maps memory, unmapping a slot that holds an allocation, and asking for a mapping
  where the answer cannot be written back. \<open>M\<close> are the slots that hold a mapping. Every other request, with any failure, is a step.
\<close>

definition bpamem_misuse :: "nat \<Rightarrow> bpamem_request \<Rightarrow> bpamem_state \<Rightarrow> nat set \<Rightarrow> bool" where
  "bpamem_misuse dev req st M =
     (case req of
        FREEMEM \<Rightarrow> dev \<in> M
      | UNMAPMEM \<Rightarrow> dev \<in> holders (bpamem_dev st) M
      | MAPMEM data fails \<Rightarrow> fails
      | _ \<Rightarrow> False)"

definition mapped_after :: "bpa_env \<Rightarrow> nat \<Rightarrow> bpamem_request \<Rightarrow> bpamem_state \<Rightarrow> nat set \<Rightarrow> nat set" where
  "mapped_after env dev req st M =
     (case req of
        MAPMEM data fails \<Rightarrow>
          (case bpamemio_mapmem env data fails st of
             (_, Some d, _) \<Rightarrow> insert (device_num d) M
           | _ \<Rightarrow> M)
      | UNMAPMEM \<Rightarrow> M - {dev}
      | _ \<Rightarrow> M)"

inductive bpamem_reach :: "bpa_env \<Rightarrow> bpamem_state \<Rightarrow> nat set \<Rightarrow> bool" for env where
  init: "bpamem_init 0 0 bpamem_static = (rc, st) \<Longrightarrow> bpamem_reach env st {}"
| request: "bpamem_reach env st M \<Longrightarrow> \<not> bpamem_misuse dev req st M \<Longrightarrow> bpamem_ioctl env dev req st = Some (rc, st') \<Longrightarrow>
    bpamem_reach env st' (mapped_after env dev req st M)"

lemma outstanding_append: "outstanding S (xs @ ys) = outstanding (outstanding S xs) ys"
  by (induction S xs rule: outstanding.induct) auto

lemma frees_ok_append: "frees_ok S (xs @ ys) \<longleftrightarrow> frees_ok S xs \<and> frees_ok (outstanding S xs) ys"
  by (induction S xs rule: outstanding.induct) auto

lemmas bpa_log_append = outstanding_append frees_ok_append

lemma block_update [simp]: "j \<noteq> i \<Longrightarrow> block (ds[i := d]) j = block ds j"
  "i < length ds \<Longrightarrow> block (ds[i := d]) i = (part d, phys_addr d)"
  by (simp_all add: block_def)

lemma holders_update: "i < length ds \<Longrightarrow> holders (ds[i := d]) M =
    (if used d \<and> i \<notin> M then insert i (holders ds M) else holders ds M - {i})"
  by (auto simp: holders_def nth_list_update)

lemma holders_remove: "i \<in> holders ds M \<Longrightarrow> holders ds M = insert i (holders ds M - {i})" by auto

lemma block_other: "block (ds[i := d]) ` (A - {i}) = block ds ` (A - {i})"
  "inj_on (block (ds[i := d])) (A - {i}) = inj_on (block ds) (A - {i})"
  by (auto simp: inj_on_def intro!: image_cong)

lemma not_holder: "blocks_inv ds log M \<Longrightarrow> \<not> used (ds ! i) \<Longrightarrow> holders ds M - {i} = holders ds M \<and> i \<notin> M"
  by (auto simp: holders_def blocks_inv_def)

lemma blocks_inv_idle:
  assumes "blocks_inv ds log M" "i < length ds" "\<not> used (ds ! i)" "\<not> used d"
  shows "blocks_inv (ds[i := d]) log M"
  using assms not_holder [OF assms(1,3)] block_other [of ds i d "holders ds M"]
  by (auto simp: blocks_inv_def holders_update nth_list_update)

lemma blocks_inv_acquire:
  assumes "blocks_inv ds log M" "i < length ds" "\<not> used (ds ! i)" "used d"
    "(part d, phys_addr d) \<notin> outstanding {} log" "phys_addr d \<noteq> 0"
  shows "blocks_inv (ds[i := d]) (log @ [Alloc_Pages (part d) n (phys_addr d)]) M"
  using assms not_holder [OF assms(1,3)] block_other [of ds i d "holders ds M"]
  by (auto simp: blocks_inv_def holders_update nth_list_update bpa_log_append)

lemma blocks_inv_refused: "blocks_inv ds log M \<Longrightarrow> blocks_inv ds (log @ [Alloc_Pages p n 0]) M"
  by (auto simp: blocks_inv_def bpa_log_append)

lemma blocks_inv_release:
  assumes "blocks_inv ds log M" "i < length ds" "used (ds ! i)" "i \<notin> M" "\<not> used d"
  shows "blocks_inv (ds[i := d]) (log @ [Free_Pages (part (ds ! i)) (phys_addr (ds ! i))]) M"
proof -
  have i: "i \<in> holders ds M" "block ds i = (part (ds ! i), phys_addr (ds ! i))"
    using assms by (auto simp: holders_def block_def)
  have mem: "(part (ds ! i), phys_addr (ds ! i)) \<in> block ds ` holders ds M" using i by (metis imageI)
  have "block ds ` (holders ds M - {i}) = block ds ` holders ds M - {block ds i}"
    using assms(1) i(1) by (auto simp: blocks_inv_def inj_on_def)
  moreover have "inj_on (block ds) (holders ds M - {i})"
    using assms(1) by (auto simp: blocks_inv_def intro: inj_on_subset)
  ultimately show ?thesis
    using assms i mem block_other [of ds i d "holders ds M"]
    by (auto simp: blocks_inv_def holders_update nth_list_update bpa_log_append)
qed

lemma blocks_inv_map:
  assumes "blocks_inv ds log M" "i < length ds" "\<not> used (ds ! i)" "used d"
  shows "blocks_inv (ds[i := d]) log (insert i M)"
proof -
  have "holders (ds[i := d]) (insert i M) = holders ds M - {i}" by (auto simp: holders_def nth_list_update)
  then show ?thesis
    using assms not_holder [OF assms(1,3)] block_other [of ds i d "holders ds M"]
    by (auto simp: blocks_inv_def nth_list_update)
qed

lemma blocks_inv_unmap:
  assumes "blocks_inv ds log M" "i \<in> M" "\<not> used d"
  shows "blocks_inv (ds[i := d]) log (M - {i})"
proof -
  have i: "i < length ds" using assms by (auto simp: blocks_inv_def)
  then have "holders (ds[i := d]) (M - {i}) = holders ds M - {i}" "holders ds M - {i} = holders ds M"
    using assms by (auto simp: holders_def nth_list_update)
  then show ?thesis
    using i assms block_other [of ds i d "holders ds M"] by (auto simp: blocks_inv_def nth_list_update)
qed

lemma first_unused_Some:
  "first_unused k ds = Some i \<Longrightarrow> k \<le> i \<and> i < k + length ds \<and> \<not> used (ds ! (i - k)) \<and> (\<forall>j < i - k. used (ds ! j))"
proof (induction k ds rule: first_unused.induct)
  case (2 k d ds)
  then show ?case by (auto simp: nth_Cons' split: if_splits)
qed simp

lemma first_unused_None: "first_unused k ds = None \<longleftrightarrow> (\<forall>d \<in> set ds. used d)"
  by (induction k ds rule: first_unused.induct) auto

lemmas slot_defs = set_slot_def log_call_def release_slot_def free_slot_def find_next_device_def Let_def

lemma allocmem_inv:
  assumes "bpamemio_allocmem env data fails st = (rc, out, st')" "bpa_fresh env"
    "blocks_inv (bpamem_dev st) (bpa_log st) M"
  shows "blocks_inv (bpamem_dev st') (bpa_log st') M"
proof (cases "first_unused 0 (bpamem_dev st)")
  case None
  then show ?thesis using assms by (simp add: bpamemio_allocmem_def slot_defs)
next
  case (Some i)
  then have i: "i < length (bpamem_dev st)" "\<not> used (bpamem_dev st ! i)" using first_unused_Some [OF Some] by simp_all
  note idle = blocks_inv_idle [OF assms(3) i]
  show ?thesis
  proof (cases data)
    case None
    then show ?thesis using assms(1) Some i idle by (auto simp: bpamemio_allocmem_def slot_defs)
  next
    case (Some d)
    let ?p = "bpa2_find_part env (bpa_part d)" and ?n = "page_round (mem_size d) div PAGE_SIZE"
    let ?a = "bpa2_alloc_pages env (bpa_log st) ?p ?n"
    let ?got = "(bpamem_dev st ! i)\<lparr>used := True, part := ?p, phys_addr := ?a, size_of := page_round (mem_size d)\<rparr>"
    have fresh: "(?p, ?a) \<notin> outstanding {} (bpa_log st)" using assms(2) by (simp add: bpa_fresh_def)
    have got: "?a \<noteq> 0 \<Longrightarrow> blocks_inv ((bpamem_dev st)[i := ?got]) (bpa_log st @ [Alloc_Pages ?p ?n ?a]) M"
      using blocks_inv_acquire [OF assms(3) i, of ?got ?n] fresh by simp
    have undone: "?a \<noteq> 0 \<Longrightarrow> blocks_inv ((bpamem_dev st)[i := ?got\<lparr>phys_addr := 0, used := False\<rparr>])
        ((bpa_log st @ [Alloc_Pages ?p ?n ?a]) @ [Free_Pages ?p ?a]) M"
      using blocks_inv_release [OF got, of i "?got\<lparr>phys_addr := 0, used := False\<rparr>"] i not_holder [OF assms(3) i(2)] by simp
    show ?thesis
      using assms(1) Some \<open>first_unused 0 (bpamem_dev st) = Some i\<close> i idle got undone blocks_inv_refused [OF idle, of _ ?p ?n]
      by (auto simp: bpamemio_allocmem_def slot_defs split: if_splits)
  qed
qed

lemma mapmem_inv:
  assumes "bpamemio_mapmem env data False st = (rc, out, st')" "blocks_inv (bpamem_dev st) (bpa_log st) M"
  shows "blocks_inv (bpamem_dev st') (bpa_log st') (case out of None \<Rightarrow> M | Some d \<Rightarrow> insert (device_num d) M)"
proof (cases "first_unused 0 (bpamem_dev st)")
  case None
  then show ?thesis using assms by (auto simp: bpamemio_mapmem_def slot_defs)
next
  case (Some i)
  then have i: "i < length (bpamem_dev st)" "\<not> used (bpamem_dev st ! i)" using first_unused_Some [OF Some] by simp_all
  note idle = blocks_inv_idle [OF assms(2) i] and mapped = blocks_inv_map [OF assms(2) i]
  show ?thesis
    using assms(1) Some i idle mapped
    by (cases data) (auto simp: bpamemio_mapmem_def slot_defs split: if_splits)
qed

lemma clear_slots_static: "clear_slots [0..<MAX_BPA_ALLOCS] bpamem_static = bpamem_static"
proof -
  have "clear_slots is bpamem_static = bpamem_static" if "\<forall>i \<in> set is. i < MAX_BPA_ALLOCS" for "is"
    using that
  proof (induction "is")
    case (Cons i "is")
    have "set_slot i (\<lambda>d. d\<lparr>used := False, phys_addr := 0\<rparr>) bpamem_static = bpamem_static"
      using Cons.prems by (simp add: set_slot_def bpamem_static_def list_update_same_conv)
    then show ?case using Cons by simp
  qed simp
  then show ?thesis by simp
qed

lemma bpamem_reach_inv:
  "bpamem_reach env st M \<Longrightarrow> bpa_fresh env \<Longrightarrow> blocks_inv (bpamem_dev st) (bpa_log st) M"
proof (induction rule: bpamem_reach.induct)
  case (init rc st)
  then show ?case
    by (auto simp: bpamem_init_def clear_slots_static Let_def) (auto simp: bpamem_static_def blocks_inv_def holders_def inj_on_def)
next
  case (request st M dev req rc st')
  have inv: "blocks_inv (bpamem_dev st) (bpa_log st) M" by (rule request.IH [OF request.prems])
  show ?case
  proof (cases req)
    case (ALLOCMEM data fails)
    then show ?thesis
      using request inv by (auto simp: bpamem_ioctl_def mapped_after_def intro: allocmem_inv split: prod.splits)
  next
    case (MAPMEM data fails)
    then show ?thesis
      using request mapmem_inv [OF _ inv, of env data]
      by (auto simp: bpamem_ioctl_def mapped_after_def bpamem_misuse_def split: prod.splits)
  next
    case FREEMEM
    then show ?thesis
      using request inv blocks_inv_release [of "bpamem_dev st" "bpa_log st" M dev]
      by (auto simp: bpamem_ioctl_def bpamemio_deallocmem_def bpamem_misuse_def mapped_after_def slot_defs split: if_splits)
  next
    case UNMAPMEM
    then have dev: "dev < length (bpamem_dev st)" "used (bpamem_dev st ! dev) \<Longrightarrow> dev \<in> M"
      using request.hyps(2,3) by (auto simp: bpamem_misuse_def holders_def bpamem_ioctl_def bpamemio_unmapmem_def split: if_splits)
    have "M - {dev} = M" if "\<not> used (bpamem_dev st ! dev)" using that inv by (auto simp: blocks_inv_def)
    then show ?thesis
      using UNMAPMEM request.hyps(3) inv dev blocks_inv_unmap [OF inv, of dev]
      by (auto simp: bpamem_ioctl_def bpamemio_unmapmem_def mapped_after_def set_slot_def split: if_splits)
  next
    case OTHER_IOCTL
    then show ?thesis using request inv by (simp add: bpamem_ioctl_def mapped_after_def)
  qed
qed

text \<open>What the three requests do, and unloading with a mapping left.\<close>

lemma freemem_of_mapping:
  "dev < length (bpamem_dev st) \<Longrightarrow> used (bpamem_dev st ! dev) \<Longrightarrow>
   \<exists>st'. bpamem_ioctl env dev FREEMEM st = Some (0, st') \<and>
     bpa_log st' = bpa_log st @ [Free_Pages (part (bpamem_dev st ! dev)) (phys_addr (bpamem_dev st ! dev))]"
  by (simp add: bpamem_ioctl_def bpamemio_deallocmem_def slot_defs)

lemma unmapmem_of_block:
  assumes inv: "blocks_inv (bpamem_dev st) (bpa_log st) M" and dev: "dev \<in> holders (bpamem_dev st) M"
  shows "\<exists>st'. bpamem_ioctl env dev UNMAPMEM st = Some (0, st') \<and> block (bpamem_dev st) dev \<in> outstanding {} (bpa_log st') \<and>
    block (bpamem_dev st) dev \<notin> block (bpamem_dev st') ` holders (bpamem_dev st') M"
proof -
  let ?ds = "bpamem_dev st" and ?d = "(bpamem_dev st ! dev)\<lparr>phys_addr := 0, used := False\<rparr>"
  have d: "dev < length ?ds" "used (?ds ! dev)" using dev by (auto simp: holders_def)
  then have h: "holders (?ds[dev := ?d]) M = holders ?ds M - {dev}" by (simp add: holders_update)
  have "block ?ds dev \<notin> block ?ds ` (holders ?ds M - {dev})"
    using inv dev by (auto simp: blocks_inv_def inj_on_def)
  then have "block ?ds dev \<notin> block (?ds[dev := ?d]) ` holders (?ds[dev := ?d]) M" unfolding h by (simp add: block_other)
  moreover have "block ?ds dev \<in> outstanding {} (bpa_log st)" using inv dev by (auto simp: blocks_inv_def)
  ultimately show ?thesis using d by (simp add: bpamem_ioctl_def bpamemio_unmapmem_def set_slot_def)
qed

lemma mapmem_unanswered:
  assumes "first_unused 0 (bpamem_dev st) = Some i" "bpa2_find_part env (bpa_part d) \<noteq> 0"
  shows "\<exists>st'. bpamem_ioctl env dev (MAPMEM (Some d) True) st = Some (-1, st') \<and>
    bpa_log st' = bpa_log st @ [Free_Pages (bpa2_find_part env (bpa_part d)) (map_phys_addr d)]"
  using assms first_unused_Some [OF assms(1)] by (simp add: bpamem_ioctl_def bpamemio_mapmem_def slot_defs)

lemma dealloc_slots_inv:
  assumes "blocks_inv (bpamem_dev st) (bpa_log st) {}" "\<forall>i \<in> set is. i < MAX_BPA_ALLOCS"
  shows "\<exists>st'. dealloc_slots is st = Some st' \<and> blocks_inv (bpamem_dev st') (bpa_log st') {} \<and>
    (\<forall>i < MAX_BPA_ALLOCS. used (bpamem_dev st' ! i) \<longrightarrow> used (bpamem_dev st ! i) \<and> i \<notin> set is)"
  using assms
proof (induction "is" arbitrary: st)
  case (Cons i "is")
  have len: "length (bpamem_dev st) = MAX_BPA_ALLOCS" and i: "i < MAX_BPA_ALLOCS" using Cons.prems by (simp_all add: blocks_inv_def)
  let ?st = "if used (bpamem_dev st ! i) then free_slot i st else st"
  have step: "bpamemio_deallocmem i st = Some (0, ?st)" using len i by (simp add: bpamemio_deallocmem_def)
  have inv: "blocks_inv (bpamem_dev ?st) (bpa_log ?st) {}"
    using Cons.prems(1) blocks_inv_release [OF Cons.prems(1), of i] len i by (auto simp: slot_defs)
  have sub: "\<forall>j < MAX_BPA_ALLOCS. used (bpamem_dev ?st ! j) \<longrightarrow> used (bpamem_dev st ! j) \<and> j \<noteq> i"
    using len i by (auto simp: slot_defs nth_list_update split: if_splits)
  obtain st' where st': "dealloc_slots is ?st = Some st'" "blocks_inv (bpamem_dev st') (bpa_log st') {}"
      "\<forall>i < MAX_BPA_ALLOCS. used (bpamem_dev st' ! i) \<longrightarrow> used (bpamem_dev ?st ! i) \<and> i \<notin> set is"
    using Cons.IH [OF inv] Cons.prems(2) by auto
  show ?case using step st' sub by (intro exI [of _ st']) auto
qed auto

lemma outstanding_nonzero: "(p, 0) \<notin> S \<Longrightarrow> (p, 0) \<notin> outstanding S log"
  by (induction S log rule: outstanding.induct) auto

lemma bump_env_fresh: "bpa_fresh bump_env"
  by (simp add: bpa_fresh_def bump_env_def outstanding_nonzero)

lemma pages_up:
  "(x::nat) mod 4096 = 0 \<Longrightarrow> (x + 4095) div 4096 = x div 4096"
  "x mod 4096 \<noteq> 0 \<Longrightarrow> (x + 4095) div 4096 = x div 4096 + 1"
proof -
  define q r where qr: "q = x div 4096" "r = x mod 4096"
  have x: "x = 4096 * q + r" and r: "r < 4096" by (simp_all add: qr)
  show "(x + 4095) div 4096 = x div 4096" if "x mod 4096 = 0"
    using that unfolding qr [symmetric] by (intro div_nat_eqI) (simp_all add: x)
  show "(x + 4095) div 4096 = x div 4096 + 1" if "x mod 4096 \<noteq> 0"
    using that r unfolding qr [symmetric] by (intro div_nat_eqI) (simp_all add: x)
qed

lemma page_round_ok:
  assumes "unat n \<le> 2 ^ 32 - 4096"
  shows "unat (page_round n) = (unat n + 4095) div 4096 * 4096"
proof (cases "unat n mod 4096 = 0")
  case True
  then have "n mod 4096 = 0" by (simp add: word_unat_eq_iff unat_mod)
  then have "page_round n = n" by (simp add: page_round_def PAGE_SIZE_def)
  then show ?thesis using True pages_up(1) [OF True] div_mult_mod_eq [of "unat n" 4096] by simp
next
  case False
  then have "n mod 4096 \<noteq> 0" by (auto simp: word_unat_eq_iff unat_mod)
  then have "page_round n = (n div 4096 + 1) * 4096" by (simp add: page_round_def PAGE_SIZE_def)
  also have "unat \<dots> = (unat n div 4096 + 1) * 4096"
  proof -
    have "(unat n div 4096 + 1) * 4096 < 2 ^ 32"
    proof -
      have "unat n div 4096 * 4096 + 1 \<le> unat n" using False div_mult_mod_eq [of "unat n" 4096] by linarith
      then show ?thesis using assms by simp
    qed
    then show ?thesis by (simp add: unat_word_ariths unat_div)
  qed
  finally show ?thesis using pages_up(2) [OF False] by simp
qed

lemma page_round_wraps:
  assumes "2 ^ 32 - 4096 < unat n"
  shows "page_round n = 0"
proof -
  have l: "unat n < 2 ^ 32" using unsigned_less [of n] by simp
  have q: "unat n div 4096 = 1048575" by (rule div_nat_eqI) (use assms l in simp_all)
  then have "unat n mod 4096 \<noteq> 0" using assms [simplified] div_mult_mod_eq [of "unat n" 4096] by auto
  then have "n div 4096 = 1048575" "n mod 4096 \<noteq> 0"
    using q by (auto simp: word_unat_eq_iff unat_div unat_mod)
  then show ?thesis by (simp add: page_round_def PAGE_SIZE_def)
qed

lemma exit_frees_all:
  assumes "blocks_inv (bpamem_dev st) (bpa_log st) {}"
  shows "\<exists>st'. bpamem_exit st = Some st' \<and> frees_ok {} (bpa_log st') \<and> outstanding {} (bpa_log st') = {}"
proof -
  obtain st' where st': "dealloc_slots [0..<MAX_BPA_ALLOCS] st = Some st'" "blocks_inv (bpamem_dev st') (bpa_log st') {}"
      "\<forall>i < MAX_BPA_ALLOCS. \<not> used (bpamem_dev st' ! i)"
    using dealloc_slots_inv [OF assms, of "[0..<MAX_BPA_ALLOCS]"] by auto
  moreover have "holders (bpamem_dev st') {} = {}" using st'(2,3) by (auto simp: holders_def blocks_inv_def)
  ultimately show ?thesis by (auto simp: bpamem_exit_def blocks_inv_def)
qed

subsection \<open>Properties\<close>

text \<open>
  Claim C26. No block is lost, shared or freed twice, unless one of three requests is made. With an allocator that hands out no block
  still in use, in every state reached by any requests, with any failures, but those of \<open>bpamem_misuse\<close>: every call to
  \<open>bpa2_free_pages\<close> so far named a block that was allocated, the allocated blocks are those of the used slots without mapping,
  each held by one slot, and if no mapping is left, unloading the module frees all of them. Each of the three requests does break
  this: freeing a mapping, and a mapping whose answer cannot be written back, free the physical memory the program named (which
  is right only if it happens to be allocated), and unmapping an allocated block loses it.
\<close>

theorem bpamem_blocks_safe:
  assumes "bpa_fresh env" "bpamem_reach env st M"
  shows "frees_ok {} (bpa_log st) \<and>
    outstanding {} (bpa_log st) = block (bpamem_dev st) ` holders (bpamem_dev st) M \<and>
    inj_on (block (bpamem_dev st)) (holders (bpamem_dev st) M) \<and>
    (M = {} \<longrightarrow> (\<exists>st'. bpamem_exit st = Some st' \<and> frees_ok {} (bpa_log st') \<and> outstanding {} (bpa_log st') = {})) \<and>
    (\<forall>dev \<in> M. \<exists>st'. bpamem_ioctl env dev FREEMEM st = Some (0, st') \<and>
       (frees_ok {} (bpa_log st') \<longleftrightarrow> block (bpamem_dev st) dev \<in> outstanding {} (bpa_log st))) \<and>
    (\<forall>dev \<in> holders (bpamem_dev st) M. \<exists>st'. bpamem_ioctl env dev UNMAPMEM st = Some (0, st') \<and>
       block (bpamem_dev st) dev \<in> outstanding {} (bpa_log st') \<and>
       block (bpamem_dev st) dev \<notin> block (bpamem_dev st') ` holders (bpamem_dev st') M) \<and>
    (\<forall>dev d. \<not> list_all used (bpamem_dev st) \<longrightarrow> bpa2_find_part env (bpa_part d) \<noteq> 0 \<longrightarrow>
       (\<exists>st'. bpamem_ioctl env dev (MAPMEM (Some d) True) st = Some (-1, st') \<and>
         (frees_ok {} (bpa_log st') \<longleftrightarrow> (bpa2_find_part env (bpa_part d), map_phys_addr d) \<in> outstanding {} (bpa_log st))))"
proof -
  have inv: "blocks_inv (bpamem_dev st) (bpa_log st) M" by (rule bpamem_reach_inv [OF assms(2,1)])
  have "\<exists>st'. bpamem_exit st = Some st' \<and> frees_ok {} (bpa_log st') \<and> outstanding {} (bpa_log st') = {}" if "M = {}"
    using exit_frees_all inv that by simp
  moreover have "\<exists>st'. bpamem_ioctl env dev FREEMEM st = Some (0, st') \<and>
       (frees_ok {} (bpa_log st') \<longleftrightarrow> block (bpamem_dev st) dev \<in> outstanding {} (bpa_log st))" if "dev \<in> M" for dev
    using freemem_of_mapping [of dev st env] inv that by (auto simp: blocks_inv_def bpa_log_append block_def)
  moreover have "\<exists>st'. bpamem_ioctl env dev (MAPMEM (Some d) True) st = Some (-1, st') \<and>
         (frees_ok {} (bpa_log st') \<longleftrightarrow> (bpa2_find_part env (bpa_part d), map_phys_addr d) \<in> outstanding {} (bpa_log st))"
    if "\<not> list_all used (bpamem_dev st)" "bpa2_find_part env (bpa_part d) \<noteq> 0" for dev d
  proof -
    have "first_unused 0 (bpamem_dev st) \<noteq> None" using that(1) by (simp add: first_unused_None list_all_iff)
    then obtain i where "first_unused 0 (bpamem_dev st) = Some i" by blast
    from mapmem_unanswered [OF this that(2), of dev] show ?thesis using inv by (auto simp: blocks_inv_def bpa_log_append)
  qed
  ultimately show ?thesis using inv unmapmem_of_block [OF inv, of _ env] by (auto simp: blocks_inv_def)
qed

theorem bpamem_blocks_safe_witness:
  "\<exists>st. bpamem_reach bump_env st {} \<and> outstanding {} (bpa_log st) = {(1, 0x40000000)} \<and>
     (\<exists>st'. bpamem_exit st = Some st' \<and> outstanding {} (bpa_log st') = {})"
proof -
  define st where "st = snd (the (bpamem_ioctl bump_env 0 (ALLOCMEM (Some \<lparr>bpa_part = ''LMI_VID'', mem_size = 5000, device_num = 0\<rparr>) False)
      (snd (bpamem_init 0 0 bpamem_static))))"
  have "bpamem_reach bump_env (snd (bpamem_init 0 0 bpamem_static)) {}"
    by (rule bpamem_reach.init [of "fst (bpamem_init 0 0 bpamem_static)"]) simp
  then have reach: "bpamem_reach bump_env st {}" if "bpamem_ioctl bump_env 0
      (ALLOCMEM (Some \<lparr>bpa_part = ''LMI_VID'', mem_size = 5000, device_num = 0\<rparr>) False)
      (snd (bpamem_init 0 0 bpamem_static)) = Some (0, st)"
    using bpamem_reach.request [of bump_env _ "{}" 0 "ALLOCMEM (Some \<lparr>bpa_part = ''LMI_VID'', mem_size = 5000, device_num = 0\<rparr>) False", OF _ _ that]
    by (simp add: bpamem_misuse_def mapped_after_def)
  have run: "bpamem_ioctl bump_env 0 (ALLOCMEM (Some \<lparr>bpa_part = ''LMI_VID'', mem_size = 5000, device_num = 0\<rparr>) False)
      (snd (bpamem_init 0 0 bpamem_static)) = Some (0, st)" and log: "bpa_log st = [Alloc_Pages 1 2 0x40000000]"
    unfolding st_def by code_simp+
  show ?thesis using bpamem_blocks_safe [OF bump_env_fresh reach [OF run]] reach [OF run] log by (intro exI [of _ st]) auto
qed

text \<open>
  What \<open>BPAMEMIO_ALLOCMEM\<close> does, on every branch: with all slots in use nothing happens; a missing
  partition and a failing allocation are reported and leave the same slots in use; otherwise the
  first free slot gets the block, and the size, rounded up to pages, and the device number are
  reported. Sizes above \<open>2^32 - 4096\<close> wrap around to a request for no pages.
\<close>

theorem bpamem_alloc_result:
  "let ds = bpamem_dev st; p = bpa2_find_part env (bpa_part d); m = page_round (mem_size d);
      a = bpa2_alloc_pages env (bpa_log st) p (m div PAGE_SIZE) in
    (case bpamemio_allocmem env (Some d) False st of (rc, out, st') \<Rightarrow>
      (if list_all used ds then rc = -1 \<and> out = None \<and> st' = st
       else if p = 0 \<or> a = 0 then
         rc = (if p = 0 then -1 else - ENOMEM) \<and> out = None \<and> map used (bpamem_dev st') = map used ds
       else \<exists>i < length ds. \<not> used (ds ! i) \<and> list_all used (take i ds) \<and> rc = 0 \<and>
         out = Some (d\<lparr>device_num := i, mem_size := m\<rparr>) \<and>
         bpamem_dev st' = ds[i := (ds ! i)\<lparr>used := True, part := p, phys_addr := a, size_of := m\<rparr>] \<and>
         bpa_log st' = bpa_log st @ [Alloc_Pages p (m div PAGE_SIZE) a]) \<and>
      (if unat (mem_size d) \<le> 2 ^ 32 - 4096
       then unat (m div PAGE_SIZE) = (unat (mem_size d) + 4095) div 4096 \<and> unat m = 4096 * unat (m div PAGE_SIZE)
       else m = 0))"
proof -
  let ?m = "page_round (mem_size d)" and ?ds = "bpamem_dev st"
  have round: "if unat (mem_size d) \<le> 2 ^ 32 - 4096
       then unat (?m div PAGE_SIZE) = (unat (mem_size d) + 4095) div 4096 \<and> unat ?m = 4096 * unat (?m div PAGE_SIZE)
       else ?m = 0"
    using page_round_ok [of "mem_size d"] page_round_wraps [of "mem_size d"]
    by (auto simp: PAGE_SIZE_def unat_div)
  show ?thesis
  proof (cases "first_unused 0 ?ds")
    case None
    then have "list_all used ?ds" by (simp add: first_unused_None list_all_iff)
    then show ?thesis using None round by (simp add: bpamemio_allocmem_def slot_defs)
  next
    case (Some i)
    have i: "i < length ?ds" "\<not> used (?ds ! i)" "list_all used (take i ?ds)"
      using first_unused_Some [OF Some] by (auto simp: list_all_length)
    have "\<not> list_all used ?ds" using i by (auto simp: list_all_length)
    moreover have "map used (?ds[i := x]) = map used ?ds" if "\<not> used x" for x
      using i that by (simp add: map_update list_update_same_conv)
    ultimately show ?thesis using Some round i
      by (auto simp: bpamemio_allocmem_def slot_defs simp del: not_None_eq)
  qed
qed

end
