(* ===== verification/Cec.thy ===== *)
theory Cec
  imports Prelude "HOL-Library.Monad_Syntax"
begin

text \<open>
  \<open>src/local_src/driver/cec\<close>: the HDMI CEC driver without its user interface, that is the registers
  (\<open>cec_internal.c\<close>), sending, receiving and the interrupt handler (\<open>cec_worker.c\<close>), the protocol
  (\<open>cec_opcodes.c\<close>), the remote control keys (\<open>cec_rc.c\<close>) and the ring buffer that holds received
  messages for user space (from \<open>cec_dev.c\<close>). All static variables of these files are one record. The
  register writes, input events and wake-ups are logged. The bits the interrupt handler reads from the
  hardware are its arguments; the platform macros, the module parameter \<open>activemode\<close> and the address the HDMI
  driver reports are the record \<open>cec_cfg\<close>. An operation returns \<open>None\<close> when the code accesses an array outside
  its bounds. Handlers run one at a time: nothing changes while \<open>sendMessageWithRetry\<close> waits, so that it times
  out if a transmission is running. The text of the messages the code prints is left out.
\<close>

subsection \<open>Constants\<close>

definition FEATURE_ABORT :: byte where "FEATURE_ABORT = 0x00"
definition IMAGE_VIEW_ON :: byte where "IMAGE_VIEW_ON = 0x04"
definition GIVE_DECK_STATUS :: byte where "GIVE_DECK_STATUS = 0x1A"
definition DECK_STATUS :: byte where "DECK_STATUS = 0x1B"
definition SET_MENU_LANGUAGE :: byte where "SET_MENU_LANGUAGE = 0x32"
definition STANDBY :: byte where "STANDBY = 0x36"
definition USER_CONTROL_PRESSED :: byte where "USER_CONTROL_PRESSED = 0x44"
definition USER_CONTROL_RELEASED :: byte where "USER_CONTROL_RELEASED = 0x45"
definition GIVE_OSD_NAME :: byte where "GIVE_OSD_NAME = 0x46"
definition SET_OSD_NAME :: byte where "SET_OSD_NAME = 0x47"
definition SET_OSD_STRING :: byte where "SET_OSD_STRING = 0x64"
definition ROUTING_CHANGE :: byte where "ROUTING_CHANGE = 0x80"
definition ROUTING_INFORMATION :: byte where "ROUTING_INFORMATION = 0x81"
definition ACTIVE_SOURCE :: byte where "ACTIVE_SOURCE = 0x82"
definition GIVE_PHYSICAL_ADDRESS :: byte where "GIVE_PHYSICAL_ADDRESS = 0x83"
definition REPORT_PHYSICAL_ADDRESS :: byte where "REPORT_PHYSICAL_ADDRESS = 0x84"
definition REQUEST_ACTIVE_SOURCE :: byte where "REQUEST_ACTIVE_SOURCE = 0x85"
definition SET_STREAM_PATH :: byte where "SET_STREAM_PATH = 0x86"
definition DEVICE_VENDOR_ID :: byte where "DEVICE_VENDOR_ID = 0x87"
definition VENDOR_COMMAND :: byte where "VENDOR_COMMAND = 0x89"
definition GIVE_DEVICE_VENDOR_ID :: byte where "GIVE_DEVICE_VENDOR_ID = 0x8C"
definition MENU_REQUEST :: byte where "MENU_REQUEST = 0x8D"
definition MENU_STATUS :: byte where "MENU_STATUS = 0x8E"
definition GIVE_DEVICE_POWER_STATUS :: byte where "GIVE_DEVICE_POWER_STATUS = 0x8F"
definition REPORT_POWER_STATUS :: byte where "REPORT_POWER_STATUS = 0x90"
definition CEC_VERSION :: byte where "CEC_VERSION = 0x9e"
definition GET_CEC_VERSION :: byte where "GET_CEC_VERSION = 0x9f"
definition VENDOR_COMMAND_WITH_ID :: byte where "VENDOR_COMMAND_WITH_ID = 0xa0"
definition BROADCAST :: byte where "BROADCAST = 0xf"
definition ABORT_REASON_UNRECOGNIZED_OPCODE :: byte where "ABORT_REASON_UNRECOGNIZED_OPCODE = 0x00"
definition CEC_VERSION_V13A :: byte where "CEC_VERSION_V13A = 0x04"
definition DECK_INFO_PLAY :: byte where "DECK_INFO_PLAY = 0x11"
definition MENU_STATE_ACTIVATE :: byte where "MENU_STATE_ACTIVATE = 0x00"
definition POWER_STATUS_ON :: byte where "POWER_STATUS_ON = 0x00"
definition DEVICE_TYPE_TV :: byte where "DEVICE_TYPE_TV = 0x00"
definition DEVICE_TYPE_DVD :: byte where "DEVICE_TYPE_DVD = 0x04"
definition DEVICE_TYPE_REC1 :: byte where "DEVICE_TYPE_REC1 = 0x01"
definition DEVICE_TYPE_REC2 :: byte where "DEVICE_TYPE_REC2 = 0x02"
definition DEVICE_TYPE_STB1 :: byte where "DEVICE_TYPE_STB1 = 0x03"
definition DEVICE_TYPE_DVD1 :: byte where "DEVICE_TYPE_DVD1 = 0x04"
definition DEVICE_TYPE_STB2 :: byte where "DEVICE_TYPE_STB2 = 0x06"
definition DEVICE_TYPE_STB3 :: byte where "DEVICE_TYPE_STB3 = 0x07"
definition DEVICE_TYPE_DVD2 :: byte where "DEVICE_TYPE_DVD2 = 0x08"
definition DEVICE_TYPE_DVD3 :: byte where "DEVICE_TYPE_DVD3 = 0x0B"
definition DEVICE_TYPE_UNREG :: byte where "DEVICE_TYPE_UNREG = 0x0F"
definition CEC_STATUS_RECV_BTF :: byte where "CEC_STATUS_RECV_BTF = 128"
definition CEC_STATUS_RECV_ERR :: byte where "CEC_STATUS_RECV_ERR = 64"
definition CEC_STATUS_RECV_EOMSG :: byte where "CEC_STATUS_RECV_EOMSG = 32"
definition CEC_STATUS_RECV_SOMSG :: byte where "CEC_STATUS_RECV_SOMSG = 16"
definition CEC_STATUS_SEND_BTF :: byte where "CEC_STATUS_SEND_BTF = 8"
definition CEC_STATUS_SEND_ERR :: byte where "CEC_STATUS_SEND_ERR = 4"
definition CEC_STATUS_SEND_EOMSG :: byte where "CEC_STATUS_SEND_EOMSG = 2"
definition CEC_ERROR_ACK :: byte where "CEC_ERROR_ACK = 16"

definition PIO1BaseAddress :: u32 where "PIO1BaseAddress = 0xFD021000"
definition CECBaseAddress :: u32 where "CECBaseAddress = 0xFE030C00"
definition SysConfigBaseAddress :: u32 where "SysConfigBaseAddress = 0xFE001000"
definition PIO_PC0 :: u32 where "PIO_PC0 = 0x24"
definition PIO_PC1 :: u32 where "PIO_PC1 = 0x34"
definition PIO_PC2 :: u32 where "PIO_PC2 = 0x44"
definition SYS_CFG2 :: u32 where "SYS_CFG2 = 0x108"
definition SYS_CFG5 :: u32 where "SYS_CFG5 = 0x114"
definition CEC_PRESCALER_LEFT :: u32 where "CEC_PRESCALER_LEFT = 0x00"
definition CEC_PRESCALER_RIGHT :: u32 where "CEC_PRESCALER_RIGHT = 0x04"
definition CEC_CONTROL :: u32 where "CEC_CONTROL = 0x0C"
definition CEC_TX :: u32 where "CEC_TX = 0x10"
definition CEC_CFG :: u32 where "CEC_CFG = 0x18"
definition CEC_ADDRESS :: u32 where "CEC_ADDRESS = 0x1C"
definition CEC_TRANSM_SOM :: u32 where "CEC_TRANSM_SOM = 1"
definition CEC_TRANSM_EOM :: u32 where "CEC_TRANSM_EOM = 2"

definition CEC_MAX_DATA_LEN :: nat where "CEC_MAX_DATA_LEN = 15"
definition RECV_BUF_SIZE :: nat where "RECV_BUF_SIZE = CEC_MAX_DATA_LEN + 1"
definition SEND_BUF_SIZE :: nat where "SEND_BUF_SIZE = CEC_MAX_DATA_LEN + 1"
definition DEFAULT_RETRY_COUNT :: byte where "DEFAULT_RETRY_COUNT = 3"
definition OUTBUFFERSIZE :: u32 where "OUTBUFFERSIZE = 4096"

definition logicalDeviceTypeChoices :: bytes where
  "logicalDeviceTypeChoices =
     [DEVICE_TYPE_DVD1, DEVICE_TYPE_DVD2, DEVICE_TYPE_DVD3, DEVICE_TYPE_STB1, DEVICE_TYPE_STB2,
      DEVICE_TYPE_STB3, DEVICE_TYPE_REC1, DEVICE_TYPE_REC2, DEVICE_TYPE_UNREG]"

subsection \<open>State\<close>

datatype cec_event =
    Reg_Write u32 u32
  | Input_Event u32 u32 u32
  | Wake_Up
  | Delay nat

record cec_cfg =
  activemode :: bool
  hdmi_cec_address :: u32
  STX7105 :: bool
  STX7111 :: bool
  cec_kathrein :: bool
  cec_atevio7500 :: bool

record cec_out =
  outputBufferStart :: u32
  outputBufferEnd :: u32
  outputBuffer :: bytes

record cec_state =
  cec_log :: "cec_event list"
  cec_regs :: "u32 \<Rightarrow> u32"
  isReceiving :: bool
  indexOfRecvBuf :: nat
  recvBuf :: bytes
  isSending :: bool
  indexOfSendBuf :: nat
  sizeOfSendBuf :: nat
  sendBuf :: bytes
  retries :: byte
  sendCommand :: nat
  sendCommandWithDelay :: byte
  notEndTask :: bool
  isFirstKiss :: byte
  logicalDeviceTypeChoicesIndex :: byte
  logicalDeviceType :: byte
  ActiveSource :: "16 word"
  eventDiscovery :: byte
  eventActiveSource :: byte
  eventStandby :: byte
  last_keycode :: u32
  cec_buffer :: cec_out

definition cec_static :: "(u32 \<Rightarrow> u32) \<Rightarrow> cec_state" where
  "cec_static regs = \<lparr>cec_log = [], cec_regs = regs, isReceiving = False, indexOfRecvBuf = 0,
     recvBuf = replicate RECV_BUF_SIZE 0, isSending = False, indexOfSendBuf = 0, sizeOfSendBuf = 0,
     sendBuf = replicate SEND_BUF_SIZE 0, retries = DEFAULT_RETRY_COUNT, sendCommand = 0,
     sendCommandWithDelay = 0, notEndTask = True, isFirstKiss = 0, logicalDeviceTypeChoicesIndex = 0,
     logicalDeviceType = DEVICE_TYPE_DVD1, ActiveSource = 0, eventDiscovery = 0, eventActiveSource = 0,
     eventStandby = 0, last_keycode = 0xFFFF,
     cec_buffer = \<lparr>outputBufferStart = 0, outputBufferEnd = 0, outputBuffer = replicate (unat OUTBUFFERSIZE) 0\<rparr>\<rparr>"

definition cec_emit :: "cec_event \<Rightarrow> cec_state \<Rightarrow> cec_state" where
  "cec_emit e st = st\<lparr>cec_log := cec_log st @ [e]\<rparr>"

subsection \<open>Registers: cec\_internal.c\<close>

definition cec_write_register_u32 :: "u32 \<Rightarrow> u32 \<Rightarrow> cec_state \<Rightarrow> cec_state" where
  "cec_write_register_u32 address v st = cec_emit (Reg_Write address v) (st\<lparr>cec_regs := (cec_regs st)(address := v)\<rparr>)"

definition cec_read_register_u32 :: "u32 \<Rightarrow> cec_state \<Rightarrow> u32" where
  "cec_read_register_u32 address st = cec_regs st address"

definition cec_write_data :: "u32 \<Rightarrow> cec_state \<Rightarrow> cec_state" where
  "cec_write_data v = cec_write_register_u32 (CECBaseAddress + CEC_TX) v"

definition cec_start_sending :: "bool \<Rightarrow> cec_state \<Rightarrow> cec_state" where
  "cec_start_sending isPing =
     (if isPing then cec_write_register_u32 (CECBaseAddress + CEC_CONTROL) (CEC_TRANSM_EOM OR CEC_TRANSM_SOM)
      else cec_write_register_u32 (CECBaseAddress + CEC_CONTROL) CEC_TRANSM_SOM)"

definition cec_end_sending :: "cec_state \<Rightarrow> cec_state" where
  "cec_end_sending = cec_write_register_u32 (CECBaseAddress + CEC_CONTROL) CEC_TRANSM_EOM"

definition cec_acknowledge :: "cec_state \<Rightarrow> cec_state" where
  "cec_acknowledge = cec_write_register_u32 (CECBaseAddress + CEC_CONTROL) 0x00"

definition cec_acknowledge_eom :: "cec_state \<Rightarrow> cec_state" where
  "cec_acknowledge_eom = cec_write_register_u32 (CECBaseAddress + CEC_CONTROL) 0x02"

definition cec_set_own_address :: "u32 \<Rightarrow> cec_state \<Rightarrow> cec_state" where
  "cec_set_own_address own_address = cec_write_register_u32 (CECBaseAddress + CEC_ADDRESS) own_address"

text \<open>Read, change and write back a register.\<close>

definition cec_modify_register :: "u32 \<Rightarrow> (u32 \<Rightarrow> u32) \<Rightarrow> cec_state \<Rightarrow> cec_state" where
  "cec_modify_register address f st = cec_write_register_u32 address (f (cec_read_register_u32 address st)) st"

definition cec_internal_init :: "cec_cfg \<Rightarrow> cec_state \<Rightarrow> cec_state" where
  "cec_internal_init cfg st =
     (let st = (if STX7105 cfg then cec_modify_register (SysConfigBaseAddress + SYS_CFG2) (\<lambda>r. r OR push_bit 29 1) st else st);
          st = (if STX7111 cfg then
                  let st = cec_write_register_u32 (PIO1BaseAddress + PIO_PC0) 128 st;
                      st = cec_write_register_u32 (PIO1BaseAddress + PIO_PC1) 128 st;
                      st = cec_write_register_u32 (PIO1BaseAddress + PIO_PC2) 128 st;
                      st = cec_modify_register (SysConfigBaseAddress + SYS_CFG5) (\<lambda>r. r OR push_bit 8 1) st
                  in cec_modify_register (SysConfigBaseAddress + SYS_CFG5) (\<lambda>r. r OR push_bit 24 1) st
                else st);
          st = cec_modify_register (CECBaseAddress + CEC_CFG) (\<lambda>r. r OR 0x3) st;
          st = cec_write_register_u32 (CECBaseAddress + CEC_PRESCALER_LEFT) 0x88 st
      in cec_write_register_u32 (CECBaseAddress + CEC_PRESCALER_RIGHT) 0x13 st)"

definition cec_internal_exit :: "cec_cfg \<Rightarrow> cec_state \<Rightarrow> cec_state" where
  "cec_internal_exit cfg st =
     (let st = (if STX7105 cfg
                then cec_modify_register (SysConfigBaseAddress + SYS_CFG2) (\<lambda>r. r AND NOT (push_bit 29 1)) st else st);
          st = (if STX7111 cfg
                then cec_modify_register (SysConfigBaseAddress + SYS_CFG5) (\<lambda>r. r AND NOT 256) st else st);
          st = cec_modify_register (CECBaseAddress + CEC_CFG) (\<lambda>r. r AND NOT 0x03) st;
          st = cec_write_register_u32 (CECBaseAddress + CEC_PRESCALER_LEFT) 0 st
      in cec_write_register_u32 (CECBaseAddress + CEC_PRESCALER_RIGHT) 0 st)"

subsection \<open>The buffer for user space: cec\_dev.c\<close>

definition GetMessageBufferSize :: "cec_out \<Rightarrow> u32" where
  "GetMessageBufferSize b =
     (if outputBufferStart b \<le> outputBufferEnd b then outputBufferEnd b - outputBufferStart b
      else (OUTBUFFERSIZE - outputBufferStart b) + outputBufferEnd b)"

definition buf_slice :: "bytes \<Rightarrow> u32 \<Rightarrow> u32 \<Rightarrow> bytes option" where
  "buf_slice mem from n = (if unat from + unat n \<le> length mem then Some (take (unat n) (drop (unat from) mem)) else None)"

definition buf_store :: "bytes \<Rightarrow> u32 \<Rightarrow> bytes \<Rightarrow> bytes option" where
  "buf_store mem to data =
     (if unat to + length data \<le> length mem
      then Some (take (unat to) mem @ data @ drop (unat to + length data) mem) else None)"

text \<open>
  The caller's array has \<open>len\<close> bytes, so that in the second branch copying the bytes at the end, all of
  them, overflows it unless \<open>len\<close> is at least their number.
\<close>

definition GetMessageFromBuffer :: "u32 \<Rightarrow> cec_out \<Rightarrow> (bytes \<times> cec_out) option" where
  "GetMessageFromBuffer len b =
     (if outputBufferStart b \<le> outputBufferEnd b then do {
        msg \<leftarrow> buf_slice (outputBuffer b) (outputBufferStart b) len;
        Some (msg, b\<lparr>outputBufferStart := outputBufferStart b + len\<rparr>)
      } else do {
        let dataAtTheEnd = OUTBUFFERSIZE - outputBufferStart b;
        (if dataAtTheEnd > len then None
         else do {
           msg1 \<leftarrow> buf_slice (outputBuffer b) (outputBufferStart b) dataAtTheEnd;
           msg2 \<leftarrow> buf_slice (outputBuffer b) 0 (len - dataAtTheEnd);
           Some (msg1 @ msg2, b\<lparr>outputBufferStart := outputBufferStart b + (len - dataAtTheEnd)\<rparr>)
         })
      })"

record tCECMessage =
  address :: byte
  length_field :: byte
  data_field :: bytes

definition message_bytes :: "tCECMessage \<Rightarrow> bytes" where
  "message_bytes msg = [address msg, length_field msg] @ data_field msg"

text \<open>
  In the second branch the source of the second copy is \<open>&msg + spaceAtTheEnd\<close>, so many whole messages
  past the message: only with no space at the end it is the message itself.
\<close>

definition AddMessageBuffer :: "tCECMessage \<Rightarrow> cec_out \<Rightarrow> cec_out option" where
  "AddMessageBuffer msg b =
     (let spaceAtTheEnd = OUTBUFFERSIZE - outputBufferEnd b;
          messageSize = ucast (length_field msg) + 2 :: u32
      in if spaceAtTheEnd \<ge> messageSize then do {
           piece \<leftarrow> buf_slice (message_bytes msg) 0 messageSize;
           mem \<leftarrow> buf_store (outputBuffer b) (outputBufferEnd b) piece;
           Some (b\<lparr>outputBuffer := mem, outputBufferEnd := outputBufferEnd b + messageSize\<rparr>)
         } else if spaceAtTheEnd \<noteq> 0 then None
         else do {
           piece \<leftarrow> buf_slice (message_bytes msg) 0 messageSize;
           mem \<leftarrow> buf_store (outputBuffer b) 0 piece;
           Some (b\<lparr>outputBuffer := mem, outputBufferEnd := messageSize - spaceAtTheEnd\<rparr>)
         })"

text \<open>The data array of the message has 256 bytes; what follows the copied ones is not initialised.\<close>

definition AddMessageToBuffer :: "bytes \<Rightarrow> nat \<Rightarrow> cec_state \<Rightarrow> cec_state option" where
  "AddMessageToBuffer rawmsg len st =
     (let n = word_of_nat (len - 1) :: byte
      in if unat n + 1 > length rawmsg then None
         else do {
           b \<leftarrow> AddMessageBuffer \<lparr>address = rawmsg ! 0, length_field = n, data_field = take (unat n) (drop 1 rawmsg)\<rparr>
             (cec_buffer st);
           Some (cec_emit Wake_Up (st\<lparr>cec_buffer := b\<rparr>))
         })"

subsection \<open>Keys: cec\_rc.c\<close>

definition USER_CONTROL_CODE_SELECT :: u32 where "USER_CONTROL_CODE_SELECT = 0x00"
definition USER_CONTROL_CODE_UP :: u32 where "USER_CONTROL_CODE_UP = 0x01"
definition USER_CONTROL_CODE_DOWN :: u32 where "USER_CONTROL_CODE_DOWN = 0x02"
definition USER_CONTROL_CODE_LEFT :: u32 where "USER_CONTROL_CODE_LEFT = 0x03"
definition USER_CONTROL_CODE_RIGHT :: u32 where "USER_CONTROL_CODE_RIGHT = 0x04"
definition USER_CONTROL_CODE_EXIT :: u32 where "USER_CONTROL_CODE_EXIT = 0x0D"
definition USER_CONTROL_CODE_PREV_CHANNEL :: u32 where "USER_CONTROL_CODE_PREV_CHANNEL = 0x32"
definition USER_CONTROL_CODE_EPG :: u32 where "USER_CONTROL_CODE_EPG = 0x53"
definition USER_CONTROL_CODE_NUMBERS_0 :: u32 where "USER_CONTROL_CODE_NUMBERS_0 = 0x20"
definition USER_CONTROL_CODE_NUMBERS_1 :: u32 where "USER_CONTROL_CODE_NUMBERS_1 = 0x21"
definition USER_CONTROL_CODE_NUMBERS_2 :: u32 where "USER_CONTROL_CODE_NUMBERS_2 = 0x22"
definition USER_CONTROL_CODE_NUMBERS_3 :: u32 where "USER_CONTROL_CODE_NUMBERS_3 = 0x23"
definition USER_CONTROL_CODE_NUMBERS_4 :: u32 where "USER_CONTROL_CODE_NUMBERS_4 = 0x24"
definition USER_CONTROL_CODE_NUMBERS_5 :: u32 where "USER_CONTROL_CODE_NUMBERS_5 = 0x25"
definition USER_CONTROL_CODE_NUMBERS_6 :: u32 where "USER_CONTROL_CODE_NUMBERS_6 = 0x26"
definition USER_CONTROL_CODE_NUMBERS_7 :: u32 where "USER_CONTROL_CODE_NUMBERS_7 = 0x27"
definition USER_CONTROL_CODE_NUMBERS_8 :: u32 where "USER_CONTROL_CODE_NUMBERS_8 = 0x28"
definition USER_CONTROL_CODE_NUMBERS_9 :: u32 where "USER_CONTROL_CODE_NUMBERS_9 = 0x29"
definition USER_CONTROL_CODE_F1_BLUE :: u32 where "USER_CONTROL_CODE_F1_BLUE = 0x71"
definition USER_CONTROL_CODE_F2_RED :: u32 where "USER_CONTROL_CODE_F2_RED = 0x72"
definition USER_CONTROL_CODE_F3_GREEN :: u32 where "USER_CONTROL_CODE_F3_GREEN = 0x73"
definition USER_CONTROL_CODE_F4_YELLOW :: u32 where "USER_CONTROL_CODE_F4_YELLOW = 0x74"
definition USER_CONTROL_CODE_PLAY :: u32 where "USER_CONTROL_CODE_PLAY = 0x44"
definition USER_CONTROL_CODE_STOP :: u32 where "USER_CONTROL_CODE_STOP = 0x45"
definition USER_CONTROL_CODE_PAUSE :: u32 where "USER_CONTROL_CODE_PAUSE = 0x46"
definition USER_CONTROL_CODE_RECORD :: u32 where "USER_CONTROL_CODE_RECORD = 0x47"
definition USER_CONTROL_CODE_REWIND :: u32 where "USER_CONTROL_CODE_REWIND = 0x48"
definition USER_CONTROL_CODE_FASTFORWARD :: u32 where "USER_CONTROL_CODE_FASTFORWARD = 0x49"
definition USER_CONTROL_CODE_ROOT_MENU :: u32 where "USER_CONTROL_CODE_ROOT_MENU = 0x09"
definition USER_CONTROL_CODE_CONTENTS_MENU :: u32 where "USER_CONTROL_CODE_CONTENTS_MENU = 0x0B"
definition USER_CONTROL_CODE_SETUP_MENU :: u32 where "USER_CONTROL_CODE_SETUP_MENU = 0x0A"
definition USER_CONTROL_CODE_NEXT :: u32 where "USER_CONTROL_CODE_NEXT = 0x4B"
definition USER_CONTROL_CODE_LAST :: u32 where "USER_CONTROL_CODE_LAST = 0x4C"
definition USER_CONTROL_CODE_PAGEUP :: u32 where "USER_CONTROL_CODE_PAGEUP = 0x30"
definition USER_CONTROL_CODE_PAGEDOWN :: u32 where "USER_CONTROL_CODE_PAGEDOWN = 0x31"
definition USER_CONTROL_CODE_INFO :: u32 where "USER_CONTROL_CODE_INFO = 0x35"

text \<open>The key codes of \<open>linux/input.h\<close>.\<close>

definition KEY_OK :: u32 where "KEY_OK = 352"
definition KEY_UP :: u32 where "KEY_UP = 103"
definition KEY_DOWN :: u32 where "KEY_DOWN = 108"
definition KEY_LEFT :: u32 where "KEY_LEFT = 105"
definition KEY_RIGHT :: u32 where "KEY_RIGHT = 106"
definition KEY_HOME :: u32 where "KEY_HOME = 102"
definition KEY_MEMO :: u32 where "KEY_MEMO = 396"
definition KEY_INFO :: u32 where "KEY_INFO = 358"
definition KEY_0 :: u32 where "KEY_0 = 11"
definition KEY_1 :: u32 where "KEY_1 = 2"
definition KEY_2 :: u32 where "KEY_2 = 3"
definition KEY_3 :: u32 where "KEY_3 = 4"
definition KEY_4 :: u32 where "KEY_4 = 5"
definition KEY_5 :: u32 where "KEY_5 = 6"
definition KEY_6 :: u32 where "KEY_6 = 7"
definition KEY_7 :: u32 where "KEY_7 = 8"
definition KEY_8 :: u32 where "KEY_8 = 9"
definition KEY_9 :: u32 where "KEY_9 = 10"
definition KEY_BLUE :: u32 where "KEY_BLUE = 401"
definition KEY_RED :: u32 where "KEY_RED = 398"
definition KEY_GREEN :: u32 where "KEY_GREEN = 399"
definition KEY_YELLOW :: u32 where "KEY_YELLOW = 400"
definition KEY_PLAY :: u32 where "KEY_PLAY = 207"
definition KEY_STOP :: u32 where "KEY_STOP = 128"
definition KEY_PAUSE :: u32 where "KEY_PAUSE = 119"
definition KEY_RECORD :: u32 where "KEY_RECORD = 167"
definition KEY_REWIND :: u32 where "KEY_REWIND = 168"
definition KEY_FASTFORWARD :: u32 where "KEY_FASTFORWARD = 208"
definition KEY_MENU :: u32 where "KEY_MENU = 139"
definition KEY_FAVORITES :: u32 where "KEY_FAVORITES = 364"
definition KEY_NEXT :: u32 where "KEY_NEXT = 407"
definition KEY_LAST :: u32 where "KEY_LAST = 405"
definition KEY_PAGEUP :: u32 where "KEY_PAGEUP = 104"
definition KEY_PAGEDOWN :: u32 where "KEY_PAGEDOWN = 109"

definition cec_key_table :: "(u32 \<times> u32) list" where
  "cec_key_table = [
     (USER_CONTROL_CODE_SELECT, KEY_OK),
     (USER_CONTROL_CODE_UP, KEY_UP),
     (USER_CONTROL_CODE_DOWN, KEY_DOWN),
     (USER_CONTROL_CODE_LEFT, KEY_LEFT),
     (USER_CONTROL_CODE_RIGHT, KEY_RIGHT),
     (USER_CONTROL_CODE_EXIT, KEY_HOME),
     (USER_CONTROL_CODE_PREV_CHANNEL, KEY_MEMO),
     (USER_CONTROL_CODE_EPG, KEY_INFO),
     (USER_CONTROL_CODE_NUMBERS_0, KEY_0),
     (USER_CONTROL_CODE_NUMBERS_1, KEY_1),
     (USER_CONTROL_CODE_NUMBERS_2, KEY_2),
     (USER_CONTROL_CODE_NUMBERS_3, KEY_3),
     (USER_CONTROL_CODE_NUMBERS_4, KEY_4),
     (USER_CONTROL_CODE_NUMBERS_5, KEY_5),
     (USER_CONTROL_CODE_NUMBERS_6, KEY_6),
     (USER_CONTROL_CODE_NUMBERS_7, KEY_7),
     (USER_CONTROL_CODE_NUMBERS_8, KEY_8),
     (USER_CONTROL_CODE_NUMBERS_9, KEY_9),
     (USER_CONTROL_CODE_F1_BLUE, KEY_BLUE),
     (USER_CONTROL_CODE_F2_RED, KEY_RED),
     (USER_CONTROL_CODE_F3_GREEN, KEY_GREEN),
     (USER_CONTROL_CODE_F4_YELLOW, KEY_YELLOW),
     (USER_CONTROL_CODE_PLAY, KEY_PLAY),
     (USER_CONTROL_CODE_STOP, KEY_STOP),
     (USER_CONTROL_CODE_PAUSE, KEY_PAUSE),
     (USER_CONTROL_CODE_RECORD, KEY_RECORD),
     (USER_CONTROL_CODE_REWIND, KEY_REWIND),
     (USER_CONTROL_CODE_FASTFORWARD, KEY_FASTFORWARD),
     (USER_CONTROL_CODE_ROOT_MENU, KEY_MENU),
     (USER_CONTROL_CODE_CONTENTS_MENU, KEY_FAVORITES),
     (USER_CONTROL_CODE_SETUP_MENU, KEY_MENU),
     (USER_CONTROL_CODE_NEXT, KEY_NEXT),
     (USER_CONTROL_CODE_LAST, KEY_LAST),
     (USER_CONTROL_CODE_PAGEUP, KEY_PAGEUP),
     (USER_CONTROL_CODE_PAGEDOWN, KEY_PAGEDOWN),
     (USER_CONTROL_CODE_INFO, KEY_INFO)]"

definition input_inject :: "u32 \<Rightarrow> u32 \<Rightarrow> cec_state \<Rightarrow> cec_state" where
  "input_inject key type st =
     (let code = (case map_of cec_key_table key of None \<Rightarrow> 0 | Some c \<Rightarrow> c);
          (v, code, st) =
            (if type = 1 then (1, code, st\<lparr>last_keycode := code\<rparr>)
             else if type = 0 then (0, last_keycode st, st)
             else (0, code, st))
      in if code \<noteq> 0 then cec_emit (Input_Event 1 code v) st else st)"

subsection \<open>Events for user space: cec\_proc.c\<close>

definition INC :: "byte \<Rightarrow> byte" where
  "INC counter = (if counter \<noteq> 0xF then counter + 1 else counter)"

definition setUpdatedDiscovery :: "cec_state \<Rightarrow> cec_state" where
  "setUpdatedDiscovery st = st\<lparr>eventDiscovery := INC (eventDiscovery st)\<rparr>"

definition setUpdatedActiveSource :: "cec_state \<Rightarrow> cec_state" where
  "setUpdatedActiveSource st = st\<lparr>eventActiveSource := INC (eventActiveSource st)\<rparr>"

definition setUpdatedStandby :: "cec_state \<Rightarrow> cec_state" where
  "setUpdatedStandby st = st\<lparr>eventStandby := INC (eventStandby st)\<rparr>"

subsection \<open>Sending: cec\_worker.c\<close>

text \<open>The waiting loop: what is left of the counter, 0 after a time-out.\<close>

fun wait_sending :: "bool \<Rightarrow> nat \<Rightarrow> nat" where
  "wait_sending sending 0 = 0"
| "wait_sending sending (Suc c) = (if sending then wait_sending sending c else Suc c)"

text \<open>
  The caller's buffer is \<open>None\<close> when it is \<open>sendBuf\<close> itself. The header of the caller's buffer is
  corrected in place: the buffer is part of the result.
\<close>

definition sendMessageWithRetry ::
  "nat \<Rightarrow> bytes option \<Rightarrow> byte \<Rightarrow> cec_state \<Rightarrow> (int \<times> bytes \<times> cec_state) option" where
  "sendMessageWithRetry len buf retry st =
     (if wait_sending (isSending st) 100 = 0 then Some (-1, (case buf of None \<Rightarrow> sendBuf st | Some b \<Rightarrow> b), st)
      else
        (let st = st\<lparr>sizeOfSendBuf := len, indexOfSendBuf := 0, isSending := True, retries := retry\<rparr>;
             src = logicalDeviceType st;
             b = (case buf of None \<Rightarrow> sendBuf st | Some b \<Rightarrow> b);
             dst = b ! 0 AND 0x0F;
             b = b[0 := push_bit 4 src + (dst AND 0xF)]
         in if len > SEND_BUF_SIZE \<or> len > length b \<or> b = [] then None
            else
              (let st = st\<lparr>sendBuf := (case buf of None \<Rightarrow> b | Some _ \<Rightarrow> take len b @ drop len (sendBuf st))\<rparr>;
                   st = cec_set_own_address (ucast src) st;
                   st = cec_write_data (ucast (sendBuf st ! indexOfSendBuf st)) st;
                   st = st\<lparr>indexOfSendBuf := indexOfSendBuf st + 1\<rparr>
               in Some (0, b, st\<lparr>sendCommand := sendCommand st + 1\<rparr>))))"

definition sendMessage :: "nat \<Rightarrow> bytes \<Rightarrow> cec_state \<Rightarrow> (bytes \<times> cec_state) option" where
  "sendMessage len buf st = do {
     (rc, buf, st) \<leftarrow> sendMessageWithRetry len (Some buf) DEFAULT_RETRY_COUNT st;
     Some (buf, st)
   }"

text \<open>A message from a local buffer, of which the rest is zero.\<close>

definition sendResponse :: "bytes \<Rightarrow> cec_state \<Rightarrow> cec_state option" where
  "sendResponse msg st = map_option snd (sendMessage (length msg) (msg @ replicate (SEND_BUF_SIZE - length msg) 0) st)"

subsection \<open>The protocol: cec\_opcodes.c\<close>

definition getPhysicalAddress :: "cec_cfg \<Rightarrow> 16 word" where
  "getPhysicalAddress cfg = ucast (hdmi_cec_address cfg AND 0xFFFF)"

definition getDeviceType :: byte where "getDeviceType = DEVICE_TYPE_DVD"

definition getLogicalDeviceType :: "cec_state \<Rightarrow> byte" where "getLogicalDeviceType st = logicalDeviceType st"

definition setActiveSource :: "16 word \<Rightarrow> cec_state \<Rightarrow> cec_state" where
  "setActiveSource addr st = setUpdatedActiveSource (st\<lparr>ActiveSource := addr\<rparr>)"

text \<open>The two bytes of a physical address.\<close>

definition phys_bytes :: "16 word \<Rightarrow> bytes" where
  "phys_bytes a =
     [push_bit 4 (ucast (drop_bit 12 a AND 0xF)) + ucast (drop_bit 8 a AND 0xF),
      push_bit 4 (ucast (drop_bit 4 a AND 0xF)) + ucast (a AND 0xF)]"

definition cec_header :: "byte \<Rightarrow> cec_state \<Rightarrow> byte" where
  "cec_header dst st = push_bit 4 (getLogicalDeviceType st) + (dst AND 0xF)"

definition sendReportPhysicalAddress :: "cec_cfg \<Rightarrow> cec_state \<Rightarrow> cec_state option" where
  "sendReportPhysicalAddress cfg st =
     sendResponse ([cec_header BROADCAST st, REPORT_PHYSICAL_ADDRESS] @ phys_bytes (getPhysicalAddress cfg) @ [getDeviceType]) st"

definition setSourceAsActive :: "cec_cfg \<Rightarrow> cec_state \<Rightarrow> cec_state option" where
  "setSourceAsActive cfg st =
     sendResponse ([cec_header BROADCAST st, ACTIVE_SOURCE] @ phys_bytes (getPhysicalAddress cfg)) st"

definition wakeTV :: "cec_state \<Rightarrow> cec_state option" where
  "wakeTV st = sendResponse [cec_header DEVICE_TYPE_TV st, IMAGE_VIEW_ON] st"

definition sendInitMessage :: "cec_state \<Rightarrow> cec_state option" where
  "sendInitMessage st = sendResponse [cec_header DEVICE_TYPE_TV st, GIVE_DEVICE_POWER_STATUS] st"

definition setIsFirstKiss :: "cec_cfg \<Rightarrow> byte \<Rightarrow> cec_state \<Rightarrow> cec_state option" where
  "setIsFirstKiss cfg kiss st =
     (let st = st\<lparr>isFirstKiss := kiss\<rparr>
      in if kiss = 0 \<and> activemode cfg then sendReportPhysicalAddress cfg st else Some st)"

definition sendPingWithAutoIncrement :: "cec_cfg \<Rightarrow> cec_state \<Rightarrow> cec_state option" where
  "sendPingWithAutoIncrement cfg st = do {
     st \<leftarrow> setIsFirstKiss cfg 1 st;
     let i = logicalDeviceTypeChoicesIndex st;
     (if unat i \<ge> length logicalDeviceTypeChoices then None
      else do {
        let t = logicalDeviceTypeChoices ! unat i;
        let st = st\<lparr>logicalDeviceTypeChoicesIndex := i + 1, logicalDeviceType := t\<rparr>;
        (buf, st) \<leftarrow> sendMessage 1 [push_bit 4 t + (t AND 0xF)] st;
        Some st
      })
   }"

definition sendOneTouchPlay :: "cec_cfg \<Rightarrow> cec_state \<Rightarrow> cec_state option" where
  "sendOneTouchPlay cfg st = do {
     st \<leftarrow> sendResponse [cec_header DEVICE_TYPE_TV st, IMAGE_VIEW_ON] st;
     sendResponse ([cec_header BROADCAST st, ACTIVE_SOURCE] @ phys_bytes (getPhysicalAddress cfg)) (cec_emit (Delay 10000) st)
   }"

definition sendSystemStandby :: "u32 \<Rightarrow> cec_state \<Rightarrow> cec_state option" where
  "sendSystemStandby deviceId st = sendResponse [cec_header (ucast (deviceId AND 0xF)) st, STANDBY] st"

text \<open>The vendor identification of the platform.\<close>

definition vendor_id :: "cec_cfg \<Rightarrow> bytes" where
  "vendor_id cfg =
     (if cec_kathrein cfg then [0x00, 0xD0, 0x55]
      else if cec_atevio7500 cfg then [0x00, 0x1E, 0xB8]
      else [0x44, 0x42, 0x58])"

text \<open>Reading a string that has no end in the buffer runs past it.\<close>

definition has_end :: "nat \<Rightarrow> bytes \<Rightarrow> bool" where
  "has_end k buf \<longleftrightarrow> 0 \<in> set (drop k buf)"

text \<open>The buffer is the 15 bytes after the header.\<close>

definition parseMessage :: "cec_cfg \<Rightarrow> byte \<Rightarrow> bytes \<Rightarrow> cec_state \<Rightarrow> cec_state option" where
  "parseMessage cfg src buf st =
     (let opcode = buf ! 0
      in if opcode = GIVE_DECK_STATUS then
           (if activemode cfg then sendResponse [cec_header src st, DECK_STATUS, DECK_INFO_PLAY] st else Some st)
         else if opcode = SET_MENU_LANGUAGE then (if has_end 1 buf then Some st else None)
         else if opcode = STANDBY then Some (setUpdatedStandby st)
         else if opcode = USER_CONTROL_PRESSED then
           Some (if activemode cfg then input_inject (ucast (buf ! 1)) 1 st else st)
         else if opcode = USER_CONTROL_RELEASED then
           Some (if activemode cfg then input_inject 0xFFFF 0 st else st)
         else if opcode = GIVE_OSD_NAME then
           (if activemode cfg
            then sendResponse ([cec_header src st, SET_OSD_NAME] @ [0x44, 0x55, 0x43, 0x4B, 0x42, 0x4F, 0x58]) st
            else Some st)
         else if opcode = SET_OSD_NAME then (if has_end 1 buf then Some st else None)
         else if opcode = SET_OSD_STRING then (if has_end 2 buf then Some st else None)
         else if opcode = ROUTING_CHANGE then
           Some (setActiveSource (push_bit 8 (ucast (buf ! 3)) + ucast (buf ! 4)) st)
         else if opcode = ROUTING_INFORMATION \<or> opcode = ACTIVE_SOURCE then
           Some (setActiveSource (push_bit 8 (ucast (buf ! 1)) + ucast (buf ! 2)) st)
         else if opcode = GIVE_PHYSICAL_ADDRESS then sendReportPhysicalAddress cfg st
         else if opcode = REQUEST_ACTIVE_SOURCE then
           (if activemode cfg
            then sendResponse ([cec_header BROADCAST st, ACTIVE_SOURCE] @ phys_bytes (getPhysicalAddress cfg)) st
            else Some st)
         else if opcode = SET_STREAM_PATH then
           (if activemode cfg \<and> push_bit 8 (ucast (buf ! 1)) + ucast (buf ! 2) = getPhysicalAddress cfg
            then sendResponse ([cec_header BROADCAST st, ACTIVE_SOURCE] @ phys_bytes (getPhysicalAddress cfg)) st
            else Some st)
         else if opcode = VENDOR_COMMAND then
           (if activemode cfg
            then sendResponse [cec_header src st, FEATURE_ABORT, VENDOR_COMMAND, ABORT_REASON_UNRECOGNIZED_OPCODE] st
            else Some st)
         else if opcode = GIVE_DEVICE_VENDOR_ID then
           (if activemode cfg then sendResponse ([cec_header BROADCAST st, DEVICE_VENDOR_ID] @ vendor_id cfg) st
            else Some st)
         else if opcode = MENU_REQUEST then
           (if activemode cfg then sendResponse [cec_header src st, MENU_STATUS, MENU_STATE_ACTIVATE] st else Some st)
         else if opcode = GIVE_DEVICE_POWER_STATUS then
           (if activemode cfg then sendResponse [cec_header src st, REPORT_POWER_STATUS, POWER_STATUS_ON] st else Some st)
         else if opcode = GET_CEC_VERSION then
           (if activemode cfg then sendResponse [cec_header src st, CEC_VERSION, CEC_VERSION_V13A] st else Some st)
         else if opcode = VENDOR_COMMAND_WITH_ID then
           (if activemode cfg
            then sendResponse [cec_header src st, FEATURE_ABORT, VENDOR_COMMAND_WITH_ID, ABORT_REASON_UNRECOGNIZED_OPCODE] st
            else Some st)
         else Some st)"

definition parseRawMessage :: "cec_cfg \<Rightarrow> nat \<Rightarrow> bytes \<Rightarrow> cec_state \<Rightarrow> cec_state option" where
  "parseRawMessage cfg len buf st =
     (let src = drop_bit 4 (buf ! 0);
          dst = buf ! 0 AND 0x0F;
          dataLen = word_of_int (int len - 1) :: byte
      in if unat dataLen > CEC_MAX_DATA_LEN then Some st
         else if dataLen > 0 then do {
           st \<leftarrow> parseMessage cfg src (drop 1 buf) st;
           (if \<not> activemode cfg then AddMessageToBuffer buf len st else Some st)
         }
         else if src = dst \<and> src = getLogicalDeviceType st \<and> getLogicalDeviceType st \<noteq> DEVICE_TYPE_UNREG
         then sendPingWithAutoIncrement cfg st
         else Some st)"

subsection \<open>The interrupt handler and the task: cec\_worker.c\<close>

definition retry_message :: "cec_state \<Rightarrow> cec_state option" where
  "retry_message st = map_option (snd \<circ> snd) (sendMessageWithRetry (sizeOfSendBuf st) None (retries st - 1) st)"

definition cec_interrupt :: "cec_cfg \<Rightarrow> byte \<Rightarrow> byte \<Rightarrow> u32 \<Rightarrow> cec_state \<Rightarrow> cec_state option" where
  "cec_interrupt cfg status error rx_data st =
     (if status AND CEC_STATUS_RECV_ERR \<noteq> 0 then Some (cec_acknowledge st)
      else if status AND CEC_STATUS_SEND_ERR \<noteq> 0 then
        (let st = (if status AND CEC_STATUS_SEND_EOMSG \<noteq> 0 then cec_acknowledge_eom st else cec_acknowledge st);
             st = st\<lparr>isSending := False\<rparr>
         in if isFirstKiss st = 1 then
              (if error AND CEC_ERROR_ACK \<noteq> 0 then setIsFirstKiss cfg 0 st
               else if retries st > 0 then retry_message st
               else Some st)
            else if retries st > 0 then retry_message st
            else Some st)
      else if status AND CEC_STATUS_RECV_BTF \<noteq> 0 then
        (let st = (if status AND CEC_STATUS_RECV_SOMSG \<noteq> 0
                   then st\<lparr>isReceiving := True, indexOfRecvBuf := 0, recvBuf := replicate RECV_BUF_SIZE 0\<rparr> else st)
         in if indexOfRecvBuf st \<ge> length (recvBuf st) then None
            else
              (let st = st\<lparr>recvBuf := (recvBuf st)[indexOfRecvBuf st := ucast rx_data]\<rparr>;
                   st = cec_acknowledge st;
                   st = st\<lparr>indexOfRecvBuf := indexOfRecvBuf st + 1\<rparr>
               in if status AND CEC_STATUS_RECV_EOMSG \<noteq> 0
                  then parseRawMessage cfg (indexOfRecvBuf st) (recvBuf st) (st\<lparr>isReceiving := False\<rparr>)
                  else Some st))
      else if status AND CEC_STATUS_SEND_BTF \<noteq> 0 then
        (if status AND CEC_STATUS_SEND_EOMSG \<noteq> 0
         then (let st = cec_acknowledge (st\<lparr>isSending := False\<rparr>)
               in parseRawMessage cfg (indexOfSendBuf st) (sendBuf st) st)
         else if indexOfSendBuf st \<ge> length (sendBuf st) then None
         else
           (let st = cec_write_data (ucast (sendBuf st ! indexOfSendBuf st)) st;
                st = st\<lparr>indexOfSendBuf := indexOfSendBuf st + 1\<rparr>
            in Some (if indexOfSendBuf st = sizeOfSendBuf st then cec_acknowledge_eom st else cec_acknowledge st)))
      else Some st)"

text \<open>
  \<open>startTask\<close> ends when the task has initialised the semaphore and waits for it; \<open>cec_task_step\<close> is one
  turn of the loop of \<open>cec_task\<close>, which does nothing while the semaphore is taken.
\<close>

definition startTask :: "cec_state \<Rightarrow> cec_state" where
  "startTask st = st\<lparr>sendCommand := 0, notEndTask := True\<rparr>"

definition cec_task_step :: "cec_state \<Rightarrow> cec_state" where
  "cec_task_step st =
     (if sendCommand st = 0 then st
      else
        (let st = st\<lparr>sendCommand := sendCommand st - 1\<rparr>
         in if \<not> notEndTask st then st\<lparr>notEndTask := True\<rparr>
            else
              (let delayed = (sendCommandWithDelay st \<noteq> 0);
                   st = st\<lparr>sendCommandWithDelay := sendCommandWithDelay st - 1\<rparr>;
                   st = (if delayed then cec_emit (Delay 10000) st else st)
               in cec_start_sending (sizeOfSendBuf st = 1) st)))"

definition endTask :: "cec_state \<Rightarrow> cec_state" where
  "endTask st = cec_task_step (st\<lparr>notEndTask := False, sendCommand := sendCommand st + 1\<rparr>)"

definition cec_worker_init :: "cec_cfg \<Rightarrow> cec_state \<Rightarrow> cec_state option" where
  "cec_worker_init cfg st = sendPingWithAutoIncrement cfg (cec_set_own_address 0x0F st)"

end
