(* ===== verification/Cec_Protocol.thy ===== *)
theory Cec_Protocol
  imports Cec
begin

text \<open>
  What the CEC driver does on the bus: how a message is transmitted while others are received, how often a
  failed transmission is repeated, the search for a free address in every reachable state, and the
  buffer of received messages as a queue.
\<close>

subsection \<open>Specification vocabulary\<close>

text \<open>The bytes written to the transmit register.\<close>

definition tx_write :: "cec_event \<Rightarrow> byte list" where
  "tx_write e = (case e of Reg_Write a v \<Rightarrow> if a = CECBaseAddress + CEC_TX then [ucast v] else [] | _ \<Rightarrow> [])"

definition tx_bytes :: "cec_state \<Rightarrow> bytes" where
  "tx_bytes st = concat (map tx_write (cec_log st))"

text \<open>What a receiving driver leaves alone while it sends.\<close>

definition same_transfer :: "cec_state \<Rightarrow> cec_state \<Rightarrow> bool" where
  "same_transfer a b \<longleftrightarrow> isSending b = isSending a \<and> indexOfSendBuf b = indexOfSendBuf a \<and>
     sizeOfSendBuf b = sizeOfSendBuf a \<and> sendBuf b = sendBuf a \<and> tx_bytes b = tx_bytes a"

text \<open>The handler run over a list of interrupts.\<close>

fun cec_interrupts :: "cec_cfg \<Rightarrow> (byte \<times> byte \<times> u32) list \<Rightarrow> cec_state \<Rightarrow> cec_state option" where
  "cec_interrupts cfg [] st = Some st"
| "cec_interrupts cfg ((status, error, rx) # is) st =
     (case cec_interrupt cfg status error rx st of None \<Rightarrow> None | Some st \<Rightarrow> cec_interrupts cfg is st)"

text \<open>
  Interrupts that ask for the next byte, and interrupts about receiving, in the order the handler
  tests the bits.
\<close>

definition next_byte :: "byte \<times> byte \<times> u32 \<Rightarrow> bool" where
  "next_byte i \<longleftrightarrow> fst i AND CEC_STATUS_RECV_ERR = 0 \<and> fst i AND CEC_STATUS_SEND_ERR = 0 \<and>
     fst i AND CEC_STATUS_RECV_BTF = 0 \<and> fst i AND CEC_STATUS_SEND_BTF \<noteq> 0 \<and> fst i AND CEC_STATUS_SEND_EOMSG = 0"

definition receiving :: "byte \<times> byte \<times> u32 \<Rightarrow> bool" where
  "receiving i \<longleftrightarrow> fst i AND CEC_STATUS_RECV_ERR \<noteq> 0 \<or>
     fst i AND CEC_STATUS_RECV_BTF \<noteq> 0 \<and> fst i AND CEC_STATUS_SEND_ERR = 0"

text \<open>The frame as it goes out: the driver puts its own address into the header.\<close>

definition own_frame :: "byte \<Rightarrow> bytes \<Rightarrow> bytes" where
  "own_frame t frame = frame[0 := push_bit 4 t + (frame ! 0 AND 0x0F)]"

text \<open>A transmission that failed, and how the handler answers.\<close>

definition send_failed :: "byte \<times> byte \<times> u32 \<Rightarrow> bool" where
  "send_failed i \<longleftrightarrow> fst i AND CEC_STATUS_RECV_ERR = 0 \<and> fst i AND CEC_STATUS_SEND_ERR \<noteq> 0"

text \<open>The message in the buffer carries the address of the driver.\<close>

definition resendable :: "cec_state \<Rightarrow> bool" where
  "resendable st \<longleftrightarrow> length (sendBuf st) = SEND_BUF_SIZE \<and> sizeOfSendBuf st \<le> SEND_BUF_SIZE \<and>
     sendBuf st = own_frame (logicalDeviceType st) (sendBuf st)"

text \<open>The number of addresses tried belongs to the address in use.\<close>

definition address_ok :: "byte \<Rightarrow> byte \<Rightarrow> bool" where
  "address_ok i t \<longleftrightarrow> 1 \<le> unat i \<and> unat i \<le> length logicalDeviceTypeChoices \<and> t = logicalDeviceTypeChoices ! (unat i - 1)"

definition cec_wf :: "cec_state \<Rightarrow> bool" where
  "cec_wf st \<longleftrightarrow> length (recvBuf st) = RECV_BUF_SIZE \<and> length (sendBuf st) = SEND_BUF_SIZE \<and>
     sizeOfSendBuf st \<le> SEND_BUF_SIZE \<and> retries st \<le> DEFAULT_RETRY_COUNT \<and>
     eventDiscovery st \<le> 0xF \<and> eventActiveSource st \<le> 0xF \<and> eventStandby st \<le> 0xF"

definition cec_address_wf :: "cec_state \<Rightarrow> bool" where
  "cec_address_wf st \<longleftrightarrow> address_ok (logicalDeviceTypeChoicesIndex st) (logicalDeviceType st)"

definition cec_pending :: "cec_out \<Rightarrow> bytes" where
  "cec_pending b = take (unat (outputBufferEnd b) - unat (outputBufferStart b)) (drop (unat (outputBufferStart b)) (outputBuffer b))"

definition cec_unwrapped :: "cec_out \<Rightarrow> bool" where
  "cec_unwrapped b \<longleftrightarrow> outputBufferStart b \<le> outputBufferEnd b \<and> outputBufferEnd b \<le> OUTBUFFERSIZE \<and>
     length (outputBuffer b) = unat OUTBUFFERSIZE"

definition cec_plain :: cec_cfg where
  "cec_plain = \<lparr>activemode = True, hdmi_cec_address = 0x1000, STX7105 = False, STX7111 = True,
     cec_kathrein = False, cec_atevio7500 = False\<rparr>"

subsection \<open>Lemmas\<close>

lemmas cec_codes = FEATURE_ABORT_def IMAGE_VIEW_ON_def GIVE_DECK_STATUS_def DECK_STATUS_def SET_MENU_LANGUAGE_def STANDBY_def USER_CONTROL_PRESSED_def USER_CONTROL_RELEASED_def GIVE_OSD_NAME_def SET_OSD_NAME_def SET_OSD_STRING_def ROUTING_CHANGE_def ROUTING_INFORMATION_def ACTIVE_SOURCE_def GIVE_PHYSICAL_ADDRESS_def REPORT_PHYSICAL_ADDRESS_def REQUEST_ACTIVE_SOURCE_def SET_STREAM_PATH_def DEVICE_VENDOR_ID_def VENDOR_COMMAND_def GIVE_DEVICE_VENDOR_ID_def MENU_REQUEST_def MENU_STATUS_def GIVE_DEVICE_POWER_STATUS_def REPORT_POWER_STATUS_def CEC_VERSION_def GET_CEC_VERSION_def VENDOR_COMMAND_WITH_ID_def BROADCAST_def ABORT_REASON_UNRECOGNIZED_OPCODE_def CEC_VERSION_V13A_def DECK_INFO_PLAY_def MENU_STATE_ACTIVATE_def POWER_STATUS_ON_def DEVICE_TYPE_TV_def DEVICE_TYPE_DVD_def DEVICE_TYPE_REC1_def DEVICE_TYPE_REC2_def DEVICE_TYPE_STB1_def DEVICE_TYPE_DVD1_def DEVICE_TYPE_STB2_def DEVICE_TYPE_STB3_def DEVICE_TYPE_DVD2_def DEVICE_TYPE_DVD3_def DEVICE_TYPE_UNREG_def CEC_STATUS_RECV_BTF_def CEC_STATUS_RECV_ERR_def CEC_STATUS_RECV_EOMSG_def CEC_STATUS_RECV_SOMSG_def CEC_STATUS_SEND_BTF_def CEC_STATUS_SEND_ERR_def CEC_STATUS_SEND_EOMSG_def CEC_ERROR_ACK_def

lemmas cec_regs = PIO1BaseAddress_def CECBaseAddress_def SysConfigBaseAddress_def CEC_CONTROL_def CEC_TX_def
  CEC_CFG_def CEC_ADDRESS_def CEC_PRESCALER_LEFT_def CEC_PRESCALER_RIGHT_def CEC_TRANSM_SOM_def CEC_TRANSM_EOM_def

lemmas cec_sizes = CEC_MAX_DATA_LEN_def RECV_BUF_SIZE_def SEND_BUF_SIZE_def

lemmas cec_reg_ops = cec_write_register_u32_def cec_write_data_def cec_start_sending_def cec_end_sending_def
  cec_acknowledge_def cec_acknowledge_eom_def cec_set_own_address_def cec_emit_def

text \<open>Register writes and events leave the variables alone.\<close>

lemma cec_frame [simp]:
  "isReceiving (cec_emit e st) = isReceiving st" "indexOfRecvBuf (cec_emit e st) = indexOfRecvBuf st"
  "recvBuf (cec_emit e st) = recvBuf st" "isSending (cec_emit e st) = isSending st"
  "indexOfSendBuf (cec_emit e st) = indexOfSendBuf st" "sizeOfSendBuf (cec_emit e st) = sizeOfSendBuf st"
  "sendBuf (cec_emit e st) = sendBuf st" "retries (cec_emit e st) = retries st"
  "sendCommand (cec_emit e st) = sendCommand st"
  "sendCommandWithDelay (cec_emit e st) = sendCommandWithDelay st"
  "notEndTask (cec_emit e st) = notEndTask st" "isFirstKiss (cec_emit e st) = isFirstKiss st"
  "logicalDeviceTypeChoicesIndex (cec_emit e st) = logicalDeviceTypeChoicesIndex st"
  "logicalDeviceType (cec_emit e st) = logicalDeviceType st" "ActiveSource (cec_emit e st) = ActiveSource st"
  "eventDiscovery (cec_emit e st) = eventDiscovery st"
  "eventActiveSource (cec_emit e st) = eventActiveSource st" "eventStandby (cec_emit e st) = eventStandby st"
  "last_keycode (cec_emit e st) = last_keycode st" "cec_buffer (cec_emit e st) = cec_buffer st"
  "isReceiving (cec_write_register_u32 a v st) = isReceiving st"
  "indexOfRecvBuf (cec_write_register_u32 a v st) = indexOfRecvBuf st"
  "recvBuf (cec_write_register_u32 a v st) = recvBuf st"
  "isSending (cec_write_register_u32 a v st) = isSending st"
  "indexOfSendBuf (cec_write_register_u32 a v st) = indexOfSendBuf st"
  "sizeOfSendBuf (cec_write_register_u32 a v st) = sizeOfSendBuf st"
  "sendBuf (cec_write_register_u32 a v st) = sendBuf st"
  "retries (cec_write_register_u32 a v st) = retries st"
  "sendCommand (cec_write_register_u32 a v st) = sendCommand st"
  "sendCommandWithDelay (cec_write_register_u32 a v st) = sendCommandWithDelay st"
  "notEndTask (cec_write_register_u32 a v st) = notEndTask st"
  "isFirstKiss (cec_write_register_u32 a v st) = isFirstKiss st"
  "logicalDeviceTypeChoicesIndex (cec_write_register_u32 a v st) = logicalDeviceTypeChoicesIndex st"
  "logicalDeviceType (cec_write_register_u32 a v st) = logicalDeviceType st"
  "ActiveSource (cec_write_register_u32 a v st) = ActiveSource st"
  "eventDiscovery (cec_write_register_u32 a v st) = eventDiscovery st"
  "eventActiveSource (cec_write_register_u32 a v st) = eventActiveSource st"
  "eventStandby (cec_write_register_u32 a v st) = eventStandby st"
  "last_keycode (cec_write_register_u32 a v st) = last_keycode st"
  "cec_buffer (cec_write_register_u32 a v st) = cec_buffer st"
  "isReceiving (cec_acknowledge st) = isReceiving st"
  "indexOfRecvBuf (cec_acknowledge st) = indexOfRecvBuf st" "recvBuf (cec_acknowledge st) = recvBuf st"
  "isSending (cec_acknowledge st) = isSending st" "indexOfSendBuf (cec_acknowledge st) = indexOfSendBuf st"
  "sizeOfSendBuf (cec_acknowledge st) = sizeOfSendBuf st" "sendBuf (cec_acknowledge st) = sendBuf st"
  "retries (cec_acknowledge st) = retries st" "sendCommand (cec_acknowledge st) = sendCommand st"
  "sendCommandWithDelay (cec_acknowledge st) = sendCommandWithDelay st"
  "notEndTask (cec_acknowledge st) = notEndTask st" "isFirstKiss (cec_acknowledge st) = isFirstKiss st"
  "logicalDeviceTypeChoicesIndex (cec_acknowledge st) = logicalDeviceTypeChoicesIndex st"
  "logicalDeviceType (cec_acknowledge st) = logicalDeviceType st"
  "ActiveSource (cec_acknowledge st) = ActiveSource st"
  "eventDiscovery (cec_acknowledge st) = eventDiscovery st"
  "eventActiveSource (cec_acknowledge st) = eventActiveSource st"
  "eventStandby (cec_acknowledge st) = eventStandby st" "last_keycode (cec_acknowledge st) = last_keycode st"
  "cec_buffer (cec_acknowledge st) = cec_buffer st"
  "isReceiving (cec_acknowledge_eom st) = isReceiving st"
  "indexOfRecvBuf (cec_acknowledge_eom st) = indexOfRecvBuf st"
  "recvBuf (cec_acknowledge_eom st) = recvBuf st" "isSending (cec_acknowledge_eom st) = isSending st"
  "indexOfSendBuf (cec_acknowledge_eom st) = indexOfSendBuf st"
  "sizeOfSendBuf (cec_acknowledge_eom st) = sizeOfSendBuf st" "sendBuf (cec_acknowledge_eom st) = sendBuf st"
  "retries (cec_acknowledge_eom st) = retries st" "sendCommand (cec_acknowledge_eom st) = sendCommand st"
  "sendCommandWithDelay (cec_acknowledge_eom st) = sendCommandWithDelay st"
  "notEndTask (cec_acknowledge_eom st) = notEndTask st"
  "isFirstKiss (cec_acknowledge_eom st) = isFirstKiss st"
  "logicalDeviceTypeChoicesIndex (cec_acknowledge_eom st) = logicalDeviceTypeChoicesIndex st"
  "logicalDeviceType (cec_acknowledge_eom st) = logicalDeviceType st"
  "ActiveSource (cec_acknowledge_eom st) = ActiveSource st"
  "eventDiscovery (cec_acknowledge_eom st) = eventDiscovery st"
  "eventActiveSource (cec_acknowledge_eom st) = eventActiveSource st"
  "eventStandby (cec_acknowledge_eom st) = eventStandby st"
  "last_keycode (cec_acknowledge_eom st) = last_keycode st"
  "cec_buffer (cec_acknowledge_eom st) = cec_buffer st"
  "isReceiving (cec_start_sending b st) = isReceiving st"
  "indexOfRecvBuf (cec_start_sending b st) = indexOfRecvBuf st"
  "recvBuf (cec_start_sending b st) = recvBuf st" "isSending (cec_start_sending b st) = isSending st"
  "indexOfSendBuf (cec_start_sending b st) = indexOfSendBuf st"
  "sizeOfSendBuf (cec_start_sending b st) = sizeOfSendBuf st" "sendBuf (cec_start_sending b st) = sendBuf st"
  "retries (cec_start_sending b st) = retries st" "sendCommand (cec_start_sending b st) = sendCommand st"
  "sendCommandWithDelay (cec_start_sending b st) = sendCommandWithDelay st"
  "notEndTask (cec_start_sending b st) = notEndTask st"
  "isFirstKiss (cec_start_sending b st) = isFirstKiss st"
  "logicalDeviceTypeChoicesIndex (cec_start_sending b st) = logicalDeviceTypeChoicesIndex st"
  "logicalDeviceType (cec_start_sending b st) = logicalDeviceType st"
  "ActiveSource (cec_start_sending b st) = ActiveSource st"
  "eventDiscovery (cec_start_sending b st) = eventDiscovery st"
  "eventActiveSource (cec_start_sending b st) = eventActiveSource st"
  "eventStandby (cec_start_sending b st) = eventStandby st"
  "last_keycode (cec_start_sending b st) = last_keycode st"
  "cec_buffer (cec_start_sending b st) = cec_buffer st"
  "isReceiving (cec_set_own_address a st) = isReceiving st"
  "indexOfRecvBuf (cec_set_own_address a st) = indexOfRecvBuf st"
  "recvBuf (cec_set_own_address a st) = recvBuf st" "isSending (cec_set_own_address a st) = isSending st"
  "indexOfSendBuf (cec_set_own_address a st) = indexOfSendBuf st"
  "sizeOfSendBuf (cec_set_own_address a st) = sizeOfSendBuf st"
  "sendBuf (cec_set_own_address a st) = sendBuf st" "retries (cec_set_own_address a st) = retries st"
  "sendCommand (cec_set_own_address a st) = sendCommand st"
  "sendCommandWithDelay (cec_set_own_address a st) = sendCommandWithDelay st"
  "notEndTask (cec_set_own_address a st) = notEndTask st"
  "isFirstKiss (cec_set_own_address a st) = isFirstKiss st"
  "logicalDeviceTypeChoicesIndex (cec_set_own_address a st) = logicalDeviceTypeChoicesIndex st"
  "logicalDeviceType (cec_set_own_address a st) = logicalDeviceType st"
  "ActiveSource (cec_set_own_address a st) = ActiveSource st"
  "eventDiscovery (cec_set_own_address a st) = eventDiscovery st"
  "eventActiveSource (cec_set_own_address a st) = eventActiveSource st"
  "eventStandby (cec_set_own_address a st) = eventStandby st"
  "last_keycode (cec_set_own_address a st) = last_keycode st"
  "cec_buffer (cec_set_own_address a st) = cec_buffer st"
  "isReceiving (cec_write_data v st) = isReceiving st"
  "indexOfRecvBuf (cec_write_data v st) = indexOfRecvBuf st" "recvBuf (cec_write_data v st) = recvBuf st"
  "isSending (cec_write_data v st) = isSending st" "indexOfSendBuf (cec_write_data v st) = indexOfSendBuf st"
  "sizeOfSendBuf (cec_write_data v st) = sizeOfSendBuf st" "sendBuf (cec_write_data v st) = sendBuf st"
  "retries (cec_write_data v st) = retries st" "sendCommand (cec_write_data v st) = sendCommand st"
  "sendCommandWithDelay (cec_write_data v st) = sendCommandWithDelay st"
  "notEndTask (cec_write_data v st) = notEndTask st" "isFirstKiss (cec_write_data v st) = isFirstKiss st"
  "logicalDeviceTypeChoicesIndex (cec_write_data v st) = logicalDeviceTypeChoicesIndex st"
  "logicalDeviceType (cec_write_data v st) = logicalDeviceType st"
  "ActiveSource (cec_write_data v st) = ActiveSource st"
  "eventDiscovery (cec_write_data v st) = eventDiscovery st"
  "eventActiveSource (cec_write_data v st) = eventActiveSource st"
  "eventStandby (cec_write_data v st) = eventStandby st"
  "last_keycode (cec_write_data v st) = last_keycode st" "cec_buffer (cec_write_data v st) = cec_buffer st"
  by (simp_all add: cec_reg_ops)

lemma wait_sending_0: "wait_sending s (Suc c) = 0 \<longleftrightarrow> s"
  by (induction c) auto

lemma wait_sending_100 [simp]: "wait_sending s 100 = 0 \<longleftrightarrow> s"
  using wait_sending_0 [of s 99] by simp

lemma tx_update [simp]:
  "tx_bytes (st\<lparr>cec_regs := x0\<rparr>) = tx_bytes st" "tx_bytes (st\<lparr>isReceiving := x1\<rparr>) = tx_bytes st"
  "tx_bytes (st\<lparr>indexOfRecvBuf := x2\<rparr>) = tx_bytes st" "tx_bytes (st\<lparr>recvBuf := x3\<rparr>) = tx_bytes st"
  "tx_bytes (st\<lparr>isSending := x4\<rparr>) = tx_bytes st" "tx_bytes (st\<lparr>indexOfSendBuf := x5\<rparr>) = tx_bytes st"
  "tx_bytes (st\<lparr>sizeOfSendBuf := x6\<rparr>) = tx_bytes st" "tx_bytes (st\<lparr>sendBuf := x7\<rparr>) = tx_bytes st"
  "tx_bytes (st\<lparr>retries := x8\<rparr>) = tx_bytes st" "tx_bytes (st\<lparr>sendCommand := x9\<rparr>) = tx_bytes st"
  "tx_bytes (st\<lparr>sendCommandWithDelay := x10\<rparr>) = tx_bytes st"
  "tx_bytes (st\<lparr>notEndTask := x11\<rparr>) = tx_bytes st" "tx_bytes (st\<lparr>isFirstKiss := x12\<rparr>) = tx_bytes st"
  "tx_bytes (st\<lparr>logicalDeviceTypeChoicesIndex := x13\<rparr>) = tx_bytes st"
  "tx_bytes (st\<lparr>logicalDeviceType := x14\<rparr>) = tx_bytes st"
  "tx_bytes (st\<lparr>ActiveSource := x15\<rparr>) = tx_bytes st"
  "tx_bytes (st\<lparr>eventDiscovery := x16\<rparr>) = tx_bytes st"
  "tx_bytes (st\<lparr>eventActiveSource := x17\<rparr>) = tx_bytes st"
  "tx_bytes (st\<lparr>eventStandby := x18\<rparr>) = tx_bytes st"
  "tx_bytes (st\<lparr>last_keycode := x19\<rparr>) = tx_bytes st" "tx_bytes (st\<lparr>cec_buffer := x20\<rparr>) = tx_bytes st"
  by (simp_all add: tx_bytes_def)

lemma byte_u32 [simp]: "ucast (ucast (b::byte) :: u32) = b"
  by (auto simp: bit_eq_iff bit_simps)

text \<open>While a message is being sent nothing else is.\<close>

lemma send_busy [simp]: "isSending st \<Longrightarrow> sendMessage len buf st = Some (buf, st)"
  "isSending st \<Longrightarrow> sendResponse msg st = Some st"
  by (simp_all add: sendMessage_def sendResponse_def sendMessageWithRetry_def)

lemma same_transfer_refl [simp]: "same_transfer a a" by (simp add: same_transfer_def)

lemma same_transfer_trans: "same_transfer a b \<Longrightarrow> same_transfer b c \<Longrightarrow> same_transfer a c"
  by (simp add: same_transfer_def)

lemma same_transfer_sending: "same_transfer a b \<Longrightarrow> isSending a \<Longrightarrow> isSending b" by (simp add: same_transfer_def)

lemma tx_emit [simp]: "tx_bytes (cec_emit e st) = tx_bytes st @ tx_write e" by (simp add: tx_bytes_def cec_emit_def)

lemma tx_ack [simp]: "tx_bytes (cec_acknowledge st) = tx_bytes st" "tx_bytes (cec_acknowledge_eom st) = tx_bytes st"
  "tx_bytes (cec_start_sending p st) = tx_bytes st" "tx_bytes (cec_set_own_address a st) = tx_bytes st"
  "tx_bytes (cec_write_data v st) = tx_bytes st @ [ucast v]"
  by (simp_all add: tx_bytes_def cec_reg_ops tx_write_def cec_regs)

lemma same_transfer_simps [simp]:
  "same_transfer a (cec_acknowledge b) = same_transfer a b" "same_transfer a (cec_acknowledge_eom b) = same_transfer a b"
  "same_transfer a (b\<lparr>isReceiving := x1\<rparr>) = same_transfer a b" "same_transfer a (b\<lparr>indexOfRecvBuf := x2\<rparr>) = same_transfer a b"
  "same_transfer a (b\<lparr>recvBuf := x3\<rparr>) = same_transfer a b" "same_transfer a (b\<lparr>isFirstKiss := x4\<rparr>) = same_transfer a b"
  "same_transfer a (b\<lparr>logicalDeviceTypeChoicesIndex := x5\<rparr>) = same_transfer a b"
  "same_transfer a (b\<lparr>logicalDeviceType := x6\<rparr>) = same_transfer a b" "same_transfer a (b\<lparr>cec_buffer := x7\<rparr>) = same_transfer a b"
  by (simp_all add: same_transfer_def tx_bytes_def) (simp_all add: cec_reg_ops tx_write_def cec_regs)

lemma parseMessage_busy:
  assumes "isSending st" "parseMessage cfg src buf st = Some st'"
  shows "same_transfer st st'"
proof -
  have inject: "same_transfer st (input_inject k t st)" for k t
    by (auto simp: input_inject_def same_transfer_def tx_bytes_def cec_emit_def tx_write_def Let_def split: option.splits)
  have source: "same_transfer st (setActiveSource a st)" "same_transfer st (setUpdatedStandby st)" for a
    by (auto simp: setActiveSource_def setUpdatedActiveSource_def setUpdatedStandby_def same_transfer_def tx_bytes_def)
  show ?thesis
    using assms inject source unfolding parseMessage_def Let_def sendReportPhysicalAddress_def
    by (simp split: if_splits) auto
qed

lemma sendPing_busy:
  assumes "isSending st" "sendPingWithAutoIncrement cfg st = Some st'"
  shows "same_transfer st st'"
  using assms by (auto simp: sendPingWithAutoIncrement_def setIsFirstKiss_def Let_def split: if_splits)

lemma AddMessage_transfer: "AddMessageToBuffer raw len st = Some st' \<Longrightarrow> same_transfer st st'"
  by (auto simp: AddMessageToBuffer_def Let_def bind_eq_Some_conv same_transfer_def tx_write_def tx_bytes_def cec_emit_def
      split: if_splits)

lemma parseRaw_busy:
  assumes "isSending st" "parseRawMessage cfg len buf st = Some st'"
  shows "same_transfer st st'"
proof -
  have "same_transfer st st'" if "parseMessage cfg src (drop 1 buf) st = Some y" "AddMessageToBuffer buf len y = Some st'" for src y
    using parseMessage_busy [OF assms(1) that(1)] AddMessage_transfer [OF that(2)] by (rule same_transfer_trans)
  then show ?thesis
    using assms(2) parseMessage_busy [OF assms(1)] sendPing_busy [OF assms(1)]
    by (auto simp: parseRawMessage_def Let_def bind_eq_Some_conv split: if_splits)
qed

lemma receive_busy:
  assumes "isSending st" "cec_interrupt cfg status error rx st = Some st'"
    "status AND CEC_STATUS_RECV_ERR \<noteq> 0 \<or> status AND CEC_STATUS_RECV_BTF \<noteq> 0 \<and> status AND CEC_STATUS_SEND_ERR = 0"
  shows "same_transfer st st'"
proof -
  have raw: "parseRawMessage cfg len buf a = Some st' \<Longrightarrow> isSending a \<Longrightarrow> same_transfer st a \<Longrightarrow> same_transfer st st'" for a len buf
    using parseRaw_busy same_transfer_trans by blast
  show ?thesis
    using assms unfolding cec_interrupt_def Let_def
    by (auto split: if_splits) (erule raw; simp)+
qed


lemma interrupts_append:
  "cec_interrupts cfg (is @ js) st = (case cec_interrupts cfg is st of None \<Rightarrow> None | Some st \<Rightarrow> cec_interrupts cfg js st)"
  by (induction cfg "is" st rule: cec_interrupts.induct) (auto split: option.splits)

lemma next_byte_step:
  assumes "next_byte (status, error, rx)" "indexOfSendBuf st < length (sendBuf st)"
  obtains st' where "cec_interrupt cfg status error rx st = Some st'" "isSending st' = isSending st"
    "indexOfSendBuf st' = Suc (indexOfSendBuf st)" "sizeOfSendBuf st' = sizeOfSendBuf st" "sendBuf st' = sendBuf st"
    "tx_bytes st' = tx_bytes st @ [sendBuf st ! indexOfSendBuf st]"
    "last (cec_log st') = Reg_Write (CECBaseAddress + CEC_CONTROL) (if Suc (indexOfSendBuf st) = sizeOfSendBuf st then 2 else 0)"
proof -
  define a where "a = (cec_write_data (ucast (sendBuf st ! indexOfSendBuf st)) st)\<lparr>indexOfSendBuf := indexOfSendBuf st + 1\<rparr>"
  define b where "b = (if indexOfSendBuf a = sizeOfSendBuf a then cec_acknowledge_eom a else cec_acknowledge a)"
  have "cec_interrupt cfg status error rx st = Some b"
    using assms by (simp add: cec_interrupt_def next_byte_def Let_def a_def b_def)
  moreover have "last (cec_log b) = Reg_Write (CECBaseAddress + CEC_CONTROL) (if Suc (indexOfSendBuf st) = sizeOfSendBuf st then 2 else 0)"
    by (simp add: b_def a_def cec_reg_ops)
  ultimately show thesis by (intro that [of b]) (simp_all add: b_def a_def)
qed

lemma interrupts_send:
  assumes "cec_interrupts cfg is st = Some st'" "list_all (\<lambda>i. next_byte i \<or> receiving i) is" "isSending st"
    "indexOfSendBuf st + length (filter next_byte is) \<le> length (sendBuf st)"
  shows "isSending st' \<and> sendBuf st' = sendBuf st \<and> sizeOfSendBuf st' = sizeOfSendBuf st \<and>
    indexOfSendBuf st' = indexOfSendBuf st + length (filter next_byte is) \<and>
    tx_bytes st' = tx_bytes st @ take (length (filter next_byte is)) (drop (indexOfSendBuf st) (sendBuf st))"
  using assms
proof (induction "is" arbitrary: st)
  case (Cons i "is")
  obtain status error rx where i: "i = (status, error, rx)" by (metis surj_pair)
  obtain st1 where st1: "cec_interrupt cfg status error rx st = Some st1" "cec_interrupts cfg is st1 = Some st'"
    using Cons.prems(1) by (auto simp: i split: option.splits)
  show ?case
  proof (cases "next_byte i")
    case True
    then have len: "indexOfSendBuf st < length (sendBuf st)" using Cons.prems(4) by simp
    have s: "isSending st1" "indexOfSendBuf st1 = Suc (indexOfSendBuf st)" "sizeOfSendBuf st1 = sizeOfSendBuf st"
        "sendBuf st1 = sendBuf st" "tx_bytes st1 = tx_bytes st @ [sendBuf st ! indexOfSendBuf st]"
      using next_byte_step [OF True [unfolded i] len, of cfg] st1(1) Cons.prems(3) by auto
    show ?thesis
      using Cons.IH [OF st1(2)] Cons.prems(2,4) True len s
      by (simp add: Cons_nth_drop_Suc [symmetric] flip: take_Suc_Cons)
  next
    case False
    then have "receiving i" using Cons.prems(2) by simp
    then have "same_transfer st st1"
      using receive_busy [OF Cons.prems(3) st1(1)] by (simp add: receiving_def i)
    then show ?thesis using Cons.IH [OF st1(2)] Cons.prems False by (simp add: same_transfer_def)
  qed
qed simp

lemma interrupts_send_defined:
  "list_all next_byte is \<Longrightarrow> indexOfSendBuf st + length is \<le> length (sendBuf st) \<Longrightarrow>
   \<exists>st'. cec_interrupts cfg is st = Some st'"
proof (induction "is" arbitrary: st)
  case (Cons i "is")
  obtain status error rx where i: "i = (status, error, rx)" by (metis surj_pair)
  then obtain st1 where "cec_interrupt cfg status error rx st = Some st1" "indexOfSendBuf st1 = Suc (indexOfSendBuf st)"
      "sendBuf st1 = sendBuf st"
    using next_byte_step [of status error rx st cfg] Cons.prems by auto
  then show ?case using Cons by (simp add: i)
qed simp

lemma send_idle:
  assumes "\<not> isSending st" "length (sendBuf st) = SEND_BUF_SIZE" "frame \<noteq> []" "length frame \<le> SEND_BUF_SIZE"
  obtains st1 where "sendMessage (length frame) frame st = Some (own_frame (logicalDeviceType st) frame, st1)" "isSending st1"
    "sendBuf st1 = own_frame (logicalDeviceType st) frame @ drop (length frame) (sendBuf st)" "sizeOfSendBuf st1 = length frame"
    "indexOfSendBuf st1 = 1" "retries st1 = DEFAULT_RETRY_COUNT" "sendCommand st1 = Suc (sendCommand st)"
    "tx_bytes st1 = tx_bytes st @ take 1 (own_frame (logicalDeviceType st) frame)" "isFirstKiss st1 = isFirstKiss st"
    "logicalDeviceType st1 = logicalDeviceType st" "notEndTask st1 = notEndTask st"
proof -
  let ?b = "own_frame (logicalDeviceType st) frame"
  have own: "length ?b = length frame" "?b \<noteq> []" "?b ! 0 = push_bit 4 (logicalDeviceType st) + (frame ! 0 AND 0x0F)"
    using assms(3) by (simp_all add: own_frame_def)
  define a where "a = cec_write_data (ucast (?b ! 0)) (cec_set_own_address (ucast (logicalDeviceType st))
     (st\<lparr>sizeOfSendBuf := length frame, indexOfSendBuf := 0, isSending := True, retries := DEFAULT_RETRY_COUNT,
        sendBuf := ?b @ drop (length frame) (sendBuf st)\<rparr>))"
  have "sendMessage (length frame) frame st = Some (?b, a\<lparr>indexOfSendBuf := 1, sendCommand := Suc (sendCommand st)\<rparr>)"
    using assms own
    by (simp add: sendMessage_def sendMessageWithRetry_def Let_def own_frame_def [symmetric] a_def nth_append
        word_bw_assocs)
  moreover have "tx_bytes a = tx_bytes st @ take 1 ?b" using own(2) by (cases ?b) (simp_all add: a_def)
  ultimately show thesis using assms own
    by (intro that [of "a\<lparr>indexOfSendBuf := 1, sendCommand := Suc (sendCommand st)\<rparr>"]) (simp_all add: a_def del: One_nat_def)
qed

lemma interrupts_eom:
  assumes "list_all next_byte is" "is \<noteq> []" "isSending st" "indexOfSendBuf st + length is = sizeOfSendBuf st"
    "sizeOfSendBuf st \<le> length (sendBuf st)"
  shows "\<exists>st2. cec_interrupts cfg is st = Some st2 \<and> last (cec_log st2) = Reg_Write (CECBaseAddress + CEC_CONTROL) CEC_TRANSM_EOM"
proof -
  obtain js i where js: "is = js @ [i]" using assms(2) by (metis append_butlast_last_id)
  obtain status error rx where i: "i = (status, error, rx)" by (metis surj_pair)
  have all: "list_all next_byte js" "next_byte (status, error, rx)" using assms(1) by (simp_all add: js i)
  obtain a where a: "cec_interrupts cfg js st = Some a"
    using interrupts_send_defined [OF all(1), of st cfg] assms(4,5) by (auto simp: js)
  have "filter next_byte js = js" using all(1) by (simp add: list_all_iff)
  then have "indexOfSendBuf a = indexOfSendBuf st + length js" "sizeOfSendBuf a = sizeOfSendBuf st" "sendBuf a = sendBuf st"
    using interrupts_send [OF a _ assms(3)] all assms(4,5) by (simp_all add: js list_all_iff)
  then obtain st2 where "cec_interrupt cfg status error rx a = Some st2"
      "last (cec_log st2) = Reg_Write (CECBaseAddress + CEC_CONTROL) 2"
    using next_byte_step [OF all(2), of a cfg] assms(4,5) by (auto simp: js)
  then show ?thesis by (simp add: js i interrupts_append a CEC_TRANSM_EOM_def)
qed

lemma task_step:
  assumes "sendCommand st = Suc n" "notEndTask st"
  shows "same_transfer st (cec_task_step st)" "isFirstKiss (cec_task_step st) = isFirstKiss st"
    "logicalDeviceType (cec_task_step st) = logicalDeviceType st" "retries (cec_task_step st) = retries st"
    "last (cec_log (cec_task_step st)) = Reg_Write (CECBaseAddress + CEC_CONTROL)
       (if sizeOfSendBuf st = 1 then CEC_TRANSM_EOM OR CEC_TRANSM_SOM else CEC_TRANSM_SOM)"
  using assms by (auto simp: cec_task_step_def Let_def same_transfer_def tx_write_def) (auto simp: cec_reg_ops)

lemma own_header: "(push_bit 4 t + ((x::byte) AND 0x0F)) AND 0x0F = x AND 0x0F"
proof -
  have "push_bit 4 t + (x AND 0x0F) = push_bit 4 t OR (x AND 0x0F)"
  proof (rule disjunctive_add)
    have m: "(0x0F::byte) = mask 4" by (simp add: mask_eq_exp_minus_1)
    show "\<not> bit (push_bit 4 t) n \<or> \<not> bit (x AND 0x0F) n" for n
      unfolding m by (auto simp add: bit_simps simp del: mask_numeral)
  qed
  then show ?thesis by (simp add: byte_eq_iff bit_simps)
qed

lemma failed_step:
  assumes "send_failed (status, error, rx)" "isFirstKiss st \<noteq> 1" "resendable st"
  obtains st' where "cec_interrupt cfg status error rx st = Some st'" "isFirstKiss st' \<noteq> 1" "resendable st'"
    "sendBuf st' = sendBuf st" "isSending st' = (0 < unat (retries st))" "unat (retries st') = unat (retries st) - 1"
    "tx_bytes st' = tx_bytes st @ (if 0 < unat (retries st) then [sendBuf st ! 0] else [])"
    "sendCommand st' = sendCommand st + (if 0 < unat (retries st) then 1 else 0)"
proof -
  define a where "a = (if status AND CEC_STATUS_SEND_EOMSG \<noteq> 0 then cec_acknowledge_eom st else cec_acknowledge st)\<lparr>isSending := False\<rparr>"
  have a: "isFirstKiss a = isFirstKiss st" "retries a = retries st" "sendBuf a = sendBuf st" "tx_bytes a = tx_bytes st"
      "sendCommand a = sendCommand st" "sizeOfSendBuf a = sizeOfSendBuf st" "logicalDeviceType a = logicalDeviceType st" "\<not> isSending a"
    by (simp_all add: a_def)
  have int: "cec_interrupt cfg status error rx st = (if retries st > 0 then retry_message a else Some a)"
    using assms(1,2) a unfolding a_def [symmetric] cec_interrupt_def send_failed_def Let_def by simp
  show thesis
  proof (cases "retries st > 0")
    case False
    then have "retries st = 0" by (simp add: word_gt_0)
    then show ?thesis using a assms int by (intro that [of a]) (simp_all add: resendable_def)
  next
    case True
    then have pos: "0 < unat (retries st)" by (simp add: unat_gt_0 word_gt_0)
    have hdr: "(sendBuf st)[0 := push_bit 4 (logicalDeviceType st) + (sendBuf st ! 0 AND 0x0F)] = sendBuf st"
      using assms(3) by (simp add: resendable_def own_frame_def)
    define b where "b = (cec_write_data (ucast (sendBuf st ! 0)) (cec_set_own_address (ucast (logicalDeviceType st))
        (a\<lparr>sizeOfSendBuf := sizeOfSendBuf st, indexOfSendBuf := 0, isSending := True, retries := retries st - 1,
          sendBuf := sendBuf st\<rparr>)))\<lparr>indexOfSendBuf := 1, sendCommand := Suc (sendCommand st)\<rparr>"
    have ne: "sendBuf st \<noteq> []" using assms(3) by (auto simp: resendable_def cec_sizes)
    have "retry_message a = Some b"
      using a assms(3) hdr ne
      by (simp add: retry_message_def sendMessageWithRetry_def Let_def b_def resendable_def word_bw_assocs)
    moreover have "unat (retries st - 1) = unat (retries st) - 1" using pos by (intro unat_minus_one) auto
    ultimately show ?thesis using True pos a assms int
      by (intro that [of b]) (simp_all add: b_def resendable_def)
  qed
qed

lemma failures:
  assumes "list_all send_failed is" "isFirstKiss st \<noteq> 1" "resendable st"
  shows "\<exists>st2. cec_interrupts cfg is st = Some st2 \<and> sendBuf st2 = sendBuf st \<and>
    tx_bytes st2 = tx_bytes st @ replicate (min (unat (retries st)) (length is)) (sendBuf st ! 0) \<and>
    sendCommand st2 = sendCommand st + min (unat (retries st)) (length is) \<and>
    isSending st2 = (if is = [] then isSending st else length is \<le> unat (retries st))"
  using assms
proof (induction "is" arbitrary: st)
  case (Cons i "is")
  obtain status error rx where i: "i = (status, error, rx)" by (metis surj_pair)
  obtain st' where st': "cec_interrupt cfg status error rx st = Some st'" "isFirstKiss st' \<noteq> 1" "resendable st'"
    "sendBuf st' = sendBuf st" "isSending st' = (0 < unat (retries st))" "unat (retries st') = unat (retries st) - 1"
    "tx_bytes st' = tx_bytes st @ (if 0 < unat (retries st) then [sendBuf st ! 0] else [])"
    "sendCommand st' = sendCommand st + (if 0 < unat (retries st) then 1 else 0)"
    using failed_step [of status error rx st cfg] Cons.prems by (auto simp: i)
  have m: "min (unat (retries st)) (Suc n) = (if 0 < unat (retries st) then Suc (min (unat (retries st) - 1) n) else 0)" for n
    by auto
  obtain st2 where st2: "cec_interrupts cfg is st' = Some st2" "sendBuf st2 = sendBuf st'"
    "tx_bytes st2 = tx_bytes st' @ replicate (min (unat (retries st')) (length is)) (sendBuf st' ! 0)"
    "sendCommand st2 = sendCommand st' + min (unat (retries st')) (length is)"
    "isSending st2 = (if is = [] then isSending st' else length is \<le> unat (retries st'))"
    using Cons.IH [of st'] Cons.prems st'(2,3) by auto
  have "isSending st2 = (Suc (length is) \<le> unat (retries st))"
    using st2(5) st'(5,6) by (cases "unat (retries st)"; cases "is") auto
  then show ?case using st2(1-4) st'(1,4,6-8) by (simp add: i m)
qed simp

inductive cec_reach :: "cec_cfg \<Rightarrow> cec_state \<Rightarrow> bool" for cfg where
  init: "cec_worker_init cfg (startTask (cec_internal_init cfg (cec_static regs))) = Some st \<Longrightarrow> cec_reach cfg st"
| interrupt: "cec_reach cfg st \<Longrightarrow> cec_interrupt cfg status error rx st = Some st' \<Longrightarrow> cec_reach cfg st'"
| task: "cec_reach cfg st \<Longrightarrow> cec_reach cfg (cec_task_step st)"
| send: "cec_reach cfg st \<Longrightarrow> sendMessage len buf st = Some (buf', st') \<Longrightarrow> cec_reach cfg st'"
| play: "cec_reach cfg st \<Longrightarrow> sendOneTouchPlay cfg st = Some st' \<Longrightarrow> cec_reach cfg st'"
| standby: "cec_reach cfg st \<Longrightarrow> sendSystemStandby deviceId st = Some st' \<Longrightarrow> cec_reach cfg st'"

lemma INC_le: "b \<le> 0xF \<Longrightarrow> INC b \<le> 0xF"
  by (auto simp: INC_def word_le_nat_alt word_unat_eq_iff unat_word_ariths)

lemma cec_wf_frame [simp]:
  "cec_wf (cec_emit e st) = cec_wf st" "cec_wf (cec_acknowledge st) = cec_wf st" "cec_wf (cec_acknowledge_eom st) = cec_wf st"
  "cec_wf (cec_start_sending b st) = cec_wf st" "cec_wf (cec_set_own_address a st) = cec_wf st" "cec_wf (cec_write_data v st) = cec_wf st"
  "cec_wf (cec_write_register_u32 a v st) = cec_wf st"
  "cec_wf (st\<lparr>isReceiving := x1\<rparr>) = cec_wf st" "cec_wf (st\<lparr>indexOfRecvBuf := x2\<rparr>) = cec_wf st"
  "cec_wf (st\<lparr>isSending := x3\<rparr>) = cec_wf st" "cec_wf (st\<lparr>indexOfSendBuf := x4\<rparr>) = cec_wf st"
  "cec_wf (st\<lparr>sendCommand := x5\<rparr>) = cec_wf st" "cec_wf (st\<lparr>isFirstKiss := x6\<rparr>) = cec_wf st"
  "cec_wf (st\<lparr>logicalDeviceTypeChoicesIndex := x7\<rparr>) = cec_wf st" "cec_wf (st\<lparr>logicalDeviceType := x8\<rparr>) = cec_wf st"
  "cec_wf (st\<lparr>ActiveSource := x9\<rparr>) = cec_wf st" "cec_wf (st\<lparr>last_keycode := x10\<rparr>) = cec_wf st"
  "cec_wf (st\<lparr>cec_buffer := x11\<rparr>) = cec_wf st" "cec_wf (st\<lparr>notEndTask := x12\<rparr>) = cec_wf st"
  "cec_wf (st\<lparr>sendCommandWithDelay := x13\<rparr>) = cec_wf st"
  by (simp_all add: cec_wf_def)

lemma cec_address_frame [simp]:
  "cec_address_wf (cec_emit e st) = cec_address_wf st" "cec_address_wf (cec_acknowledge st) = cec_address_wf st"
  "cec_address_wf (cec_acknowledge_eom st) = cec_address_wf st" "cec_address_wf (cec_start_sending b st) = cec_address_wf st"
  "cec_address_wf (cec_set_own_address a st) = cec_address_wf st" "cec_address_wf (cec_write_data v st) = cec_address_wf st"
  "cec_address_wf (st\<lparr>isReceiving := x1\<rparr>) = cec_address_wf st" "cec_address_wf (st\<lparr>indexOfRecvBuf := x2\<rparr>) = cec_address_wf st"
  "cec_address_wf (st\<lparr>isSending := x3\<rparr>) = cec_address_wf st" "cec_address_wf (st\<lparr>indexOfSendBuf := x4\<rparr>) = cec_address_wf st"
  "cec_address_wf (st\<lparr>sendCommand := x5\<rparr>) = cec_address_wf st" "cec_address_wf (st\<lparr>isFirstKiss := x6\<rparr>) = cec_address_wf st"
  "cec_address_wf (st\<lparr>ActiveSource := x9\<rparr>) = cec_address_wf st" "cec_address_wf (st\<lparr>last_keycode := x10\<rparr>) = cec_address_wf st"
  "cec_address_wf (st\<lparr>cec_buffer := x11\<rparr>) = cec_address_wf st" "cec_address_wf (st\<lparr>notEndTask := x12\<rparr>) = cec_address_wf st"
  "cec_address_wf (st\<lparr>sendCommandWithDelay := x13\<rparr>) = cec_address_wf st" "cec_address_wf (st\<lparr>recvBuf := x14\<rparr>) = cec_address_wf st"
  "cec_address_wf (st\<lparr>eventActiveSource := x15\<rparr>) = cec_address_wf st" "cec_address_wf (st\<lparr>eventStandby := x16\<rparr>) = cec_address_wf st"
  "cec_address_wf (st\<lparr>sendBuf := x17\<rparr>) = cec_address_wf st" "cec_address_wf (st\<lparr>sizeOfSendBuf := x18\<rparr>) = cec_address_wf st"
  "cec_address_wf (st\<lparr>retries := x19\<rparr>) = cec_address_wf st"
  by (simp_all add: cec_address_wf_def)

lemma sendWithRetry_wf:
  assumes "sendMessageWithRetry len buf r st = Some (rc, buf', st')" "cec_wf st" "r \<le> DEFAULT_RETRY_COUNT"
  shows "cec_wf st'" "cec_address_wf st' = cec_address_wf st"
  using assms
  by (auto simp: sendMessageWithRetry_def Let_def cec_wf_def split: if_splits option.splits)

lemma sendMessage_wf:
  "sendMessage len buf st = Some (buf', st') \<Longrightarrow> cec_wf st \<Longrightarrow> cec_wf st' \<and> cec_address_wf st' = cec_address_wf st"
  by (auto simp: sendMessage_def bind_eq_Some_conv dest: sendWithRetry_wf)

lemma sendResponse_wf:
  "sendResponse msg st = Some st' \<Longrightarrow> cec_wf st \<Longrightarrow> cec_wf st' \<and> cec_address_wf st' = cec_address_wf st"
  by (auto simp: sendResponse_def dest: sendMessage_wf)

lemma setIsFirstKiss_wf:
  "setIsFirstKiss cfg k st = Some st' \<Longrightarrow> cec_wf st \<Longrightarrow> cec_wf st' \<and> cec_address_wf st' = cec_address_wf st"
  by (auto simp: setIsFirstKiss_def Let_def sendReportPhysicalAddress_def split: if_splits dest: sendResponse_wf)

lemma retry_wf:
  assumes "retry_message st = Some st'" "cec_wf st" "retries st > 0"
  shows "cec_wf st' \<and> cec_address_wf st' = cec_address_wf st"
proof -
  have "retries st - 1 \<le> DEFAULT_RETRY_COUNT"
    using assms(2,3) unat_minus_one [of "retries st"] by (auto simp: cec_wf_def word_le_nat_alt word_gt_0)
  then show ?thesis using assms(1,2) by (auto simp: retry_message_def dest: sendWithRetry_wf)
qed

lemma parseMessage_wf:
  assumes "parseMessage cfg src buf st = Some st'" "cec_wf st"
  shows "cec_wf st' \<and> cec_address_wf st' = cec_address_wf st"
proof -
  have inject: "cec_wf (input_inject k t st) \<and> cec_address_wf (input_inject k t st) = cec_address_wf st" for k t
    using assms(2) by (auto simp: input_inject_def Let_def split: option.splits)
  have source: "cec_wf (setActiveSource a st) \<and> cec_address_wf (setActiveSource a st) = cec_address_wf st"
      "cec_wf (setUpdatedStandby st) \<and> cec_address_wf (setUpdatedStandby st) = cec_address_wf st" for a
    using assms(2) INC_le by (auto simp: setActiveSource_def setUpdatedActiveSource_def setUpdatedStandby_def cec_wf_def)
  have response: "sendResponse msg st = Some st' \<Longrightarrow> cec_wf st' \<and> cec_address_wf st' = cec_address_wf st" for msg
    using sendResponse_wf assms(2) by blast
  show ?thesis
    using assms inject source response unfolding parseMessage_def Let_def sendReportPhysicalAddress_def
    by (simp split: if_splits) auto
qed


lemma sendPing_wf:
  assumes "sendPingWithAutoIncrement cfg st = Some st'" "cec_wf st"
  shows "cec_wf st' \<and> cec_address_wf st'"
proof -
  obtain a where a: "setIsFirstKiss cfg 1 st = Some a" "unat (logicalDeviceTypeChoicesIndex a) < length logicalDeviceTypeChoices"
      and send: "\<exists>buf. sendMessage 1 [push_bit 4 (logicalDeviceTypeChoices ! unat (logicalDeviceTypeChoicesIndex a)) +
         (logicalDeviceTypeChoices ! unat (logicalDeviceTypeChoicesIndex a) AND 0xF)]
        (a\<lparr>logicalDeviceTypeChoicesIndex := logicalDeviceTypeChoicesIndex a + 1,
           logicalDeviceType := logicalDeviceTypeChoices ! unat (logicalDeviceTypeChoicesIndex a)\<rparr>) = Some (buf, st')"
    using assms(1) by (auto simp: sendPingWithAutoIncrement_def Let_def bind_eq_Some_conv split: if_splits)
  have wf: "cec_wf a" using setIsFirstKiss_wf [OF a(1) assms(2)] by simp
  have "length logicalDeviceTypeChoices = 9" by (simp add: logicalDeviceTypeChoices_def)
  then have "unat (logicalDeviceTypeChoicesIndex a + 1) = unat (logicalDeviceTypeChoicesIndex a) + 1"
    using a(2) by (simp add: unat_word_ariths)
  then have "cec_address_wf (a\<lparr>logicalDeviceTypeChoicesIndex := logicalDeviceTypeChoicesIndex a + 1,
           logicalDeviceType := logicalDeviceTypeChoices ! unat (logicalDeviceTypeChoicesIndex a)\<rparr>)"
    using a(2) by (simp add: cec_address_wf_def address_ok_def)
  then show ?thesis using send wf by (auto dest: sendMessage_wf)
qed

lemma AddMessage_wf:
  "AddMessageToBuffer raw len st = Some st' \<Longrightarrow> cec_wf st' = cec_wf st \<and> cec_address_wf st' = cec_address_wf st"
  by (auto simp: AddMessageToBuffer_def Let_def bind_eq_Some_conv split: if_splits)

lemma parseRaw_wf:
  assumes "parseRawMessage cfg len buf st = Some st'" "cec_wf st" "cec_address_wf st"
  shows "cec_wf st' \<and> cec_address_wf st'"
  using assms
  by (auto simp: parseRawMessage_def Let_def bind_eq_Some_conv split: if_splits
      dest: parseMessage_wf sendPing_wf AddMessage_wf)

lemma interrupt_wf:
  assumes "cec_interrupt cfg status error rx st = Some st'" "cec_wf st" "cec_address_wf st"
  shows "cec_wf st' \<and> cec_address_wf st'"
proof -
  have recv: "cec_wf (a\<lparr>recvBuf := b\<rparr>)" if "cec_wf a" "length b = RECV_BUF_SIZE" for a b
    using that by (simp add: cec_wf_def)
  have len: "length (recvBuf st) = RECV_BUF_SIZE" using assms(2) by (simp add: cec_wf_def)
  have raw: "parseRawMessage cfg n buf a = Some st' \<Longrightarrow> cec_wf a \<Longrightarrow> cec_address_wf a \<Longrightarrow> ?thesis" for n buf a
    by (rule parseRaw_wf)
  have kiss: "setIsFirstKiss cfg 0 a = Some st' \<Longrightarrow> cec_wf a \<Longrightarrow> cec_address_wf a \<Longrightarrow> ?thesis" for a
    using setIsFirstKiss_wf by blast
  have retry: "retry_message a = Some st' \<Longrightarrow> cec_wf a \<Longrightarrow> cec_address_wf a \<Longrightarrow> retries a > 0 \<Longrightarrow> ?thesis" for a
    using retry_wf by blast
  show ?thesis
    using assms len unfolding cec_interrupt_def Let_def
    by (auto simp: recv split: if_splits)
      (erule raw [THEN conjunct1] kiss [THEN conjunct1] retry [THEN conjunct1]
         raw [THEN conjunct2] kiss [THEN conjunct2] retry [THEN conjunct2]; simp add: recv)+
qed

lemma cec_reach_wf: "cec_reach cfg st \<Longrightarrow> cec_wf st \<and> cec_address_wf st"
proof (induction rule: cec_reach.induct)
  case (init regs st)
  have "cec_wf (cec_set_own_address 0x0F (startTask (cec_internal_init cfg (cec_static regs))))"
    by (simp add: startTask_def cec_internal_init_def cec_modify_register_def Let_def)
      (simp add: cec_static_def cec_wf_def)
  then show ?case using init sendPing_wf by (simp add: cec_worker_init_def)
next
  case (interrupt st status error rx st')
  then show ?case using interrupt_wf by blast
next
  case (task st)
  then show ?case by (simp add: cec_task_step_def Let_def)
next
  case (send st len buf buf' st')
  then show ?case using sendMessage_wf by blast
next
  case (play st st')
  then show ?case by (auto simp: sendOneTouchPlay_def bind_eq_Some_conv dest!: sendResponse_wf)
next
  case (standby st deviceId st')
  then show ?case by (auto simp: sendSystemStandby_def dest!: sendResponse_wf)
qed

lemma unreg_last: "i < 9 \<Longrightarrow> logicalDeviceTypeChoices ! i = DEVICE_TYPE_UNREG \<longleftrightarrow> i = 8"
proof -
  assume "i < 9"
  then have "i = 0 \<or> i = 1 \<or> i = 2 \<or> i = 3 \<or> i = 4 \<or> i = 5 \<or> i = 6 \<or> i = 7 \<or> i = 8" by auto
  then show ?thesis by (elim disjE) (simp_all add: logicalDeviceTypeChoices_def cec_codes)
qed

lemma send_defined: "cec_wf st \<Longrightarrow> 0 < length msg \<Longrightarrow> length msg \<le> SEND_BUF_SIZE \<Longrightarrow> sendMessage (length msg) msg st \<noteq> None"
  by (auto simp: sendMessage_def sendMessageWithRetry_def Let_def)

lemma ping_defined:
  assumes "cec_wf st" "cec_address_wf st" "logicalDeviceType st \<noteq> DEVICE_TYPE_UNREG"
  shows "sendPingWithAutoIncrement cfg st \<noteq> None"
proof -
  have l: "length logicalDeviceTypeChoices = 9" by (simp add: logicalDeviceTypeChoices_def)
  have "unat (logicalDeviceTypeChoicesIndex st) < 9"
    using assms(2,3) unreg_last [of "unat (logicalDeviceTypeChoicesIndex st) - 1"]
    by (cases "unat (logicalDeviceTypeChoicesIndex st) = 9") (auto simp: cec_address_wf_def address_ok_def l)
  moreover have "\<exists>st' buf. sendMessage (Suc 0) [x] a = Some (buf, st')" if "cec_wf a" for a x
    using send_defined [OF that, of "[x]"] by (auto simp: cec_sizes)
  ultimately show ?thesis
    using assms(1) by (auto simp: sendPingWithAutoIncrement_def setIsFirstKiss_def Let_def l bind_eq_Some_conv)
qed

lemma response_defined: "0 < length msg \<Longrightarrow> length msg \<le> SEND_BUF_SIZE \<Longrightarrow> sendResponse msg st \<noteq> None"
  by (auto simp: sendResponse_def sendMessage_def sendMessageWithRetry_def Let_def)

lemma error_defined:
  assumes "cec_wf st" "status AND CEC_STATUS_RECV_ERR \<noteq> 0 \<or> status AND CEC_STATUS_SEND_ERR \<noteq> 0"
  shows "cec_interrupt cfg status error rx st \<noteq> None"
proof -
  have kiss: "setIsFirstKiss cfg 0 a \<noteq> None" for a
    by (simp add: setIsFirstKiss_def Let_def sendReportPhysicalAddress_def response_defined phys_bytes_def cec_sizes del: not_None_eq)
  have retry: "retry_message a \<noteq> None" if "cec_wf a" for a
    using that by (auto simp: retry_message_def sendMessageWithRetry_def Let_def cec_wf_def cec_sizes)
  show ?thesis using assms kiss retry by (auto simp: cec_interrupt_def Let_def simp del: not_None_eq)
qed

lemma pending_length: "cec_unwrapped b \<Longrightarrow> length (cec_pending b) = unat (outputBufferEnd b) - unat (outputBufferStart b)"
  by (auto simp: cec_pending_def cec_unwrapped_def word_le_nat_alt)

lemma buffer_size: "cec_unwrapped b \<Longrightarrow> unat (GetMessageBufferSize b) = length (cec_pending b)"
  by (auto simp: pending_length GetMessageBufferSize_def cec_unwrapped_def unat_sub)

lemma buffer_get:
  assumes "cec_unwrapped b" "unat len \<le> length (cec_pending b)"
  shows "\<exists>b'. GetMessageFromBuffer len b = Some (take (unat len) (cec_pending b), b') \<and> cec_unwrapped b' \<and>
    cec_pending b' = drop (unat len) (cec_pending b)"
proof -
  have l: "unat (outputBufferStart b) + unat len \<le> unat (outputBufferEnd b)" "unat (outputBufferEnd b) \<le> 4096"
    using assms pending_length [OF assms(1)] by (auto simp: cec_unwrapped_def word_le_nat_alt OUTBUFFERSIZE_def)
  then have s: "unat (outputBufferStart b + len) = unat (outputBufferStart b) + unat len" by (simp add: unat_word_ariths)
  define b' where "b' = b\<lparr>outputBufferStart := outputBufferStart b + len\<rparr>"
  have "GetMessageFromBuffer len b = Some (take (unat len) (cec_pending b), b')"
    using assms(1) l by (auto simp: GetMessageFromBuffer_def buf_slice_def b'_def cec_unwrapped_def cec_pending_def OUTBUFFERSIZE_def)
  moreover have "cec_unwrapped b'" using assms(1) l s by (auto simp: cec_unwrapped_def b'_def word_le_nat_alt)
  moreover have "cec_pending b' = drop (unat len) (cec_pending b)"
    using l s by (simp add: cec_pending_def b'_def drop_take add.commute)
  ultimately show ?thesis by blast
qed

lemma message_size: "unat (ucast (x::byte) + 2 :: u32) = unat x + 2"
proof -
  have x: "unat x < 256" using unsigned_less [of x] by simp
  then have "unat (ucast x :: u32) = unat x" by (simp add: unsigned_ucast_eq take_bit_nat_eq_self)
  then show ?thesis using x by (simp add: unat_word_ariths)
qed

lemma buffer_space: "cec_unwrapped b \<Longrightarrow> unat (OUTBUFFERSIZE - outputBufferEnd b) = 4096 - unat (outputBufferEnd b)"
  by (simp add: cec_unwrapped_def unat_sub) (simp add: OUTBUFFERSIZE_def)

lemma buffer_add:
  assumes "cec_unwrapped b" "length (data_field msg) = unat (length_field msg)"
    "unat (outputBufferEnd b) + length (message_bytes msg) \<le> 4096"
  shows "\<exists>b'. AddMessageBuffer msg b = Some b' \<and> cec_unwrapped b' \<and> cec_pending b' = cec_pending b @ message_bytes msg"
proof -
  have l: "unat (outputBufferEnd b) \<le> 4096" "length (outputBuffer b) = 4096" "unat (outputBufferStart b) \<le> unat (outputBufferEnd b)"
    using assms by (auto simp: cec_unwrapped_def word_le_nat_alt OUTBUFFERSIZE_def)
  have m: "length (message_bytes msg) = unat (length_field msg) + 2" using assms(2) by (simp add: message_bytes_def)
  define n where "n = (ucast (length_field msg) + 2 :: u32)"
  have n: "unat n = length (message_bytes msg)"
    using m by (simp add: n_def message_size)
  note space = buffer_space [OF assms(1)]
  have e: "unat (outputBufferEnd b + n) = unat (outputBufferEnd b) + length (message_bytes msg)"
    using n assms(3) by (simp add: unat_word_ariths)
  let ?e = "unat (outputBufferEnd b)" and ?m = "message_bytes msg"
  define b' where "b' = b\<lparr>outputBuffer := take ?e (outputBuffer b) @ ?m @ drop (?e + length ?m) (outputBuffer b), outputBufferEnd := outputBufferEnd b + n\<rparr>"
  have fits: "n \<le> OUTBUFFERSIZE - outputBufferEnd b"
    unfolding word_le_nat_alt space n using assms(3) by simp
  have "AddMessageBuffer msg b = Some b'"
    using assms(3) l n fits
    by (simp add: AddMessageBuffer_def n_def [symmetric] Let_def buf_slice_def buf_store_def b'_def)
  moreover have "cec_unwrapped b'"
    using assms(1,3) l e by (simp add: cec_unwrapped_def b'_def word_le_nat_alt OUTBUFFERSIZE_def)
  moreover have "cec_pending b' = cec_pending b @ ?m"
    using l assms(3) e by (simp add: cec_pending_def b'_def drop_take)
  ultimately show ?thesis by blast
qed

lemma cec_static_idle:
  "\<not> isSending (cec_static r)" "length (sendBuf (cec_static r)) = SEND_BUF_SIZE" "notEndTask (cec_static r)"
  "isFirstKiss (cec_static r) \<noteq> 1" "logicalDeviceType (cec_static r) = 4" "tx_bytes (cec_static r) = []" "sendCommand (cec_static r) = 0"
  by (simp_all add: cec_static_def cec_codes tx_bytes_def)

lemma cec_witness_frame:
  "own_frame 4 [0x00, 0x36] = [0x40, 0x36]" "[0x00, 0x36 :: byte] \<noteq> []" "length [0x00, 0x36 :: byte] \<le> SEND_BUF_SIZE"
  by (simp_all add: own_frame_def cec_sizes)

subsection \<open>Properties\<close>

text \<open>
  Claim C25. Transmission. A message of 1 to 16 bytes sent while the driver is idle goes out byte by byte, with
  the address of the driver put into the header: the task starts the transfer (a lone header is a
  ping and ends at once), each interrupt for the next byte writes it, whatever is received in
  between and answered or not, and the last byte is marked as the end of the message.
\<close>

theorem cec_transmits:
  assumes "\<not> isSending st" "length (sendBuf st) = SEND_BUF_SIZE" "frame \<noteq> []" "length frame \<le> SEND_BUF_SIZE" "notEndTask st"
  shows "\<exists>st1. sendMessage (length frame) frame st = Some (own_frame (logicalDeviceType st) frame, st1) \<and>
    last (cec_log (cec_task_step st1)) = Reg_Write (CECBaseAddress + CEC_CONTROL)
      (if length frame = 1 then CEC_TRANSM_EOM OR CEC_TRANSM_SOM else CEC_TRANSM_SOM) \<and>
    (\<forall>is st2. list_all (\<lambda>i. next_byte i \<or> receiving i) is \<longrightarrow> length (filter next_byte is) < length frame \<longrightarrow>
       cec_interrupts cfg is (cec_task_step st1) = Some st2 \<longrightarrow>
       isSending st2 \<and> tx_bytes st2 = tx_bytes st @ take (Suc (length (filter next_byte is))) (own_frame (logicalDeviceType st) frame)) \<and>
    (\<forall>is. list_all next_byte is \<longrightarrow> Suc (length is) = length frame \<longrightarrow> is \<noteq> [] \<longrightarrow>
       (\<exists>st2. cec_interrupts cfg is (cec_task_step st1) = Some st2 \<and>
          last (cec_log st2) = Reg_Write (CECBaseAddress + CEC_CONTROL) CEC_TRANSM_EOM))"
proof -
  define out where "out = own_frame (logicalDeviceType st) frame"
  obtain st0 where st0: "sendMessage (length frame) frame st = Some (out, st0)" "isSending st0"
    "sendBuf st0 = out @ drop (length frame) (sendBuf st)" "sizeOfSendBuf st0 = length frame"
    "indexOfSendBuf st0 = 1" "tx_bytes st0 = tx_bytes st @ take 1 out" "sendCommand st0 = Suc (sendCommand st)" "notEndTask st0"
    using send_idle [OF assms(1-4)] assms(5) unfolding out_def by metis
  define st1 where "st1 = cec_task_step st0"
  have same: "same_transfer st0 st1" unfolding st1_def by (rule task_step [OF st0(7,8)])
  then have st1: "isSending st1" "sendBuf st1 = out @ drop (length frame) (sendBuf st)" "sizeOfSendBuf st1 = length frame"
      "indexOfSendBuf st1 = 1" "tx_bytes st1 = tx_bytes st @ take 1 out"
    using st0 by (simp_all add: same_transfer_def)
  have len: "length out = length frame" "length (sendBuf st1) = SEND_BUF_SIZE"
    using assms by (simp_all add: own_frame_def st1(2) out_def)
  have sent: "isSending st2 \<and> tx_bytes st2 = tx_bytes st @ take (Suc (length (filter next_byte is))) out"
    if "list_all (\<lambda>i. next_byte i \<or> receiving i) is" "length (filter next_byte is) < length frame"
      "cec_interrupts cfg is st1 = Some st2" for "is" st2
    using interrupts_send [OF that(3,1) st1(1)] that(2) assms(4) len st1(2,4,5) by (cases out) simp_all
  have eom: "\<exists>st2. cec_interrupts cfg is st1 = Some st2 \<and> last (cec_log st2) = Reg_Write (CECBaseAddress + CEC_CONTROL) CEC_TRANSM_EOM"
    if nb: "list_all next_byte is" "Suc (length is) = length frame" "is \<noteq> []" for "is"
    by (rule interrupts_eom [OF nb(1,3)]) (use nb(2) st1 len assms(4) in simp_all)
  have start: "last (cec_log (cec_task_step st0)) = Reg_Write (CECBaseAddress + CEC_CONTROL)
      (if length frame = 1 then CEC_TRANSM_EOM OR CEC_TRANSM_SOM else CEC_TRANSM_SOM)"
    using task_step(5) [OF st0(7,8)] unfolding st0(4) .
  show ?thesis unfolding out_def [symmetric]
  proof (rule exI [of _ st0], intro conjI allI impI)
    show "isSending st2" "tx_bytes st2 = tx_bytes st @ take (Suc (length (filter next_byte is))) out"
      if "list_all (\<lambda>i. next_byte i \<or> receiving i) is" "length (filter next_byte is) < length frame"
        "cec_interrupts cfg is (cec_task_step st0) = Some st2" for "is" st2
      using sent that unfolding st1_def by blast+
    show "\<exists>st2. cec_interrupts cfg is (cec_task_step st0) = Some st2 \<and>
        last (cec_log st2) = Reg_Write (CECBaseAddress + CEC_CONTROL) CEC_TRANSM_EOM"
      if "list_all next_byte is" "Suc (length is) = length frame" "is \<noteq> []" for "is"
      using eom [OF that] unfolding st1_def .
  qed (rule st0(1), rule start)
qed

theorem cec_transmits_witness:
  "\<exists>st1 st2. sendMessage 2 [0x00, 0x36] (cec_static (\<lambda>_. 0)) = Some ([0x40, 0x36], st1) \<and>
     cec_interrupts cec_plain [(8, 0, 0)] (cec_task_step st1) = Some st2 \<and> tx_bytes st2 = [0x40, 0x36]"
proof -
  have i: "next_byte (8, 0, 0)" by (simp add: next_byte_def cec_codes)
  obtain st1 where st1: "sendMessage (length [0x00, 0x36 :: byte]) [0x00, 0x36] (cec_static (\<lambda>_. 0)) = Some ([0x40, 0x36], st1)"
      "\<forall>is st2. list_all (\<lambda>i. next_byte i \<or> receiving i) is \<longrightarrow> length (filter next_byte is) < length [0x00, 0x36 :: byte] \<longrightarrow>
         cec_interrupts cec_plain is (cec_task_step st1) = Some st2 \<longrightarrow>
         isSending st2 \<and> tx_bytes st2 = [] @ take (Suc (length (filter next_byte is))) [0x40, 0x36]"
      "\<forall>is. list_all next_byte is \<longrightarrow> Suc (length is) = length [0x00, 0x36 :: byte] \<longrightarrow> is \<noteq> [] \<longrightarrow>
         (\<exists>st2. cec_interrupts cec_plain is (cec_task_step st1) = Some st2 \<and>
            last (cec_log st2) = Reg_Write (CECBaseAddress + CEC_CONTROL) CEC_TRANSM_EOM)"
    using cec_transmits [OF cec_static_idle(1,2) cec_witness_frame(2,3) cec_static_idle(3)]
    unfolding cec_static_idle cec_witness_frame(1) by blast
  obtain st2 where st2: "cec_interrupts cec_plain [(8, 0, 0)] (cec_task_step st1) = Some st2"
    using st1(3) [rule_format, of "[(8, 0, 0)]"] i by auto
  have "tx_bytes st2 = [0x40, 0x36]" using st1(2) [rule_format, OF _ _ st2] i by simp
  then show ?thesis using st1(1) st2 by (auto simp: numeral_2_eq_2 simp del: cec_interrupts.simps)
qed

text \<open>
  Retries. After the search for an address, a message whose transmission keeps failing is
  started four times in all, always with the same bytes; then the driver gives up and is idle again.
\<close>

theorem cec_retries:
  assumes "\<not> isSending st" "length (sendBuf st) = SEND_BUF_SIZE" "frame \<noteq> []" "length frame \<le> SEND_BUF_SIZE" "isFirstKiss st \<noteq> 1"
  shows "\<exists>st1. sendMessage (length frame) frame st = Some (own_frame (logicalDeviceType st) frame, st1) \<and>
    (\<forall>is. list_all send_failed is \<longrightarrow>
      (\<exists>st2. cec_interrupts cfg is st1 = Some st2 \<and>
         sendCommand st2 = sendCommand st + min 4 (Suc (length is)) \<and>
         tx_bytes st2 = tx_bytes st @ replicate (min 4 (Suc (length is))) (own_frame (logicalDeviceType st) frame ! 0) \<and>
         take (length frame) (sendBuf st2) = own_frame (logicalDeviceType st) frame \<and>
         (isSending st2 \<longleftrightarrow> length is \<le> 3)))"
proof -
  let ?out = "own_frame (logicalDeviceType st) frame"
  obtain st1 where st1: "sendMessage (length frame) frame st = Some (?out, st1)" "isSending st1"
    "sendBuf st1 = ?out @ drop (length frame) (sendBuf st)" "sizeOfSendBuf st1 = length frame"
    "retries st1 = DEFAULT_RETRY_COUNT" "sendCommand st1 = Suc (sendCommand st)"
    "tx_bytes st1 = tx_bytes st @ take 1 ?out" "isFirstKiss st1 \<noteq> 1" "logicalDeviceType st1 = logicalDeviceType st"
    using send_idle [OF assms(1-4)] assms(5) by metis
  have ne: "?out \<noteq> []" "length ?out = length frame" using assms(3) by (simp_all add: own_frame_def)
  have "own_frame (logicalDeviceType st) (?out @ drop (length frame) (sendBuf st)) = ?out @ drop (length frame) (sendBuf st)"
    using assms(3) by (cases frame) (simp_all add: own_frame_def own_header)
  then have res: "resendable st1" using st1 ne assms(2,4) by (simp add: resendable_def)
  have h: "sendBuf st1 ! 0 = ?out ! 0" "take 1 ?out = [?out ! 0]" using ne by (cases ?out; simp add: st1(3))+
  have r: "unat (retries st1) = 3" by (simp add: st1(5) DEFAULT_RETRY_COUNT_def)
  have m: "min 4 (Suc n) = Suc (min 3 n)" for n :: nat by simp
  have "\<exists>st2. cec_interrupts cfg is st1 = Some st2 \<and> sendCommand st2 = sendCommand st + min 4 (Suc (length is)) \<and>
         tx_bytes st2 = tx_bytes st @ replicate (min 4 (Suc (length is))) (?out ! 0) \<and>
         take (length frame) (sendBuf st2) = ?out \<and> (isSending st2 \<longleftrightarrow> length is \<le> 3)" if "list_all send_failed is" for "is"
    using failures [OF that st1(8) res, of cfg] st1(2,3,6,7) ne(2) unfolding r m h by (auto split: if_splits)
  then show ?thesis using st1(1) by blast
qed


theorem cec_retries_witness:
  "\<exists>st1 st2. sendMessage 2 [0x00, 0x36] (cec_static (\<lambda>_. 0)) = Some ([0x40, 0x36], st1) \<and>
     cec_interrupts cec_plain (replicate 5 (4, 0x20, 0)) st1 = Some st2 \<and> sendCommand st2 = 4 \<and> \<not> isSending st2"
proof -
  have i: "list_all send_failed (replicate 5 (4, 0x20, 0))" by (simp add: send_failed_def cec_codes list_all_iff)
  obtain st1 where st1: "sendMessage (length [0x00, 0x36 :: byte]) [0x00, 0x36] (cec_static (\<lambda>_. 0)) = Some ([0x40, 0x36], st1)"
      "\<exists>st2. cec_interrupts cec_plain (replicate 5 (4, 0x20, 0)) st1 = Some st2 \<and>
         sendCommand st2 = 0 + min 4 (Suc (length (replicate 5 (4 :: byte, 0x20 :: byte, 0 :: u32)))) \<and>
         (isSending st2 \<longleftrightarrow> length (replicate 5 (4 :: byte, 0x20 :: byte, 0 :: u32)) \<le> 3)"
    using cec_retries [OF cec_static_idle(1,2) cec_witness_frame(2,3) cec_static_idle(4)] i
    unfolding cec_static_idle(5,6,7) cec_witness_frame(1) by meson
  then show ?thesis by (auto simp: numeral_2_eq_2 simp del: replicate.simps cec_interrupts.simps)
qed

text \<open>
  The search for an address. In every state reached from loading the driver by interrupts, the task
  and messages to send, the address in use is the last one taken from the table of choices, the buffers
  have their sizes and the counters their limits; unless the last address is in use another can be
  tried without reading past the table, and an error reported by the hardware is always handled.
\<close>

theorem cec_address_search:
  assumes "cec_reach cfg st"
  shows "address_ok (logicalDeviceTypeChoicesIndex st) (logicalDeviceType st) \<and> cec_wf st \<and>
    (logicalDeviceType st \<noteq> DEVICE_TYPE_UNREG \<longrightarrow> sendPingWithAutoIncrement cfg st \<noteq> None) \<and>
    (status AND CEC_STATUS_RECV_ERR \<noteq> 0 \<or> status AND CEC_STATUS_SEND_ERR \<noteq> 0 \<longrightarrow>
       cec_interrupt cfg status error rx st \<noteq> None)"
  using cec_reach_wf [OF assms] ping_defined error_defined by (auto simp: cec_address_wf_def simp del: not_None_eq)


theorem cec_address_search_witness:
  "\<exists>st. cec_worker_init cec_plain (startTask (cec_internal_init cec_plain (cec_static (\<lambda>_. 0)))) = Some st \<and>
     address_ok (logicalDeviceTypeChoicesIndex st) (logicalDeviceType st) \<and> cec_interrupt cec_plain 4 0 0 st \<noteq> None"
proof -
  have "map_option (\<lambda>_. ()) (cec_worker_init cec_plain (startTask (cec_internal_init cec_plain (cec_static (\<lambda>_. 0))))) = Some ()"
    by code_simp
  then obtain st where st: "cec_worker_init cec_plain (startTask (cec_internal_init cec_plain (cec_static (\<lambda>_. 0)))) = Some st"
    by auto
  then show ?thesis
    using cec_address_search [OF cec_reach.init [OF st], of 4 0 0] by (simp add: cec_codes del: not_None_eq)
qed

text \<open>
  The buffer of received messages is a queue until it wraps: its size is the number of waiting
  bytes, reading takes them from the front, and a message that fits before the end of the array is
  added at the back. A message that fits only partly makes the driver read outside the message.
\<close>

theorem cec_buffer_queue:
  assumes "cec_unwrapped b"
  shows "unat (GetMessageBufferSize b) = length (cec_pending b) \<and>
    (unat len \<le> length (cec_pending b) \<longrightarrow>
      (\<exists>b'. GetMessageFromBuffer len b = Some (take (unat len) (cec_pending b), b') \<and> cec_unwrapped b' \<and>
         cec_pending b' = drop (unat len) (cec_pending b))) \<and>
    (length (data_field msg) = unat (length_field msg) \<longrightarrow>
      (if unat (outputBufferEnd b) + length (message_bytes msg) \<le> 4096
       then \<exists>b'. AddMessageBuffer msg b = Some b' \<and> cec_unwrapped b' \<and> cec_pending b' = cec_pending b @ message_bytes msg
       else outputBufferEnd b \<noteq> OUTBUFFERSIZE \<longrightarrow> AddMessageBuffer msg b = None))"
proof -
  have "AddMessageBuffer msg b = None"
    if "length (data_field msg) = unat (length_field msg)" "4096 < unat (outputBufferEnd b) + length (message_bytes msg)"
      "outputBufferEnd b \<noteq> OUTBUFFERSIZE"
  proof -
    have "\<not> ucast (length_field msg) + 2 \<le> OUTBUFFERSIZE - outputBufferEnd b"
      using that(1,2) by (simp add: word_le_nat_alt message_size buffer_space [OF assms] message_bytes_def)
    moreover have "OUTBUFFERSIZE - outputBufferEnd b \<noteq> 0" using that(3) by simp
    ultimately show ?thesis by (simp add: AddMessageBuffer_def Let_def)
  qed
  then show ?thesis
    using buffer_size [OF assms] buffer_get [OF assms, of len] buffer_add [OF assms, of msg] by (auto simp: not_le)
qed


theorem cec_buffer_queue_witness:
  "\<exists>b'. AddMessageBuffer \<lparr>address = 0x04, length_field = 1, data_field = [0x36]\<rparr> (cec_buffer (cec_static (\<lambda>_. 0))) = Some b' \<and>
     cec_pending b' = [0x04, 0x01, 0x36]"
proof -
  have u: "cec_unwrapped (cec_buffer (cec_static (\<lambda>_. 0)))" by (simp add: cec_static_def cec_unwrapped_def OUTBUFFERSIZE_def)
  show ?thesis
    using cec_buffer_queue [OF u, of 0 "\<lparr>address = 0x04, length_field = 1, data_field = [0x36]\<rparr>"]
    by (auto simp: message_bytes_def cec_static_def cec_pending_def [of "\<lparr>outputBufferStart = x, outputBufferEnd = y, outputBuffer = z\<rparr>" for x y z])
qed

end
