(* ===== verification/Cec_Dev.thy ===== *)
theory Cec_Dev
  imports Cec_Protocol
begin

text \<open>
  The user interface of the CEC driver: the character device of \<open>cec_dev.c\<close> (passive mode), the files of
  \<open>cec_proc.c\<close> (active mode), the input device of \<open>cec_rc.c\<close>, and loading and unloading (\<open>cec_main.c\<close>). The
  outcomes of kernel calls (memory allocation, copies from user space, registration, semaphores) and the
  kernel's \<open>sscanf\<close> are arguments. An open file is a number.
\<close>

subsection \<open>State\<close>

definition ENOMEM_cec :: int where "ENOMEM_cec = 12"
definition POLLIN :: u32 where "POLLIN = 0x0001"
definition POLLRDNORM :: u32 where "POLLRDNORM = 0x0040"
definition CEC_FLUSH :: u32 where "CEC_FLUSH = 0"
definition CEC_GET_ADDRESS :: u32 where "CEC_GET_ADDRESS = 1"
definition INPUT_BUFFER_SIZE :: nat where "INPUT_BUFFER_SIZE = 255"
definition EV_REP :: u32 where "EV_REP = 0x14"
definition EV_KEY :: u32 where "EV_KEY = 0x01"
definition REP_DELAY :: u32 where "REP_DELAY = 0"
definition REP_PERIOD :: u32 where "REP_PERIOD = 1"
definition KEY_MAX :: nat where "KEY_MAX = 0x1FF"

record button_device =
  evbit :: "u32 set"
  keybit :: "nat set"

record cec_dev_state =
  cec :: cec_state
  vOpen_fp :: "nat option"
  inputBuffer :: bytes
  sizeOfInputBuffer :: nat
  button_dev :: "button_device option"
  dev_region :: bool
  dev_cdev :: bool
  installed_procs :: "string list"
  irq_requested :: bool

definition cec_dev_static :: "(u32 \<Rightarrow> u32) \<Rightarrow> cec_dev_state" where
  "cec_dev_static regs = \<lparr>cec = cec_static regs, vOpen_fp = None, inputBuffer = replicate INPUT_BUFFER_SIZE 0,
     sizeOfInputBuffer = 0, button_dev = None, dev_region = False, dev_cdev = False, installed_procs = [],
     irq_requested = False\<rparr>"

subsection \<open>The character device: cec\_dev.c\<close>

text \<open>The bytes the user wrote, which is \<open>None\<close> when no kernel memory is left for them.\<close>

definition CECdev_write :: "bytes option \<Rightarrow> cec_dev_state \<Rightarrow> (int \<times> cec_dev_state) option" where
  "CECdev_write kernel_buf d =
     (case kernel_buf of
        None \<Rightarrow> Some (- ENOMEM_cec, d)
      | Some buf \<Rightarrow>
          (let len = length buf
           in if len \<ge> 2 \<and> unat (buf ! 1) \<ge> len - 2 then
                (let n = unat (buf ! 1)
                 in if n > len - 2 then None
                    else do {
                      (_, st) \<leftarrow> sendMessage (n + 1) (buf ! 0 # take n (drop 2 buf)) (cec d);
                      Some (int len, d\<lparr>cec := st\<rparr>)
                    })
              else Some (int len, d)))"

definition CECdev_read :: "nat \<Rightarrow> u32 \<Rightarrow> bool \<Rightarrow> cec_dev_state \<Rightarrow> (int \<times> bytes \<times> cec_dev_state) option" where
  "CECdev_read filp len interrupted d =
     (let availableBytes = GetMessageBufferSize (cec_buffer (cec d))
      in if vOpen_fp d \<noteq> Some filp then Some (- EUSERS, [], d)
         else if interrupted then Some (- ERESTARTSYS, [], d)
         else
           (let len = (if len > availableBytes then availableBytes else len)
            in if len > 0 then do {
                 (msg, b) \<leftarrow> GetMessageFromBuffer len (cec_buffer (cec d));
                 Some (sint len, msg, d\<lparr>cec := (cec d)\<lparr>cec_buffer := b\<rparr>\<rparr>)
               } else Some (sint len, [], d)))"

definition CECdev_poll :: "cec_dev_state \<Rightarrow> u32" where
  "CECdev_poll d =
     (if outputBufferStart (cec_buffer (cec d)) \<noteq> outputBufferEnd (cec_buffer (cec d)) then POLLIN OR POLLRDNORM else 0)"

definition CECdev_open :: "nat \<Rightarrow> cec_dev_state \<Rightarrow> int \<times> cec_dev_state" where
  "CECdev_open filp d = (if vOpen_fp d \<noteq> None then (- EUSERS, d) else (0, d\<lparr>vOpen_fp := Some filp\<rparr>))"

definition CECdev_close :: "nat \<Rightarrow> cec_dev_state \<Rightarrow> int \<times> cec_dev_state" where
  "CECdev_close filp d = (0, if vOpen_fp d = Some filp then d\<lparr>vOpen_fp := None\<rparr> else d)"

record tCECAddressinfo =
  logical :: byte
  physical :: bytes
  type_of :: byte

definition CECdev_ioctl :: "cec_cfg \<Rightarrow> u32 \<Rightarrow> cec_dev_state \<Rightarrow> int \<times> tCECAddressinfo option \<times> cec_dev_state" where
  "CECdev_ioctl cfg cmd d =
     (if cmd = CEC_GET_ADDRESS then
        (let phys_addr = getPhysicalAddress cfg
         in (0, Some \<lparr>logical = getLogicalDeviceType (cec d),
                physical = [ucast (drop_bit 8 phys_addr AND 0xFF), ucast (phys_addr AND 0xFF)], type_of = getDeviceType\<rparr>, d))
      else if cmd = CEC_FLUSH then
        (0, None, d\<lparr>cec := (cec d)\<lparr>cec_buffer := (cec_buffer (cec d))\<lparr>outputBufferStart := 0, outputBufferEnd := 0\<rparr>\<rparr>\<rparr>)
      else (0, None, d))"

definition init_dev :: "int \<Rightarrow> int \<Rightarrow> cec_dev_state \<Rightarrow> int \<times> cec_dev_state" where
  "init_dev region_result cdev_result d =
     (let d = d\<lparr>cec := (cec d)\<lparr>cec_buffer := (cec_buffer (cec d))\<lparr>outputBufferStart := 0, outputBufferEnd := 0\<rparr>\<rparr>\<rparr>
      in if region_result < 0 then (region_result, d)
         else
           (let d = d\<lparr>dev_region := True\<rparr>
            in if cdev_result < 0 then (-1, d)
               else (0, d\<lparr>dev_cdev := True, vOpen_fp := None\<rparr>)))"

definition cleanup_dev :: "cec_dev_state \<Rightarrow> cec_dev_state" where
  "cleanup_dev d = d\<lparr>dev_cdev := False, dev_region := False\<rparr>"

subsection \<open>The input device: cec\_rc.c\<close>

definition input_init :: "bool \<Rightarrow> int \<Rightarrow> cec_dev_state \<Rightarrow> int \<times> cec_dev_state" where
  "input_init allocated error d =
     (if \<not> allocated then (- ENOMEM_cec, d\<lparr>button_dev := None\<rparr>)
      else if error \<noteq> 0 then (error, d\<lparr>button_dev := None\<rparr>)
      else
        (0, d\<lparr>button_dev := Some \<lparr>evbit = {EV_KEY, EV_REP}, keybit = {0..<KEY_MAX}\<rparr>,
              cec := cec_emit (Input_Event EV_REP REP_PERIOD 200) (cec_emit (Input_Event EV_REP REP_DELAY 500) (cec d))\<rparr>))"

definition input_cleanup :: "cec_dev_state \<Rightarrow> cec_dev_state" where
  "input_cleanup d = d\<lparr>button_dev := None\<rparr>"

subsection \<open>Files: cec\_proc.c\<close>

definition print_d :: "byte \<Rightarrow> string" where
  "print_d n = (if n < 10 then [char_of (48 + unat n)] else [char_of (48 + unat n div 10), char_of (48 + unat n mod 10)])"

definition print_x :: "16 word \<Rightarrow> string" where
  "print_x n = [char_of (if n < 10 then 48 + unat n else 87 + unat n)]"

text \<open>The first line of the file; the lines after it are constant.\<close>

definition proc_event_poll_read :: "cec_dev_state \<Rightarrow> string" where
  "proc_event_poll_read d =
     print_d (eventDiscovery (cec d)) @ print_d (eventActiveSource (cec d)) @ print_d (eventStandby (cec d)) @
     ''00000'' @ [CHR 0x0A]"

definition print_address :: "16 word \<Rightarrow> string" where
  "print_address a =
     print_x (drop_bit 12 a AND 0xF) @ ''.'' @ print_x (drop_bit 8 a AND 0xF) @ ''.'' @
     print_x (drop_bit 4 a AND 0xF) @ ''.'' @ print_x (a AND 0xF) @ [CHR 0x0A]"

definition proc_cecaddress_read :: "cec_cfg \<Rightarrow> string" where
  "proc_cecaddress_read cfg = print_address (getPhysicalAddress cfg)"

definition proc_activesource_read :: "cec_dev_state \<Rightarrow> string \<times> cec_dev_state" where
  "proc_activesource_read d = (print_address (ActiveSource (cec d)), d\<lparr>cec := (cec d)\<lparr>eventActiveSource := 0\<rparr>\<rparr>)"

definition proc_standby_read :: "cec_dev_state \<Rightarrow> string \<times> cec_dev_state" where
  "proc_standby_read d = ([CHR 0x0A], d\<lparr>cec := (cec d)\<lparr>eventStandby := 0\<rparr>\<rparr>)"

text \<open>A page from user space: \<open>None\<close> when there is no memory, \<open>Some None\<close> when the copy fails.\<close>

type_synonym user_page = "bytes option option"

definition with_page :: "user_page \<Rightarrow> (bytes \<Rightarrow> cec_dev_state \<Rightarrow> cec_dev_state option) \<Rightarrow> int \<Rightarrow> cec_dev_state \<Rightarrow>
    (int \<times> cec_dev_state) option" where
  "with_page page f count d =
     (case page of
        None \<Rightarrow> Some (count, d)
      | Some None \<Rightarrow> Some (- EFAULT, d)
      | Some (Some p) \<Rightarrow> map_option (\<lambda>d. (count, d)) (f p d))"

fun hex_pairs :: "bytes \<Rightarrow> bytes list" where
  "hex_pairs (a # b # c # ps) = [a, b] # hex_pairs ps"
| "hex_pairs _ = []"

definition proc_cec_send_write :: "(bytes \<Rightarrow> byte option) \<Rightarrow> user_page \<Rightarrow> int \<Rightarrow> cec_dev_state \<Rightarrow> (int \<times> cec_dev_state) option" where
  "proc_cec_send_write sscanf_02hhx page count =
     with_page page (\<lambda>p d.
       (let scanned = map (\<lambda>c. case sscanf_02hhx c of None \<Rightarrow> 0 | Some v \<Rightarrow> v) (hex_pairs p);
            n = length scanned
        in if n > INPUT_BUFFER_SIZE then None
           else do {
             (buf, st) \<leftarrow> sendMessage n (scanned @ replicate (INPUT_BUFFER_SIZE - n) 0) (cec d);
             Some (d\<lparr>inputBuffer := buf, sizeOfInputBuffer := n, cec := st\<rparr>)
           })) count"

definition proc_onetouchplay_write :: "cec_cfg \<Rightarrow> user_page \<Rightarrow> int \<Rightarrow> cec_dev_state \<Rightarrow> (int \<times> cec_dev_state) option" where
  "proc_onetouchplay_write cfg page count =
     with_page page (\<lambda>p d. map_option (\<lambda>st. d\<lparr>cec := st\<rparr>) (sendOneTouchPlay cfg (cec d))) count"

definition proc_systemstandby_write ::
  "(bytes \<Rightarrow> u32 option) \<Rightarrow> user_page \<Rightarrow> int \<Rightarrow> cec_dev_state \<Rightarrow> (int \<times> cec_dev_state) option" where
  "proc_systemstandby_write sscanf_1x page count =
     with_page page (\<lambda>p d.
       (let deviceId = (if count > 0 \<and> p ! 0 \<ge> 0x30 \<and> p ! 0 \<le> 0x66
                        then (case sscanf_1x p of None \<Rightarrow> ucast DEVICE_TYPE_TV | Some v \<Rightarrow> v) else ucast DEVICE_TYPE_TV)
        in map_option (\<lambda>st. d\<lparr>cec := st\<rparr>) (sendSystemStandby deviceId (cec d)))) count"

definition e2_procs_cec :: "string list" where
  "e2_procs_cec =
     [''stb/cec/send'', ''stb/cec/onetouchplay'', ''stb/cec/systemstandby'', ''stb/cec/state_activesource'',
      ''stb/cec/state_cecaddress'', ''stb/cec/state_standby'', ''stb/cec/event_poll'']"

definition init_e2_proc :: "cec_dev_state \<Rightarrow> cec_dev_state" where
  "init_e2_proc d = d\<lparr>installed_procs := installed_procs d @ e2_procs_cec\<rparr>"

definition cleanup_e2_proc :: "cec_dev_state \<Rightarrow> cec_dev_state" where
  "cleanup_e2_proc d = d\<lparr>installed_procs := filter (\<lambda>n. n \<notin> set e2_procs_cec) (installed_procs d)\<rparr>"

subsection \<open>Loading and unloading: cec\_main.c\<close>

record cec_kernel =
  irq_ok :: bool
  input_allocated :: bool
  input_error :: int
  region_result :: int
  cdev_result :: int

definition cec_init :: "cec_cfg \<Rightarrow> cec_kernel \<Rightarrow> cec_dev_state \<Rightarrow> (int \<times> cec_dev_state) option" where
  "cec_init cfg k d = do {
     let d = d\<lparr>cec := startTask (cec_emit (Delay 10000) (cec_internal_init cfg (cec d)))\<rparr>;
     let d = d\<lparr>irq_requested := irq_ok k\<rparr>;
     let d = (if activemode cfg then snd (input_init (input_allocated k) (input_error k) (init_e2_proc d))
              else snd (init_dev (region_result k) (cdev_result k) d));
     st \<leftarrow> cec_worker_init cfg (cec d);
     Some (0, d\<lparr>cec := st\<rparr>)
   }"

definition cec_exit :: "cec_cfg \<Rightarrow> cec_dev_state \<Rightarrow> cec_dev_state" where
  "cec_exit cfg d =
     (let d = d\<lparr>cec := endTask (cec_emit (Delay 20000) (cec d))\<rparr>;
          d = (if activemode cfg then input_cleanup (cleanup_e2_proc d) else cleanup_dev d);
          d = d\<lparr>irq_requested := False\<rparr>
      in d\<lparr>cec := cec_internal_exit cfg (cec d)\<rparr>)"

subsection \<open>Specification vocabulary\<close>

text \<open>The interrupts by which the hardware delivers the rest of a frame, and a whole frame.\<close>

definition recv_last :: "bool \<Rightarrow> byte" where
  "recv_last l = (if l then CEC_STATUS_RECV_EOMSG else 0)"

fun recv_rest :: "bytes \<Rightarrow> (byte \<times> byte \<times> u32) list" where
  "recv_rest [] = []"
| "recv_rest (b # bs) = (CEC_STATUS_RECV_BTF OR recv_last (bs = []), 0, ucast b) # recv_rest bs"

fun recv_frame :: "bytes \<Rightarrow> (byte \<times> byte \<times> u32) list" where
  "recv_frame [] = []"
| "recv_frame (b # bs) = (CEC_STATUS_RECV_BTF OR CEC_STATUS_RECV_SOMSG OR recv_last (bs = []), 0, ucast b) # recv_rest bs"

text \<open>The state after a part of a frame has been received.\<close>

definition partial_frame :: "bytes \<Rightarrow> cec_state \<Rightarrow> bool" where
  "partial_frame bs st \<longleftrightarrow> recvBuf st = bs @ replicate (RECV_BUF_SIZE - length bs) 0 \<and> indexOfRecvBuf st = length bs \<and>
     length bs \<le> RECV_BUF_SIZE"

subsection \<open>Lemmas\<close>

lemma recv_bits:
  "recv_last l = (if l then 32 else 0)"
  by (simp add: recv_last_def cec_codes)

lemma recv_step:
  assumes "partial_frame bs st" "length bs < RECV_BUF_SIZE"
  obtains st1 where "partial_frame (bs @ [b]) st1" "cec_buffer st1 = cec_buffer st" "cec_wf st \<longrightarrow> cec_wf st1"
    "cec_interrupt cfg (CEC_STATUS_RECV_BTF OR recv_last l) 0 (ucast b) st =
       (if l then parseRawMessage cfg (indexOfRecvBuf st1) (recvBuf st1) st1 else Some st1)"
proof -
  define st1 where "st1 = (cec_acknowledge (st\<lparr>recvBuf := (recvBuf st)[indexOfRecvBuf st := b]\<rparr>))\<lparr>indexOfRecvBuf := indexOfRecvBuf st + 1\<rparr>"
  define st2 where "st2 = (if l then st1\<lparr>isReceiving := False\<rparr> else st1)"
  have "(recvBuf st)[indexOfRecvBuf st := b] = (bs @ [b]) @ replicate (RECV_BUF_SIZE - length (bs @ [b])) 0"
    using assms by (cases "RECV_BUF_SIZE - length bs") (auto simp: partial_frame_def list_update_append)
  then have part: "partial_frame (bs @ [b]) st2" using assms by (auto simp: partial_frame_def st2_def st1_def)
  have "cec_interrupt cfg (CEC_STATUS_RECV_BTF OR recv_last l) 0 (ucast b) st =
       (if l then parseRawMessage cfg (indexOfRecvBuf st2) (recvBuf st2) st2 else Some st2)"
    using assms
    by (simp add: cec_interrupt_def recv_bits cec_codes partial_frame_def st2_def st1_def Let_def)
  moreover have "cec_wf st \<longrightarrow> cec_wf st2" by (auto simp: st2_def st1_def cec_wf_def)
  ultimately show thesis using part by (intro that [of st2]) (simp_all add: st2_def st1_def)
qed

lemma recv_start:
  obtains st1 where "partial_frame [b] st1" "cec_buffer st1 = cec_buffer st"  "cec_wf st \<longrightarrow> cec_wf st1"
    "cec_interrupt cfg (CEC_STATUS_RECV_BTF OR CEC_STATUS_RECV_SOMSG) 0 (ucast b) st = Some st1"
proof -
  define st1 where "st1 = (cec_acknowledge (st\<lparr>isReceiving := True, indexOfRecvBuf := 0,
      recvBuf := (replicate RECV_BUF_SIZE 0)[0 := b]\<rparr>))\<lparr>indexOfRecvBuf := 1\<rparr>"
  have "partial_frame [b] st1" by (simp add: partial_frame_def st1_def cec_sizes numeral_eq_Suc)
  moreover have "cec_interrupt cfg (CEC_STATUS_RECV_BTF OR CEC_STATUS_RECV_SOMSG) 0 (ucast b) st = Some st1"
    by (simp add: cec_interrupt_def cec_codes st1_def Let_def cec_sizes)
  moreover have "cec_wf st \<longrightarrow> cec_wf st1" by (auto simp: st1_def cec_wf_def)
  ultimately show thesis by (intro that [of st1]) (simp_all add: st1_def)
qed

lemma recv_rest_run:
  assumes "partial_frame bs st" "length bs + length cs \<le> RECV_BUF_SIZE" "cs \<noteq> []"
  shows "\<exists>st1. cec_interrupts cfg (recv_rest cs) st = parseRawMessage cfg (length bs + length cs) (recvBuf st1) st1 \<and>
     partial_frame (bs @ cs) st1 \<and> cec_buffer st1 = cec_buffer st \<and> (cec_wf st \<longrightarrow> cec_wf st1)"
  using assms
proof (induction cs arbitrary: bs st)
  case (Cons c cs)
  obtain st1 where st1: "partial_frame (bs @ [c]) st1" "cec_buffer st1 = cec_buffer st" "cec_wf st \<longrightarrow> cec_wf st1"
    "cec_interrupt cfg (CEC_STATUS_RECV_BTF OR recv_last (cs = [])) 0 (ucast c) st =
       (if cs = [] then parseRawMessage cfg (indexOfRecvBuf st1) (recvBuf st1) st1 else Some st1)"
    using recv_step [of bs st c cfg "cs = []"] Cons.prems by auto
  show ?case
  proof (cases "cs = []")
    case True
    then show ?thesis using st1 by (intro exI [of _ st1]) (auto simp: partial_frame_def split: option.splits)
  next
    case False
    then show ?thesis using Cons.IH [OF st1(1)] Cons.prems(2) st1 by auto
  qed
qed simp

text \<open>The messages whose text the driver prints need an end in the buffer.\<close>

lemma parse_passive:
  assumes "\<not> activemode cfg" "has_end 1 buf" "has_end 2 buf"
  shows "\<exists>st'. parseMessage cfg src buf st = Some st' \<and> cec_buffer st' = cec_buffer st"
proof -
  have "\<exists>st'. sendReportPhysicalAddress cfg st = Some st' \<and> cec_buffer st' = cec_buffer st"
    by (auto simp: sendReportPhysicalAddress_def sendResponse_def sendMessage_def sendMessageWithRetry_def Let_def
        phys_bytes_def cec_sizes)
  then show ?thesis
    using assms
    by (simp add: parseMessage_def Let_def setActiveSource_def setUpdatedActiveSource_def setUpdatedStandby_def)
qed


lemma recv_frame_run:
  assumes "2 \<le> length f" "length f \<le> RECV_BUF_SIZE"
  shows "\<exists>st1. cec_interrupts cfg (recv_frame f) st = parseRawMessage cfg (length f) (recvBuf st1) st1 \<and>
     partial_frame f st1 \<and> cec_buffer st1 = cec_buffer st \<and> (cec_wf st \<longrightarrow> cec_wf st1)"
proof -
  obtain b c cs where f: "f = b # c # cs" using assms(1) by (cases f; cases "tl f") auto
  obtain st1 where st1: "partial_frame [b] st1" "cec_buffer st1 = cec_buffer st" "cec_wf st \<longrightarrow> cec_wf st1"
    "cec_interrupt cfg (CEC_STATUS_RECV_BTF OR CEC_STATUS_RECV_SOMSG) 0 (ucast b) st = Some st1"
    by (rule recv_start)
  have "cec_interrupts cfg (recv_frame f) st = cec_interrupts cfg (recv_rest (c # cs)) st1"
    using st1(4) by (simp add: f recv_last_def del: recv_rest.simps)
  then show ?thesis using recv_rest_run [OF st1(1), of "c # cs" cfg] assms(2) st1 by (auto simp: f simp del: recv_rest.simps)
qed

lemma AddMessage_queue:
  assumes "cec_unwrapped (cec_buffer st)" "unat (outputBufferEnd (cec_buffer st)) + length f + 1 \<le> 4096"
    "f \<noteq> []" "length f \<le> RECV_BUF_SIZE" "raw = f @ replicate (RECV_BUF_SIZE - length f) 0"
  shows "\<exists>st'. AddMessageToBuffer raw (length f) st = Some st' \<and> cec_unwrapped (cec_buffer st') \<and>
    cec_pending (cec_buffer st') = cec_pending (cec_buffer st) @ hd f # word_of_nat (length f - 1) # tl f"
proof -
  obtain b bs where f: "f = b # bs" using assms(3) by (cases f) auto
  have n: "unat (word_of_nat (length bs) :: byte) = length bs" using assms(4) by (simp add: f cec_sizes unat_of_nat)
  let ?m = "\<lparr>address = b, length_field = word_of_nat (length bs), data_field = bs\<rparr>"
  have "length (data_field ?m) = unat (length_field ?m)" by (simp add: n)
  moreover have "unat (outputBufferEnd (cec_buffer st)) + length (message_bytes ?m) \<le> 4096"
    using assms(2) by (simp add: f message_bytes_def)
  ultimately obtain b' where "AddMessageBuffer ?m (cec_buffer st) = Some b'" "cec_unwrapped b'"
      "cec_pending b' = cec_pending (cec_buffer st) @ message_bytes ?m"
    using buffer_add [OF assms(1), of ?m] by auto
  then show ?thesis using assms(4,5) n by (simp add: AddMessageToBuffer_def Let_def f message_bytes_def)
qed

lemma read_all:
  assumes "cec_unwrapped (cec_buffer (cec d))" "vOpen_fp d = Some filp" "cec_pending (cec_buffer (cec d)) \<noteq> []"
  shows "\<exists>d'. CECdev_read filp OUTBUFFERSIZE False d =
      Some (int (length (cec_pending (cec_buffer (cec d)))), cec_pending (cec_buffer (cec d)), d') \<and> CECdev_poll d' = 0"
proof -
  let ?b = "cec_buffer (cec d)"
  let ?n = "GetMessageBufferSize ?b"
  have n: "unat ?n = length (cec_pending ?b)" by (rule buffer_size [OF assms(1)])
  have le: "unat ?n \<le> 4096"
    using pending_length [OF assms(1)] assms(1) by (auto simp: n cec_unwrapped_def word_le_nat_alt OUTBUFFERSIZE_def)
  have pos: "?n > 0" using n assms(3) by (simp add: word_less_nat_alt)
  have s: "sint ?n = int (unat ?n)"
    using le unfolding sint_uint by (subst signed_take_bit_int_eq_self) (auto simp: uint_nat simp del: unat_eq_nat_uint int_nat_eq of_nat_unat)
  obtain b' where b': "GetMessageFromBuffer ?n ?b = Some (cec_pending ?b, b')" "cec_unwrapped b'" "cec_pending b' = []"
    using buffer_get [OF assms(1), of ?n] n by auto
  have "outputBufferStart b' = outputBufferEnd b'"
    using b'(2,3) pending_length [OF b'(2)] by (simp add: cec_unwrapped_def word_le_nat_alt word_unat_eq_iff)
  moreover have "(if OUTBUFFERSIZE > ?n then ?n else OUTBUFFERSIZE) = ?n"
    using le by (auto simp: OUTBUFFERSIZE_def word_less_nat_alt word_unat_eq_iff)
  ultimately show ?thesis
    using assms(2) pos s n b'(1) by (simp add: CECdev_read_def CECdev_poll_def Let_def)
qed

subsection \<open>Properties\<close>

text \<open>
  From the bus to the user. In passive mode a frame of 2 to 15 bytes, delivered by interrupts, is
  read from the device as its header, the number of the bytes that follow and these bytes, after the
  messages that were waiting; then nothing is left to read.
\<close>

theorem cec_receive_to_user:
  assumes "\<not> activemode cfg" "2 \<le> length f" "length f \<le> CEC_MAX_DATA_LEN" "cec_unwrapped (cec_buffer (cec d))"
    "unat (outputBufferEnd (cec_buffer (cec d))) + length f + 1 \<le> 4096" "vOpen_fp d = Some filp"
  shows "\<exists>st' d'. cec_interrupts cfg (recv_frame f) (cec d) = Some st' \<and>
    (let msgs = cec_pending (cec_buffer (cec d)) @ hd f # word_of_nat (length f - 1) # tl f in
       CECdev_read filp OUTBUFFERSIZE False (d\<lparr>cec := st'\<rparr>) = Some (int (length msgs), msgs, d') \<and> CECdev_poll d' = 0)"
proof -
  have l: "length f \<le> RECV_BUF_SIZE" "length f \<le> 15" using assms(3) by (simp_all add: cec_sizes)
  obtain st1 where st1: "cec_interrupts cfg (recv_frame f) (cec d) = parseRawMessage cfg (length f) (recvBuf st1) st1"
      "partial_frame f st1" "cec_buffer st1 = cec_buffer (cec d)"
    using recv_frame_run [OF assms(2) l(1), of cfg "cec d"] by auto
  have raw: "recvBuf st1 = f @ replicate (RECV_BUF_SIZE - length f) 0" using st1(2) by (simp add: partial_frame_def)
  have ends: "has_end 1 (drop 1 (recvBuf st1))" "has_end 2 (drop 1 (recvBuf st1))"
    using l(2) by (auto simp: has_end_def raw cec_sizes)
  obtain st2 where st2: "parseMessage cfg (drop_bit 4 (recvBuf st1 ! 0)) (drop 1 (recvBuf st1)) st1 = Some st2"
      "cec_buffer st2 = cec_buffer st1"
    using parse_passive [OF assms(1) ends] by blast
  have "f \<noteq> []" using assms(2) by auto
  then obtain st' where st': "AddMessageToBuffer (recvBuf st1) (length f) st2 = Some st'" "cec_unwrapped (cec_buffer st')"
      "cec_pending (cec_buffer st') = cec_pending (cec_buffer (cec d)) @ hd f # word_of_nat (length f - 1) # tl f"
    using AddMessage_queue [of st2 f "recvBuf st1"] assms(4,5) l(1) raw st2(2) st1(3) by auto
  have "(word_of_int (int (length f) - 1) :: byte) = word_of_nat (length f - 1)" using assms(2) by (simp add: of_nat_diff)
  moreover have "unat (word_of_nat (length f - 1) :: byte) = length f - 1" using l(2) by (simp add: unat_of_nat)
  ultimately have "parseRawMessage cfg (length f) (recvBuf st1) st1 = Some st'"
    using st2(1) st'(1) assms(1,2) l(2)
    by (simp add: parseRawMessage_def Let_def cec_sizes word_less_nat_alt)
  then show ?thesis
    using st1(1) read_all [of "d\<lparr>cec := st'\<rparr>" filp] st'(2,3) assms(6) by (auto simp: Let_def)
qed


theorem cec_receive_to_user_witness:
  "\<exists>st' d'. cec_interrupts (cec_plain\<lparr>activemode := False\<rparr>) (recv_frame [0x04, 0x36]) (cec_static (\<lambda>_. 0)) = Some st' \<and>
     CECdev_read 1 OUTBUFFERSIZE False ((cec_dev_static (\<lambda>_. 0))\<lparr>vOpen_fp := Some 1, cec := st'\<rparr>) =
       Some (3, [0x04, 0x01, 0x36], d')"
proof -
  let ?d = "(cec_dev_static (\<lambda>_. 0))\<lparr>vOpen_fp := Some 1\<rparr>"
  have d: "cec ?d = cec_static (\<lambda>_. 0)" "cec_unwrapped (cec_buffer (cec ?d))" "cec_pending (cec_buffer (cec ?d)) = []"
      "unat (outputBufferEnd (cec_buffer (cec ?d))) = 0"
    by (simp_all add: cec_dev_static_def cec_static_def cec_unwrapped_def OUTBUFFERSIZE_def cec_pending_def)
  show ?thesis
    using cec_receive_to_user [of "cec_plain\<lparr>activemode := False\<rparr>" "[0x04, 0x36]" ?d 1] d
    by (simp add: cec_sizes Let_def del: cec_interrupts.simps recv_frame.simps) blast
qed

end
