(* ===== verification/Host_Crc16.thy ===== *)
theory Host_Crc16
  imports Prelude
begin

text \<open>
  \<open>src/local_src/host/fup.src/crc16.c\<close>: the table driven CRC-16 of the firmware image tool, and the
  bitwise division by the polynomial as its reference.
\<close>

subsection \<open>The code\<close>

definition crc16_table :: "16 word list" where
  "crc16_table =
     [0x0000, 0xC0C1, 0xC181, 0x0140, 0xC301, 0x03C0, 0x0280, 0xC241,
      0xC601, 0x06C0, 0x0780, 0xC741, 0x0500, 0xC5C1, 0xC481, 0x0440,
      0xCC01, 0x0CC0, 0x0D80, 0xCD41, 0x0F00, 0xCFC1, 0xCE81, 0x0E40,
      0x0A00, 0xCAC1, 0xCB81, 0x0B40, 0xC901, 0x09C0, 0x0880, 0xC841,
      0xD801, 0x18C0, 0x1980, 0xD941, 0x1B00, 0xDBC1, 0xDA81, 0x1A40,
      0x1E00, 0xDEC1, 0xDF81, 0x1F40, 0xDD01, 0x1DC0, 0x1C80, 0xDC41,
      0x1400, 0xD4C1, 0xD581, 0x1540, 0xD701, 0x17C0, 0x1680, 0xD641,
      0xD201, 0x12C0, 0x1380, 0xD341, 0x1100, 0xD1C1, 0xD081, 0x1040,
      0xF001, 0x30C0, 0x3180, 0xF141, 0x3300, 0xF3C1, 0xF281, 0x3240,
      0x3600, 0xF6C1, 0xF781, 0x3740, 0xF501, 0x35C0, 0x3480, 0xF441,
      0x3C00, 0xFCC1, 0xFD81, 0x3D40, 0xFF01, 0x3FC0, 0x3E80, 0xFE41,
      0xFA01, 0x3AC0, 0x3B80, 0xFB41, 0x3900, 0xF9C1, 0xF881, 0x3840,
      0x2800, 0xE8C1, 0xE981, 0x2940, 0xEB01, 0x2BC0, 0x2A80, 0xEA41,
      0xEE01, 0x2EC0, 0x2F80, 0xEF41, 0x2D00, 0xEDC1, 0xEC81, 0x2C40,
      0xE401, 0x24C0, 0x2580, 0xE541, 0x2700, 0xE7C1, 0xE681, 0x2640,
      0x2200, 0xE2C1, 0xE381, 0x2340, 0xE101, 0x21C0, 0x2080, 0xE041,
      0xA001, 0x60C0, 0x6180, 0xA141, 0x6300, 0xA3C1, 0xA281, 0x6240,
      0x6600, 0xA6C1, 0xA781, 0x6740, 0xA501, 0x65C0, 0x6480, 0xA441,
      0x6C00, 0xACC1, 0xAD81, 0x6D40, 0xAF01, 0x6FC0, 0x6E80, 0xAE41,
      0xAA01, 0x6AC0, 0x6B80, 0xAB41, 0x6900, 0xA9C1, 0xA881, 0x6840,
      0x7800, 0xB8C1, 0xB981, 0x7940, 0xBB01, 0x7BC0, 0x7A80, 0xBA41,
      0xBE01, 0x7EC0, 0x7F80, 0xBF41, 0x7D00, 0xBDC1, 0xBC81, 0x7C40,
      0xB401, 0x74C0, 0x7580, 0xB541, 0x7700, 0xB7C1, 0xB681, 0x7640,
      0x7200, 0xB2C1, 0xB381, 0x7340, 0xB101, 0x71C0, 0x7080, 0xB041,
      0x5000, 0x90C1, 0x9181, 0x5140, 0x9301, 0x53C0, 0x5280, 0x9241,
      0x9601, 0x56C0, 0x5780, 0x9741, 0x5500, 0x95C1, 0x9481, 0x5440,
      0x9C01, 0x5CC0, 0x5D80, 0x9D41, 0x5F00, 0x9FC1, 0x9E81, 0x5E40,
      0x5A00, 0x9AC1, 0x9B81, 0x5B40, 0x9901, 0x59C0, 0x5880, 0x9841,
      0x8801, 0x48C0, 0x4980, 0x8941, 0x4B00, 0x8BC1, 0x8A81, 0x4A40,
      0x4E00, 0x8EC1, 0x8F81, 0x4F40, 0x8D01, 0x4DC0, 0x4C80, 0x8C41,
      0x4400, 0x84C1, 0x8581, 0x4540, 0x8701, 0x47C0, 0x4680, 0x8641,
      0x8201, 0x42C0, 0x4380, 0x8341, 0x4100, 0x81C1, 0x8081, 0x4040]"

definition crc16_byte :: "16 word \<Rightarrow> byte \<Rightarrow> 16 word" where
  "crc16_byte crc data = drop_bit 8 crc XOR crc16_table ! unat ((crc XOR ucast data) AND 0xFF)"

text \<open>\<open>None\<close>: the buffer is read beyond its end.\<close>

fun crc16 :: "16 word \<Rightarrow> bytes \<Rightarrow> nat \<Rightarrow> 16 word option" where
  "crc16 crc buffer 0 = Some crc"
| "crc16 crc [] (Suc len) = None"
| "crc16 crc (b # buffer) (Suc len) = crc16 (crc16_byte crc b) buffer len"

subsection \<open>The reference\<close>

text \<open>
  Division by \<open>x^16 + x^15 + x^2 + 1\<close>, bits reflected: one bit, one byte, a buffer.
\<close>

definition crc16_bit :: "16 word \<Rightarrow> 16 word" where
  "crc16_bit r = (if bit r 0 then drop_bit 1 r XOR 0xA001 else drop_bit 1 r)"

definition crc16_ref_byte :: "16 word \<Rightarrow> byte \<Rightarrow> 16 word" where
  "crc16_ref_byte r b = (crc16_bit ^^ 8) (r XOR ucast b)"

definition crc16_ref :: "16 word \<Rightarrow> bytes \<Rightarrow> 16 word" where
  "crc16_ref = foldl crc16_ref_byte"

subsection \<open>Lemmas\<close>

lemma crc16_bit_xor: "crc16_bit (a XOR b) = crc16_bit a XOR crc16_bit b"
  by (rule bit_eqI) (auto simp: crc16_bit_def bit_simps)

lemma crc16_bits_xor: "(crc16_bit ^^ n) (a XOR b) = (crc16_bit ^^ n) a XOR (crc16_bit ^^ n) b"
  by (induction n) (simp_all add: crc16_bit_xor)

lemma crc16_bits_shift: "take_bit n r = 0 \<Longrightarrow> (crc16_bit ^^ n) r = drop_bit n r"
proof (induction n arbitrary: r)
  case (Suc n)
  have b: "\<not> bit r m" if "m < Suc n" for m
    using Suc.prems that by (metis bit_0_eq bit_take_bit_iff bot_apply bot_bool_def)
  then have "crc16_bit r = drop_bit 1 r" by (simp add: crc16_bit_def)
  moreover have "take_bit n (drop_bit 1 r) = 0" using b by (intro bit_eqI) (auto simp: bit_simps)
  ultimately show ?case using Suc.IH [of "drop_bit 1 r"] by (simp add: funpow_swap1)
qed simp

lemma crc16_bits8: "(crc16_bit ^^ 8) r = crc16_bit (crc16_bit (crc16_bit (crc16_bit (crc16_bit (crc16_bit (crc16_bit (crc16_bit r)))))))"
  by (simp add: numeral_eq_Suc)

lemma crc16_bit_even: "crc16_bit (numeral (num.Bit0 n)) = drop_bit 1 (numeral (num.Bit0 n))"
  and crc16_bit_odd: "crc16_bit (numeral (num.Bit1 n)) = drop_bit 1 (numeral (num.Bit1 n)) XOR 0xA001"
  and crc16_bit_01: "crc16_bit 0 = 0" "crc16_bit 1 = 0xA001"
  by (simp_all add: crc16_bit_def bit_0)

lemma upt_256:
  "[0..<256] =
    [0, 1, 2, 3, 4, 5, 6, 7, 8, 9, 10, 11, 12, 13, 14, 15,
     16, 17, 18, 19, 20, 21, 22, 23, 24, 25, 26, 27, 28, 29, 30, 31,
     32, 33, 34, 35, 36, 37, 38, 39, 40, 41, 42, 43, 44, 45, 46, 47,
     48, 49, 50, 51, 52, 53, 54, 55, 56, 57, 58, 59, 60, 61, 62, 63,
     64, 65, 66, 67, 68, 69, 70, 71, 72, 73, 74, 75, 76, 77, 78, 79,
     80, 81, 82, 83, 84, 85, 86, 87, 88, 89, 90, 91, 92, 93, 94, 95,
     96, 97, 98, 99, 100, 101, 102, 103, 104, 105, 106, 107, 108, 109, 110, 111,
     112, 113, 114, 115, 116, 117, 118, 119, 120, 121, 122, 123, 124, 125, 126, 127,
     128, 129, 130, 131, 132, 133, 134, 135, 136, 137, 138, 139, 140, 141, 142, 143,
     144, 145, 146, 147, 148, 149, 150, 151, 152, 153, 154, 155, 156, 157, 158, 159,
     160, 161, 162, 163, 164, 165, 166, 167, 168, 169, 170, 171, 172, 173, 174, 175,
     176, 177, 178, 179, 180, 181, 182, 183, 184, 185, 186, 187, 188, 189, 190, 191,
     192, 193, 194, 195, 196, 197, 198, 199, 200, 201, 202, 203, 204, 205, 206, 207,
     208, 209, 210, 211, 212, 213, 214, 215, 216, 217, 218, 219, 220, 221, 222, 223,
     224, 225, 226, 227, 228, 229, 230, 231, 232, 233, 234, 235, 236, 237, 238, 239,
     240, 241, 242, 243, 244, 245, 246, 247, 248, 249, 250, 251, 252, 253, 254, 255]"
  by code_simp

lemma crc16_table_map: "crc16_table = map (crc16_bit ^^ 8) (map word_of_nat [0..<256])"
  unfolding upt_256 list.map crc16_bits8 crc16_table_def
  by (simp add: crc16_bit_even crc16_bit_odd crc16_bit_01)

lemma crc16_table_bits: "i < 256 \<Longrightarrow> crc16_table ! i = (crc16_bit ^^ 8) (word_of_nat i)"
  unfolding crc16_table_map by simp

lemma drop_push_drop: "drop_bit 8 (push_bit 8 (drop_bit 8 x)) = drop_bit 8 x" for x :: "16 word"
proof (rule bit_eqI)
  fix n
  have "bit x (8 + n) \<Longrightarrow> 8 + n < 16" using bit_imp_le_length [of x "8 + n"] by simp
  then show "bit (drop_bit 8 (push_bit 8 (drop_bit 8 x))) n = bit (drop_bit 8 x) n" by (auto simp: bit_simps)
qed

lemma crc16_bits_high: "(crc16_bit ^^ 8) (push_bit 8 (drop_bit 8 x)) = drop_bit 8 x"
  by (subst crc16_bits_shift) (simp_all add: drop_push_drop take_bit_push_bit)

lemma crc16_byte_ref: "crc16_byte r b = crc16_ref_byte r b"
proof -
  let ?x = "r XOR ucast b"
  have split: "x = (x AND 0xFF) XOR push_bit 8 (drop_bit 8 x)" for x :: "16 word"
  proof -
    have m: "(0xFF :: 16 word) = mask 8" by (simp add: mask_eq_exp_minus_1)
    show ?thesis unfolding m by (rule bit_eqI) (auto simp: bit_simps simp del: mask_numeral)
  qed
  have hi: "drop_bit 8 ?x = drop_bit 8 r"
  proof (rule bit_eqI)
    fix n
    have "bit b (8 + n) \<Longrightarrow> False" using bit_imp_le_length [of b "8 + n"] by simp
    then show "bit (drop_bit 8 ?x) n = bit (drop_bit 8 r) n" by (auto simp: bit_simps)
  qed
  have "(crc16_bit ^^ 8) ?x = (crc16_bit ^^ 8) (?x AND 0xFF) XOR (crc16_bit ^^ 8) (push_bit 8 (drop_bit 8 ?x))"
    by (subst split [of ?x]) (rule crc16_bits_xor)
  also have "(crc16_bit ^^ 8) (push_bit 8 (drop_bit 8 ?x)) = drop_bit 8 ?x"
    by (rule crc16_bits_high)
  also have "(crc16_bit ^^ 8) (?x AND 0xFF) = crc16_table ! unat (?x AND 0xFF)"
  proof -
    have "?x AND 0xFF \<le> 0xFF" by (rule word_and_le1)
    then have "unat (?x AND 0xFF) < 256" by (simp add: word_le_nat_alt)
    then show ?thesis by (simp add: crc16_table_bits)
  qed
  finally show ?thesis unfolding crc16_byte_def crc16_ref_byte_def hi by (simp add: xor.commute)
qed

lemma crc16_value: "crc16 crc buffer len = (if len \<le> length buffer then Some (crc16_ref crc (take len buffer)) else None)"
  by (induction crc buffer len rule: crc16.induct) (simp_all add: crc16_ref_def crc16_byte_ref)


text \<open>The division of a byte loses nothing, so that two inputs that differ in one byte have different results.\<close>

lemma crc16_bit_inj: "crc16_bit a = crc16_bit b \<longleftrightarrow> a = b"
proof
  assume eq: "crc16_bit a = crc16_bit b"
  have top: "bit (crc16_bit r) 15 = bit r 0" for r
    using bit_imp_le_length [of r 16] by (auto simp: crc16_bit_def bit_simps)
  have low: "bit a 0 = bit b 0" using eq top [of a] top [of b] by simp
  have "drop_bit 1 a = drop_bit 1 b"
  proof (cases "bit a 0")
    case True
    then have "drop_bit 1 a XOR 0xA001 = drop_bit 1 b XOR 0xA001" using eq low by (simp add: crc16_bit_def)
    then have "(drop_bit 1 a XOR 0xA001) XOR 0xA001 = (drop_bit 1 b XOR 0xA001) XOR 0xA001" by simp
    then show ?thesis by (simp only: xor.assoc xor_self_eq xor.right_neutral)
  next
    case False
    then show ?thesis using eq low by (simp add: crc16_bit_def)
  qed
  then have "bit (drop_bit 1 a) n = bit (drop_bit 1 b) n" for n by simp
  then have "bit a (Suc n) = bit b (Suc n)" for n by (simp add: bit_simps)
  then show "a = b" using low by (intro bit_eqI) (metis not0_implies_Suc)
qed simp

lemma crc16_bits_inj: "(crc16_bit ^^ n) a = (crc16_bit ^^ n) b \<longleftrightarrow> a = b"
  by (induction n) (simp_all add: crc16_bit_inj)

lemma crc16_ref_byte_inj: "crc16_ref_byte r a = crc16_ref_byte r b \<longleftrightarrow> a = b" "crc16_ref_byte r a = crc16_ref_byte s a \<longleftrightarrow> r = s"
proof -
  have "r XOR x = r XOR y \<longleftrightarrow> x = y" for x y :: "16 word"
    by (metis xor.assoc xor.left_neutral xor_self_eq)
  moreover have "(ucast a :: 16 word) = ucast b \<longleftrightarrow> a = b"
  proof
    assume "(ucast a :: 16 word) = ucast b"
    then have eq: "bit (ucast a :: 16 word) n = bit (ucast b :: 16 word) n" for n by simp
    have "n < 16 \<Longrightarrow> bit a n = bit b n" for n using eq [of n] by (simp add: bit_ucast_iff)
    then show "a = b" by (intro bit_word_eqI) simp
  qed simp
  ultimately show "crc16_ref_byte r a = crc16_ref_byte r b \<longleftrightarrow> a = b" by (simp add: crc16_ref_byte_def crc16_bits_inj)
  have "x XOR y = z XOR y \<longleftrightarrow> x = z" for x y z :: "16 word"
    by (metis xor.assoc xor.right_neutral xor_self_eq)
  then show "crc16_ref_byte r a = crc16_ref_byte s a \<longleftrightarrow> r = s" by (simp add: crc16_ref_byte_def crc16_bits_inj)
qed

lemma crc16_ref_inj: "crc16_ref r xs = crc16_ref s xs \<longleftrightarrow> r = s"
  by (induction xs arbitrary: r s) (simp_all add: crc16_ref_def crc16_ref_byte_inj)

lemma crc16_one_byte: "crc16_ref r (xs @ a # ys) = crc16_ref r (xs @ b # ys) \<longleftrightarrow> a = b"
proof -
  have "crc16_ref r (xs @ c # ys) = crc16_ref (crc16_ref_byte (crc16_ref r xs) c) ys" for c
    by (simp add: crc16_ref_def)
  then show ?thesis by (simp add: crc16_ref_inj crc16_ref_byte_inj)
qed


subsection \<open>Properties\<close>

text \<open>
  Claim C29. The table driven CRC-16 equals the division of the bytes by the polynomial \<open>0x8005\<close> (bits
  reflected) for every start value, and reads beyond a buffer exactly if the length exceeds it. The check
  values of two messages that differ in one byte are different.
\<close>

theorem crc16_reference:
  "crc16 crc buffer len = (if len \<le> length buffer then Some (crc16_ref crc (take len buffer)) else None)
   \<and> (crc16_ref crc (xs @ a # ys) = crc16_ref crc (xs @ b # ys) \<longleftrightarrow> a = b)"
  by (simp only: crc16_value crc16_one_byte simp_thms)

end
