(* ===== verification/Host_Fup.thy ===== *)
theory Host_Fup
  imports Host_Crc16 "HOL-Library.Monad_Syntax"
begin

text \<open>
  \<open>src/local_src/host/fup.src/fup.c\<close>: the host tool that packs flash partitions into a firmware
  image, unpacks one, signs a partition and changes the reseller id.

  Files are byte lists and a file system maps names to files. zlib, which the build links (its
  \<open>crc32\<close> too: \<open>crc32.cpp\<close> defines a C++ function of that name that nothing calls), and the table
  \<open>dummy\<close> are fields of the environment. \<open>None\<close> is undefined behaviour: a NULL file or argument,
  an access outside of a buffer, a variable length array without elements. A buffer that
  \<open>writeBlock\<close> allocates is modelled by the bytes of it that are used. Not covered, and \<open>None\<close> too: an image that
  is also one of its own parts, an image of 2 GB or more (positions are 32-bit), and a reseller
  id that does not fit in 32 bits.
\<close>

subsection \<open>The environment\<close>

type_synonym files = "string \<rightharpoonup> bytes"

text \<open>
  \<open>deflate xs\<close> is what \<open>deflate\<close> with \<open>Z_FINISH\<close> stores in an output buffer as long as \<open>xs\<close>;
  \<open>inflate xs n\<close> is an output buffer of \<open>n\<close> bytes after \<open>inflate\<close>; \<open>fresh\<close> is the content of
  memory that was not initialised; \<open>can_write\<close> says which files can be opened for writing.
\<close>

record fup_env =
  use_zlib :: bool
  deflate :: "bytes \<Rightarrow> bytes"
  inflate :: "bytes \<Rightarrow> nat \<Rightarrow> bytes"
  crc32 :: "u32 \<Rightarrow> bytes \<Rightarrow> u32"
  dummy :: bytes
  can_write :: "string \<Rightarrow> bool"
  fresh :: "nat \<Rightarrow> byte"

definition uninit :: "fup_env \<Rightarrow> nat \<Rightarrow> bytes" where
  "uninit env n = map (fresh env) [0..<n]"

definition MAX_PART_NUMBER :: nat where "MAX_PART_NUMBER = 17"
definition DATA_BLOCKSIZE :: nat where "DATA_BLOCKSIZE = 0x7FFA"

definition ext :: "string list" where
  "ext = [''.loader.mtd0'', ''.app.mtd1'', ''.config0.mtd5'', ''.config4.mtd5'', ''.config8.mtd5'',
          ''.configA.mtd5'', ''.kernel.mtd6'', ''.dev.mtd4'', ''.rootfs.mtd8'', ''.user.mtd9'',
          ''.10'', ''.11'', ''.12'', ''.13'', ''.14'', ''.15'', ''.16'']"

text \<open>\<open>strncmp (s, t, n) == 0\<close> and the file operations of the C library.\<close>

definition strncmp_eq :: "string \<Rightarrow> string \<Rightarrow> nat \<Rightarrow> bool" where
  "strncmp_eq s t n \<longleftrightarrow> take n s = take n t"

definition fread_at :: "fup_env \<Rightarrow> bytes \<Rightarrow> nat \<Rightarrow> nat \<Rightarrow> bytes" where
  "fread_at env f pos n = take n (drop pos f @ drop (length f - pos) (uninit env n))"

definition fwrite_at :: "bytes \<Rightarrow> nat \<Rightarrow> bytes \<Rightarrow> bytes" where
  "fwrite_at f pos xs = take pos f @ replicate (pos - length f) 0 @ xs @ drop (pos + length xs) f"

subsection \<open>Blocks\<close>

definition toShort :: "byte \<Rightarrow> byte \<Rightarrow> 16 word" where
  "toShort a b = ucast b + push_bit 8 (ucast a)"

definition extractShort :: "bytes \<Rightarrow> nat \<Rightarrow> 16 word option" where
  "extractShort dataBuf pos =
     (if pos + 1 < length dataBuf then Some (toShort (dataBuf ! pos) (dataBuf ! (pos + 1))) else None)"

text \<open>The value and what is left of the file.\<close>

fun readShort :: "bytes \<Rightarrow> 16 word \<times> bytes" where
  "readShort (a # b # f) = (toShort a b, f)"
| "readShort f = (0, [])"

definition extractAndWrite :: "fup_env \<Rightarrow> bytes \<Rightarrow> nat \<Rightarrow> nat \<Rightarrow> bytes option" where
  "extractAndWrite env buffer len decLen =
     (if use_zlib env \<and> len \<noteq> decLen
      then if decLen = 0 then None else Some (take decLen (inflate env (take len buffer) decLen))
      else Some (take len buffer))"

text \<open>The data of the block, the number of bytes read and the rest of the file.\<close>

definition readAndCompress :: "fup_env \<Rightarrow> bytes \<Rightarrow> nat \<Rightarrow> bytes \<times> nat \<times> bytes" where
  "readAndCompress env file n =
     (let data = take n file;
          out = deflate env data
      in (if use_zlib env \<and> length out < length data then out else data, length data, drop n file))"

definition insertint16_t :: "bytes \<Rightarrow> nat \<Rightarrow> 16 word \<Rightarrow> bytes option" where
  "insertint16_t dataBuf pos v =
     (if pos + 1 < length dataBuf
      then Some (dataBuf[pos := ucast (drop_bit 8 v), pos + 1 := ucast (v AND 0xFF)]) else None)"

definition header_block :: "fup_env \<Rightarrow> 16 word \<Rightarrow> bytes option" where
  "header_block env type = do {
     d \<leftarrow> insertint16_t (uninit env 16) 0 type;
     d \<leftarrow> insertint16_t d 2 0x2303;
     d \<leftarrow> insertint16_t d 4 0;
     d \<leftarrow> insertint16_t d 6 0;
     d \<leftarrow> insertint16_t d 8 0xFFFF;
     d \<leftarrow> insertint16_t d 10 0;
     d \<leftarrow> insertint16_t d 12 0;
     insertint16_t d 14 0
   }"

text \<open>What is appended to the image, the value returned and the rest of the part's file.\<close>

definition writeBlock :: "fup_env \<Rightarrow> bytes option \<Rightarrow> bool \<Rightarrow> 16 word \<Rightarrow> (bytes \<times> nat \<times> bytes option) option" where
  "writeBlock env file firstBlock type = do {
     (dataBuf, compressedDataLen, uncompressedDataLen, file) \<leftarrow>
       (if firstBlock \<and> type = 0x10
        then do { d \<leftarrow> header_block env type; Some (d, 12, 12, file) }
        else do {
          f \<leftarrow> file;
          let (data, n, f) = readAndCompress env f DATA_BLOCKSIZE;
          d \<leftarrow> insertint16_t (uninit env 4 @ data) 0 type;
          d \<leftarrow> insertint16_t d 2 (of_nat n);
          Some (d, length data, n, Some f)
        });
     dataCrc \<leftarrow> crc16 0 dataBuf (compressedDataLen + 4);
     blockHeader \<leftarrow> insertint16_t (uninit env 4) 0 (of_nat (compressedDataLen + 6));
     blockHeader \<leftarrow> insertint16_t blockHeader 2 dataCrc;
     Some (blockHeader @ take (compressedDataLen + 4) dataBuf, uncompressedDataLen, file)
   }"

subsection \<open>Creating an image\<close>

text \<open>
  \<open>while (writeBlock (irdFile, file, 0, type) == DATA_BLOCKSIZE) totalBlockCount++;
  totalBlockCount++;\<close>
\<close>

function append_file :: "fup_env \<Rightarrow> bytes option \<Rightarrow> 16 word \<Rightarrow> bytes \<times> 16 word \<Rightarrow> (bytes \<times> 16 word) option" where
  "append_file env file type (ird, totalBlockCount) =
     (case writeBlock env file False type of
        None \<Rightarrow> None
      | Some (block, n, file) \<Rightarrow>
          if n = DATA_BLOCKSIZE then append_file env file type (ird @ block, totalBlockCount + 1)
          else Some (ird @ block, totalBlockCount + 1))"
  by pat_completeness auto
termination
  by (relation "measure (\<lambda>(env, file, type, s). case file of None \<Rightarrow> 0 | Some f \<Rightarrow> length f)")
    (auto simp: writeBlock_def readAndCompress_def DATA_BLOCKSIZE_def Let_def
      split: bind_splits if_splits option.splits)

declare append_file.simps [simp del]

definition part_type_c :: "string \<Rightarrow> byte" where
  "part_type_c s =
     (if length s = 2 \<and> strncmp_eq s ''-feelinglucky'' 13 then 0x00
      else if length s = 2 \<and> strncmp_eq s ''-a'' 2 then 0x01
      else if length s = 2 \<and> strncmp_eq s ''-1'' 2 then 0x01
      else if length s = 3 \<and> strncmp_eq s ''-c0'' 3 then 0x02
      else if length s = 2 \<and> strncmp_eq s ''-2'' 2 then 0x02
      else if length s = 3 \<and> strncmp_eq s ''-c4'' 3 then 0x03
      else if length s = 2 \<and> strncmp_eq s ''-3'' 2 then 0x03
      else if length s = 3 \<and> strncmp_eq s ''-c8'' 3 then 0x04
      else if length s = 2 \<and> strncmp_eq s ''-4'' 2 then 0x04
      else if length s = 3 \<and> strncmp_eq s ''-ca'' 3 then 0x05
      else if length s = 2 \<and> strncmp_eq s ''-5'' 2 then 0x05
      else if length s = 2 \<and> strncmp_eq s ''-k'' 2 then 0x06
      else if length s = 2 \<and> strncmp_eq s ''-6'' 2 then 0x06
      else if length s = 2 \<and> strncmp_eq s ''-d'' 2 then 0x07
      else if length s = 2 \<and> strncmp_eq s ''-7'' 2 then 0x07
      else if length s = 2 \<and> strncmp_eq s ''-r'' 2 then 0x08
      else if length s = 2 \<and> strncmp_eq s ''-8'' 2 then 0x08
      else if length s = 2 \<and> strncmp_eq s ''-u'' 2 then 0x09
      else if length s = 2 \<and> strncmp_eq s ''-9'' 2 then 0x09
      else if length s = 3 \<and> strncmp_eq s ''-10'' 3 then 0x10
      else 0x01)"

definition part_type_ce :: "string \<Rightarrow> byte" where
  "part_type_ce s =
     (if length s = 2 \<and> strncmp_eq s ''-f'' 2 then 0x01
      else if length s = 2 \<and> strncmp_eq s ''-k'' 2 then 0x06
      else if length s = 2 \<and> strncmp_eq s ''-e'' 2 then 0x08
      else if length s = 2 \<and> strncmp_eq s ''-g'' 2 then 0x07
      else if length s = 2 \<and> strncmp_eq s ''-r'' 2 then 0x09
      else 0x01)"

text \<open>
  The loops over the arguments behind the image name, \<open>left\<close> of which are still to be used. A
  file that cannot be opened is a NULL pointer in \<open>fread\<close>, a missing argument one in \<open>fopen\<close>.
\<close>

definition append_part :: "fup_env \<Rightarrow> files \<Rightarrow> string \<Rightarrow> string \<Rightarrow> string \<Rightarrow> bytes \<times> 16 word \<Rightarrow> (bytes \<times> 16 word) option" where
  "append_part env fs img opt name st =
     (if name = img then None else append_file env (fs name) (ucast (part_type_c opt)) st)"

fun append_parts :: "fup_env \<Rightarrow> files \<Rightarrow> string \<Rightarrow> nat \<Rightarrow> string list \<Rightarrow> bytes \<times> 16 word \<Rightarrow> (bytes \<times> 16 word) option" where
  "append_parts env fs img left (opt # name # args) st =
     (if left = 0 then Some st
      else do {
        st \<leftarrow> append_part env fs img opt name st;
        append_parts env fs img (left - 2) args st
      })"
| "append_parts env fs img left [opt] st = (if left = 0 then Some st else None)"
| "append_parts env fs img left [] st = Some st"

definition dummy_name :: string where "dummy_name = ''dummy.squash.signed.padded''"

definition append_dummy :: "fup_env \<Rightarrow> string \<Rightarrow> byte \<Rightarrow> files \<times> bytes \<times> 16 word \<Rightarrow> (files \<times> bytes \<times> 16 word) option" where
  "append_dummy env img type = (\<lambda>(fs, st).
     if type = 0x01 \<or> type = 0x08 \<or> type = 0x07
     then if dummy_name = img then None
          else if can_write env dummy_name
          then do { st \<leftarrow> append_file env (Some (dummy env)) (ucast type) st; Some (fs(dummy_name := None), st) }
          else Some (fs, st)
     else Some (fs, st))"

definition append_part_ce :: "fup_env \<Rightarrow> string \<Rightarrow> string \<Rightarrow> string \<Rightarrow> files \<times> bytes \<times> 16 word \<Rightarrow> (files \<times> bytes \<times> 16 word) option" where
  "append_part_ce env img opt name s = do {
     (fs, st) \<leftarrow> append_dummy env img (part_type_ce opt) s;
     (if strncmp_eq name ''foo'' 3 then Some (fs, st)
      else if name = img then None
      else if fs name = None then Some (fs, st)
      else do { st \<leftarrow> append_file env (fs name) (ucast (part_type_ce opt)) st; Some (fs, st) })
   }"

text \<open>Without its last argument the dummy is still added, then NULL is compared with \<open>foo\<close>.\<close>

fun append_parts_ce :: "fup_env \<Rightarrow> string \<Rightarrow> nat \<Rightarrow> string list \<Rightarrow> files \<times> bytes \<times> 16 word \<Rightarrow> (files \<times> bytes \<times> 16 word) option" where
  "append_parts_ce env img left (opt # name # args) s =
     (if left = 0 then Some s
      else do {
        s \<leftarrow> append_part_ce env img opt name s;
        append_parts_ce env img (left - 2) args s
      })"
| "append_parts_ce env img left [opt] s = (if left = 0 then Some s else None)"
| "append_parts_ce env img left [] s = Some s"

text \<open>The header's data is read again, one field replaced, and it is written back with its CRC.\<close>

definition refresh_header :: "fup_env \<Rightarrow> bytes \<Rightarrow> nat \<Rightarrow> nat \<Rightarrow> 16 word \<Rightarrow> bytes option" where
  "refresh_header env ird headerDataBlockLen pos v = do {
     dataBuf \<leftarrow> insertint16_t (fread_at env ird 4 headerDataBlockLen) pos v;
     let ird = fwrite_at ird 4 dataBuf;
     dataCrc \<leftarrow> crc16 0 dataBuf headerDataBlockLen;
     dataBuf \<leftarrow> insertint16_t dataBuf 0 dataCrc;
     Some (fwrite_at ird 2 (take 2 dataBuf))
   }"

definition fup_create :: "fup_env \<Rightarrow> files \<Rightarrow> string \<Rightarrow> string list \<Rightarrow> files option" where
  "fup_create env fs img args =
     (if \<not> can_write env img then None
      else do {
        (ird, n, file) \<leftarrow> writeBlock env None True 0x10;
        (ird, totalBlockCount) \<leftarrow> append_parts env fs img (length args mod 256) args (ird, 0);
        ird \<leftarrow> refresh_header env ird (n + 4) 8 totalBlockCount;
        Some (fs(img \<mapsto> ird))
      })"

definition fup_create_e2 :: "fup_env \<Rightarrow> files \<Rightarrow> string \<Rightarrow> string list \<Rightarrow> files option" where
  "fup_create_e2 env fs img args =
     (if \<not> can_write env img then None
      else do {
        (ird, n, file) \<leftarrow> writeBlock env None True 0x10;
        (fs, ird, totalBlockCount) \<leftarrow>
          append_parts_ce env img (length args mod 256) args (fs, ird, 0);
        ird \<leftarrow> refresh_header env ird (n + 4) 8 totalBlockCount;
        Some (fs(img \<mapsto> ird))
      })"

subsection \<open>Extracting an image\<close>

text \<open>\<open>pauses\<close> counts the calls to \<open>getchar\<close>, the tool's only reaction to a damaged block.\<close>

record fup_state =
  has :: "bool list"
  fup_files :: files
  blockCounter :: "16 word"
  blockCounterTotal :: "16 word"
  pauses :: nat

definition open_part :: "string \<Rightarrow> nat \<Rightarrow> fup_state \<Rightarrow> fup_state" where
  "open_part name type st =
     (if has st ! type then st
      else st\<lparr>blockCounter := 1, has := (has st)[type := True],
              fup_files := (fup_files st)(name @ ext ! type \<mapsto> [])\<rparr>)"

definition write_data :: "fup_env \<Rightarrow> string \<Rightarrow> nat \<Rightarrow> bytes \<Rightarrow> fup_state \<Rightarrow> fup_state option" where
  "write_data env name type data st =
     (if can_write env (name @ ext ! type)
      then map_option (\<lambda>old. st\<lparr>fup_files := (fup_files st)(name @ ext ! type \<mapsto> old @ data)\<rparr>)
             (fup_files st (name @ ext ! type))
      else None)"

text \<open>The value returned and the new state; \<open>file\<close> is the image from the current position on.\<close>

definition readBlock :: "fup_env \<Rightarrow> string \<Rightarrow> bool \<Rightarrow> bytes \<Rightarrow> fup_state \<Rightarrow> (nat \<times> fup_state) option" where
  "readBlock env name firstBlock file st =
     (let (lenw, file) = readShort file;
          len = unat lenw
      in if len = 0 then Some (0, st)
      else let (crc, file) = readShort file
      in if len \<le> 2 then None
      else if length file < len - 2 then Some (0, st)
      else do {
        let dataBuf = take (len - 2) file;
        dataCrc \<leftarrow> crc16 0 dataBuf (len - 2);
        let st = (if crc \<noteq> dataCrc then st\<lparr>pauses := pauses st + 1\<rparr> else st);
        typew \<leftarrow> extractShort dataBuf 0;
        let type = unat typew;
        let st = st\<lparr>blockCounterTotal := blockCounterTotal st + 1\<rparr>;
        (if firstBlock \<and> type = 0x10
         then do { softwareversion3 \<leftarrow> extractShort dataBuf 14; Some (len, st) }
         else if type < MAX_PART_NUMBER
         then do {
           let st = open_part name type st;
           let st = st\<lparr>blockCounter := blockCounter st + 1\<rparr>;
           decLen \<leftarrow> extractShort dataBuf 2;
           data \<leftarrow> extractAndWrite env (drop 4 dataBuf) (len - 6) (unat decLen);
           st \<leftarrow> write_data env name type data st;
           Some (len, st)
         }
         else Some (len, st\<lparr>pauses := pauses st + 1\<rparr>))
      })"

function extract_loop :: "fup_env \<Rightarrow> string \<Rightarrow> bool \<Rightarrow> bytes \<Rightarrow> fup_state \<Rightarrow> fup_state option" where
  "extract_loop env name firstBlock file st =
     (case readBlock env name firstBlock file st of
        None \<Rightarrow> None
      | Some (len, st) \<Rightarrow>
          if len = 0 then Some st else extract_loop env name False (drop (len + 2) file) st)"
  by pat_completeness auto
termination
proof (relation "measure (\<lambda>(env, name, firstBlock, file, st). length file)", goal_cases)
  case (2 env name firstBlock f st res len st')
  have "f \<noteq> []" using 2 by (cases f) (auto simp: readBlock_def)
  then show ?case using 2 by (cases f) auto
qed simp

declare extract_loop.simps [simp del]

definition fup_extract :: "fup_env \<Rightarrow> files \<Rightarrow> string \<Rightarrow> fup_state option" where
  "fup_extract env fs img = do {
     file \<leftarrow> fs img;
     (if 2 ^ 31 \<le> length file then None
      else extract_loop env img True file
        \<lparr>has = replicate MAX_PART_NUMBER False, fup_files = fs, blockCounter = 0, blockCounterTotal = 0, pauses = 0\<rparr>)
   }"

subsection \<open>Signing and testing a partition\<close>

text \<open>
  Both loops read 10000 bytes at a time into one buffer, until a read meets the end of the file,
  and give the buffer's first byte to \<open>crc32\<close>. The host is little endian.
\<close>

definition fread_into :: "(nat \<Rightarrow> byte) \<Rightarrow> bytes \<Rightarrow> nat \<Rightarrow> byte" where
  "fread_into buffer xs i = (if i < length xs then xs ! i else buffer i)"

function sign_loop :: "fup_env \<Rightarrow> bytes \<Rightarrow> (nat \<Rightarrow> byte) \<Rightarrow> u32 \<Rightarrow> bytes \<Rightarrow> bytes \<times> u32" where
  "sign_loop env file buffer crc out =
     (let buffer = fread_into buffer (take 0x2710 file);
          out = out @ take 0x2710 file;
          crc = crc32 env crc [buffer 0]
      in if length file < 0x2710 then (out, crc) else sign_loop env (drop 0x2710 file) buffer crc out)"
  by pat_completeness auto
termination
  by (relation "measure (\<lambda>(env, file, buffer, crc, out). length file)") auto

declare sign_loop.simps [simp del]

definition le_footer :: "u32 \<Rightarrow> bytes" where
  "le_footer w = [ucast w, ucast (drop_bit 8 w), ucast (drop_bit 16 w), ucast (drop_bit 24 w)]"

text \<open>The name of the signed file has room for 127 characters. The value is the footer printed.\<close>

definition fup_sign :: "fup_env \<Rightarrow> files \<Rightarrow> string \<Rightarrow> (files \<times> u32) option" where
  "fup_sign env fs name =
     (if 127 < length name + 7 \<or> \<not> can_write env (name @ ''.signed'') then None
      else do {
        file \<leftarrow> fs name;
        let (out, crc) = sign_loop env file (fresh env) 0 [];
        Some (fs(name @ ''.signed'' \<mapsto> out @ le_footer crc), crc)
      })"

definition footer_at :: "(nat \<Rightarrow> byte) \<Rightarrow> nat \<Rightarrow> u32" where
  "footer_at buffer count =
     push_bit 24 (ucast (buffer (count - 1))) + push_bit 16 (ucast (buffer (count - 2)))
     + push_bit 8 (ucast (buffer (count - 3))) + ucast (buffer (count - 4))"

text \<open>The computed and the original footer.\<close>

function test_loop :: "fup_env \<Rightarrow> bytes \<Rightarrow> (nat \<Rightarrow> byte) \<Rightarrow> u32 \<Rightarrow> u32 \<Rightarrow> (u32 \<times> u32) option" where
  "test_loop env file buffer crc orgcrc =
     (let count = length (take 0x2710 file);
          buffer = fread_into buffer (take 0x2710 file)
      in if count \<noteq> 0x2710 \<and> count < 4 then None
      else let orgcrc = (if count \<noteq> 0x2710 then footer_at buffer count else orgcrc);
               crc = crc32 env crc [buffer 0]
      in if length file < 0x2710 then Some (crc, orgcrc)
         else test_loop env (drop 0x2710 file) buffer crc orgcrc)"
  by pat_completeness auto
termination
  by (relation "measure (\<lambda>(env, file, buffer, crc, orgcrc). length file)") auto

declare test_loop.simps [simp del]

definition fup_test :: "fup_env \<Rightarrow> files \<Rightarrow> string \<Rightarrow> (u32 \<times> u32) option" where
  "fup_test env fs name = do { file \<leftarrow> fs name; test_loop env file (fresh env) 0 0 }"

subsection \<open>Changing the reseller id\<close>

definition hex_digit :: "char \<Rightarrow> nat option" where
  "hex_digit c =
     (let n = of_char c :: nat
      in if 48 \<le> n \<and> n \<le> 57 then Some (n - 48)
         else if 65 \<le> n \<and> n \<le> 70 then Some (n - 55)
         else if 97 \<le> n \<and> n \<le> 102 then Some (n - 87) else None)"

fun hex_value :: "nat \<Rightarrow> string \<Rightarrow> nat" where
  "hex_value v [] = v"
| "hex_value v (c # cs) = (case hex_digit c of None \<Rightarrow> v | Some d \<Rightarrow> hex_value (16 * v + d) cs)"

text \<open>\<open>sscanf (s, "%x", ..)\<close> into a variable that holds 0.\<close>

definition sscanf_x :: "string \<Rightarrow> u32 option" where
  "sscanf_x s =
     (let s = dropWhile (\<lambda>c. of_char c \<in> {9, 10, 11, 12, 13, 32 :: nat}) s;
          neg = (take 1 s = ''-'');
          s = (if take 1 s = ''-'' \<or> take 1 s = ''+'' then drop 1 s else s);
          s = (if take 2 s = ''0x'' \<or> take 2 s = ''0X'' then drop 2 s else s);
          v = hex_value 0 s
      in if v < 2 ^ 32 then Some (if neg then - of_nat v else of_nat v) else None)"

text \<open>The length of the header's data is kept in a \<open>uint8_t\<close>.\<close>

definition fup_reseller :: "fup_env \<Rightarrow> files \<Rightarrow> string \<Rightarrow> string \<Rightarrow> files option" where
  "fup_reseller env fs img arg = do {
     resellerId \<leftarrow> sscanf_x arg;
     (if \<not> can_write env img then None
      else do {
        ird \<leftarrow> fs img;
        let headerDataBlockLen = (ucast (fst (readShort ird)) :: byte) - 2;
        ird \<leftarrow> refresh_header env ird (unat headerDataBlockLen) 2 (ucast (resellerId AND 0xFFFF));
        Some (fs(img \<mapsto> ird))
      })
   }"

subsection \<open>The command line\<close>

text \<open>Exit code, files, footers printed and pauses of a run.\<close>

record fup_result =
  exit_code :: int
  result_files :: files
  footers :: "u32 list"
  result_pauses :: nat

definition fup_done :: "files \<Rightarrow> fup_result" where
  "fup_done fs = \<lparr>exit_code = 0, result_files = fs, footers = [], result_pauses = 0\<rparr>"

definition is_option :: "string list \<Rightarrow> string \<Rightarrow> bool" where
  "is_option argv opt \<longleftrightarrow>
     length (argv ! 1) = length opt \<and> strncmp_eq (argv ! 1) opt (length opt)"

definition fup_main :: "fup_env \<Rightarrow> files \<Rightarrow> string list \<Rightarrow> fup_result option" where
  "fup_main env fs argv =
     (let argc = length argv
      in if argc = 3 \<and> is_option argv ''-s''
      then map_option (\<lambda>(fs, crc). (fup_done fs)\<lparr>footers := [crc]\<rparr>) (fup_sign env fs (argv ! 2))
      else if argc = 3 \<and> is_option argv ''-t''
      then map_option (\<lambda>(crc, orgcrc). (fup_done fs)\<lparr>footers := [crc, orgcrc]\<rparr>) (fup_test env fs (argv ! 2))
      else if argc = 3 \<and> is_option argv ''-x''
      then map_option (\<lambda>st. (fup_done (fup_files st))\<lparr>result_pauses := pauses st\<rparr>) (fup_extract env fs (argv ! 2))
      else if argc = 2 \<and> is_option argv ''-v'' then Some (fup_done fs)
      else if argc \<ge> 3 \<and> is_option argv ''-c''
      then map_option fup_done (fup_create env fs (argv ! 2) (drop 3 argv))
      else if argc \<ge> 3 \<and> is_option argv ''-ce''
      then map_option fup_done (fup_create_e2 env fs (argv ! 2) (drop 3 argv))
      else if argc = 4 \<and> is_option argv ''-r''
      then map_option fup_done (fup_reseller env fs (argv ! 2) (argv ! 3))
      else Some ((fup_done fs)\<lparr>exit_code := -1\<rparr>))"

end
