(* ===== verification/Host_Image.thy ===== *)
theory Host_Image
  imports Host_Fup
begin

text \<open>
  What the firmware image tool of \<open>Host_Fup\<close> does to images: the format of an image, that it
  can be unpacked again, what a damaged block causes, and what signing and testing a partition find.
\<close>

subsection \<open>Specification vocabulary\<close>

definition be16 :: "16 word \<Rightarrow> bytes" where
  "be16 v = [ucast (drop_bit 8 v), ucast v]"

definition fup_block :: "bytes \<Rightarrow> bytes" where
  "fup_block d = be16 (of_nat (length d + 2)) @ be16 (crc16_ref 0 d) @ d"

definition header_data :: "16 word \<Rightarrow> 16 word \<Rightarrow> bytes" where
  "header_data reseller blocks = concat (map be16 [0x10, reseller, 0, 0, blocks, 0, 0, 0])"

definition fup_packed :: "fup_env \<Rightarrow> bytes \<Rightarrow> bytes" where
  "fup_packed env xs = (if use_zlib env \<and> length (deflate env xs) < length xs then deflate env xs else xs)"

definition part_data :: "fup_env \<Rightarrow> 16 word \<Rightarrow> bytes \<Rightarrow> bytes" where
  "part_data env t xs = be16 t @ be16 (of_nat (length xs)) @ fup_packed env xs"

definition pieces :: "bytes \<Rightarrow> bytes list" where
  "pieces xs = fst (full_chunks DATA_BLOCKSIZE xs) @ [snd (full_chunks DATA_BLOCKSIZE xs)]"

definition part_blocks :: "fup_env \<Rightarrow> 16 word \<Rightarrow> bytes \<Rightarrow> bytes" where
  "part_blocks env t xs = concat (map (\<lambda>p. fup_block (part_data env t p)) (pieces xs))"

text \<open>The option and file name arguments of the parts.\<close>

definition part_args :: "(string \<times> string) list \<Rightarrow> string list" where
  "part_args parts = concat (map (\<lambda>(opt, name). [opt, name]) parts)"

definition part_word :: "string \<Rightarrow> 16 word" where
  "part_word opt = ucast (part_type_c opt)"

definition parts_image :: "fup_env \<Rightarrow> files \<Rightarrow> (string \<times> string) list \<Rightarrow> bytes" where
  "parts_image env fs parts = concat (map (\<lambda>(opt, name). part_blocks env (part_word opt) (the (fs name))) parts)"

definition parts_count :: "files \<Rightarrow> (string \<times> string) list \<Rightarrow> nat" where
  "parts_count fs parts = sum_list (map (\<lambda>(opt, name). length (pieces (the (fs name)))) parts)"

definition fup_image :: "fup_env \<Rightarrow> files \<Rightarrow> (string \<times> string) list \<Rightarrow> bytes" where
  "fup_image env fs parts = fup_block (header_data 0x2303 (of_nat (parts_count fs parts))) @ parts_image env fs parts"

definition zlib_ok :: "fup_env \<Rightarrow> bool" where
  "zlib_ok env \<longleftrightarrow>
     (\<forall>xs. length (deflate env xs) < length xs \<longrightarrow> inflate env (deflate env xs) (length xs) = xs)"

definition add_part :: "nat \<times> bytes \<Rightarrow> (nat \<rightharpoonup> bytes) \<Rightarrow> (nat \<rightharpoonup> bytes)" where
  "add_part = (\<lambda>(t, d) m. m(t \<mapsto> (case m t of None \<Rightarrow> d | Some old \<Rightarrow> old @ d)))"

definition fup_rel :: "string \<Rightarrow> files \<Rightarrow> (nat \<rightharpoonup> bytes) \<Rightarrow> fup_state \<Rightarrow> bool" where
  "fup_rel name fs m st \<longleftrightarrow>
     length (has st) = MAX_PART_NUMBER \<and> pauses st = 0
     \<and> (\<forall>t < MAX_PART_NUMBER. has st ! t \<longleftrightarrow> m t \<noteq> None)
     \<and> (\<forall>t < MAX_PART_NUMBER. fup_files st (name @ ext ! t) = (case m t of None \<Rightarrow> fs (name @ ext ! t) | Some d \<Rightarrow> Some d))
     \<and> (\<forall>f. f \<notin> (\<lambda>e. name @ e) ` set ext \<longrightarrow> fup_files st f = fs f)"

definition part_list :: "files \<Rightarrow> (string \<times> string) list \<Rightarrow> (16 word \<times> bytes) list" where
  "part_list fs parts = concat (map (\<lambda>(opt, name). map (Pair (part_word opt)) (pieces (the (fs name)))) parts)"

definition parts_of :: "files \<Rightarrow> (string \<times> string) list \<Rightarrow> nat \<rightharpoonup> bytes" where
  "parts_of fs parts n =
     (if (\<exists>(opt, name) \<in> set parts. unat (part_type_c opt) = n)
      then Some (concat (map (\<lambda>(opt, name). the (fs name)) (filter (\<lambda>(opt, name). unat (part_type_c opt) = n) parts)))
      else None)"

text \<open>What \<open>readBlock\<close> does behind the CRC test.\<close>

definition read_rest :: "fup_env \<Rightarrow> string \<Rightarrow> bool \<Rightarrow> bytes \<Rightarrow> fup_state \<Rightarrow> (nat \<times> fup_state) option" where
  "read_rest env name firstBlock d st = do {
     typew \<leftarrow> extractShort d 0;
     let type = unat typew;
     let st = st\<lparr>blockCounterTotal := blockCounterTotal st + 1\<rparr>;
     (if firstBlock \<and> type = 0x10
      then do { v \<leftarrow> extractShort d 14; Some (length d + 2, st) }
      else if type < MAX_PART_NUMBER
      then do {
        let st = open_part name type st;
        let st = st\<lparr>blockCounter := blockCounter st + 1\<rparr>;
        decLen \<leftarrow> extractShort d 2;
        data \<leftarrow> extractAndWrite env (drop 4 d) (length d - 4) (unat decLen);
        st \<leftarrow> write_data env name type data st;
        Some (length d + 2, st)
      }
      else Some (length d + 2, st\<lparr>pauses := pauses st + 1\<rparr>))
   }"

text \<open>An environment with a toy compressor: a run of one byte is stored as that byte.\<close>

definition run_deflate :: "bytes \<Rightarrow> bytes" where
  "run_deflate xs = (if xs \<noteq> [] \<and> list_all (\<lambda>x. x = hd xs) xs then [hd xs] else xs)"

definition run_inflate :: "bytes \<Rightarrow> nat \<Rightarrow> bytes" where
  "run_inflate xs n = replicate n (hd xs)"

definition run_env :: fup_env where
  "run_env = \<lparr>use_zlib = True, deflate = run_deflate, inflate = run_inflate, crc32 = (\<lambda>c xs. c + 1),
     dummy = [], can_write = (\<lambda>n. True), fresh = (\<lambda>n. 0)\<rparr>"

definition demo_files :: files where
  "demo_files = [''k'' \<mapsto> [1, 1, 1, 1, 1], ''r'' \<mapsto> [1, 2, 3]]"

definition demo_parts :: "(string \<times> string) list" where
  "demo_parts = [(''-k'', ''k''), (''-r'', ''r''), (''-k'', ''r'')]"

definition demo_state :: fup_state where
  "demo_state = \<lparr>has = replicate 17 False, fup_files = Map.empty, blockCounter = 0, blockCounterTotal = 0, pauses = 0\<rparr>"

subsection \<open>Lemmas\<close>

lemma length_be16 [simp]: "length (be16 v) = 2" by (simp add: be16_def)

lemma ucast_and_ff: "(ucast (v AND 0xFF) :: byte) = ucast (v :: 16 word)"
  by (rule bit_word_eqI) (auto simp: bit_simps and_masks)

lemma toShort_be16 [simp]: "toShort (ucast (drop_bit 8 v)) (ucast v) = v"
proof -
  have "toShort (ucast (drop_bit 8 v)) (ucast v) = (ucast (ucast v :: byte) OR push_bit 8 (ucast (ucast (drop_bit 8 v) :: byte)))"
    unfolding toShort_def by (rule disjunctive_add) (auto simp: bit_simps)
  also have "\<dots> = v"
  proof (rule bit_word_eqI)
    fix n assume "n < LENGTH(16)"
    then show "bit (ucast (ucast v :: byte) OR push_bit 8 (ucast (ucast (drop_bit 8 v) :: byte)) :: 16 word) n = bit v n"
      by (cases "n < 8") (auto simp: bit_simps)
  qed
  finally show ?thesis .
qed

lemma readShort_be16 [simp]: "readShort (be16 v @ f) = (v, f)"
  by (simp add: be16_def)

lemma extractShort_be16: "length xs = pos \<Longrightarrow> extractShort (xs @ be16 v @ ys) pos = Some v"
  by (auto simp: extractShort_def be16_def nth_append)

lemma insertint16_t_at: "length xs = pos \<Longrightarrow> length old = 2 \<Longrightarrow> insertint16_t (xs @ old @ ys) pos v = Some (xs @ be16 v @ ys)"
  by (auto simp: insertint16_t_def be16_def list_update_append ucast_and_ff numeral_2_eq_2 length_Suc_conv split: nat.split)

lemma length_uninit [simp]: "length (uninit env n) = n" by (simp add: uninit_def)

lemma crc16_full: "crc16 0 d (length d) = Some (crc16_ref 0 d)"
  by (simp add: crc16_value)

lemma crc16_len: "n = length d \<Longrightarrow> crc16 0 d n = Some (crc16_ref 0 d)"
  by (simp add: crc16_full)

lemma four_bytes: "length xs = 4 \<Longrightarrow> \<exists>a b. xs = a @ b \<and> length a = 2 \<and> length b = 2"
  by (rule exI [of _ "take 2 xs"], rule exI [of _ "drop 2 xs"]) simp

lemma block_header: "do { h \<leftarrow> insertint16_t (uninit env 4) 0 v; insertint16_t h 2 w } = Some (be16 v @ be16 w)"
proof -
  obtain a b where u: "uninit env 4 = a @ b" "length a = 2" "length b = 2" using four_bytes [of "uninit env 4"] by auto
  show ?thesis
    using insertint16_t_at [of "[]" 0 a b v] insertint16_t_at [of "be16 v" 2 b "[]" w] u by simp
qed

lemma block_data: "do { d \<leftarrow> insertint16_t (uninit env 4 @ data) 0 v; insertint16_t d 2 w } = Some (be16 v @ be16 w @ data)"
proof -
  obtain a b where u: "uninit env 4 = a @ b" "length a = 2" "length b = 2" using four_bytes [of "uninit env 4"] by auto
  show ?thesis
    using insertint16_t_at [of "[]" 0 a "b @ data" v] insertint16_t_at [of "be16 v" 2 b data w] u by simp
qed

lemma writeBlock_part:
  "writeBlock env (Some f) False t =
     Some (fup_block (part_data env t (take DATA_BLOCKSIZE f)), length (take DATA_BLOCKSIZE f), Some (drop DATA_BLOCKSIZE f))"
proof -
  let ?x = "take DATA_BLOCKSIZE f"
  let ?d = "part_data env t ?x"
  have d: "do { d \<leftarrow> insertint16_t (uninit env 4 @ fup_packed env ?x) 0 t; insertint16_t d 2 (of_nat (length ?x)) } = Some ?d"
    unfolding part_data_def by (rule block_data)
  have l: "length ?d = length (fup_packed env ?x) + 4" by (simp add: part_data_def)
  have h: "do { h \<leftarrow> insertint16_t (uninit env 4) 0 (of_nat (length (fup_packed env ?x) + 6)); insertint16_t h 2 (crc16_ref 0 ?d) }
    = Some (be16 (of_nat (length ?d + 2)) @ be16 (crc16_ref 0 ?d))" unfolding l by (simp add: block_header ac_simps)
  have rc: "readAndCompress env f DATA_BLOCKSIZE = (fup_packed env ?x, length ?x, drop DATA_BLOCKSIZE f)"
    by (simp add: readAndCompress_def fup_packed_def Let_def)
  obtain y where y: "insertint16_t (uninit env 4 @ fup_packed env ?x) 0 t = Some y"
    "insertint16_t y 2 (of_nat (length ?x)) = Some ?d" using d by (auto simp: bind_eq_Some_conv)
  obtain z where z: "insertint16_t (uninit env 4) 0 (of_nat (length (fup_packed env ?x) + 6)) = Some z"
    "insertint16_t z 2 (crc16_ref 0 ?d) = Some (be16 (of_nat (length ?d + 2)) @ be16 (crc16_ref 0 ?d))"
    using h by (auto simp: bind_eq_Some_conv)
  show ?thesis
    using crc16_full [of ?d] unfolding l
    by (simp add: writeBlock_def fup_block_def rc y z l [symmetric] del: length_take of_nat_add)
qed


lemma header_block_data: "header_block env v = Some (be16 v @ concat (map be16 [0x2303, 0, 0, 0xFFFF, 0, 0, 0]))"
  by (simp add: header_block_def uninit_def upt_rec insertint16_t_def be16_def ucast_and_ff)

lemma writeBlock_header:
  "writeBlock env f True 0x10 = Some (fup_block (header_data 0x2303 0xFFFF), 12, f)"
proof -
  let ?d = "header_data 0x2303 0xFFFF"
  have d: "header_block env 0x10 = Some ?d" by (simp add: header_block_data header_data_def)
  have l: "length ?d = 16" by (simp add: header_data_def)
  have h: "do { h \<leftarrow> insertint16_t (uninit env 4) 0 18; insertint16_t h 2 (crc16_ref 0 ?d) }
    = Some (be16 18 @ be16 (crc16_ref 0 ?d))" by (rule block_header)
  show ?thesis
    using d h crc16_full [of ?d] unfolding writeBlock_def fup_block_def by (auto simp: l bind_eq_Some_conv)
qed

lemma pieces_rec:
  "pieces f = (if length f < DATA_BLOCKSIZE then [f] else take DATA_BLOCKSIZE f # pieces (drop DATA_BLOCKSIZE f))"
proof -
  have "full_chunks DATA_BLOCKSIZE f =
    (if length f < DATA_BLOCKSIZE then ([], f)
     else (take DATA_BLOCKSIZE f # fst (full_chunks DATA_BLOCKSIZE (drop DATA_BLOCKSIZE f)),
           snd (full_chunks DATA_BLOCKSIZE (drop DATA_BLOCKSIZE f))))"
    by (subst full_chunks.simps) (simp add: DATA_BLOCKSIZE_def)
  then show ?thesis by (auto simp: pieces_def)
qed

lemma pieces_induct [case_names last more]:
  assumes "\<And>f. length f < DATA_BLOCKSIZE \<Longrightarrow> P f"
    and "\<And>f. DATA_BLOCKSIZE \<le> length f \<Longrightarrow> P (drop DATA_BLOCKSIZE f) \<Longrightarrow> P f"
  shows "P f"
proof (induction "length f" arbitrary: f rule: less_induct)
  case less
  have "length (drop DATA_BLOCKSIZE f) < length f" if "DATA_BLOCKSIZE \<le> length f"
    using that by (simp add: DATA_BLOCKSIZE_def)
  then show ?case using assms less by (cases "length f < DATA_BLOCKSIZE") auto
qed

lemma pieces_last: "length f < DATA_BLOCKSIZE \<Longrightarrow> pieces f = [f]"
  and pieces_more: "DATA_BLOCKSIZE \<le> length f \<Longrightarrow> pieces f = take DATA_BLOCKSIZE f # pieces (drop DATA_BLOCKSIZE f)"
  by (simp_all add: pieces_rec [of f])

lemma concat_pieces: "concat (pieces f) = f"
  by (induction f rule: pieces_induct) (simp_all add: pieces_last pieces_more)

lemma pieces_length: "p \<in> set (pieces f) \<Longrightarrow> length p \<le> DATA_BLOCKSIZE"
  by (induction f rule: pieces_induct) (auto simp: pieces_last pieces_more)

lemma append_file_blocks:
  "append_file env (Some f) t (ird, n) = Some (ird @ part_blocks env t f, n + of_nat (length (pieces f)))"
proof (induction f arbitrary: ird n rule: pieces_induct)
  case (last f)
  then show ?case by (simp add: append_file.simps writeBlock_part part_blocks_def pieces_last)
next
  case (more f)
  then have n: "\<not> length f < DATA_BLOCKSIZE" by simp
  show ?case
    by (subst append_file.simps) (use more n in \<open>simp add: writeBlock_part min_def part_blocks_def pieces_more\<close>)
qed

lemma fread_at_block [simp]: "fread_at env (fup_block d @ rest) 4 (length d) = d"
  by (simp add: fread_at_def fup_block_def be16_def)

lemma refresh_header_block:
  assumes "insertint16_t d pos v = Some d'" "2 \<le> length d"
  shows "refresh_header env (fup_block d @ rest) (length d) pos v = Some (fup_block d' @ rest)"
proof -
  have l: "length d' = length d" using assms by (auto simp: insertint16_t_def split: if_splits)
  then obtain x y ys where d': "d' = [x, y] @ ys" using assms(2) by (cases d' rule: list.exhaust; cases "tl d'" rule: list.exhaust) auto
  have "insertint16_t d' 0 w = Some (be16 w @ ys)" for w
    using insertint16_t_at [of "[]" 0 "[x, y]" ys] d' by simp
  moreover have "crc16 0 d' (length d) = Some (crc16_ref 0 d')" using crc16_full [of d'] l by simp
  moreover have "fwrite_at (fwrite_at (fup_block d @ rest) 4 d') 2 (be16 (crc16_ref 0 d')) = fup_block d' @ rest"
    using l by (simp add: fwrite_at_def fup_block_def drop_append)
  ultimately show ?thesis using assms(1) by (simp add: refresh_header_def Let_def)
qed

lemma header_insert:
  "insertint16_t (header_data r b) 8 v = Some (header_data r v)"
  "insertint16_t (header_data r b) 2 v = Some (header_data v b)"
  by (simp_all add: header_data_def insertint16_t_def be16_def ucast_and_ff)

lemma length_header_data [simp]: "length (header_data r b) = 16"
  by (simp add: header_data_def)

lemma append_parts_blocks:
  assumes "\<forall>(opt, name) \<in> set parts. name \<noteq> img \<and> name \<in> dom fs"
  shows "append_parts env fs img (length (part_args parts)) (part_args parts) (ird, n) =
           Some (ird @ parts_image env fs parts, n + of_nat (parts_count fs parts))"
  using assms
proof (induction parts arbitrary: ird n)
  case Nil
  then show ?case by (simp add: part_args_def parts_image_def parts_count_def)
next
  case (Cons p parts)
  obtain opt name where p: "p = (opt, name)" by (cases p)
  with Cons.prems obtain f where f: "fs name = Some f" "name \<noteq> img" by auto
  have a: "part_args (p # parts) = opt # name # part_args parts" by (simp add: part_args_def p)
  show ?case unfolding a
    using Cons f by (simp add: append_part_def append_file_blocks p parts_image_def parts_count_def part_word_def ac_simps)
qed

lemma length_part_args [simp]: "length (part_args parts) = 2 * length parts"
  by (induction parts) (auto simp: part_args_def)

lemma fup_create_image:
  assumes "can_write env img" "length parts < 128" "\<forall>(opt, name) \<in> set parts. name \<noteq> img \<and> name \<in> dom fs"
  shows "fup_create env fs img (part_args parts) = Some (fs(img \<mapsto> fup_image env fs parts))"
proof -
  let ?n = "of_nat (parts_count fs parts)"
  have "append_parts env fs img (2 * length parts) (part_args parts) (fup_block (header_data 0x2303 0xFFFF), 0) =
    Some (fup_block (header_data 0x2303 0xFFFF) @ parts_image env fs parts, ?n)"
    using append_parts_blocks [OF assms(3), of env "fup_block (header_data 0x2303 0xFFFF)" 0] by simp
  moreover have "refresh_header env (fup_block (header_data 0x2303 0xFFFF) @ parts_image env fs parts) 16 8 ?n
    = Some (fup_image env fs parts)"
    using refresh_header_block [OF header_insert(1)] by (simp add: fup_image_def)
  ultimately show ?thesis using assms(1,2) by (simp add: fup_create_def writeBlock_header)
qed

lemma length_ext: "length ext = MAX_PART_NUMBER" by (simp add: ext_def MAX_PART_NUMBER_def)

lemma ext_inj: "t < MAX_PART_NUMBER \<Longrightarrow> u < MAX_PART_NUMBER \<Longrightarrow> ext ! t = ext ! u \<longleftrightarrow> t = u"
proof -
  have "distinct ext" by (simp add: ext_def)
  then show "t < MAX_PART_NUMBER \<Longrightarrow> u < MAX_PART_NUMBER \<Longrightarrow> ext ! t = ext ! u \<longleftrightarrow> t = u"
    by (simp add: nth_eq_iff_index_eq length_ext)
qed

lemma unpack:
  assumes "zlib_ok env"
  shows "extractAndWrite env (fup_packed env xs) (length (fup_packed env xs)) (length xs) = Some xs"
  using assms by (auto simp: extractAndWrite_def fup_packed_def zlib_ok_def)

lemma length_fup_packed: "length (fup_packed env xs) \<le> length xs"
  by (simp add: fup_packed_def)

lemma unat_len16: "n < 65536 \<Longrightarrow> unat (of_nat n :: 16 word) = n"
  by (simp add: unat_of_nat take_bit_nat_eq_self)

lemma open_part_rel:
  assumes "fup_rel name fs m st" "t < MAX_PART_NUMBER"
  shows "fup_rel name fs (add_part (t, []) m) (open_part name t st)"
  using assms ext_inj length_ext unfolding fup_rel_def open_part_def add_part_def
  by (auto simp: nth_list_update split: option.splits)

lemma write_data_rel:
  assumes "fup_rel name fs m st" "t < MAX_PART_NUMBER" "m t \<noteq> None" "can_write env (name @ ext ! t)"
  shows "\<exists>st'. write_data env name t d st = Some st' \<and> fup_rel name fs (add_part (t, d) m) st'"
  using assms ext_inj length_ext unfolding fup_rel_def write_data_def add_part_def
  by (auto split: option.splits)

lemma readBlock_part:
  assumes "zlib_ok env" "fup_rel name fs m st" "unat t < MAX_PART_NUMBER" "length xs \<le> DATA_BLOCKSIZE"
    "can_write env (name @ ext ! unat t)"
  shows "\<exists>st'. (\<forall>rest. readBlock env name False (fup_block (part_data env t xs) @ rest) st =
           Some (length (part_data env t xs) + 2, st')) \<and> fup_rel name fs (add_part (unat t, xs) m) st'"
proof -
  let ?d = "part_data env t xs"
  let ?st = "(open_part name (unat t) (st\<lparr>blockCounterTotal := blockCounterTotal st + 1\<rparr>))"
  let ?st' = "?st\<lparr>blockCounter := blockCounter ?st + 1\<rparr>"
  have l: "length ?d = length (fup_packed env xs) + 4" by (simp add: part_data_def)
  have n: "unat (of_nat (length ?d + 2) :: 16 word) = length ?d + 2"
    using length_fup_packed [of env xs] assms(4) by (intro unat_len16) (simp add: l DATA_BLOCKSIZE_def)
  have x: "unat (of_nat (length xs) :: 16 word) = length xs"
    using assms(4) by (intro unat_len16) (simp add: DATA_BLOCKSIZE_def)
  have t: "extractShort ?d 0 = Some t" "extractShort ?d 2 = Some (of_nat (length xs))"
    using extractShort_be16 [of "[]" 0 t] extractShort_be16 [of "be16 t" 2 "of_nat (length xs)" "fup_packed env xs"]
    by (simp_all add: part_data_def)
  have "fup_rel name fs m (st\<lparr>blockCounterTotal := blockCounterTotal st + 1\<rparr>)" using assms(2) by (simp add: fup_rel_def)
  from open_part_rel [OF this assms(3)]
  have o: "fup_rel name fs (add_part (unat t, []) m) ?st'" by (simp add: fup_rel_def)
  have "add_part (unat t, []) m (unat t) \<noteq> None" by (simp add: add_part_def)
  from write_data_rel [OF o assms(3) this assms(5)] obtain st' where
    w: "write_data env name (unat t) xs ?st' = Some st'" "fup_rel name fs (add_part (unat t, xs) (add_part (unat t, []) m)) st'"
    by blast
  have m: "add_part (unat t, xs) (add_part (unat t, []) m) = add_part (unat t, xs) m"
    by (auto simp: add_part_def split: option.splits)
  have u: "extractAndWrite env (drop 4 ?d) (length ?d - 4) (length xs) = Some xs"
    using unpack [OF assms(1), of xs] by (simp add: part_data_def l [unfolded part_data_def] be16_def)
  have "readBlock env name False (fup_block ?d @ rest) st = Some (length ?d + 2, st')" for rest
    using n x t u w(1) assms(3)
    by (simp add: readBlock_def fup_block_def Let_def l crc16_len)
  with w(2) m show ?thesis by auto
qed


lemma extract_step:
  assumes "readBlock env name firstBlock (fup_block d @ rest) st = Some (length d + 2, st')"
  shows "extract_loop env name firstBlock (fup_block d @ rest) st = extract_loop env name False rest st'"
proof -
  have "drop (length d + 2 + 2) (fup_block d @ rest) = rest" by (simp add: fup_block_def)
  with assms show ?thesis by (subst extract_loop.simps) (simp del: drop_append)
qed

lemma extract_blocks:
  assumes "zlib_ok env" "fup_rel name fs m st" "\<forall>e \<in> set ext. can_write env (name @ e)"
    "\<forall>(t, xs) \<in> set bs. unat t < MAX_PART_NUMBER \<and> length xs \<le> DATA_BLOCKSIZE"
  shows "\<exists>st'. extract_loop env name False (concat (map (\<lambda>(t, xs). fup_block (part_data env t xs)) bs)) st = Some st'
           \<and> fup_rel name fs (fold (\<lambda>(t, xs). add_part (unat t, xs)) bs m) st'"
  using assms(2,4)
proof (induction bs arbitrary: m st)
  case Nil
  then show ?case by (simp add: extract_loop.simps readBlock_def)
next
  case (Cons b bs)
  obtain t xs where b: "b = (t, xs)" by (cases b)
  have "ext ! unat t \<in> set ext" using Cons.prems b length_ext by (intro nth_mem) auto
  then have "can_write env (name @ ext ! unat t)" using assms(3) by blast
  then obtain st' where
    r: "\<And>rest. readBlock env name False (fup_block (part_data env t xs) @ rest) st = Some (length (part_data env t xs) + 2, st')"
    "fup_rel name fs (add_part (unat t, xs) m) st'"
    using readBlock_part [OF assms(1) Cons.prems(1), of t xs] Cons.prems(2) b by auto
  from r(1) have "extract_loop env name False (fup_block (part_data env t xs) @ rest) st = extract_loop env name False rest st'" for rest
    by (rule extract_step)
  then show ?case using Cons.IH [OF r(2)] Cons.prems(2) b by simp
qed


lemma parts_image_blocks:
  "parts_image env fs parts = concat (map (\<lambda>(t, xs). fup_block (part_data env t xs)) (part_list fs parts))"
  by (induction parts) (auto simp: parts_image_def part_list_def part_blocks_def comp_def)

lemma part_word_less: "unat (part_word opt) < MAX_PART_NUMBER"
  by (simp add: part_word_def part_type_c_def MAX_PART_NUMBER_def)

lemma part_list_ok: "\<forall>(t, xs) \<in> set (part_list fs parts). unat t < MAX_PART_NUMBER \<and> length xs \<le> DATA_BLOCKSIZE"
  by (auto simp: part_list_def part_word_less dest: pieces_length)

lemma readBlock_header:
  "readBlock env name True (fup_block (header_data r b) @ rest) st =
     Some (length (header_data r b) + 2, st\<lparr>blockCounterTotal := blockCounterTotal st + 1\<rparr>)"
proof -
  have "extractShort (header_data r b) 0 = Some 0x10" "extractShort (header_data r b) 14 = Some 0"
    using extractShort_be16 [of "[]" 0 "0x10"] extractShort_be16 [of "concat (map be16 [0x10, r, 0, 0, b, 0, 0])" 14 0 "[]"]
    by (simp_all add: header_data_def)
  then show ?thesis by (simp add: readBlock_def fup_block_def Let_def crc16_len)
qed

lemma fold_add_part:
  "fold (\<lambda>(t, xs). add_part (unat t, xs)) bs m n =
     (if (\<exists>(t, xs) \<in> set bs. unat t = n)
      then Some (case_option [] id (m n) @ concat (map snd (filter (\<lambda>(t, xs). unat t = n) bs))) else m n)"
  by (induction bs arbitrary: m) (auto simp: add_part_def split: option.splits)

lemma part_list_data:
  "concat (map snd (filter (\<lambda>(t, xs). unat t = n) (part_list fs parts))) =
     concat (map (\<lambda>(opt, name). the (fs name)) (filter (\<lambda>(opt, name). unat (part_word opt) = n) parts))"
proof (induction parts)
  case (Cons p parts)
  obtain opt name where p: "p = (opt, name)" by (cases p)
  have "map snd (filter (\<lambda>(t, xs). unat t = n) (map (Pair (part_word opt)) ps)) = (if unat (part_word opt) = n then ps else [])" for ps
    by (induction ps) auto
  with Cons show ?case by (simp add: part_list_def p concat_pieces comp_def)
qed (simp add: part_list_def)

lemma part_list_types:
  "(\<exists>(t, xs) \<in> set (part_list fs parts). unat t = n) \<longleftrightarrow> (\<exists>(opt, name) \<in> set parts. unat (part_word opt) = n)"
proof -
  have m: "(t, xs) \<in> set (part_list fs parts) \<longleftrightarrow>
    (\<exists>opt name. (opt, name) \<in> set parts \<and> t = part_word opt \<and> xs \<in> set (pieces (the (fs name))))" for t xs
    by (auto simp: part_list_def)
  have "\<exists>xs. xs \<in> set (pieces f)" for f by (auto simp: pieces_def)
  then show ?thesis unfolding Bex_def split_paired_Ex m by blast
qed

lemma unat_part_word: "unat (part_word opt) = unat (part_type_c opt)"
  using unat_byte_less [of "part_type_c opt"] by (simp add: part_word_def unsigned_ucast_eq take_bit_eq_mod)

lemma parts_of_fold: "fold (\<lambda>(t, xs). add_part (unat t, xs)) (part_list fs parts) Map.empty = parts_of fs parts"
  by (rule ext) (simp add: fold_add_part part_list_types part_list_data parts_of_def unat_part_word)

lemma extract_image:
  assumes "zlib_ok env" "\<forall>e \<in> set ext. can_write env (img @ e)"
    "fs' img = Some (fup_block (header_data r b) @ parts_image env fs parts)"
    "length (fup_block (header_data r b) @ parts_image env fs parts) < 2 ^ 31"
  shows "\<exists>st. fup_extract env fs' img = Some st \<and> fup_rel img fs' (parts_of fs parts) st"
proof -
  let ?st = "\<lparr>has = replicate MAX_PART_NUMBER False, fup_files = fs', blockCounter = 0, blockCounterTotal = 1, pauses = 0\<rparr>"
  have "fup_rel img fs' Map.empty ?st" by (simp add: fup_rel_def)
  from extract_blocks [OF assms(1) this assms(2) part_list_ok [of fs parts]]
  obtain st where "extract_loop env img False (parts_image env fs parts) ?st = Some st" "fup_rel img fs' (parts_of fs parts) st"
    by (auto simp: parts_image_blocks parts_of_fold)
  moreover have "extract_loop env img True (fup_block (header_data r b) @ parts_image env fs parts) (?st\<lparr>blockCounterTotal := 0\<rparr>)
    = extract_loop env img False (parts_image env fs parts) ?st"
    using extract_step [OF readBlock_header] by simp
  ultimately show ?thesis using assms(3,4) by (simp add: fup_extract_def)
qed

lemma open_part_pauses: "open_part name t (st\<lparr>pauses := p\<rparr>) = (open_part name t st)\<lparr>pauses := p\<rparr>"
  by (simp add: open_part_def)

lemma write_data_pauses:
  "write_data env name t d (st\<lparr>pauses := p\<rparr>) = map_option (\<lambda>s. s\<lparr>pauses := p\<rparr>) (write_data env name t d st)"
  by (cases st) (auto simp: write_data_def option.map_comp comp_def)

lemma open_part_same_pauses [simp]: "pauses (open_part name t st) = pauses st"
  by (simp add: open_part_def)

lemma write_data_same_pauses: "write_data env name t d st = Some st' \<Longrightarrow> pauses st' = pauses st"
  by (auto simp: write_data_def split: if_splits)

lemma pauses_update_last [simp]:
  "st\<lparr>pauses := p, blockCounter := c\<rparr> = st\<lparr>blockCounter := c, pauses := p\<rparr>"
  "st\<lparr>pauses := p, blockCounterTotal := c\<rparr> = st\<lparr>blockCounterTotal := c, pauses := p\<rparr>"
  by (cases st; simp)+

lemma readBlock_any:
  assumes "d \<noteq> []" "unat w = length d + 2"
  shows "readBlock env name firstBlock (be16 w @ be16 crc @ d @ rest) st =
    read_rest env name firstBlock d (if crc \<noteq> crc16_ref 0 d then st\<lparr>pauses := pauses st + 1\<rparr> else st)"
  using assms by (simp add: readBlock_def read_rest_def Let_def crc16_full cong: if_cong)

lemma read_rest_pause:
  "read_rest env name firstBlock d (st\<lparr>pauses := pauses st + 1\<rparr>) =
     map_option (\<lambda>(n, s). (n, s\<lparr>pauses := pauses s + 1\<rparr>)) (read_rest env name firstBlock d st)"
proof -
  have w: "map_option (\<lambda>s. s\<lparr>pauses := pauses st + 1\<rparr>) (write_data env name t x st') =
    map_option (\<lambda>s. s\<lparr>pauses := pauses s + 1\<rparr>) (write_data env name t x st')" if "pauses st' = pauses st" for t x st'
    using that by (cases "write_data env name t x st'") (auto dest: write_data_same_pauses)
  show ?thesis
  proof (cases "extractShort d 0")
    case (Some v)
    let ?s = "open_part name (unat v) (st\<lparr>blockCounterTotal := blockCounterTotal st + 1\<rparr>)"
    let ?s' = "?s\<lparr>blockCounter := blockCounter ?s + 1\<rparr>"
    have o: "open_part name (unat v) (st\<lparr>pauses := pauses st + 1, blockCounterTotal := blockCounterTotal st + 1\<rparr>)
      = ?s\<lparr>pauses := pauses st + 1\<rparr>"
      using open_part_pauses [of name "unat v" "pauses st + 1" "st\<lparr>blockCounterTotal := blockCounterTotal st + 1\<rparr>"] by simp
    have "write_data env name (unat v) x (?s\<lparr>pauses := pauses st + 1, blockCounter := blockCounter ?s + 1\<rparr>)
      = map_option (\<lambda>s. s\<lparr>pauses := pauses s + 1\<rparr>) (write_data env name (unat v) x ?s')" for x
      using write_data_pauses [of env name "unat v" x "pauses st + 1" ?s'] w [of ?s' "unat v" x] by simp
    with Some o show ?thesis
      by (auto simp: read_rest_def Let_def map_option_bind comp_def bind_map_option split: option.splits)
  qed (simp add: read_rest_def)
qed

lemma fread_into_0: "xs \<noteq> [] \<Longrightarrow> fread_into buffer xs 0 = hd xs"
  by (simp add: fread_into_def hd_conv_nth)

lemma footer_at_end:
  assumes "length footer = 4"
  shows "footer_at (fread_into buffer (f @ footer)) (length f + 4) =
    push_bit 24 (ucast (footer ! 3)) + push_bit 16 (ucast (footer ! 2)) + push_bit 8 (ucast (footer ! 1)) + ucast (footer ! 0)"
  using assms by (simp add: footer_at_def fread_into_def nth_append)

lemma byte_sum_or:
  "push_bit 24 (ucast (d :: byte)) + push_bit 16 (ucast (c :: byte)) + push_bit 8 (ucast (b :: byte)) + ucast (a :: byte)
   = (push_bit 24 (ucast d) OR push_bit 16 (ucast c) OR push_bit 8 (ucast b) OR ucast a :: u32)"
proof -
  have "push_bit 24 (ucast d) + push_bit 16 (ucast c) = (push_bit 24 (ucast d) OR push_bit 16 (ucast c) :: u32)"
    by (rule disjunctive_add) (auto simp: bit_simps)
  moreover have "\<dots> + push_bit 8 (ucast b) = ((push_bit 24 (ucast d) OR push_bit 16 (ucast c)) OR push_bit 8 (ucast b) :: u32)"
    by (rule disjunctive_add) (auto simp: bit_simps)
  moreover have "\<dots> + ucast a = (((push_bit 24 (ucast d) OR push_bit 16 (ucast c)) OR push_bit 8 (ucast b)) OR ucast a :: u32)"
    by (rule disjunctive_add) (auto simp: bit_simps)
  ultimately show ?thesis by (simp add: or.assoc)
qed

lemma le_footer_sum:
  "push_bit 24 (ucast (le_footer w ! 3)) + push_bit 16 (ucast (le_footer w ! 2)) + push_bit 8 (ucast (le_footer w ! 1)) + ucast (le_footer w ! 0) = w"
  unfolding byte_sum_or
proof (rule bit_word_eqI)
  fix n assume "n < LENGTH(32)"
  then consider "n < 8" | "8 \<le> n" "n < 16" | "16 \<le> n" "n < 24" | "24 \<le> n" "n < 32" by force
  then show "bit (push_bit 24 (ucast (le_footer w ! 3)) OR push_bit 16 (ucast (le_footer w ! 2)) OR push_bit 8 (ucast (le_footer w ! 1))
      OR ucast (le_footer w ! 0) :: u32) n = bit w n"
    by cases (auto simp: le_footer_def bit_simps)
qed

text \<open>The two loops agree on a file and the same file with a footer that stays in its last piece.\<close>

lemma sign_test_loops:
  assumes "0 < length f mod 0x2710" "length footer = 4"
  shows "\<exists>crc. sign_loop env f buffer c out = (out @ f, crc)
    \<and> test_loop env (f @ footer) buffer' c org =
        (if length f mod 0x2710 < 0x270C
         then Some (crc, push_bit 24 (ucast (footer ! 3)) + push_bit 16 (ucast (footer ! 2)) + push_bit 8 (ucast (footer ! 1)) + ucast (footer ! 0))
         else None)"
  using assms(1)
proof (induction "length f" arbitrary: f buffer buffer' c out org rule: less_induct)
  case less
  have ne: "f \<noteq> []" using less.prems by auto
  consider "length f < 0x270C" | "0x270C \<le> length f" "length f < 0x2710" | "0x2710 \<le> length f" by linarith
  then show ?case
  proof cases
    case 1
    with ne assms(2) show ?thesis
      by (subst sign_loop.simps, subst test_loop.simps) (simp add: Let_def fread_into_0 footer_at_end)
  next
    case 2
    let ?rest = "drop (0x2710 - length f) footer"
    have t: "take 0x2710 (f @ footer) = f @ take (0x2710 - length f) footer" "drop 0x2710 (f @ footer) = ?rest"
      using 2 by simp_all
    have l: "length (take 0x2710 (f @ footer)) = 0x2710" "\<not> length (f @ footer) < 0x2710" "length ?rest < 4" using 2 assms(2) by auto
    have "test_loop env ?rest b c' o' = None" for b c' o' using l(3) by (subst test_loop.simps) (simp add: Let_def)
    then show ?thesis using 2 t(2) l(1,2)
      by (subst sign_loop.simps, subst test_loop.simps) (simp add: Let_def)
  next
    case 3
    let ?g = "drop 0x2710 f" and ?h = "take 0x2710 f"
    have h: "?h \<noteq> []" using ne by simp
    have m: "length ?g mod 0x2710 = length f mod 0x2710" using 3 by (simp add: le_mod_geq)
    have "length ?g < length f" using 3 by simp
    from less.hyps [OF this, of "fread_into buffer ?h" "crc32 env c [hd ?h]" "out @ ?h" "fread_into buffer' ?h" org] less.prems m
    show ?thesis using 3 h m
      by (subst sign_loop.simps, subst test_loop.simps) (simp add: Let_def fread_into_0 del: length_drop)
  qed
qed

lemma reseller_image:
  assumes "sscanf_x arg = Some v" "can_write env img" "fs img = Some (fup_block (header_data r b) @ rest)"
  shows "fup_reseller env fs img arg = Some (fs(img \<mapsto> fup_block (header_data (ucast (v AND 0xFFFF)) b) @ rest))"
proof -
  have "ucast (fst (readShort (fup_block (header_data r b) @ rest))) - 2 = (16 :: byte)"
    by (simp add: fup_block_def)
  then show ?thesis
    using assms refresh_header_block [OF header_insert(2)] by (simp add: fup_reseller_def)
qed

lemma run_env_zlib: "zlib_ok run_env"
proof -
  have "inflate run_env (deflate run_env xs) (length xs) = xs" if "length (deflate run_env xs) < length xs" for xs
  proof (cases "xs \<noteq> [] \<and> list_all (\<lambda>x. x = hd xs) xs")
    case True
    then have "xs = replicate (length xs) (hd xs)" by (intro replicate_eqI) (auto simp: list_all_iff)
    with True show ?thesis by (simp add: run_env_def run_deflate_def run_inflate_def)
  next
    case False
    with that show ?thesis by (auto simp: run_env_def run_deflate_def)
  qed
  then show ?thesis by (simp add: zlib_ok_def)
qed

lemma demo_parts_ok: "\<forall>(opt, name) \<in> set demo_parts. name \<noteq> ''i'' \<and> name \<in> dom demo_files"
  by (simp add: demo_parts_def demo_files_def)

lemma demo_parts_of:
  "parts_of demo_files demo_parts 6 = Some [1, 1, 1, 1, 1, 1, 2, 3]"
  "parts_of demo_files demo_parts 8 = Some [1, 2, 3]" "parts_of demo_files demo_parts 5 = None"
  by (simp_all add: parts_of_def demo_parts_def demo_files_def part_type_c_def strncmp_eq_def)

lemma demo_pieces: "pieces [1, 1, 1, 1, 1 :: byte] = [[1, 1, 1, 1, 1]]" "pieces [1, 2, 3 :: byte] = [[1, 2, 3]]"
  by (simp_all add: pieces_last DATA_BLOCKSIZE_def)

lemma demo_image_length: "length (fup_image run_env demo_files demo_parts) < 2 ^ 31"
  by (simp add: fup_image_def parts_image_def demo_parts_def demo_files_def part_blocks_def demo_pieces fup_block_def
      part_data_def fup_packed_def run_env_def run_deflate_def)

lemma demo_created:
  "fup_main run_env demo_files (''fup'' # ''-c'' # ''i'' # part_args demo_parts) = Some (fup_done (demo_files(''i'' \<mapsto> fup_image run_env demo_files demo_parts)))"
proof -
  have "can_write run_env ''i''" "length demo_parts < 128" by (simp_all add: run_env_def demo_parts_def)
  from fup_create_image [OF this demo_parts_ok] show ?thesis by (simp add: fup_main_def is_option_def strncmp_eq_def)
qed

subsection \<open>Properties\<close>

text \<open>
  Claim C28. Packing and unpacking. With a zlib whose \<open>inflate\<close> inverts its \<open>deflate\<close>, any list of fewer than
  128 parts whose files exist is fup_packed into an image, and unpacking that image (below 2 GB) ends
  with exit code 0, never waits for a key because of a damaged block, and writes for each part
  type the contents of the files of that type one after the other; files of other types are left alone.
\<close>

theorem fup_roundtrip:
  assumes "zlib_ok env" "can_write env img" "\<forall>e \<in> set ext. can_write env (img @ e)"
    and "length parts < 128" "\<forall>(opt, name) \<in> set parts. name \<noteq> img \<and> name \<in> dom fs"
  shows "\<exists>r image. fup_main env fs (prog # ''-c'' # img # part_args parts) = Some r
    \<and> exit_code r = 0 \<and> result_files r = fs(img \<mapsto> image)
    \<and> (length image < 2 ^ 31 \<longrightarrow>
         (\<exists>r'. fup_main env (fs(img \<mapsto> image)) [prog, ''-x'', img] = Some r'
            \<and> exit_code r' = 0 \<and> result_pauses r' = 0
            \<and> (\<forall>t < MAX_PART_NUMBER. result_files r' (img @ ext ! t) =
                 (case parts_of fs parts t of None \<Rightarrow> fs (img @ ext ! t) | Some content \<Rightarrow> Some content))))"
proof -
  let ?image = "fup_image env fs parts" and ?fs = "fs(img \<mapsto> fup_image env fs parts)"
  have c: "fup_main env fs (prog # ''-c'' # img # part_args parts) = Some (fup_done ?fs)"
    using fup_create_image [OF assms(2,4,5)] by (simp add: fup_main_def is_option_def strncmp_eq_def)
  have e: "ext ! t \<noteq> []" if "t < MAX_PART_NUMBER" for t
  proof -
    have "ext ! t \<in> set ext" "[] \<notin> set ext" using that by (simp_all add: length_ext) (simp add: ext_def)
    then show ?thesis by metis
  qed
  have "\<exists>st. fup_extract env ?fs img = Some st \<and> fup_rel img ?fs (parts_of fs parts) st" if "length ?image < 2 ^ 31"
    using extract_image [OF assms(1,3), of ?fs] that by (simp add: fup_image_def)
  then have x: "\<exists>r'. fup_main env ?fs [prog, ''-x'', img] = Some r' \<and> exit_code r' = 0 \<and> result_pauses r' = 0
      \<and> (\<forall>t < MAX_PART_NUMBER. result_files r' (img @ ext ! t) =
             (case parts_of fs parts t of None \<Rightarrow> fs (img @ ext ! t) | Some content \<Rightarrow> Some content))" if "length ?image < 2 ^ 31"
    using that e by (auto simp: fup_main_def is_option_def strncmp_eq_def fup_done_def fup_rel_def split: option.splits)
  show ?thesis
    by (rule exI [of _ "fup_done ?fs"], rule exI [of _ ?image]) (use c x in \<open>auto simp: fup_done_def\<close>)
qed

theorem fup_roundtrip_witness:
  "\<exists>r. fup_main run_env (demo_files(''i'' \<mapsto> fup_image run_env demo_files demo_parts)) [''fup'', ''-x'', ''i''] = Some r
     \<and> result_pauses r = 0 \<and> result_files r ''i.kernel.mtd6'' = Some [1, 1, 1, 1, 1, 1, 2, 3]
     \<and> result_files r ''i.rootfs.mtd8'' = Some [1, 2, 3] \<and> result_files r ''i.configA.mtd5'' = None"
proof -
  have w: "can_write run_env ''i''" "\<forall>e \<in> set ext. can_write run_env (''i'' @ e)" "length demo_parts < 128"
    by (simp_all add: run_env_def demo_parts_def)
  from fup_roundtrip [OF run_env_zlib w demo_parts_ok, of "''fup''"]
  obtain r image where "fup_main run_env demo_files (''fup'' # ''-c'' # ''i'' # part_args demo_parts) = Some r"
    "result_files r = demo_files(''i'' \<mapsto> image)" and
    x: "length image < 2 ^ 31 \<longrightarrow>
         (\<exists>r'. fup_main run_env (demo_files(''i'' \<mapsto> image)) [''fup'', ''-x'', ''i''] = Some r'
            \<and> exit_code r' = 0 \<and> result_pauses r' = 0
            \<and> (\<forall>t < MAX_PART_NUMBER. result_files r' (''i'' @ ext ! t) =
                 (case parts_of demo_files demo_parts t of None \<Rightarrow> demo_files (''i'' @ ext ! t) | Some content \<Rightarrow> Some content)))"
    by blast
  then have i: "image = fup_image run_env demo_files demo_parts"
    by (auto simp: demo_created fup_done_def dest!: fun_cong [where x = "''i''"])
  with x demo_image_length obtain r' where r': "fup_main run_env (demo_files(''i'' \<mapsto> image)) [''fup'', ''-x'', ''i''] = Some r'"
    "result_pauses r' = 0" and
    t: "\<And>t. t < MAX_PART_NUMBER \<Longrightarrow> result_files r' (''i'' @ ext ! t) =
                 (case parts_of demo_files demo_parts t of None \<Rightarrow> demo_files (''i'' @ ext ! t) | Some content \<Rightarrow> Some content)"
    by blast
  have "result_files r' ''i.kernel.mtd6'' = Some [1, 1, 1, 1, 1, 1, 2, 3]" "result_files r' ''i.rootfs.mtd8'' = Some [1, 2, 3]"
    "result_files r' ''i.configA.mtd5'' = None"
    using t [of 6] t [of 8] t [of 5] by (simp_all add: demo_parts_of MAX_PART_NUMBER_def ext_def) (simp add: demo_files_def)
  with r' i show ?thesis by blast
qed

text \<open>
  Claim C30. A changed byte is noticed and has no consequence: a block one byte of which was changed is processed
  exactly like an intact block with the changed data, except that the tool waits for a key once more.
\<close>

theorem fup_detects:
  assumes "a \<noteq> b" "length xs + length ys < 65533"
  shows "readBlock env name firstBlock
           (be16 (of_nat (length xs + length ys + 3)) @ be16 (crc16_ref 0 (xs @ a # ys)) @ (xs @ b # ys) @ rest) st =
         map_option (\<lambda>(n, s). (n, s\<lparr>pauses := pauses s + 1\<rparr>))
           (readBlock env name firstBlock (fup_block (xs @ b # ys) @ rest) st)"
proof -
  let ?w = "of_nat (length xs + length ys + 3) :: 16 word"
  have l: "length (xs @ b # ys) + 2 = length xs + length ys + 3" by simp
  have w: "unat ?w = length (xs @ b # ys) + 2" unfolding l using assms(2) by (intro unat_len16) simp
  have r: "readBlock env name firstBlock (be16 ?w @ be16 c @ (xs @ b # ys) @ rest) st =
    read_rest env name firstBlock (xs @ b # ys) (if c \<noteq> crc16_ref 0 (xs @ b # ys) then st\<lparr>pauses := pauses st + 1\<rparr> else st)" for c
    by (rule readBlock_any [OF _ w]) simp
  show ?thesis using assms(1) unfolding fup_block_def l append_assoc r [unfolded append_assoc]
    by (simp add: read_rest_pause [unfolded Suc_eq_plus1 [symmetric]] crc16_one_byte)
qed

theorem fup_detects_witness:
  "readBlock run_env ''i'' False (be16 9 @ be16 (crc16_ref 0 ([0, 6, 0] @ 3 # [1, 2, 3])) @ ([0, 6, 0] @ 4 # [1, 2, 3]) @ []) demo_state =
     map_option (\<lambda>(n, s). (n, s\<lparr>pauses := pauses s + 1\<rparr>)) (readBlock run_env ''i'' False (fup_block ([0, 6, 0] @ 4 # [1, 2, 3]) @ []) demo_state)"
  using fup_detects [of 3 4 "[0, 6, 0]" "[1, 2, 3]" run_env "''i''" False "[]" demo_state] by simp

text \<open>
  Signing a partition whose length is no multiple of 10000 copies it and appends the footer in
  little endian order. Testing the signed file prints this footer twice if the footer still
  fits in the last piece of 10000 bytes; otherwise the test reads in front of its buffer.
\<close>

theorem fup_sign_test:
  assumes "fs name = Some f" "length name \<le> 113" "can_write env (name @ ''.signed'')" "0 < length f mod 10000"
  shows "\<exists>r crc. fup_main env fs [prog, ''-s'', name] = Some r \<and> exit_code r = 0 \<and> footers r = [crc]
    \<and> result_files r = fs(name @ ''.signed'' \<mapsto> f @ le_footer crc)
    \<and> map_option footers (fup_main env (result_files r) [prog, ''-t'', name @ ''.signed'']) =
        (if length f mod 10000 < 9996 then Some [crc, crc] else None)"
proof -
  obtain crc where s: "sign_loop env f (fresh env) 0 [] = (f, crc)"
    using sign_test_loops [of f "le_footer 0" env "fresh env" 0 "[]"] assms(4) by (auto simp: le_footer_def)
  let ?fs = "fs(name @ ''.signed'' \<mapsto> f @ le_footer crc)"
  have l: "length (le_footer crc) = 4" by (simp add: le_footer_def)
  have t: "test_loop env (f @ le_footer crc) (fresh env) 0 0 = (if length f mod 10000 < 9996 then Some (crc, crc) else None)"
    using sign_test_loops [of f "le_footer crc" env "fresh env" 0 "[]" "fresh env" 0, unfolded le_footer_sum] assms(4) l s by simp
  have "fup_main env fs [prog, ''-s'', name] = Some ((fup_done ?fs)\<lparr>footers := [crc]\<rparr>)"
    using assms s by (simp add: fup_main_def is_option_def strncmp_eq_def fup_sign_def)
  then show ?thesis
    using t by (simp add: fup_main_def is_option_def strncmp_eq_def fup_test_def fup_done_def)
qed

theorem fup_sign_test_witness:
  "\<exists>r crc. fup_main run_env [''p'' \<mapsto> [7, 8, 9]] [''fup'', ''-s'', ''p''] = Some r \<and> footers r = [crc]
     \<and> map_option footers (fup_main run_env (result_files r) [''fup'', ''-t'', ''p.signed'']) = Some [crc, crc]"
  using fup_sign_test [of "[''p'' \<mapsto> [7, 8, 9]]" "''p''" "[7, 8, 9]" run_env "''fup''"]
  by (auto simp: run_env_def)

text \<open>
  Changing the reseller id of a new image stores the low 16 bits of the number in the
  header, leaves everything behind them as it was, and keeps the header's CRC valid: unpacking never waits.
\<close>

theorem fup_reseller_kept:
  assumes "zlib_ok env" "can_write env img" "\<forall>e \<in> set ext. can_write env (img @ e)"
    and "length parts < 128" "\<forall>(opt, name) \<in> set parts. name \<noteq> img \<and> name \<in> dom fs"
    and "sscanf_x arg = Some v" "length (fup_image env fs parts) < 2 ^ 31"
  shows "\<exists>r r' r'' image. fup_main env fs (prog # ''-c'' # img # part_args parts) = Some r
    \<and> fup_main env (result_files r) [prog, ''-r'', img, arg] = Some r'
    \<and> result_files r' img = Some image \<and> extractShort image 6 = Some (ucast v)
    \<and> drop 8 image = drop 8 (fup_image env fs parts)
    \<and> fup_main env (result_files r') [prog, ''-x'', img] = Some r'' \<and> result_pauses r'' = 0"
proof -
  let ?n = "of_nat (parts_count fs parts)"
  let ?i = "fup_image env fs parts" and ?j = "fup_block (header_data (ucast (v AND 0xFFFF)) ?n) @ parts_image env fs parts"
  have c: "fup_main env fs (prog # ''-c'' # img # part_args parts) = Some (fup_done (fs(img \<mapsto> ?i)))"
    using fup_create_image [OF assms(2,4,5)] by (simp add: fup_main_def is_option_def strncmp_eq_def)
  have r: "fup_main env (fs(img \<mapsto> ?i)) [prog, ''-r'', img, arg] = Some (fup_done (fs(img \<mapsto> ?j)))"
    using reseller_image [OF assms(6,2), of "fs(img \<mapsto> ?i)"] by (simp add: fup_main_def is_option_def strncmp_eq_def fup_image_def)
  have l: "length ?j = length ?i" by (simp add: fup_image_def fup_block_def)
  obtain st where "fup_extract env (fs(img \<mapsto> ?j)) img = Some st" "pauses st = 0"
    using extract_image [OF assms(1,3), of "fs(img \<mapsto> ?j)" "ucast (v AND 0xFFFF)" ?n fs parts] l assms(7) by (auto simp: fup_rel_def)
  then have x: "fup_main env (fs(img \<mapsto> ?j)) [prog, ''-x'', img] = Some (fup_done (fup_files st))"
    by (simp add: fup_main_def is_option_def strncmp_eq_def fup_done_def)
  have u: "(ucast (v AND 0xFFFF) :: 16 word) = ucast v"
  proof -
    have m: "(0xFFFF :: u32) = mask 16" by (simp add: mask_eq_exp_minus_1)
    show ?thesis unfolding m by (rule bit_word_eqI) (auto simp: bit_simps simp del: mask_numeral)
  qed
  have e: "extractShort ?j 6 = Some (ucast v)" "drop 8 ?j = drop 8 ?i"
    by (simp_all add: fup_block_def fup_image_def header_data_def be16_def extractShort_def u)
  show ?thesis using c r x e by (auto simp: fup_done_def)
qed


theorem fup_reseller_kept_witness:
  "\<exists>r r' image. fup_main run_env demo_files (''fup'' # ''-c'' # ''i'' # part_args demo_parts) = Some r
     \<and> fup_main run_env (result_files r) [''fup'', ''-r'', ''i'', ''2304''] = Some r'
     \<and> result_files r' ''i'' = Some image \<and> extractShort image 6 = Some 0x2304"
proof -
  have w: "can_write run_env ''i''" "\<forall>e \<in> set ext. can_write run_env (''i'' @ e)" "length demo_parts < 128"
    by (simp_all add: run_env_def demo_parts_def)
  have a: "sscanf_x ''2304'' = Some 0x2304" by (simp add: sscanf_x_def hex_digit_def Let_def)
  show ?thesis
    using fup_reseller_kept [OF run_env_zlib w demo_parts_ok a demo_image_length, of "''fup''"] by auto
qed

end
