(* ===== verification/Writer_Framebuffer.thy ===== *)
theory Writer_Framebuffer
  imports Prelude "HOL-Library.Monad_Syntax"
begin

text \<open>
  \<open>output/writer/framebuffer.c\<close> of libeplayer3: the writer that blends a glyph bitmap of a
  subtitle into the frame buffer, or clears a rectangle of it. Pixels are four bytes, blue, green,
  red and a fourth that is set to 0. Buffers are byte lists; \<open>None\<close> is an access outside of one.
\<close>

subsection \<open>The code\<close>

record WriterFBCallData_t =
  fb_data :: "bytes option"
  fb_Width :: u32
  fb_Height :: u32
  fb_Stride :: u32
  fb_color :: u32
  fb_x :: u32
  fb_y :: u32
  fb_fd :: int
  fb_Screen_Width :: u32
  fb_Screen_Height :: u32
  fb_destination :: "bytes option"
  fb_destStride :: u32

definition fb_reset :: int where
  "fb_reset = 0"

definition fb_r :: "u32 \<Rightarrow> u32" where "fb_r c = drop_bit 24 c"
definition fb_g :: "u32 \<Rightarrow> u32" where "fb_g c = drop_bit 16 c AND 0xFF"
definition fb_b :: "u32 \<Rightarrow> u32" where "fb_b c = drop_bit 8 c AND 0xFF"
definition fb_a :: "u32 \<Rightarrow> u32" where "fb_a c = c AND 0xFF"

text \<open>Reading and writing through a pointer, an integer position in a buffer.\<close>

definition ptr_get :: "bytes \<Rightarrow> int \<Rightarrow> byte option" where
  "ptr_get buf p = (if 0 \<le> p \<and> nat p < length buf then Some (buf ! nat p) else None)"

definition ptr_put :: "bytes \<Rightarrow> int \<Rightarrow> byte \<Rightarrow> bytes option" where
  "ptr_put buf p v = (if 0 \<le> p \<and> nat p < length buf then Some (buf[nat p := v]) else None)"

text \<open>\<open>t = *dst; *dst = (k*c + ck*t) / 255\<close>\<close>

definition fb_mix :: "u32 \<Rightarrow> u32 \<Rightarrow> byte \<Rightarrow> byte" where
  "fb_mix k c t = ucast ((k * c + (255 - k) * ucast t) div 255)"

definition fb_channel :: "u32 \<Rightarrow> u32 \<Rightarrow> int \<Rightarrow> bytes \<Rightarrow> bytes option" where
  "fb_channel k c p dst = do { t \<leftarrow> ptr_get dst p; ptr_put dst p (fb_mix k c t) }"

definition fb_pixel :: "u32 \<Rightarrow> byte \<Rightarrow> int \<Rightarrow> bytes \<Rightarrow> bytes option" where
  "fb_pixel color s p dst = do {
     let k = ucast s * (255 - fb_a color) div 255;
     dst \<leftarrow> fb_channel k (fb_b color) p dst;
     dst \<leftarrow> fb_channel k (fb_g color) (p + 1) dst;
     dst \<leftarrow> fb_channel k (fb_r color) (p + 2) dst;
     ptr_put dst (p + 3) 0
   }"

text \<open>The two loops, by the number of pixels and rows that are left.\<close>

primrec fb_row :: "nat \<Rightarrow> u32 \<Rightarrow> bytes \<Rightarrow> int \<Rightarrow> int \<Rightarrow> bytes \<Rightarrow> bytes option" where
  "fb_row 0 color src q p dst = Some dst"
| "fb_row (Suc n) color src q p dst = do {
     s \<leftarrow> ptr_get src q;
     dst \<leftarrow> fb_pixel color s p dst;
     fb_row n color src (q + 1) (p + 4) dst
   }"

primrec fb_rows :: "nat \<Rightarrow> WriterFBCallData_t \<Rightarrow> bytes \<Rightarrow> int \<Rightarrow> int \<Rightarrow> bytes \<Rightarrow> bytes option" where
  "fb_rows 0 call src q p dst = Some dst"
| "fb_rows (Suc n) call src q p dst = do {
     dst \<leftarrow> fb_row (unat (fb_Width call)) (fb_color call) src q p dst;
     fb_rows n call src (q + sint (fb_Stride call))
       (p + 4 * uint (fb_Width call) + sint (fb_destStride call - fb_Width call * 4)) dst
   }"

definition ptr_clear :: "bytes \<Rightarrow> nat \<Rightarrow> nat \<Rightarrow> bytes option" where
  "ptr_clear buf p n =
     (if n = 0 then Some buf
      else if p + n \<le> length buf then Some (take p buf @ replicate n 0 @ drop (p + n) buf) else None)"

primrec fb_clear :: "nat \<Rightarrow> u32 \<Rightarrow> WriterFBCallData_t \<Rightarrow> bytes \<Rightarrow> bytes option" where
  "fb_clear 0 y call dst = Some dst"
| "fb_clear (Suc n) y call dst = do {
     dst \<leftarrow> ptr_clear dst (unat ((fb_y call + y) * fb_destStride call) + unat (fb_x call * 4))
               (unat (fb_Width call * 4));
     fb_clear n (y + 1) call dst
   }"

text \<open>The value returned and the frame buffer. The bitmap and the frame buffer are different memory.\<close>

definition fb_writeData :: "WriterFBCallData_t option \<Rightarrow> (int \<times> bytes option) option" where
  "fb_writeData call_p =
     (case call_p of
        None \<Rightarrow> Some (0, None)
      | Some call \<Rightarrow>
          (case fb_destination call of
             None \<Rightarrow> Some (0, None)
           | Some dst \<Rightarrow>
               (case fb_data call of
                  Some src \<Rightarrow>
                    map_option (\<lambda>d. (0, Some d))
                      (fb_rows (unat (fb_Height call)) call src 0
                        (uint (fb_y call * fb_destStride call + fb_x call * 4)) dst)
                | None \<Rightarrow> map_option (\<lambda>d. (0, Some d)) (fb_clear (unat (fb_Height call)) 0 call dst))))"

subsection \<open>Specification vocabulary\<close>

text \<open>Byte \<open>j\<close> of a pixel that held \<open>t\<close>, with coverage \<open>s\<close>.\<close>

definition fb_cover :: "u32 \<Rightarrow> byte \<Rightarrow> u32" where
  "fb_cover color s = ucast s * (255 - fb_a color) div 255"

definition fb_blend :: "u32 \<Rightarrow> byte \<Rightarrow> nat \<Rightarrow> byte \<Rightarrow> byte" where
  "fb_blend color s j t =
     (if j = 0 then fb_mix (fb_cover color s) (fb_b color) t
      else if j = 1 then fb_mix (fb_cover color s) (fb_g color) t
      else if j = 2 then fb_mix (fb_cover color s) (fb_r color) t
      else 0)"

text \<open>Byte \<open>j\<close> of the pixel in row \<open>r\<close> and column \<open>c\<close> of the rectangle.\<close>

definition fb_index :: "WriterFBCallData_t \<Rightarrow> nat \<Rightarrow> nat \<Rightarrow> nat \<Rightarrow> nat" where
  "fb_index call r c j = (unat (fb_y call) + r) * unat (fb_destStride call) + (unat (fb_x call) + c) * 4 + j"

definition fb_fits :: "WriterFBCallData_t \<Rightarrow> nat \<Rightarrow> bool" where
  "fb_fits call n \<longleftrightarrow>
     (unat (fb_x call) + unat (fb_Width call)) * 4 \<le> unat (fb_destStride call)
     \<and> (unat (fb_y call) + unat (fb_Height call)) * unat (fb_destStride call) \<le> n \<and> n < 2 ^ 31
     \<and> unat (fb_destStride call) < 2 ^ 31"

definition fb_start :: "WriterFBCallData_t \<Rightarrow> nat \<Rightarrow> nat" where
  "fb_start call r = (unat (fb_y call) + r) * unat (fb_destStride call) + unat (fb_x call) * 4"

text \<open>One pixel at row 1, column 1 of a frame buffer of 2 by 2 pixels.\<close>

definition fb_example :: WriterFBCallData_t where
  "fb_example = \<lparr>fb_data = Some [255], fb_Width = 1, fb_Height = 1, fb_Stride = 1, fb_color = 0x11223300, fb_x = 1, fb_y = 1,
     fb_fd = 5, fb_Screen_Width = 2, fb_Screen_Height = 2, fb_destination = Some (replicate 16 7), fb_destStride = 8\<rparr>"

subsection \<open>Lemmas\<close>

lemma fb_pixel_ok:
  assumes "P + 4 \<le> length dst"
  shows "\<exists>dst'. fb_pixel color s (int P) dst = Some dst' \<and> length dst' = length dst
    \<and> (\<forall>j < 4. dst' ! (P + j) = fb_blend color s j (dst ! (P + j)))
    \<and> (\<forall>i. i < P \<or> P + 4 \<le> i \<longrightarrow> dst' ! i = dst ! i)"
proof -
  have n: "nat (int P + 1) = P + 1" "nat (int P + 2) = P + 2" "nat (int P + 3) = P + 3" by simp_all
  have j: "j = 0 \<or> j = 1 \<or> j = 2 \<or> j = 3" if "j < 4" for j :: nat using that by linarith
  show ?thesis
    using assms
    by (auto simp: fb_pixel_def fb_channel_def ptr_get_def ptr_put_def n Let_def fb_blend_def fb_cover_def nth_list_update dest!: j)
qed

lemma fb_row_ok:
  assumes "P + 4 * n \<le> length dst" "Q + n \<le> length src"
  shows "\<exists>dst'. fb_row n color src (int Q) (int P) dst = Some dst' \<and> length dst' = length dst
    \<and> (\<forall>c < n. \<forall>j < 4. dst' ! (P + 4 * c + j) = fb_blend color (src ! (Q + c)) j (dst ! (P + 4 * c + j)))
    \<and> (\<forall>i. i < P \<or> P + 4 * n \<le> i \<longrightarrow> dst' ! i = dst ! i)"
  using assms
proof (induction n arbitrary: P Q dst)
  case (Suc n)
  obtain d where d: "fb_pixel color (src ! Q) (int P) dst = Some d" "length d = length dst"
    "\<forall>j < 4. d ! (P + j) = fb_blend color (src ! Q) j (dst ! (P + j))"
    "\<forall>i. i < P \<or> P + 4 \<le> i \<longrightarrow> d ! i = dst ! i"
    using fb_pixel_ok [of P dst color "src ! Q"] Suc.prems by auto
  obtain d' where d': "fb_row n color src (int (Q + 1)) (int (P + 4)) d = Some d'" "length d' = length d"
    "\<forall>c < n. \<forall>j < 4. d' ! (P + 4 + 4 * c + j) = fb_blend color (src ! (Q + 1 + c)) j (d ! (P + 4 + 4 * c + j))"
    "\<forall>i. i < P + 4 \<or> P + 4 + 4 * n \<le> i \<longrightarrow> d' ! i = d ! i"
    using Suc.IH [of "P + 4" d "Q + 1"] Suc.prems d(2) by auto
  have "d' ! (P + 4 * c + j) = fb_blend color (src ! (Q + c)) j (dst ! (P + 4 * c + j))" if "c < Suc n" "j < 4" for c j
  proof (cases c)
    case 0
    then show ?thesis using d(3) d'(4) that by simp
  next
    case (Suc m)
    have "d' ! (P + 4 + 4 * m + j) = fb_blend color (src ! (Q + 1 + m)) j (d ! (P + 4 + 4 * m + j))"
      using d'(3) that Suc by simp
    moreover have "d ! (P + 4 + 4 * m + j) = dst ! (P + 4 + 4 * m + j)" using d(4) by simp
    ultimately show ?thesis using Suc by (simp add: algebra_simps)
  qed
  moreover have "d' ! i = dst ! i" if "i < P \<or> P + 4 * Suc n \<le> i" for i using d(4) d'(4) that by auto
  moreover have "ptr_get src (int Q) = Some (src ! Q)" using Suc.prems by (simp add: ptr_get_def)
  ultimately show ?case using d(1,2) d'(1,2) by (auto simp: algebra_simps)
qed simp

lemma fb_rows_ok:
  assumes "4 * uint (fb_Width call) + sint (fb_destStride call - fb_Width call * 4) = int st" "4 * W \<le> st" "W = unat (fb_Width call)"
    and "sint (fb_Stride call) = int S"
    and "n = 0 \<or> P + (n - 1) * st + 4 * W \<le> length dst" "n = 0 \<or> Q + (n - 1) * S + W \<le> length src"
  shows "\<exists>dst'. fb_rows n call src (int Q) (int P) dst = Some dst' \<and> length dst' = length dst
    \<and> (\<forall>r < n. \<forall>c < W. \<forall>j < 4. dst' ! (P + r * st + 4 * c + j)
         = fb_blend (fb_color call) (src ! (Q + r * S + c)) j (dst ! (P + r * st + 4 * c + j)))
    \<and> (\<forall>i. (\<forall>r < n. i < P + r * st \<or> P + r * st + 4 * W \<le> i) \<longrightarrow> dst' ! i = dst ! i)"
  using assms(5,6)
proof (induction n arbitrary: P Q dst)
  case (Suc n)
  have "P + 4 * W \<le> length dst" "Q + W \<le> length src" using Suc.prems by auto
  from fb_row_ok [OF this] obtain d where d: "fb_row W (fb_color call) src (int Q) (int P) dst = Some d" "length d = length dst"
    "\<forall>c < W. \<forall>j < 4. d ! (P + 4 * c + j) = fb_blend (fb_color call) (src ! (Q + c)) j (dst ! (P + 4 * c + j))"
    "\<forall>i. i < P \<or> P + 4 * W \<le> i \<longrightarrow> d ! i = dst ! i" by blast
  have "n = 0 \<or> (P + st) + (n - 1) * st + 4 * W \<le> length d" "n = 0 \<or> (Q + S) + (n - 1) * S + W \<le> length src"
    using Suc.prems d(2) by (cases n; simp add: algebra_simps)+
  from Suc.IH [OF this] obtain d' where d': "fb_rows n call src (int (Q + S)) (int (P + st)) d = Some d'" "length d' = length d"
    "\<forall>r < n. \<forall>c < W. \<forall>j < 4. d' ! (P + st + r * st + 4 * c + j)
         = fb_blend (fb_color call) (src ! (Q + S + r * S + c)) j (d ! (P + st + r * st + 4 * c + j))"
    "\<forall>i. (\<forall>r < n. i < P + st + r * st \<or> P + st + r * st + 4 * W \<le> i) \<longrightarrow> d' ! i = d ! i" by blast
  have e: "fb_rows (Suc n) call src (int Q) (int P) dst = Some d'"
    using d(1) d'(1) assms(1,3,4) by (simp add: algebra_simps)
  have px: "d' ! (P + r * st + 4 * c + j) = fb_blend (fb_color call) (src ! (Q + r * S + c)) j (dst ! (P + r * st + 4 * c + j))"
    if "r < Suc n" "c < W" "j < 4" for r c j
  proof (cases r)
    case 0
    have "d' ! (P + 4 * c + j) = d ! (P + 4 * c + j)" using d'(4) that assms(2) by auto
    then show ?thesis using 0 d(3) that by simp
  next
    case (Suc m)
    have "d' ! (P + st + m * st + 4 * c + j) = fb_blend (fb_color call) (src ! (Q + S + m * S + c)) j (d ! (P + st + m * st + 4 * c + j))"
      using d'(3) that Suc by simp
    moreover have "d ! (P + st + m * st + 4 * c + j) = dst ! (P + st + m * st + 4 * c + j)" using d(4) assms(2) by simp
    ultimately show ?thesis using Suc by (simp add: algebra_simps)
  qed
  have out: "d' ! i = dst ! i" if *: "\<forall>r < Suc n. i < P + r * st \<or> P + r * st + 4 * W \<le> i" for i
  proof -
    have "\<forall>r < n. i < P + st + r * st \<or> P + st + r * st + 4 * W \<le> i"
    proof (intro allI impI)
      fix r assume "r < n"
      then show "i < P + st + r * st \<or> P + st + r * st + 4 * W \<le> i" using * [rule_format, of "Suc r"] by (simp add: algebra_simps)
    qed
    then have "d' ! i = d ! i" using d'(4) by blast
    moreover have "d ! i = dst ! i" using d(4) * [rule_format, of 0] by auto
    ultimately show ?thesis by simp
  qed
  show ?case using e d(2) d'(2) px out by auto
qed simp


lemma fb_clear_line:
  assumes "fb_fits call (length dst)" "r < unat (fb_Height call)"
  shows "\<exists>d. ptr_clear dst (unat ((fb_y call + of_nat r) * fb_destStride call) + unat (fb_x call * 4)) (unat (fb_Width call * 4)) = Some d
    \<and> length d = length dst
    \<and> (\<forall>i < length dst. d ! i = (if fb_start call r \<le> i \<and> i < fb_start call r + 4 * unat (fb_Width call) then 0 else dst ! i))"
proof -
  let ?W = "unat (fb_Width call)" and ?st = "unat (fb_destStride call)" and ?y = "unat (fb_y call)" and ?x = "unat (fb_x call)"
  have f: "(?x + ?W) * 4 \<le> ?st" "(?y + unat (fb_Height call)) * ?st \<le> length dst" "length dst < 2147483648" "?st < 2147483648"
    using assms(1) by (simp_all add: fb_fits_def)
  show ?thesis
  proof (cases "?W = 0")
    case True
    then have "unat (fb_Width call * 4) = 0" by (simp add: unat_eq_0)
    with True show ?thesis by (auto simp: ptr_clear_def)
  next
    case False
    with f(1) have st: "4 \<le> ?st" by simp
    have le: "(?y + Suc r) * ?st \<le> length dst"
      using f(2) assms(2) by (meson Suc_leI add_le_mono le_refl le_trans mult_le_mono1)
    have "(?y + Suc r) * 4 \<le> (?y + Suc r) * ?st" using st by (rule mult_le_mono2)
    with le f(3) have y: "?y + Suc r < 2147483648" by simp
    have rr: "unat (of_nat r :: u32) = r" using y by (simp add: unat_of_nat take_bit_nat_eq_self)
    have yr: "unat (fb_y call + of_nat r) = ?y + r" using y rr by (simp add: unat_word_ariths)
    have "(?y + r) * ?st \<le> (?y + Suc r) * ?st" by simp
    then have m: "unat ((fb_y call + of_nat r) * fb_destStride call) = (?y + r) * ?st"
      using yr le f(3) by (simp add: unat_word_ariths)
    have x: "unat (fb_x call * 4) = ?x * 4" "unat (fb_Width call * 4) = ?W * 4" using f(1,4) by (simp_all add: unat_word_ariths)
    have fit: "(?y + r) * ?st + ?x * 4 + ?W * 4 \<le> length dst" using le f(1) by simp
    then show ?thesis unfolding m x ptr_clear_def fb_start_def using False
      by (auto simp: nth_append)
  qed
qed

lemma overlay_or: "x = (if E then z else y) \<Longrightarrow> y = (if A then z else w) \<Longrightarrow> x = (if A \<or> E then z else w)"
  by simp

lemma fb_clear_ok:
  assumes "fb_fits call (length dst)" "r0 + n = unat (fb_Height call)"
  shows "\<exists>d. fb_clear n (of_nat r0) call dst = Some d \<and> length d = length dst
    \<and> (\<forall>i < length dst. d ! i = (if \<exists>r. r0 \<le> r \<and> r < r0 + n \<and> fb_start call r \<le> i \<and> i < fb_start call r + 4 * unat (fb_Width call)
                                then 0 else dst ! i))"
  using assms
proof (induction n arbitrary: r0 dst)
  case (Suc n)
  obtain d where d: "ptr_clear dst (unat ((fb_y call + of_nat r0) * fb_destStride call) + unat (fb_x call * 4)) (unat (fb_Width call * 4)) = Some d"
    "length d = length dst"
    "\<forall>i < length dst. d ! i = (if fb_start call r0 \<le> i \<and> i < fb_start call r0 + 4 * unat (fb_Width call) then 0 else dst ! i)"
    using fb_clear_line [OF Suc.prems(1), of r0] Suc.prems(2) by auto
  obtain d' where d': "fb_clear n (of_nat (Suc r0)) call d = Some d'" "length d' = length d"
    "\<forall>i < length d. d' ! i = (if \<exists>r. Suc r0 \<le> r \<and> r < Suc r0 + n \<and> fb_start call r \<le> i \<and> i < fb_start call r + 4 * unat (fb_Width call)
                                then 0 else d ! i)"
    using Suc.IH [of d "Suc r0"] Suc.prems d(2) by auto
  have e: "r0 \<le> r \<and> r < r0 + Suc n \<longleftrightarrow> r = r0 \<or> Suc r0 \<le> r \<and> r < Suc r0 + n" for r by auto
  have ex: "(\<exists>r. r0 \<le> r \<and> r < r0 + Suc n \<and> P r) \<longleftrightarrow> P r0 \<or> (\<exists>r. Suc r0 \<le> r \<and> r < Suc r0 + n \<and> P r)" for P
    unfolding conj_assoc [symmetric] e by blast
  have "\<forall>i < length dst. d' ! i = (if \<exists>r. r0 \<le> r \<and> r < r0 + Suc n \<and> fb_start call r \<le> i \<and> i < fb_start call r + 4 * unat (fb_Width call)
                                then 0 else dst ! i)"
    unfolding ex
  proof (intro allI impI)
    fix i assume i: "i < length dst"
    show "d' ! i = (if (fb_start call r0 \<le> i \<and> i < fb_start call r0 + 4 * unat (fb_Width call))
        \<or> (\<exists>r. Suc r0 \<le> r \<and> r < Suc r0 + n \<and> fb_start call r \<le> i \<and> i < fb_start call r + 4 * unat (fb_Width call)) then 0 else dst ! i)"
      (is "_ = (if ?A \<or> ?E then 0 else _)")
    proof -
      have "d' ! i = (if ?E then 0 else d ! i)" using d'(3) [rule_format, of i] d(2) i by simp
      moreover have "d ! i = (if ?A then 0 else dst ! i)" using d(3) [rule_format, OF i] .
      ultimately show ?thesis by (rule overlay_or)
    qed
  qed
  then show ?case using d(1,2) d'(1,2) by (auto simp: add.commute)
qed auto

lemma ucast_byte_u32: "(ucast (ucast t :: u32) :: byte) = t"
  by (rule bit_word_eqI) (simp add: bit_simps)

lemma fb_mix_ends:
  "fb_mix 0 c t = t" "c \<le> 255 \<Longrightarrow> fb_mix 255 c t = ucast c"
proof -
  have t: "unat (ucast t :: u32) \<le> 255" using unat_byte_less [of t] by (simp add: unat_ucast_byte)
  have "unat ((255 - 0) * ucast t :: u32) = 255 * unat (ucast t :: u32)"
    using t by (simp add: unat_word_ariths)
  then have "(0 * c + (255 - 0) * ucast t) div 255 = (ucast t :: u32)"
    by (intro unat_eq_iff [THEN iffD2]) (simp add: unat_div)
  then show "fb_mix 0 c t = t" by (simp add: fb_mix_def ucast_byte_u32)
  assume "c \<le> 255"
  then have "unat c \<le> 255" by (simp add: word_le_nat_alt)
  then have "unat (255 * c) = 255 * unat c" by (simp add: unat_word_ariths)
  then have "(255 * c + (255 - 255) * ucast t) div 255 = c"
    by (intro unat_eq_iff [THEN iffD2]) (simp add: unat_div)
  then show "fb_mix 255 c t = ucast c" by (simp add: fb_mix_def)
qed


lemma fb_parts_le: "fb_a c \<le> 255" "fb_b c \<le> 255" "fb_g c \<le> 255" "fb_r c \<le> 255"
proof -
  show "fb_a c \<le> 255" "fb_b c \<le> 255" "fb_g c \<le> 255" by (simp_all add: fb_a_def fb_b_def fb_g_def word_and_le1)
  have "unat (fb_r c) < 256" using unat_u32_less [of c] by (simp add: fb_r_def drop_bit_eq_div unat_div)
  then show "fb_r c \<le> 255" by (simp add: word_le_nat_alt)
qed

lemma fb_cover_ends: "fb_cover color 0 = 0" "fb_a color = 255 \<Longrightarrow> fb_cover color s = 0" "fb_a color = 0 \<Longrightarrow> fb_cover color 255 = 255"
  by (simp_all add: fb_cover_def)

lemma fb_blend_ends:
  "fb_blend color 0 j t = (if j < 3 then t else 0)"
  "fb_a color = 0 \<Longrightarrow> j < 4 \<Longrightarrow> fb_blend color 255 j t = [ucast (fb_b color), ucast (fb_g color), ucast (fb_r color), 0] ! j"
  using fb_mix_ends fb_parts_le [of color] fb_cover_ends(1) fb_cover_ends(3) [of color]
  by (auto simp: fb_blend_def nth_Cons split: nat.split)

lemma fb_start_index: "fb_index call r c j = fb_start call r + 4 * c + j"
  by (simp add: fb_index_def fb_start_def)

lemma fb_writeData_pixels:
  assumes "fb_destination call = Some dst" "fb_fits call (length dst)"
    and "\<And>src. fb_data call = Some src \<Longrightarrow> unat (fb_Stride call) < 2 ^ 31
           \<and> (unat (fb_Height call) - 1) * unat (fb_Stride call) + unat (fb_Width call) \<le> length src"
  shows "\<exists>d. fb_writeData (Some call) = Some (0, Some d) \<and> length d = length dst
    \<and> (\<forall>r < unat (fb_Height call). \<forall>c < unat (fb_Width call). \<forall>j < 4.
         d ! fb_index call r c j =
           (case fb_data call of
              Some src \<Rightarrow> fb_blend (fb_color call) (src ! (r * unat (fb_Stride call) + c)) j (dst ! fb_index call r c j)
            | None \<Rightarrow> 0))
    \<and> (\<forall>i < length dst. (\<forall>r < unat (fb_Height call). \<forall>c < unat (fb_Width call). \<forall>j < 4. i \<noteq> fb_index call r c j) \<longrightarrow> d ! i = dst ! i)"
proof -
  let ?W = "unat (fb_Width call)" and ?H = "unat (fb_Height call)" and ?st = "unat (fb_destStride call)"
  have out: "i < fb_start call r \<or> fb_start call r + 4 * ?W \<le> i"
    if "\<forall>c < ?W. \<forall>j < 4. i \<noteq> fb_index call r c j" for i r
  proof (rule ccontr)
    assume "\<not> ?thesis"
    then have b: "fb_start call r \<le> i" "i - fb_start call r < 4 * ?W" by auto
    then have "(i - fb_start call r) div 4 < ?W" by auto
    moreover have "i = fb_index call r ((i - fb_start call r) div 4) ((i - fb_start call r) mod 4)"
      using b(1) by (simp add: fb_start_index)
    ultimately show False using that by (metis mod_less_divisor zero_less_numeral)
  qed
  have s: "fb_start call r = fb_start call 0 + r * ?st" for r by (simp add: fb_start_def algebra_simps)
  have fit: "(unat (fb_x call) + ?W) * 4 \<le> ?st" "(unat (fb_y call) + ?H) * ?st \<le> length dst" "length dst < 2147483648" "?st < 2147483648"
    using assms(2) by (simp_all add: fb_fits_def)
  have row: "fb_start call r + 4 * ?W \<le> length dst" if "r < ?H" for r
  proof -
    have "(unat (fb_y call) + Suc r) * ?st \<le> (unat (fb_y call) + ?H) * ?st" using that by (intro mult_le_mono1) simp
    then show ?thesis using fit(1,2) by (simp add: fb_start_def algebra_simps)
  qed
  show ?thesis
  proof (cases "fb_data call")
    case None
    obtain d where d: "fb_clear ?H 0 call dst = Some d" "length d = length dst"
      "\<forall>i < length dst. d ! i = (if \<exists>r. r < ?H \<and> fb_start call r \<le> i \<and> i < fb_start call r + 4 * ?W then 0 else dst ! i)"
      using fb_clear_ok [OF assms(2), of 0 ?H] by auto
    have "d ! fb_index call r c j = 0" if "r < ?H" "c < ?W" "j < 4" for r c j
    proof -
      have "fb_start call r \<le> fb_index call r c j" "fb_index call r c j < fb_start call r + 4 * ?W"
        using that by (simp_all add: fb_start_index)
      moreover from this(2) have "fb_index call r c j < length dst" using row [OF that(1)] by simp
      ultimately show ?thesis using d(3) that(1) by auto
    qed
    moreover have "d ! i = dst ! i"
      if "i < length dst" "\<forall>r < ?H. \<forall>c < ?W. \<forall>j < 4. i \<noteq> fb_index call r c j" for i
    proof -
      have "\<not> (\<exists>r. r < ?H \<and> fb_start call r \<le> i \<and> i < fb_start call r + 4 * ?W)"
        using out that(2) by (meson linorder_not_le)
      then show ?thesis using d(3) that(1) by auto
    qed
    ultimately show ?thesis using None assms(1) d(1,2) by (simp add: fb_writeData_def)
  next
    case (Some src)
    let ?S = "unat (fb_Stride call)"
    have S: "?S < 2147483648" "(?H - 1) * ?S + ?W \<le> length src" using assms(3) [OF Some] by simp_all
    have W4: "unat (fb_Width call * 4) = 4 * ?W" using fit(1,4) by (simp add: unat_word_ariths)
    have "unat (fb_destStride call - fb_Width call * 4) = ?st - 4 * ?W"
      using fit(1) W4 by (subst unat_sub) (simp_all add: word_le_nat_alt)
    then have "sint (fb_destStride call - fb_Width call * 4) = int ?st - 4 * int ?W"
      using fit(1,4) by (simp add: sint_small of_nat_diff)
    then have st: "4 * uint (fb_Width call) + sint (fb_destStride call - fb_Width call * 4) = int ?st"
      by simp
    have sS: "sint (fb_Stride call) = int ?S" using S(1) by (simp add: sint_small)
    have p: "uint (fb_y call * fb_destStride call + fb_x call * 4) = int (fb_start call 0)"
    proof -
      have "unat (fb_y call) * ?st \<le> length dst" using fit(2) by (simp add: algebra_simps)
      then have "unat (fb_y call * fb_destStride call) = unat (fb_y call) * ?st" "unat (fb_x call * 4) = unat (fb_x call) * 4"
        using fit(1,3,4) by (simp_all add: unat_word_ariths)
      then have "unat (fb_y call * fb_destStride call + fb_x call * 4) = fb_start call 0"
        using fit \<open>unat (fb_y call) * ?st \<le> length dst\<close> by (simp add: unat_word_ariths fb_start_def)
      then show ?thesis by (metis int_eq_iff uint_nat)
    qed
    have "?H = 0 \<or> fb_start call 0 + (?H - 1) * ?st + 4 * ?W \<le> length dst"
      using row [of "?H - 1"] s [of "?H - 1"] by (cases "?H = 0") auto
    moreover have "?H = 0 \<or> 0 + (?H - 1) * ?S + ?W \<le> length src" using S(2) by simp
    moreover have "4 * ?W \<le> ?st" using fit(1) by simp
    ultimately obtain d where d: "fb_rows ?H call src 0 (int (fb_start call 0)) dst = Some d" "length d = length dst"
      "\<forall>r < ?H. \<forall>c < ?W. \<forall>j < 4. d ! (fb_start call 0 + r * ?st + 4 * c + j)
         = fb_blend (fb_color call) (src ! (r * ?S + c)) j (dst ! (fb_start call 0 + r * ?st + 4 * c + j))"
      "\<forall>i. (\<forall>r < ?H. i < fb_start call 0 + r * ?st \<or> fb_start call 0 + r * ?st + 4 * ?W \<le> i) \<longrightarrow> d ! i = dst ! i"
      using fb_rows_ok [OF st _ refl sS, of ?H "fb_start call 0" dst 0 src] by auto
    have "\<forall>r < ?H. \<forall>c < ?W. \<forall>j < 4. d ! fb_index call r c j
         = fb_blend (fb_color call) (src ! (r * ?S + c)) j (dst ! fb_index call r c j)"
      using d(3) unfolding fb_start_index s [symmetric] .
    moreover have "\<forall>i. (\<forall>r < ?H. \<forall>c < ?W. \<forall>j < 4. i \<noteq> fb_index call r c j) \<longrightarrow> d ! i = dst ! i"
      using d(4) out unfolding s [symmetric] by blast
    ultimately show ?thesis using Some assms(1) d(1,2) p by (simp add: fb_writeData_def)
  qed
qed


subsection \<open>Properties\<close>

text \<open>
  The frame buffer writer. If the rectangle lies within the frame buffer and the bitmap holds all its
  rows, the call touches no memory outside of both; every byte of a pixel in the rectangle becomes the
  blend of what was there with the colour (or 0 when there is no bitmap), and all other bytes stay.
  Coverage 0 keeps the colours of a pixel, full coverage with an opaque colour gives exactly the colour.
\<close>

theorem fb_writeData_rectangle:
  assumes "fb_destination call = Some dst" "fb_fits call (length dst)"
    and "\<And>src. fb_data call = Some src \<Longrightarrow> unat (fb_Stride call) < 2 ^ 31
           \<and> (unat (fb_Height call) - 1) * unat (fb_Stride call) + unat (fb_Width call) \<le> length src"
  shows "(\<exists>d. fb_writeData (Some call) = Some (0, Some d) \<and> length d = length dst
    \<and> (\<forall>r < unat (fb_Height call). \<forall>c < unat (fb_Width call). \<forall>j < 4.
         d ! fb_index call r c j =
           (case fb_data call of
              Some src \<Rightarrow> fb_blend (fb_color call) (src ! (r * unat (fb_Stride call) + c)) j (dst ! fb_index call r c j)
            | None \<Rightarrow> 0))
    \<and> (\<forall>i < length dst. (\<forall>r < unat (fb_Height call). \<forall>c < unat (fb_Width call). \<forall>j < 4. i \<noteq> fb_index call r c j) \<longrightarrow> d ! i = dst ! i))
   \<and> (\<forall>color j t. fb_blend color 0 j t = (if j < 3 then t else 0))
   \<and> (\<forall>color t. fb_a color = 0 \<longrightarrow> map (\<lambda>j. fb_blend color 255 j t) [0, 1, 2, 3]
         = [ucast (fb_b color), ucast (fb_g color), ucast (fb_r color), 0])"
  by (rule conjI, rule fb_writeData_pixels [OF assms], assumption) (simp add: fb_blend_ends)

theorem fb_writeData_rectangle_witness:
  "\<exists>d. fb_writeData (Some fb_example) = Some (0, Some d) \<and> d ! 12 = 0x33 \<and> d ! 13 = 0x22 \<and> d ! 14 = 0x11 \<and> d ! 15 = 0 \<and> d ! 11 = 7"
proof -
  have f: "fb_fits fb_example (length (replicate 16 (7 :: byte)))" by (simp add: fb_fits_def fb_example_def)
  have i: "fb_index fb_example 0 0 j = 12 + j" for j by (simp add: fb_index_def fb_example_def)
  have b: "fb_blend 0x11223300 255 0 7 = 0x33" "fb_blend 0x11223300 255 1 7 = 0x22" "fb_blend 0x11223300 255 2 7 = 0x11"
    "fb_blend 0x11223300 255 3 7 = 0"
    by (simp_all add: fb_blend_ends fb_a_def fb_b_def fb_g_def fb_r_def)
  obtain d where d: "fb_writeData (Some fb_example) = Some (0, Some d)"
    "\<forall>r < 1. \<forall>c < 1. \<forall>j < 4. d ! fb_index fb_example r c j = fb_blend 0x11223300 255 j (replicate 16 7 ! fb_index fb_example r c j)"
    "\<forall>i < 16. (\<forall>r < 1. \<forall>c < 1. \<forall>j < 4. i \<noteq> fb_index fb_example r c j) \<longrightarrow> d ! i = replicate 16 7 ! i"
    using fb_writeData_rectangle [OF _ f] by (auto simp: fb_example_def)
  have "d ! (12 + j) = fb_blend 0x11223300 255 j 7" if "j < 4" for j using d(2) i that by simp
  from this [of 0] this [of 1] this [of 2] this [of 3] d(1) d(3) [rule_format, of 11] i b
  show ?thesis by auto
qed

end
