(* ===== verification/Writer_Registry.thy ===== *)
theory Writer_Registry
  imports Writer_Audio Writer_Pcm Writer_Video Writer_H264 Writer_Framebuffer
begin

text \<open>
  \<open>output/writer/writer.c\<close> and the writer tables of libeplayer3: which writer serves which
  encoding, with the \<open>WriterCaps_t\<close> and \<open>Writer_s\<close> structures at the end of each writer file, and the
  calls through their function pointers to the writers modelled in \<open>Writer_Audio\<close>,
  \<open>Writer_Pcm\<close>, \<open>Writer_Video\<close> and \<open>Writer_H264\<close>.
\<close>

subsection \<open>Encodings\<close>

definition VIDEO_ENCODING_AUTO :: int where "VIDEO_ENCODING_AUTO = 0"
definition VIDEO_ENCODING_MPEG4P2 :: int where "VIDEO_ENCODING_MPEG4P2 = 7"
definition VIDEO_ENCODING_H264 :: int where "VIDEO_ENCODING_H264 = 8"
definition VIDEO_ENCODING_WMV :: int where "VIDEO_ENCODING_WMV = 9"
definition VIDEO_ENCODING_VC1 :: int where "VIDEO_ENCODING_VC1 = 10"
definition VIDEO_ENCODING_H263 :: int where "VIDEO_ENCODING_H263 = 12"
definition VIDEO_ENCODING_FLV1 :: int where "VIDEO_ENCODING_FLV1 = 13"
definition AUDIO_ENCODING_LPCM :: int where "AUDIO_ENCODING_LPCM = 2"
definition AUDIO_ENCODING_MPEG2 :: int where "AUDIO_ENCODING_MPEG2 = 4"
definition AUDIO_ENCODING_MP3 :: int where "AUDIO_ENCODING_MP3 = 5"
definition AUDIO_ENCODING_AC3 :: int where "AUDIO_ENCODING_AC3 = 6"
definition AUDIO_ENCODING_DTS :: int where "AUDIO_ENCODING_DTS = 7"
definition AUDIO_ENCODING_AAC :: int where "AUDIO_ENCODING_AAC = 8"
definition AUDIO_ENCODING_WMA :: int where "AUDIO_ENCODING_WMA = 9"
definition AUDIO_ENCODING_LPCMA :: int where "AUDIO_ENCODING_LPCMA = 11"
definition AUDIO_ENCODING_VORBIS :: int where "AUDIO_ENCODING_VORBIS = 19"

subsection \<open>The table of writers\<close>

datatype Writer_t =
    WriterAudioIPCM | WriterAudioPCM | WriterAudioMP3 | WriterAudioMPEGL3 | WriterAudioAC3
  | WriterAudioAAC | WriterAudioDTS | WriterAudioWMA | WriterAudioFLAC | WriterAudioVORBIS
  | WriterVideoMPEG2 | WriterVideoMPEGH264 | WriterVideoH264 | WriterVideoDIVX | WriterVideoFOURCC
  | WriterVideoMSCOMP | WriterVideoWMV | WriterVideoH263 | WriterVideoFLV | WriterVideoVC1
  | WriterFramebuffer

definition AvailableWriter :: "Writer_t list" where
  "AvailableWriter =
     [WriterAudioIPCM, WriterAudioPCM, WriterAudioMP3, WriterAudioMPEGL3, WriterAudioAC3,
      WriterAudioAAC, WriterAudioDTS, WriterAudioWMA, WriterAudioFLAC, WriterAudioVORBIS,
      WriterVideoMPEG2, WriterVideoMPEGH264, WriterVideoH264, WriterVideoDIVX, WriterVideoFOURCC,
      WriterVideoMSCOMP, WriterVideoWMV, WriterVideoH263, WriterVideoFLV, WriterVideoVC1,
      WriterFramebuffer]"

datatype eWriterType_t = eNone | eAudio | eVideo | eGfx

record WriterCaps_t =
  caps_name :: string
  caps_type :: eWriterType_t
  textEncoding :: string
  dvbEncoding :: int

definition caps :: "string \<Rightarrow> eWriterType_t \<Rightarrow> string \<Rightarrow> int \<Rightarrow> WriterCaps_t" where
  "caps n t e d = \<lparr>caps_name = n, caps_type = t, textEncoding = e, dvbEncoding = d\<rparr>"

fun writer_caps :: "Writer_t \<Rightarrow> WriterCaps_t" where
  "writer_caps WriterAudioIPCM = caps ''ipcm'' eAudio ''A_IPCM'' AUDIO_ENCODING_LPCMA"
| "writer_caps WriterAudioPCM = caps ''pcm'' eAudio ''A_PCM'' AUDIO_ENCODING_LPCMA"
| "writer_caps WriterAudioMP3 = caps ''mp3'' eAudio ''A_MP3'' AUDIO_ENCODING_MP3"
| "writer_caps WriterAudioMPEGL3 = caps ''mpeg/l3'' eAudio ''A_MPEG/L3'' AUDIO_ENCODING_MPEG2"
| "writer_caps WriterAudioAC3 = caps ''ac3'' eAudio ''A_AC3'' AUDIO_ENCODING_AC3"
| "writer_caps WriterAudioAAC = caps ''aac'' eAudio ''A_AAC'' AUDIO_ENCODING_AAC"
| "writer_caps WriterAudioDTS = caps ''dts'' eAudio ''A_DTS'' AUDIO_ENCODING_DTS"
| "writer_caps WriterAudioWMA = caps ''wma'' eAudio ''A_WMA'' AUDIO_ENCODING_WMA"
| "writer_caps WriterAudioFLAC = caps ''flac'' eAudio ''A_FLAC'' AUDIO_ENCODING_LPCM"
| "writer_caps WriterAudioVORBIS = caps ''vorbis'' eAudio ''A_VORBIS'' AUDIO_ENCODING_VORBIS"
| "writer_caps WriterVideoMPEG2 = caps ''mpeg2'' eVideo ''V_MPEG2'' VIDEO_ENCODING_AUTO"
| "writer_caps WriterVideoMPEGH264 = caps ''mpges_h264'' eVideo ''V_MPEG2/H264'' VIDEO_ENCODING_H264"
| "writer_caps WriterVideoH264 = caps ''h264'' eVideo ''V_MPEG4/ISO/AVC'' VIDEO_ENCODING_H264"
| "writer_caps WriterVideoDIVX = caps ''divx'' eVideo ''V_MKV/XVID'' VIDEO_ENCODING_MPEG4P2"
| "writer_caps WriterVideoFOURCC = caps ''fourcc'' eVideo ''V_MS/VFW/FOURCC'' VIDEO_ENCODING_MPEG4P2"
| "writer_caps WriterVideoMSCOMP = caps ''mscomp'' eVideo ''V_MSCOMP'' VIDEO_ENCODING_MPEG4P2"
| "writer_caps WriterVideoWMV = caps ''wmv'' eVideo ''V_WMV'' VIDEO_ENCODING_WMV"
| "writer_caps WriterVideoH263 = caps ''h263'' eVideo ''V_H263'' VIDEO_ENCODING_H263"
| "writer_caps WriterVideoFLV = caps ''FLV'' eVideo ''V_FLV'' VIDEO_ENCODING_FLV1"
| "writer_caps WriterVideoVC1 = caps ''vc1'' eVideo ''V_VC1'' VIDEO_ENCODING_VC1"
| "writer_caps WriterFramebuffer = caps ''framebuffer'' eGfx ''framebuffer'' 0"

definition getWriter :: "string \<Rightarrow> Writer_t option" where
  "getWriter encoding = find (\<lambda>w. textEncoding (writer_caps w) = encoding) AvailableWriter"

definition getDefaultVideoWriter :: "Writer_t option" where
  "getDefaultVideoWriter = find (\<lambda>w. textEncoding (writer_caps w) = ''V_MPEG2'') AvailableWriter"

definition getDefaultAudioWriter :: "Writer_t option" where
  "getDefaultAudioWriter = find (\<lambda>w. textEncoding (writer_caps w) = ''A_MP3'') AvailableWriter"

definition getDefaultFramebufferWriter :: "Writer_t option" where
  "getDefaultFramebufferWriter = find (\<lambda>w. textEncoding (writer_caps w) = ''framebuffer'') AvailableWriter"

subsection \<open>Calls through the table\<close>

text \<open>
  The static variables of all writers, and what they wrote. What the writers take from outside: the
  device, the conversion of a frame rate, and memory that was not initialised.
\<close>

record writers =
  w_pcm :: pcm_state
  w_wma :: bool
  w_divx :: bool
  w_wmv :: bool
  w_vc1 :: "bool \<times> bool"
  w_h264 :: h264_state
  w_log :: wlog

record writer_env =
  we_device :: device
  we_fps :: "u32 \<Rightarrow> u32"
  we_junk :: byte
  we_junks :: bytes

definition writers_init :: writers where
  "writers_init = \<lparr>w_pcm = pcm_init, w_wma = True, w_divx = True, w_wmv = True, w_vc1 = (True, False),
                   w_h264 = h264_init, w_log = []\<rparr>"

fun writer_reset :: "Writer_t \<Rightarrow> writers \<Rightarrow> int \<times> writers" where
  "writer_reset WriterAudioIPCM ws = (let (r, st) = pcm_reset (w_pcm ws) in (r, ws\<lparr>w_pcm := st\<rparr>))"
| "writer_reset WriterAudioPCM ws = (let (r, st) = pcm_reset (w_pcm ws) in (r, ws\<lparr>w_pcm := st\<rparr>))"
| "writer_reset WriterAudioMP3 ws = (mp3_reset, ws)"
| "writer_reset WriterAudioMPEGL3 ws = (mp3_reset, ws)"
| "writer_reset WriterAudioAC3 ws = (ac3_reset, ws)"
| "writer_reset WriterAudioAAC ws = (aac_reset, ws)"
| "writer_reset WriterAudioDTS ws = (dts_reset, ws)"
| "writer_reset WriterAudioWMA ws =
     (let (r, h, log) = wma_reset (w_wma ws, w_log ws) in (r, ws\<lparr>w_wma := h, w_log := log\<rparr>))"
| "writer_reset WriterAudioFLAC ws = (flac_reset, ws)"
| "writer_reset WriterAudioVORBIS ws = (vorbis_reset, ws)"
| "writer_reset WriterVideoMPEG2 ws = (mpeg2_reset, ws)"
| "writer_reset WriterVideoMPEGH264 ws = (mpeg2_reset, ws)"
| "writer_reset WriterVideoH264 ws =
     (let (r, st, log) = h264_reset (w_h264 ws, w_log ws) in (r, ws\<lparr>w_h264 := st, w_log := log\<rparr>))"
| "writer_reset WriterVideoDIVX ws =
     (let (r, h, log) = divx_reset (w_divx ws, w_log ws) in (r, ws\<lparr>w_divx := h, w_log := log\<rparr>))"
| "writer_reset WriterVideoFOURCC ws =
     (let (r, h, log) = divx_reset (w_divx ws, w_log ws) in (r, ws\<lparr>w_divx := h, w_log := log\<rparr>))"
| "writer_reset WriterVideoMSCOMP ws =
     (let (r, h, log) = divx_reset (w_divx ws, w_log ws) in (r, ws\<lparr>w_divx := h, w_log := log\<rparr>))"
| "writer_reset WriterVideoWMV ws =
     (let (r, h, log) = wmv_reset (w_wmv ws, w_log ws) in (r, ws\<lparr>w_wmv := h, w_log := log\<rparr>))"
| "writer_reset WriterVideoH263 ws = (h263_reset, ws)"
| "writer_reset WriterVideoFLV ws = (h263_reset, ws)"
| "writer_reset WriterVideoVC1 ws =
     (let (r, h, s, log) = vc1_reset (fst (w_vc1 ws), snd (w_vc1 ws), w_log ws)
      in (r, ws\<lparr>w_vc1 := (h, s), w_log := log\<rparr>))"
| "writer_reset WriterFramebuffer ws = (fb_reset, ws)"

text \<open>
  \<open>writeData\<close> with a \<open>WriterAVCallData_t\<close>; the frame buffer writer would take it for another
  structure, which is undefined.
\<close>

definition logged :: "writers \<Rightarrow> (int \<times> wlog) option \<Rightarrow> (int \<times> writers) option" where
  "logged ws r = map_option (\<lambda>(n, log). (n, ws\<lparr>w_log := log\<rparr>)) r"

fun writer_write :: "writer_env \<Rightarrow> Writer_t \<Rightarrow> WriterAVCallData_t \<Rightarrow> writers \<Rightarrow> (int \<times> writers) option" where
  "writer_write e WriterAudioIPCM call ws =
     map_option (\<lambda>(n, st, log). (n, ws\<lparr>w_pcm := st, w_log := log\<rparr>))
       (pcm_writeData (we_device e) (we_junk e) (Some call) (w_pcm ws, w_log ws))"
| "writer_write e WriterAudioPCM call ws =
     map_option (\<lambda>(n, st, log). (n, ws\<lparr>w_pcm := st, w_log := log\<rparr>))
       (pcm_writeData (we_device e) (we_junk e) (Some call) (w_pcm ws, w_log ws))"
| "writer_write e WriterAudioMP3 call ws = logged ws (mp3_writeData (we_device e) (Some call) (w_log ws))"
| "writer_write e WriterAudioMPEGL3 call ws = logged ws (mp3_writeData (we_device e) (Some call) (w_log ws))"
| "writer_write e WriterAudioAC3 call ws = logged ws (ac3_writeData (we_device e) (Some call) (w_log ws))"
| "writer_write e WriterAudioAAC call ws =
     logged ws (map_option (\<lambda>(n, c, log). (n, log)) (aac_writeData (we_device e) (Some call) (w_log ws)))"
| "writer_write e WriterAudioDTS call ws = logged ws (dts_writeData (we_device e) (Some call) (w_log ws))"
| "writer_write e WriterAudioWMA call ws =
     map_option (\<lambda>(n, h, log). (n, ws\<lparr>w_wma := h, w_log := log\<rparr>))
       (wma_writeData (we_device e) (Some call) (w_wma ws, w_log ws))"
| "writer_write e WriterAudioFLAC call ws = logged ws (flac_writeData (we_device e) (Some call) (w_log ws))"
| "writer_write e WriterAudioVORBIS call ws = logged ws (vorbis_writeData (we_device e) (Some call) (w_log ws))"
| "writer_write e WriterVideoMPEG2 call ws =
     logged ws (map_option (\<lambda>(n, c, log). (n, log)) (mpeg2_writeData (we_device e) (Some call) (w_log ws)))"
| "writer_write e WriterVideoMPEGH264 call ws =
     logged ws (map_option (\<lambda>(n, c, log). (n, log)) (mpeg2_writeData (we_device e) (Some call) (w_log ws)))"
| "writer_write e WriterVideoH264 call ws =
     map_option (\<lambda>(n, st, log). (n, ws\<lparr>w_h264 := st, w_log := log\<rparr>))
       (h264_writeData (we_device e) (we_junk e) (Some call) (w_h264 ws, w_log ws))"
| "writer_write e WriterVideoDIVX call ws =
     map_option (\<lambda>(n, h, log). (n, ws\<lparr>w_divx := h, w_log := log\<rparr>))
       (divx_writeData (we_device e) (Some call) (w_divx ws, w_log ws))"
| "writer_write e WriterVideoFOURCC call ws =
     map_option (\<lambda>(n, h, log). (n, ws\<lparr>w_divx := h, w_log := log\<rparr>))
       (divx_writeData (we_device e) (Some call) (w_divx ws, w_log ws))"
| "writer_write e WriterVideoMSCOMP call ws =
     map_option (\<lambda>(n, h, log). (n, ws\<lparr>w_divx := h, w_log := log\<rparr>))
       (divx_writeData (we_device e) (Some call) (w_divx ws, w_log ws))"
| "writer_write e WriterVideoWMV call ws =
     map_option (\<lambda>(n, c, h, log). (n, ws\<lparr>w_wmv := h, w_log := log\<rparr>))
       (wmv_writeData (we_fps e) (we_junks e) (we_device e) (Some call) (w_wmv ws, w_log ws))"
| "writer_write e WriterVideoH263 call ws = logged ws (h263_writeData (we_device e) (Some call) (w_log ws))"
| "writer_write e WriterVideoFLV call ws = logged ws (h263_writeData (we_device e) (Some call) (w_log ws))"
| "writer_write e WriterVideoVC1 call ws =
     map_option (\<lambda>(n, c, h, s, log). (n, ws\<lparr>w_vc1 := (h, s), w_log := log\<rparr>))
       (vc1_writeData (we_fps e) (we_device e) (Some call) (fst (w_vc1 ws), snd (w_vc1 ws), w_log ws))"
| "writer_write e WriterFramebuffer call ws = None"

end
