(* ===== verification/Linuxdvb.thy ===== *)
theory Linuxdvb
  imports Writer_Registry Track_Managers
begin

text \<open>
  \<open>output/linuxdvb.c\<close> of libeplayer3: the output that drives the video and audio decoder devices, and
  the player context of \<open>include/common.h\<close>, \<open>playback.h\<close>, \<open>output.h\<close> and \<open>container.h\<close> that all
  commands share.

  The devices are parameters: what \<open>open\<close> returns, which \<open>ioctl\<close> succeeds and the values read. Every
  system call is recorded in \<open>dvb_log\<close>. \<open>None\<close> is undefined behaviour, or a mutex that is locked
  again by its owner and so never returns. The build defines none of the macros
  \<open>use_set_speed_instead_ff\<close>, \<open>reverse_playback_1\<close> and \<open>reverse_playback_2\<close>.
\<close>

subsection \<open>Devices\<close>

datatype dvb_ioctl =
    VIDEO_CLEAR_BUFFER | VIDEO_SELECT_SOURCE int | VIDEO_SET_STREAMTYPE int | VIDEO_SET_SPEED int
  | VIDEO_SET_ENCODING int | VIDEO_PLAY | VIDEO_STOP | VIDEO_FREEZE | VIDEO_CONTINUE
  | VIDEO_DISCONTINUITY int | VIDEO_FLUSH | VIDEO_FAST_FORWARD int | VIDEO_SLOWMOTION int
  | VIDEO_GET_PTS | VIDEO_GET_PLAY_INFO
  | AUDIO_CLEAR_BUFFER | AUDIO_SELECT_SOURCE int | AUDIO_SET_STREAMTYPE int | AUDIO_SET_SPEED int
  | AUDIO_SET_ENCODING int | AUDIO_PLAY | AUDIO_STOP | AUDIO_PAUSE | AUDIO_CONTINUE
  | AUDIO_FLUSH | AUDIO_SET_AV_SYNC int | AUDIO_GET_PTS | AUDIO_GET_PLAY_INFO

datatype dvb_event = Dvb_Open string int | Dvb_Ioctl int dvb_ioctl | Dvb_Close int

record linuxdvb =
  videofd :: int
  audiofd :: int
  sCURRENT_PTS :: u64
  LinuxDVBmutex :: bool
  dvb_log :: "dvb_event list"

definition linuxdvb_init :: linuxdvb where
  "linuxdvb_init = \<lparr>videofd = -1, audiofd = -1, sCURRENT_PTS = 0, LinuxDVBmutex = False, dvb_log = []\<rparr>"

definition VIDEODEV :: string where "VIDEODEV = ''/dev/dvb/adapter0/video0''"
definition AUDIODEV :: string where "AUDIODEV = ''/dev/dvb/adapter0/audio0''"
definition VIDEO_SOURCE_MEMORY :: int where "VIDEO_SOURCE_MEMORY = 1"
definition AUDIO_SOURCE_MEMORY :: int where "AUDIO_SOURCE_MEMORY = 1"
definition STREAM_TYPE_PROGRAM :: int where "STREAM_TYPE_PROGRAM = 4"
definition DVB_SPEED_NORMAL_PLAY :: int where "DVB_SPEED_NORMAL_PLAY = 1000"
definition VIDEO_DISCONTINUITY_CONTINUOUS_REVERSE :: int where "VIDEO_DISCONTINUITY_CONTINUOUS_REVERSE = 2"
definition cERR_LINUXDVB_NO_ERROR :: int where "cERR_LINUXDVB_NO_ERROR = 0"
definition cERR_LINUXDVB_ERROR :: int where "cERR_LINUXDVB_ERROR = -1"

subsection \<open>The player context\<close>

text \<open>
  \<open>BackWard\<close> is a \<open>float\<close> that only ever holds small integers. The flags \<open>isVideo\<close>, \<open>isAudio\<close> and
  \<open>isSubtitle\<close> are kept with the track managers, which set them.
\<close>

record PlaybackHandler_t =
  isFile :: bool
  isHttp :: bool
  isUPNP :: bool
  isPlaying :: bool
  isPaused :: bool
  isForwarding :: bool
  isSeeking :: bool
  isCreationPhase :: bool
  BackWard :: int
  SlowMotion :: int
  Speed :: int
  AVSync :: int
  uri :: string
  noprobe :: bool

datatype Output_t = LinuxDvbOutput | SubtitleOutput

text \<open>
  The context with the static variables of the files it reaches. \<open>selectedContainer\<close> is the ffmpeg
  container or NULL, the only two values there are; \<open>others\<close> is the state of the parts that are parameters of the
  model.
\<close>

record 'x Context_t =
  playback :: PlaybackHandler_t
  selectedContainer :: bool
  out_audio :: "Output_t option"
  out_video :: "Output_t option"
  out_subtitle :: "Output_t option"
  mgr_audio :: mgr_state
  mgr_video :: mgr_state
  mgr_subtitle :: mgr_state
  dvb :: linuxdvb
  writers_st :: writers
  hasThreadStarted :: bool
  others :: 'x

datatype OutputCmd_t =
    OUTPUT_INIT | OUTPUT_ADD | OUTPUT_DEL | OUTPUT_CAPABILITIES | OUTPUT_PLAY | OUTPUT_STOP
  | OUTPUT_PAUSE | OUTPUT_OPEN | OUTPUT_CLOSE | OUTPUT_FLUSH | OUTPUT_CONTINUE | OUTPUT_FASTFORWARD
  | OUTPUT_AVSYNC | OUTPUT_CLEAR | OUTPUT_PTS | OUTPUT_SWITCH | OUTPUT_SLOWMOTION
  | OUTPUT_AUDIOMUTE | OUTPUT_REVERSE | OUTPUT_DISCONTINUITY_REVERSE | OUTPUT_GET_FRAME_COUNT

text \<open>The argument of a command: NULL, a string, or a pointer to an integer.\<close>

datatype cmd_arg = Arg_NULL | Arg_string string | Arg_int int

text \<open>
  The commands of the containers, with what they read; what they store through their argument is
  the \<open>container_out\<close>.
\<close>

datatype ContainerCmd_t =
    CONTAINER_INIT "string option" | CONTAINER_PLAY | CONTAINER_STOP | CONTAINER_SEEK u32
  | CONTAINER_LENGTH | CONTAINER_DEL | CONTAINER_SWITCH_AUDIO int | CONTAINER_SWITCH_SUBTITLE int
  | CONTAINER_INFO | CONTAINER_STATUS | CONTAINER_LAST_PTS

datatype container_out = CO_none | CO_int int | CO_double u64 | CO_string string

text \<open>
  The environment: writers, memory allocation, the decoder devices, the containers and the
  subtitle output, whether the supervisor thread can be created, and whether it has ended by
  the \<open>n\<close>-th time it is waited for.
\<close>

record 'x player_env =
  pe_writer :: writer_env
  pe_malloc :: bool
  pe_open :: "dvb_event list \<Rightarrow> string \<Rightarrow> int"
  pe_ioctl :: "dvb_event list \<Rightarrow> int \<Rightarrow> dvb_ioctl \<Rightarrow> bool"
  pe_pts :: "dvb_event list \<Rightarrow> u64"
  pe_frames :: "dvb_event list \<Rightarrow> u64"
  pe_junk :: u32
  pe_ffmpeg :: "ContainerCmd_t \<Rightarrow> 'x Context_t \<Rightarrow> (int \<times> container_out \<times> 'x Context_t) option"
  pe_srt :: "ContainerCmd_t \<Rightarrow> 'x Context_t \<Rightarrow> (int \<times> container_out \<times> 'x Context_t) option"
  pe_ssa :: "ContainerCmd_t \<Rightarrow> 'x Context_t \<Rightarrow> (int \<times> container_out \<times> 'x Context_t) option"
  pe_ass :: "ContainerCmd_t \<Rightarrow> 'x Context_t \<Rightarrow> (int \<times> container_out \<times> 'x Context_t) option"
  pe_subtitle :: "OutputCmd_t \<Rightarrow> cmd_arg \<Rightarrow> 'x Context_t \<Rightarrow> (int \<times> u64 option \<times> 'x Context_t) option"
  pe_thread :: bool
  pe_ended :: "nat \<Rightarrow> bool"

subsection \<open>System calls\<close>

definition record_event :: "dvb_event \<Rightarrow> 'x Context_t \<Rightarrow> 'x Context_t" where
  "record_event ev ctx = ctx\<lparr>dvb := (dvb ctx)\<lparr>dvb_log := dvb_log (dvb ctx) @ [ev]\<rparr>\<rparr>"

definition ioctl :: "'x player_env \<Rightarrow> int \<Rightarrow> dvb_ioctl \<Rightarrow> 'x Context_t \<Rightarrow> bool \<times> 'x Context_t" where
  "ioctl env fd req ctx = (pe_ioctl env (dvb_log (dvb ctx)) fd req, record_event (Dvb_Ioctl fd req) ctx)"

text \<open>A sequence of requests, each made whether or not those before it succeeded.\<close>

primrec ioctls :: "'x player_env \<Rightarrow> int \<Rightarrow> dvb_ioctl list \<Rightarrow> 'x Context_t \<Rightarrow> bool list \<times> 'x Context_t" where
  "ioctls env fd [] ctx = ([], ctx)"
| "ioctls env fd (r # rs) ctx =
     (let (ok, ctx) = ioctl env fd r ctx; (oks, ctx) = ioctls env fd rs ctx in (ok # oks, ctx))"

definition getLinuxDVBMutex :: "'x Context_t \<Rightarrow> 'x Context_t option" where
  "getLinuxDVBMutex ctx =
     (if LinuxDVBmutex (dvb ctx) then None else Some (ctx\<lparr>dvb := (dvb ctx)\<lparr>LinuxDVBmutex := True\<rparr>\<rparr>))"

definition releaseLinuxDVBMutex :: "'x Context_t \<Rightarrow> 'x Context_t" where
  "releaseLinuxDVBMutex ctx = ctx\<lparr>dvb := (dvb ctx)\<lparr>LinuxDVBmutex := False\<rparr>\<rparr>"

definition set_pts :: "u64 \<Rightarrow> 'x Context_t \<Rightarrow> 'x Context_t" where
  "set_pts p ctx = ctx\<lparr>dvb := (dvb ctx)\<lparr>sCURRENT_PTS := p\<rparr>\<rparr>"

text \<open>\<open>strcmp\<close> with the NULL pointer is undefined.\<close>

fun arg_type :: "cmd_arg \<Rightarrow> string option" where
  "arg_type (Arg_string s) = Some s"
| "arg_type a = None"

definition use_video :: "string \<Rightarrow> 'x Context_t \<Rightarrow> bool" where
  "use_video type ctx \<longleftrightarrow> type = ''video'' \<and> videofd (dvb ctx) \<noteq> -1"

definition use_audio :: "string \<Rightarrow> 'x Context_t \<Rightarrow> bool" where
  "use_audio type ctx \<longleftrightarrow> type = ''audio'' \<and> audiofd (dvb ctx) \<noteq> -1"

text \<open>\<open>MANAGER_GETENCODING\<close> of the video and audio manager.\<close>

fun encoding_of :: "(int \<times> mgr_out \<times> mgr_state) option \<Rightarrow> string option" where
  "encoding_of (Some (r, Out_string e, s)) = Some e"
| "encoding_of x = None"

definition video_encoding :: "'x player_env \<Rightarrow> 'x Context_t \<Rightarrow> string option" where
  "video_encoding env ctx = encoding_of (video_Command (pe_malloc env) (mgr_video ctx) MANAGER_GETENCODING)"

definition audio_encoding :: "'x player_env \<Rightarrow> 'x Context_t \<Rightarrow> string option" where
  "audio_encoding env ctx = encoding_of (audio_Command (pe_malloc env) (mgr_audio ctx) MANAGER_GETENCODING)"

definition video_dvb :: "string \<Rightarrow> int" where
  "video_dvb e = (case getWriter e of None \<Rightarrow> VIDEO_ENCODING_AUTO | Some w \<Rightarrow> dvbEncoding (writer_caps w))"

definition audio_dvb :: "string \<Rightarrow> int" where
  "audio_dvb e = (case getWriter e of None \<Rightarrow> AUDIO_ENCODING_MP3 | Some w \<Rightarrow> dvbEncoding (writer_caps w))"

definition err_unless :: "bool \<Rightarrow> int \<Rightarrow> int" where
  "err_unless ok ret = (if ok then ret else cERR_LINUXDVB_ERROR)"

subsection \<open>The operations\<close>

definition LinuxDvbOpen :: "'x player_env \<Rightarrow> 'x Context_t \<Rightarrow> string \<Rightarrow> int \<times> 'x Context_t" where
  "LinuxDvbOpen env ctx type =
     (if type = ''video'' \<and> videofd (dvb ctx) = -1 then
        (let fd = pe_open env (dvb_log (dvb ctx)) VIDEODEV;
             ctx = record_event (Dvb_Open VIDEODEV fd) (ctx\<lparr>dvb := (dvb ctx)\<lparr>videofd := fd\<rparr>\<rparr>)
         in if fd \<le> 0 then (cERR_LINUXDVB_ERROR, ctx)
            else (cERR_LINUXDVB_NO_ERROR,
                  snd (ioctls env fd [VIDEO_CLEAR_BUFFER, VIDEO_SELECT_SOURCE VIDEO_SOURCE_MEMORY,
                                      VIDEO_SET_STREAMTYPE STREAM_TYPE_PROGRAM,
                                      VIDEO_SET_SPEED DVB_SPEED_NORMAL_PLAY] ctx)))
      else if type = ''audio'' \<and> audiofd (dvb ctx) = -1 then
        (let fd = pe_open env (dvb_log (dvb ctx)) AUDIODEV;
             ctx = record_event (Dvb_Open AUDIODEV fd) (ctx\<lparr>dvb := (dvb ctx)\<lparr>audiofd := fd\<rparr>\<rparr>)
         in if fd \<le> 0
            then (cERR_LINUXDVB_ERROR,
                  if videofd (dvb ctx) \<noteq> -1 then record_event (Dvb_Close (videofd (dvb ctx))) ctx else ctx)
            else (cERR_LINUXDVB_NO_ERROR,
                  snd (ioctls env fd [AUDIO_CLEAR_BUFFER, AUDIO_SELECT_SOURCE AUDIO_SOURCE_MEMORY,
                                      AUDIO_SET_STREAMTYPE STREAM_TYPE_PROGRAM] ctx)))
      else (cERR_LINUXDVB_NO_ERROR, ctx))"

definition LinuxDvbStop :: "'x player_env \<Rightarrow> 'x Context_t \<Rightarrow> string \<Rightarrow> (int \<times> 'x Context_t) option" where
  "LinuxDvbStop env ctx type = do {
     ctx \<leftarrow> getLinuxDVBMutex ctx;
     let (ret, ctx) =
       (if use_video type ctx
        then (let (oks, ctx) = ioctls env (videofd (dvb ctx))
                    [VIDEO_CLEAR_BUFFER, VIDEO_SET_SPEED DVB_SPEED_NORMAL_PLAY, VIDEO_STOP] ctx
              in (err_unless (last oks) 0, ctx))
        else (0, ctx));
     let (ret, ctx) =
       (if use_audio type ctx
        then (let (oks, ctx) = ioctls env (audiofd (dvb ctx))
                    [AUDIO_CLEAR_BUFFER, AUDIO_SET_SPEED DVB_SPEED_NORMAL_PLAY, AUDIO_STOP] ctx
              in (err_unless (last oks) ret, ctx))
        else (ret, ctx));
     Some (ret, releaseLinuxDVBMutex ctx)
   }"

definition LinuxDvbClose :: "'x player_env \<Rightarrow> 'x Context_t \<Rightarrow> string \<Rightarrow> (int \<times> 'x Context_t) option" where
  "LinuxDvbClose env ctx type = do {
     (r, ctx) \<leftarrow> LinuxDvbStop env ctx type;
     ctx \<leftarrow> getLinuxDVBMutex ctx;
     let ctx = (if use_video type ctx
                then (record_event (Dvb_Close (videofd (dvb ctx))) ctx)\<lparr>dvb := (dvb (record_event (Dvb_Close (videofd (dvb ctx))) ctx))\<lparr>videofd := -1\<rparr>\<rparr>
                else ctx);
     let ctx = (if use_audio type ctx
                then (record_event (Dvb_Close (audiofd (dvb ctx))) ctx)\<lparr>dvb := (dvb (record_event (Dvb_Close (audiofd (dvb ctx))) ctx))\<lparr>audiofd := -1\<rparr>\<rparr>
                else ctx);
     Some (cERR_LINUXDVB_NO_ERROR, releaseLinuxDVBMutex ctx)
   }"

definition LinuxDvbPlay :: "'x player_env \<Rightarrow> 'x Context_t \<Rightarrow> string \<Rightarrow> (int \<times> 'x Context_t) option" where
  "LinuxDvbPlay env ctx type =
     (if use_video type ctx then do {
        e \<leftarrow> video_encoding env ctx;
        let (oks, ctx) = ioctls env (videofd (dvb ctx)) [VIDEO_SET_ENCODING (video_dvb e), VIDEO_PLAY] ctx;
        Some (err_unless (list_all id oks) 0, ctx)
      }
      else if use_audio type ctx then do {
        e \<leftarrow> audio_encoding env ctx;
        let (oks, ctx) = ioctls env (audiofd (dvb ctx)) [AUDIO_SET_ENCODING (audio_dvb e), AUDIO_PLAY] ctx;
        Some (err_unless (list_all id oks) 0, ctx)
      }
      else Some (cERR_LINUXDVB_NO_ERROR, ctx))"

definition LinuxDvbPause :: "'x player_env \<Rightarrow> 'x Context_t \<Rightarrow> string \<Rightarrow> (int \<times> 'x Context_t) option" where
  "LinuxDvbPause env ctx type = do {
     ctx \<leftarrow> getLinuxDVBMutex ctx;
     let (ok, ctx) = (if use_video type ctx then ioctl env (videofd (dvb ctx)) VIDEO_FREEZE ctx
                      else if use_audio type ctx then ioctl env (audiofd (dvb ctx)) AUDIO_PAUSE ctx
                      else (True, ctx));
     Some (err_unless ok 0, releaseLinuxDVBMutex ctx)
   }"

definition LinuxDvbContinue :: "'x player_env \<Rightarrow> 'x Context_t \<Rightarrow> string \<Rightarrow> int \<times> 'x Context_t" where
  "LinuxDvbContinue env ctx type =
     (let (ok, ctx) = (if use_video type ctx then ioctl env (videofd (dvb ctx)) VIDEO_CONTINUE ctx
                       else if use_audio type ctx then ioctl env (audiofd (dvb ctx)) AUDIO_CONTINUE ctx
                       else (True, ctx))
      in (err_unless ok 0, ctx))"

text \<open>A request on the descriptor -1 of a device that is not open fails, which is ignored.\<close>

definition LinuxDvbReverseDiscontinuity :: "'x player_env \<Rightarrow> 'x Context_t \<Rightarrow> int \<Rightarrow> int \<times> 'x Context_t" where
  "LinuxDvbReverseDiscontinuity env ctx surplus =
     (let (ok, ctx) = ioctl env (videofd (dvb ctx)) (VIDEO_DISCONTINUITY (VIDEO_DISCONTINUITY_CONTINUOUS_REVERSE OR surplus)) ctx
      in (cERR_LINUXDVB_NO_ERROR, ctx))"

definition LinuxDvbAudioMute :: "'x player_env \<Rightarrow> 'x Context_t \<Rightarrow> string \<Rightarrow> int \<times> 'x Context_t" where
  "LinuxDvbAudioMute env ctx flag =
     (if audiofd (dvb ctx) \<noteq> -1
      then (let (ok, ctx) = ioctl env (audiofd (dvb ctx)) (if take 1 flag = ''1'' then AUDIO_STOP else AUDIO_PLAY) ctx
            in (err_unless ok 0, ctx))
      else (cERR_LINUXDVB_NO_ERROR, ctx))"

definition LinuxDvbFlush :: "'x player_env \<Rightarrow> 'x Context_t \<Rightarrow> string \<Rightarrow> (int \<times> 'x Context_t) option" where
  "LinuxDvbFlush env ctx type =
     (if use_video type ctx \<or> use_audio type ctx then do {
        ctx \<leftarrow> getLinuxDVBMutex ctx;
        let ctx = (if use_video type ctx then snd (ioctls env (videofd (dvb ctx)) [VIDEO_FLUSH, VIDEO_STOP] ctx) else ctx);
        let ctx = (if use_audio type ctx then snd (ioctls env (audiofd (dvb ctx)) [AUDIO_FLUSH, AUDIO_STOP] ctx) else ctx);
        Some (cERR_LINUXDVB_NO_ERROR, releaseLinuxDVBMutex ctx)
      } else Some (cERR_LINUXDVB_NO_ERROR, ctx))"

definition LinuxDvbFastForward :: "'x player_env \<Rightarrow> 'x Context_t \<Rightarrow> string \<Rightarrow> (int \<times> 'x Context_t) option" where
  "LinuxDvbFastForward env ctx type =
     (if use_video type ctx then do {
        ctx \<leftarrow> getLinuxDVBMutex ctx;
        let (ok, ctx) = ioctl env (videofd (dvb ctx)) (VIDEO_FAST_FORWARD (Speed (playback ctx))) ctx;
        Some (err_unless ok 0, releaseLinuxDVBMutex ctx)
      } else Some (cERR_LINUXDVB_NO_ERROR, ctx))"

definition LinuxDvbReverse :: "'x Context_t \<Rightarrow> string \<Rightarrow> int \<times> 'x Context_t" where
  "LinuxDvbReverse ctx type = (cERR_LINUXDVB_NO_ERROR, ctx)"

definition LinuxDvbSlowMotion :: "'x player_env \<Rightarrow> 'x Context_t \<Rightarrow> string \<Rightarrow> (int \<times> 'x Context_t) option" where
  "LinuxDvbSlowMotion env ctx type =
     (if use_video type ctx \<or> use_audio type ctx then do {
        ctx \<leftarrow> getLinuxDVBMutex ctx;
        let (ok, ctx) = (if use_video type ctx
                         then ioctl env (videofd (dvb ctx)) (VIDEO_SLOWMOTION (SlowMotion (playback ctx))) ctx
                         else (True, ctx));
        Some (err_unless ok 0, releaseLinuxDVBMutex ctx)
      } else Some (cERR_LINUXDVB_NO_ERROR, ctx))"

definition LinuxDvbAVSync :: "'x player_env \<Rightarrow> 'x Context_t \<Rightarrow> (int \<times> 'x Context_t) option" where
  "LinuxDvbAVSync env ctx =
     (if audiofd (dvb ctx) \<noteq> -1 then do {
        ctx \<leftarrow> getLinuxDVBMutex ctx;
        let (ok, ctx) = ioctl env (audiofd (dvb ctx)) (AUDIO_SET_AV_SYNC (AVSync (playback ctx))) ctx;
        Some (err_unless ok 0, releaseLinuxDVBMutex ctx)
      } else Some (cERR_LINUXDVB_NO_ERROR, ctx))"

definition LinuxDvbClear :: "'x player_env \<Rightarrow> 'x Context_t \<Rightarrow> string \<Rightarrow> (int \<times> 'x Context_t) option" where
  "LinuxDvbClear env ctx type =
     (if use_video type ctx \<or> use_audio type ctx then do {
        ctx \<leftarrow> getLinuxDVBMutex ctx;
        let (ok, ctx) = (if use_video type ctx then ioctl env (videofd (dvb ctx)) VIDEO_CLEAR_BUFFER ctx
                         else ioctl env (audiofd (dvb ctx)) AUDIO_CLEAR_BUFFER ctx);
        Some (err_unless ok 0, releaseLinuxDVBMutex ctx)
      } else Some (cERR_LINUXDVB_NO_ERROR, ctx))"

text \<open>A failing request leaves the last PTS in \<open>sCURRENT_PTS\<close>.\<close>

definition LinuxDvbPts :: "'x player_env \<Rightarrow> 'x Context_t \<Rightarrow> int \<times> u64 \<times> 'x Context_t" where
  "LinuxDvbPts env ctx =
     (let (ret, ctx) =
        (if videofd (dvb ctx) \<noteq> -1 \<or> audiofd (dvb ctx) \<noteq> -1
         then (let (ok, ctx') = (if videofd (dvb ctx) \<noteq> -1 then ioctl env (videofd (dvb ctx)) VIDEO_GET_PTS ctx
                                 else ioctl env (audiofd (dvb ctx)) AUDIO_GET_PTS ctx)
               in (err_unless ok 0, if ok then set_pts (pe_pts env (dvb_log (dvb ctx))) ctx' else ctx'))
         else (cERR_LINUXDVB_ERROR, set_pts 0 ctx))
      in (ret, sCURRENT_PTS (dvb ctx), ctx))"

definition LinuxDvbGetFrameCount :: "'x player_env \<Rightarrow> 'x Context_t \<Rightarrow> (int \<times> u64 option \<times> 'x Context_t) option" where
  "LinuxDvbGetFrameCount env ctx = do {
     ctx \<leftarrow> getLinuxDVBMutex ctx;
     let (ok, ctx') = (if videofd (dvb ctx) \<noteq> -1 then ioctl env (videofd (dvb ctx)) VIDEO_GET_PLAY_INFO ctx
                       else if audiofd (dvb ctx) \<noteq> -1 then ioctl env (audiofd (dvb ctx)) AUDIO_GET_PLAY_INFO ctx
                       else (False, ctx));
     Some (err_unless ok 0, if ok then Some (pe_frames env (dvb_log (dvb ctx))) else None, releaseLinuxDVBMutex ctx')
   }"

definition LinuxDvbSwitch :: "'x player_env \<Rightarrow> 'x Context_t \<Rightarrow> string \<Rightarrow> (int \<times> 'x Context_t) option" where
  "LinuxDvbSwitch env ctx type =
     (if use_audio type ctx then do {
        ctx \<leftarrow> getLinuxDVBMutex ctx;
        e \<leftarrow> audio_encoding env ctx;
        let ctx = snd (ioctls env (audiofd (dvb ctx)) [AUDIO_STOP, AUDIO_CLEAR_BUFFER, AUDIO_SET_ENCODING (audio_dvb e), AUDIO_PLAY] ctx);
        Some (cERR_LINUXDVB_NO_ERROR, releaseLinuxDVBMutex ctx)
      }
      else if use_video type ctx then do {
        ctx \<leftarrow> getLinuxDVBMutex ctx;
        e \<leftarrow> video_encoding env ctx;
        let ctx = snd (ioctls env (videofd (dvb ctx)) [VIDEO_STOP, VIDEO_CLEAR_BUFFER, VIDEO_SET_ENCODING (video_dvb e), VIDEO_PLAY] ctx);
        Some (cERR_LINUXDVB_NO_ERROR, releaseLinuxDVBMutex ctx)
      }
      else Some (cERR_LINUXDVB_NO_ERROR, ctx))"

subsection \<open>Writing frames\<close>

text \<open>The frame rate is given as the number its \<open>float\<close> is converted to.\<close>

record AudioVideoOut_t =
  ao_data :: "bytes option"
  ao_len :: u32
  ao_extradata :: "bytes option"
  ao_extralen :: u32
  ao_pts :: u64
  ao_frameRate :: u32
  ao_timeScale :: u32
  ao_width :: u32
  ao_height :: u32
  ao_type :: string

definition writer_call :: "int \<Rightarrow> u32 \<Rightarrow> u32 \<Rightarrow> AudioVideoOut_t \<Rightarrow> WriterAVCallData_t" where
  "writer_call fd w h out =
     \<lparr>av_fd = fd, av_data = ao_data out, av_len = ao_len out, av_Pts = ao_pts out,
      av_private_data = ao_extradata out, av_private_size = ao_extralen out,
      av_FrameRate = ao_frameRate out, av_FrameScale = ao_timeScale out,
      av_Width = w, av_Height = h, av_Version = 0\<rparr>"

text \<open>The width and height of an audio call are not set.\<close>

definition LinuxDvbWrite :: "'x player_env \<Rightarrow> 'x Context_t \<Rightarrow> AudioVideoOut_t option \<Rightarrow> (int \<times> 'x Context_t) option" where
  "LinuxDvbWrite env ctx out_p =
     (case out_p of
        None \<Rightarrow> Some (cERR_LINUXDVB_ERROR, ctx)
      | Some out \<Rightarrow>
          if ao_type out = ''video'' then do {
            e \<leftarrow> video_encoding env ctx;
            (case (case getWriter e of Some w \<Rightarrow> Some w | None \<Rightarrow> getDefaultVideoWriter) of
               None \<Rightarrow> Some (cERR_LINUXDVB_ERROR, ctx)
             | Some w \<Rightarrow> do {
                 (res, ws) \<leftarrow> writer_write (pe_writer env) w
                    (writer_call (videofd (dvb ctx)) (ao_width out) (ao_height out) out) (writers_st ctx);
                 Some (err_unless (0 < res) 0, ctx\<lparr>writers_st := ws\<rparr>)
               })
          }
          else if ao_type out = ''audio'' then do {
            e \<leftarrow> audio_encoding env ctx;
            (case (case getWriter e of Some w \<Rightarrow> Some w | None \<Rightarrow> getDefaultAudioWriter) of
               None \<Rightarrow> Some (cERR_LINUXDVB_ERROR, ctx)
             | Some w \<Rightarrow> do {
                 (res, ws) \<leftarrow> writer_write (pe_writer env) w
                    (writer_call (audiofd (dvb ctx)) (pe_junk env) (pe_junk env) out) (writers_st ctx);
                 Some (err_unless (0 < res) 0, ctx\<lparr>writers_st := ws\<rparr>)
               })
          }
          else Some (cERR_LINUXDVB_NO_ERROR, ctx))"

subsection \<open>Commands\<close>

definition reset_writer :: "string \<Rightarrow> int \<Rightarrow> 'x Context_t \<Rightarrow> int \<times> 'x Context_t" where
  "reset_writer e ret ctx =
     (case getWriter e of
        None \<Rightarrow> (cERR_LINUXDVB_ERROR, ctx)
      | Some w \<Rightarrow> (ret, ctx\<lparr>writers_st := snd (writer_reset w (writers_st ctx))\<rparr>))"

definition linuxdvb_reset :: "'x player_env \<Rightarrow> 'x Context_t \<Rightarrow> (int \<times> 'x Context_t) option" where
  "linuxdvb_reset env ctx = do {
     e \<leftarrow> video_encoding env ctx;
     let (ret, ctx) = reset_writer e cERR_LINUXDVB_NO_ERROR ctx;
     e \<leftarrow> audio_encoding env ctx;
     Some (reset_writer e ret ctx)
   }"

text \<open>The value returned, what is stored through a pointer argument, and the context.\<close>

definition no_value :: "int \<times> 'x Context_t \<Rightarrow> int \<times> u64 option \<times> 'x Context_t" where
  "no_value = (\<lambda>(ret, ctx). (ret, None, ctx))"

definition LinuxDvb_Command ::
  "'x player_env \<Rightarrow> 'x Context_t \<Rightarrow> OutputCmd_t \<Rightarrow> cmd_arg \<Rightarrow> (int \<times> u64 option \<times> 'x Context_t) option" where
  "LinuxDvb_Command env ctx command arg =
     (case command of
        OUTPUT_OPEN \<Rightarrow> do { t \<leftarrow> arg_type arg; Some (no_value (LinuxDvbOpen env ctx t)) }
      | OUTPUT_CLOSE \<Rightarrow> do {
          t \<leftarrow> arg_type arg;
          (ret, ctx) \<leftarrow> LinuxDvbClose env ctx t;
          (r, ctx) \<leftarrow> linuxdvb_reset env ctx;
          Some (ret, None, set_pts 0 ctx)
        }
      | OUTPUT_PLAY \<Rightarrow> do { t \<leftarrow> arg_type arg; map_option no_value (LinuxDvbPlay env (set_pts 0 ctx) t) }
      | OUTPUT_STOP \<Rightarrow> do {
          t \<leftarrow> arg_type arg;
          (r, ctx) \<leftarrow> linuxdvb_reset env ctx;
          (ret, ctx) \<leftarrow> LinuxDvbStop env ctx t;
          Some (ret, None, set_pts 0 ctx)
        }
      | OUTPUT_FLUSH \<Rightarrow> do {
          t \<leftarrow> arg_type arg;
          (ret, ctx) \<leftarrow> LinuxDvbFlush env ctx t;
          (r, ctx) \<leftarrow> linuxdvb_reset env ctx;
          Some (ret, None, set_pts 0 ctx)
        }
      | OUTPUT_PAUSE \<Rightarrow> do { t \<leftarrow> arg_type arg; map_option no_value (LinuxDvbPause env ctx t) }
      | OUTPUT_CONTINUE \<Rightarrow> do { t \<leftarrow> arg_type arg; Some (no_value (LinuxDvbContinue env ctx t)) }
      | OUTPUT_FASTFORWARD \<Rightarrow> do { t \<leftarrow> arg_type arg; map_option no_value (LinuxDvbFastForward env ctx t) }
      | OUTPUT_REVERSE \<Rightarrow> do { t \<leftarrow> arg_type arg; Some (no_value (LinuxDvbReverse ctx t)) }
      | OUTPUT_AVSYNC \<Rightarrow> map_option no_value (LinuxDvbAVSync env ctx)
      | OUTPUT_CLEAR \<Rightarrow> do { t \<leftarrow> arg_type arg; map_option no_value (LinuxDvbClear env ctx t) }
      | OUTPUT_PTS \<Rightarrow> (let (ret, pts, ctx) = LinuxDvbPts env ctx in Some (ret, Some pts, ctx))
      | OUTPUT_SWITCH \<Rightarrow> do { t \<leftarrow> arg_type arg; map_option no_value (LinuxDvbSwitch env ctx t) }
      | OUTPUT_SLOWMOTION \<Rightarrow> do { t \<leftarrow> arg_type arg; map_option no_value (LinuxDvbSlowMotion env ctx t) }
      | OUTPUT_AUDIOMUTE \<Rightarrow>
          (if audiofd (dvb ctx) = -1 then Some (cERR_LINUXDVB_NO_ERROR, None, ctx)
           else do { f \<leftarrow> arg_type arg; Some (no_value (LinuxDvbAudioMute env ctx f)) })
      | OUTPUT_DISCONTINUITY_REVERSE \<Rightarrow>
          (case arg of Arg_int n \<Rightarrow> Some (no_value (LinuxDvbReverseDiscontinuity env ctx n)) | _ \<Rightarrow> None)
      | OUTPUT_GET_FRAME_COUNT \<Rightarrow> do {
          (ret, n, ctx) \<leftarrow> LinuxDvbGetFrameCount env ctx;
          Some (ret, Some (case n of None \<Rightarrow> 0 | Some n \<Rightarrow> n), ctx)
        }
      | _ \<Rightarrow> Some (cERR_LINUXDVB_ERROR, None, ctx))"

end
