(* ===== verification/Output_Handler.thy ===== *)
theory Output_Handler
  imports Linuxdvb
begin

text \<open>
  \<open>output/output.c\<close>, \<open>container/container.c\<close> and the name helpers of \<open>include/misc.h\<close>: the handlers that pass a
  command on to the outputs in use, and that choose a container for a file name extension.
\<close>

subsection \<open>output.c\<close>

definition cERR_OUTPUT_NO_ERROR :: int where "cERR_OUTPUT_NO_ERROR = 0"
definition cERR_OUTPUT_INTERNAL_ERROR :: int where "cERR_OUTPUT_INTERNAL_ERROR = -1"

definition AvailableOutput :: "Output_t list" where
  "AvailableOutput = [LinuxDvbOutput, SubtitleOutput]"

fun output_capabilities :: "Output_t \<Rightarrow> string list" where
  "output_capabilities LinuxDvbOutput = [''audio'', ''video'']"
| "output_capabilities SubtitleOutput = [''subtitle'']"

definition set_port :: "string \<Rightarrow> Output_t option \<Rightarrow> 'x Context_t \<Rightarrow> 'x Context_t" where
  "set_port port out ctx =
     (if port = ''audio'' then ctx\<lparr>out_audio := out\<rparr>
      else if port = ''video'' then ctx\<lparr>out_video := out\<rparr>
      else if port = ''subtitle'' then ctx\<lparr>out_subtitle := out\<rparr>
      else ctx)"

definition OutputAdd :: "'x Context_t \<Rightarrow> string \<Rightarrow> 'x Context_t" where
  "OutputAdd ctx port =
     fold (\<lambda>out ctx. if port \<in> set (output_capabilities out) then set_port port (Some out) ctx else ctx)
       AvailableOutput ctx"

definition OutputDel :: "'x Context_t \<Rightarrow> string \<Rightarrow> 'x Context_t" where
  "OutputDel ctx port = set_port port None ctx"

text \<open>A call through the pointer to an output, which may be NULL.\<close>

definition call_output ::
  "'x player_env \<Rightarrow> Output_t option \<Rightarrow> OutputCmd_t \<Rightarrow> cmd_arg \<Rightarrow> 'x Context_t \<Rightarrow> (int \<times> u64 option \<times> 'x Context_t) option" where
  "call_output env out command arg ctx =
     (case out of
        None \<Rightarrow> None
      | Some LinuxDvbOutput \<Rightarrow> LinuxDvb_Command env ctx command arg
      | Some SubtitleOutput \<Rightarrow> pe_subtitle env command arg ctx)"

text \<open>\<open>if (context->playback->isVideo) ret |= context->output->video->Command(..)\<close> and the like.\<close>

definition or_video :: "'x player_env \<Rightarrow> OutputCmd_t \<Rightarrow> cmd_arg \<Rightarrow> int \<times> 'x Context_t \<Rightarrow> (int \<times> 'x Context_t) option" where
  "or_video env command arg = (\<lambda>(ret, ctx).
     if is_playing (mgr_video ctx)
     then do { (r, v, ctx) \<leftarrow> call_output env (out_video ctx) command arg ctx; Some (ret OR r, ctx) }
     else Some (ret, ctx))"

definition or_audio :: "'x player_env \<Rightarrow> OutputCmd_t \<Rightarrow> cmd_arg \<Rightarrow> int \<times> 'x Context_t \<Rightarrow> (int \<times> 'x Context_t) option" where
  "or_audio env command arg = (\<lambda>(ret, ctx).
     if is_playing (mgr_audio ctx)
     then do { (r, v, ctx) \<leftarrow> call_output env (out_audio ctx) command arg ctx; Some (ret OR r, ctx) }
     else Some (ret, ctx))"

definition or_subtitle :: "'x player_env \<Rightarrow> OutputCmd_t \<Rightarrow> cmd_arg \<Rightarrow> int \<times> 'x Context_t \<Rightarrow> (int \<times> 'x Context_t) option" where
  "or_subtitle env command arg = (\<lambda>(ret, ctx).
     if is_playing (mgr_subtitle ctx)
     then do { (r, v, ctx) \<leftarrow> call_output env (out_subtitle ctx) command arg ctx; Some (ret OR r, ctx) }
     else Some (ret, ctx))"

definition both_outputs :: "'x player_env \<Rightarrow> OutputCmd_t \<Rightarrow> 'x Context_t \<Rightarrow> (int \<times> 'x Context_t) option" where
  "both_outputs env command ctx = do {
     s \<leftarrow> or_video env command (Arg_string ''video'') (cERR_OUTPUT_NO_ERROR, ctx);
     or_audio env command (Arg_string ''audio'') s
   }"

definition all_outputs :: "'x player_env \<Rightarrow> OutputCmd_t \<Rightarrow> 'x Context_t \<Rightarrow> (int \<times> 'x Context_t) option" where
  "all_outputs env command ctx = do {
     s \<leftarrow> both_outputs env command ctx;
     or_subtitle env command (Arg_string ''subtitle'') s
   }"

text \<open>The first output that is in use answers: video, then audio.\<close>

definition first_output :: "'x player_env \<Rightarrow> OutputCmd_t \<Rightarrow> cmd_arg \<Rightarrow> 'x Context_t \<Rightarrow> (int \<times> u64 option \<times> 'x Context_t) option" where
  "first_output env command arg ctx =
     (if is_playing (mgr_video ctx) then call_output env (out_video ctx) command arg ctx
      else if is_playing (mgr_audio ctx) then call_output env (out_audio ctx) command arg ctx
      else Some (cERR_OUTPUT_NO_ERROR, None, ctx))"

definition output_play :: "'x player_env \<Rightarrow> 'x Context_t \<Rightarrow> (int \<times> 'x Context_t) option" where
  "output_play env ctx = do {
     (ret, ctx) \<leftarrow> or_video env OUTPUT_PLAY (Arg_string ''video'') (cERR_OUTPUT_NO_ERROR, ctx);
     (if ret \<noteq> 0 then Some (ret, ctx)
      else do {
        (ret, ctx) \<leftarrow> or_audio env OUTPUT_PLAY (Arg_string ''audio'') (ret, ctx);
        (if ret \<noteq> 0 then Some (ret, ctx)
         else or_subtitle env OUTPUT_PLAY (Arg_string ''subtitle'') (ret, ctx))
      })
   }"

definition arg_first :: "cmd_arg \<Rightarrow> char \<Rightarrow> bool" where
  "arg_first arg c \<longleftrightarrow> (case arg of Arg_string s \<Rightarrow> take 1 s = [c] | _ \<Rightarrow> True)"

definition output_clear :: "'x player_env \<Rightarrow> cmd_arg \<Rightarrow> 'x Context_t \<Rightarrow> (int \<times> 'x Context_t) option" where
  "output_clear env arg ctx = do {
     s \<leftarrow> (if arg_first arg (CHR ''v'')
          then or_video env OUTPUT_CLEAR (Arg_string ''video'') (cERR_OUTPUT_NO_ERROR, ctx)
          else Some (cERR_OUTPUT_NO_ERROR, ctx));
     (if arg_first arg (CHR ''a'') then or_audio env OUTPUT_CLEAR (Arg_string ''audio'') s else Some s)
   }"

definition Output_Command ::
  "'x player_env \<Rightarrow> 'x Context_t \<Rightarrow> OutputCmd_t \<Rightarrow> cmd_arg \<Rightarrow> (int \<times> u64 option \<times> 'x Context_t) option" where
  "Output_Command env ctx command arg =
     (case command of
        OUTPUT_OPEN \<Rightarrow> map_option no_value (all_outputs env OUTPUT_OPEN ctx)
      | OUTPUT_CLOSE \<Rightarrow> map_option no_value (all_outputs env OUTPUT_CLOSE ctx)
      | OUTPUT_ADD \<Rightarrow> do { p \<leftarrow> arg_type arg; Some (cERR_OUTPUT_NO_ERROR, None, OutputAdd ctx p) }
      | OUTPUT_DEL \<Rightarrow> do { p \<leftarrow> arg_type arg; Some (cERR_OUTPUT_NO_ERROR, None, OutputDel ctx p) }
      | OUTPUT_CAPABILITIES \<Rightarrow> Some (cERR_OUTPUT_NO_ERROR, None, ctx)
      | OUTPUT_PLAY \<Rightarrow> map_option no_value (output_play env ctx)
      | OUTPUT_STOP \<Rightarrow> map_option no_value (all_outputs env OUTPUT_STOP ctx)
      | OUTPUT_FLUSH \<Rightarrow> map_option no_value (both_outputs env OUTPUT_FLUSH ctx)
      | OUTPUT_PAUSE \<Rightarrow> map_option no_value (both_outputs env OUTPUT_PAUSE ctx)
      | OUTPUT_FASTFORWARD \<Rightarrow> map_option no_value (both_outputs env OUTPUT_FASTFORWARD ctx)
      | OUTPUT_REVERSE \<Rightarrow> map_option no_value (both_outputs env OUTPUT_REVERSE ctx)
      | OUTPUT_CONTINUE \<Rightarrow> map_option no_value (both_outputs env OUTPUT_CONTINUE ctx)
      | OUTPUT_AVSYNC \<Rightarrow>
          map_option no_value
            (if is_playing (mgr_video ctx)
             then or_audio env OUTPUT_AVSYNC (Arg_string ''audio'') (cERR_OUTPUT_NO_ERROR, ctx)
             else Some (cERR_OUTPUT_NO_ERROR, ctx))
      | OUTPUT_CLEAR \<Rightarrow> map_option no_value (output_clear env arg ctx)
      | OUTPUT_PTS \<Rightarrow> first_output env OUTPUT_PTS arg ctx
      | OUTPUT_SWITCH \<Rightarrow>
          (if is_playing (mgr_audio ctx) then call_output env (out_audio ctx) OUTPUT_SWITCH (Arg_string ''audio'') ctx
           else if is_playing (mgr_video ctx) then call_output env (out_video ctx) OUTPUT_SWITCH (Arg_string ''video'') ctx
           else Some (cERR_OUTPUT_NO_ERROR, None, ctx))
      | OUTPUT_SLOWMOTION \<Rightarrow> map_option no_value (both_outputs env OUTPUT_SLOWMOTION ctx)
      | OUTPUT_AUDIOMUTE \<Rightarrow> map_option no_value (or_audio env OUTPUT_AUDIOMUTE arg (cERR_OUTPUT_NO_ERROR, ctx))
      | OUTPUT_DISCONTINUITY_REVERSE \<Rightarrow>
          map_option no_value (or_video env OUTPUT_DISCONTINUITY_REVERSE arg (cERR_OUTPUT_NO_ERROR, ctx))
      | OUTPUT_GET_FRAME_COUNT \<Rightarrow> first_output env OUTPUT_GET_FRAME_COUNT arg ctx
      | OUTPUT_INIT \<Rightarrow> Some (cERR_OUTPUT_INTERNAL_ERROR, None, ctx))"

subsection \<open>Names\<close>

text \<open>The text behind the last dot.\<close>

fun ext_loop :: "nat \<Rightarrow> string \<Rightarrow> string option" where
  "ext_loop 0 name = None"
| "ext_loop (Suc n) name = (if name ! n = CHR ''.'' then Some (drop (Suc n) name) else ext_loop n name)"

definition getExtension :: "string \<Rightarrow> string option" where
  "getExtension name = ext_loop (length name) name"

text \<open>
  \<open>strstr\<close>, and the extension of an UPnP name: what follows the first \<open>ext=\<close> and one more character. If there is no such
  character the copy starts behind the end of the string, which is the outer \<open>None\<close>.
\<close>

fun strstr :: "string \<Rightarrow> string \<Rightarrow> string option" where
  "strstr [] t = (if t = [] then Some [] else None)"
| "strstr (c # s) t = (if take (length t) (c # s) = t then Some (c # s) else strstr s t)"

definition getUPNPExtension :: "string \<Rightarrow> string option option" where
  "getUPNPExtension name =
     (case strstr name ''ext='' of
        None \<Rightarrow> Some None
      | Some s \<Rightarrow> if length s < 5 then None else Some (Some (drop 5 s)))"

subsection \<open>container.c\<close>

definition FFMPEG_Capabilities :: "string list" where
  "FFMPEG_Capabilities =
     [''avi'', ''mkv'', ''mp4'', ''ts'', ''mov'', ''flv'', ''flac'', ''mp3'', ''mpg'', ''m2ts'', ''vob'', ''wmv'',
      ''wma'', ''asf'', ''mp2'', ''m4v'', ''m4a'', ''divx'', ''dat'', ''mpeg'', ''trp'', ''mts'', ''vdr'', ''ogg'', ''wav'']"

definition lower_char :: "char \<Rightarrow> char" where
  "lower_char c = (if 65 \<le> (of_char c :: nat) \<and> (of_char c :: nat) \<le> 90 then char_of ((of_char c :: nat) + 32) else c)"

definition strcasecmp_eq :: "string \<Rightarrow> string \<Rightarrow> bool" where
  "strcasecmp_eq s t \<longleftrightarrow> map lower_char s = map lower_char t"

definition selectContainer :: "'x Context_t \<Rightarrow> string \<Rightarrow> int \<times> 'x Context_t" where
  "selectContainer ctx extension =
     (if list_ex (\<lambda>c. strcasecmp_eq c extension) FFMPEG_Capabilities
      then (0, ctx\<lparr>selectedContainer := True\<rparr>) else (-1, ctx))"

definition container_del :: "'x Context_t \<Rightarrow> 'x Context_t" where
  "container_del ctx = ctx\<lparr>selectedContainer := False\<rparr>"

end
