(* ===== verification/Playback.thy ===== *)
theory Playback
  imports Output_Handler
begin

text \<open>
  \<open>playback/playback.c\<close> of libeplayer3: the commands that open, start, pause, wind and stop a
  stream, and the supervisor thread that ends playback when the container has delivered everything.

  A command runs to its end before the next one of the application starts. The supervisor runs one round of
  its loops at a time (\<open>supervisor_step\<close>), and \<open>player_reach\<close> interleaves both. Waiting for the
  supervisor in \<open>PlaybackStop\<close> and \<open>PlaybackTerminate\<close> is a bounded loop that asks the
  environment whether the thread has ended by now.
\<close>

subsection \<open>Commands\<close>

datatype PlaybackCmd_t =
    PLAYBACK_OPEN string | PLAYBACK_CLOSE | PLAYBACK_PLAY | PLAYBACK_STOP | PLAYBACK_PAUSE
  | PLAYBACK_CONTINUE | PLAYBACK_FLUSH | PLAYBACK_TERM | PLAYBACK_FASTFORWARD int
  | PLAYBACK_SEEK u32 | PLAYBACK_PTS | PLAYBACK_LENGTH | PLAYBACK_SWITCH_AUDIO int
  | PLAYBACK_SWITCH_SUBTITLE int | PLAYBACK_INFO | PLAYBACK_SLOWMOTION int
  | PLAYBACK_FASTBACKWARD int | PLAYBACK_GET_FRAME_COUNT

datatype playback_out = PO_none | PO_word u64 | PO_container container_out

definition cERR_PLAYBACK_NO_ERROR :: int where "cERR_PLAYBACK_NO_ERROR = 0"
definition cERR_PLAYBACK_ERROR :: int where "cERR_PLAYBACK_ERROR = -1"
definition cMaxSpeed_ff :: int where "cMaxSpeed_ff = 128"
definition cMaxSpeed_fr :: int where "cMaxSpeed_fr = -320"
definition TEXTSRTOFFSET :: int where "TEXTSRTOFFSET = 100"
definition TEXTSSAOFFSET :: int where "TEXTSSAOFFSET = 200"

definition PlaybackHandler :: PlaybackHandler_t where
  "PlaybackHandler =
     \<lparr>isFile = False, isHttp = False, isUPNP = False, isPlaying = False, isPaused = False, isForwarding = False,
      isSeeking = False, isCreationPhase = False, BackWard = 0, SlowMotion = 0, Speed = 0, AVSync = 0,
      uri = [], noprobe = False\<rparr>"

definition set_playback :: "(PlaybackHandler_t \<Rightarrow> PlaybackHandler_t) \<Rightarrow> 'x Context_t \<Rightarrow> 'x Context_t" where
  "set_playback f ctx = ctx\<lparr>playback := f (playback ctx)\<rparr>"

text \<open>The six assignments that \<open>PlaybackStop\<close>, \<open>PlaybackClose\<close> and \<open>PlaybackTerminate\<close> share, and those that pausing and going on share.\<close>

definition stopped :: "PlaybackHandler_t \<Rightarrow> PlaybackHandler_t" where
  "stopped p = p\<lparr>isPaused := False, isPlaying := False, isForwarding := False, BackWard := 0, SlowMotion := 0, Speed := 0\<rparr>"

definition normal_speed :: "bool \<Rightarrow> PlaybackHandler_t \<Rightarrow> PlaybackHandler_t" where
  "normal_speed paused p = p\<lparr>isPaused := paused, isForwarding := False, BackWard := 0, SlowMotion := 0, Speed := 1\<rparr>"

text \<open>Calls whose value is not used, and through the pointer to the selected container.\<close>

definition output_cmd :: "'x player_env \<Rightarrow> OutputCmd_t \<Rightarrow> cmd_arg \<Rightarrow> 'x Context_t \<Rightarrow> 'x Context_t option" where
  "output_cmd env command arg ctx = do { (r, v, ctx) \<leftarrow> Output_Command env ctx command arg; Some ctx }"

definition selected :: "'x player_env \<Rightarrow> ContainerCmd_t \<Rightarrow> 'x Context_t \<Rightarrow> (int \<times> container_out \<times> 'x Context_t) option" where
  "selected env command ctx = (if selectedContainer ctx then pe_ffmpeg env command ctx else None)"

subsection \<open>Opening and closing\<close>

definition has_prefix :: "string \<Rightarrow> string \<Rightarrow> bool" where
  "has_prefix p s \<longleftrightarrow> take (length p) s = p"

text \<open>\<open>CONTAINER_ADD\<close> and \<open>CONTAINER_INIT\<close> of the container that was selected.\<close>

definition open_container :: "'x player_env \<Rightarrow> string \<Rightarrow> string \<Rightarrow> 'x Context_t \<Rightarrow> (int \<times> 'x Context_t) option" where
  "open_container env extension arg ctx =
     (let (r, ctx) = selectContainer ctx extension
      in if r < 0 then Some (cERR_PLAYBACK_ERROR, ctx)
         else if selectedContainer ctx then do {
           (r, v, ctx) \<leftarrow> pe_ffmpeg env (CONTAINER_INIT (Some arg)) ctx;
           Some (if r < 0 then cERR_PLAYBACK_ERROR else cERR_PLAYBACK_NO_ERROR, ctx)
         }
         else Some (cERR_PLAYBACK_ERROR, ctx))"

definition open_subtitles :: "'x player_env \<Rightarrow> string \<Rightarrow> 'x Context_t \<Rightarrow> 'x Context_t option" where
  "open_subtitles env name ctx = do {
     (r, v, ctx) \<leftarrow> pe_srt env (CONTAINER_INIT (Some name)) ctx;
     (r, v, ctx) \<leftarrow> pe_ssa env (CONTAINER_INIT (Some name)) ctx;
     (r, v, ctx) \<leftarrow> pe_ass env (CONTAINER_INIT None) ctx;
     Some ctx
   }"

definition open_file :: "'x player_env \<Rightarrow> string \<Rightarrow> 'x Context_t \<Rightarrow> (int \<times> 'x Context_t) option" where
  "open_file env s ctx = do {
     let myts = has_prefix ''myts://'' s;
     let s = (if myts then ''file'' @ drop 4 s else s);
     let ctx = set_playback (\<lambda>p. p\<lparr>isFile := True, isHttp := False, isUPNP := False, noprobe := myts,
                                   uri := (if myts then s else uri p)\<rparr>) ctx;
     (case getExtension (drop 7 s) of
        None \<Rightarrow> Some (cERR_PLAYBACK_ERROR, ctx)
      | Some extension \<Rightarrow> do {
          (r, ctx) \<leftarrow> open_container env extension s ctx;
          (if r < 0 then Some (r, ctx)
           else do { ctx \<leftarrow> open_subtitles env (drop 7 s) ctx; Some (cERR_PLAYBACK_NO_ERROR, ctx) })
        })
   }"

definition open_stream :: "'x player_env \<Rightarrow> string \<Rightarrow> 'x Context_t \<Rightarrow> (int \<times> 'x Context_t) option" where
  "open_stream env s ctx = do {
     let ctx = set_playback (\<lambda>p. p\<lparr>isFile := False, isHttp := True, isUPNP := False,
                                   uri := (if has_prefix ''mms://'' s then ''rtsp'' @ drop 3 s else uri p)\<rparr>) ctx;
     open_container env ''mp3'' (uri (playback ctx)) ctx
   }"

definition open_upnp :: "'x player_env \<Rightarrow> string \<Rightarrow> 'x Context_t \<Rightarrow> (int \<times> 'x Context_t) option" where
  "open_upnp env s ctx = do {
     let ctx = set_playback (\<lambda>p. p\<lparr>isFile := False, isHttp := False, isUPNP := True, uri := drop 7 (uri p)\<rparr>) ctx;
     e \<leftarrow> getUPNPExtension (drop 7 s);
     (case e of
        None \<Rightarrow> Some (cERR_PLAYBACK_ERROR, ctx)
      | Some extension \<Rightarrow> open_container env extension (drop 7 s) ctx)
   }"

definition stream_prefixes :: "string list" where
  "stream_prefixes = [''mms://'', ''rtsp://'', ''rtmp://'', ''rtmpt://'', ''rtmpe://'', ''rtmpte://'', ''rtmps://'', ''rtp://'']"

definition PlaybackOpen :: "'x player_env \<Rightarrow> 'x Context_t \<Rightarrow> string \<Rightarrow> (int \<times> 'x Context_t) option" where
  "PlaybackOpen env ctx s =
     (let ctx = set_playback (\<lambda>p. p\<lparr>uri := s\<rparr>) ctx
      in if \<not> isPlaying (playback ctx)
         then if has_prefix ''file://'' s \<or> has_prefix ''myts://'' s then open_file env s ctx
              else if has_prefix ''http://'' s \<or> list_ex (\<lambda>p. has_prefix p s) stream_prefixes then open_stream env s ctx
              else if has_prefix ''upnp://'' s then open_upnp env s ctx
              else Some (cERR_PLAYBACK_ERROR, ctx)
         else Some (cERR_PLAYBACK_ERROR, ctx))"

definition delete_tracks :: "'x player_env \<Rightarrow> 'x Context_t \<Rightarrow> 'x Context_t option" where
  "delete_tracks env ctx = do {
     (r, v, m) \<leftarrow> audio_Command (pe_malloc env) (mgr_audio ctx) MANAGER_DEL;
     let ctx = ctx\<lparr>mgr_audio := m\<rparr>;
     (r, v, m) \<leftarrow> video_Command (pe_malloc env) (mgr_video ctx) MANAGER_DEL;
     let ctx = ctx\<lparr>mgr_video := m\<rparr>;
     (r, v, m) \<leftarrow> subtitle_Command (pe_malloc env) (mgr_subtitle ctx) MANAGER_DEL;
     Some (ctx\<lparr>mgr_subtitle := m\<rparr>)
   }"

definition PlaybackClose :: "'x player_env \<Rightarrow> 'x Context_t \<Rightarrow> (int \<times> 'x Context_t) option" where
  "PlaybackClose env ctx = do {
     let ctx = container_del ctx;
     (r, v, ctx) \<leftarrow> pe_srt env CONTAINER_DEL ctx;
     (r, v, ctx) \<leftarrow> pe_ssa env CONTAINER_DEL ctx;
     ctx \<leftarrow> delete_tracks env ctx;
     Some (cERR_PLAYBACK_NO_ERROR, set_playback stopped ctx)
   }"

subsection \<open>Playing\<close>

definition PlaybackPlay :: "'x player_env \<Rightarrow> 'x Context_t \<Rightarrow> (int \<times> 'x Context_t) option" where
  "PlaybackPlay env ctx =
     (if \<not> isPlaying (playback ctx) then do {
        let ctx = set_playback (\<lambda>p. p\<lparr>AVSync := 1\<rparr>) ctx;
        ctx \<leftarrow> output_cmd env OUTPUT_AVSYNC Arg_NULL ctx;
        let ctx = set_playback (\<lambda>p. p\<lparr>isCreationPhase := True\<rparr>) ctx;
        (ret, v, ctx) \<leftarrow> Output_Command env ctx OUTPUT_PLAY Arg_NULL;
        (if ret \<noteq> 0 then Some (ret, set_playback (\<lambda>p. p\<lparr>isCreationPhase := False\<rparr>) ctx)
         else do {
           let ctx = set_playback (\<lambda>p. p\<lparr>isPlaying := True, isPaused := False, isForwarding := False,
                                         BackWard := 0, SlowMotion := 0, Speed := 1\<rparr>) ctx;
           let ctx = (if \<not> hasThreadStarted ctx \<and> pe_thread env then ctx\<lparr>hasThreadStarted := True\<rparr> else ctx);
           let ctx = set_playback (\<lambda>p. p\<lparr>isCreationPhase := False\<rparr>) ctx;
           (ret, v, ctx) \<leftarrow> selected env CONTAINER_PLAY ctx;
           Some (ret, ctx)
         })
      } else Some (cERR_PLAYBACK_ERROR, ctx))"

definition PlaybackPause :: "'x player_env \<Rightarrow> 'x Context_t \<Rightarrow> (int \<times> 'x Context_t) option" where
  "PlaybackPause env ctx =
     (if isPlaying (playback ctx) \<and> \<not> isPaused (playback ctx) then do {
        ctx \<leftarrow> (if SlowMotion (playback ctx) \<noteq> 0 then output_cmd env OUTPUT_CLEAR Arg_NULL ctx else Some ctx);
        ctx \<leftarrow> output_cmd env OUTPUT_PAUSE Arg_NULL ctx;
        Some (cERR_PLAYBACK_NO_ERROR, set_playback (normal_speed True) ctx)
      } else Some (cERR_PLAYBACK_ERROR, ctx))"

definition PlaybackContinue :: "'x player_env \<Rightarrow> 'x Context_t \<Rightarrow> (int \<times> 'x Context_t) option" where
  "PlaybackContinue env ctx =
     (let p = playback ctx
      in if isPlaying p \<and> (isPaused p \<or> isForwarding p \<or> BackWard p \<noteq> 0 \<or> SlowMotion p \<noteq> 0) then do {
        ctx \<leftarrow> (if SlowMotion p \<noteq> 0 then output_cmd env OUTPUT_CLEAR Arg_NULL ctx else Some ctx);
        ctx \<leftarrow> output_cmd env OUTPUT_CONTINUE Arg_NULL ctx;
        Some (cERR_PLAYBACK_NO_ERROR, set_playback (normal_speed False) ctx)
      } else Some (cERR_PLAYBACK_ERROR, ctx))"

text \<open>
  \<open>while (hasThreadStarted != 0 && --wait_time > 0) usleep (100000);\<close> The value is the final
  \<open>wait_time\<close>. The supervisor ends by clearing \<open>hasThreadStarted\<close>; playback has been stopped by then,
  so that it changes nothing else.
\<close>

fun wait_thread :: "'x player_env \<Rightarrow> nat \<Rightarrow> 'x Context_t \<Rightarrow> nat \<times> 'x Context_t" where
  "wait_thread env 0 ctx = (0, ctx)"
| "wait_thread env (Suc n) ctx =
     (if hasThreadStarted ctx
      then if n = 0 then (0, ctx)
           else wait_thread env n (ctx\<lparr>hasThreadStarted := \<not> pe_ended env n\<rparr>)
      else (Suc n, ctx))"

definition after_wait :: "'x player_env \<Rightarrow> int \<times> 'x Context_t \<Rightarrow> int \<times> 'x Context_t" where
  "after_wait env = (\<lambda>(ret, ctx).
     let (wait_time, ctx) = wait_thread env 20 ctx
     in (if wait_time = 0 then cERR_PLAYBACK_ERROR else ret, ctx))"

definition PlaybackStop :: "'x player_env \<Rightarrow> 'x Context_t \<Rightarrow> (int \<times> 'x Context_t) option" where
  "PlaybackStop env ctx = do {
     s \<leftarrow> (if isPlaying (playback ctx) then do {
            let ctx = set_playback stopped ctx;
            ctx \<leftarrow> output_cmd env OUTPUT_STOP Arg_NULL ctx;
            (r, v, ctx) \<leftarrow> selected env CONTAINER_STOP ctx;
            Some (cERR_PLAYBACK_NO_ERROR, ctx)
          } else Some (cERR_PLAYBACK_ERROR, ctx));
     Some (after_wait env s)
   }"

definition PlaybackTerminate :: "'x player_env \<Rightarrow> 'x Context_t \<Rightarrow> (int \<times> 'x Context_t) option" where
  "PlaybackTerminate env ctx = do {
     s \<leftarrow> (if isPlaying (playback ctx) then do {
            ctx \<leftarrow> output_cmd env OUTPUT_FLUSH Arg_NULL ctx;
            (ret, v, ctx) \<leftarrow> selected env CONTAINER_STOP ctx;
            Some (ret, set_playback stopped ctx)
          } else Some (cERR_PLAYBACK_NO_ERROR, ctx));
     Some (after_wait env s)
   }"

subsection \<open>Trick modes\<close>

definition PlaybackFastForward :: "'x player_env \<Rightarrow> 'x Context_t \<Rightarrow> int \<Rightarrow> (int \<times> 'x Context_t) option" where
  "PlaybackFastForward env ctx speed =
     (let p = playback ctx
      in if is_playing (mgr_video ctx) \<and> \<not> isHttp p \<and> BackWard p = 0 \<and> (\<not> isPaused p \<or> isPlaying p)
         then if speed \<le> 0 \<or> speed > cMaxSpeed_ff then Some (cERR_PLAYBACK_ERROR, ctx)
              else do {
                ctx \<leftarrow> output_cmd env OUTPUT_FASTFORWARD Arg_NULL (set_playback (\<lambda>p. p\<lparr>isForwarding := True, Speed := speed\<rparr>) ctx);
                Some (cERR_PLAYBACK_NO_ERROR, ctx)
              }
         else Some (cERR_PLAYBACK_ERROR, ctx))"

text \<open>The factor is computed with the operator \<open>^\<close>, which is exclusive or in C.\<close>

definition PlaybackFastBackward :: "'x player_env \<Rightarrow> 'x Context_t \<Rightarrow> int \<Rightarrow> (int \<times> 'x Context_t) option" where
  "PlaybackFastBackward env ctx speed =
     (let p = playback ctx
      in if is_playing (mgr_video ctx) \<and> \<not> isForwarding p \<and> (\<not> isPaused p \<or> isPlaying p)
         then if speed > 0 \<or> speed < cMaxSpeed_fr then Some (cERR_PLAYBACK_ERROR, ctx)
              else do {
                let ctx = set_playback (\<lambda>p. if speed = 0 then p\<lparr>BackWard := 0, Speed := 0\<rparr>
                                             else p\<lparr>isSeeking := True, Speed := speed, BackWard := 2 XOR speed\<rparr>) ctx;
                ctx \<leftarrow> output_cmd env OUTPUT_AUDIOMUTE (Arg_string ''1'') ctx;
                ctx \<leftarrow> output_cmd env OUTPUT_CLEAR Arg_NULL ctx;
                (r, v, ctx) \<leftarrow> Output_Command env ctx OUTPUT_REVERSE Arg_NULL;
                (if r < 0
                 then Some (cERR_PLAYBACK_ERROR, set_playback (\<lambda>p. p\<lparr>BackWard := 0, Speed := 1, isSeeking := False\<rparr>) ctx)
                 else Some (cERR_PLAYBACK_NO_ERROR, set_playback (\<lambda>p. p\<lparr>isSeeking := False\<rparr>) ctx))
              }
         else Some (cERR_PLAYBACK_ERROR, set_playback (\<lambda>p. p\<lparr>isSeeking := False\<rparr>) ctx))"

definition PlaybackSlowMotion :: "'x player_env \<Rightarrow> 'x Context_t \<Rightarrow> int \<Rightarrow> (int \<times> 'x Context_t) option" where
  "PlaybackSlowMotion env ctx speed =
     (let p = playback ctx
      in if is_playing (mgr_video ctx) \<and> \<not> isHttp p \<and> isPlaying p then do {
        ctx \<leftarrow> (if isPaused p then map_option snd (PlaybackContinue env ctx) else Some ctx);
        let ctx = set_playback (\<lambda>p. if speed = 2 \<or> speed = 4 \<or> speed = 8 then p\<lparr>SlowMotion := speed\<rparr> else p) ctx;
        ctx \<leftarrow> output_cmd env OUTPUT_SLOWMOTION Arg_NULL ctx;
        Some (cERR_PLAYBACK_NO_ERROR, ctx)
      } else Some (cERR_PLAYBACK_ERROR, ctx))"

definition PlaybackSeek :: "'x player_env \<Rightarrow> 'x Context_t \<Rightarrow> u32 \<Rightarrow> (int \<times> 'x Context_t) option" where
  "PlaybackSeek env ctx pos =
     (let p = playback ctx
      in if isPlaying p \<and> \<not> isForwarding p \<and> BackWard p = 0 \<and> SlowMotion p = 0 \<and> \<not> isPaused p then do {
        ctx \<leftarrow> output_cmd env OUTPUT_CLEAR Arg_NULL (set_playback (\<lambda>p. p\<lparr>isSeeking := True\<rparr>) ctx);
        (r, v, ctx) \<leftarrow> selected env (CONTAINER_SEEK pos) ctx;
        Some (cERR_PLAYBACK_NO_ERROR, set_playback (\<lambda>p. p\<lparr>isSeeking := False\<rparr>) ctx)
      } else Some (cERR_PLAYBACK_ERROR, ctx))"

subsection \<open>Queries and track selection\<close>

definition word_out :: "u64 option \<Rightarrow> playback_out" where
  "word_out v = PO_word (case v of None \<Rightarrow> 0 | Some w \<Rightarrow> w)"

definition PlaybackPts :: "'x player_env \<Rightarrow> 'x Context_t \<Rightarrow> (int \<times> playback_out \<times> 'x Context_t) option" where
  "PlaybackPts env ctx =
     (if isPlaying (playback ctx)
      then do { (ret, v, ctx) \<leftarrow> Output_Command env ctx OUTPUT_PTS Arg_NULL; Some (ret, word_out v, ctx) }
      else Some (cERR_PLAYBACK_ERROR, PO_word 0, ctx))"

definition PlaybackGetFrameCount :: "'x player_env \<Rightarrow> 'x Context_t \<Rightarrow> (int \<times> playback_out \<times> 'x Context_t) option" where
  "PlaybackGetFrameCount env ctx =
     (if isPlaying (playback ctx)
      then do { (ret, v, ctx) \<leftarrow> Output_Command env ctx OUTPUT_GET_FRAME_COUNT Arg_NULL; Some (ret, word_out v, ctx) }
      else Some (cERR_PLAYBACK_ERROR, PO_word 0, ctx))"

definition PlaybackLength :: "'x player_env \<Rightarrow> 'x Context_t \<Rightarrow> (int \<times> playback_out \<times> 'x Context_t) option" where
  "PlaybackLength env ctx =
     (if isPlaying (playback ctx)
      then if selectedContainer ctx
           then do { (r, v, ctx) \<leftarrow> pe_ffmpeg env CONTAINER_LENGTH ctx; Some (cERR_PLAYBACK_NO_ERROR, PO_container v, ctx) }
           else Some (cERR_PLAYBACK_NO_ERROR, PO_word 0, ctx)
      else Some (cERR_PLAYBACK_ERROR, PO_word 0, ctx))"

fun out_id :: "int \<Rightarrow> mgr_out \<Rightarrow> int" where
  "out_id old (Out_int n) = n"
| "out_id old v = old"

definition PlaybackSwitchAudio :: "'x player_env \<Rightarrow> 'x Context_t \<Rightarrow> int \<Rightarrow> (int \<times> 'x Context_t) option" where
  "PlaybackSwitchAudio env ctx track =
     (if isPlaying (playback ctx) then do {
        (r, v, m) \<leftarrow> audio_Command (pe_malloc env) (mgr_audio ctx) MANAGER_GET;
        let curtrackid = out_id 0 v;
        (r, v, m) \<leftarrow> audio_Command (pe_malloc env) m (MANAGER_SET track);
        (r, v, m) \<leftarrow> audio_Command (pe_malloc env) m MANAGER_GET;
        let nextrackid = out_id 0 v;
        let ctx = ctx\<lparr>mgr_audio := m\<rparr>;
        (if nextrackid \<noteq> curtrackid then do {
           ctx \<leftarrow> (if out_audio ctx \<noteq> None
                  then do { (r, v, ctx) \<leftarrow> call_output env (out_audio ctx) OUTPUT_SWITCH (Arg_string ''audio'') ctx; Some ctx }
                  else Some ctx);
           ctx \<leftarrow> (if selectedContainer ctx
                  then do { (r, v, ctx) \<leftarrow> pe_ffmpeg env (CONTAINER_SWITCH_AUDIO nextrackid) ctx; Some ctx }
                  else Some ctx);
           Some (cERR_PLAYBACK_NO_ERROR, ctx)
         } else Some (cERR_PLAYBACK_NO_ERROR, ctx))
      } else Some (cERR_PLAYBACK_ERROR, ctx))"

definition PlaybackSwitchSubtitle :: "'x player_env \<Rightarrow> 'x Context_t \<Rightarrow> int \<Rightarrow> (int \<times> 'x Context_t) option" where
  "PlaybackSwitchSubtitle env ctx track =
     (if isPlaying (playback ctx) then do {
        (r, v, m) \<leftarrow> subtitle_Command (pe_malloc env) (mgr_subtitle ctx) (MANAGER_SET track);
        (r, v, m) \<leftarrow> subtitle_Command (pe_malloc env) m MANAGER_GET;
        let trackid = out_id 0 v;
        let ctx = ctx\<lparr>mgr_subtitle := m\<rparr>;
        (r, v, ctx) \<leftarrow> pe_ass env (CONTAINER_SWITCH_SUBTITLE trackid) ctx;
        ctx \<leftarrow> (if trackid \<ge> TEXTSRTOFFSET
               then do { (r, v, ctx) \<leftarrow> pe_srt env (CONTAINER_SWITCH_SUBTITLE trackid) ctx; Some ctx } else Some ctx);
        ctx \<leftarrow> (if trackid \<ge> TEXTSSAOFFSET
               then do { (r, v, ctx) \<leftarrow> pe_ssa env (CONTAINER_SWITCH_SUBTITLE trackid) ctx; Some ctx } else Some ctx);
        Some (cERR_PLAYBACK_NO_ERROR, ctx)
      } else Some (cERR_PLAYBACK_ERROR, ctx))"

definition PlaybackInfo :: "'x player_env \<Rightarrow> 'x Context_t \<Rightarrow> (int \<times> playback_out \<times> 'x Context_t) option" where
  "PlaybackInfo env ctx =
     (if selectedContainer ctx
      then do { (r, v, ctx) \<leftarrow> pe_ffmpeg env CONTAINER_INFO ctx; Some (cERR_PLAYBACK_NO_ERROR, PO_container v, ctx) }
      else Some (cERR_PLAYBACK_NO_ERROR, PO_none, ctx))"

definition plain :: "(int \<times> 'x Context_t) option \<Rightarrow> (int \<times> playback_out \<times> 'x Context_t) option" where
  "plain = map_option (\<lambda>(ret, ctx). (ret, PO_none, ctx))"

definition Playback_Command ::
  "'x player_env \<Rightarrow> 'x Context_t \<Rightarrow> PlaybackCmd_t \<Rightarrow> (int \<times> playback_out \<times> 'x Context_t) option" where
  "Playback_Command env ctx command =
     (case command of
        PLAYBACK_OPEN s \<Rightarrow> plain (PlaybackOpen env ctx s)
      | PLAYBACK_CLOSE \<Rightarrow> plain (PlaybackClose env ctx)
      | PLAYBACK_PLAY \<Rightarrow> plain (PlaybackPlay env ctx)
      | PLAYBACK_STOP \<Rightarrow> plain (PlaybackStop env ctx)
      | PLAYBACK_PAUSE \<Rightarrow> plain (PlaybackPause env ctx)
      | PLAYBACK_CONTINUE \<Rightarrow> plain (PlaybackContinue env ctx)
      | PLAYBACK_TERM \<Rightarrow> plain (PlaybackTerminate env ctx)
      | PLAYBACK_FASTFORWARD n \<Rightarrow> plain (PlaybackFastForward env ctx n)
      | PLAYBACK_SEEK pos \<Rightarrow> plain (PlaybackSeek env ctx pos)
      | PLAYBACK_PTS \<Rightarrow> PlaybackPts env ctx
      | PLAYBACK_LENGTH \<Rightarrow> PlaybackLength env ctx
      | PLAYBACK_SWITCH_AUDIO n \<Rightarrow> plain (PlaybackSwitchAudio env ctx n)
      | PLAYBACK_SWITCH_SUBTITLE n \<Rightarrow> plain (PlaybackSwitchSubtitle env ctx n)
      | PLAYBACK_INFO \<Rightarrow> PlaybackInfo env ctx
      | PLAYBACK_SLOWMOTION n \<Rightarrow> plain (PlaybackSlowMotion env ctx n)
      | PLAYBACK_FASTBACKWARD n \<Rightarrow> plain (PlaybackFastBackward env ctx n)
      | PLAYBACK_GET_FRAME_COUNT \<Rightarrow> PlaybackGetFrameCount env ctx
      | PLAYBACK_FLUSH \<Rightarrow> Some (cERR_PLAYBACK_ERROR, PO_none, ctx))"

subsection \<open>The supervisor thread\<close>

text \<open>
  Where the thread is: in the outer loop, in the loop that waits for the decoder to reach the last
  PTS, behind the loops, or at its end.
\<close>

datatype sup_pc = Sup_Poll | Sup_Sync | Sup_Exit | Sup_Done

record supervisor =
  sv_pc :: sup_pc
  sv_status :: int
  sv_lastStatus :: int
  sv_lastPts :: int
  sv_count :: nat

definition supervisor_start :: supervisor where
  "supervisor_start = \<lparr>sv_pc = Sup_Poll, sv_status = 0, sv_lastStatus = 0, sv_lastPts = -1, sv_count = 0\<rparr>"

fun co_value :: "int \<Rightarrow> container_out \<Rightarrow> int" where
  "co_value old (CO_int n) = n"
| "co_value old v = old"

definition sup_poll :: "'x player_env \<Rightarrow> supervisor \<Rightarrow> 'x Context_t \<Rightarrow> (supervisor \<times> 'x Context_t) option" where
  "sup_poll env sv ctx =
     (if \<not> isPlaying (playback ctx) then Some (sv\<lparr>sv_pc := Sup_Exit\<rparr>, ctx)
      else do {
        (sv, ctx) \<leftarrow> (if selectedContainer ctx then do {
             (r, v, ctx) \<leftarrow> pe_ffmpeg env CONTAINER_STATUS ctx;
             let sv = sv\<lparr>sv_status := co_value (sv_status sv) v\<rparr>;
             (if selectedContainer ctx then do {
                (r, v, ctx) \<leftarrow> pe_ffmpeg env CONTAINER_LAST_PTS ctx;
                Some (sv\<lparr>sv_lastPts := co_value (sv_lastPts sv) v\<rparr>, ctx)
              } else Some (sv, ctx))
           } else Some (sv, ctx));
        (if sv_status sv = 0 \<and> sv_status sv \<noteq> sv_lastStatus sv
         then do { ctx \<leftarrow> output_cmd env OUTPUT_FLUSH Arg_NULL ctx; Some (sv\<lparr>sv_pc := Sup_Sync\<rparr>, ctx) }
         else Some (sv\<lparr>sv_lastStatus := sv_status sv\<rparr>, ctx))
      })"

text \<open>One round of \<open>while (!dieNow)\<close>.\<close>

definition pts_of_out :: "playback_out \<Rightarrow> int" where
  "pts_of_out v = (case v of PO_word w \<Rightarrow> sint w | _ \<Rightarrow> 0)"

definition sup_sync :: "'x player_env \<Rightarrow> supervisor \<Rightarrow> 'x Context_t \<Rightarrow> (supervisor \<times> 'x Context_t) option" where
  "sup_sync env sv ctx = do {
     (dieNow, ctx) \<leftarrow> (if isPlaying (playback ctx) then do {
          (ret, v, ctx) \<leftarrow> PlaybackPts env ctx;
          Some (ret \<noteq> cERR_PLAYBACK_NO_ERROR \<or> pts_of_out v + 2 * 90000 \<ge> sv_lastPts sv, ctx)
        } else Some (True, ctx));
     let count = sv_count sv + 1;
     Some (sv\<lparr>sv_count := count, sv_pc := (if dieNow \<or> count = 200 then Sup_Exit else Sup_Sync)\<rparr>, ctx)
   }"

definition sup_exit :: "'x player_env \<Rightarrow> supervisor \<Rightarrow> 'x Context_t \<Rightarrow> (supervisor \<times> 'x Context_t) option" where
  "sup_exit env sv ctx = do {
     (r, ctx) \<leftarrow> PlaybackTerminate env (ctx\<lparr>hasThreadStarted := False\<rparr>);
     Some (sv\<lparr>sv_pc := Sup_Done\<rparr>, ctx)
   }"

definition supervisor_step :: "'x player_env \<Rightarrow> supervisor \<Rightarrow> 'x Context_t \<Rightarrow> (supervisor \<times> 'x Context_t) option" where
  "supervisor_step env sv ctx =
     (case sv_pc sv of
        Sup_Poll \<Rightarrow> sup_poll env sv ctx
      | Sup_Sync \<Rightarrow> sup_sync env sv ctx
      | Sup_Exit \<Rightarrow> sup_exit env sv ctx
      | Sup_Done \<Rightarrow> Some (sv, ctx))"

end
