(* ===== verification/Playback_Invariant.thy ===== *)
theory Playback_Invariant
  imports Playback
begin

text \<open>
  The states the player can reach, and what holds in all of them. \<open>player_reach\<close> interleaves the commands of the
  application, the frames a container writes and the rounds of supervisor threads. Containers and subtitle output
  are parameters: \<open>env_ok\<close> says what is relied on of them. The locale \<open>playback_operation\<close> is the contract that every
  operation of \<open>playback.c\<close> is shown to keep.
\<close>

subsection \<open>Specification vocabulary\<close>

definition mgrs_ok :: "'x Context_t \<Rightarrow> bool" where
  "mgrs_ok ctx \<longleftrightarrow>
     (\<exists>a. mgr_rep audio_TRACKWRAP 0 (mgr_audio ctx) a) \<and> (\<exists>a. mgr_rep video_TRACKWRAP 0 (mgr_video ctx) a)
     \<and> (\<exists>a. mgr_rep subtitle_TRACKWRAP (-1) (mgr_subtitle ctx) a)"

definition call_frame :: "'x Context_t \<Rightarrow> 'x Context_t \<Rightarrow> bool" where
  "call_frame ctx ctx' \<longleftrightarrow>
     playback ctx' = playback ctx \<and> selectedContainer ctx' = selectedContainer ctx \<and> out_audio ctx' = out_audio ctx
     \<and> out_video ctx' = out_video ctx \<and> out_subtitle ctx' = out_subtitle ctx
     \<and> hasThreadStarted ctx' = hasThreadStarted ctx
     \<and> LinuxDVBmutex (dvb ctx') = LinuxDVBmutex (dvb ctx) \<and> (mgrs_ok ctx \<longrightarrow> mgrs_ok ctx')"

text \<open>An output of the decoder changes only the devices and the writers.\<close>

definition dvb_frame :: "'x Context_t \<Rightarrow> 'x Context_t \<Rightarrow> bool" where
  "dvb_frame ctx ctx' \<longleftrightarrow>
     call_frame ctx ctx' \<and> mgr_audio ctx' = mgr_audio ctx \<and> mgr_video ctx' = mgr_video ctx
     \<and> mgr_subtitle ctx' = mgr_subtitle ctx \<and> others ctx' = others ctx"

fun is_switch_audio :: "ContainerCmd_t \<Rightarrow> bool" where
  "is_switch_audio (CONTAINER_SWITCH_AUDIO n) = True"
| "is_switch_audio c = False"

text \<open>
  What is relied on of the containers and of the subtitle output: they change the playback flags in no other way than
  through the commands of the player, which a container uses to seek after it has switched the audio track, they
  use the managers through their commands and leave the mutex as they found it.
\<close>

definition container_ok :: "(ContainerCmd_t \<Rightarrow> 'x Context_t \<Rightarrow> (int \<times> container_out \<times> 'x Context_t) option) \<Rightarrow> bool" where
  "container_ok call \<longleftrightarrow>
     (\<forall>c ctx r v ctx'. call c ctx = Some (r, v, ctx') \<longrightarrow>
        \<not> (is_switch_audio c \<and> isSeeking (playback ctx)) \<longrightarrow> call_frame ctx ctx')"

definition env_ok :: "'x player_env \<Rightarrow> bool" where
  "env_ok env \<longleftrightarrow>
     container_ok (pe_ffmpeg env) \<and> container_ok (pe_srt env) \<and> container_ok (pe_ssa env) \<and> container_ok (pe_ass env)
     \<and> (\<forall>c a ctx r v ctx'. pe_subtitle env c a ctx = Some (r, v, ctx') \<longrightarrow> call_frame ctx ctx')"

definition pb_ok :: "PlaybackHandler_t \<Rightarrow> bool" where
  "pb_ok p \<longleftrightarrow>
     (isPaused p \<longrightarrow> isPlaying p) \<and> (SlowMotion p \<noteq> 0 \<longrightarrow> isPlaying p) \<and> SlowMotion p \<in> {0, 2, 4, 8}
     \<and> \<not> isSeeking p \<and> \<not> isCreationPhase p \<and> \<not> (isForwarding p \<and> BackWard p \<noteq> 0)
     \<and> cMaxSpeed_fr \<le> Speed p \<and> Speed p \<le> cMaxSpeed_ff"

definition ports_ok :: "'x Context_t \<Rightarrow> bool" where
  "ports_ok ctx \<longleftrightarrow>
     out_audio ctx \<in> {None, Some LinuxDvbOutput} \<and> out_video ctx \<in> {None, Some LinuxDvbOutput}
     \<and> out_subtitle ctx \<in> {None, Some SubtitleOutput}"

definition player_ok :: "'x Context_t \<Rightarrow> bool" where
  "player_ok ctx \<longleftrightarrow>
     pb_ok (playback ctx) \<and> (isPlaying (playback ctx) \<longrightarrow> selectedContainer ctx)
     \<and> \<not> LinuxDVBmutex (dvb ctx) \<and> ports_ok ctx \<and> mgrs_ok ctx"

definition player_init :: "'x Context_t \<Rightarrow> bool" where
  "player_init ctx \<longleftrightarrow>
     playback ctx = PlaybackHandler \<and> \<not> selectedContainer ctx \<and> out_audio ctx = None \<and> out_video ctx = None
     \<and> out_subtitle ctx = None \<and> mgr_audio ctx = audio_init \<and> mgr_video ctx = video_init
     \<and> mgr_subtitle ctx = subtitle_init \<and> dvb ctx = linuxdvb_init \<and> \<not> hasThreadStarted ctx"

text \<open>
  What can happen to the context: the application uses the playback and the output handler, a container writes
  frames and uses its managers, and a supervisor thread, wherever it is, runs one round. Every step
  may meet another environment.
\<close>

inductive player_reach :: "'x Context_t \<Rightarrow> bool" where
  start: "player_init ctx \<Longrightarrow> player_reach ctx"
| command: "player_reach ctx \<Longrightarrow> env_ok env \<Longrightarrow> Playback_Command env ctx c = Some (r, v, ctx') \<Longrightarrow> player_reach ctx'"
| output_command: "player_reach ctx \<Longrightarrow> env_ok env \<Longrightarrow> Output_Command env ctx oc a = Some (r, w, ctx') \<Longrightarrow> player_reach ctx'"
| write_frame: "player_reach ctx \<Longrightarrow> LinuxDvbWrite env ctx out = Some (r, ctx') \<Longrightarrow> player_reach ctx'"
| supervise: "player_reach ctx \<Longrightarrow> env_ok env \<Longrightarrow> supervisor_step env sv ctx = Some (sv', ctx') \<Longrightarrow> player_reach ctx'"

definition ctx_ok :: "'x Context_t \<Rightarrow> bool" where
  "ctx_ok ctx \<longleftrightarrow> \<not> LinuxDVBmutex (dvb ctx) \<and> ports_ok ctx \<and> mgrs_ok ctx"

definition backward_mode :: "int \<Rightarrow> PlaybackHandler_t \<Rightarrow> PlaybackHandler_t" where
  "backward_mode n p =
     (if n = 0 then p\<lparr>BackWard := 0, Speed := 0\<rparr> else p\<lparr>isSeeking := True, Speed := n, BackWard := 2 XOR n\<rparr>)"

definition backward_possible :: "'x Context_t \<Rightarrow> int \<Rightarrow> bool" where
  "backward_possible ctx n \<longleftrightarrow>
     is_playing (mgr_video ctx) \<and> \<not> isForwarding (playback ctx) \<and> (\<not> isPaused (playback ctx) \<or> isPlaying (playback ctx))
     \<and> \<not> (n > 0 \<or> n < cMaxSpeed_fr)"

subsection \<open>What a call may change\<close>

lemma call_frame_refl [simp]: "call_frame ctx ctx"
  by (simp add: call_frame_def)

lemma call_frame_trans: "call_frame a b \<Longrightarrow> call_frame b c \<Longrightarrow> call_frame a c"
  by (simp add: call_frame_def)

lemma dvb_frame_refl [simp]: "dvb_frame ctx ctx"
  by (simp add: dvb_frame_def)

lemma dvb_frame_trans: "dvb_frame a b \<Longrightarrow> dvb_frame b c \<Longrightarrow> dvb_frame a c"
  by (auto simp: dvb_frame_def intro: call_frame_trans)

lemma mgrs_ok_simps [simp]:
  "mgrs_ok (ctx\<lparr>dvb := d\<rparr>) = mgrs_ok ctx" "mgrs_ok (ctx\<lparr>writers_st := w\<rparr>) = mgrs_ok ctx"
  "mgrs_ok (ctx\<lparr>playback := p\<rparr>) = mgrs_ok ctx" "mgrs_ok (ctx\<lparr>hasThreadStarted := b\<rparr>) = mgrs_ok ctx"
  "mgrs_ok (ctx\<lparr>selectedContainer := b\<rparr>) = mgrs_ok ctx" "mgrs_ok (ctx\<lparr>out_audio := o1\<rparr>) = mgrs_ok ctx"
  "mgrs_ok (ctx\<lparr>out_video := o1\<rparr>) = mgrs_ok ctx" "mgrs_ok (ctx\<lparr>out_subtitle := o1\<rparr>) = mgrs_ok ctx"
  by (simp_all add: mgrs_ok_def)

lemma dvb_frame_update [simp]:
  "dvb_frame ctx (ctx\<lparr>writers_st := w\<rparr>)"
  "dvb_frame ctx (ctx\<lparr>dvb := d\<rparr>) = (LinuxDVBmutex d = LinuxDVBmutex (dvb ctx))"
  by (auto simp: dvb_frame_def call_frame_def)

lemma ioctls_eq:
  "snd (ioctls env fd rs ctx) = ctx\<lparr>dvb := (dvb ctx)\<lparr>dvb_log := dvb_log (dvb ctx) @ map (Dvb_Ioctl fd) rs\<rparr>\<rparr>"
  by (induction rs arbitrary: ctx) (simp_all add: ioctl_def record_event_def case_prod_beta Let_def)

lemma ioctl_eq:
  "snd (ioctl env fd r ctx) = ctx\<lparr>dvb := (dvb ctx)\<lparr>dvb_log := dvb_log (dvb ctx) @ [Dvb_Ioctl fd r]\<rparr>\<rparr>"
  by (simp add: ioctl_def record_event_def)

lemmas dvb_call_defs = getLinuxDVBMutex_def releaseLinuxDVBMutex_def set_pts_def record_event_def ioctls_eq ioctl_eq
  case_prod_beta Let_def

lemma reset_writer_frame: "dvb_frame ctx (snd (reset_writer e r ctx))"
  by (simp add: reset_writer_def split: option.split)

lemma linuxdvb_reset_frame: "linuxdvb_reset env ctx = Some (r, ctx') \<Longrightarrow> dvb_frame ctx ctx'"
  by (auto simp: linuxdvb_reset_def case_prod_beta Let_def bind_eq_Some_conv
      intro: dvb_frame_trans [OF reset_writer_frame] dest!: arg_cong [where f = snd])
    (metis dvb_frame_trans prod.exhaust_sel reset_writer_frame snd_conv)

lemma LinuxDvbOpen_frame: "dvb_frame ctx (snd (LinuxDvbOpen env ctx t))"
  by (simp add: LinuxDvbOpen_def dvb_call_defs)

lemma LinuxDvbStop_frame: "LinuxDvbStop env ctx t = Some (r, ctx') \<Longrightarrow> dvb_frame ctx ctx'"
  by (auto simp: LinuxDvbStop_def dvb_call_defs split: if_splits)

lemma LinuxDvbClose_frame: "LinuxDvbClose env ctx t = Some (r, ctx') \<Longrightarrow> dvb_frame ctx ctx'"
  by (auto simp: LinuxDvbClose_def dvb_call_defs bind_eq_Some_conv split: if_splits
      dest!: LinuxDvbStop_frame elim!: dvb_frame_trans)

lemma dvb_op_frames:
  "LinuxDvbPlay env ctx t = Some (r, ctx') \<Longrightarrow> dvb_frame ctx ctx'"
  "LinuxDvbPause env ctx t = Some (r, ctx') \<Longrightarrow> dvb_frame ctx ctx'"
  "LinuxDvbFlush env ctx t = Some (r, ctx') \<Longrightarrow> dvb_frame ctx ctx'"
  "LinuxDvbFastForward env ctx t = Some (r, ctx') \<Longrightarrow> dvb_frame ctx ctx'"
  "LinuxDvbSlowMotion env ctx t = Some (r, ctx') \<Longrightarrow> dvb_frame ctx ctx'"
  "LinuxDvbAVSync env ctx = Some (r, ctx') \<Longrightarrow> dvb_frame ctx ctx'"
  "LinuxDvbClear env ctx t = Some (r, ctx') \<Longrightarrow> dvb_frame ctx ctx'"
  "LinuxDvbSwitch env ctx t = Some (r, ctx') \<Longrightarrow> dvb_frame ctx ctx'"
  "LinuxDvbGetFrameCount env ctx = Some (r, n, ctx') \<Longrightarrow> dvb_frame ctx ctx'"
  by (auto simp: LinuxDvbPlay_def LinuxDvbPause_def LinuxDvbFlush_def LinuxDvbFastForward_def LinuxDvbSlowMotion_def
      LinuxDvbAVSync_def LinuxDvbClear_def LinuxDvbSwitch_def LinuxDvbGetFrameCount_def dvb_call_defs bind_eq_Some_conv
      split: if_splits)

lemma dvb_op_total_frames:
  "dvb_frame ctx (snd (LinuxDvbContinue env ctx t))"
  "dvb_frame ctx (snd (LinuxDvbReverseDiscontinuity env ctx n))"
  "dvb_frame ctx (snd (LinuxDvbAudioMute env ctx t))"
  "dvb_frame ctx (snd (LinuxDvbReverse ctx t))"
  "dvb_frame ctx (snd (snd (LinuxDvbPts env ctx)))"
  by (simp_all add: LinuxDvbContinue_def LinuxDvbReverseDiscontinuity_def LinuxDvbAudioMute_def LinuxDvbReverse_def
      LinuxDvbPts_def dvb_call_defs)

lemma LinuxDvbWrite_frame: "LinuxDvbWrite env ctx out = Some (r, ctx') \<Longrightarrow> dvb_frame ctx ctx'"
  by (auto simp: LinuxDvbWrite_def bind_eq_Some_conv case_prod_beta split: option.splits if_splits)

lemma set_pts_frame [simp]: "dvb_frame ctx (set_pts p ctx)"
  by (simp add: set_pts_def)

lemma LinuxDvb_Command_frame:
  assumes "LinuxDvb_Command env ctx c a = Some (r, v, ctx')"
  shows "dvb_frame ctx ctx'"
proof (cases c)
  case OUTPUT_CLOSE
  then show ?thesis using assms
    by (auto simp: LinuxDvb_Command_def bind_eq_Some_conv dest!: LinuxDvbClose_frame linuxdvb_reset_frame
        elim!: dvb_frame_trans)
next
  case OUTPUT_STOP
  then show ?thesis using assms
    by (auto simp: LinuxDvb_Command_def bind_eq_Some_conv dest!: LinuxDvbStop_frame linuxdvb_reset_frame
        elim!: dvb_frame_trans)
next
  case OUTPUT_FLUSH
  then show ?thesis using assms
    by (auto simp: LinuxDvb_Command_def bind_eq_Some_conv dest!: dvb_op_frames linuxdvb_reset_frame
        elim!: dvb_frame_trans)
next
  case OUTPUT_PLAY
  then show ?thesis using assms
    by (auto simp: LinuxDvb_Command_def bind_eq_Some_conv no_value_def dest!: dvb_op_frames
        intro: dvb_frame_trans [OF set_pts_frame])
qed (use assms LinuxDvbOpen_frame dvb_op_total_frames in
    \<open>auto simp: LinuxDvb_Command_def bind_eq_Some_conv no_value_def case_prod_beta dest!: dvb_op_frames
      split: if_splits cmd_arg.splits\<close>)

subsection \<open>Outputs and containers\<close>

lemma container_okD:
  "container_ok call \<Longrightarrow> call c ctx = Some (r, v, ctx') \<Longrightarrow> \<not> is_switch_audio c \<Longrightarrow> call_frame ctx ctx'"
  "container_ok call \<Longrightarrow> call c ctx = Some (r, v, ctx') \<Longrightarrow> \<not> isSeeking (playback ctx) \<Longrightarrow> call_frame ctx ctx'"
  unfolding container_ok_def by blast+

lemma env_okD:
  "env_ok env \<Longrightarrow> container_ok (pe_ffmpeg env)" "env_ok env \<Longrightarrow> container_ok (pe_srt env)"
  "env_ok env \<Longrightarrow> container_ok (pe_ssa env)" "env_ok env \<Longrightarrow> container_ok (pe_ass env)"
  by (simp_all add: env_ok_def)

lemma call_output_frame:
  "env_ok env \<Longrightarrow> call_output env out c a ctx = Some (r, v, ctx') \<Longrightarrow> call_frame ctx ctx'"
  by (auto simp: call_output_def env_ok_def dvb_frame_def dest: LinuxDvb_Command_frame
      split: option.splits Output_t.splits)

lemma or_output_frames:
  assumes "env_ok env"
  shows "or_video env c a (r, ctx) = Some (r', ctx') \<Longrightarrow> call_frame ctx ctx'"
    and "or_audio env c a (r, ctx) = Some (r', ctx') \<Longrightarrow> call_frame ctx ctx'"
    and "or_subtitle env c a (r, ctx) = Some (r', ctx') \<Longrightarrow> call_frame ctx ctx'"
  using call_output_frame [OF assms]
  by (auto simp: or_video_def or_audio_def or_subtitle_def bind_eq_Some_conv split: if_splits)

lemma both_outputs_frame:
  assumes "env_ok env" and "both_outputs env c ctx = Some (r, ctx')"
  shows "call_frame ctx ctx'"
  using assms(2)
  by (auto simp: both_outputs_def bind_eq_Some_conv dest!: or_output_frames [OF assms(1)] elim: call_frame_trans)

lemma all_outputs_frame:
  assumes "env_ok env" and "all_outputs env c ctx = Some (r, ctx')"
  shows "call_frame ctx ctx'"
  using assms(2)
  by (auto simp: all_outputs_def bind_eq_Some_conv dest!: or_output_frames [OF assms(1)] both_outputs_frame [OF assms(1)]
      elim: call_frame_trans)

lemma output_play_frame:
  assumes "env_ok env" and "output_play env ctx = Some (r, ctx')"
  shows "call_frame ctx ctx'"
  using assms(2)
  by (auto simp: output_play_def bind_eq_Some_conv split: if_splits dest!: or_output_frames [OF assms(1)]
      elim: call_frame_trans)

lemma output_clear_frame:
  assumes "env_ok env" and "output_clear env a ctx = Some (r, ctx')"
  shows "call_frame ctx ctx'"
  using assms(2)
  by (auto simp: output_clear_def bind_eq_Some_conv split: if_splits dest!: or_output_frames [OF assms(1)]
      elim: call_frame_trans)

lemma first_output_frame: "env_ok env \<Longrightarrow> first_output env c a ctx = Some (r, v, ctx') \<Longrightarrow> call_frame ctx ctx'"
  by (auto simp: first_output_def split: if_splits dest!: call_output_frame)

lemmas output_frames = both_outputs_frame all_outputs_frame output_play_frame output_clear_frame first_output_frame
  or_output_frames call_output_frame

lemma Output_Command_frame:
  assumes "env_ok env" and "Output_Command env ctx c a = Some (r, v, ctx')" and "c \<noteq> OUTPUT_ADD" and "c \<noteq> OUTPUT_DEL"
  shows "call_frame ctx ctx'"
  using assms
  by (cases c) (auto simp: Output_Command_def no_value_def split: if_splits dest!: output_frames [OF assms(1)])

lemma output_cmd_frame:
  "env_ok env \<Longrightarrow> output_cmd env c a ctx = Some ctx' \<Longrightarrow> c \<noteq> OUTPUT_ADD \<Longrightarrow> c \<noteq> OUTPUT_DEL \<Longrightarrow> call_frame ctx ctx'"
  by (auto simp: output_cmd_def bind_eq_Some_conv dest: Output_Command_frame)

lemma selected_frame:
  "env_ok env \<Longrightarrow> selected env c ctx = Some (r, v, ctx') \<Longrightarrow> \<not> is_switch_audio c \<Longrightarrow> call_frame ctx ctx'"
  by (auto simp: selected_def split: if_splits dest: container_okD(1) [OF env_okD(1)])

subsection \<open>Every operation keeps the invariant\<close>

lemma player_ok_ctx_ok:
  "player_ok ctx \<longleftrightarrow> pb_ok (playback ctx) \<and> (isPlaying (playback ctx) \<longrightarrow> selectedContainer ctx) \<and> ctx_ok ctx"
  by (auto simp: player_ok_def ctx_ok_def)

lemma set_playback_simps [simp]:
  "playback (set_playback f ctx) = f (playback ctx)" "selectedContainer (set_playback f ctx) = selectedContainer ctx"
  "ctx_ok (set_playback f ctx) = ctx_ok ctx" "hasThreadStarted (set_playback f ctx) = hasThreadStarted ctx"
  "mgr_audio (set_playback f ctx) = mgr_audio ctx" "mgr_video (set_playback f ctx) = mgr_video ctx"
  "mgr_subtitle (set_playback f ctx) = mgr_subtitle ctx" "out_audio (set_playback f ctx) = out_audio ctx"
  "out_video (set_playback f ctx) = out_video ctx" "out_subtitle (set_playback f ctx) = out_subtitle ctx"
  "dvb (set_playback f ctx) = dvb ctx"
  by (simp_all add: set_playback_def ctx_ok_def ports_ok_def)

lemma ctx_ok_simps [simp]:
  "ctx_ok (ctx\<lparr>hasThreadStarted := b\<rparr>) = ctx_ok ctx" "ctx_ok (ctx\<lparr>selectedContainer := b\<rparr>) = ctx_ok ctx"
  by (simp_all add: ctx_ok_def ports_ok_def)

lemma frame_simps:
  assumes "call_frame ctx ctx'"
  shows "playback ctx' = playback ctx" "selectedContainer ctx' = selectedContainer ctx" "ctx_ok ctx \<Longrightarrow> ctx_ok ctx'"
    "hasThreadStarted ctx' = hasThreadStarted ctx"
  using assms by (auto simp: call_frame_def ctx_ok_def ports_ok_def)

lemma frameD:
  "call_frame ctx ctx' \<Longrightarrow>
   playback ctx' = playback ctx \<and> (selectedContainer ctx \<longrightarrow> selectedContainer ctx') \<and> (ctx_ok ctx \<longrightarrow> ctx_ok ctx')"
  by (simp add: frame_simps)

lemma player_ok_frame: "call_frame ctx ctx' \<Longrightarrow> player_ok ctx \<Longrightarrow> player_ok ctx'"
  by (simp add: player_ok_ctx_ok frame_simps)

locale playback_operation =
  fixes op :: "'x player_env \<Rightarrow> 'x Context_t \<Rightarrow> (int \<times> 'x Context_t) option"
  assumes keeps: "env_ok env \<Longrightarrow> player_ok ctx \<Longrightarrow> op env ctx = Some (r, ctx') \<Longrightarrow> player_ok ctx'"
begin

lemma plain_keeps: "env_ok env \<Longrightarrow> player_ok ctx \<Longrightarrow> plain (op env ctx) = Some (r, v, ctx') \<Longrightarrow> player_ok ctx'"
  by (auto simp: plain_def dest: keeps)

lemma snd_keeps: "env_ok env \<Longrightarrow> player_ok ctx \<Longrightarrow> map_option snd (op env ctx) = Some ctx' \<Longrightarrow> player_ok ctx'"
  by (auto dest: keeps)

end

lemma pb_ok_updates:
  "pb_ok p \<Longrightarrow> pb_ok (stopped p)" "pb_ok p \<Longrightarrow> isPlaying p \<Longrightarrow> pb_ok (normal_speed b p)"
  "pb_ok p \<Longrightarrow> pb_ok (p\<lparr>AVSync := n\<rparr>)" "pb_ok p \<Longrightarrow> pb_ok (p\<lparr>uri := s\<rparr>)" "pb_ok p \<Longrightarrow> pb_ok (p\<lparr>isSeeking := False\<rparr>)"
  "\<not> isPlaying (stopped p)" "isPlaying (normal_speed b p) = isPlaying p"
  by (auto simp: pb_ok_def stopped_def normal_speed_def cMaxSpeed_fr_def cMaxSpeed_ff_def)

lemma simple_operations_keep:
  fixes ctx ctx' :: "'x Context_t"
  assumes env: "env_ok env" and ok: "player_ok ctx"
  shows "PlaybackPause env ctx = Some (r, ctx') \<Longrightarrow> player_ok ctx'"
    and "PlaybackContinue env ctx = Some (r, ctx') \<Longrightarrow> player_ok ctx'"
    and "PlaybackFastForward env ctx n = Some (r, ctx') \<Longrightarrow> player_ok ctx'"
    and "PlaybackSeek env ctx pos = Some (r, ctx') \<Longrightarrow> player_ok ctx'"
  using ok
  by (auto simp: PlaybackPause_def PlaybackContinue_def PlaybackFastForward_def PlaybackSeek_def Let_def
      bind_eq_Some_conv player_ok_ctx_ok pb_ok_updates split: if_splits
      dest!: output_cmd_frame [OF env] selected_frame [OF env] frameD)
    (auto simp: pb_ok_def cMaxSpeed_fr_def cMaxSpeed_ff_def)

interpretation pause: playback_operation PlaybackPause
  by unfold_locales (rule simple_operations_keep)

interpretation cont: playback_operation PlaybackContinue
  by unfold_locales (rule simple_operations_keep)

interpretation fast_forward: playback_operation "\<lambda>env ctx. PlaybackFastForward env ctx n" for n
  by unfold_locales (rule simple_operations_keep)

interpretation seek: playback_operation "\<lambda>env ctx. PlaybackSeek env ctx pos" for pos
  by unfold_locales (rule simple_operations_keep)

lemma fast_backward_steps:
  assumes "PlaybackFastBackward env ctx n = Some (r, ctx')" and "backward_possible ctx n"
  obtains c1 c2 v k c3 where
    "output_cmd env OUTPUT_AUDIOMUTE (Arg_string ''1'') (set_playback (backward_mode n) ctx) = Some c1"
    "output_cmd env OUTPUT_CLEAR Arg_NULL c1 = Some c2" "Output_Command env c2 OUTPUT_REVERSE Arg_NULL = Some (k, v, c3)"
    "ctx' = (if k < 0 then set_playback (\<lambda>p. p\<lparr>BackWard := 0, Speed := 1, isSeeking := False\<rparr>) c3
             else set_playback (\<lambda>p. p\<lparr>isSeeking := False\<rparr>) c3)"
    "r = (if k < 0 then cERR_PLAYBACK_ERROR else cERR_PLAYBACK_NO_ERROR)"
proof -
  have "backward_mode n = (\<lambda>p. if n = 0 then p\<lparr>BackWard := 0, Speed := 0\<rparr>
      else p\<lparr>isSeeking := True, Speed := n, BackWard := 2 XOR n\<rparr>)"
    by (simp add: backward_mode_def fun_eq_iff)
  then show ?thesis
    using assms that
    by (auto simp: PlaybackFastBackward_def backward_possible_def Let_def bind_eq_Some_conv split: if_splits)
qed

lemma fast_backward_keeps:
  assumes env: "env_ok env" and ok: "player_ok ctx" and run: "PlaybackFastBackward env ctx n = Some (r, ctx')"
  shows "player_ok ctx'"
proof (cases "backward_possible ctx n")
  case True
  from fast_backward_steps [OF run this] obtain c1 c2 v k c3 where
    c: "output_cmd env OUTPUT_AUDIOMUTE (Arg_string ''1'') (set_playback (backward_mode n) ctx) = Some c1"
      "output_cmd env OUTPUT_CLEAR Arg_NULL c1 = Some c2" "Output_Command env c2 OUTPUT_REVERSE Arg_NULL = Some (k, v, c3)"
    and r: "ctx' = (if k < 0 then set_playback (\<lambda>p. p\<lparr>BackWard := 0, Speed := 1, isSeeking := False\<rparr>) c3
                    else set_playback (\<lambda>p. p\<lparr>isSeeking := False\<rparr>) c3)" by metis
  from c have "call_frame (set_playback (backward_mode n) ctx) c3"
    by (meson OutputCmd_t.distinct call_frame_trans env output_cmd_frame Output_Command_frame)
  then show ?thesis
    using ok True by (auto simp: r player_ok_ctx_ok frame_simps pb_ok_def cMaxSpeed_fr_def cMaxSpeed_ff_def
        backward_mode_def backward_possible_def)
qed (use run ok in \<open>auto simp: PlaybackFastBackward_def Let_def player_ok_ctx_ok pb_ok_updates backward_possible_def
    split: if_splits\<close>)

interpretation fast_backward: playback_operation "\<lambda>env ctx. PlaybackFastBackward env ctx n" for n
  by unfold_locales (rule fast_backward_keeps)

lemma slow_motion_keeps:
  assumes env: "env_ok env" and ok: "player_ok ctx" and run: "PlaybackSlowMotion env ctx n = Some (r, ctx')"
  shows "player_ok ctx'"
proof -
  have c: "player_ok c' \<and> isPlaying (playback c')"
    if "PlaybackContinue env ctx = Some (r, c')" "isPlaying (playback ctx)" for c' r
    using cont.keeps [OF env ok that(1)] that ok
    by (auto simp: PlaybackContinue_def Let_def bind_eq_Some_conv pb_ok_updates split: if_splits
        dest!: output_cmd_frame [OF env] frameD)
  show ?thesis
    using run ok c
    by (auto simp: PlaybackSlowMotion_def Let_def bind_eq_Some_conv player_ok_ctx_ok split: if_splits
        dest!: output_cmd_frame [OF env] frameD)
      (auto simp: pb_ok_def)
qed

interpretation slow_motion: playback_operation "\<lambda>env ctx. PlaybackSlowMotion env ctx n" for n
  by unfold_locales (rule slow_motion_keeps)

lemma wait_thread_frame:
  "\<exists>b. snd (wait_thread env n ctx) = ctx\<lparr>hasThreadStarted := b\<rparr>"
proof (induction env n ctx rule: wait_thread.induct)
  case (1 env ctx)
  then show ?case by (auto intro: exI [of _ "hasThreadStarted ctx"])
next
  case (2 env n ctx)
  then show ?case by (auto intro: exI [of _ "hasThreadStarted ctx"])
qed

lemma after_wait_keeps: "player_ok ctx \<Longrightarrow> player_ok (snd (after_wait env (r, ctx)))"
  using wait_thread_frame [of env 20 ctx] by (auto simp: after_wait_def player_ok_ctx_ok split: prod.splits)

lemma stopped_keeps: "player_ok ctx \<Longrightarrow> player_ok (set_playback stopped ctx)"
  by (simp add: player_ok_ctx_ok pb_ok_updates)

lemma PlaybackStop_keeps:
  assumes env: "env_ok env" and ok: "player_ok ctx" and run: "PlaybackStop env ctx = Some (r, ctx')"
  shows "player_ok ctx'"
proof (cases "isPlaying (playback ctx)")
  case True
  then obtain c1 k v c2 where c: "output_cmd env OUTPUT_STOP Arg_NULL (set_playback stopped ctx) = Some c1"
      "selected env CONTAINER_STOP c1 = Some (k, v, c2)" "(r, ctx') = after_wait env (cERR_PLAYBACK_NO_ERROR, c2)"
    using run by (auto simp: PlaybackStop_def bind_eq_Some_conv)
  then have "player_ok c2"
    using output_cmd_frame [OF env c(1)] selected_frame [OF env c(2)] stopped_keeps [OF ok]
    by (auto intro: player_ok_frame)
  then show ?thesis using after_wait_keeps [of c2 env] c(3) by (metis snd_conv)
next
  case False
  then show ?thesis
    using run ok after_wait_keeps [OF ok, of env cERR_PLAYBACK_ERROR] by (simp add: PlaybackStop_def)
qed

lemma PlaybackTerminate_keeps:
  assumes env: "env_ok env" and ok: "player_ok ctx" and run: "PlaybackTerminate env ctx = Some (r, ctx')"
  shows "player_ok ctx'"
proof (cases "isPlaying (playback ctx)")
  case True
  then obtain c1 k v c2 where c: "output_cmd env OUTPUT_FLUSH Arg_NULL ctx = Some c1"
      "selected env CONTAINER_STOP c1 = Some (k, v, c2)" "(r, ctx') = after_wait env (k, set_playback stopped c2)"
    using run by (auto simp: PlaybackTerminate_def bind_eq_Some_conv)
  then have "player_ok (set_playback stopped c2)"
    using output_cmd_frame [OF env c(1)] selected_frame [OF env c(2)] ok
    by (auto intro: player_ok_frame stopped_keeps)
  then show ?thesis using after_wait_keeps [of "set_playback stopped c2" env] c(3) by (metis snd_conv)
next
  case False
  then show ?thesis
    using run ok after_wait_keeps [OF ok, of env cERR_PLAYBACK_NO_ERROR] by (simp add: PlaybackTerminate_def)
qed

interpretation stop: playback_operation PlaybackStop
  by unfold_locales (rule PlaybackStop_keeps)

interpretation terminate: playback_operation PlaybackTerminate
  by unfold_locales (rule PlaybackTerminate_keeps)

lemma PlaybackPlay_keeps:
  assumes env: "env_ok env" and ok: "player_ok ctx" and run: "PlaybackPlay env ctx = Some (r, ctx')"
  shows "player_ok ctx'"
proof (cases "isPlaying (playback ctx)")
  case True
  then show ?thesis using run ok by (simp add: PlaybackPlay_def)
next
  case False
  obtain c1 k v c2 where c: "output_cmd env OUTPUT_AVSYNC Arg_NULL (set_playback (\<lambda>p. p\<lparr>AVSync := 1\<rparr>) ctx) = Some c1"
      "Output_Command env (set_playback (\<lambda>p. p\<lparr>isCreationPhase := True\<rparr>) c1) OUTPUT_PLAY Arg_NULL = Some (k, v, c2)"
    using run False by (auto simp: PlaybackPlay_def bind_eq_Some_conv)
  have c1: "player_ok c1" "\<not> isPlaying (playback c1)"
    using player_ok_frame [OF output_cmd_frame [OF env c(1)]] frame_simps [OF output_cmd_frame [OF env c(1)]] ok False
    by (auto simp: player_ok_ctx_ok pb_ok_updates)
  have c2: "playback c2 = (playback c1)\<lparr>isCreationPhase := True\<rparr>" "ctx_ok c2"
    using frame_simps [OF Output_Command_frame [OF env c(2)]] c1 by (auto simp: player_ok_ctx_ok)
  show ?thesis
  proof (cases "k = 0")
    case True
    let ?p = "set_playback (\<lambda>p. p\<lparr>isPlaying := True, isPaused := False, isForwarding := False, BackWard := 0,
        SlowMotion := 0, Speed := 1\<rparr>) c2"
    let ?t = "set_playback (\<lambda>p. p\<lparr>isCreationPhase := False\<rparr>)
        (if \<not> hasThreadStarted ?p \<and> pe_thread env then ?p\<lparr>hasThreadStarted := True\<rparr> else ?p)"
    obtain w where s: "selected env CONTAINER_PLAY ?t = Some (r, w, ctx')"
      using run False c True by (auto simp: PlaybackPlay_def bind_eq_Some_conv Let_def)
    then have "player_ok ?t"
      using c1 c2 by (auto simp: player_ok_ctx_ok selected_def pb_ok_def cMaxSpeed_fr_def cMaxSpeed_ff_def split: if_splits)
    then show ?thesis using selected_frame [OF env s] by (auto intro: player_ok_frame)
  next
    case False
    then show ?thesis
      using run c c1 c2 \<open>\<not> isPlaying (playback ctx)\<close> by (auto simp: PlaybackPlay_def player_ok_ctx_ok pb_ok_def)
  qed
qed

interpretation play: playback_operation PlaybackPlay
  by unfold_locales (rule PlaybackPlay_keeps)

lemma container_keeps:
  "container_ok call \<Longrightarrow> player_ok ctx \<Longrightarrow> call c ctx = Some (r, v, ctx') \<Longrightarrow> player_ok ctx'"
  by (metis container_okD(2) pb_ok_def player_ok_def player_ok_frame)

lemma open_container_keeps:
  assumes env: "env_ok env" and ok: "player_ok ctx" and run: "open_container env e s ctx = Some (r, ctx')"
  shows "player_ok ctx'"
proof -
  have "player_ok (snd (selectContainer ctx e))"
    using ok by (simp add: selectContainer_def player_ok_ctx_ok)
  then show ?thesis
    using run container_keeps [OF env_okD(1) [OF env]]
    by (auto simp: open_container_def bind_eq_Some_conv split: prod.splits if_splits)
qed

lemma open_subtitles_keeps:
  assumes env: "env_ok env" and ok: "player_ok ctx" and run: "open_subtitles env s ctx = Some ctx'"
  shows "player_ok ctx'"
  using run ok env_okD [OF env]
  by (auto simp: open_subtitles_def bind_eq_Some_conv dest: container_keeps)

lemma source_flags_keep:
  "player_ok ctx \<Longrightarrow> player_ok (set_playback (\<lambda>p. p\<lparr>isFile := a, isHttp := b, isUPNP := c, noprobe := d, uri := g p\<rparr>) ctx)"
  "player_ok ctx \<Longrightarrow> player_ok (set_playback (\<lambda>p. p\<lparr>isFile := a, isHttp := b, isUPNP := c, uri := g p\<rparr>) ctx)"
  "player_ok ctx \<Longrightarrow> player_ok (set_playback (\<lambda>p. p\<lparr>uri := g p\<rparr>) ctx)"
  by (simp_all add: player_ok_ctx_ok pb_ok_def)

lemma open_file_keeps:
  assumes env: "env_ok env" and ok: "player_ok ctx" and run: "open_file env s ctx = Some (r, ctx')"
  shows "player_ok ctx'"
proof -
  define t where "t = (if has_prefix ''myts://'' s then ''file'' @ drop 4 s else s)"
  define c where "c = set_playback (\<lambda>p. p\<lparr>isFile := True, isHttp := False, isUPNP := False,
      noprobe := has_prefix ''myts://'' s, uri := (if has_prefix ''myts://'' s then t else uri p)\<rparr>) ctx"
  have "player_ok c" unfolding c_def by (rule source_flags_keep [OF ok])
  have "(case getExtension (drop 7 t) of
        None \<Rightarrow> Some (cERR_PLAYBACK_ERROR, c)
      | Some extension \<Rightarrow> do {
          (r, ctx) \<leftarrow> open_container env extension t c;
          (if r < 0 then Some (r, ctx)
           else do { ctx \<leftarrow> open_subtitles env (drop 7 t) ctx; Some (cERR_PLAYBACK_NO_ERROR, ctx) })
        }) = Some (r, ctx')"
    using run unfolding open_file_def Let_def t_def c_def .
  with \<open>player_ok c\<close> show ?thesis
    by (auto simp: bind_eq_Some_conv split: option.splits if_splits
        dest: open_container_keeps [OF env] open_subtitles_keeps [OF env])
qed

lemma open_stream_keeps:
  "env_ok env \<Longrightarrow> player_ok ctx \<Longrightarrow> open_stream env s ctx = Some (r, ctx') \<Longrightarrow> player_ok ctx'"
  unfolding open_stream_def Let_def by (rule open_container_keeps [OF _ source_flags_keep(2)])

lemma open_upnp_keeps:
  assumes "env_ok env" and "player_ok ctx" and "open_upnp env s ctx = Some (r, ctx')"
  shows "player_ok ctx'"
  using assms(3)
  by (auto simp: open_upnp_def Let_def bind_eq_Some_conv split: option.splits
      intro: open_container_keeps [OF assms(1) source_flags_keep(2) [OF assms(2)]] source_flags_keep(2) [OF assms(2)])

lemma PlaybackOpen_keeps:
  assumes env: "env_ok env" and ok: "player_ok ctx" and run: "PlaybackOpen env ctx s = Some (r, ctx')"
  shows "player_ok ctx'"
  using run source_flags_keep(3) [OF ok, of "\<lambda>_. s"]
  by (auto simp: PlaybackOpen_def Let_def split: if_splits
      dest: open_file_keeps [OF env] open_stream_keeps [OF env] open_upnp_keeps [OF env])

interpretation opn: playback_operation "\<lambda>env ctx. PlaybackOpen env ctx s" for s
  by unfold_locales (rule PlaybackOpen_keeps)

lemma manager_rep_keeps:
  "mgr_rep audio_TRACKWRAP 0 s a \<Longrightarrow> audio_Command m s c = Some (r, v, s') \<Longrightarrow> \<exists>a. mgr_rep audio_TRACKWRAP 0 s' a"
  "mgr_rep video_TRACKWRAP 0 s a \<Longrightarrow> video_Command m s c = Some (r, v, s') \<Longrightarrow> \<exists>a. mgr_rep video_TRACKWRAP 0 s' a"
  "mgr_rep subtitle_TRACKWRAP (-1) s a \<Longrightarrow> subtitle_Command m s c = Some (r, v, s')
   \<Longrightarrow> \<exists>a. mgr_rep subtitle_TRACKWRAP (-1) s' a"
  using audio.refines [of s a m c] video.refines [of s a m c] subtitle.refines [of s a m c] by auto

lemma manager_call_ok:
  "ctx_ok ctx \<Longrightarrow> audio_Command m (mgr_audio ctx) c = Some (r, v, s) \<Longrightarrow> ctx_ok (ctx\<lparr>mgr_audio := s\<rparr>)"
  "ctx_ok ctx \<Longrightarrow> video_Command m (mgr_video ctx) c = Some (r, v, s) \<Longrightarrow> ctx_ok (ctx\<lparr>mgr_video := s\<rparr>)"
  "ctx_ok ctx \<Longrightarrow> subtitle_Command m (mgr_subtitle ctx) c = Some (r, v, s) \<Longrightarrow> ctx_ok (ctx\<lparr>mgr_subtitle := s\<rparr>)"
  by (auto simp: ctx_ok_def ports_ok_def mgrs_ok_def dest: manager_rep_keeps)

lemma manager_call_keeps:
  "player_ok ctx \<Longrightarrow> audio_Command m (mgr_audio ctx) c = Some (r, v, s) \<Longrightarrow> player_ok (ctx\<lparr>mgr_audio := s\<rparr>)"
  "player_ok ctx \<Longrightarrow> subtitle_Command m (mgr_subtitle ctx) c = Some (r, v, s) \<Longrightarrow> player_ok (ctx\<lparr>mgr_subtitle := s\<rparr>)"
  by (simp_all add: player_ok_ctx_ok manager_call_ok)

lemma delete_tracks_ok:
  assumes ok: "ctx_ok ctx" and run: "delete_tracks env ctx = Some ctx'"
  shows "ctx_ok ctx' \<and> playback ctx' = playback ctx"
proof -
  obtain r1 v1 a r2 v2 b r3 v3 c where
    a: "audio_Command (pe_malloc env) (mgr_audio ctx) MANAGER_DEL = Some (r1, v1, a)"
    and b: "video_Command (pe_malloc env) (mgr_video ctx) MANAGER_DEL = Some (r2, v2, b)"
    and c: "subtitle_Command (pe_malloc env) (mgr_subtitle ctx) MANAGER_DEL = Some (r3, v3, c)"
    and ctx': "ctx' = ctx\<lparr>mgr_audio := a, mgr_video := b, mgr_subtitle := c\<rparr>"
    using run by (auto simp: delete_tracks_def bind_eq_Some_conv)
  show ?thesis
    using manager_call_ok(3) [OF manager_call_ok(2) [OF manager_call_ok(1) [OF ok a]], of "pe_malloc env" MANAGER_DEL r2 v2 b]
      b c by (simp add: ctx')
qed

lemma PlaybackClose_keeps:
  assumes env: "env_ok env" and ok: "player_ok ctx" and run: "PlaybackClose env ctx = Some (r, ctx')"
  shows "player_ok ctx'"
proof -
  let ?c = "ctx\<lparr>selectedContainer := False\<rparr>"
  obtain k v c1 k' v' c2 c3 where
    s: "pe_srt env CONTAINER_DEL ?c = Some (k, v, c1)" "pe_ssa env CONTAINER_DEL c1 = Some (k', v', c2)"
      "delete_tracks env c2 = Some c3" "ctx' = set_playback stopped c3"
    using run by (auto simp: PlaybackClose_def container_del_def bind_eq_Some_conv)
  have f: "call_frame ?c c2"
    using container_okD(1) [OF env_okD(2) [OF env] s(1)] container_okD(1) [OF env_okD(3) [OF env] s(2)]
    by (auto intro: call_frame_trans)
  have "pb_ok (playback c2)" "ctx_ok c2"
    using frame_simps [OF f] ok by (auto simp: player_ok_ctx_ok)
  with delete_tracks_ok [OF _ s(3)] show ?thesis by (simp add: s(4) player_ok_ctx_ok pb_ok_updates)
qed

interpretation cls: playback_operation PlaybackClose
  by unfold_locales (rule PlaybackClose_keeps)

lemma PlaybackSwitchSubtitle_keeps:
  assumes env: "env_ok env" and ok: "player_ok ctx" and run: "PlaybackSwitchSubtitle env ctx n = Some (r, ctx')"
  shows "player_ok ctx'"
proof (cases "isPlaying (playback ctx)")
  case True
  obtain k v m k' v' m' where
    m: "subtitle_Command (pe_malloc env) (mgr_subtitle ctx) (MANAGER_SET n) = Some (k, v, m)"
      "subtitle_Command (pe_malloc env) m MANAGER_GET = Some (k', v', m')"
    using run True by (auto simp: PlaybackSwitchSubtitle_def bind_eq_Some_conv)
  have "player_ok (ctx\<lparr>mgr_subtitle := m'\<rparr>)"
    using manager_call_keeps(2) [OF manager_call_keeps(2) [OF ok m(1)], of "pe_malloc env" MANAGER_GET k' v' m'] m(2) by simp
  then show ?thesis
    using run True m
    by (auto simp: PlaybackSwitchSubtitle_def bind_eq_Some_conv Let_def split: if_splits
        dest: container_keeps [OF env_okD(2) [OF env]] container_keeps [OF env_okD(3) [OF env]]
          container_keeps [OF env_okD(4) [OF env]])
      (metis container_keeps env env_okD(2-4))
next
  case False
  then show ?thesis using run ok by (simp add: PlaybackSwitchSubtitle_def)
qed

interpretation switch_subtitle: playback_operation "\<lambda>env ctx. PlaybackSwitchSubtitle env ctx n" for n
  by unfold_locales (rule PlaybackSwitchSubtitle_keeps)

lemma PlaybackSwitchAudio_keeps:
  assumes env: "env_ok env" and ok: "player_ok ctx" and run: "PlaybackSwitchAudio env ctx n = Some (r, ctx')"
  shows "player_ok ctx'"
proof (cases "isPlaying (playback ctx)")
  case True
  let ?c = "audio_Command (pe_malloc env)"
  obtain k1 v1 m1 k2 v2 m2 k3 v3 m3 where
    m: "?c (mgr_audio ctx) MANAGER_GET = Some (k1, v1, m1)" "?c m1 (MANAGER_SET n) = Some (k2, v2, m2)"
      "?c m2 MANAGER_GET = Some (k3, v3, m3)"
    using run True by (auto simp: PlaybackSwitchAudio_def bind_eq_Some_conv)
  have "player_ok (ctx\<lparr>mgr_audio := m2\<rparr>)"
    using manager_call_keeps(1) [OF manager_call_keeps(1) [OF ok m(1)], of "pe_malloc env" "MANAGER_SET n" k2 v2 m2] m(2)
    by simp
  then have "player_ok (ctx\<lparr>mgr_audio := m3\<rparr>)"
    using manager_call_keeps(1) [of "ctx\<lparr>mgr_audio := m2\<rparr>"] m(3) by force
  then show ?thesis
    using run True m
    by (auto simp: PlaybackSwitchAudio_def bind_eq_Some_conv Let_def split: if_splits
        dest: container_keeps [OF env_okD(1) [OF env]] player_ok_frame [OF call_output_frame [OF env]])
next
  case False
  then show ?thesis using run ok by (simp add: PlaybackSwitchAudio_def)
qed

interpretation switch_audio: playback_operation "\<lambda>env ctx. PlaybackSwitchAudio env ctx n" for n
  by unfold_locales (rule PlaybackSwitchAudio_keeps)

lemma query_keeps:
  assumes env: "env_ok env" and ok: "player_ok ctx"
  shows "PlaybackPts env ctx = Some (r, v, ctx') \<Longrightarrow> player_ok ctx'"
    and "PlaybackGetFrameCount env ctx = Some (r, v, ctx') \<Longrightarrow> player_ok ctx'"
    and "PlaybackLength env ctx = Some (r, v, ctx') \<Longrightarrow> player_ok ctx'"
    and "PlaybackInfo env ctx = Some (r, v, ctx') \<Longrightarrow> player_ok ctx'"
  using ok
  by (auto simp: PlaybackPts_def PlaybackGetFrameCount_def PlaybackLength_def PlaybackInfo_def bind_eq_Some_conv
      split: if_splits dest!: Output_Command_frame [OF env] dest: container_keeps [OF env_okD(1) [OF env]]
      intro: player_ok_frame)

lemmas operations_keep = pause.plain_keeps cont.plain_keeps fast_forward.plain_keeps seek.plain_keeps
  fast_backward.plain_keeps slow_motion.plain_keeps stop.plain_keeps terminate.plain_keeps play.plain_keeps
  opn.plain_keeps cls.plain_keeps switch_subtitle.plain_keeps switch_audio.plain_keeps

lemma Playback_Command_keeps:
  assumes "env_ok env" and "player_ok ctx" and "Playback_Command env ctx c = Some (r, v, ctx')"
  shows "player_ok ctx'"
  using assms(3)
  by (cases c) (use assms(2) in \<open>auto simp: Playback_Command_def dest: operations_keep [OF assms(1,2)] query_keeps [OF assms(1,2)]\<close>)

lemma ports_keep: "player_ok ctx \<Longrightarrow> player_ok (OutputAdd ctx p)" "player_ok ctx \<Longrightarrow> player_ok (OutputDel ctx p)"
  by (auto simp: OutputAdd_def OutputDel_def AvailableOutput_def set_port_def player_ok_def ports_ok_def)

lemma Output_Command_keeps:
  assumes env: "env_ok env" and ok: "player_ok ctx" and run: "Output_Command env ctx c a = Some (r, v, ctx')"
  shows "player_ok ctx'"
proof (cases "c = OUTPUT_ADD \<or> c = OUTPUT_DEL")
  case True
  then show ?thesis using run ports_keep [OF ok] by (auto simp: Output_Command_def bind_eq_Some_conv)
next
  case False
  then show ?thesis using Output_Command_frame [OF env run] ok by (auto intro: player_ok_frame)
qed

lemma supervisor_keeps:
  assumes env: "env_ok env" and ok: "player_ok ctx" and run: "supervisor_step env sv ctx = Some (sv', ctx')"
  shows "player_ok ctx'"
proof (cases "sv_pc sv")
  case Sup_Poll
  then show ?thesis
    using run ok
    by (auto simp: supervisor_step_def sup_poll_def output_cmd_def bind_eq_Some_conv Let_def split: if_splits
        dest: container_keeps [OF env_okD(1) [OF env]] Output_Command_keeps [OF env])
      (metis container_keeps env env_okD(1) Output_Command_keeps)
next
  case Sup_Sync
  then show ?thesis
    using run ok query_keeps(1) [OF env ok]
    by (auto simp: supervisor_step_def sup_sync_def bind_eq_Some_conv split: if_splits)
next
  case Sup_Exit
  have "player_ok (ctx\<lparr>hasThreadStarted := False\<rparr>)" using ok by (simp add: player_ok_ctx_ok)
  with Sup_Exit show ?thesis
    using run terminate.keeps [OF env]
    by (auto simp: supervisor_step_def sup_exit_def bind_eq_Some_conv)
qed (use run ok in \<open>simp add: supervisor_step_def\<close>)

lemma player_reach_ok: "player_reach ctx \<Longrightarrow> player_ok ctx"
proof (induction rule: player_reach.induct)
  case (start ctx)
  then show ?case
    using audio.start video.start subtitle.start
    by (auto simp: player_init_def player_ok_def pb_ok_def PlaybackHandler_def linuxdvb_init_def ports_ok_def mgrs_ok_def
        cMaxSpeed_fr_def cMaxSpeed_ff_def)
next
  case (write_frame ctx env out r ctx')
  then show ?case using LinuxDvbWrite_frame [of env ctx out r ctx'] by (auto simp: dvb_frame_def intro: player_ok_frame)
qed (blast intro: Playback_Command_keeps Output_Command_keeps supervisor_keeps)+

end
