(* ===== verification/Playback_Returns.thy ===== *)
theory Playback_Returns
  imports Playback_Invariant
begin

text \<open>
  Every command of the player returns: no NULL pointer is followed, no track is read that is not there and no mutex is locked twice,
  as long as every manager with tracks has its output (\<open>connected\<close>) and the parts that are parameters return (\<open>env_returns\<close>).
\<close>

subsection \<open>Specification vocabulary\<close>

text \<open>
  The environment answers every call, and every manager with tracks has its output: what
  the application arranges before it plays.
\<close>

definition env_returns :: "'x player_env \<Rightarrow> bool" where
  "env_returns env \<longleftrightarrow>
     (\<forall>c ctx. pe_ffmpeg env c ctx \<noteq> None) \<and> (\<forall>c ctx. pe_srt env c ctx \<noteq> None) \<and> (\<forall>c ctx. pe_ssa env c ctx \<noteq> None)
     \<and> (\<forall>c ctx. pe_ass env c ctx \<noteq> None) \<and> (\<forall>c a ctx. pe_subtitle env c a ctx \<noteq> None)"

definition connected :: "'x Context_t \<Rightarrow> bool" where
  "connected ctx \<longleftrightarrow>
     (is_playing (mgr_video ctx) \<longrightarrow> out_video ctx \<noteq> None) \<and> (is_playing (mgr_audio ctx) \<longrightarrow> out_audio ctx \<noteq> None)
     \<and> (is_playing (mgr_subtitle ctx) \<longrightarrow> out_subtitle ctx \<noteq> None)"

definition ready :: "'x Context_t \<Rightarrow> bool" where
  "ready ctx \<longleftrightarrow> ctx_ok ctx \<and> connected ctx"

definition av_commands :: "OutputCmd_t set" where
  "av_commands = {OUTPUT_FLUSH, OUTPUT_PAUSE, OUTPUT_CONTINUE, OUTPUT_FASTFORWARD, OUTPUT_REVERSE, OUTPUT_CLEAR,
     OUTPUT_SLOWMOTION, OUTPUT_AVSYNC, OUTPUT_PTS, OUTPUT_GET_FRAME_COUNT}"

text \<open>
  The calls that follow a pointer that is NULL, or read behind the end of a string: playing with no container when the outputs
  accept it, and opening an UPnP name that ends behind \<open>ext=\<close>.
\<close>

definition play_accepted :: "'x player_env \<Rightarrow> 'x Context_t \<Rightarrow> bool" where
  "play_accepted env ctx =
     (case output_cmd env OUTPUT_AVSYNC Arg_NULL (set_playback (\<lambda>p. p\<lparr>AVSync := 1\<rparr>) ctx) of
        None \<Rightarrow> False
      | Some c \<Rightarrow>
          (case Output_Command env (set_playback (\<lambda>p. p\<lparr>isCreationPhase := True\<rparr>) c) OUTPUT_PLAY Arg_NULL of
             None \<Rightarrow> False
           | Some (ret, v, c') \<Rightarrow> ret = 0))"

definition undefined_call :: "'x player_env \<Rightarrow> 'x Context_t \<Rightarrow> PlaybackCmd_t \<Rightarrow> bool" where
  "undefined_call env ctx c \<longleftrightarrow>
     \<not> isPlaying (playback ctx)
     \<and> (case c of
          PLAYBACK_PLAY \<Rightarrow> \<not> selectedContainer ctx \<and> play_accepted env ctx
        | PLAYBACK_OPEN s \<Rightarrow> has_prefix ''upnp://'' s \<and> getUPNPExtension (drop 7 s) = None
        | _ \<Rightarrow> False)"

subsection \<open>Every command returns\<close>

lemma ready_set_playback [simp]: "ready (set_playback f ctx) = ready ctx"
  by (simp add: ready_def connected_def)

lemma ready_frame: "dvb_frame ctx ctx' \<Longrightarrow> ready ctx \<Longrightarrow> ready ctx'"
  by (auto simp: ready_def connected_def dvb_frame_def frame_simps(3)) (auto simp: call_frame_def)

lemma encodings:
  assumes "mgrs_ok ctx"
  shows "\<exists>e. video_encoding env ctx = Some e" "\<exists>e. audio_encoding env ctx = Some e"
proof -
  obtain a b where "mgr_rep audio_TRACKWRAP 0 (mgr_audio ctx) a" "mgr_rep video_TRACKWRAP 0 (mgr_video ctx) b"
    using assms by (auto simp: mgrs_ok_def)
  then show "\<exists>e. video_encoding env ctx = Some e" "\<exists>e. audio_encoding env ctx = Some e"
    using audio.refines [of "mgr_audio ctx" a "pe_malloc env" MANAGER_GETENCODING]
      video.refines [of "mgr_video ctx" b "pe_malloc env" MANAGER_GETENCODING]
    by (auto simp: video_encoding_def audio_encoding_def spec_command_def)
qed

lemma linuxdvb_reset_returns:
  assumes "mgrs_ok ctx"
  shows "\<exists>r ctx'. linuxdvb_reset env ctx = Some (r, ctx')"
proof -
  obtain e where e: "video_encoding env ctx = Some e" using encodings [OF assms] by blast
  obtain k c where k: "reset_writer e cERR_LINUXDVB_NO_ERROR ctx = (k, c)" by (cases "reset_writer e cERR_LINUXDVB_NO_ERROR ctx")
  then have "mgrs_ok c" using reset_writer_frame [of ctx e cERR_LINUXDVB_NO_ERROR] assms by (simp add: dvb_frame_def call_frame_def)
  then obtain e' where "audio_encoding env c = Some e'" using encodings by blast
  with e k show ?thesis by (cases "reset_writer e' k c") (simp add: linuxdvb_reset_def)
qed

lemma LinuxDvbStop_returns: "\<not> LinuxDVBmutex (dvb ctx) \<Longrightarrow> \<exists>r ctx'. LinuxDvbStop env ctx t = Some (r, ctx')"
  by (simp add: LinuxDvbStop_def getLinuxDVBMutex_def case_prod_beta Let_def)

lemma LinuxDvbClose_returns:
  assumes "\<not> LinuxDVBmutex (dvb ctx)"
  shows "\<exists>r ctx'. LinuxDvbClose env ctx t = Some (r, ctx')"
proof -
  obtain r c where c: "LinuxDvbStop env ctx t = Some (r, c)" using LinuxDvbStop_returns [OF assms] by blast
  with LinuxDvbStop_frame [OF c] assms show ?thesis
    by (simp add: LinuxDvbClose_def getLinuxDVBMutex_def Let_def dvb_frame_def call_frame_def)
qed

lemma dvb_op_returns:
  assumes "\<not> LinuxDVBmutex (dvb ctx)" and "mgrs_ok ctx"
  shows "\<exists>r ctx'. LinuxDvbPlay env ctx t = Some (r, ctx')" "\<exists>r ctx'. LinuxDvbPause env ctx t = Some (r, ctx')"
    "\<exists>r ctx'. LinuxDvbFlush env ctx t = Some (r, ctx')" "\<exists>r ctx'. LinuxDvbFastForward env ctx t = Some (r, ctx')"
    "\<exists>r ctx'. LinuxDvbSlowMotion env ctx t = Some (r, ctx')" "\<exists>r ctx'. LinuxDvbAVSync env ctx = Some (r, ctx')"
    "\<exists>r ctx'. LinuxDvbClear env ctx t = Some (r, ctx')" "\<exists>r ctx'. LinuxDvbSwitch env ctx t = Some (r, ctx')"
    "\<exists>r n ctx'. LinuxDvbGetFrameCount env ctx = Some (r, n, ctx')"
  using assms encodings [OF assms(2), of env] encodings [of "ctx\<lparr>dvb := (dvb ctx)\<lparr>LinuxDVBmutex := True\<rparr>\<rparr>" env]
  by (auto simp: LinuxDvbPlay_def LinuxDvbPause_def LinuxDvbFlush_def LinuxDvbFastForward_def LinuxDvbSlowMotion_def
      LinuxDvbAVSync_def LinuxDvbClear_def LinuxDvbSwitch_def LinuxDvbGetFrameCount_def getLinuxDVBMutex_def Let_def case_prod_beta)

lemma mgrs_ok_frame: "dvb_frame ctx ctx' \<Longrightarrow> mgrs_ok ctx \<Longrightarrow> mgrs_ok ctx'"
  "dvb_frame ctx ctx' \<Longrightarrow> \<not> LinuxDVBmutex (dvb ctx) \<Longrightarrow> \<not> LinuxDVBmutex (dvb ctx')"
  by (simp_all add: dvb_frame_def call_frame_def)

lemma LinuxDvb_returns:
  assumes mx: "\<not> LinuxDVBmutex (dvb ctx)" and mg: "mgrs_ok ctx" and c: "c \<noteq> OUTPUT_DISCONTINUITY_REVERSE"
  shows "\<exists>r v ctx'. LinuxDvb_Command env ctx c (Arg_string t) = Some (r, v, ctx')"
proof (cases c)
  case OUTPUT_CLOSE
  obtain r c1 where c1: "LinuxDvbClose env ctx t = Some (r, c1)" using LinuxDvbClose_returns [OF mx] by blast
  then obtain k c2 where "linuxdvb_reset env c1 = Some (k, c2)"
    using linuxdvb_reset_returns [OF mgrs_ok_frame(1) [OF LinuxDvbClose_frame [OF c1] mg]] by blast
  with OUTPUT_CLOSE c1 show ?thesis by (simp add: LinuxDvb_Command_def)
next
  case OUTPUT_STOP
  obtain k c1 where c1: "linuxdvb_reset env ctx = Some (k, c1)" using linuxdvb_reset_returns [OF mg] by blast
  then obtain r c2 where "LinuxDvbStop env c1 t = Some (r, c2)"
    using LinuxDvbStop_returns [OF mgrs_ok_frame(2) [OF linuxdvb_reset_frame [OF c1] mx]] by blast
  with OUTPUT_STOP c1 show ?thesis by (simp add: LinuxDvb_Command_def)
next
  case OUTPUT_FLUSH
  obtain r c1 where c1: "LinuxDvbFlush env ctx t = Some (r, c1)" using dvb_op_returns [OF mx mg] by blast
  then obtain k c2 where "linuxdvb_reset env c1 = Some (k, c2)"
    using linuxdvb_reset_returns [OF mgrs_ok_frame(1) [OF dvb_op_frames(3) [OF c1] mg]] by blast
  with OUTPUT_FLUSH c1 show ?thesis by (simp add: LinuxDvb_Command_def)
next
  case OUTPUT_PLAY
  then show ?thesis
    using dvb_op_returns(1) [of "set_pts 0 ctx" env t] mx mg by (auto simp: LinuxDvb_Command_def set_pts_def no_value_def)
qed (use dvb_op_returns [OF mx mg, where env = env] c in
    \<open>auto simp: LinuxDvb_Command_def no_value_def case_prod_beta\<close>)

lemma LinuxDvb_query_returns:
  assumes mx: "\<not> LinuxDVBmutex (dvb ctx)" and mg: "mgrs_ok ctx"
  shows "\<exists>r v ctx'. LinuxDvb_Command env ctx OUTPUT_PTS a = Some (r, v, ctx')"
    "\<exists>r v ctx'. LinuxDvb_Command env ctx OUTPUT_GET_FRAME_COUNT a = Some (r, v, ctx')"
  using dvb_op_returns(9) [OF mx mg, of env] by (auto simp: LinuxDvb_Command_def case_prod_beta)

lemma ready_port:
  assumes "ready ctx"
  shows "is_playing (mgr_video ctx) \<Longrightarrow> out_video ctx = Some LinuxDvbOutput"
    "is_playing (mgr_audio ctx) \<Longrightarrow> out_audio ctx = Some LinuxDvbOutput"
    "is_playing (mgr_subtitle ctx) \<Longrightarrow> out_subtitle ctx = Some SubtitleOutput"
    "\<not> LinuxDVBmutex (dvb ctx)" "mgrs_ok ctx"
  using assms by (auto simp: ready_def connected_def ctx_ok_def ports_ok_def)

lemma or_av_returns:
  assumes r: "ready ctx" and c: "c \<noteq> OUTPUT_DISCONTINUITY_REVERSE"
  shows "\<exists>k ctx'. or_video env c (Arg_string t) (r0, ctx) = Some (k, ctx') \<and> dvb_frame ctx ctx'"
    "\<exists>k ctx'. or_audio env c (Arg_string t) (r0, ctx) = Some (k, ctx') \<and> dvb_frame ctx ctx'"
  using LinuxDvb_returns [OF ready_port(4,5) [OF r] c, of env t] ready_port(1,2) [OF r]
  by (auto simp: or_video_def or_audio_def call_output_def dest: LinuxDvb_Command_frame)

lemma both_outputs_returns:
  assumes r: "ready ctx" and c: "c \<noteq> OUTPUT_DISCONTINUITY_REVERSE"
  shows "\<exists>k ctx'. both_outputs env c ctx = Some (k, ctx') \<and> dvb_frame ctx ctx'"
proof -
  obtain k c1 where c1: "or_video env c (Arg_string ''video'') (cERR_OUTPUT_NO_ERROR, ctx) = Some (k, c1)" "dvb_frame ctx c1"
    using or_av_returns(1) [OF r c] by blast
  moreover obtain k' c2 where "or_audio env c (Arg_string ''audio'') (k, c1) = Some (k', c2)" "dvb_frame c1 c2"
    using or_av_returns(2) [OF ready_frame [OF c1(2) r] c] by blast
  ultimately show ?thesis by (auto simp: both_outputs_def intro: dvb_frame_trans)
qed

lemma output_clear_returns:
  assumes r: "ready ctx"
  shows "\<exists>k ctx'. output_clear env Arg_NULL ctx = Some (k, ctx') \<and> dvb_frame ctx ctx'"
proof -
  have "output_clear env Arg_NULL ctx = both_outputs env OUTPUT_CLEAR ctx"
    by (simp add: output_clear_def both_outputs_def arg_first_def)
  then show ?thesis using both_outputs_returns [OF r, of OUTPUT_CLEAR env] by simp
qed

lemma Output_Command_returns:
  assumes r: "ready ctx" and c: "c \<in> av_commands"
  shows "\<exists>k v ctx'. Output_Command env ctx c Arg_NULL = Some (k, v, ctx') \<and> dvb_frame ctx ctx'"
proof -
  have q: "\<exists>k v ctx'. first_output env c Arg_NULL ctx = Some (k, v, ctx') \<and> dvb_frame ctx ctx'"
    if "c = OUTPUT_PTS \<or> c = OUTPUT_GET_FRAME_COUNT"
    using that LinuxDvb_query_returns [OF ready_port(4,5) [OF r], of env Arg_NULL] ready_port(1,2) [OF r]
    by (auto simp: first_output_def call_output_def dest: LinuxDvb_Command_frame)
  show ?thesis
    using c q both_outputs_returns [OF r, of c env] output_clear_returns [OF r, of env]
      or_av_returns(2) [OF r, of OUTPUT_AVSYNC env "''audio''" cERR_OUTPUT_NO_ERROR]
    by (auto simp: av_commands_def Output_Command_def no_value_def)
qed

lemma mute_returns:
  assumes r: "ready ctx"
  shows "\<exists>ctx'. output_cmd env OUTPUT_AUDIOMUTE (Arg_string t) ctx = Some ctx' \<and> dvb_frame ctx ctx'"
  using or_av_returns(2) [OF r, of OUTPUT_AUDIOMUTE env t cERR_OUTPUT_NO_ERROR]
  by (auto simp: Output_Command_def output_cmd_def no_value_def)

lemma output_cmd_returns:
  assumes "ready ctx" and "c \<in> av_commands"
  shows "\<exists>ctx'. output_cmd env c Arg_NULL ctx = Some ctx' \<and> dvb_frame ctx ctx'"
  using Output_Command_returns [OF assms, of env] by (auto simp: output_cmd_def)

lemma or_subtitle_returns:
  assumes r: "ready ctx" and env: "env_returns env"
  shows "\<exists>k ctx'. or_subtitle env c a (r0, ctx) = Some (k, ctx')"
proof (cases "is_playing (mgr_subtitle ctx)")
  case True
  obtain k v c1 where "pe_subtitle env c a ctx = Some (k, v, c1)" using env by (fastforce simp: env_returns_def)
  with True ready_port(3) [OF r] show ?thesis by (simp add: or_subtitle_def call_output_def)
qed (simp add: or_subtitle_def)

lemma stop_play_returns:
  assumes r: "ready ctx" and env: "env_returns env"
  shows "\<exists>k ctx'. all_outputs env OUTPUT_STOP ctx = Some (k, ctx')" "\<exists>k ctx'. output_play env ctx = Some (k, ctx')"
proof -
  obtain k c1 where c1: "both_outputs env OUTPUT_STOP ctx = Some (k, c1)" "dvb_frame ctx c1"
    using both_outputs_returns [OF r, of OUTPUT_STOP env] by blast
  then show "\<exists>k ctx'. all_outputs env OUTPUT_STOP ctx = Some (k, ctx')"
    using or_subtitle_returns [OF ready_frame [OF c1(2) r] env] by (simp add: all_outputs_def)
  obtain k c1 where c1: "or_video env OUTPUT_PLAY (Arg_string ''video'') (cERR_OUTPUT_NO_ERROR, ctx) = Some (k, c1)" "dvb_frame ctx c1"
    using or_av_returns(1) [OF r, of OUTPUT_PLAY env] by blast
  moreover have r1: "ready c1" using ready_frame [OF c1(2) r] .
  moreover obtain k' c2 where c2: "or_audio env OUTPUT_PLAY (Arg_string ''audio'') (k, c1) = Some (k', c2)" "dvb_frame c1 c2"
    using or_av_returns(2) [OF r1, of OUTPUT_PLAY env] by blast
  ultimately show "\<exists>k ctx'. output_play env ctx = Some (k, ctx')"
    using or_subtitle_returns [OF ready_frame [OF c2(2) r1] env, of OUTPUT_PLAY "Arg_string ''subtitle''" 0]
    by (auto simp: output_play_def)
qed

lemma env_returns_calls:
  assumes "env_returns env"
  shows "\<exists>r v ctx'. pe_ffmpeg env c ctx = Some (r, v, ctx')" "\<exists>r v ctx'. pe_srt env c ctx = Some (r, v, ctx')"
    "\<exists>r v ctx'. pe_ssa env c ctx = Some (r, v, ctx')" "\<exists>r v ctx'. pe_ass env c ctx = Some (r, v, ctx')"
  using assms by (auto simp: env_returns_def)

lemma selected_returns:
  "env_returns env \<Longrightarrow> selectedContainer ctx \<Longrightarrow> \<exists>r v ctx'. selected env c ctx = Some (r, v, ctx')"
  using env_returns_calls(1) by (auto simp: selected_def)

lemma dvb_frame_simps:
  assumes "dvb_frame ctx ctx'"
  shows "playback ctx' = playback ctx" "selectedContainer ctx' = selectedContainer ctx" "mgr_video ctx' = mgr_video ctx"
  using assms by (auto simp: dvb_frame_def call_frame_def)

lemma outputs_then:
  assumes "ready ctx" and "c \<in> av_commands" and "d \<in> av_commands"
  shows "\<exists>c1 c2. output_cmd env c Arg_NULL ctx = Some c1 \<and> output_cmd env d Arg_NULL c1 = Some c2 \<and> dvb_frame ctx c2"
  using output_cmd_returns [OF assms(1,2), of env] output_cmd_returns [OF ready_frame [OF _ assms(1)] assms(3), of _ env]
  by (meson dvb_frame_trans)

lemma pause_continue_return:
  assumes "ready ctx"
  shows "\<exists>r ctx'. PlaybackPause env ctx = Some (r, ctx') \<and> (isPlaying (playback ctx) \<longrightarrow> isPlaying (playback ctx')) \<and> ready ctx'"
    "\<exists>r ctx'. PlaybackContinue env ctx = Some (r, ctx') \<and> (isPlaying (playback ctx) \<longrightarrow> isPlaying (playback ctx')) \<and> ready ctx'"
  using outputs_then [OF assms, of OUTPUT_CLEAR OUTPUT_PAUSE env] outputs_then [OF assms, of OUTPUT_CLEAR OUTPUT_CONTINUE env]
    output_cmd_returns [OF assms, of OUTPUT_PAUSE env] output_cmd_returns [OF assms, of OUTPUT_CONTINUE env] assms
  by (auto simp: PlaybackPause_def PlaybackContinue_def Let_def av_commands_def normal_speed_def dvb_frame_simps ready_frame)

lemma fast_forward_returns: "ready ctx \<Longrightarrow> \<exists>r ctx'. PlaybackFastForward env ctx n = Some (r, ctx')"
  using output_cmd_returns [of "set_playback (\<lambda>p. p\<lparr>isForwarding := True, Speed := n\<rparr>) ctx" OUTPUT_FASTFORWARD env]
  by (auto simp: PlaybackFastForward_def Let_def av_commands_def)

lemma slow_motion_returns:
  assumes "ready ctx"
  shows "\<exists>r ctx'. PlaybackSlowMotion env ctx n = Some (r, ctx')"
proof -
  let ?f = "\<lambda>p. if n = 2 \<or> n = 4 \<or> n = 8 then p\<lparr>SlowMotion := n\<rparr> else p"
  obtain c1 where c1: "(if isPaused (playback ctx) then map_option snd (PlaybackContinue env ctx) else Some ctx) = Some c1" "ready c1"
    using pause_continue_return(2) [OF assms, of env] assms by (cases "isPaused (playback ctx)") auto
  obtain c2 where "output_cmd env OUTPUT_SLOWMOTION Arg_NULL (set_playback ?f c1) = Some c2"
    using output_cmd_returns [of "set_playback ?f c1" OUTPUT_SLOWMOTION env] c1 by (auto simp: av_commands_def)
  then show ?thesis by (simp only: PlaybackSlowMotion_def Let_def c1(1) Option.bind.bind_lunit) auto
qed

lemma fast_backward_returns:
  assumes "ready ctx"
  shows "\<exists>r ctx'. PlaybackFastBackward env ctx n = Some (r, ctx')"
proof -
  let ?c = "set_playback (\<lambda>p. if n = 0 then p\<lparr>BackWard := 0, Speed := 0\<rparr>
       else p\<lparr>isSeeking := True, Speed := n, BackWard := 2 XOR n\<rparr>) ctx"
  obtain c1 where c1: "output_cmd env OUTPUT_AUDIOMUTE (Arg_string ''1'') ?c = Some c1" "dvb_frame ?c c1"
    using mute_returns [of ?c] assms by auto
  then have r1: "ready c1" using ready_frame assms ready_set_playback by blast
  obtain c2 where c2: "output_cmd env OUTPUT_CLEAR Arg_NULL c1 = Some c2" "dvb_frame c1 c2"
    using output_cmd_returns [OF r1, of OUTPUT_CLEAR env] by (auto simp: av_commands_def)
  obtain k v c3 where "Output_Command env c2 OUTPUT_REVERSE Arg_NULL = Some (k, v, c3)"
    using Output_Command_returns [OF ready_frame [OF c2(2) r1], of OUTPUT_REVERSE env] by (auto simp: av_commands_def)
  with c1 c2 show ?thesis by (auto simp: PlaybackFastBackward_def Let_def)
qed

lemma seek_returns:
  assumes "ready ctx" and "isPlaying (playback ctx) \<longrightarrow> selectedContainer ctx" and "env_returns env"
  shows "\<exists>r ctx'. PlaybackSeek env ctx pos = Some (r, ctx')"
proof -
  let ?c = "set_playback (\<lambda>p. p\<lparr>isSeeking := True\<rparr>) ctx"
  obtain c1 where c1: "output_cmd env OUTPUT_CLEAR Arg_NULL ?c = Some c1" "dvb_frame ?c c1"
    using output_cmd_returns [of ?c OUTPUT_CLEAR env] assms by (auto simp: av_commands_def)
  then show ?thesis
    using selected_returns [OF assms(3), of c1 "CONTAINER_SEEK pos"] assms(2) dvb_frame_simps(2) [OF c1(2)]
    by (auto simp: PlaybackSeek_def Let_def)
qed

lemma stop_returns:
  assumes "ready ctx" and "isPlaying (playback ctx) \<longrightarrow> selectedContainer ctx" and "env_ok env" and "env_returns env"
  shows "\<exists>r ctx'. PlaybackStop env ctx = Some (r, ctx')"
proof (cases "isPlaying (playback ctx)")
  case True
  obtain k c1 where c1: "all_outputs env OUTPUT_STOP (set_playback stopped ctx) = Some (k, c1)"
    using stop_play_returns(1) [OF _ assms(4)] assms(1) ready_set_playback by blast
  then have o: "output_cmd env OUTPUT_STOP Arg_NULL (set_playback stopped ctx) = Some c1"
    by (simp add: output_cmd_def Output_Command_def no_value_def)
  then have "selectedContainer c1"
    using frame_simps(2) [OF output_cmd_frame [OF assms(3) o]] True assms(2) by simp
  then show ?thesis
    using selected_returns [OF assms(4), of c1 CONTAINER_STOP] o True
    by (auto simp: PlaybackStop_def after_wait_def split: prod.splits)
qed (simp add: PlaybackStop_def after_wait_def split: prod.splits)

lemma terminate_returns:
  assumes "ready ctx" and "isPlaying (playback ctx) \<longrightarrow> selectedContainer ctx" and "env_returns env"
  shows "\<exists>r ctx'. PlaybackTerminate env ctx = Some (r, ctx')"
proof (cases "isPlaying (playback ctx)")
  case True
  obtain c1 where c1: "output_cmd env OUTPUT_FLUSH Arg_NULL ctx = Some c1" "dvb_frame ctx c1"
    using output_cmd_returns [OF assms(1), of OUTPUT_FLUSH env] by (auto simp: av_commands_def)
  then show ?thesis
    using selected_returns [OF assms(3), of c1 CONTAINER_STOP] True assms(2) dvb_frame_simps(2) [OF c1(2)]
    by (auto simp: PlaybackTerminate_def after_wait_def split: prod.splits)
qed (simp add: PlaybackTerminate_def after_wait_def split: prod.splits)

lemma play_outcome:
  assumes r: "ready ctx" and env: "env_ok env" and er: "env_returns env"
  shows "if undefined_call env ctx PLAYBACK_PLAY then PlaybackPlay env ctx = None else \<exists>k ctx'. PlaybackPlay env ctx = Some (k, ctx')"
proof -
  let ?c = "set_playback (\<lambda>p. p\<lparr>AVSync := 1\<rparr>) ctx"
  obtain c1 where c1: "output_cmd env OUTPUT_AVSYNC Arg_NULL ?c = Some c1" "dvb_frame ?c c1"
    using output_cmd_returns [of ?c OUTPUT_AVSYNC env] r by (auto simp: av_commands_def)
  let ?d = "set_playback (\<lambda>p. p\<lparr>isCreationPhase := True\<rparr>) c1"
  have "ready c1" using ready_frame [OF c1(2)] r by simp
  then obtain k c2 where p: "output_play env ?d = Some (k, c2)"
    using stop_play_returns(2) [OF _ er] ready_set_playback by blast
  then have o: "Output_Command env ?d OUTPUT_PLAY Arg_NULL = Some (k, None, c2)"
    by (simp add: Output_Command_def no_value_def)
  have s: "selectedContainer c2 = selectedContainer ctx"
    using frame_simps(2) [OF output_play_frame [OF env p]] dvb_frame_simps(2) [OF c1(2)] by simp
  have "\<exists>k ctx'. do { (ret, v, ctx) \<leftarrow> selected env CONTAINER_PLAY c; Some (ret, ctx) } = Some (k, ctx')"
    if "selectedContainer c" for c
    using selected_returns [OF er that, of CONTAINER_PLAY] by auto
  moreover have "selected env CONTAINER_PLAY c = None" if "\<not> selectedContainer c" for c
    using that by (simp add: selected_def)
  ultimately show ?thesis
    using c1 o s by (auto simp: PlaybackPlay_def Let_def undefined_call_def play_accepted_def)
qed

lemma open_container_returns: "env_returns env \<Longrightarrow> \<exists>r ctx'. open_container env e s ctx = Some (r, ctx')"
  using env_returns_calls(1) [of env "CONTAINER_INIT (Some s)" "snd (selectContainer ctx e)"]
  by (auto simp: open_container_def split: prod.splits)

lemma open_subtitles_returns:
  assumes "env_returns env"
  shows "\<exists>ctx'. open_subtitles env s ctx = Some ctx'"
proof -
  obtain a b c1 where 1: "pe_srt env (CONTAINER_INIT (Some s)) ctx = Some (a, b, c1)" using env_returns_calls [OF assms] by blast
  obtain a b c2 where 2: "pe_ssa env (CONTAINER_INIT (Some s)) c1 = Some (a, b, c2)" using env_returns_calls [OF assms] by blast
  obtain a b c3 where 3: "pe_ass env (CONTAINER_INIT None) c2 = Some (a, b, c3)" using env_returns_calls [OF assms] by blast
  from 1 2 3 show ?thesis by (simp add: open_subtitles_def)
qed

lemma open_file_returns:
  assumes "env_returns env"
  shows "\<exists>r ctx'. open_file env s ctx = Some (r, ctx')"
proof -
  have "\<exists>r ctx'. (do { (r, ctx) \<leftarrow> open_container env e t c;
      (if r < 0 then Some (r, ctx)
       else do { ctx \<leftarrow> open_subtitles env u ctx; Some (cERR_PLAYBACK_NO_ERROR, ctx) }) }) = Some (r, ctx')" for e t c u
  proof -
    obtain k c1 where c1: "open_container env e t c = Some (k, c1)" using open_container_returns [OF assms] by blast
    obtain c2 where "open_subtitles env u c1 = Some c2" using open_subtitles_returns [OF assms] by blast
    with c1 show ?thesis by simp
  qed
  then show ?thesis by (simp add: open_file_def Let_def split: option.split)
qed

lemma upnp_prefix:
  assumes "has_prefix ''upnp://'' s"
  shows "\<not> has_prefix ''file://'' s" "\<not> has_prefix ''myts://'' s" "\<not> has_prefix ''http://'' s" "\<not> list_ex (\<lambda>p. has_prefix p s) stream_prefixes"
proof -
  have "take 7 s = ''upnp://''" using assms by (simp add: has_prefix_def numeral_eq_Suc)
  then have "s = ''upnp://'' @ drop 7 s" by (metis append_take_drop_id)
  then obtain t where "s = ''upnp://'' @ t" by blast
  then show "\<not> has_prefix ''file://'' s" "\<not> has_prefix ''myts://'' s" "\<not> has_prefix ''http://'' s" "\<not> list_ex (\<lambda>p. has_prefix p s) stream_prefixes"
    by (simp_all add: has_prefix_def stream_prefixes_def)
qed

lemma open_outcome:
  assumes "env_returns env"
  shows "if undefined_call env ctx (PLAYBACK_OPEN s) then PlaybackOpen env ctx s = None
    else \<exists>r ctx'. PlaybackOpen env ctx s = Some (r, ctx')"
  using open_file_returns [OF assms] open_container_returns [OF assms] upnp_prefix [of s]
  by (auto simp: undefined_call_def PlaybackOpen_def Let_def open_stream_def open_upnp_def split: option.splits)

lemma manager_returns:
  assumes "mgrs_ok ctx"
  shows "\<exists>r v m. audio_Command b (mgr_audio ctx) c = Some (r, v, m) \<and> mgrs_ok (ctx\<lparr>mgr_audio := m\<rparr>)"
    "\<exists>r v m. video_Command b (mgr_video ctx) c = Some (r, v, m) \<and> mgrs_ok (ctx\<lparr>mgr_video := m\<rparr>)"
    "\<exists>r v m. subtitle_Command b (mgr_subtitle ctx) c = Some (r, v, m) \<and> mgrs_ok (ctx\<lparr>mgr_subtitle := m\<rparr>)"
  using assms audio.refines [of "mgr_audio ctx" _ b c] video.refines [of "mgr_video ctx" _ b c]
    subtitle.refines [of "mgr_subtitle ctx" _ b c]
  unfolding mgrs_ok_def by fastforce+

lemma delete_tracks_returns:
  assumes "mgrs_ok ctx"
  shows "\<exists>ctx'. delete_tracks env ctx = Some ctx'"
proof -
  obtain r v a where a: "audio_Command (pe_malloc env) (mgr_audio ctx) MANAGER_DEL = Some (r, v, a)"
    using manager_returns(1) [OF assms] by blast
  obtain r v b where b: "video_Command (pe_malloc env) (mgr_video ctx) MANAGER_DEL = Some (r, v, b)"
    using manager_returns(2) [OF assms] by blast
  obtain r v c where c: "subtitle_Command (pe_malloc env) (mgr_subtitle ctx) MANAGER_DEL = Some (r, v, c)"
    using manager_returns(3) [OF assms] by blast
  from a b c show ?thesis by (simp add: delete_tracks_def)
qed

lemma close_returns:
  assumes "ctx_ok ctx" and "env_ok env" and "env_returns env"
  shows "\<exists>r ctx'. PlaybackClose env ctx = Some (r, ctx')"
proof -
  let ?c = "ctx\<lparr>selectedContainer := False\<rparr>"
  obtain k v c1 where c1: "pe_srt env CONTAINER_DEL ?c = Some (k, v, c1)" using env_returns_calls [OF assms(3)] by blast
  obtain k v c2 where c2: "pe_ssa env CONTAINER_DEL c1 = Some (k, v, c2)" using env_returns_calls [OF assms(3)] by blast
  have "call_frame ?c c2"
    using container_okD(1) [OF env_okD(2) [OF assms(2)] c1] container_okD(1) [OF env_okD(3) [OF assms(2)] c2]
    by (auto intro: call_frame_trans)
  then have "mgrs_ok c2" using assms(1) by (simp add: call_frame_def ctx_ok_def)
  then obtain c3 where "delete_tracks env c2 = Some c3" using delete_tracks_returns by blast
  with c1 c2 show ?thesis by (simp add: PlaybackClose_def container_del_def)
qed

lemma call_if_returns:
  "\<exists>r v c. m = Some (r, v, c) \<Longrightarrow> \<exists>c. (if b then do { (r, v, ctx) \<leftarrow> m; Some ctx } else Some x) = Some c"
  by auto

lemma switch_audio_returns:
  assumes ok: "ctx_ok ctx" and env: "env_returns env"
  shows "\<exists>r ctx'. PlaybackSwitchAudio env ctx n = Some (r, ctx')"
proof -
  let ?c = "audio_Command (pe_malloc env)"
  obtain k1 v1 m1 where m1: "?c (mgr_audio ctx) MANAGER_GET = Some (k1, v1, m1)" "mgrs_ok (ctx\<lparr>mgr_audio := m1\<rparr>)"
    using manager_returns(1) ok by (fastforce simp: ctx_ok_def)
  obtain k2 v2 m2 where m2: "?c m1 (MANAGER_SET n) = Some (k2, v2, m2)" "mgrs_ok (ctx\<lparr>mgr_audio := m2\<rparr>)"
    using manager_returns(1) [OF m1(2), of "pe_malloc env" "MANAGER_SET n"] by auto
  obtain k3 v3 m3 where m3: "?c m2 MANAGER_GET = Some (k3, v3, m3)" "mgrs_ok (ctx\<lparr>mgr_audio := m3\<rparr>)"
    using manager_returns(1) [OF m2(2), of "pe_malloc env" MANAGER_GET] by auto
  let ?d = "ctx\<lparr>mgr_audio := m3\<rparr>"
  obtain c1 where c1: "(if out_audio ?d \<noteq> None
      then do { (r, v, ctx) \<leftarrow> call_output env (out_audio ?d) OUTPUT_SWITCH (Arg_string ''audio'') ?d; Some ctx }
      else Some ?d) = Some c1"
    using LinuxDvb_returns [of ?d OUTPUT_SWITCH env "''audio''"] m3(2) ok
    by (auto simp: call_output_def ctx_ok_def ports_ok_def)
  obtain c2 where c2: "(if selectedContainer c1
      then do { (r, v, ctx) \<leftarrow> pe_ffmpeg env (CONTAINER_SWITCH_AUDIO (out_id 0 v3)) c1; Some ctx }
      else Some c1) = Some c2"
    using call_if_returns [OF env_returns_calls(1) [OF env, of "CONTAINER_SWITCH_AUDIO (out_id 0 v3)" c1]] by blast
  show ?thesis
    by (simp only: PlaybackSwitchAudio_def Let_def m1(1) m2(1) m3(1) c1 c2 Option.bind.bind_lunit prod.case) auto
qed

lemma switch_subtitle_returns:
  assumes ok: "ctx_ok ctx" and env: "env_returns env"
  shows "\<exists>r ctx'. PlaybackSwitchSubtitle env ctx n = Some (r, ctx')"
proof -
  let ?c = "subtitle_Command (pe_malloc env)"
  obtain k1 v1 m1 where m1: "?c (mgr_subtitle ctx) (MANAGER_SET n) = Some (k1, v1, m1)" "mgrs_ok (ctx\<lparr>mgr_subtitle := m1\<rparr>)"
    using manager_returns(3) ok by (fastforce simp: ctx_ok_def)
  obtain k2 v2 m2 where m2: "?c m1 MANAGER_GET = Some (k2, v2, m2)"
    using manager_returns(3) [OF m1(2), of "pe_malloc env" MANAGER_GET] by auto
  let ?s = "CONTAINER_SWITCH_SUBTITLE (out_id 0 v2)"
  obtain k v c1 where c1: "pe_ass env ?s (ctx\<lparr>mgr_subtitle := m2\<rparr>) = Some (k, v, c1)" using env_returns_calls [OF env] by blast
  obtain c2 where c2: "(if out_id 0 v2 \<ge> TEXTSRTOFFSET then do { (r, v, ctx) \<leftarrow> pe_srt env ?s c1; Some ctx } else Some c1) = Some c2"
    using call_if_returns [OF env_returns_calls(2) [OF env, of ?s c1]] by blast
  obtain c3 where "(if out_id 0 v2 \<ge> TEXTSSAOFFSET then do { (r, v, ctx) \<leftarrow> pe_ssa env ?s c2; Some ctx } else Some c2) = Some c3"
    using call_if_returns [OF env_returns_calls(3) [OF env, of ?s c2]] by blast
  with m1 m2 c1 c2 show ?thesis by (simp add: PlaybackSwitchSubtitle_def Let_def split del: if_split) simp
qed

lemma query_returns:
  assumes "ready ctx" and "env_returns env"
  shows "\<exists>r v ctx'. PlaybackPts env ctx = Some (r, v, ctx')" "\<exists>r v ctx'. PlaybackGetFrameCount env ctx = Some (r, v, ctx')"
    "\<exists>r v ctx'. PlaybackLength env ctx = Some (r, v, ctx')" "\<exists>r v ctx'. PlaybackInfo env ctx = Some (r, v, ctx')"
  using Output_Command_returns [OF assms(1), of OUTPUT_PTS env] Output_Command_returns [OF assms(1), of OUTPUT_GET_FRAME_COUNT env]
    env_returns_calls(1) [OF assms(2), of CONTAINER_LENGTH ctx] env_returns_calls(1) [OF assms(2), of CONTAINER_INFO ctx]
  by (auto simp: PlaybackPts_def PlaybackGetFrameCount_def PlaybackLength_def PlaybackInfo_def av_commands_def)

lemma Playback_Command_outcome:
  assumes ok: "player_ok ctx" and con: "connected ctx" and env: "env_ok env" "env_returns env"
  shows "if undefined_call env ctx c then Playback_Command env ctx c = None
    else \<exists>r v ctx'. Playback_Command env ctx c = Some (r, v, ctx')"
proof -
  have o: "ctx_ok ctx" and s: "isPlaying (playback ctx) \<longrightarrow> selectedContainer ctx" and r: "ready ctx"
    using ok con by (auto simp: player_ok_ctx_ok ready_def)
  note returns = pause_continue_return [OF r, of env] fast_forward_returns [OF r, of env] slow_motion_returns [OF r, of env]
    fast_backward_returns [OF r, of env] seek_returns [OF r s env(2)] stop_returns [OF r s env] terminate_returns [OF r s env(2)]
    close_returns [OF o env] switch_audio_returns [OF o env(2)] switch_subtitle_returns [OF o env(2)] query_returns [OF r env(2)]
  have p: "\<exists>r v ctx'. plain m = Some (r, v, ctx')" if "\<exists>r ctx'. m = Some (r, ctx')" for m :: "(int \<times> 'a Context_t) option"
    using that by (auto simp: plain_def)
  have n: "plain None = None" by (simp add: plain_def)
  show ?thesis
  proof (cases c)
    case (PLAYBACK_OPEN x)
    then show ?thesis using open_outcome [OF env(2), of ctx x] p n by (simp add: Playback_Command_def split: if_splits)
  next
    case PLAYBACK_PLAY
    then show ?thesis using play_outcome [OF r env] p n by (simp add: Playback_Command_def split: if_splits)
  qed (use returns in \<open>auto simp: Playback_Command_def undefined_call_def intro!: p\<close>)
qed

end
