(* ===== verification/Playback_Control.thy ===== *)
theory Playback_Control
  imports Playback_Returns
begin

text \<open>
  What the commands of the player do: the requests they make on the decoders, when they are refused, how playback ends
  and how a frame reaches the audio decoder.
\<close>

subsection \<open>Specification vocabulary\<close>

text \<open>The requests on the devices that are open and in use.\<close>

definition dvb_calls :: "'x Context_t \<Rightarrow> dvb_ioctl list \<Rightarrow> dvb_ioctl list \<Rightarrow> dvb_event list" where
  "dvb_calls ctx vs as =
     (if is_playing (mgr_video ctx) \<and> videofd (dvb ctx) \<noteq> -1 then map (Dvb_Ioctl (videofd (dvb ctx))) vs else [])
     @ (if is_playing (mgr_audio ctx) \<and> audiofd (dvb ctx) \<noteq> -1 then map (Dvb_Ioctl (audiofd (dvb ctx))) as else [])"

definition sent :: "'x Context_t \<Rightarrow> 'x Context_t \<Rightarrow> dvb_event list \<Rightarrow> bool" where
  "sent ctx ctx' es \<longleftrightarrow>
     dvb_log (dvb ctx') = dvb_log (dvb ctx) @ es \<and> videofd (dvb ctx') = videofd (dvb ctx) \<and> audiofd (dvb ctx') = audiofd (dvb ctx)"

text \<open>A command of the decoder output that makes requests of its own on either device.\<close>

definition sends :: "'x player_env \<Rightarrow> OutputCmd_t \<Rightarrow> dvb_ioctl list \<Rightarrow> dvb_ioctl list \<Rightarrow> bool" where
  "sends env c vs as \<longleftrightarrow>
     (\<forall>ctx r v ctx'. LinuxDvb_Command env ctx c (Arg_string ''video'') = Some (r, v, ctx') \<longrightarrow>
        sent ctx ctx' (if videofd (dvb ctx) \<noteq> -1 then map (Dvb_Ioctl (videofd (dvb ctx))) vs else []))
     \<and> (\<forall>ctx r v ctx'. LinuxDvb_Command env ctx c (Arg_string ''audio'') = Some (r, v, ctx') \<longrightarrow>
        sent ctx ctx' (if audiofd (dvb ctx) \<noteq> -1 then map (Dvb_Ioctl (audiofd (dvb ctx))) as else []))"

definition refused :: "'x Context_t \<Rightarrow> PlaybackCmd_t \<Rightarrow> bool" where
  "refused ctx c \<longleftrightarrow>
     (let p = playback ctx
      in case c of
        PLAYBACK_PAUSE \<Rightarrow> \<not> isPlaying p \<or> isPaused p
      | PLAYBACK_CONTINUE \<Rightarrow> \<not> isPlaying p \<or> \<not> isPaused p \<and> \<not> isForwarding p \<and> BackWard p = 0 \<and> SlowMotion p = 0
      | PLAYBACK_FASTFORWARD n \<Rightarrow> \<not> is_playing (mgr_video ctx) \<or> isHttp p \<or> BackWard p \<noteq> 0 \<or> n \<notin> {1..128}
      | PLAYBACK_FASTBACKWARD n \<Rightarrow> \<not> is_playing (mgr_video ctx) \<or> isForwarding p \<or> n \<notin> {-320..0}
      | PLAYBACK_SLOWMOTION n \<Rightarrow> \<not> is_playing (mgr_video ctx) \<or> isHttp p \<or> \<not> isPlaying p
      | PLAYBACK_SEEK pos \<Rightarrow> \<not> isPlaying p \<or> isPaused p \<or> isForwarding p \<or> BackWard p \<noteq> 0 \<or> SlowMotion p \<noteq> 0
      | PLAYBACK_SWITCH_AUDIO n \<Rightarrow> \<not> isPlaying p
      | PLAYBACK_SWITCH_SUBTITLE n \<Rightarrow> \<not> isPlaying p
      | PLAYBACK_FLUSH \<Rightarrow> True
      | _ \<Rightarrow> False)"

definition controls :: "PlaybackCmd_t set" where
  "controls = {PLAYBACK_PAUSE, PLAYBACK_CONTINUE, PLAYBACK_FLUSH} \<union> range PLAYBACK_FASTFORWARD \<union> range PLAYBACK_FASTBACKWARD
     \<union> range PLAYBACK_SLOWMOTION \<union> range PLAYBACK_SEEK \<union> range PLAYBACK_SWITCH_AUDIO \<union> range PLAYBACK_SWITCH_SUBTITLE"

text \<open>Rounds of the supervisor, each of which finds the context as others have left it.\<close>

fun sup_rounds :: "('x player_env \<times> 'x Context_t) list \<Rightarrow> supervisor \<Rightarrow> supervisor option" where
  "sup_rounds [] sv = Some sv"
| "sup_rounds ((env, ctx) # rs) sv = do { (sv, c) \<leftarrow> supervisor_step env sv ctx; sup_rounds rs sv }"

definition round_ok :: "'x player_env \<times> 'x Context_t \<Rightarrow> bool" where
  "round_ok = (\<lambda>(env, ctx). env_ok env \<and> env_returns env \<and> player_ok ctx \<and> connected ctx)"

text \<open>The end is seen only as a change from running to ended.\<close>

definition reports_ended :: "'x player_env \<times> 'x Context_t \<Rightarrow> bool" where
  "reports_ended = (\<lambda>(env, ctx). isPlaying (playback ctx) \<and> selectedContainer ctx
     \<and> (\<exists>r c. pe_ffmpeg env CONTAINER_STATUS ctx = Some (r, CO_int 0, c))
     \<and> (\<forall>c. \<exists>r v c'. pe_ffmpeg env CONTAINER_LAST_PTS c = Some (r, v, c')))"

text \<open>Asking the container for its status and last time stamp adds no track to a manager without output.\<close>

definition queries_ok :: "'x player_env \<Rightarrow> bool" where
  "queries_ok env \<longleftrightarrow>
     (\<forall>q \<in> {CONTAINER_STATUS, CONTAINER_LAST_PTS}. \<forall>ctx r v ctx'.
        pe_ffmpeg env q ctx = Some (r, v, ctx') \<longrightarrow> connected ctx \<longrightarrow> connected ctx')"

definition reports_running :: "'x player_env \<times> 'x Context_t \<Rightarrow> bool" where
  "reports_running = (\<lambda>(env, ctx). isPlaying (playback ctx) \<and> selectedContainer ctx
     \<and> (\<exists>r n c. pe_ffmpeg env CONTAINER_STATUS ctx = Some (r, CO_int n, c) \<and> n \<noteq> 0))"


text \<open>Devices that accept everything, and a container with one video and one audio track.\<close>

definition example_ffmpeg :: "ContainerCmd_t \<Rightarrow> unit Context_t \<Rightarrow> (int \<times> container_out \<times> unit Context_t) option" where
  "example_ffmpeg c ctx =
     (case c of
        CONTAINER_INIT s \<Rightarrow>
          (case (video_Command True (mgr_video ctx) (MANAGER_ADD (example_track\<lparr>tr_Encoding := Some ''V_MPEG2''\<rparr>)),
                 audio_Command True (mgr_audio ctx) (MANAGER_ADD (example_track\<lparr>tr_Encoding := Some ''A_AC3''\<rparr>))) of
             (Some (r, v, m), Some (r', v', m')) \<Rightarrow> Some (0, CO_none, ctx\<lparr>mgr_video := m, mgr_audio := m'\<rparr>)
           | _ \<Rightarrow> Some (-1, CO_none, ctx))
      | CONTAINER_STATUS \<Rightarrow> Some (0, CO_int 0, ctx)
      | _ \<Rightarrow> Some (0, CO_none, ctx))"

definition example_running :: "ContainerCmd_t \<Rightarrow> unit Context_t \<Rightarrow> (int \<times> container_out \<times> unit Context_t) option" where
  "example_running c ctx = (if c = CONTAINER_STATUS then Some (0, CO_int 1, ctx) else example_ffmpeg c ctx)"

definition example_env :: "unit player_env" where
  "example_env =
     \<lparr>pe_writer = \<lparr>we_device = (\<lambda>log fd bs. int (length bs)), we_fps = (\<lambda>r. r), we_junk = 0, we_junks = []\<rparr>,
      pe_malloc = True, pe_open = (\<lambda>log dev. if dev = VIDEODEV then 3 else 4), pe_ioctl = (\<lambda>log fd r. True),
      pe_pts = (\<lambda>log. 0), pe_frames = (\<lambda>log. 0), pe_junk = 0,
      pe_ffmpeg = example_ffmpeg, pe_srt = (\<lambda>c ctx. Some (0, CO_none, ctx)), pe_ssa = (\<lambda>c ctx. Some (0, CO_none, ctx)),
      pe_ass = (\<lambda>c ctx. Some (0, CO_none, ctx)), pe_subtitle = (\<lambda>c a ctx. Some (0, None, ctx)),
      pe_thread = True, pe_ended = (\<lambda>n. n = 18)\<rparr>"

definition example_start :: "unit Context_t" where
  "example_start =
     \<lparr>playback = PlaybackHandler, selectedContainer = False, out_audio = None, out_video = None, out_subtitle = None,
      mgr_audio = audio_init, mgr_video = video_init, mgr_subtitle = subtitle_init, dvb = linuxdvb_init,
      writers_st = writers_init, hasThreadStarted = False, others = ()\<rparr>"

definition example_added :: "string \<Rightarrow> nat \<Rightarrow> mgr_state" where
  "example_added e n =
     \<lparr>Tracks = Some (Some (example_track\<lparr>tr_Encoding := Some e\<rparr>) # replicate n None), TrackCount = 1, CurrentTrack = 0,
      is_playing = True\<rparr>"

definition example_log :: "dvb_event list" where
  "example_log =
     Dvb_Open VIDEODEV 3
     # map (Dvb_Ioctl 3) [VIDEO_CLEAR_BUFFER, VIDEO_SELECT_SOURCE 1, VIDEO_SET_STREAMTYPE 4, VIDEO_SET_SPEED 1000]
     @ Dvb_Open AUDIODEV 4
     # map (Dvb_Ioctl 4) [AUDIO_CLEAR_BUFFER, AUDIO_SELECT_SOURCE 1, AUDIO_SET_STREAMTYPE 4]"

text \<open>After the outputs were added and a file was opened, after the devices were opened, and playing.\<close>

definition example_file :: "unit Context_t" where
  "example_file =
     example_start\<lparr>playback := PlaybackHandler\<lparr>isFile := True, uri := ''file:///a.ts''\<rparr>, selectedContainer := True,
       out_audio := Some LinuxDvbOutput, out_video := Some LinuxDvbOutput, mgr_audio := example_added ''A_AC3'' 19,
       mgr_video := example_added ''V_MPEG2'' 3\<rparr>"

definition example_ready :: "unit Context_t" where
  "example_ready = example_file\<lparr>dvb := linuxdvb_init\<lparr>videofd := 3, audiofd := 4, dvb_log := example_log\<rparr>\<rparr>"

definition example_playing :: "unit Context_t" where
  "example_playing =
     example_ready\<lparr>playback := PlaybackHandler\<lparr>isFile := True, uri := ''file:///a.ts'', isPlaying := True, Speed := 1, AVSync := 1\<rparr>,
       dvb := (dvb example_ready)\<lparr>dvb_log := example_log
         @ [Dvb_Ioctl 4 (AUDIO_SET_AV_SYNC 1), Dvb_Ioctl 3 (VIDEO_SET_ENCODING 0), Dvb_Ioctl 3 VIDEO_PLAY,
            Dvb_Ioctl 4 (AUDIO_SET_ENCODING 6), Dvb_Ioctl 4 AUDIO_PLAY]\<rparr>,
       hasThreadStarted := True\<rparr>"

subsection \<open>What the devices are asked to do\<close>

lemma sent_trans: "sent a b es \<Longrightarrow> sent b c fs \<Longrightarrow> sent a c (es @ fs)"
  by (simp add: sent_def)

lemma dvb_calls_frame:
  "dvb_frame ctx ctx' \<Longrightarrow> sent ctx ctx' es \<Longrightarrow> dvb_calls ctx' vs as = dvb_calls ctx vs as"
  by (simp add: dvb_calls_def sent_def dvb_frame_def)

lemma reset_sends_nothing: "linuxdvb_reset env ctx = Some (r, ctx') \<Longrightarrow> dvb ctx' = dvb ctx"
  by (auto simp: linuxdvb_reset_def reset_writer_def Let_def bind_eq_Some_conv split: option.splits)

lemma dvb_op_sent:
  "LinuxDvbPause env ctx t = Some (r, ctx') \<Longrightarrow> sent ctx ctx'
     (if use_video t ctx then [Dvb_Ioctl (videofd (dvb ctx)) VIDEO_FREEZE]
      else if use_audio t ctx then [Dvb_Ioctl (audiofd (dvb ctx)) AUDIO_PAUSE] else [])"
  "sent ctx (snd (LinuxDvbContinue env ctx t))
     (if use_video t ctx then [Dvb_Ioctl (videofd (dvb ctx)) VIDEO_CONTINUE]
      else if use_audio t ctx then [Dvb_Ioctl (audiofd (dvb ctx)) AUDIO_CONTINUE] else [])"
  "LinuxDvbClear env ctx t = Some (r, ctx') \<Longrightarrow> sent ctx ctx'
     (if use_video t ctx then [Dvb_Ioctl (videofd (dvb ctx)) VIDEO_CLEAR_BUFFER]
      else if use_audio t ctx then [Dvb_Ioctl (audiofd (dvb ctx)) AUDIO_CLEAR_BUFFER] else [])"
  by (auto simp: sent_def LinuxDvbPause_def LinuxDvbContinue_def LinuxDvbClear_def use_video_def use_audio_def
      dvb_call_defs split: if_splits)

lemma LinuxDvbStop_sent:
  "LinuxDvbStop env ctx t = Some (r, ctx') \<Longrightarrow> sent ctx ctx'
     (if use_video t ctx
      then map (Dvb_Ioctl (videofd (dvb ctx))) [VIDEO_CLEAR_BUFFER, VIDEO_SET_SPEED DVB_SPEED_NORMAL_PLAY, VIDEO_STOP]
      else if use_audio t ctx
      then map (Dvb_Ioctl (audiofd (dvb ctx))) [AUDIO_CLEAR_BUFFER, AUDIO_SET_SPEED DVB_SPEED_NORMAL_PLAY, AUDIO_STOP] else [])"
  by (auto simp: sent_def LinuxDvbStop_def use_video_def use_audio_def dvb_call_defs
      simp del: ioctls.simps split: if_splits)

lemma sends_simple:
  "sends env OUTPUT_PAUSE [VIDEO_FREEZE] [AUDIO_PAUSE]"
  "sends env OUTPUT_CONTINUE [VIDEO_CONTINUE] [AUDIO_CONTINUE]"
  "sends env OUTPUT_CLEAR [VIDEO_CLEAR_BUFFER] [AUDIO_CLEAR_BUFFER]"
  by (auto simp: sends_def LinuxDvb_Command_def no_value_def use_video_def use_audio_def LinuxDvbContinue_def sent_def
      ioctl_def record_event_def case_prod_beta dest!: dvb_op_sent(1,3) split: if_splits)

lemma sends_stop:
  "sends env OUTPUT_STOP [VIDEO_CLEAR_BUFFER, VIDEO_SET_SPEED DVB_SPEED_NORMAL_PLAY, VIDEO_STOP]
     [AUDIO_CLEAR_BUFFER, AUDIO_SET_SPEED DVB_SPEED_NORMAL_PLAY, AUDIO_STOP]"
  by (auto simp: sends_def LinuxDvb_Command_def use_video_def use_audio_def bind_eq_Some_conv set_pts_def sent_def
      dest!: reset_sends_nothing LinuxDvbStop_sent)

lemma sendsD:
  "sends env c vs as \<Longrightarrow> LinuxDvb_Command env ctx c (Arg_string ''video'') = Some (r, v, ctx') \<Longrightarrow>
     sent ctx ctx' (if videofd (dvb ctx) \<noteq> -1 then map (Dvb_Ioctl (videofd (dvb ctx))) vs else [])"
  "sends env c vs as \<Longrightarrow> LinuxDvb_Command env ctx c (Arg_string ''audio'') = Some (r, v, ctx') \<Longrightarrow>
     sent ctx ctx' (if audiofd (dvb ctx) \<noteq> -1 then map (Dvb_Ioctl (audiofd (dvb ctx))) as else [])"
  unfolding sends_def by blast+

lemma both_outputs_sent:
  assumes s: "sends env c vs as" and r: "ready ctx" and run: "both_outputs env c ctx = Some (k, ctx')"
  shows "sent ctx ctx' (dvb_calls ctx vs as) \<and> dvb_frame ctx ctx'"
proof -
  obtain k1 c1 where v: "or_video env c (Arg_string ''video'') (cERR_OUTPUT_NO_ERROR, ctx) = Some (k1, c1)"
    and a: "or_audio env c (Arg_string ''audio'') (k1, c1) = Some (k, ctx')"
    using run by (auto simp: both_outputs_def bind_eq_Some_conv)
  have 1: "sent ctx c1 (dvb_calls ctx vs []) \<and> dvb_frame ctx c1"
  proof (cases "is_playing (mgr_video ctx)")
    case True
    then obtain r v where "LinuxDvb_Command env ctx c (Arg_string ''video'') = Some (r, v, c1)"
      using v ready_port(1) [OF r] by (auto simp: or_video_def call_output_def bind_eq_Some_conv)
    from sendsD(1) [OF s this] LinuxDvb_Command_frame [OF this] True show ?thesis by (simp add: dvb_calls_def)
  qed (use v in \<open>simp add: or_video_def dvb_calls_def sent_def\<close>)
  then have r1: "ready c1" using r ready_frame by blast
  have 2: "sent c1 ctx' (dvb_calls c1 [] as) \<and> dvb_frame c1 ctx'"
  proof (cases "is_playing (mgr_audio c1)")
    case True
    then obtain r v where "LinuxDvb_Command env c1 c (Arg_string ''audio'') = Some (r, v, ctx')"
      using a ready_port(2) [OF r1] by (auto simp: or_audio_def call_output_def bind_eq_Some_conv)
    from sendsD(2) [OF s this] LinuxDvb_Command_frame [OF this] True show ?thesis by (simp add: dvb_calls_def split: if_splits)
  qed (use a in \<open>simp add: or_audio_def dvb_calls_def sent_def\<close>)
  have "dvb_calls ctx vs [] @ dvb_calls ctx [] as = dvb_calls ctx vs as" by (simp add: dvb_calls_def)
  moreover have "dvb_calls c1 [] as = dvb_calls ctx [] as" using dvb_calls_frame 1 by blast
  ultimately show ?thesis using 1 2 sent_trans dvb_frame_trans by metis
qed

lemma output_clear_both: "output_clear env Arg_NULL ctx = both_outputs env OUTPUT_CLEAR ctx"
  by (simp add: output_clear_def both_outputs_def arg_first_def)

lemma output_cmd_sent:
  assumes "ready ctx"
  shows "output_cmd env OUTPUT_PAUSE Arg_NULL ctx = Some ctx' \<Longrightarrow> sent ctx ctx' (dvb_calls ctx [VIDEO_FREEZE] [AUDIO_PAUSE])"
    "output_cmd env OUTPUT_CONTINUE Arg_NULL ctx = Some ctx' \<Longrightarrow> sent ctx ctx' (dvb_calls ctx [VIDEO_CONTINUE] [AUDIO_CONTINUE])"
    "output_cmd env OUTPUT_CLEAR Arg_NULL ctx = Some ctx' \<Longrightarrow> sent ctx ctx' (dvb_calls ctx [VIDEO_CLEAR_BUFFER] [AUDIO_CLEAR_BUFFER])"
  by (auto simp: output_cmd_def Output_Command_def no_value_def bind_eq_Some_conv output_clear_both
      dest: both_outputs_sent [OF sends_simple(1) assms] both_outputs_sent [OF sends_simple(2) assms]
        both_outputs_sent [OF sends_simple(3) assms])

lemma wait_thread_value:
  "fst (wait_thread env (Suc n) ctx) = 0 \<longleftrightarrow> hasThreadStarted ctx \<and> (\<forall>k\<in>{1..n}. \<not> pe_ended env k)"
proof (induction n arbitrary: ctx)
  case (Suc n)
  have "{1..Suc n} = insert (Suc n) {1..n}" by auto
  with Suc [of "ctx\<lparr>hasThreadStarted := \<not> pe_ended env (Suc n)\<rparr>"] show ?case
    unfolding wait_thread.simps(2) [of env "Suc n"] by (simp del: wait_thread.simps)
qed simp

lemma wait_thread_left:
  "0 < n \<Longrightarrow> hasThreadStarted (snd (wait_thread env n ctx)) = (fst (wait_thread env n ctx) = 0)"
  by (induction env n ctx rule: wait_thread.induct) auto

lemma set_playback_sent [simp]:
  "sent ctx (set_playback f ctx') es = sent ctx ctx' es" "sent (set_playback f ctx) ctx' es = sent ctx ctx' es"
  "dvb_calls (set_playback f ctx) vs as = dvb_calls ctx vs as"
  by (simp_all add: sent_def dvb_calls_def)

lemma stopped_context:
  assumes r: "ready ctx" and playing: "isPlaying (playback ctx)" "selectedContainer ctx"
    and sub: "\<not> is_playing (mgr_subtitle ctx)"
    and container: "\<And>c. \<exists>k v x. pe_ffmpeg env CONTAINER_STOP c = Some (k, v, c\<lparr>others := x\<rparr>)"
  shows "\<exists>c. PlaybackStop env ctx = Some (after_wait env (cERR_PLAYBACK_NO_ERROR, c))
    \<and> playback c = stopped (playback ctx) \<and> hasThreadStarted c = hasThreadStarted ctx
    \<and> sent ctx c (dvb_calls ctx [VIDEO_CLEAR_BUFFER, VIDEO_SET_SPEED DVB_SPEED_NORMAL_PLAY, VIDEO_STOP]
        [AUDIO_CLEAR_BUFFER, AUDIO_SET_SPEED DVB_SPEED_NORMAL_PLAY, AUDIO_STOP])"
proof -
  let ?c = "set_playback stopped ctx"
  obtain k c1 where b: "both_outputs env OUTPUT_STOP ?c = Some (k, c1)"
    using both_outputs_returns [of ?c OUTPUT_STOP env] r by auto
  have s: "sent ctx c1 (dvb_calls ctx [VIDEO_CLEAR_BUFFER, VIDEO_SET_SPEED DVB_SPEED_NORMAL_PLAY, VIDEO_STOP]
        [AUDIO_CLEAR_BUFFER, AUDIO_SET_SPEED DVB_SPEED_NORMAL_PLAY, AUDIO_STOP])" and f: "dvb_frame ?c c1"
    using both_outputs_sent [OF sends_stop _ b] r by auto
  have o: "output_cmd env OUTPUT_STOP Arg_NULL ?c = Some c1"
    using b f sub by (simp add: output_cmd_def Output_Command_def no_value_def all_outputs_def or_subtitle_def dvb_frame_def)
  obtain k v x where "pe_ffmpeg env CONTAINER_STOP c1 = Some (k, v, c1\<lparr>others := x\<rparr>)" using container by blast
  then have "selected env CONTAINER_STOP c1 = Some (k, v, c1\<lparr>others := x\<rparr>)"
    using dvb_frame_simps(2) [OF f] playing by (simp add: selected_def)
  with o playing have "PlaybackStop env ctx = Some (after_wait env (cERR_PLAYBACK_NO_ERROR, c1\<lparr>others := x\<rparr>))"
    by (simp add: PlaybackStop_def)
  with s f show ?thesis
    by (intro exI [of _ "c1\<lparr>others := x\<rparr>"]) (auto simp: sent_def dvb_frame_def call_frame_def)
qed

subsection \<open>Which commands are refused\<close>

lemmas playback_error_codes = cERR_PLAYBACK_ERROR_def cERR_PLAYBACK_NO_ERROR_def

lemma refused_result:
  assumes ok: "player_ok ctx" and c: "refused ctx c"
  shows "Playback_Command env ctx c = Some (-1, PO_none, ctx)"
proof -
  have "isPaused (playback ctx) \<longrightarrow> isPlaying (playback ctx)" "\<not> isSeeking (playback ctx)"
    using ok by (auto simp: player_ok_def pb_ok_def)
  moreover have "set_playback (\<lambda>p. p\<lparr>isSeeking := False\<rparr>) ctx = ctx" if "\<not> isSeeking (playback ctx)"
    using that by (simp add: set_playback_def)
  ultimately show ?thesis
    using c
    by (cases c) (auto simp: refused_def Playback_Command_def plain_def playback_error_codes PlaybackPause_def PlaybackContinue_def
        PlaybackFastForward_def PlaybackFastBackward_def PlaybackSlowMotion_def PlaybackSeek_def PlaybackSwitchAudio_def
        PlaybackSwitchSubtitle_def cMaxSpeed_ff_def cMaxSpeed_fr_def Let_def)
qed

lemma reverse_accepted:
  assumes "ready ctx" and "Output_Command env ctx OUTPUT_REVERSE a = Some (k, v, ctx')"
  shows "k = 0"
  using assms ready_port [OF assms(1)]
  by (auto simp: Output_Command_def no_value_def both_outputs_def or_video_def or_audio_def call_output_def bind_eq_Some_conv
      LinuxDvb_Command_def LinuxDvbReverse_def cERR_OUTPUT_NO_ERROR_def cERR_LINUXDVB_NO_ERROR_def split: if_splits)

lemma fast_backward_accepted:
  assumes r: "ready ctx" and run: "PlaybackFastBackward env ctx n = Some (k, ctx')"
    and c: "\<not> refused ctx (PLAYBACK_FASTBACKWARD n)" and ok: "player_ok ctx"
  shows "k = 0"
proof -
  let ?c = "set_playback (backward_mode n) ctx"
  have "backward_possible ctx n"
    using c ok by (auto simp: refused_def backward_possible_def cMaxSpeed_fr_def player_ok_def pb_ok_def Let_def)
  from fast_backward_steps [OF run this] obtain c1 c2 j v c3 where
    s: "output_cmd env OUTPUT_AUDIOMUTE (Arg_string ''1'') ?c = Some c1"
      "output_cmd env OUTPUT_CLEAR Arg_NULL c1 = Some c2" "Output_Command env c2 OUTPUT_REVERSE Arg_NULL = Some (j, v, c3)"
      "k = (if j < 0 then cERR_PLAYBACK_ERROR else cERR_PLAYBACK_NO_ERROR)" by metis
  have "ready c1" using mute_returns [of ?c env "''1''"] s(1) r ready_frame ready_set_playback by fastforce
  then have "ready c2" using output_cmd_returns [of c1 OUTPUT_CLEAR env] s(2) ready_frame by (fastforce simp: av_commands_def)
  from reverse_accepted [OF this s(3)] s(4) show ?thesis by (simp add: playback_error_codes)
qed

lemma accepted_result:
  assumes ok: "player_ok ctx" and r: "ready ctx" and c: "c \<in> controls" "\<not> refused ctx c"
    and run: "Playback_Command env ctx c = Some (k, v, ctx')"
  shows "k = 0 \<and> v = PO_none"
proof (cases "\<exists>n. c = PLAYBACK_FASTBACKWARD n")
  case True
  then show ?thesis using fast_backward_accepted [OF r _ _ ok] c run by (auto simp: Playback_Command_def plain_def)
next
  case False
  then show ?thesis
    using c run ok
    by (cases c) (auto simp: controls_def refused_def Playback_Command_def plain_def playback_error_codes PlaybackPause_def PlaybackContinue_def
        PlaybackFastForward_def PlaybackSlowMotion_def PlaybackSeek_def PlaybackSwitchAudio_def
        PlaybackSwitchSubtitle_def cMaxSpeed_ff_def cMaxSpeed_fr_def Let_def bind_eq_Some_conv player_ok_def pb_ok_def split: if_splits)
qed

subsection \<open>The end of a stream\<close>

lemma round_ok_ready: "round_ok (env, ctx) \<Longrightarrow> ready ctx"
  by (simp add: round_ok_def ready_def player_ok_ctx_ok)

lemma sync_round:
  assumes "round_ok (env, ctx)" and "sv_pc sv = Sup_Sync"
  shows "\<exists>sv' c. supervisor_step env sv ctx = Some (sv', c) \<and> sv_count sv' = sv_count sv + 1
    \<and> (sv_pc sv' = Sup_Exit \<or> sv_pc sv' = Sup_Sync \<and> sv_count sv' \<noteq> 200)"
  using query_returns(1) [OF round_ok_ready [OF assms(1)], of env] assms
  by (auto simp: round_ok_def supervisor_step_def sup_sync_def Let_def split: if_splits)

lemma sync_rounds_end:
  assumes "\<forall>x \<in> set rs. round_ok x" and "sv_pc sv = Sup_Sync" and "sv_count sv < 200" and "length rs = 200 - sv_count sv"
  shows "\<exists>k sv'. 0 < k \<and> k \<le> length rs \<and> sup_rounds (take k rs) sv = Some sv' \<and> sv_pc sv' = Sup_Exit"
  using assms
proof (induction rs arbitrary: sv)
  case Nil
  then show ?case by simp
next
  case (Cons x rs)
  obtain env ctx where x: "x = (env, ctx)" by (cases x)
  obtain sv1 c where s: "supervisor_step env sv ctx = Some (sv1, c)" "sv_count sv1 = sv_count sv + 1"
    and pc: "sv_pc sv1 = Sup_Exit \<or> sv_pc sv1 = Sup_Sync \<and> sv_count sv1 \<noteq> 200"
    using sync_round [of env ctx sv] Cons.prems x by auto
  show ?case
  proof (cases "sv_pc sv1 = Sup_Exit")
    case True
    with s x show ?thesis by (intro exI [of _ 1]) simp
  next
    case False
    have "length rs = 200 - sv_count sv1" "sv_count sv1 < 200" "sv_pc sv1 = Sup_Sync"
      using pc False s(2) Cons.prems by auto
    then obtain k sv' where "0 < k" "k \<le> length rs" "sup_rounds (take k rs) sv1 = Some sv'" "sv_pc sv' = Sup_Exit"
      using Cons.IH [of sv1] Cons.prems(1) by auto
    with s x show ?thesis by (intro exI [of _ "Suc k"]) simp
  qed
qed

lemma supervisor_exits:
  assumes r: "round_ok (env, ctx)" and pc: "sv_pc sv = Sup_Exit"
  shows "\<exists>sv' ctx'. supervisor_step env sv ctx = Some (sv', ctx') \<and> sv_pc sv' = Sup_Done
    \<and> \<not> isPlaying (playback ctx') \<and> \<not> hasThreadStarted ctx'"
proof -
  let ?c = "ctx\<lparr>hasThreadStarted := False\<rparr>"
  have env: "env_ok env" "env_returns env" and ok: "player_ok ctx" using r by (auto simp: round_ok_def)
  have rc: "ready ?c" and sel: "isPlaying (playback ?c) \<longrightarrow> selectedContainer ?c"
    using round_ok_ready [OF r] ok by (auto simp: ready_def connected_def player_ok_ctx_ok)
  obtain k c' where t: "PlaybackTerminate env ?c = Some (k, c')" using terminate_returns [OF rc sel env(2)] by blast
  have "\<not> isPlaying (playback c') \<and> \<not> hasThreadStarted c'"
  proof (cases "isPlaying (playback ctx)")
    case True
    then obtain c1 j v c2 where s: "output_cmd env OUTPUT_FLUSH Arg_NULL ?c = Some c1"
        "selected env CONTAINER_STOP c1 = Some (j, v, c2)" "(k, c') = after_wait env (j, set_playback stopped c2)"
      using t by (auto simp: PlaybackTerminate_def bind_eq_Some_conv)
    have "\<not> hasThreadStarted c2"
      using frame_simps(4) [OF output_cmd_frame [OF env(1) s(1)]] frame_simps(4) [OF selected_frame [OF env(1) s(2)]] by simp
    with s(3) show ?thesis by (simp add: after_wait_def pb_ok_updates numeral_eq_Suc)
  next
    case False
    with t show ?thesis by (auto simp: PlaybackTerminate_def after_wait_def numeral_eq_Suc)
  qed
  with t pc show ?thesis by (simp add: supervisor_step_def sup_exit_def)
qed

lemma sup_rounds_append: "sup_rounds (rs @ ts) sv = do { sv \<leftarrow> sup_rounds rs sv; sup_rounds ts sv }"
proof (induction rs arbitrary: sv)
  case (Cons x rs)
  then show ?case by (cases x, cases "supervisor_step (fst x) sv (snd x)") auto
qed simp

lemma polled:
  assumes r: "round_ok (env, ctx)" and pc: "sv_pc sv = Sup_Poll" and p: "isPlaying (playback ctx)" "selectedContainer ctx"
    and st: "pe_ffmpeg env CONTAINER_STATUS ctx = Some (k, CO_int n, c)" and q: "queries_ok env"
  shows "\<exists>sv' c'. supervisor_step env sv ctx = Some (sv', c') \<and> sv_count sv' = sv_count sv
    \<and> (if n = 0 \<and> sv_lastStatus sv \<noteq> 0 then sv_pc sv' = Sup_Sync
       else sv_pc sv' = Sup_Poll \<and> sv_status sv' = n \<and> sv_lastStatus sv' = n)"
proof -
  have env: "env_ok env" "env_returns env" using r by (auto simp: round_ok_def)
  have f: "call_frame ctx c" using env(1) st by (auto simp: env_ok_def container_ok_def)
  obtain k' v c1 where l: "pe_ffmpeg env CONTAINER_LAST_PTS c = Some (k', v, c1)" using env_returns_calls(1) [OF env(2)] by blast
  have f1: "call_frame c c1" using env(1) l by (auto simp: env_ok_def container_ok_def)
  have "connected c1" using q st l r by (force simp: queries_ok_def round_ok_def)
  moreover have "ctx_ok c1" using round_ok_ready [OF r] frame_simps(3) [OF f] frame_simps(3) [OF f1] by (simp add: ready_def)
  ultimately have "ready c1" by (simp add: ready_def)
  then obtain c2 where o: "output_cmd env OUTPUT_FLUSH Arg_NULL c1 = Some c2"
    using output_cmd_returns [of c1 OUTPUT_FLUSH env] by (auto simp: av_commands_def)
  have "selectedContainer c" using f p by (simp add: call_frame_def)
  with pc p st l o show ?thesis by (auto simp: supervisor_step_def sup_poll_def)
qed

lemma running_rounds:
  "\<forall>x \<in> set rounds. round_ok x \<and> queries_ok (fst x) \<and> reports_running x \<Longrightarrow> sv_pc sv = Sup_Poll \<Longrightarrow>
   \<exists>sv'. sup_rounds rounds sv = Some sv' \<and> sv_pc sv' = Sup_Poll \<and> sv_count sv' = sv_count sv \<and>
     (rounds \<noteq> [] \<longrightarrow> sv_lastStatus sv' \<noteq> 0)"
proof (induction rounds rule: rev_induct)
  case (snoc x rs)
  obtain env ctx where x: "x = (env, ctx)" by (cases x)
  obtain sv1 where s1: "sup_rounds rs sv = Some sv1" "sv_pc sv1 = Sup_Poll" "sv_count sv1 = sv_count sv" using snoc by auto
  obtain k n c where c: "pe_ffmpeg env CONTAINER_STATUS ctx = Some (k, CO_int n, c)" "n \<noteq> 0"
    and p: "isPlaying (playback ctx)" "selectedContainer ctx"
    using snoc.prems(1) x by (auto simp: reports_running_def)
  with polled [OF _ s1(2) p c(1)] snoc.prems(1) x s1 show ?case by (auto simp: sup_rounds_append)
qed simp

lemma missed_round:
  assumes "reports_ended (env, ctx)" and "sv_pc sv = Sup_Poll" "sv_status sv = 0" "sv_lastStatus sv = 0"
  shows "\<exists>sv' c. supervisor_step env sv ctx = Some (sv', c) \<and> sv_pc sv' = Sup_Poll \<and> sv_count sv' = sv_count sv \<and> sv_status sv' = 0 \<and> sv_lastStatus sv' = 0"
proof -
  obtain r c where c: "pe_ffmpeg env CONTAINER_STATUS ctx = Some (r, CO_int 0, c)" using assms(1) by (auto simp: reports_ended_def)
  obtain r' v c' where "pe_ffmpeg env CONTAINER_LAST_PTS c = Some (r', v, c')" using assms(1) by (fastforce simp: reports_ended_def)
  with c assms show ?thesis
    by (cases "selectedContainer c") (auto simp: reports_ended_def supervisor_step_def sup_poll_def)
qed

lemma missed_rounds:
  "\<forall>x \<in> set rounds. reports_ended x \<Longrightarrow> sv_pc sv = Sup_Poll \<Longrightarrow> sv_status sv = 0 \<Longrightarrow> sv_lastStatus sv = 0 \<Longrightarrow>
   \<exists>sv'. sup_rounds rounds sv = Some sv' \<and> sv_pc sv' = Sup_Poll \<and> sv_count sv' = sv_count sv"
proof (induction rounds arbitrary: sv)
  case (Cons x rs)
  obtain env ctx where x: "x = (env, ctx)" by (cases x)
  with Cons.prems obtain sv1 c where "supervisor_step env sv ctx = Some (sv1, c)" "sv_pc sv1 = Sup_Poll" "sv_count sv1 = sv_count sv" "sv_status sv1 = 0"
      "sv_lastStatus sv1 = 0"
    using missed_round [of env ctx sv] by auto
  with Cons.IH [of sv1] Cons.prems x show ?case by simp
qed simp

subsection \<open>From the container to the decoder\<close>




subsection \<open>A running player\<close>

lemma example_added_playing [simp]: "is_playing (example_added e n)"
  by (simp add: example_added_def)

lemma example_env_ok: "env_ok example_env" "env_returns example_env"
proof -
  have "call_frame ctx c" if "example_ffmpeg k ctx = Some (r, v, c)" for k ctx r v c
    using that manager_rep_keeps
    by (auto simp: example_ffmpeg_def call_frame_def mgrs_ok_def split: ContainerCmd_t.splits option.splits) blast+
  then show "env_ok example_env"
    by (auto simp: env_ok_def container_ok_def example_env_def)
  show "env_returns example_env"
    by (simp add: env_returns_def example_env_def example_ffmpeg_def split: ContainerCmd_t.split option.split)
qed

lemma example_running_ok: "env_ok (example_env\<lparr>pe_ffmpeg := example_running\<rparr>)" "env_returns (example_env\<lparr>pe_ffmpeg := example_running\<rparr>)"
  using example_env_ok by (auto simp: env_ok_def env_returns_def container_ok_def example_env_def example_running_def split: if_splits)

lemma example_adds:
  "video_Command True video_init (MANAGER_ADD (example_track\<lparr>tr_Encoding := Some ''V_MPEG2''\<rparr>)) =
     Some (0, Out_none, example_added ''V_MPEG2'' 3)"
  "audio_Command True audio_init (MANAGER_ADD (example_track\<lparr>tr_Encoding := Some ''A_AC3''\<rparr>)) =
     Some (0, Out_none, example_added ''A_AC3'' 19)"
  by (simp_all add: video_Command_def video_ManagerAdd_def video_init_def video_TRACKWRAP_def audio_Command_def audio_ManagerAdd_def
      audio_init_def audio_TRACKWRAP_def array_put_def example_added_def copyTrack_def example_track_def numeral_eq_Suc)

lemma example_outputs:
  "Output_Command env ctx OUTPUT_ADD (Arg_string ''video'') = Some (0, None, ctx\<lparr>out_video := Some LinuxDvbOutput\<rparr>)"
  "Output_Command env ctx OUTPUT_ADD (Arg_string ''audio'') = Some (0, None, ctx\<lparr>out_audio := Some LinuxDvbOutput\<rparr>)"
  by (simp_all add: Output_Command_def OutputAdd_def AvailableOutput_def set_port_def cERR_OUTPUT_NO_ERROR_def)

lemma example_open:
  "Playback_Command example_env (example_start\<lparr>out_video := Some LinuxDvbOutput, out_audio := Some LinuxDvbOutput\<rparr>)
     (PLAYBACK_OPEN ''file:///a.ts'') = Some (0, PO_none, example_file)"
  by (simp add: Playback_Command_def plain_def PlaybackOpen_def has_prefix_def set_playback_def open_file_def getExtension_def
      open_container_def selectContainer_def FFMPEG_Capabilities_def strcasecmp_eq_def lower_char_def open_subtitles_def
      example_env_def example_ffmpeg_def example_file_def example_start_def PlaybackHandler_def example_adds
      playback_error_codes numeral_eq_Suc)

lemma example_devices: "Output_Command example_env example_file OUTPUT_OPEN Arg_NULL = Some (0, None, example_ready)"
  by (simp add: Output_Command_def all_outputs_def both_outputs_def or_video_def or_audio_def or_subtitle_def call_output_def
      LinuxDvb_Command_def LinuxDvbOpen_def no_value_def ioctls_eq record_event_def linuxdvb_init_def example_env_def
      example_ready_def example_file_def example_start_def example_added_def example_log_def subtitle_init_def
      cERR_OUTPUT_NO_ERROR_def cERR_LINUXDVB_NO_ERROR_def AUDIODEV_def VIDEODEV_def VIDEO_SOURCE_MEMORY_def AUDIO_SOURCE_MEMORY_def
      STREAM_TYPE_PROGRAM_def DVB_SPEED_NORMAL_PLAY_def del: ioctls.simps)

lemma example_encodings:
  "mgr_video ctx = example_added ''V_MPEG2'' 3 \<Longrightarrow> video_encoding example_env ctx = Some ''V_MPEG2''"
  "mgr_audio ctx = example_added ''A_AC3'' 19 \<Longrightarrow> audio_encoding example_env ctx = Some ''A_AC3''"
  by (simp_all add: video_encoding_def audio_encoding_def video_Command_def audio_Command_def example_added_def array_get_def
      example_env_def)

lemma example_dvb: "video_dvb ''V_MPEG2'' = 0" "audio_dvb ''A_AC3'' = 6"
  by (simp_all add: video_dvb_def audio_dvb_def getWriter_def AvailableWriter_def caps_def VIDEO_ENCODING_AUTO_def
      AUDIO_ENCODING_AC3_def)

lemma ioctls_accepted:
  "ioctls example_env fd rs ctx = (replicate (length rs) True,
     ctx\<lparr>dvb := (dvb ctx)\<lparr>dvb_log := dvb_log (dvb ctx) @ map (Dvb_Ioctl fd) rs\<rparr>\<rparr>)"
proof -
  have "fst (ioctls example_env fd rs ctx) = replicate (length rs) True"
    by (induction rs arbitrary: ctx) (simp_all add: ioctl_def example_env_def Let_def case_prod_beta)
  then show ?thesis by (metis ioctls_eq prod.collapse)
qed

lemma example_ready_eqs:
  "playback example_ready = PlaybackHandler\<lparr>isFile := True, uri := ''file:///a.ts''\<rparr>" "selectedContainer example_ready"
  "out_audio example_ready = Some LinuxDvbOutput" "out_video example_ready = Some LinuxDvbOutput"
  "mgr_audio example_ready = example_added ''A_AC3'' 19" "mgr_video example_ready = example_added ''V_MPEG2'' 3"
  "is_playing (mgr_subtitle example_ready) = False" "videofd (dvb example_ready) = 3" "audiofd (dvb example_ready) = 4"
  "LinuxDVBmutex (dvb example_ready) = False" "hasThreadStarted example_ready = False" "dvb_log (dvb example_ready) = example_log"
  "sCURRENT_PTS (dvb example_ready) = 0"
  by (simp_all add: example_ready_def example_file_def example_start_def example_added_def subtitle_init_def linuxdvb_init_def)

lemma example_play: "Playback_Command example_env example_ready PLAYBACK_PLAY = Some (0, PO_none, example_playing)"
  by (simp add: Playback_Command_def plain_def PlaybackPlay_def output_cmd_def set_playback_def Output_Command_def
      output_play_def or_video_def or_audio_def or_subtitle_def call_output_def
      LinuxDvb_Command_def LinuxDvbAVSync_def LinuxDvbPlay_def no_value_def use_video_def use_audio_def set_pts_def
      getLinuxDVBMutex_def releaseLinuxDVBMutex_def ioctl_def record_event_def example_encodings example_dvb
      ioctls_accepted err_unless_def selected_def example_ready_eqs
      cERR_OUTPUT_NO_ERROR_def cERR_LINUXDVB_NO_ERROR_def playback_error_codes del: ioctls.simps)
    (simp add: Let_def example_env_def example_ffmpeg_def example_playing_def example_ready_def example_file_def
      example_start_def PlaybackHandler_def linuxdvb_init_def)

lemma example_reach: "player_reach example_playing"
proof -
  have "player_reach example_start" by (rule player_reach.start) (simp add: player_init_def example_start_def)
  then have "player_reach (example_start\<lparr>out_video := Some LinuxDvbOutput, out_audio := Some LinuxDvbOutput\<rparr>)"
    using example_env_ok(1) example_outputs player_reach.output_command by metis
  then have "player_reach example_file" by (rule player_reach.command [OF _ example_env_ok(1) example_open])
  then have "player_reach example_ready" by (rule player_reach.output_command [OF _ example_env_ok(1) example_devices])
  then show ?thesis by (rule player_reach.command [OF _ example_env_ok(1) example_play])
qed

lemma example_playing_eqs:
  "playback example_playing = PlaybackHandler\<lparr>isFile := True, uri := ''file:///a.ts'', isPlaying := True, Speed := 1, AVSync := 1\<rparr>"
  "is_playing (mgr_video example_playing)" "is_playing (mgr_audio example_playing)" "\<not> is_playing (mgr_subtitle example_playing)"
  "mgr_audio example_playing = example_added ''A_AC3'' 19" "writers_st example_playing = writers_init"
  "videofd (dvb example_playing) = 3" "audiofd (dvb example_playing) = 4" "hasThreadStarted example_playing"
  "out_video example_playing = Some LinuxDvbOutput" "out_audio example_playing = Some LinuxDvbOutput"
  "selectedContainer example_playing"
  by (simp_all add: example_playing_def example_ready_def example_file_def example_start_def example_added_def subtitle_init_def)

lemma example_connected: "connected example_playing"
  by (simp add: connected_def example_playing_eqs)

lemma example_flags:
  "isPlaying (playback example_playing)" "\<not> isPaused (playback example_playing)" "SlowMotion (playback example_playing) = 0"
  by (simp_all add: example_playing_eqs PlaybackHandler_def)

subsection \<open>Properties\<close>

text \<open>
  Claim C11. The state of the player is consistent after every sequence of playback and output commands, frames written and
  rounds of supervisor threads: it is paused or in slow motion only while it plays, never winds in both directions, keeps its
  speed within the limits, leaves no seek and no start half done, has a container while it plays, and keeps the track
  managers well formed; and the mutex of the decoder output is free again, so that the next command cannot block on it.
\<close>

theorem player_invariant:
  assumes "player_reach ctx"
  shows "(isPaused (playback ctx) \<longrightarrow> isPlaying (playback ctx))
    \<and> (SlowMotion (playback ctx) \<noteq> 0 \<longrightarrow> isPlaying (playback ctx)) \<and> SlowMotion (playback ctx) \<in> {0, 2, 4, 8}
    \<and> \<not> (isForwarding (playback ctx) \<and> BackWard (playback ctx) \<noteq> 0)
    \<and> -320 \<le> Speed (playback ctx) \<and> Speed (playback ctx) \<le> 128
    \<and> \<not> isSeeking (playback ctx) \<and> \<not> isCreationPhase (playback ctx)
    \<and> (isPlaying (playback ctx) \<longrightarrow> selectedContainer ctx)
    \<and> \<not> LinuxDVBmutex (dvb ctx) \<and> mgrs_ok ctx"
  using player_reach_ok [OF assms] by (simp add: player_ok_def pb_ok_def cMaxSpeed_fr_def cMaxSpeed_ff_def)

theorem player_invariant_witness:
  "isPlaying (playback example_playing) \<and> selectedContainer example_playing \<and> \<not> LinuxDVBmutex (dvb example_playing)"
  using player_invariant [OF example_reach] example_flags by simp

text \<open>
  Claim C12. Which commands return: in every reachable state in which each manager with tracks has its output, every
  playback command returns, whatever its argument, if the containers and the subtitle output do, and leads to
  a reachable state again, with exactly two exceptions, which run into undefined behaviour while nothing plays: playing before a
  container was selected, when the outputs accept it, and opening an UPnP name that ends behind \<open>ext=\<close>. So no other command follows
  NULL or locks the mutex of the decoder twice.
\<close>

theorem player_commands_return:
  assumes "player_reach ctx" and "connected ctx" and "env_ok env" and "env_returns env"
  shows "if undefined_call env ctx c then Playback_Command env ctx c = None
    else \<exists>r v ctx'. Playback_Command env ctx c = Some (r, v, ctx') \<and> player_reach ctx'"
  using Playback_Command_outcome [OF player_reach_ok [OF assms(1)] assms(2-4), of c] player_reach.command [OF assms(1,3)]
  by (auto split: if_splits)

theorem player_commands_return_witness:
  "(\<exists>r v ctx'. Playback_Command example_env example_playing PLAYBACK_TERM = Some (r, v, ctx') \<and> player_reach ctx')
   \<and> Playback_Command example_env example_start (PLAYBACK_OPEN ''upnp://a?ext='') = None"
proof -
  have start: "player_reach example_start" by (rule player_reach.start) (simp add: player_init_def example_start_def)
  have con: "connected example_start" by (simp add: connected_def example_start_def video_init_def audio_init_def subtitle_init_def)
  have "undefined_call example_env example_start (PLAYBACK_OPEN ''upnp://a?ext='')" by code_simp
  then show ?thesis
    using player_commands_return [OF example_reach example_connected example_env_ok, of PLAYBACK_TERM]
      player_commands_return [OF start con example_env_ok, of "PLAYBACK_OPEN ''upnp://a?ext=''"]
    by (simp add: undefined_call_def)
qed

text \<open>
  Claim C14. Stopping: the requests made are exactly clear, normal speed and stop on each decoder that is open and in use, video first,
  all trick modes end, and the value is an error exactly if the supervisor thread runs and has not ended
  after the nineteen times it is waited for.
\<close>

theorem player_stop:
  assumes "player_reach ctx" and "connected ctx" and playing: "isPlaying (playback ctx)"
    and sub: "\<not> is_playing (mgr_subtitle ctx)"
    and container: "\<And>c. \<exists>k v x. pe_ffmpeg env CONTAINER_STOP c = Some (k, v, c\<lparr>others := x\<rparr>)"
  shows "\<exists>r ctx'. Playback_Command env ctx PLAYBACK_STOP = Some (r, PO_none, ctx')
    \<and> dvb_log (dvb ctx') = dvb_log (dvb ctx)
        @ dvb_calls ctx [VIDEO_CLEAR_BUFFER, VIDEO_SET_SPEED 1000, VIDEO_STOP] [AUDIO_CLEAR_BUFFER, AUDIO_SET_SPEED 1000, AUDIO_STOP]
    \<and> playback ctx' = stopped (playback ctx)
    \<and> r = (if hasThreadStarted ctx \<and> (\<forall>n\<in>{1..19}. \<not> pe_ended env n) then -1 else 0)
    \<and> hasThreadStarted ctx' = (r = -1)"
proof -
  have ok: "player_ok ctx" using assms(1) by (rule player_reach_ok)
  then have r: "ready ctx" and "selectedContainer ctx"
    using assms(2) playing by (auto simp: player_ok_ctx_ok ready_def)
  then obtain c where c: "PlaybackStop env ctx = Some (after_wait env (cERR_PLAYBACK_NO_ERROR, c))"
      "playback c = stopped (playback ctx)" "hasThreadStarted c = hasThreadStarted ctx"
      "sent ctx c (dvb_calls ctx [VIDEO_CLEAR_BUFFER, VIDEO_SET_SPEED DVB_SPEED_NORMAL_PLAY, VIDEO_STOP]
        [AUDIO_CLEAR_BUFFER, AUDIO_SET_SPEED DVB_SPEED_NORMAL_PLAY, AUDIO_STOP])"
    using stopped_context [OF _ playing _ sub container] by blast
  obtain k d where w: "wait_thread env 20 c = (k, d)" by (cases "wait_thread env 20 c")
  obtain b where d: "d = c\<lparr>hasThreadStarted := b\<rparr>" using wait_thread_frame [of env 20 c] w by auto
  have k: "k = 0 \<longleftrightarrow> hasThreadStarted ctx \<and> (\<forall>n\<in>{1..19}. \<not> pe_ended env n)"
    using wait_thread_value [of env 19 c] w c(3) by simp
  have b: "b = (k = 0)"
    using wait_thread_left [of 20 env c] w d by simp
  show ?thesis
    using c w d k b
    by (intro exI [of _ "if k = 0 then -1 else 0"] exI [of _ d])
      (simp add: Playback_Command_def plain_def after_wait_def sent_def DVB_SPEED_NORMAL_PLAY_def
        cERR_PLAYBACK_ERROR_def cERR_PLAYBACK_NO_ERROR_def)
qed

theorem player_stop_witness:
  "\<exists>ctx'. Playback_Command example_env example_playing PLAYBACK_STOP = Some (0, PO_none, ctx')
    \<and> dvb_log (dvb ctx') = dvb_log (dvb example_playing)
        @ map (Dvb_Ioctl 3) [VIDEO_CLEAR_BUFFER, VIDEO_SET_SPEED 1000, VIDEO_STOP]
        @ map (Dvb_Ioctl 4) [AUDIO_CLEAR_BUFFER, AUDIO_SET_SPEED 1000, AUDIO_STOP]"
proof -
  have "\<exists>k v x. pe_ffmpeg example_env CONTAINER_STOP c = Some (k, v, c\<lparr>others := x\<rparr>)" for c
    by (auto simp: example_env_def example_ffmpeg_def intro: exI [of _ "()"])
  from player_stop [OF example_reach example_connected example_flags(1) example_playing_eqs(4) this]
  obtain r ctx' where "Playback_Command example_env example_playing PLAYBACK_STOP = Some (r, PO_none, ctx')"
    "dvb_log (dvb ctx') = dvb_log (dvb example_playing) @ dvb_calls example_playing
        [VIDEO_CLEAR_BUFFER, VIDEO_SET_SPEED 1000, VIDEO_STOP] [AUDIO_CLEAR_BUFFER, AUDIO_SET_SPEED 1000, AUDIO_STOP]"
    "r = (if hasThreadStarted example_playing \<and> (\<forall>n\<in>{1..19}. \<not> pe_ended example_env n) then -1 else 0)"
    by blast
  moreover have "\<exists>n\<in>{1..19}. pe_ended example_env n" by (rule bexI [of _ 18]) (simp_all add: example_env_def)
  ultimately show ?thesis by (auto simp: dvb_calls_def example_playing_eqs)
qed

text \<open>
  Claim C40. Pausing and going on: both succeed, the devices are frozen and continued by one request each (after the
  buffers were cleared, if the player was in slow motion), and afterwards the player is as before, at normal speed.
\<close>

theorem player_pause_continue:
  assumes "player_reach ctx" and "connected ctx" and p: "isPlaying (playback ctx)" "\<not> isPaused (playback ctx)"
  shows "\<exists>c1 c2. Playback_Command env ctx PLAYBACK_PAUSE = Some (0, PO_none, c1)
    \<and> Playback_Command env c1 PLAYBACK_CONTINUE = Some (0, PO_none, c2)
    \<and> dvb_log (dvb c1) = dvb_log (dvb ctx)
        @ (if SlowMotion (playback ctx) \<noteq> 0 then dvb_calls ctx [VIDEO_CLEAR_BUFFER] [AUDIO_CLEAR_BUFFER] else [])
        @ dvb_calls ctx [VIDEO_FREEZE] [AUDIO_PAUSE]
    \<and> dvb_log (dvb c2) = dvb_log (dvb c1) @ dvb_calls ctx [VIDEO_CONTINUE] [AUDIO_CONTINUE]
    \<and> playback c1 = normal_speed True (playback ctx) \<and> playback c2 = normal_speed False (playback ctx)"
proof -
  have r: "ready ctx" using player_reach_ok [OF assms(1)] assms(2) by (simp add: player_ok_ctx_ok ready_def)
  let ?e = "if SlowMotion (playback ctx) \<noteq> 0 then dvb_calls ctx [VIDEO_CLEAR_BUFFER] [AUDIO_CLEAR_BUFFER] else []"
  obtain a where a: "(if SlowMotion (playback ctx) \<noteq> 0 then output_cmd env OUTPUT_CLEAR Arg_NULL ctx else Some ctx) = Some a"
      "sent ctx a ?e" "dvb_frame ctx a"
    using output_cmd_returns [OF r, of OUTPUT_CLEAR env] output_cmd_sent(3) [OF r, of env]
    by (cases "SlowMotion (playback ctx) = 0") (auto simp: av_commands_def sent_def)
  have ra: "ready a" using ready_frame [OF a(3) r] .
  obtain b where b: "output_cmd env OUTPUT_PAUSE Arg_NULL a = Some b" "dvb_frame a b"
    using output_cmd_returns [OF ra, of OUTPUT_PAUSE env] by (auto simp: av_commands_def)
  have sb: "sent a b (dvb_calls ctx [VIDEO_FREEZE] [AUDIO_PAUSE])"
    using output_cmd_sent(1) [OF ra b(1)] dvb_calls_frame [OF a(3,2)] by simp
  let ?b = "set_playback (normal_speed True) b"
  have rb: "ready ?b" using ready_frame [OF b(2) ra] by simp
  obtain c where c: "output_cmd env OUTPUT_CONTINUE Arg_NULL ?b = Some c" "dvb_frame ?b c"
    using output_cmd_returns [OF rb, of OUTPUT_CONTINUE env] by (auto simp: av_commands_def)
  have fb: "dvb_frame ctx b" "sent ctx b (?e @ dvb_calls ctx [VIDEO_FREEZE] [AUDIO_PAUSE])"
    using a b sb by (auto intro: dvb_frame_trans sent_trans)
  have sc: "sent b c (dvb_calls ctx [VIDEO_CONTINUE] [AUDIO_CONTINUE])"
    using output_cmd_sent(2) [OF rb c(1)] dvb_calls_frame [OF fb] by simp
  have pb: "playback b = playback ctx" "playback c = normal_speed True (playback b)"
    using dvb_frame_simps(1) fb(1) c(2) by force+
  have 1: "PlaybackPause env ctx = Some (cERR_PLAYBACK_NO_ERROR, ?b)"
    using p a(1) b(1) by (simp add: PlaybackPause_def split del: if_split)
  have 2: "PlaybackContinue env ?b = Some (cERR_PLAYBACK_NO_ERROR, set_playback (normal_speed False) c)"
    using p c(1) pb by (simp add: PlaybackContinue_def normal_speed_def [of True])
  show ?thesis
    using 1 2 fb(2) sc pb
    by (intro exI [of _ ?b] exI [of _ "set_playback (normal_speed False) c"])
      (simp add: Playback_Command_def plain_def sent_def cERR_PLAYBACK_NO_ERROR_def normal_speed_def)
qed

theorem player_pause_continue_witness:
  "\<exists>c1 c2. Playback_Command example_env example_playing PLAYBACK_PAUSE = Some (0, PO_none, c1)
    \<and> Playback_Command example_env c1 PLAYBACK_CONTINUE = Some (0, PO_none, c2)
    \<and> dvb_log (dvb c2) = dvb_log (dvb example_playing)
        @ [Dvb_Ioctl 3 VIDEO_FREEZE, Dvb_Ioctl 4 AUDIO_PAUSE, Dvb_Ioctl 3 VIDEO_CONTINUE, Dvb_Ioctl 4 AUDIO_CONTINUE]"
  using player_pause_continue [OF example_reach example_connected example_flags(1,2), of example_env]
  by (auto simp: dvb_calls_def example_playing_eqs PlaybackHandler_def)

text \<open>
  Claim C15. Which commands are refused: pause, continue, the trick modes, seeking and track switching return \<open>-1\<close> exactly in the
  states given by \<open>refused\<close> and 0 in all others, whatever the decoders answer, and a refused command changes nothing. Winding is
  not refused while the player is stopped.
\<close>

theorem player_control:
  assumes "player_reach ctx" and "connected ctx" and "env_ok env" and "env_returns env" and "c \<in> controls"
  shows "\<exists>ctx'. Playback_Command env ctx c = Some (if refused ctx c then -1 else 0, PO_none, ctx')
    \<and> (refused ctx c \<longrightarrow> ctx' = ctx)"
proof -
  have ok: "player_ok ctx" using assms(1) by (rule player_reach_ok)
  then have r: "ready ctx" using assms(2) by (simp add: player_ok_ctx_ok ready_def)
  have "\<not> undefined_call env ctx c" using assms(5) by (auto simp: undefined_call_def controls_def)
  then obtain k v ctx' where run: "Playback_Command env ctx c = Some (k, v, ctx')"
    using Playback_Command_outcome [OF ok assms(2-4), of c] by auto
  show ?thesis
    using refused_result [OF ok, of c env] accepted_result [OF ok r assms(5) _ run] run by (cases "refused ctx c") auto
qed

theorem player_control_witness:
  "\<exists>ctx'. Playback_Command example_env example_playing (PLAYBACK_FASTFORWARD 129) = Some (-1, PO_none, ctx') \<and> ctx' = example_playing"
  using player_control [OF example_reach example_connected example_env_ok, of "PLAYBACK_FASTFORWARD 129"]
  by (auto simp: controls_def refused_def)

text \<open>
  Claim C16. The whole life of the supervisor, from its start, whatever others do to the context between its rounds. Once it has seen
  the container run, the container's end ends playback: it goes on polling as long as the container runs, the first answer after that
  that the container has ended takes it to the loop that waits for the decoder, which it leaves after at most 200 rounds,
  and its last step stops playback and marks the thread as ended. Rounds before the container was seen running do not count: an
  end that is reported only there is not noticed.
\<close>

theorem supervisor_ends:
  assumes "\<forall>(env, ctx) \<in> {final} \<union> set (before @ running @ [ended] @ after).
      player_reach ctx \<and> connected ctx \<and> env_ok env \<and> env_returns env \<and> queries_ok env"
    and "\<forall>x \<in> set (before @ [ended]). reports_ended x" and "\<forall>x \<in> set running. reports_running x" and "running \<noteq> []"
    and "length after = 200"
  shows "(\<exists>sv. sup_rounds (before @ running) supervisor_start = Some sv \<and> sv_pc sv = Sup_Poll)
    \<and> (\<exists>k sv sv' ctx'. k \<le> 200 \<and> sup_rounds (before @ running @ [ended] @ take k after) supervisor_start = Some sv
      \<and> sv_pc sv = Sup_Exit \<and> supervisor_step (fst final) sv (snd final) = Some (sv', ctx') \<and> sv_pc sv' = Sup_Done
      \<and> \<not> isPlaying (playback ctx') \<and> \<not> hasThreadStarted ctx' \<and> player_reach ctx')"
proof -
  have r: "\<forall>x \<in> {final} \<union> set (before @ running @ [ended] @ after). round_ok x \<and> queries_ok (fst x)"
  proof
    fix x
    assume "x \<in> {final} \<union> set (before @ running @ [ended] @ after)"
    from bspec [OF assms(1) this] show "round_ok x \<and> queries_ok (fst x)" by (cases x) (simp add: round_ok_def player_reach_ok)
  qed
  obtain sv0 where sv0: "sup_rounds before supervisor_start = Some sv0" "sv_pc sv0 = Sup_Poll" "sv_count sv0 = 0"
    using missed_rounds [of before supervisor_start] assms(2) by (auto simp: supervisor_start_def)
  then obtain sv1 where sv1: "sup_rounds (before @ running) supervisor_start = Some sv1" "sv_pc sv1 = Sup_Poll"
      "sv_count sv1 = 0" "sv_lastStatus sv1 \<noteq> 0"
    using running_rounds [of running sv0] assms(3,4) r by (auto simp: sup_rounds_append)
  obtain env ctx where e: "ended = (env, ctx)" by (cases ended)
  obtain sv2 c where sv2: "supervisor_step env sv1 ctx = Some (sv2, c)" "sv_count sv2 = 0" "sv_pc sv2 = Sup_Sync"
    using polled [of env ctx sv1] assms(2) e r sv1 by (fastforce simp: reports_ended_def)
  obtain k sv where k: "k \<le> length after" "sup_rounds (take k after) sv2 = Some sv" "sv_pc sv = Sup_Exit"
    using sync_rounds_end [of after sv2] sv2 r assms(5) by auto
  obtain sv' ctx' where l: "supervisor_step (fst final) sv (snd final) = Some (sv', ctx')" "sv_pc sv' = Sup_Done"
      "\<not> isPlaying (playback ctx')" "\<not> hasThreadStarted ctx'"
    using supervisor_exits [of "fst final" "snd final" sv] k(3) r by auto
  then have "player_reach ctx'" using player_reach.supervise [of "snd final"] assms(1) by (cases final) auto
  moreover have "sup_rounds (before @ running @ [ended] @ take k after) supervisor_start = Some sv"
    using sv0 sv1 sv2 k e by (auto simp: sup_rounds_append)
  ultimately show ?thesis using sv1 k l assms(5) by auto
qed

theorem supervisor_ends_witness:
  "let run = (example_env\<lparr>pe_ffmpeg := example_running\<rparr>, example_playing); over = (example_env, example_playing) in
    \<exists>k sv sv' ctx'. k \<le> 200 \<and> sup_rounds ([over] @ [run, run] @ [over] @ take k (replicate 200 over)) supervisor_start = Some sv
      \<and> sv_pc sv = Sup_Exit \<and> supervisor_step example_env sv example_playing = Some (sv', ctx') \<and> \<not> isPlaying (playback ctx')"
proof -
  let ?run = "(example_env\<lparr>pe_ffmpeg := example_running\<rparr>, example_playing)" and ?over = "(example_env, example_playing)"
  have "reports_ended ?over" "reports_running ?run"
    using example_flags example_playing_eqs
    by (simp_all add: reports_ended_def reports_running_def example_env_def example_ffmpeg_def example_running_def)
  moreover have "queries_ok example_env" "queries_ok (example_env\<lparr>pe_ffmpeg := example_running\<rparr>)"
    by (simp_all add: queries_ok_def example_env_def example_ffmpeg_def example_running_def)
  ultimately show ?thesis
    using supervisor_ends [of ?over "[?over]" "[?run, ?run]" ?over "replicate 200 ?over"] example_env_ok example_running_ok
      example_connected example_reach
    by (auto simp: Let_def)
qed

text \<open>
  The end of a stream is missed if it comes before the supervisor has once seen the container run: as long as the container
  answers that it has ended, the thread polls on and playback does not end.
\<close>

theorem supervisor_misses_end:
  assumes "\<forall>x \<in> set rounds. reports_ended x"
  shows "\<exists>sv'. sup_rounds rounds supervisor_start = Some sv' \<and> sv_pc sv' = Sup_Poll"
  using missed_rounds [OF assms, of supervisor_start] by (auto simp: supervisor_start_def)

theorem supervisor_misses_end_witness:
  "\<exists>sv'. sup_rounds (replicate 3 (example_env, example_playing)) supervisor_start = Some sv' \<and> sv_pc sv' = Sup_Poll"
proof -
  have "reports_ended (example_env, example_playing)"
    using example_flags example_playing_eqs by (simp add: reports_ended_def example_env_def example_ffmpeg_def)
  then show ?thesis using supervisor_misses_end [of "replicate 3 (example_env, example_playing)"] by simp
qed



end
