(* ===== verification/Micom_Serial.thy ===== *)
theory Micom_Serial
  imports Prelude "HOL-Library.Monad_Syntax" "HOL-Library.Sublist"
begin

text \<open>
  The serial side of the front panel driver (\<open>frontcontroller/micom/micom_main.c\<close> and \<open>micom_asc.c\<close>): the
  three ring buffers of 256 bytes, the interrupt that fills the receive ring and empties the transmit ring, the
  framing of the panel's packets in the task and the key packets a reader of the remote control device gets.

  A buffer with its two indices is a \<open>ring\<close>: \<open>ring_start\<close> is where the next byte is written (the source's
  \<open>...Start\<close>), \<open>ring_end\<close> where the next one is read (\<open>...End\<close>). What the serial controller does is an argument
  of the interrupt: the bytes in its receive buffer and how many times its status register reports room in the
  transmit buffer. The ring is also described abstractly, as the list of the bytes waiting in it, and the laws of
  that description are an interface that the rings of the driver implement.
\<close>

subsection \<open>Ring buffers\<close>

definition BUFFERSIZE :: nat where "BUFFERSIZE = 256"

record ring =
  ring_buf :: bytes
  ring_start :: nat
  ring_end :: nat

definition ring_static :: ring where
  "ring_static = \<lparr>ring_buf = replicate BUFFERSIZE 0, ring_start = 0, ring_end = 0\<rparr>"

definition ring_wf :: "ring \<Rightarrow> bool" where
  "ring_wf r \<longleftrightarrow> length (ring_buf r) = BUFFERSIZE \<and> ring_start r < BUFFERSIZE \<and> ring_end r < BUFFERSIZE"

definition ring_count :: "ring \<Rightarrow> nat" where
  "ring_count r = (ring_start r + BUFFERSIZE - ring_end r) mod BUFFERSIZE"

definition ring_peek :: "nat \<Rightarrow> ring \<Rightarrow> byte" where
  "ring_peek i r = ring_buf r ! ((ring_end r + i) mod BUFFERSIZE)"

definition ring_contents :: "ring \<Rightarrow> bytes" where
  "ring_contents r = map (\<lambda>i. ring_peek i r) [0..<ring_count r]"

definition ring_store :: "byte \<Rightarrow> ring \<Rightarrow> ring" where
  "ring_store c r = r\<lparr>ring_buf := (ring_buf r)[ring_start r := c]\<rparr>"

definition ring_advance :: "ring \<Rightarrow> ring" where
  "ring_advance r = r\<lparr>ring_start := (ring_start r + 1) mod BUFFERSIZE\<rparr>"

definition ring_put :: "byte \<Rightarrow> ring \<Rightarrow> ring" where
  "ring_put c r = ring_advance (ring_store c r)"

definition ring_skip :: "nat \<Rightarrow> ring \<Rightarrow> ring" where
  "ring_skip n r = r\<lparr>ring_end := (ring_end r + n) mod BUFFERSIZE\<rparr>"

definition ring_inc :: "nat \<Rightarrow> nat" where
  "ring_inc j = (if j + 1 \<ge> BUFFERSIZE then 0 else j + 1)"

text \<open>Copying at most \<open>n\<close> bytes from index \<open>j\<close> on, up to where the next byte will be written.\<close>

fun ring_copy :: "nat \<Rightarrow> ring \<Rightarrow> nat \<Rightarrow> bytes" where
  "ring_copy 0 r j = []"
| "ring_copy (Suc n) r j =
     (let j' = ring_inc j
      in ring_buf r ! j # (if j' = ring_start r then [] else ring_copy n r j'))"

subsection \<open>State of the driver\<close>

definition EVENT_BTN :: byte where "EVENT_BTN = 0xd1"
definition EVENT_RC :: byte where "EVENT_RC = 0xd2"
definition EVENT_ERR :: byte where "EVENT_ERR = 0xF5"
definition EVENT_OK1 :: byte where "EVENT_OK1 = 0xFA"
definition EVENT_OK2 :: byte where "EVENT_OK2 = 0xF1"
definition EVENT_ANSWER_GETTIME :: byte where "EVENT_ANSWER_GETTIME = 0xB9"
definition EVENT_ANSWER_WAKEUP_REASON :: byte where "EVENT_ANSWER_WAKEUP_REASON = 0x77"
definition EVENT_ANSWER_VERSION :: byte where "EVENT_ANSWER_VERSION = 0x85"
definition DATA_BTN_EVENT :: nat where "DATA_BTN_EVENT = 0"
definition cPackageSize :: nat where "cPackageSize = 8"
definition cGetTimeSize :: nat where "cGetTimeSize = 8"
definition cGetWakeupReasonSize :: nat where "cGetWakeupReasonSize = 8"
definition cGetVersionSize :: nat where "cGetVersionSize = 8"

definition ASC_BAUDRATE :: u32 where "ASC_BAUDRATE = 0x000"
definition ASC_CTRL :: u32 where "ASC_CTRL = 0x00c"
definition ASC_INT_EN :: u32 where "ASC_INT_EN = 0x010"
definition ASC_TIMEOUT :: u32 where "ASC_TIMEOUT = 0x01c"
definition ASC_TX_RST :: u32 where "ASC_TX_RST = 0x020"
definition ASC_RX_RST :: u32 where "ASC_RX_RST = 0x024"
definition ASC_INT_STA_THE :: u32 where "ASC_INT_STA_THE = 0x04"
definition ASC_CTRL_FIFO_EN :: u32 where "ASC_CTRL_FIFO_EN = 0x400"

definition PIO_CLR_PnC0 :: u32 where "PIO_CLR_PnC0 = 0x28"
definition PIO_CLR_PnC1 :: u32 where "PIO_CLR_PnC1 = 0x38"
definition PIO_SET_PnC1 :: u32 where "PIO_SET_PnC1 = 0x34"
definition PIO_SET_PnC2 :: u32 where "PIO_SET_PnC2 = 0x44"

lemmas event_defs = EVENT_BTN_def EVENT_RC_def EVENT_ERR_def EVENT_OK1_def EVENT_OK2_def EVENT_ANSWER_GETTIME_def
  EVENT_ANSWER_WAKEUP_REASON_def EVENT_ANSWER_VERSION_def DATA_BTN_EVENT_def cPackageSize_def cGetTimeSize_def
  cGetWakeupReasonSize_def cGetVersionSize_def

datatype micom_box = UFS912 | UFS913 | UFS922

text \<open>
  The registers of the serial controller by their offset from \<open>ASCXBaseAddress\<close>, and the words written to the pin
  controller, in order. \<open>ioctl_data\<close> and \<open>errorOccured\<close> belong to \<open>micom_file.c\<close> but are written here.
\<close>

record micom_serial =
  RCV :: ring
  Key :: ring
  Out :: ring
  dataReady :: bool
  expectEventData :: byte
  expectEventId :: bool
  errorOccured :: bool
  ioctl_data :: bytes
  asc :: "u32 \<Rightarrow> u32"
  pio :: "(u32 \<times> u32) list"

definition micom_serial_static :: "(u32 \<Rightarrow> u32) \<Rightarrow> micom_serial" where
  "micom_serial_static regs = \<lparr>RCV = ring_static, Key = ring_static, Out = ring_static, dataReady = False,
     expectEventData = 0, expectEventId = True, errorOccured = False, ioctl_data = replicate 8 0, asc = regs, pio = []\<rparr>"

abbreviation set_asc :: "u32 \<Rightarrow> u32 \<Rightarrow> micom_serial \<Rightarrow> micom_serial" where
  "set_asc reg v s \<equiv> s\<lparr>asc := (asc s)(reg := v)\<rparr>"

definition the_enabled :: "micom_serial \<Rightarrow> bool" where
  "the_enabled s \<longleftrightarrow> asc s ASC_INT_EN AND ASC_INT_STA_THE \<noteq> 0"

subsection \<open>Sending\<close>

text \<open>
  \<open>micom_putc\<close> runs with interrupts on: it stores the byte, advances the index and then looks at the interrupt
  enable register, and an interrupt can come between any two of these.
\<close>

definition putc_store :: "byte \<Rightarrow> micom_serial \<Rightarrow> micom_serial" where
  "putc_store data s = s\<lparr>Out := ring_store data (Out s)\<rparr>"

definition putc_advance :: "micom_serial \<Rightarrow> micom_serial" where
  "putc_advance s = s\<lparr>Out := ring_advance (Out s)\<rparr>"

definition putc_enable :: "micom_serial \<Rightarrow> micom_serial" where
  "putc_enable s = (if \<not> the_enabled s then set_asc ASC_INT_EN (asc s ASC_INT_EN OR ASC_INT_STA_THE) s else s)"

definition micom_putc :: "byte \<Rightarrow> micom_serial \<Rightarrow> micom_serial" where
  "micom_putc data s = putc_enable (putc_advance (putc_store data s))"

text \<open>Waiting for the transmitter without interrupts: the register values read, one per round of the loop.\<close>

fun serial_wait :: "(nat \<Rightarrow> u32) \<Rightarrow> nat \<Rightarrow> nat \<Rightarrow> nat" where
  "serial_wait sta k 0 = 0"
| "serial_wait sta k (Suc Counter) =
     (if sta k AND ASC_INT_STA_THE = 0 then (if Counter = 0 then 0 else serial_wait sta (Suc k) Counter)
      else Suc Counter)"

text \<open>The result, whether the error was reported, and the byte written to the transmit register.\<close>

definition serial_putc :: "(nat \<Rightarrow> u32) \<Rightarrow> byte \<Rightarrow> int \<times> bool \<times> byte" where
  "serial_putc sta Data = (let Counter = serial_wait sta 0 200000 in (1, Counter = 0, Data))"

definition serial_init :: "micom_box \<Rightarrow> micom_serial \<Rightarrow> micom_serial" where
  "serial_init box s =
     (let s = (if box = UFS922
               then s\<lparr>pio := pio s @ [(PIO_CLR_PnC0, 0x07), (PIO_CLR_PnC1, 0x06), (PIO_SET_PnC1, 0x01), (PIO_SET_PnC2, 0x07)]\<rparr>
               else s)
      in s\<lparr>asc := (asc s)(ASC_INT_EN := 0x00000000, ASC_CTRL := 0x00001589, ASC_TIMEOUT := 0x00000010,
                         ASC_BAUDRATE := 0x000000c9, ASC_TX_RST := 0, ASC_RX_RST := 0)\<rparr>)"

subsection \<open>The interrupt\<close>

definition rx_byte :: "byte \<Rightarrow> micom_serial \<Rightarrow> micom_serial" where
  "rx_byte c s = s\<lparr>RCV := ring_put c (RCV s)\<rparr>"

text \<open>The transmit loop; \<open>room\<close> is how many times the status register reports room.\<close>

fun tx_loop :: "nat \<Rightarrow> micom_serial \<Rightarrow> bytes \<times> micom_serial" where
  "tx_loop 0 s = ([], s)"
| "tx_loop (Suc room) s =
     (if the_enabled s \<and> ring_start (Out s) \<noteq> ring_end (Out s) then
        (let (tx, t) = tx_loop room (s\<lparr>Out := ring_skip 1 (Out s)\<rparr>)
         in (ring_buf (Out s) ! ring_end (Out s) # tx, t))
      else ([], s))"

definition FP_interrupt :: "bytes \<Rightarrow> nat \<Rightarrow> micom_serial \<Rightarrow> bytes \<times> micom_serial" where
  "FP_interrupt rx room s =
     (let s = fold rx_byte rx s;
          (tx, s) = tx_loop room s
      in (tx, if ring_start (Out s) = ring_end (Out s) \<and> the_enabled s
              then set_asc ASC_INT_EN (asc s ASC_INT_EN AND NOT ASC_INT_STA_THE) s else s))"

subsection \<open>Packets\<close>

text \<open>
  \<open>getLen\<close> loops until it finds the end of a packet or reaches the write index. The loop has no bound of its own;
  the model gives it one step more than the ring has bytes, which \<open>getLen_loop_spec\<close> shows to be enough.
\<close>

fun getLen_loop :: "nat \<Rightarrow> int \<Rightarrow> ring \<Rightarrow> nat \<Rightarrow> nat \<Rightarrow> int option" where
  "getLen_loop 0 expectedLen r i j = None"
| "getLen_loop (Suc n) expectedLen r i j =
     (if ring_buf r ! j = 0xd \<and> (expectedLen = -1 \<or> int i = expectedLen - 1) then Some (int i)
      else
        (let j' = ring_inc j
         in if j' = ring_start r then Some (-1) else getLen_loop n expectedLen r (Suc i) j'))"

definition getLen :: "int \<Rightarrow> ring \<Rightarrow> int option" where
  "getLen expectedLen r = map_option (\<lambda>i. i + 1) (getLen_loop (Suc BUFFERSIZE) expectedLen r 0 (ring_end r))"

text \<open>\<open>None\<close> is a copy beyond the buffer or of bytes that were never written.\<close>

definition copyData :: "bytes \<Rightarrow> nat \<Rightarrow> micom_serial \<Rightarrow> micom_serial option" where
  "copyData data len s =
     (if length data < len \<or> length (ioctl_data s) < len then None
      else Some (s\<lparr>ioctl_data := take len data @ drop len (ioctl_data s)\<rparr>))"

definition handleCopyData :: "nat \<Rightarrow> micom_serial \<Rightarrow> micom_serial option" where
  "handleCopyData len s = copyData (ring_copy len (RCV s) (ring_end (RCV s))) len s"

definition ack_sem_up :: "micom_serial \<Rightarrow> micom_serial" where
  "ack_sem_up s = s\<lparr>dataReady := True\<rparr>"

definition copy_keys :: "micom_serial \<Rightarrow> micom_serial" where
  "copy_keys s =
     s\<lparr>Key := fold (\<lambda>i k. ring_put (ring_buf (RCV s) ! ((ring_end (RCV s) + i) mod BUFFERSIZE)) k) [0..<cPackageSize] (Key s)\<rparr>"

definition event_key :: "micom_serial \<Rightarrow> micom_serial option" where
  "event_key s = do {
     len \<leftarrow> getLen (int cPackageSize) (RCV s);
     Some (if len = 0 then s
           else if len < int cPackageSize then s
           else (copy_keys s)\<lparr>RCV := ring_skip cPackageSize (RCV s)\<rparr>)
   }"

definition event_status :: "bool \<Rightarrow> micom_serial \<Rightarrow> micom_serial option" where
  "event_status err s = do {
     len \<leftarrow> getLen (-1) (RCV s);
     Some (if len = 0 then s
           else (ack_sem_up (s\<lparr>errorOccured := err\<rparr>))\<lparr>RCV := ring_skip (nat len) (RCV s)\<rparr>)
   }"

definition event_answer :: "nat \<Rightarrow> micom_serial \<Rightarrow> micom_serial option" where
  "event_answer answerSize s = do {
     len \<leftarrow> getLen (int answerSize) (RCV s);
     if len = 0 then Some s
     else if len < int answerSize then Some s
     else do {
       t \<leftarrow> handleCopyData (nat len) s;
       Some ((ack_sem_up (t\<lparr>errorOccured := False\<rparr>))\<lparr>RCV := ring_skip answerSize (RCV t)\<rparr>)
     }
   }"

definition handle_event :: "byte \<Rightarrow> micom_serial \<Rightarrow> micom_serial option" where
  "handle_event ev s =
     (if ev = EVENT_BTN then event_key s
      else if ev = EVENT_RC then event_key s
      else if ev = EVENT_ERR then event_status True s
      else if ev = EVENT_OK1 \<or> ev = EVENT_OK2 then event_status False s
      else if ev = EVENT_ANSWER_GETTIME then event_answer cGetTimeSize s
      else if ev = EVENT_ANSWER_WAKEUP_REASON then event_answer cGetWakeupReasonSize s
      else if ev = EVENT_ANSWER_VERSION then event_answer cGetVersionSize s
      else Some (s\<lparr>RCV := (RCV s)\<lparr>ring_end := ring_start (RCV s)\<rparr>\<rparr>))"

definition processResponse :: "micom_serial \<Rightarrow> micom_serial option" where
  "processResponse s =
     (let s = (if expectEventId s
               then s\<lparr>expectEventData := ring_buf (RCV s) ! ((ring_end (RCV s) + DATA_BTN_EVENT) mod BUFFERSIZE),
                      expectEventId := False\<rparr>
               else s)
      in do {
        s \<leftarrow> (if expectEventData s \<noteq> 0 then handle_event (expectEventData s) s else Some s);
        Some (s\<lparr>expectEventId := True, expectEventData := 0\<rparr>)
      })"

text \<open>The inner loop of the task, run for at most \<open>n\<close> rounds: what it has reached then.\<close>

fun micomTask_rounds :: "nat \<Rightarrow> micom_serial \<Rightarrow> micom_serial option" where
  "micomTask_rounds 0 s = Some s"
| "micomTask_rounds (Suc n) s =
     (if ring_start (RCV s) = ring_end (RCV s) then Some s
      else Option.bind (processResponse s) (micomTask_rounds n))"

subsection \<open>Reading keys\<close>

text \<open>
  What \<open>getRCData\<close> does once a key is there: the length it reports, the caller's 20 byte buffer, which was cleared,
  and the new state. While no key is there it sleeps; \<open>wait\<close> says what the world is like when it is woken up, or
  that a signal came. \<open>None\<close> as a whole means that it goes on sleeping.
\<close>

definition key_data :: "micom_serial \<Rightarrow> int \<times> bytes \<times> micom_serial" where
  "key_data s =
     (let data = ring_copy cPackageSize (Key s) (ring_end (Key s))
      in (int cPackageSize, data @ replicate (20 - length data) 0, s\<lparr>Key := ring_skip cPackageSize (Key s)\<rparr>))"

definition getRCData :: "(micom_serial \<Rightarrow> micom_serial option) \<Rightarrow> micom_serial \<Rightarrow> (int \<times> bytes \<times> micom_serial) option" where
  "getRCData wait s =
     (if ring_start (Key s) \<noteq> ring_end (Key s) then Some (key_data s)
      else (case wait s of
              None \<Rightarrow> Some (0, replicate 20 0, s)
            | Some t \<Rightarrow> (if ring_start (Key t) \<noteq> ring_end (Key t) then Some (key_data t) else None)))"


subsection \<open>Rings as queues of bytes\<close>

text \<open>
  What the driver relies on of a bounded ring: a byte put in comes after those that wait, skipping takes bytes from
  the front, and looking at position \<open>i\<close> gives the byte that waits there.
\<close>

locale byte_ring =
  fixes wf :: "'r \<Rightarrow> bool"
    and contents :: "'r \<Rightarrow> 'a list"
    and put :: "'a \<Rightarrow> 'r \<Rightarrow> 'r"
    and skip :: "nat \<Rightarrow> 'r \<Rightarrow> 'r"
    and peek :: "nat \<Rightarrow> 'r \<Rightarrow> 'a"
    and cap :: nat
  assumes put_wf: "wf r \<Longrightarrow> wf (put x r)"
    and put_contents: "wf r \<Longrightarrow> length (contents r) < cap \<Longrightarrow> contents (put x r) = contents r @ [x]"
    and skip_wf: "wf r \<Longrightarrow> wf (skip n r)"
    and skip_contents: "wf r \<Longrightarrow> n \<le> length (contents r) \<Longrightarrow> contents (skip n r) = drop n (contents r)"
    and peek_contents: "wf r \<Longrightarrow> i < length (contents r) \<Longrightarrow> peek i r = contents r ! i"
    and contents_cap: "wf r \<Longrightarrow> length (contents r) \<le> cap"
begin

lemma put_all_wf: "wf r \<Longrightarrow> wf (fold put xs r)"
  by (induction xs arbitrary: r) (simp_all add: put_wf)

lemma put_all: "wf r \<Longrightarrow> length (contents r) + length xs \<le> cap \<Longrightarrow> contents (fold put xs r) = contents r @ xs"
  by (induction xs arbitrary: r) (simp_all add: put_wf put_contents)

lemma peek_block: "wf r \<Longrightarrow> n \<le> length (contents r) \<Longrightarrow> map (\<lambda>i. peek i r) [0..<n] = take n (contents r)"
  by (rule nth_equalityI) (simp_all add: peek_contents)

lemma put_block:
  assumes "wf q" "wf r" "n \<le> length (contents r)" "length (contents q) + n \<le> cap"
  shows "contents (fold (\<lambda>i. put (peek i r)) [0..<n] q) = contents q @ take n (contents r)"
proof -
  have "fold (\<lambda>i. put (peek i r)) [0..<n] q = fold put (map (\<lambda>i. peek i r) [0..<n]) q"
    by (simp add: fold_map o_def)
  with assms show ?thesis by (simp add: peek_block put_all)
qed

lemma put_block_wf: "wf q \<Longrightarrow> wf (fold (\<lambda>i. put (peek i r)) is q)"
  by (induction "is" arbitrary: q) (simp_all add: put_wf)

end

lemma ring_count_less: "ring_count r < BUFFERSIZE"
  by (simp add: ring_count_def BUFFERSIZE_def)

lemma length_ring_contents [simp]: "length (ring_contents r) = ring_count r"
  by (simp add: ring_contents_def)

lemma ring_count_cases:
  "ring_wf r \<Longrightarrow> ring_count r = (if ring_end r \<le> ring_start r then ring_start r - ring_end r else ring_start r + 256 - ring_end r)"
  by (auto simp: ring_count_def ring_wf_def BUFFERSIZE_def le_mod_geq)

lemma mod_buffersize: "a < 256 \<Longrightarrow> b \<le> 256 \<Longrightarrow> (a + b) mod (256::nat) = (if a + b < 256 then a + b else a + b - 256)"
  by (auto simp: le_mod_geq)

lemma ring_slot_other:
  "ring_wf r \<Longrightarrow> i < ring_count r \<Longrightarrow> (ring_end r + i) mod BUFFERSIZE \<noteq> ring_start r"
  using ring_count_less [of r]
  by (auto simp: ring_count_cases mod_buffersize ring_wf_def BUFFERSIZE_def split: if_splits)

lemma ring_slot_last: "ring_wf r \<Longrightarrow> (ring_end r + ring_count r) mod BUFFERSIZE = ring_start r"
  using ring_count_less [of r]
  by (auto simp: ring_count_cases mod_buffersize ring_wf_def BUFFERSIZE_def split: if_splits)

lemma ring_store_contents: "ring_wf r \<Longrightarrow> ring_contents (ring_store c r) = ring_contents r"
  unfolding ring_contents_def
  by (rule map_cong)
    (simp_all add: ring_count_def ring_store_def ring_peek_def, metis nth_list_update_neq ring_count_def ring_slot_other)

lemma ring_wf_ops [simp]:
  "ring_wf r \<Longrightarrow> ring_wf (ring_store c r)"
  "ring_wf r \<Longrightarrow> ring_wf (ring_advance r)"
  "ring_wf r \<Longrightarrow> ring_wf (ring_put c r)"
  "ring_wf r \<Longrightarrow> ring_wf (ring_skip n r)"
  by (simp_all add: ring_wf_def ring_put_def ring_store_def ring_advance_def ring_skip_def BUFFERSIZE_def)

lemma ring_advance_contents:
  "ring_wf r \<Longrightarrow> ring_count r < 255 \<Longrightarrow> ring_contents (ring_advance r) = ring_contents r @ [ring_buf r ! ring_start r]"
proof -
  assume *: "ring_wf r" "ring_count r < 255"
  then have "ring_count (ring_advance r) = Suc (ring_count r)"
    using ring_wf_ops(2) [of r]
    by (auto simp: ring_count_cases ring_advance_def ring_wf_def BUFFERSIZE_def mod_Suc split: if_splits)
  moreover have "ring_peek i (ring_advance r) = ring_peek i r" for i
    by (simp add: ring_peek_def ring_advance_def)
  ultimately show ?thesis
    using * by (simp add: ring_contents_def ring_slot_last ring_peek_def)
qed

lemma ring_store_fields [simp]:
  "ring_start (ring_store c r) = ring_start r" "ring_end (ring_store c r) = ring_end r" "ring_count (ring_store c r) = ring_count r"
  by (simp_all add: ring_store_def ring_count_def)

lemma ring_store_at [simp]: "ring_wf r \<Longrightarrow> ring_buf (ring_store c r) ! ring_start r = c"
  by (simp add: ring_store_def ring_wf_def)

lemma ring_put_contents:
  "ring_wf r \<Longrightarrow> ring_count r < 255 \<Longrightarrow> ring_contents (ring_put c r) = ring_contents r @ [c]"
  by (metis ring_put_def ring_advance_contents ring_store_at ring_store_contents ring_store_fields(1,3) ring_wf_ops(1))

lemma ring_skip_count: "ring_wf r \<Longrightarrow> n \<le> ring_count r \<Longrightarrow> ring_count (ring_skip n r) = ring_count r - n"
  using ring_wf_ops(4) [of r n] ring_count_less [of r]
  by (simp add: ring_count_cases) (auto simp: ring_skip_def ring_wf_def mod_buffersize BUFFERSIZE_def split: if_splits)

lemma ring_skip_contents:
  "ring_wf r \<Longrightarrow> n \<le> ring_count r \<Longrightarrow> ring_contents (ring_skip n r) = drop n (ring_contents r)"
  by (rule nth_equalityI)
    (simp_all add: ring_skip_count, simp add: ring_contents_def ring_skip_count ring_peek_def,
     simp add: ring_skip_def mod_add_left_eq add.assoc)

interpretation rg: byte_ring ring_wf ring_contents ring_put ring_skip ring_peek 255
proof unfold_locales
  show "ring_wf r \<Longrightarrow> length (ring_contents r) \<le> 255" for r
    using ring_count_less [of r] by (simp add: BUFFERSIZE_def)
  show "ring_wf r \<Longrightarrow> i < length (ring_contents r) \<Longrightarrow> ring_peek i r = ring_contents r ! i" for i r
    by (simp add: ring_contents_def)
qed (simp_all add: ring_put_contents ring_skip_contents)

lemma ring_empty: "ring_wf r \<Longrightarrow> ring_start r = ring_end r \<longleftrightarrow> ring_contents r = []"
proof -
  assume "ring_wf r"
  then have "ring_start r = ring_end r \<longleftrightarrow> ring_count r = 0"
    by (auto simp: ring_count_cases ring_wf_def BUFFERSIZE_def)
  then show ?thesis by (simp flip: length_0_conv)
qed

lemma ring_next:
  "ring_inc ((ring_end r + i) mod BUFFERSIZE) = (ring_end r + Suc i) mod BUFFERSIZE"
  using mod_less_divisor [of 256 "ring_end r + i"]
  by (auto simp: ring_inc_def mod_Suc BUFFERSIZE_def simp del: mod_less_divisor)

lemma ring_next_start:
  "ring_wf r \<Longrightarrow> i < ring_count r \<Longrightarrow> (ring_end r + Suc i) mod BUFFERSIZE = ring_start r \<longleftrightarrow> Suc i = ring_count r"
  by (metis Suc_lessI ring_slot_last ring_slot_other)


subsection \<open>Packets in the ring\<close>

lemma ring_copy_take:
  "ring_wf r \<Longrightarrow> i < ring_count r \<Longrightarrow> ring_copy n r ((ring_end r + i) mod BUFFERSIZE) = take n (drop i (ring_contents r))"
proof (induction n arbitrary: i)
  case (Suc n)
  have c: "drop i (ring_contents r) = ring_peek i r # drop (Suc i) (ring_contents r)"
    using Suc.prems by (simp add: Cons_nth_drop_Suc [symmetric] rg.peek_contents)
  show ?case
  proof (cases "Suc i = ring_count r")
    case True
    with Suc.prems c show ?thesis
      by (simp add: ring_next ring_next_start ring_slot_last ring_peek_def Let_def del: add_Suc_right)
  next
    case False
    with Suc.prems Suc.IH [of "Suc i"] c show ?thesis
      by (simp add: ring_next ring_next_start ring_slot_last ring_peek_def Let_def del: add_Suc_right)
  qed
qed simp

corollary ring_copy_end:
  "ring_wf r \<Longrightarrow> ring_contents r \<noteq> [] \<Longrightarrow> ring_copy n r (ring_end r) = take n (ring_contents r)"
proof -
  assume *: "ring_wf r" "ring_contents r \<noteq> []"
  then have "0 < ring_count r" by (metis length_greater_0_conv length_ring_contents)
  with * ring_copy_take [of r 0 n] show ?thesis by (simp add: ring_wf_def)
qed

text \<open>The end of the packet at the front: the first carriage return, or one at the expected place.\<close>

fun packet_end :: "int \<Rightarrow> nat \<Rightarrow> bytes \<Rightarrow> int" where
  "packet_end e i [] = -1"
| "packet_end e i (c # cs) = (if c = 0xd \<and> (e = -1 \<or> int i = e - 1) then int i else packet_end e (Suc i) cs)"

lemma getLen_loop_spec:
  "ring_wf r \<Longrightarrow> i < ring_count r \<Longrightarrow> ring_count r - i < n \<Longrightarrow>
   getLen_loop n e r i ((ring_end r + i) mod BUFFERSIZE) = Some (packet_end e i (drop i (ring_contents r)))"
proof (induction n arbitrary: i)
  case (Suc n)
  have c: "drop i (ring_contents r) = ring_peek i r # drop (Suc i) (ring_contents r)"
    using Suc.prems by (simp add: Cons_nth_drop_Suc [symmetric] rg.peek_contents)
  show ?case
  proof (cases "Suc i = ring_count r")
    case True
    with Suc.prems c show ?thesis
      by (simp add: ring_next ring_next_start ring_slot_last ring_peek_def Let_def del: add_Suc_right)
  next
    case False
    with Suc.prems Suc.IH [of "Suc i"] c show ?thesis
      by (auto simp: ring_next ring_next_start ring_slot_last ring_peek_def Let_def simp del: add_Suc_right)
  qed
qed simp

lemma getLen_spec:
  assumes "ring_wf r" "ring_contents r \<noteq> []"
  shows "getLen e r = Some (packet_end e 0 (ring_contents r) + 1)"
proof -
  have "0 < ring_count r" using assms(2) by (metis length_greater_0_conv length_ring_contents)
  with assms(1) ring_count_less [of r] getLen_loop_spec [of r 0 "Suc BUFFERSIZE" e]
  show ?thesis by (simp add: getLen_def ring_wf_def del: getLen_loop.simps)
qed

lemma packet_end_any:
  "packet_end (-1) i (p @ q) =
     (if 0xd \<in> set p then int (i + length (takeWhile (\<lambda>c. c \<noteq> 0xd) p)) else packet_end (-1) (i + length p) q)"
  by (induction p arbitrary: i) simp_all

lemma packet_end_at:
  "i \<le> k \<Longrightarrow> packet_end (int k + 1) i cs = (if k - i < length cs \<and> cs ! (k - i) = 0xd then int k else -1)"
proof (induction cs arbitrary: i)
  case (Cons c cs)
  show ?case
  proof (cases "i = k")
    case True
    have "packet_end (int k + 1) j cs = -1" if "k < j" for j
      using that by (induction cs arbitrary: j) auto
    with True show ?thesis by simp
  next
    case False
    with Cons show ?thesis by (auto simp: nth_Cons' Suc_diff_Suc)
  qed
qed simp


subsection \<open>What a packet does\<close>

text \<open>
  The three kinds of packet the panel sends: a key (eight bytes with a carriage return at the end), an answer (the
  same, with another first byte) and a status (which ends at its first carriage return).
\<close>

definition key_packet :: "bytes \<Rightarrow> bool" where
  "key_packet p \<longleftrightarrow> length p = 8 \<and> p ! 7 = 0xd \<and> p ! 0 \<in> {EVENT_BTN, EVENT_RC}"

definition answer_packet :: "bytes \<Rightarrow> bool" where
  "answer_packet p \<longleftrightarrow> length p = 8 \<and> p ! 7 = 0xd \<and>
     p ! 0 \<in> {EVENT_ANSWER_GETTIME, EVENT_ANSWER_WAKEUP_REASON, EVENT_ANSWER_VERSION}"

definition status_packet :: "bytes \<Rightarrow> bool" where
  "status_packet p \<longleftrightarrow> p \<noteq> [] \<and> p ! 0 \<in> {EVENT_ERR, EVENT_OK1, EVENT_OK2} \<and> last p = 0xd \<and> 0xd \<notin> set (butlast p)"

definition panel_packet :: "bytes \<Rightarrow> bool" where
  "panel_packet p \<longleftrightarrow> key_packet p \<or> answer_packet p \<or> status_packet p"

text \<open>What the driver keeps of the packets: the keys to be read, the last answer, whether the last reply was an error.\<close>

record panel_view =
  view_keys :: bytes
  view_answer :: bytes
  view_error :: bool

definition panel_view_of :: "micom_serial \<Rightarrow> panel_view" where
  "panel_view_of s = \<lparr>view_keys = ring_contents (Key s), view_answer = ioctl_data s, view_error = errorOccured s\<rparr>"

definition view_packet :: "bytes \<Rightarrow> panel_view \<Rightarrow> panel_view" where
  "view_packet p v =
     (if key_packet p then v\<lparr>view_keys := view_keys v @ p\<rparr>
      else if answer_packet p then v\<lparr>view_answer := p, view_error := False\<rparr>
      else v\<lparr>view_error := (p ! 0 = EVENT_ERR)\<rparr>)"

definition serial_inv :: "micom_serial \<Rightarrow> bool" where
  "serial_inv s \<longleftrightarrow> ring_wf (RCV s) \<and> ring_wf (Key s) \<and> ring_wf (Out s) \<and> length (ioctl_data s) = 8 \<and>
     expectEventId s \<and> expectEventData s = 0"

lemma ring_contents_cong: "ring_contents r = c # cs \<Longrightarrow> ring_wf r \<Longrightarrow> ring_buf r ! ring_end r = c"
  using rg.peek_contents [of r 0] by (simp add: ring_peek_def ring_wf_def flip: length_ring_contents)

lemma processResponse_head:
  assumes "serial_inv s" "ring_contents (RCV s) = c # cs"
  shows "processResponse s =
    (if c = 0 then Some s
     else map_option (\<lambda>s. s\<lparr>expectEventId := True, expectEventData := 0\<rparr>)
            (handle_event c (s\<lparr>expectEventData := c, expectEventId := False\<rparr>)))"
proof -
  have "ring_buf (RCV s) ! ((ring_end (RCV s) + DATA_BTN_EVENT) mod BUFFERSIZE) = c"
    using assms ring_contents_cong [of "RCV s"] by (simp add: serial_inv_def DATA_BTN_EVENT_def ring_wf_def)
  with assms(1) show ?thesis
    by (cases "handle_event c (s\<lparr>expectEventData := c, expectEventId := False\<rparr>)")
      (simp_all add: processResponse_def serial_inv_def)
qed

lemma getLen_key:
  "ring_wf r \<Longrightarrow> ring_contents r \<noteq> [] \<Longrightarrow>
   getLen 8 r = Some (if 8 \<le> ring_count r \<and> ring_contents r ! 7 = 0xd then 8 else 0)"
  using packet_end_at [of 0 7 "ring_contents r"] by (simp add: getLen_spec)

lemma event_key_effect:
  assumes "serial_inv s" "ring_contents (RCV s) \<noteq> []" "ring_count (Key s) + 8 \<le> 255"
  shows "event_key (s\<lparr>expectEventData := c, expectEventId := False\<rparr>) =
     Some (if 8 \<le> ring_count (RCV s) \<and> ring_contents (RCV s) ! 7 = 0xd
           then (copy_keys s)\<lparr>RCV := ring_skip 8 (RCV s), expectEventData := c, expectEventId := False\<rparr>
           else s\<lparr>expectEventData := c, expectEventId := False\<rparr>)"
  using assms by (simp add: event_key_def getLen_key cPackageSize_def serial_inv_def copy_keys_def)

lemma copy_keys_contents:
  assumes "serial_inv s" "8 \<le> ring_count (RCV s)" "ring_count (Key s) + 8 \<le> 255"
  shows "ring_contents (Key (copy_keys s)) = ring_contents (Key s) @ take 8 (ring_contents (RCV s))"
  using rg.put_block [of "Key s" "RCV s" 8] assms
  by (simp add: copy_keys_def cPackageSize_def serial_inv_def ring_peek_def)

lemma copy_keys_wf: "serial_inv s \<Longrightarrow> ring_wf (Key (copy_keys s))"
  using rg.put_block_wf [of "Key s" "RCV s"] by (simp add: copy_keys_def serial_inv_def ring_peek_def)

lemma copy_keys_other [simp]:
  "RCV (copy_keys s) = RCV s" "Out (copy_keys s) = Out s" "dataReady (copy_keys s) = dataReady s"
  "errorOccured (copy_keys s) = errorOccured s" "ioctl_data (copy_keys s) = ioctl_data s" "asc (copy_keys s) = asc s"
  "expectEventId (copy_keys s) = expectEventId s" "expectEventData (copy_keys s) = expectEventData s" "pio (copy_keys s) = pio s"
  by (simp_all add: copy_keys_def)

text \<open>A whole packet at the front of the receive ring is consumed, and does what its kind says.\<close>

lemma process_key:
  assumes "serial_inv s" "ring_contents (RCV s) = p @ q" "key_packet p" "ring_count (Key s) + 8 \<le> 255"
  shows "\<exists>t. processResponse s = Some t \<and> serial_inv t \<and> ring_contents (RCV t) = q \<and>
    panel_view_of t = view_packet p (panel_view_of s) \<and> Out t = Out s \<and> asc t = asc s"
proof -
  obtain c cs where p: "p = c # cs" using assms(3) by (cases p) (simp_all add: key_packet_def)
  have n: "8 \<le> ring_count (RCV s)" "ring_contents (RCV s) ! 7 = 0xd" "ring_contents (RCV s) \<noteq> []"
    using assms(2,3) p by (auto simp: key_packet_def nth_append simp flip: length_ring_contents)
  have c: "c = EVENT_BTN \<or> c = EVENT_RC" "c \<noteq> 0" using assms(3) p by (auto simp: key_packet_def event_defs)
  have h: "handle_event c (s\<lparr>expectEventData := c, expectEventId := False\<rparr>) =
      event_key (s\<lparr>expectEventData := c, expectEventId := False\<rparr>)"
    using c(1) by (auto simp: handle_event_def)
  let ?t = "(copy_keys s)\<lparr>RCV := ring_skip 8 (RCV s), expectEventData := 0, expectEventId := True\<rparr>"
  have "processResponse s = Some ?t"
    using assms p c(2) n h by (simp add: processResponse_head [of s c "cs @ q"] event_key_effect)
  moreover have "serial_inv ?t"
    using assms(1) copy_keys_wf [OF assms(1)] by (simp add: serial_inv_def)
  moreover have "ring_contents (ring_skip 8 (RCV s)) = q"
    using assms(1,2,3) n(1) by (simp add: serial_inv_def key_packet_def rg.skip_contents)
  moreover have "ring_contents (Key (copy_keys s)) = ring_contents (Key s) @ p"
    using copy_keys_contents [OF assms(1) n(1) assms(4)] assms(2,3) by (simp add: key_packet_def)
  ultimately show ?thesis
    using assms(3) by (simp add: panel_view_of_def view_packet_def)
qed

lemma process_answer:
  assumes "serial_inv s" "ring_contents (RCV s) = p @ q" "answer_packet p"
  shows "\<exists>t. processResponse s = Some t \<and> serial_inv t \<and> ring_contents (RCV t) = q \<and>
    panel_view_of t = view_packet p (panel_view_of s) \<and> Out t = Out s \<and> asc t = asc s \<and> dataReady t"
proof -
  obtain c cs where p: "p = c # cs" using assms(3) by (cases p) (simp_all add: answer_packet_def)
  have n: "8 \<le> ring_count (RCV s)" "ring_contents (RCV s) ! 7 = 0xd" "ring_contents (RCV s) \<noteq> []"
    using assms(2,3) p by (auto simp: answer_packet_def nth_append simp flip: length_ring_contents)
  let ?s = "s\<lparr>expectEventData := c, expectEventId := False\<rparr>"
  have c: "c = EVENT_ANSWER_GETTIME \<or> c = EVENT_ANSWER_WAKEUP_REASON \<or> c = EVENT_ANSWER_VERSION" "c \<noteq> 0"
    using assms(3) p by (auto simp: answer_packet_def event_defs)
  have h: "handle_event c ?s = event_answer 8 ?s"
    using c(1) by (auto simp: handle_event_def event_defs)
  have "ring_copy 8 (RCV s) (ring_end (RCV s)) = p"
    using assms n(3) by (simp add: ring_copy_end serial_inv_def answer_packet_def)
  then have e: "event_answer 8 ?s = Some (?s\<lparr>ioctl_data := p, errorOccured := False, dataReady := True, RCV := ring_skip 8 (RCV s)\<rparr>)"
    using assms(1,3) n by (simp add: event_answer_def getLen_key serial_inv_def handleCopyData_def copyData_def
        answer_packet_def ack_sem_up_def)
  let ?t = "s\<lparr>ioctl_data := p, errorOccured := False, dataReady := True, RCV := ring_skip 8 (RCV s),
    expectEventData := 0, expectEventId := True\<rparr>"
  have "processResponse s = Some ?t"
    using assms(1,2) p c(2) h e by (simp add: processResponse_head [of s c "cs @ q"])
  moreover have "serial_inv ?t"
    using assms(1,3) by (simp add: serial_inv_def answer_packet_def)
  moreover have "ring_contents (ring_skip 8 (RCV s)) = q"
    using assms(1,2,3) n(1) by (simp add: serial_inv_def answer_packet_def rg.skip_contents)
  moreover have "\<not> key_packet p"
    using assms(3) by (auto simp: key_packet_def answer_packet_def event_defs)
  ultimately show ?thesis
    using assms(3) by (simp add: panel_view_of_def view_packet_def)
qed

lemma status_packet_split: "status_packet p \<Longrightarrow> \<exists>b. p = b @ [0xd] \<and> 0xd \<notin> set b"
  unfolding status_packet_def by (metis append_butlast_last_id)

lemma process_status:
  assumes "serial_inv s" "ring_contents (RCV s) = p @ q" "status_packet p"
  shows "\<exists>t. processResponse s = Some t \<and> serial_inv t \<and> ring_contents (RCV t) = q \<and>
    panel_view_of t = view_packet p (panel_view_of s) \<and> Out t = Out s \<and> asc t = asc s \<and> dataReady t"
proof -
  obtain c cs where p: "p = c # cs" using assms(3) by (cases p) (simp_all add: status_packet_def)
  obtain b where b: "p = b @ [0xd]" "0xd \<notin> set b" using status_packet_split [OF assms(3)] by blast
  have ne: "ring_contents (RCV s) \<noteq> []" using assms(2) p by simp
  have "takeWhile (\<lambda>c. c \<noteq> 0xd) p = b" using b by (subst b(1), subst takeWhile_append2) auto
  then have g: "getLen (-1) (RCV s) = Some (int (length p))"
    using getLen_spec [OF _ ne, of "-1"] assms(1,2) b
    by (simp add: packet_end_any serial_inv_def del: append_assoc)
  let ?s = "s\<lparr>expectEventData := c, expectEventId := False\<rparr>"
  have c: "c = EVENT_ERR \<or> c = EVENT_OK1 \<or> c = EVENT_OK2" "c \<noteq> 0"
    using assms(3) p by (auto simp: status_packet_def event_defs)
  have h: "handle_event c ?s = event_status (c = EVENT_ERR) ?s"
    using c(1) by (auto simp: handle_event_def event_defs)
  let ?t = "s\<lparr>errorOccured := (c = EVENT_ERR), dataReady := True, RCV := ring_skip (length p) (RCV s),
    expectEventData := 0, expectEventId := True\<rparr>"
  have "processResponse s = Some ?t"
    using assms(1,2) p c(2) h g
    by (simp add: processResponse_head [of s c "cs @ q"] event_status_def ack_sem_up_def nat_add_distrib)
  moreover have "serial_inv ?t"
    using assms(1) by (simp add: serial_inv_def)
  moreover have "ring_contents (ring_skip (length p) (RCV s)) = q"
    using assms(1,2) by (simp add: serial_inv_def rg.skip_contents flip: length_ring_contents)
  moreover have "\<not> key_packet p" "\<not> answer_packet p"
    using c(1) p by (auto simp: key_packet_def answer_packet_def event_defs)
  ultimately show ?thesis
    using p by (simp add: panel_view_of_def view_packet_def)
qed

lemma process_packet:
  assumes "serial_inv s" "ring_contents (RCV s) = p @ q" "panel_packet p" "ring_count (Key s) + 8 \<le> 255"
  shows "\<exists>t. processResponse s = Some t \<and> serial_inv t \<and> ring_contents (RCV t) = q \<and>
    panel_view_of t = view_packet p (panel_view_of s) \<and> Out t = Out s \<and> asc t = asc s"
  using assms process_key [of s p q] process_answer [of s p q] process_status [of s p q]
  unfolding panel_packet_def by blast

text \<open>An incomplete one stays where it is.\<close>

lemma process_partial:
  assumes "serial_inv s" "ring_contents (RCV s) = q" "q \<noteq> []" "strict_prefix q p" "panel_packet p"
  shows "processResponse s = Some s"
proof -
  obtain c cs where q: "q = c # cs" using assms(3) by (cases q) auto
  obtain z zs where p: "p = c # cs @ z # zs"
    using assms(4) q by (auto elim!: strict_prefixE')
  have wf: "ring_wf (RCV s)" and ex: "expectEventId s" "expectEventData s = 0" using assms(1) by (simp_all add: serial_inv_def)
  have ne: "ring_contents (RCV s) \<noteq> []" using assms(2,3) by simp
  let ?s = "s\<lparr>expectEventData := c, expectEventId := False\<rparr>"
  have "handle_event c ?s = Some ?s"
  proof (cases "status_packet p")
    case True
    have "0xd \<notin> set q" using True p q by (auto simp: status_packet_def butlast_append)
    then have "getLen (-1) (RCV s) = Some 0"
      using getLen_spec [OF wf ne, of "-1"] packet_end_any [of 0 q "[]"] assms(2) by simp
    moreover have "c = EVENT_ERR \<or> c = EVENT_OK1 \<or> c = EVENT_OK2"
      using True p by (auto simp: status_packet_def)
    ultimately show ?thesis by (auto simp: handle_event_def event_status_def event_defs)
  next
    case False
    with assms(5) p have "length p = 8" and
      c: "c \<in> {EVENT_BTN, EVENT_RC, EVENT_ANSWER_GETTIME, EVENT_ANSWER_WAKEUP_REASON, EVENT_ANSWER_VERSION}"
      by (auto simp: panel_packet_def key_packet_def answer_packet_def)
    then have "ring_count (RCV s) < 8" using assms(2) p q by (simp flip: length_ring_contents)
    then have "getLen 8 (RCV s) = Some 0" using getLen_key [OF wf ne] by simp
    with c show ?thesis by (auto simp: handle_event_def event_key_def event_answer_def event_defs)
  qed
  moreover have "c \<noteq> 0" using assms(5) p
    by (auto simp: panel_packet_def key_packet_def answer_packet_def status_packet_def event_defs)
  ultimately show ?thesis
    using assms(1,2) q ex by (simp add: processResponse_head [of s c cs])
qed


subsection \<open>Interrupts\<close>

lemma rx_bytes: "fold rx_byte rx s = s\<lparr>RCV := fold ring_put rx (RCV s)\<rparr>"
  by (induction rx arbitrary: s) (simp_all add: rx_byte_def)

lemma ring_skip_skip: "ring_skip m (ring_skip n r) = ring_skip (n + m) r"
  by (simp add: ring_skip_def mod_add_left_eq add.assoc)

lemma ring_skip_0 [simp]: "ring_wf r \<Longrightarrow> ring_skip 0 r = r"
  by (simp add: ring_skip_def ring_wf_def)

lemma the_enabled_upd [simp]:
  "the_enabled (s\<lparr>RCV := r\<rparr>) = the_enabled s" "the_enabled (s\<lparr>Key := r\<rparr>) = the_enabled s" "the_enabled (s\<lparr>Out := r\<rparr>) = the_enabled s"
  by (simp_all add: the_enabled_def)

lemma the_enabled_off: "\<not> the_enabled (set_asc ASC_INT_EN (asc s ASC_INT_EN AND NOT ASC_INT_STA_THE) s)"
proof -
  have "(x AND NOT y) AND y = 0" for x y :: u32 by (rule bit_word_eqI) (auto simp: bit_simps)
  then show ?thesis by (simp add: the_enabled_def)
qed

lemma the_enabled_on: "the_enabled (set_asc ASC_INT_EN (asc s ASC_INT_EN OR ASC_INT_STA_THE) s)"
proof -
  have "(x OR y) AND y = y" for x y :: u32 by (rule bit_word_eqI) (auto simp: bit_simps)
  then show ?thesis by (simp add: the_enabled_def ASC_INT_STA_THE_def)
qed

lemma tx_loop_spec:
  "ring_wf (Out s) \<Longrightarrow> the_enabled s \<Longrightarrow>
   tx_loop n s = (take n (ring_contents (Out s)), s\<lparr>Out := ring_skip (min n (ring_count (Out s))) (Out s)\<rparr>)"
proof (induction n arbitrary: s)
  case (Suc n)
  show ?case
  proof (cases "ring_contents (Out s)")
    case Nil
    then have "ring_count (Out s) = 0" by (simp flip: length_ring_contents)
    with Nil Suc.prems show ?thesis by (simp add: ring_empty)
  next
    case (Cons c cs)
    then have k: "ring_count (Out s) = Suc (length cs)" by (simp flip: length_ring_contents)
    have "ring_contents (ring_skip 1 (Out s)) = cs" "ring_count (ring_skip 1 (Out s)) = length cs"
      using Suc.prems(1) Cons k by (simp_all add: ring_skip_contents ring_skip_count)
    moreover have "ring_start (Out s) \<noteq> ring_end (Out s)" using Suc.prems(1) Cons by (simp add: ring_empty)
    ultimately show ?thesis
      using Suc.prems Cons k Suc.IH [of "s\<lparr>Out := ring_skip 1 (Out s)\<rparr>"] ring_contents_cong [OF Cons]
      by (simp add: ring_skip_skip)
  qed
qed simp

lemma tx_loop_off: "\<not> the_enabled s \<Longrightarrow> tx_loop n s = ([], s)"
  by (cases n) simp_all

lemma FP_interrupt_spec:
  assumes "ring_wf (Out s)" "FP_interrupt rx room s = (tx, t)"
  shows "tx = (if the_enabled s then take room (ring_contents (Out s)) else [])"
    and "ring_wf (Out t)"
    and "ring_contents (Out s) = tx @ ring_contents (Out t)"
    and "the_enabled t \<longleftrightarrow> the_enabled s \<and> ring_contents (Out t) \<noteq> []"
    and "RCV t = fold ring_put rx (RCV s)"
    and "Key t = Key s \<and> ioctl_data t = ioctl_data s \<and> errorOccured t = errorOccured s \<and> dataReady t = dataReady s \<and>
      expectEventId t = expectEventId s \<and> expectEventData t = expectEventData s"
    and "ring_start (Out t) = ring_start (Out s) \<and> ring_buf (Out t) = ring_buf (Out s)"
proof -
  define r where "r = (if the_enabled s then ring_skip (min room (ring_count (Out s))) (Out s) else Out s)"
  let ?s = "s\<lparr>RCV := fold ring_put rx (RCV s), Out := r\<rparr>"
  have tx: "tx = (if the_enabled s then take room (ring_contents (Out s)) else [])"
    and t: "t = (if ring_start r = ring_end r \<and> the_enabled s
                 then set_asc ASC_INT_EN (asc s ASC_INT_EN AND NOT ASC_INT_STA_THE) ?s else ?s)"
    using assms by (auto simp: r_def FP_interrupt_def rx_bytes tx_loop_spec tx_loop_off Let_def split: prod.splits if_splits)
  have rt: "Out t = r" using t by simp
  have c: "ring_contents r = drop (length tx) (ring_contents (Out s))"
    using assms(1) tx by (simp add: r_def rg.skip_contents min_def)
  show "tx = (if the_enabled s then take room (ring_contents (Out s)) else [])" by (fact tx)
  show wf: "ring_wf (Out t)" using assms(1) rt by (simp add: r_def)
  show "ring_contents (Out s) = tx @ ring_contents (Out t)"
    using c rt tx by (auto simp: min_def)
  show "the_enabled t \<longleftrightarrow> the_enabled s \<and> ring_contents (Out t) \<noteq> []"
  proof (cases "ring_start r = ring_end r \<and> the_enabled s")
    case True
    then have "\<not> the_enabled t" using t the_enabled_off [of ?s] by simp
    with True ring_empty [OF wf] rt show ?thesis by simp
  next
    case False
    with t have "the_enabled t = the_enabled s" by simp
    with False ring_empty [OF wf] rt show ?thesis by auto
  qed
  show "RCV t = fold ring_put rx (RCV s)" using t by simp
  show "Key t = Key s \<and> ioctl_data t = ioctl_data s \<and> errorOccured t = errorOccured s \<and> dataReady t = dataReady s \<and>
      expectEventId t = expectEventId s \<and> expectEventData t = expectEventData s" using t by simp
  show "ring_start (Out t) = ring_start (Out s) \<and> ring_buf (Out t) = ring_buf (Out s)" using rt by (simp add: r_def ring_skip_def)
qed

end
