(* ===== verification/Micom_Transport.thy ===== *)
theory Micom_Transport
  imports Micom_Serial
begin

text \<open>
  Interrupts, the task, a writer and a reader of the front panel driver running side by side. The steps of a writer
  inside \<open>micom_putc\<close> are separate, so that an interrupt can come between them; the task's \<open>processResponse\<close> and
  the removal of a key are steps of their own. The two theorems say that both directions are reliable as long as no
  ring overflows: the bytes sent are the bytes written, in order and without the interrupt ever being left off while
  bytes wait, and whatever pieces the packets of the panel arrive in, each of them takes effect once and in order.
\<close>

subsection \<open>Runs\<close>

datatype putc_pc = Idle | Stored | Advanced

text \<open>The bytes passed to \<open>micom_putc\<close>, where the writer is, the bytes on the line, and the state reached.\<close>

inductive tx_run :: "micom_serial \<Rightarrow> bytes \<Rightarrow> putc_pc \<Rightarrow> bytes \<Rightarrow> micom_serial \<Rightarrow> bool" for s where
  tx_start: "tx_run s [] Idle [] s"
| tx_store: "tx_run s ps Idle sent t \<Longrightarrow> ring_count (Out t) < 255 \<Longrightarrow> tx_run s (ps @ [c]) Stored sent (putc_store c t)"
| tx_advance: "tx_run s ps Stored sent t \<Longrightarrow> tx_run s ps Advanced sent (putc_advance t)"
| tx_enable: "tx_run s ps Advanced sent t \<Longrightarrow> tx_run s ps Idle sent (putc_enable t)"
| tx_irq: "tx_run s ps pc sent t \<Longrightarrow> FP_interrupt rx room t = (tx, t') \<Longrightarrow> tx_run s ps pc (sent @ tx) t'"
| tx_task: "tx_run s ps pc sent t \<Longrightarrow> processResponse t = Some t' \<Longrightarrow> tx_run s ps pc sent t'"
| tx_key: "tx_run s ps pc sent t \<Longrightarrow> tx_run s ps pc sent (snd (snd (key_data t)))"

text \<open>The bytes the panel has sent, the bytes read from the remote control device, and the state reached.\<close>

inductive rx_run :: "micom_serial \<Rightarrow> bytes \<Rightarrow> bytes \<Rightarrow> micom_serial \<Rightarrow> bool" for s where
  rx_start: "rx_run s [] [] s"
| rx_irq: "rx_run s bs got t \<Longrightarrow> ring_count (RCV t) + length rx \<le> 255 \<Longrightarrow> FP_interrupt rx room t = (tx, t') \<Longrightarrow>
    rx_run s (bs @ rx) got t'"
| rx_task: "rx_run s bs got t \<Longrightarrow> ring_start (RCV t) \<noteq> ring_end (RCV t) \<Longrightarrow> ring_count (Key t) + 8 \<le> 255 \<Longrightarrow>
    processResponse t = Some t' \<Longrightarrow> rx_run s bs got t'"
| rx_putc: "rx_run s bs got t \<Longrightarrow> rx_run s bs got (micom_putc c t)"
| rx_key: "rx_run s bs got t \<Longrightarrow> getRCData wait t = Some (n, data, t') \<Longrightarrow> ring_start (Key t) \<noteq> ring_end (Key t) \<Longrightarrow>
    rx_run s bs (got @ take (nat n) data) t'"

text \<open>The packets that have arrived completely, and the keys among them.\<close>

definition view_packets :: "bytes list \<Rightarrow> panel_view \<Rightarrow> panel_view" where
  "view_packets ps v = fold view_packet ps v"

subsection \<open>Sending\<close>

lemma event_keeps:
  "event_key s = Some t \<Longrightarrow> Out t = Out s \<and> asc t = asc s"
  "event_status e s = Some t \<Longrightarrow> Out t = Out s \<and> asc t = asc s"
  "event_answer n s = Some t \<Longrightarrow> Out t = Out s \<and> asc t = asc s"
  by (auto simp: event_key_def event_status_def event_answer_def handleCopyData_def copyData_def ack_sem_up_def
      bind_eq_Some_conv split: if_splits)

lemma processResponse_keeps:
  assumes "processResponse s = Some t"
  shows "Out t = Out s \<and> asc t = asc s"
proof -
  have "handle_event ev u = Some v \<Longrightarrow> Out v = Out u \<and> asc v = asc u" for ev u v
    unfolding handle_event_def by (auto split: if_splits dest: event_keeps)
  with assms show ?thesis
    by (fastforce simp: processResponse_def bind_eq_Some_conv Let_def split: if_splits)
qed

lemma putc_pieces [simp]:
  "Out (putc_store c s) = ring_store c (Out s)" "the_enabled (putc_store c s) = the_enabled s"
  "Out (putc_advance s) = ring_advance (Out s)" "the_enabled (putc_advance s) = the_enabled s"
  "Out (putc_enable s) = Out s" "the_enabled (putc_enable s)"
  "RCV (putc_store c s) = RCV s" "RCV (putc_advance s) = RCV s" "RCV (putc_enable s) = RCV s"
  using the_enabled_on [of s]
  by (simp_all add: putc_store_def putc_advance_def putc_enable_def the_enabled_def)

lemma the_enabled_cong: "asc t = asc s \<Longrightarrow> the_enabled t = the_enabled s"
  by (simp add: the_enabled_def)

definition tx_ok :: "bytes \<Rightarrow> putc_pc \<Rightarrow> bytes \<Rightarrow> micom_serial \<Rightarrow> bool" where
  "tx_ok ps pc sent t \<longleftrightarrow> ring_wf (Out t) \<and>
     ps = sent @ ring_contents (Out t) @ (if pc = Stored then [ring_buf (Out t) ! ring_start (Out t)] else []) \<and>
     (pc = Stored \<longrightarrow> ring_count (Out t) < 255) \<and>
     (pc \<noteq> Advanced \<longrightarrow> ring_contents (Out t) \<noteq> [] \<longrightarrow> the_enabled t)"

lemma tx_run_ok:
  assumes "tx_run s ps pc sent t" "ring_wf (Out s)" "ring_contents (Out s) = []"
  shows "tx_ok ps pc sent t"
  using assms(1)
proof induction
  case tx_start
  with assms(2,3) show ?case by (simp add: tx_ok_def)
next
  case (tx_store ps sent t c)
  then show ?case by (auto simp: tx_ok_def ring_store_contents)
next
  case (tx_advance ps sent t)
  then show ?case by (simp add: tx_ok_def ring_advance_contents)
next
  case (tx_enable ps sent t)
  then show ?case by (simp add: tx_ok_def)
next
  case (tx_irq ps pc sent t rx room tx t')
  have wf: "ring_wf (Out t)" using tx_irq.IH by (simp add: tx_ok_def)
  have "ring_count (Out t') \<le> ring_count (Out t)"
    by (metis FP_interrupt_spec(3) wf tx_irq.hyps(2) length_append length_ring_contents le_add2)
  with FP_interrupt_spec [OF wf tx_irq.hyps(2)] tx_irq.IH show ?case
    by (auto simp: tx_ok_def)
next
  case (tx_task ps pc sent t t')
  with processResponse_keeps [OF tx_task.hyps(2)] the_enabled_cong [of t' t] show ?case by (simp add: tx_ok_def)
next
  case (tx_key ps pc sent t)
  then show ?case by (simp add: tx_ok_def key_data_def Let_def)
qed

text \<open>
  Claim C21. Everything written to the front panel reaches the line: however interrupts, the task and readers of keys
  fall between the steps of \<open>micom_putc\<close>, the bytes on the line are at every moment a prefix of the bytes written, in
  order, as long as no more than 255 bytes wait; and whenever the writer is between two calls, the interrupt is enabled if
  bytes wait, and the next interrupt puts as many of the waiting bytes on the line as the controller has room for, and
  turns itself off exactly when none is left.
\<close>

theorem micom_sends_in_order:
  assumes "tx_run s ps pc sent t" "ring_wf (Out s)" "ring_contents (Out s) = []"
  shows "prefix sent ps \<and>
    (pc = Idle \<longrightarrow>
       (sent \<noteq> ps \<longrightarrow> the_enabled t) \<and>
       (\<forall>rx room. fst (FP_interrupt rx room t) = take room (drop (length sent) ps) \<and>
          (sent \<noteq> ps \<longrightarrow> the_enabled (snd (FP_interrupt rx room t)) = (length ps - length sent > room))))"
proof -
  have ok: "tx_ok ps pc sent t" using tx_run_ok [OF assms] .
  then have wf: "ring_wf (Out t)" and p: "prefix sent ps" by (auto simp: tx_ok_def)
  have "(sent \<noteq> ps \<longrightarrow> the_enabled t) \<and>
      fst (FP_interrupt rx room t) = take room (drop (length sent) ps) \<and>
      (sent \<noteq> ps \<longrightarrow> the_enabled (snd (FP_interrupt rx room t)) = (length ps - length sent > room))" if "pc = Idle" for rx room
  proof -
    have ps: "ps = sent @ ring_contents (Out t)" and en: "ring_contents (Out t) \<noteq> [] \<longrightarrow> the_enabled t"
      using ok that by (auto simp: tx_ok_def)
    obtain tx t' where f: "FP_interrupt rx room t = (tx, t')" by (cases "FP_interrupt rx room t")
    note spec = FP_interrupt_spec [OF wf f]
    have tx: "tx = take room (ring_contents (Out t))" using spec(1) en by auto
    then have "ring_contents (Out t') = drop room (ring_contents (Out t))"
      using spec(3) by (metis append_take_drop_id same_append_eq)
    then have "ring_contents (Out t') \<noteq> [] \<longleftrightarrow> room < length (ring_contents (Out t))" by auto
    with ps en f tx spec(4) show ?thesis by auto
  qed
  with p show ?thesis by blast
qed


lemma tx_run_byte:
  assumes "tx_run s ps Idle sent t" "ring_count (Out t) < 255"
  shows "tx_run s (ps @ [c]) Idle sent (micom_putc c t)"
  unfolding micom_putc_def by (rule tx_enable, rule tx_advance, rule tx_store, fact+)

theorem micom_sends_in_order_witness:
  "\<exists>t. tx_run (micom_serial_static (\<lambda>_. 0)) [0x33, 0x41] Idle [0x33] t \<and>
     fst (FP_interrupt [] 16 t) = [0x41] \<and> the_enabled t \<and> \<not> the_enabled (snd (FP_interrupt [] 16 t))"
proof -
  let ?s = "micom_serial_static (\<lambda>_. 0)"
  have s: "ring_wf (Out ?s)" "ring_contents (Out ?s) = []"
    by (simp_all add: micom_serial_static_def ring_static_def ring_wf_def BUFFERSIZE_def ring_contents_def ring_count_def)
  have c0: "ring_count (Out ?s) < 255" using s(2) by (simp flip: length_ring_contents)
  have r1: "tx_run ?s [0x33] Idle [] (micom_putc 0x33 ?s)"
    using tx_run_byte [OF tx_start c0] by simp
  obtain tx t where f: "FP_interrupt [] 16 (micom_putc 0x33 ?s) = (tx, t)" by (cases "FP_interrupt [] 16 (micom_putc 0x33 ?s)")
  have tx: "tx = [0x33]" using micom_sends_in_order [OF r1 s] f by (metis drop0 fst_conv list.size(3) take_all_iff
        length_Cons One_nat_def numeral_le_one_iff one_le_numeral)
  then have r2: "tx_run ?s [0x33] Idle [0x33] t" using tx_irq [OF r1 f] by simp
  have "tx_ok [0x33] Idle [0x33] t" using tx_run_ok [OF r2 s] .
  then have "ring_contents (Out t) = []" by (simp add: tx_ok_def)
  then have "ring_count (Out t) < 255" by (simp flip: length_ring_contents)
  then have r3: "tx_run ?s [0x33, 0x41] Idle [0x33] (micom_putc 0x41 t)"
    using tx_run_byte [OF r2] by simp
  with micom_sends_in_order [OF r3 s] show ?thesis by auto
qed

subsection \<open>Receiving\<close>

lemma FP_interrupt_inv:
  assumes "serial_inv s" "FP_interrupt rx room s = (tx, t)"
  shows "serial_inv t \<and> panel_view_of t = panel_view_of s \<and> RCV t = fold ring_put rx (RCV s) \<and> Key t = Key s"
  using FP_interrupt_spec [of s rx room tx t] assms
  by (auto simp: serial_inv_def panel_view_of_def rg.put_all_wf)

lemma micom_putc_inv:
  "serial_inv s \<Longrightarrow> serial_inv (micom_putc c s) \<and> panel_view_of (micom_putc c s) = panel_view_of s \<and>
     RCV (micom_putc c s) = RCV s \<and> Key (micom_putc c s) = Key s"
  by (simp add: serial_inv_def panel_view_of_def micom_putc_def putc_enable_def putc_advance_def putc_store_def)

text \<open>A key is read as it came, when whole keys wait.\<close>

lemma key_data_spec:
  assumes "serial_inv s" "8 \<le> ring_count (Key s)" "key_data s = (n, data, t)"
  shows "n = 8" "take (nat n) data = take 8 (ring_contents (Key s))" "serial_inv t"
    "ring_contents (Key s) = take 8 data @ ring_contents (Key t)" "RCV t = RCV s"
    "ioctl_data t = ioctl_data s" "errorOccured t = errorOccured s" "ring_count (Key t) = ring_count (Key s) - 8"
proof -
  have wf: "ring_wf (Key s)" and ne: "ring_contents (Key s) \<noteq> []"
    using assms(1,2) by (auto simp: serial_inv_def simp flip: length_ring_contents)
  have d: "data = take 8 (ring_contents (Key s)) @ replicate 12 0" and n: "n = 8"
    and t: "t = s\<lparr>Key := ring_skip 8 (Key s)\<rparr>"
    using assms(2,3) by (auto simp: key_data_def ring_copy_end [OF wf ne] cPackageSize_def Let_def min_def)
  show "n = 8" by (fact n)
  show "take (nat n) data = take 8 (ring_contents (Key s))" using n d assms(2) by simp
  show "serial_inv t" using assms(1) t by (simp add: serial_inv_def)
  show "ring_contents (Key s) = take 8 data @ ring_contents (Key t)"
    using t d assms(2) wf by (simp add: rg.skip_contents)
  show "ring_count (Key t) = ring_count (Key s) - 8" using t wf assms(2) by (simp add: ring_skip_count)
  show "RCV t = RCV s" "ioctl_data t = ioctl_data s" "errorOccured t = errorOccured s" using t by simp_all
qed

lemma view_packets_snoc: "k < length ps \<Longrightarrow> view_packets (take (Suc k) ps) v = view_packet (ps ! k) (view_packets (take k ps) v)"
  by (simp add: view_packets_def take_Suc_conv_app_nth)

lemma packet_size: "panel_packet p \<Longrightarrow> p \<noteq> []"
  by (auto simp: panel_packet_def key_packet_def answer_packet_def status_packet_def)

lemma view_keys_dvd: "8 dvd length (view_keys v) \<Longrightarrow> 8 dvd length (view_keys (view_packet p v))"
  by (simp add: view_packet_def key_packet_def)

definition rx_ok :: "bytes list \<Rightarrow> panel_view \<Rightarrow> bytes \<Rightarrow> bytes \<Rightarrow> micom_serial \<Rightarrow> nat \<Rightarrow> bool" where
  "rx_ok ps v bs got t k \<longleftrightarrow> serial_inv t \<and> k \<le> length ps \<and> bs = concat (take k ps) @ ring_contents (RCV t) \<and>
     (panel_view_of t)\<lparr>view_keys := got @ view_keys (panel_view_of t)\<rparr> = view_packets (take k ps) v \<and>
     8 dvd ring_count (Key t)"

lemma rx_ok_task:
  assumes "rx_ok ps v bs got t k" "list_all panel_packet ps" "prefix bs (concat ps)"
    "ring_start (RCV t) \<noteq> ring_end (RCV t)" "ring_count (Key t) + 8 \<le> 255" "processResponse t = Some t'"
  shows "\<exists>k. rx_ok ps v bs got t' k"
proof -
  let ?q = "ring_contents (RCV t)"
  have inv: "serial_inv t" and k: "k \<le> length ps" and bs: "bs = concat (take k ps) @ ?q"
    and v: "(panel_view_of t)\<lparr>view_keys := got @ view_keys (panel_view_of t)\<rparr> = view_packets (take k ps) v"
    and d: "8 dvd ring_count (Key t)"
    using assms(1) by (simp_all add: rx_ok_def)
  have ne: "?q \<noteq> []" using assms(4) inv ring_empty [of "RCV t"] by (simp add: serial_inv_def)
  have "concat ps = concat (take k ps) @ concat (drop k ps)" by (metis append_take_drop_id concat_append)
  then have q: "prefix ?q (concat (drop k ps))" using assms(3) bs by simp
  then have "drop k ps \<noteq> []" using ne by (auto simp: prefix_Nil)
  then have kl: "k < length ps" by simp
  then have p: "panel_packet (ps ! k)" using assms(2) by (simp add: list_all_length)
  have "drop k ps = ps ! k # drop (Suc k) ps" using kl by (simp add: Cons_nth_drop_Suc)
  then have "prefix ?q (ps ! k @ concat (drop (Suc k) ps))" using q by simp
  then consider (whole) q' where "?q = ps ! k @ q'" | (part) "strict_prefix ?q (ps ! k)"
    unfolding prefix_append by (metis append_Nil2 strict_prefix_def)
  then show ?thesis
  proof cases
    case whole
    from process_packet [OF inv whole p assms(5)] assms(6)
    have t': "serial_inv t'" "ring_contents (RCV t') = q'" "panel_view_of t' = view_packet (ps ! k) (panel_view_of t)" by auto
    have "rx_ok ps v bs got t' (Suc k)"
      unfolding rx_ok_def
    proof (intro conjI)
      show "bs = concat (take (Suc k) ps) @ ring_contents (RCV t')"
        using bs whole t'(2) kl by (simp add: take_Suc_conv_app_nth)
      show "(panel_view_of t')\<lparr>view_keys := got @ view_keys (panel_view_of t')\<rparr> = view_packets (take (Suc k) ps) v"
        unfolding view_packets_snoc [OF kl] v [symmetric] t'(3) by (simp add: view_packet_def)
      show "8 dvd ring_count (Key t')"
        using d view_keys_dvd [of "panel_view_of t" "ps ! k"] t'(3) by (metis length_ring_contents panel_view.select_convs(1) panel_view_of_def)
    qed (use t' kl in simp_all)
    then show ?thesis ..
  next
    case part
    with process_partial [OF inv refl ne part p] assms(1,6) show ?thesis by auto
  qed
qed

lemma rx_run_ok:
  assumes "rx_run s bs got t" "serial_inv s" "ring_contents (RCV s) = []" "8 dvd ring_count (Key s)"
    "list_all panel_packet ps" "prefix bs (concat ps)"
  shows "\<exists>k. rx_ok ps (panel_view_of s) bs got t k"
  using assms(1,6)
proof induction
  case rx_start
  with assms(2-4) have "rx_ok ps (panel_view_of s) [] [] s 0"
    by (simp add: rx_ok_def view_packets_def panel_view_of_def)
  then show ?case ..
next
  case (rx_irq bs got t rx room tx t')
  then obtain k where k: "rx_ok ps (panel_view_of s) bs got t k" by (auto dest: append_prefixD)
  then have inv: "serial_inv t" by (simp add: rx_ok_def)
  with FP_interrupt_inv [OF inv rx_irq.hyps(3)] rg.put_all [of "RCV t" rx] rg.put_all_wf [of "RCV t" rx] rx_irq.hyps(2) k
  have "rx_ok ps (panel_view_of s) (bs @ rx) got t' k" by (simp add: rx_ok_def serial_inv_def)
  then show ?case ..
next
  case (rx_task bs got t t')
  then obtain k where "rx_ok ps (panel_view_of s) bs got t k" by auto
  from rx_ok_task [OF this assms(5) rx_task.prems rx_task.hyps(2-4)] show ?case .
next
  case (rx_putc bs got t c)
  then obtain k where k: "rx_ok ps (panel_view_of s) bs got t k" by auto
  then have "rx_ok ps (panel_view_of s) bs got (micom_putc c t) k"
    using micom_putc_inv [of t c] by (simp add: rx_ok_def)
  then show ?case ..
next
  case (rx_key bs got t wait n data t')
  then obtain k where k: "rx_ok ps (panel_view_of s) bs got t k" by auto
  then have inv: "serial_inv t" and d: "8 dvd ring_count (Key t)" by (simp_all add: rx_ok_def)
  have "ring_contents (Key t) \<noteq> []" using rx_key.hyps(3) inv ring_empty [of "Key t"] by (simp add: serial_inv_def)
  then have "0 < ring_count (Key t)" by (metis length_greater_0_conv length_ring_contents)
  with d have le: "8 \<le> ring_count (Key t)" by (simp add: dvd_imp_le)
  have "key_data t = (n, data, t')" using rx_key.hyps(2,3) by (simp add: getRCData_def)
  from key_data_spec [OF inv le this] k d le
  have "rx_ok ps (panel_view_of s) bs (got @ take (nat n) data) t' k"
    by (simp add: rx_ok_def panel_view_of_def dvd_diff_nat)
  then show ?case ..
qed

lemma micomTask_packets:
  "serial_inv t \<Longrightarrow> ring_contents (RCV t) = concat qs \<Longrightarrow> list_all panel_packet qs \<Longrightarrow> ring_count (Key t) + 8 * length qs \<le> 255 \<Longrightarrow>
   \<exists>t'. micomTask_rounds (length qs) t = Some t' \<and> serial_inv t' \<and> ring_contents (RCV t') = [] \<and>
     panel_view_of t' = view_packets qs (panel_view_of t)"
proof (induction qs arbitrary: t)
  case Nil
  then show ?case by (simp add: view_packets_def)
next
  case (Cons p qs)
  have p: "panel_packet p" using Cons.prems(3) by simp
  have "ring_start (RCV t) \<noteq> ring_end (RCV t)"
    using Cons.prems(1,2) packet_size [OF p] ring_empty [of "RCV t"] by (simp add: serial_inv_def)
  moreover obtain u where u: "processResponse t = Some u" "serial_inv u" "ring_contents (RCV u) = concat qs"
      "panel_view_of u = view_packet p (panel_view_of t)"
    using process_packet [OF Cons.prems(1) _ p, of "concat qs"] Cons.prems(2,4) by auto
  moreover have "ring_count (Key u) \<le> ring_count (Key t) + 8"
  proof -
    have "length (view_keys (panel_view_of u)) \<le> length (view_keys (panel_view_of t)) + 8"
      using u(4) by (simp add: view_packet_def key_packet_def)
    then show ?thesis by (simp add: panel_view_of_def)
  qed
  ultimately show ?case
    using Cons.IH [OF u(2,3)] Cons.prems(3,4) by (simp add: view_packets_def)
qed


lemma view_keys_packets: "view_keys (view_packets qs v) = view_keys v @ concat (filter key_packet qs)"
  by (induction qs arbitrary: v) (simp_all add: view_packets_def view_packet_def)

lemma view_packets_keys:
  "view_answer v = view_answer w \<Longrightarrow> view_error v = view_error w \<Longrightarrow>
   view_answer (view_packets qs v) = view_answer (view_packets qs w) \<and> view_error (view_packets qs v) = view_error (view_packets qs w)"
proof (induction qs arbitrary: v w)
  case (Cons q qs)
  show ?case
    using Cons.prems Cons.IH [of "view_packet q v" "view_packet q w"] by (simp add: view_packets_def view_packet_def)
qed (simp add: view_packets_def)

lemma view_packets_append: "view_packets (ps @ qs) v = view_packets qs (view_packets ps v)"
  by (simp add: view_packets_def)

text \<open>
  Claim C20. The panel's packets take effect once each and in order, however the line cuts them into interrupts and however
  the interrupts fall between rounds of the task, writers and readers of keys, as long as the rings do not overflow: at
  every moment the first \<open>k\<close> packets have been handled and the bytes behind them wait in the receive ring; the keys read
  so far with those that wait are the key packets among the first \<open>k\<close>, byte for byte; the answer and the error flag are
  those of the last answer and of the last reply among them. Once all bytes have arrived, one round of the task for each
  packet that waits empties the receive ring, and all packets have been handled.
\<close>

theorem micom_receives_in_order:
  assumes "rx_run s bs got t" "serial_inv s" "ring_contents (RCV s) = []" "ring_contents (Key s) = []"
    "list_all panel_packet ps" "prefix bs (concat ps)"
  shows "\<exists>k\<le>length ps. bs = concat (take k ps) @ ring_contents (RCV t) \<and>
    got @ ring_contents (Key t) = concat (filter key_packet (take k ps)) \<and>
    ioctl_data t = view_answer (view_packets (take k ps) (panel_view_of s)) \<and>
    errorOccured t = view_error (view_packets (take k ps) (panel_view_of s)) \<and>
    (bs = concat ps \<longrightarrow> ring_count (Key t) + 8 * (length ps - k) \<le> 255 \<longrightarrow>
      (\<exists>t'. micomTask_rounds (length ps - k) t = Some t' \<and> ring_contents (RCV t') = [] \<and>
         got @ ring_contents (Key t') = concat (filter key_packet ps) \<and>
         ioctl_data t' = view_answer (view_packets ps (panel_view_of s)) \<and>
         errorOccured t' = view_error (view_packets ps (panel_view_of s))))"
proof -
  have "ring_count (Key s) = 0" using assms(4) by (simp flip: length_ring_contents)
  then obtain k where k: "rx_ok ps (panel_view_of s) bs got t k" using rx_run_ok [OF assms(1-3) _ assms(5,6)] by auto
  then have inv: "serial_inv t" and kl: "k \<le> length ps" and bs: "bs = concat (take k ps) @ ring_contents (RCV t)"
    and v: "(panel_view_of t)\<lparr>view_keys := got @ view_keys (panel_view_of t)\<rparr> = view_packets (take k ps) (panel_view_of s)"
    by (simp_all add: rx_ok_def)
  note vw = arg_cong [OF v, of view_keys] arg_cong [OF v, of view_answer] arg_cong [OF v, of view_error]
  have rest: "\<exists>t'. micomTask_rounds (length ps - k) t = Some t' \<and> ring_contents (RCV t') = [] \<and>
         got @ ring_contents (Key t') = concat (filter key_packet ps) \<and>
         ioctl_data t' = view_answer (view_packets ps (panel_view_of s)) \<and>
         errorOccured t' = view_error (view_packets ps (panel_view_of s))"
    if arrived: "bs = concat ps" and small: "ring_count (Key t) + 8 * (length ps - k) \<le> 255"
  proof -
    have "concat ps = concat (take k ps) @ concat (drop k ps)" by (metis append_take_drop_id concat_append)
    then have "ring_contents (RCV t) = concat (drop k ps)" using bs arrived by simp
    moreover have "list_all panel_packet (drop k ps)" using assms(5) by (auto simp: list_all_iff dest: in_set_dropD)
    ultimately obtain t' where t': "micomTask_rounds (length ps - k) t = Some t'" "ring_contents (RCV t') = []"
        "panel_view_of t' = view_packets (drop k ps) (panel_view_of t)"
      using micomTask_packets [OF inv, of "drop k ps"] small by auto
    have all: "view_packets ps (panel_view_of s) = view_packets (drop k ps) (view_packets (take k ps) (panel_view_of s))"
      by (simp flip: view_packets_append)
    have "got @ ring_contents (Key t') = concat (filter key_packet ps)"
      using arg_cong [OF t'(3), of view_keys] arg_cong [OF all, of view_keys] vw(1) assms(4)
      by (simp add: view_keys_packets panel_view_of_def)
    moreover have "view_answer (panel_view_of t') = view_answer (view_packets ps (panel_view_of s)) \<and>
        view_error (panel_view_of t') = view_error (view_packets ps (panel_view_of s))"
      unfolding t'(3) all by (rule view_packets_keys) (simp_all flip: v)
    ultimately show ?thesis using t' by (simp add: panel_view_of_def)
  qed
  have "got @ ring_contents (Key t) = concat (filter key_packet (take k ps))"
    using vw(1) assms(4) by (simp add: view_keys_packets panel_view_of_def)
  moreover have "ioctl_data t = view_answer (view_packets (take k ps) (panel_view_of s))"
    "errorOccured t = view_error (view_packets (take k ps) (panel_view_of s))"
    using vw(2,3) by (simp_all add: panel_view_of_def)
  ultimately show ?thesis
    using kl bs rest by (intro exI [of _ k] conjI impI) simp_all
qed

theorem micom_receives_in_order_witness:
  "\<exists>t t'. rx_run (micom_serial_static (\<lambda>_. 0)) [0xd2, 1, 0, 0, 0, 0, 0, 0xd, 0xF1, 0xd] [] t \<and>
     micomTask_rounds 2 t = Some t' \<and> ring_contents (RCV t') = [] \<and> ring_contents (Key t') = [0xd2, 1, 0, 0, 0, 0, 0, 0xd] \<and>
     \<not> errorOccured t'"
proof -
  let ?s = "micom_serial_static (\<lambda>_. 0)"
  let ?p = "[0xd2, 1, 0, 0, 0, 0, 0, 0xd] :: bytes"
  let ?q = "[0xF1, 0xd] :: bytes"
  have wf: "ring_wf ring_static" and c: "ring_contents ring_static = []" and n: "ring_count ring_static = 0"
    by (simp_all add: ring_static_def ring_wf_def BUFFERSIZE_def ring_contents_def ring_count_def)
  have s: "serial_inv ?s" "ring_contents (RCV ?s) = []" "ring_contents (Key ?s) = []" "ring_count (RCV ?s) = 0" "ring_count (Key ?s) = 0"
    using wf c n by (simp_all add: micom_serial_static_def serial_inv_def)
  obtain tx t where f: "FP_interrupt (?p @ ?q) 0 ?s = (tx, t)" by (cases "FP_interrupt (?p @ ?q) 0 ?s")
  have r: "rx_run ?s (?p @ ?q) [] t" using rx_irq [OF rx_start _ f] s(4) by simp
  have pk: "list_all panel_packet [?p, ?q]" and kq: "\<not> key_packet ?q" and kp: "key_packet ?p"
    by (simp_all add: panel_packet_def key_packet_def status_packet_def answer_packet_def event_defs)
  have inv: "Key t = Key ?s" "ring_contents (RCV t) = ?p @ ?q"
    using FP_interrupt_inv [OF s(1) f] rg.put_all [of "RCV ?s" "?p @ ?q"] s by (simp_all add: serial_inv_def)
  have "prefix (?p @ ?q) (concat [?p, ?q])" by simp
  note main = micom_receives_in_order [OF r s(1-3) pk this]
  obtain k where K: "k \<le> length [?p, ?q] \<and> ?p @ ?q = concat (take k [?p, ?q]) @ ring_contents (RCV t) \<and>
    [] @ ring_contents (Key t) = concat (filter key_packet (take k [?p, ?q])) \<and>
    ioctl_data t = view_answer (view_packets (take k [?p, ?q]) (panel_view_of ?s)) \<and>
    errorOccured t = view_error (view_packets (take k [?p, ?q]) (panel_view_of ?s)) \<and>
    (?p @ ?q = concat [?p, ?q] \<longrightarrow> ring_count (Key t) + 8 * (length [?p, ?q] - k) \<le> 255 \<longrightarrow>
        (\<exists>t'. micomTask_rounds (length [?p, ?q] - k) t = Some t' \<and> ring_contents (RCV t') = [] \<and>
         [] @ ring_contents (Key t') = concat (filter key_packet [?p, ?q]) \<and>
         ioctl_data t' = view_answer (view_packets [?p, ?q] (panel_view_of ?s)) \<and>
         errorOccured t' = view_error (view_packets [?p, ?q] (panel_view_of ?s))))"
    using main by (rule exE)
  note k = K [THEN conjunct1] K [THEN conjunct2, THEN conjunct1]
  note d = K [THEN conjunct2, THEN conjunct2, THEN conjunct2, THEN conjunct2, THEN conjunct2]
  have two: "length [?p, ?q] - 0 = 2" "?p @ ?q = concat [?p, ?q]" by simp_all
  have "concat (take k [?p, ?q]) = []" using k(2) inv(2) by (metis self_append_conv2 same_append_eq append_same_eq)
  then have "k = 0" by (cases k) simp_all
  then have "\<exists>t'. micomTask_rounds 2 t = Some t' \<and> ring_contents (RCV t') = [] \<and>
         [] @ ring_contents (Key t') = concat (filter key_packet [?p, ?q]) \<and>
         ioctl_data t' = view_answer (view_packets [?p, ?q] (panel_view_of ?s)) \<and>
         errorOccured t' = view_error (view_packets [?p, ?q] (panel_view_of ?s))"
    using d [rule_format, OF two(2)] inv(1) s(5) unfolding two(1) [symmetric] by simp
  then obtain t' where t': "micomTask_rounds 2 t = Some t'" "ring_contents (RCV t') = []"
      "[] @ ring_contents (Key t') = concat (filter key_packet [?p, ?q])" "errorOccured t' = view_error (view_packets [?p, ?q] (panel_view_of ?s))"
    by (elim exE conjE)
  have keys: "ring_contents (Key t') = ?p" using t'(3) kp kq by simp
  have "\<not> view_error (view_packets [?p, ?q] (panel_view_of ?s))"
    using kq by (simp add: view_packets_def view_packet_def answer_packet_def event_defs)
  with r t' keys show ?thesis by (intro exI [of _ t] exI [of _ t']) simp
qed

subsection \<open>Where the driver gets stuck\<close>

lemma ring_overflow: "ring_wf r \<Longrightarrow> ring_count r = 255 \<Longrightarrow> ring_contents (ring_put c r) = []"
proof -
  assume *: "ring_wf r" "ring_count r = 255"
  then have "ring_start (ring_put c r) = ring_end (ring_put c r)"
    by (auto simp: ring_put_def ring_advance_def ring_store_def ring_count_cases ring_wf_def BUFFERSIZE_def mod_Suc split: if_splits)
  with * ring_empty [of "ring_put c r"] show ?thesis by simp
qed

text \<open>
  Garbage at the front of the receive ring blocks the driver for good: after a zero byte, or after a key or
  answer whose eighth byte is not a carriage return, the task runs in a circle without consuming anything, and goes on doing
  so whatever arrives behind it, until the ring overflows; no key is delivered and no reply is seen any more.
\<close>

theorem micom_garbage_blocks:
  assumes "serial_inv s" "ring_contents (RCV s) = c # cs"
    "c = 0 \<or> c \<in> {EVENT_BTN, EVENT_RC, EVENT_ANSWER_GETTIME, EVENT_ANSWER_WAKEUP_REASON, EVENT_ANSWER_VERSION} \<and> 7 \<le> length cs \<and> cs ! 6 \<noteq> 0xd"
    "ring_count (RCV s) + length rx \<le> 255" "FP_interrupt rx room s = (tx, t)"
  shows "micomTask_rounds n s = Some s \<and> micomTask_rounds n t = Some t \<and> ring_contents (RCV t) = c # cs @ rx \<and>
    panel_view_of t = panel_view_of s"
proof -
  have stuck: "micomTask_rounds n u = Some u" if u: "serial_inv u" "ring_contents (RCV u) = c # cs @ r" for u r n
  proof -
    have wf: "ring_wf (RCV u)" and ex: "expectEventId u" "expectEventData u = 0" using u(1) by (simp_all add: serial_inv_def)
    have ne: "ring_contents (RCV u) \<noteq> []" using u(2) by simp
    let ?u = "u\<lparr>expectEventData := c, expectEventId := False\<rparr>"
    have "handle_event c ?u = Some ?u" if "c \<noteq> 0"
    proof -
      have cc: "c \<in> {EVENT_BTN, EVENT_RC, EVENT_ANSWER_GETTIME, EVENT_ANSWER_WAKEUP_REASON, EVENT_ANSWER_VERSION}"
        and "7 \<le> length cs" "cs ! 6 \<noteq> 0xd" using assms(3) that by auto
      then have "ring_contents (RCV u) ! 7 \<noteq> 0xd" using u(2) by (simp add: nth_append)
      then have "getLen 8 (RCV u) = Some 0" using getLen_key [OF wf ne] by simp
      with cc show ?thesis by (auto simp: handle_event_def event_key_def event_answer_def event_defs)
    qed
    then have p: "processResponse u = Some u"
      using processResponse_head [OF u] ex by simp
    show ?thesis using p by (induction n) simp_all
  qed
  have "length (ring_contents (RCV s)) + length rx \<le> 255" using assms(4) by simp
  then have "ring_contents (fold ring_put rx (RCV s)) = c # cs @ rx"
    using rg.put_all [of "RCV s" rx] assms(1,2) by (simp add: serial_inv_def del: length_ring_contents)
  with FP_interrupt_inv [OF assms(1,5)]
  have t: "serial_inv t" "ring_contents (RCV t) = c # cs @ rx" "panel_view_of t = panel_view_of s" by simp_all
  with stuck [of s "[]" n] stuck [of t rx n] assms(1,2) show ?thesis by simp
qed

theorem micom_garbage_blocks_witness:
  "\<exists>s t. ring_contents (RCV s) = [0] \<and> FP_interrupt [0xd2, 1, 0, 0, 0, 0, 0, 0xd] 0 s = ([], t) \<and>
     micomTask_rounds 1000 t = Some t \<and> ring_contents (RCV t) = [0, 0xd2, 1, 0, 0, 0, 0, 0, 0xd] \<and> ring_contents (Key t) = []"
proof -
  let ?s = "micom_serial_static (\<lambda>_. 0)"
  let ?u = "?s\<lparr>RCV := ring_put 0 (RCV ?s)\<rparr>"
  let ?p = "[0xd2, 1, 0, 0, 0, 0, 0, 0xd] :: bytes"
  have wf: "ring_wf ring_static" and c: "ring_contents ring_static = []" and n: "ring_count ring_static = 0"
    by (simp_all add: ring_static_def ring_wf_def BUFFERSIZE_def ring_contents_def ring_count_def)
  have u: "serial_inv ?u" "ring_contents (RCV ?u) = [0]" "ring_contents (Key ?u) = []" "\<not> the_enabled ?u"
    using wf c n by (simp_all add: micom_serial_static_def serial_inv_def rg.put_contents the_enabled_def)
  then have m: "ring_count (RCV ?u) = 1" by (metis One_nat_def length_Cons length_ring_contents list.size(3))
  obtain tx t where f: "FP_interrupt ?p 0 ?u = (tx, t)" by (cases "FP_interrupt ?p 0 ?u")
  have "tx = []" using FP_interrupt_spec(1) [OF _ f] u(1,4) by (simp add: serial_inv_def)
  moreover have "ring_contents (Key t) = []" using FP_interrupt_inv [OF u(1) f] u(3) by simp
  ultimately show ?thesis
    using micom_garbage_blocks [OF u(1,2) _ _ f, of 1000] u(2) m f
    by (intro exI [of _ ?u] exI [of _ t]) simp
qed

end
