(* ===== verification/Micom.thy ===== *)
theory Micom
  imports Micom_Transport "HOL-Library.Signed_Division"
begin

text \<open>
  The commands and the character devices of the front panel driver (\<open>frontcontroller/micom/micom_file.c\<close>, with the
  character tables of \<open>utf.h\<close> and the module functions of \<open>micom_main.c\<close>), on top of the serial side.

  What happens while a command waits for the panel's reply is an argument: \<open>wait n s\<close> is the result of the \<open>n\<close>-th call of
  \<open>wait_event_interruptible_timeout\<close> and the serial state it leaves, as interrupts and the task have changed it in the
  meantime. An argument of an ioctl is the 66 bytes of user memory that the driver overlays with its structures. Memory
  behind a buffer is an argument too, because the driver reads beyond some of them; \<open>None\<close> is a read of memory beyond
  that, a write beyond an array, or a semaphore that is never released. An open file is a number.
\<close>

subsection \<open>State\<close>

definition LASTMINOR :: nat where "LASTMINOR = 2"
definition FRONTPANEL_MINOR_RC :: int where "FRONTPANEL_MINOR_RC = 1"

record tFrontPanelOpen =
  panel_fp :: "nat option"
  panel_read :: int

text \<open>
  \<open>lastdata_data\<close> and \<open>lastdata_length\<close> are \<open>lastdata\<close>; \<open>mode\<close> is the static variable of \<open>MICOMdev_ioctl\<close>;
  \<open>write_sem\<close> counts; \<open>waits\<close> counts the waits, \<open>kbufs\<close> the kernel buffers in use.
\<close>

record micom_dev =
  ser :: micom_serial
  lastdata_length :: int
  lastdata_data :: bytes
  FrontPanelOpen :: "tFrontPanelOpen list"
  ioctl_mode :: int
  write_sem :: nat
  waits :: nat
  kbufs :: nat
  micom_thread :: bool
  micom_irq :: bool
  micom_region :: bool
  micom_cdev :: bool
  micom_class :: bool

definition micom_static :: "(u32 \<Rightarrow> u32) \<Rightarrow> micom_dev" where
  "micom_static regs = \<lparr>ser = micom_serial_static regs, lastdata_length = 0, lastdata_data = replicate 20 0,
     FrontPanelOpen = replicate LASTMINOR \<lparr>panel_fp = None, panel_read = 0\<rparr>, ioctl_mode = 0, write_sem = 0, waits = 0,
     kbufs = 0, micom_thread = False, micom_irq = False, micom_region = False, micom_cdev = False, micom_class = False\<rparr>"

type_synonym micom_wait = "nat \<Rightarrow> micom_serial \<Rightarrow> int \<times> micom_serial"

abbreviation upd_panel :: "nat \<Rightarrow> (tFrontPanelOpen \<Rightarrow> tFrontPanelOpen) \<Rightarrow> micom_dev \<Rightarrow> micom_dev" where
  "upd_panel i f d \<equiv> d\<lparr>FrontPanelOpen := (FrontPanelOpen d)[i := f (FrontPanelOpen d ! i)]\<rparr>"

subsection \<open>Character tables\<close>

definition UTF_C2 :: bytes where
  "UTF_C2 = [0x10, 0x10, 0x10, 0x10, 0x10, 0x10, 0x10, 0x10, 0x10, 0x10, 0x10, 0x10, 0x10, 0x10, 0x10, 0x10,
    0x10, 0x10, 0x10, 0x10, 0x10, 0x10, 0x10, 0x10, 0x10, 0x10, 0x10, 0x10, 0x10, 0x10, 0x10, 0x10,
    0x10, 0xad, 0x9b, 0x9c, 0x64, 0x9d, 0x7c, 0x67, 0x68, 0x69, 0xa6, 0xae, 0xaa, 0x10, 0x6e, 0x6f,
    0x70, 0x71, 0x72, 0x73, 0x74, 0x93, 0x94, 0x77, 0x78, 0x79, 0xa7, 0xaf, 0xac, 0xab, 0x7e, 0xa8]"

definition UTF_C3 :: bytes where
  "UTF_C3 = [0x8f, 0x8f, 0x8f, 0x8e, 0x8e, 0x8f, 0x92, 0x80, 0x90, 0x90, 0x90, 0x90, 0x8d, 0x8d, 0x8c, 0x8a,
    0x44, 0xa5, 0x95, 0xa2, 0x93, 0x93, 0x99, 0x78, 0xb6, 0x97, 0xa3, 0x96, 0x9a, 0x98, 0x5e, 0x5f,
    0x85, 0x86, 0x83, 0x83, 0x84, 0x83, 0x91, 0x87, 0x8a, 0x82, 0x88, 0x86, 0x8d, 0xa1, 0x8c, 0x8b,
    0x93, 0xa4, 0x95, 0xa2, 0x93, 0x93, 0x94, 0x77, 0x78, 0x97, 0xab, 0x96, 0x81, 0x79, 0x70, 0x98]"

definition UTF_C4 :: bytes where
  "UTF_C4 = [0x8f, 0x8f, 0x8f, 0x8f, 0x41, 0x61, 0x43, 0x63, 0x90, 0x90, 0x90, 0x90, 0x8d, 0x8d, 0x8c, 0x8a,
    0x44, 0xa5, 0x95, 0xa2, 0x93, 0x93, 0x99, 0x78, 0x45, 0x65, 0xa3, 0x96, 0x9a, 0x98, 0x5e, 0x5f,
    0x85, 0x86, 0x83, 0x83, 0x84, 0x83, 0x91, 0x87, 0x8a, 0x82, 0x88, 0x86, 0x8d, 0xa1, 0x8c, 0x8b,
    0x93, 0xa4, 0x95, 0xa2, 0x93, 0x93, 0x94, 0x77, 0x78, 0x97, 0xab, 0x96, 0x81, 0x79, 0x70, 0x98]"

definition UTF_C5 :: bytes where
  "UTF_C5 = [0x8f, 0x4c, 0x6c, 0x4e, 0x6e, 0x8f, 0x8f, 0x80, 0x90, 0x90, 0x90, 0x90, 0x8d, 0x8d, 0x8c, 0x8a,
    0x44, 0xa5, 0x95, 0xa2, 0x93, 0x73, 0x99, 0x78, 0xb6, 0x97, 0x53, 0x96, 0x9a, 0x98, 0x5e, 0x5f,
    0x85, 0x86, 0x83, 0x83, 0x84, 0x83, 0x91, 0x87, 0x8a, 0x82, 0x88, 0x86, 0x8d, 0xa1, 0x8c, 0x8b,
    0x93, 0xa4, 0x95, 0xa2, 0x93, 0x93, 0x94, 0x77, 0x78, 0x5a, 0x7a, 0x5a, 0x7a, 0x79, 0x70, 0x98]"

definition UTF_D0 :: bytes where
  "UTF_D0 = [0x40, 0x90, 0x42, 0x43, 0x8e, 0x45, 0x46, 0x47, 0x48, 0x49, 0x4a, 0x4b, 0x4c, 0x4d, 0x4e, 0x4f,
    0x41, 0xda, 0x42, 0xdb, 0xdc, 0x45, 0xdd, 0xde, 0xdf, 0xe0, 0x4b, 0xe1, 0x4d, 0x48, 0x4f, 0xe2,
    0x50, 0x43, 0x54, 0xe3, 0xe4, 0x58, 0xe5, 0xe6, 0xe7, 0xe8, 0xe9, 0xea, 0xe9, 0xeb, 0xec, 0xed,
    0x41, 0xda, 0x42, 0xdb, 0xdc, 0x45, 0xdd, 0xde, 0xdf, 0xe0, 0x4b, 0xe1, 0x4d, 0x48, 0x4f, 0xe2]"

definition UTF_D1 :: bytes where
  "UTF_D1 = [0x50, 0x43, 0x54, 0xe3, 0xe4, 0x58, 0xe5, 0xe6, 0xe7, 0xe8, 0xe9, 0xea, 0xe9, 0xeb, 0xec, 0xed,
    0x8b, 0x90, 0x52, 0x53, 0x54, 0x93, 0x99, 0x8b, 0xb6, 0x59, 0x5a, 0x5b, 0x9a, 0x5d, 0x5e, 0x5f,
    0x60, 0x61, 0x62, 0x63, 0x84, 0x83, 0x66, 0x67, 0x68, 0x69, 0x6a, 0x6b, 0x6c, 0x6d, 0x6e, 0x6f,
    0x70, 0x71, 0x72, 0x73, 0x74, 0x93, 0x94, 0x77, 0x78, 0x79, 0x7a, 0x7b, 0x81, 0x7d, 0x7e, 0x7f]"

definition UTF_Char_Table :: "byte \<Rightarrow> bytes option" where
  "UTF_Char_Table c =
     (if c = 0xc2 then Some UTF_C2
      else if c = 0xc3 then Some UTF_C3
      else if c = 0xc4 then Some UTF_C4
      else if c = 0xc5 then Some UTF_C5
      else if c = 0xd0 then Some UTF_D0
      else if c = 0xd1 then Some UTF_D1
      else None)"

subsection \<open>Commands\<close>

definition ack_sem_down :: "micom_wait \<Rightarrow> micom_dev \<Rightarrow> int \<times> micom_dev" where
  "ack_sem_down wait d =
     (let (err, s) = wait (waits d) ((ser d)\<lparr>dataReady := False\<rparr>);
          d = d\<lparr>ser := s, waits := Suc (waits d)\<rparr>
      in if err = - ERESTARTSYS then (err, d) else (0, d))"

definition micomWriteCommand :: "micom_wait \<Rightarrow> byte \<Rightarrow> bytes \<Rightarrow> nat \<Rightarrow> bool \<Rightarrow> micom_dev \<Rightarrow> int \<times> micom_dev" where
  "micomWriteCommand wait command buffer len needAck d =
     (let d = d\<lparr>ser := micom_putc command (ser d)\<rparr>;
          d = d\<lparr>ser := fold (\<lambda>i. micom_putc (buffer ! i)) [0..<len] (ser d)\<rparr>
      in if needAck then
           (let (err, d) = ack_sem_down wait d in if err \<noteq> 0 then (- ERESTARTSYS, d) else (0, d))
         else (0, d))"

definition micomSetIcon :: "micom_wait \<Rightarrow> int \<Rightarrow> int \<Rightarrow> micom_dev \<Rightarrow> int \<times> micom_dev" where
  "micomSetIcon wait which on d =
     (if which < 1 \<or> which > 16 then (- EINVAL, d)
      else
        (let buffer = (replicate 8 0)[0 := word_of_int which]
         in if on = 1 then micomWriteCommand wait 0x11 buffer 7 True d
            else micomWriteCommand wait 0x12 buffer 7 True d))"

definition micomSetLED :: "micom_box \<Rightarrow> micom_wait \<Rightarrow> int \<Rightarrow> int \<Rightarrow> micom_dev \<Rightarrow> int \<times> micom_dev" where
  "micomSetLED box wait which on d =
     (if (if box = UFS922 then which < 1 \<or> which > 6 else which < 0x02 \<or> which > 0x03) then (- EINVAL, d)
      else
        (let buffer = (replicate 8 0)[0 := word_of_int which]
         in if on = 1 then micomWriteCommand wait 0x06 buffer 7 True d
            else micomWriteCommand wait 0x22 buffer 7 True d))"

definition micomSetBrightness :: "micom_wait \<Rightarrow> int \<Rightarrow> micom_dev \<Rightarrow> int \<times> micom_dev" where
  "micomSetBrightness wait level d =
     (if level < 1 \<or> level > 5 then (- EINVAL, d)
      else micomWriteCommand wait 0x25 ((replicate 8 0)[0 := word_of_int level]) 7 True d)"

definition micomSetLedBrightness :: "micom_wait \<Rightarrow> int \<Rightarrow> micom_dev \<Rightarrow> int \<times> micom_dev" where
  "micomSetLedBrightness wait level d =
     (if level < 0 \<or> level > 0xff then (- EINVAL, d)
      else micomWriteCommand wait 0x07 ((replicate 8 0)[0 := word_of_int level]) 7 True d)"

definition micomSetModel :: "micom_wait \<Rightarrow> micom_dev \<Rightarrow> int \<times> micom_dev" where
  "micomSetModel wait d = micomWriteCommand wait 0x3 ((replicate 8 0)[0 := 0x1]) 7 False d"

definition micomInitialize :: "micom_wait \<Rightarrow> micom_dev \<Rightarrow> int \<times> micom_dev" where
  "micomInitialize wait d =
     (let buffer = (replicate 8 0)[0 := 0x1];
          (res, d) = micomWriteCommand wait 0x3 buffer 7 False d;
          buffer = replicate 8 0;
          buffer = buffer[0 := 0x02, 1 := 0xff, 2 := 0x80, 3 := 0x46, 4 := 0x01]
      in micomWriteCommand wait 0x55 buffer 7 False d)"

definition micomSetStandby :: "micom_wait \<Rightarrow> bytes \<Rightarrow> micom_dev \<Rightarrow> int \<times> micom_dev" where
  "micomSetStandby wait time d =
     (let buffer = replicate 8 0;
          (res, d) = (if time ! 0 = 0 then micomWriteCommand wait 0x33 buffer 7 True d
                      else micomWriteCommand wait 0x32 (take 5 time @ drop 5 buffer) 7 True d)
      in if res < 0 then (res, d)
         else micomWriteCommand wait 0x41 (replicate 8 0) 7 False d)"

definition micomSetTime :: "micom_wait \<Rightarrow> bytes \<Rightarrow> micom_dev \<Rightarrow> int \<times> micom_dev" where
  "micomSetTime wait time d =
     (let buffer = replicate 8 0
      in micomWriteCommand wait 0x31 (take 5 time @ drop 5 buffer) 7 True d)"

text \<open>The body that the three queries share, with their command.\<close>

definition micom_query :: "byte \<Rightarrow> micom_wait \<Rightarrow> micom_dev \<Rightarrow> int \<times> micom_dev" where
  "micom_query command wait d =
     (let buffer = replicate 8 0;
          d = d\<lparr>ser := (ser d)\<lparr>errorOccured := False\<rparr>\<rparr>;
          (res, d) = micomWriteCommand wait command buffer 7 True d
      in if res < 0 then (res, d)
         else if errorOccured (ser d) then (- ETIMEDOUT, d\<lparr>ser := (ser d)\<lparr>ioctl_data := replicate 8 0\<rparr>\<rparr>)
         else (res, d))"

definition micomGetVersion :: "micom_wait \<Rightarrow> micom_dev \<Rightarrow> int \<times> micom_dev" where
  "micomGetVersion wait d = micom_query 0x05 wait d"

definition micomGetTime :: "micom_wait \<Rightarrow> micom_dev \<Rightarrow> int \<times> micom_dev" where
  "micomGetTime wait d = micom_query 0x39 wait d"

definition micomGetWakeUpMode :: "micom_wait \<Rightarrow> micom_dev \<Rightarrow> int \<times> micom_dev" where
  "micomGetWakeUpMode wait d = micom_query 0x43 wait d"

definition micomReboot :: "micom_wait \<Rightarrow> micom_dev \<Rightarrow> int \<times> micom_dev" where
  "micomReboot wait d = micomWriteCommand wait 0x46 (replicate 8 0) 7 False d"

subsection \<open>The display\<close>

definition hex_char :: "nat \<Rightarrow> byte" where
  "hex_char n = (if n < 10 then word_of_nat (0x30 + n) else word_of_nat (0x57 + n))"

text \<open>Writing to an array on the stack; \<open>None\<close> is a write beyond it.\<close>

definition poke :: "nat \<Rightarrow> byte \<Rightarrow> bytes \<Rightarrow> bytes option" where
  "poke j x b = (if j < length b then Some (b[j := x]) else None)"

definition sprintf_02x :: "nat \<Rightarrow> byte \<Rightarrow> bytes \<Rightarrow> bytes option" where
  "sprintf_02x j c b = do {
     b \<leftarrow> poke j (hex_char (unat c div 16)) b;
     b \<leftarrow> poke (j + 1) (hex_char (unat c mod 16)) b;
     poke (j + 2) 0 b
   }"

definition utf_skip :: "byte \<Rightarrow> nat" where
  "utf_skip c = (if c < 0xF0 then 2 else if c < 0xF8 then 3 else if c < 0xFC then 4 else 5)"

text \<open>The loop of \<open>micomWriteString\<close>; \<open>a\<close> is the memory from the string on.\<close>

function display_loop :: "bytes \<Rightarrow> int \<Rightarrow> nat \<Rightarrow> nat \<Rightarrow> bytes \<Rightarrow> bytes option" where
  "display_loop a len i j b =
     (if int i < len \<and> j < 16 then
        if i \<ge> length a then None
        else if a ! i < 0x80 then do { b \<leftarrow> poke j (a ! i) b; display_loop a len (i + 1) (j + 1) b }
        else if a ! i < 0xE0 then
          if i + 1 \<ge> length a then None
          else (case UTF_Char_Table (a ! i) of
                  Some table \<Rightarrow> do { b \<leftarrow> poke j (table ! unat (a ! (i + 1) AND 0x3f)) b; display_loop a len (i + 2) (j + 1) b }
                | None \<Rightarrow> do {
                    b \<leftarrow> sprintf_02x j (a ! i) b;
                    b \<leftarrow> poke (j + 2) ((a ! (i + 1) AND 0x3f) OR 0x40) b;
                    display_loop a len (i + 2) (j + 3) b
                  })
        else do { b \<leftarrow> poke j 0x20 b; display_loop a len (i + utf_skip (a ! i) + 1) (j + 1) b }
      else Some b)"
  by pat_completeness auto
termination
  by (relation "measure (\<lambda>(a, len, i, j, b). nat (len - int i))") auto

declare display_loop.simps [simp del]

definition micomWriteString :: "micom_wait \<Rightarrow> bytes \<Rightarrow> int \<Rightarrow> micom_dev \<Rightarrow> (int \<times> micom_dev) option" where
  "micomWriteString wait a len d =
     (if length a < 20 then None
      else do {
        let d = d\<lparr>lastdata_data := take 20 a, lastdata_length := len\<rparr>;
        bBuf \<leftarrow> display_loop a len 0 0 (replicate 20 0x20);
        Some (micomWriteCommand wait 0x21 bBuf 16 True d)
      })"

definition team_ducktales :: bytes where
  "team_ducktales = map (\<lambda>c. of_char c) '' Team Ducktales ''"

text \<open>\<open>behind\<close> is what follows the literal and its zero byte in memory.\<close>

definition micom_init_func :: "micom_box \<Rightarrow> bytes \<Rightarrow> micom_wait \<Rightarrow> micom_dev \<Rightarrow> (int \<times> micom_dev) option" where
  "micom_init_func box behind wait d =
     (let d = d\<lparr>write_sem := 1\<rparr>;
          (_, d) = (if box = UFS922 then micomSetModel wait d else micomInitialize wait d);
          (_, d) = micomSetBrightness wait 1 d;
          (_, d) = micomSetLedBrightness wait 0x50 d
      in do {
        (_, d) \<leftarrow> micomWriteString wait (team_ducktales @ [0] @ behind) (int (length team_ducktales)) d;
        Some (0, if box = UFS922 then fold (\<lambda>vLoop d. snd (micomSetIcon wait vLoop 0 d)) [1..16] d else d)
      })"

subsection \<open>The devices\<close>

definition write_sem_down :: "bool \<Rightarrow> micom_dev \<Rightarrow> (int \<times> micom_dev) option" where
  "write_sem_down interrupted d =
     (if interrupted then Some (- 4, d)
      else if write_sem d = 0 then None
      else Some (0, d\<lparr>write_sem := write_sem d - 1\<rparr>))"

definition write_sem_up :: "micom_dev \<Rightarrow> micom_dev" where
  "write_sem_up d = d\<lparr>write_sem := write_sem d + 1\<rparr>"

definition find_minor :: "nat \<Rightarrow> micom_dev \<Rightarrow> int" where
  "find_minor filp d =
     fold (\<lambda>vLoop minor. if panel_fp (FrontPanelOpen d ! vLoop) = Some filp then int vLoop else minor) [0..<LASTMINOR] (- 1)"

text \<open>\<open>alloc\<close>: whether there is kernel memory; \<open>slack\<close>: what lies behind the kernel buffer.\<close>

definition MICOMdev_write ::
  "micom_wait \<Rightarrow> bool \<Rightarrow> bytes \<Rightarrow> bool \<Rightarrow> nat \<Rightarrow> bytes \<Rightarrow> micom_dev \<Rightarrow> (int \<times> micom_dev) option" where
  "MICOMdev_write wait alloc slack interrupted filp buff d =
     (let len = length buff; minor = find_minor filp d
      in if len = 0 then Some (0, d)
         else if minor = - 1 then Some (- 1, d)
         else if minor = FRONTPANEL_MINOR_RC then Some (- EOPNOTSUPP, d)
         else if \<not> alloc then Some (- ENOMEM, d)
         else do {
           let kernel_buf = buff @ slack;
           let d = d\<lparr>kbufs := kbufs d + 1\<rparr>;
           (err, d) \<leftarrow> write_sem_down interrupted d;
           if err \<noteq> 0 then Some (- ERESTARTSYS, d)
           else do {
             (res, d) \<leftarrow> (if kernel_buf ! (len - 1) = 0x0a then micomWriteString wait kernel_buf (int len - 1) d
                          else micomWriteString wait kernel_buf (int len) d);
             let d = write_sem_up (d\<lparr>kbufs := kbufs d - 1\<rparr>);
             Some (if res < 0 then res else int len, d)
           }
         })"

text \<open>The result, the bytes put into the caller's buffer, and the state.\<close>

definition MICOMdev_read ::
  "(micom_serial \<Rightarrow> micom_serial option) \<Rightarrow> bool \<Rightarrow> nat \<Rightarrow> nat \<Rightarrow> micom_dev \<Rightarrow> (int \<times> bytes \<times> micom_dev) option" where
  "MICOMdev_read keywait interrupted filp len d =
     (let minor = find_minor filp d
      in if minor = - 1 then Some (- EUSERS, [], d)
         else if minor = FRONTPANEL_MINOR_RC then do {
           (n, data, s) \<leftarrow> getRCData keywait (ser d);
           let d = d\<lparr>ser := s\<rparr>;
           if n > 0 then
             (if interrupted then Some (- ERESTARTSYS, [], d) else Some (n, take (nat n) data, d))
           else Some (0, [], d)
         }
         else if interrupted then Some (- ERESTARTSYS, [], d)
         else if panel_read (FrontPanelOpen d ! nat minor) = lastdata_length d then
           Some (0, [], upd_panel (nat minor) (\<lambda>p. p\<lparr>panel_read := 0\<rparr>) d)
         else
           (let len = (if 0 \<le> lastdata_length d \<and> int len > lastdata_length d then nat (lastdata_length d) else len);
                len = (if len > 16 then 16 else len)
            in Some (int len, take len (lastdata_data d), upd_panel (nat minor) (\<lambda>p. p\<lparr>panel_read := int len\<rparr>) d)))"

definition MICOMdev_open :: "bool \<Rightarrow> nat \<Rightarrow> nat \<Rightarrow> micom_dev \<Rightarrow> (int \<times> micom_dev) option" where
  "MICOMdev_open interrupted minor filp d = do {
     (err, d) \<leftarrow> write_sem_down interrupted d;
     if err \<noteq> 0 then Some (- ERESTARTSYS, d)
     else if panel_fp (FrontPanelOpen d ! minor) \<noteq> None then Some (- EUSERS, write_sem_up d)
     else Some (0, write_sem_up (upd_panel minor (\<lambda>p. p\<lparr>panel_fp := Some filp, panel_read := 0\<rparr>) d))
   }"

definition MICOMdev_close :: "nat \<Rightarrow> micom_dev \<Rightarrow> int \<times> micom_dev" where
  "MICOMdev_close minor d =
     (if panel_fp (FrontPanelOpen d ! minor) = None then (- EUSERS, d)
      else (0, upd_panel minor (\<lambda>p. p\<lparr>panel_fp := None, panel_read := 0\<rparr>) d))"

subsection \<open>Requests\<close>

definition VFDBRIGHTNESS :: u32 where "VFDBRIGHTNESS = 0xc0425a03"
definition VFDDRIVERINIT :: u32 where "VFDDRIVERINIT = 0xc0425a08"
definition VFDICONDISPLAYONOFF :: u32 where "VFDICONDISPLAYONOFF = 0xc0425a0a"
definition VFDDISPLAYWRITEONOFF :: u32 where "VFDDISPLAYWRITEONOFF = 0xc0425a05"
definition VFDDISPLAYCHARS :: u32 where "VFDDISPLAYCHARS = 0xc0425a00"
definition VFDGETVERSION :: u32 where "VFDGETVERSION = 0xc0425af7"
definition VFDLEDBRIGHTNESS :: u32 where "VFDLEDBRIGHTNESS = 0xc0425af8"
definition VFDGETWAKEUPMODE :: u32 where "VFDGETWAKEUPMODE = 0xc0425af9"
definition VFDGETTIME :: u32 where "VFDGETTIME = 0xc0425afa"
definition VFDSETTIME :: u32 where "VFDSETTIME = 0xc0425afb"
definition VFDSTANDBY :: u32 where "VFDSTANDBY = 0xc0425afc"
definition VFDREBOOT :: u32 where "VFDREBOOT = 0xc0425afd"
definition VFDSETLED :: u32 where "VFDSETLED = 0xc0425afe"
definition VFDSETMODE :: u32 where "VFDSETMODE = 0xc0425aff"

lemmas vfd_defs = VFDBRIGHTNESS_def VFDDRIVERINIT_def VFDICONDISPLAYONOFF_def VFDDISPLAYWRITEONOFF_def VFDDISPLAYCHARS_def
  VFDGETVERSION_def VFDLEDBRIGHTNESS_def VFDGETWAKEUPMODE_def VFDGETTIME_def VFDSETTIME_def VFDSTANDBY_def VFDREBOOT_def
  VFDSETLED_def VFDSETMODE_def

text \<open>The members of \<open>micom_ioctl_data\<close> and \<open>vfd_ioctl_data\<close> in the argument's bytes.\<close>

definition arg_int :: "nat \<Rightarrow> bytes \<Rightarrow> int" where
  "arg_int k arg = sint (ucast (arg ! k) OR push_bit 8 (ucast (arg ! (k + 1))) OR push_bit 16 (ucast (arg ! (k + 2)))
     OR push_bit 24 (ucast (arg ! (k + 3))) :: u32)"

definition vfd_start_address :: "bytes \<Rightarrow> int" where "vfd_start_address arg = uint (arg ! 0)"
definition vfd_data :: "bytes \<Rightarrow> bytes" where "vfd_data arg = drop 1 arg"
definition vfd_length :: "bytes \<Rightarrow> int" where "vfd_length arg = uint (arg ! 65)"

definition vfd_level :: "int \<Rightarrow> int" where
  "vfd_level start_address =
     (let level = 7 - start_address
      in (((level * 100) sdiv 7) * 5) sdiv 100 + 1)"

text \<open>\<open>behind\<close> as in \<open>micom_init_func\<close>, \<open>user_behind\<close> what follows the argument in the user's memory.\<close>

definition ioctl_switch ::
  "micom_box \<Rightarrow> bytes \<Rightarrow> bytes \<Rightarrow> micom_wait \<Rightarrow> u32 \<Rightarrow> bytes \<Rightarrow> micom_dev \<Rightarrow> (int \<times> bytes option \<times> micom_dev) option" where
  "ioctl_switch box behind user_behind wait cmd arg d =
     (let done = (\<lambda>(res, d). Some (res, None, d));
          done0 = (\<lambda>(res, d). Some (res, None, d\<lparr>ioctl_mode := 0\<rparr>));
          answer = (\<lambda>(res, d). Some (res, Some (ioctl_data (ser d)), d))
      in if cmd = VFDSETMODE then done (0, d\<lparr>ioctl_mode := arg_int 0 arg\<rparr>)
         else if cmd = VFDSETLED then done (micomSetLED box wait (arg_int 0 arg) (arg_int 4 arg) d)
         else if cmd = VFDBRIGHTNESS then
           done0 (if ioctl_mode d = 0 then micomSetBrightness wait (vfd_level (vfd_start_address arg)) d
                  else micomSetBrightness wait (arg_int 0 arg) d)
         else if cmd = VFDLEDBRIGHTNESS then
           done0 (if ioctl_mode d = 0 then (0, d) else micomSetLedBrightness wait (arg_int 0 arg) d)
         else if cmd = VFDDRIVERINIT then Option.bind (micom_init_func box behind wait d) done0
         else if cmd = VFDICONDISPLAYONOFF then
           done0 (if ioctl_mode d = 0
                  then micomSetIcon wait (uint (vfd_data arg ! 0 AND 0xf) + 1) (uint (vfd_data arg ! 4)) d
                  else micomSetIcon wait (arg_int 0 arg) (arg_int 4 arg) d)
         else if cmd = VFDSTANDBY then done (micomSetStandby wait (take 5 arg) d)
         else if cmd = VFDREBOOT then done (micomReboot wait d)
         else if cmd = VFDSETTIME then done (micomSetTime wait (take 5 arg) d)
         else if cmd = VFDGETTIME then answer (micomGetTime wait d)
         else if cmd = VFDGETVERSION then answer (micomGetVersion wait d)
         else if cmd = VFDGETWAKEUPMODE then answer (micomGetWakeUpMode wait d)
         else if cmd = VFDDISPLAYCHARS then
           Option.bind (if ioctl_mode d = 0 then micomWriteString wait (vfd_data arg @ user_behind) (vfd_length arg) d
                        else Some (0, d)) done0
         else if cmd = VFDDISPLAYWRITEONOFF then
           done (0, if box \<noteq> UFS922 then snd (micomInitialize wait d) else d)
         else if cmd = 0x5305 then done (0, d)
         else done0 (0, d))"

definition MICOMdev_ioctl ::
  "micom_box \<Rightarrow> bytes \<Rightarrow> bytes \<Rightarrow> micom_wait \<Rightarrow> bool \<Rightarrow> u32 \<Rightarrow> bytes \<Rightarrow> micom_dev \<Rightarrow> (int \<times> bytes option \<times> micom_dev) option" where
  "MICOMdev_ioctl box behind user_behind wait interrupted cmd arg d = do {
     (err, d) \<leftarrow> write_sem_down interrupted d;
     if err \<noteq> 0 then Some (- ERESTARTSYS, None, d)
     else do {
       (res, out, d) \<leftarrow> ioctl_switch box behind user_behind wait cmd arg d;
       Some (res, out, write_sem_up d)
     }
   }"

subsection \<open>Loading and unloading\<close>

definition micom_init_module ::
  "micom_box \<Rightarrow> bytes \<Rightarrow> micom_wait \<Rightarrow> int \<Rightarrow> int \<Rightarrow> int \<Rightarrow> micom_dev \<Rightarrow> (int \<times> micom_dev) option" where
  "micom_init_module box behind wait irq_result region_result cdev_result d =
     (let s = set_asc ASC_INT_EN (asc (ser d) ASC_INT_EN AND NOT 0x000001ff) (ser d);
          s = serial_init box s;
          d = d\<lparr>ser := s, micom_thread := True\<rparr>;
          d = d\<lparr>ser := set_asc ASC_CTRL (asc (ser d) ASC_CTRL OR ASC_CTRL_FIFO_EN) (ser d)\<rparr>;
          d = (if irq_result = 0
               then d\<lparr>micom_irq := True, ser := set_asc ASC_INT_EN (asc (ser d) ASC_INT_EN OR 0x00000001) (ser d)\<rparr>
               else d)
      in do {
        (_, d) \<leftarrow> micom_init_func box behind wait d;
        if region_result < 0 then Some (region_result, d)
        else do {
          let d = d\<lparr>micom_region := True\<rparr>;
          if cdev_result < 0 then Some (- 1, d)
          else Some (region_result, d\<lparr>micom_cdev := True, micom_class := True\<rparr>)
        }
      })"

definition micom_cleanup_module :: "micom_dev \<Rightarrow> micom_dev" where
  "micom_cleanup_module d = d\<lparr>micom_cdev := False, micom_region := False, micom_class := False, micom_irq := False\<rparr>"

subsection \<open>What a command sends\<close>

definition send_bytes :: "bytes \<Rightarrow> micom_dev \<Rightarrow> micom_dev" where
  "send_bytes bs d = d\<lparr>ser := fold micom_putc bs (ser d)\<rparr>"

definition command_acked :: "bytes \<Rightarrow> micom_wait \<Rightarrow> micom_dev \<Rightarrow> int \<times> micom_dev" where
  "command_acked bs wait d =
     (let (err, d) = ack_sem_down wait (send_bytes bs d) in (if err \<noteq> 0 then - ERESTARTSYS else 0, d))"

lemma micomWriteCommand_bytes:
  assumes "len \<le> length buffer"
  shows "micomWriteCommand wait c buffer len ack d =
     (if ack then command_acked (c # take len buffer) wait d else (0, send_bytes (c # take len buffer) d))"
proof -
  have "fold (\<lambda>i. micom_putc (buffer ! i)) [0..<len] s = fold micom_putc (take len buffer) s" for s
  proof -
    have "fold (\<lambda>i. micom_putc (buffer ! i)) [0..<len] s = fold micom_putc (map ((!) buffer) [0..<len]) s"
      by (simp add: fold_map o_def)
    also have "map ((!) buffer) [0..<len] = take len buffer"
      using assms by (auto intro: nth_equalityI)
    finally show ?thesis .
  qed
  then show ?thesis
    by (auto simp: micomWriteCommand_def command_acked_def send_bytes_def Let_def split: prod.splits)
qed

lemma fold_putc:
  "Out (fold micom_putc bs s) = fold ring_put bs (Out s) \<and> RCV (fold micom_putc bs s) = RCV s \<and>
   Key (fold micom_putc bs s) = Key s \<and> ioctl_data (fold micom_putc bs s) = ioctl_data s \<and>
   errorOccured (fold micom_putc bs s) = errorOccured s \<and> dataReady (fold micom_putc bs s) = dataReady s \<and>
   expectEventId (fold micom_putc bs s) = expectEventId s \<and> expectEventData (fold micom_putc bs s) = expectEventData s \<and>
   (bs \<noteq> [] \<longrightarrow> the_enabled (fold micom_putc bs s))"
proof (induction bs arbitrary: s)
  case (Cons b bs)
  have "the_enabled (micom_putc b s)"
    using the_enabled_on [of "putc_advance (putc_store b s)"] by (simp add: micom_putc_def putc_enable_def)
  with Cons [of "micom_putc b s"] show ?case
    by (cases bs) (simp_all add: micom_putc_def putc_store_def putc_advance_def putc_enable_def ring_put_def)
qed simp

lemma send_bytes_contents:
  "ring_wf (Out (ser d)) \<Longrightarrow> ring_count (Out (ser d)) + length bs \<le> 255 \<Longrightarrow>
   ring_contents (Out (ser (send_bytes bs d))) = ring_contents (Out (ser d)) @ bs"
  using rg.put_all [of "Out (ser d)" bs] by (simp add: send_bytes_def fold_putc)

lemma replicate8: "replicate 8 (x::byte) = [x, x, x, x, x, x, x, x]"
  by (simp add: eval_nat_numeral)

text \<open>A command changes the serial side and the count of waits only.\<close>

definition same_panel :: "micom_dev \<Rightarrow> micom_dev \<Rightarrow> bool" where
  "same_panel d e \<longleftrightarrow> e = d\<lparr>ser := ser e, waits := waits e\<rparr>"

lemma same_panel_refl [simp]: "same_panel d d"
  by (simp add: same_panel_def)

lemma same_panel_trans: "same_panel d e \<Longrightarrow> same_panel e f \<Longrightarrow> same_panel d f"
  by (cases d; cases e; cases f) (simp add: same_panel_def)

lemma same_panel_fields:
  "same_panel d e \<Longrightarrow> lastdata_length e = lastdata_length d \<and> lastdata_data e = lastdata_data d \<and> FrontPanelOpen e = FrontPanelOpen d \<and>
     ioctl_mode e = ioctl_mode d \<and> write_sem e = write_sem d \<and> kbufs e = kbufs d"
  by (cases d; cases e) (simp add: same_panel_def)

lemma micomWriteCommand_frame: "same_panel d (snd (micomWriteCommand wait c buffer len ack d))"
  by (cases d) (auto simp: micomWriteCommand_def ack_sem_down_def same_panel_def Let_def split: prod.splits if_splits)

lemma commands_frame:
  "same_panel d (snd (micomSetIcon wait which on d))"
  "same_panel d (snd (micomSetLED box wait which on d))"
  "same_panel d (snd (micomSetBrightness wait level d))"
  "same_panel d (snd (micomSetLedBrightness wait level d))"
  "same_panel d (snd (micomSetModel wait d))"
  "same_panel d (snd (micomSetTime wait time d))"
  "same_panel d (snd (micomReboot wait d))"
  by (simp_all add: micomSetIcon_def micomSetLED_def micomSetBrightness_def micomSetLedBrightness_def micomSetModel_def
      micomSetTime_def micomReboot_def micomWriteCommand_frame Let_def)

lemma micomInitialize_frame: "same_panel d (snd (micomInitialize wait d))"
  unfolding micomInitialize_def Let_def case_prod_beta
  by (rule same_panel_trans [OF micomWriteCommand_frame micomWriteCommand_frame])

lemma micomSetStandby_frame: "same_panel d (snd (micomSetStandby wait time d))"
  unfolding micomSetStandby_def Let_def case_prod_beta
  by (simp add: same_panel_trans [OF micomWriteCommand_frame micomWriteCommand_frame] micomWriteCommand_frame)

lemma micom_query_frame: "same_panel d (snd (micom_query c wait d))"
proof -
  let ?d = "d\<lparr>ser := (ser d)\<lparr>errorOccured := False\<rparr>\<rparr>"
  have 1: "same_panel d ?d" by (cases d) (simp add: same_panel_def)
  have 2: "same_panel d (snd (micomWriteCommand wait c (replicate 8 0) 7 True ?d))"
    by (rule same_panel_trans [OF 1 micomWriteCommand_frame])
  obtain r e where e: "micomWriteCommand wait c (replicate 8 0) 7 True ?d = (r, e)" by fastforce
  with 2 have 3: "same_panel d e" by simp
  moreover have "same_panel e (e\<lparr>ser := (ser e)\<lparr>ioctl_data := replicate 8 0\<rparr>\<rparr>)" by (cases e) (simp add: same_panel_def)
  ultimately show ?thesis
    unfolding micom_query_def Let_def by (auto simp: e intro: same_panel_trans)
qed


lemma poke_blank:
  "length p < 20 \<Longrightarrow>
   poke (length p) x (p @ replicate (20 - length p) y) = Some ((p @ [x]) @ replicate (20 - length (p @ [x])) y)"
proof -
  assume *: "length p < 20"
  then have "replicate (20 - length p) y = y # replicate (20 - length (p @ [x])) y"
    by (metis Suc_diff_Suc length_append_singleton replicate_Suc)
  with * show ?thesis by (simp add: poke_def)
qed

lemma sprintf_blank:
  assumes "length p + 2 < 20"
  shows "Option.bind (sprintf_02x (length p) c (p @ replicate (20 - length p) y)) (poke (length p + 2) x) =
    Some ((p @ [hex_char (unat c div 16), hex_char (unat c mod 16), x]) @ replicate (20 - (length p + 3)) y)"
proof -
  have "20 - length p = Suc (Suc (Suc (20 - (length p + 3))))" using assms by simp
  then have r: "replicate (20 - length p) y = y # y # y # replicate (20 - (length p + 3)) y" by simp
  show ?thesis
    using assms unfolding r by (simp add: sprintf_02x_def poke_def list_update_append nth_append)
qed

subsection \<open>What the display shows\<close>

text \<open>The cells of one character: two bytes that a table knows, or two hexadecimal digits and a letter.\<close>

definition pair_cells :: "byte \<Rightarrow> byte \<Rightarrow> bytes" where
  "pair_cells c d =
     (case UTF_Char_Table c of
        Some table \<Rightarrow> [table ! unat (d AND 0x3f)]
      | None \<Rightarrow> [hex_char (unat c div 16), hex_char (unat c mod 16), (d AND 0x3f) OR 0x40])"

text \<open>The cells of a string; \<open>x\<close> is the byte that follows it in memory.\<close>

function lcd_cells :: "byte \<Rightarrow> bytes \<Rightarrow> bytes" where
  "lcd_cells x [] = []"
| "lcd_cells x (c # cs) =
     (if c < 0x80 then c # lcd_cells x cs
      else if c < 0xE0 then pair_cells c (if cs = [] then x else hd cs) @ lcd_cells x (drop 1 cs)
      else 0x20 # lcd_cells x (drop (utf_skip c) cs))"
  by pat_completeness auto
termination
  by (relation "measure (\<lambda>(x, cs). length cs)") auto

declare lcd_cells.simps(2) [simp del]

lemma display_loop_cells:
  assumes "n < length a" "length p \<le> 18" "b = p @ replicate (20 - length p) 0x20"
  shows "\<exists>b'. display_loop a (int n) i (length p) b = Some b' \<and> 16 \<le> length b' \<and>
    take 16 b' = take 16 (p @ lcd_cells (a ! n) (drop i (take n a)) @ replicate 16 0x20)"
  using assms(2,3)
proof (induction "n - i" arbitrary: i p b rule: less_induct)
  case less
  note b = less.prems(2)
  let ?x = "a ! n"
  show ?case
  proof (cases "i < n \<and> length p < 16")
    case False
    then consider "16 \<le> length p" | "n \<le> i" "length p < 16" by linarith
    then have "take 16 b = take 16 (p @ lcd_cells ?x (drop i (take n a)) @ replicate 16 0x20)"
      by cases (simp_all add: b min_def)
    moreover have "display_loop a (int n) i (length p) b = Some b" using False by (subst display_loop.simps) auto
    ultimately show ?thesis using b less.prems(1) by auto
  next
    case True
    have il: "i < length a" using True assms(1) by simp
    have s: "drop i (take n a) = a ! i # drop (Suc i) (take n a)"
      using Cons_nth_drop_Suc [of i "take n a"] True assms(1) by simp
    have nx: "(if drop (Suc i) (take n a) = [] then ?x else hd (drop (Suc i) (take n a))) = a ! Suc i"
    proof (cases "Suc i < n")
      case True
      with assms(1) show ?thesis by (simp add: hd_drop_conv_nth)
    next
      case False
      with True have "Suc i = n" by simp
      then show ?thesis by simp
    qed
    have step: "\<exists>b'. display_loop a (int n) (i + k) (length (p @ q)) ((p @ q) @ replicate (20 - length (p @ q)) 0x20) = Some b' \<and> 16 \<le> length b' \<and>
        take 16 b' = take 16 ((p @ q) @ lcd_cells ?x (drop (i + k) (take n a)) @ replicate 16 0x20)"
      if "0 < k" "length q \<le> 3" for k q
    proof -
      have "n - (i + k) < n - i" "length (p @ q) \<le> 18" using True that by auto
      from less.hyps [OF this refl] show ?thesis .
    qed
    show ?thesis
    proof (cases "a ! i < 0x80")
      case True': True
      have "poke (length p) (a ! i) b = Some ((p @ [a ! i]) @ replicate (20 - length (p @ [a ! i])) 0x20)"
        unfolding b using True by (intro poke_blank) simp
      then have "display_loop a (int n) i (length p) b =
          display_loop a (int n) (i + 1) (length (p @ [a ! i])) ((p @ [a ! i]) @ replicate (20 - length (p @ [a ! i])) 0x20)"
        using True True' il by (subst display_loop.simps) simp
      with step [of 1 "[a ! i]"] s True' show ?thesis by (simp add: lcd_cells.simps(2))
    next
      case ge: False
      show ?thesis
      proof (cases "a ! i < 0xE0")
        case True'': True
        let ?c = "pair_cells (a ! i) (a ! Suc i)"
        have len: "length ?c \<le> 3" by (simp add: pair_cells_def split: option.split)
        have "display_loop a (int n) i (length p) b =
            display_loop a (int n) (i + 2) (length (p @ ?c)) ((p @ ?c) @ replicate (20 - length (p @ ?c)) 0x20)"
        proof (cases "UTF_Char_Table (a ! i)")
          case None
          have "Option.bind (sprintf_02x (length p) (a ! i) b) (poke (length p + 2) ((a ! Suc i AND 0x3f) OR 0x40)) =
             Some ((p @ ?c) @ replicate (20 - length (p @ ?c)) 0x20)"
            unfolding b using True None by (subst sprintf_blank) (simp_all add: pair_cells_def)
          moreover have "length (p @ ?c) = length p + 3" using None by (simp add: pair_cells_def)
          ultimately show ?thesis
            using True il ge True'' None assms(1)
            by (subst display_loop.simps) (simp flip: bind_assoc add: add.commute)
        next
          case (Some table)
          then have c: "?c = [table ! unat (a ! Suc i AND 0x3f)]" by (simp add: pair_cells_def)
          have "poke (length p) (table ! unat (a ! Suc i AND 0x3f)) b = Some ((p @ ?c) @ replicate (20 - length (p @ ?c)) 0x20)"
            unfolding b c using True by (intro poke_blank) simp
          then show ?thesis
            using True il ge True'' Some assms(1) c by (subst display_loop.simps) simp
        qed
        with step [of 2 ?c] s ge True'' nx len show ?thesis
          by (simp add: lcd_cells.simps(2) drop_drop)
      next
        case False
        have "poke (length p) 0x20 b = Some ((p @ [0x20]) @ replicate (20 - length (p @ [0x20])) 0x20)"
          unfolding b using True by (intro poke_blank) simp
        then have "display_loop a (int n) i (length p) b =
            display_loop a (int n) (i + (utf_skip (a ! i) + 1)) (length (p @ [0x20])) ((p @ [0x20]) @ replicate (20 - length (p @ [0x20])) 0x20)"
          using True ge False il by (subst display_loop.simps) (simp add: add.assoc)
        with step [of "utf_skip (a ! i) + 1" "[0x20]"] s ge False show ?thesis
          by (simp add: lcd_cells.simps(2) drop_drop add.commute)
      qed
    qed
  qed
qed


lemma micom_string_sends:
  assumes "20 \<le> length a" "n < length a"
  shows "micomWriteString wait a (int n) d =
    Some (command_acked (0x21 # take 16 (lcd_cells (a ! n) (take n a) @ replicate 16 0x20)) wait
            (d\<lparr>lastdata_data := take 20 a, lastdata_length := int n\<rparr>))"
proof -
  obtain b' where "display_loop a (int n) 0 0 (replicate 20 0x20) = Some b'" "16 \<le> length b'"
      "take 16 b' = take 16 (lcd_cells (a ! n) (take n a) @ replicate 16 0x20)"
    using display_loop_cells [of n a "[]" _ 0] assms(2) by auto
  with assms(1) show ?thesis by (simp add: micomWriteString_def micomWriteCommand_bytes)
qed

text \<open>
  Claim C23. Displaying a string is safe and shows what a character by character reading of it says: given the 20 bytes
  that are copied and one byte behind the string, \<open>micomWriteString\<close> never reads beyond them and never writes beyond its
  20 byte array, whatever the bytes are; and the command it sends is 0x21 with the first 16 cells of the string, padded with
  spaces, where a plain character is one cell, a two byte sequence the cell its table gives or three cells of hexadecimal, a
  longer sequence a space.
\<close>

theorem micom_display_string:
  assumes "20 \<le> length a" "n < length a"
  shows "micomWriteString wait a (int n) d =
    Some (command_acked (0x21 # take 16 (lcd_cells (a ! n) (take n a) @ replicate 16 0x20)) wait
            (d\<lparr>lastdata_data := take 20 a, lastdata_length := int n\<rparr>))"
  using assms by (rule micom_string_sends)


lemma lcd_example: "take 16 (lcd_cells 0 [0x41, 0xc3, 0xa4] @ replicate 16 0x20) = [0x41, 0x84] @ replicate 14 0x20"
proof -
  have "UTF_C3 ! 36 = 0x84" by (simp add: UTF_C3_def)
  then have "pair_cells 0xc3 0xa4 = [0x84]" by (simp add: pair_cells_def UTF_Char_Table_def)
  then have "lcd_cells 0 [0x41, 0xc3, 0xa4] = [0x41, 0x84]" by (simp add: lcd_cells.simps(2))
  then show ?thesis by simp
qed

theorem micom_display_string_witness:
  "\<forall>wait d. micomWriteString wait ([0x41, 0xc3, 0xa4] @ replicate 17 0) 3 d =
     Some (command_acked (0x21 # [0x41, 0x84] @ replicate 14 0x20) wait
            (d\<lparr>lastdata_data := take 20 ([0x41, 0xc3, 0xa4] @ replicate 17 0), lastdata_length := 3\<rparr>))"
proof (intro allI)
  fix wait d
  let ?a = "[0x41, 0xc3, 0xa4] @ replicate 17 0 :: bytes"
  have l: "20 \<le> length ?a" "3 < length ?a" by simp_all
  have "?a ! 3 = 0" "take 3 ?a = [0x41, 0xc3, 0xa4]" by (simp_all add: nth_append)
  with micom_display_string [OF l, of wait d]
  show "micomWriteString wait ?a 3 d =
     Some (command_acked (0x21 # [0x41, 0x84] @ replicate 14 0x20) wait (d\<lparr>lastdata_data := take 20 ?a, lastdata_length := 3\<rparr>))"
    by (simp only: lcd_example of_nat_numeral)
qed

subsection \<open>Reading back\<close>

lemma micomWriteString_frame:
  "micomWriteString wait a len d = Some (r, e) \<Longrightarrow>
   \<exists>f. same_panel (d\<lparr>lastdata_data := take 20 a, lastdata_length := len\<rparr>) f \<and> e = f"
  unfolding micomWriteString_def
  by (auto simp: bind_eq_Some_conv split: if_splits) (metis micomWriteCommand_frame snd_conv)

lemma find_minor_cases: "find_minor filp d =
   (if panel_fp (FrontPanelOpen d ! 1) = Some filp then 1 else if panel_fp (FrontPanelOpen d ! 0) = Some filp then 0 else - 1)"
  by (simp add: find_minor_def LASTMINOR_def upt_rec)

text \<open>
  Claim C24. What was written to the display can be read back: after a write of a text (with or without a newline at its
  end) to the display device the next read of a reader that has not read all of it returns its first bytes, as many as were
  asked for and at most 16, and exactly the bytes written; the following read returns the end of file if that was the whole
  text, and the same bytes once more otherwise. The write releases the semaphore and its kernel buffer.
\<close>

theorem micom_write_read:
  assumes "find_minor filp d = 0" "buff \<noteq> []" "20 \<le> length slack" "write_sem d = 1" "length (FrontPanelOpen d) = 2"
    "text = (if last buff = 0x0a then butlast buff else buff)" "panel_read (FrontPanelOpen d ! 0) \<noteq> int (length text)"
    "m = min (min n (length text)) 16"
  shows "\<exists>res d1 d2. MICOMdev_write wait True slack False filp buff d = Some (res, d1) \<and> (res \<ge> 0 \<longrightarrow> res = int (length buff)) \<and>
    write_sem d1 = 1 \<and> kbufs d1 = kbufs d \<and>
    MICOMdev_read keywait False filp n d1 = Some (int m, take m text, d2) \<and>
    MICOMdev_read keywait False filp n d2 =
      (if m = length text then Some (0, [], upd_panel 0 (\<lambda>p. p\<lparr>panel_read := 0\<rparr>) d2) else Some (int m, take m text, d2))"
proof -
  define a where "a = buff @ slack"
  let ?n = "length text"
  let ?d = "d\<lparr>kbufs := kbufs d + 1, write_sem := 0\<rparr>"
  have n: "int ?n = (if last buff = 0x0a then int (length buff) - 1 else int (length buff))"
    using assms(2,6) by (cases buff) auto
  have nl: "?n \<le> length buff" using assms(6) by simp
  have tx: "take ?n a = text" using assms(6) by (auto simp: a_def butlast_conv_take)
  have lst: "a ! (length buff - 1) = last buff" using assms(2) by (simp add: a_def nth_append last_conv_nth)
  have al: "20 \<le> length a" "?n < length a" using assms(2,3) nl by (cases buff; simp add: a_def)+
  obtain r e where w: "micomWriteString wait a (int ?n) ?d = Some (r, e)"
    unfolding micom_string_sends [OF al] by (metis surj_pair)
  have f: "lastdata_length e = int ?n" "lastdata_data e = take 20 a" "FrontPanelOpen e = FrontPanelOpen d" "kbufs e = kbufs d + 1" "write_sem e = 0"
    using micomWriteString_frame [OF w] same_panel_fields by fastforce+
  let ?e = "write_sem_up (e\<lparr>kbufs := kbufs e - 1\<rparr>)"
  have wr: "MICOMdev_write wait True slack False filp buff d = Some (if r < 0 then r else int (length buff), ?e)"
    using assms(1,2,4) w lst n
    by (auto simp: a_def MICOMdev_write_def FRONTPANEL_MINOR_RC_def write_sem_down_def Let_def)
  have fm: "find_minor filp x = 0" if "panel_fp (FrontPanelOpen x ! 0) = panel_fp (FrontPanelOpen d ! 0)"
      "FrontPanelOpen x ! 1 = FrontPanelOpen d ! 1" for x
    using assms(1) that unfolding find_minor_cases by (auto split: if_splits)
  have m: "m \<le> 16" "m \<le> ?n" using assms(8) by simp_all
  have "take m (take 20 a) = take m (take ?n a)" using m by (simp add: min_def)
  then have "take m (take 20 a) = take m text" by (simp only: tx)
  then have data: "take m (lastdata_data ?e) = take m text" by (simp add: f write_sem_up_def)
  let ?g = "upd_panel 0 (\<lambda>p. p\<lparr>panel_read := int m\<rparr>) ?e"
  have rd: "MICOMdev_read keywait False filp n x =
      (if panel_read (FrontPanelOpen x ! 0) = int ?n then Some (0, [], upd_panel 0 (\<lambda>p. p\<lparr>panel_read := 0\<rparr>) x)
       else Some (int m, take m text, upd_panel 0 (\<lambda>p. p\<lparr>panel_read := int m\<rparr>) x))"
    if "find_minor filp x = 0" "lastdata_length x = int ?n" "take m (lastdata_data x) = take m text" for x
    using that assms(8) by (auto simp: MICOMdev_read_def FRONTPANEL_MINOR_RC_def Let_def min_def)
  have "MICOMdev_read keywait False filp n ?e = Some (int m, take m text, ?g)"
    using rd [OF fm, of ?e] data assms(7) by (simp add: f write_sem_up_def)
  moreover have "MICOMdev_read keywait False filp n ?g =
      (if m = ?n then Some (0, [], upd_panel 0 (\<lambda>p. p\<lparr>panel_read := 0\<rparr>) ?g) else Some (int m, take m text, ?g))"
    using rd [OF fm, of ?g] data assms(5) by (simp add: f write_sem_up_def)
  ultimately show ?thesis
    using wr f by (intro exI [of _ "if r < 0 then r else int (length buff)"] exI [of _ ?e] exI [of _ ?g])
      (simp add: write_sem_up_def)
qed


theorem micom_write_read_witness:
  "\<exists>res d1 d2. MICOMdev_write (\<lambda>n s. (1, s)) True (replicate 30 0) False 7 [0x41, 0x42, 0x0a]
       ((micom_static (\<lambda>_. 0))\<lparr>write_sem := 1, FrontPanelOpen := [\<lparr>panel_fp = Some 7, panel_read = 0\<rparr>, \<lparr>panel_fp = None, panel_read = 0\<rparr>]\<rparr>)
     = Some (res, d1) \<and> MICOMdev_read (\<lambda>_. None) False 7 100 d1 = Some (2, [0x41, 0x42], d2)"
proof -
  let ?d = "(micom_static (\<lambda>_. 0))\<lparr>write_sem := 1, FrontPanelOpen := [\<lparr>panel_fp = Some 7, panel_read = 0\<rparr>, \<lparr>panel_fp = None, panel_read = 0\<rparr>]\<rparr>"
  have "find_minor 7 ?d = 0" "[0x41, 0x42, 0x0a] \<noteq> ([] :: bytes)" "20 \<le> length (replicate 30 (0 :: byte))" "write_sem ?d = 1"
    "length (FrontPanelOpen ?d) = 2" "[0x41, 0x42] = (if last [0x41, 0x42, 0x0a] = (0x0a :: byte) then butlast [0x41, 0x42, 0x0a] else [0x41, 0x42, 0x0a])"
    "panel_read (FrontPanelOpen ?d ! 0) \<noteq> int (length [0x41, 0x42 :: byte])"
    by (simp_all add: find_minor_cases)
  from micom_write_read [OF this refl, of "\<lambda>n s. (1, s)" "\<lambda>_. None" 100] show ?thesis by auto
qed

subsection \<open>Asking the panel\<close>

text \<open>
  The world while a query waits, when the panel answers it: the transmit interrupt puts the command on the line, the panel
  replies to what it got, the receive interrupt takes the reply in and the task handles it.
\<close>

definition panel_replies :: "(bytes \<Rightarrow> bytes) \<Rightarrow> micom_wait" where
  "panel_replies panel n s =
     (let (tx, s) = FP_interrupt [] 255 s;
          (tx', s) = FP_interrupt (panel tx) 0 s
      in case processResponse s of Some t \<Rightarrow> (1, t) | None \<Rightarrow> (0, s))"

lemma panel_replies_state:
  assumes "serial_inv s" "ring_contents (RCV s) = []" "the_enabled s" "ring_contents (Out s) = q" "length (panel q) \<le> 255"
  shows "\<exists>t. serial_inv t \<and> ring_contents (RCV t) = panel q \<and> panel_view_of t = panel_view_of s \<and>
    panel_replies panel n s = (case processResponse t of Some u \<Rightarrow> (1, u) | None \<Rightarrow> (0, t))"
proof -
  obtain tx s1 where f1: "FP_interrupt [] 255 s = (tx, s1)" by fastforce
  obtain tx' s2 where f2: "FP_interrupt (panel tx) 0 s1 = (tx', s2)" by fastforce
  have wf: "ring_wf (Out s)" "ring_wf (RCV s)" using assms(1) by (simp_all add: serial_inv_def)
  have "length q \<le> 255" using rg.contents_cap [OF wf(1)] assms(4) by simp
  then have tx: "tx = q" using FP_interrupt_spec(1) [OF wf(1) f1] assms(3,4) by simp
  have 1: "serial_inv s1" "panel_view_of s1 = panel_view_of s" "RCV s1 = RCV s"
    using FP_interrupt_inv [OF assms(1) f1] by simp_all
  have z: "ring_count (RCV s) = 0" using assms(2) by (simp flip: length_ring_contents)
  have "ring_contents (RCV s2) = panel q"
    using FP_interrupt_inv [OF 1(1) f2] rg.put_all [OF wf(2), of "panel q"] assms(2,5) z tx 1(3) by simp
  moreover have "panel_replies panel n s = (case processResponse s2 of Some u \<Rightarrow> (1, u) | None \<Rightarrow> (0, s2))"
    using f1 f2 by (simp add: panel_replies_def)
  ultimately show ?thesis using FP_interrupt_inv [OF 1(1) f2] 1(2) by auto
qed

definition query_command :: "u32 \<Rightarrow> byte" where
  "query_command req = (if req = VFDGETTIME then 0x39 else if req = VFDGETVERSION then 0x05 else 0x43)"

lemma query_ioctl:
  assumes "req \<in> {VFDGETTIME, VFDGETVERSION, VFDGETWAKEUPMODE}" "write_sem d = 1"
    "micom_query (query_command req) wait (d\<lparr>write_sem := 0\<rparr>) = (res, e)"
  shows "MICOMdev_ioctl box behind ub wait False req arg d = Some (res, Some (ioctl_data (ser e)), e\<lparr>write_sem := write_sem e + 1\<rparr>)"
  using assms
  by (auto simp: MICOMdev_ioctl_def write_sem_down_def ioctl_switch_def vfd_defs query_command_def micomGetTime_def
      micomGetVersion_def micomGetWakeUpMode_def write_sem_up_def)

text \<open>
  Claim C22. Asking the panel for its time, its version or why it woke up: if during the wait the panel gets the command and
  answers, the request returns 0 and exactly the panel's answer to the eight bytes of the command; if it replies with an
  error, it returns a timeout and zeros; but if it does not reply at all and the wait times out, the request returns success
  with whatever answer came last.
\<close>

theorem micom_query_outcomes:
  assumes "req \<in> {VFDGETTIME, VFDGETVERSION, VFDGETWAKEUPMODE}" "serial_inv (ser d)" "ring_contents (RCV (ser d)) = []"
    "ring_contents (Out (ser d)) = []" "write_sem d = 1" "q = query_command req # replicate 7 0" "length (panel q) \<le> 255"
  shows "(answer_packet (panel q) \<longrightarrow>
      (\<exists>e. MICOMdev_ioctl box behind ub (panel_replies panel) False req arg d = Some (0, Some (panel q), e) \<and> write_sem e = 1)) \<and>
    (status_packet (panel q) \<and> panel q ! 0 = EVENT_ERR \<longrightarrow>
      (\<exists>e. MICOMdev_ioctl box behind ub (panel_replies panel) False req arg d = Some (- ETIMEDOUT, Some (replicate 8 0), e) \<and> write_sem e = 1)) \<and>
    (\<exists>e. MICOMdev_ioctl box behind ub (\<lambda>n s. (0, s)) False req arg d = Some (0, Some (ioctl_data (ser d)), e) \<and> write_sem e = 1)"
proof -
  let ?d = "d\<lparr>write_sem := 0, ser := (ser d)\<lparr>errorOccured := False\<rparr>\<rparr>"
  let ?s = "(ser (send_bytes q ?d))\<lparr>dataReady := False\<rparr>"
  have z: "ring_count (Out (ser d)) = 0" using assms(4) by (simp flip: length_ring_contents)
  have s: "serial_inv ?s" "ring_contents (RCV ?s) = []" "the_enabled ?s" "ring_contents (Out ?s) = q"
    "ioctl_data ?s = ioctl_data (ser d)" "errorOccured ?s = False"
    using assms(2-4,6) z fold_putc [of q "(ser d)\<lparr>errorOccured := False\<rparr>"] rg.put_all_wf [of "Out (ser d)" q] rg.put_all [of "Out (ser d)" q]
    by (simp_all add: serial_inv_def send_bytes_def the_enabled_def)
  have qry: "micom_query (query_command req) wait (d\<lparr>write_sem := 0\<rparr>) =
      (let (err, u) = wait (waits d) ?s; e = d\<lparr>write_sem := 0, ser := u, waits := Suc (waits d)\<rparr>
       in if err = - ERESTARTSYS then (- ERESTARTSYS, e)
          else if errorOccured u then (- ETIMEDOUT, e\<lparr>ser := u\<lparr>ioctl_data := replicate 8 0\<rparr>\<rparr>) else (0, e))" for wait
    using assms(6)
    by (simp add: micom_query_def micomWriteCommand_bytes command_acked_def ack_sem_down_def send_bytes_def Let_def ERESTARTSYS_def
        split: prod.split)
  obtain t where t: "serial_inv t" "ring_contents (RCV t) = panel q"
      "panel_replies panel (waits d) ?s = (case processResponse t of Some u \<Rightarrow> (1, u) | None \<Rightarrow> (0, t))"
    using panel_replies_state [where panel = panel, OF s(1-4) assms(7)] by blast
  have ans: "\<exists>e. MICOMdev_ioctl box behind ub (panel_replies panel) False req arg d = Some (0, Some (panel q), e) \<and> write_sem e = 1"
    if a: "answer_packet (panel q)"
  proof -
    obtain u where u: "processResponse t = Some u" "panel_view_of u = view_packet (panel q) (panel_view_of t)"
      using process_answer [OF t(1) _ a, of "[]"] t(2) by auto
    have "\<not> key_packet (panel q)" using a by (auto simp: key_packet_def answer_packet_def event_defs)
    with u(2) a have "ioctl_data u = panel q" "\<not> errorOccured u" by (simp_all add: panel_view_of_def view_packet_def)
    with u(1) t(3)
    have "micom_query (query_command req) (panel_replies panel) (d\<lparr>write_sem := 0\<rparr>) =
      (0, d\<lparr>write_sem := 0, ser := u, waits := Suc (waits d)\<rparr>)"
      by (simp add: qry ERESTARTSYS_def)
    from query_ioctl [OF assms(1,5) this] show ?thesis using \<open>ioctl_data u = panel q\<close> by simp
  qed
  have err: "\<exists>e. MICOMdev_ioctl box behind ub (panel_replies panel) False req arg d = Some (- ETIMEDOUT, Some (replicate 8 0), e) \<and> write_sem e = 1"
    if st: "status_packet (panel q)" "panel q ! 0 = EVENT_ERR"
  proof -
    obtain u where u: "processResponse t = Some u" "panel_view_of u = view_packet (panel q) (panel_view_of t)"
      using process_status [OF t(1) _ st(1), of "[]"] t(2) by auto
    have "\<not> key_packet (panel q)" "\<not> answer_packet (panel q)" using st(2) by (auto simp: key_packet_def answer_packet_def event_defs)
    with u(2) st have "errorOccured u" by (simp add: panel_view_of_def view_packet_def)
    with u(1) t(3)
    have "micom_query (query_command req) (panel_replies panel) (d\<lparr>write_sem := 0\<rparr>) =
      (- ETIMEDOUT, d\<lparr>write_sem := 0, ser := u\<lparr>ioctl_data := replicate 8 0\<rparr>, waits := Suc (waits d)\<rparr>)"
      by (simp add: qry ERESTARTSYS_def)
    from query_ioctl [OF assms(1,5) this] show ?thesis by simp
  qed
  have "micom_query (query_command req) (\<lambda>n s. (0, s)) (d\<lparr>write_sem := 0\<rparr>) =
      (0, d\<lparr>write_sem := 0, ser := ?s, waits := Suc (waits d)\<rparr>)"
    using s(6) by (simp add: qry ERESTARTSYS_def)
  from query_ioctl [OF assms(1,5) this] s(5)
  have "\<exists>e. MICOMdev_ioctl box behind ub (\<lambda>n s. (0, s)) False req arg d = Some (0, Some (ioctl_data (ser d)), e) \<and> write_sem e = 1"
    by simp
  with ans err show ?thesis by blast
qed

theorem micom_query_outcomes_witness:
  "\<exists>e. MICOMdev_ioctl UFS922 [] [] (panel_replies (\<lambda>q. [0xb9, 1, 2, 3, 4, 5, 6, 0xd])) False VFDGETTIME []
       ((micom_static (\<lambda>_. 0))\<lparr>write_sem := 1\<rparr>) = Some (0, Some [0xb9, 1, 2, 3, 4, 5, 6, 0xd], e)"
proof -
  let ?d = "(micom_static (\<lambda>_. 0))\<lparr>write_sem := 1\<rparr>"
  have d: "serial_inv (ser ?d)" "ring_contents (RCV (ser ?d)) = []" "ring_contents (Out (ser ?d)) = []" "write_sem ?d = 1"
    by (simp_all add: micom_static_def micom_serial_static_def serial_inv_def ring_wf_def ring_static_def BUFFERSIZE_def
        ring_contents_def ring_count_def)
  have p: "answer_packet [0xb9, 1, 2, 3, 4, 5, 6, 0xd]" by (simp add: answer_packet_def event_defs)
  have "VFDGETTIME \<in> {VFDGETTIME, VFDGETVERSION, VFDGETWAKEUPMODE}" by simp
  from micom_query_outcomes [OF this d refl, where panel = "\<lambda>q. [0xb9, 1, 2, 3, 4, 5, 6, 0xd]"
      and box = UFS922 and behind = "[]" and ub = "[]" and arg = "[]"] p
  show ?thesis by auto
qed


subsection \<open>Brightness\<close>

lemma vfd_level_table:
  "vfd_level 0 = 6" "vfd_level 1 = 5" "vfd_level 2 = 4" "vfd_level 3 = 3" "vfd_level 4 = 3" "vfd_level 5 = 2"
  "vfd_level 6 = 1" "vfd_level 7 = 1" "vfd_level 8 = 1"
  by (simp_all add: vfd_level_def signed_divide_int_def)

lemma vfd_level_beyond: "9 \<le> k \<Longrightarrow> vfd_level k \<le> 0"
proof -
  assume k: "9 \<le> k"
  have "vfd_level k = 1 - (((k - 7) * 100 div 7) * 5) div 100"
    using k by (simp add: vfd_level_def signed_divide_int_def Let_def abs_if left_diff_distrib)
  moreover have "28 \<le> (k - 7) * 100 div 7" using k by simp
  then have "1 \<le> (((k - 7) * 100 div 7) * 5) div 100" by simp
  ultimately show ?thesis by simp
qed

text \<open>
  A brightness request in the mode of the vfd driver sends the brightness command with levels 5, 4, 3, 3, 2, 1, 1, 1
  for start addresses 1 to 8; start address 0, which should be the darkest of the eight documented values, and everything
  from 9 on is refused with an error and nothing is sent.
\<close>

theorem micom_brightness_request:
  assumes "ioctl_mode d = 0" "write_sem d = 1" "k = unat (arg ! 0)"
  shows "MICOMdev_ioctl box behind ub wait False VFDBRIGHTNESS arg d =
    (if 1 \<le> k \<and> k \<le> 8
     then (let (res, e) = command_acked [0x25, [5, 4, 3, 3, 2, 1, 1, 1] ! (k - 1), 0, 0, 0, 0, 0, 0] wait (d\<lparr>write_sem := 0\<rparr>)
           in Some (res, None, e\<lparr>ioctl_mode := 0, write_sem := write_sem e + 1\<rparr>))
     else Some (- EINVAL, None, d))"
proof -
  have io: "MICOMdev_ioctl box behind ub wait False VFDBRIGHTNESS arg d =
      (let (res, e) = micomSetBrightness wait (vfd_level (int k)) (d\<lparr>write_sem := 0\<rparr>)
       in Some (res, None, e\<lparr>ioctl_mode := 0, write_sem := write_sem e + 1\<rparr>))"
    using assms
    by (simp add: MICOMdev_ioctl_def write_sem_down_def ioctl_switch_def vfd_defs vfd_start_address_def write_sem_up_def
        split: prod.split)
  show ?thesis
  proof (cases "1 \<le> k \<and> k \<le> 8")
    case True
    have "k = 1 \<or> k = 2 \<or> k = 3 \<or> k = 4 \<or> k = 5 \<or> k = 6 \<or> k = 7 \<or> k = 8" using True by linarith
    then show ?thesis
      unfolding io
      by (elim disjE) (simp_all add: vfd_level_table micomSetBrightness_def micomWriteCommand_bytes replicate8)
  next
    case False
    then have "k = 0 \<or> 9 \<le> k" by linarith
    then have "vfd_level (int k) < 1 \<or> vfd_level (int k) > 5"
      using vfd_level_table(1) vfd_level_beyond [of "int k"] by auto
    with False show ?thesis
      unfolding io using assms(1,2) by (cases d) (auto simp: micomSetBrightness_def)
  qed
qed

theorem micom_brightness_request_witness:
  "MICOMdev_ioctl UFS912 [] [] (\<lambda>n s. (1, s)) False VFDBRIGHTNESS [0] ((micom_static (\<lambda>_. 0))\<lparr>write_sem := 1\<rparr>) =
     Some (- EINVAL, None, (micom_static (\<lambda>_. 0))\<lparr>write_sem := 1\<rparr>)"
  using micom_brightness_request [of "(micom_static (\<lambda>_. 0))\<lparr>write_sem := 1\<rparr>" 0 "[0]" UFS912 "[]" "[]" "\<lambda>n s. (1, s)"]
  by (simp add: micom_static_def)

subsection \<open>The lock\<close>

lemma sem_same: "same_panel d e \<Longrightarrow> write_sem e = write_sem d"
  by (simp add: same_panel_fields)

lemmas sem_commands [simp] = commands_frame [THEN sem_same] micomInitialize_frame [THEN sem_same]
  micomSetStandby_frame [THEN sem_same] micom_query_frame [THEN sem_same]

lemma sem_string: "micomWriteString wait a len d = Some (r, e) \<Longrightarrow> write_sem e = write_sem d \<and> kbufs e = kbufs d"
  using micomWriteString_frame same_panel_fields by fastforce

lemma sem_init: "micom_init_func box behind wait d = Some (r, e) \<Longrightarrow> write_sem e = 1"
proof -
  have icons: "write_sem (fold (\<lambda>i d. snd (micomSetIcon wait i 0 d)) is x) = write_sem x" for "is" x
    by (induction "is" arbitrary: x) simp_all
  assume "micom_init_func box behind wait d = Some (r, e)"
  then show ?thesis
    unfolding micom_init_func_def Let_def case_prod_beta
    by (auto simp: bind_eq_Some_conv icons dest!: sem_string split: if_splits)
qed

lemma sem_switch:
  assumes "ioctl_switch box behind ub wait cmd arg d = Some (res, out, e)"
  shows "write_sem e = (if cmd = VFDDRIVERINIT then 1 else write_sem d)"
  using assms unfolding ioctl_switch_def Let_def case_prod_beta
  apply (simp only: split: if_split_asm)
  apply (auto simp: bind_eq_Some_conv micomGetTime_def micomGetVersion_def micomGetWakeUpMode_def vfd_defs
      dest: sem_string sem_init split: if_splits)
  done

text \<open>
  Claim C38. The driver's lock is released on every path: after any request, write or open that starts with the lock free it is
  free again, whatever the panel does, with one exception, a request to initialise the driver, which sets the lock up anew
  while it holds it and so leaves it counting two, that is two later operations run at once. A write gives its kernel buffer
  back unless a signal comes while it waits for the lock.
\<close>

theorem micom_lock:
  assumes "write_sem d = 1"
  shows "(MICOMdev_ioctl box behind ub wait interrupted cmd arg d = Some (res, out, e) \<longrightarrow>
      write_sem e = (if \<not> interrupted \<and> cmd = VFDDRIVERINIT then 2 else 1)) \<and>
    (MICOMdev_write wait alloc slack interrupted filp buff d = Some (res, e) \<longrightarrow>
      write_sem e = 1 \<and> (\<not> interrupted \<longrightarrow> kbufs e = kbufs d)) \<and>
    (MICOMdev_open interrupted minor filp d = Some (res, e) \<longrightarrow> write_sem e = 1)"
proof (intro conjI impI)
  assume "MICOMdev_ioctl box behind ub wait interrupted cmd arg d = Some (res, out, e)"
  with assms show "write_sem e = (if \<not> interrupted \<and> cmd = VFDDRIVERINIT then 2 else 1)"
    by (auto simp: MICOMdev_ioctl_def write_sem_down_def write_sem_up_def bind_eq_Some_conv dest!: sem_switch split: if_splits)
next
  assume w: "MICOMdev_write wait alloc slack interrupted filp buff d = Some (res, e)"
  show "write_sem e = 1"
    using w assms
    by (auto simp: MICOMdev_write_def write_sem_down_def write_sem_up_def bind_eq_Some_conv Let_def dest!: sem_string split: if_splits)
  assume "\<not> interrupted"
  with w assms show "kbufs e = kbufs d"
    by (auto simp: MICOMdev_write_def write_sem_down_def write_sem_up_def bind_eq_Some_conv Let_def dest!: sem_string split: if_splits)
next
  assume "MICOMdev_open interrupted minor filp d = Some (res, e)"
  with assms show "write_sem e = 1"
    by (auto simp: MICOMdev_open_def write_sem_down_def write_sem_up_def bind_eq_Some_conv split: if_splits)
qed

theorem micom_lock_witness:
  "\<exists>d e. write_sem d = 1 \<and> MICOMdev_ioctl UFS922 [] [] (\<lambda>n s. (1, s)) False VFDREBOOT [] d = Some (0, None, e) \<and> write_sem e = 1"
proof -
  let ?d = "(micom_static (\<lambda>_. 0))\<lparr>write_sem := 1\<rparr>"
  have d: "write_sem ?d = 1" by simp
  obtain e where e: "MICOMdev_ioctl UFS922 [] [] (\<lambda>n s. (1, s)) False VFDREBOOT [] ?d = Some (0, None, e)"
    by (simp add: MICOMdev_ioctl_def write_sem_down_def ioctl_switch_def vfd_defs micomReboot_def micomWriteCommand_bytes)
  have "write_sem e = 1"
    using micom_lock [OF d, of UFS922 "[]" "[]" "\<lambda>n s. (1, s)" False VFDREBOOT "[]" 0 None e] e by (simp add: vfd_defs)
  with d e show ?thesis by blast
qed

end
