(* ===== verification/Subtitle_Text.thy ===== *)
theory Subtitle_Text
  imports Complex_Main Prelude "HOL-Library.Monad_Syntax" "HOL-Library.Signed_Division"
begin

text \<open>
  The subtitle readers of libeplayer3: \<open>text_to_ass\<close> of \<open>include/subtitle.h\<close> and the threads of
  \<open>container/text_srt.c\<close> and \<open>container/text_ssa.c\<close>, which read a subtitle file line by line and hand each subtitle as an
  ASS dialogue line to the container that draws it.

  A file is its characters. Doubles and floats are rationals, and rounding to them is an argument (\<open>doubles\<close>), so a
  statement that depends on rounding has to say what it needs of it. Whether the player is still playing, which another
  thread decides, is an argument as well. \<open>None\<close> is a write beyond the buffer of \<open>text_to_ass\<close>.
\<close>

subsection \<open>C library\<close>

definition nl :: char where "nl = CHR 0x0A"
definition cr :: char where "cr = CHR 0x0D"
definition nul :: char where "nul = CHR 0x00"

definition c_str :: "string \<Rightarrow> string" where
  "c_str s = takeWhile (\<lambda>c. c \<noteq> nul) s"

text \<open>\<open>fgets\<close> with a buffer of \<open>n\<close> characters: what it stores, and what is left of the file.\<close>

definition fgets :: "nat \<Rightarrow> string \<Rightarrow> (string \<times> string) option" where
  "fgets n inp =
     (if inp = [] then None
      else (let k = min (n - 1) (length (takeWhile (\<lambda>c. c \<noteq> nl) inp) + 1) in Some (take k inp, drop k inp)))"

definition is_space :: "char \<Rightarrow> bool" where
  "is_space c \<longleftrightarrow> c = CHR 0x20 \<or> 9 \<le> (of_char c :: nat) \<and> (of_char c :: nat) \<le> 13"

definition is_digit :: "char \<Rightarrow> bool" where
  "is_digit c \<longleftrightarrow> 48 \<le> (of_char c :: nat) \<and> (of_char c :: nat) \<le> 57"

definition digits_val :: "string \<Rightarrow> nat" where
  "digits_val ds = foldl (\<lambda>v c. v * 10 + (of_char c - 48)) 0 ds"

text \<open>\<open>sscanf\<close>: a number, which is limited to the range of a \<open>long\<close>; a character of the format; white space.\<close>

definition scan_int :: "string \<Rightarrow> (int \<times> string) option" where
  "scan_int s =
     (let s = dropWhile is_space s;
          neg = (s \<noteq> [] \<and> hd s = CHR ''-'');
          s = (if s \<noteq> [] \<and> (hd s = CHR ''-'' \<or> hd s = CHR ''+'') then tl s else s);
          ds = takeWhile is_digit s;
          v = (if neg then - int (digits_val ds) else int (digits_val ds))
      in if ds = [] then None else Some (max (- (2 ^ 31)) (min (2 ^ 31 - 1) v), dropWhile is_digit s))"

definition scan_char :: "char \<Rightarrow> string \<Rightarrow> string option" where
  "scan_char c s = (case s of x # xs \<Rightarrow> if x = c then Some xs else None | [] \<Rightarrow> None)"

definition scan_space :: "string \<Rightarrow> string" where
  "scan_space s = dropWhile is_space s"

text \<open>\<open>printf\<close> of numbers.\<close>

definition digit_char :: "nat \<Rightarrow> char" where
  "digit_char n = char_of (48 + n)"

fun dec_nat :: "nat \<Rightarrow> string" where
  "dec_nat n = (if n < 10 then [digit_char n] else dec_nat (n div 10) @ [digit_char (n mod 10)])"

declare dec_nat.simps [simp del]

definition print_int :: "int \<Rightarrow> string" where
  "print_int i = (if i < 0 then CHR ''-'' # dec_nat (nat (- i)) else dec_nat (nat i))"

definition print_02 :: "int \<Rightarrow> string" where
  "print_02 i = (if 0 \<le> i \<and> i < 10 then CHR ''0'' # print_int i else print_int i)"

record doubles =
  dbl :: "rat \<Rightarrow> rat"
  flt :: "rat \<Rightarrow> rat"

definition trunc :: "rat \<Rightarrow> int" where
  "trunc r = (if r < 0 then \<lceil>r\<rceil> else \<lfloor>r\<rfloor>)"

subsection \<open>subtitle.h\<close>

record SubtitleData_t =
  sd_data :: string
  sd_len :: int
  sd_extradata :: string
  sd_extralen :: int
  sd_pts :: u64
  sd_duration :: rat

definition DEFAULT_ASS_HEAD :: string where
  "DEFAULT_ASS_HEAD = ''[Script Info]'' @ nl # ''Original Script: (c) 2008'' @ nl # ''ScriptType: v4.00'' @ nl #
     ''Synch Point: Side 1 0m00s'' @ nl # ''Collisions: Normal'' @ nl # ''Timer: 100.0000'' @ nl # nl #
     ''[V4 Styles]'' @ nl #
     ''Format: Name, Fontname, Fontsize, PrimaryColour, SecondaryColour, TertiaryColour, BackColour, Bold, Italic, BorderStyle, Outline, Shadow, Alignment, MarginL, MarginR, MarginV, AlphaLevel, Encoding'' @ nl #
     ''Style: Default,Arial,26,16777215,0,16777215,0,0,0,2,2,2,2,20,20,10,0'' @ nl # nl #
     ''[Events]'' @ nl # ''Format: Marked, Start, End, Style, Name, MarginL, MarginR, MarginV, Effect, Text'' @ nl # nl # [nl]"

fun ass_text :: "string \<Rightarrow> string" where
  "ass_text [] = []"
| "ass_text (c # cs) =
     (if c = nl then CHR 0x5C # CHR ''N'' # ass_text cs
      else if c \<noteq> cr then c # ass_text cs
      else ass_text cs)"

definition to_int :: "int \<Rightarrow> int" where
  "to_int i = sint (word_of_int i :: u32)"

text \<open>Hours, minutes, seconds and hundredths as they are printed.\<close>

definition ass_time :: "int \<Rightarrow> string" where
  "ass_time sc =
     (let sh = sc sdiv 360000; sc = sc - 360000 * sh;
          sm = sc sdiv 6000; sc = sc - 6000 * sm;
          ss = sc sdiv 100; sc = sc - 100 * ss
      in print_int sh @ '':'' @ print_02 sm @ '':'' @ print_02 ss @ ''.'' @ print_02 sc)"

definition text_to_ass :: "doubles \<Rightarrow> string \<Rightarrow> u64 \<Rightarrow> rat \<Rightarrow> string option" where
  "text_to_ass dd txt pts duration =
     (let buf = ass_text txt
      in if length buf + 1 > 1024 then None
         else
           (let len = 80 + length buf;
                end_pts = (word_of_int (trunc (dbl dd (dbl dd (of_int (sint pts)) + dbl dd (duration * 1000)))) :: u64);
                sc = to_int (sint pts sdiv 10);
                ec = to_int (sint end_pts sdiv 10)
            in Some (take (len - 1)
                 (''Dialogue: Marked=0,'' @ ass_time sc @ '','' @ ass_time ec @
                  '',Default,NTP,0000,0000,0000,!Effect,'' @ buf @ [nl]))))"

subsection \<open>text\_srt.c\<close>

definition MAXLINELENGTH :: nat where "MAXLINELENGTH = 80"

definition eol_char :: "char \<Rightarrow> bool" where
  "eol_char c \<longleftrightarrow> c = nl \<or> c = cr"

definition strip_eol :: "string \<Rightarrow> string" where
  "strip_eol t = (case t of [] \<Rightarrow> [] | c # cs \<Rightarrow> c # rev (dropWhile eol_char (rev cs)))"

text \<open>The subtitles handed over, which is none when the player is not playing.\<close>

definition data_to_manager :: "doubles \<Rightarrow> bool \<Rightarrow> string \<Rightarrow> u64 \<Rightarrow> rat \<Rightarrow> SubtitleData_t list option" where
  "data_to_manager dd playing txt pts duration =
     (if playing then do {
        line \<leftarrow> text_to_ass dd (strip_eol txt) pts duration;
        Some [\<lparr>sd_data = line, sd_len = int (length line), sd_extradata = DEFAULT_ASS_HEAD,
               sd_extralen = int (length DEFAULT_ASS_HEAD), sd_pts = pts * 90, sd_duration = flt dd duration\<rparr>]
      } else Some [])"

record srt_state =
  srt_pos :: nat
  srt_Pts :: u64
  srt_Duration :: rat
  srt_Text :: "string option"
  srt_out :: "SubtitleData_t list"
  srt_checks :: nat

definition srt_start :: srt_state where
  "srt_start = \<lparr>srt_pos = 0, srt_Pts = 0, srt_Duration = 0, srt_Text = None, srt_out = [], srt_checks = 0\<rparr>"

text \<open>The numbers of a time line; \<open>None\<close> when fewer than eight are found.\<close>

definition srt_times :: "string \<Rightarrow> int list option" where
  "srt_times d = do {
     (horIni, s) \<leftarrow> scan_int d; s \<leftarrow> scan_char CHR '':'' s;
     (minIni, s) \<leftarrow> scan_int s; s \<leftarrow> scan_char CHR '':'' s;
     (secIni, s) \<leftarrow> scan_int s; s \<leftarrow> scan_char CHR '','' s;
     (milIni, s) \<leftarrow> scan_int s;
     s \<leftarrow> scan_char CHR ''-'' (scan_space s); s \<leftarrow> scan_char CHR ''-'' s; s \<leftarrow> scan_char CHR ''>'' s;
     (horFim, s) \<leftarrow> scan_int (scan_space s); s \<leftarrow> scan_char CHR '':'' s;
     (minFim, s) \<leftarrow> scan_int s; s \<leftarrow> scan_char CHR '':'' s;
     (secFim, s) \<leftarrow> scan_int s; s \<leftarrow> scan_char CHR '','' s;
     (milFim, s) \<leftarrow> scan_int s;
     Some [horIni, minIni, secIni, milIni, horFim, minFim, secFim, milFim]
   }"

text \<open>Milliseconds, computed with 32 bit integers.\<close>

definition srt_ms :: "int \<Rightarrow> int \<Rightarrow> int \<Rightarrow> int \<Rightarrow> u32" where
  "srt_ms h m s l = (word_of_int h * 3600 + word_of_int m * 60 + word_of_int s) * 1000 + word_of_int l"

definition blank_line :: "string \<Rightarrow> bool" where
  "blank_line d \<longleftrightarrow> hd d = nl \<or> hd d = nul \<or> hd d = cr"

definition srt_emit :: "doubles \<Rightarrow> (nat \<Rightarrow> bool) \<Rightarrow> string \<Rightarrow> srt_state \<Rightarrow> srt_state option" where
  "srt_emit dd playing txt s = do {
     ds \<leftarrow> data_to_manager dd (playing (srt_checks s)) txt (srt_Pts s) (srt_Duration s);
     Some (s\<lparr>srt_out := srt_out s @ ds, srt_checks := Suc (srt_checks s), srt_Text := None\<rparr>)
   }"

definition srt_line :: "doubles \<Rightarrow> (nat \<Rightarrow> bool) \<Rightarrow> string \<Rightarrow> srt_state \<Rightarrow> srt_state option" where
  "srt_line dd playing d s =
     (if srt_pos s = 0 then Some (if blank_line d then s else s\<lparr>srt_pos := 1\<rparr>)
      else if srt_pos s = 1 then
        (case srt_times (c_str d) of
           Some [horIni, minIni, secIni, milIni, horFim, minFim, secFim, milFim] \<Rightarrow>
             (let pts = (scast (srt_ms horIni minIni secIni milIni) :: u64);
                  dur = dbl dd (dbl dd (of_int (uint ((scast (srt_ms horFim minFim secFim milFim) :: u64) - pts))) / 1000)
              in Some (s\<lparr>srt_Pts := pts, srt_Duration := dur, srt_pos := 2\<rparr>))
         | _ \<Rightarrow> Some s)
      else if srt_pos s = 2 then
        (if blank_line d then do {
           s \<leftarrow> srt_emit dd playing (case srt_Text s of None \<Rightarrow> '' '' @ [nl] | Some t \<Rightarrow> t) s;
           Some (s\<lparr>srt_pos := 0\<rparr>)
         } else Some (s\<lparr>srt_Text := Some (case srt_Text s of None \<Rightarrow> c_str d | Some t \<Rightarrow> t @ c_str d)\<rparr>))
      else Some s)"

lemma fgets_shorter: "1 < n \<Longrightarrow> fgets n inp = Some (d, rest) \<Longrightarrow> length rest < length inp"
  by (cases inp) (auto simp: fgets_def Let_def split: if_splits)

text \<open>\<open>running k\<close>: the condition of the loop before round \<open>k\<close>, but for the end of the file.\<close>

function srt_loop :: "doubles \<Rightarrow> (nat \<Rightarrow> bool) \<Rightarrow> (nat \<Rightarrow> bool) \<Rightarrow> nat \<Rightarrow> string \<Rightarrow> srt_state \<Rightarrow> srt_state option" where
  "srt_loop dd running playing k inp s =
     (if running k then
        (case fgets MAXLINELENGTH inp of
           None \<Rightarrow> Some s
         | Some (d, rest) \<Rightarrow> Option.bind (srt_line dd playing d s) (srt_loop dd running playing (Suc k) rest))
      else Some s)"
  by pat_completeness auto
termination
  by (relation "measure (\<lambda>(dd, running, playing, k, inp, s). length inp)")
    (auto simp: MAXLINELENGTH_def dest: fgets_shorter [of 80, simplified])

declare srt_loop.simps [simp del]

definition SrtSubtitleThread :: "doubles \<Rightarrow> (nat \<Rightarrow> bool) \<Rightarrow> (nat \<Rightarrow> bool) \<Rightarrow> string \<Rightarrow> SubtitleData_t list option" where
  "SrtSubtitleThread dd running playing inp = do {
     s \<leftarrow> srt_loop dd running playing 0 inp srt_start;
     s \<leftarrow> (case srt_Text s of Some t \<Rightarrow> srt_emit dd playing t s | None \<Rightarrow> Some s);
     Some (srt_out s)
   }"

subsection \<open>text\_ssa.c\<close>

definition SSA_BUFFER_SIZE :: nat where "SSA_BUFFER_SIZE = 14"

text \<open>
  A line and what is left of the file, which is \<open>None\<close> once it has been closed. The character read ahead is stored in a
  signed \<open>char\<close> and compared with \<open>EOF\<close>.
\<close>

function SSAgetLine :: "string \<Rightarrow> string \<Rightarrow> string \<times> string option" where
  "SSAgetLine strInput inp =
     (if inp = [] \<or> hd inp = CHR 0xFF then (strInput, None)
      else
        (case fgets SSA_BUFFER_SIZE inp of
           None \<Rightarrow> (strInput, None)
         | Some (c, rest) \<Rightarrow>
             (if nl \<in> set (c_str c) then (strInput @ take (length (c_str c) - 1) (c_str c), Some rest)
              else SSAgetLine (strInput @ c_str c) rest)))"
  by pat_completeness auto
termination
  by (relation "measure (\<lambda>(a, inp). length inp)") (auto simp: SSA_BUFFER_SIZE_def dest: fgets_shorter [of 14, simplified])

declare SSAgetLine.simps [simp del]

definition is_dialogue :: "string \<Rightarrow> bool" where
  "is_dialogue line \<longleftrightarrow> take 10 line = ''Dialogue: ''"

lemma SSAgetLine_shorter: "SSAgetLine a inp = (line, Some rest) \<Longrightarrow> length rest < length inp"
proof (induction a inp rule: SSAgetLine.induct)
  case (1 a inp)
  have ne: "\<not> (inp = [] \<or> hd inp = CHR 0xFF)"
    using 1(2) by (subst (asm) SSAgetLine.simps) (simp split: if_splits)
  then obtain c r where f: "fgets SSA_BUFFER_SIZE inp = Some (c, r)"
    by (simp add: fgets_def Let_def)
  have r: "length r < length inp" using f fgets_shorter [of 14 inp c r] by (simp add: SSA_BUFFER_SIZE_def)
  show ?case
  proof (cases "nl \<in> set (c_str c)")
    case True
    then have "rest = r" using 1(2) ne f by (subst (asm) SSAgetLine.simps) simp
    with r show ?thesis by simp
  next
    case False
    then have "SSAgetLine (a @ c_str c) r = (line, Some rest)" using 1(2) ne f by (subst (asm) SSAgetLine.simps) simp
    with 1(1) [OF ne f refl False] r show ?thesis by simp
  qed
qed

text \<open>The inner loop: the next dialogue line, or the last line, with the header lines before it added to \<open>head\<close>.\<close>

function ssa_next :: "string \<Rightarrow> string \<Rightarrow> string \<times> string option \<times> string" where
  "ssa_next inp head =
     (case SSAgetLine [] inp of
        (line, inp') \<Rightarrow>
          (let head = (if \<not> is_dialogue line then head @ line @ [nl] else head)
           in case inp' of
                None \<Rightarrow> (line, None, head)
              | Some rest \<Rightarrow> (if \<not> is_dialogue line then ssa_next rest head else (line, Some rest, head))))"
  by pat_completeness auto
termination
  by (relation "measure (\<lambda>(inp, head). length inp)") (auto dest: SSAgetLine_shorter sym)

declare ssa_next.simps [simp del]

lemma ssa_next_shorter: "ssa_next inp head = (line, Some rest, head') \<Longrightarrow> length rest < length inp"
proof (induction inp head rule: ssa_next.induct)
  case (1 inp head)
  obtain l f where g: "SSAgetLine [] inp = (l, f)" by fastforce
  then obtain r where r: "f = Some r" using 1(2) by (cases f) (simp_all add: ssa_next.simps [of inp] Let_def)
  have "length r < length inp" using SSAgetLine_shorter g r by blast
  moreover have "rest = r \<or> length rest < length r"
    using 1(2) 1(1) [OF g [symmetric] refl r] g r
    by (cases "is_dialogue l") (simp_all add: ssa_next.simps [of inp] Let_def)
  ultimately show ?case by auto
qed

definition ssa_event :: "string \<Rightarrow> string \<Rightarrow> SubtitleData_t" where
  "ssa_event line head = \<lparr>sd_data = line, sd_len = int (length line), sd_extradata = head, sd_extralen = int (length head),
     sd_pts = 0, sd_duration = 0\<rparr>"

function ssa_loop :: "(nat \<Rightarrow> bool) \<Rightarrow> (nat \<Rightarrow> bool) \<Rightarrow> nat \<Rightarrow> string option \<Rightarrow> string \<Rightarrow> SubtitleData_t list" where
  "ssa_loop running playing k inp head =
     (case inp of
        None \<Rightarrow> []
      | Some f \<Rightarrow>
          (if running k then
             (case ssa_next f head of
                (line, inp', head') \<Rightarrow>
                  (if playing k then [ssa_event line head'] else []) @ ssa_loop running playing (Suc k) inp' head')
           else []))"
  by pat_completeness auto
termination
  by (relation "measure (\<lambda>(running, playing, k, inp, head). case inp of None \<Rightarrow> 0 | Some f \<Rightarrow> Suc (length f))")
    (auto dest: ssa_next_shorter [OF sym] split: option.splits)

declare ssa_loop.simps [simp del]

definition SsaSubtitleThread :: "(nat \<Rightarrow> bool) \<Rightarrow> (nat \<Rightarrow> bool) \<Rightarrow> string option \<Rightarrow> SubtitleData_t list" where
  "SsaSubtitleThread running playing inp = ssa_loop running playing 0 inp []"

subsection \<open>Lines\<close>

definition rstrip :: "string \<Rightarrow> string" where
  "rstrip w = rev (dropWhile eol_char (rev w))"

lemma char_neqs [simp]: "nl \<noteq> cr" "nl \<noteq> nul" "cr \<noteq> nl" "nul \<noteq> nl" "cr \<noteq> nul" "nul \<noteq> cr"
  by (simp_all add: nl_def cr_def nul_def)

lemma strip_eol_cons: "strip_eol (c # cs) = c # rstrip cs"
  by (simp add: strip_eol_def rstrip_def)

lemma rstrip_append: "\<not> eol_char a \<Longrightarrow> rstrip (u @ a # w) = u @ a # rstrip w"
proof -
  assume a: "\<not> eol_char a"
  have "dropWhile eol_char (xs @ a # ys) = dropWhile eol_char xs @ a # ys" for xs ys
    using a by (induction xs) auto
  then show ?thesis by (simp add: rstrip_def)
qed

lemma strip_eol_append: "\<not> eol_char a \<Longrightarrow> strip_eol (u @ a # w) = u @ a # rstrip w"
  by (cases u) (simp_all add: strip_eol_cons rstrip_append)

lemma ass_text_append: "ass_text (xs @ ys) = ass_text xs @ ass_text ys"
  by (induction xs) simp_all

lemma ass_text_line: "nl \<notin> set l \<Longrightarrow> ass_text l = filter (\<lambda>c. c \<noteq> cr) l"
  by (induction l) auto

lemma ass_text_rstrip: "nl \<notin> set w \<Longrightarrow> ass_text (rstrip w) = ass_text w"
  by (induction w rule: rev_induct) (auto simp: rstrip_def eol_char_def ass_text_append)

definition good_line :: "string \<Rightarrow> bool" where
  "good_line l \<longleftrightarrow> l \<noteq> [] \<and> length l \<le> 78 \<and> nl \<notin> set l \<and> nul \<notin> set l \<and> hd l \<noteq> cr"

text \<open>Lines of text as one line: without carriage returns, joined by the mark of ASS for a new line.\<close>

fun join_lines :: "string list \<Rightarrow> string" where
  "join_lines [] = []"
| "join_lines [l] = filter (\<lambda>c. c \<noteq> cr) l"
| "join_lines (l # l' # ls) = filter (\<lambda>c. c \<noteq> cr) l @ CHR 0x5C # CHR ''N'' # join_lines (l' # ls)"

definition put_lines :: "string list \<Rightarrow> string" where
  "put_lines ls = concat (map (\<lambda>l. l @ [nl]) ls)"

lemma ass_text_lines:
  assumes "ls \<noteq> []" "list_all good_line ls"
  shows "ass_text (strip_eol (put_lines ls)) = join_lines ls"
proof -
  obtain ms l where ls: "ls = ms @ [l]" using assms(1) by (cases ls rule: rev_cases) auto
  have l: "good_line l" using assms(2) ls by simp
  then obtain a w where aw: "l = a # w" "\<not> eol_char a" "nl \<notin> set w"
    by (cases l) (auto simp: good_line_def eol_char_def)
  have "ass_text (rstrip (w @ [nl])) = ass_text w"
    using ass_text_rstrip [OF aw(3)] by (simp add: rstrip_def eol_char_def [of nl])
  then have "ass_text (strip_eol (put_lines ls)) = ass_text (put_lines ms) @ ass_text l"
    using aw by (simp add: ls put_lines_def strip_eol_append ass_text_append)
  also have "\<dots> = join_lines ls"
    using assms(2) unfolding ls
  proof (induction ms)
    case Nil
    then show ?case by (simp add: put_lines_def ass_text_line good_line_def)
  next
    case (Cons m ms)
    then show ?case
      by (cases "ms @ [l]") (auto simp: put_lines_def ass_text_append ass_text_line good_line_def)
  qed
  finally show ?thesis .
qed

lemma fgets_line:
  "nl \<notin> set l \<Longrightarrow> length l + 2 \<le> n \<Longrightarrow> fgets n (l @ nl # rest) = Some (l @ [nl], rest)"
proof -
  assume *: "nl \<notin> set l" "length l + 2 \<le> n"
  have "takeWhile (\<lambda>c. c \<noteq> nl) (l @ nl # rest) = l" using *(1) by (subst takeWhile_append2) auto
  then have "min (n - 1) (length (takeWhile (\<lambda>c. c \<noteq> nl) (l @ nl # rest)) + 1) = length l + 1" using *(2) by simp
  then show ?thesis by (simp add: fgets_def)
qed

lemma c_str_id: "nul \<notin> set l \<Longrightarrow> c_str l = l"
  by (simp add: c_str_def takeWhile_eq_all_conv) blast

subsection \<open>Numbers\<close>

lemma of_char_digit: "n < 10 \<Longrightarrow> of_char (digit_char n) = 48 + n"
  by (simp add: digit_char_def)

lemma is_digit_digit [simp]: "n < 10 \<Longrightarrow> is_digit (digit_char n)"
  by (simp add: is_digit_def of_char_digit)

lemma dec_nat_digits: "list_all is_digit (dec_nat n) \<and> dec_nat n \<noteq> []"
  by (induction n rule: dec_nat.induct) (subst (1 2) dec_nat.simps, auto)

lemma digits_val_append: "digits_val (xs @ ys) = digits_val xs * 10 ^ length ys + digits_val ys"
proof (induction ys rule: rev_induct)
  case (snoc y ys)
  have "digits_val (zs @ [y]) = digits_val zs * 10 + (of_char y - 48)" for zs
    by (simp add: digits_val_def)
  from this [of "xs @ ys"] this [of ys] snoc show ?case by (simp add: algebra_simps)
qed (simp add: digits_val_def)

lemma digits_val_dec [simp]: "digits_val (dec_nat n) = n"
proof (induction n rule: dec_nat.induct)
  case (1 n)
  then show ?case
    by (subst dec_nat.simps) (auto simp: digits_val_append, auto simp: digits_val_def of_char_digit)
qed

definition pad :: "nat \<Rightarrow> nat \<Rightarrow> string" where
  "pad w n = replicate (w - length (dec_nat n)) (digit_char 0) @ dec_nat n"

lemma digits_val_zeros [simp]: "digits_val (replicate k (digit_char 0)) = 0"
  by (induction k) (simp_all add: digits_val_def of_char_digit)

lemma digits_val_pad [simp]: "digits_val (pad w n) = n"
  by (simp add: pad_def digits_val_append)

lemma pad_digits: "list_all is_digit (pad w n)" "pad w n \<noteq> []"
  using dec_nat_digits [of n] by (auto simp: pad_def list_all_iff)

lemma digit_not_space: "is_digit c \<Longrightarrow> \<not> is_space c \<and> c \<noteq> CHR ''-'' \<and> c \<noteq> CHR ''+''"
  by (auto simp: is_digit_def is_space_def)

lemma scan_int_pad:
  assumes "n < 2147483648" "rest = [] \<or> \<not> is_digit (hd rest)"
  shows "scan_int (pad w n @ rest) = Some (int n, rest)"
proof -
  obtain c cs where p: "pad w n = c # cs" using pad_digits(2) [of w n] by (cases "pad w n") auto
  have d: "list_all is_digit (pad w n)" by (rule pad_digits)
  then have c: "is_digit c" using p by simp
  have tw: "takeWhile is_digit (pad w n @ rest) = pad w n" "dropWhile is_digit (pad w n @ rest) = rest"
    using d assms(2) by (auto simp: list_all_iff takeWhile_append dropWhile_append hd_conv_nth takeWhile_eq_Nil_iff dropWhile_eq_self_iff)
  show ?thesis
    using tw digit_not_space [OF c] digits_val_pad [of w n] pad_digits(2) [of w n] assms(1) p
    by (simp add: scan_int_def)
qed

definition srt_time :: "nat \<Rightarrow> string" where
  "srt_time ms = pad 2 (ms div 3600000) @ '':'' @ pad 2 (ms div 60000 mod 60) @ '':'' @ pad 2 (ms div 1000 mod 60) @ '','' @
     pad 3 (ms mod 1000)"

lemma not_digit [simp]:
  "\<not> is_digit CHR '':''" "\<not> is_digit CHR '',''" "\<not> is_digit CHR '' ''" "\<not> is_digit nl" "\<not> is_digit CHR ''-''" "is_space CHR '' ''"
  "\<not> is_space CHR ''-''"
  by (simp_all add: is_digit_def is_space_def nl_def)

lemma srt_times_read:
  assumes "b < 360000000" "e < 360000000"
  shows "srt_times (srt_time b @ '' --> '' @ srt_time e @ [nl]) =
    Some [int (b div 3600000), int (b div 60000 mod 60), int (b div 1000 mod 60), int (b mod 1000),
          int (e div 3600000), int (e div 60000 mod 60), int (e div 1000 mod 60), int (e mod 1000)]"
proof -
  have sp: "scan_space (pad w n @ r) = pad w n @ r" for w n r
    using pad_digits [of w n] digit_not_space by (cases "pad w n") (auto simp: scan_space_def)
  have sp2: "scan_space (CHR '' '' # r) = scan_space r" "scan_space (CHR ''-'' # r) = CHR ''-'' # r" for r
    by (simp_all add: scan_space_def)
  have b: "b div 3600000 < 2147483648" "e div 3600000 < 2147483648" using assms by simp_all
  show ?thesis
    using b by (simp add: srt_times_def srt_time_def scan_int_pad scan_char_def sp sp2)
qed

subsection \<open>Times\<close>

text \<open>
  What is needed of the rounding: integers a double can hold are kept, and other numbers of moderate size have a relative
  error of at most \<open>2^-53\<close>, as IEEE 754 demands.
\<close>

definition double_rounding :: "doubles \<Rightarrow> bool" where
  "double_rounding dd \<longleftrightarrow>
     (\<forall>i. \<bar>i\<bar> \<le> 2 ^ 53 \<longrightarrow> dbl dd (of_int i) = of_int i) \<and>
     (\<forall>x. 1 / 1000 \<le> \<bar>x\<bar> \<and> \<bar>x\<bar> \<le> 2 ^ 53 \<longrightarrow> \<bar>dbl dd x - x\<bar> \<le> \<bar>x\<bar> / 2 ^ 53)"

definition srt_seconds :: "doubles \<Rightarrow> nat \<Rightarrow> rat" where
  "srt_seconds dd n = dbl dd (dbl dd (of_nat n) / 1000)"

lemma double_int: "double_rounding dd \<Longrightarrow> \<bar>i\<bar> \<le> 2 ^ 53 \<Longrightarrow> dbl dd (of_int i) = of_int i"
  by (simp add: double_rounding_def)

lemma double_nat: "double_rounding dd \<Longrightarrow> n \<le> 2 ^ 53 \<Longrightarrow> dbl dd (of_nat n) = of_nat n"
  using double_int [of dd "int n"] by simp

lemma double_err: "double_rounding dd \<Longrightarrow> 1 / 1000 \<le> \<bar>x\<bar> \<Longrightarrow> \<bar>x\<bar> \<le> 2 ^ 53 \<Longrightarrow> \<bar>dbl dd x - x\<bar> \<le> \<bar>x\<bar> / 2 ^ 53"
  by (simp add: double_rounding_def)

lemma trunc_near:
  assumes "\<bar>r - of_nat n\<bar> < 1 / 2" "n = 0 \<longrightarrow> r = 0"
  shows "trunc r = int n \<or> trunc r = int n - 1 \<and> 0 < n"
proof (cases "n = 0")
  case True
  with assms(2) show ?thesis by (simp add: trunc_def)
next
  case False
  then have "(1::rat) \<le> of_nat n" by (metis One_nat_def Suc_leI neq0_conv of_nat_1 of_nat_le_iff)
  then have r: "0 \<le> r" using assms(1) by linarith
  have b: "of_nat n - 1 / 2 < r" "r < of_nat n + 1 / 2" using assms(1) unfolding abs_less_iff by linarith+
  then have "of_int (int n - 1) \<le> r" "r < of_int (int n + 1)" by simp_all
  then have "int n - 1 \<le> \<lfloor>r\<rfloor>" "\<lfloor>r\<rfloor> < int n + 1" by (simp_all only: le_floor_iff floor_less_iff)
  then show ?thesis using r False by (auto simp: trunc_def)
qed

lemma end_time:
  assumes "double_rounding dd" "b \<le> e" "e < 360000000"
  shows "trunc (dbl dd (dbl dd (of_int (int b)) + dbl dd (srt_seconds dd (e - b) * 1000))) = int e \<or>
    trunc (dbl dd (dbl dd (of_int (int b)) + dbl dd (srt_seconds dd (e - b) * 1000))) = int e - 1 \<and> 0 < e"
proof -
  define n where "n = e - b"
  define d where "d = srt_seconds dd n"
  define m where "m = dbl dd (d * 1000)"
  define s where "s = (of_nat b :: rat) + m"
  have nl: "n < 360000000" using assms(2,3) by (simp add: n_def)
  have bb: "dbl dd (of_int (int b)) = of_nat b" using assms double_nat [of dd b] by simp
  have nn: "dbl dd (of_nat n) = of_nat n" using nl double_nat [OF assms(1), of n] by simp
  have m: "\<bar>m - of_nat n\<bar> \<le> 1 / 2 ^ 20 \<and> (n = 0 \<longrightarrow> m = 0)"
  proof (cases "n = 0")
    case True
    then have "d = 0" using nn double_int [OF assms(1), of 0] by (simp add: d_def srt_seconds_def)
    with True show ?thesis using double_int [OF assms(1), of 0] by (simp add: m_def)
  next
    case False
    then have n1: "(1::rat) \<le> of_nat n" by (metis One_nat_def Suc_leI neq0_conv of_nat_1 of_nat_le_iff)
    have n2: "(of_nat n :: rat) \<le> 360000000" using nl by (metis less_imp_le of_nat_le_iff of_nat_numeral)
    have "\<bar>d - of_nat n / 1000\<bar> \<le> (of_nat n / 1000) / 2 ^ 53"
      using double_err [OF assms(1), of "of_nat n / 1000"] n1 n2 by (simp add: d_def srt_seconds_def nn)
    moreover have "d * 1000 - of_nat n = 1000 * (d - of_nat n / 1000)" by simp
    then have "\<bar>d * 1000 - of_nat n\<bar> = 1000 * \<bar>d - of_nat n / 1000\<bar>" by (simp only: abs_mult abs_numeral)
    ultimately have d: "\<bar>d * 1000 - of_nat n\<bar> \<le> of_nat n / 2 ^ 53" by simp
    have d1: "1 / 1000 \<le> \<bar>d * 1000\<bar>" "\<bar>d * 1000\<bar> \<le> 2 * of_nat n"
    proof -
      have "of_nat n / 2 ^ 53 \<le> (1 / 2 :: rat)" using n2 by simp
      then have "of_nat n - 1 / 2 \<le> d * 1000" "d * 1000 \<le> of_nat n + 1 / 2" using d unfolding abs_le_iff by linarith+
      then show "1 / 1000 \<le> \<bar>d * 1000\<bar>" "\<bar>d * 1000\<bar> \<le> 2 * of_nat n" using n1 by linarith+
    qed
    then have "\<bar>d * 1000\<bar> \<le> 2 ^ 53" using n2 by simp
    then have "\<bar>m - d * 1000\<bar> \<le> 2 * of_nat n / 2 ^ 53"
      using double_err [OF assms(1) d1(1)] d1(2) by (simp add: m_def divide_right_mono [THEN order_trans [rotated]])
    then have md: "\<bar>m - d * 1000\<bar> + \<bar>d * 1000 - of_nat n\<bar> \<le> 2 * of_nat n / 2 ^ 53 + of_nat n / 2 ^ 53"
      using d by (rule add_mono)
    have "\<bar>m - of_nat n\<bar> \<le> \<bar>m - d * 1000\<bar> + \<bar>d * 1000 - of_nat n\<bar>" by linarith
    also note md
    also have "2 * of_nat n / 2 ^ 53 + of_nat n / 2 ^ 53 = (3 * of_nat n / 2 ^ 53 :: rat)" by simp
    also have "\<dots> \<le> 1 / 2 ^ 20" using n2 by simp
    finally show ?thesis using False by simp
  qed
  have eb: "(of_nat e :: rat) = of_nat b + of_nat n" using assms(2) by (simp add: n_def of_nat_diff)
  have s: "\<bar>s - of_nat e\<bar> \<le> 1 / 2 ^ 20" using m by (simp add: s_def eb)
  have e2: "(of_nat e :: rat) \<le> 360000000" using assms(3) by (metis less_imp_le of_nat_le_iff of_nat_numeral)
  have "\<bar>dbl dd s - of_nat e\<bar> < 1 / 2 \<and> (e = 0 \<longrightarrow> dbl dd s = 0)"
  proof (cases "e = 0")
    case True
    then have "s = 0" using m assms(2) by (simp add: s_def n_def)
    with True show ?thesis using double_int [OF assms(1), of 0] by simp
  next
    case False
    then have e1: "(1::rat) \<le> of_nat e" by (metis One_nat_def Suc_leI neq0_conv of_nat_1 of_nat_le_iff)
    have "\<bar>s - of_nat e\<bar> \<le> 1 / 8" using s by (rule order_trans) simp
    then have sb: "of_nat e - 1 / 8 \<le> s" "s \<le> of_nat e + 1 / 8" unfolding abs_le_iff by linarith+
    then have s1: "1 / 1000 \<le> \<bar>s\<bar>" "\<bar>s\<bar> \<le> 360000001" using e1 e2 by linarith+
    then have "\<bar>s\<bar> \<le> 2 ^ 53" by simp
    with double_err [OF assms(1) s1(1)] have "\<bar>dbl dd s - s\<bar> \<le> \<bar>s\<bar> / 2 ^ 53" .
    also have "\<dots> \<le> 1 / 8" using s1(2) by simp
    finally have "s - 1 / 8 \<le> dbl dd s" "dbl dd s \<le> s + 1 / 8" unfolding abs_le_iff by linarith+
    then show ?thesis using sb False unfolding abs_less_iff by simp
  qed
  then have "trunc (dbl dd s) = int e \<or> trunc (dbl dd s) = int e - 1 \<and> 0 < e" using trunc_near by blast
  then show ?thesis unfolding bb by (simp add: s_def m_def d_def n_def)
qed


lemma sint_nat64: "n < 2 ^ 63 \<Longrightarrow> sint (word_of_int (int n) :: u64) = int n"
proof -
  assume n: "n < 2 ^ 63"
  then have u: "uint (word_of_int (int n) :: u64) = int n"
    by (simp add: unsigned_of_nat take_bit_nat_eq_self)
  from n have "int n < 2 ^ 63" by (metis of_nat_less_iff of_nat_numeral of_nat_power)
  then show ?thesis by (simp only: sint_uint u) (simp add: signed_take_bit_int_eq_self)
qed

lemma sint_nat32: "n < 2 ^ 31 \<Longrightarrow> sint (word_of_int (int n) :: u32) = int n"
proof -
  assume n: "n < 2 ^ 31"
  then have u: "uint (word_of_int (int n) :: u32) = int n"
    by (simp add: unsigned_of_nat take_bit_nat_eq_self)
  from n have "int n < 2 ^ 31" by (metis of_nat_less_iff of_nat_numeral of_nat_power)
  then show ?thesis by (simp only: sint_uint u) (simp add: signed_take_bit_int_eq_self)
qed

lemma sdiv_nat: "int n sdiv 10 = int (n div 10)"
  by (simp add: signed_divide_int_def sgn_if zdiv_int)

lemma ass_time_short: "c < 36000000 \<Longrightarrow> length (ass_time (int c)) \<le> 11"
proof -
  assume c: "c < 36000000"
  have d: "length (dec_nat n) \<le> 2" if "n < 100" for n
    using that by (subst dec_nat.simps, subst dec_nat.simps) auto
  have p: "length (print_02 i) \<le> 2" "length (print_int i) \<le> 2" if "0 \<le> i" "i < 100" for i
    using that d [of "nat i"] by (auto simp: print_02_def print_int_def dec_nat.simps)
  have q: "int c sdiv 360000 = int (c div 360000)" by (simp add: signed_divide_int_def sgn_if zdiv_int)
  have mm: "int x - int k * int (x div k) = int (x mod k)" for x k
    by (simp add: minus_mult_div_eq_mod zdiv_int zmod_int)
  have m: "int c - 360000 * int (c div 360000) = int (c mod 360000)"
    using mm [of c 360000] by (simp only: of_nat_numeral)
  have q2: "int (c mod 360000) sdiv 6000 = int (c mod 360000 div 6000)" by (simp add: signed_divide_int_def sgn_if zdiv_int)
  have m2: "int (c mod 360000) - 6000 * int (c mod 360000 div 6000) = int (c mod 360000 mod 6000)"
    using mm [of "c mod 360000" 6000] by (simp only: of_nat_numeral)
  have q3: "int (c mod 360000 mod 6000) sdiv 100 = int (c mod 360000 mod 6000 div 100)"
    by (simp add: signed_divide_int_def sgn_if zdiv_int)
  have m3: "int (c mod 360000 mod 6000) - 100 * int (c mod 360000 mod 6000 div 100) = int (c mod 360000 mod 6000 mod 100)"
    using mm [of "c mod 360000 mod 6000" 100] by (simp only: of_nat_numeral)
  have b: "c div 360000 < 100" "c mod 360000 div 6000 < 100" "c mod 360000 mod 6000 div 100 < 100" "c mod 360000 mod 6000 mod 100 < 100"
    using c by (simp_all add: less_mult_imp_div_less)
  have "length (print_int (int (c div 360000))) \<le> 2" "length (print_02 (int (c mod 360000 div 6000))) \<le> 2"
    "length (print_02 (int (c mod 360000 mod 6000 div 100))) \<le> 2" "length (print_02 (int (c mod 360000 mod 6000 mod 100))) \<le> 2"
    using b by (intro p; linarith)+
  then show ?thesis by (simp only: ass_time_def Let_def q m q2 m2 q3 m3) simp
qed

definition ass_line :: "nat \<Rightarrow> nat \<Rightarrow> string \<Rightarrow> string" where
  "ass_line sc ec buf = ''Dialogue: Marked=0,'' @ ass_time (int sc) @ '','' @ ass_time (int ec) @
     '',Default,NTP,0000,0000,0000,!Effect,'' @ buf @ [nl]"

lemma text_to_ass_line:
  assumes "double_rounding dd" "b \<le> e" "e < 360000000" "length (ass_text txt) \<le> 1023"
  shows "\<exists>ec \<in> {e div 10, (e - 1) div 10}.
    text_to_ass dd txt (of_nat b) (srt_seconds dd (e - b)) = Some (ass_line (b div 10) ec (ass_text txt))"
proof -
  have b: "sint (of_nat b :: u64) = int b" using sint_nat64 [of b] assms by simp
  obtain f where f: "f = e \<or> f = e - 1 \<and> 0 < e"
      "trunc (dbl dd (dbl dd (of_int (int b)) + dbl dd (srt_seconds dd (e - b) * 1000))) = int f"
    using end_time [OF assms(1-3)] by (metis Suc_leI of_nat_1 of_nat_diff One_nat_def)
  then have fl: "f < 360000000" "f div 10 \<in> {e div 10, (e - 1) div 10}" using assms(3) by auto
  have t: "to_int (int n sdiv 10) = int (n div 10)" if "n < 360000000" for n
    using that sint_nat32 [of "n div 10"] by (simp add: to_int_def sdiv_nat)
  have len: "length (ass_time (int (b div 10))) \<le> 11" "length (ass_time (int (f div 10))) \<le> 11"
    using assms(2,3) fl(1) by (intro ass_time_short; simp)+
  have "text_to_ass dd txt (of_nat b) (srt_seconds dd (e - b)) = Some (ass_line (b div 10) (f div 10) (ass_text txt))"
    using assms(4) len fl(1) assms(2,3) f(2) t [of b] t [of f] sint_nat64 [of f]
    by (simp add: text_to_ass_def b ass_line_def)
  with fl(2) show ?thesis by blast
qed


subsection \<open>Reading an SRT file\<close>

record subtitle =
  st_start :: nat
  st_end :: nat
  st_lines :: "string list"

definition good_subtitle :: "subtitle \<Rightarrow> bool" where
  "good_subtitle sub \<longleftrightarrow> st_start sub \<le> st_end sub \<and> st_end sub < 360000000 \<and> st_lines sub \<noteq> [] \<and>
     list_all good_line (st_lines sub) \<and> length (join_lines (st_lines sub)) \<le> 1023"

definition srt_block :: "string \<Rightarrow> subtitle \<Rightarrow> string" where
  "srt_block num sub = num @ nl # srt_time (st_start sub) @ '' --> '' @ srt_time (st_end sub) @ nl # put_lines (st_lines sub) @ [nl]"

text \<open>The event for a subtitle: its times to the hundredth, where the end may be one millisecond early before it is cut.\<close>

definition subtitle_event :: "doubles \<Rightarrow> subtitle \<Rightarrow> SubtitleData_t \<Rightarrow> bool" where
  "subtitle_event dd sub ev \<longleftrightarrow>
     (\<exists>ec \<in> {st_end sub div 10, (st_end sub - 1) div 10}.
        sd_data ev = ass_line (st_start sub div 10) ec (join_lines (st_lines sub))) \<and>
     sd_len ev = int (length (sd_data ev)) \<and> sd_extradata ev = DEFAULT_ASS_HEAD \<and>
     sd_extralen ev = int (length DEFAULT_ASS_HEAD) \<and> sd_pts ev = of_nat (st_start sub) * 90 \<and>
     sd_duration ev = flt dd (srt_seconds dd (st_end sub - st_start sub))"

abbreviation srt_run :: "doubles \<Rightarrow> string \<Rightarrow> srt_state \<Rightarrow> srt_state option" where
  "srt_run dd \<equiv> srt_loop dd (\<lambda>_. True) (\<lambda>_. True) 0"

lemma srt_loop_index: "srt_loop dd (\<lambda>_. True) p k inp s = srt_loop dd (\<lambda>_. True) p j inp s"
proof (induction "length inp" arbitrary: inp k j s rule: less_induct)
  case less
  show ?case
  proof (cases "fgets MAXLINELENGTH inp")
    case None
    then show ?thesis by (simp add: srt_loop.simps [of _ _ _ _ inp])
  next
    case (Some x)
    obtain d rest where x: "x = (d, rest)" by fastforce
    have "length rest < length inp" using fgets_shorter [of 80 inp d rest] Some x by (simp add: MAXLINELENGTH_def)
    then have "srt_loop dd (\<lambda>_. True) p (Suc k) rest = srt_loop dd (\<lambda>_. True) p (Suc j) rest"
      using less.hyps by blast
    with Some x show ?thesis by (simp add: srt_loop.simps [of _ _ _ _ inp])
  qed
qed

lemma srt_run_line:
  "nl \<notin> set l \<Longrightarrow> length l \<le> 78 \<Longrightarrow>
   srt_run dd (l @ nl # rest) s = Option.bind (srt_line dd (\<lambda>_. True) (l @ [nl]) s) (srt_run dd rest)"
proof -
  assume l: "nl \<notin> set l" "length l \<le> 78"
  have i: "srt_loop dd (\<lambda>_. True) (\<lambda>_. True) (Suc 0) rest = srt_run dd rest"
    by (rule ext) (rule srt_loop_index)
  show ?thesis
    using fgets_line [OF l(1), of MAXLINELENGTH rest] l(2)
    by (subst srt_loop.simps) (simp add: MAXLINELENGTH_def i)
qed

lemma srt_run_text:
  assumes "list_all good_line ls" "srt_pos s = 2"
  shows "srt_run dd (put_lines ls @ rest) s =
    srt_run dd rest (if ls = [] then s else s\<lparr>srt_Text := Some (case srt_Text s of None \<Rightarrow> put_lines ls | Some t \<Rightarrow> t @ put_lines ls)\<rparr>)"
  using assms
proof (induction ls arbitrary: s)
  case Nil
  then show ?case by (simp add: put_lines_def)
next
  case (Cons l ls)
  have l: "l \<noteq> []" "length l \<le> 78" "nl \<notin> set l" "nul \<notin> set l" "hd l \<noteq> cr" using Cons.prems(1) by (simp_all add: good_line_def)
  have hd: "\<not> blank_line (l @ [nl])" using l by (cases l) (auto simp: blank_line_def)
  have c: "c_str (l @ [nl]) = l @ [nl]" using l(4) by (intro c_str_id) auto
  let ?s = "s\<lparr>srt_Text := Some (case srt_Text s of None \<Rightarrow> l @ [nl] | Some t \<Rightarrow> t @ l @ [nl])\<rparr>"
  have "put_lines (l # ls) @ rest = l @ nl # put_lines ls @ rest" by (simp add: put_lines_def)
  then have "srt_run dd (put_lines (l # ls) @ rest) s = srt_run dd (put_lines ls @ rest) ?s"
    using Cons.prems(2) hd c l by (cases "srt_Text s") (simp_all add: srt_run_line srt_line_def)
  also have "\<dots> = srt_run dd rest (if ls = [] then ?s else
      ?s\<lparr>srt_Text := Some (case srt_Text ?s of None \<Rightarrow> put_lines ls | Some t \<Rightarrow> t @ put_lines ls)\<rparr>)"
    using Cons.IH [of ?s] Cons.prems by simp
  finally show ?case by (cases "ls = []") (simp_all add: put_lines_def split: option.split)
qed

lemma srt_ms_value:
  "srt_ms (int (b div 3600000)) (int (b div 60000 mod 60)) (int (b div 1000 mod 60)) (int (b mod 1000)) = word_of_int (int b)"
proof -
  have "b = ((b div 3600000) * 3600 + (b div 60000 mod 60) * 60 + (b div 1000 mod 60)) * 1000 + b mod 1000"
  proof -
    define q r h m s l where d: "q = b div 1000" "r = q div 60" "h = r div 60" "m = r mod 60" "s = q mod 60" "l = b mod 1000"
    have e: "b div 3600000 = h" "b div 60000 mod 60 = m" "b div 1000 mod 60 = s" "b mod 1000 = l"
      by (simp_all add: d flip: div_mult2_eq)
    have "b = q * 1000 + l" "q = r * 60 + s" "r = h * 60 + m" by (simp_all add: d)
    then show ?thesis unfolding e by simp
  qed
  then have "(of_nat b :: u32) =
     of_nat (((b div 3600000) * 3600 + (b div 60000 mod 60) * 60 + (b div 1000 mod 60)) * 1000 + b mod 1000)" by (rule arg_cong)
  then show ?thesis by (simp add: srt_ms_def)
qed

lemma srt_time_length: "b < 360000000 \<Longrightarrow> length (srt_time b) \<le> 12"
proof -
  assume b: "b < 360000000"
  have d: "length (dec_nat n) \<le> 3" if "n < 1000" for n
    using that by (subst dec_nat.simps, subst dec_nat.simps, subst dec_nat.simps) auto
  have d2: "length (dec_nat n) \<le> 2" if "n < 100" for n
    using that by (subst dec_nat.simps, subst dec_nat.simps) auto
  have "b div 3600000 < 100" using b by (simp add: less_mult_imp_div_less)
  then show ?thesis
    using d [of "b mod 1000"] d2 [of "b div 3600000"] d2 [of "b div 60000 mod 60"] d2 [of "b div 1000 mod 60"]
    by (simp add: srt_time_def pad_def)
qed


lemma srt_time_chars: "nl \<notin> set (srt_time b)" "nul \<notin> set (srt_time b)"
proof -
  have "c \<noteq> nl \<and> c \<noteq> nul" if "c \<in> set (pad w n)" for c w n
    using that pad_digits(1) [of w n] by (auto simp: list_all_iff is_digit_def nl_def nul_def)
  then show "nl \<notin> set (srt_time b)" "nul \<notin> set (srt_time b)"
    by (auto simp: srt_time_def) (auto simp: nl_def nul_def)
qed

lemma scast_nat: "n < 2 ^ 31 \<Longrightarrow> (scast (word_of_int (int n) :: u32) :: u64) = of_nat n"
  using sint_nat32 [of n] by (simp only: signed_of_int scast_eq) simp

lemma srt_time_line:
  assumes "b \<le> e" "e < 360000000" "srt_pos s = 1"
  shows "srt_run dd (srt_time b @ '' --> '' @ srt_time e @ nl # rest) s =
    srt_run dd rest (s\<lparr>srt_Pts := of_nat b, srt_Duration := srt_seconds dd (e - b), srt_pos := 2\<rparr>)"
proof -
  let ?l = "srt_time b @ '' --> '' @ srt_time e"
  have nn: "nl \<notin> set ?l" "nul \<notin> set ?l" using srt_time_chars by (auto simp: nl_def nul_def)
  have len: "length ?l \<le> 78" using srt_time_length [of b] srt_time_length [of e] assms(1,2) by simp
  have c: "c_str (?l @ [nl]) = srt_time b @ '' --> '' @ srt_time e @ [nl]" using nn(2) by (subst c_str_id) auto
  have tm: "srt_times (c_str (?l @ [nl])) =
    Some [int (b div 3600000), int (b div 60000 mod 60), int (b div 1000 mod 60), int (b mod 1000),
          int (e div 3600000), int (e div 60000 mod 60), int (e div 1000 mod 60), int (e mod 1000)]"
    unfolding c using assms(1,2) by (intro srt_times_read) auto
  have sc: "(scast (word_of_int (int b) :: u32) :: u64) = of_nat b" "(scast (word_of_int (int e) :: u32) :: u64) = of_nat e"
    using assms(1,2) by (intro scast_nat; simp)+
  have "(of_nat e - of_nat b :: u64) = of_nat (e - b)" using assms(1) by (simp add: of_nat_diff)
  moreover have "uint (of_nat (e - b) :: u64) = int (e - b)"
    using assms(2) by (simp add: unsigned_of_nat take_bit_nat_eq_self)
  ultimately have u: "of_int (uint (of_nat e - of_nat b :: u64)) = (of_nat (e - b) :: rat)" by (metis of_int_of_nat_eq)
  have "srt_line dd (\<lambda>_. True) (?l @ [nl]) s =
      Some (s\<lparr>srt_Pts := of_nat b, srt_Duration := srt_seconds dd (e - b), srt_pos := 2\<rparr>)"
    using assms(3) unfolding srt_line_def tm
    by (simp only: srt_ms_value sc u srt_seconds_def option.case list.case Let_def if_True if_False) simp
  then show ?thesis using srt_run_line [OF nn(1) len, of dd rest s] by simp
qed

lemma srt_run_block:
  assumes "double_rounding dd" "good_line num" "good_subtitle sub" "srt_pos s = 0" "srt_Text s = None"
  shows "\<exists>t ev. srt_run dd (srt_block num sub @ rest) s = srt_run dd rest t \<and> srt_pos t = 0 \<and> srt_Text t = None \<and>
    srt_out t = srt_out s @ [ev] \<and> subtitle_event dd sub ev"
proof -
  let ?b = "st_start sub" and ?e = "st_end sub" and ?ls = "st_lines sub"
  have g: "?b \<le> ?e" "?e < 360000000" "?ls \<noteq> []" "list_all good_line ?ls" "length (join_lines ?ls) \<le> 1023"
    using assms(3) by (simp_all add: good_subtitle_def)
  have num: "nl \<notin> set num" "length num \<le> 78" "\<not> blank_line (num @ [nl])"
    using assms(2) by (cases num; auto simp: good_line_def blank_line_def)+
  let ?s2 = "s\<lparr>srt_Pts := of_nat ?b, srt_Duration := srt_seconds dd (?e - ?b), srt_pos := 2\<rparr>"
  have "srt_run dd (srt_block num sub @ rest) s =
      srt_run dd (srt_time ?b @ '' --> '' @ srt_time ?e @ nl # put_lines ?ls @ nl # rest) (s\<lparr>srt_pos := 1\<rparr>)"
    using srt_run_line [OF num(1,2), of dd _ s] num(3) assms(4) by (simp add: srt_block_def srt_line_def)
  also have "\<dots> = srt_run dd (put_lines ?ls @ nl # rest) ?s2"
    using srt_time_line [OF g(1,2), of "s\<lparr>srt_pos := 1\<rparr>"] by simp
  also have "\<dots> = srt_run dd (nl # rest) (?s2\<lparr>srt_Text := Some (put_lines ?ls)\<rparr>)"
    using srt_run_text [OF g(4), of ?s2 dd "nl # rest"] g(3) assms(5) by simp
  finally have 1: "srt_run dd (srt_block num sub @ rest) s = srt_run dd (nl # rest) (?s2\<lparr>srt_Text := Some (put_lines ?ls)\<rparr>)" .
  have tt: "ass_text (strip_eol (put_lines ?ls)) = join_lines ?ls" using g(3,4) by (rule ass_text_lines)
  obtain ec where ec: "ec \<in> {?e div 10, (?e - 1) div 10}"
      "text_to_ass dd (strip_eol (put_lines ?ls)) (of_nat ?b) (srt_seconds dd (?e - ?b)) = Some (ass_line (?b div 10) ec (join_lines ?ls))"
    using text_to_ass_line [OF assms(1) g(1,2), of "strip_eol (put_lines ?ls)"] g(5) unfolding tt by blast
  define ev where "ev = \<lparr>sd_data = ass_line (?b div 10) ec (join_lines ?ls), sd_len = int (length (ass_line (?b div 10) ec (join_lines ?ls))),
     sd_extradata = DEFAULT_ASS_HEAD, sd_extralen = int (length DEFAULT_ASS_HEAD), sd_pts = of_nat ?b * 90,
     sd_duration = flt dd (srt_seconds dd (?e - ?b))\<rparr>"
  have bl: "blank_line [nl]" by (simp add: blank_line_def)
  have "srt_run dd (nl # rest) (?s2\<lparr>srt_Text := Some (put_lines ?ls)\<rparr>) =
      srt_run dd rest (?s2\<lparr>srt_out := srt_out s @ [ev], srt_checks := Suc (srt_checks s), srt_Text := None, srt_pos := 0\<rparr>)"
    using srt_run_line [of "[]" dd rest "?s2\<lparr>srt_Text := Some (put_lines ?ls)\<rparr>"] bl ec(2)
    by (simp add: srt_line_def srt_emit_def data_to_manager_def ev_def)
  moreover have "subtitle_event dd sub ev" using ec(1) by (auto simp: subtitle_event_def ev_def)
  ultimately show ?thesis using 1 by (intro exI conjI) (assumption | simp)+
qed

definition srt_file :: "(string \<times> subtitle) list \<Rightarrow> string" where
  "srt_file blocks = concat (map (\<lambda>(num, sub). srt_block num sub) blocks)"

lemma srt_run_file:
  assumes "double_rounding dd" "\<forall>(num, sub) \<in> set blocks. good_line num \<and> good_subtitle sub" "srt_pos s = 0" "srt_Text s = None"
  shows "\<exists>t evs. srt_run dd (srt_file blocks) s = Some t \<and> srt_Text t = None \<and> srt_out t = srt_out s @ evs \<and>
    list_all2 (subtitle_event dd) (map snd blocks) evs"
  using assms(2-4)
proof (induction blocks arbitrary: s)
  case Nil
  then show ?case by (simp add: srt_file_def srt_loop.simps fgets_def)
next
  case (Cons x blocks)
  obtain num sub where x: "x = (num, sub)" by fastforce
  obtain t ev where t: "srt_run dd (srt_block num sub @ srt_file blocks) s = srt_run dd (srt_file blocks) t" "srt_pos t = 0"
      "srt_Text t = None" "srt_out t = srt_out s @ [ev]" "subtitle_event dd sub ev"
    using srt_run_block [OF assms(1), of num sub s "srt_file blocks"] Cons.prems x by auto
  obtain u evs where "srt_run dd (srt_file blocks) t = Some u" "srt_Text u = None" "srt_out u = srt_out t @ evs"
      "list_all2 (subtitle_event dd) (map snd blocks) evs"
    using Cons.IH [OF _ t(2,3)] Cons.prems(1) by auto
  with t x show ?case by (intro exI [of _ u] exI [of _ "ev # evs"]) (simp add: srt_file_def)
qed

text \<open>
  Claim C17. Reading an SRT file gives its subtitles back: for every file of blocks (a number line, a time line, text lines,
  an empty line) with times below 100 hours, lines that fit the buffer and texts that fit the buffer of the ASS line, the
  thread hands over exactly one event for each block, in order, with the start time to the hundredth of a second, the
  presentation time, the duration and the text with its lines joined and without carriage returns; the end time is that of
  the block too, except that rounding of the duration may make it one hundredth early.
\<close>

theorem srt_file_events:
  assumes "double_rounding dd" "\<forall>(num, sub) \<in> set blocks. good_line num \<and> good_subtitle sub"
  shows "\<exists>evs. SrtSubtitleThread dd (\<lambda>_. True) (\<lambda>_. True) (srt_file blocks) = Some evs \<and>
    list_all2 (subtitle_event dd) (map snd blocks) evs"
proof -
  from srt_run_file [OF assms, of srt_start] obtain t evs where
    "srt_run dd (srt_file blocks) srt_start = Some t" "srt_Text t = None" "srt_out t = evs"
    "list_all2 (subtitle_event dd) (map snd blocks) evs"
    by (auto simp: srt_start_def)
  then show ?thesis by (simp add: SrtSubtitleThread_def)
qed

theorem srt_file_events_witness:
  "\<exists>evs. SrtSubtitleThread \<lparr>dbl = id, flt = id\<rparr> (\<lambda>_. True) (\<lambda>_. True)
      (srt_file [(''1'', \<lparr>st_start = 1500, st_end = 4000, st_lines = [''Hello'', ''World'']\<rparr>)]) = Some evs \<and> length evs = 1"
proof -
  have 1: "double_rounding \<lparr>dbl = id, flt = id\<rparr>" by (simp add: double_rounding_def)
  have 2: "\<forall>(num, sub) \<in> set [(''1'', \<lparr>st_start = 1500, st_end = 4000, st_lines = [''Hello'', ''World'']\<rparr>)].
      good_line num \<and> good_subtitle sub"
    by (simp add: good_line_def good_subtitle_def nl_def nul_def cr_def)
  from srt_file_events [OF 1 2] show ?thesis by (auto dest: list_all2_lengthD)
qed


subsection \<open>Reading an SSA file\<close>

definition ssa_line_ok :: "string \<Rightarrow> bool" where
  "ssa_line_ok l \<longleftrightarrow> nl \<notin> set l \<and> nul \<notin> set l \<and> CHR 0xFF \<notin> set l"

lemma fgets_long:
  "nl \<notin> set l \<Longrightarrow> n \<le> length l \<Longrightarrow> 1 < n \<Longrightarrow> fgets n (l @ rest) = Some (take (n - 1) l, drop (n - 1) l @ rest)"
proof -
  assume *: "nl \<notin> set l" "n \<le> length l" "1 < n"
  have "n \<le> length (takeWhile (\<lambda>c. c \<noteq> nl) (l @ rest))"
  proof -
    have "takeWhile (\<lambda>c. c \<noteq> nl) (l @ rest) = l @ takeWhile (\<lambda>c. c \<noteq> nl) rest"
      using *(1) by (intro takeWhile_append2) auto
    with *(2) show ?thesis by simp
  qed
  then show ?thesis using * by (auto simp: fgets_def min_def Let_def)
qed

lemma getLine_line: "ssa_line_ok l \<Longrightarrow> SSAgetLine a (l @ nl # rest) = (a @ l, Some rest)"
proof (induction "length l" arbitrary: l a rule: less_induct)
  case less
  have l: "nl \<notin> set l" "nul \<notin> set l" "CHR 0xFF \<notin> set l" using less.prems by (simp_all add: ssa_line_ok_def)
  have st: "\<not> (l @ nl # rest = [] \<or> hd (l @ nl # rest) = CHR 0xFF)"
    using l(3) by (cases l) (auto simp: nl_def)
  show ?case
  proof (cases "length l \<le> 12")
    case True
    have "c_str (l @ [nl]) = l @ [nl]" using l(2) by (intro c_str_id) auto
    with fgets_line [OF l(1), of SSA_BUFFER_SIZE rest] True st show ?thesis
      by (subst SSAgetLine.simps) (simp add: SSA_BUFFER_SIZE_def)
  next
    case False
    have f: "fgets SSA_BUFFER_SIZE (l @ nl # rest) = Some (take 13 l, drop 13 l @ nl # rest)"
    proof (cases "length l = 13")
      case True
      then have "takeWhile (\<lambda>c. c \<noteq> nl) (l @ nl # rest) = l" using l(1) by (subst takeWhile_append2) auto
      with True show ?thesis by (simp add: fgets_def SSA_BUFFER_SIZE_def)
    next
      case False
      with \<open>\<not> length l \<le> 12\<close> show ?thesis
        using fgets_long [OF l(1), of 14 "nl # rest"] by (simp add: SSA_BUFFER_SIZE_def)
    qed
    have c: "c_str (take 13 l) = take 13 l" using l(2) by (intro c_str_id) (auto dest: in_set_takeD)
    have n: "nl \<notin> set (take 13 l)" using l(1) by (auto dest: in_set_takeD)
    have "ssa_line_ok (drop 13 l)" using less.prems by (auto simp: ssa_line_ok_def dest: in_set_dropD)
    then have "SSAgetLine (a @ take 13 l) (drop 13 l @ nl # rest) = ((a @ take 13 l) @ drop 13 l, Some rest)"
      using False less.hyps [of "drop 13 l" "a @ take 13 l"] by simp
    then show ?thesis using f c n st by (subst SSAgetLine.simps) simp
  qed
qed

text \<open>
  The events of a file given as its lines: each dialogue line with all other lines before it, and at the end of the file
  one more, which is empty.
\<close>

fun ssa_events :: "string \<Rightarrow> string list \<Rightarrow> SubtitleData_t list" where
  "ssa_events head [] = [ssa_event [] (head @ [nl])]"
| "ssa_events head (l # ls) =
     (if is_dialogue l then ssa_event l head # ssa_events head ls else ssa_events (head @ l @ [nl]) ls)"

lemma ssa_next_lines:
  "list_all ssa_line_ok ls \<Longrightarrow>
   \<exists>line rest head'. ssa_next (put_lines ls) head = (line, map_option put_lines rest, head') \<and>
     ssa_events head ls = ssa_event line head' # (case rest of None \<Rightarrow> [] | Some r \<Rightarrow> ssa_events head' r) \<and>
     (\<forall>r. rest = Some r \<longrightarrow> list_all ssa_line_ok r \<and> length r < length ls)"
proof (induction ls arbitrary: head)
  case Nil
  have "ssa_next (put_lines []) head = ([], None, head @ [nl])"
    by (simp add: ssa_next.simps SSAgetLine.simps put_lines_def is_dialogue_def)
  then show ?case by (intro exI [of _ "[]"] exI [of _ None] exI [of _ "head @ [nl]"]) simp
next
  case (Cons l ls)
  have g: "SSAgetLine [] (put_lines (l # ls)) = (l, Some (put_lines ls))"
    using getLine_line [of l "[]" "put_lines ls"] Cons.prems by (simp add: put_lines_def)
  show ?case
  proof (cases "is_dialogue l")
    case True
    then have "ssa_next (put_lines (l # ls)) head = (l, Some (put_lines ls), head)"
      using g by (subst ssa_next.simps) simp
    with True Cons.prems show ?thesis by (intro exI [of _ l] exI [of _ "Some ls"] exI [of _ head]) simp
  next
    case False
    then have "ssa_next (put_lines (l # ls)) head = ssa_next (put_lines ls) (head @ l @ [nl])"
      using g by (subst ssa_next.simps) simp
    with False Cons.IH [of "head @ l @ [nl]"] Cons.prems show ?thesis by fastforce
  qed
qed

lemma ssa_loop_lines:
  "list_all ssa_line_ok ls \<Longrightarrow> ssa_loop (\<lambda>_. True) (\<lambda>_. True) k (Some (put_lines ls)) head = ssa_events head ls"
proof (induction "length ls" arbitrary: ls k head rule: less_induct)
  case less
  obtain line rest head' where n: "ssa_next (put_lines ls) head = (line, map_option put_lines rest, head')"
      "ssa_events head ls = ssa_event line head' # (case rest of None \<Rightarrow> [] | Some r \<Rightarrow> ssa_events head' r)"
      "\<forall>r. rest = Some r \<longrightarrow> list_all ssa_line_ok r \<and> length r < length ls"
    using ssa_next_lines [OF less.prems, of head] by blast
  show ?case
  proof (cases rest)
    case None
    with n show ?thesis by (simp add: ssa_loop.simps [of _ _ k] ssa_loop.simps [of _ _ "Suc k" None])
  next
    case (Some r)
    with n less.hyps [of r "Suc k" head'] show ?thesis by (subst ssa_loop.simps) simp
  qed
qed

text \<open>
  Claim C19. Reading an SSA file hands over its dialogue lines, in order and character by character, each with all the other
  lines before it as the header, although the lines are read in pieces of 13 characters; and behind them one more event,
  which is not in the file: an empty line.
\<close>

theorem ssa_file_events:
  assumes "list_all ssa_line_ok ls"
  shows "SsaSubtitleThread (\<lambda>_. True) (\<lambda>_. True) (Some (put_lines ls)) = ssa_events [] ls \<and>
    map sd_data (ssa_events [] ls) = filter is_dialogue ls @ [[]]"
proof -
  have "map sd_data (ssa_events head ls) = filter is_dialogue ls @ [[]]" for head
    by (induction ls arbitrary: head) (simp_all add: ssa_event_def)
  then show ?thesis using ssa_loop_lines [OF assms] by (simp add: SsaSubtitleThread_def)
qed

theorem ssa_file_events_witness:
  "map sd_data (SsaSubtitleThread (\<lambda>_. True) (\<lambda>_. True) (Some (put_lines [''[Events]'', ''Dialogue: Marked=0,0:00:01.00,Hello'']))) =
     [''Dialogue: Marked=0,0:00:01.00,Hello'', []]"
proof -
  have "list_all ssa_line_ok [''[Events]'', ''Dialogue: Marked=0,0:00:01.00,Hello'']"
    by (simp add: ssa_line_ok_def nl_def nul_def)
  from ssa_file_events [OF this] show ?thesis by (simp add: is_dialogue_def)
qed

end
