(* ===== verification/Subtitle_Tracks.thy ===== *)
theory Subtitle_Tracks
  imports Playback
begin

text \<open>
  The subtitle files beside a film: \<open>container/text_srt.c\<close> and \<open>container/text_ssa.c\<close> look for them in its folder, offer them
  to the subtitle manager, and open the one the player chooses; \<open>basename\<close> and \<open>dirname\<close> are those of \<open>include/misc.h\<close>.
  The two containers differ in the extensions, the encoding and the first track number (\<open>text_kind\<close>). The directory and
  whether a file can be opened are arguments. \<open>None\<close> is a write outside an array.
\<close>

subsection \<open>misc.h\<close>

text \<open>The position of the last slash, 0 if there is none.\<close>

fun slash_loop :: "nat \<Rightarrow> nat \<Rightarrow> string \<Rightarrow> nat" where
  "slash_loop i pos [] = pos"
| "slash_loop i pos (c # cs) = slash_loop (Suc i) (if c = CHR ''/'' then i else pos) cs"

text \<open>Where the base name starts.\<close>

definition basename_pos :: "string \<Rightarrow> nat" where
  "basename_pos name =
     (let pos = slash_loop 0 0 name in if name \<noteq> [] \<and> name ! pos = CHR ''/'' then pos + 1 else pos)"

text \<open>The folder is built in an array of 100 characters.\<close>

definition dirname :: "string \<Rightarrow> string option" where
  "dirname name = (if length name < 100 then Some (take (slash_loop 0 0 name) name) else None)"

subsection \<open>text\_srt.c and text\_ssa.c\<close>

record text_kind =
  tk_extensions :: "string list"
  tk_encoding :: string
  tk_offset :: int

definition srt_kind :: text_kind where
  "srt_kind = \<lparr>tk_extensions = [''srt''], tk_encoding = ''S_TEXT/SRT'', tk_offset = TEXTSRTOFFSET\<rparr>"

definition ssa_kind :: text_kind where
  "ssa_kind = \<lparr>tk_extensions = [''ssa'', ''ass''], tk_encoding = ''S_TEXT/SSA'', tk_offset = TEXTSSAOFFSET\<rparr>"

definition text_TRACKWRAP :: nat where "text_TRACKWRAP = 20"

text \<open>The static variables of one of the files; \<open>tx_threads\<close> counts the threads it has created.\<close>

record text_state =
  tx_Tracks :: "(string \<times> int) option list option"
  tx_TrackCount :: int
  tx_file :: "string option"
  tx_hasThreadStarted :: bool
  tx_threads :: nat

definition text_static :: text_state where
  "text_static = \<lparr>tx_Tracks = None, tx_TrackCount = 0, tx_file = None, tx_hasThreadStarted = False, tx_threads = 0\<rparr>"

record text_files =
  td_readdir :: "string \<Rightarrow> string list option"
  td_fopen :: "string \<Rightarrow> bool"

definition TextManagerAdd :: "text_state \<Rightarrow> string \<times> int \<Rightarrow> text_state option" where
  "TextManagerAdd s track =
     (let s = (if tx_Tracks s = None then s\<lparr>tx_Tracks := Some (replicate text_TRACKWRAP None)\<rparr> else s)
      in if tx_TrackCount s < int text_TRACKWRAP then do {
           arr \<leftarrow> array_put (tx_Tracks s) (tx_TrackCount s) track;
           Some (s\<lparr>tx_Tracks := arr, tx_TrackCount := tx_TrackCount s + 1\<rparr>)
         } else Some s)"

definition TextManagerDel :: "text_state \<Rightarrow> text_state" where
  "TextManagerDel s = s\<lparr>tx_Tracks := None, tx_TrackCount := 0\<rparr>"

text \<open>The track the subtitle manager is given.\<close>

definition text_track :: "text_kind \<Rightarrow> string \<Rightarrow> int \<Rightarrow> Track_t" where
  "text_track k extension i =
     \<lparr>tr_Name = Some extension, tr_Encoding = Some (tk_encoding k), tr_Id = i, tr_language = None, tr_duration = 0,
      tr_frame_rate = 0, tr_TimeScale = 0, tr_version = 0, tr_pts = 0, tr_type = eTypeES, tr_width = 0, tr_height = 0,
      tr_stream = 0, tr_extraData = 0, tr_extraSize = 0, tr_aacbuf = 0, tr_aacbuflen = 0, tr_have_aacheader = 0,
      tr_inject_as_pcm = 0, tr_inject_raw_pcm = 0\<rparr>"

text \<open>The name of a directory entry without its extension, and the extension, if the entry is a subtitle of the film.\<close>

definition text_match :: "text_kind \<Rightarrow> string \<Rightarrow> string \<Rightarrow> (string \<times> string) option" where
  "text_match k short name = do {
     extension \<leftarrow> getExtension name;
     (if extension \<in> set (tk_extensions k)
      then (let base = take (length name - length extension - 1) name
            in if has_prefix short base then Some (base, extension) else None)
      else None)
   }"

text \<open>One round of the loop over the directory.\<close>

definition text_entry ::
  "text_kind \<Rightarrow> bool \<Rightarrow> string \<Rightarrow> string \<Rightarrow> string \<Rightarrow> int \<times> text_state \<times> mgr_state \<Rightarrow> (int \<times> text_state \<times> mgr_state) option" where
  "text_entry k malloc_ok folder short name = (\<lambda>(i, s, m).
     (case text_match k short name of
        None \<Rightarrow> Some (i, s, m)
      | Some (base, extension) \<Rightarrow> do {
          s \<leftarrow> TextManagerAdd s (folder @ ''/'' @ base @ ''.'' @ extension, i);
          (r, v, m) \<leftarrow> subtitle_Command malloc_ok m (MANAGER_ADD (text_track k extension i));
          Some (i + 1, s, m)
        }))"

fun text_entries ::
  "text_kind \<Rightarrow> bool \<Rightarrow> string \<Rightarrow> string \<Rightarrow> string list \<Rightarrow> int \<times> text_state \<times> mgr_state \<Rightarrow> (int \<times> text_state \<times> mgr_state) option" where
  "text_entries k malloc_ok folder short [] ism = Some ism"
| "text_entries k malloc_ok folder short (name # names) ism =
     Option.bind (text_entry k malloc_ok folder short name ism) (text_entries k malloc_ok folder short names)"

text \<open>The film's name without folder and extension: the dot before the extension is overwritten by the end of the string.\<close>

definition short_name :: "string \<Rightarrow> string \<Rightarrow> string" where
  "short_name Filename extension =
     (let cut = length Filename - length extension - 1; pos = basename_pos Filename
      in if pos \<le> cut then drop pos (take cut Filename) else drop pos Filename)"

definition TextGetSubtitle ::
  "text_kind \<Rightarrow> bool \<Rightarrow> text_files \<Rightarrow> string option \<Rightarrow> text_state \<Rightarrow> mgr_state \<Rightarrow> (int \<times> text_state \<times> mgr_state) option" where
  "TextGetSubtitle k malloc_ok fd Filename s m =
     (case Filename of
        None \<Rightarrow> Some (-1, s, m)
      | Some Filename \<Rightarrow>
          if \<not> malloc_ok then Some (-1, s, m)
          else do {
            folder \<leftarrow> dirname Filename;
            (case getExtension Filename of
               None \<Rightarrow> Some (-1, s, m)
             | Some extension \<Rightarrow>
                 (case td_readdir fd folder of
                    None \<Rightarrow> Some (0, s, m)
                  | Some names \<Rightarrow> do {
                      (i, s, m) \<leftarrow> text_entries k malloc_ok folder (short_name Filename extension) names (tk_offset k, s, m);
                      Some (0, s, m)
                    }))
          })"

definition TextOpenSubtitle :: "text_kind \<Rightarrow> text_files \<Rightarrow> int \<Rightarrow> text_state \<Rightarrow> (int \<times> text_state) option" where
  "TextOpenSubtitle k fd trackid s =
     (if trackid < tk_offset k \<or> trackid mod tk_offset k \<ge> tx_TrackCount s then Some (-1, s)
      else do {
        (name, i) \<leftarrow> array_get (tx_Tracks s) (trackid mod tk_offset k);
        (if td_fopen fd name then Some (0, s\<lparr>tx_file := Some name\<rparr>) else Some (-1, s\<lparr>tx_file := None\<rparr>))
      })"

definition TextCloseSubtitle :: "text_state \<Rightarrow> text_state" where
  "TextCloseSubtitle s = s\<lparr>tx_file := None, tx_hasThreadStarted := False\<rparr>"

definition TextSwitchSubtitle :: "text_kind \<Rightarrow> text_files \<Rightarrow> int \<Rightarrow> text_state \<Rightarrow> (int \<times> text_state) option" where
  "TextSwitchSubtitle k fd arg s = do {
     let s = TextCloseSubtitle s;
     (ret, s) \<leftarrow> TextOpenSubtitle k fd arg s;
     Some (ret, if ret = 0 \<and> \<not> tx_hasThreadStarted s
                then s\<lparr>tx_threads := tx_threads s + 1, tx_hasThreadStarted := True\<rparr> else s)
   }"

definition TextDel :: "text_state \<Rightarrow> text_state" where
  "TextDel s = TextManagerDel (TextCloseSubtitle s)"

text \<open>The command of a container, on its own state and the subtitle manager; its return value is always 0.\<close>

definition text_Command ::
  "text_kind \<Rightarrow> bool \<Rightarrow> text_files \<Rightarrow> ContainerCmd_t \<Rightarrow> text_state \<Rightarrow> mgr_state \<Rightarrow> (int \<times> text_state \<times> mgr_state) option" where
  "text_Command k malloc_ok fd command s m =
     (case command of
        CONTAINER_INIT filename \<Rightarrow> do { (ret, s, m) \<leftarrow> TextGetSubtitle k malloc_ok fd filename s m; Some (0, s, m) }
      | CONTAINER_DEL \<Rightarrow> Some (0, TextDel s, m)
      | CONTAINER_SWITCH_SUBTITLE i \<Rightarrow> do { (ret, s) \<leftarrow> TextSwitchSubtitle k fd i s; Some (0, s, m) }
      | _ \<Rightarrow> Some (0, s, m))"

text \<open>The two containers as the player calls them.\<close>

record text_states =
  srt_static :: text_state
  ssa_static :: text_state

definition SrtContainer ::
  "bool \<Rightarrow> text_files \<Rightarrow> ContainerCmd_t \<Rightarrow> text_states Context_t \<Rightarrow> (int \<times> container_out \<times> text_states Context_t) option" where
  "SrtContainer malloc_ok fd command ctx = do {
     (ret, s, m) \<leftarrow> text_Command srt_kind malloc_ok fd command (srt_static (others ctx)) (mgr_subtitle ctx);
     Some (ret, CO_none, ctx\<lparr>mgr_subtitle := m, others := (others ctx)\<lparr>srt_static := s\<rparr>\<rparr>)
   }"

definition SsaContainer ::
  "bool \<Rightarrow> text_files \<Rightarrow> ContainerCmd_t \<Rightarrow> text_states Context_t \<Rightarrow> (int \<times> container_out \<times> text_states Context_t) option" where
  "SsaContainer malloc_ok fd command ctx = do {
     (ret, s, m) \<leftarrow> text_Command ssa_kind malloc_ok fd command (ssa_static (others ctx)) (mgr_subtitle ctx);
     Some (ret, CO_none, ctx\<lparr>mgr_subtitle := m, others := (others ctx)\<lparr>ssa_static := s\<rparr>\<rparr>)
   }"

definition text_env :: "bool \<Rightarrow> text_files \<Rightarrow> text_states player_env \<Rightarrow> text_states player_env" where
  "text_env malloc_ok fd env = env\<lparr>pe_malloc := malloc_ok, pe_srt := SrtContainer malloc_ok fd, pe_ssa := SsaContainer malloc_ok fd\<rparr>"

subsection \<open>Files found and files offered\<close>

text \<open>
  \<open>text_rep s fl\<close>: the array of a container holds the files \<open>fl\<close> with their numbers, at most 20.
\<close>

definition text_rep :: "text_state \<Rightarrow> (string \<times> int) list \<Rightarrow> bool" where
  "text_rep s fl \<longleftrightarrow> tx_TrackCount s = int (length fl) \<and> length fl \<le> 20 \<and>
     (tx_Tracks s = Some (map Some fl @ replicate (20 - length fl) None) \<or> fl = [] \<and> tx_Tracks s = None)"

text \<open>The subtitles of a film in its folder, and what the container and the manager are given for them.\<close>

definition folder_texts :: "text_kind \<Rightarrow> string \<Rightarrow> string list \<Rightarrow> (string \<times> string) list" where
  "folder_texts k short names = map (the \<circ> text_match k short) (filter (\<lambda>n. text_match k short n \<noteq> None) names)"

definition text_path :: "string \<Rightarrow> string \<times> string \<Rightarrow> string" where
  "text_path folder x = folder @ ''/'' @ fst x @ ''.'' @ snd x"

fun numbered :: "int \<Rightarrow> 'a list \<Rightarrow> ('a \<times> int) list" where
  "numbered i [] = []"
| "numbered i (x # xs) = (x, i) # numbered (i + 1) xs"

definition text_tracks :: "text_kind \<Rightarrow> (string \<times> string) list \<Rightarrow> Track_t list" where
  "text_tracks k ms = map (\<lambda>((base, extension), i). copyTrack (text_track k extension i)) (numbered (tk_offset k) ms)"

lemma numbered_length [simp]: "length (numbered i xs) = length xs"
  by (induction xs arbitrary: i) auto

lemma numbered_nth: "j < length xs \<Longrightarrow> numbered i xs ! j = (xs ! j, i + int j)"
  by (induction xs arbitrary: i j) (auto simp: nth_Cons' algebra_simps of_nat_diff)

lemma numbered_Nil [simp]: "numbered i xs = [] \<longleftrightarrow> xs = []"
  by (cases xs) auto

lemma folder_texts_Cons:
  "folder_texts k short (n # names) =
     (case text_match k short n of None \<Rightarrow> folder_texts k short names | Some x \<Rightarrow> x # folder_texts k short names)"
  by (simp add: folder_texts_def split: option.split)

lemma take_take_snoc: "take n (take n (xs @ [y]) @ zs) = take n (xs @ y # zs)"
  by (cases "n \<le> length xs") (simp_all add: take_Cons' Suc_diff_le)

lemma TextManagerAdd_rep:
  assumes "text_rep s fl"
  shows "\<exists>s'. TextManagerAdd s t = Some s' \<and> text_rep s' (take 20 (fl @ [t])) \<and>
    tx_file s' = tx_file s \<and> tx_hasThreadStarted s' = tx_hasThreadStarted s \<and> tx_threads s' = tx_threads s"
proof (cases "length fl < 20")
  case True
  have "replicate (20 - length fl) (None :: (string \<times> int) option) = None # replicate (20 - Suc (length fl)) None"
    using True by (metis Suc_diff_Suc replicate_Suc)
  with True assms show ?thesis
    by (auto simp: TextManagerAdd_def text_rep_def array_put_def text_TRACKWRAP_def list_update_append Let_def)
next
  case False
  with assms show ?thesis by (auto simp: TextManagerAdd_def text_rep_def text_TRACKWRAP_def Let_def)
qed

lemma subtitle_add:
  assumes "mgr_rep 20 (-1) m a"
  shows "\<exists>r m' a'. subtitle_Command True m (MANAGER_ADD t) = Some (r, Out_none, m') \<and> mgr_rep 20 (-1) m' a' \<and>
    a_tracks a' = take 20 (a_tracks a @ [copyTrack t])"
proof -
  have w: "subtitle_TRACKWRAP = 20" by (simp add: subtitle_TRACKWRAP_def)
  have "length (a_tracks a) \<le> 20" using assms by (simp add: mgr_rep_def)
  then show ?thesis
    using subtitle.refines [of m a True "MANAGER_ADD t"] assms unfolding w
    by (cases "length (a_tracks a) < 20") (fastforce simp: spec_command_def)+
qed

lemma text_entries_rep:
  fixes k short names
  defines "ms \<equiv> folder_texts k short names"
  assumes "text_rep s fl" "mgr_rep 20 (-1) m a"
  shows "\<exists>s' m' a'. text_entries k True folder short names (i, s, m) = Some (i + int (length ms), s', m') \<and>
    text_rep s' (take 20 (fl @ map (\<lambda>(x, i). (text_path folder x, i)) (numbered i ms))) \<and>
    tx_file s' = tx_file s \<and> tx_hasThreadStarted s' = tx_hasThreadStarted s \<and> tx_threads s' = tx_threads s \<and>
    mgr_rep 20 (-1) m' a' \<and>
    a_tracks a' = take 20 (a_tracks a @ map (\<lambda>((b, e), i). copyTrack (text_track k e i)) (numbered i ms))"
  using assms(2,3) unfolding ms_def
proof (induction names arbitrary: i s fl m a)
  case Nil
  then have "length fl \<le> 20" "length (a_tracks a) \<le> 20" by (simp_all add: text_rep_def mgr_rep_def)
  with Nil show ?case by (intro exI [of _ s] exI [of _ m] exI [of _ a]) (simp add: folder_texts_def)
next
  case (Cons n names)
  show ?case
  proof (cases "text_match k short n")
    case None
    with Cons show ?thesis by (simp add: text_entry_def folder_texts_Cons)
  next
    case (Some x)
    obtain b e where x: "x = (b, e)" by fastforce
    obtain s1 where s1: "TextManagerAdd s (text_path folder x, i) = Some s1"
        "text_rep s1 (take 20 (fl @ [(text_path folder x, i)]))" "tx_file s1 = tx_file s"
        "tx_hasThreadStarted s1 = tx_hasThreadStarted s" "tx_threads s1 = tx_threads s"
      using TextManagerAdd_rep [OF Cons.prems(1)] by blast
    obtain r m1 a1 where m1: "subtitle_Command True m (MANAGER_ADD (text_track k e i)) = Some (r, Out_none, m1)"
        "mgr_rep 20 (-1) m1 a1" "a_tracks a1 = take 20 (a_tracks a @ [copyTrack (text_track k e i)])"
      using subtitle_add [OF Cons.prems(2)] by blast
    have "text_entry k True folder short n (i, s, m) = Some (i + 1, s1, m1)"
      using s1(1) m1(1) Some x by (simp add: text_entry_def text_path_def)
    then show ?thesis
      using Cons.IH [OF s1(2) m1(2), of "i + 1"] s1(3-5) Some x
      unfolding m1(3) take_take_snoc by (simp add: folder_texts_Cons add.assoc del: take_append)
  qed
qed

lemma ext_loop_Some: "ext_loop n s = Some e \<Longrightarrow> n \<le> length s \<Longrightarrow> \<exists>m < n. s ! m = CHR ''.'' \<and> e = drop (Suc m) s"
  by (induction n) (auto split: if_splits intro: less_SucI)

subsection \<open>Opening and choosing\<close>

definition film_texts :: "text_kind \<Rightarrow> text_files \<Rightarrow> string \<Rightarrow> (string \<times> string) list" where
  "film_texts k fd name =
     (case getExtension name of
        None \<Rightarrow> []
      | Some e \<Rightarrow> (case td_readdir fd (take (slash_loop 0 0 name) name) of
                     None \<Rightarrow> [] | Some names \<Rightarrow> folder_texts k (short_name name e) names))"

definition film_path :: "string \<Rightarrow> string \<times> string \<Rightarrow> string" where
  "film_path name = text_path (take (slash_loop 0 0 name) name)"

definition text_opened :: "text_kind \<Rightarrow> text_files \<Rightarrow> string \<Rightarrow> text_state \<Rightarrow> bool" where
  "text_opened k fd name s \<longleftrightarrow>
     text_rep s (take 20 (map (\<lambda>(x, i). (film_path name x, i)) (numbered (tk_offset k) (film_texts k fd name))))"

lemma TextGetSubtitle_rep:
  assumes "text_rep s []" "mgr_rep 20 (-1) m a" "length name < 100"
  shows "\<exists>r s' m' a'. TextGetSubtitle k True fd (Some name) s m = Some (r, s', m') \<and> text_opened k fd name s' \<and>
    tx_file s' = tx_file s \<and> tx_hasThreadStarted s' = tx_hasThreadStarted s \<and> tx_threads s' = tx_threads s \<and>
    mgr_rep 20 (-1) m' a' \<and> a_tracks a' = take 20 (a_tracks a @ text_tracks k (film_texts k fd name))"
proof -
  let ?f = "take (slash_loop 0 0 name) name"
  have len: "length (a_tracks a) \<le> 20" using assms(2) by (simp add: mgr_rep_def)
  show ?thesis
  proof (cases "getExtension name")
    case None
    with assms len show ?thesis
      by (auto simp: TextGetSubtitle_def dirname_def film_texts_def text_opened_def text_tracks_def)
  next
    case (Some e)
    note e = this
    show ?thesis
    proof (cases "td_readdir fd ?f")
      case None
      with assms len e show ?thesis
        by (auto simp: TextGetSubtitle_def dirname_def film_texts_def text_opened_def text_tracks_def)
    next
      case (Some names)
      with assms e text_entries_rep [OF assms(1,2), of k ?f "short_name name e" names "tk_offset k"] show ?thesis
        by (fastforce simp: TextGetSubtitle_def dirname_def film_texts_def text_opened_def text_tracks_def film_path_def)
    qed
  qed
qed

text \<open>A switch: the track's file is open and a thread has been created for it, if the number is one of the container's.\<close>

lemma TextSwitchSubtitle_opens:
  assumes "text_opened k fd name s" "i < length (film_texts k fd name)" "i < 20" "0 < tk_offset k"
    "td_fopen fd (film_path name (film_texts k fd name ! i))" "tk_offset k \<le> t" "t mod tk_offset k = int i"
  shows "TextSwitchSubtitle k fd t s =
    Some (0, s\<lparr>tx_file := Some (film_path name (film_texts k fd name ! i)), tx_hasThreadStarted := True, tx_threads := tx_threads s + 1\<rparr>)"
proof -
  let ?fl = "take 20 (map (\<lambda>(x, i). (film_path name x, i)) (numbered (tk_offset k) (film_texts k fd name)))"
  have fl: "i < length ?fl" "?fl ! i = (film_path name (film_texts k fd name ! i), tk_offset k + int i)"
    using assms(2,3) by (simp_all add: numbered_nth)
  have r: "text_rep s ?fl" using assms(1) by (simp add: text_opened_def)
  have "array_get (tx_Tracks s) (int i) = Some (?fl ! i)"
  proof -
    have "?fl \<noteq> []" using fl(1) by auto
    then have "tx_Tracks s = Some (map Some ?fl @ replicate (20 - length ?fl) None)" using r unfolding text_rep_def by blast
    then show ?thesis using fl(1) by (simp add: array_get_def nth_append)
  qed
  moreover have "tx_TrackCount s = int (length ?fl)" using r unfolding text_rep_def by blast
  moreover have "\<not> min (length (film_texts k fd name)) 20 \<le> i" using assms(2,3) by simp
  ultimately show ?thesis
    using fl assms(5-7) by (simp add: TextSwitchSubtitle_def TextOpenSubtitle_def TextCloseSubtitle_def Let_def)
qed

lemma TextSwitchSubtitle_not:
  assumes "text_opened k fd name s" "length (film_texts k fd name) \<le> i \<or> 20 \<le> i" "t mod tk_offset k = int i"
  shows "TextSwitchSubtitle k fd t s = Some (-1, s\<lparr>tx_file := None, tx_hasThreadStarted := False\<rparr>)"
  using assms by (auto simp: TextSwitchSubtitle_def TextOpenSubtitle_def TextCloseSubtitle_def text_opened_def text_rep_def Let_def)

text \<open>What the drawing container may not change.\<close>

definition ass_keeps :: "text_states player_env \<Rightarrow> bool" where
  "ass_keeps env \<longleftrightarrow> (\<forall>c ctx. \<exists>r v ctx'. pe_ass env c ctx = Some (r, v, ctx') \<and> mgr_subtitle ctx' = mgr_subtitle ctx \<and>
     others ctx' = others ctx \<and> playback ctx' = playback ctx)"

lemma open_subtitles_rep:
  assumes "ass_keeps env" "mgr_rep 20 (-1) (mgr_subtitle ctx) a" "length name < 100"
    "text_rep (srt_static (others ctx)) []" "text_rep (ssa_static (others ctx)) []"
  shows "\<exists>ctx' a'. open_subtitles (text_env True fd env) name ctx = Some ctx' \<and>
    text_opened srt_kind fd name (srt_static (others ctx')) \<and> text_opened ssa_kind fd name (ssa_static (others ctx')) \<and>
    mgr_rep 20 (-1) (mgr_subtitle ctx') a' \<and>
    a_tracks a' = take 20 (a_tracks a @ text_tracks srt_kind (film_texts srt_kind fd name) @
      text_tracks ssa_kind (film_texts ssa_kind fd name))"
proof -
  let ?s = "text_tracks srt_kind (film_texts srt_kind fd name)" and ?t = "text_tracks ssa_kind (film_texts ssa_kind fd name)"
  obtain r1 s1 m1 a1 where 1: "TextGetSubtitle srt_kind True fd (Some name) (srt_static (others ctx)) (mgr_subtitle ctx) = Some (r1, s1, m1)"
      "text_opened srt_kind fd name s1" "mgr_rep 20 (-1) m1 a1" "a_tracks a1 = take 20 (a_tracks a @ ?s)"
    using TextGetSubtitle_rep [OF assms(4,2,3), of srt_kind fd] by blast
  obtain r2 s2 m2 a2 where 2: "TextGetSubtitle ssa_kind True fd (Some name) (ssa_static (others ctx)) m1 = Some (r2, s2, m2)"
      "text_opened ssa_kind fd name s2" "mgr_rep 20 (-1) m2 a2" "a_tracks a2 = take 20 (a_tracks a1 @ ?t)"
    using TextGetSubtitle_rep [OF assms(5) 1(3) assms(3), of ssa_kind fd] by blast
  let ?c = "ctx\<lparr>mgr_subtitle := m2, others := (others ctx)\<lparr>srt_static := s1, ssa_static := s2\<rparr>\<rparr>"
  obtain r v ctx' where 3: "pe_ass env (CONTAINER_INIT None) ?c = Some (r, v, ctx')" "mgr_subtitle ctx' = m2"
      "others ctx' = (others ctx)\<lparr>srt_static := s1, ssa_static := s2\<rparr>"
    using assms(1) [unfolded ass_keeps_def, rule_format, of "CONTAINER_INIT None" ?c] by auto
  have "open_subtitles (text_env True fd env) name ctx = Some ctx'"
    using 1(1) 2(1) 3(1) by (simp add: open_subtitles_def text_env_def SrtContainer_def SsaContainer_def text_Command_def)
  moreover have "a_tracks a2 = take 20 (a_tracks a @ ?s @ ?t)"
    unfolding 2(4) 1(4) by (simp add: min_def)
  ultimately show ?thesis using 1(2) 2(2,3) 3(2,3) by (intro exI [of _ ctx'] exI [of _ a2]) simp
qed


text \<open>Choosing the \<open>n\<close>-th track of the subtitle manager.\<close>

lemma subtitle_choose:
  assumes "mgr_rep 20 (-1) m a" "n < length (a_tracks a)"
  shows "\<exists>m' m''. subtitle_Command True m (MANAGER_SET (int n)) = Some (0, Out_none, m') \<and>
    subtitle_Command True m' MANAGER_GET = Some (0, Out_int (tr_Id (a_tracks a ! n)), m'')"
proof -
  have w: "subtitle_TRACKWRAP = 20" by (simp add: subtitle_TRACKWRAP_def)
  obtain m' where 1: "subtitle_Command True m (MANAGER_SET (int n)) = Some (0, Out_none, m')" "mgr_rep 20 (-1) m' (a\<lparr>a_current := int n\<rparr>)"
    using subtitle.refines [of m a True "MANAGER_SET (int n)"] assms unfolding w by (auto simp: spec_command_def)
  have "a_tracks a \<noteq> []" using assms(2) by auto
  then obtain m'' where "subtitle_Command True m' MANAGER_GET = Some (0, Out_int (tr_Id (a_tracks a ! n)), m'')"
    using subtitle.refines [of m' "a\<lparr>a_current := int n\<rparr>" True MANAGER_GET] 1(2) unfolding w
    by (auto simp: spec_command_def a_selected_def)
  with 1 show ?thesis by blast
qed

lemma text_track_id: "i < length ms \<Longrightarrow> tr_Id (text_tracks k ms ! i) = tk_offset k + int i"
  by (cases "ms ! i") (simp add: text_tracks_def numbered_nth copyTrack_def text_track_def)

lemma text_tracks_length [simp]: "length (text_tracks k ms) = length ms"
  by (simp add: text_tracks_def)

text \<open>The player's choice with the two containers, by the number of the track.\<close>

lemma switch_text:
  assumes ass: "ass_keeps env" and m: "mgr_rep 20 (-1) (mgr_subtitle ctx) a" "n < length (a_tracks a)"
    and play: "isPlaying (playback ctx)" and id: "tr_Id (a_tracks a ! n) = t" "100 \<le> t"
    and srt: "TextSwitchSubtitle srt_kind fd t (srt_static (others ctx)) = Some (r, s)"
    and ssa: "200 \<le> t \<Longrightarrow> TextSwitchSubtitle ssa_kind fd t (ssa_static (others ctx)) = Some (r', s')"
  shows "\<exists>ctx'. PlaybackSwitchSubtitle (text_env True fd env) ctx (int n) = Some (0, ctx') \<and>
    others ctx' = (others ctx)\<lparr>srt_static := s, ssa_static := (if 200 \<le> t then s' else ssa_static (others ctx))\<rparr>"
proof -
  obtain m' m'' where 1: "subtitle_Command True (mgr_subtitle ctx) (MANAGER_SET (int n)) = Some (0, Out_none, m')"
      "subtitle_Command True m' MANAGER_GET = Some (0, Out_int t, m'')"
    using subtitle_choose [OF m] id by blast
  let ?c = "ctx\<lparr>mgr_subtitle := m''\<rparr>"
  obtain q v c where 2: "pe_ass env (CONTAINER_SWITCH_SUBTITLE t) ?c = Some (q, v, c)" "others c = others ctx"
    using ass [unfolded ass_keeps_def, rule_format, of "CONTAINER_SWITCH_SUBTITLE t" ?c] by auto
  show ?thesis
    using 1 2 play id(2) srt ssa
    by (simp add: PlaybackSwitchSubtitle_def text_env_def SrtContainer_def SsaContainer_def text_Command_def
        TEXTSRTOFFSET_def TEXTSSAOFFSET_def cERR_PLAYBACK_NO_ERROR_def)
qed


lemma text_offsets: "tk_offset srt_kind = 100" "tk_offset ssa_kind = 200"
  by (simp_all add: srt_kind_def ssa_kind_def TEXTSRTOFFSET_def TEXTSSAOFFSET_def)

lemma choose_srt_file:
  assumes ass: "ass_keeps env" and m: "mgr_rep 20 (-1) (mgr_subtitle ctx) a'" and play: "isPlaying (playback ctx)"
    and a': "a_tracks a' = take 20 (a_tracks a @ text_tracks srt_kind srts @ text_tracks ssa_kind ssas)"
    and srts: "srts = film_texts srt_kind fd name" "text_opened srt_kind fd name (srt_static (others ctx))"
    and i: "td_fopen fd (film_path name (srts ! i))" "i < length srts" "length (a_tracks a) + i < 20"
  shows "\<exists>c. PlaybackSwitchSubtitle (text_env True fd env) ctx (int (length (a_tracks a) + i)) = Some (0, c) \<and>
    tx_file (srt_static (others c)) = Some (film_path name (srts ! i)) \<and>
    tx_threads (srt_static (others c)) = tx_threads (srt_static (others ctx)) + 1 \<and>
    ssa_static (others c) = ssa_static (others ctx)"
proof -
  let ?n = "length (a_tracks a)"
  have "tr_Id (a_tracks a' ! (?n + i)) = 100 + int i" "?n + i < length (a_tracks a')"
    using i by (simp_all add: a' nth_append text_track_id text_offsets del: take_append)
  moreover have "TextSwitchSubtitle srt_kind fd (100 + int i) (srt_static (others ctx)) =
      Some (0, (srt_static (others ctx))\<lparr>tx_file := Some (film_path name (srts ! i)), tx_hasThreadStarted := True,
        tx_threads := tx_threads (srt_static (others ctx)) + 1\<rparr>)"
    using TextSwitchSubtitle_opens [OF srts(2), of i "100 + int i"] i srts(1) by (simp add: text_offsets)
  ultimately show ?thesis
    using switch_text [OF ass m, of "?n + i" "100 + int i" fd] play i by fastforce
qed

lemma choose_ssa_file:
  assumes ass: "ass_keeps env" and m: "mgr_rep 20 (-1) (mgr_subtitle ctx) a'" and play: "isPlaying (playback ctx)"
    and a': "a_tracks a' = take 20 (a_tracks a @ text_tracks srt_kind srts @ text_tracks ssa_kind ssas)"
    and texts: "srts = film_texts srt_kind fd name" "ssas = film_texts ssa_kind fd name"
    and opened: "text_opened srt_kind fd name (srt_static (others ctx))" "text_opened ssa_kind fd name (ssa_static (others ctx))"
    and i: "td_fopen fd (film_path name (ssas ! i))" "i < length ssas" "length (a_tracks a) + length srts + i < 20"
    and srt: "i < length srts \<Longrightarrow> td_fopen fd (film_path name (srts ! i))"
  shows "\<exists>c. PlaybackSwitchSubtitle (text_env True fd env) ctx (int (length (a_tracks a) + length srts + i)) = Some (0, c) \<and>
    tx_file (ssa_static (others c)) = Some (film_path name (ssas ! i)) \<and>
    tx_threads (ssa_static (others c)) = tx_threads (ssa_static (others ctx)) + 1 \<and>
    tx_file (srt_static (others c)) = (if i < length srts then Some (film_path name (srts ! i)) else None)"
proof -
  let ?n = "length (a_tracks a) + length srts"
  have id: "tr_Id (a_tracks a' ! (?n + i)) = 200 + int i" "?n + i < length (a_tracks a')"
    using i by (simp_all add: a' nth_append text_track_id text_offsets del: take_append)
  have ssa: "TextSwitchSubtitle ssa_kind fd (200 + int i) (ssa_static (others ctx)) =
      Some (0, (ssa_static (others ctx))\<lparr>tx_file := Some (film_path name (ssas ! i)), tx_hasThreadStarted := True,
        tx_threads := tx_threads (ssa_static (others ctx)) + 1\<rparr>)"
    using TextSwitchSubtitle_opens [OF opened(2), of i "200 + int i"] i texts(2) by (simp add: text_offsets)
  have "(int i + 2 * 100) mod 100 = int i mod 100" by (rule mod_mult_self1)
  then have md: "(200 + int i) mod tk_offset srt_kind = int i" using i by (simp add: text_offsets add.commute)
  obtain r s where srt: "TextSwitchSubtitle srt_kind fd (200 + int i) (srt_static (others ctx)) = Some (r, s)"
      "tx_file s = (if i < length srts then Some (film_path name (srts ! i)) else None)"
    using TextSwitchSubtitle_opens [OF opened(1) _ _ _ _ _ md] TextSwitchSubtitle_not [OF opened(1) _ md] i texts(1) srt
    by (cases "i < length srts") (auto simp: text_offsets)
  show ?thesis
    using switch_text [OF ass m, of "?n + i" "200 + int i" fd] play id ssa srt by fastforce
qed

subsection \<open>Properties\<close>

definition example_files :: text_files where
  "example_files =
     \<lparr>td_readdir = (\<lambda>d. if d = ''/m'' then Some [''.'', ''a.ts'', ''a.srt'', ''b.srt'', ''a.de.srt'', ''a.ass''] else None), td_fopen = (\<lambda>f. True)\<rparr>"

definition example_text_env :: "text_states player_env" where
  "example_text_env =
     \<lparr>pe_writer = \<lparr>we_device = (\<lambda>log fd bs. int (length bs)), we_fps = (\<lambda>r. r), we_junk = 0, we_junks = []\<rparr>,
      pe_malloc = True, pe_open = (\<lambda>log dev. 3), pe_ioctl = (\<lambda>log fd r. True), pe_pts = (\<lambda>log. 0), pe_frames = (\<lambda>log. 0),
      pe_junk = 0, pe_ffmpeg = (\<lambda>c ctx. Some (0, CO_none, ctx)), pe_srt = (\<lambda>c ctx. None), pe_ssa = (\<lambda>c ctx. None),
      pe_ass = (\<lambda>c ctx. Some (0, CO_none, ctx)), pe_subtitle = (\<lambda>c a ctx. Some (0, None, ctx)), pe_thread = True, pe_ended = (\<lambda>n. True)\<rparr>"

definition example_text_start :: "text_states Context_t" where
  "example_text_start =
     \<lparr>playback = PlaybackHandler, selectedContainer = True, out_audio = None, out_video = None, out_subtitle = None,
      mgr_audio = audio_init, mgr_video = video_init, mgr_subtitle = subtitle_init, dvb = linuxdvb_init,
      writers_st = writers_init, hasThreadStarted = False, others = \<lparr>srt_static = text_static, ssa_static = text_static\<rparr>\<rparr>"

text \<open>
  Claim C18. The subtitle files of a film can be chosen: after the film has been opened, the SRT files of its folder whose
  names begin with the film's name are the subtitle tracks behind those of the film itself, in the order of the directory,
  then come the SSA files, as far as the manager has room. Choosing such a track in the player opens that file and creates
  a thread for it; choosing an SRT track leaves the SSA reader alone, but choosing an SSA track also opens the SRT file with
  the same number, or closes the SRT reader if there is none.
\<close>

theorem film_subtitle_choice:
  assumes "ass_keeps env" "mgr_rep 20 (-1) (mgr_subtitle ctx) a" "length name < 100"
    and "text_rep (srt_static (others ctx)) []" "text_rep (ssa_static (others ctx)) []"
    and "srts = film_texts srt_kind fd name" "ssas = film_texts ssa_kind fd name"
    and "\<forall>x \<in> set (srts @ ssas). td_fopen fd (film_path name x)" "isPlaying p"
  shows "\<exists>ctx'. open_subtitles (text_env True fd env) name ctx = Some ctx' \<and>
    (\<forall>i < length srts. length (a_tracks a) + i < 20 \<longrightarrow>
       (\<exists>c. PlaybackSwitchSubtitle (text_env True fd env) (ctx'\<lparr>playback := p\<rparr>) (int (length (a_tracks a) + i)) = Some (0, c) \<and>
          tx_file (srt_static (others c)) = Some (film_path name (srts ! i)) \<and>
          tx_threads (srt_static (others c)) = tx_threads (srt_static (others ctx')) + 1 \<and>
          ssa_static (others c) = ssa_static (others ctx'))) \<and>
    (\<forall>i < length ssas. length (a_tracks a) + length srts + i < 20 \<longrightarrow>
       (\<exists>c. PlaybackSwitchSubtitle (text_env True fd env) (ctx'\<lparr>playback := p\<rparr>) (int (length (a_tracks a) + length srts + i)) = Some (0, c) \<and>
          tx_file (ssa_static (others c)) = Some (film_path name (ssas ! i)) \<and>
          tx_threads (ssa_static (others c)) = tx_threads (ssa_static (others ctx')) + 1 \<and>
          tx_file (srt_static (others c)) = (if i < length srts then Some (film_path name (srts ! i)) else None)))"
proof -
  obtain ctx' a' where o: "open_subtitles (text_env True fd env) name ctx = Some ctx'"
      "text_opened srt_kind fd name (srt_static (others ctx'))" "text_opened ssa_kind fd name (ssa_static (others ctx'))"
      "mgr_rep 20 (-1) (mgr_subtitle ctx') a'" "a_tracks a' = take 20 (a_tracks a @ text_tracks srt_kind srts @ text_tracks ssa_kind ssas)"
    using open_subtitles_rep [OF assms(1-5), of fd] assms(6,7) by blast
  let ?c = "ctx'\<lparr>playback := p\<rparr>"
  have m: "mgr_rep 20 (-1) (mgr_subtitle ?c) a'" "isPlaying (playback ?c)" using o(4) assms(9) by simp_all
  have c: "text_opened srt_kind fd name (srt_static (others ?c))" "text_opened ssa_kind fd name (ssa_static (others ?c))"
    using o(2,3) by simp_all
  have "td_fopen fd (film_path name (srts ! i))" if "i < length srts" for i using assms(8) that by simp
  moreover have "td_fopen fd (film_path name (ssas ! i))" if "i < length ssas" for i using assms(8) that by simp
  ultimately show ?thesis
    using o(1) choose_srt_file [OF assms(1) m o(5) assms(6) c(1)] choose_ssa_file [OF assms(1) m o(5) assms(6,7) c] by simp
qed

theorem film_subtitle_choice_witness:
  "\<exists>ctx' c. open_subtitles (text_env True example_files example_text_env) ''/m/a.ts'' example_text_start = Some ctx' \<and>
    PlaybackSwitchSubtitle (text_env True example_files example_text_env) (ctx'\<lparr>playback := PlaybackHandler\<lparr>isPlaying := True\<rparr>\<rparr>) 2 = Some (0, c) \<and>
    tx_file (ssa_static (others c)) = Some ''/m/a.ass'' \<and> tx_file (srt_static (others c)) = Some ''/m/a.srt''"
proof -
  have t: "film_texts srt_kind example_files ''/m/a.ts'' = [(''a'', ''srt''), (''a.de'', ''srt'')]"
      "film_texts ssa_kind example_files ''/m/a.ts'' = [(''a'', ''ass'')]"
      "film_path ''/m/a.ts'' (''a'', ''ass'') = ''/m/a.ass''" "film_path ''/m/a.ts'' (''a'', ''srt'') = ''/m/a.srt''"
    by code_simp+
  have k: "ass_keeps example_text_env" by (simp add: ass_keeps_def example_text_env_def)
  have r: "mgr_rep 20 (-1) (mgr_subtitle example_text_start) \<lparr>a_tracks = [], a_current = -1\<rparr>"
      "text_rep (srt_static (others example_text_start)) []" "text_rep (ssa_static (others example_text_start)) []"
    by (simp_all add: mgr_rep_def text_rep_def example_text_start_def subtitle_init_def text_static_def)
  have f: "\<forall>x \<in> set ([(''a'', ''srt''), (''a.de'', ''srt'')] @ [(''a'', ''ass'')]). td_fopen example_files (film_path ''/m/a.ts'' x)"
    by (simp add: example_files_def)
  have p: "isPlaying (PlaybackHandler\<lparr>isPlaying := True\<rparr>)" by simp
  from film_subtitle_choice [OF k r(1) _ r(2,3) t(1,2) [symmetric] f p] t(3,4) show ?thesis by fastforce
qed

end
