(* ===== verification/Lnb.thy ===== *)
theory Lnb
  imports Prelude "HOL-Library.Monad_Syntax"
begin

text \<open>
  The drivers for the supply of the satellite dish, \<open>driver/frontends/lnb\<close>: the A8293 behind the I2C bus
  (\<open>a8293.c\<close>), two output pins (\<open>lnb_pio.c\<close>), the empty driver \<open>lnb24.c\<close>, and the module that passes requests on to one of
  them (\<open>lnb_core.c\<close>, as it is built for kernels from 2.6.30 on). The I2C bus, the pin functions, the registration functions
  of the kernel and the flag \<open>_12v_isON\<close> of \<open>e2_proc\<close> are arguments. \<open>None\<close> is an access through NULL.
\<close>

definition LNB_VOLTAGE_OFF :: u32 where "LNB_VOLTAGE_OFF = 0x2b0010"
definition LNB_VOLTAGE_VER :: u32 where "LNB_VOLTAGE_VER = 0x2b0011"
definition LNB_VOLTAGE_HOR :: u32 where "LNB_VOLTAGE_HOR = 0x2b0012"

definition LNB_A8293 :: int where "LNB_A8293 = 0"
definition LNB_LNB24 :: int where "LNB_LNB24 = 1"
definition LNB_PIO :: int where "LNB_PIO = 2"

subsection \<open>State\<close>

text \<open>
  \<open>i2c_log\<close> is what has happened on the bus: a byte asked for, with the chip's answer, and a byte sent, with whether the chip took
  it. A pin is its port and number: \<open>pins_held\<close> are those requested and not given back, \<open>pin_level\<close> what they are set to.
\<close>

type_synonym pin = "nat \<times> nat"

datatype i2c_event = I2C_Recv "byte option" | I2C_Send byte bool

record lnb_state =
  devType :: int
  lnb_client :: bool
  lnb_power :: "pin option"
  lnb_13_18 :: "pin option"
  lnb_14_19 :: "pin option"
  i2c_log :: "i2c_event list"
  pio6_mode :: u32
  pio6_out :: u32
  pins_held :: "pin list"
  pin_level :: "pin \<Rightarrow> bool"
  driver_added :: bool
  chrdev_registered :: bool

text \<open>
  The module before \<open>lnb_init\<close>: its static variables have their initial values and nothing of it is registered. The bus, the pins and
  the registers are as they were left.
\<close>

definition lnb_static :: "lnb_state \<Rightarrow> lnb_state" where
  "lnb_static s =
     s\<lparr>devType := 0, lnb_client := False, lnb_power := None, lnb_13_18 := None, lnb_14_19 := None, driver_added := False,
       chrdev_registered := False\<rparr>"

text \<open>
  \<open>le_recv\<close>: what the chip answers and \<open>le_send\<close>: whether it accepts a byte, given what has happened on the bus; \<open>le_pin\<close>: whether a
  pin that nobody holds can be requested; \<open>le_spark\<close>: built for the Spark; \<open>le_found\<close>: a chip is found when the I2C driver is added.
\<close>

record lnb_env =
  le_recv :: "i2c_event list \<Rightarrow> byte option"
  le_send :: "i2c_event list \<Rightarrow> byte \<Rightarrow> bool"
  le_pin :: "pin \<Rightarrow> bool"
  le_spark :: bool
  le_add :: bool
  le_found :: bool
  le_chrdev :: bool

subsection \<open>a8293.c\<close>

text \<open>A byte that cannot be read is \<open>return -1\<close> from a function of type \<open>unsigned char\<close>.\<close>

definition a8293_read :: "lnb_env \<Rightarrow> lnb_state \<Rightarrow> byte \<times> lnb_state" where
  "a8293_read env s =
     (let a = le_recv env (i2c_log s)
      in (case a of None \<Rightarrow> -1 | Some b \<Rightarrow> b, s\<lparr>i2c_log := i2c_log s @ [I2C_Recv a]\<rparr>))"

definition a8293_write :: "lnb_env \<Rightarrow> byte \<Rightarrow> lnb_state \<Rightarrow> int \<times> lnb_state" where
  "a8293_write env reg s =
     (let ok = le_send env (i2c_log s) reg
      in (if ok then 0 else - EFAULT, s\<lparr>i2c_log := i2c_log s @ [I2C_Send reg ok]\<rparr>))"

definition a8293_command_kernel :: "lnb_env \<Rightarrow> int \<Rightarrow> u32 \<Rightarrow> lnb_state \<Rightarrow> int \<times> lnb_state" where
  "a8293_command_kernel env v12_isON cmd s =
     (let reg = (0x10 :: byte);
          reg = (if cmd \<noteq> LNB_VOLTAGE_OFF then reg OR push_bit 5 1 else reg)
      in if cmd = LNB_VOLTAGE_OFF then (if v12_isON = 0 then a8293_write env reg s else (0, s))
         else if cmd = LNB_VOLTAGE_VER then a8293_write env (reg OR 0x04) s
         else if cmd = LNB_VOLTAGE_HOR then a8293_write env (reg OR 0x0B) s
         else (0, s))"

definition a8293_command :: "lnb_env \<Rightarrow> int \<Rightarrow> u32 \<Rightarrow> lnb_state \<Rightarrow> int \<times> lnb_state" where
  "a8293_command env v12_isON cmd s = a8293_command_kernel env v12_isON cmd s"

definition a8293_init :: "lnb_env \<Rightarrow> lnb_state \<Rightarrow> int \<times> lnb_state" where
  "a8293_init env s =
     (let (reg, s) = a8293_read env s;
          (res, s) = a8293_write env 0x82 s
      in (res, if res = 0 then s\<lparr>pio6_mode := pio6_mode s OR 1, pio6_out := pio6_out s AND NOT 1\<rparr> else s))"

subsection \<open>lnb24.c\<close>

definition lnb24_command :: "u32 \<Rightarrow> lnb_state \<Rightarrow> int \<times> lnb_state" where
  "lnb24_command cmd s = (0, s)"

definition lnb24_command_kernel :: "u32 \<Rightarrow> lnb_state \<Rightarrow> int \<times> lnb_state" where
  "lnb24_command_kernel cmd s = (0, s)"

definition lnb24_init :: "lnb_state \<Rightarrow> int \<times> lnb_state" where
  "lnb24_init s = (0, s)"

subsection \<open>lnb\_pio.c\<close>

text \<open>A pin that is held already is not given out again.\<close>

definition stpio_request_pin :: "lnb_env \<Rightarrow> pin \<Rightarrow> lnb_state \<Rightarrow> pin option \<times> lnb_state" where
  "stpio_request_pin env p s =
     (if le_pin env p \<and> p \<notin> set (pins_held s) then (Some p, s\<lparr>pins_held := pins_held s @ [p]\<rparr>) else (None, s))"

definition stpio_set_pin :: "pin \<Rightarrow> bool \<Rightarrow> lnb_state \<Rightarrow> lnb_state" where
  "stpio_set_pin p v s = s\<lparr>pin_level := (pin_level s)(p := v)\<rparr>"

definition stpio_free_pin :: "pin \<Rightarrow> lnb_state \<Rightarrow> lnb_state" where
  "stpio_free_pin p s = s\<lparr>pins_held := remove1 p (pins_held s)\<rparr>"

text \<open>Setting and freeing under the check for NULL.\<close>

definition set_if :: "pin option \<Rightarrow> bool \<Rightarrow> lnb_state \<Rightarrow> lnb_state" where
  "set_if p v s = (case p of None \<Rightarrow> s | Some p \<Rightarrow> stpio_set_pin p v s)"

definition free_if :: "pin option \<Rightarrow> lnb_state \<Rightarrow> lnb_state" where
  "free_if p s = (case p of None \<Rightarrow> s | Some p \<Rightarrow> stpio_free_pin p s)"

definition lnb_pio_command_kernel :: "int \<Rightarrow> u32 \<Rightarrow> lnb_state \<Rightarrow> int \<times> lnb_state" where
  "lnb_pio_command_kernel v12_isON cmd s =
     (let s = (if cmd \<noteq> LNB_VOLTAGE_OFF then set_if (lnb_power s) True s else s);
          s = (if cmd = LNB_VOLTAGE_OFF then (if v12_isON = 0 then set_if (lnb_power s) False s else s)
               else if cmd = LNB_VOLTAGE_VER then set_if (lnb_13_18 s) True s
               else if cmd = LNB_VOLTAGE_HOR then set_if (lnb_13_18 s) False s
               else s)
      in (0, s))"

definition lnb_pio_command :: "int \<Rightarrow> u32 \<Rightarrow> lnb_state \<Rightarrow> int \<times> lnb_state" where
  "lnb_pio_command v12_isON cmd s = lnb_pio_command_kernel v12_isON cmd s"

definition lnb_pio_init :: "lnb_env \<Rightarrow> lnb_state \<Rightarrow> (int \<times> lnb_state) option" where
  "lnb_pio_init env s =
     (let s = s\<lparr>lnb_power := None, lnb_13_18 := None, lnb_14_19 := None\<rparr>
      in if le_spark env then
           (let (p, s) = stpio_request_pin env (6, 5) s; s = s\<lparr>lnb_power := p\<rparr>;
                (p, s) = stpio_request_pin env (6, 6) s; s = s\<lparr>lnb_13_18 := p\<rparr>;
                (p, s) = stpio_request_pin env (5, 5) s; s = s\<lparr>lnb_14_19 := p\<rparr>
            in if lnb_power s = None \<or> lnb_13_18 s = None \<or> lnb_14_19 s = None
               then Some (- EIO, free_if (lnb_14_19 s) (free_if (lnb_13_18 s) (free_if (lnb_power s) s)))
               else map_option (\<lambda>p. (0, stpio_set_pin p False s)) (lnb_power s))
         else map_option (\<lambda>p. (0, stpio_set_pin p False s)) (lnb_power s))"

definition lnb_pio_exit :: "lnb_state \<Rightarrow> int \<times> lnb_state" where
  "lnb_pio_exit s = (0, free_if (lnb_14_19 s) (free_if (lnb_13_18 s) (free_if (lnb_power s) s)))"

subsection \<open>lnb\_core.c\<close>

definition lnb_newprobe :: "lnb_env \<Rightarrow> lnb_state \<Rightarrow> (int \<times> lnb_state) option" where
  "lnb_newprobe env s =
     (if lnb_client s then Some (- ENODEV, s)
      else if devType s = LNB_A8293 then Some (0, (snd (a8293_init env s))\<lparr>lnb_client := True\<rparr>)
      else if devType s = LNB_LNB24 then Some (0, (snd (lnb24_init s))\<lparr>lnb_client := True\<rparr>)
      else if devType s = LNB_PIO then do { (r, s) \<leftarrow> lnb_pio_init env s; Some (0, s\<lparr>lnb_client := True\<rparr>) }
      else Some (- ENODEV, s))"

definition lnb_remove :: "lnb_state \<Rightarrow> int \<times> lnb_state" where
  "lnb_remove s = (0, s\<lparr>lnb_client := False\<rparr>)"

definition lnb_command_ioctl :: "lnb_env \<Rightarrow> int \<Rightarrow> u32 \<Rightarrow> lnb_state \<Rightarrow> int \<times> lnb_state" where
  "lnb_command_ioctl env v12_isON cmd s =
     (if \<not> lnb_client s \<and> devType s \<noteq> LNB_PIO then (-1, s)
      else if devType s = LNB_A8293 then a8293_command env v12_isON cmd s
      else if devType s = LNB_LNB24 then lnb24_command cmd s
      else if devType s = LNB_PIO then lnb_pio_command v12_isON cmd s
      else (0, s))"

definition lnb_command_kernel :: "lnb_env \<Rightarrow> int \<Rightarrow> u32 \<Rightarrow> lnb_state \<Rightarrow> int \<times> lnb_state" where
  "lnb_command_kernel env v12_isON cmd s =
     (if \<not> lnb_client s \<and> devType s \<noteq> LNB_PIO then (-1, s)
      else if devType s = LNB_A8293 then a8293_command_kernel env v12_isON cmd s
      else if devType s = LNB_LNB24 then lnb24_command_kernel cmd s
      else if devType s = LNB_PIO then lnb_pio_command_kernel v12_isON cmd s
      else (0, s))"

definition lnb_ioctl :: "lnb_env \<Rightarrow> int \<Rightarrow> u32 \<Rightarrow> lnb_state \<Rightarrow> int \<times> lnb_state" where
  "lnb_ioctl env v12_isON cmd s = lnb_command_ioctl env v12_isON cmd s"

text \<open>The type is the module parameter, \<open>None\<close> for NULL.\<close>

definition lnb_detect :: "int \<Rightarrow> string option \<Rightarrow> lnb_state \<Rightarrow> int \<times> lnb_state" where
  "lnb_detect kind type s =
     (if kind \<ge> 0 then
        (if kind \<in> {LNB_A8293, LNB_LNB24, LNB_PIO} then (0, s\<lparr>devType := kind\<rparr>) else (- ENODEV, s))
      else case type of
        None \<Rightarrow> (0, s\<lparr>devType := LNB_A8293\<rparr>)
      | Some t \<Rightarrow>
          if t = ''a8293'' then (0, s\<lparr>devType := LNB_A8293\<rparr>)
          else if t = ''lnb24'' then (0, s\<lparr>devType := LNB_LNB24\<rparr>)
          else if t = ''pio'' then (0, s\<lparr>devType := LNB_PIO\<rparr>)
          else (- ENODEV, s))"

text \<open>Adding the driver probes the chip, if one is found; deleting it removes the client.\<close>

definition i2c_add_driver :: "lnb_env \<Rightarrow> lnb_state \<Rightarrow> (int \<times> lnb_state) option" where
  "i2c_add_driver env s =
     (if \<not> le_add env then Some (- ENOMEM, s)
      else if le_found env then do { (r, s) \<leftarrow> lnb_newprobe env s; Some (0, s\<lparr>driver_added := True\<rparr>) }
      else Some (0, s\<lparr>driver_added := True\<rparr>))"

definition i2c_del_driver :: "lnb_state \<Rightarrow> lnb_state" where
  "i2c_del_driver s = (snd (lnb_remove s))\<lparr>driver_added := False\<rparr>"

definition lnb_init :: "lnb_env \<Rightarrow> string option \<Rightarrow> lnb_state \<Rightarrow> (int \<times> lnb_state) option" where
  "lnb_init env type s =
     (let (err, s) = lnb_detect (-1) type s
      in if err \<noteq> 0 then Some (err, s)
         else do {
           (res, s) \<leftarrow> (if devType s = LNB_PIO then lnb_pio_init env s
                       else do {
                         (res, s) \<leftarrow> i2c_add_driver env s;
                         Some (if res \<noteq> 0 then (res, s)
                               else if \<not> lnb_client s then (- EIO, i2c_del_driver s)
                               else (0, s))
                       });
           Some (if res \<noteq> 0 then (res, s)
                 else if le_chrdev env then (0, s\<lparr>chrdev_registered := True\<rparr>)
                 else if devType s = LNB_PIO then (- EIO, snd (lnb_pio_exit s))
                 else (- EIO, i2c_del_driver s))
         })"


subsection \<open>What a chip promises\<close>

text \<open>
  What the dish gets: whether it is supplied, and the voltage selected, which chooses the polarisation. An accepted request for
  a polarisation selects it and switches the supply on; switching off has no effect while the 12 volts are on. What other
  requests do depends on the driver.
\<close>

datatype lnb_pol = Pol_ver | Pol_hor | Pol_other

type_synonym lnb_supply = "bool \<times> lnb_pol"

fun lnb_spec :: "int \<Rightarrow> int \<Rightarrow> u32 \<Rightarrow> lnb_supply \<Rightarrow> lnb_supply" where
  "lnb_spec dev v12_isON cmd (on, pol) =
     (if dev = LNB_LNB24 then (on, pol)
      else if cmd = LNB_VOLTAGE_OFF then (if v12_isON \<noteq> 0 then (on, pol) else (False, if dev = LNB_A8293 then Pol_other else pol))
      else if cmd = LNB_VOLTAGE_VER then (True, Pol_ver)
      else if cmd = LNB_VOLTAGE_HOR then (True, Pol_hor)
      else if dev = LNB_PIO then (True, pol) else (on, pol))"

text \<open>Requests, each with the flag \<open>_12v_isON\<close> at that time, and the results.\<close>

fun lnb_run :: "(int \<Rightarrow> u32 \<Rightarrow> 's \<Rightarrow> int \<times> 's) \<Rightarrow> (int \<times> u32) list \<Rightarrow> 's \<Rightarrow> int list \<times> 's" where
  "lnb_run command [] s = ([], s)"
| "lnb_run command ((v, c) # cs) s =
     (let (r, s) = command v c s; (rs, s) = lnb_run command cs s in (r # rs, s))"

text \<open>The requests that took effect, by their results.\<close>

fun lnb_spec_run :: "int \<Rightarrow> (int \<times> u32) list \<Rightarrow> int list \<Rightarrow> lnb_supply \<Rightarrow> lnb_supply" where
  "lnb_spec_run dev ((v, c) # cs) (r # rs) x = lnb_spec_run dev cs rs (if r = 0 then lnb_spec dev v c x else x)"
| "lnb_spec_run dev cs rs x = x"

definition lnb_result_ok :: "int \<Rightarrow> int \<Rightarrow> bool" where
  "lnb_result_ok dev r \<longleftrightarrow> r = 0 \<or> dev = LNB_A8293 \<and> r = - EFAULT"

locale lnb_chip =
  fixes command :: "int \<Rightarrow> u32 \<Rightarrow> 's \<Rightarrow> int \<times> 's"
    and dev :: int
    and ready :: "'s \<Rightarrow> bool"
    and dish :: "'s \<Rightarrow> lnb_supply"
  assumes command_ready: "ready s \<Longrightarrow> command v c s = (r, t) \<Longrightarrow> ready t"
    and command_result: "ready s \<Longrightarrow> command v c s = (r, t) \<Longrightarrow> lnb_result_ok dev r"
    and command_dish: "ready s \<Longrightarrow> command v c s = (r, t) \<Longrightarrow>
      dish t = (if r = 0 then lnb_spec dev v c (dish s) else dish s)"
begin

lemma run_dish:
  "ready s \<Longrightarrow> lnb_run command cs s = (rs, t) \<Longrightarrow>
   ready t \<and> dish t = lnb_spec_run dev cs rs (dish s) \<and> length rs = length cs \<and> list_all (lnb_result_ok dev) rs"
proof (induction cs arbitrary: s rs)
  case Nil
  then show ?case by simp
next
  case (Cons x cs)
  obtain v c where x: "x = (v, c)" by fastforce
  obtain r u where u: "command v c s = (r, u)" by fastforce
  obtain rs' where rs: "lnb_run command cs u = (rs', t)" "rs = r # rs'"
    using Cons.prems(2) u x by (auto split: prod.splits)
  show ?case
    using Cons.IH [OF command_ready [OF Cons.prems(1) u] rs(1)] command_dish [OF Cons.prems(1) u]
      command_result [OF Cons.prems(1) u] x rs(2)
    by simp
qed

end

subsection \<open>The A8293\<close>

text \<open>
  The chip has two control registers, and bit 7 of a byte tells which it is for. The last byte it took for the first one counts: bit 5
  switches the supply on, the lower bits select the voltage.
\<close>

fun voltage_byte :: "i2c_event \<Rightarrow> bytes" where
  "voltage_byte (I2C_Send b ok) = (if ok \<and> \<not> bit b 7 then [b] else [])"
| "voltage_byte (I2C_Recv a) = []"

definition a8293_supply :: "i2c_event list \<Rightarrow> lnb_supply" where
  "a8293_supply es =
     (let bs = concat (map voltage_byte es)
      in if bs = [] then (False, Pol_other)
         else (bit (last bs) 5, if last bs AND 0x0F = 4 then Pol_ver else if last bs AND 0x0F = 0x0B then Pol_hor else Pol_other))"

definition a8293_ready :: "lnb_state \<Rightarrow> bool" where
  "a8293_ready s \<longleftrightarrow> devType s = LNB_A8293 \<and> lnb_client s"

lemmas lnb_cmd_defs = LNB_VOLTAGE_OFF_def LNB_VOLTAGE_VER_def LNB_VOLTAGE_HOR_def
lemmas lnb_type_defs = LNB_A8293_def LNB_LNB24_def LNB_PIO_def

lemma a8293_supply_snoc:
  "a8293_supply (es @ [I2C_Recv a]) = a8293_supply es"
  "a8293_supply (es @ [I2C_Send b ok]) =
     (if ok \<and> \<not> bit b 7
      then (bit b 5, if b AND 0x0F = 4 then Pol_ver else if b AND 0x0F = 0x0B then Pol_hor else Pol_other) else a8293_supply es)"
  by (simp_all add: a8293_supply_def Let_def)

lemma a8293_write_effect:
  "a8293_write env reg s = (r, t) \<Longrightarrow>
   devType t = devType s \<and> lnb_client t = lnb_client s \<and> lnb_result_ok LNB_A8293 r \<and>
   i2c_log t = i2c_log s @ [I2C_Send reg (r = 0)]"
  by (auto simp: a8293_write_def EFAULT_def lnb_result_ok_def Let_def split: if_splits)

lemma a8293_bytes:
  "\<not> bit (0x10 :: byte) 5" "bit (0x34 :: byte) 5" "bit (0x3B :: byte) 5" "\<not> bit (0x10 :: byte) 7" "\<not> bit (0x34 :: byte) 7"
  "\<not> bit (0x3B :: byte) 7" "bit (0x82 :: byte) 7"
  "(0x10 :: byte) AND 0x0F = 0" "(0x34 :: byte) AND 0x0F = 4" "(0x3B :: byte) AND 0x0F = 0x0B"
  "(0x10 :: byte) OR push_bit 5 1 OR 0x04 = 0x34" "(0x10 :: byte) OR push_bit 5 1 OR 0x0B = 0x3B"
  by code_simp+

interpretation a8293: lnb_chip "lnb_command_ioctl env" LNB_A8293 a8293_ready "\<lambda>s. a8293_supply (i2c_log s)" for env
proof
  fix s c v r t
  assume *: "a8293_ready s" "lnb_command_ioctl env v c s = (r, t)"
  note d = lnb_command_ioctl_def a8293_command_def a8293_command_kernel_def a8293_ready_def Let_def
  show "a8293_ready t"
    using * by (auto simp: d lnb_cmd_defs dest!: a8293_write_effect split: if_splits)
  show "lnb_result_ok LNB_A8293 r"
    using * by (auto simp: d lnb_cmd_defs lnb_result_ok_def dest!: a8293_write_effect split: if_splits)
  show "a8293_supply (i2c_log t) = (if r = 0 then lnb_spec LNB_A8293 v c (a8293_supply (i2c_log s)) else a8293_supply (i2c_log s))"
    using * by (cases "a8293_supply (i2c_log s)")
      (auto simp: d lnb_cmd_defs lnb_type_defs a8293_bytes a8293_supply_snoc dest!: a8293_write_effect split: if_splits)
qed

subsection \<open>The LNB24\<close>

definition lnb24_ready :: "lnb_state \<Rightarrow> bool" where
  "lnb24_ready s \<longleftrightarrow> devType s = LNB_LNB24 \<and> lnb_client s"

interpretation lnb24: lnb_chip "lnb_command_ioctl env" LNB_LNB24 lnb24_ready "\<lambda>s. a8293_supply (i2c_log s)" for env
proof
  fix s c v r t
  assume "lnb24_ready s" "lnb_command_ioctl env v c s = (r, t)"
  then have "r = 0 \<and> t = s" "lnb24_ready s" by (auto simp: lnb24_ready_def lnb_command_ioctl_def lnb24_command_def lnb_type_defs)
  then show "lnb24_ready t" "lnb_result_ok LNB_LNB24 r"
    "a8293_supply (i2c_log t) = (if r = 0 then lnb_spec LNB_LNB24 v c (a8293_supply (i2c_log s)) else a8293_supply (i2c_log s))"
    by (cases "a8293_supply (i2c_log s)", simp add: lnb_result_ok_def)+
qed

subsection \<open>The pins\<close>

definition pio_supply :: "lnb_state \<Rightarrow> lnb_supply" where
  "pio_supply s = (pin_level s (6, 5), if pin_level s (6, 6) then Pol_ver else Pol_hor)"

definition pio_ready :: "lnb_state \<Rightarrow> bool" where
  "pio_ready s \<longleftrightarrow> devType s = LNB_PIO \<and> lnb_power s = Some (6, 5) \<and> lnb_13_18 s = Some (6, 6)"

interpretation pio: lnb_chip "lnb_command_ioctl env" LNB_PIO pio_ready pio_supply for env
proof
  fix s c v r t
  assume *: "pio_ready s" "lnb_command_ioctl env v c s = (r, t)"
  note d = lnb_command_ioctl_def lnb_pio_command_def lnb_pio_command_kernel_def pio_ready_def set_if_def stpio_set_pin_def
    Let_def lnb_type_defs
  show "pio_ready t"
    using * by (auto simp: d split: if_splits)
  show "lnb_result_ok LNB_PIO r"
    using * by (auto simp: d lnb_result_ok_def)
  show "pio_supply t = (if r = 0 then lnb_spec LNB_PIO v c (pio_supply s) else pio_supply s)"
    using * by (auto simp: d lnb_cmd_defs pio_supply_def split: if_splits)
qed

subsection \<open>Loading\<close>

definition lnb_pins :: "pin list" where
  "lnb_pins = [(6, 5), (6, 6), (5, 5)]"

definition lnb_type :: "string option \<Rightarrow> int option" where
  "lnb_type type =
     (if type \<in> {None, Some ''a8293''} then Some LNB_A8293 else if type = Some ''lnb24'' then Some LNB_LNB24
      else if type = Some ''pio'' then Some LNB_PIO else None)"

lemma lnb_detect_type:
  "lnb_detect (-1) type s = (case lnb_type type of None \<Rightarrow> (- ENODEV, s) | Some d \<Rightarrow> (0, s\<lparr>devType := d\<rparr>))"
  by (cases type) (simp_all add: lnb_detect_def lnb_type_def)

lemma lnb_type_range:
  "lnb_type type = Some d \<Longrightarrow> d \<in> {LNB_A8293, LNB_LNB24, LNB_PIO} \<and> (d = LNB_PIO \<longleftrightarrow> type = Some ''pio'')"
  by (auto simp: lnb_type_def lnb_type_defs split: if_splits)

definition pins_free :: "lnb_env \<Rightarrow> lnb_state \<Rightarrow> bool" where
  "pins_free env s \<longleftrightarrow> list_all (\<lambda>p. le_pin env p \<and> p \<notin> set (pins_held s)) lnb_pins"

lemma lnb_type_neq:
  "LNB_A8293 \<noteq> LNB_PIO" "LNB_LNB24 \<noteq> LNB_PIO" "LNB_LNB24 \<noteq> LNB_A8293" "LNB_PIO \<noteq> LNB_A8293" "LNB_PIO \<noteq> LNB_LNB24"
  by (simp_all add: lnb_type_defs)

text \<open>The pins: without the Spark's pins the pointer is NULL, and pins that are not all free are given back.\<close>

lemma lnb_pio_init_no_pins: "\<not> le_spark env \<Longrightarrow> lnb_pio_init env s = None"
  by (simp add: lnb_pio_init_def)

lemma lnb_pio_init_free:
  "le_spark env \<Longrightarrow> pins_free env s \<Longrightarrow> lnb_pio_init env s =
     Some (0, s\<lparr>lnb_power := Some (6, 5), lnb_13_18 := Some (6, 6), lnb_14_19 := Some (5, 5), pins_held := pins_held s @ lnb_pins,
       pin_level := (pin_level s)((6, 5) := False)\<rparr>)"
  by (simp add: lnb_pio_init_def stpio_request_pin_def stpio_set_pin_def pins_free_def lnb_pins_def)

lemma lnb_pio_init_taken:
  "le_spark env \<Longrightarrow> \<not> pins_free env s \<Longrightarrow> \<exists>t. lnb_pio_init env s = Some (- EIO, t) \<and> lnb_client t = lnb_client s \<and>
     driver_added t = driver_added s \<and> chrdev_registered t = chrdev_registered s \<and> pins_held t = pins_held s"
  by (auto simp: lnb_pio_init_def stpio_request_pin_def free_if_def stpio_free_pin_def pins_free_def lnb_pins_def remove1_append Let_def)

lemma lnb_pio_exit_pins:
  "lnb_power s = Some (6, 5) \<Longrightarrow> lnb_13_18 s = Some (6, 6) \<Longrightarrow> lnb_14_19 s = Some (5, 5) \<Longrightarrow> pins_held s = hs @ lnb_pins \<Longrightarrow>
   set lnb_pins \<inter> set hs = {} \<Longrightarrow> lnb_pio_exit s = (0, s\<lparr>pins_held := hs\<rparr>)"
  by (simp add: lnb_pio_exit_def free_if_def stpio_free_pin_def lnb_pins_def remove1_append)

text \<open>What starting the A8293 does to the bus and to the registers of port 6.\<close>

definition a8293_started :: "lnb_env \<Rightarrow> lnb_state \<Rightarrow> lnb_state \<Rightarrow> bool" where
  "a8293_started env s t \<longleftrightarrow>
     (let a = le_recv env (i2c_log s); ok = le_send env (i2c_log s @ [I2C_Recv a]) 0x82
      in i2c_log t = i2c_log s @ [I2C_Recv a, I2C_Send 0x82 ok] \<and>
         pio6_mode t = (if ok then pio6_mode s OR 1 else pio6_mode s) \<and> pio6_out t = (if ok then pio6_out s AND NOT 1 else pio6_out s))"

lemma a8293_init_started:
  "a8293_init env s = (r, t) \<Longrightarrow> a8293_started env s t \<and> devType t = devType s \<and> lnb_client t = lnb_client s \<and>
    driver_added t = driver_added s \<and> chrdev_registered t = chrdev_registered s \<and> pins_held t = pins_held s \<and> pin_level t = pin_level s"
  by (auto simp: a8293_init_def a8293_read_def a8293_write_def a8293_started_def EFAULT_def Let_def)

definition lnb_started :: "lnb_env \<Rightarrow> string option \<Rightarrow> lnb_state \<Rightarrow> lnb_state \<Rightarrow> bool" where
  "lnb_started env type s t \<longleftrightarrow>
     (if type = Some ''pio''
      then pio_ready t \<and> pins_held t = pins_held s @ lnb_pins \<and> pin_level t = (pin_level s)((6, 5) := False) \<and> i2c_log t = i2c_log s
      else lnb_client t \<and> driver_added t \<and> pins_held t = pins_held s \<and> pin_level t = pin_level s \<and>
        (if type = Some ''lnb24'' then devType t = LNB_LNB24 \<and> i2c_log t = i2c_log s
         else devType t = LNB_A8293 \<and> a8293_started env s t))"

definition lnb_load_result :: "lnb_env \<Rightarrow> string option \<Rightarrow> lnb_state \<Rightarrow> int" where
  "lnb_load_result env type s =
     (case lnb_type type of
        None \<Rightarrow> - ENODEV
      | Some d \<Rightarrow>
          if d \<noteq> LNB_PIO \<and> \<not> le_add env then - ENOMEM
          else if (if d = LNB_PIO then pins_free env s else le_found env) \<and> le_chrdev env then 0 else - EIO)"

definition lnb_unloaded :: "lnb_state \<Rightarrow> bool" where
  "lnb_unloaded s \<longleftrightarrow> \<not> chrdev_registered s \<and> \<not> driver_added s \<and> \<not> lnb_client s"

lemma lnb_static_fields:
  "devType (lnb_static s) = 0" "\<not> lnb_client (lnb_static s)" "\<not> driver_added (lnb_static s)" "\<not> chrdev_registered (lnb_static s)"
  "pins_held (lnb_static s) = pins_held s" "pin_level (lnb_static s) = pin_level s" "i2c_log (lnb_static s) = i2c_log s"
  "pio6_mode (lnb_static s) = pio6_mode s" "pio6_out (lnb_static s) = pio6_out s"
  by (simp_all add: lnb_static_def)

lemma lnb_init_pio:
  "case lnb_init env (Some ''pio'') (lnb_static s) of
     None \<Rightarrow> \<not> le_spark env
   | Some (r, t) \<Rightarrow> le_spark env \<and> r = lnb_load_result env (Some ''pio'') s \<and>
       (if r = 0 then chrdev_registered t \<and> lnb_started env (Some ''pio'') s t else lnb_unloaded t \<and> pins_held t = pins_held s)"
proof -
  let ?s = "(lnb_static s)\<lparr>devType := LNB_PIO\<rparr>"
  have d: "lnb_detect (-1) (Some ''pio'') (lnb_static s) = (0, ?s)" by (simp add: lnb_detect_def lnb_type_defs)
  have f: "pins_free env ?s = pins_free env s" by (simp add: pins_free_def lnb_static_fields)
  have ty: "lnb_type (Some ''pio'') = Some LNB_PIO" by (simp add: lnb_type_def)
  note eqs = lnb_init_def d ty lnb_load_result_def lnb_type_neq
  consider "\<not> le_spark env" | "le_spark env" "\<not> pins_free env s" | "le_spark env" "pins_free env s" by blast
  then show ?thesis
  proof cases
    case 1
    then show ?thesis by (simp add: eqs lnb_pio_init_no_pins)
  next
    case 2
    then show ?thesis using lnb_pio_init_taken [of env ?s] f by (auto simp: eqs lnb_static_fields lnb_unloaded_def EIO_def)
  next
    case 3
    then have "set lnb_pins \<inter> set (pins_held s) = {}" by (auto simp: pins_free_def list_all_iff)
    moreover have "pins_free env ?s" using 3 f by simp
    ultimately show ?thesis using 3
      by (cases "le_chrdev env")
        (simp_all add: eqs lnb_pio_init_free lnb_started_def lnb_unloaded_def pio_ready_def lnb_static_fields lnb_pio_exit_pins EIO_def)
  qed
qed

lemma lnb_init_i2c:
  assumes "type \<noteq> Some ''pio''"
  shows "\<exists>t. lnb_init env type (lnb_static s) = Some (lnb_load_result env type s, t) \<and>
    (if lnb_load_result env type s = 0 then chrdev_registered t \<and> lnb_started env type s t else lnb_unloaded t \<and> pins_held t = pins_held s)"
proof (cases "lnb_type type")
  case None
  then show ?thesis by (simp add: lnb_init_def lnb_detect_type lnb_load_result_def lnb_unloaded_def lnb_static_fields ENODEV_def)
next
  case (Some d)
  note ne = lnb_type_neq lnb_static_fields and unfold = lnb_init_def lnb_detect_type Some lnb_load_result_def i2c_add_driver_def
    lnb_newprobe_def lnb_started_def lnb_unloaded_def i2c_del_driver_def lnb_remove_def EIO_def ENOMEM_def
  from Some consider "type = Some ''lnb24''" "d = LNB_LNB24" | "type \<noteq> Some ''lnb24''" "d = LNB_A8293"
    using assms by (auto simp: lnb_type_def split: if_splits)
  then show ?thesis
  proof cases
    case 1
    have "lnb_type (Some ''lnb24'') = Some LNB_LNB24" by (simp add: lnb_type_def)
    with 1 show ?thesis
      by (cases "le_add env"; cases "le_found env"; cases "le_chrdev env") (simp_all add: unfold ne lnb24_init_def)
  next
    case 2
    let ?s = "(lnb_static s)\<lparr>devType := LNB_A8293\<rparr>"
    obtain r t where t: "a8293_init env ?s = (r, t)" by fastforce
    have f: "i2c_log ?s = i2c_log s" "pio6_mode ?s = pio6_mode s" "pio6_out ?s = pio6_out s" by (simp_all add: lnb_static_fields)
    have "a8293_started env s (t\<lparr>lnb_client := True, driver_added := True, chrdev_registered := True\<rparr>)"
      using a8293_init_started [OF t] unfolding a8293_started_def f by simp
    with 2 a8293_init_started [OF t] assms show ?thesis
      by (cases "le_add env"; cases "le_found env"; cases "le_chrdev env") (simp_all add: unfold ne t)
  qed
qed

subsection \<open>Properties\<close>

definition lnb_supply_of :: "lnb_state \<Rightarrow> lnb_supply" where
  "lnb_supply_of s = (if devType s = LNB_PIO then pio_supply s else a8293_supply (i2c_log s))"

text \<open>What loading leaves for the requests.\<close>

lemma lnb_init_none: "lnb_init env type (lnb_static s0) = Some (0, s) \<Longrightarrow> lnb_type type \<noteq> None"
  by (cases "lnb_type type") (simp_all add: lnb_init_def lnb_detect_type ENODEV_def)

lemma lnb_loaded:
  assumes "lnb_init env type (lnb_static s0) = Some (0, s)"
  shows "chrdev_registered s \<and> lnb_started env type s0 s"
proof (cases "type = Some ''pio''")
  case True
  with lnb_init_pio [of env s0] assms show ?thesis by (auto split: if_splits)
next
  case False
  from lnb_init_i2c [OF this, of env s0] assms show ?thesis by (auto split: if_splits)
qed

lemma lnb_loaded_supply:
  assumes "lnb_started env type s0 s"
  shows "lnb_supply_of s = (if type = Some ''pio'' then (False, snd (pio_supply s0)) else a8293_supply (i2c_log s0))"
proof -
  have "a8293_supply (es @ [I2C_Recv a, I2C_Send 0x82 ok]) = a8293_supply es" for es a ok
    by (simp add: a8293_supply_def a8293_bytes)
  then show ?thesis
    using assms
    by (auto simp: lnb_started_def lnb_supply_of_def pio_ready_def pio_supply_def a8293_started_def lnb_type_neq Let_def split: if_splits)
qed

text \<open>
  Claim C36. The supply of the dish follows the requests: once the module has been loaded, for any of its three types and whatever the
  hardware was set to before, and whatever requests the device gets, known or not, what the dish gets (the last voltage byte
  the chip accepted, or the levels of the two pins) is what the accepted requests make of it one after the other (\<open>lnb_spec\<close>): switching
  off has no effect while the 12 volts are on, a request the driver does not know leaves the A8293 alone but switches the supply of
  the pins on, and the LNB24 ignores everything. Loading switches the pins off, with the polarisation as it was, and leaves the
  voltage of the A8293 as it was. Only the A8293 can refuse a request, with \<open>-EFAULT\<close>.
\<close>

theorem lnb_voltage_follows:
  assumes "lnb_init env type (lnb_static s0) = Some (0, s)" "lnb_run (lnb_command_ioctl env) cs s = (rs, t)"
  shows "lnb_supply_of t = lnb_spec_run (devType s) cs rs
      (if type = Some ''pio'' then (False, snd (pio_supply s0)) else a8293_supply (i2c_log s0)) \<and>
    lnb_type type = Some (devType s) \<and> length rs = length cs \<and> list_all (lnb_result_ok (devType s)) rs"
proof -
  have s: "lnb_started env type s0 s" using lnb_loaded [OF assms(1)] by simp
  have ty: "lnb_type type = Some (devType s)"
    using s lnb_init_none [OF assms(1)] by (auto simp: lnb_started_def lnb_type_def pio_ready_def split: if_splits)
  have st: "lnb_supply_of s = (if type = Some ''pio'' then (False, snd (pio_supply s0)) else a8293_supply (i2c_log s0))"
    by (rule lnb_loaded_supply [OF s])
  consider "pio_ready s" | "lnb24_ready s" | "a8293_ready s"
    using s by (auto simp: lnb_started_def a8293_ready_def lnb24_ready_def split: if_splits)
  then show ?thesis
  proof cases
    case 1
    with pio.run_dish [OF this assms(2)] st ty show ?thesis by (auto simp: lnb_supply_of_def pio_ready_def)
  next
    case 2
    with lnb24.run_dish [OF this assms(2)] st ty show ?thesis by (auto simp: lnb_supply_of_def lnb24_ready_def lnb_type_neq)
  next
    case 3
    with a8293.run_dish [OF this assms(2)] st ty show ?thesis by (auto simp: lnb_supply_of_def a8293_ready_def lnb_type_neq)
  qed
qed

definition example_lnb :: lnb_env where
  "example_lnb =
     \<lparr>le_recv = (\<lambda>es. None), le_send = (\<lambda>es b. length es \<noteq> 3), le_pin = (\<lambda>p. True), le_spark = True, le_add = True, le_found = True,
      le_chrdev = True\<rparr>"

text \<open>The hardware as an earlier program has left it: the pins of the Spark high.\<close>

definition example_hw :: lnb_state where
  "example_hw =
     \<lparr>devType = 0, lnb_client = False, lnb_power = None, lnb_13_18 = None, lnb_14_19 = None, i2c_log = [I2C_Send 0x34 True],
      pio6_mode = 0, pio6_out = 1, pins_held = [], pin_level = (\<lambda>p. True), driver_added = False, chrdev_registered = False\<rparr>"

text \<open>An unknown request to the pins; a refused and an accepted one to the A8293.\<close>

theorem lnb_voltage_follows_witness:
  "(\<exists>s t. lnb_init example_lnb (Some ''pio'') (lnb_static example_hw) = Some (0, s) \<and>
      lnb_run (lnb_command_ioctl example_lnb) [(0, 7)] s = ([0], t) \<and> lnb_supply_of t = (True, Pol_ver)) \<and>
   (\<exists>s t. lnb_init example_lnb None (lnb_static example_hw) = Some (0, s) \<and>
      lnb_run (lnb_command_ioctl example_lnb) [(0, LNB_VOLTAGE_HOR)] s = ([- EFAULT], t) \<and> lnb_supply_of t = (True, Pol_ver))"
proof -
  define s where "s = snd (the (lnb_init example_lnb (Some ''pio'') (lnb_static example_hw)))"
  define u where "u = snd (the (lnb_init example_lnb None (lnb_static example_hw)))"
  note defs = lnb_init_def lnb_detect_def lnb_static_def lnb_type_defs lnb_pio_init_def stpio_request_pin_def example_lnb_def
    lnb_command_ioctl_def lnb_pio_command_def lnb_pio_command_kernel_def lnb_cmd_defs stpio_set_pin_def set_if_def Let_def example_hw_def
    i2c_add_driver_def lnb_newprobe_def a8293_init_def a8293_read_def a8293_write_def a8293_command_def a8293_command_kernel_def
  obtain t where 1: "lnb_init example_lnb (Some ''pio'') (lnb_static example_hw) = Some (0, s)"
      "lnb_run (lnb_command_ioctl example_lnb) [(0, 7)] s = ([0], t)" "devType s = LNB_PIO"
    by (simp add: s_def defs)
  obtain v where 2: "lnb_init example_lnb None (lnb_static example_hw) = Some (0, u)"
      "lnb_run (lnb_command_ioctl example_lnb) [(0, LNB_VOLTAGE_HOR)] u = ([- EFAULT], v)" "devType u = LNB_A8293"
    by (simp add: u_def defs)
  have "lnb_supply_of t = (True, Pol_ver)"
    using lnb_voltage_follows [OF 1(1,2)] 1(3) by (simp add: pio_supply_def example_hw_def lnb_cmd_defs lnb_type_defs)
  moreover have "a8293_supply (i2c_log example_hw) = (True, Pol_ver)" by code_simp
  then have "lnb_supply_of v = (True, Pol_ver)"
    using lnb_voltage_follows [OF 2(1,2)] 2(3) by (simp add: EFAULT_def)
  ultimately show ?thesis using 1 2 by blast
qed



end
