(* ===== verification/Evremote_Keys.thy ===== *)
theory Evremote_Keys
  imports Prelude
begin

text \<open>
  The key tables of \<open>tools/evremote2\<close> and the functions of \<open>global.c\<close> that look keys up. A table has the code of each
  button as two characters and the input key it stands for, by its name in \<open>linux/input.h\<close>; it ends with \<open>KEY_NULL\<close>. The
  names of the buttons, which are only printed, are left out.
\<close>

subsection \<open>global.c\<close>

type_synonym key = string

datatype tButton = Button string key | Button_NULL

text \<open>A \<open>char\<close> is signed.\<close>

definition schar :: "char \<Rightarrow> int" where
  "schar c = (let n = (of_char c :: nat) in if 128 \<le> n then int n - 256 else int n)"

definition char_match :: "char \<Rightarrow> char \<Rightarrow> bool" where
  "char_match w c \<longleftrightarrow> schar w = schar c \<or> schar w = schar c - 32"

text \<open>
  The key of the first button with the two characters; \<open>Some None\<close> is the value 0 for no button, and \<open>None\<close> reading behind the
  table.
\<close>

fun getInternalCode :: "tButton list \<Rightarrow> char \<Rightarrow> char \<Rightarrow> key option option" where
  "getInternalCode [] c0 c1 = None"
| "getInternalCode (Button_NULL # bs) c0 c1 = Some None"
| "getInternalCode (Button w k # bs) c0 c1 =
     (if char_match (w ! 0) c0 \<and> char_match (w ! 1) c1 then Some (Some k) else getInternalCode bs c0 c1)"

text \<open>A digit of \<open>%.2hhx\<close>.\<close>

definition low_hex :: "nat \<Rightarrow> char" where
  "low_hex n = (if n < 10 then char_of (48 + n) else char_of (87 + n))"

definition getInternalCodeHex :: "tButton list \<Rightarrow> byte \<Rightarrow> key option option" where
  "getInternalCodeHex bs b = getInternalCode bs (low_hex (unat b div 16)) (low_hex (unat b mod 16))"

subsection \<open>The tables\<close>

definition Ufs910_1W_cButtonsKathrein :: "tButton list" where
  "Ufs910_1W_cButtonsKathrein =
     [Button ''54'' ''KEY_MENU'', Button ''49'' ''KEY_MENU'', Button ''6D'' ''KEY_RED'', Button ''6E'' ''KEY_GREEN'',
      Button ''6F'' ''KEY_YELLOW'', Button ''70'' ''KEY_BLUE'', Button ''55'' ''KEY_HOME'', Button ''4B'' ''KEY_HOME'',
      Button ''3C'' ''KEY_TEXT'', Button ''4C'' ''KEY_EPG'', Button ''21'' ''KEY_REWIND'', Button ''20'' ''KEY_FASTFORWARD'',
      Button ''38'' ''KEY_PLAY'', Button ''39'' ''KEY_PAUSE'', Button ''37'' ''KEY_RECORD'', Button ''31'' ''KEY_STOP'',
      Button ''0C'' ''KEY_POWER'', Button ''48'' ''KEY_POWER'', Button ''0D'' ''KEY_MUTE'', Button ''1E'' ''KEY_PAGEUP'',
      Button ''1F'' ''KEY_PAGEDOWN'', Button ''10'' ''KEY_VOLUMEUP'', Button ''11'' ''KEY_VOLUMEDOWN'',
      Button ''0F'' ''KEY_HELP'', Button ''47'' ''KEY_HELP'', Button ''5C'' ''KEY_OK'', Button ''58'' ''KEY_UP'',
      Button ''5B'' ''KEY_RIGHT'', Button ''59'' ''KEY_DOWN'', Button ''5A'' ''KEY_LEFT'', Button ''00'' ''KEY_0'',
      Button ''01'' ''KEY_1'', Button ''02'' ''KEY_2'', Button ''03'' ''KEY_3'', Button ''04'' ''KEY_4'',
      Button ''05'' ''KEY_5'', Button ''06'' ''KEY_6'', Button ''07'' ''KEY_7'', Button ''08'' ''KEY_8'',
      Button ''09'' ''KEY_9'', Button ''D4'' ''KEY_MENU'', Button ''ED'' ''KEY_RED'', Button ''EE'' ''KEY_GREEN'',
      Button ''EF'' ''KEY_YELLOW'', Button ''F0'' ''KEY_BLUE'', Button ''D5'' ''KEY_HOME'', Button ''BC'' ''KEY_TEXT'',
      Button ''CC'' ''KEY_EPG'', Button ''A1'' ''KEY_REWIND'', Button ''A0'' ''KEY_FASTFORWARD'', Button ''B8'' ''KEY_PLAY'',
      Button ''B9'' ''KEY_PAUSE'', Button ''B7'' ''KEY_RECORD'', Button ''B1'' ''KEY_STOP'', Button ''8C'' ''KEY_POWER'',
      Button ''8D'' ''KEY_MUTE'', Button ''9E'' ''KEY_PAGEUP'', Button ''9F'' ''KEY_PAGEDOWN'', Button ''90'' ''KEY_VOLUMEUP'',
      Button ''91'' ''KEY_VOLUMEDOWN'', Button ''8F'' ''KEY_HELP'', Button ''DC'' ''KEY_OK'', Button ''D8'' ''KEY_UP'',
      Button ''DB'' ''KEY_RIGHT'', Button ''D9'' ''KEY_DOWN'', Button ''DA'' ''KEY_LEFT'', Button ''80'' ''KEY_0'',
      Button ''81'' ''KEY_1'', Button ''82'' ''KEY_2'', Button ''83'' ''KEY_3'', Button ''84'' ''KEY_4'',
      Button ''85'' ''KEY_5'', Button ''86'' ''KEY_6'', Button ''87'' ''KEY_7'', Button ''88'' ''KEY_8'',
      Button ''89'' ''KEY_9'', Button_NULL]"

definition Ufs910_14W_cButtonsKathrein :: "tButton list" where
  "Ufs910_14W_cButtonsKathrein =
     [Button ''54'' ''KEY_MENU'', Button ''49'' ''KEY_MENU'', Button ''6D'' ''KEY_RED'', Button ''6E'' ''KEY_GREEN'',
      Button ''6F'' ''KEY_YELLOW'', Button ''70'' ''KEY_BLUE'', Button ''55'' ''KEY_HOME'', Button ''4B'' ''KEY_HOME'',
      Button ''3C'' ''KEY_TEXT'', Button ''4C'' ''KEY_EPG'', Button ''21'' ''KEY_REWIND'', Button ''20'' ''KEY_FASTFORWARD'',
      Button ''38'' ''KEY_PLAY'', Button ''39'' ''KEY_PAUSE'', Button ''37'' ''KEY_RECORD'', Button ''31'' ''KEY_STOP'',
      Button ''0C'' ''KEY_POWER'', Button ''48'' ''KEY_POWER'', Button ''0D'' ''KEY_MUTE'', Button ''1E'' ''KEY_PAGEUP'',
      Button ''1F'' ''KEY_PAGEDOWN'', Button ''10'' ''KEY_VOLUMEUP'', Button ''11'' ''KEY_VOLUMEDOWN'',
      Button ''0F'' ''KEY_HELP'', Button ''47'' ''KEY_HELP'', Button ''5C'' ''KEY_OK'', Button ''58'' ''KEY_UP'',
      Button ''5B'' ''KEY_RIGHT'', Button ''59'' ''KEY_DOWN'', Button ''5A'' ''KEY_LEFT'', Button ''00'' ''KEY_0'',
      Button ''01'' ''KEY_1'', Button ''02'' ''KEY_2'', Button ''03'' ''KEY_3'', Button ''04'' ''KEY_4'',
      Button ''05'' ''KEY_5'', Button ''06'' ''KEY_6'', Button ''07'' ''KEY_7'', Button ''08'' ''KEY_8'',
      Button ''09'' ''KEY_9'', Button ''D4'' ''KEY_MENU'', Button ''ED'' ''KEY_RED'', Button ''EE'' ''KEY_GREEN'',
      Button ''EF'' ''KEY_YELLOW'', Button ''F0'' ''KEY_BLUE'', Button ''D5'' ''KEY_HOME'', Button ''BC'' ''KEY_TEXT'',
      Button ''CC'' ''KEY_EPG'', Button ''A1'' ''KEY_REWIND'', Button ''A0'' ''KEY_FASTFORWARD'', Button ''B8'' ''KEY_PLAY'',
      Button ''B9'' ''KEY_PAUSE'', Button ''B7'' ''KEY_RECORD'', Button ''B1'' ''KEY_STOP'', Button ''8C'' ''KEY_POWER'',
      Button ''8D'' ''KEY_MUTE'', Button ''9E'' ''KEY_PAGEUP'', Button ''9F'' ''KEY_PAGEDOWN'', Button ''90'' ''KEY_VOLUMEUP'',
      Button ''91'' ''KEY_VOLUMEDOWN'', Button ''8F'' ''KEY_HELP'', Button ''DC'' ''KEY_OK'', Button ''D8'' ''KEY_UP'',
      Button ''DB'' ''KEY_RIGHT'', Button ''D9'' ''KEY_DOWN'', Button ''DA'' ''KEY_LEFT'', Button ''80'' ''KEY_0'',
      Button ''81'' ''KEY_1'', Button ''82'' ''KEY_2'', Button ''83'' ''KEY_3'', Button ''84'' ''KEY_4'',
      Button ''85'' ''KEY_5'', Button ''86'' ''KEY_6'', Button ''87'' ''KEY_7'', Button ''88'' ''KEY_8'',
      Button ''89'' ''KEY_9'', Button_NULL]"

definition cButtonUFS922 :: "tButton list" where
  "cButtonUFS922 =
     [Button ''D5'' ''KEY_MEDIA'', Button ''46'' ''KEY_ARCHIVE'', Button ''54'' ''KEY_MENU'', Button ''6D'' ''KEY_RED'',
      Button ''6E'' ''KEY_GREEN'', Button ''6F'' ''KEY_YELLOW'', Button ''70'' ''KEY_BLUE'', Button ''55'' ''KEY_HOME'',
      Button ''3C'' ''KEY_TEXT'', Button ''CC'' ''KEY_EPG'', Button ''21'' ''KEY_REWIND'', Button ''20'' ''KEY_FASTFORWARD'',
      Button ''38'' ''KEY_PLAY'', Button ''39'' ''KEY_PAUSE'', Button ''37'' ''KEY_RECORD'', Button ''31'' ''KEY_STOP'',
      Button ''0C'' ''KEY_POWER'', Button ''0D'' ''KEY_MUTE'', Button ''1E'' ''KEY_PAGEUP'', Button ''1F'' ''KEY_PAGEDOWN'',
      Button ''10'' ''KEY_VOLUMEUP'', Button ''11'' ''KEY_VOLUMEDOWN'', Button ''0F'' ''KEY_HELP'', Button ''5C'' ''KEY_OK'',
      Button ''58'' ''KEY_UP'', Button ''5B'' ''KEY_RIGHT'', Button ''59'' ''KEY_DOWN'', Button ''5A'' ''KEY_LEFT'',
      Button ''00'' ''KEY_0'', Button ''01'' ''KEY_1'', Button ''02'' ''KEY_2'', Button ''03'' ''KEY_3'',
      Button ''04'' ''KEY_4'', Button ''05'' ''KEY_5'', Button ''06'' ''KEY_6'', Button ''07'' ''KEY_7'',
      Button ''08'' ''KEY_8'', Button ''09'' ''KEY_9'', Button_NULL]"

definition cButtonUFS922Frontpanel :: "tButton list" where
  "cButtonUFS922Frontpanel =
     [Button ''80'' ''KEY_MENU'', Button ''0D'' ''KEY_HOME'', Button ''04'' ''KEY_OK'', Button ''0F'' ''KEY_UP'',
      Button ''0E'' ''KEY_DOWN'', Button_NULL]"

definition cButtonsTopfield7700HDPVR :: "tButton list" where
  "cButtonsTopfield7700HDPVR =
     [Button ''0A'' ''KEY_POWER'', Button ''0C'' ''KEY_MUTE'', Button ''42'' ''KEY_ZOOM'', Button ''43'' ''KEY_SCREEN'',
      Button ''08'' ''KEY_AUX'', Button ''10'' ''KEY_0'', Button ''11'' ''KEY_1'', Button ''12'' ''KEY_2'',
      Button ''13'' ''KEY_3'', Button ''14'' ''KEY_4'', Button ''15'' ''KEY_5'', Button ''16'' ''KEY_6'',
      Button ''17'' ''KEY_7'', Button ''18'' ''KEY_8'', Button ''19'' ''KEY_9'', Button ''1E'' ''KEY_BACK'',
      Button ''1D'' ''KEY_HELP'', Button ''05'' ''KEY_LANGUAGE'', Button ''07'' ''KEY_SUBTITLE'', Button ''47'' ''KEY_TEXT'',
      Button ''01'' ''KEY_DOWN'', Button ''00'' ''KEY_UP'', Button ''02'' ''KEY_RIGHT'', Button ''03'' ''KEY_LEFT'',
      Button ''1F'' ''KEY_OK'', Button ''1A'' ''KEY_MENU'', Button ''1B'' ''KEY_EPG'', Button ''1C'' ''KEY_HOME'',
      Button ''09'' ''KEY_FAVORITES'', Button ''4D'' ''KEY_RED'', Button ''0D'' ''KEY_GREEN'', Button ''0E'' ''KEY_YELLOW'',
      Button ''0F'' ''KEY_BLUE'', Button ''45'' ''KEY_REWIND'', Button ''06'' ''KEY_PAUSE'', Button ''46'' ''KEY_PLAY'',
      Button ''48'' ''KEY_FASTFORWARD'', Button ''4B'' ''KEY_RECORD'', Button ''4A'' ''KEY_STOP'', Button ''49'' ''KEY_SLOW'',
      Button ''51'' ''KEY_LIST'', Button ''5E'' ''KEY_SAT'', Button ''50'' ''KEY_PREVIOUS'', Button ''52'' ''KEY_NEXT'',
      Button ''4C'' ''KEY_EPG'', Button ''04'' ''KEY_TV2'', Button ''40'' ''KEY_ARCHIVE'', Button ''44'' ''KEY_TIME'',
      Button_NULL]"

definition cButtonsTopfield7700HDPVRFrontpanel :: "tButton list" where
  "cButtonsTopfield7700HDPVRFrontpanel =
     [Button ''02'' ''KEY_PAGEDOWN'', Button ''03'' ''KEY_PAGEUP'', Button ''01'' ''KEY_VOLUMEDOWN'',
      Button ''06'' ''KEY_VOLUMEUP'', Button ''0C'' ''KEY_POWER'', Button_NULL]"

definition cButtonsSpideroxHL101 :: "tButton list" where
  "cButtonsSpideroxHL101 =
     [Button ''f7'' ''KEY_POWER'', Button ''77'' ''KEY_MUTE'', Button ''e7'' ''KEY_V'', Button ''37'' ''KEY_AUX'',
      Button ''ff'' ''KEY_0'', Button ''7f'' ''KEY_1'', Button ''bf'' ''KEY_2'', Button ''3f'' ''KEY_3'',
      Button ''df'' ''KEY_4'', Button ''5f'' ''KEY_5'', Button ''9f'' ''KEY_6'', Button ''1f'' ''KEY_7'',
      Button ''ef'' ''KEY_8'', Button ''6f'' ''KEY_9'', Button ''0f'' ''KEY_BACK'', Button ''25'' ''KEY_INFO'',
      Button ''35'' ''KEY_AUDIO'', Button ''a7'' ''KEY_DOWN'', Button ''67'' ''KEY_UP'', Button ''c7'' ''KEY_RIGHT'',
      Button ''27'' ''KEY_LEFT'', Button ''47'' ''KEY_OK'', Button ''af'' ''KEY_MENU'', Button ''4f'' ''KEY_EPG'',
      Button ''cf'' ''KEY_HOME'', Button ''85'' ''KEY_FAVORITES'', Button ''3d'' ''KEY_RED'', Button ''fd'' ''KEY_GREEN'',
      Button ''6d'' ''KEY_YELLOW'', Button ''8d'' ''KEY_BLUE'', Button ''cd'' ''KEY_SLOW'', Button ''07'' ''KEY_F1'',
      Button ''2d'' ''KEY_F2'', Button ''17'' ''KEY_FIND'', Button ''d7'' ''KEY_U'', Button ''65'' ''KEY_REWIND'',
      Button ''87'' ''KEY_PAUSE'', Button ''57'' ''KEY_PLAY'', Button ''9d'' ''KEY_FASTFORWARD'', Button ''8f'' ''KEY_RECORD'',
      Button ''d5'' ''KEY_STOP'', Button ''97'' ''KEY_SLOW'', Button ''15'' ''KEY_ARCHIVE'', Button ''b5'' ''KEY_SAT'',
      Button ''95'' ''KEY_PREVIOUS'', Button ''55'' ''KEY_NEXT'', Button ''4f'' ''KEY_EPG'', Button ''2f'' ''KEY_TV2'',
      Button ''a5'' ''KEY_CLOSE'', Button ''b7'' ''KEY_TIME'', Button_NULL]"

definition cButtonsEdisionVip2 :: "tButton list" where
  "cButtonsEdisionVip2 =
     [Button ''f7'' ''KEY_POWER'', Button ''77'' ''KEY_MUTE'', Button ''e7'' ''KEY_V'', Button ''37'' ''KEY_AUX'',
      Button ''ff'' ''KEY_0'', Button ''7f'' ''KEY_1'', Button ''bf'' ''KEY_2'', Button ''3f'' ''KEY_3'',
      Button ''df'' ''KEY_4'', Button ''5f'' ''KEY_5'', Button ''9f'' ''KEY_6'', Button ''1f'' ''KEY_7'',
      Button ''ef'' ''KEY_8'', Button ''6f'' ''KEY_9'', Button ''0f'' ''KEY_BACK'', Button ''25'' ''KEY_INFO'',
      Button ''35'' ''KEY_AUDIO'', Button ''a7'' ''KEY_DOWN'', Button ''67'' ''KEY_UP'', Button ''c7'' ''KEY_RIGHT'',
      Button ''27'' ''KEY_LEFT'', Button ''47'' ''KEY_OK'', Button ''af'' ''KEY_MENU'', Button ''4f'' ''KEY_EPG'',
      Button ''cf'' ''KEY_HOME'', Button ''85'' ''KEY_FAVORITES'', Button ''3d'' ''KEY_RED'', Button ''fd'' ''KEY_GREEN'',
      Button ''6d'' ''KEY_YELLOW'', Button ''8d'' ''KEY_BLUE'', Button ''65'' ''KEY_REWIND'', Button ''87'' ''KEY_PAUSE'',
      Button ''57'' ''KEY_PLAY'', Button ''9d'' ''KEY_FASTFORWARD'', Button ''8f'' ''KEY_RECORD'', Button ''d5'' ''KEY_STOP'',
      Button ''97'' ''KEY_SLOW'', Button ''15'' ''KEY_ARCHIVE'', Button ''b5'' ''KEY_SAT'', Button ''95'' ''KEY_PREVIOUS'',
      Button ''55'' ''KEY_NEXT'', Button ''4f'' ''KEY_EPG'', Button ''2f'' ''KEY_TV2'', Button ''a5'' ''KEY_CLOSE'',
      Button ''b7'' ''KEY_TIME'', Button_NULL]"

definition cButtonHDBOX :: "tButton list" where
  "cButtonHDBOX =
     [Button ''04'' ''KEY_MENU'', Button ''4B'' ''KEY_RED'', Button ''4A'' ''KEY_GREEN'', Button ''49'' ''KEY_YELLOW'',
      Button ''48'' ''KEY_BLUE'', Button ''1C'' ''KEY_HOME'', Button ''0D'' ''KEY_TEXT'', Button ''08'' ''KEY_EPG'',
      Button ''58'' ''KEY_REWIND'', Button ''5C'' ''KEY_FASTFORWARD'', Button ''55'' ''KEY_PLAY'', Button ''07'' ''KEY_PAUSE'',
      Button ''56'' ''KEY_RECORD'', Button ''54'' ''KEY_STOP'', Button ''0A'' ''KEY_POWER'', Button ''0C'' ''KEY_MUTE'',
      Button ''5E'' ''KEY_PAGEUP'', Button ''5F'' ''KEY_PAGEDOWN'', Button ''4E'' ''KEY_VOLUMEUP'',
      Button ''4F'' ''KEY_VOLUMEDOWN'', Button ''06'' ''KEY_HELP'', Button ''1F'' ''KEY_OK'', Button ''00'' ''KEY_UP'',
      Button ''02'' ''KEY_RIGHT'', Button ''01'' ''KEY_DOWN'', Button ''03'' ''KEY_LEFT'', Button ''09'' ''KEY_MEMO'',
      Button ''0B'' ''KEY_ZOOM'', Button ''0E'' ''KEY_ANGLE'', Button ''0F'' ''KEY_SCREEN'', Button ''1A'' ''KEY_MODE'',
      Button ''1E'' ''KEY_SLOW'', Button ''40'' ''KEY_DIRECTORY'', Button ''41'' ''KEY_FAVORITES'',
      Button ''42'' ''KEY_SELECT'', Button ''43'' ''KEY_TEEN'', Button ''44'' ''KEY_TWEN'', Button ''4C'' ''KEY_NEXT'',
      Button ''50'' ''KEY_PREVIOUS'', Button ''51'' ''KEY_OPTION'', Button ''52'' ''KEY_GOTO'', Button ''53'' ''KEY_SUBTITLE'',
      Button ''10'' ''KEY_0'', Button ''11'' ''KEY_1'', Button ''12'' ''KEY_2'', Button ''13'' ''KEY_3'',
      Button ''14'' ''KEY_4'', Button ''15'' ''KEY_5'', Button ''16'' ''KEY_6'', Button ''17'' ''KEY_7'',
      Button ''18'' ''KEY_8'', Button ''19'' ''KEY_9'', Button_NULL]"

definition cButtonHDBOXFrontpanel :: "tButton list" where
  "cButtonHDBOXFrontpanel =
     [Button ''00'' ''KEY_POWER'', Button ''06'' ''KEY_OK'', Button ''05'' ''KEY_MENU'', Button ''03'' ''KEY_VOLUMEUP'',
      Button ''04'' ''KEY_VOLUMEDOWN'', Button ''01'' ''KEY_PAGEUP'', Button ''02'' ''KEY_PAGEDOWN'', Button_NULL]"

definition cButtonsHomecast5101 :: "tButton list" where
  "cButtonsHomecast5101 =
     [Button ''5F'' ''KEY_MENU'', Button ''7F'' ''KEY_RED'', Button ''BF'' ''KEY_GREEN'', Button ''3F'' ''KEY_YELLOW'',
      Button ''DF'' ''KEY_BLUE'', Button ''6D'' ''KEY_HOME'', Button ''9F'' ''KEY_EPG'', Button ''A7'' ''KEY_POWER'',
      Button ''8F'' ''KEY_MUTE'', Button ''0F'' ''KEY_PAGEUP'', Button ''CF'' ''KEY_PAGEDOWN'', Button ''2F'' ''KEY_VOLUMEUP'',
      Button ''4F'' ''KEY_VOLUMEDOWN'', Button ''1F'' ''KEY_HELP'', Button ''37'' ''KEY_OK'', Button ''B7'' ''KEY_BACK'',
      Button ''77'' ''KEY_UP'', Button ''D7'' ''KEY_RIGHT'', Button ''F7'' ''KEY_DOWN'', Button ''57'' ''KEY_LEFT'',
      Button ''8D'' ''KEY_0'', Button ''7D'' ''KEY_1'', Button ''BD'' ''KEY_2'', Button ''3D'' ''KEY_3'',
      Button ''9D'' ''KEY_4'', Button ''5D'' ''KEY_5'', Button ''DD'' ''KEY_6'', Button ''87'' ''KEY_7'',
      Button ''67'' ''KEY_8'', Button ''E7'' ''KEY_9'', Button ''C7'' ''KEY_LANGUAGE'', Button ''47'' ''KEY_ZOOM'',
      Button_NULL]"

definition cButtonUFS912 :: "tButton list" where
  "cButtonUFS912 =
     [Button ''D5'' ''KEY_MEDIA'', Button ''46'' ''KEY_ARCHIVE'', Button ''54'' ''KEY_MENU'', Button ''6D'' ''KEY_RED'',
      Button ''6E'' ''KEY_GREEN'', Button ''6F'' ''KEY_YELLOW'', Button ''70'' ''KEY_BLUE'', Button ''55'' ''KEY_HOME'',
      Button ''3C'' ''KEY_TEXT'', Button ''CC'' ''KEY_EPG'', Button ''21'' ''KEY_REWIND'', Button ''20'' ''KEY_FASTFORWARD'',
      Button ''38'' ''KEY_PLAY'', Button ''39'' ''KEY_PAUSE'', Button ''37'' ''KEY_RECORD'', Button ''31'' ''KEY_STOP'',
      Button ''0C'' ''KEY_POWER'', Button ''0D'' ''KEY_MUTE'', Button ''1E'' ''KEY_PAGEUP'', Button ''1F'' ''KEY_PAGEDOWN'',
      Button ''10'' ''KEY_VOLUMEUP'', Button ''11'' ''KEY_VOLUMEDOWN'', Button ''81'' ''KEY_HELP'', Button ''0F'' ''KEY_INFO'',
      Button ''5C'' ''KEY_OK'', Button ''58'' ''KEY_UP'', Button ''5B'' ''KEY_RIGHT'', Button ''59'' ''KEY_DOWN'',
      Button ''5A'' ''KEY_LEFT'', Button ''00'' ''KEY_0'', Button ''01'' ''KEY_1'', Button ''02'' ''KEY_2'',
      Button ''03'' ''KEY_3'', Button ''04'' ''KEY_4'', Button ''05'' ''KEY_5'', Button ''06'' ''KEY_6'',
      Button ''07'' ''KEY_7'', Button ''08'' ''KEY_8'', Button ''09'' ''KEY_9'', Button_NULL]"

definition cButtonUFS912Frontpanel :: "tButton list" where
  "cButtonUFS912Frontpanel =
     [Button ''80'' ''KEY_MENU'', Button ''01'' ''KEY_HOME'', Button ''04'' ''KEY_DOWN'', Button ''02'' ''KEY_UP'',
      Button ''08'' ''KEY_OK'', Button_NULL]"

definition cButtonsEdisionSpark :: "tButton list" where
  "cButtonsEdisionSpark =
     [Button ''25'' ''KEY_POWER'', Button ''85'' ''KEY_MUTE'', Button ''ad'' ''KEY_V'', Button ''c5'' ''KEY_AUX'',
      Button ''57'' ''KEY_0'', Button ''b5'' ''KEY_1'', Button ''95'' ''KEY_2'', Button ''bd'' ''KEY_3'',
      Button ''f5'' ''KEY_4'', Button ''d5'' ''KEY_5'', Button ''fd'' ''KEY_6'', Button ''35'' ''KEY_7'',
      Button ''15'' ''KEY_8'', Button ''3d'' ''KEY_9'', Button ''7f'' ''KEY_BACK'', Button ''a7'' ''KEY_INFO'',
      Button ''35'' ''KEY_AUDIO'', Button ''C7'' ''KEY_VOLUMEUP'', Button ''DD'' ''KEY_VOLUMEDOWN'',
      Button ''07'' ''KEY_PAGEUP'', Button ''5F'' ''KEY_PAGEDOWN'', Button ''0f'' ''KEY_DOWN'', Button ''27'' ''KEY_UP'',
      Button ''af'' ''KEY_RIGHT'', Button ''6d'' ''KEY_LEFT'', Button ''2f'' ''KEY_OK'', Button ''65'' ''KEY_MENU'',
      Button ''8f'' ''KEY_EPG'', Button ''4d'' ''KEY_HOME'', Button ''87'' ''KEY_FAVORITES'', Button ''7d'' ''KEY_RED'',
      Button ''ff'' ''KEY_GREEN'', Button ''3f'' ''KEY_YELLOW'', Button ''bf'' ''KEY_BLUE'', Button ''1f'' ''KEY_REWIND'',
      Button ''37'' ''KEY_PAUSE'', Button ''b7'' ''KEY_PLAY'', Button ''97'' ''KEY_FASTFORWARD'', Button ''45'' ''KEY_RECORD'',
      Button ''f7'' ''KEY_STOP'', Button ''5d'' ''KEY_SLOW'', Button ''75'' ''KEY_ARCHIVE'', Button ''1d'' ''KEY_SAT'',
      Button ''55'' ''KEY_PREVIOUS'', Button ''d7'' ''KEY_NEXT'', Button ''8f'' ''KEY_EPG'', Button ''77'' ''KEY_TV2'',
      Button ''95'' ''KEY_CLOSE'', Button ''8d'' ''KEY_TIME'', Button_NULL]"

definition cButtonsSparkRc08 :: "tButton list" where
  "cButtonsSparkRc08 =
     [Button ''4D'' ''KEY_POWER'', Button ''DD'' ''KEY_MUTE'', Button ''ED'' ''KEY_TIME'', Button ''AD'' ''KEY_V'',
      Button ''0F'' ''KEY_F1'', Button ''37'' ''KEY_AUX'', Button ''0D'' ''KEY_CLOSE'', Button ''35'' ''KEY_FIND'',
      Button ''27'' ''KEY_0'', Button ''7D'' ''KEY_1'', Button ''3F'' ''KEY_2'', Button ''BD'' ''KEY_3'',
      Button ''5D'' ''KEY_4'', Button ''1F'' ''KEY_5'', Button ''9D'' ''KEY_6'', Button ''55'' ''KEY_7'',
      Button ''17'' ''KEY_8'', Button ''95'' ''KEY_9'', Button ''65'' ''KEY_TV2'', Button ''A5'' ''KEY_BACK'',
      Button ''5F'' ''KEY_MENU'', Button ''1D'' ''KEY_INFO'', Button ''9F'' ''KEY_UP'', Button ''AF'' ''KEY_DOWN'',
      Button ''3D'' ''KEY_LEFT'', Button ''7F'' ''KEY_RIGHT'', Button ''BF'' ''KEY_OK'', Button ''2D'' ''KEY_HOME'',
      Button ''25'' ''KEY_EPG'', Button ''8D'' ''KEY_VOLUMEUP'', Button ''B5'' ''KEY_VOLUMEDOWN'',
      Button ''EF'' ''KEY_RECORD'', Button ''B7'' ''KEY_PAGEUP'', Button ''77'' ''KEY_PAGEDOWN'',
      Button ''E5'' ''KEY_ARCHIVE'', Button ''A7'' ''KEY_STOP'', Button ''75'' ''KEY_PLAY'', Button ''F5'' ''KEY_PAUSE'',
      Button ''CD'' ''KEY_FASTFORWARD'', Button ''D5'' ''KEY_REWIND'', Button ''8F'' ''KEY_PREVIOUS'',
      Button ''57'' ''KEY_NEXT'', Button ''4F'' ''KEY_T'', Button ''97'' ''KEY_F'', Button ''15'' ''KEY_SLOW'',
      Button ''6F'' ''KEY_P'', Button ''67'' ''KEY_W'', Button ''05'' ''KEY_RED'', Button ''87'' ''KEY_GREEN'',
      Button ''C5'' ''KEY_YELLOW'', Button ''47'' ''KEY_BLUE'', Button ''F7'' ''KEY_FAVORITES'', Button ''2F'' ''KEY_SAT'',
      Button ''DF'' ''KEY_TITLE'', Button ''D7'' ''KEY_SUBTITLE'', Button_NULL]"

definition cButtonsSparkRc09 :: "tButton list" where
  "cButtonsSparkRc09 =
     [Button ''25'' ''KEY_POWER'', Button ''85'' ''KEY_MUTE'', Button ''8D'' ''KEY_TIME'', Button ''AD'' ''KEY_V'',
      Button ''A5'' ''KEY_AUX'', Button ''E5'' ''KEY_SUBTITLE'', Button ''ED'' ''KEY_AUDIO'', Button ''CD'' ''KEY_VIDEO'',
      Button ''C5'' ''KEY_S'', Button ''57'' ''KEY_0'', Button ''B5'' ''KEY_1'', Button ''95'' ''KEY_2'',
      Button ''BD'' ''KEY_3'', Button ''F5'' ''KEY_4'', Button ''D5'' ''KEY_5'', Button ''FD'' ''KEY_6'',
      Button ''35'' ''KEY_7'', Button ''15'' ''KEY_8'', Button ''3D'' ''KEY_9'', Button ''77'' ''KEY_TV2'',
      Button ''7F'' ''KEY_BACK'', Button ''9D'' ''KEY_SAT'', Button ''45'' ''KEY_FAVORITES'', Button ''C7'' ''KEY_VOLUMEDOWN'',
      Button ''DD'' ''KEY_VOLUMEUP'', Button ''07'' ''KEY_CHANNELDOWN'', Button ''5F'' ''KEY_CHANNELUP'',
      Button ''1D'' ''KEY_INFO'', Button ''87'' ''KEY_EPG'', Button ''65'' ''KEY_MENU'', Button ''A7'' ''KEY_HOME'',
      Button ''27'' ''KEY_UP'', Button ''0F'' ''KEY_DOWN'', Button ''6D'' ''KEY_LEFT'', Button ''AF'' ''KEY_RIGHT'',
      Button ''2F'' ''KEY_OK'', Button ''4D'' ''KEY_FIND'', Button ''8F'' ''KEY_RECORD'', Button ''75'' ''KEY_RED'',
      Button ''F7'' ''KEY_GREEN'', Button ''37'' ''KEY_YELLOW'', Button ''B7'' ''KEY_BLUE'', Button ''55'' ''KEY_REWIND'',
      Button ''D7'' ''KEY_PLAY'', Button ''17'' ''KEY_PAUSE'', Button ''97'' ''KEY_FASTFORWARD'',
      Button ''5D'' ''KEY_ARCHIVE'', Button ''DF'' ''KEY_P'', Button ''1F'' ''KEY_CLOSE'', Button ''9F'' ''KEY_STOP'',
      Button ''7D'' ''KEY_HELP'', Button ''FF'' ''KEY_PREVIOUS'', Button ''3F'' ''KEY_NEXT'', Button ''BF'' ''KEY_TITLE'',
      Button_NULL]"

definition cButtonsSparkRc12 :: "tButton list" where
  "cButtonsSparkRc12 =
     [Button ''87'' ''KEY_MUTE'', Button ''45'' ''KEY_POWER'', Button ''A7'' ''KEY_P'', Button ''E5'' ''KEY_V'',
      Button ''C5'' ''KEY_TIME'', Button ''47'' ''KEY_CLOSE'', Button ''65'' ''KEY_ARCHIVE'', Button ''25'' ''KEY_STOP'',
      Button ''3D'' ''KEY_PLAY'', Button ''1D'' ''KEY_PAUSE'', Button ''C7'' ''KEY_FASTFORWARD'', Button ''FD'' ''KEY_REWIND'',
      Button ''BF'' ''KEY_PREVIOUS'', Button ''E7'' ''KEY_NEXT'', Button ''67'' ''KEY_F'', Button ''9F'' ''KEY_SLOW'',
      Button ''DD'' ''KEY_MENU'', Button ''BD'' ''KEY_T'', Button ''FF'' ''KEY_INFO'', Button ''5D'' ''KEY_UP'',
      Button ''55'' ''KEY_DOWN'', Button ''1F'' ''KEY_LEFT'', Button ''7F'' ''KEY_RIGHT'', Button ''7D'' ''KEY_OK'',
      Button ''3F'' ''KEY_HOME'', Button ''9D'' ''KEY_RECORD'', Button ''5F'' ''KEY_EPG'', Button ''D5'' ''KEY_AUX'',
      Button ''DF'' ''KEY_BACK'', Button ''95'' ''KEY_FIND'', Button ''17'' ''KEY_VOLUMEUP'', Button ''37'' ''KEY_VOLUMEDOWN'',
      Button ''15'' ''KEY_SAT'', Button ''35'' ''KEY_FAVORITES'', Button ''57'' ''KEY_PAGEUP'', Button ''D7'' ''KEY_PAGEDOWN'',
      Button ''0D'' ''KEY_0'', Button ''F5'' ''KEY_1'', Button ''B5'' ''KEY_2'', Button ''F7'' ''KEY_3'',
      Button ''CD'' ''KEY_4'', Button ''AD'' ''KEY_5'', Button ''77'' ''KEY_6'', Button ''0F'' ''KEY_7'',
      Button ''8D'' ''KEY_8'', Button ''4F'' ''KEY_9'', Button ''ED'' ''KEY_TV2'', Button ''2F'' ''KEY_RED'',
      Button ''6F'' ''KEY_GREEN'', Button ''EF'' ''KEY_YELLOW'', Button ''05'' ''KEY_BLUE'', Button ''2D'' ''KEY_W'',
      Button_NULL]"

definition cButtonsSparkDefault :: "tButton list" where
  "cButtonsSparkDefault =
     [Button ''87'' ''KEY_POWER'', Button ''0F'' ''KEY_V'', Button ''2F'' ''KEY_AUX'', Button ''65'' ''KEY_TIME'',
      Button ''A5'' ''KEY_MUTE'', Button ''37'' ''KEY_0'', Button ''A7'' ''KEY_1'', Button ''07'' ''KEY_2'',
      Button ''E5'' ''KEY_3'', Button ''97'' ''KEY_4'', Button ''27'' ''KEY_5'', Button ''D5'' ''KEY_6'',
      Button ''B7'' ''KEY_7'', Button ''17'' ''KEY_8'', Button ''F5'' ''KEY_9'', Button ''CD'' ''KEY_TV2'',
      Button ''CF'' ''KEY_BACK'', Button ''ED'' ''KEY_PAGEUP'', Button ''DD'' ''KEY_PAGEDOWN'', Button ''C5'' ''KEY_FIND'',
      Button ''67'' ''KEY_ARCHIVE'', Button ''AF'' ''KEY_VOLUMEUP'', Button ''9F'' ''KEY_VOLUMEDOWN'',
      Button ''C7'' ''KEY_MENU'', Button ''1F'' ''KEY_INFO'', Button ''3F'' ''KEY_UP'', Button ''85'' ''KEY_DOWN'',
      Button ''BF'' ''KEY_LEFT'', Button ''FD'' ''KEY_RIGHT'', Button ''05'' ''KEY_OK'', Button ''F9'' ''KEY_HOME'',
      Button ''45'' ''KEY_EPG'', Button ''3D'' ''KEY_FAVORITES'', Button ''0D'' ''KEY_SAT'', Button ''6D'' ''KEY_RED'',
      Button ''8D'' ''KEY_GREEN'', Button ''77'' ''KEY_YELLOW'', Button ''AD'' ''KEY_BLUE'', Button ''F7'' ''KEY_RECORD'',
      Button ''BB'' ''KEY_STOP'', Button ''57'' ''KEY_PLAY'', Button ''4D'' ''KEY_PAUSE'', Button ''35'' ''KEY_FASTFORWARD'',
      Button ''7F'' ''KEY_REWIND'', Button ''FB'' ''KEY_PREVIOUS'', Button ''3B'' ''KEY_NEXT'', Button ''E7'' ''KEY_F'',
      Button ''7B'' ''KEY_SLOW'', Button ''B5'' ''KEY_P'', Button ''DF'' ''KEY_CLOSE'', Button ''55'' ''KEY_T'',
      Button ''95'' ''KEY_F1'', Button ''15'' ''KEY_F2'', Button ''D7'' ''KEY_F3'', Button_NULL]"

definition cButtonsSparkRc04 :: "tButton list" where
  "cButtonsSparkRc04 =
     [Button ''45'' ''KEY_POWER'', Button ''4D'' ''KEY_V'', Button ''ED'' ''KEY_TIME'', Button ''8D'' ''KEY_MUTE'',
      Button ''57'' ''KEY_T'', Button ''37'' ''KEY_F1'', Button ''DD'' ''KEY_AUX'', Button ''3F'' ''KEY_1'',
      Button ''07'' ''KEY_2'', Button ''BD'' ''KEY_3'', Button ''5D'' ''KEY_4'', Button ''1F'' ''KEY_5'',
      Button ''9D'' ''KEY_6'', Button ''55'' ''KEY_7'', Button ''17'' ''KEY_8'', Button ''95'' ''KEY_9'',
      Button ''27'' ''KEY_0'', Button ''65'' ''KEY_TV2'', Button ''A5'' ''KEY_BACK'', Button ''75'' ''KEY_FIND'',
      Button ''D5'' ''KEY_RECORD'', Button ''A7'' ''KEY_SAT'', Button ''B5'' ''KEY_FAVORITES'', Button ''1D'' ''KEY_MENU'',
      Button ''5F'' ''KEY_INFO'', Button ''BF'' ''KEY_OK'', Button ''9F'' ''KEY_UP'', Button ''AF'' ''KEY_DOWN'',
      Button ''3D'' ''KEY_LEFT'', Button ''7F'' ''KEY_RIGHT'', Button ''2D'' ''KEY_HOME'', Button ''6F'' ''KEY_EPG'',
      Button ''0D'' ''KEY_ARCHIVE'', Button ''8F'' ''KEY_STOP'', Button ''CD'' ''KEY_PAUSE'', Button ''4F'' ''KEY_PLAY'',
      Button ''35'' ''KEY_PREVIOUS'', Button ''B7'' ''KEY_NEXT'', Button ''77'' ''KEY_FASTFORWARD'',
      Button ''F5'' ''KEY_REWIND'', Button ''97'' ''KEY_F'', Button ''15'' ''KEY_SLOW'', Button ''E5'' ''KEY_P'',
      Button ''67'' ''KEY_CLOSE'', Button ''0F'' ''KEY_U'', Button ''25'' ''KEY_SUBTITLE'', Button ''05'' ''KEY_RED'',
      Button ''87'' ''KEY_GREEN'', Button ''C5'' ''KEY_YELLOW'', Button ''47'' ''KEY_BLUE'', Button_NULL]"

definition cButtonsGalaxy :: "tButton list" where
  "cButtonsGalaxy =
     [Button ''25'' ''KEY_POWER'', Button ''A5'' ''KEY_R'', Button ''AD'' ''KEY_V'', Button ''8D'' ''KEY_TIME'',
      Button ''85'' ''KEY_MUTE'', Button ''C5'' ''KEY_AUX'', Button ''E5'' ''KEY_T'', Button ''ED'' ''KEY_PRESENTATION'',
      Button ''CD'' ''KEY_F1'', Button ''57'' ''KEY_0'', Button ''B5'' ''KEY_1'', Button ''95'' ''KEY_2'',
      Button ''BD'' ''KEY_3'', Button ''F5'' ''KEY_4'', Button ''D5'' ''KEY_5'', Button ''FD'' ''KEY_6'',
      Button ''35'' ''KEY_7'', Button ''15'' ''KEY_8'', Button ''3D'' ''KEY_9'', Button ''77'' ''KEY_TV2'',
      Button ''7F'' ''KEY_BACK'', Button ''C7'' ''KEY_VOLUMEDOWN'', Button ''DD'' ''KEY_VOLUMEUP'',
      Button ''5F'' ''KEY_PAGEDOWN'', Button ''07'' ''KEY_PAGEUP'', Button ''9D'' ''KEY_FIND'', Button ''1D'' ''KEY_SAT'',
      Button ''45'' ''KEY_RECORD'', Button ''87'' ''KEY_FAVORITES'', Button ''65'' ''KEY_MENU'', Button ''A7'' ''KEY_INFO'',
      Button ''4D'' ''KEY_EXIT'', Button ''8F'' ''KEY_EPG'', Button ''2F'' ''KEY_OK'', Button ''27'' ''KEY_UP'',
      Button ''0F'' ''KEY_DOWN'', Button ''6D'' ''KEY_LEFT'', Button ''AF'' ''KEY_RIGHT'', Button ''75'' ''KEY_ARCHIVE'',
      Button ''F7'' ''KEY_STOP'', Button ''37'' ''KEY_PAUSE'', Button ''B7'' ''KEY_PLAY'', Button ''55'' ''KEY_PREVIOUS'',
      Button ''D7'' ''KEY_NEXT'', Button ''17'' ''KEY_REWIND'', Button ''97'' ''KEY_FORWARD'', Button ''9F'' ''KEY_CLOSE'',
      Button ''7D'' ''KEY_RED'', Button ''FF'' ''KEY_GREEN'', Button ''3F'' ''KEY_YELLOW'', Button ''BF'' ''KEY_BLUE'',
      Button ''1F'' ''KEY_P'', Button ''5D'' ''KEY_SLOW'', Button ''DF'' ''KEY_FASTFORWARD'', Button_NULL]"

definition cButtonCuberevo :: "tButton list" where
  "cButtonCuberevo =
     [Button ''00'' ''KEY_F1'', Button ''01'' ''KEY_F2'', Button ''02'' ''KEY_F3'', Button ''03'' ''KEY_INFO'',
      Button ''04'' ''KEY_RADIO'', Button ''05'' ''KEY_PREVIOUS'', Button ''06'' ''KEY_EPG'', Button ''07'' ''KEY_RECORD'',
      Button ''08'' ''KEY_FAVORITES'', Button ''09'' ''KEY_MEDIA'', Button ''0A'' ''KEY_POWER'', Button ''0B'' ''KEY_F5'',
      Button ''0C'' ''KEY_MUTE'', Button ''0D'' ''KEY_ARCHIVE'', Button ''10'' ''KEY_0'', Button ''11'' ''KEY_1'',
      Button ''12'' ''KEY_2'', Button ''13'' ''KEY_3'', Button ''14'' ''KEY_4'', Button ''15'' ''KEY_5'',
      Button ''16'' ''KEY_6'', Button ''17'' ''KEY_7'', Button ''18'' ''KEY_8'', Button ''19'' ''KEY_9'',
      Button ''1A'' ''KEY_UP'', Button ''1B'' ''KEY_DOWN'', Button ''1C'' ''KEY_RIGHT'', Button ''1D'' ''KEY_LEFT'',
      Button ''1E'' ''KEY_REWIND'', Button ''1F'' ''KEY_OK'', Button ''20'' ''KEY_PLAY'', Button ''21'' ''KEY_FASTFORWARD'',
      Button ''22'' ''KEY_STOP'', Button ''23'' ''KEY_SLOW'', Button ''24'' ''KEY_AGAIN'', Button ''25'' ''KEY_PAUSE'',
      Button ''26'' ''KEY_MENU'', Button ''27'' ''KEY_HOME'', Button ''28'' ''KEY_F7'', Button ''29'' ''KEY_BOOKMARKS'',
      Button ''2A'' ''KEY_RED'', Button ''2B'' ''KEY_BLUE'', Button ''2C'' ''KEY_F8'', Button ''2D'' ''KEY_GREEN'',
      Button ''2E'' ''KEY_YELLOW'', Button ''2F'' ''KEY_AUDIO'', Button ''30'' ''KEY_SUBTITLE'', Button ''31'' ''KEY_TEXT'',
      Button ''32'' ''KEY_CHANNELUP'', Button ''33'' ''KEY_CHANNELDOWN'', Button ''34'' ''KEY_VOLUMEUP'',
      Button ''35'' ''KEY_VOLUMEDOWN'', Button ''36'' ''KEY_WWW'', Button_NULL]"

definition cButtonsADB_BOX :: "tButton list" where
  "cButtonsADB_BOX =
     [Button ''01'' ''KEY_POWER'', Button ''02'' ''KEY_AUX'', Button ''03'' ''KEY_V'', Button ''04'' ''KEY_EPG'',
      Button ''05'' ''KEY_BACK'', Button ''06'' ''KEY_HOME'', Button ''07'' ''KEY_INFO'', Button ''08'' ''KEY_MENU'',
      Button ''09'' ''KEY_VOLUMEUP'', Button ''0a'' ''KEY_VOLUMEDOWN'', Button ''0b'' ''KEY_PAGEUP'',
      Button ''0c'' ''KEY_PAGEDOWN'', Button ''0d'' ''KEY_OK'', Button ''0e'' ''KEY_UP'', Button ''0f'' ''KEY_DOWN'',
      Button ''10'' ''KEY_LEFT'', Button ''11'' ''KEY_RIGHT'', Button ''12'' ''KEY_STOP'', Button ''13'' ''KEY_REWIND'',
      Button ''14'' ''KEY_FASTFORWARD'', Button ''15'' ''KEY_PLAY'', Button ''16'' ''KEY_PAUSE'', Button ''17'' ''KEY_RECORD'',
      Button ''18'' ''KEY_MUTE'', Button ''19'' ''KEY_TV2'', Button ''1a'' ''KEY_TEXT'', Button ''1b'' ''KEY_FAVORITES'',
      Button ''1c'' ''KEY_RED'', Button ''1d'' ''KEY_GREEN'', Button ''1e'' ''KEY_YELLOW'', Button ''1f'' ''KEY_BLUE'',
      Button ''20'' ''KEY_1'', Button ''21'' ''KEY_2'', Button ''22'' ''KEY_3'', Button ''23'' ''KEY_4'',
      Button ''24'' ''KEY_5'', Button ''25'' ''KEY_6'', Button ''26'' ''KEY_7'', Button ''27'' ''KEY_8'',
      Button ''28'' ''KEY_9'', Button ''29'' ''KEY_0'', Button ''2a'' ''KEY_AUDIO'', Button ''2b'' ''KEY_TIME'',
      Button ''2c'' ''KEY_HELP'', Button ''41'' ''KEY_POWER'', Button ''42'' ''KEY_AUX'', Button ''43'' ''KEY_V'',
      Button ''44'' ''KEY_EPG'', Button ''45'' ''KEY_BACK'', Button ''46'' ''KEY_HOME'', Button ''47'' ''KEY_INFO'',
      Button ''48'' ''KEY_MENU'', Button ''49'' ''KEY_VOLUMEUP'', Button ''4a'' ''KEY_VOLUMEDOWN'',
      Button ''4b'' ''KEY_PAGEUP'', Button ''4c'' ''KEY_PAGEDOWN'', Button ''4d'' ''KEY_OK'', Button ''4e'' ''KEY_UP'',
      Button ''4f'' ''KEY_DOWN'', Button ''50'' ''KEY_LEFT'', Button ''51'' ''KEY_RIGHT'', Button ''52'' ''KEY_STOP'',
      Button ''53'' ''KEY_REWIND'', Button ''54'' ''KEY_FASTFORWARD'', Button ''55'' ''KEY_PLAY'', Button ''56'' ''KEY_PAUSE'',
      Button ''57'' ''KEY_RECORD'', Button ''58'' ''KEY_MUTE'', Button ''59'' ''KEY_TV2'', Button ''5a'' ''KEY_TEXT'',
      Button ''5b'' ''KEY_FAVORITES'', Button ''5c'' ''KEY_RED'', Button ''5d'' ''KEY_GREEN'', Button ''5e'' ''KEY_YELLOW'',
      Button ''5f'' ''KEY_BLUE'', Button ''60'' ''KEY_1'', Button ''61'' ''KEY_2'', Button ''62'' ''KEY_3'',
      Button ''63'' ''KEY_4'', Button ''64'' ''KEY_5'', Button ''65'' ''KEY_6'', Button ''66'' ''KEY_7'',
      Button ''67'' ''KEY_8'', Button ''68'' ''KEY_9'', Button ''69'' ''KEY_0'', Button ''6a'' ''KEY_AUDIO'',
      Button ''6b'' ''KEY_TIME'', Button ''6c'' ''KEY_HELP'', Button_NULL]"

definition cButtonsSpideroxIpbox :: "tButton list" where
  "cButtonsSpideroxIpbox =
     [Button ''ff'' ''KEY_POWER'', Button ''fd'' ''KEY_MUTE'', Button ''0f'' ''KEY_TV'', Button ''ad'' ''KEY_RADIO'',
      Button ''f9'' ''KEY_VIDEO'', Button ''8f'' ''KEY_0'', Button ''3f'' ''KEY_1'', Button ''bf'' ''KEY_2'',
      Button ''7f'' ''KEY_3'', Button ''1f'' ''KEY_4'', Button ''9f'' ''KEY_5'', Button ''5f'' ''KEY_6'',
      Button ''2f'' ''KEY_7'', Button ''af'' ''KEY_8'', Button ''6f'' ''KEY_9'', Button ''47'' ''KEY_INFO'',
      Button ''29'' ''KEY_AUDIO'', Button ''a9'' ''KEY_SUBTITLE'', Button ''d7'' ''KEY_TEXT'', Button ''e9'' ''KEY_PROG1'',
      Button ''b7'' ''KEY_PROG2'', Button ''69'' ''KEY_ZOOM'', Button ''6d'' ''KEY_DIRECTION'', Button ''97'' ''KEY_EMAIL'',
      Button ''87'' ''KEY_HELP'', Button ''07'' ''KEY_UNDO'', Button ''27'' ''KEY_DOWN'', Button ''a7'' ''KEY_UP'',
      Button ''4f'' ''KEY_RIGHT'', Button ''77'' ''KEY_LEFT'', Button ''ef'' ''KEY_OK'', Button ''67'' ''KEY_MENU'',
      Button ''79'' ''KEY_EPG'', Button ''df'' ''KEY_EXIT'', Button ''39'' ''KEY_PAGEUP'', Button ''b9'' ''KEY_PAGEDOWN'',
      Button ''f7'' ''KEY_CHANNELUP'', Button ''59'' ''KEY_CHANNELDOWN'', Button ''99'' ''KEY_VOLUMEUP'',
      Button ''19'' ''KEY_VOLUMEDOWN'', Button ''f5'' ''KEY_RED'', Button ''d5'' ''KEY_GREEN'', Button ''7d'' ''KEY_YELLOW'',
      Button ''75'' ''KEY_BLUE'', Button ''d9'' ''KEY_REWIND'', Button ''b5'' ''KEY_PAUSE'', Button ''17'' ''KEY_PLAY'',
      Button ''89'' ''KEY_FASTFORWARD'', Button ''35'' ''KEY_RECORD'', Button ''c7'' ''KEY_STOP'', Button ''8d'' ''KEY_ANGLE'',
      Button ''cd'' ''KEY_REFRESH'', Button_NULL]"

text \<open>All tables, with the file they are in.\<close>

definition remote_tables :: "tButton list list" where
  "remote_tables =
     [Ufs910_1W_cButtonsKathrein, Ufs910_14W_cButtonsKathrein, cButtonUFS922, cButtonUFS922Frontpanel,
      cButtonsTopfield7700HDPVR, cButtonsTopfield7700HDPVRFrontpanel, cButtonsSpideroxHL101, cButtonsEdisionVip2, cButtonHDBOX,
      cButtonHDBOXFrontpanel, cButtonsHomecast5101, cButtonUFS912, cButtonUFS912Frontpanel, cButtonsEdisionSpark,
      cButtonsSparkRc08, cButtonsSparkRc09, cButtonsSparkRc12, cButtonsSparkDefault, cButtonsSparkRc04, cButtonsGalaxy,
      cButtonCuberevo, cButtonsADB_BOX, cButtonsSpideroxIpbox]"

lemmas table_defs =
  Ufs910_1W_cButtonsKathrein_def Ufs910_14W_cButtonsKathrein_def cButtonUFS922_def cButtonUFS922Frontpanel_def
  cButtonsTopfield7700HDPVR_def cButtonsTopfield7700HDPVRFrontpanel_def cButtonsSpideroxHL101_def cButtonsEdisionVip2_def
  cButtonHDBOX_def cButtonHDBOXFrontpanel_def cButtonsHomecast5101_def cButtonUFS912_def
  cButtonUFS912Frontpanel_def cButtonsEdisionSpark_def cButtonsSparkRc08_def cButtonsSparkRc09_def
  cButtonsSparkRc12_def cButtonsSparkDefault_def cButtonsSparkRc04_def cButtonsGalaxy_def
  cButtonCuberevo_def cButtonsADB_BOX_def cButtonsSpideroxIpbox_def

subsection \<open>Tables as maps\<close>

definition hex_val :: "char \<Rightarrow> nat" where
  "hex_val c = (let n = of_char c in if n < 58 then n - 48 else if n < 71 then n - 55 else n - 87)"

definition is_hex :: "char \<Rightarrow> bool" where
  "is_hex c \<longleftrightarrow> (let n = (of_char c :: nat) in 48 \<le> n \<and> n < 58 \<or> 65 \<le> n \<and> n < 71 \<or> 97 \<le> n \<and> n < 103)"

definition word_val :: "string \<Rightarrow> nat" where
  "word_val w = hex_val (w ! 0) * 16 + hex_val (w ! 1)"

text \<open>The buttons before the end of a table, by the value of their code.\<close>

fun table_rows :: "tButton list \<Rightarrow> (nat \<times> key) list" where
  "table_rows [] = []"
| "table_rows (Button_NULL # bs) = []"
| "table_rows (Button w k # bs) = (word_val w, k) # table_rows bs"

text \<open>A table is well formed: it ends, and its codes are hexadecimal.\<close>

fun table_ok :: "tButton list \<Rightarrow> bool" where
  "table_ok [] \<longleftrightarrow> False"
| "table_ok (Button_NULL # bs) \<longleftrightarrow> bs = []"
| "table_ok (Button w k # bs) \<longleftrightarrow> is_hex (w ! 0) \<and> is_hex (w ! 1) \<and> table_ok bs"

lemma char_match_low_hex:
  assumes "is_hex w" "n < 16"
  shows "char_match w (low_hex n) \<longleftrightarrow> hex_val w = n"
proof -
  have l: "schar (low_hex n) = (if n < 10 then 48 + int n else 87 + int n)"
    using assms(2) by (simp add: low_hex_def schar_def Let_def)
  have "schar w = int (of_char w :: nat)" using assms(1) by (auto simp: schar_def is_hex_def Let_def)
  then show ?thesis using assms unfolding char_match_def l by (auto simp: is_hex_def hex_val_def Let_def)
qed

lemma hex_val_less: "is_hex c \<Longrightarrow> hex_val c < 16"
  by (auto simp: is_hex_def hex_val_def Let_def)

lemma two_digits: "x < 16 \<Longrightarrow> y < 16 \<Longrightarrow> x * 16 + y = n \<longleftrightarrow> x = n div 16 \<and> y = n mod (16 :: nat)"
  by auto

lemma getInternalCodeHex_rows:
  "table_ok bs \<Longrightarrow> getInternalCodeHex bs b = Some (map_of (table_rows bs) (unat b))"
proof (induction bs rule: table_ok.induct)
  case (3 w k bs)
  have b: "unat b div 16 < 16" "unat b mod 16 < 16" using unsigned_less [of b, where 'a = nat] by simp_all
  have h: "is_hex (w ! 0)" "is_hex (w ! 1)" using 3(2) by simp_all
  have v: "word_val w = unat b \<longleftrightarrow> hex_val (w ! 0) = unat b div 16 \<and> hex_val (w ! 1) = unat b mod 16"
    unfolding word_val_def using hex_val_less [OF h(1)] hex_val_less [OF h(2)] by (rule two_digits)
  have "getInternalCodeHex (Button w k # bs) b = (if word_val w = unat b then Some (Some k) else getInternalCodeHex bs b)"
    unfolding getInternalCodeHex_def getInternalCode.simps char_match_low_hex [OF h(1) b(1)] char_match_low_hex [OF h(2) b(2)] v
    by (rule refl)
  with 3 show ?case by simp
qed (simp_all add: getInternalCodeHex_def)

lemma remote_tables_ok: "list_all table_ok remote_tables"
  unfolding remote_tables_def list.pred_inject by (intro conjI TrueI) (code_simp)+

lemma table_rows_Button: "table_ok t \<Longrightarrow> Button w k \<in> set t \<Longrightarrow> (word_val w, k) \<in> set (table_rows t) \<and> word_val w < 256"
proof (induction t rule: table_ok.induct)
  case (3 w' k' bs)
  then have "word_val w' < 256" using hex_val_less [of "w' ! 0"] hex_val_less [of "w' ! 1"] by (simp add: word_val_def)
  with 3 show ?case by auto
qed simp_all

lemma table_rows_button: "table_ok t \<Longrightarrow> (n, k) \<in> set (table_rows t) \<Longrightarrow> \<exists>w. Button w k \<in> set t \<and> n = word_val w"
  by (induction t rule: table_ok.induct) auto

lemma getInternalCodeHex_distinct:
  assumes "table_ok t" "distinct (map fst (table_rows t))" "Button w k \<in> set t"
  shows "getInternalCodeHex t (word_of_nat (word_val w)) = Some (Some k)"
proof -
  note r = table_rows_Button [OF assms(1,3)]
  then have "unat (word_of_nat (word_val w) :: byte) = word_val w" by (simp add: unsigned_of_nat take_bit_nat_eq_self)
  with r assms(2) show ?thesis by (simp add: getInternalCodeHex_rows [OF assms(1)])
qed

text \<open>No code appears twice, but for three of the tables.\<close>

lemma distinct_codes: "map fst (table_rows t) = ns \<Longrightarrow> distinct ns \<Longrightarrow> distinct (map fst (table_rows t))"
  by simp

lemmas distinct_numerals = distinct.simps list.set insert_iff empty_iff numeral_eq_iff num.distinct num.inject simp_thms
  one_neq_zero zero_neq_one zero_neq_numeral numeral_neq_zero one_eq_numeral_iff numeral_eq_one_iff

lemma Ufs910_1W_cButtonsKathrein_codes: "distinct (map fst (table_rows Ufs910_1W_cButtonsKathrein))"
  by (rule distinct_codes, code_simp, simp only: distinct_numerals)

lemma Ufs910_14W_cButtonsKathrein_codes: "distinct (map fst (table_rows Ufs910_14W_cButtonsKathrein))"
  by (rule distinct_codes, code_simp, simp only: distinct_numerals)

lemma cButtonUFS922_codes: "distinct (map fst (table_rows cButtonUFS922))"
  by (rule distinct_codes, code_simp, simp only: distinct_numerals)

lemma cButtonUFS922Frontpanel_codes: "distinct (map fst (table_rows cButtonUFS922Frontpanel))"
  by (rule distinct_codes, code_simp, simp only: distinct_numerals)

lemma cButtonsTopfield7700HDPVR_codes: "distinct (map fst (table_rows cButtonsTopfield7700HDPVR))"
  by (rule distinct_codes, code_simp, simp only: distinct_numerals)

lemma cButtonsTopfield7700HDPVRFrontpanel_codes: "distinct (map fst (table_rows cButtonsTopfield7700HDPVRFrontpanel))"
  by (rule distinct_codes, code_simp, simp only: distinct_numerals)

lemma cButtonHDBOX_codes: "distinct (map fst (table_rows cButtonHDBOX))"
  by (rule distinct_codes, code_simp, simp only: distinct_numerals)

lemma cButtonHDBOXFrontpanel_codes: "distinct (map fst (table_rows cButtonHDBOXFrontpanel))"
  by (rule distinct_codes, code_simp, simp only: distinct_numerals)

lemma cButtonsHomecast5101_codes: "distinct (map fst (table_rows cButtonsHomecast5101))"
  by (rule distinct_codes, code_simp, simp only: distinct_numerals)

lemma cButtonUFS912_codes: "distinct (map fst (table_rows cButtonUFS912))"
  by (rule distinct_codes, code_simp, simp only: distinct_numerals)

lemma cButtonUFS912Frontpanel_codes: "distinct (map fst (table_rows cButtonUFS912Frontpanel))"
  by (rule distinct_codes, code_simp, simp only: distinct_numerals)

lemma cButtonsSparkRc08_codes: "distinct (map fst (table_rows cButtonsSparkRc08))"
  by (rule distinct_codes, code_simp, simp only: distinct_numerals)

lemma cButtonsSparkRc09_codes: "distinct (map fst (table_rows cButtonsSparkRc09))"
  by (rule distinct_codes, code_simp, simp only: distinct_numerals)

lemma cButtonsSparkRc12_codes: "distinct (map fst (table_rows cButtonsSparkRc12))"
  by (rule distinct_codes, code_simp, simp only: distinct_numerals)

lemma cButtonsSparkDefault_codes: "distinct (map fst (table_rows cButtonsSparkDefault))"
  by (rule distinct_codes, code_simp, simp only: distinct_numerals)

lemma cButtonsSparkRc04_codes: "distinct (map fst (table_rows cButtonsSparkRc04))"
  by (rule distinct_codes, code_simp, simp only: distinct_numerals)

lemma cButtonsGalaxy_codes: "distinct (map fst (table_rows cButtonsGalaxy))"
  by (rule distinct_codes, code_simp, simp only: distinct_numerals)

lemma cButtonCuberevo_codes: "distinct (map fst (table_rows cButtonCuberevo))"
  by (rule distinct_codes, code_simp, simp only: distinct_numerals)

lemma cButtonsADB_BOX_codes: "distinct (map fst (table_rows cButtonsADB_BOX))"
  by (rule distinct_codes, code_simp, simp only: distinct_numerals)

lemma cButtonsSpideroxIpbox_codes: "distinct (map fst (table_rows cButtonsSpideroxIpbox))"
  by (rule distinct_codes, code_simp, simp only: distinct_numerals)

lemmas table_codes =
  Ufs910_1W_cButtonsKathrein_codes Ufs910_14W_cButtonsKathrein_codes cButtonUFS922_codes
  cButtonUFS922Frontpanel_codes cButtonsTopfield7700HDPVR_codes cButtonsTopfield7700HDPVRFrontpanel_codes
  cButtonHDBOX_codes cButtonHDBOXFrontpanel_codes cButtonsHomecast5101_codes
  cButtonUFS912_codes cButtonUFS912Frontpanel_codes cButtonsSparkRc08_codes
  cButtonsSparkRc09_codes cButtonsSparkRc12_codes cButtonsSparkDefault_codes
  cButtonsSparkRc04_codes cButtonsGalaxy_codes cButtonCuberevo_codes
  cButtonsADB_BOX_codes cButtonsSpideroxIpbox_codes

text \<open>
  Three tables have codes twice. In two of them both buttons stand for the same key; in that of the Spark two buttons are behind
  others with the same code.
\<close>

lemma cButtonsSpideroxHL101_rows:
  "list_all (\<lambda>(n, k). map_of (table_rows cButtonsSpideroxHL101) n = Some k) (table_rows cButtonsSpideroxHL101)"
  by code_simp

lemma cButtonsEdisionVip2_rows:
  "list_all (\<lambda>(n, k). map_of (table_rows cButtonsEdisionVip2) n = Some k) (table_rows cButtonsEdisionVip2)"
  by code_simp

definition shadowed :: "tButton list \<Rightarrow> key \<Rightarrow> key" where
  "shadowed t k =
     (if t = cButtonsEdisionSpark then if k = ''KEY_AUDIO'' then ''KEY_7'' else if k = ''KEY_CLOSE'' then ''KEY_2'' else k else k)"

lemma cButtonsEdisionSpark_rows:
  "list_all (\<lambda>(n, k). map_of (table_rows cButtonsEdisionSpark) n =
     Some (if k = ''KEY_AUDIO'' then ''KEY_7'' else if k = ''KEY_CLOSE'' then ''KEY_2'' else k)) (table_rows cButtonsEdisionSpark)"
  by code_simp

lemma map_of_rows:
  assumes "t \<in> set remote_tables" "(n, k) \<in> set (table_rows t)"
  shows "map_of (table_rows t) n = Some (shadowed t k)"
proof (cases "distinct (map fst (table_rows t))")
  case True
  moreover have "\<not> distinct (map fst (table_rows cButtonsEdisionSpark))" by code_simp
  ultimately show ?thesis using assms(2) by (auto simp: shadowed_def)
next
  case False
  then have t: "t \<in> {cButtonsSpideroxHL101, cButtonsEdisionVip2, cButtonsEdisionSpark}"
    using assms(1) unfolding remote_tables_def by (auto simp: table_codes)
  have "cButtonsSpideroxHL101 \<noteq> cButtonsEdisionSpark" "cButtonsEdisionVip2 \<noteq> cButtonsEdisionSpark"
    by (simp_all add: cButtonsSpideroxHL101_def cButtonsEdisionVip2_def cButtonsEdisionSpark_def)
  with t assms(2) cButtonsSpideroxHL101_rows cButtonsEdisionVip2_rows cButtonsEdisionSpark_rows show ?thesis
    by (auto simp: list_all_iff shadowed_def)
qed

text \<open>
  Claim C34. What a receiver that delivers two hexadecimal digits (those behind lircd call \<open>getInternalCode\<close>) or a byte (the others call
  \<open>getInternalCodeHex\<close>) gets, for each of the 23 key tables: the code of a button gives the key of that button, but for two buttons of the
  table \<open>cButtonsEdisionSpark\<close>, AUDIO and USB (\<open>KEY_CLOSE\<close>), whose codes are those of 7 and 2, which come first; any other code
  gives 0, and no lookup reads behind a table.
\<close>

theorem remote_keys_decode:
  assumes "t \<in> set remote_tables"
  shows "(\<forall>w k. Button w k \<in> set t \<longrightarrow>
      (let n = word_val w;
           key = (if t = cButtonsEdisionSpark \<and> k = ''KEY_AUDIO'' then ''KEY_7''
                  else if t = cButtonsEdisionSpark \<and> k = ''KEY_CLOSE'' then ''KEY_2'' else k)
       in getInternalCode t (low_hex (n div 16)) (low_hex (n mod 16)) = Some (Some key) \<and>
          getInternalCodeHex t (word_of_nat n) = Some (Some key))) \<and>
    (\<forall>b. (\<forall>w k. Button w k \<in> set t \<longrightarrow> word_val w \<noteq> unat b) \<longrightarrow>
      getInternalCode t (low_hex (unat b div 16)) (low_hex (unat b mod 16)) = Some None \<and> getInternalCodeHex t b = Some None)"
proof -
  have ok: "table_ok t" using remote_tables_ok assms by (simp add: list_all_iff)
  have "getInternalCodeHex t (word_of_nat (word_val w)) = Some (Some (shadowed t k)) \<and>
      getInternalCode t (low_hex (word_val w div 16)) (low_hex (word_val w mod 16)) = Some (Some (shadowed t k))"
    if "Button w k \<in> set t" for w k
  proof -
    note r = table_rows_Button [OF ok that]
    then have u: "unat (word_of_nat (word_val w) :: byte) = word_val w" by (simp add: unsigned_of_nat take_bit_nat_eq_self)
    have "getInternalCodeHex t (word_of_nat (word_val w)) = Some (Some (shadowed t k))"
      using map_of_rows [OF assms conjunct1 [OF r]] by (simp add: getInternalCodeHex_rows [OF ok] u)
    then show ?thesis using u by (simp add: getInternalCodeHex_def)
  qed
  moreover have "getInternalCodeHex t b = Some None" if "\<forall>w k. Button w k \<in> set t \<longrightarrow> word_val w \<noteq> unat b" for b
    using that table_rows_button [OF ok, of "unat b"] by (fastforce simp: getInternalCodeHex_rows [OF ok] map_of_eq_None_iff)
  ultimately show ?thesis by (fastforce simp: getInternalCodeHex_def Let_def shadowed_def)
qed

theorem remote_keys_decode_witness:
  "getInternalCodeHex cButtonUFS912 0x6D = Some (Some ''KEY_RED'') \<and>
   getInternalCode cButtonsEdisionSpark CHR ''3'' CHR ''5'' = Some (Some ''KEY_7'') \<and>
   getInternalCode cButtonsSpideroxHL101 CHR ''f'' CHR ''7'' = Some (Some ''KEY_POWER'')"
proof -
  have t: "cButtonUFS912 \<in> set remote_tables" "cButtonsEdisionSpark \<in> set remote_tables" "cButtonsSpideroxHL101 \<in> set remote_tables"
    by (simp_all add: remote_tables_def)
  have b: "Button ''6D'' ''KEY_RED'' \<in> set cButtonUFS912" "Button ''35'' ''KEY_AUDIO'' \<in> set cButtonsEdisionSpark"
    "Button ''f7'' ''KEY_POWER'' \<in> set cButtonsSpideroxHL101"
    by (simp_all add: cButtonUFS912_def cButtonsEdisionSpark_def cButtonsSpideroxHL101_def)
  have w: "word_val ''6D'' = 0x6D" "word_val ''35'' = 0x35" "word_val ''f7'' = 0xF7" by code_simp+
  have h: "low_hex 3 = CHR ''3''" "low_hex 5 = CHR ''5''" "low_hex 15 = CHR ''f''" "low_hex 7 = CHR ''7''" by code_simp+
  show ?thesis
    using conjunct1 [OF remote_keys_decode [OF t(1)], rule_format, OF b(1)] conjunct1 [OF remote_keys_decode [OF t(2)], rule_format, OF b(2)]
      conjunct1 [OF remote_keys_decode [OF t(3)], rule_format, OF b(3)]
    by (simp add: w h Let_def)
qed

end
