(* ===== verification/Evremote_Remotes.thy ===== *)
theory Evremote_Remotes
  imports Evremote_Keys "HOL-Library.Monad_Syntax"
begin

text \<open>
  How the remote controls of \<open>tools/evremote2\<close> are read: the function \<open>pRead\<close> of each receiver with its static variables. A
  value read is the number of the input key in the lower 16 bits and a flag above them, which changes when another key has
  been pressed. The numbers of the keys (\<open>kc\<close>), which \<open>linux/input.h\<close> defines, and what \<open>read\<close> puts into the buffer are
  arguments. The outer \<open>None\<close> is a read behind a key table; a reader that has not met a key yet gives \<open>Some None\<close>.
\<close>

definition c_int :: "int \<Rightarrow> int" where
  "c_int i = sint (word_of_int i :: u32)"

definition key_value :: "(key \<Rightarrow> int) \<Rightarrow> key option \<Rightarrow> int" where
  "key_value kc r = (case r of None \<Rightarrow> 0 | Some k \<Rightarrow> kc k)"

text \<open>\<open>vCurrentCode += (flag << 16)\<close>\<close>

definition add_flag :: "int \<Rightarrow> int \<Rightarrow> int" where
  "add_flag code flag = c_int (code + c_int (flag * 65536))"

subsection \<open>Receivers behind lircd\<close>

text \<open>
  A line of lircd has the code of the key in places 14 and 15 and the number of repetitions in places 17 and 18. \<open>nextflag\<close> is
  a static variable of the function.
\<close>

definition lirc_read :: "(key \<Rightarrow> int) \<Rightarrow> tButton list \<Rightarrow> string \<Rightarrow> int \<Rightarrow> (int \<times> int) option" where
  "lirc_read kc t vBuffer nextflag = do {
     r \<leftarrow> getInternalCode t (vBuffer ! 14) (vBuffer ! 15);
     let vCurrentCode = key_value kc r;
     Some (if vCurrentCode \<noteq> 0 then
             (let nextflag = (if vBuffer ! 17 = CHR ''0'' \<and> vBuffer ! 18 = CHR ''0'' then c_int (nextflag + 1) else nextflag)
              in (add_flag vCurrentCode nextflag, nextflag))
           else (vCurrentCode, nextflag))
   }"

definition Hl101_pRead :: "(key \<Rightarrow> int) \<Rightarrow> string \<Rightarrow> int \<Rightarrow> (int \<times> int) option" where
  "Hl101_pRead kc = lirc_read kc cButtonsSpideroxHL101"

definition Ipbox_pRead :: "(key \<Rightarrow> int) \<Rightarrow> string \<Rightarrow> int \<Rightarrow> (int \<times> int) option" where
  "Ipbox_pRead kc = lirc_read kc cButtonsSpideroxIpbox"

definition Vip2_pRead :: "(key \<Rightarrow> int) \<Rightarrow> string \<Rightarrow> int \<Rightarrow> (int \<times> int) option" where
  "Vip2_pRead kc = lirc_read kc cButtonsEdisionVip2"

definition Adb_Box_pRead :: "(key \<Rightarrow> int) \<Rightarrow> string \<Rightarrow> int \<Rightarrow> (int \<times> int) option" where
  "Adb_Box_pRead kc = lirc_read kc cButtonsADB_BOX"

text \<open>
  The Spark chooses the table by the address of the remote control, which is in places 8 to 11; for one address the kernel's
  command line decides, the first time.
\<close>

fun str_contains :: "string \<Rightarrow> string \<Rightarrow> bool" where
  "str_contains [] p \<longleftrightarrow> p = []"
| "str_contains (c # cs) p \<longleftrightarrow> take (length p) (c # cs) = p \<or> str_contains cs p"

definition lower :: "char \<Rightarrow> char" where
  "lower c = (if 65 \<le> (of_char c :: nat) \<and> (of_char c :: nat) \<le> 90 then char_of ((of_char c :: nat) + 32) else c)"

definition eq_nocase :: "string \<Rightarrow> string \<Rightarrow> bool" where
  "eq_nocase s t \<longleftrightarrow> map lower s = map lower t"

definition spark_rc09 :: "string option \<Rightarrow> tButton list option \<Rightarrow> tButton list" where
  "spark_rc09 procCmdLine cButtons =
     (case cButtons of
        Some t \<Rightarrow> t
      | None \<Rightarrow>
          (case procCmdLine of
             None \<Rightarrow> cButtonsSparkRc09
           | Some l \<Rightarrow> if str_contains l ''STB_ID=09:00:0B'' then cButtonsGalaxy
                       else if str_contains l ''STB_ID=09:00:08'' then cButtonsEdisionSpark
                       else cButtonsSparkRc09))"

definition pSparkGetButton :: "string option \<Rightarrow> string \<Rightarrow> tButton list option \<Rightarrow> tButton list \<times> tButton list option" where
  "pSparkGetButton procCmdLine pData cButtons =
     (if eq_nocase pData ''11EE'' then (cButtonsEdisionSpark, cButtons)
      else if eq_nocase pData ''44BB'' then (cButtonsSparkRc08, cButtons)
      else if eq_nocase pData ''9966'' then
        (let t = spark_rc09 procCmdLine cButtons in (t, Some t))
      else if eq_nocase pData ''A25D'' then (cButtonsSparkDefault, cButtons)
      else if eq_nocase pData ''08F7'' then (cButtonsSparkRc12, cButtons)
      else if eq_nocase pData ''CC33'' then (cButtonsSparkRc04, cButtons)
      else (cButtonsEdisionSpark, cButtons))"

definition Spark_pRead ::
  "(key \<Rightarrow> int) \<Rightarrow> string option \<Rightarrow> int \<Rightarrow> string \<Rightarrow> int \<times> tButton list option \<Rightarrow> (int \<times> int \<times> tButton list option) option" where
  "Spark_pRead kc procCmdLine rc vBuffer = (\<lambda>(nextflag, cButtons).
     (if rc \<le> 0 then Some (-1, nextflag, cButtons)
      else (let (t, cButtons) = pSparkGetButton procCmdLine (take 4 (drop 8 vBuffer)) cButtons
            in do { (code, nextflag) \<leftarrow> lirc_read kc t vBuffer nextflag; Some (code, nextflag, cButtons) })))"

text \<open>Two receivers without long key presses take every third repetition.\<close>

definition digit_prefix :: "string \<Rightarrow> string" where
  "digit_prefix = takeWhile (\<lambda>c. 48 \<le> (of_char c :: nat) \<and> (of_char c :: nat) \<le> 57)"

definition atoi :: "string \<Rightarrow> int" where
  "atoi s =
     (let s = dropWhile (\<lambda>c. c = CHR '' '' \<or> 9 \<le> (of_char c :: nat) \<and> (of_char c :: nat) \<le> 13) s;
          v = (\<lambda>t. foldl (\<lambda>n c. n * 10 + (int (of_char c :: nat) - 48)) 0 (digit_prefix t))
      in case s of
           [] \<Rightarrow> 0
         | c # cs \<Rightarrow> if c = CHR ''-'' then - v cs else if c = CHR ''+'' then v cs else v s)"

definition lirc_read_short :: "(key \<Rightarrow> int) \<Rightarrow> tButton list \<Rightarrow> string \<Rightarrow> int option" where
  "lirc_read_short kc t vBuffer =
     (if atoi (takeWhile (\<lambda>c. c \<noteq> CHR 0x00) [vBuffer ! 17, vBuffer ! 18]) mod 3 \<noteq> 0 then Some (-1)
      else map_option (key_value kc) (getInternalCode t (vBuffer ! 14) (vBuffer ! 15)))"

definition Homecast5101_pRead :: "(key \<Rightarrow> int) \<Rightarrow> string \<Rightarrow> int option" where
  "Homecast5101_pRead kc = lirc_read_short kc cButtonsHomecast5101"

definition Ufs910_14W_pRead :: "(key \<Rightarrow> int) \<Rightarrow> string \<Rightarrow> int option" where
  "Ufs910_14W_pRead kc = lirc_read_short kc Ufs910_14W_cButtonsKathrein"

subsection \<open>Ufs910\_1W.c\<close>

text \<open>\<open>vCurrentCode & 0x80 == 0\<close> is \<open>vCurrentCode & (0x80 == 0)\<close>.\<close>

definition Ufs910_1W_pRead :: "(key \<Rightarrow> int) \<Rightarrow> string \<Rightarrow> int \<Rightarrow> (int \<times> int) option" where
  "Ufs910_1W_pRead kc vData gNextKey = do {
     r \<leftarrow> getInternalCode Ufs910_1W_cButtonsKathrein (vData ! 0) (vData ! 1);
     let vCurrentCode = key_value kc r;
     let gNextKey = (if vCurrentCode AND (if (0x80 :: int) = 0 then 1 else 0) \<noteq> 0 then (gNextKey + 1) mod 20 else gNextKey);
     Some (add_flag vCurrentCode gNextKey, gNextKey)
   }"

subsection \<open>Receivers with packets: Ufs912.c and Ufs922.c\<close>

fun ufs_read :: "(key \<Rightarrow> int) \<Rightarrow> tButton list \<Rightarrow> tButton list \<Rightarrow> bytes list \<Rightarrow> (int \<times> bytes list) option option" where
  "ufs_read kc rc fp [] = Some None"
| "ufs_read kc rc fp (vData # vs) =
     (if vData ! 0 = 0xD2 \<or> vData ! 0 = 0xD1 then do {
        r \<leftarrow> getInternalCodeHex (if vData ! 0 = 0xD2 then rc else fp) (vData ! 1);
        let vCurrentCode = key_value kc r;
        (if vCurrentCode \<noteq> 0 then Some (Some (add_flag vCurrentCode (uint (vData ! 4)), vs)) else ufs_read kc rc fp vs)
      }
      else ufs_read kc rc fp vs)"

definition Ufs912_pRead :: "(key \<Rightarrow> int) \<Rightarrow> bytes list \<Rightarrow> (int \<times> bytes list) option option" where
  "Ufs912_pRead kc = ufs_read kc cButtonUFS912 cButtonUFS912Frontpanel"

definition Ufs922_pRead :: "(key \<Rightarrow> int) \<Rightarrow> bytes list \<Rightarrow> (int \<times> bytes list) option option" where
  "Ufs922_pRead kc = ufs_read kc cButtonUFS922 cButtonUFS922Frontpanel"

subsection \<open>Tf7700.c\<close>

record tf7700_static =
  tf_gNextKey :: int
  tf_sWasLastKeyPower :: bool

definition Tf7700_pRead :: "(key \<Rightarrow> int) \<Rightarrow> bytes \<Rightarrow> tf7700_static \<Rightarrow> (int \<times> tf7700_static) option" where
  "Tf7700_pRead kc vData s =
     (if vData ! 0 \<noteq> 0x61 \<and> vData ! 0 \<noteq> 0x51 then Some (-1, s)
      else do {
        let front = (vData ! 0 = 0x51);
        let vIsBurst = (vData ! 1 AND 0x80 = 0x80);
        let key = vData ! 1 AND 0x7f;
        r \<leftarrow> getInternalCodeHex (if front then cButtonsTopfield7700HDPVRFrontpanel else cButtonsTopfield7700HDPVR) key;
        let power = front \<and> key = 0x0C;
        let vIsBurst = vIsBurst \<or> power \<and> tf_sWasLastKeyPower s;
        let s = s\<lparr>tf_sWasLastKeyPower := power\<rparr>;
        let s = (if \<not> vIsBurst then s\<lparr>tf_gNextKey := (tf_gNextKey s + 1) mod 20\<rparr> else s);
        Some (add_flag (key_value kc r) (tf_gNextKey s), s)
      })"

subsection \<open>HDBOX.c\<close>

text \<open>
  \<open>vData[5] & 0x80 == 0\<close> is \<open>vData[5] & (0x80 == 0)\<close>; \<open>vOldButton\<close>, which is never assigned, is 0.
\<close>

fun HDBOX_pRead :: "(key \<Rightarrow> int) \<Rightarrow> bytes list \<Rightarrow> int \<Rightarrow> (int \<times> bytes list \<times> int) option option" where
  "HDBOX_pRead kc [] vNextKey = Some None"
| "HDBOX_pRead kc (vData # vs) vNextKey =
     (if vData ! 2 = 0x63 then do {
        r \<leftarrow> getInternalCodeHex cButtonHDBOX (vData ! 5 AND NOT 0x80);
        let vCurrentCode = key_value kc r;
        (if vCurrentCode \<noteq> 0 then
           (let vNextKey = (if uint (vData ! 5) AND (if (0x80 :: int) = 0 then 1 else 0) \<noteq> 0 then vNextKey + 1 else vNextKey) mod 0x100
            in Some (Some (add_flag vCurrentCode vNextKey, vs, vNextKey)))
         else HDBOX_pRead kc vs vNextKey)
      }
      else if vData ! 2 = 0x51 then do {
        r \<leftarrow> getInternalCodeHex cButtonHDBOXFrontpanel (vData ! 3);
        let vCurrentCode = key_value kc r;
        (if vCurrentCode \<noteq> 0 then
           (let vNextKey = (if 0 \<noteq> vData ! 3 then vNextKey + 1 else vNextKey) mod 0x100
            in Some (Some (add_flag vCurrentCode vNextKey, vs, vNextKey)))
         else HDBOX_pRead kc vs vNextKey)
      }
      else HDBOX_pRead kc vs vNextKey)"

subsection \<open>Cuberevo.c\<close>

datatype key_table_t = Front_key nat key | Front_NULL nat

definition front_keymap_13grid :: "key_table_t list" where
  "front_keymap_13grid =
     [Front_key 0x1000 ''KEY_POWER'', Front_key 0x0002 ''KEY_LEFT'', Front_key 0x0004 ''KEY_RIGHT'', Front_key 0x4000 ''KEY_UP'',
      Front_key 0x2000 ''KEY_MEDIA'', Front_key 0x0040 ''KEY_DOWN'', Front_key 0x0020 ''KEY_OK'', Front_key 0x0010 ''KEY_HOME'',
      Front_key 0x0001 ''KEY_MENU'', Front_NULL 0xFFFF, Front_NULL 0]"

definition front_keymap_7seg :: "key_table_t list" where
  "front_keymap_7seg =
     [Front_key 0x0001 ''KEY_POWER'', Front_key 0x0002 ''KEY_MENU'', Front_key 0x0004 ''KEY_HOME'', Front_key 0x0010 ''KEY_OK'',
      Front_key 0x0020 ''KEY_LEFT'', Front_key 0x0040 ''KEY_RIGHT'', Front_key 0x0080 ''KEY_UP'', Front_key 0x0100 ''KEY_DOWN'',
      Front_NULL 0]"

definition front_keymap_12dotmatrix :: "key_table_t list" where
  "front_keymap_12dotmatrix =
     [Front_key 0x0001 ''KEY_POWER'', Front_key 0x0002 ''KEY_MENU'', Front_key 0x0004 ''KEY_HOME'', Front_key 0x0008 ''KEY_MEDIA'',
      Front_key 0x0010 ''KEY_OK'', Front_key 0x0020 ''KEY_LEFT'', Front_key 0x0040 ''KEY_RIGHT'', Front_key 0x0080 ''KEY_UP'',
      Front_key 0x0100 ''KEY_DOWN'', Front_NULL 0xFFFF, Front_NULL 0]"

fun getCuberevoCode :: "key_table_t list \<Rightarrow> nat \<Rightarrow> key option option" where
  "getCuberevoCode [] code = None"
| "getCuberevoCode (Front_NULL c # ks) code = Some None"
| "getCuberevoCode (Front_key c k # ks) code = (if c = code then Some (Some k) else getCuberevoCode ks code)"

record cuberevo_static =
  cu_vNextKey :: int
  cu_lastCode :: int
  cu_front_key :: nat

definition cuberevo_next :: "int \<Rightarrow> cuberevo_static \<Rightarrow> int \<times> cuberevo_static" where
  "cuberevo_next vCurrentCode s =
     (let n = (if vCurrentCode \<noteq> cu_lastCode s then cu_vNextKey s + 1 else cu_vNextKey s) mod 0x100
      in (add_flag vCurrentCode n, s\<lparr>cu_vNextKey := n, cu_lastCode := vCurrentCode\<rparr>))"

definition front_keymap :: "int \<Rightarrow> key_table_t list" where
  "front_keymap version =
     (if version = 0 \<or> version = 2 then front_keymap_12dotmatrix
      else if version = 3 then front_keymap_7seg else front_keymap_13grid)"

fun Cuberevo_pRead ::
  "(key \<Rightarrow> int) \<Rightarrow> int \<Rightarrow> bytes list \<Rightarrow> cuberevo_static \<Rightarrow> (int \<times> bytes list \<times> cuberevo_static) option option" where
  "Cuberevo_pRead kc version [] s = Some None"
| "Cuberevo_pRead kc version (vData # vs) s =
     (if vData ! 0 = 0xE0 then
        (if vData ! 1 = 0xFF then Cuberevo_pRead kc version vs (s\<lparr>cu_lastCode := 0\<rparr>)
         else do {
           r \<leftarrow> getInternalCodeHex cButtonCuberevo (vData ! 1);
           (if key_value kc r \<noteq> 0 then (let (c, s) = cuberevo_next (key_value kc r) s in Some (Some (c, vs, s)))
            else Cuberevo_pRead kc version vs s)
         })
      else if vData ! 0 = 0xE1 then Cuberevo_pRead kc version vs (s\<lparr>cu_front_key := unat (vData ! 1) * 256\<rparr>)
      else if vData ! 0 = 0xE2 then do {
        let s = s\<lparr>cu_front_key := cu_front_key s OR unat (vData ! 1)\<rparr>;
        r \<leftarrow> getCuberevoCode (front_keymap version) (cu_front_key s mod 65536);
        (if key_value kc r \<noteq> 0 then (let (c, s) = cuberevo_next (key_value kc r) s in Some (Some (c, vs, s)))
         else Cuberevo_pRead kc version vs s)
      }
      else Cuberevo_pRead kc version vs s)"

subsection \<open>Codes and flags\<close>

text \<open>What \<open>linux/input.h\<close> promises: the numbers of the keys are positive and fit 16 bits.\<close>

definition key_codes :: "(key \<Rightarrow> int) \<Rightarrow> bool" where
  "key_codes kc \<longleftrightarrow> (\<forall>k. 0 < kc k \<and> kc k < 0x10000)"

lemma c_int_mod: "c_int i = (i + 2 ^ 31) mod 2 ^ 32 - 2 ^ 31"
  by (simp add: c_int_def signed_of_int signed_take_bit_eq_take_bit_shift take_bit_eq_mod)

lemma c_int_id: "- (2 ^ 31) \<le> i \<Longrightarrow> i < 2 ^ 31 \<Longrightarrow> c_int i = i"
  by (simp add: c_int_mod)

lemma add_flag_small: "0 \<le> code \<Longrightarrow> code < 0x10000 \<Longrightarrow> 0 \<le> flag \<Longrightarrow> flag < 0x8000 \<Longrightarrow> add_flag code flag = code + flag * 65536"
  by (simp add: add_flag_def c_int_id)

text \<open>In general the flag counts as a signed 16 bit number.\<close>

lemma add_flag_signed:
  assumes "0 \<le> code" "code < 0x10000"
  shows "add_flag code flag = code + ((flag + 0x8000) mod 0x10000 - 0x8000) * 65536"
proof -
  have "(flag * 65536 + 2 ^ 31) mod 2 ^ 32 = ((flag + 0x8000) * 65536) mod (0x10000 * 65536)" by (simp add: algebra_simps)
  also have "\<dots> = (flag + 0x8000) mod 0x10000 * 65536" by (rule mod_mult_mult2)
  finally have f: "c_int (flag * 65536) = ((flag + 0x8000) mod 0x10000 - 0x8000) * 65536" by (simp add: c_int_mod algebra_simps)
  have "0 \<le> (flag + 0x8000) mod 0x10000" "(flag + 0x8000) mod 0x10000 < 0x10000" by simp_all
  with assms show ?thesis unfolding add_flag_def f by (intro c_int_id) (simp_all add: algebra_simps)
qed

text \<open>The two parts of a value, as \<open>processComplex\<close> takes them.\<close>

definition code_part :: "int \<Rightarrow> int" where
  "code_part c = c mod 65536"

definition flag_part :: "int \<Rightarrow> int" where
  "flag_part c = c div 65536 mod 65536"

lemma parts_add_flag:
  assumes "0 \<le> code" "code < 0x10000" "0 \<le> flag" "flag < 0x8000"
  shows "code_part (add_flag code flag) = code" "flag_part (add_flag code flag) = flag"
  using assms by (simp_all add: add_flag_small code_part_def flag_part_def)

lemma parts_add_flag_signed:
  assumes "0 \<le> code" "code < 0x10000"
  shows "code_part (add_flag code flag) = code" "flag_part (add_flag code flag) = flag mod 0x10000"
    "add_flag code flag < 0 \<longleftrightarrow> 0x8000 \<le> flag mod 0x10000"
proof -
  let ?s = "(flag + 0x8000) mod 0x10000 - 0x8000"
  have s: "?s mod 0x10000 = flag mod 0x10000" by (simp add: mod_diff_left_eq)
  have "(code + s * 65536) mod 65536 = code" for s using assms by simp
  then show "code_part (add_flag code flag) = code" unfolding add_flag_signed [OF assms] code_part_def by this
  have "(code + ?s * 65536) div 65536 = ?s" using assms by (simp add: div_pos_pos_trivial)
  with s show "flag_part (add_flag code flag) = flag mod 0x10000" by (simp add: add_flag_signed [OF assms] flag_part_def)
  have "code + s * 65536 < 0 \<longleftrightarrow> s < 0" for s using assms by auto
  then have "add_flag code flag < 0 \<longleftrightarrow> ?s < 0" unfolding add_flag_signed [OF assms] by this
  also have "\<dots> \<longleftrightarrow> (flag mod 0x10000 + 0x8000) mod 0x10000 < 0x8000" by (simp add: mod_add_left_eq)
  also have "\<dots> \<longleftrightarrow> 0x8000 \<le> flag mod 0x10000"
  proof (cases "flag mod 0x10000 < 0x8000")
    case False
    have "(flag mod 0x10000 + 0x8000) mod 0x10000 = (flag mod 0x10000 - 0x8000 + 0x10000) mod 0x10000" by (simp add: add.commute)
    also have "\<dots> = (flag mod 0x10000 - 0x8000) mod 0x10000" by (rule mod_add_self2)
    also have "\<dots> = flag mod 0x10000 - 0x8000" using False pos_mod_bound [of "0x10000" flag] by (intro mod_pos_pos_trivial) auto
    finally show ?thesis using False pos_mod_bound [of "0x10000" flag] by simp
  qed simp
  finally show "add_flag code flag < 0 \<longleftrightarrow> 0x8000 \<le> flag mod 0x10000" .
qed

lemma key_codesD: "key_codes kc \<Longrightarrow> 0 < kc k" "key_codes kc \<Longrightarrow> kc k < 0x10000" "key_codes kc \<Longrightarrow> kc k \<noteq> 0"
  unfolding key_codes_def by (auto dest: spec [of _ k])

definition example_kc :: "key \<Rightarrow> int" where
  "example_kc k = (if k = ''KEY_RED'' then 0x18e else 1)"

lemma example_kc_codes: "key_codes example_kc"
  by (simp add: key_codes_def example_kc_def)

subsection \<open>Properties\<close>

definition ufs_tables :: "(tButton list \<times> tButton list) list" where
  "ufs_tables = [(cButtonUFS912, cButtonUFS912Frontpanel), (cButtonUFS922, cButtonUFS922Frontpanel)]"

text \<open>The packet of a button: on the remote control or the front panel, with the code that the table gives it.\<close>

definition ufs_packet :: "tButton list \<Rightarrow> tButton list \<Rightarrow> bytes \<Rightarrow> key \<Rightarrow> bool" where
  "ufs_packet rc fp v k \<longleftrightarrow>
     (\<exists>w. (v ! 0 = 0xD2 \<and> Button w k \<in> set rc \<or> v ! 0 = 0xD1 \<and> Button w k \<in> set fp) \<and> v ! 1 = word_of_nat (word_val w))"

lemma ufs_lookup:
  assumes "(rc, fp) \<in> set ufs_tables" "v ! 0 = 0xD2 \<or> v ! 0 = 0xD1"
  shows "getInternalCodeHex (if v ! 0 = 0xD2 then rc else fp) (v ! 1) = Some r \<longleftrightarrow>
    (case r of Some k \<Rightarrow> ufs_packet rc fp v k | None \<Rightarrow> \<forall>k. \<not> ufs_packet rc fp v k)"
proof -
  let ?t = "if v ! 0 = 0xD2 then rc else fp"
  have "?t \<in> set remote_tables" using assms(1) by (auto simp: ufs_tables_def remote_tables_def)
  then have ok: "table_ok ?t" using remote_tables_ok by (simp add: list_all_iff)
  have d: "distinct (map fst (table_rows ?t))" using assms(1) by (auto simp: ufs_tables_def table_codes)
  have p: "ufs_packet rc fp v k \<longleftrightarrow> (\<exists>w. Button w k \<in> set ?t \<and> v ! 1 = word_of_nat (word_val w))" for k
    using assms(2) by (auto simp: ufs_packet_def)
  have u: "unat (word_of_nat (word_val w) :: byte) = word_val w" if "Button w k \<in> set ?t" for w k
    using table_rows_Button [OF ok that] by (simp add: unsigned_of_nat take_bit_nat_eq_self)
  have e: "word_of_nat (unat (v ! 1)) = v ! 1" by simp
  have "ufs_packet rc fp v k \<longleftrightarrow> (unat (v ! 1), k) \<in> set (table_rows ?t)" for k
    unfolding p using table_rows_Button [OF ok] table_rows_button [OF ok, of "unat (v ! 1)" k] u e by metis
  then have "ufs_packet rc fp v k \<longleftrightarrow> map_of (table_rows ?t) (unat (v ! 1)) = Some k" for k
    using d by (simp add: map_of_eq_Some_iff)
  then show ?thesis unfolding getInternalCodeHex_rows [OF ok] by (cases "map_of (table_rows ?t) (unat (v ! 1))"; cases r) simp_all
qed

lemma ufs_read_skip:
  assumes "(rc, fp) \<in> set ufs_tables" "\<forall>u \<in> set junk. \<forall>k. \<not> ufs_packet rc fp u k"
  shows "ufs_read kc rc fp (junk @ vs) = ufs_read kc rc fp vs"
  using assms(2)
proof (induction junk)
  case (Cons u junk)
  then show ?case using ufs_lookup [OF assms(1), of u None] by (auto simp: key_value_def split: if_splits)
qed simp

text \<open>
  Claim C32. A key pressed on the remote control or the front panel of the UFS912 or UFS922 is read back: whatever packets come
  first that are of no button, be it that they are of another kind or that they have a code the table does not know, they are
  passed over, and the packet of a button gives a value whose lower half is the number of that button's key and whose upper half
  is the flag byte of the packet. A reader that gets no button's packet waits on and reads behind no table.
\<close>

theorem ufs_key_read_back:
  assumes "key_codes kc" "(rc, fp) \<in> set ufs_tables" "\<forall>u \<in> set junk. \<forall>k. \<not> ufs_packet rc fp u k" "ufs_packet rc fp v k"
  shows "(\<exists>c. ufs_read kc rc fp (junk @ v # vs) = Some (Some (c, vs)) \<and> 0 < c \<and> code_part c = kc k \<and> flag_part c = uint (v ! 4)) \<and>
    ufs_read kc rc fp junk = Some None"
proof -
  have h: "v ! 0 = 0xD2 \<or> v ! 0 = 0xD1" using assms(4) by (auto simp: ufs_packet_def)
  then have l: "getInternalCodeHex (if v ! 0 = 0xD2 then rc else fp) (v ! 1) = Some (Some k)"
    using ufs_lookup [OF assms(2) h, of "Some k"] assms(4) by simp
  have f: "0 \<le> uint (v ! 4)" "uint (v ! 4) < 0x8000" using unsigned_less [of "v ! 4", where 'a = int] by simp_all
  note kc = key_codesD [OF assms(1), of k]
  have "ufs_read kc rc fp (v # vs) = Some (Some (add_flag (kc k) (uint (v ! 4)), vs))" using h l kc(3) by (auto simp: key_value_def)
  moreover have "0 < add_flag (kc k) (uint (v ! 4))" using kc f by (simp add: add_flag_small add_pos_nonneg)
  ultimately show ?thesis
    using parts_add_flag [OF _ kc(2) f] kc(1) ufs_read_skip [OF assms(2,3), of kc] ufs_read_skip [OF assms(2,3), of kc "[]"] by simp
qed

theorem ufs_key_read_back_witness:
  "\<exists>c. ufs_read example_kc cButtonUFS912 cButtonUFS912Frontpanel [[0, 0], [0xD2, 0xFE], [0xD2, 0x6D, 0, 0, 5, 0, 0, 13]] = Some (Some (c, [])) \<and>
    code_part c = 0x18e \<and> flag_part c = 5"
proof -
  have t: "(cButtonUFS912, cButtonUFS912Frontpanel) \<in> set ufs_tables" by (simp add: ufs_tables_def)
  have "word_val ''6D'' = 0x6D" by code_simp
  moreover have "Button ''6D'' ''KEY_RED'' \<in> set cButtonUFS912" by (simp add: cButtonUFS912_def)
  ultimately have v: "ufs_packet cButtonUFS912 cButtonUFS912Frontpanel [0xD2, 0x6D, 0, 0, 5, 0, 0, 13] ''KEY_RED''"
    unfolding ufs_packet_def by (intro exI [of _ "''6D''"]) simp
  have "getInternalCodeHex cButtonUFS912 0xFE = Some None" by code_simp
  then have "\<forall>k. \<not> ufs_packet cButtonUFS912 cButtonUFS912Frontpanel [0xD2, 0xFE] k" using ufs_lookup [OF t, of "[0xD2, 0xFE]" None] by simp
  moreover have "\<forall>k. \<not> ufs_packet cButtonUFS912 cButtonUFS912Frontpanel [0, 0] k" by (simp add: ufs_packet_def)
  ultimately show ?thesis
    using ufs_key_read_back [OF example_kc_codes t _ v, of "[[0, 0], [0xD2, 0xFE]]" "[]"] by (simp add: example_kc_def del: ufs_read.simps) blast
qed

text \<open>
  The remote control of the HDBOX never signals a new key: the bit of the packet that says so is masked away by the
  precedence of the operators, so whatever keys are pressed the flag stays what it was; on the front panel it is the other
  way round, and every repetition counts as a new key.
\<close>

theorem hdbox_flag:
  assumes "key_codes kc" "0 \<le> n" "n < 0x100"
  shows "(v ! 2 = 0x63 \<longrightarrow> getInternalCodeHex cButtonHDBOX (v ! 5 AND NOT 0x80) = Some (Some k) \<longrightarrow>
      HDBOX_pRead kc (v # vs) n = Some (Some (kc k + n * 65536, vs, n))) \<and>
    (v ! 2 = 0x51 \<longrightarrow> v ! 3 \<noteq> 0 \<longrightarrow> getInternalCodeHex cButtonHDBOXFrontpanel (v ! 3) = Some (Some k) \<longrightarrow>
      HDBOX_pRead kc (v # vs) n = Some (Some (kc k + (n + 1) mod 0x100 * 65536, vs, (n + 1) mod 0x100)))"
proof -
  note kc = key_codesD [OF assms(1), of k]
  have "0 \<le> (n + 1) mod 0x100" "(n + 1) mod 0x100 < 0x100" by simp_all
  then have "add_flag (kc k) ((n + 1) mod 0x100) = kc k + (n + 1) mod 0x100 * 65536" using kc by (intro add_flag_small) linarith+
  with assms kc show ?thesis by (simp add: key_value_def add_flag_small Let_def)
qed

theorem hdbox_flag_witness:
  "HDBOX_pRead example_kc [[0, 0, 0x63, 0, 0, 0x10]] 7 = Some (Some (1 + 7 * 65536, [], 7)) \<and>
   HDBOX_pRead example_kc [[0, 0, 0x63, 0, 0, 0x90]] 7 = Some (Some (1 + 7 * 65536, [], 7))"
proof -
  have l: "getInternalCodeHex cButtonHDBOX (0x10 AND NOT 0x80) = Some (Some ''KEY_0'')"
    "getInternalCodeHex cButtonHDBOX (0x90 AND NOT 0x80) = Some (Some ''KEY_0'')" by code_simp+
  from hdbox_flag [OF example_kc_codes, where n = 7 and v = "[0, 0, 0x63, 0, 0, 0x10]" and k = "''KEY_0''" and vs = "[]"]
    hdbox_flag [OF example_kc_codes, where n = 7 and v = "[0, 0, 0x63, 0, 0, 0x90]" and k = "''KEY_0''" and vs = "[]"] l
  show ?thesis by (simp add: example_kc_def)
qed

text \<open>Other receivers: the Topfield gives a positive value even for a code it does not know.\<close>

lemma tf7700_unknown:
  assumes "v ! 0 = 0x61" "getInternalCodeHex cButtonsTopfield7700HDPVR (v ! 1 AND 0x7f) = Some None" "0 < tf_gNextKey s" "tf_gNextKey s < 19"
  shows "\<exists>c s'. Tf7700_pRead kc v s = Some (c, s') \<and> 0 < c \<and> code_part c = 0"
proof -
  have f: "0 < n \<Longrightarrow> n < 20 \<Longrightarrow> add_flag 0 n = n * 65536" for n by (simp add: add_flag_small)
  from assms show ?thesis by (auto simp: Tf7700_pRead_def key_value_def Let_def f code_part_def)
qed

lemma cuberevo_next_flag:
  assumes "key_codes kc" "0 \<le> cu_vNextKey s" "cu_vNextKey s < 0x100"
  shows "flag_part (fst (cuberevo_next (kc k) s)) = (if kc k = cu_lastCode s then cu_vNextKey s else (cu_vNextKey s + 1) mod 0x100)"
    and "code_part (fst (cuberevo_next (kc k) s)) = kc k"
proof -
  note kc = key_codesD [OF assms(1), of k]
  have "0 \<le> (cu_vNextKey s + 1) mod 0x100" "(cu_vNextKey s + 1) mod 0x100 < 0x8000"
    by (simp, rule order.strict_trans [OF pos_mod_bound], simp_all)
  with kc assms(2,3) show "flag_part (fst (cuberevo_next (kc k) s)) = (if kc k = cu_lastCode s then cu_vNextKey s else (cu_vNextKey s + 1) mod 0x100)"
    and "code_part (fst (cuberevo_next (kc k) s)) = kc k"
    by (simp_all add: cuberevo_next_def parts_add_flag Let_def)
qed

end
