(* ===== verification/Evremote.thy ===== *)
theory Evremote
  imports Evremote_Remotes
begin

text \<open>
  The program \<open>tools/evremote2/evremote.c\<close>: which remote control a box has, the simple loop that sends a press and a release
  for every key, and the two threads of the loop for long key presses, interleaved access by access; with the functions of
  \<open>global.c\<close> that pass keys on. Files, sockets, the receiver and the scheduler are arguments.
\<close>

subsection \<open>The model\<close>

datatype eBoxType = Unknown | Ufs910_1W | Ufs910_14W | Ufs922 | Tf7700 | Hl101 | Vip2 | HdBox | Hs5101 | Ufs912 | Spark
  | Cuberevo | Adb_Box | Ipbox

text \<open>\<open>strncasecmp(vName, p, n) == 0\<close>, on strings that have ended before if they are shorter.\<close>

definition prefix_nocase :: "string \<Rightarrow> string \<Rightarrow> nat \<Rightarrow> bool" where
  "prefix_nocase s p n \<longleftrightarrow> map lower (take n s) = map lower (take n p)"

text \<open>The first character of \<open>/proc/boxtype\<close>.\<close>

definition getKathreinUfs910BoxType :: "char \<Rightarrow> int" where
  "getKathreinUfs910BoxType vType = (if vType = CHR ''0'' then 0 else if vType = CHR ''1'' \<or> vType = CHR ''3'' then 1 else -1)"

text \<open>What was read from \<open>/proc/stb/info/model\<close>, with the line feed at its end; nothing if that failed.\<close>

definition getModel :: "char \<Rightarrow> string \<Rightarrow> eBoxType" where
  "getModel vType vName =
     (if vName = [] then Unknown
      else
        (let s = butlast vName
         in if prefix_nocase s ''ufs910'' 6 then
              (if getKathreinUfs910BoxType vType = 0 then Ufs910_1W
               else if getKathreinUfs910BoxType vType = 1 then Ufs910_14W else Unknown)
            else if prefix_nocase s ''ufs922'' 6 then Ufs922
            else if prefix_nocase s ''tf7700hdpvr'' 11 then Tf7700
            else if prefix_nocase s ''hl101'' 5 then Hl101
            else if prefix_nocase s ''vip1-v2'' 7 \<or> prefix_nocase s ''vip2-v1'' 7 then Vip2
            else if prefix_nocase s ''hdbox'' 5 \<or> prefix_nocase s ''atevio7500'' 5 \<or> prefix_nocase s ''octagon1008'' 11
              \<or> prefix_nocase s ''hs7810a'' 7 \<or> prefix_nocase s ''hs7110'' 6 \<or> prefix_nocase s ''whitebox'' 8 then HdBox
            else if prefix_nocase s ''hs5101'' 6 then Hs5101
            else if prefix_nocase s ''adb_box'' 7 then Adb_Box
            else if prefix_nocase s ''ipbox9900'' 9 \<or> prefix_nocase s ''ipbox99'' 7 \<or> prefix_nocase s ''ipbox55'' 7 then Ipbox
            else if prefix_nocase s ''ufs912'' 5 then Ufs912
            else if prefix_nocase s ''ufs913'' 5 then Ufs912
            else if prefix_nocase s ''spark'' 5 then Spark
            else if prefix_nocase s ''spark7162'' 9 then Spark
            else if prefix_nocase s ''cuberevo'' 8 \<or> prefix_nocase s ''cuberevo-mini'' 13 \<or> prefix_nocase s ''cuberevo-mini2'' 14
              \<or> prefix_nocase s ''cuberevo-mini-fta'' 17 \<or> prefix_nocase s ''cuberevo-250hd'' 14
              \<or> prefix_nocase s ''cuberevo-2000hd'' 15 \<or> prefix_nocase s ''cuberevo-9500hd'' 15 then Cuberevo
            else Unknown))"

text \<open>The receivers in the order of \<open>AvailableRemoteControls\<close>; \<open>selectRemote\<close> gives the first of the type.\<close>

definition AvailableRemoteControls :: "eBoxType list" where
  "AvailableRemoteControls =
     [Ufs910_1W, Ufs910_14W, Tf7700, Hl101, Vip2, Ufs922, HdBox, Hs5101, Ufs912, Spark, Adb_Box, Cuberevo, Ipbox]"

definition selectRemote :: "eBoxType \<Rightarrow> eBoxType option" where
  "selectRemote type = find (\<lambda>t. t = type) AvailableRemoteControls"

definition supportsLongKeyPress :: "eBoxType \<Rightarrow> bool" where
  "supportsLongKeyPress t \<longleftrightarrow> t \<notin> {Ufs910_14W, Hs5101}"

subsection \<open>Passing keys on\<close>

text \<open>
  \<open>checkTuxTxt\<close>: while \<open>/tmp/block.tmp\<close> exists, keys go to a socket; the second EXIT in a row kills the program behind it.
  \<open>tt_sent\<close> is what has been written to the socket.
\<close>

record tuxtxt =
  tuxtxt_exit_count :: int
  sSockethandle :: int
  tt_sent :: "int list"
  tt_kills :: nat

record tux_env =
  te_blocked :: bool
  te_socket :: int
  te_connect :: bool
  te_home :: int

definition checkTuxTxt :: "tux_env \<Rightarrow> int \<Rightarrow> tuxtxt \<Rightarrow> bool \<times> tuxtxt" where
  "checkTuxTxt env cCode s =
     (if te_blocked env then
        (let s = (if cCode = te_home env then
                    (let n = tuxtxt_exit_count s + 1
                     in if n > 1 then s\<lparr>tuxtxt_exit_count := 0, tt_kills := tt_kills s + 1\<rparr> else s\<lparr>tuxtxt_exit_count := n\<rparr>)
                  else s)
         in if sSockethandle s \<le> 0 then
              (let s = s\<lparr>sSockethandle := te_socket env\<rparr>
               in if sSockethandle s \<le> 0 then (False, s)
                  else if \<not> te_connect env then (False, s\<lparr>sSockethandle := -1\<rparr>)
                  else (True, s\<lparr>tt_sent := tt_sent s @ [cCode]\<rparr>))
            else (True, s\<lparr>tt_sent := tt_sent s @ [cCode]\<rparr>))
      else (False, s\<lparr>tuxtxt_exit_count := 0, sSockethandle := -1\<rparr>))"

text \<open>Input events: pressed or released, and the key.\<close>

type_synonym input_event = "bool \<times> int"

definition sendInputEvent :: "int \<Rightarrow> input_event list \<Rightarrow> input_event list" where
  "sendInputEvent cCode out = out @ [(True, cCode), (False, cCode)]"

text \<open>The loop of \<open>processSimple\<close> over what \<open>Read\<close> returns, with the environment each time.\<close>

fun processSimple :: "(int \<times> tux_env) list \<Rightarrow> tuxtxt \<Rightarrow> input_event list \<Rightarrow> tuxtxt \<times> input_event list" where
  "processSimple [] s out = (s, out)"
| "processSimple ((vCurrentCode, env) # cs) s out =
     (if vCurrentCode \<le> 0 then processSimple cs s out
      else (let (tux, s) = checkTuxTxt env vCurrentCode s
            in processSimple cs s (if tux then out else sendInputEvent vCurrentCode out)))"

subsection \<open>The two threads\<close>

text \<open>
  Where \<open>processComplex\<close> (the reader) and \<open>detectKeyUpTask\<close> (the task) are between two accesses to the variables they share.
  \<open>ev_up\<close> is \<open>keydown_sem_helper\<close>, \<open>ev_sem\<close> the value of the semaphore, \<open>ev_read\<close> and \<open>ev_out\<close> the keys read and sent.
\<close>

datatype reader_pc = R_Read | R_Store int | R_Flag int | R_Inc int | R_Mod int | R_SetFlag int | R_Up | R_Post | R_Helper

datatype task_pc = T_Down | T_Wait | T_Code | T_Next int | T_Press int int | T_Loop int int bool | T_Loop2 int int bool
  | T_Zero int int bool | T_Sleep int int bool | T_Release int int bool | T_End int int

record evremote =
  gKeyCode :: int
  gNextKey :: int
  gNextKeyFlag :: int
  ev_sem :: nat
  ev_up :: bool
  ev_reader :: reader_pc
  ev_task :: task_pc
  ev_read :: "int list"
  ev_out :: "input_event list"

definition ev_start :: evremote where
  "ev_start = \<lparr>gKeyCode = 0, gNextKey = 0, gNextKeyFlag = 0xFF, ev_sem = 0, ev_up = True, ev_reader = R_Read, ev_task = T_Down,
     ev_read = [], ev_out = []\<rparr>"

definition reader_step :: "evremote \<Rightarrow> evremote" where
  "reader_step s =
     (case ev_reader s of
        R_Read \<Rightarrow> s
      | R_Store c \<Rightarrow> s\<lparr>gKeyCode := code_part c, ev_reader := R_Flag (flag_part c)\<rparr>
      | R_Flag f \<Rightarrow> s\<lparr>ev_reader := (if gNextKeyFlag s \<noteq> f then R_Inc f else R_Up)\<rparr>
      | R_Inc f \<Rightarrow> s\<lparr>gNextKey := gNextKey s + 1, ev_reader := R_Mod f\<rparr>
      | R_Mod f \<Rightarrow> s\<lparr>gNextKey := gNextKey s mod 20, ev_reader := R_SetFlag f\<rparr>
      | R_SetFlag f \<Rightarrow> s\<lparr>gNextKeyFlag := f, ev_reader := R_Up\<rparr>
      | R_Up \<Rightarrow> s\<lparr>ev_reader := (if \<not> ev_up s then R_Post else R_Read)\<rparr>
      | R_Post \<Rightarrow> s\<lparr>ev_sem := ev_sem s + 1, ev_reader := R_Helper\<rparr>
      | R_Helper \<Rightarrow> s\<lparr>ev_up := True, ev_reader := R_Read\<rparr>)"

definition reader_read :: "int \<Rightarrow> evremote \<Rightarrow> evremote" where
  "reader_read c s = (if ev_reader s = R_Read \<and> c > 0 then s\<lparr>ev_reader := R_Store c, ev_read := ev_read s @ [c]\<rparr> else s)"

text \<open>A step of the task; \<open>tux\<close> is what \<open>checkTuxTxt\<close> returns.\<close>

definition ev_task_step :: "bool \<Rightarrow> evremote \<Rightarrow> evremote" where
  "ev_task_step tux s =
     (case ev_task s of
        T_Down \<Rightarrow> s\<lparr>ev_up := False, ev_task := T_Wait\<rparr>
      | T_Wait \<Rightarrow> if ev_sem s > 0 then s\<lparr>ev_sem := ev_sem s - 1, ev_task := T_Code\<rparr> else s
      | T_Code \<Rightarrow> s\<lparr>ev_task := T_Next (gKeyCode s)\<rparr>
      | T_Next k \<Rightarrow> s\<lparr>ev_task := T_Press k (gNextKey s)\<rparr>
      | T_Press k n \<Rightarrow> s\<lparr>ev_out := ev_out s @ (if tux then [] else [(True, k)]), ev_task := T_Loop k n tux\<rparr>
      | T_Loop k n x \<Rightarrow> s\<lparr>ev_task := (if gKeyCode s \<noteq> 0 then T_Loop2 k n x else T_Release k n x)\<rparr>
      | T_Loop2 k n x \<Rightarrow> s\<lparr>ev_task := (if n = gNextKey s then T_Zero k n x else T_Release k n x)\<rparr>
      | T_Zero k n x \<Rightarrow> s\<lparr>gKeyCode := 0, ev_task := T_Sleep k n x\<rparr>
      | T_Sleep k n x \<Rightarrow> s\<lparr>ev_task := T_Loop k n x\<rparr>
      | T_Release k n x \<Rightarrow> s\<lparr>ev_out := ev_out s @ (if x then [] else [(False, k)]), ev_task := T_End k n\<rparr>
      | T_End k n \<Rightarrow> s\<lparr>ev_task := (if n = gNextKey s then T_Down else T_Code)\<rparr>)"

text \<open>A schedule: \<open>Read\<close> returns a value, the reader goes on, or the task goes on.\<close>

datatype ev_choice = Key int | Reader | Task bool

definition ev_step :: "ev_choice \<Rightarrow> evremote \<Rightarrow> evremote" where
  "ev_step c s = (case c of Key v \<Rightarrow> reader_read v s | Reader \<Rightarrow> reader_step s | Task tux \<Rightarrow> ev_task_step tux s)"

definition ev_run :: "ev_choice list \<Rightarrow> evremote \<Rightarrow> evremote" where
  "ev_run cs s = fold ev_step cs s"

subsection \<open>What the input layer sees\<close>

text \<open>Presses and releases alternate, each release is of the key that was pressed; the last key may still be down.\<close>

fun paired :: "input_event list \<Rightarrow> bool" where
  "paired [] \<longleftrightarrow> True"
| "paired [(p, k)] \<longleftrightarrow> p"
| "paired ((p, k) # (q, l) # es) \<longleftrightarrow> p \<and> \<not> q \<and> k = l \<and> paired es"

definition key_down :: "input_event list \<Rightarrow> int option" where
  "key_down es = (if es \<noteq> [] \<and> fst (last es) then Some (snd (last es)) else None)"

lemma paired_press: "paired es \<Longrightarrow> key_down es = None \<Longrightarrow> paired (es @ [(True, k)])"
  by (induction es rule: paired.induct) (auto simp: key_down_def split: if_splits)

lemma paired_release: "paired es \<Longrightarrow> key_down es = Some k \<Longrightarrow> paired (es @ [(False, k)])"
  by (induction es rule: paired.induct) (auto simp: key_down_def split: if_splits)

lemma key_down_snoc [simp]: "key_down (es @ [(True, k)]) = Some k" "key_down (es @ [(False, k)]) = None" "key_down [] = None"
  by (simp_all add: key_down_def)

text \<open>The key the task holds down, by where it is, and the key it has taken over.\<close>

fun task_down :: "task_pc \<Rightarrow> int option" where
  "task_down (T_Loop k n x) = (if x then None else Some k)"
| "task_down (T_Loop2 k n x) = (if x then None else Some k)"
| "task_down (T_Zero k n x) = (if x then None else Some k)"
| "task_down (T_Sleep k n x) = (if x then None else Some k)"
| "task_down (T_Release k n x) = (if x then None else Some k)"
| "task_down pc = None"

fun task_key :: "task_pc \<Rightarrow> int option" where
  "task_key (T_Next k) = Some k"
| "task_key (T_Press k n) = Some k"
| "task_key (T_Loop k n x) = Some k"
| "task_key (T_Loop2 k n x) = Some k"
| "task_key (T_Zero k n x) = Some k"
| "task_key (T_Sleep k n x) = Some k"
| "task_key (T_Release k n x) = Some k"
| "task_key pc = None"

text \<open>The keys that may appear: those read, and 0.\<close>

definition known_keys :: "evremote \<Rightarrow> int set" where
  "known_keys s = insert 0 (code_part ` set (ev_read s))"

definition ev_inv :: "evremote \<Rightarrow> bool" where
  "ev_inv s \<longleftrightarrow> paired (ev_out s) \<and> key_down (ev_out s) = task_down (ev_task s) \<and> snd ` set (ev_out s) \<subseteq> known_keys s \<and>
     gKeyCode s \<in> known_keys s \<and> (\<forall>k. task_key (ev_task s) = Some k \<longrightarrow> k \<in> known_keys s) \<and>
     (\<forall>c. ev_reader s = R_Store c \<longrightarrow> c \<in> set (ev_read s))"

lemma ev_inv_start: "ev_inv ev_start"
  by (simp add: ev_inv_def ev_start_def known_keys_def)

lemma ev_inv_read: "ev_inv s \<Longrightarrow> ev_inv (reader_read c s)"
  by (auto simp: ev_inv_def reader_read_def known_keys_def)

lemma ev_inv_reader: "ev_inv s \<Longrightarrow> ev_inv (reader_step s)"
  by (cases "ev_reader s") (auto simp: ev_inv_def reader_step_def known_keys_def)

lemma ev_inv_task: "ev_inv s \<Longrightarrow> ev_inv (ev_task_step tux s)"
  by (cases "ev_task s") (auto simp: ev_inv_def ev_task_step_def known_keys_def paired_press paired_release)

lemma ev_inv_step: "ev_inv s \<Longrightarrow> ev_inv (ev_step c s)"
  by (cases c) (simp_all add: ev_step_def ev_inv_read ev_inv_reader ev_inv_task)

lemma ev_inv_run: "ev_inv s \<Longrightarrow> ev_inv (ev_run cs s)"
  by (induction cs arbitrary: s) (simp_all add: ev_run_def ev_inv_step)

subsection \<open>The semaphore\<close>

text \<open>The state in which the semaphore has been lost.\<close>

definition ev_stuck :: "evremote \<Rightarrow> bool" where
  "ev_stuck s \<longleftrightarrow> ev_task s = T_Wait \<and> ev_sem s = 0 \<and> ev_up s \<and> ev_reader s \<noteq> R_Post \<and> ev_reader s \<noteq> R_Helper"

lemma ev_stuck_step: "ev_stuck s \<Longrightarrow> ev_stuck (ev_step c s) \<and> ev_out (ev_step c s) = ev_out s"
proof (cases c)
  case Reader
  assume "ev_stuck s"
  with Reader show ?thesis by (cases "ev_reader s") (auto simp: ev_stuck_def ev_step_def reader_step_def)
qed (auto simp: ev_stuck_def ev_step_def reader_read_def ev_task_step_def)

lemma ev_stuck_run: "ev_stuck s \<Longrightarrow> ev_out (ev_run cs s) = ev_out s"
  by (induction cs arbitrary: s) (simp_all add: ev_run_def ev_stuck_step)

subsection \<open>Properties\<close>

text \<open>
  Claim C31. However the two threads are interleaved, the input layer sees each key pressed and then released before the next
  one: presses and releases alternate, a release names the key that was pressed, and no key appears that was not read from
  the receiver, except key 0.
\<close>

theorem ev_events_paired:
  "paired (ev_out (ev_run cs ev_start)) \<and>
   snd ` set (ev_out (ev_run cs ev_start)) \<subseteq> insert 0 (code_part ` set (ev_read (ev_run cs ev_start)))"
  using ev_inv_run [OF ev_inv_start, of cs] by (simp add: ev_inv_def known_keys_def)

text \<open>
  Claim C33. The check and the setting of the helper in \<open>sem_up\<close> can be interrupted, and then the remote control can die: there is a schedule with a
  single key after which no key is ever passed on again, whatever is read and however the threads are scheduled.
\<close>

theorem ev_wakeup_lost:
  "\<exists>cs. ev_read (ev_run cs ev_start) = [0x5018e] \<and>
    (\<forall>ds. ev_out (ev_run ds (ev_run cs ev_start)) = [(True, 0x18e), (False, 0x18e)])"
proof -
  let ?cs = "Task False # Key 0x5018e # replicate 7 Reader @ replicate 12 (Task False) @ [Reader]"
  have "ev_stuck (ev_run ?cs ev_start)" "ev_read (ev_run ?cs ev_start) = [0x5018e]"
    "ev_out (ev_run ?cs ev_start) = [(True, 0x18e), (False, 0x18e)]"
    by (simp_all add: ev_run_def numeral_eq_Suc ev_step_def reader_read_def reader_step_def ev_task_step_def ev_start_def
        code_part_def flag_part_def ev_stuck_def)
  then show ?thesis using ev_stuck_run [of "ev_run ?cs ev_start"] by (intro exI [of _ ?cs]) simp
qed

text \<open>
  A key can be lost although its reader was never interrupted inside \<open>sem_up\<close>: the task clears \<open>gKeyCode\<close> after the
  reader has stored the next key there, and then passes on key 0 instead of that key.
\<close>

theorem ev_key_overwritten:
  "\<exists>cs. let s = ev_run cs ev_start
    in ev_read s = [0x5018e, 0x60067] \<and> ev_reader s = R_Read \<and> ev_task s = T_Wait \<and>
       ev_out s = [(True, 0x18e), (False, 0x18e), (True, 0), (False, 0)]"
proof -
  let ?cs = "Task False # Key 0x5018e # replicate 8 Reader @ replicate 6 (Task False) @ [Key 0x60067, Reader, Task False]
    @ replicate 5 Reader @ replicate 11 (Task False)"
  have "let s = ev_run ?cs ev_start
    in ev_read s = [0x5018e, 0x60067] \<and> ev_reader s = R_Read \<and> ev_task s = T_Wait \<and>
       ev_out s = [(True, 0x18e), (False, 0x18e), (True, 0), (False, 0)]"
    by (simp add: ev_run_def numeral_eq_Suc ev_step_def reader_read_def reader_step_def ev_task_step_def ev_start_def
        code_part_def flag_part_def Let_def)
  then show ?thesis by blast
qed

text \<open>
  Claim C35. The receivers behind lircd (HL101, Ipbox, Vip2, Adb_Box and Spark, whose functions \<open>pRead\<close> are \<open>lirc_read\<close> on their tables)
  number the key presses in the upper half of the value, without bound: the lower half is always the key's number and the upper
  half the count of presses modulo \<open>2^16\<close>, so that as long as that is below \<open>0x8000\<close> the value is positive and \<open>processComplex\<close> takes
  it over, but for the other half of all counts, from press 32768 on, it is negative, and the loop takes it for an error
  and passes over it. Repetitions of a key keep the number of its press and share its fate.
\<close>

theorem lirc_presses_run_out:
  assumes "key_codes kc" "getInternalCode t (vBuffer ! 14) (vBuffer ! 15) = Some (Some k)" "- (2 ^ 31) \<le> n" "n < 2 ^ 31 - 1"
  shows "let m = (if vBuffer ! 17 = CHR ''0'' \<and> vBuffer ! 18 = CHR ''0'' then n + 1 else n)
    in \<exists>c. lirc_read kc t vBuffer n = Some (c, m) \<and> code_part c = kc k \<and> flag_part c = m mod 0x10000 \<and>
      (if m mod 0x10000 < 0x8000
       then \<forall>s. ev_reader s = R_Read \<longrightarrow> reader_read c s = s\<lparr>ev_reader := R_Store c, ev_read := ev_read s @ [c]\<rparr>
       else \<forall>s. reader_read c s = s)"
proof -
  note kc = key_codesD [OF assms(1), of k]
  let ?m = "if vBuffer ! 17 = CHR ''0'' \<and> vBuffer ! 18 = CHR ''0'' then n + 1 else n"
  have "c_int (n + 1) = n + 1" using assms(3,4) by (simp add: c_int_id)
  then have r: "lirc_read kc t vBuffer n = Some (add_flag (kc k) ?m, ?m)"
    using assms(2) kc(3) by (simp add: lirc_read_def key_value_def Let_def)
  note parts = parts_add_flag_signed [of "kc k" ?m]
  have "add_flag (kc k) ?m \<noteq> 0" using parts(1) kc by (auto simp: code_part_def)
  with r parts kc show ?thesis by (auto simp: Let_def reader_read_def)
qed

theorem lirc_presses_run_out_witness:
  "\<exists>c. Hl101_pRead example_kc ''0000000000c26cf7 00 K R'' 32767 = Some (c, 32768) \<and> (\<forall>s. reader_read c s = s)"
proof -
  have k: "getInternalCode cButtonsSpideroxHL101 (''0000000000c26cf7 00 K R'' ! 14) (''0000000000c26cf7 00 K R'' ! 15) = Some (Some ''KEY_POWER'')"
    by code_simp
  from lirc_presses_run_out [OF example_kc_codes k, of 32767] show ?thesis by (auto simp: Hl101_pRead_def Let_def)
qed

text \<open>The models and their receivers.\<close>

lemma model_names:
  "map (\<lambda>n. getModel CHR ''1'' (n @ [CHR 0x0A]))
     [''ufs910'', ''ufs922'', ''UFS912'', ''ufs913'', ''spark'', ''spark7162'', ''hl101'', ''cuberevo-mini2'', ''ipbox55'', ''atevio7500''] =
   [Ufs910_14W, Ufs922, Ufs912, Ufs912, Spark, Spark, Hl101, Cuberevo, Ipbox, HdBox]"
  by code_simp

lemma selectRemote_known: "selectRemote t = (if t = Unknown then None else Some t)"
  by (cases t) (simp_all add: selectRemote_def AvailableRemoteControls_def)

lemma processSimple_paired: "paired out \<Longrightarrow> key_down out = None \<Longrightarrow> paired (snd (processSimple cs s out)) \<and> key_down (snd (processSimple cs s out)) = None"
proof (induction cs s out rule: processSimple.induct)
  case (2 c env cs s out)
  have "paired (sendInputEvent c out)" "key_down (sendInputEvent c out) = None"
    using paired_press [OF 2(3,4)] paired_release [of "out @ [(True, c)]" c] by (simp_all add: sendInputEvent_def key_down_def)
  with 2 show ?case by (auto split: prod.splits)
qed simp

end
