(* ===== verification/Spec2Isabelle.thy ===== *)
theory Spec2Isabelle
  imports Writer_Audio Writer_Pcm Writer_Video Writer_H264 Track_Managers Avs_Ak4705 Avs_Stv6412 Avs_Cxa2161 Smartcard_Atr Bpamem Cec_Dev
    Host_Image Playback_Control Micom Subtitle_Text Subtitle_Tracks Lnb Evremote
begin

text \<open>
  A verification library for the software of the Duckbox set-top boxes (\<open>local_src/\<close> of the repository). The programs of the
  repository that carry logic of their own are modelled as functions over explicit state, and the theorems below say what
  they compute.

  \<^bold>\<open>Parts and how they interact.\<close>

  \<^item> The media player \<open>libs/libeplayer3\<close>. An application gives commands to the playback handler
    (\<open>playback/playback.c\<close>), which passes them to the output handler (\<open>output/output.c\<close>), to the selected container and to the
    track managers (\<open>manager/\<close>). A container fills the managers with tracks and hands frames to the decoder output
    (\<open>output/linuxdvb.c\<close>), which looks up the writer for the encoding of the track (\<open>output/writer/writer.c\<close>); the writer wraps
    the frame in PES packets (\<open>output/writer/pes.c\<close>, with the bit packer of \<open>misc.c\<close>) and writes them to the decoder device.
    A supervisor thread ends playback when the container has delivered everything. Subtitle files beside a film are found, offered as
    tracks and read by \<open>container/text_srt.c\<close> and \<open>container/text_ssa.c\<close>.

  \<^item> The kernel drivers \<open>driver/avs\<close> (audio/video switches behind an I2C bus), \<open>driver/smartcard\<close> (answer to reset of smart cards),
    \<open>driver/bpamem\<close> (memory blocks for user programs) and \<open>driver/cec\<close> (the CEC bus of HDMI: an interrupt handler and a worker around a
    transmit queue, address negotiation, remote control keys, a character device and proc files), \<open>driver/frontcontroller/micom\<close> (the
    front panel behind a serial line: rings, packets, display and clock) and \<open>driver/frontends/lnb\<close> (the supply of the dish).

  \<^item> The program \<open>tools/evremote2\<close>, which reads the key packets of the front panel drivers or of lircd, looks the keys up and hands
    presses and releases to the input layer.

  \<^item> The host tool \<open>host/fup.src\<close>, which builds, checks and unpacks firmware images.

  \<^bold>\<open>Theories.\<close>

  \<^item> \<open>Prelude\<close>: machine integers, C shifts, byte sequences, error numbers, shared lemmas.
  \<^item> \<open>Bit_Packer\<close>, \<open>Pes\<close>: \<open>PutBits\<close>, \<open>FlushBits\<close> and the header functions of \<open>pes.c\<close>, with a bit reader and a PES reader
    (\<open>parse_pes\<close>) as specification. Packed fields read back, headers parse to what was asked for and fit their buffers.
  \<^item> \<open>Writer_Base\<close>, \<open>Writer_Audio\<close>, \<open>Writer_Pcm\<close>, \<open>Writer_Video\<close>, \<open>Writer_H264\<close>, \<open>Writer_Framebuffer\<close>: every writer of
    \<open>output/writer/\<close>. The locale \<open>pes_writer\<close> is the contract of a writer that wraps one access unit in one packet. The
    theorems say that what reaches the device decodes to what was given (of the PCM writer, what becomes of every byte), that loops end, and that the frame buffer writer stays
    in its rectangle.
  \<^item> \<open>Writer_Registry\<close>: \<open>writer.c\<close> and the writer tables; \<open>Track_Managers\<close>: the three managers, refined to a list
    of tracks (locale \<open>track_manager\<close>).
  \<^item> \<open>Linuxdvb\<close>, \<open>Output_Handler\<close>, \<open>Playback\<close>: the decoder output, the output and container handlers, the playback handler and its
    supervisor. \<open>Playback_Invariant\<close> defines the reachable states (\<open>player_reach\<close>) and proves the invariant, by the locale
    \<open>playback_operation\<close> that is interpreted for every operation; \<open>Playback_Returns\<close> shows which commands return: all but two,
    which follow a NULL pointer or read behind a string while nothing plays;
    \<open>Playback_Control\<close> holds the properties: the requests each command makes, when it is refused, how playback ends, and the way of a frame
    from the container to the device.
  \<^item> \<open>Avs_Base\<close>, \<open>Avs_Ak4705\<close>, \<open>Avs_Stv6412\<close>, \<open>Avs_Cxa2161\<close>: the switches. What is on the bus is the register copy, the audio path of the
    STV6412 refines source and mute down to the bus, and this theory shows for several chips at once that the volume reads back and that
    standby restores the registers.
  \<^item> \<open>Smartcard_Atr\<close>: \<open>atr.c\<close>. An accepted answer to reset is bounded and keeps its bytes; overlong ones are shown to overrun.
  \<^item> \<open>Bpamem\<close>: \<open>bpamem.c\<close>. Blocks are never shared, lost or freed twice, unless one of three
    requests is made that do break this.
  \<^item> \<open>Cec\<close>, \<open>Cec_Protocol\<close>, \<open>Cec_Dev\<close>: the CEC driver. A message given to the queue goes out byte by byte as it
    was given, the queue stays well formed, addresses are negotiated, and user calls stay inside their buffers.
  \<^item> \<open>Micom_Serial\<close>, \<open>Micom_Transport\<close>, \<open>Micom\<close>: the micom front panel. Its rings implement queues (locale \<open>byte_ring\<close>), bytes leave in the
    order they were written and packets take effect once each and in order under every interleaving with the interrupt, a query
    gets the answer to its command, and text reaches the display character by character.
  \<^item> \<open>Lnb\<close>: the supply of the dish. What the dish gets follows every request, from any state of the hardware (locale \<open>lnb_chip\<close>); loading starts the
    chip or the pins, or leaves nothing behind.
  \<^item> \<open>Subtitle_Text\<close>, \<open>Subtitle_Tracks\<close>: the readers of subtitle files, which give the subtitles of a file back, and the choice of a file
    from the player's command down to the file that is opened.
  \<^item> \<open>Evremote_Keys\<close>, \<open>Evremote_Remotes\<close>, \<open>Evremote\<close>: the key tables and receivers of \<open>evremote2\<close> and its two threads. Every button but two is
    found, a packet reads back as its key, presses and releases are paired under every interleaving; and schedules are given in which a wake-up or a
    key is lost.
  \<^item> \<open>Host_Crc16\<close>, \<open>Host_Fup\<close>, \<open>Host_Image\<close>: \<open>crc16.c\<close> and \<open>fup.c\<close>. The table driven CRC is polynomial division, an image that was packed
    unpacks to the same parts, and changed bytes are noticed.

  \<^bold>\<open>Conventions.\<close> Structures are records, enumerations datatypes, machine integers words of their width (an \<open>int\<close> that cannot overflow
  is an \<open>int\<close>). A C function that can fail in a way C leaves undefined, or that may not return, gives an option, where \<open>None\<close> is that failure: an
  access outside a buffer, a NULL pointer, a division by zero, a mutex locked twice by its owner. An equation with \<open>Some\<close>
  therefore excludes all of these. Return codes and error numbers are values of the result. System calls and registers are logs of what was done.

  \<^bold>\<open>Parameters.\<close> What is outside the repository is an argument: the device written to, uninitialised memory, the frame rate
  as a number, whether memory is available, the I2C client, the build options, the BPA2 allocator, the CEC controller, zlib and \<open>crc32\<close> with the
  dummy partition of \<open>fup\<close>, the serial controller of the front panel, the numbers of the input keys, rounding to \<open>double\<close>, directories, and for the player (\<open>player_env\<close>) the decoder devices, the containers, the subtitle output and the
  creation of threads. What is relied on of them are hypotheses with names: \<open>env_ok\<close> (containers change playback only through commands of the player, use the
  managers through their commands and leave the mutex as it was), \<open>env_returns\<close>, the round trip of zlib, and the like; each is met by a concrete
  environment in a witness.

  \<^bold>\<open>Loops.\<close> Loops are recursive functions with a termination proof. The loops that may run forever (the packet loop of the PCM
  writer, the reading loops of \<open>fup\<close>) are partial functions with value \<open>None\<close>, and the theorems about them prove that they return. The
  supervisor is a step function, and 200 rounds are enough because that is the count the code itself gives up at.

  \<^bold>\<open>Concurrency.\<close> Interrupt handlers, worker rounds, commands and supervisor rounds run one at a time and are interleaved
  in any order; what happens when two of them overlap inside a step is not modelled (a key packet of the
  micom, for example, becomes visible to readers in one step). The exceptions are the transmit ring of the
  micom, where the interrupt may come between any two accesses, and the threads of \<open>evremote2\<close>, which are interleaved access by access.

  \<^bold>\<open>Not modelled.\<close> Debug output and the freeing of memory (except where it is the point); floating point (frame durations and seek
  positions are numbers as they are); the ffmpeg and ASS containers and the subtitle output, which work on data of ffmpeg and libass; the switches
  STV6417 and STV6418 and the module that picks a chip; the serial interface of the smart card driver, which is register timing; the other front panel
  controllers, tuners, common interface and CPU clock drivers; the vendor's stream player, frame buffer and wireless drivers; GStreamer, JPEG and OpenGL
  glue; the command line tools other than \<open>fup\<close> and \<open>evremote2\<close>, and code in C++ or Python.

  \<^bold>\<open>Plan.\<close> Next would be the remaining switches with \<open>avs_core.c\<close>, the serial protocols of the other front panel drivers and the clock
  calculations of \<open>cpu_frequ\<close>.
\<close>

subsection \<open>The audio/video switches together\<close>

text \<open>
  Volume of the audio/video switches: set through the kernel interface of the AK4705, the
  CXA2161 or the STV6412 (on the platforms that use its volume), a volume from 0 to 63 is read back
  rounded down to the resolution of the chip; any other volume is refused and changes nothing.
\<close>

theorem avs_volume_readback:
  "volume_readback ak4705_request 1 \<and> volume_readback cxa2161_request 2 \<and>
   (\<not> stv6412_constant_image cfg \<and> \<not> ADB_BOX cfg \<longrightarrow> volume_readback (stv6412_request cfg) 2)"
  using ak4705.readback [OF TrueI] cxa2161.readback [OF TrueI] stv6412.readback [of cfg] by blast

theorem avs_volume_readback_witness:
  "\<exists>rc st' w. stv6412_request plain_build good_client (stv6412_static, []) (Kernel AVSIOSVOL 41) = Some (rc, None, st') \<and>
     stv6412_request plain_build good_client st' (Kernel AVSIOGVOL 0) = Some (0, Some w, st') \<and> w \<in> {40, 41}"
proof -
  have "volume_readback (stv6412_request plain_build) 2"
    using avs_volume_readback [of plain_build] by (simp add: plain_build_def stv6412_constant_image_def)
  then obtain rc st' w where
      "stv6412_request plain_build good_client (stv6412_static, []) (Kernel AVSIOSVOL 41) = Some (rc, None, st')"
      "stv6412_request plain_build good_client st' (Kernel AVSIOGVOL 0) = Some (0, Some w, st')" "w \<le> 41" "41 < w + 2"
    unfolding volume_readback_def
    by (elim allE [of _ good_client] allE [of _ "(stv6412_static, [])"] allE [of _ 41] allE [of _ 0]) auto
  then show ?thesis by (intro exI [of _ rc] exI [of _ st'] exI [of _ w]) auto
qed

text \<open>
  Standby of the AK4705 and the STV6412: whatever is requested between entering and leaving
  standby, the registers come back exactly as they were.
\<close>

theorem avs_standby_restores:
  "standby_restores ak4705_request (\<lambda>r. True) (\<lambda>s. R00STBY (ak4705_data s) = 0) ak4705_data \<and>
   (\<not> stv6412_constant_image cfg \<longrightarrow>
      standby_restores (stv6412_request cfg) (stv6412_defined cfg) (\<lambda>s. t_stnby s = 0) stv6412_data)"
proof -
  have "standby_restores (stv6412_request cfg) (stv6412_defined cfg) (\<lambda>s. t_stnby s = 0) stv6412_data"
    if "\<not> stv6412_constant_image cfg"
    using stv6412.restores [of cfg] that
    by (simp add: stv6412_defined_def avs_cmd_defs stv6412_standby_wf_def standby_restores_def)
  moreover have "standby_restores ak4705_request (\<lambda>r. True) (\<lambda>s. R00STBY (ak4705_data s) = 0) ak4705_data"
    using ak4705.restores by (simp add: standby_restores_def)
  ultimately show ?thesis by blast
qed

theorem avs_standby_restores_witness:
  "\<exists>rc1 out1 st1 res st2 rc3 out3 st3.
     stv6412_request plain_build good_client (stv6412_static, []) (Kernel AVSIOSTANDBY 1) = Some (rc1, out1, st1) \<and>
     run_requests (stv6412_request plain_build good_client) st1 [Kernel AVSIOSVOL 10] = Some (res, st2) \<and>
     stv6412_request plain_build good_client st2 (Kernel AVSIOSTANDBY 0) = Some (rc3, out3, st3) \<and>
     stv6412_data (fst st3) = stv6412_zero"
proof -
  have "standby_restores (stv6412_request plain_build) (stv6412_defined plain_build) (\<lambda>s. t_stnby s = 0) stv6412_data"
    using avs_standby_restores [of plain_build] by (simp add: plain_build_def stv6412_constant_image_def)
  from this [unfolded standby_restores_def, rule_format, of "(stv6412_static, [])" "[Kernel AVSIOSVOL 10]" good_client]
  show ?thesis
    by (simp add: stv6412_static_def stv6412_defined_def plain_build_def stv6412_constant_image_def is_standby_def
        avs_cmd_defs del: run_requests.simps)
qed

end
